(* ===== verification/Prelude.thy ===== *)
theory Prelude
  imports Main "HOL-Library.Sublist"
begin

text \<open>
  Shared vocabulary of the development of the citrate-comms web tier (\<^verbatim>\<open>src/webapp/src\<close>).

  \<^item> Strings. A JavaScript string is modelled by its UTF-8 bytes (\<^typ>\<open>string\<close>, one \<^typ>\<open>char\<close> per
    byte), so \<^verbatim>\<open>Buffer.from(s, "utf8")\<close> is the identity and \<^verbatim>\<open>length\<close> counts bytes. Case folding and
    trimming are those of the ASCII range.
  \<^item> Effects. An operation on the database is a function of type \<open>('s, 'a) act\<close>: it returns either
    an error or a value, \<^emph>\<open>and\<close> the state it leaves behind. The state survives an exception, as it
    does in the program, whose statements commit one by one; only \<open>act_transaction\<close> rolls back.
  \<^item> Tables. A table is a list of rows in insertion order; the operations below are the fragment of
    the query builder that the repositories use.
  \<^item> Interfaces. The locales at the end are the contracts several components share.
\<close>

named_theorems act_defs \<open>definitions of the effect combinators\<close>
named_theorems frame_intros \<open>rules for what an operation leaves unchanged\<close>
named_theorems inv_intros \<open>rules for the invariants an operation keeps\<close>

type_synonym uuid = string
type_synonym ms = int

subsection \<open>Errors and effects\<close>

datatype err =
    GuardError nat string
  | DbError string
  | JsError string
  | BlockedUrlError string
  | AbortError

type_synonym ('s, 'a) act = "'s \<Rightarrow> (err + 'a) \<times> 's"

definition act_return :: "'a \<Rightarrow> ('s, 'a) act" where
  [act_defs]: "act_return x s = (Inr x, s)"

definition act_throw :: "err \<Rightarrow> ('s, 'a) act" where
  [act_defs]: "act_throw e s = (Inl e, s)"

definition act_bind :: "('s, 'a) act \<Rightarrow> ('a \<Rightarrow> ('s, 'b) act) \<Rightarrow> ('s, 'b) act" where
  [act_defs]: "act_bind m k s =
     (case m s of (Inl e, s') \<Rightarrow> (Inl e, s') | (Inr x, s') \<Rightarrow> k x s')"

definition act_get :: "('s \<Rightarrow> 'a) \<Rightarrow> ('s, 'a) act" where
  [act_defs]: "act_get f s = (Inr (f s), s)"

definition act_lift :: "err + 'a \<Rightarrow> ('s, 'a) act" where
  [act_defs]: "act_lift r s = (r, s)"

definition act_try :: "('s, 'a) act \<Rightarrow> (err \<Rightarrow> ('s, 'a) act) \<Rightarrow> ('s, 'a) act" where
  [act_defs]: "act_try m h s = (case m s of (Inl e, s') \<Rightarrow> h e s' | (Inr x, s') \<Rightarrow> (Inr x, s'))"

definition act_transaction :: "('s, 'a) act \<Rightarrow> ('s, 'a) act" where
  [act_defs]: "act_transaction m s = (case m s of (Inl e, s') \<Rightarrow> (Inl e, s) | (Inr x, s') \<Rightarrow> (Inr x, s'))"

primrec act_for :: "'a list \<Rightarrow> ('a \<Rightarrow> ('s, unit) act) \<Rightarrow> ('s, unit) act" where
  "act_for [] body = act_return ()"
| "act_for (x # xs) body = act_bind (body x) (\<lambda>_. act_for xs body)"

lemma act_bind_return [simp]: "act_bind (act_return x) k = k x"
  by (rule ext) (simp add: act_defs)

lemma act_bind_throw [simp]: "act_bind (act_throw e) k = act_throw e"
  by (rule ext) (simp add: act_defs)

lemma act_bind_assoc: "act_bind (act_bind m k) h = act_bind m (\<lambda>x. act_bind (k x) h)"
  by (rule ext) (simp add: act_defs split: prod.splits sum.splits)

lemma act_bind_Inr: "m s = (Inr x, t) \<Longrightarrow> act_bind m k s = k x t"
  by (simp add: act_defs)

lemma act_bind_Inl: "m s = (Inl e, t) \<Longrightarrow> act_bind m k s = (Inl e, t)"
  by (simp add: act_defs)

lemma act_bind_InrE:
  assumes "act_bind m k s = (Inr y, t)"
  obtains x u where "m s = (Inr x, u)" "k x u = (Inr y, t)"
  using assms by (auto simp: act_bind_def split: prod.splits sum.splits)

lemma act_transaction_InrE:
  assumes "act_transaction m s = (Inr x, t)"
  obtains "m s = (Inr x, t)"
  using assms by (auto simp: act_transaction_def split: prod.splits sum.splits)

lemma act_return_run: "act_return x s = (Inr x, s)"
  by (simp add: act_defs)

lemma act_bind_get [simp]: "act_bind (act_get f) k s = k (f s) s"
  by (simp add: act_defs)

lemma act_bind_lift_Inr [simp]: "act_bind (act_lift (Inr x)) k = k x"
  by (rule ext) (simp add: act_defs)

lemma act_bind_lift_Inl [simp]: "act_bind (act_lift (Inl e)) k = act_throw e"
  by (rule ext) (simp add: act_defs)

text \<open>What an operation leaves unchanged (\<open>frames f m\<close>: the view \<open>f\<close> of the state is the same after
  \<open>m\<close>, whether it returns or raises) and the invariants it keeps (\<open>preserves\<close>).\<close>

definition frames :: "('s \<Rightarrow> 'v) \<Rightarrow> ('s, 'a) act \<Rightarrow> bool" where
  "frames f m \<longleftrightarrow> (\<forall>s. f (snd (m s)) = f s)"

definition preserves :: "('s \<Rightarrow> bool) \<Rightarrow> ('s, 'a) act \<Rightarrow> bool" where
  "preserves P m \<longleftrightarrow> (\<forall>s. P s \<longrightarrow> P (snd (m s)))"

lemma framesD: "frames f m \<Longrightarrow> m s = (r, s') \<Longrightarrow> f s' = f s"
  by (auto simp: frames_def dest: spec [of _ s])

lemma preservesD: "preserves P m \<Longrightarrow> m s = (r, s') \<Longrightarrow> P s \<Longrightarrow> P s'"
  by (auto simp: preserves_def dest: spec [of _ s])

lemma preserves_snd: "preserves P m \<Longrightarrow> P s \<Longrightarrow> P (snd (m s))"
  by (simp add: preserves_def)

lemma frames_snd: "frames f m \<Longrightarrow> f (snd (m s)) = f s"
  by (simp add: frames_def)

lemma frames_return [frame_intros]: "frames f (act_return x)"
  by (simp add: frames_def act_defs)

lemma frames_throw [frame_intros]: "frames f (act_throw e)"
  by (simp add: frames_def act_defs)

lemma frames_get [frame_intros]: "frames f (act_get g)"
  by (simp add: frames_def act_defs)

lemma frames_lift [frame_intros]: "frames f (act_lift r)"
  by (simp add: frames_def act_defs)

lemma frames_bind [frame_intros]:
  assumes "frames f m" and "\<And>x. frames f (k x)"
  shows "frames f (act_bind m k)"
  using assms by (auto simp: frames_def act_defs split: prod.splits sum.splits) (metis snd_conv)+

lemma frames_try [frame_intros]:
  assumes "frames f m" and "\<And>e. frames f (h e)"
  shows "frames f (act_try m h)"
  using assms by (auto simp: frames_def act_defs split: prod.splits sum.splits) (metis snd_conv)+

lemma frames_transaction [frame_intros]: "frames f m \<Longrightarrow> frames f (act_transaction m)"
  by (auto simp: frames_def act_defs split: prod.splits sum.splits) (metis snd_conv)+

lemma frames_for [frame_intros]: "(\<And>x. frames f (body x)) \<Longrightarrow> frames f (act_for xs body)"
  by (induction xs) (auto intro: frame_intros)

lemma frames_if [frame_intros]:
  "(b \<Longrightarrow> frames f m) \<Longrightarrow> (\<not> b \<Longrightarrow> frames f n) \<Longrightarrow> frames f (if b then m else n)"
  by simp

lemma frames_option [frame_intros]:
  "(x = None \<Longrightarrow> frames f m) \<Longrightarrow> (\<And>y. x = Some y \<Longrightarrow> frames f (n y)) \<Longrightarrow>
   frames f (case x of None \<Rightarrow> m | Some y \<Rightarrow> n y)"
  by (cases x) auto

lemma frames_sum [frame_intros]:
  "(\<And>y. x = Inl y \<Longrightarrow> frames f (m y)) \<Longrightarrow> (\<And>y. x = Inr y \<Longrightarrow> frames f (n y)) \<Longrightarrow>
   frames f (case x of Inl y \<Rightarrow> m y | Inr y \<Rightarrow> n y)"
  by (cases x) auto

lemma preserves_return [inv_intros]: "preserves P (act_return x)"
  by (simp add: preserves_def act_defs)

lemma preserves_throw [inv_intros]: "preserves P (act_throw e)"
  by (simp add: preserves_def act_defs)

lemma preserves_get [inv_intros]: "preserves P (act_get g)"
  by (simp add: preserves_def act_defs)

lemma preserves_lift [inv_intros]: "preserves P (act_lift r)"
  by (simp add: preserves_def act_defs)

lemma preserves_bind [inv_intros]:
  assumes "preserves P m" and "\<And>x. preserves P (k x)"
  shows "preserves P (act_bind m k)"
  using assms by (fastforce simp: preserves_def act_defs split: prod.splits sum.splits)

lemma preserves_try [inv_intros]:
  assumes "preserves P m" and "\<And>e. preserves P (h e)"
  shows "preserves P (act_try m h)"
  using assms by (fastforce simp: preserves_def act_defs split: prod.splits sum.splits)

lemma preserves_transaction [inv_intros]: "preserves P m \<Longrightarrow> preserves P (act_transaction m)"
  by (fastforce simp: preserves_def act_defs split: prod.splits sum.splits)

lemma preserves_for [inv_intros]: "(\<And>x. preserves P (body x)) \<Longrightarrow> preserves P (act_for xs body)"
  by (induction xs) (auto intro: inv_intros)

lemma preserves_if [inv_intros]:
  "(b \<Longrightarrow> preserves P m) \<Longrightarrow> (\<not> b \<Longrightarrow> preserves P n) \<Longrightarrow> preserves P (if b then m else n)"
  by simp

lemma preserves_option [inv_intros]:
  "(x = None \<Longrightarrow> preserves P m) \<Longrightarrow> (\<And>y. x = Some y \<Longrightarrow> preserves P (n y)) \<Longrightarrow>
   preserves P (case x of None \<Rightarrow> m | Some y \<Rightarrow> n y)"
  by (cases x) auto

lemma preserves_sum [inv_intros]:
  "(\<And>y. x = Inl y \<Longrightarrow> preserves P (m y)) \<Longrightarrow> (\<And>y. x = Inr y \<Longrightarrow> preserves P (n y)) \<Longrightarrow>
   preserves P (case x of Inl y \<Rightarrow> m y | Inr y \<Rightarrow> n y)"
  by (cases x) auto

lemma frames_preserves: "frames f m \<Longrightarrow> preserves (\<lambda>s. f s = v) m"
  by (simp add: frames_def preserves_def)

subsection \<open>Tables\<close>

text \<open>\<open>first_where\<close> is a \<^verbatim>\<open>select ... where ... limit 1\<close>, \<open>rows_where\<close> a \<^verbatim>\<open>select ... where\<close>, \<open>upd_where\<close> an
  \<^verbatim>\<open>update ... set ... where\<close>. \<open>tbl_insert ok upd r\<close> inserts \<open>r\<close> through the record update \<open>upd\<close> when
  the table's constraints \<open>ok\<close> hold in the current state and raises otherwise.\<close>

definition first_where :: "('r \<Rightarrow> bool) \<Rightarrow> 'r list \<Rightarrow> 'r option" where
  "first_where P rs = List.find P rs"

definition rows_where :: "('r \<Rightarrow> bool) \<Rightarrow> 'r list \<Rightarrow> 'r list" where
  "rows_where P rs = filter P rs"

definition upd_where :: "('r \<Rightarrow> bool) \<Rightarrow> ('r \<Rightarrow> 'r) \<Rightarrow> 'r list \<Rightarrow> 'r list" where
  "upd_where P f rs = map (\<lambda>r. if P r then f r else r) rs"

definition tbl_insert ::
    "('s \<Rightarrow> bool) \<Rightarrow> (('r list \<Rightarrow> 'r list) \<Rightarrow> 's \<Rightarrow> 's) \<Rightarrow> 'r \<Rightarrow> ('s, 'r) act" where
  "tbl_insert ok upd r s =
     (if ok s then (Inr r, upd (\<lambda>rs. rs @ [r]) s) else (Inl (DbError ''constraint violation''), s))"

definition tbl_update ::
    "(('r list \<Rightarrow> 'r list) \<Rightarrow> 's \<Rightarrow> 's) \<Rightarrow> ('r \<Rightarrow> bool) \<Rightarrow> ('r \<Rightarrow> 'r) \<Rightarrow> ('s, unit) act" where
  "tbl_update upd P f s = (Inr (), upd (upd_where P f) s)"

definition tbl_delete ::
    "(('r list \<Rightarrow> 'r list) \<Rightarrow> 's \<Rightarrow> 's) \<Rightarrow> ('r \<Rightarrow> bool) \<Rightarrow> ('s, unit) act" where
  "tbl_delete upd P s = (Inr (), upd (filter (\<lambda>r. \<not> P r)) s)"

lemma act_bind_tbl_update [simp]: "act_bind (tbl_update upd P f) k s = k () (upd (upd_where P f) s)"
  by (simp add: act_bind_def tbl_update_def)

lemma first_where_Nil [simp]: "first_where P [] = None"
  by (simp add: first_where_def)

lemma first_where_Cons [simp]: "first_where P (r # rs) = (if P r then Some r else first_where P rs)"
  by (simp add: first_where_def)

lemma first_where_SomeD: "first_where P rs = Some r \<Longrightarrow> r \<in> set rs \<and> P r"
  by (induction rs) (auto split: if_splits)

lemma first_where_None_iff: "first_where P rs = None \<longleftrightarrow> (\<forall>r\<in>set rs. \<not> P r)"
  by (induction rs) auto

lemma first_where_append:
  "first_where P (xs @ ys) = (case first_where P xs of Some r \<Rightarrow> Some r | None \<Rightarrow> first_where P ys)"
  by (induction xs) auto

lemma first_where_cong:
  "(\<And>r. r \<in> set rs \<Longrightarrow> P r = Q r) \<Longrightarrow> first_where P rs = first_where Q rs"
  by (induction rs) auto

lemma first_where_filter: "first_where P (filter Q rs) = first_where (\<lambda>r. Q r \<and> P r) rs"
  by (induction rs) auto

lemma upd_where_Nil [simp]: "upd_where P f [] = []"
  by (simp add: upd_where_def)

lemma upd_where_Cons [simp]:
  "upd_where P f (r # rs) = (if P r then f r else r) # upd_where P f rs"
  by (simp add: upd_where_def)

lemma upd_where_append [simp]: "upd_where P f (xs @ ys) = upd_where P f xs @ upd_where P f ys"
  by (simp add: upd_where_def)

lemma length_upd_where [simp]: "length (upd_where P f rs) = length rs"
  by (simp add: upd_where_def)

lemma set_upd_where: "set (upd_where P f rs) = (\<lambda>r. if P r then f r else r) ` set rs"
  by (simp add: upd_where_def)

lemma image_upd_where: "(\<And>r. P r \<Longrightarrow> k (f r) = k r) \<Longrightarrow> k ` set (upd_where P f rs) = k ` set rs"
  by (induction rs) auto

lemma ball_upd_where:
  "(\<And>r. P r \<Longrightarrow> Q (f r) = Q r) \<Longrightarrow> (\<forall>r\<in>set (upd_where P f rs). Q r) \<longleftrightarrow> (\<forall>r\<in>set rs. Q r)"
  by (induction rs) auto

lemma map_upd_where_id:
  "(\<And>r. P r \<Longrightarrow> g (f r) = g r) \<Longrightarrow> map g (upd_where P f rs) = map g rs"
  by (induction rs) auto

lemma upd_where_idem: "(\<And>r. r \<in> set rs \<Longrightarrow> \<not> P r) \<Longrightarrow> upd_where P f rs = rs"
  by (induction rs) auto

lemma filter_upd_where_other:
  "(\<And>r. P r \<Longrightarrow> \<not> Q r) \<Longrightarrow> (\<And>r. P r \<Longrightarrow> \<not> Q (f r)) \<Longrightarrow> filter Q (upd_where P f rs) = filter Q rs"
  by (induction rs) auto

lemma filter_upd_where_inside:
  "(\<And>r. P r \<Longrightarrow> Q r) \<Longrightarrow> (\<And>r. P r \<Longrightarrow> Q (f r)) \<Longrightarrow>
   filter Q (upd_where P f rs) = upd_where P f (filter Q rs)"
  by (induction rs) auto

lemma filter_upd_where_same:
  "(\<And>r. P r \<Longrightarrow> Q (f r) = Q r) \<Longrightarrow> filter Q (upd_where P f rs) = upd_where P f (filter Q rs)"
  by (induction rs) auto

lemma first_where_upd_where:
  assumes "\<And>r. P r \<Longrightarrow> Q (f r) = Q r"
  shows "first_where Q (upd_where P f rs)
       = map_option (\<lambda>r. if P r then f r else r) (first_where Q rs)"
  using assms by (induction rs) auto

text \<open>\<open>js_set\<close> is \<^verbatim>\<open>Array.from(new Set(xs))\<close>: the first occurrence of each element stays. \<open>insert_rows\<close> is one
  \<^verbatim>\<open>insert ... values (...), (...)\<close>, which inserts all the rows or none.\<close>

definition js_set :: "'a list \<Rightarrow> 'a list" where
  "js_set xs = rev (remdups (rev xs))"

lemma set_js_set [simp]: "set (js_set xs) = set xs"
  by (simp add: js_set_def)

lemma distinct_js_set [simp]: "distinct (js_set xs)"
  by (simp add: js_set_def)

definition insert_rows :: "('r \<Rightarrow> ('s, 'r) act) \<Rightarrow> 'r list \<Rightarrow> ('s, unit) act" where
  "insert_rows ins rs = act_transaction (act_for rs (\<lambda>r. act_bind (ins r) (\<lambda>_. act_return ())))"

lemma preserves_insert_rows [inv_intros]: "(\<And>r. preserves P (ins r)) \<Longrightarrow> preserves P (insert_rows ins rs)"
  unfolding insert_rows_def by (intro inv_intros)

lemma frames_insert_rows [frame_intros]: "(\<And>r. frames f (ins r)) \<Longrightarrow> frames f (insert_rows ins rs)"
  unfolding insert_rows_def by (intro frame_intros)

text \<open>Inserting rows that all satisfy the constraints appends them.\<close>

lemma insert_rows_run:
  assumes "\<And>i. i < length rs \<Longrightarrow> ins (rs ! i) (st i) = (Inr (rs ! i), st (Suc i))"
  shows "insert_rows ins rs (st 0) = (Inr (), st (length rs))"
proof -
  have "act_for rs (\<lambda>r. act_bind (ins r) (\<lambda>_. act_return ())) (st 0) = (Inr (), st (length rs))"
    using assms
  proof (induction rs arbitrary: st)
    case Nil
    then show ?case by (simp add: act_defs)
  next
    case (Cons r rs)
    have "ins r (st 0) = (Inr r, st (Suc 0))" using Cons.prems [of 0] by simp
    moreover have "act_for rs (\<lambda>r. act_bind (ins r) (\<lambda>_. act_return ())) (st (Suc 0)) = (Inr (), st (Suc (length rs)))"
      using Cons.IH [of "\<lambda>i. st (Suc i)"] Cons.prems [of "Suc i" for i] by simp
    ultimately show ?case by (simp add: act_bind_assoc act_bind_Inr)
  qed
  then show ?thesis by (simp add: insert_rows_def act_transaction_def)
qed

text \<open>Rows under a key: \<open>key_fun k rs\<close> says that the key determines the row.\<close>

definition key_fun :: "('r \<Rightarrow> 'k) \<Rightarrow> 'r list \<Rightarrow> bool" where
  "key_fun k rs \<longleftrightarrow> distinct (map k rs)"

lemma key_fun_Nil [simp]: "key_fun k []"
  by (simp add: key_fun_def)

lemma key_fun_snoc [simp]: "key_fun k (rs @ [r]) \<longleftrightarrow> key_fun k rs \<and> (\<forall>x\<in>set rs. k x \<noteq> k r)"
  by (simp add: key_fun_def image_iff) metis

lemma key_fun_eq: "key_fun k rs \<Longrightarrow> x \<in> set rs \<Longrightarrow> y \<in> set rs \<Longrightarrow> k x = k y \<Longrightarrow> x = y"
  by (auto simp: key_fun_def distinct_map inj_on_def)

lemma key_fun_upd_where: "(\<And>r. P r \<Longrightarrow> k (f r) = k r) \<Longrightarrow> key_fun k (upd_where P f rs) = key_fun k rs"
  by (simp add: key_fun_def map_upd_where_id)

lemma key_fun_filter: "key_fun k rs \<Longrightarrow> key_fun k (filter P rs)"
  by (simp add: key_fun_def distinct_map_filter)

lemma first_where_key:
  "key_fun k rs \<Longrightarrow> r \<in> set rs \<Longrightarrow> k r = v \<Longrightarrow> first_where (\<lambda>x. k x = v) rs = Some r"
  by (induction rs) (auto simp: key_fun_def)

subsection \<open>JavaScript strings\<close>

definition js_space :: "char \<Rightarrow> bool" where
  "js_space c \<longleftrightarrow> of_char c \<in> {9, 10, 11, 12, 13, 32 :: nat}"

definition js_trim :: "string \<Rightarrow> string" where
  "js_trim s = rev (dropWhile js_space (rev (dropWhile js_space s)))"

definition lower_char :: "char \<Rightarrow> char" where
  "lower_char c = (if 65 \<le> (of_char c :: nat) \<and> (of_char c :: nat) \<le> 90 then char_of (of_char c + 32 :: nat) else c)"

definition js_lower :: "string \<Rightarrow> string" where
  "js_lower s = map lower_char s"

fun js_split :: "char \<Rightarrow> string \<Rightarrow> string list" where
  "js_split c [] = [[]]"
| "js_split c (x # xs) =
     (if x = c then [] # js_split c xs
      else (case js_split c xs of [] \<Rightarrow> [[x]] | w # ws \<Rightarrow> (x # w) # ws))"

fun js_join :: "string \<Rightarrow> string list \<Rightarrow> string" where
  "js_join sep [] = []"
| "js_join sep [w] = w"
| "js_join sep (w # v # ws) = w @ sep @ js_join sep (v # ws)"

definition starts_with :: "string \<Rightarrow> string \<Rightarrow> bool" where
  "starts_with p s \<longleftrightarrow> take (length p) s = p"

definition ends_with :: "string \<Rightarrow> string \<Rightarrow> bool" where
  "ends_with p s \<longleftrightarrow> starts_with (rev p) (rev s)"

lemma js_split_neq_Nil [simp]: "js_split c s \<noteq> []"
  by (cases s) (auto split: list.splits)

lemma js_split_none: "c \<notin> set s \<Longrightarrow> js_split c s = [s]"
  by (induction s) auto

lemma js_split_append:
  "c \<notin> set s \<Longrightarrow> js_split c (s @ c # t) = s # js_split c t"
  by (induction s) auto

text \<open>Splitting on the separator undoes joining with it, when no part contains it.\<close>

lemma js_split_join:
  "ws \<noteq> [] \<Longrightarrow> (\<And>w. w \<in> set ws \<Longrightarrow> c \<notin> set w) \<Longrightarrow> js_split c (js_join [c] ws) = ws"
proof (induction "[c]" ws rule: js_join.induct)
  case (2 w)
  then show ?case by (simp add: js_split_none)
next
  case (3 w v ws)
  then show ?case by (simp add: js_split_append)
qed simp

lemma js_join_split: "js_join [c] (js_split c s) = s"
proof (induction s)
  case (Cons x xs)
  obtain w ws where ws: "js_split c xs = w # ws" by (cases "js_split c xs") auto
  with Cons show ?case by (cases ws) auto
qed simp

lemma js_join_inj:
  assumes "js_join [c] us = js_join [c] ws" "us \<noteq> []" "ws \<noteq> []"
    and "\<And>w. w \<in> set us \<Longrightarrow> c \<notin> set w" "\<And>w. w \<in> set ws \<Longrightarrow> c \<notin> set w"
  shows "us = ws"
proof -
  have "js_split c (js_join [c] us) = us" by (rule js_split_join) (use assms in auto)
  moreover have "js_split c (js_join [c] ws) = ws" by (rule js_split_join) (use assms in auto)
  ultimately show ?thesis using assms(1) by metis
qed

lemma starts_with_append [simp]: "starts_with p (p @ s)"
  by (simp add: starts_with_def)

lemma starts_with_iff: "starts_with p s \<longleftrightarrow> (\<exists>t. s = p @ t)"
  by (auto simp: starts_with_def) (metis append_take_drop_id)

lemma ends_with_iff: "ends_with p s \<longleftrightarrow> (\<exists>t. s = t @ p)"
  by (auto simp: ends_with_def starts_with_iff) (metis rev_append rev_rev_ident)

lemma lower_char_idem [simp]: "lower_char (lower_char c) = lower_char c"
proof (cases "65 \<le> (of_char c :: nat) \<and> (of_char c :: nat) \<le> 90")
  case True
  then have "(of_char (char_of (of_char c + 32 :: nat)) :: nat) = of_char c + 32"
    by simp
  with True show ?thesis by (auto simp: lower_char_def)
qed (auto simp: lower_char_def)

lemma js_lower_idem [simp]: "js_lower (js_lower s) = js_lower s"
  by (simp add: js_lower_def)

lemma js_lower_append [simp]: "js_lower (s @ t) = js_lower s @ js_lower t"
  by (simp add: js_lower_def)

lemma dropWhile_idem': "dropWhile P (dropWhile P xs) = dropWhile P xs"
  by (induction xs) auto

lemma js_trim_hd: "js_trim s \<noteq> [] \<Longrightarrow> \<not> js_space (hd (js_trim s)) \<and> \<not> js_space (last (js_trim s))"
proof -
  let ?t = "dropWhile js_space s"
  assume ne: "js_trim s \<noteq> []"
  then have ne2: "dropWhile js_space (rev ?t) \<noteq> []" by (simp add: js_trim_def)
  have l: "\<not> js_space (last (js_trim s))"
    using ne2 by (simp add: js_trim_def last_rev hd_dropWhile)
  obtain u v where uv: "rev ?t = u @ v" "v = dropWhile js_space (rev ?t)"
    by (metis takeWhile_dropWhile_id)
  have "?t = rev v @ rev u" using uv(1) by (metis rev_append rev_rev_ident)
  moreover have "rev v \<noteq> []" using uv(2) ne2 by simp
  ultimately have "hd (rev v) = hd ?t" and "?t \<noteq> []" by (simp_all add: hd_append)
  then have "\<not> js_space (hd (rev v))" using hd_dropWhile by metis
  then show ?thesis using l uv(2) by (simp add: js_trim_def)
qed

lemma js_space_lower [simp]: "js_space (lower_char c) = js_space c"
  by (auto simp: js_space_def lower_char_def)

lemma js_trim_lower: "js_trim (js_lower s) = js_lower (js_trim s)"
  by (simp add: js_trim_def js_lower_def dropWhile_map comp_def rev_map)

lemma js_trim_idem [simp]: "js_trim (js_trim s) = js_trim s"
proof (cases "js_trim s = []")
  case False
  have "dropWhile js_space (js_trim s) = js_trim s" using js_trim_hd [OF False] by (simp add: dropWhile_eq_self_iff)
  moreover have "dropWhile js_space (rev (js_trim s)) = rev (js_trim s)"
    using js_trim_hd [OF False] False by (simp add: dropWhile_eq_self_iff hd_rev)
  ultimately show ?thesis by (simp add: js_trim_def [of "js_trim s"])
qed (simp only: js_trim_def rev.simps dropWhile.simps)

subsection \<open>Reachable states and shared contracts\<close>

inductive reach :: "('s \<Rightarrow> bool) \<Rightarrow> ('s \<Rightarrow> 's \<Rightarrow> bool) \<Rightarrow> 's \<Rightarrow> bool"
  for init :: "'s \<Rightarrow> bool" and step :: "'s \<Rightarrow> 's \<Rightarrow> bool" where
  reach_init: "init s \<Longrightarrow> reach init step s"
| reach_step: "reach init step s \<Longrightarrow> step s t \<Longrightarrow> reach init step t"

text \<open>A transition system with an inductive invariant.\<close>

locale invariant_system =
  fixes init :: "'s \<Rightarrow> bool"
    and step :: "'s \<Rightarrow> 's \<Rightarrow> bool"
    and inv :: "'s \<Rightarrow> bool"
  assumes inv_init: "init s \<Longrightarrow> inv s"
    and inv_step: "inv s \<Longrightarrow> step s t \<Longrightarrow> inv t"
begin

lemma reach_inv: "reach init step s \<Longrightarrow> inv s"
  by (induction rule: reach.induct) (auto intro: inv_init inv_step)

end

text \<open>
  Tenant isolation. A command belongs to the workspace \<open>home c\<close>; \<open>view s w\<close> is what workspace \<open>w\<close>
  holds in the state. The contract asks that a command, in a well-formed state, changes the view of its
  own workspace only; then whatever the other workspaces do, in any order and number, leaves the
  view unchanged.
\<close>

locale tenant_scoped =
  fixes view :: "'s \<Rightarrow> uuid \<Rightarrow> 'v"
    and exec :: "'c \<Rightarrow> 's \<Rightarrow> 's"
    and home :: "'c \<Rightarrow> uuid"
    and ok :: "'s \<Rightarrow> bool"
  assumes exec_frame: "ok s \<Longrightarrow> home c \<noteq> w \<Longrightarrow> view (exec c s) w = view s w"
    and exec_ok: "ok s \<Longrightarrow> ok (exec c s)"
begin

lemma run_ok: "ok s \<Longrightarrow> ok (fold exec cs s)"
  by (induction cs arbitrary: s) (auto intro: exec_ok)

lemma run_frame:
  "ok s \<Longrightarrow> (\<And>c. c \<in> set cs \<Longrightarrow> home c \<noteq> w) \<Longrightarrow> view (fold exec cs s) w = view s w"
proof (induction cs arbitrary: s)
  case (Cons c cs)
  have "view (fold exec cs (exec c s)) w = view (exec c s) w"
    by (rule Cons.IH) (use Cons.prems in \<open>auto intro: exec_ok\<close>)
  also have "\<dots> = view s w" by (rule exec_frame) (use Cons.prems in auto)
  finally show ?case by simp
qed simp

end

text \<open>
  Append-only logs with a growing sequence number: \<open>entries s\<close> are the entries in order, \<open>num\<close> their
  numbers. Every entry ever written stays, in place, and the numbers stay strictly increasing.
\<close>

locale seq_log =
  fixes append :: "'c \<Rightarrow> 's \<Rightarrow> 's"
    and entries :: "'s \<Rightarrow> 'e list"
    and num :: "'e \<Rightarrow> int"
    and ok :: "'s \<Rightarrow> bool"
  assumes append_entries: "ok s \<Longrightarrow> \<exists>es. entries (append c s) = entries s @ es
      \<and> sorted_wrt (<) (map num es) \<and> (\<forall>e\<in>set es. \<forall>x\<in>set (entries s). num x < num e)"
    and append_ok: "ok s \<Longrightarrow> ok (append c s)"
begin

lemma run_ok: "ok s \<Longrightarrow> ok (fold append cs s)"
  by (induction cs arbitrary: s) (auto intro: append_ok)

lemma run_prefix: "ok s \<Longrightarrow> \<exists>es. entries (fold append cs s) = entries s @ es"
proof (induction cs arbitrary: s)
  case (Cons c cs)
  obtain es where "entries (append c s) = entries s @ es"
    using append_entries [OF Cons.prems] by blast
  moreover obtain es' where "entries (fold append cs (append c s)) = entries (append c s) @ es'"
    using Cons.IH append_ok Cons.prems by blast
  ultimately show ?case by auto
qed simp

lemma run_increasing:
  "ok s \<Longrightarrow> sorted_wrt (<) (map num (entries s)) \<Longrightarrow>
   sorted_wrt (<) (map num (entries (fold append cs s)))"
proof (induction cs arbitrary: s)
  case (Cons c cs)
  obtain es where es: "entries (append c s) = entries s @ es" "sorted_wrt (<) (map num es)"
      "\<forall>e\<in>set es. \<forall>x\<in>set (entries s). num x < num e"
    using append_entries [OF Cons.prems(1)] by blast
  have "sorted_wrt (<) (map num (entries (append c s)))"
    using es Cons.prems(2) by (auto simp: sorted_wrt_append)
  then show ?case using Cons append_ok by simp
qed simp

end

end
