(* ===== verification/Rbac.thy ===== *)
theory Rbac
  imports Prelude
begin

text \<open>
  \<^verbatim>\<open>lib/rbac/matrix.ts\<close>, the capability matrix every mutation is checked against, beside the native
  matrix of \<^verbatim>\<open>crates/comms-core/src/rbac.rs\<close> it is a port of. The locale \<open>delegation_policy\<close> is what
  the membership components rely on: whoever may grant a role holds every capability of that role, so
  no chain of grants can add a capability.
\<close>

subsection \<open>The web matrix\<close>

datatype Role = Owner | Admin | Member | Partner | Guest | Agent

datatype Capability =
    ReadChannel | ReadWorkspace | PostMessage | CreateThread | CreateChannel | CreateDirectMessage
  | AddMember | RemoveMember | AddAgent | RemoveAgent | AssignRole | ManageWorkspace
  | CreateRecord | DeleteRecord

text \<open>The string values the source gives roles and capabilities.\<close>

fun role_name :: "Role \<Rightarrow> string" where
  "role_name Owner = ''Owner''"
| "role_name Admin = ''Admin''"
| "role_name Member = ''Member''"
| "role_name Partner = ''Partner''"
| "role_name Guest = ''Guest''"
| "role_name Agent = ''Agent''"

fun cap_name :: "Capability \<Rightarrow> string" where
  "cap_name ReadChannel = ''ReadChannel''"
| "cap_name ReadWorkspace = ''ReadWorkspace''"
| "cap_name PostMessage = ''PostMessage''"
| "cap_name CreateThread = ''CreateThread''"
| "cap_name CreateChannel = ''CreateChannel''"
| "cap_name CreateDirectMessage = ''CreateDirectMessage''"
| "cap_name AddMember = ''AddMember''"
| "cap_name RemoveMember = ''RemoveMember''"
| "cap_name AddAgent = ''AddAgent''"
| "cap_name RemoveAgent = ''RemoveAgent''"
| "cap_name AssignRole = ''AssignRole''"
| "cap_name ManageWorkspace = ''ManageWorkspace''"
| "cap_name CreateRecord = ''CreateRecord''"
| "cap_name DeleteRecord = ''DeleteRecord''"

definition ROLES :: "Role list" where
  "ROLES = [Owner, Admin, Member, Partner, Guest, Agent]"

definition ADMIN_CAPS :: "Capability list" where
  "ADMIN_CAPS = [ReadChannel, ReadWorkspace, PostMessage, CreateThread, CreateChannel,
     CreateDirectMessage, AddMember, RemoveMember, AddAgent, RemoveAgent, AssignRole,
     CreateRecord, DeleteRecord]"

definition MEMBER_CAPS :: "Capability list" where
  "MEMBER_CAPS = [ReadChannel, ReadWorkspace, PostMessage, CreateThread, CreateDirectMessage, CreateRecord]"

definition PARTNER_CAPS :: "Capability list" where
  "PARTNER_CAPS = [ReadChannel, PostMessage, CreateDirectMessage]"

definition AGENT_CAPS :: "Capability list" where
  "AGENT_CAPS = [ReadChannel, ReadWorkspace, PostMessage]"

fun can :: "Role \<Rightarrow> Capability \<Rightarrow> bool" where
  "can Owner cap = True"
| "can Admin cap = (cap \<in> set ADMIN_CAPS)"
| "can Member cap = (cap \<in> set MEMBER_CAPS)"
| "can Partner cap = (cap \<in> set PARTNER_CAPS)"
| "can Guest cap = (cap = ReadChannel)"
| "can Agent cap = (cap \<in> set AGENT_CAPS)"

fun canGrant :: "Role \<Rightarrow> Role \<Rightarrow> bool" where
  "canGrant Owner target = True"
| "canGrant Admin target = (target = Member \<or> target = Partner \<or> target = Guest \<or> target = Agent)"
| "canGrant _ target = False"

definition isInternalRole :: "Role \<Rightarrow> bool" where
  "isInternalRole role \<longleftrightarrow> can role ReadWorkspace"

definition isAdminRole :: "Role \<Rightarrow> bool" where
  "isAdminRole role \<longleftrightarrow> role = Owner \<or> role = Admin"

lemmas cap_sets = ADMIN_CAPS_def MEMBER_CAPS_def PARTNER_CAPS_def AGENT_CAPS_def

text \<open>The roles are finitely many, listed by \<open>ROLES\<close>, and ordered by position in that list.\<close>

instantiation Role :: enum
begin

definition "enum_class.enum = ROLES"

definition "enum_class.enum_all P = list_all P ROLES"

definition "enum_class.enum_ex P = list_ex P ROLES"

instance
proof
  have U: "x \<in> set ROLES" for x :: Role by (cases x) (simp_all add: ROLES_def)
  show "UNIV = set (enum_class.enum :: Role list)" using U by (auto simp: enum_Role_def)
  show "distinct (enum_class.enum :: Role list)" by (simp add: enum_Role_def ROLES_def)
  show "enum_class.enum_all P = Ball UNIV P" for P :: "Role \<Rightarrow> bool"
    using U by (auto simp: enum_all_Role_def list_all_iff)
  show "enum_class.enum_ex P = Bex UNIV P" for P :: "Role \<Rightarrow> bool"
    using U by (auto simp: enum_ex_Role_def list_ex_iff)
qed

end

fun role_rank :: "Role \<Rightarrow> nat" where
  "role_rank Owner = 0"
| "role_rank Admin = 1"
| "role_rank Member = 2"
| "role_rank Partner = 3"
| "role_rank Guest = 4"
| "role_rank Agent = 5"

lemma role_rank_inj: "role_rank a = role_rank b \<Longrightarrow> a = b"
  by (cases a; cases b) simp_all

instantiation Role :: linorder
begin

definition less_eq_Role :: "Role \<Rightarrow> Role \<Rightarrow> bool" where
  "less_eq_Role a b \<longleftrightarrow> role_rank a \<le> role_rank b"

definition less_Role :: "Role \<Rightarrow> Role \<Rightarrow> bool" where
  "less_Role a b \<longleftrightarrow> role_rank a < role_rank b"

instance
  by standard (auto simp: less_eq_Role_def less_Role_def dest: role_rank_inj)

end

subsection \<open>The native matrix\<close>

datatype NativeCapability =
    NReadChannel | NPostMessage | NCreateThread | NCreateChannel | NAddMember | NRemoveMember
  | NAddAgent | NRemoveAgent | NAssignRole | NManageWorkspace | NCreateRecord

fun native_can :: "Role \<Rightarrow> NativeCapability \<Rightarrow> bool" where
  "native_can Owner cap = True"
| "native_can Admin cap = (cap \<in> {NReadChannel, NPostMessage, NCreateThread, NCreateChannel, NAddMember,
     NRemoveMember, NAddAgent, NRemoveAgent, NAssignRole, NCreateRecord})"
| "native_can Member cap = (cap \<in> {NReadChannel, NPostMessage, NCreateThread, NCreateRecord})"
| "native_can Partner cap = (cap \<in> {NReadChannel, NPostMessage})"
| "native_can Guest cap = (cap = NReadChannel)"
| "native_can Agent cap = (cap \<in> {NReadChannel, NPostMessage})"

fun native_can_grant :: "Role \<Rightarrow> Role \<Rightarrow> bool" where
  "native_can_grant Owner target = True"
| "native_can_grant Admin target = (target \<in> {Member, Partner, Guest, Agent})"
| "native_can_grant _ target = False"

fun of_native :: "NativeCapability \<Rightarrow> Capability" where
  "of_native NReadChannel = ReadChannel"
| "of_native NPostMessage = PostMessage"
| "of_native NCreateThread = CreateThread"
| "of_native NCreateChannel = CreateChannel"
| "of_native NAddMember = AddMember"
| "of_native NRemoveMember = RemoveMember"
| "of_native NAddAgent = AddAgent"
| "of_native NRemoveAgent = RemoveAgent"
| "of_native NAssignRole = AssignRole"
| "of_native NManageWorkspace = ManageWorkspace"
| "of_native NCreateRecord = CreateRecord"

subsection \<open>Delegation never escalates\<close>

locale delegation_policy =
  fixes holds :: "'r \<Rightarrow> 'c \<Rightarrow> bool"
    and grants :: "'r \<Rightarrow> 'r \<Rightarrow> bool"
    and assign :: 'c
  assumes grants_within: "grants r t \<Longrightarrow> holds t c \<Longrightarrow> holds r c"
    and grants_assign: "grants r t \<Longrightarrow> holds r assign"
begin

lemma chain_within: "grants\<^sup>*\<^sup>* r t \<Longrightarrow> holds t c \<Longrightarrow> holds r c"
  by (induction rule: rtranclp_induct) (auto intro: grants_within)

lemma no_assign_no_grant: "\<not> holds r assign \<Longrightarrow> grants\<^sup>*\<^sup>* r t \<Longrightarrow> t = r"
  by (erule converse_rtranclpE) (auto dest: grants_assign)

end

lemma can_all_owner: "can Owner cap"
  by simp

lemma canGrant_within: "canGrant r t \<Longrightarrow> can t cap \<Longrightarrow> can r cap"
  by (cases r; cases t) (auto simp: cap_sets)

interpretation web_policy: delegation_policy can canGrant AssignRole
  by unfold_locales (auto intro: canGrant_within elim: canGrant.elims simp: cap_sets)

lemma native_can_grant_within: "native_can_grant r t \<Longrightarrow> native_can t cap \<Longrightarrow> native_can r cap"
  by (cases r; cases t) auto

interpretation native_policy: delegation_policy native_can native_can_grant NAssignRole
  by unfold_locales (auto intro: native_can_grant_within elim: native_can_grant.elims)

lemma isInternalRole_simps [simp]:
  "isInternalRole Owner" "isInternalRole Admin" "isInternalRole Member" "isInternalRole Agent"
  "\<not> isInternalRole Partner" "\<not> isInternalRole Guest"
  by (simp_all add: isInternalRole_def cap_sets)

text \<open>C9. No chain of role grants adds a capability: whatever a role reachable from the issuer through
  any number of grants may do, the issuer may do; and a role that may not assign roles grants nothing.\<close>

theorem grant_chain_no_escalation:
  "canGrant\<^sup>*\<^sup>* issuer target \<Longrightarrow>
   (can target cap \<longrightarrow> can issuer cap) \<and> (\<not> can issuer AssignRole \<longrightarrow> target = issuer)"
  using web_policy.chain_within web_policy.no_assign_no_grant by blast

theorem grant_chain_no_escalation_witness:
  "canGrant\<^sup>*\<^sup>* Admin Partner \<and>
   can Partner PostMessage \<and> can Admin PostMessage"
proof -
  have "canGrant\<^sup>*\<^sup>* Admin Partner" by (rule r_into_rtranclp) simp
  moreover have "can Partner PostMessage" by (simp add: cap_sets)
  ultimately show ?thesis using grant_chain_no_escalation [of Admin Partner PostMessage] by blast
qed

text \<open>The web matrix agrees with the native one: every role holds a native capability in one exactly
  when it does in the other, and the two grant relations are equal.\<close>

theorem web_native_parity:
  "can role (of_native cap) = native_can role cap \<and> canGrant issuer target = native_can_grant issuer target"
  by (cases role; cases cap; cases issuer) (auto simp: cap_sets)

end
