(* ===== verification/Schema.thy ===== *)
theory Schema
  imports Prelude Rbac
begin

text \<open>
  \<^verbatim>\<open>lib/db/schema.ts\<close>: one record per table with the table's columns, and \<open>db\<close>, the database: a list of
  rows per table in insertion order, and the counters behind the two \<^verbatim>\<open>bigserial\<close> columns. A nullable
  column is an \<^verbatim>\<open>option\<close>; a timestamp is its milliseconds. The insert operations check what the schema
  declares: primary keys, unique columns and foreign keys. \<open>db_ok\<close> is the integrity these constraints
  maintain; it is kept by every insert here and, in the component theories, by every operation.
\<close>

subsection \<open>Rows\<close>

record workspace_row =
  ws_id :: uuid
  ws_slug :: string
  ws_name :: string
  ws_ownerSub :: string
  ws_encKeyVersion :: int
  ws_createdAt :: ms

record member_row =
  mb_workspaceId :: uuid
  mb_sub :: string
  mb_walletAddress :: "string option"
  mb_displayName :: "string option"
  mb_email :: "string option"
  mb_role :: Role
  mb_status :: string
  mb_kycStatus :: "string option"
  mb_isAgent :: bool
  mb_devicesCount :: int
  mb_timezone :: "string option"
  mb_joinedAt :: ms

record role_assertion_row =
  ra_id :: int
  ra_workspaceId :: uuid
  ra_subjectSub :: string
  ra_role :: Role
  ra_scopeChannelId :: "uuid option"
  ra_issuerSub :: string
  ra_notAfter :: "ms option"
  ra_signature :: "string option"
  ra_revokedAt :: "ms option"
  ra_createdAt :: ms

record invite_row =
  iv_tokenHash :: string
  iv_workspaceId :: uuid
  iv_email :: string
  iv_role :: Role
  iv_scopeChannelId :: "uuid option"
  iv_invitedBySub :: string
  iv_expiresAt :: ms
  iv_acceptedBySub :: "string option"
  iv_acceptedAt :: "ms option"
  iv_createdAt :: ms

record channel_row =
  ch_id :: uuid
  ch_workspaceId :: uuid
  ch_kind :: string
  ch_name :: string
  ch_topic :: "string option"
  ch_isStarred :: bool
  ch_hasAgent :: bool
  ch_groupId :: "string option"
  ch_bridged :: bool
  ch_createdBySub :: string
  ch_createdAt :: ms

record channel_member_row =
  cm_workspaceId :: uuid
  cm_channelId :: uuid
  cm_sub :: string
  cm_addedAt :: ms
  cm_lastReadSeq :: int

record message_row =
  ms_id :: uuid
  ms_workspaceId :: uuid
  ms_channelId :: uuid
  ms_threadId :: "uuid option"
  ms_parentId :: "uuid option"
  ms_authorSub :: string
  ms_fromAgent :: bool
  ms_bodyEnc :: string
  ms_state :: string
  ms_seq :: int
  ms_groupSeq :: "int option"
  ms_epoch :: "int option"
  ms_senderWallet :: "string option"
  ms_ciphertextHash :: "string option"
  ms_clientMsgId :: "string option"
  ms_onBehalfOf :: "string option"
  ms_pinned :: bool
  ms_pinnedAt :: "ms option"
  ms_createdAt :: ms

record message_attachment_row =
  ma_workspaceId :: uuid
  ma_messageId :: uuid
  ma_documentId :: uuid

record ledger_row =
  le_id :: uuid
  le_workspaceId :: uuid
  le_channelId :: uuid
  le_sourceMessageId :: "uuid option"
  le_kind :: string
  le_textEnc :: string
  le_bySub :: string
  le_ownerSub :: "string option"
  le_due :: "ms option"
  le_status :: string
  le_proposedByAgent :: bool
  le_recordHash :: string
  le_createdAt :: ms

record audit_row =
  au_seq :: int
  au_workspaceId :: uuid
  au_actorSub :: "string option"
  au_event :: string
  au_target :: "string option"
  au_ipHash :: "string option"
  au_uaHash :: "string option"
  au_ts :: ms
  au_prevHash :: string
  au_hash :: string

record tool_call_row =
  tc_id :: uuid
  tc_workspaceId :: uuid
  tc_threadId :: "uuid option"
  tc_personaId :: "uuid option"
  tc_invokedBySub :: "string option"
  tc_tool :: string
  tc_argsHash :: string
  tc_argsRedacted :: "string option"
  tc_approvalStatus :: string
  tc_resultHash :: "string option"
  tc_createdAt :: ms

record approval_row =
  ap_id :: uuid
  ap_workspaceId :: uuid
  ap_toolCallId :: uuid
  ap_tool :: string
  ap_risk :: string
  ap_payloadEnc :: "string option"
  ap_requestedBySub :: string
  ap_personaId :: "uuid option"
  ap_decidedBySub :: "string option"
  ap_status :: string
  ap_createdAt :: ms
  ap_decidedAt :: "ms option"

record document_row =
  dc_id :: uuid
  dc_workspaceId :: uuid
  dc_dealId :: "uuid option"
  dc_accountId :: "uuid option"
  dc_channelId :: "uuid option"
  dc_blobUrl :: string
  dc_name :: string
  dc_mime :: "string option"
  dc_textEnc :: "string option"
  dc_uploadedBySub :: string
  dc_createdAt :: ms

record notification_row =
  nt_id :: uuid
  nt_workspaceId :: uuid
  nt_recipientSub :: string
  nt_kind :: string
  nt_actorSub :: "string option"
  nt_channelId :: "uuid option"
  nt_messageId :: "uuid option"
  nt_taskId :: "uuid option"
  nt_readAt :: "ms option"
  nt_createdAt :: ms

record account_row =
  acc_id :: uuid
  acc_workspaceId :: uuid
  acc_name :: string
  acc_domain :: "string option"
  acc_ownerSub :: "string option"
  acc_createdAt :: ms

record contact_row =
  ct_id :: uuid
  ct_workspaceId :: uuid
  ct_accountId :: "uuid option"
  ct_name :: string
  ct_emailEnc :: "string option"
  ct_emailKey :: "string option"
  ct_title :: "string option"
  ct_ownerSub :: "string option"
  ct_lastTouch :: "ms option"

record deal_row =
  dl_id :: uuid
  dl_workspaceId :: uuid
  dl_accountId :: "uuid option"
  dl_name :: string
  dl_valueMinor :: int
  dl_stage :: string
  dl_priority :: "string option"
  dl_ownerSub :: "string option"
  dl_closeDate :: "ms option"
  dl_linkedChannelId :: "uuid option"
  dl_createdAt :: ms

record project_row =
  pj_id :: uuid
  pj_workspaceId :: uuid
  pj_name :: string
  pj_status :: string
  pj_createdAt :: ms

record board_row =
  bd_id :: uuid
  bd_workspaceId :: uuid
  bd_projectId :: "uuid option"
  bd_name :: string

record board_column_row =
  bc_id :: uuid
  bc_workspaceId :: uuid
  bc_boardId :: uuid
  bc_name :: string
  bc_ord :: int

record task_row =
  tk_id :: uuid
  tk_workspaceId :: uuid
  tk_projectId :: "uuid option"
  tk_boardId :: "uuid option"
  tk_columnId :: "uuid option"
  tk_title :: string
  tk_description :: "string option"
  tk_assigneeSub :: "string option"
  tk_status :: string
  tk_priority :: "string option"
  tk_due :: "ms option"
  tk_ord :: int
  tk_linkedChannelId :: "uuid option"
  tk_createdAt :: ms

record task_raci_row =
  tr_workspaceId :: uuid
  tr_taskId :: uuid
  tr_sub :: string
  tr_role :: string

record event_row =
  ev_id :: uuid
  ev_workspaceId :: uuid
  ev_kind :: string
  ev_titleEnc :: string
  ev_descriptionEnc :: "string option"
  ev_locationEnc :: "string option"
  ev_startsAt :: ms
  ev_endsAt :: ms
  ev_allDay :: bool
  ev_timezone :: string
  ev_status :: string
  ev_channelId :: "uuid option"
  ev_projectId :: "uuid option"
  ev_taskId :: "uuid option"
  ev_dealId :: "uuid option"
  ev_createdBySub :: string
  ev_createdAt :: ms
  ev_updatedAt :: ms

record attendee_row =
  at_workspaceId :: uuid
  at_eventId :: uuid
  at_sub :: string
  at_raciRole :: "string option"
  at_response :: string
  at_notifiedAt :: "ms option"
  at_createdAt :: ms

record reminder_row =
  rm_id :: uuid
  rm_workspaceId :: uuid
  rm_eventId :: uuid
  rm_sub :: string
  rm_remindAt :: ms
  rm_channel :: string
  rm_sentAt :: "ms option"

record agent_thread_row =
  th_id :: uuid
  th_workspaceId :: uuid
  th_agentId :: "uuid option"
  th_personaId :: "uuid option"
  th_channelId :: "uuid option"
  th_dealId :: "uuid option"
  th_accountId :: "uuid option"
  th_invokedBySub :: string
  th_title :: string
  th_createdAt :: ms

record field_def_row =
  fd_id :: uuid
  fd_workspaceId :: uuid
  fd_entity :: string
  fd_key :: string
  fd_label :: string
  fd_type :: string
  fd_options :: "(string \<times> string) list option"
  fd_required :: bool
  fd_sensitive :: bool
  fd_ord :: int
  fd_enabled :: bool
  fd_createdBy :: string
  fd_createdAt :: ms

record field_value_row =
  fv_id :: uuid
  fv_workspaceId :: uuid
  fv_entity :: string
  fv_recordId :: uuid
  fv_fieldId :: uuid
  fv_valueEnc :: "string option"
  fv_valueKey :: "string option"
  fv_valueNum :: "int option"
  fv_updatedBySub :: string
  fv_updatedAt :: ms

record note_row =
  no_id :: uuid
  no_workspaceId :: uuid
  no_entity :: string
  no_recordId :: uuid
  no_type :: string
  no_titleEnc :: "string option"
  no_bodyEnc :: string
  no_authorSub :: string
  no_byAgent :: bool
  no_personaId :: "uuid option"
  no_pinned :: bool
  no_createdAt :: ms
  no_updatedAt :: ms

record note_comment_row =
  co_id :: uuid
  co_workspaceId :: uuid
  co_noteId :: uuid
  co_bodyEnc :: string
  co_authorSub :: string
  co_byAgent :: bool
  co_createdAt :: ms

record activity_row =
  ac_id :: uuid
  ac_workspaceId :: uuid
  ac_entity :: string
  ac_recordId :: uuid
  ac_kind :: string
  ac_actorSub :: "string option"
  ac_byAgent :: bool
  ac_summary :: string
  ac_meta :: "(string \<times> string) list option"
  ac_createdAt :: ms

record tag_row =
  tg_id :: uuid
  tg_workspaceId :: uuid
  tg_label :: string
  tg_color :: "string option"

record record_tag_row =
  rt_workspaceId :: uuid
  rt_entity :: string
  rt_recordId :: uuid
  rt_tagId :: uuid

record suppression_row =
  es_email :: string
  es_reason :: "string option"
  es_createdAt :: ms

record ViewConfig =
  vc_columns :: "string list"
  vc_sort :: "(string \<times> string) option"
  vc_search :: "string option"

record view_row =
  vw_id :: uuid
  vw_workspaceId :: uuid
  vw_entity :: string
  vw_name :: string
  vw_ownerSub :: string
  vw_configJson :: ViewConfig
  vw_shared :: bool
  vw_createdAt :: ms

text \<open>A \<^verbatim>\<open>vector\<close> column holds pgvector's text form of the vector.\<close>

record chunk_row =
  dk_id :: uuid
  dk_workspaceId :: uuid
  dk_documentId :: uuid
  dk_ord :: int
  dk_textEnc :: string
  dk_embedding :: "string option"
  dk_createdAt :: ms

text \<open>A decimal number of a JSON column: mantissa and number of decimals, so \<^verbatim>\<open>0.85\<close> is \<open>(85, 2)\<close>.\<close>

type_synonym decimal = "int \<times> nat"

record Appearance =
  wa_density :: "string option"
  wa_accent :: "string option"
  wa_reducedMotion :: "bool option"

record WorkspaceSettings =
  wt_notifications :: "(string \<times> string) list option"
  wt_automation :: "bool option"
  wt_appearance :: "Appearance option"
  wt_ingest :: "decimal option"

record settings_row =
  se_workspaceId :: uuid
  se_settings :: WorkspaceSettings

record agent_row =
  ag_id :: uuid
  ag_workspaceId :: uuid
  ag_memberSub :: string
  ag_name :: string
  ag_purpose :: "string option"
  ag_kind :: "string option"
  ag_status :: string
  ag_sponsorSub :: "string option"
  ag_enabled :: bool
  ag_createdAt :: ms

record StoredModel =
  sm_gateway :: string
  sm_frontier :: "string option"
  sm_preferFrontier :: "bool option"

record persona_row =
  ps_id :: uuid
  ps_workspaceId :: uuid
  ps_agentId :: "uuid option"
  ps_key :: string
  ps_name :: string
  ps_baseTemplate :: string
  ps_modelJson :: StoredModel
  ps_toolsJson :: "string list"
  ps_maxSteps :: int
  ps_temperature :: int
  ps_enabled :: bool
  ps_isTemplate :: bool
  ps_createdBy :: string
  ps_createdAt :: ms

record prompt_row =
  pp_id :: uuid
  pp_workspaceId :: uuid
  pp_personaId :: uuid
  pp_layer :: int
  pp_contentEnc :: string
  pp_updatedBySub :: string
  pp_updatedAt :: ms

record skill_row =
  sk_id :: uuid
  sk_workspaceId :: uuid
  sk_personaId :: uuid
  sk_skillKey :: string
  sk_enabled :: bool

record agent_message_row =
  am_id :: uuid
  am_workspaceId :: uuid
  am_threadId :: uuid
  am_role :: string
  am_contentEnc :: string
  am_toolTraceJson :: "string option"
  am_seq :: int
  am_createdAt :: ms

record resource_row =
  rs_id :: uuid
  rs_workspaceId :: uuid
  rs_personaId :: uuid
  rs_kind :: string
  rs_title :: string
  rs_contentEnc :: "string option"
  rs_url :: "string option"
  rs_documentId :: "uuid option"
  rs_enabled :: bool
  rs_createdBySub :: string
  rs_createdAt :: ms

record grant_row =
  gt_id :: uuid
  gt_workspaceId :: uuid
  gt_granteeSub :: string
  gt_personaId :: "uuid option"
  gt_grantedBySub :: string
  gt_createdAt :: ms

record message_link_row =
  lk_messageId :: uuid
  lk_workspaceId :: uuid
  lk_entityType :: string
  lk_entityId :: uuid

record import_batch_row =
  ib_id :: uuid
  ib_workspaceId :: uuid
  ib_documentId :: "uuid option"
  ib_filename :: string
  ib_mime :: "string option"
  ib_status :: string
  ib_sheetCount :: int
  ib_errorText :: "string option"
  ib_createdBySub :: string
  ib_createdAt :: ms

record import_sheet_row =
  sh_id :: uuid
  sh_workspaceId :: uuid
  sh_batchId :: uuid
  sh_name :: string
  sh_ord :: int
  sh_headerRow :: int
  sh_rowCount :: int
  sh_colCount :: int
  sh_createdAt :: ms

record import_column_row =
  ic_id :: uuid
  ic_workspaceId :: uuid
  ic_sheetId :: uuid
  ic_ord :: int
  ic_name :: string
  ic_type :: string
  ic_sensitive :: bool
  ic_nullFrac :: int
  ic_sampleJson :: "string list option"
  ic_createdAt :: ms

text \<open>\<^verbatim>\<open>ColMap\<close> and \<^verbatim>\<open>MappingSpec\<close> of \<^verbatim>\<open>lib/domain/import-map.ts\<close>: a column goes to a standard target or to a custom field (entity, key, label,
  type). \<open>mp_createTasks\<close> is \<^verbatim>\<open>{ projectName?: string } | undefined\<close>.\<close>

datatype ColMap = StdMap string | CustomMap string string string string

record MappingColumn =
  mk_column :: string
  mk_map :: ColMap

record MappingSpec =
  mp_primaryEntity :: string
  mp_columns :: "MappingColumn list"
  mp_dedupeAccount :: string
  mp_dedupeContact :: string
  mp_createTasks :: "string option option"

record import_row_row =
  iw_id :: uuid
  iw_workspaceId :: uuid
  iw_sheetId :: uuid
  iw_rowIndex :: int
  iw_cells :: "(string \<times> string) list"
  iw_cellsEnc :: "string option"
  iw_dedupeKey :: "string option"
  iw_status :: string
  iw_confidence :: "decimal option"
  iw_linkedAccountId :: "uuid option"
  iw_linkedContactId :: "uuid option"
  iw_createdAt :: ms

record import_mapping_row =
  im_id :: uuid
  im_workspaceId :: uuid
  im_sheetId :: uuid
  im_spec :: MappingSpec
  im_approved :: bool
  im_createdBySub :: string
  im_createdAt :: ms
  im_updatedAt :: ms

record import_job_row =
  ij_id :: uuid
  ij_workspaceId :: uuid
  ij_sheetId :: uuid
  ij_mappingId :: "uuid option"
  ij_minConfidence :: "decimal option"
  ij_status :: string
  ij_cursor :: int
  ij_total :: int
  ij_createdCount :: int
  ij_updatedCount :: int
  ij_heldCount :: int
  ij_failedCount :: int
  ij_errorText :: "string option"
  ij_createdBySub :: string
  ij_createdAt :: ms
  ij_updatedAt :: ms

record memory_node_row =
  my_id :: uuid
  my_workspaceId :: uuid
  my_repo :: string
  my_plane :: string
  my_kind :: string
  my_contentEnc :: string
  my_anchorsJson :: "(string \<times> string) list option"
  my_trustTier :: string
  my_confidence :: int
  my_signature :: "string option"
  my_contentHash :: string
  my_embedding :: "string option"
  my_validFrom :: ms
  my_status :: string
  my_createdBySub :: "string option"
  my_createdAt :: ms

record memory_edge_row =
  mg_id :: uuid
  mg_workspaceId :: uuid
  mg_repo :: string
  mg_fromNode :: uuid
  mg_toNode :: uuid
  mg_kind :: string
  mg_evidenceEnc :: "string option"
  mg_status :: string
  mg_signature :: "string option"
  mg_createdBySub :: "string option"
  mg_createdAt :: ms

record db =
  workspaces :: "workspace_row list"
  members :: "member_row list"
  roleAssertions :: "role_assertion_row list"
  invites :: "invite_row list"
  channels :: "channel_row list"
  channelMembers :: "channel_member_row list"
  messages :: "message_row list"
  messageAttachments :: "message_attachment_row list"
  ledgerEntries :: "ledger_row list"
  auditLog :: "audit_row list"
  agentToolCalls :: "tool_call_row list"
  agentApprovals :: "approval_row list"
  documents :: "document_row list"
  notifications :: "notification_row list"
  accounts :: "account_row list"
  contacts :: "contact_row list"
  deals :: "deal_row list"
  projects :: "project_row list"
  boards :: "board_row list"
  boardColumns :: "board_column_row list"
  tasks :: "task_row list"
  taskRaci :: "task_raci_row list"
  calendarEvents :: "event_row list"
  eventAttendees :: "attendee_row list"
  eventReminders :: "reminder_row list"
  agentThreads :: "agent_thread_row list"
  crmFieldDefs :: "field_def_row list"
  crmFieldValues :: "field_value_row list"
  crmNotes :: "note_row list"
  crmNoteComments :: "note_comment_row list"
  crmActivity :: "activity_row list"
  crmTags :: "tag_row list"
  crmRecordTags :: "record_tag_row list"
  crmViews :: "view_row list"
  documentChunks :: "chunk_row list"
  emailSuppression :: "suppression_row list"
  workspaceSettings :: "settings_row list"
  agents :: "agent_row list"
  agentPersonas :: "persona_row list"
  agentPrompts :: "prompt_row list"
  agentSkills :: "skill_row list"
  agentMessages :: "agent_message_row list"
  agentResources :: "resource_row list"
  agentConfigGrants :: "grant_row list"
  messageLinks :: "message_link_row list"
  importBatches :: "import_batch_row list"
  importSheets :: "import_sheet_row list"
  importColumns :: "import_column_row list"
  importRows :: "import_row_row list"
  importMappings :: "import_mapping_row list"
  importJobs :: "import_job_row list"
  memoryNodes :: "memory_node_row list"
  memoryEdges :: "memory_edge_row list"
  roleAssertionsSerial :: int
  auditLogSerial :: int

definition empty_db :: db where
  "empty_db = \<lparr>workspaces = [], members = [], roleAssertions = [], invites = [], channels = [],
     channelMembers = [], messages = [], messageAttachments = [], ledgerEntries = [], auditLog = [],
     agentToolCalls = [], agentApprovals = [], documents = [], notifications = [],
     accounts = [], contacts = [], deals = [], projects = [], boards = [], boardColumns = [], tasks = [],
     taskRaci = [], calendarEvents = [], eventAttendees = [], eventReminders = [], agentThreads = [],
     crmFieldDefs = [], crmFieldValues = [], crmNotes = [], crmNoteComments = [], crmActivity = [],
     crmTags = [], crmRecordTags = [], crmViews = [], documentChunks = [], emailSuppression = [], workspaceSettings = [],
     agents = [], agentPersonas = [], agentPrompts = [], agentSkills = [], agentMessages = [], agentResources = [],
     agentConfigGrants = [], messageLinks = [], importBatches = [], importSheets = [], importColumns = [], importRows = [], importMappings = [],
     importJobs = [], memoryNodes = [], memoryEdges = [],
     roleAssertionsSerial = 1, auditLogSerial = 1\<rparr>"

subsection \<open>Constraints and inserts\<close>

definition has_workspace :: "db \<Rightarrow> uuid \<Rightarrow> bool" where
  "has_workspace s w \<longleftrightarrow> w \<in> ws_id ` set (workspaces s)"

definition has_channel :: "db \<Rightarrow> uuid \<Rightarrow> bool" where
  "has_channel s c \<longleftrightarrow> c \<in> ch_id ` set (channels s)"

definition has_message :: "db \<Rightarrow> uuid \<Rightarrow> bool" where
  "has_message s m \<longleftrightarrow> m \<in> ms_id ` set (messages s)"

definition has_document :: "db \<Rightarrow> uuid \<Rightarrow> bool" where
  "has_document s d \<longleftrightarrow> d \<in> dc_id ` set (documents s)"

definition has_tool_call :: "db \<Rightarrow> uuid \<Rightarrow> bool" where
  "has_tool_call s t \<longleftrightarrow> t \<in> tc_id ` set (agentToolCalls s)"

definition has_persona :: "db \<Rightarrow> uuid \<Rightarrow> bool" where
  "has_persona s p \<longleftrightarrow> p \<in> ps_id ` set (agentPersonas s)"

definition has_agent_thread :: "db \<Rightarrow> uuid \<Rightarrow> bool" where
  "has_agent_thread s t \<longleftrightarrow> t \<in> th_id ` set (agentThreads s)"

definition null_or :: "('a \<Rightarrow> bool) \<Rightarrow> 'a option \<Rightarrow> bool" where
  "null_or P x = (case x of None \<Rightarrow> True | Some y \<Rightarrow> P y)"

definition cm_key :: "channel_member_row \<Rightarrow> uuid \<times> string" where
  "cm_key r = (cm_channelId r, cm_sub r)"

definition mb_key :: "member_row \<Rightarrow> uuid \<times> string" where
  "mb_key r = (mb_workspaceId r, mb_sub r)"

definition ma_key :: "message_attachment_row \<Rightarrow> uuid \<times> uuid" where
  "ma_key r = (ma_messageId r, ma_documentId r)"

definition insert_workspace :: "workspace_row \<Rightarrow> (db, workspace_row) act" where
  "insert_workspace r = tbl_insert (\<lambda>s. \<not> has_workspace s (ws_id r)
      \<and> ws_slug r \<notin> ws_slug ` set (workspaces s)) workspaces_update r"

definition insert_member :: "member_row \<Rightarrow> (db, member_row) act" where
  "insert_member r = tbl_insert (\<lambda>s. mb_key r \<notin> mb_key ` set (members s)
      \<and> has_workspace s (mb_workspaceId r)) members_update r"

definition insert_role_assertion :: "role_assertion_row \<Rightarrow> (db, role_assertion_row) act" where
  "insert_role_assertion r s =
     (let r' = r\<lparr>ra_id := roleAssertionsSerial s\<rparr>
      in tbl_insert (\<lambda>s. has_workspace s (ra_workspaceId r)) roleAssertions_update r'
           (s\<lparr>roleAssertionsSerial := roleAssertionsSerial s + 1\<rparr>))"

definition insert_invite :: "invite_row \<Rightarrow> (db, invite_row) act" where
  "insert_invite r = tbl_insert (\<lambda>s. iv_tokenHash r \<notin> iv_tokenHash ` set (invites s)
      \<and> has_workspace s (iv_workspaceId r)) invites_update r"

definition insert_channel :: "channel_row \<Rightarrow> (db, channel_row) act" where
  "insert_channel r = tbl_insert (\<lambda>s. \<not> has_channel s (ch_id r)
      \<and> has_workspace s (ch_workspaceId r)) channels_update r"

definition insert_channel_member :: "channel_member_row \<Rightarrow> (db, channel_member_row) act" where
  "insert_channel_member r = tbl_insert (\<lambda>s. cm_key r \<notin> cm_key ` set (channelMembers s)
      \<and> has_channel s (cm_channelId r)) channelMembers_update r"

definition insert_message :: "message_row \<Rightarrow> (db, message_row) act" where
  "insert_message r = tbl_insert (\<lambda>s. \<not> has_message s (ms_id r)
      \<and> has_workspace s (ms_workspaceId r) \<and> has_channel s (ms_channelId r)) messages_update r"

definition insert_message_attachment :: "message_attachment_row \<Rightarrow> (db, message_attachment_row) act" where
  "insert_message_attachment r = tbl_insert (\<lambda>s. ma_key r \<notin> ma_key ` set (messageAttachments s)
      \<and> has_workspace s (ma_workspaceId r) \<and> has_message s (ma_messageId r)
      \<and> has_document s (ma_documentId r)) messageAttachments_update r"

definition insert_ledger :: "ledger_row \<Rightarrow> (db, ledger_row) act" where
  "insert_ledger r = tbl_insert (\<lambda>s. le_id r \<notin> le_id ` set (ledgerEntries s)
      \<and> has_workspace s (le_workspaceId r) \<and> has_channel s (le_channelId r)
      \<and> null_or (has_message s) (le_sourceMessageId r)) ledgerEntries_update r"

definition insert_audit :: "audit_row \<Rightarrow> (db, audit_row) act" where
  "insert_audit r s =
     (let r' = r\<lparr>au_seq := auditLogSerial s\<rparr>
      in tbl_insert (\<lambda>s. has_workspace s (au_workspaceId r)) auditLog_update r'
           (s\<lparr>auditLogSerial := auditLogSerial s + 1\<rparr>))"

definition insert_tool_call :: "tool_call_row \<Rightarrow> (db, tool_call_row) act" where
  "insert_tool_call r = tbl_insert (\<lambda>s. \<not> has_tool_call s (tc_id r)
      \<and> has_workspace s (tc_workspaceId r) \<and> null_or (has_agent_thread s) (tc_threadId r)
      \<and> null_or (has_persona s) (tc_personaId r)) agentToolCalls_update r"

definition insert_approval :: "approval_row \<Rightarrow> (db, approval_row) act" where
  "insert_approval r = tbl_insert (\<lambda>s. ap_id r \<notin> ap_id ` set (agentApprovals s)
      \<and> has_workspace s (ap_workspaceId r) \<and> has_tool_call s (ap_toolCallId r)
      \<and> null_or (has_persona s) (ap_personaId r)) agentApprovals_update r"

definition insert_notification :: "notification_row \<Rightarrow> (db, notification_row) act" where
  "insert_notification r = tbl_insert (\<lambda>s. nt_id r \<notin> nt_id ` set (notifications s)
      \<and> has_workspace s (nt_workspaceId r) \<and> null_or (has_channel s) (nt_channelId r))
      notifications_update r"

lemma null_or_simps [simp]: "null_or P None" "null_or P (Some x) = P x"
  by (simp_all add: null_or_def)

lemmas insert_defs = insert_workspace_def insert_member_def insert_role_assertion_def insert_invite_def
  insert_channel_def insert_channel_member_def insert_message_def insert_message_attachment_def
  insert_ledger_def insert_audit_def insert_tool_call_def insert_approval_def insert_notification_def

subsection \<open>Integrity\<close>

definition keys_ok :: "db \<Rightarrow> bool" where
  "keys_ok s \<longleftrightarrow> key_fun ws_id (workspaces s) \<and> key_fun ws_slug (workspaces s) \<and> key_fun mb_key (members s)
     \<and> key_fun iv_tokenHash (invites s) \<and> key_fun ch_id (channels s) \<and> key_fun cm_key (channelMembers s)
     \<and> key_fun ms_id (messages s) \<and> key_fun ma_key (messageAttachments s) \<and> key_fun le_id (ledgerEntries s)
     \<and> key_fun tc_id (agentToolCalls s) \<and> key_fun ap_id (agentApprovals s) \<and> key_fun nt_id (notifications s)"

definition refs_ok :: "db \<Rightarrow> bool" where
  "refs_ok s \<longleftrightarrow>
     (\<forall>r\<in>set (members s). has_workspace s (mb_workspaceId r))
     \<and> (\<forall>r\<in>set (invites s). has_workspace s (iv_workspaceId r))
     \<and> (\<forall>r\<in>set (channels s). has_workspace s (ch_workspaceId r))
     \<and> (\<forall>r\<in>set (channelMembers s). has_channel s (cm_channelId r))
     \<and> (\<forall>r\<in>set (messages s). has_workspace s (ms_workspaceId r) \<and> has_channel s (ms_channelId r))
     \<and> (\<forall>r\<in>set (messageAttachments s). has_message s (ma_messageId r) \<and> has_document s (ma_documentId r))
     \<and> (\<forall>r\<in>set (ledgerEntries s). has_channel s (le_channelId r))
     \<and> (\<forall>r\<in>set (auditLog s). has_workspace s (au_workspaceId r))
     \<and> (\<forall>r\<in>set (agentApprovals s). has_tool_call s (ap_toolCallId r))
     \<and> (\<forall>r\<in>set (notifications s). has_workspace s (nt_workspaceId r))"

definition serials_ok :: "db \<Rightarrow> bool" where
  "serials_ok s \<longleftrightarrow> sorted_wrt (<) (map au_seq (auditLog s)) \<and> (\<forall>r\<in>set (auditLog s). au_seq r < auditLogSerial s)"

definition db_ok :: "db \<Rightarrow> bool" where
  "db_ok s \<longleftrightarrow> keys_ok s \<and> refs_ok s \<and> serials_ok s"

lemmas has_defs = has_workspace_def has_channel_def has_message_def has_document_def has_tool_call_def

lemmas db_ok_defs = db_ok_def keys_ok_def refs_ok_def serials_ok_def has_defs

lemma db_ok_empty: "db_ok empty_db"
  by (simp add: db_ok_defs empty_db_def)

lemma preserves_tbl_insert:
  "(\<And>s. P s \<Longrightarrow> ok s \<Longrightarrow> P (upd (\<lambda>rs. rs @ [r]) s)) \<Longrightarrow> preserves P (tbl_insert ok upd r)"
  by (simp add: preserves_def tbl_insert_def)

lemma preserves_tbl_update:
  "(\<And>s. P s \<Longrightarrow> P (upd (upd_where Q f) s)) \<Longrightarrow> preserves P (tbl_update upd Q f)"
  by (simp add: preserves_def tbl_update_def)

lemma frames_tbl_insert:
  "(\<And>s. g (upd (\<lambda>rs. rs @ [r]) s) = g s) \<Longrightarrow> frames g (tbl_insert ok upd r)"
  by (simp add: frames_def tbl_insert_def)

lemma frames_tbl_update:
  "(\<And>s. g (upd (upd_where Q f) s) = g s) \<Longrightarrow> frames g (tbl_update upd Q f)"
  by (simp add: frames_def tbl_update_def)

lemma frames_tbl_delete: "(\<And>s f. g (upd f s) = g s) \<Longrightarrow> frames g (tbl_delete upd P)"
  by (simp add: frames_def tbl_delete_def)

lemma frames_case_prod: "(\<And>a b. frames f (k a b)) \<Longrightarrow> frames f (case p of (a, b) \<Rightarrow> k a b)"
  by (cases p) simp

lemma frames_case_list: "frames f a \<Longrightarrow> (\<And>x xs. frames f (k x xs)) \<Longrightarrow> frames f (case l of [] \<Rightarrow> a | x # xs \<Rightarrow> k x xs)"
  by (cases l) simp_all

lemma key_not_in: "k r \<notin> k ` set rs \<longleftrightarrow> (\<forall>x\<in>set rs. k x \<noteq> k r)"
  by (auto simp: image_iff)

lemma db_ok_insert_workspace [inv_intros]: "preserves db_ok (insert_workspace r)"
  unfolding insert_workspace_def
  by (rule preserves_tbl_insert) (simp add: db_ok_defs key_not_in image_iff, metis)

lemma db_ok_insert_member [inv_intros]: "preserves db_ok (insert_member r)"
  unfolding insert_member_def
  by (rule preserves_tbl_insert) (simp add: db_ok_defs key_not_in)

lemma db_ok_insert_invite [inv_intros]: "preserves db_ok (insert_invite r)"
  unfolding insert_invite_def
  by (rule preserves_tbl_insert) (simp add: db_ok_defs key_not_in)

lemma db_ok_insert_channel [inv_intros]: "preserves db_ok (insert_channel r)"
  unfolding insert_channel_def
  by (rule preserves_tbl_insert) (auto simp: db_ok_defs key_not_in)

lemma db_ok_insert_channel_member [inv_intros]: "preserves db_ok (insert_channel_member r)"
  unfolding insert_channel_member_def
  by (rule preserves_tbl_insert) (simp add: db_ok_defs key_not_in)

lemma db_ok_insert_message [inv_intros]: "preserves db_ok (insert_message r)"
  unfolding insert_message_def
  by (rule preserves_tbl_insert) (auto simp: db_ok_defs key_not_in)

lemma db_ok_insert_message_attachment [inv_intros]: "preserves db_ok (insert_message_attachment r)"
  unfolding insert_message_attachment_def
  by (rule preserves_tbl_insert) (simp add: db_ok_defs key_not_in)

lemma db_ok_insert_ledger [inv_intros]: "preserves db_ok (insert_ledger r)"
  unfolding insert_ledger_def
  by (rule preserves_tbl_insert) (simp add: db_ok_defs key_not_in)

lemma db_ok_insert_tool_call [inv_intros]: "preserves db_ok (insert_tool_call r)"
  unfolding insert_tool_call_def
  by (rule preserves_tbl_insert) (auto simp: db_ok_defs key_not_in)

lemma db_ok_insert_approval [inv_intros]: "preserves db_ok (insert_approval r)"
  unfolding insert_approval_def
  by (rule preserves_tbl_insert) (simp add: db_ok_defs key_not_in)

lemma db_ok_insert_notification [inv_intros]: "preserves db_ok (insert_notification r)"
  unfolding insert_notification_def
  by (rule preserves_tbl_insert) (simp add: db_ok_defs key_not_in)

lemma db_ok_insert_role_assertion [inv_intros]: "preserves db_ok (insert_role_assertion r)"
  by (simp add: preserves_def insert_role_assertion_def tbl_insert_def Let_def db_ok_defs)

lemma db_ok_insert_audit [inv_intros]: "preserves db_ok (insert_audit r)"
  by (auto simp: preserves_def insert_audit_def tbl_insert_def Let_def db_ok_defs sorted_wrt_append less_Suc_eq)

end
