(* ===== verification/Encoding.thy ===== *)
theory Encoding
  imports Prelude
begin

text \<open>
  The two binary-to-text encodings of the runtime that the web tier stores and compares: base64
  (\<^verbatim>\<open>Buffer.toString("base64")\<close> / \<^verbatim>\<open>Buffer.from(s, "base64")\<close>) and hexadecimal. The base64 decoder
  accepts both alphabets and skips characters outside them, padding included, as the runtime's does;
  the hexadecimal decoder stops at the first pair that is not hexadecimal.
\<close>

subsection \<open>Base64\<close>

definition b64_char :: "nat \<Rightarrow> char" where
  "b64_char n = char_of (if n < 26 then n + 65 else if n < 52 then n + 71
     else if n < 62 then n - 4 else if n = 62 then 43 else (47 :: nat))"

definition b64_val :: "char \<Rightarrow> nat option" where
  "b64_val c = (let n = of_char c :: nat in
     if 65 \<le> n \<and> n \<le> 90 then Some (n - 65)
     else if 97 \<le> n \<and> n \<le> 122 then Some (n - 71)
     else if 48 \<le> n \<and> n \<le> 57 then Some (n + 4)
     else if n = 43 \<or> n = 45 then Some 62
     else if n = 47 \<or> n = 95 then Some 63
     else None)"

fun b64_digits :: "nat list \<Rightarrow> nat list" where
  "b64_digits (a # b # c # r) =
     (a div 4) # ((a mod 4) * 16 + b div 16) # ((b mod 16) * 4 + c div 64) # (c mod 64) # b64_digits r"
| "b64_digits [a, b] = [a div 4, (a mod 4) * 16 + b div 16, (b mod 16) * 4]"
| "b64_digits [a] = [a div 4, (a mod 4) * 16]"
| "b64_digits [] = []"

fun b64_bytes :: "nat list \<Rightarrow> nat list" where
  "b64_bytes (p # q # r # s # t) =
     (p * 4 + q div 16) # ((q mod 16) * 16 + r div 4) # ((r mod 4) * 64 + s) # b64_bytes t"
| "b64_bytes [p, q, r] = [p * 4 + q div 16, (q mod 16) * 16 + r div 4]"
| "b64_bytes [p, q] = [p * 4 + q div 16]"
| "b64_bytes [p] = []"
| "b64_bytes [] = []"

definition b64_pad :: "nat \<Rightarrow> string" where
  "b64_pad n = (if n mod 3 = 1 then ''=='' else if n mod 3 = 2 then ''='' else [])"

definition b64_encode :: "string \<Rightarrow> string" where
  "b64_encode s = map b64_char (b64_digits (map of_char s)) @ b64_pad (length s)"

definition b64_decode :: "string \<Rightarrow> string" where
  "b64_decode s = map char_of (b64_bytes (List.map_filter b64_val s))"

lemma b64_val_char: "n < 64 \<Longrightarrow> b64_val (b64_char n) = Some n"
  by (auto simp: b64_val_def b64_char_def Let_def)

lemma div16_bound: "(b :: nat) < 256 \<Longrightarrow> b div 16 < 16"
  by (rule less_mult_imp_div_less) simp

lemma div64_bound: "(b :: nat) < 256 \<Longrightarrow> b div 64 < 4"
  by (rule less_mult_imp_div_less) simp

lemma div4_bound: "(b :: nat) < 256 \<Longrightarrow> b div 4 < 64"
  by (rule less_mult_imp_div_less) simp

lemma b64_digit2: "(b :: nat) < 256 \<Longrightarrow> (a mod 4) * 16 + b div 16 < 64"
  using div16_bound [of b] mod_less_divisor [of 4 a] by linarith

lemma b64_digit3: "(c :: nat) < 256 \<Longrightarrow> (b mod 16) * 4 + c div 64 < 64"
  using div64_bound [of c] mod_less_divisor [of 16 b] by linarith

lemma b64_digits_bound: "\<forall>x\<in>set xs. x < 256 \<Longrightarrow> \<forall>y\<in>set (b64_digits xs). y < 64"
proof (induction xs rule: b64_digits.induct)
  case (1 a b c r)
  then show ?case by (simp add: div4_bound b64_digit2 b64_digit3)
next
  case (2 a b)
  then show ?case using b64_digit3 [of 0 b] by (simp add: div4_bound b64_digit2)
next
  case (3 a)
  then show ?case using b64_digit2 [of 0 a] by (simp add: div4_bound)
qed simp

lemma b64_group1: "(b :: nat) < 256 \<Longrightarrow> a div 4 * 4 + ((a mod 4) * 16 + b div 16) div 16 = a"
  using div16_bound [of b] by simp

lemma b64_group2:
  assumes "(b :: nat) < 256" "c < 256"
  shows "(((a mod 4) * 16 + b div 16) mod 16) * 16 + ((b mod 16) * 4 + c div 64) div 4 = b"
proof -
  have "((a mod 4) * 16 + b div 16) mod 16 = b div 16" using div16_bound [OF assms(1)] by simp
  moreover have "((b mod 16) * 4 + c div 64) div 4 = b mod 16" using div64_bound [OF assms(2)] by simp
  ultimately show ?thesis by simp
qed

lemma b64_group3:
  assumes "(c :: nat) < 256"
  shows "(((b mod 16) * 4 + c div 64) mod 4) * 64 + c mod 64 = c"
proof -
  have "((b mod 16) * 4 + c div 64) mod 4 = c div 64" using div64_bound [OF assms] by simp
  then show ?thesis by simp
qed

lemma b64_bytes_digits: "\<forall>x\<in>set xs. x < 256 \<Longrightarrow> b64_bytes (b64_digits xs) = xs"
proof (induction xs rule: b64_digits.induct)
  case (1 a b c r)
  then have "a < 256" "b < 256" "c < 256" "b64_bytes (b64_digits r) = r" by auto
  then show ?case by (simp only: b64_digits.simps b64_bytes.simps b64_group1 b64_group2 b64_group3)
next
  case (2 a b)
  then show ?case using b64_group1 [of b a] b64_group2 [of b 0 a] by simp
next
  case (3 a)
  then show ?case using b64_group1 [of 0 a] by simp
qed simp

lemma map_filter_append: "List.map_filter f (xs @ ys) = List.map_filter f xs @ List.map_filter f ys"
  by (simp add: List.map_filter_def)

lemma map_filter_b64: "\<forall>y\<in>set ys. y < 64 \<Longrightarrow> List.map_filter b64_val (map b64_char ys) = ys"
  by (induction ys) (auto simp: b64_val_char)

lemma map_filter_pad: "List.map_filter b64_val (b64_pad n) = []"
  by (simp add: b64_pad_def b64_val_def)

lemma of_char_bytes: "\<forall>x\<in>set (map of_char s). x < (256 :: nat)"
  by auto

lemma map_char_of_char: "map char_of (map (of_char :: char \<Rightarrow> nat) s) = s"
  by (induction s) auto

theorem b64_roundtrip: "b64_decode (b64_encode s) = s"
proof -
  have "List.map_filter b64_val (b64_encode s) = b64_digits (map of_char s)"
    using map_filter_b64 [OF b64_digits_bound [OF of_char_bytes]]
    by (simp add: b64_encode_def map_filter_append map_filter_pad)
  then show ?thesis
    by (simp only: b64_decode_def b64_bytes_digits [OF of_char_bytes] map_char_of_char)
qed

text \<open>The alphabet contains neither the envelope separator nor the token separator.\<close>

lemma b64_char_safe:
  assumes "n < 64"
  shows "b64_char n \<noteq> CHR '':''" "b64_char n \<noteq> CHR ''.''" "b64_char n \<noteq> CHR '' ''"
proof -
  have v: "b64_val (b64_char n) = Some n" using assms by (rule b64_val_char)
  have "b64_val (CHR '':'') = None" "b64_val (CHR ''.'') = None" "b64_val (CHR '' '') = None"
    by (simp_all add: b64_val_def)
  with v show "b64_char n \<noteq> CHR '':''" "b64_char n \<noteq> CHR ''.''" "b64_char n \<noteq> CHR '' ''" by auto
qed

lemma b64_encode_chars:
  assumes "c \<in> set (b64_encode s)"
  shows "c \<noteq> CHR '':'' \<and> c \<noteq> CHR ''.'' \<and> c \<noteq> CHR '' ''"
proof (cases "c \<in> set (b64_pad (length s))")
  case True
  then show ?thesis by (auto simp: b64_pad_def split: if_splits)
next
  case False
  with assms obtain d where "d \<in> set (b64_digits (map of_char s))" "c = b64_char d"
    by (auto simp: b64_encode_def)
  moreover from this(1) have "d < 64" using b64_digits_bound [OF of_char_bytes, of s] by blast
  ultimately show ?thesis using b64_char_safe [of d] by simp
qed

lemma b64_encode_Nil [simp]: "b64_encode [] = []"
  by (simp add: b64_encode_def b64_pad_def)

lemma b64_encode_eq_Nil_iff [simp]: "b64_encode s = [] \<longleftrightarrow> s = []"
proof
  assume "b64_encode s = []"
  then have "b64_decode (b64_encode s) = b64_decode []" by simp
  then show "s = []" by (simp add: b64_roundtrip) (simp add: b64_decode_def)
qed simp

subsection \<open>The URL-safe variant\<close>

definition replace_char :: "char \<Rightarrow> char \<Rightarrow> string \<Rightarrow> string" where
  "replace_char a b s = map (\<lambda>c. if c = a then b else c) s"

definition strip_trailing :: "char \<Rightarrow> string \<Rightarrow> string" where
  "strip_trailing a s = rev (dropWhile (\<lambda>c. c = a) (rev s))"

definition b64url :: "string \<Rightarrow> string" where
  "b64url buf = strip_trailing (CHR ''='') (replace_char (CHR ''/'') (CHR ''_'')
                  (replace_char (CHR ''+'') (CHR ''-'') (b64_encode buf)))"

definition fromB64url :: "string \<Rightarrow> string" where
  "fromB64url s = b64_decode (replace_char (CHR ''_'') (CHR ''/'') (replace_char (CHR ''-'') (CHR ''+'') s))"

lemma map_filter_swap:
  "b64_val a = b64_val b \<Longrightarrow> List.map_filter b64_val (replace_char a b s) = List.map_filter b64_val s"
  by (induction s) (simp_all add: replace_char_def split: option.split)

lemma b64_val_aliases:
  "b64_val (CHR ''+'') = b64_val (CHR ''-'')" "b64_val (CHR ''/'') = b64_val (CHR ''_'')"
  "b64_val (CHR ''='') = None"
  by (simp_all add: b64_val_def)

lemma map_filter_strip:
  "b64_val a = None \<Longrightarrow> List.map_filter b64_val (strip_trailing a s) = List.map_filter b64_val s"
proof -
  assume a: "b64_val a = None"
  have "List.map_filter b64_val (rev (dropWhile (\<lambda>c. c = a) xs)) = List.map_filter b64_val (rev xs)" for xs
    by (induction xs) (auto simp: map_filter_append a)
  from this [of "rev s"] show ?thesis by (simp add: strip_trailing_def)
qed

theorem b64url_roundtrip: "fromB64url (b64url s) = s"
proof -
  have "List.map_filter b64_val (b64url s) = List.map_filter b64_val (b64_encode s)"
    by (simp add: b64url_def map_filter_strip map_filter_swap b64_val_aliases)
  then have "fromB64url (b64url s) = b64_decode (b64_encode s)"
    by (simp add: fromB64url_def b64_decode_def map_filter_swap b64_val_aliases)
  then show ?thesis by (simp add: b64_roundtrip)
qed

lemma set_strip_trailing: "set (strip_trailing a s) \<subseteq> set s"
  by (auto simp: strip_trailing_def dest: set_dropWhileD)

lemma b64url_chars: "CHR ''.'' \<notin> set (b64url s)"
proof
  assume "CHR ''.'' \<in> set (b64url s)"
  then have "CHR ''.'' \<in> set (replace_char (CHR ''/'') (CHR ''_'') (replace_char (CHR ''+'') (CHR ''-'') (b64_encode s)))"
    using set_strip_trailing by (auto simp: b64url_def)
  then have "CHR ''.'' \<in> set (b64_encode s)" by (auto simp: replace_char_def split: if_splits)
  then show False using b64_encode_chars by blast
qed

lemma b64url_eq_Nil_iff: "b64url s = [] \<longleftrightarrow> s = []"
proof
  assume "b64url s = []"
  moreover have "fromB64url [] = []" by (simp add: fromB64url_def b64_decode_def replace_char_def)
  ultimately show "s = []" using b64url_roundtrip [of s] by simp
qed (simp add: b64url_def replace_char_def strip_trailing_def)

subsection \<open>Hexadecimal\<close>

definition hex_char :: "nat \<Rightarrow> char" where
  "hex_char n = char_of (if n < 10 then n + 48 else n + 87 :: nat)"

definition hex_val :: "char \<Rightarrow> nat option" where
  "hex_val c = (let n = of_char c :: nat in
     if 48 \<le> n \<and> n \<le> 57 then Some (n - 48)
     else if 97 \<le> n \<and> n \<le> 102 then Some (n - 87)
     else if 65 \<le> n \<and> n \<le> 70 then Some (n - 55)
     else None)"

fun hex_encode :: "string \<Rightarrow> string" where
  "hex_encode [] = []"
| "hex_encode (c # s) = hex_char (of_char c div 16) # hex_char (of_char c mod 16) # hex_encode s"

fun hex_decode :: "string \<Rightarrow> string" where
  "hex_decode (a # b # s) =
     (case (hex_val a, hex_val b) of
        (Some x, Some y) \<Rightarrow> char_of (16 * x + y) # hex_decode s
      | _ \<Rightarrow> [])"
| "hex_decode _ = []"

lemma hex_val_char: "n < 16 \<Longrightarrow> hex_val (hex_char n) = Some n"
  by (auto simp: hex_val_def hex_char_def Let_def)

lemma of_char_div16: "(of_char c :: nat) div 16 < 16"
  by (rule div16_bound) simp

theorem hex_roundtrip: "hex_decode (hex_encode s) = s"
  by (induction s) (simp_all add: hex_val_char of_char_div16)

lemma length_hex_encode [simp]: "length (hex_encode s) = 2 * length s"
  by (induction s) auto

lemma hex_encode_inj: "hex_encode s = hex_encode t \<longleftrightarrow> s = t"
  using hex_roundtrip by metis

end
