(* ===== verification/Crypto.thy ===== *)
theory Crypto
  imports Encoding
begin

text \<open>
  \<^verbatim>\<open>lib/security/crypto.ts\<close>: field encryption, blind indexes, the keyed audit MAC, invite-token hashes
  and unsubscribe tokens. The primitives of \<^verbatim>\<open>node:crypto\<close> (HKDF, AES-256-GCM, HMAC-SHA256, SHA-256) are
  fields of \<open>crypto_env\<close>, together with the environment variable \<^verbatim>\<open>COMMS_ENC_KEY\<close>; random bytes are
  arguments. What the code relies on is stated by \<open>gcm_ok\<close>: opening what was sealed gives the
  plaintext, the tag has 16 bytes, the ciphertext is as long as the plaintext.
\<close>

record crypto_env =
  COMMS_ENC_KEY :: "string option"
  hkdf :: "string \<Rightarrow> string \<Rightarrow> string \<Rightarrow> string"
  gcm_seal :: "string \<Rightarrow> string \<Rightarrow> string \<Rightarrow> string \<times> string"
  gcm_open :: "string \<Rightarrow> string \<Rightarrow> string \<Rightarrow> string \<Rightarrow> string option"
  hmac_sha256 :: "string \<Rightarrow> string \<Rightarrow> string"
  sha256 :: "string \<Rightarrow> string"

definition gcm_ok :: "crypto_env \<Rightarrow> bool" where
  "gcm_ok E \<longleftrightarrow>
     (\<forall>k iv m. gcm_open E k iv (fst (gcm_seal E k iv m)) (snd (gcm_seal E k iv m)) = Some m
        \<and> length (snd (gcm_seal E k iv m)) = 16
        \<and> length (fst (gcm_seal E k iv m)) = length m)"

subsection \<open>Keys\<close>

definition masterKey :: "crypto_env \<Rightarrow> err + string" where
  "masterKey E = (case COMMS_ENC_KEY E of
      None \<Rightarrow> Inl (JsError ''COMMS_ENC_KEY is not set (32-byte base64 key)'')
    | Some b64 \<Rightarrow>
        if b64 = [] then Inl (JsError ''COMMS_ENC_KEY is not set (32-byte base64 key)'')
        else if length (b64_decode b64) \<noteq> 32 then Inl (JsError ''COMMS_ENC_KEY must decode to 32 bytes'')
        else Inr (b64_decode b64))"

definition derive :: "crypto_env \<Rightarrow> string \<Rightarrow> string \<Rightarrow> err + string" where
  "derive E salt info = (case masterKey E of Inl e \<Rightarrow> Inl e | Inr mk \<Rightarrow> Inr (hkdf E mk salt info))"

definition workspaceKey :: "crypto_env \<Rightarrow> uuid \<Rightarrow> err + string" where
  "workspaceKey E w = derive E w ''comms-field-v1''"

definition signKey :: "crypto_env \<Rightarrow> uuid \<Rightarrow> err + string" where
  "signKey E w = derive E w ''comms-assert-sig-v1''"

definition unsubKey :: "crypto_env \<Rightarrow> err + string" where
  "unsubKey E = derive E ''unsubscribe'' ''comms-unsub-v1''"

subsection \<open>Field encryption\<close>

definition encryptField :: "crypto_env \<Rightarrow> string \<Rightarrow> uuid \<Rightarrow> string \<Rightarrow> err + string" where
  "encryptField E iv w plaintext = (case workspaceKey E w of Inl e \<Rightarrow> Inl e | Inr k \<Rightarrow>
     (let (ct, tag) = gcm_seal E k iv plaintext
      in Inr (''v1:'' @ b64_encode iv @ '':'' @ b64_encode tag @ '':'' @ b64_encode ct)))"

definition bad_envelope :: err where
  "bad_envelope = JsError ''bad ciphertext envelope''"

definition decryptField :: "crypto_env \<Rightarrow> uuid \<Rightarrow> string \<Rightarrow> err + string" where
  "decryptField E w packed = (case js_split (CHR '':'') packed of
      v # ivb # tagb # ctb # _ \<Rightarrow>
        if v \<noteq> ''v1'' \<or> ivb = [] \<or> tagb = [] \<or> ctb = [] then Inl bad_envelope
        else if length (b64_decode tagb) \<noteq> 16
          then Inl (JsError ''bad ciphertext envelope: GCM auth tag must be 16 bytes'')
        else (case workspaceKey E w of Inl e \<Rightarrow> Inl e | Inr k \<Rightarrow>
               (case gcm_open E k (b64_decode ivb) (b64_decode ctb) (b64_decode tagb) of
                  None \<Rightarrow> Inl (JsError ''Unsupported state or unable to authenticate data'')
                | Some m \<Rightarrow> Inr m))
    | _ \<Rightarrow> Inl bad_envelope)"

subsection \<open>MACs, blind indexes and hashes\<close>

definition signWorkspace :: "crypto_env \<Rightarrow> uuid \<Rightarrow> string \<Rightarrow> err + string" where
  "signWorkspace E w msg = (case signKey E w of Inl e \<Rightarrow> Inl e | Inr k \<Rightarrow> Inr (hex_encode (hmac_sha256 E k msg)))"

definition verifyWorkspaceSig :: "crypto_env \<Rightarrow> uuid \<Rightarrow> string \<Rightarrow> string \<Rightarrow> err + bool" where
  "verifyWorkspaceSig E w msg sig = (case signWorkspace E w msg of Inl e \<Rightarrow> Inl e
     | Inr expected \<Rightarrow> Inr (length (hex_decode expected) = length (hex_decode sig)
                              \<and> hex_decode expected = hex_decode sig))"

definition blindIndex :: "crypto_env \<Rightarrow> uuid \<Rightarrow> string \<Rightarrow> string \<Rightarrow> err + string" where
  "blindIndex E w domain v = (case derive E w (''comms-blind-'' @ domain @ ''-v1'') of Inl e \<Rightarrow> Inl e
     | Inr k \<Rightarrow> Inr (hex_encode (hmac_sha256 E k v)))"

definition hashId :: "crypto_env \<Rightarrow> string \<Rightarrow> err + string" where
  "hashId E v = (case derive E ''comms-hashid'' ''comms-hashid-v1'' of Inl e \<Rightarrow> Inl e
     | Inr salt \<Rightarrow> Inr (take 32 (hex_encode (hmac_sha256 E salt v))))"

definition auditMac :: "crypto_env \<Rightarrow> uuid \<Rightarrow> string \<Rightarrow> err + string" where
  "auditMac E w msg = (case derive E w ''comms-audit-chain-v1'' of Inl e \<Rightarrow> Inl e
     | Inr k \<Rightarrow> Inr (hex_encode (hmac_sha256 E k msg)))"

definition hashToken :: "crypto_env \<Rightarrow> string \<Rightarrow> string" where
  "hashToken E token = hex_encode (sha256 E token)"

subsection \<open>Unsubscribe tokens\<close>

definition unsubscribeToken :: "crypto_env \<Rightarrow> string \<Rightarrow> err + string" where
  "unsubscribeToken E email = (let e = js_lower (js_trim email) in
     case unsubKey E of Inl x \<Rightarrow> Inl x
     | Inr k \<Rightarrow> Inr (b64url e @ ''.'' @ b64url (hmac_sha256 E k e)))"

definition verifyUnsubscribeToken :: "crypto_env \<Rightarrow> string \<Rightarrow> err + string option" where
  "verifyUnsubscribeToken E token = (case js_split (CHR ''.'') token of
      ePart # macPart # _ \<Rightarrow>
        if ePart = [] \<or> macPart = [] then Inr None
        else (let email = fromB64url ePart in
              case unsubKey E of Inl x \<Rightarrow> Inl x
              | Inr k \<Rightarrow>
                  (if length (fromB64url macPart) \<noteq> length (hmac_sha256 E k email)
                      \<or> fromB64url macPart \<noteq> hmac_sha256 E k email
                   then Inr None else Inr (Some email)))
    | _ \<Rightarrow> Inr None)"

subsection \<open>Properties\<close>

text \<open>The key is provisioned: every derivation succeeds.\<close>

definition provisioned :: "crypto_env \<Rightarrow> bool" where
  "provisioned E \<longleftrightarrow> (\<exists>mk. masterKey E = Inr mk)"

lemma derive_provisioned: "provisioned E \<Longrightarrow> \<exists>k. derive E salt info = Inr k"
  by (auto simp: provisioned_def derive_def)

lemma not_provisioned: "\<not> provisioned E \<Longrightarrow> \<exists>e. masterKey E = Inl e"
  by (cases "masterKey E") (auto simp: provisioned_def)

lemma encryptField_Inr:
  assumes "provisioned E"
  obtains k where "workspaceKey E w = Inr k"
    "encryptField E iv w m = Inr (''v1:'' @ b64_encode iv @ '':'' @ b64_encode (snd (gcm_seal E k iv m))
       @ '':'' @ b64_encode (fst (gcm_seal E k iv m)))"
proof -
  obtain k where k: "workspaceKey E w = Inr k"
    using derive_provisioned [OF assms] by (auto simp: workspaceKey_def)
  show thesis by (rule that [OF k]) (simp add: encryptField_def k split: prod.splits)
qed

lemma envelope_split:
  "js_split (CHR '':'') (''v1:'' @ b64_encode a @ '':'' @ b64_encode b @ '':'' @ b64_encode c)
   = [''v1'', b64_encode a, b64_encode b, b64_encode c]"
proof -
  have no: "CHR '':'' \<notin> set (b64_encode x)" for x using b64_encode_chars by blast
  show ?thesis using js_split_append [OF no] js_split_none [OF no] by simp
qed

text \<open>A non-empty field decrypts, in its own workspace, to what was encrypted.\<close>

lemma decrypt_encrypt:
  assumes "gcm_ok E" "provisioned E" "iv \<noteq> []" "m \<noteq> []" "encryptField E iv w m = Inr packed"
  shows "decryptField E w packed = Inr m"
proof -
  obtain k where k: "workspaceKey E w = Inr k"
    "encryptField E iv w m = Inr (''v1:'' @ b64_encode iv @ '':'' @ b64_encode (snd (gcm_seal E k iv m))
       @ '':'' @ b64_encode (fst (gcm_seal E k iv m)))"
    by (rule encryptField_Inr [OF assms(2)])
  have g: "gcm_open E k iv (fst (gcm_seal E k iv m)) (snd (gcm_seal E k iv m)) = Some m"
    "length (snd (gcm_seal E k iv m)) = 16" "length (fst (gcm_seal E k iv m)) = length m"
    using assms(1) by (auto simp: gcm_ok_def)
  have ne: "snd (gcm_seal E k iv m) \<noteq> []" "fst (gcm_seal E k iv m) \<noteq> []"
    using g(2,3) assms(4) by auto
  show ?thesis using k assms(3,5) g ne
    by (auto simp: decryptField_def envelope_split b64_roundtrip simp del: append.simps)
qed

text \<open>An empty field does not: the ciphertext part of its envelope is empty, which the decoder refuses.\<close>

lemma decrypt_encrypt_empty:
  assumes "gcm_ok E" "provisioned E" "encryptField E iv w [] = Inr packed"
  shows "decryptField E w packed = Inl bad_envelope"
proof -
  obtain k where k: "workspaceKey E w = Inr k"
    "encryptField E iv w [] = Inr (''v1:'' @ b64_encode iv @ '':'' @ b64_encode (snd (gcm_seal E k iv []))
       @ '':'' @ b64_encode (fst (gcm_seal E k iv [])))"
    by (rule encryptField_Inr [OF assms(2)])
  have "length (fst (gcm_seal E k iv [])) = 0" using assms(1) by (simp add: gcm_ok_def)
  then have nil: "fst (gcm_seal E k iv []) = []" by simp
  have p: "packed = ''v1:'' @ b64_encode iv @ '':'' @ b64_encode (snd (gcm_seal E k iv []))
       @ '':'' @ b64_encode (fst (gcm_seal E k iv []))"
    using k(2) assms(3) by simp
  show ?thesis unfolding p decryptField_def envelope_split using nil by simp
qed

lemma verify_unsubscribe:
  assumes "provisioned E" "js_trim email \<noteq> []" "\<And>k m. hmac_sha256 E k m \<noteq> []"
  shows "\<exists>t. unsubscribeToken E email = Inr t
       \<and> verifyUnsubscribeToken E t = Inr (Some (js_lower (js_trim email)))"
proof -
  obtain k where k: "unsubKey E = Inr k" using derive_provisioned [OF assms(1)] by (auto simp: unsubKey_def)
  let ?e = "js_lower (js_trim email)"
  have ne: "?e \<noteq> []" using assms(2) by (simp add: js_lower_def)
  have s: "js_split (CHR ''.'') (b64url ?e @ ''.'' @ b64url (hmac_sha256 E k ?e))
        = [b64url ?e, b64url (hmac_sha256 E k ?e)]"
    using js_split_append [OF b64url_chars] js_split_none [OF b64url_chars] by simp
  show ?thesis using k ne assms(3)
    by (simp add: unsubscribeToken_def verifyUnsubscribeToken_def Let_def s b64url_roundtrip b64url_eq_Nil_iff
        del: append.simps)
qed

lemma verify_unsubscribe_sound:
  assumes "verifyUnsubscribeToken E t = Inr (Some e)"
  shows "\<exists>k macPart rest. unsubKey E = Inr k \<and> js_split (CHR ''.'') t = (hd (js_split (CHR ''.'') t)) # macPart # rest
      \<and> fromB64url macPart = hmac_sha256 E k e \<and> e = fromB64url (hd (js_split (CHR ''.'') t))"
  using assms
  by (auto simp: verifyUnsubscribeToken_def Let_def split: list.splits if_splits sum.splits)

text \<open>A concrete environment: stand-in primitives that satisfy the stated laws, used by the witnesses.\<close>

definition demo_env :: crypto_env where
  "demo_env = \<lparr>COMMS_ENC_KEY = Some (b64_encode (replicate 32 (CHR ''k''))),
     hkdf = (\<lambda>mk salt info. mk @ salt @ info),
     gcm_seal = (\<lambda>k iv m. (rev m, replicate 16 (CHR ''t''))),
     gcm_open = (\<lambda>k iv ct tag. if tag = replicate 16 (CHR ''t'') then Some (rev ct) else None),
     hmac_sha256 = (\<lambda>k m. CHR ''h'' # k @ m),
     sha256 = (\<lambda>m. CHR ''s'' # m)\<rparr>"

lemma gcm_ok_demo: "gcm_ok demo_env"
  by (simp add: gcm_ok_def demo_env_def)

lemma masterKey_demo: "masterKey demo_env = Inr (replicate 32 (CHR ''k''))"
proof -
  have "b64_encode (replicate 32 (CHR ''k'')) \<noteq> []" by simp
  then show ?thesis by (simp add: masterKey_def demo_env_def b64_roundtrip del: replicate.simps)
qed

lemma provisioned_demo: "provisioned demo_env"
  by (simp add: provisioned_def masterKey_demo)

end
