(* ===== verification/Auth.thy ===== *)
theory Auth
  imports Crypto
begin

text \<open>
  \<^verbatim>\<open>lib/auth/cookies.ts\<close>, \<^verbatim>\<open>lib/auth/session.ts\<close> and \<^verbatim>\<open>lib/auth/pkce.ts\<close>: where a request's identity comes from.
  A request is its method, path and headers (names in lower case). The environment variables, the
  token verifier of the \<^verbatim>\<open>jose\<close> package and the JSON parser are fields of \<open>auth_env\<close>; string-typed claims
  are read as strings, as the source's type annotations do. Warning flags that only suppress repeated
  log lines are not part of the state.
\<close>

datatype json = JNull | JBool bool | JNum int | JStr string | JArr "json list" | JObj "(string \<times> json) list"

type_synonym claims = "string \<Rightarrow> json option"

record request =
  rq_method :: string
  rq_pathname :: string
  rq_headers :: "string \<Rightarrow> string option"

record auth_env =
  env :: "string \<Rightarrow> string option"
  jwtVerify :: "string \<Rightarrow> string \<Rightarrow> string \<Rightarrow> claims option"
  parseClaims :: "string \<Rightarrow> claims option"

text \<open>\<open>truthy\<close> is JavaScript's test of a possibly missing string; \<open>or_else\<close> its \<^verbatim>\<open>||\<close>.\<close>

definition truthy :: "string option \<Rightarrow> bool" where
  "truthy x = (case x of None \<Rightarrow> False | Some s \<Rightarrow> s \<noteq> [])"

definition or_else :: "string option \<Rightarrow> string option \<Rightarrow> string option" where
  "or_else a b = (if truthy a then a else b)"

subsection \<open>URI component coding\<close>

definition hex_byte :: "char \<Rightarrow> char \<Rightarrow> nat option" where
  "hex_byte a b = (case (hex_val a, hex_val b) of (Some x, Some y) \<Rightarrow> Some (16 * x + y) | _ \<Rightarrow> None)"

definition utf8_conts :: "nat \<Rightarrow> nat option" where
  "utf8_conts b = (if b < 128 then Some 0
     else if 194 \<le> b \<and> b \<le> 223 then Some 1
     else if 224 \<le> b \<and> b \<le> 239 then Some 2
     else if 240 \<le> b \<and> b \<le> 244 then Some 3 else None)"

definition utf8_second_ok :: "nat \<Rightarrow> nat list \<Rightarrow> bool" where
  "utf8_second_ok b cs = (case cs of [] \<Rightarrow> True | c # _ \<Rightarrow>
     (b = 224 \<longrightarrow> 160 \<le> c) \<and> (b = 237 \<longrightarrow> c \<le> 159) \<and> (b = 240 \<longrightarrow> 144 \<le> c) \<and> (b = 244 \<longrightarrow> c \<le> 143))"

fun take_conts :: "nat \<Rightarrow> string \<Rightarrow> (nat list \<times> string) option" where
  "take_conts 0 s = Some ([], s)"
| "take_conts (Suc n) (p # a # b # s) =
     (if p = CHR ''%'' then
        (case hex_byte a b of
           Some c \<Rightarrow> if 128 \<le> c \<and> c \<le> 191
                     then map_option (\<lambda>(cs, r). (c # cs, r)) (take_conts n s) else None
         | None \<Rightarrow> None)
      else None)"
| "take_conts (Suc n) _ = None"

lemma take_conts_length: "take_conts n s = Some (cs, r) \<Longrightarrow> length r \<le> length s"
  by (induction n s arbitrary: cs r rule: take_conts.induct) (auto split: if_splits option.splits, fastforce)

function decodeURIComponent :: "string \<Rightarrow> string option" where
  "decodeURIComponent s = (case s of
      [] \<Rightarrow> Some []
    | c # rest \<Rightarrow>
        if c \<noteq> CHR ''%'' then map_option (Cons c) (decodeURIComponent rest)
        else (case rest of a # b # rest' \<Rightarrow>
               (case hex_byte a b of None \<Rightarrow> None | Some x \<Rightarrow>
                 (case utf8_conts x of None \<Rightarrow> None | Some n \<Rightarrow>
                   (case take_conts n rest' of None \<Rightarrow> None | Some (cs, r) \<Rightarrow>
                      if utf8_second_ok x cs
                      then map_option (\<lambda>t. map char_of (x # cs) @ t) (decodeURIComponent r) else None)))
             | _ \<Rightarrow> None))"
  by pat_completeness auto
termination
  by (relation "measure length") (auto dest: take_conts_length)

declare decodeURIComponent.simps [simp del]

definition uri_unreserved :: "char \<Rightarrow> bool" where
  "uri_unreserved c \<longleftrightarrow> (let n = of_char c :: nat in
     (65 \<le> n \<and> n \<le> 90) \<or> (97 \<le> n \<and> n \<le> 122) \<or> (48 \<le> n \<and> n \<le> 57)) \<or> c \<in> set ''-_.!~*'' \<or> c \<in> set [CHR 0x27, CHR ''('', CHR '')'']"

definition upper_hex :: "nat \<Rightarrow> char" where
  "upper_hex n = char_of (if n < 10 then n + 48 else n + 55 :: nat)"

fun encodeURIComponent :: "string \<Rightarrow> string" where
  "encodeURIComponent [] = []"
| "encodeURIComponent (c # s) =
     (if uri_unreserved c then c # encodeURIComponent s
      else CHR ''%'' # upper_hex (of_char c div 16) # upper_hex (of_char c mod 16) # encodeURIComponent s)"

subsection \<open>Cookies\<close>

definition ID_COOKIE :: string where "ID_COOKIE = ''cc_oidc_id''"
definition ACCESS_COOKIE :: string where "ACCESS_COOKIE = ''cc_oidc_access''"
definition REFRESH_COOKIE :: string where "REFRESH_COOKIE = ''cc_oidc_refresh''"
definition REFRESH_MAX_AGE :: int where "REFRESH_MAX_AGE = 14 * 24 * 60 * 60"

definition word_or_dash :: "char \<Rightarrow> bool" where
  "word_or_dash c \<longleftrightarrow> (let n = of_char c :: nat in
     (65 \<le> n \<and> n \<le> 90) \<or> (97 \<le> n \<and> n \<le> 122) \<or> (48 \<le> n \<and> n \<le> 57)) \<or> c = CHR ''_'' \<or> c = CHR ''-''"

definition looksLikeJwt :: "string \<Rightarrow> bool" where
  "looksLikeJwt token \<longleftrightarrow> token \<noteq> [] \<and> length token \<le> 8192
     \<and> (case js_split (CHR ''.'') token of
          [a, b, c] \<Rightarrow> a \<noteq> [] \<and> b \<noteq> [] \<and> list_all word_or_dash a \<and> list_all word_or_dash b \<and> list_all word_or_dash c
        | _ \<Rightarrow> False)"

definition opaque_char :: "char \<Rightarrow> bool" where
  "opaque_char c \<longleftrightarrow> (let n = of_char c :: nat in
     (65 \<le> n \<and> n \<le> 90) \<or> (97 \<le> n \<and> n \<le> 122) \<or> (48 \<le> n \<and> n \<le> 57)) \<or> c \<in> set ''._~+/-''"

definition looksLikeOpaqueToken :: "string \<Rightarrow> bool" where
  "looksLikeOpaqueToken token \<longleftrightarrow> token \<noteq> [] \<and> length token \<le> 8192
     \<and> (let rest = dropWhile opaque_char token
        in rest \<noteq> token \<and> list_all (\<lambda>c. c = CHR ''='') rest)"

definition decodeJwtPayload :: "auth_env \<Rightarrow> string \<Rightarrow> claims option" where
  "decodeJwtPayload A jwt = (case js_split (CHR ''.'') jwt of
      _ # payload # _ \<Rightarrow> if payload = [] then None else parseClaims A (b64_decode payload)
    | _ \<Rightarrow> None)"

fun cookie_scan :: "string \<Rightarrow> string list \<Rightarrow> string option" where
  "cookie_scan name [] = None"
| "cookie_scan name (part # parts) =
     (if CHR ''='' \<notin> set part then cookie_scan name parts
      else (let key = js_trim (takeWhile (\<lambda>c. c \<noteq> CHR ''='') part);
                raw = js_trim (tl (dropWhile (\<lambda>c. c \<noteq> CHR ''='') part))
            in if key = name
               then (case decodeURIComponent raw of
                       Some v \<Rightarrow> if v = [] then None else Some v
                     | None \<Rightarrow> if raw = [] then None else Some raw)
               else cookie_scan name parts))"

definition cookieValue :: "request \<Rightarrow> string \<Rightarrow> string option" where
  "cookieValue req name = (case rq_headers req ''cookie'' of
      None \<Rightarrow> None
    | Some h \<Rightarrow> if h = [] then None else cookie_scan name (js_split (CHR '';'') h))"

fun digits_of :: "nat \<Rightarrow> string" where
  "digits_of n = (if n < 10 then [char_of (48 + n)] else digits_of (n div 10) @ [char_of (48 + n mod 10)])"

declare digits_of.simps [simp del]

definition secure_suffix :: "auth_env \<Rightarrow> string" where
  "secure_suffix A = (if env A ''NODE_ENV'' = Some ''production'' then ''; Secure'' else [])"

definition serializeAuthCookie :: "auth_env \<Rightarrow> string \<Rightarrow> string \<Rightarrow> int \<Rightarrow> string" where
  "serializeAuthCookie A name v maxAge =
     name @ ''='' @ encodeURIComponent v @ ''; Path=/; HttpOnly; SameSite=Lax''
       @ ''; Max-Age='' @ digits_of (nat (max 0 maxAge)) @ secure_suffix A"

definition serializeFlowCookie :: "auth_env \<Rightarrow> string \<Rightarrow> string \<Rightarrow> nat \<Rightarrow> string" where
  "serializeFlowCookie A name v maxAgeSeconds =
     name @ ''='' @ encodeURIComponent v @ ''; Path=/; HttpOnly; SameSite=Lax; Max-Age=''
       @ digits_of maxAgeSeconds @ secure_suffix A"

definition clearAuthCookie :: "auth_env \<Rightarrow> string \<Rightarrow> string" where
  "clearAuthCookie A name = name @ ''=; Path=/; HttpOnly; SameSite=Lax; Max-Age=0'' @ secure_suffix A"

subsection \<open>PKCE\<close>

definition generateVerifier :: "string \<Rightarrow> string" where
  "generateVerifier random32 = b64url random32"

definition challengeS256 :: "crypto_env \<Rightarrow> string \<Rightarrow> string" where
  "challengeS256 E verifier = b64url (sha256 E verifier)"

definition randomState :: "string \<Rightarrow> string" where
  "randomState random16 = b64url random16"

subsection \<open>Sessions\<close>

datatype ServerAuthMode = Oidc | Mock | MockDisabled

definition resolveServerAuthMode :: "auth_env \<Rightarrow> ServerAuthMode" where
  "resolveServerAuthMode A =
     (let requested = env A ''NEXT_PUBLIC_AUTH_MODE'' in
      if requested = Some ''oidc'' then Oidc
      else if requested = Some ''mock'' then
        (if env A ''NODE_ENV'' = Some ''production'' \<and> env A ''ALLOW_MOCK_AUTH'' \<noteq> Some ''1''
         then MockDisabled else Mock)
      else Oidc)"

record AuthSession =
  required :: bool
  authenticated :: bool
  sub :: "string option"
  walletAddress :: "string option"
  email :: "string option"
  emailVerified :: "bool option"
  entitlement :: "json option"

definition anonymous :: "bool \<Rightarrow> AuthSession" where
  "anonymous req = \<lparr>required = req, authenticated = False, sub = None, walletAddress = None, email = None,
     emailVerified = None, entitlement = None\<rparr>"

definition claimSub :: "auth_env \<Rightarrow> string" where
  "claimSub A = the (or_else (env A ''AUTH_CLAIM_SUB'') (or_else (env A ''NEXT_PUBLIC_AUTH_CLAIM_SUB'') (Some ''sub'')))"

definition claimWallet :: "auth_env \<Rightarrow> string" where
  "claimWallet A = the (or_else (env A ''AUTH_CLAIM_WALLET'')
     (or_else (env A ''NEXT_PUBLIC_AUTH_CLAIM_WALLET'') (Some ''wallet_address'')))"

definition claim_email :: "auth_env \<Rightarrow> string" where
  "claim_email A = the (or_else (env A ''NEXT_PUBLIC_AUTH_CLAIM_EMAIL'') (Some ''email''))"

definition str_claim :: "json option \<Rightarrow> string option" where
  "str_claim j = (case j of Some (JStr s) \<Rightarrow> Some s | _ \<Rightarrow> None)"

definition trustedEmail :: "auth_env \<Rightarrow> claims \<Rightarrow> string option \<times> bool" where
  "trustedEmail A payload =
     (let ev = payload ''email_verified'';
          verified = (ev = Some (JBool True) \<or> ev = Some (JStr ''true''))
      in case payload (claim_email A) of
           Some (JStr raw) \<Rightarrow> if raw \<noteq> [] \<and> verified then (Some (js_lower raw), True) else (None, verified)
         | _ \<Rightarrow> (None, verified))"

definition readEntitlement :: "claims \<Rightarrow> json option" where
  "readEntitlement payload = (case payload ''https://citrate.ai/entitlement'' of
      Some (JObj fs) \<Rightarrow> Some (JObj fs)
    | Some (JArr js) \<Rightarrow> Some (JArr js)
    | _ \<Rightarrow> None)"

definition strip_bearer :: "string \<Rightarrow> string" where
  "strip_bearer h =
     (if js_lower (take 6 h) = ''bearer'' \<and> (case drop 6 h of c # _ \<Rightarrow> js_space c | [] \<Rightarrow> False)
      then dropWhile js_space (drop 6 h) else h)"

definition tokenFromRequest :: "request \<Rightarrow> string option" where
  "tokenFromRequest req =
     (let header = map_option strip_bearer (rq_headers req ''authorization'')
      in if truthy header then header else cookieValue req ID_COOKIE)"

definition requiredOidcConfig :: "auth_env \<Rightarrow> (string \<times> string) option" where
  "requiredOidcConfig A =
     (if truthy (env A ''OIDC_ISSUER'') \<and> truthy (env A ''OIDC_AUDIENCE'')
      then Some (the (env A ''OIDC_ISSUER''), the (env A ''OIDC_AUDIENCE'')) else None)"

definition verifyOidcToken :: "auth_env \<Rightarrow> string option \<Rightarrow> AuthSession" where
  "verifyOidcToken A token =
     (if \<not> truthy token then anonymous True
      else case requiredOidcConfig A of None \<Rightarrow> anonymous True
      | Some (issuer, audience) \<Rightarrow>
          if \<not> truthy (env A ''OIDC_JWKS_URL'') then anonymous True
          else case jwtVerify A (the token) issuer audience of None \<Rightarrow> anonymous True
          | Some payload \<Rightarrow>
              (let s = str_claim (payload (claimSub A)); (em, verified) = trustedEmail A payload
               in \<lparr>required = True, authenticated = truthy s, sub = s,
                   walletAddress = map_option js_lower (str_claim (payload (claimWallet A))),
                   email = em, emailVerified = Some verified, entitlement = readEntitlement payload\<rparr>))"

definition verifyMockToken :: "auth_env \<Rightarrow> string option \<Rightarrow> string option \<Rightarrow> AuthSession" where
  "verifyMockToken A token devAddr =
     (let fallback = (if truthy devAddr
            then (anonymous False)\<lparr>authenticated := True, sub := Some (''dev:'' @ the devAddr), walletAddress := devAddr\<rparr>
            else anonymous False)
      in if \<not> truthy token then fallback
         else case parseClaims A (b64_decode (the token)) of None \<Rightarrow> fallback
         | Some j \<Rightarrow>
             (let s = (case str_claim (j (claimSub A)) of Some x \<Rightarrow> Some x | None \<Rightarrow> str_claim (j ''sub''));
                  w = map_option js_lower (case str_claim (j (claimWallet A)) of Some x \<Rightarrow> Some x
                                           | None \<Rightarrow> str_claim (j ''wallet_address''));
                  (em, verified) = trustedEmail A j
              in if truthy s \<or> truthy w
                 then (anonymous False)\<lparr>authenticated := True, sub := s, walletAddress := w,
                        email := em, emailVerified := Some verified\<rparr>
                 else fallback))"

definition verifySession :: "auth_env \<Rightarrow> request \<Rightarrow> AuthSession" where
  "verifySession A req = (case resolveServerAuthMode A of
      Oidc \<Rightarrow> verifyOidcToken A (tokenFromRequest req)
    | MockDisabled \<Rightarrow> anonymous True
    | Mock \<Rightarrow> verifyMockToken A (tokenFromRequest req)
                (map_option js_lower (rq_headers req ''x-citrate-dev-address'')))"

definition sessionOwner :: "AuthSession \<Rightarrow> string option" where
  "sessionOwner s = sub s"

definition requireOwner :: "auth_env \<Rightarrow> request \<Rightarrow> string option" where
  "requireOwner A req =
     (let auth = verifySession A req
      in if required auth \<and> \<not> authenticated auth then None else sessionOwner auth)"

subsection \<open>Properties\<close>

lemma verifyOidcToken_cases:
  assumes "authenticated (verifyOidcToken A token)"
  obtains t iss aud payload where "token = Some t" "env A ''OIDC_ISSUER'' = Some iss" "iss \<noteq> []"
    "env A ''OIDC_AUDIENCE'' = Some aud" "aud \<noteq> []" "jwtVerify A t iss aud = Some payload"
    "sub (verifyOidcToken A token) = str_claim (payload (claimSub A))"
    "sub (verifyOidcToken A token) \<noteq> Some []"
  using assms
  by (auto simp: verifyOidcToken_def requiredOidcConfig_def truthy_def anonymous_def Let_def
      split: if_splits option.splits prod.splits)

lemma production_mode:
  "env A ''NODE_ENV'' = Some ''production'' \<Longrightarrow> env A ''ALLOW_MOCK_AUTH'' \<noteq> Some ''1'' \<Longrightarrow>
   resolveServerAuthMode A \<in> {Oidc, MockDisabled}"
  by (simp add: resolveServerAuthMode_def Let_def)

text \<open>C10. Fail-closed identity: in production, unless the deployment sets \<^verbatim>\<open>ALLOW_MOCK_AUTH=1\<close>, a request is given an
  identity only from a token the verifier accepted for the configured, non-empty issuer and audience,
  and the identity is that token's subject claim.\<close>

theorem production_identity_verified:
  assumes prod: "env A ''NODE_ENV'' = Some ''production''" and no_mock: "env A ''ALLOW_MOCK_AUTH'' \<noteq> Some ''1''"
    and owner: "requireOwner A req = Some u"
  shows "\<exists>t iss aud payload. tokenFromRequest req = Some t
     \<and> env A ''OIDC_ISSUER'' = Some iss \<and> iss \<noteq> [] \<and> env A ''OIDC_AUDIENCE'' = Some aud \<and> aud \<noteq> []
     \<and> jwtVerify A t iss aud = Some payload \<and> payload (claimSub A) = Some (JStr u) \<and> u \<noteq> []"
proof -
  have m: "resolveServerAuthMode A = Oidc"
    using production_mode [OF prod no_mock] owner
    by (auto simp: requireOwner_def verifySession_def anonymous_def Let_def)
  let ?v = "verifyOidcToken A (tokenFromRequest req)"
  have "required ?v" by (simp add: verifyOidcToken_def anonymous_def Let_def split: option.splits prod.splits)
  then have a: "authenticated ?v" and s: "sub ?v = Some u"
    using owner m by (auto simp: requireOwner_def verifySession_def sessionOwner_def Let_def split: if_splits)
  show ?thesis
  proof (rule verifyOidcToken_cases [OF a], goal_cases)
    case (1 t iss aud payload)
    then have "payload (claimSub A) = Some (JStr u)" "u \<noteq> []"
      using s by (auto simp: str_claim_def split: option.splits json.splits)
    with 1 show ?case by blast
  qed
qed

definition demo_auth :: auth_env where
  "demo_auth = \<lparr>env = [''NODE_ENV'' \<mapsto> ''production'', ''OIDC_ISSUER'' \<mapsto> ''https://a'', ''OIDC_AUDIENCE'' \<mapsto> ''c'',
        ''OIDC_JWKS_URL'' \<mapsto> ''https://a/jwks''],
     jwtVerify = (\<lambda>t i a. if t = ''good'' then Some [''sub'' \<mapsto> JStr ''alice''] else None),
     parseClaims = (\<lambda>_. None)\<rparr>"

definition demo_request :: request where
  "demo_request = \<lparr>rq_method = ''POST'', rq_pathname = ''/api/x'',
     rq_headers = [''authorization'' \<mapsto> ''Bearer good'']\<rparr>"

lemma strip_bearer_demo: "strip_bearer ''Bearer good'' = ''good''"
  by code_simp

lemma demo_owner: "requireOwner demo_auth demo_request = Some ''alice''"
  by (simp add: requireOwner_def verifySession_def resolveServerAuthMode_def verifyOidcToken_def
      requiredOidcConfig_def tokenFromRequest_def strip_bearer_demo demo_auth_def demo_request_def truthy_def
      claimSub_def claimWallet_def or_else_def str_claim_def
      trustedEmail_def claim_email_def readEntitlement_def sessionOwner_def Let_def)

theorem production_identity_verified_witness:
  "requireOwner demo_auth demo_request = Some ''alice'' \<and>
   (\<exists>t iss aud payload. tokenFromRequest demo_request = Some t
     \<and> env demo_auth ''OIDC_ISSUER'' = Some iss \<and> iss \<noteq> [] \<and> env demo_auth ''OIDC_AUDIENCE'' = Some aud \<and> aud \<noteq> []
     \<and> jwtVerify demo_auth t iss aud = Some payload \<and> payload (claimSub demo_auth) = Some (JStr ''alice'')
     \<and> ''alice'' \<noteq> [])"
proof -
  have p: "env demo_auth ''NODE_ENV'' = Some ''production''" "env demo_auth ''ALLOW_MOCK_AUTH'' \<noteq> Some ''1''"
    by (simp_all add: demo_auth_def)
  show ?thesis using demo_owner production_identity_verified [OF p demo_owner] by blast
qed

lemma trustedEmail_verified:
  "trustedEmail A payload = (Some e, v) \<Longrightarrow> v \<and> e = js_lower e
   \<and> payload ''email_verified'' \<in> {Some (JBool True), Some (JStr ''true'')}"
  by (auto simp: trustedEmail_def Let_def split: option.splits json.splits if_splits)

text \<open>Decoding undoes encoding on ASCII text (tokens and cookie values).\<close>

lemma hex_val_upper: "n < 16 \<Longrightarrow> hex_val (upper_hex n) = Some n"
  by (auto simp: hex_val_def upper_hex_def Let_def)

lemma decode_encode_uri:
  "(\<And>c. c \<in> set s \<Longrightarrow> (of_char c :: nat) < 128) \<Longrightarrow> decodeURIComponent (encodeURIComponent s) = Some s"
proof (induction s)
  case Nil
  then show ?case by (simp add: decodeURIComponent.simps)
next
  case (Cons c s)
  have IH: "decodeURIComponent (encodeURIComponent s) = Some s" using Cons by simp
  show ?case
  proof (cases "uri_unreserved c")
    case True
    then have "c \<noteq> CHR ''%''" by (auto simp: uri_unreserved_def)
    with True IH show ?thesis by (simp add: decodeURIComponent.simps [of "c # _"])
  next
    case False
    have "hex_byte (upper_hex (of_char c div 16)) (upper_hex (of_char c mod 16)) = Some (of_char c)"
      by (simp add: hex_byte_def hex_val_upper of_char_div16)
    moreover have "(of_char c :: nat) < 128" using Cons.prems by simp
    ultimately show ?thesis using False IH
      by (simp add: decodeURIComponent.simps [of "CHR ''%'' # _"] utf8_conts_def utf8_second_ok_def)
  qed
qed

end
