(* ===== verification/Web_Security.thy ===== *)
theory Web_Security
  imports Auth
begin

text \<open>
  The request gate and the machine-facing checks: \<^verbatim>\<open>lib/security/csrf.ts\<close>, \<^verbatim>\<open>lib/security/csp.ts\<close>,
  \<^verbatim>\<open>lib/security/ratelimit.ts\<close>, \<^verbatim>\<open>lib/security/bearer.ts\<close>, \<^verbatim>\<open>lib/security/blob-host.ts\<close>, \<^verbatim>\<open>lib/http.ts\<close> (the
  content-type test) and \<^verbatim>\<open>proxy.ts\<close>. The URL parser, the framework's cookie jar, the token endpoint and
  the rate-limit store are fields of \<open>web_env\<close>.
\<close>

record url =
  u_protocol :: string
  u_host :: string
  u_hostname :: string
  u_port :: string
  u_username :: string
  u_password :: string
  u_origin :: string

record token_response =
  id_token :: "string option"
  access_token :: "string option"
  refresh_token :: "string option"

record LimitResult =
  success :: bool
  remaining :: int

record web_env =
  auth :: auth_env
  crypt :: crypto_env
  parseUrl :: "string \<Rightarrow> url option"
  nextCookies :: "request \<Rightarrow> (string \<times> string) list"
  tokenEndpoint :: "string \<Rightarrow> string \<Rightarrow> string \<Rightarrow> token_response option"
  redisLimit :: "string \<Rightarrow> LimitResult option"

subsection \<open>Cross-site request forgery\<close>

definition isSameOrigin :: "web_env \<Rightarrow> request \<Rightarrow> bool" where
  "isSameOrigin W req =
     (let site = rq_headers req ''sec-fetch-site''; origin = rq_headers req ''origin'' in
      if truthy site then site = Some ''same-origin'' \<or> site = Some ''none''
      else if truthy origin then
        (let host = or_else (rq_headers req ''x-forwarded-host'') (rq_headers req ''host'') in
         if \<not> truthy host then False
         else case parseUrl W (the origin) of Some u \<Rightarrow> Some (u_host u) = host | None \<Rightarrow> False)
      else True)"

definition js_upper :: "string \<Rightarrow> string" where
  "js_upper s = map (\<lambda>c. if 97 \<le> (of_char c :: nat) \<and> (of_char c :: nat) \<le> 122
                        then char_of (of_char c - 32 :: nat) else c) s"

definition SAFE_METHODS :: "string list" where
  "SAFE_METHODS = [''GET'', ''HEAD'', ''OPTIONS'']"

definition isForgedMutation :: "web_env \<Rightarrow> request \<Rightarrow> string \<Rightarrow> bool \<Rightarrow> bool" where
  "isForgedMutation W req pathname hasSessionCookie =
     (if js_upper (rq_method req) \<in> set SAFE_METHODS then False
      else if \<not> starts_with ''/api/'' pathname then False
      else if \<not> hasSessionCookie then False
      else if truthy (rq_headers req ''authorization'') then False
      else \<not> isSameOrigin W req)"

definition media_type :: "string option \<Rightarrow> string" where
  "media_type ct = js_lower (js_trim (hd (js_split (CHR '';'') (case ct of None \<Rightarrow> [] | Some s \<Rightarrow> s))))"

definition isJsonContentType :: "string option \<Rightarrow> bool" where
  "isJsonContentType ct = (let t = media_type ct in
     t = ''application/json'' \<or> (starts_with ''application/'' t \<and> ends_with ''+json'' t))"

definition isUnsafeBodyType :: "request \<Rightarrow> string \<Rightarrow> bool \<Rightarrow> bool" where
  "isUnsafeBodyType req pathname hasSessionCookie =
     (if js_upper (rq_method req) \<in> set SAFE_METHODS then False
      else if \<not> starts_with ''/api/'' pathname then False
      else if \<not> hasSessionCookie \<or> truthy (rq_headers req ''authorization'') then False
      else (let ct = media_type (rq_headers req ''content-type'') in
        if ct = [] then (case rq_headers req ''content-length'' of None \<Rightarrow> False | Some len \<Rightarrow> len \<noteq> ''0'')
        else if ct = ''application/json'' \<or> (starts_with ''application/'' ct \<and> ends_with ''+json'' ct) then False
        else if ct = ''multipart/form-data'' then False
        else True))"

text \<open>\<^verbatim>\<open>readJson\<close>: whether the body is parsed at all; \<^verbatim>\<open>null\<close> (here \<open>None\<close>) when it is refused or malformed.\<close>

definition readJson :: "request \<Rightarrow> json option \<Rightarrow> json option" where
  "readJson req body =
     (let cookieAuth = truthy (cookieValue req ID_COOKIE) \<or> truthy (cookieValue req REFRESH_COOKIE) in
      if cookieAuth \<and> \<not> truthy (rq_headers req ''authorization'')
         \<and> \<not> isJsonContentType (rq_headers req ''content-type'')
      then None else body)"

subsection \<open>Content security policy\<close>

definition originOf :: "web_env \<Rightarrow> string option \<Rightarrow> string option" where
  "originOf W u = (if \<not> truthy u then None else map_option u_origin (parseUrl W (the u)))"

definition set_add :: "'a \<Rightarrow> 'a list \<Rightarrow> 'a list" where
  "set_add x xs = (if x \<in> set xs then xs else xs @ [x])"

definition csp_directives :: "web_env \<Rightarrow> string \<Rightarrow> (string \<times> string) list" where
  "csp_directives W nonce =
     (let issuer = originOf W (env (auth W) ''NEXT_PUBLIC_OIDC_ISSUER'');
          q = [CHR 0x27];
          self = q @ ''self'' @ q;
          none = q @ ''none'' @ q;
          connect = (if truthy issuer then set_add (the issuer) [self] else [self])
      in [(''default-src'', self),
          (''script-src'', self @ '' '' @ q @ ''nonce-'' @ nonce @ q @ '' '' @ q @ ''strict-dynamic'' @ q),
          (''style-src'', self @ '' '' @ q @ ''unsafe-inline'' @ q),
          (''img-src'', self @ '' data: blob: https:''),
          (''media-src'', self @ '' blob: https:''),
          (''font-src'', self @ '' data:''),
          (''connect-src'', js_join '' '' connect),
          (''frame-src'', none),
          (''worker-src'', self @ '' blob:''),
          (''manifest-src'', self),
          (''object-src'', none),
          (''base-uri'', self),
          (''form-action'', js_join '' '' connect),
          (''frame-ancestors'', none)]
         @ (if env (auth W) ''NODE_ENV'' = Some ''production'' then [(''upgrade-insecure-requests'', [])] else []))"

definition buildCsp :: "web_env \<Rightarrow> string \<Rightarrow> string" where
  "buildCsp W nonce = js_join ''; '' (map (\<lambda>(k, v). if v \<noteq> [] then k @ '' '' @ v else k) (csp_directives W nonce))"

definition newNonce :: "string \<Rightarrow> string" where
  "newNonce random16 = b64_encode random16"

subsection \<open>Rate limiting, shared secrets, blob stores\<close>

definition rateLimitConfigured :: "web_env \<Rightarrow> bool" where
  "rateLimitConfigured W \<longleftrightarrow>
     truthy (or_else (env (auth W) ''UPSTASH_REDIS_REST_URL'') (env (auth W) ''KV_REST_API_URL''))
     \<and> truthy (or_else (env (auth W) ''UPSTASH_REDIS_REST_TOKEN'') (env (auth W) ''KV_REST_API_TOKEN''))"

definition limit :: "web_env \<Rightarrow> string \<Rightarrow> LimitResult" where
  "limit W key =
     (if \<not> rateLimitConfigured W then \<lparr>success = False, remaining = 0\<rparr>
      else case redisLimit W key of
             Some r \<Rightarrow> \<lparr>success = success r, remaining = remaining r\<rparr>
           | None \<Rightarrow> \<lparr>success = False, remaining = 0\<rparr>)"

definition bearerMatches :: "crypto_env \<Rightarrow> string option \<Rightarrow> string option \<Rightarrow> bool" where
  "bearerMatches E authorization secret =
     (if \<not> truthy secret then False
      else (let presented = strip_bearer (case authorization of None \<Rightarrow> [] | Some a \<Rightarrow> a) in
            if \<not> truthy authorization \<or> Some presented = authorization then False
            else sha256 E presented = sha256 E (the secret)))"

definition alnum :: "char \<Rightarrow> bool" where
  "alnum c \<longleftrightarrow> (let n = of_char c :: nat in
     (65 \<le> n \<and> n \<le> 90) \<or> (97 \<le> n \<and> n \<le> 122) \<or> (48 \<le> n \<and> n \<le> 57))"

definition storeIdFromToken :: "string option \<Rightarrow> string option" where
  "storeIdFromToken token =
     (let t = (case token of None \<Rightarrow> [] | Some x \<Rightarrow> x); p = ''vercel_blob_rw_'' in
      if starts_with p t then
        (let rest = drop (length p) t; i = takeWhile alnum rest in
         if i \<noteq> [] \<and> starts_with ''_'' (drop (length i) rest) then Some (js_lower i) else None)
      else None)"

definition configuredPrivateBlobHost :: "(string \<Rightarrow> string option) \<Rightarrow> string option" where
  "configuredPrivateBlobHost e =
     (let explicit = map_option (\<lambda>h. js_lower (js_trim h)) (e ''BLOB_STORE_HOST'') in
      if truthy explicit then explicit
      else map_option (\<lambda>i. i @ ''.private.blob.vercel-storage.com'') (storeIdFromToken (e ''BLOB_READ_WRITE_TOKEN'')))"

definition configuredLegacyPublicBlobHost :: "(string \<Rightarrow> string option) \<Rightarrow> string option" where
  "configuredLegacyPublicBlobHost e =
     (let explicit = map_option (\<lambda>h. js_lower (js_trim h)) (e ''BLOB_LEGACY_PUBLIC_HOST'') in
      if truthy explicit then explicit
      else map_option (\<lambda>i. i @ ''.public.blob.vercel-storage.com'')
             (storeIdFromToken (e ''BLOB_LEGACY_READ_WRITE_TOKEN'')))"

definition isCanonicalStoreUrl :: "web_env \<Rightarrow> string \<Rightarrow> string option \<Rightarrow> bool" where
  "isCanonicalStoreUrl W u host =
     (if \<not> truthy host then False
      else case parseUrl W u of None \<Rightarrow> False
      | Some p \<Rightarrow> u_protocol p = ''https:'' \<and> Some (js_lower (u_hostname p)) = host
          \<and> u_username p = [] \<and> u_password p = [] \<and> (u_port p = [] \<or> u_port p = ''443''))"

definition isOwnPrivateBlobUrl :: "web_env \<Rightarrow> string \<Rightarrow> bool" where
  "isOwnPrivateBlobUrl W u = isCanonicalStoreUrl W u (configuredPrivateBlobHost (env (auth W)))"

definition isLegacyPublicBlobUrl :: "web_env \<Rightarrow> string \<Rightarrow> bool" where
  "isLegacyPublicBlobUrl W u = isCanonicalStoreUrl W u (configuredLegacyPublicBlobHost (env (auth W)))"

definition isOwnBlobUrl :: "web_env \<Rightarrow> string \<Rightarrow> bool" where
  "isOwnBlobUrl W u \<longleftrightarrow> isOwnPrivateBlobUrl W u \<or> isLegacyPublicBlobUrl W u"

subsection \<open>The proxy\<close>

definition ID_TTL :: int where "ID_TTL = 60 * 60"
definition REFRESH_SKEW_MS :: int where "REFRESH_SKEW_MS = 120000"

definition jwtExpMs :: "web_env \<Rightarrow> string option \<Rightarrow> int option" where
  "jwtExpMs W jwt = (if \<not> truthy jwt then None else
     case js_split (CHR ''.'') (the jwt) of
       _ # seg # _ \<Rightarrow> if seg = [] then None
         else (case parseClaims (auth W) (b64_decode seg) of None \<Rightarrow> None
               | Some j \<Rightarrow> (case j ''exp'' of Some (JNum e) \<Rightarrow> Some (e * 1000) | _ \<Rightarrow> None))
     | _ \<Rightarrow> None)"

definition NO_REFRESH :: "string \<Rightarrow> bool" where
  "NO_REFRESH pathname \<longleftrightarrow>
     (\<exists>p\<in>set [''/auth/callback'', ''/auth/start'', ''/auth/logout'', ''/unsubscribe'', ''/api/unsubscribe''].
        starts_with p pathname
        \<and> (case drop (length p) pathname of [] \<Rightarrow> True | c # _ \<Rightarrow> c = CHR ''/'' \<or> c = CHR ''?''))"

fun jar_set :: "string \<Rightarrow> string \<Rightarrow> (string \<times> string) list \<Rightarrow> (string \<times> string) list" where
  "jar_set k v [] = [(k, v)]"
| "jar_set k v ((k', v') # r) = (if k' = k then (k, v) # r else (k', v') # jar_set k v r)"

definition refreshed_jar :: "web_env \<Rightarrow> request \<Rightarrow> token_response \<Rightarrow> (string \<times> string) list" where
  "refreshed_jar W req j =
     (let jar0 = jar_set ID_COOKIE (the (id_token j)) (nextCookies W req);
          jar1 = (if truthy (refresh_token j) then jar_set REFRESH_COOKIE (the (refresh_token j)) jar0 else jar0)
      in if truthy (access_token j) then jar_set ACCESS_COOKIE (the (access_token j)) jar1 else jar1)"

definition refreshed_cookies :: "web_env \<Rightarrow> token_response \<Rightarrow> string list" where
  "refreshed_cookies W j =
     serializeAuthCookie (auth W) ID_COOKIE (the (id_token j)) ID_TTL
     # (if truthy (refresh_token j)
        then [serializeAuthCookie (auth W) REFRESH_COOKIE (the (refresh_token j)) REFRESH_MAX_AGE] else [])
     @ (if truthy (access_token j)
        then [serializeAuthCookie (auth W) ACCESS_COOKIE (the (access_token j)) ID_TTL] else [])"

datatype proxy_result =
    Refused nat string
  | Forwarded "string \<Rightarrow> string option" string "string list"

definition proxy :: "web_env \<Rightarrow> ms \<Rightarrow> string \<Rightarrow> request \<Rightarrow> proxy_result" where
  "proxy W now random16 req =
    (let pathname = rq_pathname req;
         cookie = map_of (nextCookies W req);
         hasSession = (truthy (cookie ID_COOKIE) \<or> truthy (cookie REFRESH_COOKIE)) in
     if isForgedMutation W req pathname hasSession then Refused 403 ''cross-origin request refused''
     else if isUnsafeBodyType req pathname hasSession then Refused 415 ''unsupported content-type''
     else
      (let nonce = newNonce random16;
           csp = buildCsp W nonce;
           baseHeaders = (rq_headers req)(''x-nonce'' \<mapsto> nonce, ''content-security-policy'' \<mapsto> csp);
           pass = Forwarded baseHeaders csp [];
           refresh = cookie REFRESH_COOKIE;
           ident = cookie ID_COOKIE;
           expMs = jwtExpMs W ident;
           needsRefresh = (\<not> truthy ident \<or> (case expMs of None \<Rightarrow> True | Some e \<Rightarrow> e - now < REFRESH_SKEW_MS));
           issuer = (let i = (case or_else (env (auth W) ''OIDC_ISSUER'')
                                    (or_else (env (auth W) ''NEXT_PUBLIC_OIDC_ISSUER'') (Some [])) of
                                None \<Rightarrow> [] | Some x \<Rightarrow> x)
                     in if ends_with ''/'' i then butlast i else i);
           clientId = the (or_else (env (auth W) ''NEXT_PUBLIC_OIDC_CLIENT_ID'') (Some ''citrate-comms-web''))
       in
       if NO_REFRESH pathname then pass
       else if \<not> truthy refresh then pass
       else if \<not> needsRefresh then pass
       else if issuer = [] then pass
       else case tokenEndpoint W issuer (the refresh) clientId of None \<Rightarrow> pass
       | Some j \<Rightarrow>
           if \<not> truthy (id_token j) then pass
           else Forwarded (baseHeaders(''cookie'' \<mapsto>
                    js_join ''; '' (map (\<lambda>(k, v). k @ ''='' @ v) (refreshed_jar W req j))))
                  csp (refreshed_cookies W j)))"

subsection \<open>Properties\<close>

lemma map_of_jar_set: "map_of (jar_set k v jar) = (map_of jar)(k \<mapsto> v)"
  by (induction k v jar rule: jar_set.induct) auto

lemma map_of_refreshed_jar:
  "map_of (refreshed_jar W req j) ID_COOKIE = Some (the (id_token j))"
  "k \<notin> {ID_COOKIE, REFRESH_COOKIE, ACCESS_COOKIE} \<Longrightarrow>
   map_of (refreshed_jar W req j) k = map_of (nextCookies W req) k"
proof -
  have "ID_COOKIE \<noteq> REFRESH_COOKIE" "ID_COOKIE \<noteq> ACCESS_COOKIE"
    by (simp_all add: ID_COOKIE_def REFRESH_COOKIE_def ACCESS_COOKIE_def)
  then show "map_of (refreshed_jar W req j) ID_COOKIE = Some (the (id_token j))"
    by (simp add: refreshed_jar_def map_of_jar_set Let_def)
  show "k \<notin> {ID_COOKIE, REFRESH_COOKIE, ACCESS_COOKIE} \<Longrightarrow>
    map_of (refreshed_jar W req j) k = map_of (nextCookies W req) k"
    by (simp add: refreshed_jar_def map_of_jar_set Let_def)
qed

lemma proxy_forwarded_not_forged:
  assumes "proxy W now rnd req = Forwarded h csp sc"
  defines "hasSession \<equiv> truthy (map_of (nextCookies W req) ID_COOKIE) \<or> truthy (map_of (nextCookies W req) REFRESH_COOKIE)"
  shows "\<not> isForgedMutation W req (rq_pathname req) hasSession"
    and "\<not> isUnsafeBodyType req (rq_pathname req) hasSession"
  using assms by (auto simp: proxy_def Let_def split: if_splits)

lemma token_without_authorization:
  "\<not> truthy (rq_headers req ''authorization'') \<Longrightarrow> tokenFromRequest req = cookieValue req ID_COOKIE"
  by (auto simp: tokenFromRequest_def truthy_def strip_bearer_def Let_def split: option.splits)

text \<open>C11. No cross-site state change: when the proxy forwards a state-changing \<open>/api/\<close> request that carries a session cookie, be it the identity or only the
  refresh cookie, and no \<open>Authorization\<close> header, the request passed the same-origin test, and its body, if it has one, is declared as JSON or multipart.\<close>

theorem forwarded_cookie_mutation_same_origin:
  assumes fwd: "proxy W now rnd req = Forwarded h csp sc"
    and unsafe: "js_upper (rq_method req) \<notin> set SAFE_METHODS" and api: "starts_with ''/api/'' (rq_pathname req)"
    and no_bearer: "\<not> truthy (rq_headers req ''authorization'')"
    and session: "truthy (map_of (nextCookies W req) ID_COOKIE) \<or> truthy (map_of (nextCookies W req) REFRESH_COOKIE)"
  shows "isSameOrigin W req \<and>
    (media_type (rq_headers req ''content-type'') = [] \<and> rq_headers req ''content-length'' \<in> {None, Some ''0''}
     \<or> isJsonContentType (rq_headers req ''content-type'')
     \<or> media_type (rq_headers req ''content-type'') = ''multipart/form-data'')"
  using proxy_forwarded_not_forged [OF fwd] unsafe api no_bearer session
  by (auto simp: isForgedMutation_def isUnsafeBodyType_def isJsonContentType_def Let_def split: if_splits option.splits)

definition demo_web :: web_env where
  "demo_web = \<lparr>auth = demo_auth, crypt = demo_env, parseUrl = (\<lambda>_. None),
     nextCookies = (\<lambda>_. [(ID_COOKIE, ''good'')]), tokenEndpoint = (\<lambda>_ _ _. None),
     redisLimit = (\<lambda>_. Some \<lparr>success = True, remaining = 1\<rparr>)\<rparr>"

definition demo_cookie_request :: request where
  "demo_cookie_request = \<lparr>rq_method = ''POST'', rq_pathname = ''/api/channels'',
     rq_headers = [''cookie'' \<mapsto> ''cc_oidc_id=good'', ''sec-fetch-site'' \<mapsto> ''same-origin'',
                   ''content-type'' \<mapsto> ''application/json'']\<rparr>"

lemma demo_cookie_facts:
  "js_upper ''POST'' = ''POST''" "media_type (Some ''application/json'') = ''application/json''"
  "starts_with ''/api/'' ''/api/channels''"
  "js_trim ''good'' = ''good''" "js_trim ''cc_oidc_id'' = ''cc_oidc_id''"
  by code_simp+

text \<open>The limiter fails closed: a request is admitted only when a store is configured and that store,
  reached, admitted it.\<close>

theorem rate_limit_fail_closed:
  "success (limit W key) \<longleftrightarrow>
   rateLimitConfigured W \<and> (\<exists>r. redisLimit W key = Some r \<and> success r)"
  by (auto simp: limit_def split: option.splits)

lemma canonical_store_url:
  "isCanonicalStoreUrl W u host \<Longrightarrow>
   \<exists>p h. parseUrl W u = Some p \<and> host = Some h \<and> h \<noteq> [] \<and> u_protocol p = ''https:'' \<and> js_lower (u_hostname p) = h
     \<and> u_username p = [] \<and> u_password p = []"
  by (auto simp: isCanonicalStoreUrl_def truthy_def split: if_splits option.splits)

text \<open>Only this deployment's own stores: a URL is accepted as a private-store object exactly when it is an
  https URL without credentials, on port 443, whose host is the one configured (by override or derived
  from the store token); with neither configured nothing is accepted.\<close>

theorem private_blob_url_iff:
  "isOwnPrivateBlobUrl W u \<longleftrightarrow>
   (\<exists>p h. parseUrl W u = Some p \<and> configuredPrivateBlobHost (env (auth W)) = Some h \<and> h \<noteq> []
      \<and> u_protocol p = ''https:'' \<and> js_lower (u_hostname p) = h \<and> u_username p = [] \<and> u_password p = []
      \<and> u_port p \<in> {[], ''443''})"
  by (auto simp: isOwnPrivateBlobUrl_def isCanonicalStoreUrl_def truthy_def split: option.splits)

text \<open>Machine routes: the shared secret is accepted only when one is configured and a \<open>Bearer\<close> credential
  with the same digest is presented; a missing or scheme-less header never matches.\<close>

theorem bearer_match_iff:
  "bearerMatches E authorization secret \<longleftrightarrow>
   (\<exists>s a. secret = Some s \<and> s \<noteq> [] \<and> authorization = Some a \<and> a \<noteq> [] \<and> strip_bearer a \<noteq> a
      \<and> sha256 E (strip_bearer a) = sha256 E s)"
  by (auto simp: bearerMatches_def truthy_def Let_def split: option.splits)

text \<open>A silent refresh never loses the session: whatever the token endpoint answers, the proxy either forwards
  the original cookies untouched or forwards a jar in which the id cookie is the new token and every
  unrelated cookie is unchanged.\<close>

theorem proxy_refresh_forward:
  assumes fwd: "proxy W now rnd req = Forwarded h csp sc"
  shows "(h ''cookie'' = rq_headers req ''cookie'' \<and> sc = [])
    \<or> (\<exists>tok jar. tok \<noteq> [] \<and> h ''cookie'' = Some (js_join ''; '' (map (\<lambda>(k, v). k @ ''='' @ v) jar))
         \<and> map_of jar ID_COOKIE = Some tok
         \<and> (\<forall>k. k \<notin> {ID_COOKIE, REFRESH_COOKIE, ACCESS_COOKIE} \<longrightarrow> map_of jar k = map_of (nextCookies W req) k))"
proof -
  show ?thesis
  proof (cases "sc = []")
    case True
    then show ?thesis using fwd
      by (auto simp: proxy_def refreshed_cookies_def Let_def split: if_splits option.splits)
  next
    case False
    then obtain j where "truthy (id_token j)"
      "h ''cookie'' = Some (js_join ''; '' (map (\<lambda>(k, v). k @ ''='' @ v) (refreshed_jar W req j)))"
      using fwd by (auto simp: proxy_def Let_def split: if_splits option.splits)
    then show ?thesis using map_of_refreshed_jar [where W = W and req = req and j = j]
      by (intro disjI2 exI [of _ "the (id_token j)"] exI [of _ "refreshed_jar W req j"])
        (auto simp: truthy_def split: option.splits)
  qed
qed

definition demo_refresh_web :: web_env where
  "demo_refresh_web = demo_web\<lparr>nextCookies := (\<lambda>_. [(''theme'', ''dark''), (REFRESH_COOKIE, ''r0'')]),
     tokenEndpoint := (\<lambda>_ _ _. Some \<lparr>id_token = Some ''fresh'', access_token = None, refresh_token = Some ''r1''\<rparr>)\<rparr>"

definition demo_page_request :: request where
  "demo_page_request = \<lparr>rq_method = ''GET'', rq_pathname = ''/w'', rq_headers = Map.empty\<rparr>"

theorem proxy_refresh_forward_witness:
  "\<exists>h csp sc. proxy demo_refresh_web 0 ''r'' demo_page_request = Forwarded h csp sc \<and>
   ((h ''cookie'' = rq_headers demo_page_request ''cookie'' \<and> sc = [])
    \<or> (\<exists>tok jar. tok \<noteq> [] \<and> h ''cookie'' = Some (js_join ''; '' (map (\<lambda>(k, v). k @ ''='' @ v) jar))
         \<and> map_of jar ID_COOKIE = Some tok
         \<and> (\<forall>k. k \<notin> {ID_COOKIE, REFRESH_COOKIE, ACCESS_COOKIE} \<longrightarrow>
               map_of jar k = map_of (nextCookies demo_refresh_web demo_page_request) k)))"
proof -
  let ?r = demo_page_request
  have "js_upper ''GET'' \<in> set SAFE_METHODS" by code_simp
  then have "\<not> isForgedMutation demo_refresh_web ?r (rq_pathname ?r) b" "\<not> isUnsafeBodyType ?r (rq_pathname ?r) b" for b
    by (simp_all add: isForgedMutation_def isUnsafeBodyType_def demo_page_request_def)
  then obtain h csp sc where f: "proxy demo_refresh_web 0 ''r'' ?r = Forwarded h csp sc"
    by (cases "proxy demo_refresh_web 0 ''r'' ?r") (auto simp: proxy_def Let_def split: if_splits option.splits)
  show ?thesis using f proxy_refresh_forward [OF f] by blast
qed

text \<open>A request whose only cookie is the refresh cookie, which the proxy exchanges for an identity before it forwards.\<close>

definition demo_refresh_request :: request where
  "demo_refresh_request = demo_cookie_request\<lparr>rq_headers := (rq_headers demo_cookie_request)(''cookie'' \<mapsto> ''theme=dark; '' @ REFRESH_COOKIE @ ''=r0'')\<rparr>"

theorem forwarded_cookie_mutation_same_origin_witness:
  "\<exists>h csp sc. proxy demo_refresh_web 0 ''r'' demo_refresh_request = Forwarded h csp sc \<and> isSameOrigin demo_refresh_web demo_refresh_request"
proof -
  let ?r = demo_refresh_request
  have "\<not> isForgedMutation demo_refresh_web ?r (rq_pathname ?r) b" "\<not> isUnsafeBodyType ?r (rq_pathname ?r) b" for b
    by (simp_all add: isForgedMutation_def isUnsafeBodyType_def isSameOrigin_def demo_refresh_request_def demo_cookie_request_def
        demo_cookie_facts truthy_def Let_def)
  then obtain h csp sc where f: "proxy demo_refresh_web 0 ''r'' ?r = Forwarded h csp sc"
    by (cases "proxy demo_refresh_web 0 ''r'' ?r") (auto simp: proxy_def Let_def split: if_splits option.splits)
  have un: "js_upper (rq_method ?r) \<notin> set SAFE_METHODS" and api: "starts_with ''/api/'' (rq_pathname ?r)"
    and bearer: "\<not> truthy (rq_headers ?r ''authorization'')"
    and jar: "truthy (map_of (nextCookies demo_refresh_web ?r) ID_COOKIE) \<or> truthy (map_of (nextCookies demo_refresh_web ?r) REFRESH_COOKIE)"
    by (simp_all add: demo_refresh_request_def demo_cookie_request_def demo_cookie_facts SAFE_METHODS_def truthy_def demo_refresh_web_def REFRESH_COOKIE_def)
  show ?thesis using f forwarded_cookie_mutation_same_origin [OF f un api bearer jar] by blast
qed

end
