(* ===== verification/Guard.thy ===== *)
theory Guard
  imports Schema Web_Security
begin

text \<open>
  \<^verbatim>\<open>lib/tenant/guard.ts\<close>, the gauntlet of every workspace-scoped route, and \<^verbatim>\<open>lib/http.ts\<close>, which turns what it
  throws into a response. The locale \<open>capability_guard\<close> is what a route relies on: the guard reads
  only, and what it returns is the context of an active member whose role holds the capability.
\<close>

record MemberCtx =
  ctx_workspaceId :: uuid
  ctx_sub :: string
  ctx_role :: Role
  ctx_isAgent :: bool

definition member_at :: "db \<Rightarrow> uuid \<Rightarrow> string \<Rightarrow> member_row option" where
  "member_at s w u = first_where (\<lambda>m. mb_workspaceId m = w \<and> mb_sub m = u) (members s)"

definition requireSub :: "web_env \<Rightarrow> request \<Rightarrow> (db, string) act" where
  "requireSub W req = (case requireOwner (auth W) req of
      Some u \<Rightarrow> if u = [] then act_throw (GuardError 401 ''unauthenticated'') else act_return u
    | None \<Rightarrow> act_throw (GuardError 401 ''unauthenticated''))"

definition requireMembership :: "uuid \<Rightarrow> string \<Rightarrow> (db, MemberCtx) act" where
  "requireMembership w u = act_bind (act_get (\<lambda>s. member_at s w u)) (\<lambda>m. case m of
      None \<Rightarrow> act_throw (GuardError 403 ''not a member of this workspace'')
    | Some r \<Rightarrow> if mb_status r \<noteq> ''active'' then act_throw (GuardError 403 ''not a member of this workspace'')
        else act_return \<lparr>ctx_workspaceId = w, ctx_sub = u, ctx_role = mb_role r, ctx_isAgent = mb_isAgent r\<rparr>)"

definition requireMember :: "web_env \<Rightarrow> request \<Rightarrow> uuid \<Rightarrow> (db, MemberCtx) act" where
  "requireMember W req w = act_bind (requireSub W req) (\<lambda>u. requireMembership w u)"

definition membershipOf :: "uuid \<Rightarrow> string \<Rightarrow> (db, MemberCtx option) act" where
  "membershipOf w u = act_try (act_bind (requireMembership w u) (\<lambda>c. act_return (Some c))) (\<lambda>_. act_return None)"

definition assertCan :: "MemberCtx \<Rightarrow> Capability \<Rightarrow> (db, unit) act" where
  "assertCan ctx cap = (if can (ctx_role ctx) cap then act_return ()
     else act_throw (GuardError 403 (''role '' @ role_name (ctx_role ctx) @ '' lacks capability '' @ cap_name cap)))"

definition requireCapability :: "web_env \<Rightarrow> request \<Rightarrow> uuid \<Rightarrow> Capability \<Rightarrow> (db, MemberCtx) act" where
  "requireCapability W req w cap = act_bind (requireMember W req w) (\<lambda>ctx.
     act_bind (assertCan ctx cap) (\<lambda>_. act_return ctx))"

definition requireInternal :: "web_env \<Rightarrow> request \<Rightarrow> uuid \<Rightarrow> (db, MemberCtx) act" where
  "requireInternal W req w = requireCapability W req w ReadWorkspace"

definition requireChannel ::
    "web_env \<Rightarrow> request \<Rightarrow> uuid \<Rightarrow> Capability \<Rightarrow> (uuid \<Rightarrow> (db, uuid option) act)
      \<Rightarrow> (uuid \<Rightarrow> string \<Rightarrow> (db, bool) act) \<Rightarrow> (db, MemberCtx) act" where
  "requireChannel W req channelId cap resolveWorkspace isMember =
     act_bind (resolveWorkspace channelId) (\<lambda>w. case w of
       None \<Rightarrow> act_throw (GuardError 403 ''channel not found'')
     | Some w' \<Rightarrow>
        if w' = [] then act_throw (GuardError 403 ''channel not found'')
        else act_bind (requireMember W req w') (\<lambda>ctx.
             act_bind (assertCan ctx cap) (\<lambda>_.
             act_bind (isMember channelId (ctx_sub ctx)) (\<lambda>ok.
               if \<not> ok then act_throw (GuardError 403 ''not a member of this channel'')
               else act_return ctx))))"

subsection \<open>Responses\<close>

datatype 'a response = Reply nat 'a | Failure nat string

fun errorResponse :: "err \<Rightarrow> 'a response" where
  "errorResponse (GuardError status msg) = Failure status msg"
| "errorResponse (DbError _) = Failure 500 ''internal_error''"
| "errorResponse (JsError _) = Failure 500 ''internal_error''"
| "errorResponse (BlockedUrlError _) = Failure 500 ''internal_error''"
| "errorResponse AbortError = Failure 500 ''internal_error''"

text \<open>A route body inside its \<^verbatim>\<open>try { ... } catch (e) { return errorResponse(e) }\<close>.\<close>

definition route :: "(db, 'a response) act \<Rightarrow> db \<Rightarrow> 'a response \<times> db" where
  "route m s = (case m s of (Inr r, s') \<Rightarrow> (r, s') | (Inl e, s') \<Rightarrow> (errorResponse e, s'))"

subsection \<open>What a guard promises\<close>

definition active_member :: "db \<Rightarrow> MemberCtx \<Rightarrow> bool" where
  "active_member s ctx \<longleftrightarrow> (\<exists>m. member_at s (ctx_workspaceId ctx) (ctx_sub ctx) = Some m
     \<and> mb_status m = ''active'' \<and> mb_role m = ctx_role ctx \<and> mb_isAgent m = ctx_isAgent ctx)"

locale capability_guard =
  fixes guard :: "'q \<Rightarrow> (db, MemberCtx) act"
    and cap :: "'q \<Rightarrow> Capability"
  assumes guard_pure: "snd (guard q s) = s"
    and guard_sound: "fst (guard q s) = Inr ctx \<Longrightarrow> active_member s ctx \<and> can (ctx_role ctx) (cap q)"
begin

lemma guarded_denied: "fst (guard q s) = Inl e \<Longrightarrow> act_bind (guard q) body s = (Inl e, s)"
  using guard_pure [of q s] by (cases "guard q s") (auto simp: act_bind_def)

lemma guarded_admitted: "fst (guard q s) = Inr ctx \<Longrightarrow> act_bind (guard q) body s = body ctx s"
  using guard_pure [of q s] by (cases "guard q s") (auto simp: act_bind_def)

lemma guarded_change:
  assumes "snd (act_bind (guard q) body s) \<noteq> s"
  shows "\<exists>ctx. fst (guard q s) = Inr ctx \<and> active_member s ctx \<and> can (ctx_role ctx) (cap q)"
proof (cases "fst (guard q s)")
  case (Inl e)
  then show ?thesis using guarded_denied [OF Inl, of body] assms by simp
next
  case (Inr ctx)
  then show ?thesis using guard_sound by blast
qed

lemma route_denied_unchanged:
  "fst (guard q s) = Inl (GuardError st msg) \<Longrightarrow> route (act_bind (guard q) body) s = (Failure st msg, s)"
  by (simp add: route_def guarded_denied)

end

lemma requireMembership_run:
  "requireMembership w u s = (case member_at s w u of
      None \<Rightarrow> (Inl (GuardError 403 ''not a member of this workspace''), s)
    | Some r \<Rightarrow> if mb_status r \<noteq> ''active'' then (Inl (GuardError 403 ''not a member of this workspace''), s)
        else (Inr \<lparr>ctx_workspaceId = w, ctx_sub = u, ctx_role = mb_role r, ctx_isAgent = mb_isAgent r\<rparr>, s))"
  by (simp add: requireMembership_def act_defs split: option.split)

lemma requireMember_run:
  "requireMember W req w s = (case requireOwner (auth W) req of
      Some u \<Rightarrow> if u = [] then (Inl (GuardError 401 ''unauthenticated''), s) else requireMembership w u s
    | None \<Rightarrow> (Inl (GuardError 401 ''unauthenticated''), s))"
  by (simp add: requireMember_def requireSub_def act_defs split: option.split)

lemma requireMember_pure: "snd (requireMember W req w s) = s"
  by (simp add: requireMember_run requireMembership_run split: option.split)

lemma requireMember_sound:
  "fst (requireMember W req w s) = Inr ctx \<Longrightarrow>
   ctx_workspaceId ctx = w \<and> requireOwner (auth W) req = Some (ctx_sub ctx) \<and> active_member s ctx"
  by (auto simp: requireMember_run requireMembership_run active_member_def split: option.splits if_splits)

lemma requireCapability_run:
  "requireCapability W req w cap s = (case requireMember W req w s of
      (Inl e, s') \<Rightarrow> (Inl e, s')
    | (Inr ctx, s') \<Rightarrow> if can (ctx_role ctx) cap then (Inr ctx, s')
        else (Inl (GuardError 403 (''role '' @ role_name (ctx_role ctx) @ '' lacks capability '' @ cap_name cap)), s'))"
  by (simp add: requireCapability_def assertCan_def act_defs split: prod.split sum.split)

lemma requireCapability_sound:
  "fst (requireCapability W req w cap s) = Inr ctx \<Longrightarrow>
   ctx_workspaceId ctx = w \<and> requireOwner (auth W) req = Some (ctx_sub ctx) \<and> active_member s ctx
   \<and> can (ctx_role ctx) cap"
  using requireMember_sound [of W req w s ctx]
  by (auto simp: requireCapability_run split: prod.splits sum.splits if_splits)

lemma requireCapability_pure: "snd (requireCapability W req w cap s) = s"
  using requireMember_pure [of W req w s]
  by (auto simp: requireCapability_run split: prod.splits sum.splits)

interpretation workspace_guard: capability_guard "\<lambda>(W, req, w, c). requireCapability W req w c" "\<lambda>(W, req, w, c). c"
  by unfold_locales (auto simp: requireCapability_pure dest: requireCapability_sound)

text \<open>C1. The workspace gauntlet: \<^verbatim>\<open>requireCapability\<close> changes nothing, and it admits a request exactly when the
  verified identity is an active member of that workspace whose role holds the capability; the context
  it returns carries that identity and the role stored for it.\<close>

theorem require_capability_admits_iff:
  "snd (requireCapability W req w cap s) = s
   \<and> (fst (requireCapability W req w cap s) = Inr ctx \<longleftrightarrow>
      (\<exists>u m. requireOwner (auth W) req = Some u \<and> u \<noteq> [] \<and> member_at s w u = Some m \<and> mb_status m = ''active''
         \<and> can (mb_role m) cap
         \<and> ctx = \<lparr>ctx_workspaceId = w, ctx_sub = u, ctx_role = mb_role m, ctx_isAgent = mb_isAgent m\<rparr>))"
proof
  show "snd (requireCapability W req w cap s) = s" by (rule requireCapability_pure)
  show "fst (requireCapability W req w cap s) = Inr ctx \<longleftrightarrow>
      (\<exists>u m. requireOwner (auth W) req = Some u \<and> u \<noteq> [] \<and> member_at s w u = Some m \<and> mb_status m = ''active''
         \<and> can (mb_role m) cap
         \<and> ctx = \<lparr>ctx_workspaceId = w, ctx_sub = u, ctx_role = mb_role m, ctx_isAgent = mb_isAgent m\<rparr>)"
    by (auto simp: requireCapability_run requireMember_run requireMembership_run split: option.splits)
qed

text \<open>External roles see no workspace data: the internal gate admits nobody whose stored role is Partner or
  Guest, whatever the request.\<close>

theorem require_internal_excludes_external:
  "fst (requireInternal W req w s) = Inr ctx \<Longrightarrow>
   ctx_role ctx \<notin> {Partner, Guest} \<and> active_member s ctx \<and> ctx_workspaceId ctx = w"
  using requireCapability_sound [of W req w ReadWorkspace s ctx]
  by (auto simp: requireInternal_def cap_sets)

definition demo_member :: member_row where
  "demo_member = \<lparr>mb_workspaceId = ''w1'', mb_sub = ''alice'', mb_walletAddress = None, mb_displayName = None,
     mb_email = None, mb_role = Admin, mb_status = ''active'', mb_kycStatus = None, mb_isAgent = False,
     mb_devicesCount = 0, mb_timezone = None, mb_joinedAt = 0\<rparr>"

definition demo_workspace :: workspace_row where
  "demo_workspace = \<lparr>ws_id = ''w1'', ws_slug = ''one'', ws_name = ''One'', ws_ownerSub = ''olga'',
     ws_encKeyVersion = 1, ws_createdAt = 0\<rparr>"

definition demo_db :: db where
  "demo_db = empty_db\<lparr>workspaces := [demo_workspace], members := [demo_member]\<rparr>"

lemma demo_web_owner: "requireOwner (auth demo_web) demo_request = Some ''alice''"
  using demo_owner by (simp add: demo_web_def)

lemma demo_admitted:
  "can Admin cap \<Longrightarrow> requireCapability demo_web demo_request ''w1'' cap demo_db =
   (Inr \<lparr>ctx_workspaceId = ''w1'', ctx_sub = ''alice'', ctx_role = Admin, ctx_isAgent = False\<rparr>, demo_db)"
  by (simp add: requireCapability_run requireMember_run requireMembership_run demo_web_owner member_at_def
      demo_db_def demo_member_def del: can.simps)

theorem require_internal_excludes_external_witness:
  "Admin \<notin> {Partner, Guest} \<and> active_member demo_db
     \<lparr>ctx_workspaceId = ''w1'', ctx_sub = ''alice'', ctx_role = Admin, ctx_isAgent = False\<rparr>"
proof -
  have "fst (requireInternal demo_web demo_request ''w1'' demo_db)
      = Inr \<lparr>ctx_workspaceId = ''w1'', ctx_sub = ''alice'', ctx_role = Admin, ctx_isAgent = False\<rparr>"
    by (simp add: requireInternal_def demo_admitted cap_sets)
  from require_internal_excludes_external [OF this] show ?thesis by simp
qed

end
