(* ===== verification/Audit_Chain.thy ===== *)
theory Audit_Chain
  imports Guard
begin

text \<open>
  \<^verbatim>\<open>lib/audit/chain.ts\<close>: the per-workspace, keyed, hash-chained audit log; and \<^verbatim>\<open>lib/witness/ledger.ts\<close>, the
  channel ledger that is chained into it. Ids, initialisation vectors and the clock reading of an
  operation are arguments. The key material must be provisioned for an append to succeed.
\<close>

subsection \<open>Ordering\<close>

text \<open>\<^verbatim>\<open>order by seq desc limit 1\<close>: the row with the largest key.\<close>

definition latest :: "('r \<Rightarrow> int) \<Rightarrow> 'r list \<Rightarrow> 'r option" where
  "latest k rs = (case rev (sort_key k rs) of [] \<Rightarrow> None | r # _ \<Rightarrow> Some r)"

lemma sort_key_sorted: "sorted_wrt (<) (map k rs) \<Longrightarrow> sort_key k rs = rs" for k :: "'r \<Rightarrow> int"
  by (rule sort_key_id_if_sorted) (simp add: strict_sorted_imp_sorted)

lemma latest_sorted: "sorted_wrt (<) (map k rs) \<Longrightarrow> latest k rs = (if rs = [] then None else Some (last rs))"
  by (cases rs rule: rev_cases) (simp_all add: latest_def sort_key_sorted)

lemma sorted_wrt_map_filter: "sorted_wrt (<) (map k rs) \<Longrightarrow> sorted_wrt (<) (map k (filter P rs))" for k :: "'r \<Rightarrow> int"
  by (simp add: sorted_wrt_map sorted_wrt_filter)

subsection \<open>The chain\<close>

definition AUDIT_DOMAIN :: string where
  "AUDIT_DOMAIN = ''citrate-comms-web/audit/v2''"

definition GENESIS_PREV :: string where
  "GENESIS_PREV = replicate 64 (CHR ''0'')"

record AuditInput =
  ai_workspaceId :: uuid
  ai_actorSub :: "string option"
  ai_event :: string
  ai_target :: "string option"
  ai_ipHash :: "string option"
  ai_uaHash :: "string option"

definition audit_input :: "uuid \<Rightarrow> string option \<Rightarrow> string \<Rightarrow> string option \<Rightarrow> AuditInput" where
  "audit_input w actor ev target = \<lparr>ai_workspaceId = w, ai_actorSub = actor, ai_event = ev, ai_target = target,
     ai_ipHash = None, ai_uaHash = None\<rparr>"

definition or_empty :: "string option \<Rightarrow> string" where
  "or_empty x = (case x of None \<Rightarrow> [] | Some s \<Rightarrow> s)"

definition int_string :: "int \<Rightarrow> string" where
  "int_string i = (if i < 0 then CHR ''-'' # digits_of (nat (- i)) else digits_of (nat i))"

definition audit_blob :: "string \<Rightarrow> AuditInput \<Rightarrow> ms \<Rightarrow> string" where
  "audit_blob prevHash i tsMs = js_join [CHR 0x00]
     [AUDIT_DOMAIN, prevHash, ai_workspaceId i, ai_event i, or_empty (ai_target i), or_empty (ai_actorSub i),
      or_empty (ai_ipHash i), or_empty (ai_uaHash i), int_string tsMs]"

definition recordHash :: "crypto_env \<Rightarrow> string \<Rightarrow> AuditInput \<Rightarrow> ms \<Rightarrow> err + string" where
  "recordHash E prevHash i tsMs = auditMac E (ai_workspaceId i) (audit_blob prevHash i tsMs)"

definition audit_rows :: "db \<Rightarrow> uuid \<Rightarrow> audit_row list" where
  "audit_rows s w = rows_where (\<lambda>r. au_workspaceId r = w) (auditLog s)"

definition audit_prev :: "db \<Rightarrow> uuid \<Rightarrow> string" where
  "audit_prev s w = (case latest au_seq (audit_rows s w) of None \<Rightarrow> GENESIS_PREV | Some h \<Rightarrow> au_hash h)"

definition audit_row_of :: "AuditInput \<Rightarrow> ms \<Rightarrow> string \<Rightarrow> string \<Rightarrow> audit_row" where
  "audit_row_of i tsMs prevHash hash = \<lparr>au_seq = 0, au_workspaceId = ai_workspaceId i, au_actorSub = ai_actorSub i,
     au_event = ai_event i, au_target = ai_target i, au_ipHash = ai_ipHash i, au_uaHash = ai_uaHash i,
     au_ts = tsMs, au_prevHash = prevHash, au_hash = hash\<rparr>"

text \<open>The append is two statements: read the head, then insert. \<open>append_after\<close> is the second, given the head
  hash the first one read.\<close>

definition append_after :: "crypto_env \<Rightarrow> ms \<Rightarrow> AuditInput \<Rightarrow> string \<Rightarrow> (db, int \<times> string) act" where
  "append_after E now i prevHash =
     act_bind (act_lift (recordHash E prevHash i now)) (\<lambda>hash.
     act_bind (insert_audit (audit_row_of i now prevHash hash)) (\<lambda>row.
       act_return (au_seq row, hash)))"

definition appendAudit :: "crypto_env \<Rightarrow> ms \<Rightarrow> AuditInput \<Rightarrow> (db, int \<times> string) act" where
  "appendAudit E now i = act_bind (act_get (\<lambda>s. audit_prev s (ai_workspaceId i))) (append_after E now i)"

record IntegrityResult =
  verified :: bool
  recordCount :: nat
  brokenAtSeq :: "int option"

definition row_input :: "uuid \<Rightarrow> audit_row \<Rightarrow> AuditInput" where
  "row_input w r = \<lparr>ai_workspaceId = w, ai_actorSub = au_actorSub r, ai_event = au_event r, ai_target = au_target r,
     ai_ipHash = au_ipHash r, ai_uaHash = au_uaHash r\<rparr>"

fun walk_chain :: "crypto_env \<Rightarrow> uuid \<Rightarrow> nat \<Rightarrow> string \<Rightarrow> audit_row list \<Rightarrow> err + IntegrityResult" where
  "walk_chain E w n prev [] = Inr \<lparr>verified = True, recordCount = n, brokenAtSeq = None\<rparr>"
| "walk_chain E w n prev (r # rs) =
     (if au_prevHash r \<noteq> prev then Inr \<lparr>verified = False, recordCount = n, brokenAtSeq = Some (au_seq r)\<rparr>
      else case recordHash E prev (row_input w r) (au_ts r) of
             Inl e \<Rightarrow> Inl e
           | Inr expected \<Rightarrow>
               if expected \<noteq> au_hash r
               then Inr \<lparr>verified = False, recordCount = n, brokenAtSeq = Some (au_seq r)\<rparr>
               else walk_chain E w n (au_hash r) rs)"

definition verifyChainFromDb :: "crypto_env \<Rightarrow> uuid \<Rightarrow> (db, IntegrityResult) act" where
  "verifyChainFromDb E w = act_bind (act_get (\<lambda>s. sort_key au_seq (audit_rows s w))) (\<lambda>rows.
     act_lift (walk_chain E w (length rows) GENESIS_PREV rows))"

definition listAudit :: "uuid \<Rightarrow> nat \<Rightarrow> (db, audit_row list) act" where
  "listAudit w lim = act_get (\<lambda>s. take lim (rev (sort_key au_seq (audit_rows s w))))"

subsection \<open>Appends verify\<close>

text \<open>\<open>chain_from E w prev rs\<close>: the rows link up from \<open>prev\<close> and carry the right hashes.\<close>

fun chain_from :: "crypto_env \<Rightarrow> uuid \<Rightarrow> string \<Rightarrow> audit_row list \<Rightarrow> bool" where
  "chain_from E w prev [] = True"
| "chain_from E w prev (r # rs) \<longleftrightarrow> au_prevHash r = prev
     \<and> recordHash E prev (row_input w r) (au_ts r) = Inr (au_hash r) \<and> chain_from E w (au_hash r) rs"

definition head_hash :: "string \<Rightarrow> audit_row list \<Rightarrow> string" where
  "head_hash prev rs = (if rs = [] then prev else au_hash (last rs))"

lemma chain_from_append:
  "chain_from E w prev (rs @ ts) \<longleftrightarrow> chain_from E w prev rs \<and> chain_from E w (head_hash prev rs) ts"
  by (induction rs arbitrary: prev) (auto simp: head_hash_def)

lemma recordHash_provisioned: "provisioned E \<Longrightarrow> \<exists>h. recordHash E p i t = Inr h"
  using derive_provisioned [of E "ai_workspaceId i" "''comms-audit-chain-v1''"]
  by (auto simp: recordHash_def auditMac_def split: sum.splits)

lemma walk_chain_verified_iff:
  "provisioned E \<Longrightarrow>
   walk_chain E w n prev rs = Inr \<lparr>verified = True, recordCount = n, brokenAtSeq = None\<rparr> \<longleftrightarrow> chain_from E w prev rs"
proof (induction rs arbitrary: prev)
  case (Cons r rs)
  obtain h where "recordHash E prev (row_input w r) (au_ts r) = Inr h"
    using recordHash_provisioned [OF Cons.prems] by blast
  with Cons show ?case by auto
qed simp

lemma audit_sorted: "serials_ok s \<Longrightarrow> sorted_wrt (<) (map au_seq (audit_rows s w))"
  by (simp add: serials_ok_def audit_rows_def rows_where_def sorted_wrt_map_filter)

lemma audit_prev_head: "serials_ok s \<Longrightarrow> audit_prev s w = head_hash GENESIS_PREV (audit_rows s w)"
  using latest_sorted [OF audit_sorted] by (simp add: audit_prev_def head_hash_def)

definition chain_ok :: "crypto_env \<Rightarrow> db \<Rightarrow> uuid \<Rightarrow> bool" where
  "chain_ok E s w \<longleftrightarrow> chain_from E w GENESIS_PREV (audit_rows s w)"

lemma verifyChain_iff:
  assumes "provisioned E" "serials_ok s"
  shows "verifyChainFromDb E w s =
      (Inr \<lparr>verified = True, recordCount = length (audit_rows s w), brokenAtSeq = None\<rparr>, s) \<longleftrightarrow> chain_ok E s w"
proof -
  have "sort_key au_seq (audit_rows s w) = audit_rows s w"
    by (rule sort_key_sorted [OF audit_sorted [OF assms(2)]])
  then show ?thesis
    using walk_chain_verified_iff [OF assms(1), of w "length (audit_rows s w)" GENESIS_PREV "audit_rows s w"]
    by (simp add: verifyChainFromDb_def act_defs chain_ok_def)
qed

text \<open>What an append does to the state: nothing on a constraint violation or a missing key except for the
  consumed serial; otherwise one more row at the end of its workspace's chain.\<close>

lemma appendAudit_run:
  "appendAudit E now i s = append_after E now i (audit_prev s (ai_workspaceId i)) s"
  by (simp add: appendAudit_def)

lemma append_after_run:
  "append_after E now i p s = (case recordHash E p i now of
      Inl e \<Rightarrow> (Inl e, s)
    | Inr h \<Rightarrow>
        if has_workspace s (ai_workspaceId i)
        then (Inr (auditLogSerial s, h),
              s\<lparr>auditLogSerial := auditLogSerial s + 1,
                auditLog := auditLog s @ [(audit_row_of i now p h)\<lparr>au_seq := auditLogSerial s\<rparr>]\<rparr>)
        else (Inl (DbError ''constraint violation''), s\<lparr>auditLogSerial := auditLogSerial s + 1\<rparr>))"
  by (cases "recordHash E p i now")
    (simp_all add: append_after_def insert_audit_def tbl_insert_def act_defs has_workspace_def audit_row_of_def Let_def)

lemma frames_appendAudit [frame_intros]:
  assumes "\<And>s x y. f (s\<lparr>auditLogSerial := x, auditLog := y\<rparr>) = f s" "\<And>s x. f (s\<lparr>auditLogSerial := x\<rparr>) = f s"
  shows "frames f (appendAudit E now i)"
  unfolding frames_def appendAudit_run append_after_run by (auto simp: assms split: sum.split)

lemma db_ok_appendAudit [inv_intros]: "preserves db_ok (appendAudit E now i)"
  unfolding appendAudit_def append_after_def by (intro inv_intros)

lemma row_input_of: "row_input (ai_workspaceId i) ((audit_row_of i t p h)\<lparr>au_seq := n\<rparr>) = i"
  by (simp add: row_input_def audit_row_of_def)

lemma audit_row_of_sel [simp]:
  "au_workspaceId (audit_row_of i t p h) = ai_workspaceId i" "au_hash (audit_row_of i t p h) = h"
  "au_prevHash (audit_row_of i t p h) = p" "au_ts (audit_row_of i t p h) = t"
  by (simp_all add: audit_row_of_def)

lemma chain_ok_appendAudit:
  assumes ok: "serials_ok s" "chain_ok E s w"
  shows "chain_ok E (snd (appendAudit E now i s)) w"
proof (cases "recordHash E (audit_prev s (ai_workspaceId i)) i now")
  case (Inl e)
  then show ?thesis using ok by (simp add: appendAudit_run append_after_run)
next
  case (Inr h)
  show ?thesis
  proof (cases "has_workspace s (ai_workspaceId i) \<and> ai_workspaceId i = w")
    case True
    then show ?thesis using Inr ok
      by (auto simp: appendAudit_run append_after_run chain_ok_def audit_rows_def rows_where_def chain_from_append
          audit_prev_head row_input_of)
  next
    case False
    then show ?thesis using Inr ok
      by (auto simp: appendAudit_run append_after_run chain_ok_def audit_rows_def rows_where_def)
  qed
qed

definition audit_ok :: "crypto_env \<Rightarrow> db \<Rightarrow> bool" where
  "audit_ok E s \<longleftrightarrow> serials_ok s \<and> (\<forall>w. chain_ok E s w)"

lemma serials_ok_appendAudit: "serials_ok s \<Longrightarrow> serials_ok (snd (appendAudit E now i s))"
  by (auto simp: appendAudit_run append_after_run serials_ok_def sorted_wrt_append split: sum.split)

lemma audit_ok_appendAudit [inv_intros]: "preserves (audit_ok E) (appendAudit E now i)"
  by (auto simp: preserves_def audit_ok_def serials_ok_appendAudit chain_ok_appendAudit)

definition audit_step :: "crypto_env \<Rightarrow> ms \<times> AuditInput \<Rightarrow> db \<Rightarrow> db" where
  "audit_step E c s = snd (appendAudit E (fst c) (snd c) s)"

interpretation audit_log: seq_log "audit_step E" auditLog au_seq serials_ok for E
proof
  fix s c
  assume s: "serials_ok s"
  show "serials_ok (audit_step E c s)" using s by (simp add: audit_step_def serials_ok_appendAudit)
  show "\<exists>es. auditLog (audit_step E c s) = auditLog s @ es \<and> sorted_wrt (<) (map au_seq es)
      \<and> (\<forall>e\<in>set es. \<forall>x\<in>set (auditLog s). au_seq x < au_seq e)"
    using s by (auto simp: audit_step_def appendAudit_run append_after_run serials_ok_def split: sum.split)
qed

lemma audit_ok_run: "audit_ok E s \<Longrightarrow> audit_ok E (fold (audit_step E) cs s)"
proof (induction cs arbitrary: s)
  case (Cons c cs)
  have "audit_ok E (audit_step E c s)"
    using audit_ok_appendAudit [of E "fst c" "snd c"] Cons.prems by (simp add: preserves_def audit_step_def)
  then show ?case using Cons.IH by simp
qed simp

lemma audit_ok_empty: "audit_ok E empty_db"
  by (simp add: audit_ok_def serials_ok_def empty_db_def chain_ok_def audit_rows_def rows_where_def)

text \<open>C12. Sequential appends always verify: from a database whose chains are intact, after any sequence of appends
  for any workspaces, the sealed-ledger check of every workspace reports an unbroken chain with exactly
  its records, and every earlier record is still in place.\<close>

theorem audit_appends_verify:
  fixes cs :: "(ms \<times> AuditInput) list"
  assumes "provisioned E" "audit_ok E s"
  defines "t \<equiv> fold (audit_step E) cs s"
  shows "verifyChainFromDb E w t =
      (Inr \<lparr>verified = True, recordCount = length (audit_rows t w), brokenAtSeq = None\<rparr>, t)
    \<and> (\<exists>es. auditLog t = auditLog s @ es) \<and> sorted_wrt (<) (map au_seq (auditLog t))"
proof -
  have t: "audit_ok E t" unfolding t_def by (rule audit_ok_run [OF assms(2)])
  have s: "serials_ok s" "sorted_wrt (<) (map au_seq (auditLog s))"
    using assms(2) by (simp_all add: audit_ok_def serials_ok_def)
  show ?thesis
    using verifyChain_iff [OF assms(1), of t w] t audit_log.run_prefix [OF s(1), of E cs]
      audit_log.run_increasing [OF s, of E cs]
    by (simp add: audit_ok_def t_def)
qed

lemma audit_ok_demo: "audit_ok E demo_db"
  by (simp add: audit_ok_def serials_ok_def demo_db_def empty_db_def chain_ok_def audit_rows_def rows_where_def)

definition demo_entries :: "(ms \<times> AuditInput) list" where
  "demo_entries = [(10, audit_input ''w1'' (Some ''alice'') ''message_sent'' (Some ''m1'')),
     (11, audit_input ''w1'' None ''member_joined'' None)]"

theorem audit_appends_verify_witness:
  "verifyChainFromDb demo_env ''w1'' (fold (audit_step demo_env) demo_entries demo_db)
   = (Inr \<lparr>verified = True, recordCount = length (audit_rows
        (fold (audit_step demo_env) demo_entries demo_db) ''w1''), brokenAtSeq = None\<rparr>,
      fold (audit_step demo_env) demo_entries demo_db)"
  using audit_appends_verify [OF provisioned_demo audit_ok_demo, of "''w1''" demo_entries] by blast

subsection \<open>Tamper evidence\<close>

declare digits_of.simps [simp del]

lemma digits_of_unfold: "digits_of n = (if n < 10 then [char_of (48 + n)] else digits_of (n div 10) @ [char_of (48 + n mod 10)])"
  by (rule digits_of.simps)

definition undigits :: "string \<Rightarrow> nat" where
  "undigits s = foldl (\<lambda>a c. 10 * a + (of_char c - 48)) 0 s"

lemma undigits_digits: "undigits (digits_of n) = n"
proof (induction n rule: digits_of.induct)
  case (1 n)
  show ?case
  proof (cases "n < 10")
    case True
    then show ?thesis by (simp add: digits_of_unfold [of n] undigits_def)
  next
    case False
    with 1 have "foldl (\<lambda>a c. 10 * a + (of_char c - 48)) 0 (digits_of (n div 10)) = n div 10"
      by (simp add: undigits_def)
    moreover have "(of_char (char_of (48 + n mod 10) :: char) :: nat) = 48 + n mod 10"
      by (simp add: mod_less_divisor [of 10 n] order.strict_trans2 [of _ 58 256])
    ultimately show ?thesis using False by (simp add: digits_of_unfold [of n] undigits_def)
  qed
qed

lemma digits_of_chars: "c \<in> set (digits_of n) \<Longrightarrow> 48 \<le> (of_char c :: nat) \<and> (of_char c :: nat) \<le> 57"
proof (induction n rule: digits_of.induct)
  case (1 n)
  have "(48 + n mod 10) mod 256 = 48 + n mod 10" by (rule mod_less) (use mod_less_divisor [of 10 n] in linarith)
  moreover have "n mod 10 < 10" by simp
  ultimately show ?case using 1
    by (cases "n < 10") (auto simp: digits_of_unfold [of n])
qed

lemma int_string_inj: "int_string i = int_string j \<Longrightarrow> i = j"
proof -
  have ne: "digits_of n \<noteq> CHR ''-'' # x" for n x
  proof
    assume "digits_of n = CHR ''-'' # x"
    then have "CHR ''-'' \<in> set (digits_of n)" by simp
    from digits_of_chars [OF this] show False by simp
  qed
  have inj: "m = n" if "digits_of m = digits_of n" for m n
    by (metis undigits_digits that)
  assume eq: "int_string i = int_string j"
  show "i = j"
  proof (cases "i < 0"; cases "j < 0")
    assume "i < 0" "j < 0"
    then show ?thesis using eq inj [of "nat (- i)" "nat (- j)"] by (simp add: int_string_def)
  next
    assume "\<not> i < 0" "\<not> j < 0"
    then show ?thesis using eq inj [of "nat i" "nat j"] by (simp add: int_string_def)
  qed (use eq ne in \<open>auto simp: int_string_def dest: sym\<close>)
qed

lemma int_string_nul: "CHR 0x00 \<notin> set (int_string i)"
  using digits_of_chars [of "CHR 0x00"] by (auto simp: int_string_def)

text \<open>The columns the MAC covers, with absent values read as empty ones.\<close>

definition sealed_fields :: "audit_row \<Rightarrow> string list \<times> ms" where
  "sealed_fields r = ([au_prevHash r, au_event r, or_empty (au_target r), or_empty (au_actorSub r),
     or_empty (au_ipHash r), or_empty (au_uaHash r)], au_ts r)"

definition nul_free :: "uuid \<Rightarrow> audit_row \<Rightarrow> bool" where
  "nul_free w r \<longleftrightarrow> (\<forall>f\<in>set (w # fst (sealed_fields r)). CHR 0x00 \<notin> set f)"

definition row_blob :: "uuid \<Rightarrow> audit_row \<Rightarrow> string" where
  "row_blob w r = audit_blob (au_prevHash r) (row_input w r) (au_ts r)"

text \<open>No two of these particular records collide under the MAC.\<close>

definition mac_separates :: "crypto_env \<Rightarrow> uuid \<Rightarrow> audit_row list \<Rightarrow> audit_row list \<Rightarrow> bool" where
  "mac_separates E w rs ts \<longleftrightarrow> (\<forall>r\<in>set rs. \<forall>t\<in>set ts. \<forall>k.
     hmac_sha256 E k (row_blob w r) = hmac_sha256 E k (row_blob w t) \<longrightarrow> row_blob w r = row_blob w t)"

lemma recordHash_eqD:
  assumes "mac_separates E w rs ts" "r \<in> set rs" "t \<in> set ts"
    "recordHash E (au_prevHash r) (row_input w r) (au_ts r) = Inr h"
    "recordHash E (au_prevHash t) (row_input w t) (au_ts t) = Inr h"
  shows "row_blob w r = row_blob w t"
proof -
  obtain k where "derive E w ''comms-audit-chain-v1'' = Inr k"
    using assms(4) by (auto simp: recordHash_def auditMac_def row_input_def split: sum.splits)
  then have "hmac_sha256 E k (row_blob w r) = hmac_sha256 E k (row_blob w t)"
    using assms(4,5) by (auto simp: recordHash_def auditMac_def row_blob_def row_input_def hex_encode_inj)
  then show ?thesis using assms(1-3) unfolding mac_separates_def by blast
qed

lemma audit_domain_nul: "CHR 0x00 \<notin> set AUDIT_DOMAIN"
  by (simp add: AUDIT_DOMAIN_def)

lemma audit_blob_inj:
  assumes "audit_blob p (row_input w r) t = audit_blob p' (row_input w r') t'"
    and "nul_free w (r\<lparr>au_prevHash := p\<rparr>)" "nul_free w (r'\<lparr>au_prevHash := p'\<rparr>)"
  shows "p = p' \<and> au_event r = au_event r' \<and> or_empty (au_target r) = or_empty (au_target r')
    \<and> or_empty (au_actorSub r) = or_empty (au_actorSub r') \<and> or_empty (au_ipHash r) = or_empty (au_ipHash r')
    \<and> or_empty (au_uaHash r) = or_empty (au_uaHash r') \<and> t = t'"
proof -
  let ?b = "\<lambda>p r t. [AUDIT_DOMAIN, p, w, au_event r, or_empty (au_target r), or_empty (au_actorSub r),
      or_empty (au_ipHash r), or_empty (au_uaHash r), int_string t]"
  have "?b p r t = ?b p' r' t'"
    by (rule js_join_inj [of "CHR 0x00"])
      (use assms in \<open>auto simp: audit_blob_def row_input_def nul_free_def sealed_fields_def audit_domain_nul int_string_nul\<close>)
  then show ?thesis by (auto dest: int_string_inj)
qed

lemma chain_determined:
  assumes "length rs = length ts" "mac_separates E w rs ts"
    and "chain_from E w p rs" "chain_from E w p ts" "head_hash p rs = head_hash p ts"
    and "\<forall>r\<in>set rs. nul_free w r" "\<forall>r\<in>set ts. nul_free w r"
  shows "map sealed_fields rs = map sealed_fields ts \<and> map au_hash rs = map au_hash ts"
  using assms
proof (induction rs arbitrary: ts rule: rev_induct)
  case Nil
  then show ?case by simp
next
  case (snoc r rs)
  obtain ts' q where ts: "ts = ts' @ [q]" using snoc.prems(1) by (cases ts rule: rev_cases) auto
  have c: "chain_from E w p rs" "chain_from E w p ts'"
    "au_prevHash r = head_hash p rs" "au_prevHash q = head_hash p ts'"
    "recordHash E (au_prevHash r) (row_input w r) (au_ts r) = Inr (au_hash r)"
    "recordHash E (au_prevHash q) (row_input w q) (au_ts q) = Inr (au_hash q)"
    using snoc.prems(3,4) by (auto simp: ts chain_from_append)
  have h: "au_hash r = au_hash q" using snoc.prems(5) by (simp add: ts head_hash_def)
  have b: "row_blob w r = row_blob w q"
    by (rule recordHash_eqD [OF snoc.prems(2) _ _ c(5) c(6) [folded h]]) (simp_all add: ts)
  have e: "sealed_fields r = sealed_fields q"
    using audit_blob_inj [OF b [unfolded row_blob_def]] snoc.prems(6,7) by (auto simp: ts sealed_fields_def)
  then have "head_hash p rs = head_hash p ts'" using c(3,4) by (simp add: sealed_fields_def)
  moreover have "length rs = length ts'" using snoc.prems(1) by (simp add: ts)
  moreover have "mac_separates E w rs ts'" using snoc.prems(2) by (auto simp: mac_separates_def ts)
  moreover have "\<forall>r\<in>set rs. nul_free w r" "\<forall>r\<in>set ts'. nul_free w r" using snoc.prems(6,7) by (auto simp: ts)
  ultimately have "map sealed_fields rs = map sealed_fields ts' \<and> map au_hash rs = map au_hash ts'"
    using snoc.IH c(1,2) by blast
  then show ?case using e h by (simp add: ts)
qed

text \<open>C13. Tamper evidence: if two states of the log of a workspace both pass verification, with the same number of
  records and the same head hash, then every record agrees in every sealed field (event, target, actor,
  address and agent hashes, time stamp, link) and in its hash: no record of a verifying log can have been
  altered, replaced or reordered under an unchanged head. No two records of the logs collide under the MAC, and the text columns are free of the NUL separator, which the database's text type guarantees.\<close>

theorem audit_tamper_evident:
  assumes prov: "provisioned E" and mac: "mac_separates E w (audit_rows s w) (audit_rows t w)" and ok: "serials_ok s" "serials_ok t"
    and ver: "fst (verifyChainFromDb E w s) = Inr \<lparr>verified = True, recordCount = n, brokenAtSeq = None\<rparr>"
      "fst (verifyChainFromDb E w t) = Inr \<lparr>verified = True, recordCount = n, brokenAtSeq = None\<rparr>"
    and head: "audit_prev s w = audit_prev t w"
    and nul: "\<forall>r\<in>set (audit_rows s w) \<union> set (audit_rows t w). nul_free w r"
  shows "map sealed_fields (audit_rows s w) = map sealed_fields (audit_rows t w)
    \<and> map au_hash (audit_rows s w) = map au_hash (audit_rows t w)"
proof -
  have W: "verifyChainFromDb E w x = (walk_chain E w (length (audit_rows x w)) GENESIS_PREV (audit_rows x w), x)"
    if "serials_ok x" for x
    using sort_key_sorted [OF audit_sorted [OF that]] by (simp add: verifyChainFromDb_def act_defs)
  have cnt: "walk_chain E w k p rs = Inr \<lparr>verified = True, recordCount = n, brokenAtSeq = None\<rparr> \<Longrightarrow> k = n" for k p rs
    by (induction rs arbitrary: p) (auto split: if_splits sum.splits)
  have L: "length (audit_rows s w) = n" "length (audit_rows t w) = n"
    using ver W [OF ok(1)] W [OF ok(2)] cnt by simp_all
  have C: "chain_from E w GENESIS_PREV (audit_rows s w)" "chain_from E w GENESIS_PREV (audit_rows t w)"
    using ver W [OF ok(1)] W [OF ok(2)] L walk_chain_verified_iff [OF prov] by simp_all
  show ?thesis
    by (rule chain_determined [OF _ mac C]) (use L head nul audit_prev_head ok in auto)
qed

lemma recordHash_demo:
  "recordHash demo_env p i t = Inr (hex_encode (CHR ''h'' # (replicate 32 (CHR ''k'') @ ai_workspaceId i @ ''comms-audit-chain-v1'')
     @ audit_blob p i t))"
  by (simp add: recordHash_def auditMac_def derive_def masterKey_demo) (simp add: demo_env_def)

lemma mac_separates_demo: "mac_separates demo_env w rs ts"
  by (simp add: mac_separates_def demo_env_def)

definition demo_log :: db where
  "demo_log = audit_step demo_env (10, audit_input ''w1'' (Some ''alice'') ''message_sent'' (Some ''m1'')) demo_db"

lemma demo_log_rows:
  "\<exists>h. audit_rows demo_log ''w1'' = [\<lparr>au_seq = 1, au_workspaceId = ''w1'', au_actorSub = Some ''alice'',
     au_event = ''message_sent'', au_target = Some ''m1'', au_ipHash = None, au_uaHash = None, au_ts = 10,
     au_prevHash = GENESIS_PREV, au_hash = h\<rparr>]"
  by (simp add: demo_log_def audit_step_def appendAudit_run append_after_run recordHash_demo audit_prev_def
      audit_rows_def rows_where_def latest_def demo_db_def empty_db_def has_workspace_def demo_workspace_def
      audit_row_of_def audit_input_def)

lemma demo_log_ok: "audit_ok demo_env demo_log"
  using audit_ok_appendAudit audit_ok_demo by (auto simp: demo_log_def audit_step_def preserves_def)

theorem audit_tamper_evident_witness:
  "map sealed_fields (audit_rows demo_log ''w1'') = map sealed_fields (audit_rows (demo_log\<lparr>members := []\<rparr>) ''w1'')
   \<and> map au_hash (audit_rows demo_log ''w1'') = map au_hash (audit_rows (demo_log\<lparr>members := []\<rparr>) ''w1'')"
proof -
  let ?t = "demo_log\<lparr>members := []\<rparr>"
  have r: "audit_rows ?t ''w1'' = audit_rows demo_log ''w1''" by (simp add: audit_rows_def)
  have ok: "serials_ok demo_log" "chain_ok demo_env demo_log ''w1''" using demo_log_ok by (simp_all add: audit_ok_def)
  have ok': "serials_ok ?t" "chain_ok demo_env ?t ''w1''" using ok by (simp_all add: serials_ok_def chain_ok_def r)
  have len: "length (audit_rows demo_log ''w1'') = 1" using demo_log_rows by auto
  have v: "fst (verifyChainFromDb demo_env ''w1'' x) = Inr \<lparr>verified = True, recordCount = 1, brokenAtSeq = None\<rparr>"
    if "serials_ok x" "chain_ok demo_env x ''w1''" "audit_rows x ''w1'' = audit_rows demo_log ''w1''" for x
    using verifyChain_iff [OF provisioned_demo that(1), of "''w1''"] that len by simp
  have n: "\<forall>x\<in>set (audit_rows demo_log ''w1'') \<union> set (audit_rows ?t ''w1''). nul_free ''w1'' x"
    using demo_log_rows by (auto simp: r nul_free_def sealed_fields_def GENESIS_PREV_def or_empty_def)
  show ?thesis
    by (rule audit_tamper_evident [OF provisioned_demo mac_separates_demo ok(1) ok'(1) v [OF ok] v [OF ok']])
      (use n r in \<open>simp_all add: audit_prev_def\<close>)
qed

subsection \<open>Concurrent appends\<close>

lemma walk_chain_skip:
  "chain_from E w prev rs \<Longrightarrow> walk_chain E w n prev (rs @ ts) = walk_chain E w n (head_hash prev rs) ts"
  by (induction rs arbitrary: prev) (auto simp: head_hash_def)

text \<open>Two appends of one workspace that both read the same head before either inserts fork the chain: the check
  then reports the second record as the break, although nobody tampered.\<close>

theorem concurrent_appends_break_chain:
  fixes t1 t2 :: ms
  assumes ok: "audit_ok E s" and ws: "has_workspace s w" and i: "ai_workspaceId i = w" "ai_workspaceId j = w"
    and prov: "provisioned E" and ne: "recordHash E (audit_prev s w) i t1 \<noteq> Inr (audit_prev s w)"
  defines "s1 \<equiv> snd (append_after E t1 i (audit_prev s w) s)"
  defines "s2 \<equiv> snd (append_after E t2 j (audit_prev s w) s1)"
  shows "fst (verifyChainFromDb E w s2) = Inr \<lparr>verified = False, recordCount = length (audit_rows s w) + 2,
           brokenAtSeq = Some (auditLogSerial s + 1)\<rparr>"
proof -
  obtain h1 h2 where h: "recordHash E (audit_prev s w) i t1 = Inr h1" "recordHash E (audit_prev s w) j t2 = Inr h2"
    using recordHash_provisioned [OF prov] by metis
  let ?r1 = "(audit_row_of i t1 (audit_prev s w) h1)\<lparr>au_seq := auditLogSerial s\<rparr>"
  let ?r2 = "(audit_row_of j t2 (audit_prev s w) h2)\<lparr>au_seq := auditLogSerial s + 1\<rparr>"
  have s: "serials_ok s" "chain_ok E s w" using ok by (simp_all add: audit_ok_def)
  have s1: "s1 = s\<lparr>auditLogSerial := auditLogSerial s + 1, auditLog := auditLog s @ [?r1]\<rparr>"
    using h(1) ws i by (simp add: s1_def append_after_run)
  have s2: "s2 = s1\<lparr>auditLogSerial := auditLogSerial s + 2, auditLog := auditLog s @ [?r1, ?r2]\<rparr>"
    using h(2) ws i by (simp add: s2_def append_after_run s1 has_workspace_def)
  have rows: "audit_rows s2 w = audit_rows s w @ [?r1, ?r2]"
    by (simp add: s2 s1 audit_rows_def rows_where_def i)
  have "serials_ok s2" using s(1) by (auto simp: s2 s1 serials_ok_def sorted_wrt_append less_Suc_eq)
  then have "sort_key au_seq (audit_rows s2 w) = audit_rows s2 w" by (rule sort_key_sorted [OF audit_sorted])
  moreover have "recordHash E (audit_prev s w) (row_input w ?r1) t1 = Inr h1"
    using h(1) row_input_of [of i] i by simp
  ultimately show ?thesis
    using s(2) ne h(1) by (simp add: verifyChainFromDb_def act_defs rows walk_chain_skip chain_ok_def
        audit_prev_head [OF s(1), symmetric] audit_row_of_def)
qed

lemma hex_encode_hd: "hex_encode (CHR ''h'' # x) \<noteq> GENESIS_PREV"
proof
  assume "hex_encode (CHR ''h'' # x) = GENESIS_PREV"
  then have "hd (hex_encode (CHR ''h'' # x)) = hd GENESIS_PREV" by (rule arg_cong)
  moreover have "hd GENESIS_PREV = CHR ''0''" by (simp add: GENESIS_PREV_def hd_replicate)
  ultimately show False by (simp add: hex_char_def char_of_def)
qed

theorem concurrent_appends_break_chain_witness:
  "let i = audit_input ''w1'' None ''a'' None; s1 = snd (append_after demo_env 1 i (audit_prev demo_db ''w1'') demo_db)
   in fst (verifyChainFromDb demo_env ''w1'' (snd (append_after demo_env 2 i (audit_prev demo_db ''w1'') s1)))
      = Inr \<lparr>verified = False, recordCount = 2, brokenAtSeq = Some 2\<rparr>"
proof -
  have p: "audit_prev demo_db ''w1'' = GENESIS_PREV" "audit_rows demo_db ''w1'' = []" "auditLogSerial demo_db = 1"
    by (simp_all add: audit_prev_def audit_rows_def rows_where_def latest_def demo_db_def empty_db_def)
  have "has_workspace demo_db ''w1''" by (simp add: has_workspace_def demo_db_def demo_workspace_def)
  then show ?thesis
    using concurrent_appends_break_chain [OF audit_ok_demo, of "''w1''" "audit_input ''w1'' None ''a'' None"
        "audit_input ''w1'' None ''a'' None" demo_env 1 2] provisioned_demo hex_encode_hd
    by (simp add: p recordHash_demo Let_def audit_input_def)
qed

end
