(* ===== verification/Ledger.thy ===== *)
theory Ledger
  imports Audit_Chain "HOL-Library.Multiset"
begin

text \<open>
  \<^verbatim>\<open>lib/witness/ledger.ts\<close>: the channel ledger of decisions, commitments and resolutions. Every entry carries the
  hash of its content and is chained into the audit log of its workspace.
\<close>

subsection \<open>The witness ledger\<close>

definition ledger_blob :: "uuid \<Rightarrow> uuid \<Rightarrow> string \<Rightarrow> string \<Rightarrow> string \<Rightarrow> string" where
  "ledger_blob w channelId kind txt bySub =
     js_join '' '' [''citrate-comms-web/ledger/v1'', w, channelId, kind, bySub, txt]"

definition ledger_recordHash :: "(string \<Rightarrow> string) \<Rightarrow> uuid \<Rightarrow> uuid \<Rightarrow> string \<Rightarrow> string \<Rightarrow> string \<Rightarrow> string" where
  "ledger_recordHash blake3 w channelId kind txt bySub = hex_encode (blake3 (ledger_blob w channelId kind txt bySub))"

record LedgerRow =
  lr_id :: uuid
  lr_channelId :: uuid
  lr_kind :: string
  lr_text :: string
  lr_bySub :: string
  lr_ownerSub :: "string option"
  lr_due :: "ms option"
  lr_status :: string
  lr_proposedByAgent :: bool
  lr_recordHash :: string
  lr_createdAt :: ms

definition undecryptable :: string where
  "undecryptable = [CHR 0xE2, CHR 0x9A, CHR 0xA0, CHR 0xEF, CHR 0xB8, CHR 0x8E] @ '' couldn'' @ [CHR 0x27] @ ''t decrypt''"

definition tryDecrypt :: "crypto_env \<Rightarrow> uuid \<Rightarrow> string \<Rightarrow> string" where
  "tryDecrypt E w packed = (case decryptField E w packed of Inr m \<Rightarrow> m | Inl _ \<Rightarrow> undecryptable)"

definition ledger_decode :: "crypto_env \<Rightarrow> uuid \<Rightarrow> ledger_row \<Rightarrow> LedgerRow" where
  "ledger_decode E w r = \<lparr>lr_id = le_id r, lr_channelId = le_channelId r, lr_kind = le_kind r,
     lr_text = tryDecrypt E w (le_textEnc r), lr_bySub = le_bySub r, lr_ownerSub = le_ownerSub r, lr_due = le_due r,
     lr_status = le_status r, lr_proposedByAgent = le_proposedByAgent r, lr_recordHash = le_recordHash r,
     lr_createdAt = le_createdAt r\<rparr>"

record WitnessInput =
  wi_workspaceId :: uuid
  wi_channelId :: uuid
  wi_sourceMessageId :: "uuid option"
  wi_kind :: string
  wi_text :: string
  wi_bySub :: string
  wi_ownerSub :: "string option"
  wi_due :: "ms option"
  wi_proposedByAgent :: bool

definition witness :: "crypto_env \<Rightarrow> (string \<Rightarrow> string) \<Rightarrow> ms \<Rightarrow> uuid \<Rightarrow> string \<Rightarrow> WitnessInput \<Rightarrow> (db, LedgerRow) act" where
  "witness E blake3 now newId iv i =
    (let hash = ledger_recordHash blake3 (wi_workspaceId i) (wi_channelId i) (wi_kind i) (wi_text i) (wi_bySub i) in
     act_bind (act_lift (encryptField E iv (wi_workspaceId i) (wi_text i))) (\<lambda>enc.
     act_bind (insert_ledger \<lparr>le_id = newId, le_workspaceId = wi_workspaceId i, le_channelId = wi_channelId i,
         le_sourceMessageId = wi_sourceMessageId i, le_kind = wi_kind i, le_textEnc = enc, le_bySub = wi_bySub i,
         le_ownerSub = wi_ownerSub i, le_due = wi_due i, le_status = ''open'',
         le_proposedByAgent = wi_proposedByAgent i, le_recordHash = hash, le_createdAt = now\<rparr>) (\<lambda>row.
     act_bind (appendAudit E now (audit_input (wi_workspaceId i) (Some (wi_bySub i))
         (''witness_'' @ wi_kind i) (Some (le_id row)))) (\<lambda>_.
     act_return (ledger_decode E (wi_workspaceId i) row)))))"

definition listLedger :: "crypto_env \<Rightarrow> uuid \<Rightarrow> uuid \<Rightarrow> (db, LedgerRow list) act" where
  "listLedger E w channelId = act_get (\<lambda>s. map (ledger_decode E w)
     (rev (sort_key le_createdAt (rows_where (\<lambda>r. le_workspaceId r = w \<and> le_channelId r = channelId) (ledgerEntries s)))))"

definition at_entry :: "uuid \<Rightarrow> uuid \<Rightarrow> uuid \<Rightarrow> ledger_row \<Rightarrow> bool" where
  "at_entry w channelId entryId r \<longleftrightarrow> le_workspaceId r = w \<and> le_channelId r = channelId \<and> le_id r = entryId"

definition resolveLedgerEntry :: "crypto_env \<Rightarrow> ms \<Rightarrow> uuid \<Rightarrow> uuid \<Rightarrow> uuid \<Rightarrow> string \<Rightarrow> (db, bool) act" where
  "resolveLedgerEntry E now w channelId entryId actorSub =
    (let P = at_entry w channelId entryId in
     act_bind (act_get (\<lambda>s. rows_where P (ledgerEntries s))) (\<lambda>rows.
     act_bind (tbl_update ledgerEntries_update P (\<lambda>r. r\<lparr>le_status := ''done''\<rparr>)) (\<lambda>_.
     if rows = [] then act_return False
     else act_bind (appendAudit E now (audit_input w (Some actorSub) ''witness_resolved_done'' (Some entryId)))
            (\<lambda>_. act_return True))))"

subsection \<open>Entries survive, chained\<close>

abbreviation provisioned_gcm :: "crypto_env \<Rightarrow> bool" where
  "provisioned_gcm E \<equiv> provisioned E \<and> gcm_ok E"

lemma tryDecrypt_encrypt:
  assumes "provisioned_gcm E" "length iv = 12" "m \<noteq> []"
  shows "\<exists>enc. encryptField E iv w m = Inr enc \<and> tryDecrypt E w enc = m"
proof -
  obtain enc where "encryptField E iv w m = Inr enc" using assms(1) by (auto elim: encryptField_Inr)
  moreover from this have "decryptField E w enc = Inr m" by (rule decrypt_encrypt [rotated -1]) (use assms in auto)
  ultimately show ?thesis by (simp add: tryDecrypt_def)
qed

lemma appendAudit_ok:
  assumes "provisioned E" "has_workspace s (ai_workspaceId i)"
  shows "\<exists>h. appendAudit E now i s = (Inr (auditLogSerial s, h), s\<lparr>auditLogSerial := auditLogSerial s + 1,
      auditLog := auditLog s @ [(audit_row_of i now (audit_prev s (ai_workspaceId i)) h)\<lparr>au_seq := auditLogSerial s\<rparr>]\<rparr>)"
  using recordHash_provisioned [OF assms(1), of "audit_prev s (ai_workspaceId i)" i now] assms(2)
  by (auto simp: appendAudit_run append_after_run)

definition listed :: "crypto_env \<Rightarrow> db \<Rightarrow> uuid \<Rightarrow> uuid \<Rightarrow> LedgerRow list" where
  "listed E s w c = (case fst (listLedger E w c s) of Inr rs \<Rightarrow> rs | Inl _ \<Rightarrow> [])"

lemma mset_listed:
  "mset (listed E s w c) = image_mset (ledger_decode E w)
     (filter_mset (\<lambda>r. le_workspaceId r = w \<and> le_channelId r = c) (mset (ledgerEntries s)))"
  by (simp add: listed_def listLedger_def act_defs rows_where_def)

text \<open>Witnessing works end to end: with the key provisioned, for a message of a channel of the workspace and a
  fresh id, \<^verbatim>\<open>witness\<close> returns the entry with the text as given, open and unresolved; the channel's ledger gains
  exactly that entry and no other channel's ledger changes; and the audit log gains exactly one record,
  whose target is the entry.\<close>

theorem witness_listed_and_chained:
  assumes key: "provisioned_gcm E" "length iv = 12"
    and refs: "has_workspace s (wi_workspaceId i)" "has_channel s (wi_channelId i)"
      "null_or (has_message s) (wi_sourceMessageId i)"
    and fresh: "newId \<notin> le_id ` set (ledgerEntries s)" and nonempty: "wi_text i \<noteq> []"
  shows "\<exists>row s' a. witness E blake3 now newId iv i s = (Inr row, s')
     \<and> lr_id row = newId \<and> lr_text row = wi_text i \<and> lr_bySub row = wi_bySub i \<and> lr_status row = ''open''
     \<and> lr_recordHash row = ledger_recordHash blake3 (wi_workspaceId i) (wi_channelId i) (wi_kind i) (wi_text i) (wi_bySub i)
     \<and> (\<forall>w c. mset (listed E s' w c) = (if w = wi_workspaceId i \<and> c = wi_channelId i then {#row#} else {#}) + mset (listed E s w c))
     \<and> auditLog s' = auditLog s @ [a] \<and> au_workspaceId a = wi_workspaceId i \<and> au_target a = Some newId
     \<and> au_actorSub a = Some (wi_bySub i) \<and> au_event a = ''witness_'' @ wi_kind i"
proof -
  obtain enc where enc: "encryptField E iv (wi_workspaceId i) (wi_text i) = Inr enc"
      "tryDecrypt E (wi_workspaceId i) enc = wi_text i"
    using tryDecrypt_encrypt [OF key nonempty] by blast
  let ?r = "\<lparr>le_id = newId, le_workspaceId = wi_workspaceId i, le_channelId = wi_channelId i,
         le_sourceMessageId = wi_sourceMessageId i, le_kind = wi_kind i, le_textEnc = enc, le_bySub = wi_bySub i,
         le_ownerSub = wi_ownerSub i, le_due = wi_due i, le_status = ''open'',
         le_proposedByAgent = wi_proposedByAgent i, le_recordHash = ledger_recordHash blake3 (wi_workspaceId i)
           (wi_channelId i) (wi_kind i) (wi_text i) (wi_bySub i), le_createdAt = now\<rparr>"
  let ?s1 = "s\<lparr>ledgerEntries := ledgerEntries s @ [?r]\<rparr>"
  let ?a = "audit_input (wi_workspaceId i) (Some (wi_bySub i)) (''witness_'' @ wi_kind i) (Some newId)"
  have ins: "insert_ledger ?r s = (Inr ?r, ?s1)"
    using refs fresh by (simp add: insert_ledger_def tbl_insert_def)
  have "has_workspace ?s1 (ai_workspaceId ?a)" using refs by (simp add: has_workspace_def audit_input_def)
  from appendAudit_ok [OF conjunct1 [OF key(1)] this, of now] obtain h where
    app: "appendAudit E now ?a ?s1 = (Inr (auditLogSerial ?s1, h), ?s1\<lparr>auditLogSerial := auditLogSerial ?s1 + 1,
      auditLog := auditLog ?s1 @ [(audit_row_of ?a now (audit_prev ?s1 (ai_workspaceId ?a)) h)\<lparr>au_seq := auditLogSerial ?s1\<rparr>]\<rparr>)"
    by blast
  have run: "witness E blake3 now newId iv i s = (Inr (ledger_decode E (wi_workspaceId i) ?r), snd (appendAudit E now ?a ?s1))"
    using enc(1) ins app by (simp add: witness_def act_bind_def act_lift_def act_return_def Let_def)
  show ?thesis
    by (rule exI conjI run)+ (use enc(2) app in \<open>auto simp: ledger_decode_def mset_listed audit_row_of_def audit_input_def\<close>)
qed

subsection \<open>Resolving\<close>

text \<open>Resolving is confined to the channel the caller was authorised for: it answers true exactly when the
  entry is in that channel of that workspace; that entry becomes done and every other entry of every
  channel is unchanged, and when there is none, nothing at all changes.\<close>

theorem resolve_scoped:
  assumes key: "provisioned E" and ws: "has_workspace s w"
  shows "\<exists>s'. resolveLedgerEntry E now w c e u s = (Inr (\<exists>r\<in>set (ledgerEntries s). at_entry w c e r), s')
     \<and> ledgerEntries s' = map (\<lambda>r. if at_entry w c e r then r\<lparr>le_status := ''done''\<rparr> else r) (ledgerEntries s)
     \<and> ((\<forall>r\<in>set (ledgerEntries s). \<not> at_entry w c e r) \<longrightarrow> s' = s)"
proof (cases "\<exists>r\<in>set (ledgerEntries s). at_entry w c e r")
  case True
  then have ne: "rows_where (at_entry w c e) (ledgerEntries s) \<noteq> []" by (auto simp: rows_where_def filter_empty_conv)
  let ?s1 = "ledgerEntries_update (upd_where (at_entry w c e) (\<lambda>r. r\<lparr>le_status := ''done''\<rparr>)) s"
  let ?a = "audit_input w (Some u) ''witness_resolved_done'' (Some e)"
  have "has_workspace ?s1 (ai_workspaceId ?a)" using ws by (simp add: has_workspace_def audit_input_def)
  from appendAudit_ok [OF key this, of now] obtain h s2
    where "appendAudit E now ?a ?s1 = (Inr h, s2)" "ledgerEntries s2 = ledgerEntries ?s1" by fastforce
  then show ?thesis using True ne
    by (auto simp: resolveLedgerEntry_def Let_def tbl_update_def upd_where_def act_defs)
next
  case False
  then have e: "rows_where (at_entry w c e) (ledgerEntries s) = []" by (auto simp: rows_where_def filter_empty_conv)
  have "upd_where (at_entry w c e) (\<lambda>r. r\<lparr>le_status := ''done''\<rparr>) (ledgerEntries s) = ledgerEntries s"
    using False by (auto intro: upd_where_idem)
  then have "ledgerEntries_update (upd_where (at_entry w c e) (\<lambda>r. r\<lparr>le_status := ''done''\<rparr>)) s = s" by simp
  then show ?thesis using False e
    by (auto simp: resolveLedgerEntry_def Let_def tbl_update_def act_defs intro!: map_idI [symmetric])
qed

subsection \<open>What the record hash binds\<close>

text \<open>The record hash is taken over the fields joined with single spaces. When the author's id holds no
  space, nor the ids and the kind, the encoding is injective: entries with different content have
  different encodings.\<close>

theorem ledger_blob_injective:
  assumes eq: "ledger_blob w c k t u = ledger_blob w' c' k' t' u'"
    and "\<forall>x\<in>{w, c, k, u, w', c', k', u'}. CHR '' '' \<notin> set x"
  shows "w = w' \<and> c = c' \<and> k = k' \<and> t = t' \<and> u = u'"
proof -
  have split: "js_split (CHR '' '') (ledger_blob w c k t u) = [''citrate-comms-web/ledger/v1'', w, c, k, u] @ js_split (CHR '' '') t"
    if "\<forall>x\<in>{w, c, k, u}. CHR '' '' \<notin> set x" for w c k t u
    using that by (simp add: ledger_blob_def js_split_append)
  have "t = t'" if "js_split a t = js_split a t'" for a and t t' :: string
    using that js_join_split by metis
  then show ?thesis using assms(2) split [of w c k u t] split [of w' c' k' u' t'] eq by auto
qed

text \<open>Without that restriction it is not: two entries with different authors and different texts have the
  same record hash, whatever the hash function.\<close>

theorem ledger_hash_ambiguous:
  "ledger_recordHash blake3 w c k ''b c'' ''a'' = ledger_recordHash blake3 w c k ''c'' ''a b''"
  by (simp add: ledger_recordHash_def ledger_blob_def)

subsection \<open>Witnesses\<close>

definition demo_channel :: channel_row where
  "demo_channel = \<lparr>ch_id = ''c1'', ch_workspaceId = ''w1'', ch_kind = ''group'', ch_name = ''general'', ch_topic = None,
     ch_isStarred = False, ch_hasAgent = False, ch_groupId = None, ch_bridged = False, ch_createdBySub = ''alice'',
     ch_createdAt = 0\<rparr>"

definition demo_chat :: db where
  "demo_chat = demo_db\<lparr>channels := [demo_channel], channelMembers := [\<lparr>cm_workspaceId = ''w1'', cm_channelId = ''c1'',
     cm_sub = ''alice'', cm_addedAt = 0, cm_lastReadSeq = 0\<rparr>]\<rparr>"

definition demo_witness_input :: WitnessInput where
  "demo_witness_input = \<lparr>wi_workspaceId = ''w1'', wi_channelId = ''c1'', wi_sourceMessageId = None, wi_kind = ''decision'',
     wi_text = ''ship it'', wi_bySub = ''alice'', wi_ownerSub = None, wi_due = None, wi_proposedByAgent = False\<rparr>"

lemmas demo_chat_defs = demo_chat_def demo_db_def empty_db_def demo_channel_def demo_workspace_def demo_member_def

theorem witness_listed_and_chained_witness:
  "\<exists>row s'. witness demo_env rev 5 ''l1'' (replicate 12 (CHR ''i'')) demo_witness_input demo_chat = (Inr row, s')
     \<and> lr_text row = ''ship it''"
proof -
  have "null_or (has_message demo_chat) (wi_sourceMessageId demo_witness_input)" "has_workspace demo_chat (wi_workspaceId demo_witness_input)"
    "has_channel demo_chat (wi_channelId demo_witness_input)" "''l1'' \<notin> le_id ` set (ledgerEntries demo_chat)"
    "wi_text demo_witness_input = ''ship it''"
    by (simp_all add: null_or_def demo_witness_input_def has_defs demo_chat_defs)
  then show ?thesis
    using witness_listed_and_chained [of demo_env "replicate 12 (CHR ''i'')" demo_chat demo_witness_input "''l1''" rev 5]
      provisioned_demo gcm_ok_demo by auto
qed

theorem resolve_scoped_witness:
  "\<exists>s'. resolveLedgerEntry demo_env 5 ''w1'' ''c1'' ''l1'' ''alice'' demo_chat = (Inr False, s') \<and> s' = demo_chat"
  using resolve_scoped [OF provisioned_demo, of demo_chat "''w1''" 5 "''c1''" "''l1''" "''alice''"]
  by (simp add: has_defs demo_chat_defs)

theorem ledger_blob_injective_witness:
  "ledger_blob ''w'' ''c'' ''decision'' ''a b'' ''u'' \<noteq> ledger_blob ''w'' ''c'' ''decision'' ''b'' ''v''"
  using ledger_blob_injective [of "''w''" "''c''" "''decision''" "''a b''" "''u''" "''w''" "''c''" "''decision''" "''b''" "''v''"]
  by auto

end
