(* ===== verification/Channels.thy ===== *)
theory Channels
  imports Ledger
begin

text \<open>
  \<^verbatim>\<open>lib/domain/channels.ts\<close>: the channel repository, its seats (channel memberships), read cursors and unread
  counts. A query parameter is compared as text; a multi-row insert is one statement, all or nothing.
\<close>

record ChannelRow =
  cr_id :: uuid
  cr_name :: string
  cr_kind :: string
  cr_topic :: "string option"
  cr_hasAgent :: bool

definition channel_view :: "channel_row \<Rightarrow> ChannelRow" where
  "channel_view c = \<lparr>cr_id = ch_id c, cr_name = ch_name c, cr_kind = ch_kind c, cr_topic = ch_topic c,
     cr_hasAgent = ch_hasAgent c\<rparr>"

definition channelsForMember :: "uuid \<Rightarrow> string \<Rightarrow> (db, ChannelRow list) act" where
  "channelsForMember w u = act_get (\<lambda>s. [channel_view c. c \<leftarrow> channels s, m \<leftarrow> channelMembers s,
      cm_channelId m = ch_id c \<and> ch_workspaceId c = w \<and> cm_sub m = u])"

definition channelById :: "uuid \<Rightarrow> uuid \<Rightarrow> (db, ChannelRow option) act" where
  "channelById w channelId = act_get (\<lambda>s. map_option channel_view
     (first_where (\<lambda>c. ch_workspaceId c = w \<and> ch_id c = channelId) (channels s)))"

definition channelWorkspace :: "uuid \<Rightarrow> (db, uuid option) act" where
  "channelWorkspace channelId = act_get (\<lambda>s. map_option ch_workspaceId
     (first_where (\<lambda>c. ch_id c = channelId) (channels s)))"

definition seated :: "db \<Rightarrow> uuid \<Rightarrow> string \<Rightarrow> bool" where
  "seated s channelId u \<longleftrightarrow> (\<exists>m\<in>set (channelMembers s). cm_channelId m = channelId \<and> cm_sub m = u)"

definition isChannelMember :: "uuid \<Rightarrow> string \<Rightarrow> (db, bool) act" where
  "isChannelMember channelId u = act_get (\<lambda>s.
     first_where (\<lambda>m. cm_channelId m = channelId \<and> cm_sub m = u) (channelMembers s) \<noteq> None)"

record CreateChannelInput =
  cc_workspaceId :: uuid
  cc_kind :: string
  cc_name :: string
  cc_topic :: "string option"
  cc_createdBySub :: string
  cc_memberSubs :: "string list"

definition seat :: "uuid \<Rightarrow> uuid \<Rightarrow> ms \<Rightarrow> string \<Rightarrow> channel_member_row" where
  "seat w channelId now u = \<lparr>cm_workspaceId = w, cm_channelId = channelId, cm_sub = u, cm_addedAt = now, cm_lastReadSeq = 0\<rparr>"

definition active_among :: "db \<Rightarrow> uuid \<Rightarrow> string list \<Rightarrow> string list" where
  "active_among s w us = (if us = [] then [] else map mb_sub (rows_where
     (\<lambda>m. mb_workspaceId m = w \<and> mb_status m = ''active'' \<and> mb_sub m \<in> set us) (members s)))"

definition createChannel :: "crypto_env \<Rightarrow> ms \<Rightarrow> uuid \<Rightarrow> CreateChannelInput \<Rightarrow> (db, ChannelRow) act" where
  "createChannel E now newId i =
     act_bind (insert_channel \<lparr>ch_id = newId, ch_workspaceId = cc_workspaceId i, ch_kind = cc_kind i,
        ch_name = js_trim (cc_name i), ch_topic = cc_topic i, ch_isStarred = False, ch_hasAgent = False,
        ch_groupId = None, ch_bridged = False, ch_createdBySub = cc_createdBySub i, ch_createdAt = now\<rparr>) (\<lambda>channel.
     let requested = filter (\<lambda>x. x \<noteq> cc_createdBySub i) (js_set (cc_memberSubs i)) in
     act_bind (act_get (\<lambda>s. active_among s (cc_workspaceId i) requested)) (\<lambda>active.
     let subs = cc_createdBySub i # active in
     act_bind (insert_rows insert_channel_member (map (seat (cc_workspaceId i) (ch_id channel) now) subs)) (\<lambda>_.
     act_bind (appendAudit E now (audit_input (cc_workspaceId i) (Some (cc_createdBySub i)) ''channel_created''
        (Some (ch_id channel)))) (\<lambda>_.
     act_return (channel_view channel)))))"

text \<open>A row whose key is taken, by an earlier row of the same statement too, is skipped.\<close>

definition seat_unless_seated :: "channel_member_row \<Rightarrow> (db, channel_member_row) act" where
  "seat_unless_seated r = act_bind (act_get (\<lambda>s. cm_key r \<in> cm_key ` set (channelMembers s))) (\<lambda>dup.
     if dup then act_return r else insert_channel_member r)"

definition addChannelMembers :: "ms \<Rightarrow> uuid \<Rightarrow> uuid \<Rightarrow> string list \<Rightarrow> (db, unit) act" where
  "addChannelMembers now w channelId subs = (if subs = [] then act_return ()
     else insert_rows seat_unless_seated (map (seat w channelId now) subs))"

definition setChannelHasAgent :: "uuid \<Rightarrow> uuid \<Rightarrow> bool \<Rightarrow> (db, unit) act" where
  "setChannelHasAgent w channelId b = tbl_update channels_update
     (\<lambda>c. ch_workspaceId c = w \<and> ch_id c = channelId) (\<lambda>c. c\<lparr>ch_hasAgent := b\<rparr>)"

definition existingChannelMembers :: "uuid \<Rightarrow> string list \<Rightarrow> (db, string list) act" where
  "existingChannelMembers channelId subs = (if subs = [] then act_return []
     else act_get (\<lambda>s. js_set (map cm_sub (rows_where
       (\<lambda>m. cm_channelId m = channelId \<and> cm_sub m \<in> set subs) (channelMembers s)))))"

definition markChannelRead :: "uuid \<Rightarrow> uuid \<Rightarrow> string \<Rightarrow> int \<Rightarrow> (db, unit) act" where
  "markChannelRead w channelId u seq = tbl_update channelMembers_update
     (\<lambda>m. cm_workspaceId m = w \<and> cm_channelId m = channelId \<and> cm_sub m = u)
     (\<lambda>m. m\<lparr>cm_lastReadSeq := max (cm_lastReadSeq m) seq\<rparr>)"

definition unread_in :: "db \<Rightarrow> string \<Rightarrow> channel_member_row \<Rightarrow> message_row list" where
  "unread_in s u m = rows_where (\<lambda>x. ms_channelId x = cm_channelId m \<and> cm_lastReadSeq m < ms_seq x
     \<and> ms_authorSub x \<noteq> u \<and> ms_state x \<noteq> ''deleted'') (messages s)"

definition unreadCounts :: "uuid \<Rightarrow> string \<Rightarrow> (db, (uuid \<times> nat) list) act" where
  "unreadCounts w u = act_get (\<lambda>s.
     let mine = rows_where (\<lambda>m. cm_workspaceId m = w \<and> cm_sub m = u) (channelMembers s)
     in map (\<lambda>c. (c, sum_list (map (\<lambda>m. length (unread_in s u m)) (filter (\<lambda>m. cm_channelId m = c) mine))))
          (js_set (map cm_channelId mine)))"

subsection \<open>Integrity\<close>

lemma db_ok_seat_unless_seated [inv_intros]: "preserves db_ok (seat_unless_seated r)"
  unfolding seat_unless_seated_def by (intro inv_intros)

lemma db_ok_createChannel [inv_intros]: "preserves db_ok (createChannel E now newId i)"
  unfolding createChannel_def Let_def by (intro inv_intros)

lemma db_ok_addChannelMembers [inv_intros]: "preserves db_ok (addChannelMembers now w c subs)"
  unfolding addChannelMembers_def by (intro inv_intros)

lemma db_ok_setChannelHasAgent [inv_intros]: "preserves db_ok (setChannelHasAgent w c b)"
  unfolding setChannelHasAgent_def
  by (rule preserves_tbl_update) (simp add: db_ok_defs key_fun_upd_where image_upd_where ball_upd_where)

lemma db_ok_markChannelRead [inv_intros]: "preserves db_ok (markChannelRead w c u q)"
  unfolding markChannelRead_def
  by (rule preserves_tbl_update) (simp add: db_ok_defs key_fun_upd_where image_upd_where ball_upd_where cm_key_def)

lemma isChannelMember_run: "isChannelMember c u s = (Inr (seated s c u), s)"
  by (auto simp: isChannelMember_def act_defs seated_def first_where_None_iff)

lemma seated_iff_key: "seated s c u \<longleftrightarrow> (c, u) \<in> cm_key ` set (channelMembers s)"
  by (auto simp: seated_def cm_key_def image_iff)

subsection \<open>Seats\<close>

lemma cm_key_seat: "cm_key (seat w c now u) = (c, u)"
  by (simp add: cm_key_def seat_def)

lemma insert_seats:
  assumes "distinct us" "has_channel s c" "\<forall>u\<in>set us. \<not> seated s c u"
  shows "insert_rows insert_channel_member (map (seat w c now) us) s
       = (Inr (), s\<lparr>channelMembers := channelMembers s @ map (seat w c now) us\<rparr>)"
proof -
  let ?st = "\<lambda>i. s\<lparr>channelMembers := channelMembers s @ map (seat w c now) (take i us)\<rparr>"
  have "insert_rows insert_channel_member (map (seat w c now) us) (?st 0)
      = (Inr (), ?st (length (map (seat w c now) us)))"
  proof (rule insert_rows_run)
    fix i assume "i < length (map (seat w c now) us)"
    then have i: "i < length us" by simp
    then have "us ! i \<notin> set (take i us)" using assms(1) by (auto simp: in_set_conv_nth nth_eq_iff_index_eq)
    moreover have "us ! i \<in> set us" using i by simp
    moreover have "cm_key ` set (channelMembers (?st i)) = cm_key ` set (channelMembers s) \<union> Pair c ` set (take i us)"
      by (simp add: image_Un image_image cm_key_seat)
    ultimately have "cm_key (seat w c now (us ! i)) \<notin> cm_key ` set (channelMembers (?st i))"
      using assms(3) by (auto simp: seated_iff_key cm_key_seat)
    then show "insert_channel_member (map (seat w c now) us ! i) (?st i) = (Inr (map (seat w c now) us ! i), ?st (Suc i))"
      using i assms(2) by (simp add: insert_channel_member_def tbl_insert_def seat_def has_channel_def take_Suc_conv_app_nth)
  qed
  then show ?thesis by simp
qed

lemma active_among_set:
  "set (active_among s w us) = {u \<in> set us. \<exists>m\<in>set (members s). mb_workspaceId m = w \<and> mb_sub m = u \<and> mb_status m = ''active''}"
  by (auto simp: active_among_def rows_where_def)

lemma active_among_distinct: "key_fun mb_key (members s) \<Longrightarrow> distinct (active_among s w us)"
  by (auto simp: active_among_def rows_where_def key_fun_def distinct_map inj_on_def mb_key_def)

text \<open>Creating a channel seats exactly the creator and those of the requested people who are active members of
  that workspace (never an outsider, a removed member or a member of another workspace), leaves every
  other channel's seats alone, and records the creation in the audit log.\<close>

theorem create_channel_seats:
  assumes ok: "db_ok s" and key: "provisioned E" and ws: "has_workspace s (cc_workspaceId i)"
    and fresh: "\<not> has_channel s newId"
  shows "\<exists>r s' a. createChannel E now newId i s = (Inr r, s') \<and> cr_id r = newId \<and> db_ok s'
     \<and> (\<forall>u. seated s' newId u \<longleftrightarrow> u = cc_createdBySub i \<or> u \<in> set (cc_memberSubs i)
          \<and> (\<exists>m\<in>set (members s). mb_workspaceId m = cc_workspaceId i \<and> mb_sub m = u \<and> mb_status m = ''active''))
     \<and> (\<forall>c u. c \<noteq> newId \<longrightarrow> seated s' c u = seated s c u)
     \<and> auditLog s' = auditLog s @ [a] \<and> au_event a = ''channel_created'' \<and> au_target a = Some newId"
proof -
  let ?ch = "\<lparr>ch_id = newId, ch_workspaceId = cc_workspaceId i, ch_kind = cc_kind i,
        ch_name = js_trim (cc_name i), ch_topic = cc_topic i, ch_isStarred = False, ch_hasAgent = False,
        ch_groupId = None, ch_bridged = False, ch_createdBySub = cc_createdBySub i, ch_createdAt = now\<rparr>"
  let ?req = "filter (\<lambda>x. x \<noteq> cc_createdBySub i) (js_set (cc_memberSubs i))"
  let ?subs = "cc_createdBySub i # active_among s (cc_workspaceId i) ?req"
  let ?s1 = "s\<lparr>channels := channels s @ [?ch]\<rparr>"
  let ?s2 = "?s1\<lparr>channelMembers := channelMembers s @ map (seat (cc_workspaceId i) newId now) ?subs\<rparr>"
  let ?a = "audit_input (cc_workspaceId i) (Some (cc_createdBySub i)) ''channel_created'' (Some newId)"
  have ins: "insert_channel ?ch s = (Inr ?ch, ?s1)"
    using ws fresh by (simp add: insert_channel_def tbl_insert_def)
  have free: "\<not> seated s newId u" for u
    using ok fresh by (auto simp: db_ok_defs seated_def)
  have act: "active_among ?s1 w us = active_among s w us" for w us by (simp add: active_among_def)
  have "distinct ?subs"
    using active_among_distinct [of s "cc_workspaceId i" ?req] ok
    by (auto simp: db_ok_def keys_ok_def active_among_set)
  then have seats: "insert_rows insert_channel_member (map (seat (cc_workspaceId i) newId now) ?subs) ?s1 = (Inr (), ?s2)"
    using insert_seats [of ?subs ?s1 newId "cc_workspaceId i" now] free by (simp add: has_channel_def seated_def)
  have "has_workspace ?s2 (ai_workspaceId ?a)" using ws by (simp add: has_workspace_def audit_input_def)
  from appendAudit_ok [OF key this, of now] obtain h s3 where
    app: "appendAudit E now ?a ?s2 = (Inr h, s3)" "channelMembers s3 = channelMembers ?s2"
      "\<exists>a. auditLog s3 = auditLog s @ [a] \<and> au_event a = ''channel_created'' \<and> au_target a = Some newId"
    by (fastforce simp: audit_row_of_def audit_input_def)
  have run: "createChannel E now newId i s = (Inr (channel_view ?ch), s3)"
    using ins seats app(1) by (simp add: createChannel_def Let_def act act_return_run act_bind_Inr)
  have "db_ok s3" using preservesD [OF db_ok_createChannel run ok] .
  moreover have "seated s3 c u \<longleftrightarrow> seated s c u \<or> c = newId \<and> u \<in> set ?subs" for c u
    using app(2) by (auto simp: seated_iff_key image_Un image_image cm_key_seat simp del: set_js_set)
  ultimately show ?thesis using app(3) free
    by (auto simp: run channel_view_def active_among_set)
qed

subsection \<open>Read cursors\<close>

definition mark_step :: "uuid \<times> uuid \<times> string \<times> int \<Rightarrow> db \<Rightarrow> db" where
  "mark_step c s = snd (markChannelRead (fst c) (fst (snd c)) (fst (snd (snd c))) (snd (snd (snd c))) s)"

definition marks_for :: "channel_member_row \<Rightarrow> (uuid \<times> uuid \<times> string \<times> int) list \<Rightarrow> int set" where
  "marks_for m cs = {q. (cm_workspaceId m, cm_channelId m, cm_sub m, q) \<in> set cs}"

lemma finite_marks_for [simp]: "finite (marks_for m cs)"
proof -
  have "marks_for m cs \<subseteq> (\<lambda>c. snd (snd (snd c))) ` set cs" by (force simp: marks_for_def)
  then show ?thesis by (rule finite_subset) simp
qed

lemma mark_step_members:
  "channelMembers (mark_step (w, c, u, q) s) = map (\<lambda>m. m\<lparr>cm_lastReadSeq :=
     if cm_workspaceId m = w \<and> cm_channelId m = c \<and> cm_sub m = u then max (cm_lastReadSeq m) q else cm_lastReadSeq m\<rparr>)
     (channelMembers s)"
  by (simp add: mark_step_def markChannelRead_def tbl_update_def upd_where_def)

text \<open>Read cursors are monotonic and order independent: after any sequence of read marks by anyone, in any order and
  with repetitions, the seats are the same ones, and each cursor is the maximum of its old value and the
  marks addressed to exactly that seat. It never goes back and nobody moves another's cursor.\<close>

theorem read_cursors_are_maxima:
  "channelMembers (fold mark_step cs s) = map (\<lambda>m. m\<lparr>cm_lastReadSeq := Max (insert (cm_lastReadSeq m) (marks_for m cs))\<rparr>)
     (channelMembers s)"
proof (induction cs arbitrary: s)
  case Nil
  then show ?case by (simp add: marks_for_def)
next
  case (Cons x cs)
  obtain w c u q where x: "x = (w, c, u, q)" by (cases x) auto
  let ?f = "\<lambda>m. m\<lparr>cm_lastReadSeq := if cm_workspaceId m = w \<and> cm_channelId m = c \<and> cm_sub m = u
      then max (cm_lastReadSeq m) q else cm_lastReadSeq m\<rparr>"
  have "Max (insert (cm_lastReadSeq (?f m)) (marks_for (?f m) cs)) = Max (insert (cm_lastReadSeq m) (marks_for m (x # cs)))" for m
  proof (cases "cm_workspaceId m = w \<and> cm_channelId m = c \<and> cm_sub m = u")
    case True
    then have "marks_for m (x # cs) = insert q (marks_for m cs)" "marks_for (?f m) cs = marks_for m cs"
      by (auto simp: marks_for_def x)
    then show ?thesis using True
      by (cases "marks_for m cs = {}") (simp_all add: Max.insert_not_elem Max_insert max.assoc max.commute max.left_commute)
  next
    case False
    then have "marks_for m (x # cs) = marks_for m cs" "?f m = m" by (auto simp: marks_for_def x)
    then show ?thesis by metis
  qed
  then show ?case using Cons.IH [of "mark_step x s"] by (simp add: x mark_step_members)
qed

subsection \<open>Unread counts\<close>

lemma filter_key_single: "distinct (map k rs) \<Longrightarrow> r \<in> set rs \<Longrightarrow> filter (\<lambda>x. k x = k r) rs = [r]"
  by (induction rs) (auto simp: filter_empty_conv rev_image_eqI)

lemma unreadCounts_run:
  assumes "keys_ok s"
  shows "unreadCounts w u s = (Inr (map (\<lambda>m. (cm_channelId m, length (unread_in s u m)))
     (rows_where (\<lambda>m. cm_workspaceId m = w \<and> cm_sub m = u) (channelMembers s))), s)"
proof -
  let ?mine = "rows_where (\<lambda>m. cm_workspaceId m = w \<and> cm_sub m = u) (channelMembers s)"
  have d: "distinct (map cm_channelId ?mine)"
    using assms by (auto simp: keys_ok_def key_fun_def rows_where_def cm_key_def distinct_map inj_on_def)
  have one: "filter (\<lambda>x. cm_channelId x = cm_channelId m) ?mine = [m]" if "m \<in> set ?mine" for m
    by (rule filter_key_single [OF d that])
  have "js_set (map cm_channelId ?mine) = map cm_channelId ?mine"
    using d by (simp add: js_set_def distinct_remdups_id)
  then show ?thesis using one by (simp add: unreadCounts_def act_defs Let_def cong: map_cong)
qed

text \<open>Reading clears exactly what was read: after a member marks a channel read up to a sequence number, the
  member's count for that channel is the number of live messages by others beyond the cursor and the
  mark, zero when the mark covers the channel, and the counts of the member's other channels are as before.\<close>

theorem mark_read_unread_counts:
  assumes ok: "keys_ok s" and m: "m \<in> set (channelMembers s)" "cm_workspaceId m = w" "cm_channelId m = c" "cm_sub m = u"
  shows "\<exists>before after s'. unreadCounts w u s = (Inr before, s)
     \<and> markChannelRead w c u q s = (Inr (), s') \<and> unreadCounts w u s' = (Inr after, s')
     \<and> map_of after c = Some (length (rows_where (\<lambda>x. ms_channelId x = c \<and> max (cm_lastReadSeq m) q < ms_seq x
          \<and> ms_authorSub x \<noteq> u \<and> ms_state x \<noteq> ''deleted'') (messages s)))
     \<and> (\<forall>c'. c' \<noteq> c \<longrightarrow> map_of after c' = map_of before c')"
proof -
  let ?P = "\<lambda>m. cm_workspaceId m = w \<and> cm_channelId m = c \<and> cm_sub m = u"
  let ?f = "\<lambda>m. m\<lparr>cm_lastReadSeq := max (cm_lastReadSeq m) q\<rparr>"
  let ?s' = "channelMembers_update (upd_where ?P ?f) s"
  let ?mine = "\<lambda>rs. filter (\<lambda>m. cm_workspaceId m = w \<and> cm_sub m = u) rs"
  let ?count = "\<lambda>m. (cm_channelId m, length (unread_in s u m))"
  have ok': "keys_ok ?s'" using ok by (simp add: keys_ok_def key_fun_upd_where cm_key_def)
  have same: "unread_in ?s' = unread_in s" by (rule ext)+ (simp add: unread_in_def)
  have mine: "?mine (upd_where ?P ?f (channelMembers s)) = upd_where ?P ?f (?mine (channelMembers s))"
    by (rule filter_upd_where_same) simp
  have key: "key_fun cm_key (channelMembers s)" using ok by (simp add: keys_ok_def)
  have "map_of (map ?count (upd_where ?P ?f (?mine rs))) c = Some (length (unread_in s u (?f m)))"
    if "m \<in> set rs" "key_fun cm_key rs" for rs
    using that m by (induction rs) (auto simp: key_fun_def cm_key_def image_iff)
  moreover have "map_of (map ?count (upd_where ?P ?f (?mine rs))) c' = map_of (map ?count (?mine rs)) c'" if "c' \<noteq> c" for c' rs
    using that by (induction rs) auto
  ultimately show ?thesis
    using m key unreadCounts_run [OF ok, of w u] unreadCounts_run [OF ok', of w u]
    by (simp add: markChannelRead_def tbl_update_def rows_where_def mine same) (simp add: unread_in_def rows_where_def)
qed

subsection \<open>Witnesses\<close>

lemma db_ok_demo_chat: "db_ok demo_chat"
  by (simp add: db_ok_defs key_fun_def demo_chat_defs)

definition demo_new_channel :: CreateChannelInput where
  "demo_new_channel = \<lparr>cc_workspaceId = ''w1'', cc_kind = ''channel'', cc_name = '' ops '', cc_topic = None,
     cc_createdBySub = ''alice'', cc_memberSubs = [''mallory'']\<rparr>"

theorem create_channel_seats_witness:
  "\<exists>r s'. createChannel demo_env 7 ''c2'' demo_new_channel demo_chat = (Inr r, s')
     \<and> seated s' ''c2'' ''alice'' \<and> \<not> seated s' ''c2'' ''mallory''"
proof -
  have "has_workspace demo_chat (cc_workspaceId demo_new_channel)" "\<not> has_channel demo_chat ''c2''"
    by (simp_all add: demo_new_channel_def has_defs demo_chat_defs)
  from create_channel_seats [OF db_ok_demo_chat provisioned_demo this, of 7] obtain r s' where
    r: "createChannel demo_env 7 ''c2'' demo_new_channel demo_chat = (Inr r, s')"
    and seats: "\<And>u. seated s' ''c2'' u \<longleftrightarrow> u = cc_createdBySub demo_new_channel \<or> u \<in> set (cc_memberSubs demo_new_channel)
      \<and> (\<exists>m\<in>set (members demo_chat). mb_workspaceId m = cc_workspaceId demo_new_channel \<and> mb_sub m = u \<and> mb_status m = ''active'')"
    by blast
  have "seated s' ''c2'' ''alice'' \<and> \<not> seated s' ''c2'' ''mallory''"
    unfolding seats by (simp add: demo_new_channel_def demo_chat_defs)
  with r show ?thesis by blast
qed

theorem mark_read_unread_counts_witness:
  "\<exists>after s'. markChannelRead ''w1'' ''c1'' ''alice'' 4 demo_chat = (Inr (), s')
     \<and> unreadCounts ''w1'' ''alice'' s' = (Inr after, s') \<and> map_of after ''c1'' = Some 0"
proof -
  let ?m = "\<lparr>cm_workspaceId = ''w1'', cm_channelId = ''c1'', cm_sub = ''alice'', cm_addedAt = 0, cm_lastReadSeq = 0\<rparr>"
  have "keys_ok demo_chat" using db_ok_demo_chat by (simp add: db_ok_def)
  moreover have "?m \<in> set (channelMembers demo_chat)" "messages demo_chat = []" by (simp_all add: demo_chat_defs)
  ultimately show ?thesis
    using mark_read_unread_counts [of demo_chat ?m "''w1''" "''c1''" "''alice''" 4] by (auto simp: rows_where_def)
qed

end
