(* ===== verification/Messages.thy ===== *)
theory Messages
  imports Channels
begin

text \<open>
  \<^verbatim>\<open>lib/domain/messages.ts\<close>: sending, listing, pinning and the attachments of messages. Bodies are encrypted at
  rest; the per-channel sequence number is computed by the insert statement itself.
\<close>

record MessageAttachment =
  at_id :: uuid
  at_name :: string
  at_mime :: "string option"
  at_url :: string

definition documentViewUrl :: "uuid \<Rightarrow> uuid \<Rightarrow> string" where
  "documentViewUrl w d = ''/api/workspaces/'' @ w @ ''/documents/'' @ d @ ''/download?inline=1''"

record MessageRow =
  mr_id :: uuid
  mr_channelId :: uuid
  mr_authorSub :: string
  mr_fromAgent :: bool
  mr_body :: string
  mr_state :: string
  mr_seq :: int
  mr_threadId :: "uuid option"
  mr_parentId :: "uuid option"
  mr_onBehalfOf :: "string option"
  mr_pinned :: bool
  mr_attachments :: "MessageAttachment list"
  mr_createdAt :: ms

definition decrypt_placeholder :: string where
  "decrypt_placeholder = undecryptable @ '' this message''"

definition safeDecrypt :: "crypto_env \<Rightarrow> uuid \<Rightarrow> string \<Rightarrow> string" where
  "safeDecrypt E w packed = (case decryptField E w packed of Inr m \<Rightarrow> m | Inl _ \<Rightarrow> decrypt_placeholder)"

definition message_decode :: "crypto_env \<Rightarrow> uuid \<Rightarrow> message_row \<Rightarrow> MessageRow" where
  "message_decode E w r = \<lparr>mr_id = ms_id r, mr_channelId = ms_channelId r, mr_authorSub = ms_authorSub r,
     mr_fromAgent = ms_fromAgent r, mr_body = safeDecrypt E w (ms_bodyEnc r), mr_state = ms_state r, mr_seq = ms_seq r,
     mr_threadId = ms_threadId r, mr_parentId = ms_parentId r, mr_onBehalfOf = ms_onBehalfOf r, mr_pinned = ms_pinned r,
     mr_attachments = [], mr_createdAt = ms_createdAt r\<rparr>"

definition attachment_rows :: "db \<Rightarrow> uuid \<Rightarrow> uuid list \<Rightarrow> (uuid \<times> document_row) list" where
  "attachment_rows s w ids = [(ma_messageId a, d). a \<leftarrow> messageAttachments s, d \<leftarrow> documents s,
     ma_documentId a = dc_id d \<and> ma_workspaceId a = w \<and> dc_workspaceId d = w \<and> ma_messageId a \<in> set ids]"

definition attachment_view :: "uuid \<Rightarrow> document_row \<Rightarrow> MessageAttachment" where
  "attachment_view w d = \<lparr>at_id = dc_id d, at_name = dc_name d, at_mime = dc_mime d,
     at_url = (if dc_blobUrl d \<noteq> [] then documentViewUrl w (dc_id d) else [])\<rparr>"

text \<open>The result, a \<^verbatim>\<open>Map\<close> from message ids, is read with \<^verbatim>\<open>.get(id) ?? []\<close> only: a function.\<close>

definition attachmentsForMessages :: "uuid \<Rightarrow> uuid list \<Rightarrow> (db, uuid \<Rightarrow> MessageAttachment list) act" where
  "attachmentsForMessages w ids = (if ids = [] then act_return (\<lambda>_. [])
     else act_get (\<lambda>s. (\<lambda>m. map (attachment_view w \<circ> snd) (filter (\<lambda>p. fst p = m) (attachment_rows s w ids)))))"

definition link_unless_linked :: "message_attachment_row \<Rightarrow> (db, message_attachment_row) act" where
  "link_unless_linked r = act_bind (act_get (\<lambda>s. ma_key r \<in> ma_key ` set (messageAttachments s))) (\<lambda>dup.
     if dup then act_return r else insert_message_attachment r)"

definition linkMessageAttachments :: "uuid \<Rightarrow> uuid \<Rightarrow> uuid list \<Rightarrow> (db, unit) act" where
  "linkMessageAttachments w messageId documentIds = (if documentIds = [] then act_return () else
     act_bind (act_get (\<lambda>s. map dc_id (rows_where (\<lambda>d. dc_workspaceId d = w \<and> dc_id d \<in> set documentIds) (documents s)))) (\<lambda>own.
     if own = [] then act_return ()
     else insert_rows link_unless_linked
       (map (\<lambda>d. \<lparr>ma_workspaceId = w, ma_messageId = messageId, ma_documentId = d\<rparr>) own)))"

definition getMessageAttachments :: "uuid \<Rightarrow> uuid \<Rightarrow> (db, MessageAttachment list) act" where
  "getMessageAttachments w messageId = act_bind (attachmentsForMessages w [messageId]) (\<lambda>att. act_return (att messageId))"

definition with_attachments :: "crypto_env \<Rightarrow> uuid \<Rightarrow> message_row list \<Rightarrow> (db, MessageRow list) act" where
  "with_attachments E w rows = (let decoded = map (message_decode E w) rows in
     act_bind (attachmentsForMessages w (map mr_id decoded)) (\<lambda>att.
     act_return (map (\<lambda>m. m\<lparr>mr_attachments := att (mr_id m)\<rparr>) decoded)))"

record ListOptions =
  lo_afterSeq :: "int option"
  lo_limit :: "nat option"

definition channel_messages :: "db \<Rightarrow> uuid \<Rightarrow> uuid \<Rightarrow> message_row list" where
  "channel_messages s w c = rows_where (\<lambda>m. ms_workspaceId m = w \<and> ms_channelId m = c) (messages s)"

definition list_limit :: "ListOptions \<Rightarrow> nat" where
  "list_limit opts = min (case lo_limit opts of None \<Rightarrow> 200 | Some n \<Rightarrow> n) 500"

definition listMessages :: "crypto_env \<Rightarrow> uuid \<Rightarrow> uuid \<Rightarrow> ListOptions \<Rightarrow> (db, MessageRow list) act" where
  "listMessages E w c opts = act_bind (act_get (\<lambda>s. take (list_limit opts) (sort_key ms_seq
      (case lo_afterSeq opts of
         Some q \<Rightarrow> rows_where (\<lambda>m. ms_workspaceId m = w \<and> ms_channelId m = c \<and> q < ms_seq m) (messages s)
       | None \<Rightarrow> rows_where (\<lambda>m. ms_workspaceId m = w \<and> ms_channelId m = c) (messages s)))))
     (\<lambda>rows. with_attachments E w rows)"

record SendInput =
  si_workspaceId :: uuid
  si_channelId :: uuid
  si_authorSub :: string
  si_body :: string
  si_fromAgent :: bool
  si_onBehalfOf :: "string option"
  si_threadId :: "uuid option"
  si_parentId :: "uuid option"
  si_clientMsgId :: "string option"

definition next_seq :: "db \<Rightarrow> uuid \<Rightarrow> int" where
  "next_seq s c = (let qs = map ms_seq (rows_where (\<lambda>m. ms_channelId m = c) (messages s))
     in (if qs = [] then 0 else Max (set qs)) + 1)"

definition message_of :: "uuid \<Rightarrow> SendInput \<Rightarrow> string \<Rightarrow> int \<Rightarrow> ms \<Rightarrow> message_row" where
  "message_of newId i enc seq now = \<lparr>ms_id = newId, ms_workspaceId = si_workspaceId i, ms_channelId = si_channelId i,
     ms_threadId = si_threadId i, ms_parentId = si_parentId i, ms_authorSub = si_authorSub i,
     ms_fromAgent = si_fromAgent i, ms_bodyEnc = enc, ms_state = ''sent'', ms_seq = seq, ms_groupSeq = None,
     ms_epoch = None, ms_senderWallet = None, ms_ciphertextHash = None, ms_clientMsgId = si_clientMsgId i,
     ms_onBehalfOf = si_onBehalfOf i, ms_pinned = False, ms_pinnedAt = None, ms_createdAt = now\<rparr>"

definition sendMessage :: "crypto_env \<Rightarrow> ms \<Rightarrow> uuid \<Rightarrow> string \<Rightarrow> SendInput \<Rightarrow> (db, MessageRow) act" where
  "sendMessage E now newId iv i =
     act_bind (act_lift (encryptField E iv (si_workspaceId i) (si_body i))) (\<lambda>enc.
     act_bind (act_get (\<lambda>s. next_seq s (si_channelId i))) (\<lambda>seq.
     act_bind (insert_message (message_of newId i enc seq now)) (\<lambda>row.
     act_return (message_decode E (si_workspaceId i) row))))"

definition setMessagePinned :: "ms \<Rightarrow> uuid \<Rightarrow> uuid \<Rightarrow> uuid \<Rightarrow> bool \<Rightarrow> (db, bool) act" where
  "setMessagePinned now w c messageId pinned =
     act_bind (tbl_update messages_update (\<lambda>m. ms_workspaceId m = w \<and> ms_channelId m = c \<and> ms_id m = messageId)
       (\<lambda>m. m\<lparr>ms_pinned := pinned, ms_pinnedAt := (if pinned then Some now else None)\<rparr>)) (\<lambda>_. act_return pinned)"

text \<open>\<^verbatim>\<open>order by pinned_at desc\<close>: the database puts missing values first.\<close>

definition by_pinnedAt_desc :: "message_row list \<Rightarrow> message_row list" where
  "by_pinnedAt_desc rs = filter (\<lambda>m. ms_pinnedAt m = None) rs
     @ rev (sort_key (\<lambda>m. the (ms_pinnedAt m)) (filter (\<lambda>m. ms_pinnedAt m \<noteq> None) rs))"

definition listPinnedMessages :: "crypto_env \<Rightarrow> uuid \<Rightarrow> uuid \<Rightarrow> (db, MessageRow list) act" where
  "listPinnedMessages E w c = act_bind (act_get (\<lambda>s. take 50 (by_pinnedAt_desc (rows_where
      (\<lambda>m. ms_workspaceId m = w \<and> ms_channelId m = c \<and> ms_pinned m \<and> ms_state m \<noteq> ''deleted'') (messages s)))))
     (\<lambda>rows. with_attachments E w rows)"

subsection \<open>Integrity\<close>

lemma db_ok_link [inv_intros]: "preserves db_ok (link_unless_linked r)"
  unfolding link_unless_linked_def by (intro inv_intros)

lemma db_ok_linkMessageAttachments [inv_intros]: "preserves db_ok (linkMessageAttachments w m ds)"
  unfolding linkMessageAttachments_def by (intro inv_intros)

lemma db_ok_sendMessage [inv_intros]: "preserves db_ok (sendMessage E now newId iv i)"
  unfolding sendMessage_def by (intro inv_intros)

lemma db_ok_setMessagePinned [inv_intros]: "preserves db_ok (setMessagePinned now w c m b)"
  unfolding setMessagePinned_def
  by (intro inv_intros preserves_tbl_update) (simp add: db_ok_defs key_fun_upd_where image_upd_where ball_upd_where)

lemma with_attachments_run:
  "with_attachments E w rows s = (Inr (map (\<lambda>m. m\<lparr>mr_attachments := map (attachment_view w \<circ> snd)
      (filter (\<lambda>p. fst p = mr_id m) (attachment_rows s w (map ms_id rows)))\<rparr>) (map (message_decode E w) rows)), s)"
  by (simp add: with_attachments_def attachmentsForMessages_def act_defs message_decode_def comp_def)

subsection \<open>Sequence numbers\<close>

definition seqs_ok :: "db \<Rightarrow> bool" where
  "seqs_ok s \<longleftrightarrow> (\<forall>c. sorted_wrt (<) (map ms_seq (rows_where (\<lambda>m. ms_channelId m = c) (messages s))))
     \<and> (\<forall>m\<in>set (messages s). 0 < ms_seq m)"

lemma next_seq_above: "m \<in> set (messages s) \<Longrightarrow> ms_channelId m = c \<Longrightarrow> ms_seq m < next_seq s c"
  by (auto simp: next_seq_def rows_where_def Let_def filter_empty_conv intro: le_imp_less_Suc Max_ge)

lemma next_seq_pos: "seqs_ok s \<Longrightarrow> 0 < next_seq s c"
proof (cases "\<exists>m\<in>set (messages s). ms_channelId m = c")
  case True
  then obtain m where m: "m \<in> set (messages s)" "ms_channelId m = c" by blast
  moreover assume "seqs_ok s"
  ultimately show ?thesis using next_seq_above [OF m] by (auto simp: seqs_ok_def)
next
  case False
  then have "filter (\<lambda>m. ms_channelId m = c) (messages s) = []" by (auto simp: filter_empty_conv)
  then show ?thesis by (simp add: next_seq_def rows_where_def)
qed

lemma seqs_ok_channel:
  assumes "seqs_ok s"
  shows "sorted_wrt (<) (map ms_seq (channel_messages s w c))" "\<forall>m\<in>set (channel_messages s w c). 0 < ms_seq m"
proof -
  have "channel_messages s w c = filter (\<lambda>m. ms_workspaceId m = w) (rows_where (\<lambda>m. ms_channelId m = c) (messages s))"
    by (auto simp: channel_messages_def rows_where_def intro!: filter_cong)
  then show "sorted_wrt (<) (map ms_seq (channel_messages s w c))"
    using assms by (auto simp: seqs_ok_def intro!: sorted_wrt_map_filter)
  show "\<forall>m\<in>set (channel_messages s w c). 0 < ms_seq m"
    using assms by (auto simp: seqs_ok_def channel_messages_def rows_where_def)
qed

lemma sendMessage_run:
  "sendMessage E now newId iv i s = (case encryptField E iv (si_workspaceId i) (si_body i) of
      Inl e \<Rightarrow> (Inl e, s)
    | Inr enc \<Rightarrow> (let r = message_of newId i enc (next_seq s (si_channelId i)) now in
        if \<not> has_message s newId \<and> has_workspace s (si_workspaceId i) \<and> has_channel s (si_channelId i)
        then (Inr (message_decode E (si_workspaceId i) r), s\<lparr>messages := messages s @ [r]\<rparr>)
        else (Inl (DbError ''constraint violation''), s)))"
  by (cases "encryptField E iv (si_workspaceId i) (si_body i)")
    (auto simp: sendMessage_def act_defs insert_message_def tbl_insert_def message_of_def Let_def)

lemma message_of_sel [simp]:
  "ms_id (message_of n i enc q t) = n" "ms_workspaceId (message_of n i enc q t) = si_workspaceId i"
  "ms_channelId (message_of n i enc q t) = si_channelId i" "ms_seq (message_of n i enc q t) = q"
  "ms_bodyEnc (message_of n i enc q t) = enc" "ms_authorSub (message_of n i enc q t) = si_authorSub i"
  by (simp_all add: message_of_def)

lemma sendMessage_cases:
  assumes "sendMessage E now newId iv i s = (r, s')"
  obtains (failed) e where "r = Inl e" "s' = s"
  | (sent) enc m where "encryptField E iv (si_workspaceId i) (si_body i) = Inr enc"
      "m = message_of newId i enc (next_seq s (si_channelId i)) now" "r = Inr (message_decode E (si_workspaceId i) m)"
      "s' = s\<lparr>messages := messages s @ [m]\<rparr>" "\<not> has_message s newId"
proof (cases "encryptField E iv (si_workspaceId i) (si_body i)")
  case (Inl e)
  with assms show thesis by (intro failed [of e]) (simp_all add: sendMessage_run)
next
  case (Inr enc)
  show thesis
  proof (cases "\<not> has_message s newId \<and> has_workspace s (si_workspaceId i) \<and> has_channel s (si_channelId i)")
    case True
    then show thesis by (intro sent [OF Inr refl]) (use assms Inr in \<open>simp_all add: sendMessage_run Let_def\<close>)
  next
    case False
    with assms Inr show thesis by (intro failed [of "DbError ''constraint violation''"]) (auto simp: sendMessage_run Let_def)
  qed
qed

lemma seqs_ok_sendMessage [inv_intros]: "preserves seqs_ok (sendMessage E now newId iv i)"
  unfolding preserves_def
proof (intro allI impI)
  fix s assume s: "seqs_ok s"
  obtain r s' where run: "sendMessage E now newId iv i s = (r, s')" by fastforce
  then show "seqs_ok (snd (sendMessage E now newId iv i s))"
  proof (cases rule: sendMessage_cases)
    case failed
    then show ?thesis using s run by simp
  next
    case (sent enc m)
    have "0 < ms_seq m" "\<forall>x\<in>set (messages s). ms_channelId x = ms_channelId m \<longrightarrow> ms_seq x < ms_seq m"
      using sent(2) next_seq_pos [OF s] next_seq_above by simp_all
    then show ?thesis using s run sent(4)
      by (simp add: seqs_ok_def rows_where_def sorted_wrt_append)
  qed
qed

definition send_step :: "crypto_env \<Rightarrow> ms \<times> uuid \<times> string \<times> SendInput \<Rightarrow> db \<Rightarrow> db" where
  "send_step E x s = (case x of (now, newId, iv, i) \<Rightarrow> snd (sendMessage E now newId iv i s))"

interpretation channel_log: seq_log "send_step E" "\<lambda>s. channel_messages s w c" ms_seq seqs_ok for E w c
proof
  fix s and x :: "ms \<times> uuid \<times> string \<times> SendInput"
  assume s: "seqs_ok s"
  obtain now newId iv i where x: "x = (now, newId, iv, i)" by (cases x) auto
  obtain r s' where run: "sendMessage E now newId iv i s = (r, s')" by fastforce
  show "seqs_ok (send_step E x s)"
    using seqs_ok_sendMessage s by (auto simp: preserves_def send_step_def x)
  from run show "\<exists>es. channel_messages (send_step E x s) w c = channel_messages s w c @ es \<and> sorted_wrt (<) (map ms_seq es)
      \<and> (\<forall>e\<in>set es. \<forall>y\<in>set (channel_messages s w c). ms_seq y < ms_seq e)"
    by (cases rule: sendMessage_cases)
      (auto simp: send_step_def x run channel_messages_def rows_where_def next_seq_above)
qed

text \<open>The channel log is append-only and strictly ordered: whatever messages are sent, to any channels and in
  any order, the messages of a channel already there stay in place and the sequence numbers within
  the channel remain positive and strictly increasing, so no two messages share a poll cursor.\<close>

theorem channel_log_ordered:
  assumes "seqs_ok s"
  shows "\<exists>new. channel_messages (fold (send_step E) xs s) w c = channel_messages s w c @ new
     \<and> sorted_wrt (<) (map ms_seq (channel_messages (fold (send_step E) xs s) w c))
     \<and> (\<forall>m\<in>set (channel_messages (fold (send_step E) xs s) w c). 0 < ms_seq m)"
  using channel_log.run_prefix [OF assms, of E xs w c] channel_log.run_ok [OF assms, of E xs]
    seqs_ok_channel [of "fold (send_step E) xs s" w c] by blast

subsection \<open>Listing\<close>

lemma listMessages_run:
  assumes "seqs_ok s"
  shows "listMessages E w c opts s = with_attachments E w (take (list_limit opts)
     (filter (\<lambda>m. case lo_afterSeq opts of Some q \<Rightarrow> q < ms_seq m | None \<Rightarrow> True) (channel_messages s w c))) s"
proof -
  have id: "sort_key ms_seq (filter P (channel_messages s w c)) = filter P (channel_messages s w c)" for P
    by (rule sort_key_sorted [OF sorted_wrt_map_filter [OF seqs_ok_channel(1) [OF assms]]])
  have "rows_where (\<lambda>m. ms_workspaceId m = w \<and> ms_channelId m = c \<and> q < ms_seq m) (messages s)
      = filter (\<lambda>m. q < ms_seq m) (channel_messages s w c)" for q
    by (simp add: channel_messages_def rows_where_def conj_assoc)
  then show ?thesis using id id [of "\<lambda>_. True"]
    by (cases "lo_afterSeq opts") (simp_all add: listMessages_def channel_messages_def)
qed

text \<open>What a client sees of a message besides its attachments and its pin.\<close>

definition core :: "MessageRow \<Rightarrow> uuid \<times> int \<times> string \<times> string" where
  "core m = (mr_id m, mr_seq m, mr_authorSub m, mr_body m)"

definition core_row :: "crypto_env \<Rightarrow> uuid \<Rightarrow> message_row \<Rightarrow> uuid \<times> int \<times> string \<times> string" where
  "core_row E w r = (ms_id r, ms_seq r, ms_authorSub r, safeDecrypt E w (ms_bodyEnc r))"

lemma core_decode [simp]: "core (message_decode E w r) = core_row E w r" "core (m\<lparr>mr_attachments := a\<rparr>) = core m"
  by (simp_all add: core_def core_row_def message_decode_def)

lemma with_attachments_core:
  "\<exists>ms. with_attachments E w rows s = (Inr ms, s) \<and> map core ms = map (core_row E w) rows"
  by (simp add: with_attachments_run comp_def)

lemma safeDecrypt_encrypt:
  assumes "provisioned_gcm E" "iv \<noteq> []" "m \<noteq> []" "encryptField E iv w m = Inr enc"
  shows "safeDecrypt E w enc = m"
  using decrypt_encrypt [of E iv m w enc] assms by (simp add: safeDecrypt_def)

text \<open>Send and poll: a message sent to an existing channel comes back with the body it was given, numbered above
  every message of the channel; a client whose cursor is at the previous end of the channel gets
  exactly this message with its next poll, as it was sent.\<close>

theorem send_then_poll:
  assumes key: "provisioned_gcm E" "iv \<noteq> []" and ok: "seqs_ok s" and body: "si_body i \<noteq> []"
    and refs: "\<not> has_message s newId" "has_workspace s (si_workspaceId i)" "has_channel s (si_channelId i)"
    and cursor: "\<forall>m\<in>set (messages s). ms_channelId m = si_channelId i \<longrightarrow> ms_seq m \<le> q" "q < next_seq s (si_channelId i)"
  shows "\<exists>m s' ms. sendMessage E now newId iv i s = (Inr m, s') \<and> seqs_ok s'
     \<and> core m = (newId, next_seq s (si_channelId i), si_authorSub i, si_body i)
     \<and> listMessages E (si_workspaceId i) (si_channelId i) \<lparr>lo_afterSeq = Some q, lo_limit = None\<rparr> s' = (Inr ms, s')
     \<and> map core ms = [core m]"
proof -
  obtain enc where enc: "encryptField E iv (si_workspaceId i) (si_body i) = Inr enc"
    using key(1) by (auto elim: encryptField_Inr)
  let ?r = "message_of newId i enc (next_seq s (si_channelId i)) now"
  let ?s = "s\<lparr>messages := messages s @ [?r]\<rparr>"
  have run: "sendMessage E now newId iv i s = (Inr (message_decode E (si_workspaceId i) ?r), ?s)"
    using enc refs by (simp add: sendMessage_run Let_def)
  have ok': "seqs_ok ?s" using preservesD [OF seqs_ok_sendMessage run ok] .
  have "filter (\<lambda>m. q < ms_seq m) (channel_messages ?s (si_workspaceId i) (si_channelId i)) = [?r]"
    using cursor by (auto simp: channel_messages_def rows_where_def filter_empty_conv)
  then have "listMessages E (si_workspaceId i) (si_channelId i) \<lparr>lo_afterSeq = Some q, lo_limit = None\<rparr> ?s
      = with_attachments E (si_workspaceId i) [?r] ?s"
    by (simp add: listMessages_run [OF ok'] list_limit_def)
  moreover have "core_row E (si_workspaceId i) ?r = (newId, next_seq s (si_channelId i), si_authorSub i, si_body i)"
    using safeDecrypt_encrypt [OF key body enc] by (simp add: core_row_def)
  ultimately show ?thesis
    using run ok' with_attachments_core [of E "si_workspaceId i" "[?r]" ?s] by auto
qed

text \<open>A message without text, which the composer allows when a file is attached, is stored but never readable: its
  author and every reader are shown the text for a failed decryption, because the envelope of the
  empty string is refused as malformed.\<close>

theorem attachment_only_message_unreadable:
  assumes key: "provisioned_gcm E" and "si_body i = []"
    and refs: "\<not> has_message s newId" "has_workspace s (si_workspaceId i)" "has_channel s (si_channelId i)"
  shows "\<exists>m s'. sendMessage E now newId iv i s = (Inr m, s') \<and> mr_body m = decrypt_placeholder"
proof -
  obtain enc where enc: "encryptField E iv (si_workspaceId i) [] = Inr enc"
    using key by (auto elim: encryptField_Inr)
  have "decryptField E (si_workspaceId i) enc = Inl bad_envelope"
    using decrypt_encrypt_empty [OF _ _ enc] key by blast
  then show ?thesis
    using enc refs assms(2) by (simp add: sendMessage_run Let_def message_decode_def safeDecrypt_def)
qed

subsection \<open>Attachments\<close>

lemma attachment_rows_own:
  "(x, d) \<in> set (attachment_rows s w ids) \<Longrightarrow> d \<in> set (documents s) \<and> dc_workspaceId d = w"
  by (auto simp: attachment_rows_def split: if_splits)

text \<open>Attachments never cross tenants and never leak storage addresses: whatever attachment links the database
  holds, each attachment a listing of workspace \<open>w\<close> shows is a document of \<open>w\<close>, and its address is empty
  or the access-controlled view of that document.\<close>

theorem attachments_confined:
  assumes "with_attachments E w rows s = (Inr ms, s')" "m \<in> set ms" "a \<in> set (mr_attachments m)"
  shows "\<exists>d\<in>set (documents s). dc_workspaceId d = w \<and> at_id a = dc_id d
     \<and> at_url a \<in> {[], documentViewUrl w (dc_id d)}"
proof -
  obtain x where "a \<in> (attachment_view w \<circ> snd) ` set (filter (\<lambda>p. fst p = x) (attachment_rows s w (map ms_id rows)))"
    using assms by (auto simp: with_attachments_run message_decode_def)
  then obtain p where "p \<in> set (attachment_rows s w (map ms_id rows))" "a = attachment_view w (snd p)" by auto
  then show ?thesis using attachment_rows_own [of "fst p" "snd p"] by (auto simp: attachment_view_def)
qed

subsection \<open>Witnesses\<close>

definition demo_send :: "string \<Rightarrow> SendInput" where
  "demo_send b = \<lparr>si_workspaceId = ''w1'', si_channelId = ''c1'', si_authorSub = ''alice'', si_body = b, si_fromAgent = False,
     si_onBehalfOf = None, si_threadId = None, si_parentId = None, si_clientMsgId = None\<rparr>"

lemma demo_send_sel [simp]:
  "si_workspaceId (demo_send b) = ''w1''" "si_channelId (demo_send b) = ''c1''" "si_body (demo_send b) = b"
  "si_authorSub (demo_send b) = ''alice''"
  by (simp_all add: demo_send_def)

lemma demo_chat_facts:
  "seqs_ok demo_chat" "\<not> has_message demo_chat m" "has_workspace demo_chat ''w1''" "has_channel demo_chat ''c1''"
  "messages demo_chat = []" "next_seq demo_chat c = 1"
  by (simp_all add: seqs_ok_def next_seq_def rows_where_def has_defs demo_chat_defs)

theorem channel_log_ordered_witness:
  "sorted_wrt (<) (map ms_seq (channel_messages (fold (send_step demo_env)
     [(1, ''m1'', ''i'', demo_send ''a''), (2, ''m2'', ''i'', demo_send ''b'')] demo_chat) ''w1'' ''c1''))"
  using channel_log_ordered [OF demo_chat_facts(1), of demo_env
      "[(1, ''m1'', ''i'', demo_send ''a''), (2, ''m2'', ''i'', demo_send ''b'')]" "''w1''" "''c1''"] by blast

theorem send_then_poll_witness:
  "\<exists>m s' ms. sendMessage demo_env 1 ''m1'' ''i'' (demo_send ''hi'') demo_chat = (Inr m, s')
     \<and> core m = (''m1'', 1, ''alice'', ''hi'')
     \<and> listMessages demo_env ''w1'' ''c1'' \<lparr>lo_afterSeq = Some 0, lo_limit = None\<rparr> s' = (Inr ms, s') \<and> map core ms = [core m]"
  using send_then_poll [of demo_env "''i''" demo_chat "demo_send ''hi''" "''m1''" 0 1]
    demo_chat_facts provisioned_demo gcm_ok_demo by auto

theorem attachment_only_message_unreadable_witness:
  "\<exists>m s'. sendMessage demo_env 1 ''m1'' ''i'' (demo_send []) demo_chat = (Inr m, s') \<and> mr_body m = decrypt_placeholder"
  using attachment_only_message_unreadable [of demo_env "demo_send []" demo_chat "''m1''" 1 "''i''"]
    demo_chat_facts provisioned_demo gcm_ok_demo by auto

definition demo_document :: "uuid \<Rightarrow> uuid \<Rightarrow> document_row" where
  "demo_document d w = \<lparr>dc_id = d, dc_workspaceId = w, dc_dealId = None, dc_accountId = None, dc_channelId = None,
     dc_blobUrl = ''https://store/x'', dc_name = ''x'', dc_mime = None, dc_textEnc = None, dc_uploadedBySub = ''alice'',
     dc_createdAt = 0\<rparr>"

theorem attachments_confined_witness:
  "let s = demo_chat\<lparr>documents := [demo_document ''d1'' ''w1''], messageAttachments :=
        [\<lparr>ma_workspaceId = ''w1'', ma_messageId = ''m1'', ma_documentId = ''d1''\<rparr>]\<rparr>;
       a = attachment_view ''w1'' (demo_document ''d1'' ''w1'')
   in \<exists>d\<in>set (documents s). dc_workspaceId d = ''w1'' \<and> at_id a = dc_id d \<and> at_url a \<in> {[], documentViewUrl ''w1'' (dc_id d)}"
proof -
  let ?s = "demo_chat\<lparr>documents := [demo_document ''d1'' ''w1''], messageAttachments :=
        [\<lparr>ma_workspaceId = ''w1'', ma_messageId = ''m1'', ma_documentId = ''d1''\<rparr>]\<rparr>"
  let ?a = "attachment_view ''w1'' (demo_document ''d1'' ''w1'')"
  let ?m = "(message_decode demo_env ''w1'' (message_of ''m1'' (demo_send ''hi'') ''enc'' 1 1))\<lparr>mr_attachments := [?a]\<rparr>"
  have "with_attachments demo_env ''w1'' [message_of ''m1'' (demo_send ''hi'') ''enc'' 1 1] ?s = (Inr [?m], ?s)"
    by (simp add: with_attachments_run attachment_rows_def demo_document_def message_decode_def)
  from attachments_confined [OF this, of ?m ?a] show ?thesis by (simp add: Let_def)
qed

end
