(* ===== verification/Chat_View.thy ===== *)
theory Chat_View
  imports Messages
begin

text \<open>
  The delivery side of \<^verbatim>\<open>components/comms/ChannelView.tsx\<close>: the messages a viewer holds and the cursor \<^verbatim>\<open>lastSeq\<close>,
  with the poll (\<^verbatim>\<open>tick\<close>), the viewer's own send, and the messages other people send meanwhile. A poll is the
  route \<^verbatim>\<open>GET /api/channels/[id]/messages?after=\<close>, that is \<open>listMessages\<close> at the default limit.
\<close>

record view =
  lastSeq :: int
  shown :: "MessageRow list"

fun dedupe_ids :: "uuid set \<Rightarrow> MessageRow list \<Rightarrow> MessageRow list" where
  "dedupe_ids seen [] = []"
| "dedupe_ids seen (m # ms) = (if mr_id m \<in> seen then dedupe_ids seen ms else m # dedupe_ids (insert (mr_id m) seen) ms)"

definition dedupe :: "MessageRow list \<Rightarrow> MessageRow list" where
  "dedupe ms = sort_key mr_seq (dedupe_ids {} ms)"

text \<open>The initial state: the first page, and its last number as the cursor.\<close>

definition open_view :: "MessageRow list \<Rightarrow> view" where
  "open_view initialMessages = \<lparr>lastSeq = (if initialMessages = [] then 0 else mr_seq (last initialMessages)),
     shown = initialMessages\<rparr>"

definition receive :: "MessageRow list \<Rightarrow> view \<Rightarrow> view" where
  "receive fresh v = (if fresh = [] then v else \<lparr>lastSeq = mr_seq (last fresh), shown = dedupe (shown v @ fresh)\<rparr>)"

definition tick :: "crypto_env \<Rightarrow> uuid \<Rightarrow> uuid \<Rightarrow> db \<Rightarrow> view \<Rightarrow> view" where
  "tick E w c s v = (case fst (listMessages E w c \<lparr>lo_afterSeq = Some (lastSeq v), lo_limit = None\<rparr> s) of
      Inr fresh \<Rightarrow> receive fresh v | Inl _ \<Rightarrow> v)"

definition sent_view :: "MessageRow \<Rightarrow> view \<Rightarrow> view" where
  "sent_view m v = \<lparr>lastSeq = max (lastSeq v) (mr_seq m), shown = dedupe (shown v @ [m])\<rparr>"

datatype chat_event =
    Poll
  | OtherSend ms uuid string SendInput
  | OwnSend ms uuid string SendInput

fun chat_step :: "crypto_env \<Rightarrow> uuid \<Rightarrow> uuid \<Rightarrow> chat_event \<Rightarrow> db \<times> view \<Rightarrow> db \<times> view" where
  "chat_step E w c Poll (s, v) = (s, tick E w c s v)"
| "chat_step E w c (OtherSend now newId iv i) (s, v) = (snd (sendMessage E now newId iv i s), v)"
| "chat_step E w c (OwnSend now newId iv i) (s, v) =
     (case sendMessage E now newId iv (i\<lparr>si_workspaceId := w, si_channelId := c\<rparr>) s of
        (Inr m, s') \<Rightarrow> (s', sent_view m v) | (Inl _, s') \<Rightarrow> (s', v))"

fun own_event :: "chat_event \<Rightarrow> bool" where
  "own_event (OwnSend _ _ _ _) = True"
| "own_event _ = False"

subsection \<open>Polling delivers exactly once, in order\<close>

lemma dedupe_ids_id: "distinct (map mr_id ms) \<Longrightarrow> seen \<inter> mr_id ` set ms = {} \<Longrightarrow> dedupe_ids seen ms = ms"
  by (induction ms arbitrary: seen) auto

lemma dedupe_id: "distinct (map mr_id ms) \<Longrightarrow> sorted_wrt (<) (map mr_seq ms) \<Longrightarrow> dedupe ms = ms"
  by (simp add: dedupe_def dedupe_ids_id sort_key_sorted)

lemma dedupe_ids_subset: "set (dedupe_ids seen ms) \<subseteq> set ms"
  by (induction ms arbitrary: seen) auto

lemma set_dedupe: "set (dedupe ms) \<subseteq> set ms"
  using dedupe_ids_subset by (auto simp: dedupe_def)

definition chat_ok :: "db \<Rightarrow> bool" where
  "chat_ok s \<longleftrightarrow> seqs_ok s \<and> key_fun ms_id (messages s)"

text \<open>The viewer holds the first \<open>n\<close> messages of the channel and the cursor is at the last of them.\<close>

definition holds_first :: "crypto_env \<Rightarrow> uuid \<Rightarrow> uuid \<Rightarrow> nat \<Rightarrow> db \<times> view \<Rightarrow> bool" where
  "holds_first E w c n x \<longleftrightarrow> (case x of (s, v) \<Rightarrow>
     n \<le> length (channel_messages s w c) \<and> map core (shown v) = map (core_row E w) (take n (channel_messages s w c))
     \<and> lastSeq v = (if n = 0 then 0 else ms_seq (channel_messages s w c ! (n - 1))))"

lemma key_fun_channel: "key_fun ms_id (messages s) \<Longrightarrow> distinct (map ms_id (channel_messages s w c))"
  using key_fun_filter by (auto simp: channel_messages_def rows_where_def key_fun_def distinct_map_filter)

lemma after_cursor:
  assumes "sorted_wrt (<) (map k rs)" "\<forall>r\<in>set rs. (0 :: int) < k r" "n \<le> length rs"
    "q = (if n = 0 then 0 else k (rs ! (n - 1)))"
  shows "filter (\<lambda>r. q < k r) rs = drop n rs"
proof -
  have le: "k r \<le> q" if r: "r \<in> set (take n rs)" for r
  proof -
    obtain i where i: "i < n" "i < length rs" "r = rs ! i" using r by (auto simp: in_set_conv_nth)
    have "k (rs ! i) \<le> k (rs ! (n - 1))"
    proof (cases "i = n - 1")
      case False
      then have "i < n - 1" "n - 1 < length rs" using i assms(3) by auto
      then show ?thesis using sorted_wrt_nth_less [OF assms(1), of i "n - 1"] by simp
    qed simp
    then show ?thesis using i assms(4) by auto
  qed
  have gt: "q < k r" if r: "r \<in> set (drop n rs)" for r
  proof (cases "n = 0")
    case True
    then show ?thesis using r assms(2,4) by auto
  next
    case False
    obtain j where j: "n + j < length rs" "r = rs ! (n + j)"
      using r by (fastforce simp: in_set_conv_nth less_diff_conv add.commute)
    then show ?thesis using False assms(4) sorted_wrt_nth_less [OF assms(1), of "n - 1" "n + j"] by auto
  qed
  have "filter (\<lambda>r. q < k r) (take n rs @ drop n rs) = drop n rs"
    using le gt by (auto simp del: append_take_drop_id simp: filter_empty_conv filter_id_conv not_less)
  then show ?thesis by simp
qed

lemma map_core_ids: "map core ms = map (core_row E w) rs \<Longrightarrow> map mr_id ms = map ms_id rs \<and> map mr_seq ms = map ms_seq rs"
  by (induction ms arbitrary: rs) (auto simp: core_def core_row_def Cons_eq_map_conv)

lemma tick_holds:
  assumes ok: "chat_ok s" and h: "holds_first E w c n (s, v)"
  shows "holds_first E w c (min (n + 200) (length (channel_messages s w c))) (s, tick E w c s v)"
proof -
  let ?rs = "channel_messages s w c"
  have ok': "seqs_ok s" and srt: "sorted_wrt (<) (map ms_seq ?rs)" and pos: "\<forall>r\<in>set ?rs. 0 < ms_seq r"
    and dst: "distinct (map ms_id ?rs)"
    using ok seqs_ok_channel key_fun_channel by (auto simp: chat_ok_def)
  have v: "n \<le> length ?rs" "map core (shown v) = map (core_row E w) (take n ?rs)"
    "lastSeq v = (if n = 0 then 0 else ms_seq (?rs ! (n - 1)))"
    using h by (simp_all add: holds_first_def)
  have "filter (\<lambda>r. lastSeq v < ms_seq r) ?rs = drop n ?rs" by (rule after_cursor [OF srt pos v(1,3)])
  then obtain fresh where fresh:
    "fst (listMessages E w c \<lparr>lo_afterSeq = Some (lastSeq v), lo_limit = None\<rparr> s) = Inr fresh"
    "map core fresh = map (core_row E w) (take 200 (drop n ?rs))"
    using with_attachments_core [of E w "take 200 (drop n ?rs)" s] by (auto simp: listMessages_run [OF ok'] list_limit_def)
  have n': "take n ?rs @ take 200 (drop n ?rs) = take (n + 200) ?rs" by (simp add: take_add)
  have all: "map core (shown v @ fresh) = map (core_row E w) (take (n + 200) ?rs)"
    by (simp add: v(2) fresh(2) flip: n')
  show ?thesis
  proof (cases "fresh = []")
    case True
    then have "length ?rs \<le> n" using fresh(2) by (cases "drop n ?rs") auto
    then show ?thesis using v True fresh(1) by (simp add: tick_def receive_def holds_first_def)
  next
    case False
    have "distinct (map mr_id (shown v @ fresh))" "sorted_wrt (<) (map mr_seq (shown v @ fresh))"
      unfolding map_core_ids [OF all, THEN conjunct1] map_core_ids [OF all, THEN conjunct2]
      using dst srt by (simp_all add: take_map [symmetric] distinct_take sorted_wrt_take)
    then have ded: "dedupe (shown v @ fresh) = shown v @ fresh" by (rule dedupe_id)
    let ?n = "min (n + 200) (length ?rs)"
    have len: "length (shown v @ fresh) = ?n" using arg_cong [OF all, of length] by simp
    have ne: "take (n + 200) ?rs \<noteq> []" using False all by auto
    have "mr_seq (last fresh) = last (map mr_seq (shown v @ fresh))" using False by (simp add: last_map)
    also have "\<dots> = last (map ms_seq (take (n + 200) ?rs))" by (simp only: map_core_ids [OF all, THEN conjunct2])
    also have "\<dots> = ms_seq (last (take (n + 200) ?rs))" using ne by (rule last_map)
    also have "\<dots> = ms_seq (?rs ! (?n - 1))" using ne by (auto simp: last_conv_nth min_def)
    finally show ?thesis
      using False fresh(1) ded all len by (auto simp: tick_def receive_def holds_first_def min_def)
  qed
qed

lemma send_channel_messages:
  assumes "chat_ok s" "sendMessage E now newId iv i s = (r, s')"
  shows "\<exists>new. channel_messages s' w c = channel_messages s w c @ new" and "chat_ok s'"
    and "\<And>m. r = Inr m \<Longrightarrow> newId \<notin> ms_id ` set (messages s) \<and> mr_id m = newId
       \<and> (\<forall>x\<in>set (messages s). ms_channelId x = si_channelId i \<longrightarrow> ms_seq x < mr_seq m)"
  using assms(2)
  by (cases rule: sendMessage_cases;
      use assms preservesD [OF seqs_ok_sendMessage assms(2)] in
        \<open>force simp: chat_ok_def channel_messages_def rows_where_def has_message_def message_decode_def next_seq_above image_iff\<close>)+

lemma holds_first_grow:
  "holds_first E w c n (s, v) \<Longrightarrow> channel_messages s' w c = channel_messages s w c @ new \<Longrightarrow> holds_first E w c n (s', v)"
  by (auto simp: holds_first_def nth_append)

lemma chat_ok_step: "chat_ok (fst x) \<Longrightarrow> chat_ok (fst (chat_step E w c e x))"
proof (cases x; cases e)
  fix s v now newId iv i
  assume x: "x = (s, v)" and s: "chat_ok (fst x)"
  {
    assume "e = OtherSend now newId iv i"
    then show ?thesis using s send_channel_messages(2) [of s E now newId iv i] x by (metis chat_step.simps(2) fst_conv prod.collapse)
  next
    assume e: "e = OwnSend now newId iv i"
    obtain r s' where "sendMessage E now newId iv (i\<lparr>si_workspaceId := w, si_channelId := c\<rparr>) s = (r, s')" by fastforce
    with send_channel_messages(2) [OF _ this] show ?thesis using s x e by (cases r) auto
  }
qed auto

definition delivered :: "crypto_env \<Rightarrow> uuid \<Rightarrow> uuid \<Rightarrow> db \<times> view \<Rightarrow> bool" where
  "delivered E w c x \<longleftrightarrow> chat_ok (fst x) \<and> (\<exists>n. holds_first E w c n x)"

lemma delivered_step:
  assumes "delivered E w c x" "\<not> own_event e"
  shows "delivered E w c (chat_step E w c e x)"
proof -
  obtain s v where x: "x = (s, v)" by (cases x)
  obtain n where s: "chat_ok s" and h: "holds_first E w c n (s, v)" using assms(1) by (auto simp: delivered_def x)
  have "\<exists>n. holds_first E w c n (chat_step E w c e x)"
  proof (cases e)
    case Poll
    then show ?thesis using tick_holds [OF s h] by (auto simp: x)
  next
    case (OtherSend now newId iv i)
    obtain r s' where r: "sendMessage E now newId iv i s = (r, s')" by fastforce
    obtain new where "channel_messages s' w c = channel_messages s w c @ new"
      using send_channel_messages(1) [OF s r] by blast
    then show ?thesis using holds_first_grow [OF h] r by (auto simp: x OtherSend)
  next
    case OwnSend
    then show ?thesis using assms(2) by simp
  qed
  then show ?thesis using chat_ok_step [of x E w c e] s by (simp add: delivered_def x)
qed

lemma delivered_run:
  "delivered E w c x \<Longrightarrow> \<forall>e\<in>set es. \<not> own_event e \<Longrightarrow> delivered E w c (fold (chat_step E w c) es x)"
  by (induction es arbitrary: x) (auto simp: delivered_step)

lemma ticks_catch_up:
  assumes "chat_ok s" "holds_first E w c n (s, v)"
  shows "\<exists>v'. fold (chat_step E w c) (replicate k Poll) (s, v) = (s, v')
     \<and> holds_first E w c (min (n + k * 200) (length (channel_messages s w c))) (s, v')"
  using assms(2)
proof (induction k arbitrary: n v)
  case 0
  then have "n \<le> length (channel_messages s w c)" by (simp add: holds_first_def)
  then show ?case using 0 by (simp add: min_def)
next
  case (Suc k)
  have "min (min (n + 200) (length (channel_messages s w c)) + k * 200) (length (channel_messages s w c))
      = min (n + Suc k * 200) (length (channel_messages s w c))" by simp
  with Suc.IH [OF tick_holds [OF assms(1) Suc.prems]] show ?case by simp
qed

text \<open>C18. Polling delivers exactly once and in order: a viewer who opened the channel with its first page and has
  since only polled, while others sent whatever they liked in between, holds precisely the first
  messages of the channel, each once, with the right author and text, in order; and once the channel is
  quiet, as many polls as there are pages of 200 show all of it.\<close>

theorem polling_exactly_once:
  assumes ok: "chat_ok s" and page: "listMessages E w c \<lparr>lo_afterSeq = None, lo_limit = None\<rparr> s = (Inr page1, s)"
    and quiet: "\<forall>e\<in>set es. \<not> own_event e"
    and run: "fold (chat_step E w c) es (s, open_view page1) = (s', v')"
  shows "map core (shown v') = map (core_row E w) (take (length (shown v')) (channel_messages s' w c))
     \<and> (length (channel_messages s' w c) \<le> k * 200 \<longrightarrow>
          map core (shown (snd (fold (chat_step E w c) (replicate k Poll) (s', v')))) = map (core_row E w) (channel_messages s' w c))"
proof -
  let ?rs = "channel_messages s w c"
  have ok': "seqs_ok s" using ok by (simp add: chat_ok_def)
  have p: "map core page1 = map (core_row E w) (take 200 ?rs)"
    using with_attachments_core [of E w "take 200 ?rs" s] page by (auto simp: listMessages_run [OF ok'] list_limit_def)
  have len: "length page1 = min 200 (length ?rs)" using arg_cong [OF p, of length] by (simp add: min.commute)
  have "holds_first E w c (length page1) (s, open_view page1)"
  proof (cases "page1 = []")
    case True
    then show ?thesis using len by (simp add: holds_first_def open_view_def)
  next
    case False
    have "mr_seq (last page1) = map mr_seq page1 ! (length page1 - 1)" using False by (simp add: last_conv_nth)
    also have "\<dots> = map ms_seq (take 200 ?rs) ! (length page1 - 1)" by (simp only: map_core_ids [OF p, THEN conjunct2])
    also have "\<dots> = ms_seq (?rs ! (length page1 - 1))"
    proof -
      have "0 < length page1" using False by simp
      then have "length page1 - 1 < length ?rs" "length page1 - 1 < 200" using len by linarith+
      then show ?thesis by simp
    qed
    finally show ?thesis using False p len by (auto simp: holds_first_def open_view_def min_def split: if_splits)
  qed
  then have "delivered E w c (s, open_view page1)" using ok by (auto simp: delivered_def)
  from delivered_run [OF this quiet] obtain n where
    s': "chat_ok s'" and h: "holds_first E w c n (s', v')" by (auto simp: run delivered_def)
  have "length (shown v') = n" using arg_cong [of _ _ length] h by (auto simp: holds_first_def dest!: arg_cong [of _ _ length])
  moreover obtain v'' where "fold (chat_step E w c) (replicate k Poll) (s', v') = (s', v'')"
    "holds_first E w c (min (n + k * 200) (length (channel_messages s' w c))) (s', v'')"
    using ticks_catch_up [OF s' h] by blast
  ultimately show ?thesis using h by (auto simp: holds_first_def min_def split: if_splits)
qed

subsection \<open>Sending moves the cursor past messages not yet polled\<close>

definition skipped :: "uuid \<Rightarrow> message_row \<Rightarrow> db \<times> view \<Rightarrow> bool" where
  "skipped c r x \<longleftrightarrow> chat_ok (fst x) \<and> r \<in> set (messages (fst x)) \<and> ms_channelId r = c \<and> ms_seq r \<le> lastSeq (snd x)
     \<and> ms_id r \<notin> mr_id ` set (shown (snd x))"

lemma receive_new_only:
  assumes "listMessages E w c \<lparr>lo_afterSeq = Some q, lo_limit = None\<rparr> s = (Inr fresh, s)" "seqs_ok s" "m \<in> set fresh"
  shows "\<exists>x\<in>set (channel_messages s w c). q < ms_seq x \<and> mr_id m = ms_id x \<and> mr_seq m = ms_seq x"
proof -
  let ?rows = "take 200 (filter (\<lambda>x. q < ms_seq x) (channel_messages s w c))"
  have c: "map core fresh = map (core_row E w) ?rows"
    using with_attachments_core [of E w ?rows s] assms(1) by (auto simp: listMessages_run [OF assms(2)] list_limit_def)
  have "core m \<in> set (map core fresh)" using assms(3) by simp
  then obtain x where "x \<in> set ?rows" "core m = core_row E w x" unfolding c by auto
  then show ?thesis using set_take_subset [of 200] by (fastforce simp: core_def core_row_def)
qed

lemma skipped_tick:
  assumes "skipped c r (s, v)"
  shows "skipped c r (s, tick E w c s v)"
proof -
  have ok: "chat_ok s" "seqs_ok s" and r: "r \<in> set (messages s)" "ms_seq r \<le> lastSeq v" "ms_id r \<notin> mr_id ` set (shown v)"
    using assms by (simp_all add: skipped_def chat_ok_def)
  obtain fresh where f: "listMessages E w c \<lparr>lo_afterSeq = Some (lastSeq v), lo_limit = None\<rparr> s = (Inr fresh, s)"
    using with_attachments_core by (fastforce simp: listMessages_run [OF ok(2)])
  have new: "lastSeq v < mr_seq m \<and> mr_id m \<noteq> ms_id r" if m: "m \<in> set fresh" for m
  proof -
    obtain x where x: "x \<in> set (messages s)" "lastSeq v < ms_seq x" "mr_id m = ms_id x" "mr_seq m = ms_seq x"
      using receive_new_only [OF f ok(2) m] by (auto simp: channel_messages_def rows_where_def)
    then have "x \<noteq> r" using r by auto
    then show ?thesis using x r(1) key_fun_eq [of ms_id "messages s" x r] ok(1) by (auto simp: chat_ok_def)
  qed
  show ?thesis
  proof (cases "fresh = []")
    case True
    then show ?thesis using assms f by (simp add: tick_def receive_def)
  next
    case False
    have t: "tick E w c s v = \<lparr>lastSeq = mr_seq (last fresh), shown = dedupe (shown v @ fresh)\<rparr>"
      using False f by (simp add: tick_def receive_def)
    have "ms_id r \<notin> mr_id ` set (shown v @ fresh)" using r(3) new by force
    then have "ms_id r \<notin> mr_id ` set (dedupe (shown v @ fresh))" using set_dedupe [of "shown v @ fresh"] by blast
    moreover have "ms_seq r \<le> mr_seq (last fresh)" using new [of "last fresh"] False r(2) by simp
    ultimately show ?thesis using assms by (simp add: t skipped_def)
  qed
qed

lemma skipped_step: "skipped c r x \<Longrightarrow> skipped c r (chat_step E w c e x)"
proof -
  assume sk: "skipped c r x"
  obtain s v where x: "x = (s, v)" by (cases x)
  have ok: "chat_ok s" and r: "r \<in> set (messages s)" using sk by (simp_all add: skipped_def x)
  have grow: "set (messages s) \<subseteq> set (messages s')" if "sendMessage E now newId iv i s = (q, s')" for now newId iv i q s'
    using that by (cases rule: sendMessage_cases) auto
  show "skipped c r (chat_step E w c e x)"
  proof (cases e)
    case Poll
    then show ?thesis using skipped_tick sk by (simp add: x)
  next
    case (OtherSend now newId iv i)
    obtain q s' where q: "sendMessage E now newId iv i s = (q, s')" by fastforce
    show ?thesis using sk q grow [OF q] send_channel_messages(2) [OF ok q] by (auto simp: x OtherSend skipped_def)
  next
    case (OwnSend now newId iv i)
    let ?i = "i\<lparr>si_workspaceId := w, si_channelId := c\<rparr>"
    obtain q s' where q: "sendMessage E now newId iv ?i s = (q, s')" by fastforce
    note g = grow [OF q] send_channel_messages(2) [OF ok q]
    show ?thesis
    proof (cases q)
      case (Inl err)
      then show ?thesis using sk q g by (auto simp: x OwnSend skipped_def)
    next
      case (Inr m)
      then have "mr_id m \<noteq> ms_id r" using send_channel_messages(3) [OF ok q] r by auto
      then show ?thesis using sk q g Inr set_dedupe [of "shown v @ [m]"] by (auto simp: x OwnSend skipped_def sent_view_def)
    qed
  qed
qed

text \<open>C20. A viewer can lose a message for good: when somebody else's message has reached the channel and the viewer's
  own message is sent before the next poll, the cursor moves to the viewer's own number. From then on
  no poll or further send, in any number and order, ever shows the other message.\<close>

theorem own_send_skips_unseen:
  assumes ok: "chat_ok s" and r: "r \<in> set (messages s)" "ms_channelId r = c" and unseen: "ms_id r \<notin> mr_id ` set (shown v)"
    and sent: "sendMessage E now newId iv (i\<lparr>si_workspaceId := w, si_channelId := c\<rparr>) s = (Inr m, s1)"
  shows "ms_id r \<notin> mr_id ` set (shown (snd (fold (chat_step E w c) (OwnSend now newId iv i # es) (s, v))))"
proof -
  note g = send_channel_messages [OF ok sent]
  have "r \<in> set (messages s1)" using sent r by (cases rule: sendMessage_cases) auto
  moreover have "mr_id m \<noteq> ms_id r" "ms_seq r < mr_seq m" using g(3) r by auto
  ultimately have "skipped c r (chat_step E w c (OwnSend now newId iv i) (s, v))"
    using sent r unseen g(2) set_dedupe [of "shown v @ [m]"] by (auto simp: skipped_def sent_view_def)
  then have "skipped c r (fold (chat_step E w c) es (chat_step E w c (OwnSend now newId iv i) (s, v)))"
    by (induction es rule: rev_induct) (simp_all add: skipped_step)
  then show ?thesis by (simp add: skipped_def)
qed

subsection \<open>Witnesses\<close>

lemma demo_chat_ok: "chat_ok demo_chat"
  using demo_chat_facts by (simp add: chat_ok_def)

lemma demo_page: "listMessages demo_env ''w1'' ''c1'' \<lparr>lo_afterSeq = None, lo_limit = None\<rparr> demo_chat = (Inr [], demo_chat)"
  using listMessages_run [OF demo_chat_facts(1), of demo_env "''w1''" "''c1''" "\<lparr>lo_afterSeq = None, lo_limit = None\<rparr>"]
  by (simp add: with_attachments_run channel_messages_def rows_where_def demo_chat_facts)

definition demo_events :: "chat_event list" where
  "demo_events = [OtherSend 1 ''m1'' ''i'' (demo_send ''hi''), Poll, OtherSend 2 ''m2'' ''i'' (demo_send ''yo'')]"

theorem polling_exactly_once_witness:
  "\<exists>s' v'. fold (chat_step demo_env ''w1'' ''c1'') demo_events (demo_chat, open_view []) = (s', v')
     \<and> map core (shown v') = map (core_row demo_env ''w1'') (take (length (shown v')) (channel_messages s' ''w1'' ''c1''))"
proof -
  obtain s' v' where r: "fold (chat_step demo_env ''w1'' ''c1'') demo_events (demo_chat, open_view []) = (s', v')"
    by fastforce
  have "\<forall>e\<in>set demo_events. \<not> own_event e" by (simp add: demo_events_def)
  from polling_exactly_once [OF demo_chat_ok demo_page this r, of 1] r show ?thesis by blast
qed

lemma demo_send_again [simp]: "(demo_send b)\<lparr>si_workspaceId := ''w1'', si_channelId := ''c1''\<rparr> = demo_send b"
  by (simp add: demo_send_def)

theorem own_send_skips_unseen_witness:
  "\<exists>s m. sendMessage demo_env 1 ''m1'' ''i'' (demo_send ''hi'') demo_chat = (Inr m, s)
     \<and> ''m1'' \<in> ms_id ` set (channel_messages s ''w1'' ''c1'')
     \<and> ''m1'' \<notin> mr_id ` set (shown (snd (fold (chat_step demo_env ''w1'' ''c1'')
          [OwnSend 2 ''m2'' ''i'' (demo_send ''yo''), Poll, Poll] (s, open_view []))))"
proof -
  obtain e1 e2 where e: "encryptField demo_env ''i'' ''w1'' ''hi'' = Inr e1" "encryptField demo_env ''i'' ''w1'' ''yo'' = Inr e2"
    by (meson encryptField_Inr [OF provisioned_demo])
  let ?r = "message_of ''m1'' (demo_send ''hi'') e1 1 1"
  let ?s = "demo_chat\<lparr>messages := [?r]\<rparr>"
  have one: "sendMessage demo_env 1 ''m1'' ''i'' (demo_send ''hi'') demo_chat = (Inr (message_decode demo_env ''w1'' ?r), ?s)"
    using e demo_chat_facts by (simp add: sendMessage_run Let_def)
  have ok: "chat_ok ?s" by (rule send_channel_messages(2) [OF demo_chat_ok one])
  have "\<exists>m s1. sendMessage demo_env 2 ''m2'' ''i'' (demo_send ''yo'') ?s = (Inr m, s1)"
    using e demo_chat_facts by (simp add: sendMessage_run Let_def has_defs)
  then obtain m s1 where two: "sendMessage demo_env 2 ''m2'' ''i'' (demo_send ''yo'') ?s = (Inr m, s1)" by blast
  have "ms_id ?r \<notin> mr_id ` set (shown (snd (fold (chat_step demo_env ''w1'' ''c1'')
          [OwnSend 2 ''m2'' ''i'' (demo_send ''yo''), Poll, Poll] (?s, open_view []))))"
    by (rule own_send_skips_unseen [OF ok]) (use two in \<open>simp_all add: open_view_def\<close>)
  then show ?thesis using one by (auto simp: channel_messages_def rows_where_def)
qed

end
