(* ===== verification/Fetch_Guard.thy ===== *)
theory Fetch_Guard
  imports Audit_Chain
begin

text \<open>
  \<^verbatim>\<open>lib/research/fetch.ts\<close> and \<^verbatim>\<open>lib/ai/runner-fetch.ts\<close>: the outbound page fetch of the agents and its
  address filter. Address literals are parsed as the code parses them, character by character. The URL
  parser, the resolver, the sockets and the text extraction are fields of \<open>fetch_env\<close>; the resolver is
  asked with the number of the query, so that two queries for one name may differ, as under DNS
  rebinding. \<open>net\<close> counts queries and requests and records every address a socket is opened to.
\<close>

unbundle bit_operations_syntax

subsection \<open>Address literals\<close>

definition isPrivateIpv4 :: "nat \<Rightarrow> nat \<Rightarrow> bool" where
  "isPrivateIpv4 a b =
     (if a = 10 then True
      else if a = 127 then True
      else if a = 0 then True
      else if a = 169 \<and> b = 254 then True
      else if a = 172 \<and> b \<ge> 16 \<and> b \<le> 31 then True
      else if a = 192 \<and> b = 168 then True
      else if a = 100 \<and> b \<ge> 64 \<and> b \<le> 127 then True
      else if a = 198 \<and> (b = 18 \<or> b = 19) then True
      else if a = 192 \<and> b = 0 then True
      else if a \<ge> 224 then True
      else False)"

definition is_digit :: "char \<Rightarrow> bool" where
  "is_digit c \<longleftrightarrow> 48 \<le> (of_char c :: nat) \<and> (of_char c :: nat) \<le> 57"

text \<open>The match of \<^verbatim>\<open>^(\d{1,3})\.(\d{1,3})\.(\d{1,3})\.(\d{1,3})$\<close> with its groups read as numbers.\<close>

definition dotted_quad :: "string \<Rightarrow> nat list option" where
  "dotted_quad s = (let ps = js_split (CHR ''.'') s in
     if length ps = 4 \<and> (\<forall>p\<in>set ps. p \<noteq> [] \<and> length p \<le> 3 \<and> list_all is_digit p)
     then Some (map undigits ps) else None)"

definition hex_number :: "string \<Rightarrow> nat" where
  "hex_number s = foldl (\<lambda>a c. 16 * a + the (hex_val c)) 0 s"

text \<open>\<^verbatim>\<open>parseInt(s, 16)\<close>: leading white space, a sign and a \<^verbatim>\<open>0x\<close> are skipped, then the longest run of
  hexadecimal digits is read; \<^verbatim>\<open>None\<close> is \<^verbatim>\<open>NaN\<close>.\<close>

definition strip_0x :: "string \<Rightarrow> string" where
  "strip_0x s = (case s of a # b # r \<Rightarrow> if a = CHR ''0'' \<and> (b = CHR ''x'' \<or> b = CHR ''X'') then r else s | _ \<Rightarrow> s)"

definition parseInt16 :: "string \<Rightarrow> int option" where
  "parseInt16 s =
     (let t = dropWhile js_space s;
          neg = (t \<noteq> [] \<and> hd t = CHR ''-'');
          u = (if t \<noteq> [] \<and> (hd t = CHR ''-'' \<or> hd t = CHR ''+'') then tl t else t);
          ds = takeWhile (\<lambda>c. hex_val c \<noteq> None) (strip_0x u)
      in if ds = [] then None else Some (if neg then - int (hex_number ds) else int (hex_number ds)))"

text \<open>\<^verbatim>\<open>s.split("::")\<close>.\<close>

fun split_dc :: "string \<Rightarrow> string list" where
  "split_dc [] = [[]]"
| "split_dc [c] = [[c]]"
| "split_dc (c # d # s) = (if c = CHR '':'' \<and> d = CHR '':'' then [] # split_dc s
     else (case split_dc (d # s) of [] \<Rightarrow> [[c]] | w # ws \<Rightarrow> (c # w) # ws))"

text \<open>The part behind the last colon and the part up to and including it.\<close>

definition after_colon :: "string \<Rightarrow> string" where
  "after_colon s = rev (takeWhile (\<lambda>c. c \<noteq> CHR '':'') (rev s))"

definition upto_colon :: "string \<Rightarrow> string" where
  "upto_colon s = rev (dropWhile (\<lambda>c. c \<noteq> CHR '':'') (rev s))"

definition colon_parts :: "string \<Rightarrow> string list" where
  "colon_parts s = (if s = [] then [] else js_split (CHR '':'') s)"

definition ipv6_groups :: "string \<Rightarrow> string list option" where
  "ipv6_groups s = (let halves = split_dc s in
     if length halves > 2 then None
     else let head = colon_parts (halves ! 0) in
       if length halves = 1 then (if length head \<noteq> 8 then None else Some head)
       else let tail = colon_parts (halves ! 1) in
         if length head + length tail > 8 then None
         else Some (head @ replicate (8 - length head - length tail) ''0'' @ tail))"

definition group_number :: "string \<Rightarrow> nat option" where
  "group_number g = (if g = [] then Some 0 else case parseInt16 g of
       None \<Rightarrow> None
     | Some n \<Rightarrow> if n < 0 \<or> n > 0xffff then None else Some (nat n))"

definition group_numbers :: "string \<Rightarrow> nat list option" where
  "group_numbers s = (case ipv6_groups s of None \<Rightarrow> None
     | Some gs \<Rightarrow> if \<exists>g\<in>set gs. group_number g = None then None else Some (map (the \<circ> group_number) gs))"

definition expandIpv6 :: "string \<Rightarrow> nat list option" where
  "expandIpv6 ip =
     (if CHR '':'' \<in> set ip then
        (let tail = after_colon ip in case dotted_quad tail of
           Some os \<Rightarrow> if \<exists>n\<in>set os. n > 255 then None
             else map_option (\<lambda>nums. nums[6 := push_bit 8 (os ! 0) OR os ! 1, 7 := push_bit 8 (os ! 2) OR os ! 3])
                    (group_numbers (upto_colon ip @ ''0:0''))
         | None \<Rightarrow> if CHR ''.'' \<in> set tail then None else group_numbers ip)
      else group_numbers ip)"

definition strip_brackets :: "string \<Rightarrow> string" where
  "strip_brackets s = (if starts_with ''['' s \<and> ends_with '']'' s then take (length s - 2) (drop 1 s) else s)"

definition ipv6_refused :: "nat list \<Rightarrow> bool" where
  "ipv6_refused g =
     (if \<forall>x\<in>set g. x = 0 then True
      else if (\<forall>x\<in>set (take 7 g). x = 0) \<and> g ! 7 = 1 then True
      else if (g ! 0) AND 0xffc0 = 0xfe80 then True
      else if (g ! 0) AND 0xfe00 = 0xfc00 then True
      else if g ! 0 = 0x64 \<and> g ! 1 = 0xff9b then True
      else if g ! 0 = 0x2002 then True
      else if g ! 0 = 0x2001 \<and> g ! 1 = 0 then True
      else if g ! 0 = 0x2001 \<and> g ! 1 = 0x0db8 then True
      else if g ! 0 = 0x0100 \<and> g ! 1 = 0 \<and> g ! 2 = 0 \<and> g ! 3 = 0 then True
      else if (g ! 0) AND 0xffc0 = 0xfec0 then True
      else if (g ! 0) AND 0xff00 = 0xff00 then True
      else if g ! 0 = 0 \<and> g ! 1 = 0 \<and> g ! 2 = 0 \<and> g ! 3 = 0 \<and> g ! 4 = 0xffff \<and> g ! 5 = 0 then True
      else (let mapped = g ! 0 = 0 \<and> g ! 1 = 0 \<and> g ! 2 = 0 \<and> g ! 3 = 0 \<and> g ! 4 = 0 \<and> (g ! 5 = 0xffff \<or> g ! 5 = 0) in
        if mapped \<and> (g ! 6 \<noteq> 0 \<or> g ! 7 \<noteq> 0)
        then isPrivateIpv4 (drop_bit 8 (g ! 6)) ((g ! 6) AND 0xff) \<or> isPrivateIpv4 (drop_bit 8 (g ! 7)) ((g ! 7) AND 0xff)
        else False))"

definition isPrivateIp :: "string \<Rightarrow> bool" where
  "isPrivateIp ip =
     (let s = takeWhile (\<lambda>c. c \<noteq> CHR ''%'') (strip_brackets (js_trim ip)) in
      case dotted_quad s of
        Some os \<Rightarrow> if \<exists>n\<in>set os. n > 255 then True else isPrivateIpv4 (os ! 0) (os ! 1)
      | None \<Rightarrow>
          if CHR '':'' \<in> set s then
            (case expandIpv6 (js_lower s) of None \<Rightarrow> True | Some g \<Rightarrow> ipv6_refused g)
          else True)"

abbreviation isBlockedAddress :: "string \<Rightarrow> bool" where
  "isBlockedAddress \<equiv> isPrivateIp"

subsection \<open>Validation of a target\<close>

record RawResponse =
  rr_status :: int
  rr_location :: "string option"
  rr_contentType :: string
  rr_chunks :: "string list"
  rr_broken :: bool

datatype socket_result = Answer RawResponse | NetError | Aborted

record fetch_env =
  fe_parse :: "string \<Rightarrow> url option"
  fe_href :: "url \<Rightarrow> string"
  fe_against :: "url \<Rightarrow> string \<Rightarrow> string option"
  fe_dns :: "nat \<Rightarrow> string \<Rightarrow> string list option"
  fe_isIP :: "string \<Rightarrow> bool"
  fe_http :: "nat \<Rightarrow> url \<Rightarrow> string list \<Rightarrow> socket_result"
  fe_extract :: "string \<Rightarrow> string \<times> string"

record net =
  queries :: nat
  requests :: nat
  contacted :: "string list"

definition dns_lookup :: "fetch_env \<Rightarrow> string \<Rightarrow> (net, string list option) act" where
  "dns_lookup E host n = (Inr (fe_dns E (queries n) host), n\<lparr>queries := queries n + 1\<rparr>)"

text \<open>\<^verbatim>\<open>/^[\d.]+$/.test(host) || host.includes(":")\<close>.\<close>

definition literal_host :: "string \<Rightarrow> bool" where
  "literal_host h \<longleftrightarrow> (h \<noteq> [] \<and> list_all (\<lambda>c. is_digit c \<or> c = CHR ''.'') h) \<or> CHR '':'' \<in> set h"

definition internal_host :: "string \<Rightarrow> bool" where
  "internal_host h \<longleftrightarrow> h = ''localhost'' \<or> ends_with ''.localhost'' h \<or> ends_with ''.internal'' h \<or> ends_with ''.local'' h"

definition assertPublicUrl :: "fetch_env \<Rightarrow> string \<Rightarrow> (net, url) act" where
  "assertPublicUrl E raw = (case fe_parse E raw of
      None \<Rightarrow> act_throw (BlockedUrlError ''invalid url'')
    | Some u \<Rightarrow>
       if u_protocol u \<noteq> ''http:'' \<and> u_protocol u \<noteq> ''https:'' then act_throw (BlockedUrlError ''only http(s) is allowed'')
       else let host = js_lower (u_hostname u) in
       if internal_host host then act_throw (BlockedUrlError ''host not allowed'')
       else if literal_host host then
         (if isBlockedAddress host then act_throw (BlockedUrlError ''private address not allowed'') else act_return u)
       else act_bind (dns_lookup E host) (\<lambda>r. case r of
           None \<Rightarrow> act_throw (BlockedUrlError ''host did not resolve'')
         | Some addrs \<Rightarrow>
            if addrs = [] then act_throw (BlockedUrlError ''host did not resolve'')
            else if \<exists>a\<in>set addrs. isBlockedAddress a then act_throw (BlockedUrlError ''resolves to a private address'')
            else act_return u))"

definition makeGuardedLookup :: "fetch_env \<Rightarrow> bool \<Rightarrow> string \<Rightarrow> (net, string list) act" where
  "makeGuardedLookup E all hostname = act_bind (dns_lookup E hostname) (\<lambda>r. case r of
      None \<Rightarrow> act_throw (JsError ''lookup failed'')
    | Some addrs \<Rightarrow>
       if addrs = [] then act_throw (BlockedUrlError ''host did not resolve'')
       else if \<exists>a\<in>set addrs. isPrivateIp a then act_throw (BlockedUrlError ''resolves to a private address'')
       else if all then act_return addrs
       else act_return [hd addrs])"

text \<open>A socket to an address literal is opened without a lookup; otherwise to what the lookup returned.\<close>

definition guardedGet :: "fetch_env \<Rightarrow> url \<Rightarrow> (net, RawResponse) act" where
  "guardedGet E u = (let host = strip_brackets (u_hostname u) in
     act_bind (if fe_isIP E host then act_return [host] else makeGuardedLookup E True host) (\<lambda>addrs n.
       let n' = n\<lparr>requests := requests n + 1, contacted := contacted n @ addrs\<rparr> in
       case fe_http E (requests n) u addrs of
         Answer r \<Rightarrow> (Inr r, n')
       | NetError \<Rightarrow> (Inl (JsError ''network error''), n')
       | Aborted \<Rightarrow> (Inl AbortError, n')))"

text \<open>Chunks arrive until \<^verbatim>\<open>max\<close> bytes are there; then the transfer is stopped.\<close>

fun read_chunks :: "nat \<Rightarrow> string \<Rightarrow> string list \<Rightarrow> string \<times> bool" where
  "read_chunks cap acc [] = (acc, False)"
| "read_chunks cap acc (c # cs) =
     (if length (acc @ c) \<ge> cap then (take cap (acc @ c), True) else read_chunks cap (acc @ c) cs)"

definition readCapped :: "RawResponse \<Rightarrow> nat \<Rightarrow> err + string" where
  "readCapped r cap = (let (body, full) = read_chunks cap [] (rr_chunks r) in
     if \<not> full \<and> rr_broken r then Inl (JsError ''aborted'') else Inr body)"

subsection \<open>The fetch\<close>

definition MAX_BYTES :: nat where "MAX_BYTES = 2000000"
definition MAX_TEXT :: nat where "MAX_TEXT = 20000"
definition MAX_REDIRECTS :: nat where "MAX_REDIRECTS = 5"

record ReadablePage =
  rp_url :: string
  rp_title :: string
  rp_text :: string
  rp_truncated :: bool
  rp_available :: bool
  rp_blocked :: bool
  rp_note :: "string option"

definition no_page :: "string \<Rightarrow> bool \<Rightarrow> string \<Rightarrow> ReadablePage" where
  "no_page u b note = \<lparr>rp_url = u, rp_title = [], rp_text = [], rp_truncated = False, rp_available = False,
     rp_blocked = b, rp_note = Some note\<rparr>"

definition readable_type :: "string \<Rightarrow> bool" where
  "readable_type c = (let l = js_lower c in sublist ''text/html'' l \<or> sublist ''text/plain'' l \<or> sublist ''application/xhtml'' l)"

definition catch_page :: "fetch_env \<Rightarrow> url \<Rightarrow> err \<Rightarrow> ReadablePage" where
  "catch_page E u e = (case e of
      BlockedUrlError m \<Rightarrow> no_page (fe_href E u) True m
    | AbortError \<Rightarrow> no_page (fe_href E u) False ''fetch timed out''
    | _ \<Rightarrow> no_page (fe_href E u) False ''fetch error'')"

definition finish_page :: "fetch_env \<Rightarrow> url \<Rightarrow> RawResponse \<Rightarrow> ReadablePage" where
  "finish_page E u r =
     (if rr_status r < 200 \<or> rr_status r \<ge> 300 then no_page (fe_href E u) False (''fetch failed ('' @ int_string (rr_status r) @ '')'')
      else if \<not> readable_type (rr_contentType r) then
        no_page (fe_href E u) False (''unsupported content-type ('' @ (if rr_contentType r = [] then ''unknown'' else rr_contentType r) @ '')'')
      else case readCapped r MAX_BYTES of
        Inl e \<Rightarrow> catch_page E u e
      | Inr html \<Rightarrow> (let (title, content) = fe_extract E html; truncated = length content > MAX_TEXT in
          \<lparr>rp_url = fe_href E u, rp_title = title, rp_text = (if truncated then take MAX_TEXT content else content),
           rp_truncated = truncated, rp_available = True, rp_blocked = False, rp_note = None\<rparr>))"

definition redirect_to :: "RawResponse \<Rightarrow> string option" where
  "redirect_to r = (if rr_status r \<ge> 300 \<and> rr_status r < 400 then
      (case rr_location r of Some l \<Rightarrow> if l = [] then None else Some l | None \<Rightarrow> None) else None)"

text \<open>The redirect loop; the first argument is the number of redirects it may still follow.\<close>

fun follow :: "fetch_env \<Rightarrow> nat \<Rightarrow> url \<Rightarrow> net \<Rightarrow> ReadablePage \<times> net" where
  "follow E left u n = (case guardedGet E u n of
      (Inl e, n1) \<Rightarrow> (catch_page E u e, n1)
    | (Inr r, n1) \<Rightarrow> (case redirect_to r of
        None \<Rightarrow> (finish_page E u r, n1)
      | Some l \<Rightarrow> (case left of
          0 \<Rightarrow> (no_page (fe_href E u) False ''too many redirects'', n1)
        | Suc k \<Rightarrow> (case fe_against E u l of
            None \<Rightarrow> (no_page (fe_href E u) False ''fetch error'', n1)
          | Some loc \<Rightarrow> (case assertPublicUrl E loc n1 of
              (Inl e, n2) \<Rightarrow> (no_page loc True (case e of BlockedUrlError m \<Rightarrow> m | _ \<Rightarrow> ''''), n2)
            | (Inr u', n2) \<Rightarrow> follow E k u' n2)))))"

declare follow.simps [simp del]

text \<open>The loop as it is written, \<^verbatim>\<open>for (;;)\<close> with a counter of hops, without a bound on its iterations.\<close>

partial_function (option) fetch_loop :: "fetch_env \<Rightarrow> nat \<Rightarrow> url \<Rightarrow> net \<Rightarrow> (ReadablePage \<times> net) option" where
  "fetch_loop E hops u n = (case guardedGet E u n of
      (Inl e, n1) \<Rightarrow> Some (catch_page E u e, n1)
    | (Inr r, n1) \<Rightarrow> (case redirect_to r of
        None \<Rightarrow> Some (finish_page E u r, n1)
      | Some l \<Rightarrow>
          if Suc hops > MAX_REDIRECTS then Some (no_page (fe_href E u) False ''too many redirects'', n1)
          else (case fe_against E u l of
            None \<Rightarrow> Some (no_page (fe_href E u) False ''fetch error'', n1)
          | Some loc \<Rightarrow> (case assertPublicUrl E loc n1 of
              (Inl e, n2) \<Rightarrow> Some (no_page loc True (case e of BlockedUrlError m \<Rightarrow> m | _ \<Rightarrow> ''''), n2)
            | (Inr u', n2) \<Rightarrow> fetch_loop E (Suc hops) u' n2))))"

definition fetchReadable :: "fetch_env \<Rightarrow> string \<Rightarrow> net \<Rightarrow> ReadablePage \<times> net" where
  "fetchReadable E raw n = (case assertPublicUrl E raw n of
      (Inl e, n') \<Rightarrow> (no_page raw True (case e of BlockedUrlError m \<Rightarrow> m | _ \<Rightarrow> ''''), n')
    | (Inr u, n') \<Rightarrow> follow E MAX_REDIRECTS u n')"

record RunnerFetchResult =
  rf_url :: string
  rf_title :: string
  rf_text :: string

definition runnerWebFetch :: "fetch_env \<Rightarrow> string \<Rightarrow> (net, RunnerFetchResult) act" where
  "runnerWebFetch E url n = (case fetchReadable E url n of (page, n') \<Rightarrow>
     if rp_blocked page then (Inl (BlockedUrlError ''destination not allowed''), n')
     else (Inr \<lparr>rf_url = rp_url page, rf_title = rp_title page, rf_text = rp_text page\<rparr>, n'))"

subsection \<open>Writing addresses\<close>

text \<open>Texts of addresses, for the statements below: a dotted quad, eight groups in full, and a compressed form.\<close>

definition v4_text :: "nat \<Rightarrow> nat \<Rightarrow> nat \<Rightarrow> nat \<Rightarrow> string" where
  "v4_text a b c d = js_join ''.'' (map digits_of [a, b, c, d])"

fun hex_text :: "nat \<Rightarrow> string" where
  "hex_text n = (if n < 16 then [hex_char n] else hex_text (n div 16) @ [hex_char (n mod 16)])"

declare hex_text.simps [simp del]

definition v6_text :: "nat list \<Rightarrow> string" where
  "v6_text g = js_join '':'' (map hex_text g)"

definition v6_short :: "nat list \<Rightarrow> nat list \<Rightarrow> string" where
  "v6_short h t = v6_text h @ ''::'' @ v6_text t"

lemma hex_text_ne [simp]: "hex_text n \<noteq> []"
  by (subst hex_text.simps) simp

lemma hex_number_text: "hex_number (hex_text n) = n"
proof (induction n rule: hex_text.induct)
  case (1 n)
  show ?case
  proof (cases "n < 16")
    case True
    then show ?thesis by (simp add: hex_text.simps [of n] hex_number_def hex_val_char)
  next
    case False
    then have "foldl (\<lambda>a c. 16 * a + the (hex_val c)) 0 (hex_text (n div 16)) = n div 16"
      using 1 by (simp add: hex_number_def)
    then show ?thesis using False by (simp add: hex_text.simps [of n] hex_number_def hex_val_char)
  qed
qed

definition v6_char :: "char \<Rightarrow> bool" where
  "v6_char c \<longleftrightarrow> (48 \<le> (of_char c :: nat) \<and> (of_char c :: nat) \<le> 57) \<or> (97 \<le> (of_char c :: nat) \<and> (of_char c :: nat) \<le> 102)"

lemma hex_char_v6: "n < 16 \<Longrightarrow> v6_char (hex_char n)"
  by (auto simp: v6_char_def hex_char_def)

lemma hex_text_chars: "c \<in> set (hex_text n) \<Longrightarrow> v6_char c"
proof (induction n rule: hex_text.induct)
  case (1 n)
  then show ?case by (cases "n < 16") (auto simp: hex_text.simps [of n] hex_char_v6)
qed

lemma v6_char_hex: "v6_char c \<Longrightarrow> hex_val c \<noteq> None"
  by (auto simp: v6_char_def hex_val_def Let_def)

lemma v6_char_not: "v6_char c \<Longrightarrow> c \<noteq> CHR '':'' \<and> c \<noteq> CHR ''.'' \<and> c \<noteq> CHR ''x'' \<and> c \<noteq> CHR ''X'' \<and> c \<noteq> CHR ''-''
    \<and> c \<noteq> CHR ''+'' \<and> c \<noteq> CHR ''['' \<and> c \<noteq> CHR ''%'' \<and> \<not> js_space c \<and> lower_char c = c"
  by (auto simp: v6_char_def js_space_def lower_char_def)

lemma parseInt16_text: "parseInt16 (hex_text n) = Some (int n)"
proof -
  obtain c r where cr: "hex_text n = c # r" by (cases "hex_text n") simp_all
  then have chars: "\<And>x. x \<in> set (c # r) \<Longrightarrow> v6_char x" using hex_text_chars by metis
  have c: "v6_char c" using chars by simp
  have strip: "strip_0x (c # r) = c # r"
  proof (cases r)
    case (Cons d r')
    then have "v6_char d" using chars by simp
    then show ?thesis using Cons v6_char_not by (simp add: strip_0x_def)
  qed (simp add: strip_0x_def)
  have tw: "takeWhile (\<lambda>c. hex_val c \<noteq> None) (c # r) = c # r"
    using chars v6_char_hex by (simp add: takeWhile_eq_all_conv)
  show ?thesis
    using v6_char_not [OF c] strip tw by (simp add: parseInt16_def cr Let_def hex_number_text [of n, unfolded cr])
qed

lemma group_number_text: "n < 65536 \<Longrightarrow> group_number (hex_text n) = Some n"
  by (simp add: group_number_def parseInt16_text)

fun dc_free :: "string \<Rightarrow> bool" where
  "dc_free (c # d # s) \<longleftrightarrow> \<not> (c = CHR '':'' \<and> d = CHR '':'') \<and> dc_free (d # s)"
| "dc_free _ \<longleftrightarrow> True"

lemma split_dc_ne: "split_dc s \<noteq> []"
  by (induction s rule: split_dc.induct) (auto split: list.splits)

lemma split_dc_free: "dc_free s \<Longrightarrow> split_dc s = [s]"
  by (induction s rule: split_dc.induct) auto

lemma split_dc_append:
  "dc_free s \<Longrightarrow> (s = [] \<or> last s \<noteq> CHR '':'') \<Longrightarrow> split_dc (s @ CHR '':'' # CHR '':'' # t) = s # split_dc t"
  by (induction s rule: split_dc.induct) (auto split: list.splits)

lemma dc_free_none: "CHR '':'' \<notin> set s \<Longrightarrow> dc_free s"
  by (induction s rule: dc_free.induct) auto

lemma dc_free_glue:
  "CHR '':'' \<notin> set w \<Longrightarrow> w \<noteq> [] \<Longrightarrow> dc_free s \<Longrightarrow> s \<noteq> [] \<Longrightarrow> hd s \<noteq> CHR '':'' \<Longrightarrow> dc_free (w @ CHR '':'' # s)"
  by (cases s; induction w rule: dc_free.induct) auto

lemma join_colon_free:
  assumes "\<And>w. w \<in> set ws \<Longrightarrow> w \<noteq> [] \<and> CHR '':'' \<notin> set w" "ws \<noteq> []"
  shows "js_join '':'' ws \<noteq> [] \<and> dc_free (js_join '':'' ws) \<and> hd (js_join '':'' ws) \<noteq> CHR '':''
    \<and> last (js_join '':'' ws) \<noteq> CHR '':''"
  using assms
proof (induction "'':''" ws rule: js_join.induct)
  case (2 w)
  then show ?case using dc_free_none hd_in_set last_in_set by fastforce
next
  case (3 w v ws)
  then have "w \<noteq> []" "CHR '':'' \<notin> set w" by auto
  moreover have "hd w \<noteq> CHR '':''" using \<open>w \<noteq> []\<close> \<open>CHR '':'' \<notin> set w\<close> hd_in_set by metis
  ultimately show ?case using 3 dc_free_glue by simp
qed simp

lemma hex_words: "w \<in> set (map hex_text g) \<Longrightarrow> w \<noteq> [] \<and> CHR '':'' \<notin> set w"
  by (auto dest!: hex_text_chars v6_char_not)

lemma v6_text_free: "dc_free (v6_text g) \<and> (v6_text g = [] \<or> last (v6_text g) \<noteq> CHR '':'') \<and> (v6_text g = [] \<longleftrightarrow> g = [])"
proof (cases "g = []")
  case True
  then show ?thesis by (simp add: v6_text_def)
next
  case False
  then show ?thesis unfolding v6_text_def using join_colon_free [of "map hex_text g", OF hex_words] by auto
qed

lemma colon_parts_text: "colon_parts (v6_text g) = map hex_text g"
proof (cases "g = []")
  case False
  have "js_split (CHR '':'') (v6_text g) = map hex_text g"
    unfolding v6_text_def by (rule js_split_join) (use False hex_words in auto)
  then show ?thesis using False v6_text_free [of g] by (simp add: colon_parts_def)
qed (simp add: colon_parts_def v6_text_def)

lemma groups_text:
  assumes "\<And>x. x \<in> set g \<Longrightarrow> x < 65536"
  shows "(\<forall>w\<in>set (map hex_text g). group_number w \<noteq> None) \<and> map (the \<circ> group_number) (map hex_text g) = g"
  using assms by (induction g) (auto simp: group_number_text)

lemma hex_text_0: "hex_text 0 = ''0''"
  by code_simp

lemma group_numbers_full:
  assumes "length g = 8" "\<And>x. x \<in> set g \<Longrightarrow> x < 65536"
  shows "group_numbers (v6_text g) = Some g"
proof -
  have "ipv6_groups (v6_text g) = Some (map hex_text g)"
    using v6_text_free [of g] assms(1) by (simp add: ipv6_groups_def split_dc_free colon_parts_text Let_def)
  then show ?thesis using groups_text [OF assms(2)] by (auto simp: group_numbers_def)
qed

lemma group_numbers_short:
  assumes "length h + length t \<le> 8" "\<And>x. x \<in> set h \<union> set t \<Longrightarrow> x < 65536"
  shows "group_numbers (v6_short h t) = Some (h @ replicate (8 - length h - length t) 0 @ t)"
proof -
  let ?g = "h @ replicate (8 - length h - length t) 0 @ t"
  have "split_dc (v6_short h t) = [v6_text h, v6_text t]"
    using v6_text_free [of h] v6_text_free [of t] by (auto simp: v6_short_def split_dc_append split_dc_free)
  then have "ipv6_groups (v6_short h t) = Some (map hex_text ?g)"
    using assms(1) by (simp add: ipv6_groups_def colon_parts_text Let_def hex_text_0)
  moreover have "(\<forall>w\<in>set (map hex_text ?g). group_number w \<noteq> None) \<and> map (the \<circ> group_number) (map hex_text ?g) = ?g"
    by (rule groups_text) (use assms(2) in auto)
  ultimately show ?thesis by (auto simp: group_numbers_def)
qed

lemma dotted_quad_no_dot: "CHR ''.'' \<notin> set s \<Longrightarrow> dotted_quad s = None"
  by (simp add: dotted_quad_def js_split_none)

lemma expandIpv6_plain: "CHR ''.'' \<notin> set s \<Longrightarrow> expandIpv6 s = group_numbers s"
proof -
  assume "CHR ''.'' \<notin> set s"
  moreover have "set (after_colon s) \<subseteq> set s" unfolding after_colon_def using set_takeWhileD by fastforce
  ultimately show ?thesis using dotted_quad_no_dot [of "after_colon s"] by (auto simp: expandIpv6_def Let_def)
qed

lemma js_join_chars: "c \<in> set (js_join sep ws) \<Longrightarrow> c \<in> set sep \<or> (\<exists>w\<in>set ws. c \<in> set w)"
  by (induction sep ws rule: js_join.induct) auto

lemma v6_text_chars: "c \<in> set (v6_text g) \<Longrightarrow> v6_char c \<or> c = CHR '':''"
  unfolding v6_text_def using js_join_chars hex_text_chars by fastforce

text \<open>A text over the alphabet of addresses is taken as it is: no brackets, no zone, no dotted part.\<close>

lemma js_trim_id: "(\<And>c. c \<in> set s \<Longrightarrow> \<not> js_space c) \<Longrightarrow> js_trim s = s"
proof -
  assume ns: "\<And>c. c \<in> set s \<Longrightarrow> \<not> js_space c"
  have "dropWhile js_space t = t" if "set t \<subseteq> set s" for t using that ns by (cases t) auto
  then show ?thesis by (simp add: js_trim_def)
qed

definition plain_text :: "string \<Rightarrow> bool" where
  "plain_text s \<longleftrightarrow> (\<forall>c\<in>set s. c \<noteq> CHR ''['' \<and> c \<noteq> CHR ''%'' \<and> \<not> js_space c)"

lemma isPrivateIp_plain:
  assumes "plain_text s"
  shows "isPrivateIp s = (case dotted_quad s of
        Some os \<Rightarrow> if \<exists>n\<in>set os. n > 255 then True else isPrivateIpv4 (os ! 0) (os ! 1)
      | None \<Rightarrow> if CHR '':'' \<in> set s then (case expandIpv6 (js_lower s) of None \<Rightarrow> True | Some g \<Rightarrow> ipv6_refused g) else True)"
proof -
  have "js_trim s = s" by (rule js_trim_id) (use assms in \<open>simp add: plain_text_def\<close>)
  moreover have "strip_brackets s = s"
    using assms by (cases s) (auto simp: strip_brackets_def starts_with_def plain_text_def)
  moreover have "takeWhile (\<lambda>c. c \<noteq> CHR ''%'') s = s" using assms by (auto simp: takeWhile_eq_all_conv plain_text_def)
  ultimately show ?thesis by (simp only: isPrivateIp_def Let_def)
qed

lemma isPrivateIp_groups:
  assumes chars: "\<And>c. c \<in> set s \<Longrightarrow> v6_char c \<or> c = CHR '':''" and colon: "CHR '':'' \<in> set s"
  shows "isPrivateIp s = (case group_numbers s of None \<Rightarrow> True | Some g \<Rightarrow> ipv6_refused g)"
proof -
  have c: "c \<noteq> CHR ''.'' \<and> c \<noteq> CHR ''['' \<and> c \<noteq> CHR ''%'' \<and> \<not> js_space c \<and> lower_char c = c" if "c \<in> set s" for c
    using chars [OF that] v6_char_not [of c] by (auto simp: js_space_def lower_char_def)
  have "plain_text s" using c by (simp add: plain_text_def)
  moreover have "js_lower s = s" unfolding js_lower_def by (rule map_idI) (use c in blast)
  moreover have "CHR ''.'' \<notin> set s" using c by blast
  ultimately show ?thesis using colon by (simp add: isPrivateIp_plain dotted_quad_no_dot expandIpv6_plain)
qed

subsection \<open>The address ranges\<close>

text \<open>The refused IPv4 ranges in CIDR form, and the refused IPv6 prefixes as ranges of their leading groups.\<close>

definition V4_BLOCKS :: "((nat \<times> nat \<times> nat \<times> nat) \<times> nat) list" where
  "V4_BLOCKS = [((10, 0, 0, 0), 8), ((127, 0, 0, 0), 8), ((0, 0, 0, 0), 8), ((169, 254, 0, 0), 16), ((172, 16, 0, 0), 12),
     ((192, 168, 0, 0), 16), ((100, 64, 0, 0), 10), ((198, 18, 0, 0), 15), ((192, 0, 0, 0), 16), ((224, 0, 0, 0), 3)]"

definition v4_value :: "nat \<Rightarrow> nat \<Rightarrow> nat \<Rightarrow> nat \<Rightarrow> nat" where
  "v4_value a b c d = ((a * 256 + b) * 256 + c) * 256 + d"

definition in_v4_block :: "nat \<Rightarrow> nat \<Rightarrow> nat \<Rightarrow> nat \<Rightarrow> (nat \<times> nat \<times> nat \<times> nat) \<times> nat \<Rightarrow> bool" where
  "in_v4_block a b c d blk = (case blk of ((p, q, r, t), len) \<Rightarrow>
     v4_value a b c d div 2 ^ (32 - len) = v4_value p q r t div 2 ^ (32 - len))"

definition V6_BLOCKS :: "(nat \<times> nat) list list" where
  "V6_BLOCKS = [[(0, 0), (0, 0), (0, 0), (0, 0), (0, 0), (0, 0), (0, 0), (0, 0)],
     [(0, 0), (0, 0), (0, 0), (0, 0), (0, 0), (0, 0), (0, 0), (1, 1)], [(0xfe80, 0xfebf)], [(0xfc00, 0xfdff)],
     [(0x64, 0x64), (0xff9b, 0xff9b)], [(0x2002, 0x2002)], [(0x2001, 0x2001), (0, 0)], [(0x2001, 0x2001), (0x0db8, 0x0db8)],
     [(0x0100, 0x0100), (0, 0), (0, 0), (0, 0)], [(0xfec0, 0xfeff)], [(0xff00, 0xffff)],
     [(0, 0), (0, 0), (0, 0), (0, 0), (0xffff, 0xffff), (0, 0)]]"

fun in_ranges :: "(nat \<times> nat) list \<Rightarrow> nat list \<Rightarrow> bool" where
  "in_ranges [] g = True"
| "in_ranges ((lo, hi) # rs) (x # g) = (lo \<le> x \<and> x \<le> hi \<and> in_ranges rs g)"
| "in_ranges (_ # _) [] = False"

lemma v4_value_high: "c < 256 \<Longrightarrow> d < 256 \<Longrightarrow> v4_value a b c d div (65536 * k) = (a * 256 + b) div k"
proof -
  assume "c < 256" "d < 256"
  then have "v4_value a b c d div 65536 = a * 256 + b" by (simp add: v4_value_def)
  then show ?thesis by (simp add: div_mult2_eq)
qed

lemma v4_prefix: "len \<le> 16 \<Longrightarrow> (2 :: nat) ^ (32 - len) = 65536 * 2 ^ (16 - len)"
proof -
  assume "len \<le> 16"
  then have "(2 :: nat) ^ (32 - len) = 2 ^ (16 + (16 - len))" by simp
  also have "\<dots> = 2 ^ 16 * 2 ^ (16 - len)" by (rule power_add)
  finally show ?thesis by simp
qed

lemma digits_eq: "y < m \<Longrightarrow> q < m \<Longrightarrow> a * m + y = p * m + q \<longleftrightarrow> a = p \<and> y = (q :: nat)"
  by (metis add_left_cancel div_mult_self3 div_less add.right_neutral less_nat_zero_code)

lemma high_half:
  fixes b :: nat
  assumes "b < 256"
  shows "(a * 256 + b) div 256 = n \<longleftrightarrow> a = n"
    and "q < 256 \<Longrightarrow> a * 256 + b = p * 256 + q \<longleftrightarrow> a = p \<and> b = q"
    and "(a * 256 + b) div 16 = 2753 \<longleftrightarrow> a = 172 \<and> 16 \<le> b \<and> b \<le> 31"
    and "(a * 256 + b) div 64 = 401 \<longleftrightarrow> a = 100 \<and> 64 \<le> b \<and> b \<le> 127"
    and "(a * 256 + b) div 2 = 25353 \<longleftrightarrow> a = 198 \<and> (b = 18 \<or> b = 19)"
    and "(a * 256 + b) div 8192 = 7 \<longleftrightarrow> 224 \<le> a \<and> a \<le> 255"
proof -
  show "(a * 256 + b) div 256 = n \<longleftrightarrow> a = n" using assms by simp
  show "q < 256 \<Longrightarrow> a * 256 + b = p * 256 + q \<longleftrightarrow> a = p \<and> b = q" using assms by (simp only: digits_eq)
  have "(a * 256 + b) div 16 = a * 16 + b div 16" by simp
  moreover have "a * 16 + b div 16 = 172 * 16 + 1 \<longleftrightarrow> a = 172 \<and> b div 16 = 1" by (rule digits_eq) (use assms in simp_all)
  moreover have "b div 16 = 1 \<longleftrightarrow> 16 \<le> b \<and> b \<le> 31" by auto
  ultimately show "(a * 256 + b) div 16 = 2753 \<longleftrightarrow> a = 172 \<and> 16 \<le> b \<and> b \<le> 31" by simp
  have "(a * 256 + b) div 64 = a * 4 + b div 64" by simp
  moreover have "a * 4 + b div 64 = 100 * 4 + 1 \<longleftrightarrow> a = 100 \<and> b div 64 = 1" by (rule digits_eq) (use assms in simp_all)
  moreover have "b div 64 = 1 \<longleftrightarrow> 64 \<le> b \<and> b \<le> 127" by auto
  ultimately show "(a * 256 + b) div 64 = 401 \<longleftrightarrow> a = 100 \<and> 64 \<le> b \<and> b \<le> 127" by simp
  have "(a * 256 + b) div 2 = a * 128 + b div 2" by simp
  moreover have "a * 128 + b div 2 = 198 * 128 + 9 \<longleftrightarrow> a = 198 \<and> b div 2 = 9" by (rule digits_eq) (use assms in simp_all)
  moreover have "b div 2 = 9 \<longleftrightarrow> b = 18 \<or> b = 19" by auto
  ultimately show "(a * 256 + b) div 2 = 25353 \<longleftrightarrow> a = 198 \<and> (b = 18 \<or> b = 19)" by simp
  have "(a * 256 + b) div 8192 = (a * 256 + b) div 256 div 32" by (simp flip: div_mult2_eq)
  then have "(a * 256 + b) div 8192 = a div 32" using assms by simp
  then show "(a * 256 + b) div 8192 = 7 \<longleftrightarrow> 224 \<le> a \<and> a \<le> 255" by auto
qed

lemma private_v4_blocks:
  assumes "a < 256" "b < 256" "c < 256" "d < 256"
  shows "isPrivateIpv4 a b \<longleftrightarrow> (\<exists>blk\<in>set V4_BLOCKS. in_v4_block a b c d blk)"
proof -
  have "in_v4_block a b c d ((p, q, 0, 0), len) \<longleftrightarrow> (a * 256 + b) div 2 ^ (16 - len) = (p * 256 + q) div 2 ^ (16 - len)"
    if "len \<le> 16" for p q len
    using that assms by (simp add: in_v4_block_def v4_prefix v4_value_high)
  then have "(\<exists>blk\<in>set V4_BLOCKS. in_v4_block a b c d blk) \<longleftrightarrow>
      (a * 256 + b) div 256 = 10 \<or> (a * 256 + b) div 256 = 127 \<or> (a * 256 + b) div 256 = 0 \<or> a * 256 + b = 169 * 256 + 254
      \<or> (a * 256 + b) div 16 = 2753 \<or> a * 256 + b = 192 * 256 + 168 \<or> (a * 256 + b) div 64 = 401 \<or> (a * 256 + b) div 2 = 25353
      \<or> a * 256 + b = 192 * 256 + 0 \<or> (a * 256 + b) div 8192 = 7"
    by (simp add: V4_BLOCKS_def)
  also have "\<dots> \<longleftrightarrow> isPrivateIpv4 a b" using assms unfolding isPrivateIpv4_def by (simp only: high_half) auto
  finally show ?thesis by simp
qed

lemma length_digits_of: "n < 1000 \<Longrightarrow> length (digits_of n) \<le> 3"
  by (simp add: digits_of_unfold [of n] digits_of_unfold [of "n div 10"] digits_of_unfold [of "n div 10 div 10"])

lemma digits_word: "digits_of n \<noteq> [] \<and> list_all is_digit (digits_of n) \<and> CHR ''.'' \<notin> set (digits_of n)"
proof -
  have "digits_of n \<noteq> []" by (subst digits_of_unfold) simp
  moreover have "c \<in> set (digits_of n) \<Longrightarrow> is_digit c \<and> c \<noteq> CHR ''.''" for c
    using digits_of_chars [of c n] by (auto simp: is_digit_def)
  ultimately show ?thesis by (auto simp: list_all_iff)
qed

lemma dotted_quad_text:
  assumes "a < 1000" "b < 1000" "c < 1000" "d < 1000"
  shows "dotted_quad (v4_text a b c d) = Some [a, b, c, d]"
proof -
  have "js_split (CHR ''.'') (v4_text a b c d) = map digits_of [a, b, c, d]"
    unfolding v4_text_def by (rule js_split_join) (use digits_word in auto)
  then show ?thesis using assms digits_word length_digits_of by (simp add: dotted_quad_def undigits_digits)
qed

lemma v4_text_chars: "c \<in> set (v4_text a b p d) \<Longrightarrow> is_digit c \<or> c = CHR ''.''"
  unfolding v4_text_def using js_join_chars digits_of_chars by (fastforce simp: is_digit_def)

lemma digit_not: "is_digit c \<or> c = CHR ''.'' \<Longrightarrow> c \<noteq> CHR ''['' \<and> c \<noteq> CHR ''%'' \<and> c \<noteq> CHR '':'' \<and> \<not> js_space c \<and> lower_char c = c"
  by (auto simp: is_digit_def js_space_def lower_char_def)

lemma isPrivateIp_v4:
  assumes "a < 256" "b < 256" "c < 256" "d < 256"
  shows "isPrivateIp (v4_text a b c d) = isPrivateIpv4 a b"
proof -
  have "plain_text (v4_text a b c d)" using v4_text_chars digit_not unfolding plain_text_def by blast
  then show ?thesis using assms by (simp add: isPrivateIp_plain dotted_quad_text)
qed

text \<open>The filter refuses an IPv4 literal exactly when it lies in one of the listed CIDR ranges.\<close>

theorem v4_filter_is_cidr:
  assumes "a < 256" "b < 256" "c < 256" "d < 256"
  shows "isPrivateIp (v4_text a b c d) \<longleftrightarrow> (\<exists>blk\<in>set V4_BLOCKS. in_v4_block a b c d blk)"
  using isPrivateIp_v4 [OF assms] private_v4_blocks [OF assms] by simp

theorem v4_filter_is_cidr_witness:
  "isPrivateIp (v4_text 172 31 0 1) \<and> \<not> isPrivateIp (v4_text 172 32 0 1) \<and> (\<exists>blk\<in>set V4_BLOCKS. in_v4_block 172 31 0 1 blk)"
  using v4_filter_is_cidr [of 172 31 0 1] v4_filter_is_cidr [of 172 32 0 1]
  by (simp add: V4_BLOCKS_def in_v4_block_def v4_value_def)

subsection \<open>The IPv6 prefixes\<close>

lemma and_high: "(x :: nat) AND push_bit k (mask m) = push_bit k (take_bit m (drop_bit k x))"
  by (rule bit_eqI) (auto simp: bit_simps)

lemma masks: "(0xffc0 :: nat) = push_bit 6 (mask 10)" "(0xfe00 :: nat) = push_bit 9 (mask 7)" "(0xff00 :: nat) = push_bit 8 (mask 8)"
  by (simp_all add: mask_eq_exp_minus_1 push_bit_eq_mult)

lemma and_masks:
  assumes "(x :: nat) < 65536"
  shows "x AND 0xffc0 = x div 64 * 64" "x AND 0xfe00 = x div 512 * 512" "x AND 0xff00 = x div 256 * 256"
  using assms unfolding masks and_high by (simp_all add: push_bit_eq_mult drop_bit_eq_div take_bit_eq_mod)

lemma prefix_ranges:
  assumes "(x :: nat) < 65536"
  shows "x AND 0xffc0 = 0xfe80 \<longleftrightarrow> 0xfe80 \<le> x \<and> x \<le> 0xfebf" "x AND 0xfe00 = 0xfc00 \<longleftrightarrow> 0xfc00 \<le> x \<and> x \<le> 0xfdff"
    "x AND 0xffc0 = 0xfec0 \<longleftrightarrow> 0xfec0 \<le> x \<and> x \<le> 0xfeff" "x AND 0xff00 = 0xff00 \<longleftrightarrow> 0xff00 \<le> x \<and> x \<le> 0xffff"
  unfolding and_masks [OF assms] using assms by auto

lemma low_byte: "(x :: nat) AND 0xff = x mod 256" "drop_bit 8 x = x div 256"
  using take_bit_eq_mask [of 8 x] by (simp_all add: take_bit_eq_mod mask_eq_exp_minus_1 drop_bit_eq_div)

definition v4_mapped :: "nat list \<Rightarrow> bool" where
  "v4_mapped g \<longleftrightarrow> in_ranges [(0, 0), (0, 0), (0, 0), (0, 0), (0, 0)] g \<and> (g ! 5 = 0xffff \<or> g ! 5 = 0)"

definition embedded_blocked :: "nat list \<Rightarrow> bool" where
  "embedded_blocked g \<longleftrightarrow> (\<exists>blk\<in>set V4_BLOCKS. in_v4_block (g ! 6 div 256) (g ! 6 mod 256) (g ! 7 div 256) (g ! 7 mod 256) blk)"

lemma eight: "length g = 8 \<Longrightarrow> \<exists>a b c d e f h i. g = [a, b, c, d, e, f, h, i]"
  by (auto simp: eval_nat_numeral length_Suc_conv)

lemma in_ranges_point: "in_ranges ((n, n) # rs) (x # g) \<longleftrightarrow> x = n \<and> in_ranges rs g"
  by auto

lemma in_ranges_span: "lo \<noteq> hi \<Longrightarrow> in_ranges [(lo, hi)] (x # g) \<longleftrightarrow> lo \<le> x \<and> x \<le> hi"
  by simp

lemma if_chain: "(if b then True else c) \<longleftrightarrow> b \<or> c" "(if b then c else False) \<longleftrightarrow> b \<and> c"
  by simp_all

lemma ipv6_refused_iff:
  assumes len: "length g = 8" and bound: "\<And>x. x \<in> set g \<Longrightarrow> x < 65536"
  shows "ipv6_refused g \<longleftrightarrow> (\<exists>blk\<in>set V6_BLOCKS. in_ranges blk g)
     \<or> (v4_mapped g \<and> (g ! 6 \<noteq> 0 \<or> g ! 7 \<noteq> 0) \<and> (embedded_blocked g \<or> isPrivateIpv4 (g ! 7 div 256) (g ! 7 mod 256)))"
proof -
  have "g ! 6 < 65536" "g ! 7 < 65536" using len bound by simp_all
  then have emb: "embedded_blocked g \<longleftrightarrow> isPrivateIpv4 (g ! 6 div 256) (g ! 6 mod 256)"
    unfolding embedded_blocked_def by (subst private_v4_blocks) auto
  obtain a b c d e f h i where g: "g = [a, b, c, d, e, f, h, i]" using eight [OF len] by blast
  then have "a < 65536" using bound by simp
  then have ranges: "(\<exists>blk\<in>set V6_BLOCKS. in_ranges blk g) \<longleftrightarrow>
      (\<forall>x\<in>set g. x = 0) \<or> ((\<forall>x\<in>set (take 7 g). x = 0) \<and> g ! 7 = 1) \<or> (g ! 0) AND 0xffc0 = 0xfe80 \<or> (g ! 0) AND 0xfe00 = 0xfc00
      \<or> (g ! 0 = 0x64 \<and> g ! 1 = 0xff9b) \<or> g ! 0 = 0x2002 \<or> (g ! 0 = 0x2001 \<and> g ! 1 = 0) \<or> (g ! 0 = 0x2001 \<and> g ! 1 = 0x0db8)
      \<or> (g ! 0 = 0x0100 \<and> g ! 1 = 0 \<and> g ! 2 = 0 \<and> g ! 3 = 0) \<or> (g ! 0) AND 0xffc0 = 0xfec0 \<or> (g ! 0) AND 0xff00 = 0xff00
      \<or> (g ! 0 = 0 \<and> g ! 1 = 0 \<and> g ! 2 = 0 \<and> g ! 3 = 0 \<and> g ! 4 = 0xffff \<and> g ! 5 = 0)"
    by (simp add: g V6_BLOCKS_def prefix_ranges in_ranges_point in_ranges_span conj_assoc del: in_ranges.simps(2))
  have "v4_mapped g \<longleftrightarrow> g ! 0 = 0 \<and> g ! 1 = 0 \<and> g ! 2 = 0 \<and> g ! 3 = 0 \<and> g ! 4 = 0 \<and> (g ! 5 = 0xffff \<or> g ! 5 = 0)"
    by (simp add: v4_mapped_def g)
  then show ?thesis unfolding ranges emb ipv6_refused_def Let_def low_byte by (simp only: if_chain disj_assoc conj_assoc)
qed

text \<open>The texts that denote the groups \<open>g\<close>: all eight in full, or with one run of zeros written as two colons.\<close>

definition denotes :: "string \<Rightarrow> nat list \<Rightarrow> bool" where
  "denotes txt g \<longleftrightarrow> txt = v6_text g
     \<or> (\<exists>h t. length h + length t \<le> 8 \<and> txt = v6_short h t \<and> g = h @ replicate (8 - length h - length t) 0 @ t)"

lemma denotes_groups:
  assumes "denotes txt g" "length g = 8" "\<And>x. x \<in> set g \<Longrightarrow> x < 65536"
  shows "group_numbers txt = Some g \<and> CHR '':'' \<in> set txt \<and> (\<forall>c\<in>set txt. v6_char c \<or> c = CHR '':'')"
  using assms(1) unfolding denotes_def
proof
  assume t: "txt = v6_text g"
  have "CHR '':'' \<in> set (v6_text g)" using eight [OF assms(2)] by (auto simp: v6_text_def)
  then show ?thesis using t group_numbers_full [OF assms(2,3)] v6_text_chars by blast
next
  assume "\<exists>h t. length h + length t \<le> 8 \<and> txt = v6_short h t \<and> g = h @ replicate (8 - length h - length t) 0 @ t"
  then obtain h t where ht: "length h + length t \<le> 8" "txt = v6_short h t" "g = h @ replicate (8 - length h - length t) 0 @ t"
    by blast
  have "group_numbers txt = Some g" unfolding ht(2) ht(3) by (rule group_numbers_short) (use ht assms(3) in auto)
  then show ?thesis using v6_text_chars by (auto simp: ht(2) v6_short_def)
qed

text \<open>An IPv6 literal, in full or compressed, is refused exactly when it lies in one of the listed prefixes or
  carries an IPv4 address, not zero, that is refused itself or whose last two bytes would be as a first pair.\<close>

theorem v6_filter_is_prefixes:
  assumes "length g = 8" "\<And>x. x \<in> set g \<Longrightarrow> x < 65536" "denotes txt g"
  shows "isPrivateIp txt \<longleftrightarrow> (\<exists>blk\<in>set V6_BLOCKS. in_ranges blk g)
     \<or> (v4_mapped g \<and> (g ! 6 \<noteq> 0 \<or> g ! 7 \<noteq> 0) \<and> (embedded_blocked g \<or> isPrivateIpv4 (g ! 7 div 256) (g ! 7 mod 256)))"
proof -
  note d = denotes_groups [OF assms(3,1,2)]
  have "isPrivateIp txt = ipv6_refused g" using d by (subst isPrivateIp_groups) auto
  then show ?thesis using ipv6_refused_iff [OF assms(1,2)] by simp
qed

theorem v6_filter_is_prefixes_witness:
  "isPrivateIp (v6_short [] [0xffff, 0xa9fe, 0xa9fe]) \<and> embedded_blocked [0, 0, 0, 0, 0, 0xffff, 0xa9fe, 0xa9fe]"
proof -
  let ?g = "[0, 0, 0, 0, 0, 0xffff, 0xa9fe, 0xa9fe] :: nat list"
  have e: "embedded_blocked ?g" by (simp add: embedded_blocked_def V4_BLOCKS_def in_v4_block_def v4_value_def)
  have "replicate 5 (0 :: nat) = [0, 0, 0, 0, 0]" by (simp add: numeral_eq_Suc)
  then have "denotes (v6_short [] [0xffff, 0xa9fe, 0xa9fe]) ?g" unfolding denotes_def
    by (intro disjI2 exI [of _ "[]"] exI [of _ "[0xffff, 0xa9fe, 0xa9fe]"]) simp
  then have "isPrivateIp (v6_short [] [0xffff, 0xa9fe, 0xa9fe]) \<longleftrightarrow> (\<exists>blk\<in>set V6_BLOCKS. in_ranges blk ?g)
     \<or> (v4_mapped ?g \<and> (?g ! 6 \<noteq> 0 \<or> ?g ! 7 \<noteq> 0) \<and> (embedded_blocked ?g \<or> isPrivateIpv4 (?g ! 7 div 256) (?g ! 7 mod 256)))"
    by (intro v6_filter_is_prefixes) auto
  then show ?thesis using e by (simp add: v4_mapped_def)
qed

subsection \<open>Where the sockets go\<close>

text \<open>What a URL parser guarantees of a host: lower case, no white space, brackets only around an IPv6 literal.\<close>

definition canonical_host :: "string \<Rightarrow> bool" where
  "canonical_host h \<longleftrightarrow> js_lower h = h \<and> (\<forall>c\<in>set h. \<not> js_space c) \<and> CHR ''['' \<notin> set (strip_brackets h)
     \<and> (strip_brackets h = h \<or> CHR '':'' \<in> set h)"

lemma strip_brackets_subset: "set (strip_brackets h) \<subseteq> set h"
  by (auto simp: strip_brackets_def dest: in_set_takeD in_set_dropD)

lemma strip_brackets_id: "CHR ''['' \<notin> set x \<Longrightarrow> strip_brackets x = x"
  by (cases x) (auto simp: strip_brackets_def starts_with_def)

lemma isPrivateIp_strip: "canonical_host h \<Longrightarrow> isPrivateIp (strip_brackets h) = isPrivateIp h"
proof -
  assume c: "canonical_host h"
  let ?x = "strip_brackets h"
  have "js_trim h = h" "js_trim ?x = ?x"
    using c strip_brackets_subset [of h] by (auto intro!: js_trim_id simp: canonical_host_def)
  moreover have "strip_brackets ?x = ?x"
    using c by (simp add: canonical_host_def strip_brackets_id)
  ultimately show ?thesis unfolding isPrivateIp_def by presburger
qed

definition validated :: "fetch_env \<Rightarrow> url \<Rightarrow> bool" where
  "validated E u \<longleftrightarrow> canonical_host (u_hostname u) \<and> (literal_host (u_hostname u) \<longrightarrow> \<not> isBlockedAddress (u_hostname u))"

lemma assertPublicUrl_validated:
  assumes "\<And>raw u. fe_parse E raw = Some u \<Longrightarrow> canonical_host (u_hostname u)"
    and "assertPublicUrl E raw n = (Inr u, n')"
  shows "validated E u"
proof -
  have "fe_parse E raw = Some u \<and> (literal_host (js_lower (u_hostname u)) \<longrightarrow> \<not> isBlockedAddress (js_lower (u_hostname u)))"
    using assms(2) unfolding assertPublicUrl_def Let_def
    by (auto simp: act_bind_def act_throw_def act_return_def dns_lookup_def split: option.splits if_splits)
  then show ?thesis using assms(1) [of raw u] by (simp add: validated_def canonical_host_def)
qed

lemma assertPublicUrl_net: "assertPublicUrl E raw n = (r, n') \<Longrightarrow> contacted n' = contacted n \<and> requests n' = requests n"
  unfolding assertPublicUrl_def Let_def
  by (auto simp: act_bind_def act_throw_def act_return_def dns_lookup_def split: option.splits if_splits)

lemma lookup_public:
  "makeGuardedLookup E all h n = (r, n') \<Longrightarrow> contacted n' = contacted n \<and> requests n' = requests n
     \<and> (\<forall>as. r = Inr as \<longrightarrow> (\<forall>a\<in>set as. \<not> isBlockedAddress a))"
  unfolding makeGuardedLookup_def
  by (auto simp: act_bind_def act_throw_def act_return_def dns_lookup_def split: option.splits if_splits)

lemma guardedGet_public:
  assumes isIP: "\<And>h. fe_isIP E h \<Longrightarrow> literal_host h" and v: "validated E u" and g: "guardedGet E u n = (r, n')"
  shows "\<exists>as. contacted n' = contacted n @ as \<and> (\<forall>a\<in>set as. \<not> isBlockedAddress a) \<and> requests n' \<le> Suc (requests n)"
proof (cases "fe_isIP E (strip_brackets (u_hostname u))")
  case True
  have "\<not> isBlockedAddress (strip_brackets (u_hostname u))"
    using isIP [OF True] v isPrivateIp_strip [of "u_hostname u"]
    by (auto simp: validated_def canonical_host_def literal_host_def)
  then show ?thesis using True g by (auto simp: guardedGet_def Let_def split: socket_result.splits)
next
  case False
  obtain r1 n1 where l: "makeGuardedLookup E True (strip_brackets (u_hostname u)) n = (r1, n1)" by fastforce
  show ?thesis using False g lookup_public [OF l] l
    by (cases r1) (auto simp: guardedGet_def Let_def act_bind_def split: socket_result.splits)
qed

lemma fetch_loop_follow: "hops + k = MAX_REDIRECTS \<Longrightarrow> fetch_loop E hops u n = Some (follow E k u n)"
proof (induction k arbitrary: hops u n)
  case 0
  then show ?case by (subst fetch_loop.simps, subst follow.simps) (auto split: sum.split option.split prod.split)
next
  case (Suc k)
  then have "\<not> Suc hops > MAX_REDIRECTS" "\<And>u' n2. fetch_loop E (Suc hops) u' n2 = Some (follow E k u' n2)" by simp_all
  then show ?case by (subst fetch_loop.simps, subst follow.simps) (auto split: sum.split option.split prod.split)
qed

text \<open>C23. The redirect loop ends. Written as the source has it, an endless loop with a counter, it returns for every URL and every behaviour of the
  servers, and what it returns is what following at most \<open>MAX_REDIRECTS\<close> redirects gives.\<close>

theorem redirect_loop_ends:
  "\<exists>page n'. fetch_loop E 0 u n = Some (page, n') \<and> follow E MAX_REDIRECTS u n = (page, n')"
  using fetch_loop_follow [of 0 MAX_REDIRECTS E u n] by (cases "follow E MAX_REDIRECTS u n") simp

lemma follow_public:
  assumes isIP: "\<And>h. fe_isIP E h \<Longrightarrow> literal_host h"
    and url: "\<And>raw u. fe_parse E raw = Some u \<Longrightarrow> canonical_host (u_hostname u)"
    and v: "validated E u" and run: "follow E k u n = (page, n')"
  shows "\<exists>as. contacted n' = contacted n @ as \<and> (\<forall>a\<in>set as. \<not> isBlockedAddress a) \<and> requests n' \<le> requests n + Suc k"
  using v run
proof (induction k arbitrary: u n)
  case 0
  obtain r n1 where g: "guardedGet E u n = (r, n1)" by fastforce
  have "n' = n1" using 0 g by (subst (asm) follow.simps) (auto split: sum.splits option.splits)
  then show ?case using guardedGet_public [OF isIP 0(1) g] by simp
next
  case (Suc k)
  obtain r n1 where g: "guardedGet E u n = (r, n1)" by fastforce
  obtain as where as: "contacted n1 = contacted n @ as" "\<forall>a\<in>set as. \<not> isBlockedAddress a" "requests n1 \<le> Suc (requests n)"
    using guardedGet_public [OF isIP Suc.prems(1) g] by blast
  have cases: "n' = n1 \<or> (\<exists>loc ru n2. assertPublicUrl E loc n1 = (ru, n2)
      \<and> (n' = n2 \<or> (\<exists>u'. ru = Inr u' \<and> follow E k u' n2 = (page, n'))))"
    using Suc.prems(2) g by (subst (asm) follow.simps) (auto split: sum.splits option.splits prod.splits)
  show ?case
  proof (cases "n' = n1")
    case False
    then obtain loc ru n2 where l: "assertPublicUrl E loc n1 = (ru, n2)"
        "n' = n2 \<or> (\<exists>u'. ru = Inr u' \<and> follow E k u' n2 = (page, n'))" using cases by blast
    have n2: "contacted n2 = contacted n1" "requests n2 = requests n1" using assertPublicUrl_net [OF l(1)] by auto
    show ?thesis
    proof (cases "n' = n2")
      case False
      then obtain u' where u': "ru = Inr u'" "follow E k u' n2 = (page, n')" using l(2) by blast
      have "validated E u'" by (rule assertPublicUrl_validated [OF url]) (use l(1) u'(1) in auto)
      then obtain bs where "contacted n' = contacted n2 @ bs" "\<forall>a\<in>set bs. \<not> isBlockedAddress a"
          "requests n' \<le> requests n2 + Suc k" using Suc.IH [OF _ u'(2)] by blast
      then show ?thesis using as n2 by (intro exI [of _ "as @ bs"]) auto
    qed (use as n2 in auto)
  qed (use as in auto)
qed

lemma catch_page_text: "rp_text (catch_page E u e) = []"
  by (simp add: catch_page_def no_page_def split: err.split)

lemma finish_page_text: "rp_blocked (finish_page E u r) \<longrightarrow> rp_text (finish_page E u r) = []"
  by (auto simp: finish_page_def no_page_def catch_page_text Let_def split: sum.split prod.split)

lemma blocked_no_text: "follow E k u n = (page, n') \<Longrightarrow> rp_blocked page \<longrightarrow> rp_text page = []"
proof (induction k arbitrary: u n)
  case 0
  then show ?case by (subst (asm) follow.simps)
      (auto simp: catch_page_text no_page_def finish_page_text [rule_format] split: sum.splits option.splits prod.splits)
next
  case (Suc k)
  then show ?case by (subst (asm) (2) follow.simps)
      (auto simp: catch_page_text no_page_def finish_page_text [rule_format] split: sum.splits option.splits prod.splits)
qed

text \<open>C21. Whatever the resolver answers, however it changes its answers and wherever servers redirect, a fetch opens sockets
  only to addresses that the filter lets through, at most six times, and it ends.\<close>

theorem fetch_contacts_only_public:
  assumes "\<And>h. fe_isIP E h \<Longrightarrow> literal_host h"
    and "\<And>raw u. fe_parse E raw = Some u \<Longrightarrow> canonical_host (u_hostname u)"
    and run: "fetchReadable E raw n = (page, n')"
  shows "\<exists>as. contacted n' = contacted n @ as \<and> (\<forall>a\<in>set as. \<not> isBlockedAddress a)
     \<and> requests n' \<le> requests n + Suc MAX_REDIRECTS \<and> (rp_blocked page \<longrightarrow> rp_text page = [])"
proof -
  obtain r n1 where a: "assertPublicUrl E raw n = (r, n1)" by fastforce
  note n1 = assertPublicUrl_net [OF a]
  show ?thesis
  proof (cases r)
    case (Inl e)
    then show ?thesis using run a n1 by (auto simp: fetchReadable_def no_page_def)
  next
    case (Inr u)
    have "validated E u" by (rule assertPublicUrl_validated [OF assms(2)]) (use a Inr in auto)
    moreover have f: "follow E MAX_REDIRECTS u n1 = (page, n')" using run a Inr by (simp add: fetchReadable_def)
    ultimately have "\<exists>as. contacted n' = contacted n1 @ as \<and> (\<forall>a\<in>set as. \<not> isBlockedAddress a)
        \<and> requests n' \<le> requests n1 + Suc MAX_REDIRECTS" by (intro follow_public [of E u]) (use assms(1,2) in auto)
    moreover have "rp_blocked page \<longrightarrow> rp_text page = []" by (rule blocked_no_text [OF f])
    ultimately show ?thesis using n1 by auto
  qed
qed

text \<open>The record of contacted addresses only grows.\<close>

lemma guardedGet_grows: "guardedGet E u n = (r, n') \<Longrightarrow> \<exists>as. contacted n' = contacted n @ as"
proof (cases "fe_isIP E (strip_brackets (u_hostname u))")
  case False
  assume g: "guardedGet E u n = (r, n')"
  obtain r1 n1 where l: "makeGuardedLookup E True (strip_brackets (u_hostname u)) n = (r1, n1)" by fastforce
  show ?thesis using False g lookup_public [OF l] l
    by (cases r1) (auto simp: guardedGet_def Let_def act_bind_def split: socket_result.splits)
qed (auto simp: guardedGet_def Let_def split: socket_result.splits)

lemma follow_grows: "\<exists>as. contacted (snd (follow E k u n)) = contacted n @ as"
proof (induction k arbitrary: u n)
  case 0
  obtain r n1 where g: "guardedGet E u n = (r, n1)" by fastforce
  then show ?case using guardedGet_grows [OF g] by (subst follow.simps) (auto split: sum.split option.split)
next
  case (Suc k)
  obtain r n1 where g: "guardedGet E u n = (r, n1)" by fastforce
  then obtain as where as: "contacted n1 = contacted n @ as" using guardedGet_grows by blast
  have next_hop: "\<exists>bs. contacted (snd (follow E k u' n2)) = contacted n @ bs" if "assertPublicUrl E loc n1 = (ru, n2)" for loc ru n2 u'
    using Suc [of u' n2] assertPublicUrl_net [OF that] as by auto
  show ?case using g as next_hop
    by (subst follow.simps) (auto split: sum.split option.split prod.split dest: assertPublicUrl_net)
qed

lemma follow_after:
  assumes g: "guardedGet E u n = (r, n1)"
  shows "\<exists>rest. contacted (snd (follow E k u n)) = contacted n1 @ rest"
proof -
  have hop: "\<exists>bs. contacted (snd (follow E j u' n2)) = contacted n1 @ bs" if "assertPublicUrl E loc n1 = (ru, n2)" for j loc ru n2 u'
    using follow_grows [of E j u' n2] assertPublicUrl_net [OF that] by auto
  show ?thesis using g hop
    by (subst follow.simps) (auto split: sum.split option.split prod.split nat.split dest: assertPublicUrl_net)
qed

definition demo_url :: "string \<Rightarrow> url" where
  "demo_url h = \<lparr>u_protocol = ''http:'', u_host = h, u_hostname = h, u_port = [], u_username = [], u_password = [],
     u_origin = ''http://'' @ h\<rparr>"

definition demo_fetch :: "string \<Rightarrow> fetch_env" where
  "demo_fetch host = \<lparr>fe_parse = (\<lambda>raw. Some (demo_url host)), fe_href = u_origin, fe_against = (\<lambda>u l. Some l),
     fe_dns = (\<lambda>k h. Some [''93.184.216.34'']), fe_isIP = literal_host,
     fe_http = (\<lambda>k u as. Answer \<lparr>rr_status = 200, rr_location = None, rr_contentType = ''text/plain'', rr_chunks = [''hello''], rr_broken = False\<rparr>),
     fe_extract = (\<lambda>html. ([], html))\<rparr>"

lemma demo_fetch_run:
  "contacted (snd (fetchReadable (demo_fetch ''example.com'') ''http://example.com'' \<lparr>queries = 0, requests = 0, contacted = []\<rparr>))
     = [''93.184.216.34'']"
proof -
  have h: "js_lower ''example.com'' = ''example.com''" "\<not> internal_host ''example.com''" "\<not> literal_host ''example.com''"
      "strip_brackets ''example.com'' = ''example.com''" "\<not> isPrivateIp ''93.184.216.34''" by code_simp+
  have valid: "assertPublicUrl (demo_fetch ''example.com'') ''http://example.com'' \<lparr>queries = 0, requests = 0, contacted = []\<rparr>
      = (Inr (demo_url ''example.com''), \<lparr>queries = 1, requests = 0, contacted = []\<rparr>)"
    using h by (simp add: assertPublicUrl_def demo_fetch_def demo_url_def Let_def act_bind_def dns_lookup_def act_return_def)
  show ?thesis unfolding fetchReadable_def valid using h
    by (simp add: MAX_REDIRECTS_def follow.simps guardedGet_def makeGuardedLookup_def demo_fetch_def
      demo_url_def Let_def act_bind_def dns_lookup_def act_return_def redirect_to_def)
qed

theorem fetch_contacts_only_public_witness:
  "\<exists>page n'. fetchReadable (demo_fetch ''example.com'') ''http://example.com'' \<lparr>queries = 0, requests = 0, contacted = []\<rparr> = (page, n')
     \<and> contacted n' = [''93.184.216.34''] \<and> \<not> isBlockedAddress ''93.184.216.34''"
proof -
  let ?n = "\<lparr>queries = 0, requests = 0, contacted = []\<rparr>"
  obtain page n' where run: "fetchReadable (demo_fetch ''example.com'') ''http://example.com'' ?n = (page, n')" by fastforce
  have "canonical_host ''example.com''" by code_simp
  then have "\<exists>as. contacted n' = contacted ?n @ as \<and> (\<forall>a\<in>set as. \<not> isBlockedAddress a)
     \<and> requests n' \<le> requests ?n + Suc MAX_REDIRECTS \<and> (rp_blocked page \<longrightarrow> rp_text page = [])"
    by (intro fetch_contacts_only_public [OF _ _ run]) (auto simp: demo_fetch_def demo_url_def)
  then show ?thesis using run demo_fetch_run by auto
qed

lemma mapped_unspecified_passes: "\<not> isPrivateIp ''[::ffff:0:0]''"
proof -
  let ?g = "[0, 0, 0, 0, 0, 0xffff, 0, 0] :: nat list"
  have canon: "canonical_host ''[::ffff:0:0]''" and strip: "strip_brackets ''[::ffff:0:0]'' = ''::ffff:0:0''" by code_simp+
  have "hex_char 15 = CHR ''f''" "hex_char 0 = CHR ''0''" by code_simp+
  then have written: "''::ffff:0:0'' = v6_short [] [0xffff, 0, 0]" by (simp add: v6_short_def v6_text_def hex_text.simps)
  have r5: "replicate 5 (0 :: nat) = [0, 0, 0, 0, 0]" by (simp add: numeral_eq_Suc)
  have "group_numbers (v6_short [] [0xffff, 0, 0]) = Some ([] @ replicate (8 - length ([] :: nat list) - length [0xffff, 0, 0 :: nat]) 0 @ [0xffff, 0, 0])"
    by (rule group_numbers_short) auto
  then have "group_numbers ''::ffff:0:0'' = Some ?g" using r5 by (simp add: written)
  moreover have "isPrivateIp ''::ffff:0:0'' = (case group_numbers ''::ffff:0:0'' of None \<Rightarrow> True | Some g \<Rightarrow> ipv6_refused g)"
    by (rule isPrivateIp_groups) (auto simp: v6_char_def)
  moreover have "\<not> ipv6_refused ?g" by (simp add: ipv6_refused_def)
  ultimately show ?thesis using isPrivateIp_strip [OF canon] strip by simp
qed

text \<open>The filter does not cover the IPv4-mapped unspecified address: \<^verbatim>\<open>0.0.0.0\<close> is refused, but a page at
  \<^verbatim>\<open>[::ffff:0:0]\<close> (the same destination) passes validation and a socket to it is opened.\<close>

theorem mapped_unspecified_contacted:
  assumes "fe_parse E raw = Some u" "u_protocol u = ''http:''" "u_hostname u = ''[::ffff:0:0]''" "fe_isIP E ''::ffff:0:0''"
  shows "isPrivateIp ''0.0.0.0'' \<and> (\<exists>rest. contacted (snd (fetchReadable E raw n)) = contacted n @ ''::ffff:0:0'' # rest)"
proof -
  have lit: "js_lower ''[::ffff:0:0]'' = ''[::ffff:0:0]''" "\<not> internal_host ''[::ffff:0:0]''" "literal_host ''[::ffff:0:0]''"
      "strip_brackets ''[::ffff:0:0]'' = ''::ffff:0:0''" by code_simp+
  have valid: "assertPublicUrl E raw n = (Inr u, n)"
    using assms lit mapped_unspecified_passes by (simp add: assertPublicUrl_def Let_def act_return_def)
  obtain r n1 where g: "guardedGet E u n = (r, n1)" "contacted n1 = contacted n @ [''::ffff:0:0'']"
    using assms lit by (cases "fe_http E (requests n) u [''::ffff:0:0'']") (auto simp: guardedGet_def Let_def)
  have "\<exists>rest. contacted (snd (follow E MAX_REDIRECTS u n)) = contacted n1 @ rest" by (rule follow_after [OF g(1)])
  then have "\<exists>rest. contacted (snd (fetchReadable E raw n)) = contacted n @ ''::ffff:0:0'' # rest"
    using valid g(2) by (simp add: fetchReadable_def)
  moreover have "isPrivateIp ''0.0.0.0''" by code_simp
  ultimately show ?thesis by simp
qed

theorem mapped_unspecified_contacted_witness:
  "\<exists>rest. contacted (snd (fetchReadable (demo_fetch ''[::ffff:0:0]'') ''http://[::ffff:0:0]/'' \<lparr>queries = 0, requests = 0, contacted = []\<rparr>))
     = ''::ffff:0:0'' # rest"
proof -
  have "literal_host ''::ffff:0:0''" by code_simp
  then show ?thesis
    using mapped_unspecified_contacted [of "demo_fetch ''[::ffff:0:0]''" "''http://[::ffff:0:0]/''" "demo_url ''[::ffff:0:0]''"
      "\<lparr>queries = 0, requests = 0, contacted = []\<rparr>"]
    by (simp add: demo_fetch_def demo_url_def)
qed

end
