(* ===== verification/Membership.thy ===== *)
theory Membership
  imports Messages "HOL-Library.Word"
begin

text \<open>
  Who belongs to a workspace: \<^verbatim>\<open>lib/domain/workspaces.ts\<close>, \<^verbatim>\<open>lib/domain/invites.ts\<close>, \<^verbatim>\<open>lib/domain/members.ts\<close> and the
  member operations of \<^verbatim>\<open>lib/domain/settings.ts\<close>. Random tokens and new ids are arguments; the claim of an
  invite, the membership and the seat run in one transaction, as in the code.
\<close>

subsection \<open>Slugs\<close>

definition slug_char :: "char \<Rightarrow> bool" where
  "slug_char c \<longleftrightarrow> (97 \<le> (of_char c :: nat) \<and> (of_char c :: nat) \<le> 122) \<or> (48 \<le> (of_char c :: nat) \<and> (of_char c :: nat) \<le> 57)"

text \<open>\<^verbatim>\<open>.replace(/[^a-z0-9]+/g, "-")\<close>: each maximal run of other characters becomes one dash. The flag says that the
  previous character belonged to such a run.\<close>

fun dash_runs :: "bool \<Rightarrow> string \<Rightarrow> string" where
  "dash_runs prev [] = []"
| "dash_runs prev (c # s) = (if slug_char c then c # dash_runs False s
     else if prev then dash_runs True s else CHR ''-'' # dash_runs True s)"

definition strip_dashes :: "string \<Rightarrow> string" where
  "strip_dashes s = rev (dropWhile (\<lambda>c. c = CHR ''-'') (rev (dropWhile (\<lambda>c. c = CHR ''-'') s)))"

definition dash_slug :: "string \<Rightarrow> string" where
  "dash_slug s = strip_dashes (dash_runs False (js_lower s))"

text \<open>\<^verbatim>\<open>(h * 31 + charCode) | 0\<close>: arithmetic modulo \<open>2\<^sup>32\<close>, read as a signed number.\<close>

definition slug_hash :: "string \<Rightarrow> int" where
  "slug_hash s = sint (fold (\<lambda>c h. h * 31 + of_nat (of_char c)) s (0 :: 32 word))"

definition base36_char :: "nat \<Rightarrow> char" where
  "base36_char d = (if d < 10 then char_of (48 + d) else char_of (87 + d))"

fun base36 :: "nat \<Rightarrow> string" where
  "base36 n = (if n < 36 then [base36_char n] else base36 (n div 36) @ [base36_char (n mod 36)])"

declare base36.simps [simp del]

definition slugify :: "string \<Rightarrow> string" where
  "slugify name = (let base = take 32 (dash_slug name);
       suffix = take 5 (base36 (nat \<bar>slug_hash (name @ '':'' @ base)\<bar>))
     in (if base = [] then ''workspace'' else base) @ ''-'' @ suffix)"

subsection \<open>Workspaces\<close>

record WorkspaceSummary =
  sum_id :: uuid
  sum_slug :: string
  sum_name :: string
  sum_role :: Role

definition workspacesForUser :: "string \<Rightarrow> (db, WorkspaceSummary list) act" where
  "workspacesForUser u = act_get (\<lambda>s. [\<lparr>sum_id = ws_id x, sum_slug = ws_slug x, sum_name = ws_name x, sum_role = mb_role m\<rparr>.
     m \<leftarrow> members s, x \<leftarrow> workspaces s, mb_workspaceId m = ws_id x \<and> mb_sub m = u \<and> mb_status m = ''active''])"

record CreateWorkspaceInput =
  cw_name :: string
  cw_ownerSub :: string
  cw_ownerWallet :: "string option"
  cw_ownerEmail :: "string option"
  cw_ownerDisplayName :: "string option"

definition new_member :: "uuid \<Rightarrow> string \<Rightarrow> string option \<Rightarrow> string option \<Rightarrow> string option \<Rightarrow> Role \<Rightarrow> string option \<Rightarrow> ms \<Rightarrow> member_row" where
  "new_member w u wallet addr name role kyc now = \<lparr>mb_workspaceId = w, mb_sub = u, mb_walletAddress = wallet,
     mb_displayName = name, mb_email = addr, mb_role = role, mb_status = ''active'', mb_kycStatus = kyc,
     mb_isAgent = False, mb_devicesCount = 0, mb_timezone = None, mb_joinedAt = now\<rparr>"

definition createWorkspace :: "crypto_env \<Rightarrow> ms \<Rightarrow> uuid \<Rightarrow> CreateWorkspaceInput \<Rightarrow> (db, WorkspaceSummary) act" where
  "createWorkspace E now newId i =
     act_bind (insert_workspace \<lparr>ws_id = newId, ws_slug = slugify (cw_name i), ws_name = js_trim (cw_name i),
        ws_ownerSub = cw_ownerSub i, ws_encKeyVersion = 1, ws_createdAt = now\<rparr>) (\<lambda>workspace.
     act_bind (insert_member (new_member (ws_id workspace) (cw_ownerSub i) (cw_ownerWallet i) (cw_ownerEmail i)
        (cw_ownerDisplayName i) Owner None now)) (\<lambda>_.
     act_bind (appendAudit E now (audit_input (ws_id workspace) (Some (cw_ownerSub i)) ''workspace_created''
        (Some (ws_slug workspace)))) (\<lambda>_.
     act_return \<lparr>sum_id = ws_id workspace, sum_slug = ws_slug workspace, sum_name = ws_name workspace, sum_role = Owner\<rparr>)))"

definition workspaceBySlug :: "string \<Rightarrow> (db, (uuid \<times> string \<times> string) option) act" where
  "workspaceBySlug slug = act_get (\<lambda>s. map_option (\<lambda>x. (ws_id x, ws_slug x, ws_name x))
     (first_where (\<lambda>x. ws_slug x = slug) (workspaces s)))"

subsection \<open>Invites\<close>

definition INVITE_TTL_MS :: ms where
  "INVITE_TTL_MS = 7 * 24 * 60 * 60 * 1000"

definition hex_digit :: "char \<Rightarrow> bool" where
  "hex_digit c \<longleftrightarrow> hex_val c \<noteq> None"

text \<open>\<^verbatim>\<open>/^[0-9a-f]{8}-[0-9a-f]{4}-[0-9a-f]{4}-[0-9a-f]{4}-[0-9a-f]{12}$/i\<close>.\<close>

definition is_uuid :: "string \<Rightarrow> bool" where
  "is_uuid s \<longleftrightarrow> (let parts = js_split (CHR ''-'') s
     in map length parts = [8, 4, 4, 4, 12] \<and> (\<forall>p\<in>set parts. \<forall>c\<in>set p. hex_digit c))"

definition scopeChannelAllowed :: "uuid \<Rightarrow> uuid \<Rightarrow> string \<Rightarrow> (db, bool) act" where
  "scopeChannelAllowed w channelId inviterSub = (if \<not> is_uuid channelId then act_return False
     else act_get (\<lambda>s. case first_where (\<lambda>p. ch_workspaceId (fst p) = w \<and> ch_id (fst p) = channelId)
            [(c, m). c \<leftarrow> channels s, m \<leftarrow> channelMembers s, cm_channelId m = ch_id c \<and> cm_sub m = inviterSub] of
          None \<Rightarrow> False | Some p \<Rightarrow> ch_kind (fst p) \<noteq> ''dm''))"

record InviteArgs =
  ia_workspaceId :: uuid
  ia_email :: string
  ia_role :: Role
  ia_invitedBySub :: string
  ia_scopeChannelId :: "uuid option"

record CreatedInvite =
  ci_token :: string
  ci_email :: string
  ci_role :: Role
  ci_expiresAt :: ms

definition scope_given :: "uuid option \<Rightarrow> bool" where
  "scope_given x \<longleftrightarrow> x \<noteq> None \<and> x \<noteq> Some []"

definition createInvite :: "crypto_env \<Rightarrow> ms \<Rightarrow> string \<Rightarrow> InviteArgs \<Rightarrow> (db, CreatedInvite) act" where
  "createInvite E now random32 a =
     act_bind (if scope_given (ia_scopeChannelId a)
               then act_bind (scopeChannelAllowed (ia_workspaceId a) (or_empty (ia_scopeChannelId a)) (ia_invitedBySub a)) (\<lambda>ok.
                 if ok then act_return () else act_throw (JsError ''scope channel is not an invitable channel for this inviter''))
               else act_return ()) (\<lambda>_.
     let token = b64url random32; expiresAt = now + INVITE_TTL_MS; addr = js_lower (js_trim (ia_email a)) in
     act_bind (insert_invite \<lparr>iv_tokenHash = hashToken E token, iv_workspaceId = ia_workspaceId a, iv_email = addr,
        iv_role = ia_role a, iv_scopeChannelId = ia_scopeChannelId a, iv_invitedBySub = ia_invitedBySub a,
        iv_expiresAt = expiresAt, iv_acceptedBySub = None, iv_acceptedAt = None, iv_createdAt = now\<rparr>) (\<lambda>_.
     act_bind (appendAudit E now (audit_input (ia_workspaceId a) (Some (ia_invitedBySub a)) ''member_invited'' (Some addr))) (\<lambda>_.
     act_return \<lparr>ci_token = token, ci_email = addr, ci_role = ia_role a, ci_expiresAt = expiresAt\<rparr>)))"

definition inviterStillEntitled :: "uuid \<Rightarrow> string \<Rightarrow> Role \<Rightarrow> (db, bool) act" where
  "inviterStillEntitled w inviterSub invitedRole = act_get (\<lambda>s. case member_at s w inviterSub of
      None \<Rightarrow> False
    | Some m \<Rightarrow> mb_status m = ''active'' \<and> can (mb_role m) AddMember \<and> canGrant (mb_role m) invitedRole)"

definition pending_by :: "ms \<Rightarrow> uuid \<Rightarrow> string \<Rightarrow> invite_row \<Rightarrow> bool" where
  "pending_by now w u r \<longleftrightarrow> iv_workspaceId r = w \<and> iv_invitedBySub r = u \<and> iv_acceptedAt r = None \<and> now < iv_expiresAt r"

definition revokePendingInvitesBy :: "ms \<Rightarrow> uuid \<Rightarrow> string \<Rightarrow> (db, nat) act" where
  "revokePendingInvitesBy now w inviterSub =
     act_bind (act_get (\<lambda>s. rows_where (pending_by now w inviterSub) (invites s))) (\<lambda>rows.
     act_bind (tbl_update invites_update (pending_by now w inviterSub) (\<lambda>r. r\<lparr>iv_expiresAt := now\<rparr>)) (\<lambda>_.
     act_return (length rows)))"

record PendingInvite =
  pi_tokenHash :: string
  pi_email :: string
  pi_role :: Role
  pi_workspaceId :: uuid
  pi_workspaceName :: string
  pi_invitedBySub :: string
  pi_expiresAt :: ms
  pi_scopeChannelId :: "uuid option"

definition lookupInvite :: "crypto_env \<Rightarrow> ms \<Rightarrow> string \<Rightarrow> (db, PendingInvite option) act" where
  "lookupInvite E now token = (let h = hashToken E token in
     act_bind (act_get (\<lambda>s. first_where (\<lambda>r. iv_tokenHash r = h) (invites s))) (\<lambda>row. case row of
       None \<Rightarrow> act_return None
     | Some r \<Rightarrow> if iv_acceptedAt r \<noteq> None \<or> iv_expiresAt r < now then act_return None
        else act_bind (act_get (\<lambda>s. first_where (\<lambda>x. ws_id x = iv_workspaceId r) (workspaces s))) (\<lambda>ws.
          act_return (Some \<lparr>pi_tokenHash = iv_tokenHash r, pi_email = iv_email r, pi_role = iv_role r,
            pi_workspaceId = iv_workspaceId r,
            pi_workspaceName = (case ws of None \<Rightarrow> ''the workspace'' | Some x \<Rightarrow> ws_name x),
            pi_invitedBySub = iv_invitedBySub r, pi_expiresAt = iv_expiresAt r, pi_scopeChannelId = iv_scopeChannelId r\<rparr>))))"

datatype AcceptResult = Accepted uuid bool | Invalid

record AcceptArgs =
  aa_token :: string
  aa_sub :: string
  aa_sessionEmail :: "string option"
  aa_walletAddress :: "string option"
  aa_displayName :: "string option"
  aa_kycStatus :: "string option"

definition claimable :: "ms \<Rightarrow> string \<Rightarrow> invite_row \<Rightarrow> bool" where
  "claimable now h r \<longleftrightarrow> iv_tokenHash r = h \<and> iv_acceptedAt r = None \<and> now < iv_expiresAt r"

text \<open>The transaction: \<open>None\<close> for a token that cannot be claimed, \<open>Some None\<close> for a claimed invite whose issuer has lost the
  right to it, and the membership otherwise.\<close>

definition join_member :: "ms \<Rightarrow> AcceptArgs \<Rightarrow> invite_row \<Rightarrow> string \<Rightarrow> (db, bool) act" where
  "join_member now a invite memberEmail =
     act_bind (act_get (\<lambda>s. member_at s (iv_workspaceId invite) (aa_sub a))) (\<lambda>existing. case existing of
       Some m \<Rightarrow> if mb_status m = ''active'' then act_return True
         else act_bind (tbl_update members_update (\<lambda>x. mb_workspaceId x = iv_workspaceId invite \<and> mb_sub x = aa_sub a)
                (\<lambda>x. x\<lparr>mb_role := iv_role invite, mb_status := ''active'', mb_email := Some memberEmail,
                  mb_walletAddress := aa_walletAddress a\<rparr>)) (\<lambda>_. act_return False)
     | None \<Rightarrow> act_bind (insert_member (new_member (iv_workspaceId invite) (aa_sub a) (aa_walletAddress a) (Some memberEmail)
              (aa_displayName a) (iv_role invite) (aa_kycStatus a) now)) (\<lambda>_. act_return False))"

definition scope_seat :: "ms \<Rightarrow> AcceptArgs \<Rightarrow> invite_row \<Rightarrow> bool \<Rightarrow> (db, unit) act" where
  "scope_seat now a invite alreadyMember =
     (if scope_given (iv_scopeChannelId invite) \<and> \<not> alreadyMember
      then act_bind (scopeChannelAllowed (iv_workspaceId invite) (or_empty (iv_scopeChannelId invite)) (iv_invitedBySub invite)) (\<lambda>ok.
        if ok then act_bind (seat_unless_seated (seat (iv_workspaceId invite) (or_empty (iv_scopeChannelId invite)) now (aa_sub a)))
                (\<lambda>_. act_return ())
        else act_return ())
      else act_return ())"

definition accept_tx :: "ms \<Rightarrow> string \<Rightarrow> AcceptArgs \<Rightarrow> (db, (uuid \<times> bool \<times> string) option option) act" where
  "accept_tx now h a =
     act_bind (act_get (\<lambda>s. first_where (claimable now h) (invites s))) (\<lambda>claimed.
     act_bind (tbl_update invites_update (claimable now h)
        (\<lambda>r. r\<lparr>iv_acceptedBySub := Some (aa_sub a), iv_acceptedAt := Some now\<rparr>)) (\<lambda>_. case claimed of
       None \<Rightarrow> act_return None
     | Some invite \<Rightarrow>
        act_bind (inviterStillEntitled (iv_workspaceId invite) (iv_invitedBySub invite) (iv_role invite)) (\<lambda>entitled.
        if \<not> entitled then act_return (Some None)
        else
          let memberEmail = (case aa_sessionEmail a of Some e \<Rightarrow> js_lower e | None \<Rightarrow> iv_email invite) in
          act_bind (join_member now a invite memberEmail) (\<lambda>alreadyMember.
          act_bind (scope_seat now a invite alreadyMember) (\<lambda>_.
          act_return (Some (Some (iv_workspaceId invite, alreadyMember, memberEmail))))))))"

definition acceptInvite :: "crypto_env \<Rightarrow> ms \<Rightarrow> AcceptArgs \<Rightarrow> (db, AcceptResult) act" where
  "acceptInvite E now a =
     act_bind (act_transaction (accept_tx now (hashToken E (aa_token a)) a)) (\<lambda>result. case result of
       Some (Some (w, alreadyMember, memberEmail)) \<Rightarrow>
         act_bind (if alreadyMember then act_return ()
                   else act_bind (appendAudit E now (audit_input w (Some (aa_sub a)) ''member_joined'' (Some memberEmail)))
                          (\<lambda>_. act_return ()))
           (\<lambda>_. act_return (Accepted w alreadyMember))
     | _ \<Rightarrow> act_return Invalid)"

definition listPendingInvites :: "ms \<Rightarrow> uuid \<Rightarrow> (db, (string \<times> Role \<times> ms) list) act" where
  "listPendingInvites now w = act_get (\<lambda>s. map (\<lambda>r. (iv_email r, iv_role r, iv_expiresAt r))
     (filter (\<lambda>r. now < iv_expiresAt r) (rev (sort_key iv_createdAt
       (rows_where (\<lambda>r. iv_workspaceId r = w \<and> iv_acceptedAt r = None) (invites s))))))"

subsection \<open>Members\<close>

record MemberRow =
  mw_sub :: string
  mw_displayName :: string
  mw_walletAddress :: "string option"
  mw_email :: "string option"
  mw_role :: Role
  mw_status :: string
  mw_isAgent :: bool
  mw_kycStatus :: "string option"

definition ellipsis :: string where
  "ellipsis = [CHR 0xE2, CHR 0x80, CHR 0xA6]"

definition display :: "member_row \<Rightarrow> string" where
  "display r =
     (if or_empty (mb_displayName r) \<noteq> [] then or_empty (mb_displayName r)
      else if or_empty (mb_email r) \<noteq> [] then hd (js_split (CHR ''@'') (or_empty (mb_email r)))
      else if or_empty (mb_walletAddress r) \<noteq> []
        then (let a = or_empty (mb_walletAddress r) in take 6 a @ ellipsis @ drop (length a - 4) a)
      else take 8 (mb_sub r))"

definition member_view :: "member_row \<Rightarrow> MemberRow" where
  "member_view r = \<lparr>mw_sub = mb_sub r, mw_displayName = display r, mw_walletAddress = mb_walletAddress r,
     mw_email = mb_email r, mw_role = mb_role r, mw_status = mb_status r, mw_isAgent = mb_isAgent r,
     mw_kycStatus = mb_kycStatus r\<rparr>"

definition roster :: "uuid \<Rightarrow> (db, MemberRow list) act" where
  "roster w = act_get (\<lambda>s. map member_view (rows_where (\<lambda>r. mb_workspaceId r = w) (members s)))"

record DirectoryEntry =
  de_displayName :: string
  de_role :: Role
  de_isAgent :: bool

definition directory :: "uuid \<Rightarrow> (db, string \<rightharpoonup> DirectoryEntry) act" where
  "directory w = act_bind (roster w) (\<lambda>rows. act_return (fold (\<lambda>m d. d(mw_sub m \<mapsto>
     \<lparr>de_displayName = mw_displayName m, de_role = mw_role m, de_isAgent = mw_isAgent m\<rparr>)) rows Map.empty))"

definition changeRole :: "crypto_env \<Rightarrow> ms \<Rightarrow> uuid \<Rightarrow> string \<Rightarrow> Role \<Rightarrow> string \<Rightarrow> (db, unit) act" where
  "changeRole E now w subjectSub role issuerSub =
     act_bind (tbl_update members_update (\<lambda>m. mb_workspaceId m = w \<and> mb_sub m = subjectSub) (\<lambda>m. m\<lparr>mb_role := role\<rparr>)) (\<lambda>_.
     act_bind (insert_role_assertion \<lparr>ra_id = 0, ra_workspaceId = w, ra_subjectSub = subjectSub, ra_role = role,
        ra_scopeChannelId = None, ra_issuerSub = issuerSub, ra_notAfter = None, ra_signature = None, ra_revokedAt = None,
        ra_createdAt = now\<rparr>) (\<lambda>_.
     act_bind (appendAudit E now (audit_input w (Some issuerSub) ''role_changed'' (Some (subjectSub @ '':'' @ role_name role)))) (\<lambda>_.
     act_return ())))"

definition offboard :: "crypto_env \<Rightarrow> ms \<Rightarrow> uuid \<Rightarrow> string \<Rightarrow> string \<Rightarrow> (db, unit) act" where
  "offboard E now w subjectSub actorSub =
     act_bind (tbl_update members_update (\<lambda>m. mb_workspaceId m = w \<and> mb_sub m = subjectSub) (\<lambda>m. m\<lparr>mb_status := ''offboarded''\<rparr>)) (\<lambda>_.
     act_bind (tbl_update roleAssertions_update
        (\<lambda>r. ra_workspaceId r = w \<and> ra_subjectSub r = subjectSub \<and> ra_revokedAt r = None) (\<lambda>r. r\<lparr>ra_revokedAt := Some now\<rparr>)) (\<lambda>_.
     act_bind (revokePendingInvitesBy now w subjectSub) (\<lambda>_.
     act_bind (appendAudit E now (audit_input w (Some actorSub) ''member_offboarded'' (Some subjectSub))) (\<lambda>_.
     act_return ()))))"

definition memberRow :: "uuid \<Rightarrow> string \<Rightarrow> (db, MemberRow option) act" where
  "memberRow w u = act_get (\<lambda>s. map_option member_view (member_at s w u))"

definition updateDisplayName :: "uuid \<Rightarrow> string \<Rightarrow> string \<Rightarrow> (db, unit) act" where
  "updateDisplayName w u name = tbl_update members_update (\<lambda>m. mb_workspaceId m = w \<and> mb_sub m = u)
     (\<lambda>m. m\<lparr>mb_displayName := Some (js_trim name)\<rparr>)"

definition setMemberTimezone :: "uuid \<Rightarrow> string \<Rightarrow> string \<Rightarrow> (db, unit) act" where
  "setMemberTimezone w u tz = tbl_update members_update (\<lambda>m. mb_workspaceId m = w \<and> mb_sub m = u)
     (\<lambda>m. m\<lparr>mb_timezone := Some tz\<rparr>)"

subsection \<open>Integrity\<close>

lemma db_ok_createWorkspace [inv_intros]: "preserves db_ok (createWorkspace E now n i)"
  unfolding createWorkspace_def by (intro inv_intros)

lemma db_ok_members_update [inv_intros]:
  assumes "\<And>m. P m \<Longrightarrow> mb_key (f m) = mb_key m"
  shows "preserves db_ok (tbl_update members_update P f)"
proof (rule preserves_tbl_update)
  fix s assume "db_ok s"
  moreover have "mb_workspaceId (f m) = mb_workspaceId m" if "P m" for m using assms [OF that] by (simp add: mb_key_def)
  ultimately show "db_ok (members_update (upd_where P f) s)"
    using assms by (simp add: db_ok_defs key_fun_upd_where ball_upd_where)
qed

lemma db_ok_invites_update [inv_intros]:
  assumes "\<And>r. P r \<Longrightarrow> iv_tokenHash (f r) = iv_tokenHash r \<and> iv_workspaceId (f r) = iv_workspaceId r"
  shows "preserves db_ok (tbl_update invites_update P f)"
  by (rule preserves_tbl_update) (use assms in \<open>simp add: db_ok_defs key_fun_upd_where ball_upd_where\<close>)

lemma db_ok_roleAssertions_update [inv_intros]: "preserves db_ok (tbl_update roleAssertions_update P f)"
  by (rule preserves_tbl_update) (simp add: db_ok_defs)

lemma db_ok_scopeChannelAllowed [inv_intros]: "preserves P (scopeChannelAllowed w c u)"
  unfolding scopeChannelAllowed_def by (intro inv_intros)

lemma db_ok_createInvite [inv_intros]: "preserves db_ok (createInvite E now r a)"
  unfolding createInvite_def Let_def by (intro inv_intros)

lemma db_ok_revoke [inv_intros]: "preserves db_ok (revokePendingInvitesBy now w u)"
  unfolding revokePendingInvitesBy_def by (intro inv_intros) simp

lemma db_ok_join_member [inv_intros]: "preserves db_ok (join_member now a r e)"
  unfolding join_member_def by (intro inv_intros) (simp_all add: mb_key_def)

lemma db_ok_acceptInvite [inv_intros]: "preserves db_ok (acceptInvite E now a)"
  unfolding acceptInvite_def accept_tx_def scope_seat_def inviterStillEntitled_def Let_def
  by (intro inv_intros) (auto split: option.split prod.split intro!: inv_intros)

lemma db_ok_changeRole [inv_intros]: "preserves db_ok (changeRole E now w u r i)"
  unfolding changeRole_def by (intro inv_intros) (simp add: mb_key_def)

lemma db_ok_offboard [inv_intros]: "preserves db_ok (offboard E now w u a)"
  unfolding offboard_def by (intro inv_intros) (simp add: mb_key_def)

subsection \<open>What an acceptance does\<close>

abbreviation roll :: "db \<Rightarrow> member_row list \<times> invite_row list" where
  "roll s \<equiv> (members s, invites s)"

lemma frames_roll_seat [frame_intros]: "frames roll (seat_unless_seated r)"
  unfolding seat_unless_seated_def insert_channel_member_def by (intro frame_intros frames_tbl_insert) simp

lemma frames_scopeChannelAllowed [frame_intros]: "frames f (scopeChannelAllowed w c u)"
  unfolding scopeChannelAllowed_def by (intro frame_intros)

definition claim :: "ms \<Rightarrow> string \<Rightarrow> invite_row \<Rightarrow> invite_row" where
  "claim now u r = r\<lparr>iv_acceptedBySub := Some u, iv_acceptedAt := Some now\<rparr>"

definition entitled :: "db \<Rightarrow> invite_row \<Rightarrow> bool" where
  "entitled s r \<longleftrightarrow> (\<exists>m. member_at s (iv_workspaceId r) (iv_invitedBySub r) = Some m \<and> mb_status m = ''active''
     \<and> can (mb_role m) AddMember \<and> canGrant (mb_role m) (iv_role r))"

definition is_active :: "db \<Rightarrow> uuid \<Rightarrow> string \<Rightarrow> bool" where
  "is_active s w u \<longleftrightarrow> (\<exists>m. member_at s w u = Some m \<and> mb_status m = ''active'')"

definition joined :: "ms \<Rightarrow> string \<Rightarrow> db \<Rightarrow> AcceptArgs \<Rightarrow> invite_row \<Rightarrow> member_row list \<Rightarrow> bool" where
  "joined now e s a r ms \<longleftrightarrow>
     (if is_active s (iv_workspaceId r) (aa_sub a) then ms = members s
     else if member_at s (iv_workspaceId r) (aa_sub a) \<noteq> None
     then ms = upd_where (\<lambda>x. mb_workspaceId x = iv_workspaceId r \<and> mb_sub x = aa_sub a)
                 (\<lambda>x. x\<lparr>mb_role := iv_role r, mb_status := ''active'', mb_email := Some e, mb_walletAddress := aa_walletAddress a\<rparr>)
                 (members s)
     else ms = members s @ [new_member (iv_workspaceId r) (aa_sub a) (aa_walletAddress a) (Some e) (aa_displayName a)
                 (iv_role r) (aa_kycStatus a) now])"

lemma join_memberE:
  assumes "join_member now a r e s = (Inr al, s')"
  shows "al = is_active s (iv_workspaceId r) (aa_sub a) \<and> joined now e s a r (members s') \<and> invites s' = invites s"
proof (cases "member_at s (iv_workspaceId r) (aa_sub a)")
  case None
  then show ?thesis using assms
    by (auto simp: join_member_def act_defs insert_member_def tbl_insert_def is_active_def joined_def split: if_splits)
next
  case (Some m)
  then show ?thesis using assms
    by (auto simp: join_member_def act_defs tbl_update_def is_active_def joined_def split: if_splits)
qed

lemma frames_scope_seat [frame_intros]: "frames roll (scope_seat now a r al)"
  unfolding scope_seat_def by (intro frame_intros)

lemma accept_txE:
  assumes "accept_tx now h a s = (Inr (Some (Some (w, al, e))), s3)"
  defines "s1 \<equiv> invites_update (upd_where (claimable now h) (claim now (aa_sub a))) s"
  shows "\<exists>r s2. first_where (claimable now h) (invites s) = Some r \<and> iv_workspaceId r = w \<and> entitled s1 r
     \<and> join_member now a r e s1 = (Inr al, s2) \<and> roll s3 = roll s2"
proof (cases "first_where (claimable now h) (invites s)")
  case None
  then show ?thesis using assms by (simp add: accept_tx_def act_return_run)
next
  case (Some r)
  let ?e = "case aa_sessionEmail a of Some e \<Rightarrow> js_lower e | None \<Rightarrow> iv_email r"
  have ent: "entitled s1 r" using assms(1) Some
    by (auto simp: accept_tx_def inviterStillEntitled_def entitled_def s1_def claim_def [abs_def] act_return_run split: option.splits if_splits)
  then have run: "act_bind (join_member now a r ?e) (\<lambda>al. act_bind (scope_seat now a r al) (\<lambda>_.
      act_return (Some (Some (iv_workspaceId r, al, ?e))))) s1 = (Inr (Some (Some (w, al, e))), s3)"
    using assms(1) Some
    by (auto simp: accept_tx_def inviterStillEntitled_def entitled_def s1_def claim_def [abs_def] Let_def split: option.splits)
  then obtain al' s2 where j: "join_member now a r ?e s1 = (Inr al', s2)"
    and k: "act_bind (scope_seat now a r al') (\<lambda>_. act_return (Some (Some (iv_workspaceId r, al', ?e)))) s2
      = (Inr (Some (Some (w, al, e))), s3)" by (rule act_bind_InrE)
  from k obtain t where t: "scope_seat now a r al' s2 = (Inr (), t)" "t = s3" "al' = al" "?e = e" "iv_workspaceId r = w"
    by (auto simp: act_return_run elim: act_bind_InrE)
  show ?thesis using Some ent j t framesD [OF frames_scope_seat t(1)] by auto
qed

text \<open>Everything an acceptance that succeeds has checked, and all it does to the member list and the invites.\<close>

lemma acceptInviteE:
  assumes "acceptInvite E now a s = (Inr (Accepted w al), s')"
  obtains r e where "first_where (claimable now (hashToken E (aa_token a))) (invites s) = Some r" "iv_workspaceId r = w"
    "entitled s r" "al = is_active s w (aa_sub a)" "joined now e s a r (members s')"
    "invites s' = upd_where (claimable now (hashToken E (aa_token a))) (claim now (aa_sub a)) (invites s)"
proof -
  let ?h = "hashToken E (aa_token a)"
  let ?s1 = "invites_update (upd_where (claimable now ?h) (claim now (aa_sub a))) s"
  from assms obtain res s3 where tx: "act_transaction (accept_tx now ?h a) s = (Inr res, s3)"
    and k: "(case res of Some (Some (w, alreadyMember, memberEmail)) \<Rightarrow>
         act_bind (if alreadyMember then act_return ()
                   else act_bind (appendAudit E now (audit_input w (Some (aa_sub a)) ''member_joined'' (Some memberEmail)))
                          (\<lambda>_. act_return ()))
           (\<lambda>_. act_return (Accepted w alreadyMember))
     | _ \<Rightarrow> act_return Invalid) s3 = (Inr (Accepted w al), s')"
    unfolding acceptInvite_def by (rule act_bind_InrE)
  from k obtain e where res: "res = Some (Some (w, al, e))"
    by (auto simp: act_defs split: option.splits prod.splits if_splits sum.splits)
  have "frames roll (act_bind (if al then act_return ()
      else act_bind (appendAudit E now (audit_input w (Some (aa_sub a)) ''member_joined'' (Some e))) (\<lambda>_. act_return ()))
      (\<lambda>_. act_return (Accepted w al)))"
    by (intro frame_intros) simp_all
  from framesD [OF this] k have r3: "roll s' = roll s3" by (simp add: res)
  from tx have "accept_tx now ?h a s = (Inr (Some (Some (w, al, e))), s3)" by (auto simp: res elim: act_transaction_InrE)
  then obtain r s2 where r: "first_where (claimable now ?h) (invites s) = Some r" "iv_workspaceId r = w" "entitled ?s1 r"
    and j: "join_member now a r e ?s1 = (Inr al, s2)" and r2: "roll s3 = roll s2"
    using accept_txE by metis
  have same: "member_at ?s1 = member_at s" "members ?s1 = members s" by (rule ext)+ (simp_all add: member_at_def)
  have "entitled s r" using r(3) by (simp add: entitled_def same)
  moreover have "al = is_active s w (aa_sub a)" "joined now e s a r (members s')"
    "invites s' = upd_where (claimable now ?h) (claim now (aa_sub a)) (invites s)"
    using join_memberE [OF j] r(2) r2 r3 by (simp_all add: is_active_def joined_def same)
  ultimately show thesis by (rule that [OF r(1,2)])
qed

lemma member_at_key: "keys_ok s \<Longrightarrow> m \<in> set (members s) \<Longrightarrow> member_at s (mb_workspaceId m) (mb_sub m) = Some m"
  using first_where_key [of mb_key "members s" m "(mb_workspaceId m, mb_sub m)"]
  by (simp add: member_at_def keys_ok_def mb_key_def)

lemma member_at_members: "members s = members t \<Longrightarrow> member_at s = member_at t"
  by (rule ext)+ (simp add: member_at_def)

lemma member_at_sel: "member_at s w u = Some m \<Longrightarrow> mb_workspaceId m = w \<and> mb_sub m = u \<and> m \<in> set (members s)"
  unfolding member_at_def by (drule first_where_SomeD) simp

lemma member_at_upd:
  assumes "members s' = upd_where (\<lambda>x. mb_workspaceId x = w \<and> mb_sub x = u) f (members s)"
    and "\<And>m. mb_workspaceId (f m) = mb_workspaceId m \<and> mb_sub (f m) = mb_sub m"
  shows "member_at s' w' u' = (if (w', u') = (w, u) then map_option f (member_at s w u) else member_at s w' u')"
proof -
  have "member_at s' w' u' = map_option (\<lambda>x. if mb_workspaceId x = w \<and> mb_sub x = u then f x else x) (member_at s w' u')"
    unfolding member_at_def assms(1) by (rule first_where_upd_where) (simp add: assms(2))
  then show ?thesis using member_at_sel [of s w' u'] by (cases "member_at s w' u'") auto
qed

lemma joined_member_at:
  assumes "joined now e s a r (members s')" "\<not> is_active s (iv_workspaceId r) (aa_sub a)"
  shows "\<exists>m. member_at s' (iv_workspaceId r) (aa_sub a) = Some m \<and> mb_role m = iv_role r \<and> mb_status m = ''active''"
    and "\<And>w u. (w, u) \<noteq> (iv_workspaceId r, aa_sub a) \<Longrightarrow> member_at s' w u = member_at s w u"
proof -
  let ?P = "\<lambda>x. mb_workspaceId x = iv_workspaceId r \<and> mb_sub x = aa_sub a"
  let ?f = "\<lambda>x. x\<lparr>mb_role := iv_role r, mb_status := ''active'', mb_email := Some e, mb_walletAddress := aa_walletAddress a\<rparr>"
  let ?n = "new_member (iv_workspaceId r) (aa_sub a) (aa_walletAddress a) (Some e) (aa_displayName a) (iv_role r) (aa_kycStatus a) now"
  consider (upd) m where "member_at s (iv_workspaceId r) (aa_sub a) = Some m" "members s' = upd_where ?P ?f (members s)"
    | (ins) "member_at s (iv_workspaceId r) (aa_sub a) = None" "members s' = members s @ [?n]"
    using assms by (auto simp: joined_def split: if_splits)
  then have "(\<exists>m. member_at s' (iv_workspaceId r) (aa_sub a) = Some m \<and> mb_role m = iv_role r \<and> mb_status m = ''active'')
     \<and> (\<forall>w u. (w, u) \<noteq> (iv_workspaceId r, aa_sub a) \<longrightarrow> member_at s' w u = member_at s w u)"
  proof cases
    case upd
    then show ?thesis by (simp add: member_at_upd [OF upd(2)])
  next
    case ins
    then show ?thesis
      by (auto simp: member_at_def first_where_append new_member_def split: option.split)
  qed
  then show "\<exists>m. member_at s' (iv_workspaceId r) (aa_sub a) = Some m \<and> mb_role m = iv_role r \<and> mb_status m = ''active''"
    and "\<And>w u. (w, u) \<noteq> (iv_workspaceId r, aa_sub a) \<Longrightarrow> member_at s' w u = member_at s w u" by blast+
qed

text \<open>C7. What an invite admits: an acceptance succeeds only on an unexpired, unused invite whose issuer is at that
  moment an active member who may add members and may grant the invited role. Somebody who was not an active
  member becomes one with exactly the invited role; an active member keeps the role held before (no downgrade
  and no upgrade); nobody else's membership changes anywhere.\<close>

theorem accept_invite_grants:
  assumes "acceptInvite E now a s = (Inr (Accepted w already), s')"
  shows "\<exists>r inviter. r \<in> set (invites s) \<and> claimable now (hashToken E (aa_token a)) r \<and> iv_workspaceId r = w
     \<and> member_at s w (iv_invitedBySub r) = Some inviter \<and> mb_status inviter = ''active''
     \<and> can (mb_role inviter) AddMember \<and> canGrant (mb_role inviter) (iv_role r)
     \<and> (if is_active s w (aa_sub a) then already \<and> members s' = members s
        else \<not> already \<and> (\<exists>m. member_at s' w (aa_sub a) = Some m \<and> mb_role m = iv_role r \<and> mb_status m = ''active''))
     \<and> (\<forall>w' u. (w', u) \<noteq> (w, aa_sub a) \<longrightarrow> member_at s' w' u = member_at s w' u)"
proof -
  obtain r e where r: "first_where (claimable now (hashToken E (aa_token a))) (invites s) = Some r" "iv_workspaceId r = w"
    "entitled s r" "already = is_active s w (aa_sub a)" "joined now e s a r (members s')"
    using assms by (rule acceptInviteE)
  have m: "r \<in> set (invites s) \<and> claimable now (hashToken E (aa_token a)) r" using first_where_SomeD [OF r(1)] .
  show ?thesis
  proof (cases "is_active s w (aa_sub a)")
    case True
    then have "members s' = members s" using r(2,5) by (simp add: joined_def)
    then show ?thesis using True m r(2,3,4) member_at_members [of s' s] by (auto simp: entitled_def)
  next
    case False
    then show ?thesis using m r(2,3,4) joined_member_at [OF r(5)] by (auto simp: entitled_def)
  qed
qed

subsection \<open>Single use\<close>

datatype member_cmd =
    CreateWs ms uuid CreateWorkspaceInput
  | Invite ms string InviteArgs
  | Accept ms AcceptArgs
  | ChangeRole ms uuid string Role string
  | Offboard ms uuid string string

fun member_exec :: "crypto_env \<Rightarrow> member_cmd \<Rightarrow> db \<Rightarrow> db" where
  "member_exec E (CreateWs now n i) s = snd (createWorkspace E now n i s)"
| "member_exec E (Invite now rnd a) s = snd (createInvite E now rnd a s)"
| "member_exec E (Accept now a) s = snd (acceptInvite E now a s)"
| "member_exec E (ChangeRole now w u r i) s = snd (changeRole E now w u r i s)"
| "member_exec E (Offboard now w u i) s = snd (offboard E now w u i s)"

text \<open>The token hashes of the acceptances that succeed in a run.\<close>

fun accepted_now :: "crypto_env \<Rightarrow> member_cmd \<Rightarrow> db \<Rightarrow> string list" where
  "accepted_now E (Accept now a) s = (case fst (acceptInvite E now a s) of Inr (Accepted _ _) \<Rightarrow> [hashToken E (aa_token a)] | _ \<Rightarrow> [])"
| "accepted_now E _ s = []"

fun acceptances :: "crypto_env \<Rightarrow> member_cmd list \<Rightarrow> db \<Rightarrow> string list" where
  "acceptances E [] s = []"
| "acceptances E (c # cs) s = accepted_now E c s @ acceptances E cs (member_exec E c s)"

definition used :: "string \<Rightarrow> db \<Rightarrow> bool" where
  "used h s \<longleftrightarrow> (\<exists>r\<in>set (invites s). iv_tokenHash r = h \<and> iv_acceptedAt r \<noteq> None)"

lemma used_frames: "frames invites m \<Longrightarrow> preserves (used h) m"
  by (auto simp: frames_def preserves_def used_def)

lemma frames_invites [frame_intros]:
  "frames invites (insert_workspace x1)" "frames invites (insert_member x2)" "frames invites (insert_role_assertion x3)"
  "frames invites (insert_channel_member x4)" "frames invites (tbl_update members_update P f)"
  "frames invites (tbl_update roleAssertions_update Q g)"
  by (auto simp: frames_def insert_defs tbl_insert_def tbl_update_def Let_def)

lemma used_insert_invite [inv_intros]: "preserves (used h) (insert_invite r)"
  unfolding insert_invite_def by (rule preserves_tbl_insert) (auto simp: used_def)

lemma used_revoke [inv_intros]: "preserves (used h) (revokePendingInvitesBy now w u)"
  unfolding revokePendingInvitesBy_def
  by (intro inv_intros preserves_tbl_update) (force simp: used_def set_upd_where pending_by_def)

lemma used_claim [inv_intros]:
  "preserves (used h) (tbl_update invites_update (claimable now k) (\<lambda>r. r\<lparr>iv_acceptedBySub := x, iv_acceptedAt := Some y\<rparr>))"
  by (rule preserves_tbl_update) (force simp: used_def set_upd_where claimable_def)

lemmas used_others [inv_intros] = frames_invites [THEN used_frames]

lemma used_appendAudit [inv_intros]: "preserves (used h) (appendAudit E now i)"
  by (intro used_frames frame_intros) simp_all

lemma used_preserved [inv_intros]:
  "preserves (used h) (createWorkspace E now n i)" "preserves (used h) (createInvite E now rnd a)"
  "preserves (used h) (changeRole E now w u ro is)" "preserves (used h) (offboard E now w u is)"
  unfolding createWorkspace_def createInvite_def changeRole_def offboard_def Let_def by (intro inv_intros)+

lemma used_acceptInvite [inv_intros]: "preserves (used h) (acceptInvite E now a)"
  unfolding acceptInvite_def accept_tx_def scope_seat_def inviterStillEntitled_def join_member_def seat_unless_seated_def Let_def
  by (intro inv_intros) (auto split: option.split prod.split intro!: inv_intros)

lemma used_exec: "used h s \<Longrightarrow> used h (member_exec E c s)"
  by (cases c) (auto intro!: preserves_snd [where P = "used h"] inv_intros)

lemma db_ok_member_exec: "db_ok s \<Longrightarrow> db_ok (member_exec E c s)"
  by (cases c) (auto intro!: preserves_snd [where P = db_ok] inv_intros)

lemma accepted_now_fresh:
  assumes "db_ok s" "h \<in> set (accepted_now E c s)"
  shows "\<not> used h s \<and> used h (member_exec E c s) \<and> accepted_now E c s = [h]"
proof -
  obtain now a where c: "c = Accept now a" using assms(2) by (cases c) auto
  obtain w al s' where run: "acceptInvite E now a s = (Inr (Accepted w al), s')" and h: "h = hashToken E (aa_token a)"
    using assms(2) by (cases "acceptInvite E now a s") (auto simp: c split: sum.splits AcceptResult.splits)
  obtain r e where r: "first_where (claimable now h) (invites s) = Some r"
    "invites s' = upd_where (claimable now h) (claim now (aa_sub a)) (invites s)"
    using run unfolding h by (rule acceptInviteE)
  have m: "r \<in> set (invites s)" "claimable now h r" using first_where_SomeD [OF r(1)] by simp_all
  have "\<not> used h s"
    using m assms(1) key_fun_eq [of iv_tokenHash "invites s"] by (auto simp: used_def claimable_def db_ok_def keys_ok_def)
  moreover have "claim now (aa_sub a) r \<in> set (invites s')" using m by (force simp: r(2) set_upd_where)
  then have "used h s'" using m by (auto simp: used_def claim_def claimable_def intro!: bexI [of _ "claim now (aa_sub a) r"])
  ultimately show ?thesis using run by (simp add: c h)
qed

lemma acceptances_unused: "db_ok s \<Longrightarrow> used h s \<Longrightarrow> h \<notin> set (acceptances E cs s)"
  using accepted_now_fresh by (induction cs arbitrary: s) (auto simp: used_exec db_ok_member_exec)

text \<open>C6. A token admits one person: whatever is done to the workspaces, in any order (workspaces and invites created,
  roles changed, people offboarded, the same link redeemed again and again by anybody), no token is
  accepted twice.\<close>

theorem invite_single_use:
  assumes "db_ok s"
  shows "distinct (acceptances E cs s)"
  using assms
proof (induction cs arbitrary: s)
  case (Cons c cs)
  have "h \<notin> set (acceptances E cs (member_exec E c s))" if "h \<in> set (accepted_now E c s)" for h
    using acceptances_unused [OF db_ok_member_exec [OF Cons.prems]] accepted_now_fresh [OF Cons.prems that] by blast
  moreover have "distinct (accepted_now E c s)"
    by (cases c) (auto split: sum.split AcceptResult.split)
  ultimately show ?case using Cons.IH [OF db_ok_member_exec [OF Cons.prems]] by auto
qed simp

subsection \<open>Offboarding\<close>

lemma frames_revoke_members [frame_intros]:
  "frames members (revokePendingInvitesBy now w u)" "frames roleAssertions (revokePendingInvitesBy now w u)"
  by (auto simp: revokePendingInvitesBy_def frames_def act_return_run)

lemma offboard_state:
  "members (snd (offboard E now w u i s)) = upd_where (\<lambda>m. mb_workspaceId m = w \<and> mb_sub m = u)
     (\<lambda>m. m\<lparr>mb_status := ''offboarded''\<rparr>) (members s)
   \<and> roleAssertions (snd (offboard E now w u i s)) = upd_where (\<lambda>r. ra_workspaceId r = w \<and> ra_subjectSub r = u
     \<and> ra_revokedAt r = None) (\<lambda>r. r\<lparr>ra_revokedAt := Some now\<rparr>) (roleAssertions s)"
proof -
  let ?rest = "act_bind (revokePendingInvitesBy now w u) (\<lambda>_.
     act_bind (appendAudit E now (audit_input w (Some i) ''member_offboarded'' (Some u))) (\<lambda>_. act_return ()))"
  have "frames members ?rest" "frames roleAssertions ?rest" by (intro frame_intros; simp)+
  then show ?thesis by (simp add: offboard_def frames_def)
qed

text \<open>C8. Offboarding is complete: afterwards the person is refused at the workspace gate, no role assertion of theirs
  is live, no invite they ever issued for that workspace admits anybody at any later time, and no other
  membership has changed. This holds even when the final audit record cannot be written.\<close>

theorem offboard_revokes_everything:
  assumes ok: "db_ok s" and run: "offboard E now w u i s = (res, s')"
  shows "fst (requireMembership w u s') = Inl (GuardError 403 ''not a member of this workspace'')
     \<and> (\<forall>r\<in>set (roleAssertions s'). ra_workspaceId r = w \<longrightarrow> ra_subjectSub r = u \<longrightarrow> ra_revokedAt r \<noteq> None)
     \<and> (\<forall>r\<in>set (invites s'). iv_workspaceId r = w \<longrightarrow> iv_invitedBySub r = u \<longrightarrow>
          (\<forall>later a w' al. hashToken E (aa_token a) = iv_tokenHash r \<longrightarrow> fst (acceptInvite E later a s') \<noteq> Inr (Accepted w' al)))
     \<and> (\<forall>w' u'. (w', u') \<noteq> (w, u) \<longrightarrow> member_at s' w' u' = member_at s w' u')"
proof (intro conjI ballI allI impI)
  note st = offboard_state [of E now w u i s, unfolded run snd_conv]
  note at = member_at_upd [OF st [THEN conjunct1], simplified]
  have out: "member_at s' w u = map_option (\<lambda>m. m\<lparr>mb_status := ''offboarded''\<rparr>) (member_at s w u)" by (simp add: at)
  show "fst (requireMembership w u s') = Inl (GuardError 403 ''not a member of this workspace'')"
    by (cases "member_at s w u") (simp_all add: requireMembership_run out)
  show "ra_revokedAt r \<noteq> None" if r: "r \<in> set (roleAssertions s')" "ra_workspaceId r = w" "ra_subjectSub r = u" for r
  proof -
    obtain x where x: "r = (if ra_workspaceId x = w \<and> ra_subjectSub x = u \<and> ra_revokedAt x = None
        then x\<lparr>ra_revokedAt := Some now\<rparr> else x)" using r(1) unfolding st [THEN conjunct2] set_upd_where by blast
    show ?thesis
    proof (cases "ra_workspaceId x = w \<and> ra_subjectSub x = u \<and> ra_revokedAt x = None")
      case True
      then show ?thesis by (simp add: x)
    next
      case False
      then have "r = x" using x by simp
      then show ?thesis using False r(2,3) by simp
    qed
  qed
  show "member_at s' w' u' = member_at s w' u'" if "(w', u') \<noteq> (w, u)" for w' u' using that by (auto simp: at)
  show "fst (acceptInvite E later a s') \<noteq> Inr (Accepted w' al)"
    if r: "r \<in> set (invites s')" "iv_workspaceId r = w" "iv_invitedBySub r = u" and h: "hashToken E (aa_token a) = iv_tokenHash r"
    for r later a w' al
  proof
    assume "fst (acceptInvite E later a s') = Inr (Accepted w' al)"
    then obtain t where "acceptInvite E later a s' = (Inr (Accepted w' al), t)" by (cases "acceptInvite E later a s'") auto
    then obtain q e where q: "first_where (claimable later (hashToken E (aa_token a))) (invites s') = Some q" "entitled s' q"
      by (rule acceptInviteE)
    have "db_ok s'" by (rule preservesD [OF db_ok_offboard run ok])
    then have "q = r"
      using first_where_SomeD [OF q(1)] r h key_fun_eq [of iv_tokenHash "invites s'"] by (auto simp: claimable_def db_ok_def keys_ok_def)
    then show False using q(2) r out by (auto simp: entitled_def)
  qed
qed

subsection \<open>Creating workspaces\<close>

lemma createWorkspaceE:
  assumes "createWorkspace E now n i s = (Inr x, s')"
  shows "members s' = members s @ [new_member n (cw_ownerSub i) (cw_ownerWallet i) (cw_ownerEmail i) (cw_ownerDisplayName i) Owner None now]
     \<and> mb_key (new_member n (cw_ownerSub i) (cw_ownerWallet i) (cw_ownerEmail i) (cw_ownerDisplayName i) Owner None now)
         \<notin> mb_key ` set (members s)
     \<and> ws_slug ` set (workspaces s') = insert (slugify (cw_name i)) (ws_slug ` set (workspaces s)) \<and> sum_id x = n"
proof -
  let ?w = "\<lparr>ws_id = n, ws_slug = slugify (cw_name i), ws_name = js_trim (cw_name i), ws_ownerSub = cw_ownerSub i,
     ws_encKeyVersion = 1, ws_createdAt = now\<rparr>"
  let ?m = "new_member n (cw_ownerSub i) (cw_ownerWallet i) (cw_ownerEmail i) (cw_ownerDisplayName i) Owner None now"
  from assms obtain y s1 where w: "insert_workspace ?w s = (Inr y, s1)" and
    k: "act_bind (insert_member (new_member (ws_id y) (cw_ownerSub i) (cw_ownerWallet i) (cw_ownerEmail i)
        (cw_ownerDisplayName i) Owner None now)) (\<lambda>_.
     act_bind (appendAudit E now (audit_input (ws_id y) (Some (cw_ownerSub i)) ''workspace_created''
        (Some (ws_slug y)))) (\<lambda>_.
     act_return \<lparr>sum_id = ws_id y, sum_slug = ws_slug y, sum_name = ws_name y, sum_role = Owner\<rparr>)) s1 = (Inr x, s')"
    unfolding createWorkspace_def by (rule act_bind_InrE)
  have y: "y = ?w" "s1 = s\<lparr>workspaces := workspaces s @ [?w]\<rparr>"
    using w by (auto simp: insert_workspace_def tbl_insert_def split: if_splits)
  from k obtain z s2 where m: "insert_member ?m s1 = (Inr z, s2)" and
    k2: "act_bind (appendAudit E now (audit_input n (Some (cw_ownerSub i)) ''workspace_created''
        (Some (slugify (cw_name i))))) (\<lambda>_.
     act_return \<lparr>sum_id = n, sum_slug = slugify (cw_name i), sum_name = js_trim (cw_name i), sum_role = Owner\<rparr>) s2 = (Inr x, s')"
    unfolding y(1) by (rule act_bind_InrE) simp
  have s2: "s2 = s1\<lparr>members := members s1 @ [?m]\<rparr>" "mb_key ?m \<notin> mb_key ` set (members s)"
    using m by (auto simp: insert_member_def tbl_insert_def y split: if_splits)
  from k2 obtain v where v: "appendAudit E now (audit_input n (Some (cw_ownerSub i)) ''workspace_created''
        (Some (slugify (cw_name i)))) s2 = (Inr v, s')" "sum_id x = n"
    by (rule act_bind_InrE) (auto simp: act_return_run)
  have fr: "frames (\<lambda>s. (members s, workspaces s)) (appendAudit E now (audit_input n (Some (cw_ownerSub i)) ''workspace_created''
        (Some (slugify (cw_name i)))))" by (intro frame_intros) simp_all
  from framesD [OF fr v(1)] show ?thesis using v(2) s2 y(2) by simp
qed

text \<open>Creating a workspace makes its creator an active Owner, whom the gate then admits with every capability;
  and because the address is computed from the name alone, no second workspace with exactly that name can be
  created afterwards, by anybody: the insert is refused and nothing changes.\<close>

theorem create_workspace_owner_and_name_taken:
  assumes "createWorkspace E now n i s = (Inr x, s')"
  shows "(\<exists>m. member_at s' n (cw_ownerSub i) = Some m \<and> mb_role m = Owner \<and> mb_status m = ''active'')
     \<and> (\<forall>cap. can Owner cap)
     \<and> (cw_name j = cw_name i \<longrightarrow> createWorkspace E later n' j s' = (Inl (DbError ''constraint violation''), s'))"
proof -
  note c = createWorkspaceE [OF assms]
  have "first_where (\<lambda>m. mb_workspaceId m = n \<and> mb_sub m = cw_ownerSub i) (members s) = None"
    using c by (auto simp: first_where_None_iff mb_key_def new_member_def image_iff)
  then have "member_at s' n (cw_ownerSub i) = Some (new_member n (cw_ownerSub i) (cw_ownerWallet i) (cw_ownerEmail i)
      (cw_ownerDisplayName i) Owner None now)"
    using c by (simp add: member_at_def first_where_append new_member_def)
  moreover have "createWorkspace E later n' j s' = (Inl (DbError ''constraint violation''), s')" if "cw_name j = cw_name i"
    using that c by (simp add: createWorkspace_def act_bind_Inl insert_workspace_def tbl_insert_def)
  ultimately show ?thesis by (auto simp: new_member_def can_all_owner)
qed

subsection \<open>Slugs are addresses\<close>

lemma dash_runs_chars: "c \<in> set (dash_runs p s) \<Longrightarrow> slug_char c \<or> c = CHR ''-''"
  by (induction p s rule: dash_runs.induct) (auto split: if_splits)

lemma strip_dashes_set: "set (strip_dashes s) \<subseteq> set s"
  by (auto simp: strip_dashes_def dest!: set_dropWhileD)

lemma dash_slug_chars: "c \<in> set (dash_slug s) \<Longrightarrow> slug_char c \<or> c = CHR ''-''"
  using strip_dashes_set dash_runs_chars by (fastforce simp: dash_slug_def)

lemma base36_char_slug: "d < 36 \<Longrightarrow> slug_char (base36_char d)"
  by (auto simp: base36_char_def slug_char_def)

lemma base36_chars: "c \<in> set (base36 n) \<Longrightarrow> slug_char c"
  by (induction n rule: base36.induct) (subst (asm) (2) base36.simps, auto simp: base36_char_slug split: if_splits)

lemma base36_ne: "base36 n \<noteq> []"
  by (subst base36.simps) simp

text \<open>A workspace address is always a usable one: lower-case letters, digits and dashes only, never empty, ending in a
  letter or digit, and at most 38 characters, whatever the name.\<close>

theorem slugify_wellformed:
  "set (slugify name) \<subseteq> {c. slug_char c \<or> c = CHR ''-''} \<and> length (slugify name) \<le> 38
   \<and> slugify name \<noteq> [] \<and> slug_char (last (slugify name))"
proof -
  let ?base = "take 32 (dash_slug name)"
  let ?n = "nat \<bar>slug_hash (name @ '':'' @ ?base)\<bar>"
  let ?b = "if ?base = [] then ''workspace'' else ?base"
  have eq: "slugify name = ?b @ ''-'' @ take 5 (base36 ?n)" by (simp add: slugify_def Let_def)
  have chars: "\<forall>c\<in>set ?b. slug_char c \<or> c = CHR ''-''"
    using dash_slug_chars set_take_subset [of 32 "dash_slug name"] by (auto simp: slug_char_def)
  have suf: "\<forall>c\<in>set (take 5 (base36 ?n)). slug_char c" using base36_chars set_take_subset by fastforce
  have ne: "take 5 (base36 ?n) \<noteq> []" using base36_ne by simp
  have "length ?b \<le> 32" by simp
  moreover have "slug_char (last (take 5 (base36 ?n)))" using suf ne last_in_set by blast
  ultimately show ?thesis using chars suf ne by (auto simp: eq last_append)
qed

subsection \<open>Witnesses\<close>

definition demo_invite :: invite_row where
  "demo_invite = \<lparr>iv_tokenHash = hashToken demo_env ''secret-token'', iv_workspaceId = ''w1'', iv_email = ''bob@x.io'', iv_role = Member,
     iv_scopeChannelId = None, iv_invitedBySub = ''alice'', iv_expiresAt = 1000, iv_acceptedBySub = None, iv_acceptedAt = None,
     iv_createdAt = 0\<rparr>"

definition demo_invited :: db where
  "demo_invited = demo_chat\<lparr>invites := [demo_invite]\<rparr>"

definition demo_accept :: "string \<Rightarrow> AcceptArgs" where
  "demo_accept u = \<lparr>aa_token = ''secret-token'', aa_sub = u, aa_sessionEmail = None, aa_walletAddress = None,
     aa_displayName = None, aa_kycStatus = None\<rparr>"

lemma db_ok_demo_invited: "db_ok demo_invited"
  using db_ok_demo_chat by (simp add: demo_invited_def demo_invite_def db_ok_defs key_fun_def demo_chat_defs)

lemma demo_accept_run: "\<exists>s'. acceptInvite demo_env 5 (demo_accept ''bob'') demo_invited = (Inr (Accepted ''w1'' False), s')"
proof -
  have tx: "\<exists>e s1. accept_tx 5 (hashToken demo_env ''secret-token'') (demo_accept ''bob'') demo_invited = (Inr (Some (Some (''w1'', False, e))), s1)
      \<and> has_workspace s1 ''w1''"
    by (simp add: accept_tx_def demo_invited_def demo_invite_def claimable_def inviterStillEntitled_def member_at_def
        demo_chat_defs join_member_def demo_accept_def scope_seat_def scope_given_def insert_member_def tbl_insert_def
        new_member_def mb_key_def has_workspace_def cap_sets act_bind_def act_get_def act_return_def tbl_update_def Let_def)
  then obtain e s1 where tx: "accept_tx 5 (hashToken demo_env ''secret-token'') (demo_accept ''bob'') demo_invited
      = (Inr (Some (Some (''w1'', False, e))), s1)" and ws: "has_workspace s1 ''w1''" by blast
  let ?a = "audit_input ''w1'' (Some ''bob'') ''member_joined'' (Some e)"
  have "has_workspace s1 (ai_workspaceId ?a)" using ws by (simp add: audit_input_def)
  from appendAudit_ok [OF provisioned_demo this, of 5] obtain v s2 where "appendAudit demo_env 5 ?a s1 = (Inr v, s2)" by blast
  then show ?thesis
    using tx by (auto simp: acceptInvite_def act_transaction_def act_bind_def act_return_def demo_accept_def)
qed

theorem accept_invite_grants_witness:
  "\<exists>s' m. acceptInvite demo_env 5 (demo_accept ''bob'') demo_invited = (Inr (Accepted ''w1'' False), s')
     \<and> member_at s' ''w1'' ''bob'' = Some m \<and> mb_status m = ''active''"
proof -
  obtain s' where r: "acceptInvite demo_env 5 (demo_accept ''bob'') demo_invited = (Inr (Accepted ''w1'' False), s')"
    using demo_accept_run by blast
  have "\<not> is_active demo_invited ''w1'' (aa_sub (demo_accept ''bob''))"
    by (simp add: is_active_def member_at_def demo_invited_def demo_chat_defs demo_accept_def)
  then show ?thesis using accept_invite_grants [OF r] r by (auto simp: demo_accept_def)
qed

theorem invite_single_use_witness:
  "distinct (acceptances demo_env [Accept 5 (demo_accept ''bob''), Accept 6 (demo_accept ''eve'')] demo_invited)"
  by (rule invite_single_use [OF db_ok_demo_invited])

theorem offboard_revokes_everything_witness:
  "\<exists>res s'. offboard demo_env 5 ''w1'' ''alice'' ''olga'' demo_invited = (res, s')
     \<and> fst (requireMembership ''w1'' ''alice'' s') = Inl (GuardError 403 ''not a member of this workspace'')"
proof -
  obtain res s' where r: "offboard demo_env 5 ''w1'' ''alice'' ''olga'' demo_invited = (res, s')" by fastforce
  from offboard_revokes_everything [OF db_ok_demo_invited r] r show ?thesis by blast
qed

definition demo_workspace_input :: CreateWorkspaceInput where
  "demo_workspace_input = \<lparr>cw_name = ''Acme'', cw_ownerSub = ''zoe'', cw_ownerWallet = None, cw_ownerEmail = None,
     cw_ownerDisplayName = None\<rparr>"

theorem create_workspace_owner_and_name_taken_witness:
  "\<exists>x s'. createWorkspace demo_env 1 ''w9'' demo_workspace_input empty_db = (Inr x, s')
     \<and> createWorkspace demo_env 2 ''w10'' demo_workspace_input s' = (Inl (DbError ''constraint violation''), s')"
proof -
  let ?w = "\<lparr>ws_id = ''w9'', ws_slug = slugify ''Acme'', ws_name = js_trim ''Acme'', ws_ownerSub = ''zoe'',
     ws_encKeyVersion = 1, ws_createdAt = 1\<rparr>"
  let ?s = "empty_db\<lparr>workspaces := [?w], members := [new_member ''w9'' ''zoe'' None None None Owner None 1]\<rparr>"
  let ?a = "audit_input ''w9'' (Some ''zoe'') ''workspace_created'' (Some (slugify ''Acme''))"
  have "has_workspace ?s (ai_workspaceId ?a)" by (simp add: has_workspace_def audit_input_def)
  from appendAudit_ok [OF provisioned_demo this, of 1] obtain v s2 where a: "appendAudit demo_env 1 ?a ?s = (Inr v, s2)" by blast
  have "\<exists>x. createWorkspace demo_env 1 ''w9'' demo_workspace_input empty_db = (Inr x, s2)"
    using a by (simp add: createWorkspace_def demo_workspace_input_def insert_workspace_def insert_member_def tbl_insert_def
        empty_db_def has_workspace_def new_member_def mb_key_def act_bind_def act_return_def)
  then obtain x where x: "createWorkspace demo_env 1 ''w9'' demo_workspace_input empty_db = (Inr x, s2)" by blast
  from create_workspace_owner_and_name_taken [OF x, of demo_workspace_input 2 "''w10''"] x show ?thesis by blast
qed

end
