(* ===== verification/Mentions.thy ===== *)
theory Mentions
  imports Membership
begin

text \<open>
  \<^verbatim>\<open>lib/mentions.ts\<close>: handles, the scan of a message body for \<^verbatim>\<open>@handle\<close>, and the resolution of handles to
  candidates. The scan follows the regular expression
  \<^verbatim>\<open>/(^|[^a-zA-Z0-9_])@([a-z0-9][a-z0-9._-]*)/gi\<close> with its \<^verbatim>\<open>lastIndex\<close>: a match consumes the character
  before the \<^verbatim>\<open>@\<close>, and the next search starts behind the token. The collation of display names
  (\<^verbatim>\<open>localeCompare\<close>) is an argument, given as the rank of a name.
\<close>

datatype MentionKind = KMember | KAgent

record Mentionable =
  mn_id :: string
  mn_name :: string
  mn_sub :: string
  mn_kind :: MentionKind

definition toHandle :: "string \<Rightarrow> string" where
  "toHandle name = dash_slug name"

definition kind_rank :: "MentionKind \<Rightarrow> nat" where
  "kind_rank k = (case k of KAgent \<Rightarrow> 0 | KMember \<Rightarrow> 1)"

text \<open>Stable: agents first, then by name.\<close>

definition withHandles :: "(string \<Rightarrow> int) \<Rightarrow> Mentionable list \<Rightarrow> (Mentionable \<times> string) list" where
  "withHandles rank cs = sort_key (\<lambda>(c, h). kind_rank (mn_kind c)) (sort_key (\<lambda>(c, h). rank (mn_name c))
     (filter (\<lambda>(c, h). length h > 0) (map (\<lambda>c. (c, toHandle (mn_name c))) cs)))"

definition alnum_any :: "char \<Rightarrow> bool" where
  "alnum_any c \<longleftrightarrow> slug_char (lower_char c)"

definition word_char :: "char \<Rightarrow> bool" where
  "word_char c \<longleftrightarrow> alnum_any c \<or> c = CHR ''_''"

definition token_char :: "char \<Rightarrow> bool" where
  "token_char c \<longleftrightarrow> alnum_any c \<or> c = CHR ''.'' \<or> c = CHR ''_'' \<or> c = CHR ''-''"

text \<open>The text at the token of a match at this position, if there is one.\<close>

definition match_here :: "bool \<Rightarrow> string \<Rightarrow> string option" where
  "match_here start s =
     (case s of
        a # b # r \<Rightarrow>
          if start \<and> a = CHR ''@'' \<and> alnum_any b then Some (b # r)
          else if \<not> word_char a \<and> b = CHR ''@'' then (case r of d # _ \<Rightarrow> if alnum_any d then Some r else None | [] \<Rightarrow> None)
          else None
      | _ \<Rightarrow> None)"

lemma match_here_shorter: "match_here start s = Some t \<Longrightarrow> length t < length s"
  by (auto simp: match_here_def split: list.splits if_splits)

function scan_mentions :: "bool \<Rightarrow> string \<Rightarrow> string list" where
  "scan_mentions start s = (case match_here start s of
      Some t \<Rightarrow> takeWhile token_char t # scan_mentions False (dropWhile token_char t)
    | None \<Rightarrow> (case s of [] \<Rightarrow> [] | _ # r \<Rightarrow> scan_mentions False r))"
  by pat_completeness auto

termination
  by (relation "measure (\<lambda>(_, s). length s)")
    (auto dest!: match_here_shorter intro: le_less_trans [OF length_dropWhile_le])

declare scan_mentions.simps [simp del]

definition strip_punct :: "string \<Rightarrow> string" where
  "strip_punct s = rev (dropWhile (\<lambda>c. c = CHR ''.'' \<or> c = CHR ''_'' \<or> c = CHR ''-'') (rev s))"

definition extractHandles :: "string \<Rightarrow> string list" where
  "extractHandles body = js_set (map (\<lambda>m. strip_punct (js_lower m)) (scan_mentions True body))"

definition best_match :: "(Mentionable \<times> string) list \<Rightarrow> string \<Rightarrow> Mentionable option" where
  "best_match withH h = (case first_where (\<lambda>(c, k). k = h) withH of
      Some (c, _) \<Rightarrow> Some c
    | None \<Rightarrow> (case sort_key (\<lambda>(c, k). - int (length k)) (filter (\<lambda>(c, k). starts_with k h) withH) of
        (c, _) # _ \<Rightarrow> Some c | [] \<Rightarrow> None))"

fun collect_mentions :: "(Mentionable \<times> string) list \<Rightarrow> string list \<Rightarrow> string list \<Rightarrow> Mentionable list" where
  "collect_mentions withH seen [] = []"
| "collect_mentions withH seen (h # hs) = (case best_match withH h of
      Some c \<Rightarrow> if mn_sub c \<in> set seen then collect_mentions withH seen hs
                else c # collect_mentions withH (mn_sub c # seen) hs
    | None \<Rightarrow> collect_mentions withH seen hs)"

record ParsedMentions =
  pm_agents :: "Mentionable list"
  pm_members :: "Mentionable list"
  pm_all :: "Mentionable list"

definition parseMentions :: "(string \<Rightarrow> int) \<Rightarrow> string \<Rightarrow> Mentionable list \<Rightarrow> ParsedMentions" where
  "parseMentions rank body candidates =
     (let found = collect_mentions (withHandles rank candidates) [] (extractHandles body)
      in \<lparr>pm_agents = filter (\<lambda>c. mn_kind c = KAgent) found, pm_members = filter (\<lambda>c. mn_kind c = KMember) found, pm_all = found\<rparr>)"

definition filterMentionables :: "(string \<Rightarrow> int) \<Rightarrow> Mentionable list \<Rightarrow> string \<Rightarrow> nat \<Rightarrow> (Mentionable \<times> string) list" where
  "filterMentionables rank candidates query lim =
     (let q = js_lower query; withH = withHandles rank candidates in
      if q = [] then take lim withH
      else take lim (sort_key (\<lambda>(c, h). if starts_with q h then 0 else 1 :: nat) (sort_key (\<lambda>(c, h). rank (mn_name c))
        (filter (\<lambda>(c, h). sublist q h \<or> sublist q (js_lower (mn_name c))) withH))))"

subsection \<open>A written mention is found\<close>

lemma set_withHandles: "set (withHandles rank cs) = {(c, toHandle (mn_name c)) |c. c \<in> set cs \<and> toHandle (mn_name c) \<noteq> []}"
  by (auto simp: withHandles_def)

lemma scan_step:
  "scan_mentions start s = (case match_here start s of
      Some t \<Rightarrow> takeWhile token_char t # scan_mentions False (dropWhile token_char t)
    | None \<Rightarrow> (case s of [] \<Rightarrow> [] | _ # r \<Rightarrow> scan_mentions False r))"
  by (rule scan_mentions.simps)

lemma takeWhile_stop: "list_all P x \<Longrightarrow> \<not> P b \<Longrightarrow> takeWhile P (x @ b # r) = x \<and> dropWhile P (x @ b # r) = b # r"
  by (induction x) auto

lemma takeWhile_before:
  "\<not> P b \<Longrightarrow> \<exists>p. dropWhile P (x @ b # r) = p @ b # r \<and> length p \<le> length x"
proof (induction x)
  case (Cons a x)
  then show ?case by (cases "P a") (auto intro: exI [of _ "a # x"] le_SucI)
qed (auto intro: exI [of _ "[]"])

text \<open>Behind any text, a space and an \<^verbatim>\<open>@\<close> followed by a token is found: no earlier match can consume the space.\<close>

lemma scan_finds:
  assumes tok: "tok \<noteq> []" "list_all token_char tok" "alnum_any (hd tok)" and rest: "rest = [] \<or> \<not> token_char (hd rest)"
  shows "tok \<in> set (scan_mentions start (pre @ CHR '' '' # CHR ''@'' # tok @ rest))"
proof (induction "length pre" arbitrary: start pre rule: less_induct)
  case less
  let ?tail = "CHR '' '' # CHR ''@'' # tok @ rest"
  have sp: "\<not> token_char (CHR '' '')" "\<not> word_char (CHR '' '')" "\<not> alnum_any (CHR '' '')" "\<not> alnum_any (CHR ''@'')" by code_simp+
  obtain d tk where tk: "tok = d # tk" using tok(1) by (cases tok) auto
  show ?case
  proof (cases pre)
    case Nil
    have "match_here start ?tail = Some (tok @ rest)" using sp tok(3) by (simp add: match_here_def tk)
    moreover have "takeWhile token_char (tok @ rest) = tok"
      using tok(2) rest by (cases rest) (auto simp: takeWhile_stop list_all_iff takeWhile_append2)
    ultimately show ?thesis by (subst scan_step) (simp add: Nil)
  next
    case (Cons a p)
    show ?thesis
    proof (cases "match_here start (pre @ ?tail)")
      case None
      then show ?thesis using less [of p False] Cons by (subst scan_step) simp
    next
      case (Some t)
      have "\<exists>q. t = q @ ?tail \<and> length q < length pre"
        using Some sp unfolding Cons by (cases p; cases "tl p") (auto simp: match_here_def split: if_splits list.splits)
      then obtain q where q: "t = q @ ?tail" "length q < length pre" by blast
      obtain x where "dropWhile token_char t = x @ ?tail" "length x \<le> length q"
        using takeWhile_before [of token_char "CHR '' ''" q "CHR ''@'' # tok @ rest"] sp(1) q(1) by auto
      then show ?thesis using less [of x False] q(2) Some by (subst scan_step) simp
    qed
  qed
qed

lemma slug_token: "slug_char c \<or> c = CHR ''-'' \<Longrightarrow> token_char c \<and> lower_char c = c"
  by (auto simp: token_char_def alnum_any_def slug_char_def lower_char_def)

lemma strip_dashes_ends: "strip_dashes s \<noteq> [] \<Longrightarrow> hd (strip_dashes s) \<noteq> CHR ''-'' \<and> last (strip_dashes s) \<noteq> CHR ''-''"
proof -
  let ?P = "\<lambda>c. c = CHR ''-''"
  let ?t = "dropWhile ?P s"
  assume ne: "strip_dashes s \<noteq> []"
  then have ne2: "dropWhile ?P (rev ?t) \<noteq> []" by (simp add: strip_dashes_def)
  have l: "last (strip_dashes s) \<noteq> CHR ''-''" using hd_dropWhile [OF ne2] ne2 by (simp add: strip_dashes_def last_rev)
  have "?t = rev (dropWhile ?P (rev ?t)) @ rev (takeWhile ?P (rev ?t))"
    by (metis rev_append rev_rev_ident takeWhile_dropWhile_id)
  then have "hd ?t = hd (strip_dashes s)" "?t \<noteq> []"
    using ne2 by (metis hd_append2 rev_is_Nil_conv strip_dashes_def, metis append_is_Nil_conv ne2 rev_is_Nil_conv)
  then show ?thesis using l hd_dropWhile [of ?P s] by auto
qed

lemma toHandle_token:
  assumes "toHandle name \<noteq> []"
  shows "list_all token_char (toHandle name) \<and> alnum_any (hd (toHandle name)) \<and> js_lower (toHandle name) = toHandle name
     \<and> strip_punct (toHandle name) = toHandle name"
proof -
  let ?h = "toHandle name"
  have chars: "slug_char c \<or> c = CHR ''-''" if "c \<in> set ?h" for c using dash_slug_chars that by (simp add: toHandle_def)
  have ends: "hd ?h \<noteq> CHR ''-''" "last ?h \<noteq> CHR ''-''"
    using assms strip_dashes_ends by (auto simp: toHandle_def dash_slug_def)
  have "slug_char (hd ?h)" "slug_char (last ?h)" using chars assms ends hd_in_set last_in_set by blast+
  then have "alnum_any (hd ?h)" "last ?h \<noteq> CHR ''.'' \<and> last ?h \<noteq> CHR ''_''"
    using slug_token [of "hd ?h"] by (auto simp: alnum_any_def slug_char_def)
  moreover have "js_lower ?h = ?h" unfolding js_lower_def by (rule map_idI) (use chars slug_token in blast)
  moreover have "strip_punct ?h = ?h"
    using calculation(2) ends assms by (cases "rev ?h") (auto simp: strip_punct_def rev_eq_Cons_iff)
  ultimately show ?thesis using chars slug_token by (auto simp: list_all_iff)
qed

lemma first_where_unique:
  "x \<in> set xs \<Longrightarrow> P x \<Longrightarrow> (\<And>y. y \<in> set xs \<Longrightarrow> P y \<Longrightarrow> y = x) \<Longrightarrow> first_where P xs = Some x"
  by (metis first_where_None_iff first_where_SomeD option.exhaust)

lemma collect_finds:
  "h \<in> set hs \<Longrightarrow> best_match withH h = Some c \<Longrightarrow> mn_sub c \<notin> set seen \<Longrightarrow>
   mn_sub c \<in> mn_sub ` set (collect_mentions withH seen hs)"
proof (induction hs arbitrary: seen)
  case (Cons k hs)
  show ?case
  proof (cases "h = k")
    case True
    then show ?thesis using Cons.prems by simp
  next
    case False
    then have "h \<in> set hs" using Cons.prems(1) by simp
    then show ?thesis using Cons.IH Cons.prems(2,3)
      by (cases "best_match withH k"; cases "mn_sub (the (best_match withH k)) = mn_sub c") auto
  qed
qed simp

lemma collect_sound: "c \<in> set (collect_mentions withH seen hs) \<Longrightarrow> \<exists>h. (c, h) \<in> set withH \<and> mn_sub c \<notin> set seen"
proof (induction withH seen hs rule: collect_mentions.induct)
  case (2 withH seen h hs)
  have best: "best_match withH h = Some x \<Longrightarrow> \<exists>k. (x, k) \<in> set withH" for x
  proof -
    assume b: "best_match withH h = Some x"
    let ?L = "sort_key (\<lambda>(c, k). - int (length k)) (filter (\<lambda>(c, k). starts_with k h) withH)"
    have "p \<in> set withH" if "?L = p # r" for p r
    proof -
      have "p \<in> set ?L" unfolding that by simp
      then show ?thesis by simp
    qed
    then show ?thesis using b
      by (auto simp: best_match_def split: option.splits list.splits dest: first_where_SomeD)
  qed
  from 2 best show ?case by (fastforce split: option.splits if_splits)
qed simp

lemma collect_distinct: "distinct (map mn_sub (collect_mentions withH seen hs)) \<and> set (map mn_sub (collect_mentions withH seen hs)) \<inter> set seen = {}"
  by (induction withH seen hs rule: collect_mentions.induct) (auto split: option.split)

text \<open>Mentions resolve as written. Whatever surrounds it, the handle of a candidate behind a space and an \<^verbatim>\<open>@\<close>, followed by
  white space or the end, is found and resolves to that candidate when no other has the handle; and only candidates are
  ever returned, each once.\<close>

lemma mention_resolves:
  assumes c: "c \<in> set candidates" and h: "toHandle (mn_name c) \<noteq> []"
    and unique: "\<And>d. d \<in> set candidates \<Longrightarrow> toHandle (mn_name d) = toHandle (mn_name c) \<Longrightarrow> d = c"
    and rest: "rest = [] \<or> js_space (hd rest)"
  shows "mn_sub c \<in> mn_sub ` set (pm_all (parseMentions rank (pre @ '' @'' @ toHandle (mn_name c) @ rest) candidates))
     \<and> set (pm_all (parseMentions rank body candidates)) \<subseteq> set candidates
     \<and> distinct (map mn_sub (pm_all (parseMentions rank body candidates)))"
proof -
  let ?h = "toHandle (mn_name c)"
  let ?W = "withHandles rank candidates"
  note tok = toHandle_token [OF h]
  have "rest = [] \<or> \<not> token_char (hd rest)" using rest
    by (auto simp: js_space_def token_char_def alnum_any_def slug_char_def lower_char_def)
  then have "?h \<in> set (scan_mentions True (pre @ CHR '' '' # CHR ''@'' # ?h @ rest))" using tok h by (intro scan_finds) auto
  then have found: "?h \<in> set (extractHandles (pre @ '' @'' @ ?h @ rest))"
    using tok by (auto simp: extractHandles_def image_iff intro!: bexI [of _ ?h])
  have "first_where (\<lambda>(d, k). k = ?h) ?W = Some (c, ?h)"
  proof (rule first_where_unique)
    show "(c, ?h) \<in> set ?W" using c h by (simp add: set_withHandles)
    fix y assume "y \<in> set ?W" and k: "case y of (d, k) \<Rightarrow> k = ?h"
    then obtain d where d: "y = (d, toHandle (mn_name d))" "d \<in> set candidates" by (auto simp: set_withHandles)
    then show "y = (c, ?h)" using k unique [of d] by simp
  qed simp
  then have "best_match ?W ?h = Some c" by (simp add: best_match_def)
  then have "mn_sub c \<in> mn_sub ` set (collect_mentions ?W [] (extractHandles (pre @ '' @'' @ ?h @ rest)))"
    using collect_finds [OF found] by simp
  moreover have "set (collect_mentions ?W [] (extractHandles body)) \<subseteq> set candidates"
    using collect_sound by (fastforce simp: set_withHandles)
  ultimately show ?thesis using collect_distinct by (simp add: parseMentions_def Let_def)
qed

end
