(* ===== verification/Notifications.thy ===== *)
theory Notifications
  imports Mentions
begin

text \<open>
  \<^verbatim>\<open>lib/domain/notifications.ts\<close>, \<^verbatim>\<open>lib/realtime/notify-events.ts\<close>, \<^verbatim>\<open>lib/realtime/notif-feed.ts\<close>,
  \<^verbatim>\<open>lib/notif-group.ts\<close> and the event stream \<^verbatim>\<open>app/api/workspaces/[id]/notifications/stream/route.ts\<close>. An operation
  that emits events returns them, with their recipients, in the order of emission. A stream is a state machine
  over what can happen to it: an event of the bus, a tick of its timer, the end of its lifetime, an abort or a
  cancellation; whether a chunk could be written is part of the happening.
\<close>

record NotificationEvent =
  ne_id :: uuid
  ne_kind :: string
  ne_actorName :: "string option"
  ne_channelId :: "uuid option"
  ne_channelName :: "string option"
  ne_taskId :: "uuid option"
  ne_createdAt :: ms

datatype NotifyEvent = UnreadEvent int | NotificationEv NotificationEvent

definition toNotificationEvent ::
    "uuid \<Rightarrow> string \<Rightarrow> string option \<Rightarrow> uuid option \<Rightarrow> string option \<Rightarrow> uuid option \<Rightarrow> ms \<Rightarrow> NotificationEvent" where
  "toNotificationEvent i kind actorName channelId channelName taskId createdAt =
     \<lparr>ne_id = i, ne_kind = kind, ne_actorName = actorName, ne_channelId = channelId, ne_channelName = channelName,
      ne_taskId = taskId, ne_createdAt = createdAt\<rparr>"

subsection \<open>The repository\<close>

record NotificationRow =
  nr_id :: uuid
  nr_kind :: string
  nr_actorSub :: "string option"
  nr_actorName :: "string option"
  nr_channelId :: "uuid option"
  nr_channelName :: "string option"
  nr_messageId :: "uuid option"
  nr_taskId :: "uuid option"
  nr_read :: bool
  nr_createdAt :: ms

record MentionArgs =
  na_workspaceId :: uuid
  na_channelId :: uuid
  na_messageId :: uuid
  na_body :: string
  na_actorSub :: string

text \<open>\<^verbatim>\<open>Object.entries(dir)\<close>: the members in the order the directory was filled, without the agents.\<close>

definition mention_candidates :: "MemberRow list \<Rightarrow> (string \<rightharpoonup> DirectoryEntry) \<Rightarrow> Mentionable list" where
  "mention_candidates rows dir = [\<lparr>mn_id = u, mn_name = de_displayName (the (dir u)), mn_sub = u, mn_kind = KMember\<rparr>.
     u \<leftarrow> js_set (map mw_sub rows), \<not> de_isAgent (the (dir u))]"

definition mention_row :: "(nat \<Rightarrow> uuid) \<Rightarrow> ms \<Rightarrow> MentionArgs \<Rightarrow> nat \<times> string \<Rightarrow> notification_row" where
  "mention_row newId now a = (\<lambda>(i, r). \<lparr>nt_id = newId i, nt_workspaceId = na_workspaceId a, nt_recipientSub = r,
     nt_kind = ''mention'', nt_actorSub = Some (na_actorSub a), nt_channelId = Some (na_channelId a),
     nt_messageId = Some (na_messageId a), nt_taskId = None, nt_readAt = None, nt_createdAt = now\<rparr>)"

definition mention_recipients :: "(string \<Rightarrow> int) \<Rightarrow> MentionArgs \<Rightarrow> MemberRow list \<Rightarrow> (string \<rightharpoonup> DirectoryEntry) \<Rightarrow> string list" where
  "mention_recipients rank a rows dir = filter (\<lambda>u. u \<noteq> na_actorSub a)
     (map mn_sub (pm_members (parseMentions rank (na_body a) (mention_candidates rows dir))))"

definition notifyChannelMentions ::
    "(string \<Rightarrow> int) \<Rightarrow> ms \<Rightarrow> (nat \<Rightarrow> uuid) \<Rightarrow> MentionArgs \<Rightarrow> (db, (string \<times> NotificationEvent) list) act" where
  "notifyChannelMentions rank now newId a = act_try
     (if na_body a = [] \<or> CHR ''@'' \<notin> set (na_body a) then act_return []
      else act_bind (roster (na_workspaceId a)) (\<lambda>rows.
           act_bind (directory (na_workspaceId a)) (\<lambda>dir.
           let recipients = mention_recipients rank a rows dir in
           if recipients = [] then act_return []
           else let inserted = map (mention_row newId now a) (enumerate 0 recipients) in
             act_bind (insert_rows insert_notification inserted) (\<lambda>_.
             act_bind (act_get (\<lambda>s. first_where (\<lambda>c. ch_id c = na_channelId a) (channels s))) (\<lambda>ch.
             let actorName = map_option de_displayName (dir (na_actorSub a)) in
             act_return (map (\<lambda>r. (nt_recipientSub r, toNotificationEvent (nt_id r) ''mention'' actorName (Some (na_channelId a))
               (map_option ch_name ch) None (nt_createdAt r))) inserted))))))
     (\<lambda>_. act_return [])"

definition notification_view :: "db \<Rightarrow> notification_row \<Rightarrow> NotificationRow" where
  "notification_view s n = \<lparr>nr_id = nt_id n, nr_kind = nt_kind n, nr_actorSub = nt_actorSub n,
     nr_actorName = (case nt_actorSub n of None \<Rightarrow> None | Some u \<Rightarrow>
        (case member_at s (nt_workspaceId n) u of None \<Rightarrow> None | Some m \<Rightarrow> mb_displayName m)),
     nr_channelId = nt_channelId n,
     nr_channelName = (case nt_channelId n of None \<Rightarrow> None | Some c \<Rightarrow> map_option ch_name (first_where (\<lambda>x. ch_id x = c) (channels s))),
     nr_messageId = nt_messageId n, nr_taskId = nt_taskId n, nr_read = (nt_readAt n \<noteq> None), nr_createdAt = nt_createdAt n\<rparr>"

definition notifications_of :: "db \<Rightarrow> uuid \<Rightarrow> string \<Rightarrow> notification_row list" where
  "notifications_of s w u = rows_where (\<lambda>n. nt_workspaceId n = w \<and> nt_recipientSub n = u) (notifications s)"

definition listNotifications :: "uuid \<Rightarrow> string \<Rightarrow> int \<Rightarrow> (db, NotificationRow list) act" where
  "listNotifications w u lim = act_get (\<lambda>s. map (notification_view s)
     (take (nat (min (max lim 1) 100)) (rev (sort_key nt_createdAt (notifications_of s w u)))))"

record TaskAssignedArgs =
  ta_workspaceId :: uuid
  ta_taskId :: uuid
  ta_assigneeSub :: string
  ta_actorSub :: string

definition notifyTaskAssigned :: "ms \<Rightarrow> uuid \<Rightarrow> TaskAssignedArgs \<Rightarrow> (db, (string \<times> NotificationEvent) list) act" where
  "notifyTaskAssigned now newId a = act_try
     (if ta_assigneeSub a = [] \<or> ta_assigneeSub a = ta_actorSub a then act_return []
      else act_bind (insert_notification \<lparr>nt_id = newId, nt_workspaceId = ta_workspaceId a, nt_recipientSub = ta_assigneeSub a,
             nt_kind = ''task_assigned'', nt_actorSub = Some (ta_actorSub a), nt_channelId = None, nt_messageId = None,
             nt_taskId = Some (ta_taskId a), nt_readAt = None, nt_createdAt = now\<rparr>) (\<lambda>row.
           act_bind (directory (ta_workspaceId a)) (\<lambda>dir.
           act_return [(ta_assigneeSub a, toNotificationEvent (nt_id row) ''task_assigned''
             (map_option de_displayName (dir (ta_actorSub a))) None None (Some (ta_taskId a)) (nt_createdAt row))])))
     (\<lambda>_. act_return [])"

definition unreadCount :: "uuid \<Rightarrow> string \<Rightarrow> (db, nat) act" where
  "unreadCount w u = act_get (\<lambda>s. length (rows_where (\<lambda>n. nt_workspaceId n = w \<and> nt_recipientSub n = u \<and> nt_readAt n = None)
     (notifications s)))"

text \<open>\<open>ids\<close> is \<^verbatim>\<open>opts.ids\<close>, \<^verbatim>\<open>None\<close> when it is absent.\<close>

definition markRead :: "ms \<Rightarrow> uuid \<Rightarrow> string \<Rightarrow> uuid list option \<Rightarrow> bool \<Rightarrow> (db, unit) act" where
  "markRead now w u ids mark_all =
     (let base = (\<lambda>n. nt_workspaceId n = w \<and> nt_recipientSub n = u \<and> nt_readAt n = None) in
      if mark_all then tbl_update notifications_update base (\<lambda>n. n\<lparr>nt_readAt := Some now\<rparr>)
      else case ids of
        None \<Rightarrow> act_return ()
      | Some xs \<Rightarrow> if xs = [] then act_return ()
          else tbl_update notifications_update (\<lambda>n. base n \<and> nt_id n \<in> set xs) (\<lambda>n. n\<lparr>nt_readAt := Some now\<rparr>))"

lemma db_ok_markRead [inv_intros]: "preserves db_ok (markRead now w u ids al)"
proof -
  have "preserves db_ok (tbl_update notifications_update P (\<lambda>n. n\<lparr>nt_readAt := Some now\<rparr>))" for P
    by (rule preserves_tbl_update) (simp add: db_ok_defs key_fun_upd_where image_upd_where ball_upd_where)
  then show ?thesis unfolding markRead_def Let_def by (intro inv_intros)
qed

lemma db_ok_roster [inv_intros]: "preserves db_ok (roster w)"
  unfolding roster_def by (intro inv_intros)

lemma db_ok_directory [inv_intros]: "preserves db_ok (directory w)"
  unfolding directory_def by (intro inv_intros)

lemma db_ok_notifyChannelMentions [inv_intros]: "preserves db_ok (notifyChannelMentions rank now newId a)"
  unfolding notifyChannelMentions_def Let_def by (intro inv_intros)

lemma db_ok_notifyTaskAssigned [inv_intros]: "preserves db_ok (notifyTaskAssigned now newId a)"
  unfolding notifyTaskAssigned_def by (intro inv_intros)

subsection \<open>Grouping for the inbox\<close>

record NotifGroup =
  gr_key :: string
  gr_name :: string
  gr_icon :: string
  gr_items :: "NotificationRow list"
  gr_unread :: nat

definition group_key :: "NotificationRow \<Rightarrow> string" where
  "group_key n = (if nr_kind n = ''task_assigned'' then ''tasks'' else case nr_channelId n of Some c \<Rightarrow> c | None \<Rightarrow> ''other'')"

definition new_group :: "NotificationRow \<Rightarrow> NotifGroup" where
  "new_group n = \<lparr>gr_key = group_key n,
     gr_name = (if nr_kind n = ''task_assigned'' then ''Tasks'' else case nr_channelName n of Some c \<Rightarrow> c | None \<Rightarrow> ''Conversation''),
     gr_icon = (if nr_kind n = ''task_assigned'' then ''projects'' else ''hash''), gr_items = [], gr_unread = 0\<rparr>"

definition push_item :: "NotificationRow \<Rightarrow> NotifGroup \<Rightarrow> NotifGroup" where
  "push_item n g = g\<lparr>gr_items := gr_items g @ [n], gr_unread := gr_unread g + (if nr_read n then 0 else 1)\<rparr>"

definition group_step :: "NotificationRow \<Rightarrow> NotifGroup list \<Rightarrow> NotifGroup list" where
  "group_step n gs = (let gs' = (if group_key n \<in> gr_key ` set gs then gs else gs @ [new_group n])
     in upd_where (\<lambda>g. gr_key g = group_key n) (push_item n) gs')"

definition groupNotifs :: "NotificationRow list \<Rightarrow> NotifGroup list" where
  "groupNotifs items = fold group_step items []"

subsection \<open>The feed of the bell\<close>

record NotifFeed =
  seen :: "uuid list"
  unread :: int

definition new_feed :: NotifFeed where
  "new_feed = \<lparr>seen = [], unread = 0\<rparr>"

definition setUnread :: "int \<Rightarrow> NotifFeed \<Rightarrow> NotifFeed" where
  "setUnread n f = f\<lparr>unread := max 0 n\<rparr>"

definition ingest :: "NotifyEvent \<Rightarrow> NotifFeed \<Rightarrow> bool \<times> NotifFeed" where
  "ingest e f = (case e of
      UnreadEvent n \<Rightarrow> (True, setUnread n f)
    | NotificationEv n \<Rightarrow>
        if ne_id n \<in> set (seen f) then (False, f)
        else (True, f\<lparr>seen := ne_id n # seen f, unread := unread f + 1\<rparr>))"

definition feed_clear :: "NotifFeed \<Rightarrow> NotifFeed" where
  "feed_clear f = f\<lparr>unread := 0\<rparr>"

subsection \<open>The bus and a stream\<close>

text \<open>The bus maps a key to a set object; the sets are held by reference, as the unsubscribe closures hold them.\<close>

record bus =
  bus_table :: "string \<rightharpoonup> nat"
  bus_sets :: "nat \<Rightarrow> nat list"
  bus_next :: nat

definition keyOf :: "uuid \<Rightarrow> string \<Rightarrow> string" where
  "keyOf w r = w @ [CHR 0x00] @ r"

definition subscribeNotify :: "uuid \<Rightarrow> string \<Rightarrow> nat \<Rightarrow> bus \<Rightarrow> nat \<times> bus" where
  "subscribeNotify w r fn b = (let key = keyOf w r;
       (ref, b1) = (case bus_table b key of Some x \<Rightarrow> (x, b)
          | None \<Rightarrow> (bus_next b, b\<lparr>bus_sets := (bus_sets b)(bus_next b := []), bus_next := bus_next b + 1\<rparr>))
     in (ref, b1\<lparr>bus_sets := (bus_sets b1)(ref := set_add fn (bus_sets b1 ref)), bus_table := (bus_table b1)(key \<mapsto> ref)\<rparr>))"

definition unsubscribe :: "uuid \<Rightarrow> string \<Rightarrow> nat \<Rightarrow> nat \<Rightarrow> bus \<Rightarrow> bus" where
  "unsubscribe w r fn ref b = (let b1 = b\<lparr>bus_sets := (bus_sets b)(ref := filter (\<lambda>x. x \<noteq> fn) (bus_sets b ref))\<rparr>
     in if bus_sets b1 ref = [] then b1\<lparr>bus_table := (bus_table b1)(keyOf w r := None)\<rparr> else b1)"

text \<open>The listeners an event reaches, in order; one that throws does not keep the others from it.\<close>

definition emitNotify :: "uuid \<Rightarrow> string \<Rightarrow> bus \<Rightarrow> nat list" where
  "emitNotify w r b = (case bus_table b (keyOf w r) of None \<Rightarrow> [] | Some ref \<Rightarrow> bus_sets b ref)"

datatype frame = DataFrame NotifyEvent | PingFrame

record stream =
  st_closed :: bool
  st_subscribed :: bool
  st_timer :: bool
  st_lifetime :: bool
  st_lastUnread :: int
  st_sent :: "frame list"

datatype happening =
    BusEvent NotifyEvent bool
  | Tick "nat option" bool
  | LifetimeOver
  | AbortSignal
  | CancelStream

definition stream_write :: "frame \<Rightarrow> bool \<Rightarrow> stream \<Rightarrow> stream" where
  "stream_write fr ok st = (if st_closed st then st
     else if ok then st\<lparr>st_sent := st_sent st @ [fr]\<rparr> else st\<lparr>st_closed := True\<rparr>)"

definition cleanup :: "stream \<Rightarrow> stream" where
  "cleanup st = (if st_closed st then st
     else st\<lparr>st_closed := True, st_subscribed := False, st_timer := False, st_lifetime := False\<rparr>)"

definition start_stream :: "nat option \<Rightarrow> bool \<Rightarrow> stream" where
  "start_stream n ok = (let st = \<lparr>st_closed = False, st_subscribed = True, st_timer = True, st_lifetime = True,
       st_lastUnread = -1, st_sent = []\<rparr>
     in case n of None \<Rightarrow> st | Some k \<Rightarrow> stream_write (DataFrame (UnreadEvent (int k))) ok (st\<lparr>st_lastUnread := int k\<rparr>))"

text \<open>A tick finds the membership revoked (\<^verbatim>\<open>None\<close>) or the unread count. A cleared timer does not tick.\<close>

fun stream_step :: "happening \<Rightarrow> stream \<Rightarrow> stream" where
  "stream_step (BusEvent e ok) st = (if \<not> st_subscribed st then st
     else let st1 = stream_write (DataFrame e) ok st
       in case e of UnreadEvent n \<Rightarrow> st1\<lparr>st_lastUnread := n\<rparr> | NotificationEv _ \<Rightarrow> st1)"
| "stream_step (Tick r ok) st = (if \<not> st_timer st then st
     else case r of
       None \<Rightarrow> cleanup st
     | Some n \<Rightarrow> if int n \<noteq> st_lastUnread st
         then stream_write (DataFrame (UnreadEvent (int n))) ok (st\<lparr>st_lastUnread := int n\<rparr>)
         else stream_write PingFrame ok st)"
| "stream_step LifetimeOver st = (if \<not> st_lifetime st then st else cleanup st)"
| "stream_step AbortSignal st = cleanup st"
| "stream_step CancelStream st = cleanup st"

subsection \<open>The feed counts every ping once\<close>

definition feed_run :: "NotifyEvent list \<Rightarrow> NotifFeed \<Rightarrow> NotifFeed" where
  "feed_run es f = fold (\<lambda>e g. snd (ingest e g)) es f"

definition event_ids :: "NotifyEvent list \<Rightarrow> uuid set" where
  "event_ids es = {ne_id n |n. NotificationEv n \<in> set es}"

lemma event_ids_simps [simp]:
  "event_ids [] = {}" "event_ids (UnreadEvent k # es) = event_ids es" "event_ids (NotificationEv n # es) = insert (ne_id n) (event_ids es)"
  by (auto simp: event_ids_def)

lemma finite_event_ids [simp]: "finite (event_ids es)"
  by (induction es) (metis event_ids_simps(1) finite.emptyI, metis NotifyEvent.exhaust event_ids_simps(2,3) finite_insert)

lemma feed_run_simps [simp]:
  "feed_run [] f = f" "feed_run (e # es) f = feed_run es (snd (ingest e f))" "feed_run (es @ fs) f = feed_run fs (feed_run es f)"
  by (simp_all add: feed_run_def)

lemma feed_seen: "set (seen (feed_run es f)) = set (seen f) \<union> event_ids es"
proof (induction es arbitrary: f)
  case (Cons e es)
  then show ?case by (cases e) (auto simp: ingest_def setUnread_def)
qed simp

lemma feed_pings:
  "(\<And>e. e \<in> set es \<Longrightarrow> \<exists>n. e = NotificationEv n) \<Longrightarrow> unread (feed_run es f) = unread f + int (card (event_ids es - set (seen f)))"
proof (induction es arbitrary: f)
  case (Cons e es)
  obtain n where e: "e = NotificationEv n" using Cons.prems [of e] by auto
  note IH = Cons.IH [OF Cons.prems]
  show ?case
  proof (cases "ne_id n \<in> set (seen f)")
    case True
    then show ?thesis using IH [of f] by (simp add: e ingest_def insert_Diff_if)
  next
    case False
    have "insert (ne_id n) (event_ids es) - set (seen f) = insert (ne_id n) (event_ids es - insert (ne_id n) (set (seen f)))"
      using False by auto
    then have "card (insert (ne_id n) (event_ids es) - set (seen f)) = Suc (card (event_ids es - insert (ne_id n) (set (seen f))))"
      by simp
    then show ?thesis using IH [of "f\<lparr>seen := ne_id n # seen f, unread := unread f + 1\<rparr>"] False by (simp add: e ingest_def)
  qed
qed simp

text \<open>The badge does not depend on the transport: after the latest snapshot \<open>n\<close>, however many copies of a ping arrive over the
  stream and the poll and in whatever order, the badge is \<open>n\<close> plus the number of pings not known before.\<close>

theorem feed_counts_distinct:
  assumes "\<And>e. e \<in> set later \<Longrightarrow> \<exists>n. e = NotificationEv n"
  shows "unread (feed_run (earlier @ UnreadEvent n # later) new_feed) = max 0 n + int (card (event_ids later - event_ids earlier))"
proof -
  let ?f = "setUnread n (feed_run earlier new_feed)"
  have "unread (feed_run later ?f) = unread ?f + int (card (event_ids later - set (seen ?f)))"
    by (rule feed_pings) (use assms in blast)
  then show ?thesis using feed_seen [of earlier new_feed] by (simp add: ingest_def setUnread_def new_feed_def)
qed

definition demo_ping :: "uuid \<Rightarrow> NotifyEvent" where
  "demo_ping i = NotificationEv (toNotificationEvent i ''mention'' None None None None 0)"

theorem feed_counts_distinct_witness:
  "unread (feed_run ([demo_ping ''a''] @ UnreadEvent 3 # [demo_ping ''b'', demo_ping ''a'', demo_ping ''b'']) new_feed) = 4"
proof -
  have "unread (feed_run ([demo_ping ''a''] @ UnreadEvent 3 # [demo_ping ''b'', demo_ping ''a'', demo_ping ''b'']) new_feed)
      = max 0 3 + int (card (event_ids [demo_ping ''b'', demo_ping ''a'', demo_ping ''b''] - event_ids [demo_ping ''a'']))"
    by (rule feed_counts_distinct) (auto simp: demo_ping_def)
  moreover have "event_ids [demo_ping ''b'', demo_ping ''a'', demo_ping ''b''] - event_ids [demo_ping ''a''] = {''b''}"
    by (auto simp: demo_ping_def toNotificationEvent_def)
  ultimately show ?thesis by simp
qed

subsection \<open>Streams\<close>

lemma closed_stays:
  "st_closed st \<Longrightarrow> st_closed (stream_step h st) \<and> st_sent (stream_step h st) = st_sent st
     \<and> st_subscribed (stream_step h st) = st_subscribed st \<and> st_timer (stream_step h st) = st_timer st
     \<and> st_lifetime (stream_step h st) = st_lifetime st"
  by (cases h) (auto simp: stream_write_def cleanup_def Let_def split: NotifyEvent.split option.split)

lemma closed_forever:
  "st_closed st \<Longrightarrow> st_sent (fold stream_step hs st) = st_sent st \<and> st_subscribed (fold stream_step hs st) = st_subscribed st
     \<and> st_timer (fold stream_step hs st) = st_timer st"
proof (induction hs arbitrary: st)
  case (Cons h hs)
  then show ?case using closed_stays [of st h] by simp
qed simp

text \<open>Once a tick finds the membership revoked, the stream sends nothing more, whatever happens afterwards; if no write had
  failed before, it is unsubscribed and its timer is cleared.\<close>

theorem revoked_stream_silent:
  assumes "st_timer st"
  shows "st_sent (fold stream_step hs (stream_step (Tick None ok) st)) = st_sent st
     \<and> (\<not> st_closed st \<longrightarrow> \<not> st_subscribed (fold stream_step hs (stream_step (Tick None ok) st))
            \<and> \<not> st_timer (fold stream_step hs (stream_step (Tick None ok) st)))"
  using closed_forever [of "cleanup st" hs] assms by (auto simp: cleanup_def)

theorem revoked_stream_silent_witness:
  "st_sent (fold stream_step [BusEvent (UnreadEvent 7) True, Tick (Some 7) True] (stream_step (Tick None True) (start_stream (Some 2) True)))
     = [DataFrame (UnreadEvent 2)]"
  using revoked_stream_silent [of "start_stream (Some 2) True" "[BusEvent (UnreadEvent 7) True, Tick (Some 7) True]" True]
  by (simp add: start_stream_def stream_write_def)

text \<open>A failed write leaks the stream: it marks the stream closed, so that every later clean-up returns at once; the listener
  stays on the bus and the timer keeps running, whatever happens: lifetime, abort and cancellation included.\<close>

theorem failed_write_leaks_stream:
  assumes "\<not> st_closed st" "st_subscribed st" "st_timer st"
  shows "st_subscribed (fold stream_step (hs @ [LifetimeOver, AbortSignal, CancelStream]) (stream_step (BusEvent e False) st))
     \<and> st_timer (fold stream_step (hs @ [LifetimeOver, AbortSignal, CancelStream]) (stream_step (BusEvent e False) st))"
proof -
  let ?st = "stream_step (BusEvent e False) st"
  have "st_closed ?st \<and> st_subscribed ?st \<and> st_timer ?st" using assms by (cases e) (simp_all add: stream_write_def)
  then show ?thesis using closed_forever [of ?st "hs @ [LifetimeOver, AbortSignal, CancelStream]"] by auto
qed

theorem failed_write_leaks_stream_witness:
  "st_timer (fold stream_step ([Tick None True] @ [LifetimeOver, AbortSignal, CancelStream])
     (stream_step (BusEvent (UnreadEvent 1) False) (start_stream (Some 0) True)))"
  using failed_write_leaks_stream [of "start_stream (Some 0) True" "[Tick None True]" "UnreadEvent 1"]
  by (simp add: start_stream_def stream_write_def)

subsection \<open>A mention pings its member\<close>

lemma workspace_subs_distinct:
  assumes "db_ok s"
  shows "distinct (map mb_sub (rows_where (\<lambda>r. mb_workspaceId r = w) (members s)))"
proof -
  have "key_fun mb_key (members s)" using assms by (simp add: db_ok_def keys_ok_def)
  then show ?thesis unfolding rows_where_def
    by (induction "members s" arbitrary: s) (auto simp: distinct_map inj_on_def key_fun_def mb_key_def)
qed

lemma dir_lookup:
  "distinct (map mw_sub rows) \<Longrightarrow> r \<in> set rows \<Longrightarrow>
   fold (\<lambda>m d. d(mw_sub m \<mapsto> \<lparr>de_displayName = mw_displayName m, de_role = mw_role m, de_isAgent = mw_isAgent m\<rparr>)) rows d (mw_sub r)
     = Some \<lparr>de_displayName = mw_displayName r, de_role = mw_role r, de_isAgent = mw_isAgent r\<rparr>"
proof (induction rows arbitrary: d rule: rev_induct)
  case (snoc x xs)
  then show ?case by (cases "r = x") (auto simp: image_iff)
qed simp

definition workspace_rows :: "db \<Rightarrow> uuid \<Rightarrow> member_row list" where
  "workspace_rows s w = rows_where (\<lambda>r. mb_workspaceId r = w) (members s)"

definition workspace_dir :: "db \<Rightarrow> uuid \<Rightarrow> string \<rightharpoonup> DirectoryEntry" where
  "workspace_dir s w = fold (\<lambda>m d. d(mw_sub m \<mapsto> \<lparr>de_displayName = mw_displayName m, de_role = mw_role m, de_isAgent = mw_isAgent m\<rparr>))
     (map member_view (workspace_rows s w)) Map.empty"

lemma roster_run: "roster w s = (Inr (map member_view (workspace_rows s w)), s)"
  by (simp add: roster_def act_defs workspace_rows_def)

lemma directory_run: "directory w s = (Inr (workspace_dir s w), s)"
  by (simp add: directory_def act_bind_def roster_run act_return_def workspace_dir_def)

lemma js_set_distinct: "distinct xs \<Longrightarrow> js_set xs = xs"
  by (simp add: js_set_def distinct_remdups_id)

lemma mw_sub_view [simp]: "mw_sub (member_view m) = mb_sub m" "mw_displayName (member_view m) = display m" "mw_isAgent (member_view m) = mb_isAgent m"
  by (simp_all add: member_view_def)

definition candidate_of :: "member_row \<Rightarrow> Mentionable" where
  "candidate_of m = \<lparr>mn_id = mb_sub m, mn_name = display m, mn_sub = mb_sub m, mn_kind = KMember\<rparr>"

lemma candidate_of_sel [simp]: "mn_name (candidate_of m) = display m" "mn_sub (candidate_of m) = mb_sub m" "mn_kind (candidate_of m) = KMember"
  by (simp_all add: candidate_of_def)

lemma candidates_eq:
  assumes "db_ok s"
  shows "mention_candidates (map member_view (workspace_rows s w)) (workspace_dir s w)
       = map candidate_of (filter (\<lambda>m. \<not> mb_isAgent m) (workspace_rows s w))"
proof -
  have d: "distinct (map mb_sub (workspace_rows s w))" unfolding workspace_rows_def by (rule workspace_subs_distinct [OF assms])
  have look: "workspace_dir s w (mb_sub m) = Some \<lparr>de_displayName = display m, de_role = mw_role (member_view m), de_isAgent = mb_isAgent m\<rparr>"
    if "m \<in> set (workspace_rows s w)" for m
    unfolding workspace_dir_def using dir_lookup [of "map member_view (workspace_rows s w)" "member_view m" Map.empty] d that
    by (simp add: comp_def)
  have "concat (map (\<lambda>u. if \<not> de_isAgent (the (workspace_dir s w u))
          then [\<lparr>mn_id = u, mn_name = de_displayName (the (workspace_dir s w u)), mn_sub = u, mn_kind = KMember\<rparr>] else []) (map mb_sub ms))
      = map candidate_of (filter (\<lambda>m. \<not> mb_isAgent m) ms)" if "set ms \<subseteq> set (workspace_rows s w)" for ms
    using that look by (induction ms) (auto simp: candidate_of_def)
  then show ?thesis using d by (simp add: mention_candidates_def comp_def js_set_distinct)
qed

lemma mention_row_sel [simp]:
  "nt_id (mention_row newId now a (i, r)) = newId i" "nt_workspaceId (mention_row newId now a (i, r)) = na_workspaceId a"
  "nt_recipientSub (mention_row newId now a (i, r)) = r" "nt_readAt (mention_row newId now a (i, r)) = None"
  "nt_channelId (mention_row newId now a (i, r)) = Some (na_channelId a)"
  by (simp_all add: mention_row_def)

lemma mention_rows_for:
  "distinct R \<Longrightarrow> filter (\<lambda>n. nt_workspaceId n = na_workspaceId a \<and> nt_recipientSub n = u) (map (mention_row newId now a) (enumerate k R))
     = (if u \<in> set R then [mention_row newId now a (k + length (takeWhile (\<lambda>x. x \<noteq> u) R), u)] else [])"
  by (induction R arbitrary: k) (auto simp: mention_row_def)

lemma insert_mentions:
  assumes "inj newId" "\<And>i. newId i \<notin> nt_id ` set (notifications s)" "has_workspace s (na_workspaceId a)" "has_channel s (na_channelId a)"
  shows "insert_rows insert_notification (map (mention_row newId now a) (enumerate 0 R)) s
       = (Inr (), s\<lparr>notifications := notifications s @ map (mention_row newId now a) (enumerate 0 R)\<rparr>)"
proof -
  let ?rows = "map (mention_row newId now a) (enumerate 0 R)"
  let ?st = "\<lambda>i. s\<lparr>notifications := notifications s @ take i ?rows\<rparr>"
  have "insert_rows insert_notification ?rows (?st 0) = (Inr (), ?st (length ?rows))"
  proof (rule insert_rows_run)
    fix i assume i: "i < length ?rows"
    have "nt_id (?rows ! i) \<notin> nt_id ` set (take i ?rows)"
      using i by (auto simp: in_set_conv_nth nth_enumerate_eq inj_eq [OF assms(1)])
    moreover have "nt_id (?rows ! i) \<notin> nt_id ` set (notifications s)" using assms(2) i by (simp add: nth_enumerate_eq)
    moreover have "has_workspace (?st i) (nt_workspaceId (?rows ! i)) \<and> null_or (has_channel (?st i)) (nt_channelId (?rows ! i))"
      using assms(3,4) i by (simp add: nth_enumerate_eq null_or_def has_workspace_def has_channel_def)
    ultimately show "insert_notification (?rows ! i) (?st i) = (Inr (?rows ! i), ?st (Suc i))"
      using i by (simp add: insert_notification_def tbl_insert_def image_Un take_Suc_conv_app_nth del: map_map)
  qed
  then show ?thesis by simp
qed

lemma mentions_run:
  assumes "db_ok s" "inj newId" "\<And>i. newId i \<notin> nt_id ` set (notifications s)" "has_workspace s (na_workspaceId a)"
    "has_channel s (na_channelId a)" "CHR ''@'' \<in> set (na_body a)"
    and R: "R = mention_recipients rank a (map member_view (workspace_rows s (na_workspaceId a))) (workspace_dir s (na_workspaceId a))"
  shows "\<exists>evs. notifyChannelMentions rank now newId a s
       = (Inr evs, s\<lparr>notifications := notifications s @ map (mention_row newId now a) (enumerate 0 R)\<rparr>) \<and> map fst evs = R"
proof (cases "R = []")
  case True
  then show ?thesis using assms(6) R by (simp add: notifyChannelMentions_def act_try_def act_bind_def roster_run directory_run act_return_def Let_def)
next
  case False
  have "map fst (map (\<lambda>r. (nt_recipientSub r, f r)) (map (mention_row newId now a) (enumerate k xs))) = xs" for f k xs
    by (induction xs arbitrary: k) auto
  then show ?thesis
    using False assms(6) insert_mentions [OF assms(2,3,4,5)] R
    by (auto simp: notifyChannelMentions_def act_try_def act_bind_def roster_run directory_run act_return_def act_get_def Let_def
        simp del: map_map)
qed

text \<open>A mention pings its member exactly once. When a message names a member by handle, behind a space and followed by white space
  or the end, and no other human member has that handle, the member gets exactly one new unread notification and one event, whoever
  wrote the message other than the member; and only human members of the workspace other than the author get anything.\<close>

theorem mention_pings_member:
  assumes ok: "db_ok s" and m: "m \<in> set (members s)" "\<not> mb_isAgent m" "mb_sub m \<noteq> na_actorSub a" "mb_workspaceId m = na_workspaceId a"
    and h: "toHandle (display m) \<noteq> []"
    and unique: "\<And>x. x \<in> set (members s) \<Longrightarrow> mb_workspaceId x = na_workspaceId a \<Longrightarrow> \<not> mb_isAgent x \<Longrightarrow>
        toHandle (display x) = toHandle (display m) \<Longrightarrow> x = m"
    and chan: "has_channel s (na_channelId a)" and ids: "inj newId" "\<And>i. newId i \<notin> nt_id ` set (notifications s)"
    and body: "na_body a = pre @ '' @'' @ toHandle (display m) @ rest" "rest = [] \<or> js_space (hd rest)"
    and run: "notifyChannelMentions rank now newId a s = (r, s')"
  shows "\<exists>evs n. r = Inr evs \<and> length (filter (\<lambda>e. fst e = mb_sub m) evs) = 1
     \<and> notifications_of s' (na_workspaceId a) (mb_sub m) = notifications_of s (na_workspaceId a) (mb_sub m) @ [n] \<and> nt_readAt n = None
     \<and> (\<forall>u. notifications_of s' (na_workspaceId a) u \<noteq> notifications_of s (na_workspaceId a) u \<longrightarrow>
          u \<noteq> na_actorSub a \<and> (\<exists>x\<in>set (members s). mb_workspaceId x = na_workspaceId a \<and> mb_sub x = u \<and> \<not> mb_isAgent x))"
proof -
  let ?w = "na_workspaceId a"
  let ?C = "map candidate_of (filter (\<lambda>m. \<not> mb_isAgent m) (workspace_rows s ?w))"
  let ?P = "parseMentions rank (na_body a) ?C"
  define R where "R = mention_recipients rank a (map member_view (workspace_rows s ?w)) (workspace_dir s ?w)"
  have R: "R = filter (\<lambda>u. u \<noteq> na_actorSub a) (map mn_sub (pm_members ?P))"
    unfolding R_def mention_recipients_def candidates_eq [OF ok] ..
  have mW: "m \<in> set (workspace_rows s ?w)" using m by (simp add: workspace_rows_def rows_where_def)
  have U: "d = candidate_of m" if d: "d \<in> set ?C" "toHandle (mn_name d) = toHandle (mn_name (candidate_of m))" for d
  proof -
    obtain x where "d = candidate_of x" "x \<in> set (members s)" "mb_workspaceId x = ?w" "\<not> mb_isAgent x"
      using d(1) by (auto simp: workspace_rows_def rows_where_def)
    then show ?thesis using unique [of x] d(2) by simp
  qed
  have "mn_sub (candidate_of m) \<in> mn_sub ` set (pm_all (parseMentions rank (pre @ '' @'' @ toHandle (mn_name (candidate_of m)) @ rest) ?C))
      \<and> set (pm_all ?P) \<subseteq> set ?C \<and> distinct (map mn_sub (pm_all ?P))"
    by (rule mention_resolves) (use mW m(2) h U body(2) in auto)
  then have found: "mb_sub m \<in> mn_sub ` set (pm_all ?P)" and sub: "set (pm_all ?P) \<subseteq> set ?C" and dist: "distinct (map mn_sub (pm_all ?P))"
    by (simp_all add: body(1))
  have all: "pm_members ?P = pm_all ?P"
    using sub by (auto simp: parseMentions_def Let_def intro!: filter_True)
  have dR: "distinct R" using dist by (simp add: R all distinct_map_filter [of mn_sub] filter_map distinct_map inj_on_def)
  have mR: "mb_sub m \<in> set R" using found m(3) by (simp add: R all)
  have humans: "u \<noteq> na_actorSub a \<and> (\<exists>x\<in>set (members s). mb_workspaceId x = ?w \<and> mb_sub x = u \<and> \<not> mb_isAgent x)" if u: "u \<in> set R" for u
  proof -
    obtain p where p: "p \<in> set (pm_all ?P)" "mn_sub p = u" "u \<noteq> na_actorSub a" using u unfolding R all by auto
    then obtain x where "x \<in> set (workspace_rows s ?w)" "\<not> mb_isAgent x" "mb_sub x = u" using sub by (auto simp: subset_iff)
    then show ?thesis using p(3) by (auto simp: workspace_rows_def rows_where_def)
  qed
  have ws: "has_workspace s ?w" using ok m by (auto simp: db_ok_def refs_ok_def)
  obtain evs where evs: "r = Inr evs" "s' = s\<lparr>notifications := notifications s @ map (mention_row newId now a) (enumerate 0 R)\<rparr>" "map fst evs = R"
    using mentions_run [OF ok ids ws chan _ R_def, of now] run body(1) by auto
  have new: "notifications_of s' ?w u = notifications_of s ?w u
      @ (if u \<in> set R then [mention_row newId now a (length (takeWhile (\<lambda>x. x \<noteq> u) R), u)] else [])" for u
    using mention_rows_for [OF dR, of a u newId now 0] by (simp add: evs(2) notifications_of_def rows_where_def)
  have "length (filter (\<lambda>e. fst e = mb_sub m) evs) = length (filter (\<lambda>u. u = mb_sub m) R)"
    by (simp flip: evs(3) add: filter_map comp_def)
  also have "\<dots> = 1" using dR mR by (simp add: distinct_length_filter Collect_conv_if Int_def)
  finally show ?thesis using new [of "mb_sub m"] mR evs(1) humans new by (auto split: if_splits)
qed

definition demo_mention :: MentionArgs where
  "demo_mention = \<lparr>na_workspaceId = ''w1'', na_channelId = ''c1'', na_messageId = ''m1'', na_body = ''see this @alice'', na_actorSub = ''bob''\<rparr>"

lemma inj_digits_of: "inj digits_of"
  by (metis injI undigits_digits)

theorem mention_pings_member_witness:
  "\<exists>evs s'. notifyChannelMentions (\<lambda>_. 0) 5 digits_of demo_mention demo_chat = (Inr evs, s') \<and> length (notifications_of s' ''w1'' ''alice'') = 1"
proof -
  obtain r s' where run: "notifyChannelMentions (\<lambda>_. 0) 5 digits_of demo_mention demo_chat = (r, s')" by fastforce
  have disp: "display demo_member = ''alice''" "toHandle ''alice'' = ''alice''" by code_simp+
  have "demo_member \<in> set (members demo_chat)" "has_channel demo_chat ''c1''" "\<not> mb_isAgent demo_member" "mb_sub demo_member = ''alice''"
      "mb_workspaceId demo_member = ''w1''" "notifications demo_chat = []" "members demo_chat = [demo_member]"
    by (simp_all add: demo_chat_def demo_db_def empty_db_def demo_member_def has_channel_def demo_channel_def)
  note facts = this disp
  have "\<exists>evs n. r = Inr evs \<and> length (filter (\<lambda>e. fst e = mb_sub demo_member) evs) = 1
     \<and> notifications_of s' (na_workspaceId demo_mention) (mb_sub demo_member) = notifications_of demo_chat (na_workspaceId demo_mention) (mb_sub demo_member) @ [n]
     \<and> nt_readAt n = None
     \<and> (\<forall>u. notifications_of s' (na_workspaceId demo_mention) u \<noteq> notifications_of demo_chat (na_workspaceId demo_mention) u \<longrightarrow>
          u \<noteq> na_actorSub demo_mention \<and> (\<exists>x\<in>set (members demo_chat). mb_workspaceId x = na_workspaceId demo_mention \<and> mb_sub x = u \<and> \<not> mb_isAgent x))"
    by (rule mention_pings_member [OF db_ok_demo_chat, where pre = "''see this''" and rest = "[]", OF _ _ _ _ _ _ _ inj_digits_of _ _ _ run])
      (use facts in \<open>auto simp: demo_mention_def\<close>)
  then show ?thesis using run facts by (auto simp: demo_mention_def notifications_of_def rows_where_def)
qed

end
