(* ===== verification/Work_Schema.thy ===== *)
theory Work_Schema
  imports Notifications
begin

text \<open>
  The tables of \<^verbatim>\<open>lib/db/schema.ts\<close> behind projects, the calendar and the CRM: their inserts with the primary keys,
  unique indexes and foreign keys the schema declares, and their deletes. A delete of rows that others still refer to
  raises; one declared \<^verbatim>\<open>onDelete: "cascade"\<close> removes the referring rows too. \<open>work_ok\<close> is the integrity the
  constraints maintain. The columns of \<^verbatim>\<open>calendar_events\<close> reserved for external calendars and recurrence, which no
  operation here writes, are left out.
\<close>

definition has_account :: "db \<Rightarrow> uuid \<Rightarrow> bool" where
  "has_account s i \<longleftrightarrow> i \<in> acc_id ` set (accounts s)"

definition has_project :: "db \<Rightarrow> uuid \<Rightarrow> bool" where
  "has_project s i \<longleftrightarrow> i \<in> pj_id ` set (projects s)"

definition has_task :: "db \<Rightarrow> uuid \<Rightarrow> bool" where
  "has_task s i \<longleftrightarrow> i \<in> tk_id ` set (tasks s)"

definition has_event :: "db \<Rightarrow> uuid \<Rightarrow> bool" where
  "has_event s i \<longleftrightarrow> i \<in> ev_id ` set (calendarEvents s)"

definition has_field_def :: "db \<Rightarrow> uuid \<Rightarrow> bool" where
  "has_field_def s i \<longleftrightarrow> i \<in> fd_id ` set (crmFieldDefs s)"

definition has_note :: "db \<Rightarrow> uuid \<Rightarrow> bool" where
  "has_note s i \<longleftrightarrow> i \<in> no_id ` set (crmNotes s)"

definition has_tag :: "db \<Rightarrow> uuid \<Rightarrow> bool" where
  "has_tag s i \<longleftrightarrow> i \<in> tg_id ` set (crmTags s)"

definition tr_key :: "task_raci_row \<Rightarrow> uuid \<times> string" where
  "tr_key r = (tr_taskId r, tr_sub r)"

definition at_key :: "attendee_row \<Rightarrow> uuid \<times> string" where
  "at_key r = (at_eventId r, at_sub r)"

definition fd_key3 :: "field_def_row \<Rightarrow> uuid \<times> string \<times> string" where
  "fd_key3 r = (fd_workspaceId r, fd_entity r, fd_key r)"

definition fv_key3 :: "field_value_row \<Rightarrow> uuid \<times> uuid \<times> uuid" where
  "fv_key3 r = (fv_workspaceId r, fv_recordId r, fv_fieldId r)"

definition tg_key :: "tag_row \<Rightarrow> uuid \<times> string" where
  "tg_key r = (tg_workspaceId r, tg_label r)"

definition rt_key :: "record_tag_row \<Rightarrow> string \<times> uuid \<times> uuid" where
  "rt_key r = (rt_entity r, rt_recordId r, rt_tagId r)"

subsection \<open>Inserts\<close>

definition insert_project :: "project_row \<Rightarrow> (db, project_row) act" where
  "insert_project r = tbl_insert (\<lambda>s. \<not> has_project s (pj_id r) \<and> has_workspace s (pj_workspaceId r)) projects_update r"

definition insert_task :: "task_row \<Rightarrow> (db, task_row) act" where
  "insert_task r = tbl_insert (\<lambda>s. \<not> has_task s (tk_id r) \<and> has_workspace s (tk_workspaceId r)
      \<and> null_or (has_project s) (tk_projectId r) \<and> null_or (has_channel s) (tk_linkedChannelId r)) tasks_update r"

definition insert_raci :: "task_raci_row \<Rightarrow> (db, task_raci_row) act" where
  "insert_raci r = tbl_insert (\<lambda>s. tr_key r \<notin> tr_key ` set (taskRaci s) \<and> has_task s (tr_taskId r)) taskRaci_update r"

definition insert_event :: "event_row \<Rightarrow> (db, event_row) act" where
  "insert_event r = tbl_insert (\<lambda>s. \<not> has_event s (ev_id r) \<and> has_workspace s (ev_workspaceId r)) calendarEvents_update r"

definition insert_attendee :: "attendee_row \<Rightarrow> (db, attendee_row) act" where
  "insert_attendee r = tbl_insert (\<lambda>s. at_key r \<notin> at_key ` set (eventAttendees s) \<and> has_event s (at_eventId r)) eventAttendees_update r"

definition insert_reminder :: "reminder_row \<Rightarrow> (db, reminder_row) act" where
  "insert_reminder r = tbl_insert (\<lambda>s. rm_id r \<notin> rm_id ` set (eventReminders s) \<and> has_event s (rm_eventId r)) eventReminders_update r"

definition insert_account :: "account_row \<Rightarrow> (db, account_row) act" where
  "insert_account r = tbl_insert (\<lambda>s. \<not> has_account s (acc_id r) \<and> has_workspace s (acc_workspaceId r)) accounts_update r"

definition insert_contact :: "contact_row \<Rightarrow> (db, contact_row) act" where
  "insert_contact r = tbl_insert (\<lambda>s. ct_id r \<notin> ct_id ` set (contacts s) \<and> has_workspace s (ct_workspaceId r)
      \<and> null_or (has_account s) (ct_accountId r)) contacts_update r"

definition insert_deal :: "deal_row \<Rightarrow> (db, deal_row) act" where
  "insert_deal r = tbl_insert (\<lambda>s. dl_id r \<notin> dl_id ` set (deals s) \<and> has_workspace s (dl_workspaceId r)
      \<and> null_or (has_account s) (dl_accountId r) \<and> null_or (has_channel s) (dl_linkedChannelId r)) deals_update r"

definition insert_field_def :: "field_def_row \<Rightarrow> (db, field_def_row) act" where
  "insert_field_def r = tbl_insert (\<lambda>s. \<not> has_field_def s (fd_id r) \<and> fd_key3 r \<notin> fd_key3 ` set (crmFieldDefs s)
      \<and> has_workspace s (fd_workspaceId r)) crmFieldDefs_update r"

definition insert_field_value :: "field_value_row \<Rightarrow> (db, field_value_row) act" where
  "insert_field_value r = tbl_insert (\<lambda>s. fv_id r \<notin> fv_id ` set (crmFieldValues s) \<and> fv_key3 r \<notin> fv_key3 ` set (crmFieldValues s)
      \<and> has_workspace s (fv_workspaceId r) \<and> has_field_def s (fv_fieldId r)) crmFieldValues_update r"

definition insert_note :: "note_row \<Rightarrow> (db, note_row) act" where
  "insert_note r = tbl_insert (\<lambda>s. \<not> has_note s (no_id r) \<and> has_workspace s (no_workspaceId r) \<and> null_or (has_persona s) (no_personaId r)) crmNotes_update r"

definition insert_comment :: "note_comment_row \<Rightarrow> (db, note_comment_row) act" where
  "insert_comment r = tbl_insert (\<lambda>s. co_id r \<notin> co_id ` set (crmNoteComments s) \<and> has_workspace s (co_workspaceId r)
      \<and> has_note s (co_noteId r)) crmNoteComments_update r"

definition insert_activity :: "activity_row \<Rightarrow> (db, activity_row) act" where
  "insert_activity r = tbl_insert (\<lambda>s. ac_id r \<notin> ac_id ` set (crmActivity s) \<and> has_workspace s (ac_workspaceId r)) crmActivity_update r"

definition insert_tag :: "tag_row \<Rightarrow> (db, tag_row) act" where
  "insert_tag r = tbl_insert (\<lambda>s. \<not> has_tag s (tg_id r) \<and> tg_key r \<notin> tg_key ` set (crmTags s)
      \<and> has_workspace s (tg_workspaceId r)) crmTags_update r"

definition insert_record_tag :: "record_tag_row \<Rightarrow> (db, record_tag_row) act" where
  "insert_record_tag r = tbl_insert (\<lambda>s. rt_key r \<notin> rt_key ` set (crmRecordTags s) \<and> has_tag s (rt_tagId r)) crmRecordTags_update r"

lemmas work_insert_defs = insert_project_def insert_task_def insert_raci_def insert_event_def insert_attendee_def insert_reminder_def
  insert_account_def insert_contact_def insert_deal_def insert_field_def_def insert_field_value_def insert_note_def insert_comment_def
  insert_activity_def insert_tag_def insert_record_tag_def

lemmas work_has_defs = has_account_def has_project_def has_task_def has_event_def has_field_def_def has_note_def has_tag_def

text \<open>Rows with fresh, distinct keys and satisfied references are all inserted. The record laws of the table are premises, so that
  the lemma serves every table.\<close>

lemma insert_rows_fresh:
  fixes upd :: "('r list \<Rightarrow> 'r list) \<Rightarrow> 's \<Rightarrow> 's"
  assumes ins: "\<And>r. ins r = tbl_insert (\<lambda>s. k r \<notin> k ` set (tbl s) \<and> ok r s) upd r"
    and laws: "\<And>f x. tbl (upd f x) = f (tbl x)" "\<And>f g x. upd f (upd g x) = upd (\<lambda>t. f (g t)) x" "\<And>x. upd (\<lambda>t. t) x = x"
    and keys: "distinct (map k rs)" "\<And>r. r \<in> set rs \<Longrightarrow> k r \<notin> k ` set (tbl s)"
    and ok: "\<And>r f. r \<in> set rs \<Longrightarrow> ok r (upd f s)"
  shows "insert_rows ins rs s = (Inr (), upd (\<lambda>t. t @ rs) s)"
proof -
  let ?st = "\<lambda>i. upd (\<lambda>t. t @ take i rs) s"
  have "insert_rows ins rs (?st 0) = (Inr (), ?st (length rs))"
  proof (rule insert_rows_run)
    fix i assume i: "i < length rs"
    have "k (rs ! i) \<notin> k ` set (take i rs)"
      using keys(1) i by (auto simp: distinct_conv_nth in_set_conv_nth)
    then have "k (rs ! i) \<notin> k ` set (tbl (?st i))" using keys(2) i by (simp add: laws image_Un)
    moreover have "ok (rs ! i) (?st i)" using ok i by simp
    ultimately show "ins (rs ! i) (?st i) = (Inr (rs ! i), ?st (Suc i))"
      using i by (simp add: ins tbl_insert_def laws take_Suc_conv_app_nth)
  qed
  then show ?thesis using laws(3) by simp
qed

subsection \<open>Deletes\<close>

text \<open>\<open>restrict ref upd P\<close> deletes the rows with \<open>P\<close> unless one of them is referred to.\<close>

definition restrict_delete ::
    "('s \<Rightarrow> 'r list) \<Rightarrow> ('s \<Rightarrow> 'r \<Rightarrow> bool) \<Rightarrow> (('r list \<Rightarrow> 'r list) \<Rightarrow> 's \<Rightarrow> 's) \<Rightarrow> ('r \<Rightarrow> bool) \<Rightarrow> ('s, unit) act" where
  "restrict_delete tbl ref upd P s = (if \<exists>r\<in>set (tbl s). P r \<and> ref s r then (Inl (DbError ''foreign key violation''), s)
     else tbl_delete upd P s)"

definition task_delete :: "(task_row \<Rightarrow> bool) \<Rightarrow> (db, unit) act" where
  "task_delete P s = (let gone = tk_id ` {t \<in> set (tasks s). P t} in
     (Inr (), s\<lparr>tasks := filter (\<lambda>t. \<not> P t) (tasks s), taskRaci := filter (\<lambda>r. tr_taskId r \<notin> gone) (taskRaci s)\<rparr>))"

definition project_delete :: "(project_row \<Rightarrow> bool) \<Rightarrow> (db, unit) act" where
  "project_delete = restrict_delete projects (\<lambda>s p. (\<exists>t\<in>set (tasks s). tk_projectId t = Some (pj_id p))
      \<or> (\<exists>b\<in>set (boards s). bd_projectId b = Some (pj_id p))) projects_update"

definition board_delete :: "(board_row \<Rightarrow> bool) \<Rightarrow> (db, unit) act" where
  "board_delete = restrict_delete boards (\<lambda>s b. \<exists>c\<in>set (boardColumns s). bc_boardId c = bd_id b) boards_update"

definition account_delete :: "(account_row \<Rightarrow> bool) \<Rightarrow> (db, unit) act" where
  "account_delete = restrict_delete accounts (\<lambda>s a. (\<exists>c\<in>set (contacts s). ct_accountId c = Some (acc_id a))
      \<or> (\<exists>d\<in>set (deals s). dl_accountId d = Some (acc_id a)) \<or> (\<exists>t\<in>set (agentThreads s). th_accountId t = Some (acc_id a))
      \<or> (\<exists>d\<in>set (documents s). dc_accountId d = Some (acc_id a))) accounts_update"

definition deal_delete :: "(deal_row \<Rightarrow> bool) \<Rightarrow> (db, unit) act" where
  "deal_delete = restrict_delete deals (\<lambda>s d. (\<exists>t\<in>set (agentThreads s). th_dealId t = Some (dl_id d))
      \<or> (\<exists>x\<in>set (documents s). dc_dealId x = Some (dl_id d))) deals_update"

definition note_delete :: "(note_row \<Rightarrow> bool) \<Rightarrow> (db, unit) act" where
  "note_delete = restrict_delete crmNotes (\<lambda>s n. \<exists>c\<in>set (crmNoteComments s). co_noteId c = no_id n) crmNotes_update"

definition field_def_delete :: "(field_def_row \<Rightarrow> bool) \<Rightarrow> (db, unit) act" where
  "field_def_delete = restrict_delete crmFieldDefs (\<lambda>s d. \<exists>v\<in>set (crmFieldValues s). fv_fieldId v = fd_id d) crmFieldDefs_update"

lemmas work_delete_defs = task_delete_def project_delete_def board_delete_def account_delete_def deal_delete_def note_delete_def
  field_def_delete_def restrict_delete_def tbl_delete_def

subsection \<open>Integrity\<close>

definition work_keys_ok :: "db \<Rightarrow> bool" where
  "work_keys_ok s \<longleftrightarrow> key_fun pj_id (projects s) \<and> key_fun tk_id (tasks s) \<and> key_fun tr_key (taskRaci s)
     \<and> key_fun ev_id (calendarEvents s) \<and> key_fun at_key (eventAttendees s) \<and> key_fun rm_id (eventReminders s)
     \<and> key_fun acc_id (accounts s) \<and> key_fun ct_id (contacts s) \<and> key_fun dl_id (deals s)
     \<and> key_fun fd_id (crmFieldDefs s) \<and> key_fun fd_key3 (crmFieldDefs s) \<and> key_fun fv_key3 (crmFieldValues s)
     \<and> key_fun no_id (crmNotes s) \<and> key_fun tg_id (crmTags s) \<and> key_fun tg_key (crmTags s) \<and> key_fun rt_key (crmRecordTags s)"

definition work_refs_ok :: "db \<Rightarrow> bool" where
  "work_refs_ok s \<longleftrightarrow>
     (\<forall>r\<in>set (tasks s). \<forall>i. tk_projectId r = Some i \<longrightarrow> has_project s i)
     \<and> (\<forall>r\<in>set (taskRaci s). has_task s (tr_taskId r))
     \<and> (\<forall>r\<in>set (eventAttendees s). has_event s (at_eventId r))
     \<and> (\<forall>r\<in>set (eventReminders s). has_event s (rm_eventId r))
     \<and> (\<forall>r\<in>set (contacts s). \<forall>i. ct_accountId r = Some i \<longrightarrow> has_account s i)
     \<and> (\<forall>r\<in>set (deals s). \<forall>i. dl_accountId r = Some i \<longrightarrow> has_account s i)
     \<and> (\<forall>r\<in>set (crmFieldValues s). has_field_def s (fv_fieldId r))
     \<and> (\<forall>r\<in>set (crmNoteComments s). has_note s (co_noteId r))
     \<and> (\<forall>r\<in>set (crmRecordTags s). has_tag s (rt_tagId r))"

definition work_ok :: "db \<Rightarrow> bool" where
  "work_ok s \<longleftrightarrow> work_keys_ok s \<and> work_refs_ok s"

lemmas work_ok_defs = work_ok_def work_keys_ok_def work_refs_ok_def work_has_defs

lemma work_ok_empty: "work_ok empty_db"
  by (simp add: work_ok_defs empty_db_def)

lemma null_or_iff: "null_or P x \<longleftrightarrow> (\<forall>y. x = Some y \<longrightarrow> P y)"
  by (auto simp: null_or_def split: option.splits)

lemma work_ok_insert_project [inv_intros]: "preserves work_ok (insert_project r)"
  unfolding insert_project_def
  by (rule preserves_tbl_insert) (auto simp: work_ok_defs key_not_in)

lemma work_ok_insert_task [inv_intros]: "preserves work_ok (insert_task r)"
  unfolding insert_task_def
  by (rule preserves_tbl_insert) (auto simp: work_ok_defs key_not_in null_or_iff)

lemma work_ok_insert_raci [inv_intros]: "preserves work_ok (insert_raci r)"
  unfolding insert_raci_def
  by (rule preserves_tbl_insert) (simp add: work_ok_defs key_not_in)

lemma work_ok_insert_event [inv_intros]: "preserves work_ok (insert_event r)"
  unfolding insert_event_def
  by (rule preserves_tbl_insert) (auto simp: work_ok_defs key_not_in)

lemma work_ok_insert_attendee [inv_intros]: "preserves work_ok (insert_attendee r)"
  unfolding insert_attendee_def
  by (rule preserves_tbl_insert) (simp add: work_ok_defs key_not_in)

lemma work_ok_insert_reminder [inv_intros]: "preserves work_ok (insert_reminder r)"
  unfolding insert_reminder_def
  by (rule preserves_tbl_insert) (simp add: work_ok_defs key_not_in)

lemma work_ok_insert_account [inv_intros]: "preserves work_ok (insert_account r)"
  unfolding insert_account_def
  by (rule preserves_tbl_insert) (auto simp: work_ok_defs key_not_in)

lemma work_ok_insert_contact [inv_intros]: "preserves work_ok (insert_contact r)"
  unfolding insert_contact_def
  by (rule preserves_tbl_insert) (auto simp: work_ok_defs key_not_in null_or_iff)

lemma work_ok_insert_deal [inv_intros]: "preserves work_ok (insert_deal r)"
  unfolding insert_deal_def
  by (rule preserves_tbl_insert) (auto simp: work_ok_defs key_not_in null_or_iff)

lemma work_ok_insert_field_def [inv_intros]: "preserves work_ok (insert_field_def r)"
  unfolding insert_field_def_def
  by (rule preserves_tbl_insert) (auto simp: work_ok_defs key_not_in)

lemma work_ok_insert_field_value [inv_intros]: "preserves work_ok (insert_field_value r)"
  unfolding insert_field_value_def
  by (rule preserves_tbl_insert) (simp add: work_ok_defs key_not_in)

lemma work_ok_insert_note [inv_intros]: "preserves work_ok (insert_note r)"
  unfolding insert_note_def
  by (rule preserves_tbl_insert) (auto simp: work_ok_defs key_not_in)

lemma work_ok_insert_comment [inv_intros]: "preserves work_ok (insert_comment r)"
  unfolding insert_comment_def
  by (rule preserves_tbl_insert) (simp add: work_ok_defs key_not_in)

lemma work_ok_insert_activity [inv_intros]: "preserves work_ok (insert_activity r)"
  unfolding insert_activity_def
  by (rule preserves_tbl_insert) (simp add: work_ok_defs)

lemma work_ok_insert_tag [inv_intros]: "preserves work_ok (insert_tag r)"
  unfolding insert_tag_def
  by (rule preserves_tbl_insert) (auto simp: work_ok_defs key_not_in)

lemma work_ok_insert_record_tag [inv_intros]: "preserves work_ok (insert_record_tag r)"
  unfolding insert_record_tag_def
  by (rule preserves_tbl_insert) (simp add: work_ok_defs key_not_in)

end
