(* ===== verification/Calendar.thy ===== *)
theory Calendar
  imports Work_Schema
begin

text \<open>
  \<^verbatim>\<open>lib/domain/calendar.ts\<close>: events, attendees, reminders, the mirrored deadlines of tasks, and the pinned digest.
  A date is its milliseconds; \<^verbatim>\<open>None\<close> in the input of \<^verbatim>\<open>createEvent\<close> is a date that does not parse, in a patch a
  field that is absent (the dates of a patch parse). Formatting is total: time-zone names are ones the platform knows. What an operation sends out,
  notification events and mails, is returned in order. Initialisation vectors and the ids of new rows are arguments
  (\<open>fresh\<close>); the platform's date formatting and the configured origin are fields of \<open>cal_env\<close>. The caches inside
  \<^verbatim>\<open>runDueReminders\<close>, over rows its loop does not change, are reads here.
\<close>

record fresh =
  fr_event :: uuid
  fr_reminder :: "nat \<Rightarrow> uuid"
  fr_reminder2 :: "nat \<Rightarrow> uuid"
  fr_notif :: "nat \<Rightarrow> uuid"
  fr_iv :: "nat \<Rightarrow> string"

record cal_env =
  cal_crypto :: crypto_env
  cal_appOrigin :: "string option"
  cal_fmtDay :: "ms \<Rightarrow> string \<Rightarrow> string"
  cal_fmtTime :: "ms \<Rightarrow> string \<Rightarrow> string"
  cal_fmtTimeZone :: "ms \<Rightarrow> string \<Rightarrow> string"

definition middot :: string where
  "middot = [CHR 0xC2, CHR 0xB7]"

definition en_dash :: string where
  "en_dash = [CHR 0xE2, CHR 0x80, CHR 0x93]"

definition em_dash :: string where
  "em_dash = [CHR 0xE2, CHR 0x80, CHR 0x94]"

definition DEFAULT_REMINDER_OFFSETS_MIN :: "int list" where
  "DEFAULT_REMINDER_OFFSETS_MIN = [1440, 60]"

definition fmtWhenRange :: "cal_env \<Rightarrow> ms \<Rightarrow> ms \<Rightarrow> string \<Rightarrow> bool \<Rightarrow> string" where
  "fmtWhenRange C st en tz allDay = (let day = cal_fmtDay C st tz in
     if allDay then day @ '' '' @ middot @ '' All day''
     else day @ '' '' @ middot @ '' '' @ cal_fmtTime C st tz @ en_dash @ cal_fmtTimeZone C en tz)"

record mail =
  ml_to :: string
  ml_kind :: string
  ml_title :: string
  ml_when :: string
  ml_organizer :: string
  ml_workspace :: string
  ml_location :: "string option"
  ml_notes :: "string option"
  ml_raci :: "string option"
  ml_link :: string

datatype outgoing = Emit string NotificationEvent | Mail mail

record BookingEvent =
  be_id :: uuid
  be_title :: string
  be_startsAt :: ms
  be_endsAt :: ms
  be_timezone :: string
  be_allDay :: bool
  be_location :: "string option"
  be_description :: "string option"
  be_kind :: string
  be_channelId :: "uuid option"

definition app_origin :: "cal_env \<Rightarrow> string" where
  "app_origin C = (let o1 = (case cal_appOrigin C of Some x \<Rightarrow> if x = [] then ''https://communications.citrate.ai'' else x
        | None \<Rightarrow> ''https://communications.citrate.ai'')
     in if ends_with ''/'' o1 then butlast o1 else o1)"

definition calendar_link :: "cal_env \<Rightarrow> workspace_row option \<Rightarrow> string" where
  "calendar_link C ws = (case ws of
      Some x \<Rightarrow> if ws_slug x = [] then app_origin C else app_origin C @ ''/w/'' @ ws_slug x @ ''/calendar''
    | None \<Rightarrow> app_origin C)"

definition or_text :: "string option \<Rightarrow> string \<Rightarrow> string" where
  "or_text x d = (case x of Some t \<Rightarrow> if t = [] then d else t | None \<Rightarrow> d)"

definition or_utc :: "string \<Rightarrow> string" where
  "or_utc tz = (if tz = [] then ''UTC'' else tz)"

definition booking_row :: "(nat \<Rightarrow> uuid) \<Rightarrow> ms \<Rightarrow> uuid \<Rightarrow> string \<Rightarrow> string \<Rightarrow> uuid option \<Rightarrow> nat \<times> string \<Rightarrow> notification_row" where
  "booking_row nid now w kind actor channel = (\<lambda>(i, u). \<lparr>nt_id = nid i, nt_workspaceId = w, nt_recipientSub = u, nt_kind = kind,
     nt_actorSub = Some actor, nt_channelId = channel, nt_messageId = None, nt_taskId = None, nt_readAt = None, nt_createdAt = now\<rparr>)"

definition booking_mail :: "cal_env \<Rightarrow> db \<Rightarrow> uuid \<Rightarrow> BookingEvent \<Rightarrow> string \<Rightarrow> string \<Rightarrow> string \<times> string option \<Rightarrow> outgoing list" where
  "booking_mail C s w ev organizerName emailKind = (\<lambda>(u, raci). case member_at s w u of
      None \<Rightarrow> []
    | Some m \<Rightarrow> if or_text (mb_email m) [] = [] then [] else
        [Mail \<lparr>ml_to = or_text (mb_email m) [], ml_kind = emailKind, ml_title = be_title ev,
           ml_when = fmtWhenRange C (be_startsAt ev) (be_endsAt ev) (or_text (mb_timezone m) (or_utc (be_timezone ev))) (be_allDay ev),
           ml_organizer = organizerName,
           ml_workspace = (case first_where (\<lambda>x. ws_id x = w) (workspaces s) of Some x \<Rightarrow> ws_name x | None \<Rightarrow> ''your workspace''),
           ml_location = be_location ev, ml_notes = be_description ev, ml_raci = raci,
           ml_link = calendar_link C (first_where (\<lambda>x. ws_id x = w) (workspaces s))\<rparr>])"

datatype booking = Invite | Update | Cancel

definition notifyBooking ::
    "cal_env \<Rightarrow> ms \<Rightarrow> (nat \<Rightarrow> uuid) \<Rightarrow> uuid \<Rightarrow> BookingEvent \<Rightarrow> (string \<times> string option) list \<Rightarrow> string \<Rightarrow> booking
      \<Rightarrow> (db, outgoing list) act" where
  "notifyBooking C now nid w ev attendees organizerSub kind = act_try
     (let recips = filter (\<lambda>a. fst a \<noteq> [] \<and> fst a \<noteq> organizerSub) attendees in
      if recips = [] then act_return []
      else act_bind (act_get (\<lambda>s. case member_at s w organizerSub of Some m \<Rightarrow> or_text (mb_displayName m) ''A teammate'' | None \<Rightarrow> ''A teammate''))
        (\<lambda>organizerName.
      let notifKind = (case kind of Cancel \<Rightarrow> ''calendar_cancel'' | Update \<Rightarrow> ''calendar_update'' | Invite \<Rightarrow> ''calendar_invite'');
          rows = map (booking_row nid now w notifKind organizerSub (be_channelId ev)) (enumerate 0 (map fst recips));
          emailKind = (case kind of Cancel \<Rightarrow> ''cancel'' | Update \<Rightarrow> ''update''
            | Invite \<Rightarrow> if be_kind ev = ''deadline'' then ''deadline'' else ''invite'')
      in act_bind (insert_rows insert_notification rows) (\<lambda>_.
         act_get (\<lambda>s. map (\<lambda>n. Emit (nt_recipientSub n) (toNotificationEvent (nt_id n) notifKind (Some organizerName) (be_channelId ev)
                 None None (nt_createdAt n))) rows
             @ concat (map (booking_mail C s w ev organizerName emailKind) recips)))))
     (\<lambda>_. act_return [])"

definition dec :: "crypto_env \<Rightarrow> uuid \<Rightarrow> string option \<Rightarrow> string option" where
  "dec E w v = (case v of None \<Rightarrow> None | Some x \<Rightarrow> (case decryptField E w x of Inr m \<Rightarrow> Some m | Inl _ \<Rightarrow> None))"

subsection \<open>Creating and reminding\<close>

record CreateEventInput =
  ce_workspaceId :: uuid
  ce_createdBySub :: string
  ce_kind :: "string option"
  ce_title :: string
  ce_description :: "string option"
  ce_location :: "string option"
  ce_startsAt :: "ms option"
  ce_endsAt :: "ms option"
  ce_allDay :: "bool option"
  ce_timezone :: string
  ce_channelId :: "uuid option"
  ce_projectId :: "uuid option"
  ce_taskId :: "uuid option"
  ce_dealId :: "uuid option"
  ce_attendees :: "(string \<times> string option) list"
  ce_reminderOffsetsMin :: "int list option"

text \<open>\<^verbatim>\<open>Map.prototype.set\<close>: a known key keeps its place.\<close>

fun map_put :: "'k \<Rightarrow> 'v \<Rightarrow> ('k \<times> 'v) list \<Rightarrow> ('k \<times> 'v) list" where
  "map_put k v [] = [(k, v)]"
| "map_put k v ((a, b) # m) = (if a = k then (k, v) # m else (a, b) # map_put k v m)"

definition attendee_map :: "(string \<times> string option) list \<Rightarrow> (string \<times> string option) list \<Rightarrow> (string \<times> string option) list" where
  "attendee_map start as = fold (\<lambda>(u, r) m. if u = [] then m else map_put u r m) as start"

definition attendee_row_of :: "uuid \<Rightarrow> uuid \<Rightarrow> ms \<Rightarrow> string option \<Rightarrow> string \<times> string option \<Rightarrow> attendee_row" where
  "attendee_row_of w e now organizer = (\<lambda>(u, r). \<lparr>at_workspaceId = w, at_eventId = e, at_sub = u, at_raciRole = r,
     at_response = (if Some u = organizer then ''accepted'' else ''needsAction''), at_notifiedAt = None, at_createdAt = now\<rparr>)"

definition reminder_times :: "ms \<Rightarrow> ms \<Rightarrow> string list \<Rightarrow> int list \<Rightarrow> (string \<times> ms) list" where
  "reminder_times now startsAt subs offs = [(u, startsAt - off * 60000). u \<leftarrow> subs, off \<leftarrow> offs, startsAt - off * 60000 > now]"

definition reminder_row_of :: "(nat \<Rightarrow> uuid) \<Rightarrow> uuid \<Rightarrow> uuid \<Rightarrow> nat \<times> string \<times> ms \<Rightarrow> reminder_row" where
  "reminder_row_of rid w e = (\<lambda>(i, u, t). \<lparr>rm_id = rid i, rm_workspaceId = w, rm_eventId = e, rm_sub = u, rm_remindAt = t,
     rm_channel = ''both'', rm_sentAt = None\<rparr>)"

definition scheduleReminders :: "ms \<Rightarrow> (nat \<Rightarrow> uuid) \<Rightarrow> uuid \<Rightarrow> uuid \<Rightarrow> ms \<Rightarrow> string list \<Rightarrow> int list option \<Rightarrow> (db, unit) act" where
  "scheduleReminders now rid w e startsAt subs offsetsMin =
     (let offs = (case offsetsMin of Some xs \<Rightarrow> xs | None \<Rightarrow> DEFAULT_REMINDER_OFFSETS_MIN) in
      act_bind (tbl_delete eventReminders_update (\<lambda>r. rm_eventId r = e \<and> rm_workspaceId r = w)) (\<lambda>_.
      let rows = map (reminder_row_of rid w e) (enumerate 0 (reminder_times now startsAt subs offs)) in
      if rows = [] then act_return () else insert_rows insert_reminder rows))"

definition opt_encrypt :: "crypto_env \<Rightarrow> string \<Rightarrow> uuid \<Rightarrow> string option \<Rightarrow> err + string option" where
  "opt_encrypt E iv w x = (case x of None \<Rightarrow> Inr None | Some t \<Rightarrow> if t = [] then Inr None
     else (case encryptField E iv w t of Inl e \<Rightarrow> Inl e | Inr c \<Rightarrow> Inr (Some c)))"

definition or_default :: "'a option \<Rightarrow> 'a \<Rightarrow> 'a" where
  "or_default x d = (case x of Some y \<Rightarrow> y | None \<Rightarrow> d)"

definition createEvent :: "cal_env \<Rightarrow> ms \<Rightarrow> fresh \<Rightarrow> CreateEventInput \<Rightarrow> (db, uuid \<times> outgoing list) act" where
  "createEvent C now fr i = (case (ce_startsAt i, ce_endsAt i) of
      (Some st, Some en) \<Rightarrow>
       if en < st then act_throw (JsError ''end before start'')
       else let E = cal_crypto C; w = ce_workspaceId i; tz = (or_utc (ce_timezone i)) in
        act_bind (act_lift (encryptField E (fr_iv fr 0) w (ce_title i))) (\<lambda>titleEnc.
        act_bind (act_lift (opt_encrypt E (fr_iv fr 1) w (ce_description i))) (\<lambda>descEnc.
        act_bind (act_lift (opt_encrypt E (fr_iv fr 2) w (ce_location i))) (\<lambda>locEnc.
        act_bind (insert_event \<lparr>ev_id = fr_event fr, ev_workspaceId = w, ev_kind = or_default (ce_kind i) ''meeting'', ev_titleEnc = titleEnc,
            ev_descriptionEnc = descEnc, ev_locationEnc = locEnc, ev_startsAt = st, ev_endsAt = en, ev_allDay = or_default (ce_allDay i) False,
            ev_timezone = tz, ev_status = ''confirmed'', ev_channelId = ce_channelId i, ev_projectId = ce_projectId i, ev_taskId = ce_taskId i,
            ev_dealId = ce_dealId i, ev_createdBySub = ce_createdBySub i, ev_createdAt = now, ev_updatedAt = now\<rparr>) (\<lambda>row.
        let byName = attendee_map [(ce_createdBySub i, Some ''R'')] (ce_attendees i);
            rows = map (attendee_row_of w (ev_id row) now (Some (ce_createdBySub i))) byName in
        act_bind (if rows = [] then act_return () else insert_rows insert_attendee rows) (\<lambda>_.
        act_bind (scheduleReminders now (fr_reminder fr) w (ev_id row) st (map at_sub rows) (ce_reminderOffsetsMin i)) (\<lambda>_.
        act_bind (notifyBooking C now (fr_notif fr) w
           \<lparr>be_id = ev_id row, be_title = ce_title i, be_startsAt = st, be_endsAt = en, be_timezone = tz, be_allDay = or_default (ce_allDay i) False,
            be_location = ce_location i, be_description = ce_description i, be_kind = or_default (ce_kind i) ''meeting'', be_channelId = ce_channelId i\<rparr>
           (map (\<lambda>r. (at_sub r, at_raciRole r)) rows) (ce_createdBySub i) Invite) (\<lambda>out.
        act_return (ev_id row, out))))))))
    | _ \<Rightarrow> act_throw (JsError ''invalid start/end''))"

subsection \<open>Reading\<close>

record EventAttendee =
  ea2_sub :: string
  ea2_raciRole :: "string option"
  ea2_response :: string

record CalendarEvent =
  ve_id :: uuid
  ve_kind :: string
  ve_title :: string
  ve_description :: "string option"
  ve_location :: "string option"
  ve_startsAt :: ms
  ve_endsAt :: ms
  ve_allDay :: bool
  ve_timezone :: string
  ve_status :: string
  ve_channelId :: "uuid option"
  ve_projectId :: "uuid option"
  ve_taskId :: "uuid option"
  ve_dealId :: "uuid option"
  ve_createdBySub :: string
  ve_attendees :: "EventAttendee list"

definition event_attendees :: "db \<Rightarrow> uuid \<Rightarrow> uuid \<Rightarrow> attendee_row list" where
  "event_attendees s w e = rows_where (\<lambda>a. at_workspaceId a = w \<and> at_eventId a = e) (eventAttendees s)"

definition hydrate1 :: "crypto_env \<Rightarrow> db \<Rightarrow> uuid \<Rightarrow> event_row \<Rightarrow> CalendarEvent" where
  "hydrate1 E s w r = \<lparr>ve_id = ev_id r, ve_kind = ev_kind r, ve_title = or_default (dec E w (Some (ev_titleEnc r))) ''(untitled)'',
     ve_description = dec E w (ev_descriptionEnc r), ve_location = dec E w (ev_locationEnc r), ve_startsAt = ev_startsAt r,
     ve_endsAt = ev_endsAt r, ve_allDay = ev_allDay r, ve_timezone = ev_timezone r, ve_status = ev_status r, ve_channelId = ev_channelId r,
     ve_projectId = ev_projectId r, ve_taskId = ev_taskId r, ve_dealId = ev_dealId r, ve_createdBySub = ev_createdBySub r,
     ve_attendees = map (\<lambda>a. \<lparr>ea2_sub = at_sub a, ea2_raciRole = at_raciRole a, ea2_response = at_response a\<rparr>) (event_attendees s w (ev_id r))\<rparr>"

definition hydrate :: "crypto_env \<Rightarrow> uuid \<Rightarrow> event_row list \<Rightarrow> (db, CalendarEvent list) act" where
  "hydrate E w rows = act_get (\<lambda>s. map (hydrate1 E s w) rows)"

definition in_range :: "uuid \<Rightarrow> ms \<Rightarrow> ms \<Rightarrow> event_row \<Rightarrow> bool" where
  "in_range w from_ms to_ms r \<longleftrightarrow> ev_workspaceId r = w \<and> ev_status r \<noteq> ''cancelled'' \<and> ev_startsAt r \<le> to_ms \<and> ev_endsAt r \<ge> from_ms"

definition listEventsInRange :: "crypto_env \<Rightarrow> uuid \<Rightarrow> string \<Rightarrow> ms \<Rightarrow> ms \<Rightarrow> (db, CalendarEvent list) act" where
  "listEventsInRange E w u from_ms to_ms = act_bind (act_get (\<lambda>s. sort_key ev_startsAt (rows_where
      (\<lambda>r. in_range w from_ms to_ms r \<and> ((\<exists>a\<in>set (eventAttendees s). at_eventId a = ev_id r \<and> at_sub a = u) \<or> ev_createdBySub r = u))
      (calendarEvents s)))) (\<lambda>rows. hydrate E w rows)"

definition listWorkspaceEventsInRange :: "crypto_env \<Rightarrow> uuid \<Rightarrow> ms \<Rightarrow> ms \<Rightarrow> (db, CalendarEvent list) act" where
  "listWorkspaceEventsInRange E w from_ms to_ms = act_bind (act_get (\<lambda>s. sort_key ev_startsAt (rows_where (in_range w from_ms to_ms)
      (calendarEvents s)))) (\<lambda>rows. hydrate E w rows)"

definition canSeeEvent :: "CalendarEvent \<Rightarrow> string \<Rightarrow> Role \<Rightarrow> bool" where
  "canSeeEvent ev u role \<longleftrightarrow> isAdminRole role \<or> ve_createdBySub ev = u \<or> (\<exists>a\<in>set (ve_attendees ev). ea2_sub a = u)"

definition everyReaderParticipates :: "CalendarEvent \<Rightarrow> string list \<Rightarrow> bool" where
  "everyReaderParticipates ev readers = (if readers = [] then False
     else let participants = insert (ve_createdBySub ev) (ea2_sub ` set (ve_attendees ev)) in \<forall>r\<in>set readers. r \<in> participants)"

definition canEditEvent :: "CalendarEvent \<Rightarrow> string \<Rightarrow> Role \<Rightarrow> bool" where
  "canEditEvent ev u role \<longleftrightarrow> isAdminRole role \<or> ve_createdBySub ev = u"

definition event_at :: "db \<Rightarrow> uuid \<Rightarrow> uuid \<Rightarrow> event_row option" where
  "event_at s w e = first_where (\<lambda>r. ev_workspaceId r = w \<and> ev_id r = e) (calendarEvents s)"

definition getEvent :: "crypto_env \<Rightarrow> uuid \<Rightarrow> uuid \<Rightarrow> (db, CalendarEvent option) act" where
  "getEvent E w e = act_get (\<lambda>s. map_option (hydrate1 E s w) (event_at s w e))"

subsection \<open>Changing and cancelling\<close>

record UpdateEventPatch =
  up_title :: "string option"
  up_description :: "string option option"
  up_location :: "string option option"
  up_startsAt :: "ms option"
  up_endsAt :: "ms option"
  up_allDay :: "bool option"
  up_timezone :: "string option"
  up_status :: "string option"

definition patch_enc :: "crypto_env \<Rightarrow> string \<Rightarrow> uuid \<Rightarrow> string option \<Rightarrow> err + string option" where
  "patch_enc E iv w x = (case x of None \<Rightarrow> Inr None | Some t \<Rightarrow> (case encryptField E iv w t of Inl e \<Rightarrow> Inl e | Inr c \<Rightarrow> Inr (Some c)))"

definition patch_opt_enc :: "crypto_env \<Rightarrow> string \<Rightarrow> uuid \<Rightarrow> string option option \<Rightarrow> err + string option option" where
  "patch_opt_enc E iv w x = (case x of None \<Rightarrow> Inr None | Some t \<Rightarrow> (case opt_encrypt E iv w t of Inl e \<Rightarrow> Inl e | Inr c \<Rightarrow> Inr (Some c)))"

definition patched :: "ms \<Rightarrow> string option \<Rightarrow> string option option \<Rightarrow> string option option \<Rightarrow> UpdateEventPatch \<Rightarrow> event_row \<Rightarrow> event_row" where
  "patched now title desc loc p r = r\<lparr>ev_updatedAt := now, ev_titleEnc := or_default title (ev_titleEnc r),
     ev_descriptionEnc := or_default desc (ev_descriptionEnc r), ev_locationEnc := or_default loc (ev_locationEnc r),
     ev_startsAt := or_default (up_startsAt p) (ev_startsAt r), ev_endsAt := or_default (up_endsAt p) (ev_endsAt r),
     ev_allDay := or_default (up_allDay p) (ev_allDay r), ev_timezone := or_default (up_timezone p) (ev_timezone r),
     ev_status := or_default (up_status p) (ev_status r)\<rparr>"

definition updateEvent :: "cal_env \<Rightarrow> ms \<Rightarrow> fresh \<Rightarrow> uuid \<Rightarrow> uuid \<Rightarrow> UpdateEventPatch \<Rightarrow> (db, unit) act" where
  "updateEvent C now fr w e p = (let E = cal_crypto C in
     act_bind (act_lift (patch_enc E (fr_iv fr 0) w (up_title p))) (\<lambda>title.
     act_bind (act_lift (patch_opt_enc E (fr_iv fr 1) w (up_description p))) (\<lambda>desc.
     act_bind (act_lift (patch_opt_enc E (fr_iv fr 2) w (up_location p))) (\<lambda>loc.
     act_bind (tbl_update calendarEvents_update (\<lambda>r. ev_workspaceId r = w \<and> ev_id r = e) (patched now title desc loc p)) (\<lambda>_.
     if up_startsAt p = None then act_return ()
     else act_bind (act_get (\<lambda>s. (event_at s w e, map at_sub (event_attendees s w e)))) (\<lambda>(ev, subs).
       case ev of None \<Rightarrow> act_return ()
       | Some r \<Rightarrow> scheduleReminders now (fr_reminder fr) w e (ev_startsAt r) subs None))))))"

definition booking_of :: "CalendarEvent \<Rightarrow> BookingEvent" where
  "booking_of ev = \<lparr>be_id = ve_id ev, be_title = ve_title ev, be_startsAt = ve_startsAt ev, be_endsAt = ve_endsAt ev, be_timezone = ve_timezone ev,
     be_allDay = ve_allDay ev, be_location = ve_location ev, be_description = ve_description ev, be_kind = ve_kind ev, be_channelId = ve_channelId ev\<rparr>"

definition cancelEvent :: "cal_env \<Rightarrow> ms \<Rightarrow> fresh \<Rightarrow> uuid \<Rightarrow> uuid \<Rightarrow> string option \<Rightarrow> (db, outgoing list) act" where
  "cancelEvent C now fr w e actorSub =
     act_bind (getEvent (cal_crypto C) w e) (\<lambda>ev.
     act_bind (tbl_update calendarEvents_update (\<lambda>r. ev_workspaceId r = w \<and> ev_id r = e)
        (\<lambda>r. r\<lparr>ev_status := ''cancelled'', ev_updatedAt := now\<rparr>)) (\<lambda>_.
     act_bind (tbl_delete eventReminders_update (\<lambda>r. rm_workspaceId r = w \<and> rm_eventId r = e)) (\<lambda>_.
     case ev of None \<Rightarrow> act_return []
     | Some v \<Rightarrow> notifyBooking C now (fr_notif fr) w (booking_of v) (map (\<lambda>a. (ea2_sub a, ea2_raciRole a)) (ve_attendees v))
         (or_default actorSub (ve_createdBySub v)) Cancel)))"

definition setAttendeeResponse :: "uuid \<Rightarrow> uuid \<Rightarrow> string \<Rightarrow> string \<Rightarrow> (db, unit) act" where
  "setAttendeeResponse w e u response = tbl_update eventAttendees_update
     (\<lambda>a. at_workspaceId a = w \<and> at_eventId a = e \<and> at_sub a = u) (\<lambda>a. a\<lparr>at_response := response\<rparr>)"

subsection \<open>Due reminders\<close>

definition due_reminders :: "db \<Rightarrow> ms \<Rightarrow> nat \<Rightarrow> reminder_row list" where
  "due_reminders s now lim = take lim (sort_key rm_remindAt (rows_where (\<lambda>r. rm_remindAt r \<le> now \<and> rm_sentAt r = None) (eventReminders s)))"

definition reminder_mail :: "cal_env \<Rightarrow> db \<Rightarrow> reminder_row \<Rightarrow> CalendarEvent \<Rightarrow> outgoing list" where
  "reminder_mail C s r ev = (case member_at s (rm_workspaceId r) (rm_sub r) of
      None \<Rightarrow> []
    | Some m \<Rightarrow> if or_text (mb_email m) [] = [] then [] else
        [Mail \<lparr>ml_to = or_text (mb_email m) [], ml_kind = ''reminder'', ml_title = ve_title ev,
           ml_when = fmtWhenRange C (ve_startsAt ev) (ve_endsAt ev)
             (or_text (mb_timezone m) (or_utc (ve_timezone ev))) (ve_allDay ev),
           ml_organizer = ''Citrate Calendar'',
           ml_workspace = (case first_where (\<lambda>x. ws_id x = rm_workspaceId r) (workspaces s) of Some x \<Rightarrow> ws_name x | None \<Rightarrow> ''your workspace''),
           ml_location = ve_location ev, ml_notes = ve_description ev,
           ml_raci = (case first_where (\<lambda>a. ea2_sub a = rm_sub r) (ve_attendees ev) of Some a \<Rightarrow> ea2_raciRole a | None \<Rightarrow> None),
           ml_link = calendar_link C (first_where (\<lambda>x. ws_id x = rm_workspaceId r) (workspaces s))\<rparr>])"

definition reminder_notification :: "uuid \<Rightarrow> ms \<Rightarrow> reminder_row \<Rightarrow> CalendarEvent \<Rightarrow> notification_row" where
  "reminder_notification nid now r ev = \<lparr>nt_id = nid, nt_workspaceId = rm_workspaceId r, nt_recipientSub = rm_sub r, nt_kind = ''calendar_reminder'',
     nt_actorSub = Some (ve_createdBySub ev), nt_channelId = ve_channelId ev, nt_messageId = None, nt_taskId = None, nt_readAt = None,
     nt_createdAt = now\<rparr>"

definition live_event :: "ms \<Rightarrow> CalendarEvent option \<Rightarrow> bool" where
  "live_event now ev = (case ev of None \<Rightarrow> False | Some v \<Rightarrow> ve_status v \<noteq> ''cancelled'' \<and> \<not> ve_startsAt v < now - 60000)"

text \<open>One turn of the loop: the number sent (0 or 1) and what goes out.\<close>

definition deliver :: "cal_env \<Rightarrow> ms \<Rightarrow> uuid \<Rightarrow> reminder_row \<Rightarrow> (db, nat \<times> outgoing list) act" where
  "deliver C now nid r = act_try
     (act_bind (getEvent (cal_crypto C) (rm_workspaceId r) (rm_eventId r)) (\<lambda>ev.
      act_bind (tbl_update eventReminders_update (\<lambda>x. rm_id x = rm_id r) (\<lambda>x. x\<lparr>rm_sentAt := Some now\<rparr>)) (\<lambda>_.
      if \<not> live_event now ev then act_return (0, [])
      else act_bind (insert_notification (reminder_notification nid now r (the ev))) (\<lambda>n.
           act_get (\<lambda>s. (1, Emit (rm_sub r) (toNotificationEvent (nt_id n) ''calendar_reminder'' None (ve_channelId (the ev)) None None (nt_createdAt n))
             # reminder_mail C s r (the ev)))))))
     (\<lambda>_. act_return (0, []))"

fun deliver_all :: "cal_env \<Rightarrow> ms \<Rightarrow> (nat \<Rightarrow> uuid) \<Rightarrow> nat \<Rightarrow> reminder_row list \<Rightarrow> (db, nat \<times> nat \<times> outgoing list) act" where
  "deliver_all C now nid k [] = act_return (0, 0, [])"
| "deliver_all C now nid k (r # rs) = act_bind (deliver C now (nid k) r) (\<lambda>(n, out).
     act_bind (deliver_all C now nid (Suc k) rs) (\<lambda>(sent, skipped, more). act_return (n + sent, (1 - n) + skipped, out @ more)))"

definition runDueReminders :: "cal_env \<Rightarrow> ms \<Rightarrow> (nat \<Rightarrow> uuid) \<Rightarrow> nat \<Rightarrow> (db, nat \<times> nat \<times> outgoing list) act" where
  "runDueReminders C now nid lim = act_bind (act_get (\<lambda>s. due_reminders s now lim)) (deliver_all C now nid 0)"

subsection \<open>Deadlines of tasks\<close>

record DeadlineArgs =
  da_workspaceId :: uuid
  da_taskId :: uuid
  da_projectId :: "uuid option"
  da_title :: string
  da_due :: "ms option"
  da_timezone :: string
  da_attendees :: "(string \<times> string option) list"
  da_createdBySub :: string

definition deadline_of :: "db \<Rightarrow> uuid \<Rightarrow> uuid \<Rightarrow> event_row option" where
  "deadline_of s w t = first_where (\<lambda>r. ev_workspaceId r = w \<and> ev_taskId r = Some t \<and> ev_kind r = ''deadline'') (calendarEvents s)"

definition deadline_patch :: "DeadlineArgs \<Rightarrow> ms \<Rightarrow> UpdateEventPatch" where
  "deadline_patch a due = \<lparr>up_title = Some (''Deadline: '' @ da_title a), up_description = None, up_location = None, up_startsAt = Some due,
     up_endsAt = Some due, up_allDay = Some True, up_timezone = Some (da_timezone a), up_status = Some ''confirmed''\<rparr>"

definition deadline_event :: "DeadlineArgs \<Rightarrow> ms \<Rightarrow> CreateEventInput" where
  "deadline_event a due = \<lparr>ce_workspaceId = da_workspaceId a, ce_createdBySub = da_createdBySub a, ce_kind = Some ''deadline'',
     ce_title = ''Deadline: '' @ da_title a, ce_description = None, ce_location = None, ce_startsAt = Some due, ce_endsAt = Some due,
     ce_allDay = Some True, ce_timezone = da_timezone a, ce_channelId = None, ce_projectId = da_projectId a, ce_taskId = Some (da_taskId a),
     ce_dealId = None, ce_attendees = da_attendees a, ce_reminderOffsetsMin = None\<rparr>"

definition upsertTaskDeadline :: "cal_env \<Rightarrow> ms \<Rightarrow> fresh \<Rightarrow> DeadlineArgs \<Rightarrow> (db, outgoing list) act" where
  "upsertTaskDeadline C now fr a = (let w = da_workspaceId a in
     act_bind (act_get (\<lambda>s. deadline_of s w (da_taskId a))) (\<lambda>existing.
     case da_due a of
       None \<Rightarrow> (case existing of None \<Rightarrow> act_return [] | Some r \<Rightarrow> cancelEvent C now fr w (ev_id r) (Some (da_createdBySub a)))
     | Some due \<Rightarrow> (case existing of
         Some r \<Rightarrow>
           act_bind (updateEvent C now fr w (ev_id r) (deadline_patch a due)) (\<lambda>_.
           act_bind (tbl_delete eventAttendees_update (\<lambda>x. at_workspaceId x = w \<and> at_eventId x = ev_id r)) (\<lambda>_.
           let rows = map (attendee_row_of w (ev_id r) now None) (attendee_map [] (da_attendees a)) in
           act_bind (if rows = [] then act_return () else insert_rows insert_attendee rows) (\<lambda>_.
           act_bind (scheduleReminders now (fr_reminder2 fr) w (ev_id r) due (map at_sub rows) None) (\<lambda>_.
           act_return []))))
       | None \<Rightarrow> act_bind (createEvent C now fr (deadline_event a due)) (\<lambda>(e, out). act_return out))))"

subsection \<open>The pinned digest\<close>

definition summary_line :: "cal_env \<Rightarrow> CalendarEvent \<Rightarrow> string" where
  "summary_line C e = (let tz = (or_utc (ve_timezone e));
       day = cal_fmtDay C (ve_startsAt e) tz;
       when = (if ve_allDay e then day else day @ '' '' @ cal_fmtTimeZone C (ve_startsAt e) tz);
       mark = (if ve_kind e = ''deadline'' then [CHR 0xF0, CHR 0x9F, CHR 0x94, CHR 0xB4] else [CHR 0xE2, CHR 0x80, CHR 0xA2])
     in mark @ '' '' @ when @ '' '' @ em_dash @ '' '' @ ve_title e)"

definition renderSummary :: "cal_env \<Rightarrow> CalendarEvent list \<Rightarrow> nat \<Rightarrow> string" where
  "renderSummary C events days =
     (let title = [CHR 0xF0, CHR 0x9F, CHR 0x93, CHR 0x85] @ '' Upcoming '' @ em_dash @ '' next '' @ digits_of days @ '' days'' in
      if events = [] then title @ [CHR 0x0A, CHR 0x0A] @ ''Nothing scheduled. '' @ [CHR 0xF0, CHR 0x9F, CHR 0x8E, CHR 0x89]
      else js_join [CHR 0x0A] ([title, []] @ map (summary_line C) events @ [[], em_dash @ '' @calendar (this pin updates automatically)'']))"

text \<open>The people seated in a channel, without active agents.\<close>

definition human_readers :: "db \<Rightarrow> uuid \<Rightarrow> uuid \<Rightarrow> string list" where
  "human_readers s w c = map cm_sub (filter (\<lambda>m. case member_at s (cm_workspaceId m) (cm_sub m) of
        None \<Rightarrow> True | Some x \<Rightarrow> \<not> (mb_status x = ''active'' \<and> mb_role x = Agent \<and> mb_isAgent x))
     (rows_where (\<lambda>m. cm_workspaceId m = w \<and> cm_channelId m = c) (channelMembers s)))"

definition postAndPinCalendarSummary :: "cal_env \<Rightarrow> ms \<Rightarrow> uuid \<Rightarrow> string \<Rightarrow> uuid \<Rightarrow> uuid \<Rightarrow> string \<Rightarrow> nat \<Rightarrow> (db, uuid \<times> nat) act" where
  "postAndPinCalendarSummary C now newId iv w c agentSub days = (let E = cal_crypto C in
     act_bind (listWorkspaceEventsInRange E w now (now + int days * 86400000)) (\<lambda>evs.
     act_bind (act_get (\<lambda>s. human_readers s w c)) (\<lambda>seated.
     let events = filter (\<lambda>e. everyReaderParticipates e seated) evs in
     act_bind (sendMessage E now newId iv \<lparr>si_workspaceId = w, si_channelId = c, si_authorSub = agentSub, si_body = renderSummary C events days,
         si_fromAgent = True, si_onBehalfOf = None, si_threadId = None, si_parentId = None, si_clientMsgId = None\<rparr>) (\<lambda>msg.
     act_bind (listPinnedMessages E w c) (\<lambda>pinned.
     act_bind (act_for (filter (\<lambda>p. mr_authorSub p = agentSub \<and> mr_id p \<noteq> mr_id msg) pinned)
        (\<lambda>p. act_bind (setMessagePinned now w c (mr_id p) False) (\<lambda>_. act_return ()))) (\<lambda>_.
     act_bind (setMessagePinned now w c (mr_id msg) True) (\<lambda>_.
     act_return (mr_id msg, length events))))))))"

subsection \<open>What is listed is what may be seen\<close>

definition attendees_home :: "db \<Rightarrow> bool" where
  "attendees_home s \<longleftrightarrow> (\<forall>a\<in>set (eventAttendees s). \<forall>r\<in>set (calendarEvents s). at_eventId a = ev_id r \<longrightarrow> at_workspaceId a = ev_workspaceId r)"

lemma hydrate1_sel [simp]: "ve_createdBySub (hydrate1 E s w r) = ev_createdBySub r" "ve_id (hydrate1 E s w r) = ev_id r"
    "ve_startsAt (hydrate1 E s w r) = ev_startsAt r" "ve_status (hydrate1 E s w r) = ev_status r" "ve_channelId (hydrate1 E s w r) = ev_channelId r"
    "ea2_sub ` set (ve_attendees (hydrate1 E s w r)) = at_sub ` set (event_attendees s w (ev_id r))"
  by (simp_all add: hydrate1_def image_image)

lemma canSee_row:
  assumes "attendees_home s" "r \<in> set (calendarEvents s)" "ev_workspaceId r = w" "\<not> isAdminRole role"
  shows "canSeeEvent (hydrate1 E s w r) u role \<longleftrightarrow>
    (\<exists>a\<in>set (eventAttendees s). at_eventId a = ev_id r \<and> at_sub a = u) \<or> ev_createdBySub r = u"
proof -
  have "(\<exists>a\<in>set (ve_attendees (hydrate1 E s w r)). ea2_sub a = u) \<longleftrightarrow> u \<in> at_sub ` set (event_attendees s w (ev_id r))"
    by (auto simp: hydrate1_def image_iff)
  also have "\<dots> \<longleftrightarrow> (\<exists>a\<in>set (eventAttendees s). at_eventId a = ev_id r \<and> at_sub a = u)"
    using assms(1-3) by (auto simp: event_attendees_def rows_where_def attendees_home_def image_iff)
  finally show ?thesis using assms(4) by (auto simp: canSeeEvent_def)
qed

lemma listEventsInRange_run:
  "listEventsInRange E w u f t s = (Inr (map (hydrate1 E s w) (sort_key ev_startsAt (rows_where
      (\<lambda>r. in_range w f t r \<and> ((\<exists>a\<in>set (eventAttendees s). at_eventId a = ev_id r \<and> at_sub a = u) \<or> ev_createdBySub r = u))
      (calendarEvents s)))), s)"
  by (simp add: listEventsInRange_def hydrate_def act_get_def)

text \<open>The list and the item route agree: for a member who is no administrator, the events listed for a range are exactly the
  events of the workspace overlapping it that are not cancelled and that \<open>canSeeEvent\<close> admits the member to, in order of their start.\<close>

theorem calendar_list_is_visible:
  assumes "attendees_home s" "\<not> isAdminRole role" and run: "listEventsInRange E w u f t s = (Inr evs, s')"
  shows "set evs = {hydrate1 E s w r |r. r \<in> set (calendarEvents s) \<and> in_range w f t r \<and> canSeeEvent (hydrate1 E s w r) u role}
     \<and> sorted (map ve_startsAt evs) \<and> s' = s"
proof -
  have evs: "evs = map (hydrate1 E s w) (sort_key ev_startsAt (rows_where
      (\<lambda>r. in_range w f t r \<and> ((\<exists>a\<in>set (eventAttendees s). at_eventId a = ev_id r \<and> at_sub a = u) \<or> ev_createdBySub r = u))
      (calendarEvents s)))" and "s' = s" using run unfolding listEventsInRange_run by blast+
  have see: "in_range w f t r \<and> ((\<exists>a\<in>set (eventAttendees s). at_eventId a = ev_id r \<and> at_sub a = u) \<or> ev_createdBySub r = u)
      \<longleftrightarrow> in_range w f t r \<and> canSeeEvent (hydrate1 E s w r) u role" if "r \<in> set (calendarEvents s)" for r
    using canSee_row [OF assms(1) that _ assms(2), of w E u] by (auto simp: in_range_def)
  have "set evs = hydrate1 E s w ` {r \<in> set (calendarEvents s). in_range w f t r \<and> canSeeEvent (hydrate1 E s w r) u role}"
    unfolding evs rows_where_def set_map set_sort set_filter using see by (intro image_cong Collect_cong) auto
  then have "set evs = {hydrate1 E s w r |r. r \<in> set (calendarEvents s) \<and> in_range w f t r \<and> canSeeEvent (hydrate1 E s w r) u role}"
    by auto
  moreover have "sorted (map ve_startsAt evs)" by (simp add: evs comp_def)
  ultimately show ?thesis using \<open>s' = s\<close> by simp
qed

definition demo_event :: event_row where
  "demo_event = \<lparr>ev_id = ''e1'', ev_workspaceId = ''w1'', ev_kind = ''meeting'', ev_titleEnc = ''x'', ev_descriptionEnc = None,
     ev_locationEnc = None, ev_startsAt = 100, ev_endsAt = 200, ev_allDay = False, ev_timezone = ''UTC'', ev_status = ''confirmed'',
     ev_channelId = None, ev_projectId = None, ev_taskId = None, ev_dealId = None, ev_createdBySub = ''alice'', ev_createdAt = 0,
     ev_updatedAt = 0\<rparr>"

definition demo_calendar :: db where
  "demo_calendar = demo_chat\<lparr>calendarEvents := [demo_event], eventAttendees := [\<lparr>at_workspaceId = ''w1'', at_eventId = ''e1'', at_sub = ''bob'',
       at_raciRole = None, at_response = ''needsAction'', at_notifiedAt = None, at_createdAt = 0\<rparr>],
     eventReminders := [\<lparr>rm_id = ''r1'', rm_workspaceId = ''w1'', rm_eventId = ''e1'', rm_sub = ''bob'', rm_remindAt = 40,
       rm_channel = ''both'', rm_sentAt = None\<rparr>]\<rparr>"

theorem calendar_list_is_visible_witness:
  "\<exists>evs. listEventsInRange demo_env ''w1'' ''bob'' 0 150 demo_calendar = (Inr evs, demo_calendar) \<and> length evs = 1
     \<and> set evs = {hydrate1 demo_env demo_calendar ''w1'' r |r. r \<in> set (calendarEvents demo_calendar) \<and> in_range ''w1'' 0 150 r
         \<and> canSeeEvent (hydrate1 demo_env demo_calendar ''w1'' r) ''bob'' Guest}"
proof -
  have home: "attendees_home demo_calendar" by (simp add: attendees_home_def demo_calendar_def demo_event_def)
  have guest: "\<not> isAdminRole Guest" by (simp add: isAdminRole_def)
  obtain evs where run: "listEventsInRange demo_env ''w1'' ''bob'' 0 150 demo_calendar = (Inr evs, demo_calendar)"
    unfolding listEventsInRange_run by blast
  have "length evs = 1" using run
    by (auto simp: listEventsInRange_run demo_calendar_def demo_event_def rows_where_def in_range_def)
  then show ?thesis using calendar_list_is_visible [OF home guest run] run by blast
qed

subsection \<open>Every reminder fires once\<close>

lemma deliver_run:
  "\<exists>n out. fst (deliver C now nid r s) = Inr (n, out) \<and> n \<le> 1
     \<and> eventReminders (snd (deliver C now nid r s)) = upd_where (\<lambda>x. rm_id x = rm_id r) (\<lambda>x. x\<lparr>rm_sentAt := Some now\<rparr>) (eventReminders s)
     \<and> length (notifications (snd (deliver C now nid r s))) = length (notifications s) + n"
  by (auto simp: deliver_def act_try_def act_bind_def getEvent_def act_get_def tbl_update_def act_return_def insert_notification_def tbl_insert_def
      split: prod.split sum.split)

lemma deliver_all_run:
  "\<exists>sent skipped out. fst (deliver_all C now nid k rs s) = Inr (sent, skipped, out) \<and> sent + skipped = length rs
     \<and> eventReminders (snd (deliver_all C now nid k rs s))
         = upd_where (\<lambda>x. rm_id x \<in> rm_id ` set rs) (\<lambda>x. x\<lparr>rm_sentAt := Some now\<rparr>) (eventReminders s)
     \<and> length (notifications (snd (deliver_all C now nid k rs s))) = length (notifications s) + sent"
proof (induction rs arbitrary: k s)
  case Nil
  then show ?case by (simp add: act_return_def upd_where_idem)
next
  case (Cons r rs)
  obtain n out s1 where d: "deliver C now (nid k) r s = (Inr (n, out), s1)" "n \<le> 1"
      "eventReminders s1 = upd_where (\<lambda>x. rm_id x = rm_id r) (\<lambda>x. x\<lparr>rm_sentAt := Some now\<rparr>) (eventReminders s)"
      "length (notifications s1) = length (notifications s) + n"
    using deliver_run [of C now "nid k" r s] by (cases "deliver C now (nid k) r s") auto
  obtain sent skipped more s2 where a: "deliver_all C now nid (Suc k) rs s1 = (Inr (sent, skipped, more), s2)" "sent + skipped = length rs"
      "eventReminders s2 = upd_where (\<lambda>x. rm_id x \<in> rm_id ` set rs) (\<lambda>x. x\<lparr>rm_sentAt := Some now\<rparr>) (eventReminders s1)"
      "length (notifications s2) = length (notifications s1) + sent"
    using Cons.IH [of "Suc k" s1] by (cases "deliver_all C now nid (Suc k) rs s1") auto
  have "upd_where (\<lambda>x. rm_id x \<in> rm_id ` set rs) (\<lambda>x. x\<lparr>rm_sentAt := Some now\<rparr>) (upd_where (\<lambda>x. rm_id x = rm_id r) (\<lambda>x. x\<lparr>rm_sentAt := Some now\<rparr>) xs)
      = upd_where (\<lambda>x. rm_id x \<in> rm_id ` set (r # rs)) (\<lambda>x. x\<lparr>rm_sentAt := Some now\<rparr>) xs" for xs
    by (induction xs) auto
  then show ?case using d a by (simp add: act_bind_def act_return_def)
qed

text \<open>No reminder fires twice. A run of the job ends, handles every reminder it found due (sent or skipped), creates one
  notification per reminder sent, and marks all of them, so that no later run, at whatever time, finds one of them due again.\<close>

theorem reminders_fire_once:
  assumes "runDueReminders C now nid lim s = (res, s')"
  shows "\<exists>sent skipped out. res = Inr (sent, skipped, out) \<and> sent + skipped = length (due_reminders s now lim)
     \<and> length (notifications s') = length (notifications s) + sent
     \<and> rm_id ` set (due_reminders s' later lim') \<inter> rm_id ` set (due_reminders s now lim) = {}"
proof -
  let ?due = "due_reminders s now lim"
  obtain sent skipped out where r: "fst (deliver_all C now nid 0 ?due s) = Inr (sent, skipped, out)" "sent + skipped = length ?due"
      "eventReminders (snd (deliver_all C now nid 0 ?due s)) = upd_where (\<lambda>x. rm_id x \<in> rm_id ` set ?due) (\<lambda>x. x\<lparr>rm_sentAt := Some now\<rparr>) (eventReminders s)"
      "length (notifications (snd (deliver_all C now nid 0 ?due s))) = length (notifications s) + sent"
    using deliver_all_run [of C now nid 0 ?due s] by blast
  have run: "deliver_all C now nid 0 ?due s = (res, s')" using assms by (simp add: runDueReminders_def)
  have "set (due_reminders s' later lim') \<subseteq> {x \<in> set (eventReminders s'). rm_sentAt x = None}"
    by (auto simp: due_reminders_def rows_where_def dest: in_set_takeD)
  moreover have "rm_id x \<notin> rm_id ` set ?due" if "x \<in> set (eventReminders s')" "rm_sentAt x = None" for x
    using that r(3) unfolding run by (auto simp: set_upd_where split: if_splits)
  ultimately show ?thesis using r unfolding run by (auto simp: subset_iff)
qed

definition demo_cal_env :: cal_env where
  "demo_cal_env = \<lparr>cal_crypto = demo_env, cal_appOrigin = None, cal_fmtDay = (\<lambda>_ _. ''day''), cal_fmtTime = (\<lambda>_ _. ''time''),
     cal_fmtTimeZone = (\<lambda>_ _. ''zone'')\<rparr>"

theorem reminders_fire_once_witness:
  "\<exists>s' sent skipped out. runDueReminders demo_cal_env 50 (\<lambda>i. ''n1'') 200 demo_calendar = (Inr (sent, skipped, out), s')
     \<and> sent + skipped = 1 \<and> length (notifications s') = length (notifications demo_calendar) + sent
     \<and> ''r1'' \<notin> rm_id ` set (due_reminders s' 60 200)"
proof -
  obtain res s' where run: "runDueReminders demo_cal_env 50 (\<lambda>i. ''n1'') 200 demo_calendar = (res, s')" by fastforce
  have due: "map rm_id (due_reminders demo_calendar 50 200) = [''r1'']"
    by (simp add: due_reminders_def demo_calendar_def rows_where_def)
  then have "rm_id ` set (due_reminders demo_calendar 50 200) = {''r1''}" "length (due_reminders demo_calendar 50 200) = 1"
    by (metis empty_set list.simps(15) set_map, metis One_nat_def length_0_conv length_Suc_conv length_map)
  then show ?thesis using reminders_fire_once [OF run, of 60 200] run by auto
qed

end
