(* ===== verification/Approvals.thy ===== *)
theory Approvals
  imports Membership
begin

text \<open>
  \<^verbatim>\<open>lib/domain/approvals.ts\<close> with the tool-call log of \<^verbatim>\<open>lib/ai/audit.ts\<close>: agents propose, people commit. The stored
  action is JSON text, encrypted; printing, parsing and the effects of the action itself are the fields
  of \<open>approval_env\<close>. \<open>decideApproval\<close> is composed of the statements that race with other decisions, and the
  second half of the theory runs these statements concurrently.
\<close>

subsection \<open>Actions\<close>

datatype CrmEntity = CrmAccount | CrmDeal | CrmContact

fun entity_name :: "CrmEntity \<Rightarrow> string" where
  "entity_name CrmAccount = ''account''"
| "entity_name CrmDeal = ''deal''"
| "entity_name CrmContact = ''contact''"

record StandardPatch =
  sp_name :: "string option"
  sp_domain :: "string option"
  sp_title :: "string option"
  sp_valueMinor :: "int option"

record PreviewCounts =
  pc_rows :: nat
  pc_created :: nat
  pc_updated :: nat
  pc_held :: nat
  pc_newAccounts :: nat
  pc_newContacts :: nat
  pc_newDeals :: nat
  pc_newTasks :: nat

datatype AgentAction =
    CrmNote CrmEntity uuid string "string option" string
  | CrmField CrmEntity uuid string string
  | CrmStandard CrmEntity uuid StandardPatch
  | CrmCreate CrmEntity string StandardPatch "uuid option" "(string \<times> string) list"
  | CrmDelete CrmEntity uuid
  | CrmDedupe
  | MemoryAssert string string string "(string \<times> string) list" "int option"
  | RunnerTerminal string "string option"
  | RunnerCode string string "(string \<times> string) list"
  | DocumentsWrite string string "uuid option" "uuid option" "uuid option"
  | LedgerWrite uuid string string "string option" "string option"
  | PmWrite string "uuid option" "string option" "string option" "string option" "(string \<times> string) list"
  | CrmImport uuid uuid string PreviewCounts
  | CrmIngestReview uuid string nat
  | CalendarSchedule string string string string string "string option" "string option" "(string \<times> string option) list" "uuid option"
  | CalendarCancel uuid

datatype Risk = Low | Medium | High

fun risk_name :: "Risk \<Rightarrow> string" where
  "risk_name Low = ''low''"
| "risk_name Medium = ''medium''"
| "risk_name High = ''high''"

fun RISK_BY_KIND :: "AgentAction \<Rightarrow> Risk" where
  "RISK_BY_KIND (CrmNote _ _ _ _ _) = Low"
| "RISK_BY_KIND (CrmField _ _ _ _) = Medium"
| "RISK_BY_KIND (CrmStandard _ _ _) = Medium"
| "RISK_BY_KIND (CrmCreate _ _ _ _ _) = Medium"
| "RISK_BY_KIND (CrmDelete _ _) = High"
| "RISK_BY_KIND CrmDedupe = High"
| "RISK_BY_KIND (MemoryAssert _ _ _ _ _) = Low"
| "RISK_BY_KIND (RunnerTerminal _ _) = High"
| "RISK_BY_KIND (RunnerCode _ _ _) = High"
| "RISK_BY_KIND (DocumentsWrite _ _ _ _ _) = Low"
| "RISK_BY_KIND (LedgerWrite _ _ _ _ _) = Medium"
| "RISK_BY_KIND (PmWrite _ _ _ _ _ _) = Low"
| "RISK_BY_KIND (CrmImport _ _ _ _) = High"
| "RISK_BY_KIND (CrmIngestReview _ _ _) = High"
| "RISK_BY_KIND (CalendarSchedule _ _ _ _ _ _ _ _ _) = Medium"
| "RISK_BY_KIND (CalendarCancel _) = Medium"

fun CAP_BY_KIND :: "AgentAction \<Rightarrow> Capability" where
  "CAP_BY_KIND (CrmNote _ _ _ _ _) = CreateRecord"
| "CAP_BY_KIND (CrmField _ _ _ _) = CreateRecord"
| "CAP_BY_KIND (CrmStandard _ _ _) = CreateRecord"
| "CAP_BY_KIND (CrmCreate _ _ _ _ _) = CreateRecord"
| "CAP_BY_KIND (CrmDelete _ _) = DeleteRecord"
| "CAP_BY_KIND CrmDedupe = DeleteRecord"
| "CAP_BY_KIND (MemoryAssert _ _ _ _ _) = CreateRecord"
| "CAP_BY_KIND (RunnerTerminal _ _) = ManageWorkspace"
| "CAP_BY_KIND (RunnerCode _ _ _) = ManageWorkspace"
| "CAP_BY_KIND (DocumentsWrite _ _ _ _ _) = CreateRecord"
| "CAP_BY_KIND (LedgerWrite _ _ _ _ _) = CreateRecord"
| "CAP_BY_KIND (PmWrite _ _ _ _ _ _) = CreateRecord"
| "CAP_BY_KIND (CrmImport _ _ _ _) = ManageWorkspace"
| "CAP_BY_KIND (CrmIngestReview _ _ _) = ManageWorkspace"
| "CAP_BY_KIND (CalendarSchedule _ _ _ _ _ _ _ _ _) = CreateRecord"
| "CAP_BY_KIND (CalendarCancel _) = CreateRecord"

definition approvalAuthzError :: "Role \<Rightarrow> AgentAction \<Rightarrow> string \<Rightarrow> string \<Rightarrow> string option" where
  "approvalAuthzError role action decidedBy requestedBy =
     (if \<not> can role (CAP_BY_KIND action) then Some ''forbidden''
      else if RISK_BY_KIND action = High \<and> decidedBy = requestedBy then Some ''self_approval_forbidden''
      else None)"

subsection \<open>What the approver reads\<close>

definition lquote :: string where "lquote = [CHR 0xE2, CHR 0x80, CHR 0x9C]"
definition rquote :: string where "rquote = [CHR 0xE2, CHR 0x80, CHR 0x9D]"
definition emdash :: string where "emdash = [CHR 0xE2, CHR 0x80, CHR 0x94]"
definition middot :: string where "middot = [CHR 0xC2, CHR 0xB7]"
definition rarrow :: string where "rarrow = [CHR 0xE2, CHR 0x86, CHR 0x92]"

definition truncate_to :: "string \<Rightarrow> nat \<Rightarrow> string" where
  "truncate_to s n = (if n < length s then take n s @ ellipsis else s)"

definition file_manifest :: "(string \<times> string) list \<Rightarrow> string" where
  "file_manifest files = js_join '', '' (map (\<lambda>f. fst f @ '' ('' @ digits_of (length (snd f)) @ ''B)'') files)"

text \<open>The first argument prints a patch (\<^verbatim>\<open>JSON.stringify(action.patch)\<close>).\<close>

fun describeAction :: "(StandardPatch \<Rightarrow> string) \<Rightarrow> AgentAction \<Rightarrow> string" where
  "describeAction stringify (CrmNote e rid ty title body) = ''Add '' @ ty @ '' to '' @ entity_name e @ '': '' @
     truncate_to (if or_empty title \<noteq> [] then or_empty title @ '' '' @ emdash @ '' '' @ body else body) 140"
| "describeAction stringify (CrmField e rid k v) =
     ''Set '' @ entity_name e @ '' field '' @ lquote @ k @ rquote @ '' = '' @ truncate_to v 140"
| "describeAction stringify (CrmStandard e rid p) = ''Update '' @ entity_name e @ '': '' @ truncate_to (stringify p) 140"
| "describeAction stringify (CrmCreate e name std acc flds) = ''Create '' @ entity_name e @ '' '' @ lquote @ truncate_to name 80 @ rquote @
     (if flds \<noteq> [] then '' (+'' @ digits_of (length flds) @ '' fields)'' else [])"
| "describeAction stringify (CrmDelete e rid) =
     ''Delete '' @ entity_name e @ '' (id '' @ take 8 rid @ ellipsis @ '') and its notes/fields/activity''"
| "describeAction stringify CrmDedupe =
     ''De-duplicate the CRM '' @ emdash @ '' merge duplicate accounts/deals/contacts into one canonical each''"
| "describeAction stringify (MemoryAssert repo nk content anchors conf) =
     ''Assert to knowledge graph ('' @ nk @ ''): '' @ truncate_to content 140"
| "describeAction stringify (RunnerTerminal cmd cwd) =
     ''Run in sandbox ('' @ digits_of (length cmd) @ '' bytes):'' @ [CHR 0x0A] @ cmd"
| "describeAction stringify (RunnerCode lang source files) =
     ''Run '' @ lang @ '' in sandbox ('' @ digits_of (length source) @ '' bytes):'' @ [CHR 0x0A] @ source @
     (if files \<noteq> [] then [CHR 0x0A] @ ''files: '' @ file_manifest files else [])"
| "describeAction stringify (DocumentsWrite name content acc deal chan) =
     ''Create document '' @ lquote @ name @ rquote @ '': '' @ truncate_to content 140"
| "describeAction stringify (LedgerWrite chan k txt own due) = ''File '' @ k @ '' to Ledger: '' @ truncate_to txt 140"
| "describeAction stringify (PmWrite title proj prio assignee due raci) = ''Create task: '' @ truncate_to title 140"
| "describeAction stringify (CrmImport sheet mapping name p) = ''Import '' @ lquote @ name @ rquote @ '' '' @ rarrow @ '' CRM: '' @
     digits_of (pc_created p) @ '' new '' @ middot @ '' '' @ digits_of (pc_updated p) @ '' updated '' @ middot @ '' '' @
     digits_of (pc_held p) @ '' held ('' @ digits_of (pc_rows p) @ '' rows)''"
| "describeAction stringify (CrmIngestReview job name held) = ''Review '' @ digits_of held @ '' low-confidence record(s) extracted from '' @
     lquote @ name @ rquote @ '' '' @ emdash @ '' approve to write them to the CRM''"
| "describeAction stringify (CalendarSchedule title k st en tz loc des att chan) = ''Schedule '' @ k @ '' '' @ lquote @
     truncate_to title 80 @ rquote @ (if att \<noteq> [] then '' with '' @ digits_of (length att) @ '' attendee(s)'' else []) @
     '' '' @ emdash @ '' notifies + emails attendees''"
| "describeAction stringify (CalendarCancel ev) =
     ''Cancel calendar event (id '' @ take 8 ev @ ellipsis @ '') '' @ emdash @ '' notifies attendees''"

subsection \<open>The queue\<close>

record approval_env =
  ae_crypto :: crypto_env
  ae_blake3 :: "string \<Rightarrow> string"
  ae_stringify :: "AgentAction \<Rightarrow> string"
  ae_stringify_patch :: "StandardPatch \<Rightarrow> string"
  ae_parse :: "string \<Rightarrow> AgentAction option"
  ae_execute :: "uuid \<Rightarrow> AgentAction \<Rightarrow> string \<Rightarrow> uuid option \<Rightarrow> (db, string) act"

definition hashArgs :: "approval_env \<Rightarrow> string \<Rightarrow> string" where
  "hashArgs A json = hex_encode (ae_blake3 A json)"

record ToolAuditCtx =
  tx_workspaceId :: uuid
  tx_threadId :: "uuid option"
  tx_personaId :: "uuid option"
  tx_invokedBySub :: "string option"

text \<open>\<^verbatim>\<open>argsJson\<close> is \<^verbatim>\<open>JSON.stringify(args)\<close> and \<^verbatim>\<open>redacted\<close> what the cleartext column gets.\<close>

definition logToolCall :: "approval_env \<Rightarrow> ms \<Rightarrow> uuid \<Rightarrow> ToolAuditCtx \<Rightarrow> string \<Rightarrow> string \<Rightarrow> string \<Rightarrow> string \<Rightarrow> (db, uuid option) act" where
  "logToolCall A now newId c tool argsJson redacted approvalStatus =
     act_try (act_bind (insert_tool_call \<lparr>tc_id = newId, tc_workspaceId = tx_workspaceId c, tc_threadId = tx_threadId c,
          tc_personaId = tx_personaId c, tc_invokedBySub = tx_invokedBySub c, tc_tool = tool, tc_argsHash = hashArgs A argsJson,
          tc_argsRedacted = Some redacted, tc_approvalStatus = approvalStatus, tc_resultHash = None, tc_createdAt = now\<rparr>) (\<lambda>row.
       act_bind (appendAudit (ae_crypto A) now (audit_input (tx_workspaceId c) (tx_invokedBySub c) ''tool_called''
          (Some (tool @ '':'' @ tc_id row)))) (\<lambda>_.
       act_return (Some (tc_id row)))))
     (\<lambda>_. act_return None)"

definition finishToolCall :: "approval_env \<Rightarrow> uuid \<Rightarrow> string \<Rightarrow> (db, unit) act" where
  "finishToolCall A tcId resultJson = (if tcId = [] then act_return ()
     else act_try (tbl_update agentToolCalls_update (\<lambda>t. tc_id t = tcId) (\<lambda>t. t\<lparr>tc_resultHash := Some (hashArgs A resultJson)\<rparr>))
            (\<lambda>_. act_return ()))"

record EnqueueArgs =
  ea_workspaceId :: uuid
  ea_tool :: string
  ea_requestedBySub :: string
  ea_personaId :: "uuid option"
  ea_threadId :: "uuid option"
  ea_action :: AgentAction

definition fallbackToolCall :: "ms \<Rightarrow> uuid \<Rightarrow> EnqueueArgs \<Rightarrow> (db, uuid) act" where
  "fallbackToolCall now newId a = act_bind (insert_tool_call \<lparr>tc_id = newId, tc_workspaceId = ea_workspaceId a,
     tc_threadId = None, tc_personaId = None, tc_invokedBySub = Some (ea_requestedBySub a), tc_tool = ea_tool a, tc_argsHash = [],
     tc_argsRedacted = Some ''[pending]'', tc_approvalStatus = ''pending'', tc_resultHash = None, tc_createdAt = now\<rparr>)
     (\<lambda>r. act_return (tc_id r))"

definition enqueueApproval :: "approval_env \<Rightarrow> ms \<Rightarrow> uuid \<Rightarrow> uuid \<Rightarrow> uuid \<Rightarrow> string \<Rightarrow> EnqueueArgs \<Rightarrow> (db, uuid \<times> Risk) act" where
  "enqueueApproval A now callId fallbackId newId iv a = (let risk = RISK_BY_KIND (ea_action a) in
     act_bind (logToolCall A now callId \<lparr>tx_workspaceId = ea_workspaceId a, tx_threadId = ea_threadId a,
        tx_personaId = ea_personaId a, tx_invokedBySub = Some (ea_requestedBySub a)\<rparr> (ea_tool a)
        (ae_stringify A (ea_action a)) ''[held-for-approval]'' ''pending'') (\<lambda>logged.
     act_bind (case logged of Some c \<Rightarrow> act_return c | None \<Rightarrow> fallbackToolCall now fallbackId a) (\<lambda>toolCallId.
     act_bind (act_lift (encryptField (ae_crypto A) iv (ea_workspaceId a) (ae_stringify A (ea_action a)))) (\<lambda>enc.
     act_bind (insert_approval \<lparr>ap_id = newId, ap_workspaceId = ea_workspaceId a, ap_toolCallId = toolCallId, ap_tool = ea_tool a,
        ap_risk = risk_name risk, ap_payloadEnc = Some enc, ap_requestedBySub = ea_requestedBySub a, ap_personaId = ea_personaId a,
        ap_decidedBySub = None, ap_status = ''pending'', ap_createdAt = now, ap_decidedAt = None\<rparr>) (\<lambda>row.
     act_bind (appendAudit (ae_crypto A) now (audit_input (ea_workspaceId a) (Some (ea_requestedBySub a)) ''tool_pending_approval''
        (Some (ea_tool a @ '':'' @ ap_id row)))) (\<lambda>_.
     act_return (ap_id row, risk)))))))"

record PendingApproval =
  pa_id :: uuid
  pa_tool :: string
  pa_risk :: string
  pa_requestedBySub :: string
  pa_personaId :: "uuid option"
  pa_createdAt :: ms
  pa_summary :: string

definition read_payload :: "approval_env \<Rightarrow> uuid \<Rightarrow> string \<Rightarrow> AgentAction option" where
  "read_payload A w payload = (case decryptField (ae_crypto A) w payload of Inl _ \<Rightarrow> None | Inr json \<Rightarrow> ae_parse A json)"

definition approval_summary :: "approval_env \<Rightarrow> uuid \<Rightarrow> approval_row \<Rightarrow> string" where
  "approval_summary A w r = (if or_empty (ap_payloadEnc r) = [] then ''(unreadable)''
     else (case read_payload A w (or_empty (ap_payloadEnc r)) of
         None \<Rightarrow> ''(unreadable)'' | Some action \<Rightarrow> describeAction (ae_stringify_patch A) action))"

definition listPendingApprovals :: "approval_env \<Rightarrow> uuid \<Rightarrow> (db, PendingApproval list) act" where
  "listPendingApprovals A w = act_get (\<lambda>s. map (\<lambda>r. \<lparr>pa_id = ap_id r, pa_tool = ap_tool r, pa_risk = ap_risk r,
      pa_requestedBySub = ap_requestedBySub r, pa_personaId = ap_personaId r, pa_createdAt = ap_createdAt r,
      pa_summary = approval_summary A w r\<rparr>)
    (rev (sort_key ap_createdAt (rows_where (\<lambda>r. ap_workspaceId r = w \<and> ap_status r = ''pending'') (agentApprovals s)))))"

definition countPendingApprovals :: "approval_env \<Rightarrow> uuid \<Rightarrow> (db, nat) act" where
  "countPendingApprovals A w = act_bind (listPendingApprovals A w) (\<lambda>rows. act_return (length rows))"

subsection \<open>Decisions\<close>

datatype decision = Approve | Reject
datatype decide_result = Decided | NotDecided string

definition approval_at :: "db \<Rightarrow> uuid \<Rightarrow> uuid \<Rightarrow> approval_row option" where
  "approval_at s w approvalId = first_where (\<lambda>r. ap_workspaceId r = w \<and> ap_id r = approvalId) (agentApprovals s)"

text \<open>The statements of a decision: recording a rejection, authorising an approval, claiming it, releasing the claim, and
  recording the outcome.\<close>

definition record_rejection :: "approval_env \<Rightarrow> ms \<Rightarrow> uuid \<Rightarrow> string \<Rightarrow> approval_row \<Rightarrow> (db, unit) act" where
  "record_rejection A now w decidedBy appr =
     act_bind (tbl_update agentApprovals_update (\<lambda>r. ap_id r = ap_id appr)
        (\<lambda>r. r\<lparr>ap_status := ''rejected'', ap_decidedBySub := Some decidedBy, ap_decidedAt := Some now\<rparr>)) (\<lambda>_.
     act_bind (tbl_update agentToolCalls_update (\<lambda>t. tc_id t = ap_toolCallId appr) (\<lambda>t. t\<lparr>tc_approvalStatus := ''rejected''\<rparr>)) (\<lambda>_.
     act_bind (appendAudit (ae_crypto A) now (audit_input w (Some decidedBy) ''tool_rejected'' (Some (ap_tool appr @ '':'' @ ap_id appr)))) (\<lambda>_.
     act_return ())))"

definition claim_approval :: "uuid \<Rightarrow> uuid \<Rightarrow> (db, bool) act" where
  "claim_approval w approvalId = (let P = (\<lambda>r. ap_workspaceId r = w \<and> ap_id r = approvalId \<and> ap_status r = ''pending'') in
     act_bind (act_get (\<lambda>s. rows_where P (agentApprovals s))) (\<lambda>rows.
     act_bind (tbl_update agentApprovals_update P (\<lambda>r. r\<lparr>ap_status := ''executing''\<rparr>)) (\<lambda>_.
     act_return (rows \<noteq> []))))"

definition release_claim :: "uuid \<Rightarrow> (db, unit) act" where
  "release_claim approvalId = tbl_update agentApprovals_update (\<lambda>r. ap_id r = approvalId \<and> ap_status r = ''executing'')
     (\<lambda>r. r\<lparr>ap_status := ''pending''\<rparr>)"

definition record_approval :: "approval_env \<Rightarrow> ms \<Rightarrow> uuid \<Rightarrow> string \<Rightarrow> approval_row \<Rightarrow> string \<Rightarrow> (db, unit) act" where
  "record_approval A now w decidedBy appr result =
     act_bind (tbl_update agentApprovals_update (\<lambda>r. ap_id r = ap_id appr)
        (\<lambda>r. r\<lparr>ap_status := ''approved'', ap_decidedBySub := Some decidedBy, ap_decidedAt := Some now\<rparr>)) (\<lambda>_.
     act_bind (tbl_update agentToolCalls_update (\<lambda>t. tc_id t = ap_toolCallId appr) (\<lambda>t. t\<lparr>tc_approvalStatus := ''approved''\<rparr>)) (\<lambda>_.
     act_bind (finishToolCall A (ap_toolCallId appr) result) (\<lambda>_.
     act_bind (appendAudit (ae_crypto A) now (audit_input w (Some decidedBy) ''tool_approved'' (Some (ap_tool appr @ '':'' @ ap_id appr)))) (\<lambda>_.
     act_return ()))))"

definition decideApproval :: "approval_env \<Rightarrow> ms \<Rightarrow> uuid \<Rightarrow> uuid \<Rightarrow> string \<Rightarrow> Role \<Rightarrow> decision \<Rightarrow> (db, decide_result) act" where
  "decideApproval A now w approvalId decidedBy role dec =
     act_bind (act_get (\<lambda>s. approval_at s w approvalId)) (\<lambda>found. case found of
       None \<Rightarrow> act_return (NotDecided ''not_found'')
     | Some appr \<Rightarrow>
        if ap_status appr \<noteq> ''pending'' then act_return (NotDecided ''already_decided'')
        else if dec = Reject then act_bind (record_rejection A now w decidedBy appr) (\<lambda>_. act_return Decided)
        else (case read_payload A w (or_empty (ap_payloadEnc appr)) of
           None \<Rightarrow> act_return (NotDecided ''bad_payload'')
         | Some action \<Rightarrow> (case approvalAuthzError role action decidedBy (ap_requestedBySub appr) of
             Some e \<Rightarrow> act_throw (GuardError 403 e)
           | None \<Rightarrow> act_bind (claim_approval w approvalId) (\<lambda>claimed.
               if \<not> claimed then act_return (NotDecided ''already_decided'')
               else act_bind (act_try (act_bind (ae_execute A w action (ap_requestedBySub appr) (ap_personaId appr)) (\<lambda>r. act_return (Some r)))
                                (\<lambda>_. act_return None)) (\<lambda>outcome. case outcome of
                   None \<Rightarrow> act_bind (release_claim approvalId) (\<lambda>_. act_return (NotDecided ''execution_failed''))
                 | Some result \<Rightarrow> act_bind (record_approval A now w decidedBy appr result) (\<lambda>_. act_return Decided))))))"

subsection \<open>Integrity\<close>

lemma db_ok_tool_calls_update [inv_intros]:
  "(\<And>t. P t \<Longrightarrow> tc_id (f t) = tc_id t) \<Longrightarrow> preserves db_ok (tbl_update agentToolCalls_update P f)"
  by (rule preserves_tbl_update) (simp add: db_ok_defs key_fun_upd_where image_upd_where)

lemma db_ok_approvals_update [inv_intros]:
  "(\<And>r. P r \<Longrightarrow> ap_id (f r) = ap_id r \<and> ap_toolCallId (f r) = ap_toolCallId r) \<Longrightarrow>
   preserves db_ok (tbl_update agentApprovals_update P f)"
  by (rule preserves_tbl_update) (simp add: db_ok_defs key_fun_upd_where ball_upd_where)

lemma db_ok_logToolCall [inv_intros]: "preserves db_ok (logToolCall A now n c t j r st)"
  unfolding logToolCall_def by (intro inv_intros)

lemma db_ok_finishToolCall [inv_intros]: "preserves db_ok (finishToolCall A t r)"
  unfolding finishToolCall_def by (intro inv_intros) simp_all

lemma db_ok_enqueueApproval [inv_intros]: "preserves db_ok (enqueueApproval A now c f n iv a)"
  unfolding enqueueApproval_def fallbackToolCall_def Let_def by (intro inv_intros)

lemma db_ok_record_rejection [inv_intros]: "preserves db_ok (record_rejection A now w d a)"
  unfolding record_rejection_def by (intro inv_intros) simp_all

lemma db_ok_record_approval [inv_intros]: "preserves db_ok (record_approval A now w d a r)"
  unfolding record_approval_def by (intro inv_intros) simp_all

lemma db_ok_decideApproval [inv_intros]:
  "(\<And>w a b p. preserves db_ok (ae_execute A w a b p)) \<Longrightarrow> preserves db_ok (decideApproval A now w i d r dec)"
  unfolding decideApproval_def claim_approval_def release_claim_def Let_def by (intro inv_intros) simp_all

subsection \<open>No privileged act through the queue\<close>

text \<open>Whatever the database holds, if a decision to approve changes anything at all, then the approval was pending in that workspace, the approver's
  role holds the capability that the table names for the stored action, and a high-risk action was not requested by the approver.\<close>

lemma approval_effect_gated:
  assumes "decideApproval A now w i d role Approve s = (res, s')" "s' \<noteq> s"
  shows "\<exists>appr action. approval_at s w i = Some appr \<and> ap_status appr = ''pending''
     \<and> read_payload A w (or_empty (ap_payloadEnc appr)) = Some action
     \<and> can role (CAP_BY_KIND action) \<and> (RISK_BY_KIND action = High \<longrightarrow> d \<noteq> ap_requestedBySub appr)"
proof (cases "approval_at s w i")
  case None
  then show ?thesis using assms by (simp add: decideApproval_def act_return_run)
next
  case (Some appr)
  have p: "ap_status appr = ''pending''"
  proof (rule ccontr)
    assume "ap_status appr \<noteq> ''pending''"
    then show False using assms Some by (simp add: decideApproval_def act_return_run)
  qed
  show ?thesis
  proof (cases "read_payload A w (or_empty (ap_payloadEnc appr))")
    case None
    then show ?thesis using assms Some p by (simp add: decideApproval_def act_return_run)
  next
    case (Some action)
    then have "approvalAuthzError role action d (ap_requestedBySub appr) = None"
      using assms \<open>approval_at s w i = Some appr\<close> p
      by (cases "approvalAuthzError role action d (ap_requestedBySub appr)") (simp_all add: decideApproval_def act_throw_def)
    then show ?thesis
      using Some \<open>approval_at s w i = Some appr\<close> p by (auto simp: approvalAuthzError_def split: if_splits)
  qed
qed

subsection \<open>What is approved is what was queued\<close>

definition json_ok :: "approval_env \<Rightarrow> AgentAction \<Rightarrow> bool" where
  "json_ok A a \<longleftrightarrow> ae_parse A (ae_stringify A a) = Some a \<and> ae_stringify A a \<noteq> []"

lemma frames_approvals_log [frame_intros]:
  "frames agentApprovals (logToolCall A now n c t j r st)" "frames agentApprovals (fallbackToolCall now n a)"
  unfolding logToolCall_def fallbackToolCall_def insert_tool_call_def by (intro frame_intros frames_tbl_insert; simp)+

lemma insert_approval_InrD:
  "insert_approval r s = (Inr x, t) \<Longrightarrow>
   x = r \<and> agentApprovals t = agentApprovals s @ [r] \<and> (\<forall>y\<in>set (agentApprovals s). ap_id y \<noteq> ap_id r)"
  by (auto simp: insert_approval_def tbl_insert_def image_iff split: if_splits)

lemma encryptField_nonempty: "encryptField E iv w m = Inr enc \<Longrightarrow> enc \<noteq> []"
  by (auto simp: encryptField_def split: sum.splits prod.splits)

text \<open>What is decided is what was proposed: after an action is queued, the entry is pending, holds exactly that
  action, and the inbox describes exactly that action; for a sandbox command the description contains
  the whole command, however long.\<close>

theorem queued_action_is_shown:
  assumes key: "provisioned_gcm (ae_crypto A)" "json_ok A (ea_action a)" "iv \<noteq> []" and ok: "db_ok s"
    and run: "enqueueApproval A now c f n iv a s = (Inr (n', risk), s')"
  shows "\<exists>appr. approval_at s' (ea_workspaceId a) n' = Some appr \<and> n' = n \<and> ap_status appr = ''pending''
     \<and> risk = RISK_BY_KIND (ea_action a) \<and> ap_requestedBySub appr = ea_requestedBySub a
     \<and> read_payload A (ea_workspaceId a) (or_empty (ap_payloadEnc appr)) = Some (ea_action a)
     \<and> approval_summary A (ea_workspaceId a) appr = describeAction (ae_stringify_patch A) (ea_action a)
     \<and> (\<forall>cmd cwd. ea_action a = RunnerTerminal cmd cwd \<longrightarrow> ends_with cmd (approval_summary A (ea_workspaceId a) appr))"
proof -
  let ?w = "ea_workspaceId a"
  let ?row = "\<lambda>tc enc. \<lparr>ap_id = n, ap_workspaceId = ?w, ap_toolCallId = tc, ap_tool = ea_tool a,
        ap_risk = risk_name (RISK_BY_KIND (ea_action a)), ap_payloadEnc = Some enc, ap_requestedBySub = ea_requestedBySub a,
        ap_personaId = ea_personaId a, ap_decidedBySub = None, ap_status = ''pending'', ap_createdAt = now, ap_decidedAt = None\<rparr>"
  obtain lg s1 where l: "logToolCall A now c \<lparr>tx_workspaceId = ?w, tx_threadId = ea_threadId a,
        tx_personaId = ea_personaId a, tx_invokedBySub = Some (ea_requestedBySub a)\<rparr> (ea_tool a)
        (ae_stringify A (ea_action a)) ''[held-for-approval]'' ''pending'' s = (Inr lg, s1)"
    and r1: "act_bind (case lg of Some c \<Rightarrow> act_return c | None \<Rightarrow> fallbackToolCall now f a) (\<lambda>tc.
       act_bind (act_lift (encryptField (ae_crypto A) iv ?w (ae_stringify A (ea_action a)))) (\<lambda>enc.
       act_bind (insert_approval (?row tc enc)) (\<lambda>row.
       act_bind (appendAudit (ae_crypto A) now (audit_input ?w (Some (ea_requestedBySub a)) ''tool_pending_approval''
        (Some (ea_tool a @ '':'' @ ap_id row)))) (\<lambda>_.
       act_return (ap_id row, RISK_BY_KIND (ea_action a)))))) s1 = (Inr (n', risk), s')"
    using run unfolding enqueueApproval_def Let_def by (rule act_bind_InrE)
  from r1 obtain tc s2 where t: "(case lg of Some c \<Rightarrow> act_return c | None \<Rightarrow> fallbackToolCall now f a) s1 = (Inr tc, s2)"
    and r2: "act_bind (act_lift (encryptField (ae_crypto A) iv ?w (ae_stringify A (ea_action a)))) (\<lambda>enc.
       act_bind (insert_approval (?row tc enc)) (\<lambda>row.
       act_bind (appendAudit (ae_crypto A) now (audit_input ?w (Some (ea_requestedBySub a)) ''tool_pending_approval''
        (Some (ea_tool a @ '':'' @ ap_id row)))) (\<lambda>_.
       act_return (ap_id row, RISK_BY_KIND (ea_action a))))) s2 = (Inr (n', risk), s')"
    by (rule act_bind_InrE)
  obtain enc where enc: "encryptField (ae_crypto A) iv ?w (ae_stringify A (ea_action a)) = Inr enc"
    using key(1) by (meson encryptField_Inr)
  have dec: "decryptField (ae_crypto A) ?w enc = Inr (ae_stringify A (ea_action a))" and ne: "enc \<noteq> []"
    using decrypt_encrypt [OF _ _ key(3) _ enc] key(1,2) encryptField_nonempty [OF enc] by (simp_all add: json_ok_def)
  from r2 obtain row s3 where i: "insert_approval (?row tc enc) s2 = (Inr row, s3)"
    and r3: "act_bind (appendAudit (ae_crypto A) now (audit_input ?w (Some (ea_requestedBySub a)) ''tool_pending_approval''
        (Some (ea_tool a @ '':'' @ ap_id row)))) (\<lambda>_. act_return (ap_id row, RISK_BY_KIND (ea_action a))) s3 = (Inr (n', risk), s')"
    unfolding enc act_bind_lift_Inr by (rule act_bind_InrE)
  note I = insert_approval_InrD [OF i]
  have s3: "row = ?row tc enc" "agentApprovals s3 = agentApprovals s2 @ [?row tc enc]" using I by blast+
  have fresh: "\<forall>r\<in>set (agentApprovals s2). ap_id r \<noteq> n"
    using I [THEN conjunct2, THEN conjunct2] unfolding approval_row.select_convs .
  obtain v u where u: "appendAudit (ae_crypto A) now (audit_input ?w (Some (ea_requestedBySub a)) ''tool_pending_approval''
        (Some (ea_tool a @ '':'' @ ap_id row))) s3 = (Inr v, u)" "act_return (ap_id row, RISK_BY_KIND (ea_action a)) u = (Inr (n', risk), s')"
    using r3 by (rule act_bind_InrE)
  then have v: "u = s'" "n' = ap_id row" "risk = RISK_BY_KIND (ea_action a)" by (simp_all add: act_return_run)
  have n: "n' = n" using v(2) s3(1) by simp
  have "frames agentApprovals (appendAudit (ae_crypto A) now (audit_input ?w (Some (ea_requestedBySub a)) ''tool_pending_approval''
        (Some (ea_tool a @ '':'' @ ap_id row))))" by (intro frame_intros) simp_all
  from framesD [OF this u(1)] have "approval_at s' ?w n = Some (?row tc enc)"
    using s3(2) fresh v(1) by (auto simp: approval_at_def first_where_append first_where_None_iff split: option.split dest: first_where_SomeD)
  moreover have "read_payload A ?w enc = Some (ea_action a)" using dec key(2) by (simp add: read_payload_def json_ok_def)
  ultimately show ?thesis using v(3) n ne
    by (intro exI [of _ "?row tc enc"]) (auto simp: or_empty_def approval_summary_def ends_with_iff)
qed

subsection \<open>Concurrent decisions\<close>

text \<open>Any number of requests, each with its own decision, work on one approval at the same time. A request is where
  the statements of \<open>decideApproval\<close> leave it: before its read, after it with the row it read and the action it is
  about to reject or to claim, executing, or recording the outcome. Every step is one statement against the
  shared database, except that the updates after the status update in a recording step, which touch
  other tables only, are taken together with it. \<open>runs\<close> counts the executions that succeeded.\<close>

datatype phase =
    Reading
  | Rejecting approval_row
  | Claiming approval_row AgentAction
  | Executing approval_row AgentAction
  | Recording approval_row string
  | Releasing approval_row
  | Done

record decider =
  dr_sub :: string
  dr_role :: Role
  dr_decision :: decision

record decisions =
  shared :: db
  at :: "nat \<Rightarrow> phase"
  runs :: nat

definition read_phase :: "approval_env \<Rightarrow> uuid \<Rightarrow> uuid \<Rightarrow> decider \<Rightarrow> db \<Rightarrow> phase" where
  "read_phase A w i d s = (case approval_at s w i of
      None \<Rightarrow> Done
    | Some appr \<Rightarrow>
        if ap_status appr \<noteq> ''pending'' then Done
        else if dr_decision d = Reject then Rejecting appr
        else (case read_payload A w (or_empty (ap_payloadEnc appr)) of
            None \<Rightarrow> Done
          | Some action \<Rightarrow> (case approvalAuthzError (dr_role d) action (dr_sub d) (ap_requestedBySub appr) of
              Some _ \<Rightarrow> Done | None \<Rightarrow> Claiming appr action)))"

inductive dstep :: "approval_env \<Rightarrow> uuid \<Rightarrow> uuid \<Rightarrow> (nat \<Rightarrow> decider) \<Rightarrow> decisions \<Rightarrow> decisions \<Rightarrow> bool"
  for A :: approval_env and w i :: uuid and who :: "nat \<Rightarrow> decider" where
  read: "at x t = Reading \<Longrightarrow> dstep A w i who x (x\<lparr>at := (at x)(t := read_phase A w i (who t) (shared x))\<rparr>)"
| reject: "at x t = Rejecting appr \<Longrightarrow>
    dstep A w i who x (x\<lparr>shared := snd (record_rejection A now w (dr_sub (who t)) appr (shared x)), at := (at x)(t := Done)\<rparr>)"
| claim_won: "at x t = Claiming appr action \<Longrightarrow> claim_approval w i (shared x) = (Inr True, s') \<Longrightarrow>
    dstep A w i who x (x\<lparr>shared := s', at := (at x)(t := Executing appr action)\<rparr>)"
| claim_lost: "at x t = Claiming appr action \<Longrightarrow> claim_approval w i (shared x) = (Inr False, s') \<Longrightarrow>
    dstep A w i who x (x\<lparr>shared := s', at := (at x)(t := Done)\<rparr>)"
| exec_ok: "at x t = Executing appr action \<Longrightarrow>
    ae_execute A w action (ap_requestedBySub appr) (ap_personaId appr) (shared x) = (Inr r, s') \<Longrightarrow>
    dstep A w i who x (x\<lparr>shared := s', at := (at x)(t := Recording appr r), runs := runs x + 1\<rparr>)"
| exec_failed: "at x t = Executing appr action \<Longrightarrow>
    ae_execute A w action (ap_requestedBySub appr) (ap_personaId appr) (shared x) = (Inl e, s') \<Longrightarrow>
    dstep A w i who x (x\<lparr>shared := s', at := (at x)(t := Releasing appr)\<rparr>)"
| record_ok: "at x t = Recording appr r \<Longrightarrow>
    dstep A w i who x (x\<lparr>shared := snd (record_approval A now w (dr_sub (who t)) appr r (shared x)), at := (at x)(t := Done)\<rparr>)"
| release: "at x t = Releasing appr \<Longrightarrow>
    dstep A w i who x (x\<lparr>shared := snd (release_claim i (shared x)), at := (at x)(t := Done)\<rparr>)"

definition fresh_decisions :: "db \<Rightarrow> decisions" where
  "fresh_decisions s = \<lparr>shared = s, at = (\<lambda>_. Reading), runs = 0\<rparr>"

text \<open>What the statuses say about the approval, and what the theorem asks of the executed actions: they leave the
  statuses in the queue alone.\<close>

definition is_pending :: "uuid \<Rightarrow> db \<Rightarrow> bool" where
  "is_pending i s \<longleftrightarrow> (\<exists>r\<in>set (agentApprovals s). ap_id r = i \<and> ap_status r = ''pending'')"

definition executor_leaves_queue :: "approval_env \<Rightarrow> uuid \<Rightarrow> bool" where
  "executor_leaves_queue A i \<longleftrightarrow> (\<forall>w a b p s. let s' = snd (ae_execute A w a b p s) in
     (key_fun ap_id (agentApprovals s) \<longrightarrow> key_fun ap_id (agentApprovals s')) \<and> (is_pending i s' \<longrightarrow> is_pending i s))"

definition in_flight :: "phase \<Rightarrow> bool" where
  "in_flight p = (case p of Executing _ _ \<Rightarrow> True | Recording _ _ \<Rightarrow> True | Releasing _ \<Rightarrow> True | _ \<Rightarrow> False)"

definition undecided_run :: "phase \<Rightarrow> bool" where
  "undecided_run p = (case p of Executing _ _ \<Rightarrow> True | Releasing _ \<Rightarrow> True | _ \<Rightarrow> False)"

fun phase_row :: "phase \<Rightarrow> approval_row option" where
  "phase_row (Rejecting a) = Some a"
| "phase_row (Claiming a _) = Some a"
| "phase_row (Executing a _) = Some a"
| "phase_row (Recording a _) = Some a"
| "phase_row (Releasing a) = Some a"
| "phase_row _ = None"

definition decisions_inv :: "uuid \<Rightarrow> decisions \<Rightarrow> bool" where
  "decisions_inv i x \<longleftrightarrow> key_fun ap_id (agentApprovals (shared x))
     \<and> (\<forall>t a. phase_row (at x t) = Some a \<longrightarrow> ap_id a = i)
     \<and> (\<forall>t u. in_flight (at x t) \<longrightarrow> in_flight (at x u) \<longrightarrow> t = u)
     \<and> (\<forall>t. in_flight (at x t) \<longrightarrow> \<not> is_pending i (shared x))
     \<and> runs x \<le> 1
     \<and> (runs x = 1 \<longrightarrow> \<not> is_pending i (shared x) \<and> (\<forall>t. \<not> undecided_run (at x t)))"

lemma bex_upd_where: "(\<exists>r\<in>set (upd_where P f rs). Q r) \<longleftrightarrow> (\<exists>r\<in>set rs. if P r then Q (f r) else Q r)"
  by (induction rs) auto

lemma agentApprovals_record [simp]:
  "agentApprovals (snd (record_rejection A now w d a s)) = upd_where (\<lambda>r. ap_id r = ap_id a)
     (\<lambda>r. r\<lparr>ap_status := ''rejected'', ap_decidedBySub := Some d, ap_decidedAt := Some now\<rparr>) (agentApprovals s)"
  "agentApprovals (snd (record_approval A now w d a q s)) = upd_where (\<lambda>r. ap_id r = ap_id a)
     (\<lambda>r. r\<lparr>ap_status := ''approved'', ap_decidedBySub := Some d, ap_decidedAt := Some now\<rparr>) (agentApprovals s)"
proof -
  have fin: "frames agentApprovals (finishToolCall A t q)" for t
    unfolding finishToolCall_def by (intro frame_intros frames_tbl_update) simp
  let ?m1 = "act_bind (tbl_update agentToolCalls_update (\<lambda>t. tc_id t = ap_toolCallId a) (\<lambda>t. t\<lparr>tc_approvalStatus := ''rejected''\<rparr>)) (\<lambda>_.
     act_bind (appendAudit (ae_crypto A) now (audit_input w (Some d) ''tool_rejected'' (Some (ap_tool a @ '':'' @ ap_id a)))) (\<lambda>_. act_return ()))"
  let ?m2 = "act_bind (tbl_update agentToolCalls_update (\<lambda>t. tc_id t = ap_toolCallId a) (\<lambda>t. t\<lparr>tc_approvalStatus := ''approved''\<rparr>)) (\<lambda>_.
     act_bind (finishToolCall A (ap_toolCallId a) q) (\<lambda>_.
     act_bind (appendAudit (ae_crypto A) now (audit_input w (Some d) ''tool_approved'' (Some (ap_tool a @ '':'' @ ap_id a)))) (\<lambda>_. act_return ())))"
  have f: "frames agentApprovals ?m1" "frames agentApprovals ?m2"
    by (intro frame_intros frames_tbl_update fin; simp)+
  show "agentApprovals (snd (record_rejection A now w d a s)) = upd_where (\<lambda>r. ap_id r = ap_id a)
     (\<lambda>r. r\<lparr>ap_status := ''rejected'', ap_decidedBySub := Some d, ap_decidedAt := Some now\<rparr>) (agentApprovals s)"
    using frames_snd [OF f(1), of "agentApprovals_update (upd_where (\<lambda>r. ap_id r = ap_id a)
      (\<lambda>r. r\<lparr>ap_status := ''rejected'', ap_decidedBySub := Some d, ap_decidedAt := Some now\<rparr>)) s"]
    by (simp add: record_rejection_def)
  show "agentApprovals (snd (record_approval A now w d a q s)) = upd_where (\<lambda>r. ap_id r = ap_id a)
     (\<lambda>r. r\<lparr>ap_status := ''approved'', ap_decidedBySub := Some d, ap_decidedAt := Some now\<rparr>) (agentApprovals s)"
    using frames_snd [OF f(2), of "agentApprovals_update (upd_where (\<lambda>r. ap_id r = ap_id a)
      (\<lambda>r. r\<lparr>ap_status := ''approved'', ap_decidedBySub := Some d, ap_decidedAt := Some now\<rparr>)) s"]
    by (simp add: record_approval_def)
qed

lemma claim_approval_run:
  "claim_approval w i s = (Inr (\<exists>r\<in>set (agentApprovals s). ap_workspaceId r = w \<and> ap_id r = i \<and> ap_status r = ''pending''),
     agentApprovals_update (upd_where (\<lambda>r. ap_workspaceId r = w \<and> ap_id r = i \<and> ap_status r = ''pending'')
       (\<lambda>r. r\<lparr>ap_status := ''executing''\<rparr>)) s)"
  by (auto simp: claim_approval_def Let_def act_return_run rows_where_def filter_empty_conv)

lemma claim_not_pending:
  assumes "key_fun ap_id (agentApprovals s)" "claim_approval w i s = (Inr True, s')"
  shows "\<not> is_pending i s'"
proof -
  obtain r where r: "r \<in> set (agentApprovals s)" "ap_workspaceId r = w" "ap_id r = i" "ap_status r = ''pending''"
    using assms(2) by (auto simp: claim_approval_run)
  have "x = r" if "x \<in> set (agentApprovals s)" "ap_id x = i" for x using key_fun_eq [OF assms(1)] r that by blast
  then have "\<forall>x\<in>set (agentApprovals s). ap_id x = i \<longrightarrow> ap_workspaceId x = w \<and> ap_status x = ''pending''" using r by blast
  moreover have "agentApprovals s' = upd_where (\<lambda>r. ap_workspaceId r = w \<and> ap_id r = i \<and> ap_status r = ''pending'')
       (\<lambda>r. r\<lparr>ap_status := ''executing''\<rparr>) (agentApprovals s)"
    using assms(2) by (auto simp: claim_approval_run)
  ultimately show ?thesis by (auto simp: is_pending_def bex_upd_where)
qed

lemma claim_lost_pending:
  assumes "claim_approval w i s = (Inr False, s')"
  shows "agentApprovals s' = agentApprovals s"
  using assms by (auto simp: claim_approval_run intro!: upd_where_idem)

lemma read_phase_row: "phase_row (read_phase A w i d s) = Some a \<Longrightarrow> ap_id a = i"
  "\<not> in_flight (read_phase A w i d s)" "\<not> undecided_run (read_phase A w i d s)"
  by (auto simp: read_phase_def approval_at_def in_flight_def undecided_run_def split: option.splits if_splits dest: first_where_SomeD)

lemma recorded_not_pending:
  "\<not> is_pending (ap_id a) (snd (record_rejection A now w d a s))" "\<not> is_pending (ap_id a) (snd (record_approval A now w d a q s))"
  by (auto simp: is_pending_def bex_upd_where)

lemma recorded_keys [simp]:
  "key_fun ap_id (agentApprovals (snd (record_rejection A now w d a s))) = key_fun ap_id (agentApprovals s)"
  "key_fun ap_id (agentApprovals (snd (record_approval A now w d a q s))) = key_fun ap_id (agentApprovals s)"
  "key_fun ap_id (agentApprovals (snd (release_claim i s))) = key_fun ap_id (agentApprovals s)"
  "claim_approval w i s = (Inr b, s') \<Longrightarrow> key_fun ap_id (agentApprovals s') = key_fun ap_id (agentApprovals s)"
  by (auto simp: key_fun_upd_where release_claim_def tbl_update_def claim_approval_run)

lemma phase_flags [simp]:
  "in_flight Reading = False" "in_flight (Rejecting a) = False" "in_flight (Claiming a b) = False" "in_flight (Executing a b) = True"
  "in_flight (Recording a q) = True" "in_flight (Releasing a) = True" "in_flight Done = False"
  "undecided_run Reading = False" "undecided_run (Rejecting a) = False" "undecided_run (Claiming a b) = False"
  "undecided_run (Executing a b) = True" "undecided_run (Recording a q) = False" "undecided_run (Releasing a) = True"
  "undecided_run Done = False"
  by (simp_all add: in_flight_def undecided_run_def)

lemma undecided_in_flight: "undecided_run p \<Longrightarrow> in_flight p"
  by (cases p) simp_all

lemma decisions_inv_step:
  assumes ex: "executor_leaves_queue A i" and inv: "decisions_inv i x" and st: "dstep A w i who x y"
  shows "decisions_inv i y"
proof -
  have E: "key_fun ap_id (agentApprovals s')" "is_pending i s' \<Longrightarrow> is_pending i s"
    if "ae_execute A w' a b p s = (r, s')" "key_fun ap_id (agentApprovals s)" for w' a b p s r s'
    using ex that by (auto simp: executor_leaves_queue_def Let_def dest: spec [of _ w'] spec [of _ a] spec [of _ b] spec [of _ p] spec [of _ s])
      (metis snd_conv)+
  have I: "key_fun ap_id (agentApprovals (shared x))" "\<And>t a. phase_row (at x t) = Some a \<Longrightarrow> ap_id a = i"
    "\<And>t u. in_flight (at x t) \<Longrightarrow> in_flight (at x u) \<Longrightarrow> t = u" "\<And>t. in_flight (at x t) \<Longrightarrow> \<not> is_pending i (shared x)"
    "runs x \<le> 1" "runs x = 1 \<Longrightarrow> \<not> is_pending i (shared x)" "\<And>t. runs x = 1 \<Longrightarrow> \<not> undecided_run (at x t)"
    using inv by (auto simp: decisions_inv_def)
  show ?thesis using st
  proof cases
    case (read t)
    then show ?thesis using I read_phase_row [of A w i "who t" "shared x"] by (auto simp: decisions_inv_def)
  next
    case (reject t appr now)
    have "ap_id appr = i" using I(2) [of t] reject by simp
    then show ?thesis using reject I recorded_not_pending(1) [of appr A now w "dr_sub (who t)" "shared x"]
      by (auto simp: decisions_inv_def simp del: agentApprovals_record)
  next
    case (claim_won t appr action s')
    have p: "is_pending i (shared x)" using claim_won(3) by (auto simp: claim_approval_run is_pending_def)
    then have none: "\<not> in_flight (at x u)" for u using I(4) by blast
    have "runs x = 0" using I(5,6) p by (cases "runs x") auto
    then show ?thesis
      using claim_won I(1,2) none claim_not_pending [OF I(1) claim_won(3)] I(2) [of t] by (auto simp: decisions_inv_def)
  next
    case (claim_lost t appr action s')
    then show ?thesis
      using I claim_lost_pending [OF claim_lost(3)] by (auto simp: decisions_inv_def is_pending_def)
  next
    case (exec_ok t appr action r s')
    have np: "\<not> is_pending i s'" using E(2) [OF exec_ok(3) I(1)] I(4) [of t] exec_ok(2) by auto
    have "runs x = 0" using I(5) I(7) [of t] exec_ok(2) by (cases "runs x") auto
    moreover have "\<not> in_flight (at x u)" if "u \<noteq> t" for u using I(3) [of u t] exec_ok(2) that by auto
    ultimately show ?thesis
      using exec_ok I(1,2) np E(1) [OF exec_ok(3) I(1)] I(2) [of t] undecided_in_flight by (auto simp: decisions_inv_def)
  next
    case (exec_failed t appr action e s')
    have np: "\<not> is_pending i s'" using E(2) [OF exec_failed(3) I(1)] I(4) [of t] exec_failed(2) by auto
    have "runs x = 0" using I(5) I(7) [of t] exec_failed(2) by (cases "runs x") auto
    moreover have "\<not> in_flight (at x u)" if "u \<noteq> t" for u using I(3) [of u t] exec_failed(2) that by auto
    ultimately show ?thesis
      using exec_failed I(1,2) np E(1) [OF exec_failed(3) I(1)] I(2) [of t] by (auto simp: decisions_inv_def)
  next
    case (record_ok t appr r now)
    have "ap_id appr = i" using I(2) [of t] record_ok by simp
    then show ?thesis using record_ok I recorded_not_pending(2) [of appr A now w "dr_sub (who t)" r "shared x"]
      by (auto simp: decisions_inv_def simp del: agentApprovals_record)
  next
    case (release t appr)
    have "runs x = 0" using I(5) I(7) [of t] release(2) by (cases "runs x") auto
    moreover have "\<not> in_flight (at x u)" if "u \<noteq> t" for u using I(3) [of u t] release(2) that by auto
    ultimately show ?thesis using release I(1,2) by (auto simp: decisions_inv_def)
  qed
qed

interpretation decisions: invariant_system
  "\<lambda>x. \<exists>s. x = fresh_decisions s \<and> key_fun ap_id (agentApprovals s)"
  "\<lambda>x y. executor_leaves_queue A i \<and> dstep A w i who x y" "decisions_inv i" for A w i who
proof
  show "\<exists>s. x = fresh_decisions s \<and> key_fun ap_id (agentApprovals s) \<Longrightarrow> decisions_inv i x" for x
    by (auto simp: decisions_inv_def fresh_decisions_def)
  show "decisions_inv i x \<Longrightarrow> executor_leaves_queue A i \<and> dstep A w i who x y \<Longrightarrow> decisions_inv i y" for x y
    using decisions_inv_step by blast
qed

lemma reach_mono:
  assumes "reach init st x" "\<And>x. init x \<Longrightarrow> init' x" "\<And>x y. st x y \<Longrightarrow> st' x y"
  shows "reach init' st' x"
  using assms(1) by (induction rule: reach.induct) (auto intro: reach.intros assms(2,3))

text \<open>C4. At most once: whatever requests to approve and to reject one queued action arrive, in whatever order their
  statements interleave and however often the execution fails and is retried, the action is never being
  executed by two of them at a time and succeeds at most once. The executed action itself is assumed to leave
  the queue's statuses alone.\<close>

theorem approved_action_runs_at_most_once:
  assumes "executor_leaves_queue A i" "key_fun ap_id (agentApprovals s)"
    and "reach (\<lambda>x. x = fresh_decisions s) (dstep A w i who) x"
  shows "runs x \<le> 1 \<and> (\<forall>t u. in_flight (at x t) \<longrightarrow> in_flight (at x u) \<longrightarrow> t = u)"
proof -
  have "reach (\<lambda>x. \<exists>s. x = fresh_decisions s \<and> key_fun ap_id (agentApprovals s))
      (\<lambda>x y. executor_leaves_queue A i \<and> dstep A w i who x y) x"
    by (rule reach_mono [OF assms(3)]) (use assms(1,2) in auto)
  then have "decisions_inv i x" by (rule decisions.reach_inv)
  then show ?thesis by (simp add: decisions_inv_def)
qed

lemma approval_at_upd:
  assumes "agentApprovals s' = upd_where P f (agentApprovals s)" "\<And>r. ap_workspaceId (f r) = ap_workspaceId r \<and> ap_id (f r) = ap_id r"
  shows "approval_at s' w i = map_option (\<lambda>r. if P r then f r else r) (approval_at s w i)"
  unfolding approval_at_def assms(1) by (rule first_where_upd_where) (simp add: assms(2))

text \<open>C19. A rejection is not guarded the same way: a request that read the approval while it was pending can record its
  rejection after another request has executed the action. The action has then run, exactly once, and the approval
  stands as rejected with both requests finished.\<close>

theorem rejected_although_executed:
  assumes appr: "approval_at s w i = Some appr" "ap_status appr = ''pending''"
    and act: "read_payload A w (or_empty (ap_payloadEnc appr)) = Some action"
    and auth: "approvalAuthzError (dr_role (who 0)) action (dr_sub (who 0)) (ap_requestedBySub appr) = None"
    and dec: "dr_decision (who 0) = Approve" "dr_decision (who 1) = Reject"
    and exec: "\<And>s. \<exists>r s'. ae_execute A w action (ap_requestedBySub appr) (ap_personaId appr) s = (Inr r, s')
        \<and> agentApprovals s' = agentApprovals s"
  shows "\<exists>x r. reach (\<lambda>x. x = fresh_decisions s) (dstep A w i who) x \<and> at x 0 = Done \<and> at x 1 = Done \<and> runs x = 1
     \<and> approval_at (shared x) w i = Some r \<and> ap_status r = ''rejected''"
proof -
  have ids: "ap_id appr = i" "ap_workspaceId appr = w" "appr \<in> set (agentApprovals s)"
    using appr(1) first_where_SomeD unfolding approval_at_def by fastforce+
  let ?R = "reach (\<lambda>x. x = fresh_decisions s) (dstep A w i who)"
  obtain s1 where s1: "claim_approval w i s = (Inr True, s1)"
    using ids appr(2) by (auto simp: claim_approval_run)
  obtain r s2 where s2: "ae_execute A w action (ap_requestedBySub appr) (ap_personaId appr) s1 = (Inr r, s2)"
    "agentApprovals s2 = agentApprovals s1" using exec by blast
  let ?s3 = "snd (record_approval A 0 w (dr_sub (who 0)) appr r s2)"
  let ?s4 = "snd (record_rejection A 0 w (dr_sub (who 1)) appr ?s3)"
  let ?x = "\<lambda>s p q n. \<lparr>shared = s, at = (\<lambda>_. Reading)(0 := p, 1 := q), runs = n\<rparr>"
  have go: "?R x \<Longrightarrow> dstep A w i who x y \<Longrightarrow> ?R y" for x y by (rule reach_step)
  have start: "?R (?x s Reading Reading 0)"
    by (rule reach_init) (auto simp: fresh_decisions_def)
  have r0: "?R (?x s (Claiming appr action) Reading 0)"
    using go [OF start dstep.read [of _ 0 A w i who]] appr act auth dec(1)
    by (simp add: read_phase_def fun_upd_twist)
  have r1: "?R (?x s (Claiming appr action) (Rejecting appr) 0)"
    using go [OF r0 dstep.read [of _ 1 A w i who]] appr dec(2) by (simp add: read_phase_def)
  have r2: "?R (?x s1 (Executing appr action) (Rejecting appr) 0)"
    using go [OF r1 dstep.claim_won [of _ 0 appr action w i s1 A who]] s1 by (simp add: fun_upd_twist)
  have r3: "?R (?x s2 (Recording appr r) (Rejecting appr) 1)"
    using go [OF r2 dstep.exec_ok [of _ 0 appr action A w r s2 i who]] s2 by (simp add: fun_upd_twist)
  have r4: "?R (?x ?s3 Done (Rejecting appr) 1)"
    using go [OF r3 dstep.record_ok [of _ 0 appr r A w i who 0]] by (simp add: fun_upd_twist)
  have r5: "?R (?x ?s4 Done Done 1)"
    using go [OF r4 dstep.reject [of _ 1 appr A w i who 0]] by (simp add: fun_upd_twist)
  have "approval_at s2 w i = approval_at s1 w i" using s2(2) by (simp add: approval_at_def)
  moreover have a1: "approval_at s1 w i = Some (appr\<lparr>ap_status := ''executing''\<rparr>)"
    using approval_at_upd [of s1 _ _ s w i, OF _] s1 appr ids by (auto simp: claim_approval_run approval_at_def first_where_upd_where)
  ultimately have "approval_at ?s4 w i = Some (appr\<lparr>ap_status := ''rejected'', ap_decidedBySub := Some (dr_sub (who 1)), ap_decidedAt := Some 0\<rparr>)"
    using ids by (simp add: approval_at_upd [OF agentApprovals_record(1)] approval_at_upd [OF agentApprovals_record(2)])
  then show ?thesis using r5 by (intro exI [of _ "?x ?s4 Done Done 1"]) auto
qed

subsection \<open>Witnesses\<close>

text \<open>An environment that prints every action as one text and whose executions succeed without effect.\<close>

definition demo_approvals :: approval_env where
  "demo_approvals = \<lparr>ae_crypto = demo_env, ae_blake3 = id, ae_stringify = (\<lambda>_. ''{}''), ae_stringify_patch = (\<lambda>_. []),
     ae_parse = (\<lambda>_. Some (RunnerTerminal ''ls'' None)), ae_execute = (\<lambda>w a b p. act_return ''{}'')\<rparr>"

definition demo_payload :: string where
  "demo_payload = (case encryptField demo_env ''i'' ''w1'' ''{}'' of Inr e \<Rightarrow> e | Inl _ \<Rightarrow> [])"

lemma demo_read_payload: "read_payload demo_approvals ''w1'' demo_payload = Some (RunnerTerminal ''ls'' None)"
proof -
  obtain enc where e: "encryptField demo_env ''i'' ''w1'' ''{}'' = Inr enc" by (meson encryptField_Inr [OF provisioned_demo])
  have "decryptField demo_env ''w1'' enc = Inr ''{}''"
    by (rule decrypt_encrypt [OF gcm_ok_demo provisioned_demo _ _ e]) simp_all
  then show ?thesis by (simp add: read_payload_def demo_payload_def e demo_approvals_def)
qed

definition demo_approval :: approval_row where
  "demo_approval = \<lparr>ap_id = ''a1'', ap_workspaceId = ''w1'', ap_toolCallId = ''t1'', ap_tool = ''runner'', ap_risk = ''high'',
     ap_payloadEnc = Some demo_payload, ap_requestedBySub = ''alice'', ap_personaId = None, ap_decidedBySub = None,
     ap_status = ''pending'', ap_createdAt = 0, ap_decidedAt = None\<rparr>"

definition demo_queue :: db where
  "demo_queue = demo_chat\<lparr>agentApprovals := [demo_approval]\<rparr>"

definition demo_deciders :: "nat \<Rightarrow> decider" where
  "demo_deciders t = \<lparr>dr_sub = ''olga'', dr_role = Owner, dr_decision = (if t = 0 then Approve else Reject)\<rparr>"

lemma demo_queue_at: "approval_at demo_queue ''w1'' ''a1'' = Some demo_approval"
  by (simp add: approval_at_def demo_queue_def demo_approval_def)

theorem approved_action_runs_at_most_once_witness:
  "runs (fresh_decisions demo_queue) \<le> 1"
proof -
  have "executor_leaves_queue demo_approvals ''a1''"
    by (simp add: executor_leaves_queue_def demo_approvals_def act_return_run Let_def)
  moreover have "key_fun ap_id (agentApprovals demo_queue)" by (simp add: demo_queue_def key_fun_def)
  ultimately show ?thesis
    using approved_action_runs_at_most_once [of demo_approvals "''a1''" demo_queue "''w1''" demo_deciders "fresh_decisions demo_queue"]
    by (auto intro: reach_init)
qed

theorem rejected_although_executed_witness:
  "\<exists>x r. reach (\<lambda>x. x = fresh_decisions demo_queue) (dstep demo_approvals ''w1'' ''a1'' demo_deciders) x \<and> runs x = 1
     \<and> approval_at (shared x) ''w1'' ''a1'' = Some r \<and> ap_status r = ''rejected''"
proof -
  have "approvalAuthzError Owner (RunnerTerminal ''ls'' None) ''olga'' ''alice'' = None"
    by (simp add: approvalAuthzError_def can_all_owner)
  then show ?thesis
    using rejected_although_executed [OF demo_queue_at, of demo_approvals "RunnerTerminal ''ls'' None" demo_deciders] demo_read_payload
    by (auto simp: demo_approval_def demo_deciders_def or_empty_def demo_approvals_def act_return_run)
qed

definition demo_enqueue :: EnqueueArgs where
  "demo_enqueue = \<lparr>ea_workspaceId = ''w1'', ea_tool = ''runner'', ea_requestedBySub = ''alice'', ea_personaId = None,
     ea_threadId = None, ea_action = RunnerTerminal ''ls'' None\<rparr>"

lemma demo_enqueue_run: "\<exists>s'. enqueueApproval demo_approvals 5 ''t9'' ''t8'' ''a9'' ''i'' demo_enqueue demo_chat = (Inr (''a9'', High), s')"
proof -
  let ?t = "\<lparr>tc_id = ''t9'', tc_workspaceId = ''w1'', tc_threadId = None, tc_personaId = None, tc_invokedBySub = Some ''alice'',
    tc_tool = ''runner'', tc_argsHash = hashArgs demo_approvals ''{}'', tc_argsRedacted = Some ''[held-for-approval]'',
    tc_approvalStatus = ''pending'', tc_resultHash = None, tc_createdAt = 5\<rparr>"
  let ?s1 = "demo_chat\<lparr>agentToolCalls := [?t]\<rparr>"
  have ins: "insert_tool_call ?t demo_chat = (Inr ?t, ?s1)"
    by (simp add: insert_tool_call_def tbl_insert_def has_defs demo_chat_defs)
  have ws: "has_workspace ?s1 ''w1''" by (simp add: has_defs demo_chat_defs)
  obtain v s2 where a1: "appendAudit demo_env 5 (audit_input ''w1'' (Some ''alice'') ''tool_called'' (Some ''runner:t9'')) ?s1 = (Inr v, s2)"
    "agentToolCalls s2 = [?t]" "workspaces s2 = workspaces ?s1" "agentApprovals s2 = []"
    using appendAudit_ok [OF provisioned_demo, of ?s1 "audit_input ''w1'' (Some ''alice'') ''tool_called'' (Some ''runner:t9'')" 5] ws
    by (auto simp: audit_input_def demo_chat_defs)
  obtain enc where enc: "encryptField demo_env ''i'' ''w1'' ''{}'' = Inr enc" by (meson encryptField_Inr [OF provisioned_demo])
  let ?r = "\<lparr>ap_id = ''a9'', ap_workspaceId = ''w1'', ap_toolCallId = ''t9'', ap_tool = ''runner'', ap_risk = ''high'',
     ap_payloadEnc = Some enc, ap_requestedBySub = ''alice'', ap_personaId = None, ap_decidedBySub = None, ap_status = ''pending'',
     ap_createdAt = 5, ap_decidedAt = None\<rparr>"
  let ?s3 = "s2\<lparr>agentApprovals := [?r]\<rparr>"
  have ins2: "insert_approval ?r s2 = (Inr ?r, ?s3)"
    using a1 ws by (simp add: insert_approval_def tbl_insert_def has_workspace_def has_tool_call_def)
  have ws3: "has_workspace ?s3 ''w1''" using a1(3) ws by (simp add: has_workspace_def)
  obtain u s4 where a2: "appendAudit demo_env 5 (audit_input ''w1'' (Some ''alice'') ''tool_pending_approval'' (Some ''runner:a9'')) ?s3 = (Inr u, s4)"
    using appendAudit_ok [OF provisioned_demo, of ?s3 "audit_input ''w1'' (Some ''alice'') ''tool_pending_approval'' (Some ''runner:a9'')" 5] ws3
    by (auto simp: audit_input_def)
  have sel: "ae_crypto demo_approvals = demo_env" "ae_stringify demo_approvals a = ''{}''" for a by (simp_all add: demo_approvals_def)
  have "logToolCall demo_approvals 5 ''t9'' \<lparr>tx_workspaceId = ''w1'', tx_threadId = None, tx_personaId = None,
      tx_invokedBySub = Some ''alice''\<rparr> ''runner'' ''{}'' ''[held-for-approval]'' ''pending'' demo_chat = (Inr (Some ''t9''), s2)"
    using ins a1(1) by (simp add: logToolCall_def act_try_def act_bind_Inr act_return_run sel)
  then show ?thesis
    using enc ins2 a2 by (simp add: enqueueApproval_def demo_enqueue_def Let_def act_bind_Inr act_return_run sel)
qed

theorem queued_action_is_shown_witness:
  "\<exists>s' appr. enqueueApproval demo_approvals 5 ''t9'' ''t8'' ''a9'' ''i'' demo_enqueue demo_chat = (Inr (''a9'', High), s')
     \<and> approval_at s' ''w1'' ''a9'' = Some appr \<and> ends_with ''ls'' (approval_summary demo_approvals ''w1'' appr)"
proof -
  obtain s' where r: "enqueueApproval demo_approvals 5 ''t9'' ''t8'' ''a9'' ''i'' demo_enqueue demo_chat = (Inr (''a9'', High), s')"
    using demo_enqueue_run by blast
  have k: "provisioned_gcm (ae_crypto demo_approvals)" "json_ok demo_approvals (ea_action demo_enqueue)"
    using provisioned_demo gcm_ok_demo by (simp_all add: demo_approvals_def json_ok_def demo_enqueue_def)
  have "ea_workspaceId demo_enqueue = ''w1''" "ea_action demo_enqueue = RunnerTerminal ''ls'' None" by (simp_all add: demo_enqueue_def)
  then show ?thesis using queued_action_is_shown [OF k _ db_ok_demo_chat r] r by auto
qed

end
