(* ===== verification/Crm_Depth.thy ===== *)
theory Crm_Depth
  imports Calendar Approvals
begin

text \<open>
  What hangs on a CRM record: \<^verbatim>\<open>lib/domain/crm-enums.ts\<close>, \<^verbatim>\<open>crm-activity.ts\<close>, \<^verbatim>\<open>crm-fields.ts\<close>,
  \<^verbatim>\<open>crm-notes.ts\<close>, \<^verbatim>\<open>crm-tags.ts\<close>, and the export cell of \<^verbatim>\<open>lib/csv.ts\<close>. The platform's number and date parsing, as the
  encoder of field values rounds them, are fields of \<open>crm_env\<close>, and so is the database's order of texts.
\<close>

record crm_env =
  ck_crypto :: crypto_env
  ck_number :: "string \<Rightarrow> int option"
  ck_currency :: "string \<Rightarrow> int option"
  ck_date :: "string \<Rightarrow> ms option"
  ck_isoDay :: "ms \<Rightarrow> string"
  ck_rank :: "string \<Rightarrow> int"

datatype CrmFieldType = FText | FLongtext | FNumber | FCurrency | FDate | FSelect | FMultiselect | FBoolean | FUrl | FEmail | FPhone | FUser

fun field_type_name :: "CrmFieldType \<Rightarrow> string" where
  "field_type_name FText = ''text''"
| "field_type_name FLongtext = ''longtext''"
| "field_type_name FNumber = ''number''"
| "field_type_name FCurrency = ''currency''"
| "field_type_name FDate = ''date''"
| "field_type_name FSelect = ''select''"
| "field_type_name FMultiselect = ''multiselect''"
| "field_type_name FBoolean = ''boolean''"
| "field_type_name FUrl = ''url''"
| "field_type_name FEmail = ''email''"
| "field_type_name FPhone = ''phone''"
| "field_type_name FUser = ''user''"

definition NON_SENSITIVE_TYPES :: "CrmFieldType list" where
  "NON_SENSITIVE_TYPES = [FNumber, FCurrency, FDate, FSelect, FMultiselect, FBoolean, FUrl]"

definition defaultSensitive :: "CrmFieldType \<Rightarrow> bool" where
  "defaultSensitive t \<longleftrightarrow> t \<notin> set NON_SENSITIVE_TYPES"

subsection \<open>Activity\<close>

datatype ActivityInput =
    Created
  | StageChanged string string
  | FieldChanged string
  | NoteAdded string
  | DocumentAdded
  | ContactLinked
  | Tagged string
  | AgentActionRun string

fun activity_kind :: "ActivityInput \<Rightarrow> string" where
  "activity_kind Created = ''created''"
| "activity_kind (StageChanged _ _) = ''stage_changed''"
| "activity_kind (FieldChanged _) = ''field_changed''"
| "activity_kind (NoteAdded _) = ''note_added''"
| "activity_kind DocumentAdded = ''document_added''"
| "activity_kind ContactLinked = ''contact_linked''"
| "activity_kind (Tagged _) = ''tagged''"
| "activity_kind (AgentActionRun _) = ''agent_action''"

fun ENTITY_LABEL :: "CrmEntity \<Rightarrow> string" where
  "ENTITY_LABEL CrmAccount = ''Account''"
| "ENTITY_LABEL CrmDeal = ''Deal''"
| "ENTITY_LABEL CrmContact = ''Contact''"

definition upper_char :: "char \<Rightarrow> char" where
  "upper_char c = (if 97 \<le> (of_char c :: nat) \<and> (of_char c :: nat) \<le> 122 then char_of (of_char c - 32 :: nat) else c)"

definition capitalize :: "string \<Rightarrow> string" where
  "capitalize s = (case s of [] \<Rightarrow> [] | c # cs \<Rightarrow> upper_char c # cs)"

definition arrow :: string where
  "arrow = [CHR 0xE2, CHR 0x86, CHR 0x92]"

definition open_quote :: string where
  "open_quote = [CHR 0xE2, CHR 0x80, CHR 0x9C]"

definition close_quote :: string where
  "close_quote = [CHR 0xE2, CHR 0x80, CHR 0x9D]"

fun summarizeActivity :: "CrmEntity \<Rightarrow> ActivityInput \<Rightarrow> string" where
  "summarizeActivity e Created = ENTITY_LABEL e @ '' created''"
| "summarizeActivity e (StageChanged a b) = ''Stage '' @ a @ arrow @ b"
| "summarizeActivity e (FieldChanged l) = ''Field '' @ open_quote @ l @ close_quote @ '' updated''"
| "summarizeActivity e (NoteAdded t) = capitalize t @ '' added''"
| "summarizeActivity e DocumentAdded = ''Document added''"
| "summarizeActivity e ContactLinked = ''Contact linked''"
| "summarizeActivity e (Tagged t) = ''Tagged '' @ open_quote @ t @ close_quote"
| "summarizeActivity e (AgentActionRun t) = ''Agent ran '' @ t"

definition recordActivity ::
    "ms \<Rightarrow> uuid \<Rightarrow> uuid \<Rightarrow> CrmEntity \<Rightarrow> uuid \<Rightarrow> string option \<Rightarrow> bool \<Rightarrow> ActivityInput \<Rightarrow> (string \<times> string) list option \<Rightarrow> (db, unit) act" where
  "recordActivity now aid w e recordId actor byAgent i meta = act_try
     (act_bind (insert_activity \<lparr>ac_id = aid, ac_workspaceId = w, ac_entity = entity_name e, ac_recordId = recordId, ac_kind = activity_kind i,
        ac_actorSub = actor, ac_byAgent = byAgent, ac_summary = summarizeActivity e i, ac_meta = meta, ac_createdAt = now\<rparr>) (\<lambda>_. act_return ()))
     (\<lambda>_. act_return ())"

record ActivityRow =
  av_id :: uuid
  av_kind :: string
  av_actorSub :: "string option"
  av_byAgent :: bool
  av_summary :: string
  av_createdAt :: ms

definition listActivity :: "uuid \<Rightarrow> CrmEntity \<Rightarrow> uuid \<Rightarrow> nat \<Rightarrow> (db, ActivityRow list) act" where
  "listActivity w e recordId lim = act_get (\<lambda>s. map (\<lambda>r. \<lparr>av_id = ac_id r, av_kind = ac_kind r, av_actorSub = ac_actorSub r, av_byAgent = ac_byAgent r,
       av_summary = ac_summary r, av_createdAt = ac_createdAt r\<rparr>)
     (take lim (rev (sort_key ac_createdAt (rows_where (\<lambda>r. ac_workspaceId r = w \<and> ac_entity r = entity_name e \<and> ac_recordId r = recordId)
        (crmActivity s))))))"

subsection \<open>Custom fields\<close>

type_synonym FieldOption = "string \<times> string"

record FieldDef =
  df_id :: uuid
  df_entity :: string
  df_key :: string
  df_label :: string
  df_type :: string
  df_options :: "FieldOption list"
  df_required :: bool
  df_sensitive :: bool
  df_ord :: int
  df_enabled :: bool

definition toDef :: "field_def_row \<Rightarrow> FieldDef" where
  "toDef r = \<lparr>df_id = fd_id r, df_entity = fd_entity r, df_key = fd_key r, df_label = fd_label r, df_type = fd_type r,
     df_options = or_default (fd_options r) [], df_required = fd_required r, df_sensitive = fd_sensitive r, df_ord = fd_ord r,
     df_enabled = fd_enabled r\<rparr>"

definition listFieldDefs :: "uuid \<Rightarrow> CrmEntity \<Rightarrow> bool \<Rightarrow> (db, FieldDef list) act" where
  "listFieldDefs w e includeDisabled = act_get (\<lambda>s. filter (\<lambda>d. includeDisabled \<or> df_enabled d) (map toDef
     (sort_key fd_ord (sort_key fd_createdAt (rows_where (\<lambda>r. fd_workspaceId r = w \<and> fd_entity r = entity_name e) (crmFieldDefs s))))))"

record CreateFieldDefInput =
  cf_workspaceId :: uuid
  cf_entity :: CrmEntity
  cf_key :: string
  cf_label :: string
  cf_type :: CrmFieldType
  cf_options :: "FieldOption list option"
  cf_required :: "bool option"
  cf_sensitive :: "bool option"
  cf_ord :: "int option"
  cf_createdBy :: string

definition createFieldDef :: "crypto_env \<Rightarrow> ms \<Rightarrow> uuid \<Rightarrow> CreateFieldDefInput \<Rightarrow> (db, FieldDef) act" where
  "createFieldDef E now newId i =
     act_bind (insert_field_def \<lparr>fd_id = newId, fd_workspaceId = cf_workspaceId i, fd_entity = entity_name (cf_entity i), fd_key = cf_key i,
        fd_label = cf_label i, fd_type = field_type_name (cf_type i), fd_options = cf_options i, fd_required = or_default (cf_required i) False,
        fd_sensitive = or_default (cf_sensitive i) (defaultSensitive (cf_type i)), fd_ord = or_default (cf_ord i) 0, fd_enabled = True,
        fd_createdBy = cf_createdBy i, fd_createdAt = now\<rparr>) (\<lambda>row.
     act_bind (appendAudit E now (audit_input (cf_workspaceId i) (Some (cf_createdBy i)) ''crm_field_defined''
        (Some (entity_name (cf_entity i) @ ''.'' @ cf_key i)))) (\<lambda>_.
     act_return (toDef row)))"

record UpdateFieldDefPatch =
  uf_label :: "string option"
  uf_options :: "FieldOption list option"
  uf_required :: "bool option"
  uf_sensitive :: "bool option"
  uf_ord :: "int option"
  uf_enabled :: "bool option"

definition patch_field_def :: "UpdateFieldDefPatch \<Rightarrow> field_def_row \<Rightarrow> field_def_row" where
  "patch_field_def p r = r\<lparr>fd_label := or_default (uf_label p) (fd_label r),
     fd_options := (case uf_options p of None \<Rightarrow> fd_options r | Some x \<Rightarrow> Some x), fd_required := or_default (uf_required p) (fd_required r),
     fd_sensitive := or_default (uf_sensitive p) (fd_sensitive r), fd_ord := or_default (uf_ord p) (fd_ord r),
     fd_enabled := or_default (uf_enabled p) (fd_enabled r)\<rparr>"

definition updateFieldDef :: "crypto_env \<Rightarrow> ms \<Rightarrow> uuid \<Rightarrow> uuid \<Rightarrow> UpdateFieldDefPatch \<Rightarrow> string \<Rightarrow> (db, unit) act" where
  "updateFieldDef E now w fieldId p by_sub =
     (if uf_label p = None \<and> uf_options p = None \<and> uf_required p = None \<and> uf_sensitive p = None \<and> uf_ord p = None \<and> uf_enabled p = None
      then act_return ()
      else act_bind (tbl_update crmFieldDefs_update (\<lambda>r. fd_workspaceId r = w \<and> fd_id r = fieldId) (patch_field_def p)) (\<lambda>_.
           act_bind (appendAudit E now (audit_input w (Some by_sub) ''crm_field_updated'' (Some fieldId))) (\<lambda>_. act_return ())))"

definition deleteFieldDef :: "crypto_env \<Rightarrow> ms \<Rightarrow> uuid \<Rightarrow> uuid \<Rightarrow> string \<Rightarrow> (db, unit) act" where
  "deleteFieldDef E now w fieldId by_sub =
     act_bind (tbl_delete crmFieldValues_update (\<lambda>v. fv_workspaceId v = w \<and> fv_fieldId v = fieldId)) (\<lambda>_.
     act_bind (field_def_delete (\<lambda>r. fd_workspaceId r = w \<and> fd_id r = fieldId)) (\<lambda>_.
     act_bind (appendAudit E now (audit_input w (Some by_sub) ''crm_field_deleted'' (Some fieldId))) (\<lambda>_. act_return ())))"

record EncodedValue =
  en_valueEnc :: "string option"
  en_valueKey :: "string option"
  en_valueNum :: "int option"

definition multi_key :: "string \<Rightarrow> string" where
  "multi_key s = js_join '','' (filter (\<lambda>p. p \<noteq> []) (map js_trim (js_split (CHR '','') s)))"

text \<open>What \<^verbatim>\<open>.replace(/[^0-9.-]/g, "")\<close> keeps.\<close>

definition currency_chars :: "string \<Rightarrow> string" where
  "currency_chars s = filter (\<lambda>c. (48 \<le> (of_char c :: nat) \<and> (of_char c :: nat) \<le> 57) \<or> c = CHR ''.'' \<or> c = CHR ''-'') s"

definition value_key :: "string \<Rightarrow> string \<Rightarrow> string option" where
  "value_key t s = (if t = ''select'' \<or> t = ''boolean'' then Some s else if t = ''multiselect'' then Some (multi_key s) else None)"

definition value_num :: "crm_env \<Rightarrow> string \<Rightarrow> string \<Rightarrow> int option" where
  "value_num K t s = (if t = ''number'' then ck_number K s else if t = ''currency'' then ck_currency K (currency_chars s)
     else if t = ''date'' then ck_date K s else None)"

definition encodeValue :: "crm_env \<Rightarrow> string \<Rightarrow> uuid \<Rightarrow> FieldDef \<Rightarrow> string \<Rightarrow> err + EncodedValue" where
  "encodeValue K iv w def raw = (let trimmed = js_trim raw in
     if trimmed = [] then Inr \<lparr>en_valueEnc = None, en_valueKey = None, en_valueNum = None\<rparr>
     else (case encryptField (ck_crypto K) iv w trimmed of Inl e \<Rightarrow> Inl e
       | Inr enc \<Rightarrow> Inr \<lparr>en_valueEnc = Some enc, en_valueKey = value_key (df_type def) trimmed, en_valueNum = value_num K (df_type def) trimmed\<rparr>))"

definition decodeValue :: "crypto_env \<Rightarrow> uuid \<Rightarrow> string option \<Rightarrow> string option" where
  "decodeValue E w enc = (if or_text enc [] = [] then None else dec E w enc)"

definition option_label :: "FieldDef \<Rightarrow> string \<Rightarrow> string" where
  "option_label d k = (case first_where (\<lambda>p. fst p = k) (df_options d) of Some p \<Rightarrow> snd p | None \<Rightarrow> k)"

definition formatFieldDisplay :: "crm_env \<Rightarrow> FieldDef \<Rightarrow> string option \<Rightarrow> string" where
  "formatFieldDisplay K d raw = (let r = or_text raw [] in
     if r = [] then []
     else if df_type d = ''boolean'' then (if r = ''true'' then ''Yes'' else ''No'')
     else if df_type d = ''select'' then option_label d r
     else if df_type d = ''multiselect'' then js_join '', '' (map (\<lambda>k. option_label d (js_trim k)) (js_split (CHR '','') r))
     else if df_type d = ''date'' then (case ck_date K r of Some ms \<Rightarrow> ck_isoDay K ms | None \<Rightarrow> r)
     else r)"

definition loadFieldDefsByEntity :: "uuid \<Rightarrow> (db, (CrmEntity \<times> (string \<times> string \<times> string) list) list) act" where
  "loadFieldDefsByEntity w = act_bind (listFieldDefs w CrmAccount False) (\<lambda>a. act_bind (listFieldDefs w CrmDeal False) (\<lambda>d.
     act_bind (listFieldDefs w CrmContact False) (\<lambda>c. let short = map (\<lambda>x. (df_key x, df_label x, df_type x)) in
     act_return [(CrmAccount, short a), (CrmDeal, short d), (CrmContact, short c)])))"

text \<open>A \<^verbatim>\<open>Map\<close> built from the rows: a later row of a field wins.\<close>

definition value_of :: "db \<Rightarrow> uuid \<Rightarrow> uuid \<Rightarrow> uuid \<Rightarrow> string option" where
  "value_of s w recordId fieldId = (case first_where (\<lambda>v. fv_fieldId v = fieldId)
       (rev (rows_where (\<lambda>v. fv_workspaceId v = w \<and> fv_recordId v = recordId) (crmFieldValues s))) of
     Some v \<Rightarrow> fv_valueEnc v | None \<Rightarrow> None)"

definition getFieldsForRecord :: "crypto_env \<Rightarrow> uuid \<Rightarrow> CrmEntity \<Rightarrow> uuid \<Rightarrow> (db, (FieldDef \<times> string option) list) act" where
  "getFieldsForRecord E w e recordId = act_bind (listFieldDefs w e False) (\<lambda>defs.
     act_get (\<lambda>s. map (\<lambda>d. (d, decodeValue E w (value_of s w recordId (df_id d)))) defs))"

record SetFieldArgs =
  sf_workspaceId :: uuid
  sf_entity :: CrmEntity
  sf_recordId :: uuid
  sf_fieldId :: uuid
  sf_raw :: string
  sf_bySub :: string
  sf_byAgent :: "bool option"

text \<open>\<^verbatim>\<open>insert ... on conflict (workspace, record, field) do update\<close>.\<close>

definition upsert_field_value :: "field_value_row \<Rightarrow> (db, unit) act" where
  "upsert_field_value r s = (if fv_key3 r \<in> fv_key3 ` set (crmFieldValues s)
     then tbl_update crmFieldValues_update (\<lambda>v. fv_key3 v = fv_key3 r) (\<lambda>v. v\<lparr>fv_valueEnc := fv_valueEnc r, fv_valueKey := fv_valueKey r,
        fv_valueNum := fv_valueNum r, fv_updatedBySub := fv_updatedBySub r, fv_updatedAt := fv_updatedAt r\<rparr>) s
     else act_bind (insert_field_value r) (\<lambda>_. act_return ()) s)"

definition field_def_at :: "db \<Rightarrow> uuid \<Rightarrow> uuid \<Rightarrow> field_def_row option" where
  "field_def_at s w fieldId = first_where (\<lambda>r. fd_workspaceId r = w \<and> fd_id r = fieldId) (crmFieldDefs s)"

definition setFieldValue :: "crm_env \<Rightarrow> ms \<Rightarrow> uuid \<Rightarrow> uuid \<Rightarrow> string \<Rightarrow> SetFieldArgs \<Rightarrow> (db, unit) act" where
  "setFieldValue K now newId aid iv a = (let w = sf_workspaceId a in
     act_bind (act_get (\<lambda>s. field_def_at s w (sf_fieldId a))) (\<lambda>defRow. case defRow of
       None \<Rightarrow> act_throw (JsError ''unknown field'')
     | Some dr \<Rightarrow> let def = toDef dr in
       act_bind (act_lift (encodeValue K iv w def (sf_raw a))) (\<lambda>enc.
       act_bind (upsert_field_value \<lparr>fv_id = newId, fv_workspaceId = w, fv_entity = entity_name (sf_entity a), fv_recordId = sf_recordId a,
          fv_fieldId = sf_fieldId a, fv_valueEnc = en_valueEnc enc, fv_valueKey = en_valueKey enc, fv_valueNum = en_valueNum enc,
          fv_updatedBySub = sf_bySub a, fv_updatedAt = now\<rparr>) (\<lambda>_.
       recordActivity now aid w (sf_entity a) (sf_recordId a) (Some (sf_bySub a)) (or_default (sf_byAgent a) False) (FieldChanged (df_label def))
          (Some [(''fieldId'', sf_fieldId a)])))))"

subsection \<open>The default fields\<close>

text \<open>\<^verbatim>\<open>.replace(/\s+/g, r)\<close>.\<close>

function collapse_spaces :: "char \<Rightarrow> string \<Rightarrow> string" where
  "collapse_spaces r [] = []"
| "collapse_spaces r (c # cs) = (if js_space c then r # collapse_spaces r (dropWhile js_space cs) else c # collapse_spaces r cs)"
  by pat_completeness auto
termination
  by (relation "measure (\<lambda>(r, s). length s)") (auto simp: le_imp_less_Suc length_dropWhile_le)

definition opt_of :: "string list \<Rightarrow> FieldOption list" where
  "opt_of labels = map (\<lambda>l. (collapse_spaces (CHR ''_'') (js_lower l), l)) labels"

definition DEFAULTS :: "(CrmEntity \<times> string \<times> string \<times> CrmFieldType \<times> FieldOption list option) list" where
  "DEFAULTS =
    [(CrmAccount, ''industry'', ''Industry'', FSelect,
        Some (opt_of [''Technology'', ''Finance'', ''Healthcare'', ''Retail'', ''Manufacturing'', ''Energy'', ''Government'', ''Education'', ''Other''])),
     (CrmAccount, ''employees'', ''Employees'', FNumber, None),
     (CrmAccount, ''lifecycle'', ''Lifecycle'', FSelect, Some (opt_of [''Lead'', ''Prospect'', ''Customer'', ''Churned''])),
     (CrmAccount, ''phone'', ''Phone'', FPhone, None),
     (CrmAccount, ''location'', ''Location'', FText, None),
     (CrmAccount, ''description'', ''Description'', FLongtext, None),
     (CrmDeal, ''probability'', ''Probability (%)'', FNumber, None),
     (CrmDeal, ''source'', ''Source'', FSelect, Some (opt_of [''Inbound'', ''Outbound'', ''Referral'', ''Partner'', ''Event'', ''Other''])),
     (CrmDeal, ''forecast'', ''Forecast'', FSelect, Some (opt_of [''Pipeline'', ''Best case'', ''Commit'', ''Closed''])),
     (CrmDeal, ''next_step'', ''Next step'', FText, None),
     (CrmDeal, ''description'', ''Description'', FLongtext, None),
     (CrmContact, ''phone'', ''Phone'', FPhone, None),
     (CrmContact, ''linkedin'', ''LinkedIn'', FUrl, None),
     (CrmContact, ''department'', ''Department'', FText, None),
     (CrmContact, ''description'', ''Notes'', FLongtext, None)]"

definition default_row :: "ms \<Rightarrow> (nat \<Rightarrow> uuid) \<Rightarrow> uuid \<Rightarrow> string \<Rightarrow> nat \<Rightarrow> CrmEntity \<times> string \<times> string \<times> CrmFieldType \<times> FieldOption list option
    \<Rightarrow> field_def_row" where
  "default_row now ids w by_sub n = (\<lambda>(e, k, l, t, os). \<lparr>fd_id = ids n, fd_workspaceId = w, fd_entity = entity_name e, fd_key = k, fd_label = l,
     fd_type = field_type_name t, fd_options = os, fd_required = False, fd_sensitive = defaultSensitive t, fd_ord = int n, fd_enabled = True,
     fd_createdBy = by_sub, fd_createdAt = now\<rparr>)"

text \<open>\<^verbatim>\<open>on conflict do nothing\<close>: a row whose key is taken is skipped.\<close>

definition field_def_unless_defined :: "field_def_row \<Rightarrow> (db, unit) act" where
  "field_def_unless_defined r s = (if fd_key3 r \<in> fd_key3 ` set (crmFieldDefs s) \<or> has_field_def s (fd_id r) then (Inr (), s)
     else act_bind (insert_field_def r) (\<lambda>_. act_return ()) s)"

fun seed_from :: "ms \<Rightarrow> (nat \<Rightarrow> uuid) \<Rightarrow> uuid \<Rightarrow> string \<Rightarrow> (string \<times> string) set \<Rightarrow> nat
    \<Rightarrow> (CrmEntity \<times> string \<times> string \<times> CrmFieldType \<times> FieldOption list option) list \<Rightarrow> (db, nat) act" where
  "seed_from now ids w by_sub present n [] = act_return 0"
| "seed_from now ids w by_sub present n (d # ds) = (let (e, k, _) = d in
     if (entity_name e, k) \<in> present then seed_from now ids w by_sub present (Suc n) ds
     else act_bind (field_def_unless_defined (default_row now ids w by_sub n d)) (\<lambda>_.
       act_bind (seed_from now ids w by_sub present (Suc n) ds) (\<lambda>c. act_return (Suc c))))"

text \<open>The set of taken names is compared as text \<^verbatim>\<open>entity.key\<close>; entity names hold no dot, so the pairs decide.\<close>

definition seedDefaultCrmFields :: "ms \<Rightarrow> (nat \<Rightarrow> uuid) \<Rightarrow> uuid \<Rightarrow> string \<Rightarrow> (db, nat) act" where
  "seedDefaultCrmFields now ids w by_sub = act_bind (act_get (\<lambda>s. (\<lambda>r. (fd_entity r, fd_key r)) ` set (rows_where (\<lambda>r. fd_workspaceId r = w) (crmFieldDefs s))))
     (\<lambda>present. seed_from now ids w by_sub present 0 DEFAULTS)"

subsection \<open>Notes\<close>

record NoteRow =
  nv_id :: uuid
  nv_type :: string
  nv_title :: "string option"
  nv_body :: string
  nv_authorSub :: string
  nv_byAgent :: bool
  nv_pinned :: bool
  nv_createdAt :: ms
  nv_updatedAt :: ms

definition note_dec :: "crypto_env \<Rightarrow> uuid \<Rightarrow> string option \<Rightarrow> string" where
  "note_dec E w enc = (case enc of None \<Rightarrow> [] | Some x \<Rightarrow> if x = [] then []
     else (case decryptField E w x of Inr m \<Rightarrow> m
       | Inl _ \<Rightarrow> [CHR 0xE2, CHR 0x9A, CHR 0xA0, CHR 0xEF, CHR 0xB8, CHR 0x8E] @ '' couldn'' @ [CHR 0x27] @ ''t decrypt''))"

definition note_view :: "crypto_env \<Rightarrow> uuid \<Rightarrow> note_row \<Rightarrow> NoteRow" where
  "note_view E w r = \<lparr>nv_id = no_id r, nv_type = no_type r,
     nv_title = (if or_text (no_titleEnc r) [] = [] then None else Some (note_dec E w (no_titleEnc r))), nv_body = note_dec E w (Some (no_bodyEnc r)),
     nv_authorSub = no_authorSub r, nv_byAgent = no_byAgent r, nv_pinned = no_pinned r, nv_createdAt = no_createdAt r, nv_updatedAt = no_updatedAt r\<rparr>"

definition listNotes :: "crypto_env \<Rightarrow> uuid \<Rightarrow> CrmEntity \<Rightarrow> uuid \<Rightarrow> (db, NoteRow list) act" where
  "listNotes E w e recordId = act_get (\<lambda>s. map (note_view E w) (sort_key (\<lambda>n. if no_pinned n then 0 else 1 :: nat)
     (rev (sort_key no_createdAt (rows_where (\<lambda>n. no_workspaceId n = w \<and> no_entity n = entity_name e \<and> no_recordId n = recordId) (crmNotes s))))))"

record AddNoteArgs =
  an_workspaceId :: uuid
  an_entity :: CrmEntity
  an_recordId :: uuid
  an_type :: string
  an_title :: "string option"
  an_body :: string
  an_authorSub :: string
  an_byAgent :: "bool option"
  an_personaId :: "uuid option"

definition trimmed_title :: "string option \<Rightarrow> string option" where
  "trimmed_title t = (case t of None \<Rightarrow> None | Some x \<Rightarrow> if js_trim x = [] then None else Some (js_trim x))"

definition addNote :: "crypto_env \<Rightarrow> ms \<Rightarrow> uuid \<Rightarrow> uuid \<Rightarrow> (nat \<Rightarrow> string) \<Rightarrow> AddNoteArgs \<Rightarrow> (db, NoteRow) act" where
  "addNote E now newId aid iv a = (let w = an_workspaceId a in
     act_bind (act_lift (opt_encrypt E (iv 0) w (trimmed_title (an_title a)))) (\<lambda>titleEnc.
     act_bind (act_lift (encryptField E (iv 1) w (an_body a))) (\<lambda>bodyEnc.
     act_bind (insert_note \<lparr>no_id = newId, no_workspaceId = w, no_entity = entity_name (an_entity a), no_recordId = an_recordId a, no_type = an_type a,
        no_titleEnc = titleEnc, no_bodyEnc = bodyEnc, no_authorSub = an_authorSub a, no_byAgent = or_default (an_byAgent a) False,
        no_personaId = an_personaId a, no_pinned = False, no_createdAt = now, no_updatedAt = now\<rparr>) (\<lambda>row.
     act_bind (recordActivity now aid w (an_entity a) (an_recordId a) (Some (an_authorSub a)) (or_default (an_byAgent a) False) (NoteAdded (an_type a))
        (Some [(''noteId'', no_id row)])) (\<lambda>_.
     act_bind (appendAudit E now (audit_input w (Some (an_authorSub a)) ''crm_note_added'' (Some (entity_name (an_entity a) @ '':'' @ no_id row)))) (\<lambda>_.
     act_return \<lparr>nv_id = no_id row, nv_type = no_type row, nv_title = trimmed_title (an_title a), nv_body = an_body a, nv_authorSub = no_authorSub row,
        nv_byAgent = no_byAgent row, nv_pinned = no_pinned row, nv_createdAt = no_createdAt row, nv_updatedAt = no_updatedAt row\<rparr>))))))"

record CommentRow =
  cv_id :: uuid
  cv_body :: string
  cv_authorSub :: string
  cv_byAgent :: bool
  cv_createdAt :: ms

definition listComments :: "crypto_env \<Rightarrow> uuid \<Rightarrow> uuid \<Rightarrow> (db, CommentRow list) act" where
  "listComments E w noteId = act_get (\<lambda>s. map (\<lambda>r. \<lparr>cv_id = co_id r, cv_body = note_dec E w (Some (co_bodyEnc r)), cv_authorSub = co_authorSub r,
       cv_byAgent = co_byAgent r, cv_createdAt = co_createdAt r\<rparr>)
     (sort_key co_createdAt (rows_where (\<lambda>c. co_workspaceId c = w \<and> co_noteId c = noteId) (crmNoteComments s))))"

definition addComment :: "crypto_env \<Rightarrow> ms \<Rightarrow> uuid \<Rightarrow> string \<Rightarrow> uuid \<Rightarrow> uuid \<Rightarrow> string \<Rightarrow> string \<Rightarrow> bool option \<Rightarrow> (db, unit) act" where
  "addComment E now newId iv w noteId body author byAgent = act_bind (act_lift (encryptField E iv w body)) (\<lambda>enc.
     act_bind (insert_comment \<lparr>co_id = newId, co_workspaceId = w, co_noteId = noteId, co_bodyEnc = enc, co_authorSub = author,
        co_byAgent = or_default byAgent False, co_createdAt = now\<rparr>) (\<lambda>_. act_return ()))"

definition setNotePinned :: "ms \<Rightarrow> uuid \<Rightarrow> uuid \<Rightarrow> bool \<Rightarrow> (db, unit) act" where
  "setNotePinned now w noteId pin = tbl_update crmNotes_update (\<lambda>n. no_workspaceId n = w \<and> no_id n = noteId)
     (\<lambda>n. n\<lparr>no_pinned := pin, no_updatedAt := now\<rparr>)"

subsection \<open>Tags\<close>

record TagRow =
  tv_tag :: uuid
  tv_label :: string
  tv_color :: "string option"

definition tag_view :: "tag_row \<Rightarrow> TagRow" where
  "tag_view t = \<lparr>tv_tag = tg_id t, tv_label = tg_label t, tv_color = tg_color t\<rparr>"

definition listTags :: "crm_env \<Rightarrow> uuid \<Rightarrow> (db, TagRow list) act" where
  "listTags K w = act_get (\<lambda>s. map tag_view (sort_key (\<lambda>t. ck_rank K (tg_label t)) (rows_where (\<lambda>t. tg_workspaceId t = w) (crmTags s))))"

definition createTag :: "uuid \<Rightarrow> uuid \<Rightarrow> string \<Rightarrow> string option \<Rightarrow> (db, TagRow option) act" where
  "createTag newId w label color s = (let r = \<lparr>tg_id = newId, tg_workspaceId = w, tg_label = js_trim label, tg_color = color\<rparr> in
     if tg_key r \<in> tg_key ` set (crmTags s) \<or> has_tag s newId
     then (Inr (map_option tag_view (first_where (\<lambda>t. tg_workspaceId t = w \<and> tg_label t = js_trim label) (crmTags s))), s)
     else act_bind (insert_tag r) (\<lambda>t. act_return (Some (tag_view t))) s)"

definition tagsForRecord :: "crm_env \<Rightarrow> uuid \<Rightarrow> CrmEntity \<Rightarrow> uuid \<Rightarrow> (db, TagRow list) act" where
  "tagsForRecord K w e recordId = act_get (\<lambda>s. map tag_view (sort_key (\<lambda>t. ck_rank K (tg_label t))
     [t. r \<leftarrow> rows_where (\<lambda>r. rt_workspaceId r = w \<and> rt_entity r = entity_name e \<and> rt_recordId r = recordId) (crmRecordTags s),
         t \<leftarrow> crmTags s, tg_id t = rt_tagId r]))"

definition assertTagInWorkspace :: "uuid \<Rightarrow> uuid \<Rightarrow> (db, string) act" where
  "assertTagInWorkspace w tagId = act_bind (act_get (\<lambda>s. first_where (\<lambda>t. tg_workspaceId t = w \<and> tg_id t = tagId) (crmTags s))) (\<lambda>t. case t of
      None \<Rightarrow> act_throw (GuardError 403 ''tag not in this workspace'')
    | Some t \<Rightarrow> act_return (tg_label t))"

definition record_ids :: "db \<Rightarrow> uuid \<Rightarrow> CrmEntity \<Rightarrow> uuid set" where
  "record_ids s w e = (case e of CrmAccount \<Rightarrow> acc_id ` {a \<in> set (accounts s). acc_workspaceId a = w}
     | CrmDeal \<Rightarrow> dl_id ` {d \<in> set (deals s). dl_workspaceId d = w}
     | CrmContact \<Rightarrow> ct_id ` {c \<in> set (contacts s). ct_workspaceId c = w})"

definition existingRecordIds :: "uuid \<Rightarrow> CrmEntity \<Rightarrow> uuid list \<Rightarrow> (db, uuid list) act" where
  "existingRecordIds w e ids = act_get (\<lambda>s. filter (\<lambda>i. i \<in> record_ids s w e) ids)"

definition tag_unless_tagged :: "record_tag_row \<Rightarrow> (db, record_tag_row) act" where
  "tag_unless_tagged r s = (if rt_key r \<in> rt_key ` set (crmRecordTags s) then (Inr r, s) else insert_record_tag r s)"

definition record_tag_of :: "uuid \<Rightarrow> CrmEntity \<Rightarrow> uuid \<Rightarrow> uuid \<Rightarrow> record_tag_row" where
  "record_tag_of w e tagId recordId = \<lparr>rt_workspaceId = w, rt_entity = entity_name e, rt_recordId = recordId, rt_tagId = tagId\<rparr>"

definition tagRecord :: "ms \<Rightarrow> uuid \<Rightarrow> uuid \<Rightarrow> CrmEntity \<Rightarrow> uuid \<Rightarrow> uuid \<Rightarrow> string \<Rightarrow> (db, unit) act" where
  "tagRecord now aid w e recordId tagId actor =
     act_bind (assertTagInWorkspace w tagId) (\<lambda>label.
     act_bind (existingRecordIds w e [recordId]) (\<lambda>ids.
     if ids = [] then act_throw (GuardError 403 ''record not in this workspace'')
     else act_bind (tag_unless_tagged (record_tag_of w e tagId recordId)) (\<lambda>_.
       recordActivity now aid w e recordId (Some actor) False (Tagged label) (Some [(''tagId'', tagId)]))))"

fun tag_activities :: "ms \<Rightarrow> (nat \<Rightarrow> uuid) \<Rightarrow> uuid \<Rightarrow> CrmEntity \<Rightarrow> uuid \<Rightarrow> string \<Rightarrow> string \<Rightarrow> nat \<Rightarrow> uuid list \<Rightarrow> (db, unit) act" where
  "tag_activities now aids w e tagId label actor n [] = act_return ()"
| "tag_activities now aids w e tagId label actor n (i # is) =
     act_bind (recordActivity now (aids n) w e i (Some actor) False (Tagged label) (Some [(''tagId'', tagId)])) (\<lambda>_.
     tag_activities now aids w e tagId label actor (Suc n) is)"

definition bulkTagRecords :: "ms \<Rightarrow> (nat \<Rightarrow> uuid) \<Rightarrow> uuid \<Rightarrow> CrmEntity \<Rightarrow> uuid list \<Rightarrow> uuid \<Rightarrow> string \<Rightarrow> (db, nat) act" where
  "bulkTagRecords now aids w e ids tagId actor = (if ids = [] then act_return 0
     else act_bind (assertTagInWorkspace w tagId) (\<lambda>label.
       act_bind (existingRecordIds w e ids) (\<lambda>recordIds.
       if recordIds = [] then act_return 0
       else act_bind (insert_rows tag_unless_tagged (map (record_tag_of w e tagId) recordIds)) (\<lambda>_.
         act_bind (tag_activities now aids w e tagId label actor 0 recordIds) (\<lambda>_. act_return (length recordIds))))))"

definition untagRecord :: "uuid \<Rightarrow> CrmEntity \<Rightarrow> uuid \<Rightarrow> uuid \<Rightarrow> (db, unit) act" where
  "untagRecord w e recordId tagId = tbl_delete crmRecordTags_update
     (\<lambda>r. rt_workspaceId r = w \<and> rt_entity r = entity_name e \<and> rt_recordId r = recordId \<and> rt_tagId r = tagId)"

subsection \<open>Export cells\<close>

definition formula_start :: "string \<Rightarrow> bool" where
  "formula_start v = (case v of [] \<Rightarrow> False | c # _ \<Rightarrow> c \<in> {CHR ''='', CHR ''+'', CHR ''-'', CHR ''@'', CHR 0x09, CHR 0x0D})"

definition double_quotes :: "string \<Rightarrow> string" where
  "double_quotes s = concat (map (\<lambda>c. if c = CHR 0x22 then [CHR 0x22, CHR 0x22] else [c]) s)"

definition csvCell :: "string \<Rightarrow> string" where
  "csvCell v = (let s = (if formula_start v then CHR 0x27 # v else v) in
     if CHR 0x22 \<in> set s \<or> CHR '','' \<in> set s \<or> CHR 0x0A \<in> set s \<or> CHR 0x0D \<in> set s then [CHR 0x22] @ double_quotes s @ [CHR 0x22] else s)"

text \<open>\<^verbatim>\<open>exportCsv\<close> of \<^verbatim>\<open>components/crm/CrmTable.tsx\<close>, over the texts of the header and the cells.\<close>

definition exportCsv :: "string list \<Rightarrow> string list list \<Rightarrow> string" where
  "exportCsv labels rows = js_join [CHR 0x0A] (js_join '','' (map csvCell labels) # map (\<lambda>r. js_join '','' (map csvCell r)) rows)"

subsection \<open>A reader gets back what was exported\<close>

text \<open>The reference reader of RFC 4180: quoted cells, doubled quotes, commas and line feeds.\<close>

datatype csv_mode = CellStart | Plain | Quoted | QuoteSeen

fun csv_rows :: "csv_mode \<Rightarrow> string \<Rightarrow> string \<Rightarrow> string list list" where
  "csv_rows m cur [] = [[cur]]"
| "csv_rows m cur (c # cs) = (
     if m = Quoted then (if c = CHR 0x22 then csv_rows QuoteSeen cur cs else csv_rows Quoted (cur @ [c]) cs)
     else if c = CHR 0x22 \<and> m = QuoteSeen then csv_rows Quoted (cur @ [c]) cs
     else if c = CHR 0x22 \<and> m = CellStart then csv_rows Quoted cur cs
     else if c = CHR '','' then (case csv_rows CellStart [] cs of [] \<Rightarrow> [[cur]] | r # rs \<Rightarrow> (cur # r) # rs)
     else if c = CHR 0x0A then [cur] # csv_rows CellStart [] cs
     else csv_rows Plain (cur @ [c]) cs)"

definition neutral :: "string \<Rightarrow> string" where
  "neutral v = (if formula_start v then CHR 0x27 # v else v)"

definition cell_ends :: "string \<Rightarrow> bool" where
  "cell_ends rest \<longleftrightarrow> rest = [] \<or> hd rest = CHR '','' \<or> hd rest = CHR 0x0A"

lemma csv_plain: "\<forall>c\<in>set s. c \<noteq> CHR 0x22 \<and> c \<noteq> CHR '','' \<and> c \<noteq> CHR 0x0A \<Longrightarrow> csv_rows Plain cur (s @ rest) = csv_rows Plain (cur @ s) rest"
  by (induction s arbitrary: cur) simp_all

lemma csv_quoted: "csv_rows Quoted cur (double_quotes s @ CHR 0x22 # rest) = csv_rows QuoteSeen (cur @ s) rest" if "cell_ends rest"
proof (induction s arbitrary: cur)
  case (Cons c s)
  then show ?case by (cases "c = CHR 0x22") (simp_all add: double_quotes_def)
qed (simp add: double_quotes_def)

lemma csv_end_modes: "cell_ends rest \<Longrightarrow> m \<noteq> Quoted \<Longrightarrow> csv_rows m cur rest = csv_rows Plain cur rest"
  by (cases rest; cases m) (auto simp: cell_ends_def)

lemma csv_cell: "cell_ends rest \<Longrightarrow> csv_rows CellStart [] (csvCell v @ rest) = csv_rows Plain (neutral v) rest"
proof -
  assume e: "cell_ends rest"
  show ?thesis
  proof (cases "CHR 0x22 \<in> set (neutral v) \<or> CHR '','' \<in> set (neutral v) \<or> CHR 0x0A \<in> set (neutral v) \<or> CHR 0x0D \<in> set (neutral v)")
    case True
    then have "csvCell v = [CHR 0x22] @ double_quotes (neutral v) @ [CHR 0x22]" by (simp add: csvCell_def Let_def neutral_def)
    then show ?thesis using csv_quoted [OF e, of "[]" "neutral v"] csv_end_modes [OF e, of QuoteSeen] by simp
  next
    case False
    then have v: "csvCell v = neutral v" by (simp add: csvCell_def Let_def neutral_def)
    show ?thesis
    proof (cases "neutral v")
      case Nil
      then show ?thesis using v csv_end_modes [OF e, of CellStart] by simp
    next
      case (Cons c cs)
      then have "csv_rows CellStart [] (csvCell v @ rest) = csv_rows Plain [c] (cs @ rest)" using v False by auto
      also have "\<dots> = csv_rows Plain (neutral v) rest" using csv_plain [of cs "[c]" rest] False Cons by auto
      finally show ?thesis .
    qed
  qed
qed

lemma csv_line:
  assumes "vs \<noteq> []"
  shows "csv_rows CellStart [] (js_join '','' (map csvCell vs)) = [map neutral vs]"
    and "csv_rows CellStart [] (js_join '','' (map csvCell vs) @ CHR 0x0A # rest) = map neutral vs # csv_rows CellStart [] rest"
proof -
  have step: "csv_rows CellStart [] (csvCell v @ CHR '','' # t) = (neutral v # r) # rs" if "csv_rows CellStart [] t = r # rs" for v t r rs
    using csv_cell [of "CHR '','' # t" v] that by (simp add: cell_ends_def)
  have line: "csv_rows CellStart [] (js_join '','' (map csvCell vs)) = [map neutral vs]
      \<and> csv_rows CellStart [] (js_join '','' (map csvCell vs) @ CHR 0x0A # rest) = map neutral vs # csv_rows CellStart [] rest"
    using assms
  proof (induction vs)
    case (Cons v vs)
    show ?case
    proof (cases vs)
      case Nil
      then show ?thesis using csv_cell [of "[]" v] csv_cell [of "CHR 0x0A # rest" v] by (simp add: cell_ends_def)
    next
      case (Cons u us)
      then show ?thesis using Cons.IH step [of "js_join '','' (map csvCell vs)"] step [of "js_join '','' (map csvCell vs) @ CHR 0x0A # rest"] by simp
    qed
  qed simp
  show "csv_rows CellStart [] (js_join '','' (map csvCell vs)) = [map neutral vs]"
    "csv_rows CellStart [] (js_join '','' (map csvCell vs) @ CHR 0x0A # rest) = map neutral vs # csv_rows CellStart [] rest"
    using line by simp_all
qed

text \<open>C17. An export opens as it was shown and runs no formula. A reader of CSV gets back the header and the rows, cell by cell, each text
  unchanged except that one which would start a formula has an apostrophe before it, whatever commas, quotes and line breaks the texts hold; no cell read
  starts a formula.\<close>

theorem csv_export_roundtrip:
  assumes "labels \<noteq> []" "\<forall>r\<in>set rows. r \<noteq> []"
  shows "csv_rows CellStart [] (exportCsv labels rows) = map (map neutral) (labels # rows)
     \<and> (\<forall>r\<in>set (csv_rows CellStart [] (exportCsv labels rows)). \<forall>c\<in>set r. \<not> formula_start c)"
proof -
  have "csv_rows CellStart [] (exportCsv labels rows) = map (map neutral) (labels # rows)"
    using assms
  proof (induction rows arbitrary: labels)
    case Nil
    then show ?case by (simp add: exportCsv_def csv_line(1))
  next
    case (Cons r rows)
    have "exportCsv labels (r # rows) = js_join '','' (map csvCell labels) @ CHR 0x0A # exportCsv r rows" by (simp add: exportCsv_def)
    then show ?case using csv_line(2) [OF Cons.prems(1), of "exportCsv r rows"] Cons.IH [of r] Cons.prems(2) by simp
  qed
  moreover have "\<not> formula_start (neutral v)" for v by (simp add: neutral_def formula_start_def)
  ultimately show ?thesis by auto
qed

theorem csv_export_roundtrip_witness:
  "csv_rows CellStart [] (exportCsv [''Name'', ''Note''] [[''Acme'', ''=1+1'']]) = [[''Name'', ''Note''], [''Acme'', CHR 0x27 # ''=1+1'']]"
  using csv_export_roundtrip [of "[''Name'', ''Note'']" "[[''Acme'', ''=1+1'']]"] by (simp add: neutral_def formula_start_def)

subsection \<open>Free text leaves no clear copy\<close>

definition key_types :: "string list" where
  "key_types = [''select'', ''boolean'', ''multiselect'']"

definition num_types :: "string list" where
  "num_types = [''number'', ''currency'', ''date'']"

definition values_typed :: "db \<Rightarrow> bool" where
  "values_typed s \<longleftrightarrow> (\<forall>v\<in>set (crmFieldValues s). \<forall>d\<in>set (crmFieldDefs s). fd_id d = fv_fieldId v \<longrightarrow>
     (fv_valueKey v \<noteq> None \<longrightarrow> fd_type d \<in> set key_types) \<and> (fv_valueNum v \<noteq> None \<longrightarrow> fd_type d \<in> set num_types))"

definition fields_ok :: "db \<Rightarrow> bool" where
  "fields_ok s \<longleftrightarrow> work_ok s \<and> values_typed s"

lemma frames_imp_preserves: "frames P m \<Longrightarrow> preserves P m"
  by (simp add: frames_def preserves_def)

lemma fields_ok_audit [inv_intros]: "preserves fields_ok (appendAudit E now i)"
  by (intro frames_imp_preserves frames_appendAudit) (simp_all add: fields_ok_def values_typed_def work_ok_defs)

lemma fields_ok_activity [inv_intros]: "preserves fields_ok (recordActivity now aid w e r u b i m)"
proof -
  have "frames fields_ok (insert_activity x)" for x
    unfolding insert_activity_def by (rule frames_tbl_insert) (simp add: fields_ok_def values_typed_def work_ok_defs)
  then show ?thesis unfolding recordActivity_def by (intro frames_imp_preserves frame_intros)
qed

lemma fields_ok_insert_def [inv_intros]: "preserves fields_ok (insert_field_def r)"
proof -
  have "values_typed (crmFieldDefs_update (\<lambda>rs. rs @ [r]) s)" if "work_ok s" "values_typed s" "\<not> has_field_def s (fd_id r)" for s
    using that by (auto simp: values_typed_def work_ok_def work_refs_ok_def)
  then show ?thesis using work_ok_insert_field_def [of r]
    by (auto simp: preserves_def fields_ok_def insert_field_def_def tbl_insert_def)
qed

lemma fields_ok_patch [inv_intros]: "preserves fields_ok (tbl_update crmFieldDefs_update P (patch_field_def p))"
proof -
  have k: "fd_id (patch_field_def p r) = fd_id r" "fd_key3 (patch_field_def p r) = fd_key3 r" "fd_type (patch_field_def p r) = fd_type r" for r
    by (simp_all add: patch_field_def_def fd_key3_def)
  show ?thesis
    by (rule preserves_tbl_update)
       (simp add: fields_ok_def values_typed_def work_ok_defs key_fun_upd_where image_upd_where ball_upd_where k)
qed

lemma fields_ok_drop_values [inv_intros]: "preserves fields_ok (tbl_delete crmFieldValues_update P)"
  by (auto simp: preserves_def tbl_delete_def fields_ok_def values_typed_def work_ok_defs key_fun_filter)

lemma fields_ok_drop_def [inv_intros]: "preserves fields_ok (field_def_delete P)"
proof -
  have "fields_ok (crmFieldDefs_update (filter (\<lambda>r. \<not> P r)) s)"
    if ok: "fields_ok s" and no: "\<not> (\<exists>r\<in>set (crmFieldDefs s). P r \<and> (\<exists>v\<in>set (crmFieldValues s). fv_fieldId v = fd_id r))" for s
  proof -
    have "has_field_def (crmFieldDefs_update (filter (\<lambda>r. \<not> P r)) s) (fv_fieldId v)" if "v \<in> set (crmFieldValues s)" for v
      using ok no that by (fastforce simp: fields_ok_def work_ok_def work_refs_ok_def has_field_def_def)
    then show ?thesis using ok by (simp add: fields_ok_def values_typed_def work_ok_defs key_fun_filter)
  qed
  then show ?thesis by (auto simp: preserves_def field_def_delete_def restrict_delete_def tbl_delete_def)
qed

text \<open>What the encoder derives from a value fits the type of its field.\<close>

lemma encodeValue_typed:
  assumes "encodeValue K iv w d raw = Inr enc"
  shows "(en_valueKey enc \<noteq> None \<longrightarrow> df_type d \<in> set key_types) \<and> (en_valueNum enc \<noteq> None \<longrightarrow> df_type d \<in> set num_types)"
  using assms by (auto simp: encodeValue_def Let_def value_key_def value_num_def key_types_def num_types_def split: if_splits sum.splits)

lemma upsert_fields_ok:
  assumes ok: "fields_ok s" and d: "d \<in> set (crmFieldDefs s)" "fd_id d = fv_fieldId r"
    and typed: "(fv_valueKey r \<noteq> None \<longrightarrow> fd_type d \<in> set key_types) \<and> (fv_valueNum r \<noteq> None \<longrightarrow> fd_type d \<in> set num_types)"
  shows "fields_ok (snd (upsert_field_value r s))"
proof -
  have only: "x = d" if "x \<in> set (crmFieldDefs s)" "fd_id x = fv_fieldId r" for x
    using key_fun_eq [of fd_id "crmFieldDefs s" x d] ok d that by (simp add: fields_ok_def work_ok_def work_keys_ok_def)
  have w: "work_ok s" "values_typed s" using ok by (simp_all add: fields_ok_def)
  show ?thesis
  proof (cases "fv_key3 r \<in> fv_key3 ` set (crmFieldValues s)")
    case True
    let ?f = "\<lambda>v. v\<lparr>fv_valueEnc := fv_valueEnc r, fv_valueKey := fv_valueKey r, fv_valueNum := fv_valueNum r, fv_updatedBySub := fv_updatedBySub r,
      fv_updatedAt := fv_updatedAt r\<rparr>"
    let ?s = "crmFieldValues_update (upd_where (\<lambda>v. fv_key3 v = fv_key3 r) ?f) s"
    have k: "fv_key3 (?f v) = fv_key3 v" for v by (simp add: fv_key3_def)
    have "work_ok ?s" using w(1) by (simp add: work_ok_defs key_fun_upd_where image_upd_where ball_upd_where k)
    moreover have "values_typed ?s" unfolding values_typed_def
    proof (intro ballI impI)
      fix v x assume v: "v \<in> set (crmFieldValues ?s)" and x: "x \<in> set (crmFieldDefs ?s)" "fd_id x = fv_fieldId v"
      obtain u where u: "u \<in> set (crmFieldValues s)" "v = (if fv_key3 u = fv_key3 r then ?f u else u)" using v by (auto simp: set_upd_where)
      show "(fv_valueKey v \<noteq> None \<longrightarrow> fd_type x \<in> set key_types) \<and> (fv_valueNum v \<noteq> None \<longrightarrow> fd_type x \<in> set num_types)"
      proof (cases "fv_key3 u = fv_key3 r")
        case True
        then have "x = d" using only [of x] x u(2) by (simp add: fv_key3_def)
        then show ?thesis using typed True u(2) by simp
      next
        case False
        then show ?thesis using w(2) u x by (simp add: values_typed_def)
      qed
    qed
    ultimately show ?thesis using True by (simp add: upsert_field_value_def tbl_update_def fields_ok_def)
  next
    case False
    have "values_typed (crmFieldValues_update (\<lambda>rs. rs @ [r]) s)" using w(2) typed only by (auto simp: values_typed_def)
    moreover have "work_ok (snd (insert_field_value r s))" using work_ok_insert_field_value [of r] w(1) by (simp add: preserves_def)
    ultimately show ?thesis using False ok
      by (auto simp: upsert_field_value_def act_bind_def act_return_def insert_field_value_def tbl_insert_def fields_ok_def)
  qed
qed

lemma fields_ok_set [inv_intros]: "preserves fields_ok (setFieldValue K now newId aid iv a)"
  unfolding preserves_def
proof (intro allI impI)
  fix s assume ok: "fields_ok s"
  let ?w = "sf_workspaceId a"
  show "fields_ok (snd (setFieldValue K now newId aid iv a s))"
  proof (cases "field_def_at s ?w (sf_fieldId a)")
    case None
    then show ?thesis using ok by (simp add: setFieldValue_def Let_def act_throw_def)
  next
    case (Some d)
    then have d: "d \<in> set (crmFieldDefs s)" "fd_id d = sf_fieldId a" by (auto simp: field_def_at_def dest!: first_where_SomeD)
    show ?thesis
    proof (cases "encodeValue K iv ?w (toDef d) (sf_raw a)")
      case (Inl e)
      then show ?thesis using Some ok by (simp add: setFieldValue_def Let_def act_throw_def)
    next
      case (Inr enc)
      let ?r = "\<lparr>fv_id = newId, fv_workspaceId = ?w, fv_entity = entity_name (sf_entity a), fv_recordId = sf_recordId a,
          fv_fieldId = sf_fieldId a, fv_valueEnc = en_valueEnc enc, fv_valueKey = en_valueKey enc, fv_valueNum = en_valueNum enc,
          fv_updatedBySub = sf_bySub a, fv_updatedAt = now\<rparr>"
      let ?act = "recordActivity now aid ?w (sf_entity a) (sf_recordId a) (Some (sf_bySub a)) (or_default (sf_byAgent a) False)
        (FieldChanged (df_label (toDef d))) (Some [(''fieldId'', sf_fieldId a)])"
      have "fields_ok (snd (upsert_field_value ?r s))"
        by (rule upsert_fields_ok [OF ok d(1)]) (use d(2) encodeValue_typed [OF Inr] in \<open>simp_all add: toDef_def\<close>)
      moreover obtain res s1 where u: "upsert_field_value ?r s = (res, s1)" by fastforce
      ultimately have s1: "fields_ok s1" "fields_ok (snd (?act s1))" using preserves_snd [OF fields_ok_activity] by simp_all
      have "setFieldValue K now newId aid iv a s = act_bind (upsert_field_value ?r) (\<lambda>_. ?act) s" using Some Inr by (simp add: setFieldValue_def Let_def)
      then show ?thesis using u s1 by (cases res) (simp_all add: act_bind_def)
    qed
  qed
qed

lemma fields_ok_unless [inv_intros]: "preserves fields_ok (field_def_unless_defined r)"
  using fields_ok_insert_def [of r]
  by (auto simp: preserves_def field_def_unless_defined_def act_bind_def act_return_def split: prod.splits sum.splits)

lemma fields_ok_seed [inv_intros]: "preserves fields_ok (seed_from now ids w u present n ds)"
proof (induction ds arbitrary: n)
  case (Cons d ds)
  then show ?case by (auto simp: case_prod_beta intro!: inv_intros)
qed (simp add: preserves_return)

datatype field_command =
    DefineField crypto_env ms uuid CreateFieldDefInput
  | PatchField crypto_env ms uuid uuid UpdateFieldDefPatch string
  | DropField crypto_env ms uuid uuid string
  | SetField crm_env ms uuid uuid string SetFieldArgs
  | SeedFields ms "nat \<Rightarrow> uuid" uuid string

fun field_exec :: "field_command \<Rightarrow> db \<Rightarrow> db" where
  "field_exec (DefineField E now i x) s = snd (createFieldDef E now i x s)"
| "field_exec (PatchField E now w i p u) s = snd (updateFieldDef E now w i p u s)"
| "field_exec (DropField E now w i u) s = snd (deleteFieldDef E now w i u s)"
| "field_exec (SetField K now i aid iv a) s = snd (setFieldValue K now i aid iv a s)"
| "field_exec (SeedFields now ids w u) s = snd (seedDefaultCrmFields now ids w u s)"

definition field_start :: "db \<Rightarrow> bool" where
  "field_start s \<longleftrightarrow> work_ok s \<and> crmFieldValues s = []"

definition field_step :: "db \<Rightarrow> db \<Rightarrow> bool" where
  "field_step s t \<longleftrightarrow> (\<exists>c. t = field_exec c s)"

lemma fields_ok_exec: "fields_ok s \<Longrightarrow> fields_ok (field_exec c s)"
proof -
  have "preserves fields_ok (createFieldDef E now i x)" for E now i x unfolding createFieldDef_def by (intro inv_intros)
  moreover have "preserves fields_ok (updateFieldDef E now w i p u)" for E now w i p u unfolding updateFieldDef_def by (intro inv_intros)
  moreover have "preserves fields_ok (deleteFieldDef E now w i u)" for E now w i u unfolding deleteFieldDef_def by (intro inv_intros)
  moreover have "preserves fields_ok (seedDefaultCrmFields now ids w u)" for now ids w u unfolding seedDefaultCrmFields_def by (intro inv_intros)
  moreover assume "fields_ok s"
  ultimately show ?thesis using fields_ok_set by (cases c) (simp_all add: preserves_snd)
qed

interpretation fields: invariant_system field_start field_step fields_ok
proof
  show "field_start s \<Longrightarrow> fields_ok s" for s by (simp add: field_start_def fields_ok_def values_typed_def)
  show "fields_ok s \<Longrightarrow> field_step s t \<Longrightarrow> fields_ok t" for s t by (auto simp: field_step_def intro: fields_ok_exec)
qed

text \<open>C16. Free text is stored only encrypted. Whatever fields are defined, changed, seeded and dropped and whatever values are set, in any order and by
  whatever interleaving of workspaces, the value of a field of type text, longtext, url, email, phone or user has neither of the clear index columns; a
  clear key belongs to a select, boolean or multiselect field and a clear number to a number, currency or date field.\<close>

theorem free_text_only_encrypted:
  assumes "reach field_start field_step s" "v \<in> set (crmFieldValues s)" "d \<in> set (crmFieldDefs s)" "fd_id d = fv_fieldId v"
  shows "(fv_valueKey v \<noteq> None \<longrightarrow> fd_type d \<in> {''select'', ''boolean'', ''multiselect''})
     \<and> (fv_valueNum v \<noteq> None \<longrightarrow> fd_type d \<in> {''number'', ''currency'', ''date''})
     \<and> (fd_type d \<in> {''text'', ''longtext'', ''url'', ''email'', ''phone'', ''user''} \<longrightarrow> fv_valueKey v = None \<and> fv_valueNum v = None)"
proof -
  have "values_typed s" using fields.reach_inv [OF assms(1)] by (simp add: fields_ok_def)
  then have k: "fv_valueKey v \<noteq> None \<longrightarrow> fd_type d \<in> set key_types" and n: "fv_valueNum v \<noteq> None \<longrightarrow> fd_type d \<in> set num_types"
    using assms(2-4) by (auto simp: values_typed_def)
  show ?thesis using k n unfolding key_types_def num_types_def by fastforce
qed

subsection \<open>What is set is what is read\<close>

definition put_value :: "field_value_row \<Rightarrow> field_value_row list \<Rightarrow> field_value_row list" where
  "put_value r vs = (if fv_key3 r \<in> fv_key3 ` set vs
     then upd_where (\<lambda>v. fv_key3 v = fv_key3 r) (\<lambda>v. v\<lparr>fv_valueEnc := fv_valueEnc r, fv_valueKey := fv_valueKey r,
        fv_valueNum := fv_valueNum r, fv_updatedBySub := fv_updatedBySub r, fv_updatedAt := fv_updatedAt r\<rparr>) vs
     else vs @ [r])"

definition value_row :: "SetFieldArgs \<Rightarrow> uuid \<Rightarrow> ms \<Rightarrow> EncodedValue \<Rightarrow> field_value_row" where
  "value_row a newId now enc = \<lparr>fv_id = newId, fv_workspaceId = sf_workspaceId a, fv_entity = entity_name (sf_entity a), fv_recordId = sf_recordId a,
     fv_fieldId = sf_fieldId a, fv_valueEnc = en_valueEnc enc, fv_valueKey = en_valueKey enc, fv_valueNum = en_valueNum enc,
     fv_updatedBySub = sf_bySub a, fv_updatedAt = now\<rparr>"

lemma recordActivity_run: "\<exists>f. recordActivity now aid w e r u b i m s = (Inr (), crmActivity_update f s)"
proof -
  let ?r = "\<lparr>ac_id = aid, ac_workspaceId = w, ac_entity = entity_name e, ac_recordId = r, ac_kind = activity_kind i,
        ac_actorSub = u, ac_byAgent = b, ac_summary = summarizeActivity e i, ac_meta = m, ac_createdAt = now\<rparr>"
  show ?thesis
  proof (cases "aid \<notin> ac_id ` set (crmActivity s) \<and> has_workspace s w")
    case True
    then have "recordActivity now aid w e r u b i m s = (Inr (), crmActivity_update (\<lambda>rs. rs @ [?r]) s)"
      by (simp add: recordActivity_def insert_activity_def act_try_def act_bind_def tbl_insert_def act_return_def)
    then show ?thesis by blast
  next
    case False
    then have "recordActivity now aid w e r u b i m s = (Inr (), crmActivity_update (\<lambda>rs. rs) s)"
      by (auto simp: recordActivity_def insert_activity_def act_try_def act_bind_def tbl_insert_def act_return_def)
    then show ?thesis by blast
  qed
qed

lemma setFieldValue_run:
  assumes d: "field_def_at s (sf_workspaceId a) (sf_fieldId a) = Some d" and enc: "encodeValue K iv (sf_workspaceId a) (toDef d) (sf_raw a) = Inr enc"
    and ws: "has_workspace s (sf_workspaceId a)" and fresh: "newId \<notin> fv_id ` set (crmFieldValues s)"
  shows "\<exists>s'. setFieldValue K now newId aid iv a s = (Inr (), s') \<and> crmFieldDefs s' = crmFieldDefs s
     \<and> crmFieldValues s' = put_value (value_row a newId now enc) (crmFieldValues s)"
proof -
  let ?r = "value_row a newId now enc"
  let ?s = "crmFieldValues_update (put_value ?r) s"
  have "has_field_def s (sf_fieldId a)" using d by (force simp: field_def_at_def has_field_def_def dest!: first_where_SomeD)
  then have "upsert_field_value ?r s = (Inr (), ?s)" using ws fresh
    by (auto simp: upsert_field_value_def put_value_def [abs_def] tbl_update_def act_bind_def act_return_def insert_field_value_def tbl_insert_def value_row_def
        intro!: db.fold_congs)
  then have run: "setFieldValue K now newId aid iv a s = recordActivity now aid (sf_workspaceId a) (sf_entity a) (sf_recordId a) (Some (sf_bySub a))
      (or_default (sf_byAgent a) False) (FieldChanged (df_label (toDef d))) (Some [(''fieldId'', sf_fieldId a)]) ?s"
    using d enc by (simp add: setFieldValue_def Let_def act_bind_def act_get_def act_lift_def value_row_def)
  show ?thesis unfolding run
    using recordActivity_run [of now aid "sf_workspaceId a" "sf_entity a" "sf_recordId a" "Some (sf_bySub a)" "or_default (sf_byAgent a) False"
        "FieldChanged (df_label (toDef d))" "Some [(''fieldId'', sf_fieldId a)]" ?s] by auto
qed

lemma rev_upd_where: "rev (upd_where P f rs) = upd_where P f (rev rs)"
  by (simp add: upd_where_def rev_map)

definition last_value :: "uuid \<Rightarrow> uuid \<Rightarrow> uuid \<Rightarrow> field_value_row list \<Rightarrow> string option" where
  "last_value w recordId fieldId vs = (case first_where (\<lambda>v. fv_key3 v = (w, recordId, fieldId)) (rev vs) of Some v \<Rightarrow> fv_valueEnc v | None \<Rightarrow> None)"

lemma value_of_last: "value_of s w recordId fieldId = last_value w recordId fieldId (crmFieldValues s)"
proof -
  have "first_where (\<lambda>v. fv_fieldId v = fieldId) (rev (rows_where (\<lambda>v. fv_workspaceId v = w \<and> fv_recordId v = recordId) vs))
      = first_where (\<lambda>v. fv_key3 v = (w, recordId, fieldId)) (rev vs)" for vs
    by (simp add: rows_where_def rev_filter first_where_filter fv_key3_def conj_assoc)
  then show ?thesis by (simp add: value_of_def last_value_def)
qed

lemma last_value_put:
  "last_value w recordId fieldId (put_value r vs) = (if fv_key3 r = (w, recordId, fieldId) then fv_valueEnc r else last_value w recordId fieldId vs)"
proof (cases "fv_key3 r \<in> fv_key3 ` set vs")
  case False
  then show ?thesis by (simp add: last_value_def put_value_def)
next
  case True
  let ?f = "\<lambda>v. v\<lparr>fv_valueEnc := fv_valueEnc r, fv_valueKey := fv_valueKey r, fv_valueNum := fv_valueNum r, fv_updatedBySub := fv_updatedBySub r,
    fv_updatedAt := fv_updatedAt r\<rparr>"
  have "first_where (\<lambda>v. fv_key3 v = (w, recordId, fieldId)) (rev (put_value r vs))
      = map_option (\<lambda>v. if fv_key3 v = fv_key3 r then ?f v else v) (first_where (\<lambda>v. fv_key3 v = (w, recordId, fieldId)) (rev vs))"
    using True by (simp add: put_value_def rev_upd_where first_where_upd_where fv_key3_def)
  moreover have "fv_key3 r = (w, recordId, fieldId) \<Longrightarrow> first_where (\<lambda>v. fv_key3 v = (w, recordId, fieldId)) (rev vs) \<noteq> None"
    using True by (auto simp: first_where_None_iff)
  ultimately show ?thesis by (auto simp: last_value_def dest: first_where_SomeD split: option.splits)
qed

lemma encode_decode:
  assumes key: "gcm_ok (ck_crypto K)" "provisioned (ck_crypto K)" "iv \<noteq> []"
  obtains enc where "encodeValue K iv w d raw = Inr enc"
    "decodeValue (ck_crypto K) w (en_valueEnc enc) = (if js_trim raw = [] then None else Some (js_trim raw))"
proof (cases "js_trim raw = []")
  case True
  then show thesis by (intro that [of "\<lparr>en_valueEnc = None, en_valueKey = None, en_valueNum = None\<rparr>"])
      (simp_all add: encodeValue_def decodeValue_def or_text_def)
next
  case False
  obtain c where c: "encryptField (ck_crypto K) iv w (js_trim raw) = Inr c" by (meson encryptField_Inr [OF key(2)])
  have "decryptField (ck_crypto K) w c = Inr (js_trim raw)" by (rule decrypt_encrypt [OF key False c])
  moreover have "c \<noteq> []" using encryptField_nonempty [OF c] by simp
  ultimately show thesis using False c
    by (intro that [of "\<lparr>en_valueEnc = Some c, en_valueKey = value_key (df_type d) (js_trim raw), en_valueNum = value_num K (df_type d) (js_trim raw)\<rparr>"])
       (simp_all add: encodeValue_def decodeValue_def or_text_def dec_def Let_def)
qed

text \<open>A field reads back as it was set. Setting a defined field of a record succeeds, and the fields of the record read afterwards are those read
  before with only this field changed: it holds the given text without the space around it, and nothing when there is no more than space.\<close>

theorem set_field_then_read:
  assumes key: "gcm_ok (ck_crypto K)" "provisioned (ck_crypto K)" "iv \<noteq> []"
    and d: "field_def_at s (sf_workspaceId a) (sf_fieldId a) = Some d" and ws: "has_workspace s (sf_workspaceId a)"
    and fresh: "newId \<notin> fv_id ` set (crmFieldValues s)"
    and before: "getFieldsForRecord (ck_crypto K) (sf_workspaceId a) e (sf_recordId a) s = (Inr old, s)"
  shows "\<exists>s'. setFieldValue K now newId aid iv a s = (Inr (), s')
     \<and> getFieldsForRecord (ck_crypto K) (sf_workspaceId a) e (sf_recordId a) s' = (Inr (map (\<lambda>(f, v). (f, if df_id f = sf_fieldId a
           then (if js_trim (sf_raw a) = [] then None else Some (js_trim (sf_raw a))) else v)) old), s')"
proof -
  let ?w = "sf_workspaceId a"
  obtain enc where enc: "encodeValue K iv ?w (toDef d) (sf_raw a) = Inr enc"
      "decodeValue (ck_crypto K) ?w (en_valueEnc enc) = (if js_trim (sf_raw a) = [] then None else Some (js_trim (sf_raw a)))"
    by (rule encode_decode [OF key])
  obtain s' where s': "setFieldValue K now newId aid iv a s = (Inr (), s')" "crmFieldDefs s' = crmFieldDefs s"
      "crmFieldValues s' = put_value (value_row a newId now enc) (crmFieldValues s)"
    using setFieldValue_run [OF d enc(1) ws fresh] by blast
  have "decodeValue (ck_crypto K) ?w (value_of s' ?w (sf_recordId a) f) = (if f = sf_fieldId a
      then (if js_trim (sf_raw a) = [] then None else Some (js_trim (sf_raw a))) else decodeValue (ck_crypto K) ?w (value_of s ?w (sf_recordId a) f))" for f
    using enc(2) by (auto simp: value_of_last s'(3) last_value_put value_row_def fv_key3_def)
  then show ?thesis using before s'(1,2) by (auto simp: getFieldsForRecord_def listFieldDefs_def act_bind_def act_get_def)
qed

definition demo_crm :: crm_env where
  "demo_crm = \<lparr>ck_crypto = demo_env, ck_number = (\<lambda>_. None), ck_currency = (\<lambda>_. None), ck_date = (\<lambda>_. None), ck_isoDay = (\<lambda>_. []),
     ck_rank = (\<lambda>_. 0)\<rparr>"

definition demo_field :: field_def_row where
  "demo_field = \<lparr>fd_id = ''f1'', fd_workspaceId = ''w1'', fd_entity = ''contact'', fd_key = ''phone'', fd_label = ''Phone'', fd_type = ''phone'',
     fd_options = None, fd_required = False, fd_sensitive = True, fd_ord = 0, fd_enabled = True, fd_createdBy = ''alice'', fd_createdAt = 0\<rparr>"

definition demo_fields :: db where
  "demo_fields = demo_chat\<lparr>crmFieldDefs := [demo_field]\<rparr>"

definition demo_set :: SetFieldArgs where
  "demo_set = \<lparr>sf_workspaceId = ''w1'', sf_entity = CrmContact, sf_recordId = ''k1'', sf_fieldId = ''f1'', sf_raw = '' 555 '', sf_bySub = ''alice'',
     sf_byAgent = None\<rparr>"

lemma demo_set_facts:
  "gcm_ok (ck_crypto demo_crm)" "provisioned (ck_crypto demo_crm)" "field_def_at demo_fields (sf_workspaceId demo_set) (sf_fieldId demo_set) = Some demo_field"
  "has_workspace demo_fields (sf_workspaceId demo_set)" "''v1'' \<notin> fv_id ` set (crmFieldValues demo_fields)"
  using provisioned_demo gcm_ok_demo
  by (simp_all add: demo_crm_def field_def_at_def demo_fields_def demo_set_def demo_field_def has_workspace_def demo_chat_def demo_db_def demo_workspace_def
      empty_db_def)

theorem set_field_then_read_witness:
  "\<exists>s'. setFieldValue demo_crm 5 ''v1'' ''a1'' ''i'' demo_set demo_fields = (Inr (), s')
     \<and> getFieldsForRecord demo_env ''w1'' CrmContact ''k1'' s' = (Inr [(toDef demo_field, Some ''555'')], s')"
proof -
  have before: "getFieldsForRecord (ck_crypto demo_crm) (sf_workspaceId demo_set) CrmContact (sf_recordId demo_set) demo_fields
      = (Inr [(toDef demo_field, None)], demo_fields)"
    by (simp add: getFieldsForRecord_def listFieldDefs_def act_bind_def act_get_def demo_fields_def demo_field_def rows_where_def toDef_def demo_set_def
        demo_chat_def demo_db_def empty_db_def value_of_def decodeValue_def or_text_def)
  have trim: "js_trim '' 555 '' = ''555''" by code_simp
  show ?thesis
    using set_field_then_read [OF demo_set_facts(1,2) _ demo_set_facts(3-5) before, of "''i''" 5 "''a1''"] trim
    by (simp add: demo_set_def demo_crm_def toDef_def demo_field_def)
qed

theorem free_text_only_encrypted_witness:
  "\<exists>s v. reach field_start field_step s \<and> v \<in> set (crmFieldValues s) \<and> demo_field \<in> set (crmFieldDefs s) \<and> fv_valueEnc v \<noteq> None
     \<and> fv_valueKey v = None \<and> fv_valueNum v = None"
proof -
  obtain enc where enc: "encodeValue demo_crm ''i'' (sf_workspaceId demo_set) (toDef demo_field) (sf_raw demo_set) = Inr enc"
      "decodeValue (ck_crypto demo_crm) (sf_workspaceId demo_set) (en_valueEnc enc) = (if js_trim (sf_raw demo_set) = [] then None else Some (js_trim (sf_raw demo_set)))"
    by (rule encode_decode [OF demo_set_facts(1,2), of "''i''"]) simp
  obtain s' where s': "setFieldValue demo_crm 5 ''v1'' ''a1'' ''i'' demo_set demo_fields = (Inr (), s')" "crmFieldDefs s' = crmFieldDefs demo_fields"
      "crmFieldValues s' = put_value (value_row demo_set ''v1'' 5 enc) (crmFieldValues demo_fields)"
    using setFieldValue_run [OF demo_set_facts(3) enc(1) demo_set_facts(4,5)] by blast
  let ?v = "value_row demo_set ''v1'' 5 enc"
  have v: "?v \<in> set (crmFieldValues s')" using s'(3) by (simp add: put_value_def demo_fields_def demo_chat_def demo_db_def empty_db_def)
  have d: "demo_field \<in> set (crmFieldDefs s')" "fd_id demo_field = fv_fieldId ?v" "fd_type demo_field = ''phone''"
    using s'(2) by (simp_all add: demo_fields_def demo_field_def value_row_def demo_set_def)
  have "field_start demo_fields"
    by (simp add: field_start_def demo_fields_def demo_chat_def demo_db_def empty_db_def work_ok_defs key_fun_def)
  moreover have "field_step demo_fields s'" unfolding field_step_def using s'(1) by (intro exI [of _ "SetField demo_crm 5 ''v1'' ''a1'' ''i'' demo_set"]) simp
  ultimately have r: "reach field_start field_step s'" by (meson reach_init reach_step)
  have "js_trim (sf_raw demo_set) \<noteq> []" unfolding demo_set_def by code_simp
  then have "decodeValue (ck_crypto demo_crm) (sf_workspaceId demo_set) (en_valueEnc enc) \<noteq> None" using enc(2) by simp
  then have "fv_valueEnc ?v \<noteq> None" by (cases "en_valueEnc enc") (simp_all add: value_row_def decodeValue_def or_text_def)
  then show ?thesis using free_text_only_encrypted [OF r v d(1,2)] d r v by auto
qed

end
