(* ===== verification/Crm.thy ===== *)
theory Crm
  imports Crm_Depth
begin

text \<open>
  The CRM repository \<^verbatim>\<open>lib/domain/crm.ts\<close>: accounts, deals and contacts, the find-or-create operations that are to keep
  doubles out, and the deletes with the clean-up of notes, field values, activity and tags. The second half shows what the find-or-create operations
  achieve, where they fail, and that the account of a deal is not confined to the workspace.
\<close>

record AccountRow =
  ar_id :: uuid
  ar_name :: string
  ar_domain :: "string option"
  ar_ownerSub :: "string option"

record DealRow =
  dr_id :: uuid
  dr_accountId :: "uuid option"
  dr_accountName :: "string option"
  dr_name :: string
  dr_valueMinor :: int
  dr_stage :: string
  dr_ownerSub :: "string option"
  dr_linkedChannelId :: "uuid option"

record ContactRow =
  cr_id :: uuid
  cr_name :: string
  cr_title :: "string option"
  cr_accountId :: "uuid option"
  cr_accountName :: "string option"
  cr_ownerSub :: "string option"

subsection \<open>Accounts\<close>

definition account_view :: "account_row \<Rightarrow> AccountRow" where
  "account_view r = \<lparr>ar_id = acc_id r, ar_name = acc_name r, ar_domain = acc_domain r, ar_ownerSub = acc_ownerSub r\<rparr>"

definition listAccounts :: "crm_env \<Rightarrow> uuid \<Rightarrow> (db, AccountRow list) act" where
  "listAccounts K w = act_get (\<lambda>s. map account_view (sort_key (ck_rank K \<circ> acc_name) (rows_where (\<lambda>r. acc_workspaceId r = w) (accounts s))))"

definition createAccount :: "ms \<Rightarrow> uuid \<Rightarrow> uuid \<Rightarrow> uuid \<Rightarrow> string \<Rightarrow> string option \<Rightarrow> string \<Rightarrow> (db, AccountRow) act" where
  "createAccount now newId aid w name domain ownerSub =
     act_bind (insert_account \<lparr>acc_id = newId, acc_workspaceId = w, acc_name = js_trim name, acc_domain = trimmed_title domain,
        acc_ownerSub = Some ownerSub, acc_createdAt = now\<rparr>) (\<lambda>row.
     act_bind (recordActivity now aid w CrmAccount (acc_id row) (Some ownerSub) False Created None) (\<lambda>_.
     act_return (account_view row)))"

definition account_at :: "db \<Rightarrow> uuid \<Rightarrow> uuid \<Rightarrow> account_row option" where
  "account_at s w i = first_where (\<lambda>r. acc_workspaceId r = w \<and> acc_id r = i) (accounts s)"

definition getAccount :: "uuid \<Rightarrow> uuid \<Rightarrow> (db, AccountRow option) act" where
  "getAccount w i = act_get (\<lambda>s. map_option account_view (account_at s w i))"

text \<open>A patch of the standard fields holds the keys that were sent; a key can be sent with the value null.\<close>

record AccountPatch =
  pa_name :: "string option"
  pa_domain :: "string option option"

record DealPatch =
  pd_name :: "string option"
  pd_valueMinor :: "int option"

record ContactPatch =
  pc_name :: "string option"
  pc_title :: "string option option"

definition fieldLabels :: "(bool \<times> string) list \<Rightarrow> string list" where
  "fieldLabels sent = map snd (filter fst sent)"

definition field_activities :: "ms \<Rightarrow> (nat \<Rightarrow> uuid) \<Rightarrow> uuid \<Rightarrow> CrmEntity \<Rightarrow> uuid \<Rightarrow> string \<Rightarrow> string list \<Rightarrow> (db, unit) act" where
  "field_activities now aids w e i actorSub labels = act_for (enumerate 0 labels)
     (\<lambda>x. recordActivity now (aids (fst x)) w e i (Some actorSub) False (FieldChanged (snd x)) None)"

definition patch_account :: "AccountPatch \<Rightarrow> account_row \<Rightarrow> account_row" where
  "patch_account p r = r\<lparr>acc_name := (case pa_name p of None \<Rightarrow> acc_name r | Some n \<Rightarrow> js_trim n),
     acc_domain := (case pa_domain p of None \<Rightarrow> acc_domain r | Some d \<Rightarrow> trimmed_title d)\<rparr>"

definition updateAccount :: "ms \<Rightarrow> (nat \<Rightarrow> uuid) \<Rightarrow> uuid \<Rightarrow> uuid \<Rightarrow> AccountPatch \<Rightarrow> string \<Rightarrow> (db, unit) act" where
  "updateAccount now aids w i p actorSub = (if pa_name p = None \<and> pa_domain p = None then act_return ()
     else act_bind (tbl_update accounts_update (\<lambda>r. acc_workspaceId r = w \<and> acc_id r = i) (patch_account p)) (\<lambda>_.
       field_activities now aids w CrmAccount i actorSub (fieldLabels [(pa_name p \<noteq> None, ''Name''), (pa_domain p \<noteq> None, ''Domain'')])))"

definition patch_deal :: "DealPatch \<Rightarrow> deal_row \<Rightarrow> deal_row" where
  "patch_deal p r = r\<lparr>dl_name := (case pd_name p of None \<Rightarrow> dl_name r | Some n \<Rightarrow> js_trim n),
     dl_valueMinor := or_default (pd_valueMinor p) (dl_valueMinor r)\<rparr>"

definition updateDeal :: "ms \<Rightarrow> (nat \<Rightarrow> uuid) \<Rightarrow> uuid \<Rightarrow> uuid \<Rightarrow> DealPatch \<Rightarrow> string \<Rightarrow> (db, unit) act" where
  "updateDeal now aids w i p actorSub = (if pd_name p = None \<and> pd_valueMinor p = None then act_return ()
     else act_bind (tbl_update deals_update (\<lambda>r. dl_workspaceId r = w \<and> dl_id r = i) (patch_deal p)) (\<lambda>_.
       field_activities now aids w CrmDeal i actorSub (fieldLabels [(pd_name p \<noteq> None, ''Name''), (pd_valueMinor p \<noteq> None, ''Value'')])))"

definition patch_contact :: "ContactPatch \<Rightarrow> contact_row \<Rightarrow> contact_row" where
  "patch_contact p r = r\<lparr>ct_name := (case pc_name p of None \<Rightarrow> ct_name r | Some n \<Rightarrow> js_trim n),
     ct_title := (case pc_title p of None \<Rightarrow> ct_title r | Some t \<Rightarrow> trimmed_title t)\<rparr>"

definition updateContact :: "ms \<Rightarrow> (nat \<Rightarrow> uuid) \<Rightarrow> uuid \<Rightarrow> uuid \<Rightarrow> ContactPatch \<Rightarrow> string \<Rightarrow> (db, unit) act" where
  "updateContact now aids w i p actorSub = (if pc_name p = None \<and> pc_title p = None then act_return ()
     else act_bind (tbl_update contacts_update (\<lambda>r. ct_workspaceId r = w \<and> ct_id r = i) (patch_contact p)) (\<lambda>_.
       field_activities now aids w CrmContact i actorSub (fieldLabels [(pc_name p \<noteq> None, ''Name''), (pc_title p \<noteq> None, ''Title'')])))"

subsection \<open>Deals\<close>

text \<open>The left join on \<^verbatim>\<open>accounts.id\<close>, which is not restricted to the workspace.\<close>

definition account_name :: "db \<Rightarrow> uuid option \<Rightarrow> string option" where
  "account_name s i = (case i of None \<Rightarrow> None | Some a \<Rightarrow> map_option acc_name (first_where (\<lambda>r. acc_id r = a) (accounts s)))"

definition deal_view :: "db \<Rightarrow> deal_row \<Rightarrow> DealRow" where
  "deal_view s r = \<lparr>dr_id = dl_id r, dr_accountId = dl_accountId r, dr_accountName = account_name s (dl_accountId r), dr_name = dl_name r,
     dr_valueMinor = dl_valueMinor r, dr_stage = dl_stage r, dr_ownerSub = dl_ownerSub r, dr_linkedChannelId = dl_linkedChannelId r\<rparr>"

definition listDeals :: "uuid \<Rightarrow> (db, DealRow list) act" where
  "listDeals w = act_get (\<lambda>s. map (deal_view s) (sort_key dl_createdAt (rows_where (\<lambda>r. dl_workspaceId r = w) (deals s))))"

record CreateDealArgs =
  cd_workspaceId :: uuid
  cd_accountId :: uuid
  cd_name :: string
  cd_valueMinor :: int
  cd_ownerSub :: string

definition deal_row_of :: "ms \<Rightarrow> uuid \<Rightarrow> CreateDealArgs \<Rightarrow> deal_row" where
  "deal_row_of now newId a = \<lparr>dl_id = newId, dl_workspaceId = cd_workspaceId a, dl_accountId = Some (cd_accountId a), dl_name = js_trim (cd_name a),
     dl_valueMinor = cd_valueMinor a, dl_stage = ''Lead'', dl_priority = None, dl_ownerSub = Some (cd_ownerSub a), dl_closeDate = None,
     dl_linkedChannelId = None, dl_createdAt = now\<rparr>"

definition createDeal :: "ms \<Rightarrow> uuid \<Rightarrow> uuid \<Rightarrow> CreateDealArgs \<Rightarrow> (db, DealRow) act" where
  "createDeal now newId aid a = act_bind (insert_deal (deal_row_of now newId a)) (\<lambda>row.
     act_bind (act_get (\<lambda>s. deal_view s row)) (\<lambda>view.
     act_bind (recordActivity now aid (cd_workspaceId a) CrmDeal (dl_id row) (Some (cd_ownerSub a)) False Created None) (\<lambda>_.
     act_return view)))"

definition deal_at :: "db \<Rightarrow> uuid \<Rightarrow> uuid \<Rightarrow> deal_row option" where
  "deal_at s w i = first_where (\<lambda>r. dl_workspaceId r = w \<and> dl_id r = i) (deals s)"

definition getDeal :: "uuid \<Rightarrow> uuid \<Rightarrow> (db, DealRow option) act" where
  "getDeal w i = act_get (\<lambda>s. map_option (deal_view s) (deal_at s w i))"

definition listDealsForAccount :: "uuid \<Rightarrow> uuid \<Rightarrow> (db, DealRow list) act" where
  "listDealsForAccount w accountId = act_get (\<lambda>s. map (deal_view s)
     (sort_key dl_createdAt (rows_where (\<lambda>r. dl_workspaceId r = w \<and> dl_accountId r = Some accountId) (deals s))))"

definition moveDealStage :: "ms \<Rightarrow> uuid \<Rightarrow> uuid \<Rightarrow> uuid \<Rightarrow> string \<Rightarrow> string option \<Rightarrow> (db, unit) act" where
  "moveDealStage now aid w dealId stage actorSub = act_bind (act_get (\<lambda>s. map_option dl_stage (deal_at s w dealId))) (\<lambda>prev.
     act_bind (tbl_update deals_update (\<lambda>r. dl_workspaceId r = w \<and> dl_id r = dealId) (\<lambda>r. r\<lparr>dl_stage := stage\<rparr>)) (\<lambda>_.
     case prev of None \<Rightarrow> act_return ()
     | Some p \<Rightarrow> if p \<noteq> stage then recordActivity now aid w CrmDeal dealId actorSub False (StageChanged p stage) None else act_return ()))"

subsection \<open>Contacts\<close>

definition contact_view :: "db \<Rightarrow> contact_row \<Rightarrow> ContactRow" where
  "contact_view s r = \<lparr>cr_id = ct_id r, cr_name = ct_name r, cr_title = ct_title r, cr_accountId = ct_accountId r,
     cr_accountName = account_name s (ct_accountId r), cr_ownerSub = ct_ownerSub r\<rparr>"

definition bare_contact :: "contact_row \<Rightarrow> ContactRow" where
  "bare_contact r = \<lparr>cr_id = ct_id r, cr_name = ct_name r, cr_title = ct_title r, cr_accountId = ct_accountId r, cr_accountName = None,
     cr_ownerSub = ct_ownerSub r\<rparr>"

definition listContacts :: "crm_env \<Rightarrow> uuid \<Rightarrow> (db, ContactRow list) act" where
  "listContacts K w = act_get (\<lambda>s. map (contact_view s) (sort_key (ck_rank K \<circ> ct_name) (rows_where (\<lambda>r. ct_workspaceId r = w) (contacts s))))"

definition contact_at :: "db \<Rightarrow> uuid \<Rightarrow> uuid \<Rightarrow> contact_row option" where
  "contact_at s w i = first_where (\<lambda>r. ct_workspaceId r = w \<and> ct_id r = i) (contacts s)"

definition getContact :: "uuid \<Rightarrow> uuid \<Rightarrow> (db, ContactRow option) act" where
  "getContact w i = act_get (\<lambda>s. map_option (contact_view s) (contact_at s w i))"

definition listContactsForAccount :: "crm_env \<Rightarrow> uuid \<Rightarrow> uuid \<Rightarrow> (db, ContactRow list) act" where
  "listContactsForAccount K w accountId = act_get (\<lambda>s. map bare_contact
     (sort_key (ck_rank K \<circ> ct_name) (rows_where (\<lambda>r. ct_workspaceId r = w \<and> ct_accountId r = Some accountId) (contacts s))))"

definition recordExists :: "uuid \<Rightarrow> CrmEntity \<Rightarrow> uuid \<Rightarrow> (db, bool) act" where
  "recordExists w e i = (case e of
     CrmAccount \<Rightarrow> act_bind (getAccount w i) (\<lambda>r. act_return (r \<noteq> None))
   | CrmDeal \<Rightarrow> act_bind (getDeal w i) (\<lambda>r. act_return (r \<noteq> None))
   | CrmContact \<Rightarrow> act_bind (getContact w i) (\<lambda>r. act_return (r \<noteq> None)))"

definition contactEmailKey :: "crypto_env \<Rightarrow> uuid \<Rightarrow> string \<Rightarrow> err + string" where
  "contactEmailKey E w mail = blindIndex E w ''email'' (js_lower (js_trim mail))"

record CreateContactArgs =
  nc_workspaceId :: uuid
  nc_name :: string
  nc_title :: "string option"
  nc_accountId :: "uuid option"
  nc_ownerSub :: string
  nc_email :: "string option"

definition contact_row_of :: "uuid \<Rightarrow> CreateContactArgs \<Rightarrow> string option \<Rightarrow> string option \<Rightarrow> contact_row" where
  "contact_row_of newId a enc key = \<lparr>ct_id = newId, ct_workspaceId = nc_workspaceId a, ct_accountId = nc_accountId a, ct_name = js_trim (nc_name a),
     ct_emailEnc = enc, ct_emailKey = key, ct_title = trimmed_title (nc_title a), ct_ownerSub = Some (nc_ownerSub a), ct_lastTouch = None\<rparr>"

definition insert_new_contact :: "ms \<Rightarrow> uuid \<Rightarrow> uuid \<Rightarrow> CreateContactArgs \<Rightarrow> string option \<Rightarrow> string option \<Rightarrow> (db, ContactRow) act" where
  "insert_new_contact now newId aid a enc key = act_bind (insert_contact (contact_row_of newId a enc key)) (\<lambda>row.
     act_bind (recordActivity now aid (nc_workspaceId a) CrmContact (ct_id row) (Some (nc_ownerSub a)) False Created None) (\<lambda>_.
     act_return (bare_contact row)))"

definition createContact :: "crypto_env \<Rightarrow> ms \<Rightarrow> uuid \<Rightarrow> uuid \<Rightarrow> string \<Rightarrow> CreateContactArgs \<Rightarrow> (db, ContactRow) act" where
  "createContact E now newId aid iv a = (case trimmed_title (nc_email a) of
     None \<Rightarrow> insert_new_contact now newId aid a None None
   | Some mail \<Rightarrow> act_bind (act_lift (encryptField E iv (nc_workspaceId a) mail)) (\<lambda>enc.
       act_bind (act_lift (contactEmailKey E (nc_workspaceId a) mail)) (\<lambda>key.
       insert_new_contact now newId aid a (Some enc) (Some key))))"

subsection \<open>Find or create\<close>

definition trailing_punctuation :: "char \<Rightarrow> bool" where
  "trailing_punctuation c \<longleftrightarrow> c \<in> set ''.,;:''"

definition drop_trailing :: "(char \<Rightarrow> bool) \<Rightarrow> string \<Rightarrow> string" where
  "drop_trailing P s = rev (dropWhile P (rev s))"

definition crmNormName :: "string \<Rightarrow> string" where
  "crmNormName s = drop_trailing trailing_punctuation (collapse_spaces (CHR '' '') (js_trim (js_lower s)))"

definition domain_key :: "string option \<Rightarrow> string" where
  "domain_key d = (case d of None \<Rightarrow> [] | Some x \<Rightarrow> js_lower (js_trim x))"

definition by_domain :: "uuid \<Rightarrow> string option \<Rightarrow> db \<Rightarrow> account_row option" where
  "by_domain w domain s = (if domain_key domain = [] then None
     else first_where (\<lambda>r. acc_workspaceId r = w \<and> truthy (acc_domain r) \<and> domain_key (acc_domain r) = domain_key domain) (accounts s))"

definition by_name :: "uuid \<Rightarrow> string \<Rightarrow> db \<Rightarrow> account_row option" where
  "by_name w nkey s = (if nkey = [] then None else first_where (\<lambda>r. acc_workspaceId r = w \<and> crmNormName (acc_name r) = nkey) (accounts s))"

definition name_or_domain :: "string \<Rightarrow> string option \<Rightarrow> string \<Rightarrow> string" where
  "name_or_domain name domain dflt = (if name \<noteq> [] then name else or_text domain dflt)"

definition upsertAccount :: "ms \<Rightarrow> uuid \<Rightarrow> uuid \<Rightarrow> uuid \<Rightarrow> string \<Rightarrow> string option \<Rightarrow> string \<Rightarrow> (db, AccountRow \<times> bool) act" where
  "upsertAccount now newId aid w name domain ownerSub =
     act_bind (act_get (by_domain w domain)) (\<lambda>byDomain. case byDomain of
       Some r \<Rightarrow> act_return (account_view r, False)
     | None \<Rightarrow> act_bind (act_get (by_name w (crmNormName (name_or_domain name domain [])))) (\<lambda>byName. case byName of
         Some r \<Rightarrow> act_return (account_view r, False)
       | None \<Rightarrow> act_bind (createAccount now newId aid w (name_or_domain name domain ''Untitled'') domain ownerSub) (\<lambda>row. act_return (row, True))))"

text \<open>Postgres' \<^verbatim>\<open>lower(btrim(x))\<close>: \<^verbatim>\<open>btrim\<close> removes blanks only.\<close>

definition sql_lower_btrim :: "string \<Rightarrow> string" where
  "sql_lower_btrim s = js_lower (drop_trailing (\<lambda>c. c = CHR '' '') (dropWhile (\<lambda>c. c = CHR '' '') s))"

definition deal_like :: "CreateDealArgs \<Rightarrow> deal_row \<Rightarrow> bool" where
  "deal_like a r \<longleftrightarrow> dl_workspaceId r = cd_workspaceId a \<and> dl_accountId r = Some (cd_accountId a) \<and> sql_lower_btrim (dl_name r) = crmNormName (cd_name a)"

definition upsertDeal :: "ms \<Rightarrow> uuid \<Rightarrow> uuid \<Rightarrow> CreateDealArgs \<Rightarrow> (db, DealRow \<times> bool) act" where
  "upsertDeal now newId aid a = (let create = act_bind (createDeal now newId aid a) (\<lambda>row. act_return (row, True)) in
     act_bind (act_get (\<lambda>s. first_where (deal_like a) (deals s))) (\<lambda>found. case found of
       None \<Rightarrow> create
     | Some r \<Rightarrow> act_bind (getDeal (cd_workspaceId a) (dl_id r)) (\<lambda>existing. case existing of
         Some row \<Rightarrow> act_return (row, False)
       | None \<Rightarrow> create)))"

definition contact_like :: "CreateContactArgs \<Rightarrow> contact_row \<Rightarrow> bool" where
  "contact_like a r \<longleftrightarrow> ct_workspaceId r = nc_workspaceId a \<and> crmNormName (ct_name r) = crmNormName (nc_name a) \<and> ct_accountId r = nc_accountId a"

definition name_match_or_create :: "crypto_env \<Rightarrow> ms \<Rightarrow> uuid \<Rightarrow> uuid \<Rightarrow> string \<Rightarrow> CreateContactArgs \<Rightarrow> (db, uuid \<times> bool) act" where
  "name_match_or_create E now newId aid iv a = act_bind (act_get (\<lambda>s. first_where (contact_like a) (contacts s))) (\<lambda>match. case match of
       Some r \<Rightarrow> act_return (ct_id r, False)
     | None \<Rightarrow> act_bind (createContact E now newId aid iv a) (\<lambda>row. act_return (cr_id row, True)))"

definition upsertContact :: "crypto_env \<Rightarrow> ms \<Rightarrow> uuid \<Rightarrow> uuid \<Rightarrow> string \<Rightarrow> CreateContactArgs \<Rightarrow> (db, uuid \<times> bool) act" where
  "upsertContact E now newId aid iv a = (let w = nc_workspaceId a in case trimmed_title (nc_email a) of
     None \<Rightarrow> name_match_or_create E now newId aid iv a
   | Some mail \<Rightarrow> act_bind (act_lift (contactEmailKey E w mail)) (\<lambda>ekey.
       act_bind (act_get (\<lambda>s. first_where (\<lambda>r. ct_workspaceId r = w \<and> ct_emailKey r = Some ekey) (contacts s))) (\<lambda>byEmail. case byEmail of
         Some r \<Rightarrow> act_return (ct_id r, False)
       | None \<Rightarrow> name_match_or_create E now newId aid iv a)))"

subsection \<open>Deletes\<close>

definition of_record :: "uuid \<Rightarrow> CrmEntity \<Rightarrow> uuid \<Rightarrow> uuid \<times> string \<times> uuid \<Rightarrow> bool" where
  "of_record w e i x \<longleftrightarrow> x = (w, entity_name e, i)"

definition deleteCrmSubData :: "uuid \<Rightarrow> CrmEntity \<Rightarrow> uuid \<Rightarrow> (db, unit) act" where
  "deleteCrmSubData w e i =
     act_bind (act_get (\<lambda>s. map no_id (rows_where (\<lambda>n. of_record w e i (no_workspaceId n, no_entity n, no_recordId n)) (crmNotes s)))) (\<lambda>noteIds.
     act_bind (if noteIds \<noteq> [] then tbl_delete crmNoteComments_update (\<lambda>c. co_noteId c \<in> set noteIds) else act_return ()) (\<lambda>_.
     act_bind (note_delete (\<lambda>n. of_record w e i (no_workspaceId n, no_entity n, no_recordId n))) (\<lambda>_.
     act_bind (tbl_delete crmFieldValues_update (\<lambda>v. of_record w e i (fv_workspaceId v, fv_entity v, fv_recordId v))) (\<lambda>_.
     act_bind (tbl_delete crmActivity_update (\<lambda>a. of_record w e i (ac_workspaceId a, ac_entity a, ac_recordId a))) (\<lambda>_.
     tbl_delete crmRecordTags_update (\<lambda>t. of_record w e i (rt_workspaceId t, rt_entity t, rt_recordId t)))))))"

definition deleteContact :: "crypto_env \<Rightarrow> ms \<Rightarrow> uuid \<Rightarrow> uuid \<Rightarrow> string \<Rightarrow> (db, unit) act" where
  "deleteContact E now w i actorSub = act_bind (deleteCrmSubData w CrmContact i) (\<lambda>_.
     act_bind (tbl_delete contacts_update (\<lambda>r. ct_workspaceId r = w \<and> ct_id r = i)) (\<lambda>_.
     act_bind (appendAudit E now (audit_input w (Some actorSub) ''contact_deleted'' (Some i))) (\<lambda>_. act_return ())))"

definition deleteDeal :: "crypto_env \<Rightarrow> ms \<Rightarrow> uuid \<Rightarrow> uuid \<Rightarrow> string \<Rightarrow> (db, unit) act" where
  "deleteDeal E now w i actorSub =
     act_bind (tbl_update agentThreads_update (\<lambda>t. th_workspaceId t = w \<and> th_dealId t = Some i) (\<lambda>t. t\<lparr>th_dealId := None\<rparr>)) (\<lambda>_.
     act_bind (tbl_update documents_update (\<lambda>d. dc_workspaceId d = w \<and> dc_dealId d = Some i) (\<lambda>d. d\<lparr>dc_dealId := None\<rparr>)) (\<lambda>_.
     act_bind (deleteCrmSubData w CrmDeal i) (\<lambda>_.
     act_bind (deal_delete (\<lambda>r. dl_workspaceId r = w \<and> dl_id r = i)) (\<lambda>_.
     act_bind (appendAudit E now (audit_input w (Some actorSub) ''deal_deleted'' (Some i))) (\<lambda>_. act_return ())))))"

definition accountHasChildren :: "uuid \<Rightarrow> uuid \<Rightarrow> (db, bool) act" where
  "accountHasChildren w i = act_get (\<lambda>s. first_where (\<lambda>r. dl_workspaceId r = w \<and> dl_accountId r = Some i) (deals s) \<noteq> None
      \<or> first_where (\<lambda>r. ct_workspaceId r = w \<and> ct_accountId r = Some i) (contacts s) \<noteq> None)"

definition deleteAccount :: "crypto_env \<Rightarrow> ms \<Rightarrow> uuid \<Rightarrow> uuid \<Rightarrow> string \<Rightarrow> (db, unit) act" where
  "deleteAccount E now w i actorSub =
     act_bind (tbl_update agentThreads_update (\<lambda>t. th_workspaceId t = w \<and> th_accountId t = Some i) (\<lambda>t. t\<lparr>th_accountId := None\<rparr>)) (\<lambda>_.
     act_bind (tbl_update documents_update (\<lambda>d. dc_workspaceId d = w \<and> dc_accountId d = Some i) (\<lambda>d. d\<lparr>dc_accountId := None\<rparr>)) (\<lambda>_.
     act_bind (deleteCrmSubData w CrmAccount i) (\<lambda>_.
     act_bind (account_delete (\<lambda>r. acc_workspaceId r = w \<and> acc_id r = i)) (\<lambda>_.
     act_bind (appendAudit E now (audit_input w (Some actorSub) ''account_deleted'' (Some i))) (\<lambda>_. act_return ())))))"

subsection \<open>How the operations run\<close>

lemma frames_recordActivity [frame_intros]:
  assumes "\<And>s f. g (crmActivity_update f s) = g s"
  shows "frames g (recordActivity now aid w e r u b i m)"
  unfolding frames_def using recordActivity_run assms by (metis snd_conv)

lemma act_bind_recordActivity:
  obtains f where "act_bind (recordActivity now aid w e r u b i m) k s = k () (crmActivity_update f s)"
  using recordActivity_run [of now aid w e r u b i m s] by (auto simp: act_bind_def)

text \<open>The clean-up always succeeds: the comments go before the notes they refer to.\<close>

lemma deleteCrmSubData_run:
  "deleteCrmSubData w e i s = (Inr (), crmRecordTags_update (filter (\<lambda>t. \<not> of_record w e i (rt_workspaceId t, rt_entity t, rt_recordId t)))
     (crmActivity_update (filter (\<lambda>a. \<not> of_record w e i (ac_workspaceId a, ac_entity a, ac_recordId a)))
     (crmFieldValues_update (filter (\<lambda>v. \<not> of_record w e i (fv_workspaceId v, fv_entity v, fv_recordId v)))
     (crmNotes_update (filter (\<lambda>n. \<not> of_record w e i (no_workspaceId n, no_entity n, no_recordId n)))
     (crmNoteComments_update (filter (\<lambda>c. co_noteId c \<notin> no_id ` {n \<in> set (crmNotes s). of_record w e i (no_workspaceId n, no_entity n, no_recordId n)})) s)))))"
proof -
  let ?N = "\<lambda>n. of_record w e i (no_workspaceId n, no_entity n, no_recordId n)"
  let ?ids = "map no_id (rows_where ?N (crmNotes s))"
  let ?s1 = "crmNoteComments_update (filter (\<lambda>c. co_noteId c \<notin> no_id ` {n \<in> set (crmNotes s). ?N n})) s"
  have "(if ?ids \<noteq> [] then tbl_delete crmNoteComments_update (\<lambda>c. co_noteId c \<in> set ?ids) else act_return ()) s = (Inr (), ?s1)"
  proof (cases "?ids = []")
    case True
    then have e: "{n \<in> set (crmNotes s). ?N n} = {}" by (auto simp: rows_where_def filter_empty_conv)
    have "(\<lambda>c. co_noteId c \<notin> no_id ` {}) = (\<lambda>c. True)" by simp
    then have "?s1 = crmNoteComments_update (filter (\<lambda>c. True)) s" unfolding e by (rule arg_cong)
    then have "?s1 = s" by (simp add: filter_True cong: if_cong)
    then show ?thesis using True by (simp only: act_return_def if_False simp_thms)
  next
    case False
    then show ?thesis by (simp add: tbl_delete_def rows_where_def)
  qed
  moreover have "note_delete ?N ?s1 = (Inr (), crmNotes_update (filter (\<lambda>n. \<not> ?N n)) ?s1)"
    by (auto simp: note_delete_def restrict_delete_def tbl_delete_def)
  ultimately show ?thesis by (simp add: deleteCrmSubData_def act_bind_def act_get_def tbl_delete_def)
qed

lemma frames_deleteCrmSubData [frame_intros]:
  assumes "\<And>s f. g (crmNoteComments_update f s) = g s" "\<And>s f. g (crmNotes_update f s) = g s" "\<And>s f. g (crmFieldValues_update f s) = g s"
    "\<And>s f. g (crmActivity_update f s) = g s" "\<And>s f. g (crmRecordTags_update f s) = g s"
  shows "frames g (deleteCrmSubData w e i)"
  by (simp only: frames_def deleteCrmSubData_run snd_conv assms simp_thms)

subsection \<open>No doubles\<close>

lemma crmNormName_trim [simp]: "crmNormName (js_trim s) = crmNormName s"
  by (simp add: crmNormName_def js_trim_lower)

lemma domain_key_trimmed [simp]: "domain_key (trimmed_title d) = domain_key d"
  by (auto simp: domain_key_def trimmed_title_def js_lower_def split: option.splits)

definition same_account :: "account_row \<Rightarrow> account_row \<Rightarrow> bool" where
  "same_account a b \<longleftrightarrow> acc_workspaceId a = acc_workspaceId b
     \<and> (crmNormName (acc_name a) \<noteq> [] \<and> crmNormName (acc_name a) = crmNormName (acc_name b)
        \<or> domain_key (acc_domain a) \<noteq> [] \<and> domain_key (acc_domain a) = domain_key (acc_domain b))"

definition same_contact :: "contact_row \<Rightarrow> contact_row \<Rightarrow> bool" where
  "same_contact a b \<longleftrightarrow> ct_workspaceId a = ct_workspaceId b
     \<and> (crmNormName (ct_name a) = crmNormName (ct_name b) \<and> ct_accountId a = ct_accountId b
        \<or> ct_emailKey a \<noteq> None \<and> ct_emailKey a = ct_emailKey b)"

definition no_doubles :: "db \<Rightarrow> bool" where
  "no_doubles s \<longleftrightarrow> sorted_wrt (\<lambda>a b. \<not> same_account a b) (accounts s) \<and> sorted_wrt (\<lambda>a b. \<not> same_contact a b) (contacts s)"

lemma frames_no_doubles: "frames (\<lambda>s. (accounts s, contacts s)) m \<Longrightarrow> preserves no_doubles m"
  by (auto simp: frames_def preserves_def no_doubles_def)

lemma insert_account_cases:
  "insert_account r s = (Inr r, accounts_update (\<lambda>rs. rs @ [r]) s) \<or> (\<exists>e. insert_account r s = (Inl e, s))"
  by (simp add: insert_account_def tbl_insert_def)

lemma insert_contact_cases:
  "insert_contact r s = (Inr r, contacts_update (\<lambda>rs. rs @ [r]) s) \<or> (\<exists>e. insert_contact r s = (Inl e, s))"
  by (simp add: insert_contact_def tbl_insert_def)

lemma no_doubles_activity [simp]: "no_doubles (crmActivity_update f s) = no_doubles s"
  by (simp add: no_doubles_def)

lemma createAccount_succeeds:
  assumes "\<not> has_account s i" "has_workspace s w"
  obtains row f where "row = \<lparr>acc_id = i, acc_workspaceId = w, acc_name = js_trim name, acc_domain = trimmed_title domain, acc_ownerSub = Some u, acc_createdAt = now\<rparr>"
    "createAccount now i aid w name domain u s = (Inr (account_view row), crmActivity_update f (accounts_update (\<lambda>rs. rs @ [row]) s))"
proof -
  let ?r = "\<lparr>acc_id = i, acc_workspaceId = w, acc_name = js_trim name, acc_domain = trimmed_title domain, acc_ownerSub = Some u, acc_createdAt = now\<rparr>"
  let ?rec = "recordActivity now aid w CrmAccount i (Some u) False Created None" and ?t = "accounts_update (\<lambda>rs. rs @ [?r]) s"
  have "insert_account ?r s = (Inr ?r, ?t)" using assms by (simp add: insert_account_def tbl_insert_def)
  then have "createAccount now i aid w name domain u s = act_bind ?rec (\<lambda>_. act_return (account_view ?r)) ?t"
    by (simp add: createAccount_def act_bind_Inr)
  moreover obtain f where "act_bind ?rec (\<lambda>_. act_return (account_view ?r)) ?t = act_return (account_view ?r) (crmActivity_update f ?t)"
    by (rule act_bind_recordActivity)
  ultimately show thesis using that [of ?r f] by (simp add: act_return_def)
qed

lemma no_doubles_createAccount:
  assumes ok: "no_doubles s"
    and new: "\<And>r. r \<in> set (accounts s) \<Longrightarrow> acc_workspaceId r = w \<Longrightarrow> \<not> same_account r \<lparr>acc_id = i, acc_workspaceId = w, acc_name = js_trim name,
        acc_domain = trimmed_title domain, acc_ownerSub = Some u, acc_createdAt = now\<rparr>"
  shows "no_doubles (snd (createAccount now i aid w name domain u s))"
proof -
  let ?r = "\<lparr>acc_id = i, acc_workspaceId = w, acc_name = js_trim name, acc_domain = trimmed_title domain, acc_ownerSub = Some u, acc_createdAt = now\<rparr>"
  have ok': "no_doubles (accounts_update (\<lambda>rs. rs @ [?r]) s)"
    using ok new by (auto simp: no_doubles_def sorted_wrt_append same_account_def)
  from insert_account_cases [of ?r s] show ?thesis
  proof
    assume "insert_account ?r s = (Inr ?r, accounts_update (\<lambda>rs. rs @ [?r]) s)"
    then have "createAccount now i aid w name domain u s = act_bind (recordActivity now aid w CrmAccount i (Some u) False Created None)
        (\<lambda>_. act_return (account_view ?r)) (accounts_update (\<lambda>rs. rs @ [?r]) s)"
      by (simp add: createAccount_def act_bind_def)
    then show ?thesis using act_bind_recordActivity ok' by (metis act_return_run no_doubles_activity snd_conv)
  next
    assume "\<exists>e. insert_account ?r s = (Inl e, s)"
    then show ?thesis using ok by (auto simp: createAccount_def act_bind_def)
  qed
qed

lemma no_doubles_upsertAccount:
  assumes ok: "no_doubles s" and named: "name_or_domain name domain [] \<noteq> []"
  shows "no_doubles (snd (upsertAccount now i aid w name domain u s))"
proof (cases "by_domain w domain s = None \<and> by_name w (crmNormName (name_or_domain name domain [])) s = None")
  case True
  have nm: "name_or_domain name domain ''Untitled'' = name_or_domain name domain []"
    using named by (auto simp: name_or_domain_def or_text_def split: option.splits)
  have tr: "truthy d" if "domain_key d \<noteq> []" for d
    using that by (auto simp: truthy_def domain_key_def js_trim_def js_lower_def split: option.splits)
  have "no_doubles (snd (createAccount now i aid w (name_or_domain name domain []) domain u s))"
  proof (rule no_doubles_createAccount [OF ok])
    fix r assume r: "r \<in> set (accounts s)" "acc_workspaceId r = w"
    have "domain_key domain \<noteq> [] \<Longrightarrow> domain_key (acc_domain r) \<noteq> domain_key domain"
      using True r tr [of "acc_domain r"] by (auto simp: by_domain_def first_where_None_iff)
    moreover have "crmNormName (acc_name r) \<noteq> [] \<Longrightarrow> crmNormName (acc_name r) \<noteq> crmNormName (name_or_domain name domain [])"
      using True r by (auto simp: by_name_def first_where_None_iff split: if_splits)
    ultimately show "\<not> same_account r \<lparr>acc_id = i, acc_workspaceId = w, acc_name = js_trim (name_or_domain name domain []),
        acc_domain = trimmed_title domain, acc_ownerSub = Some u, acc_createdAt = now\<rparr>"
      by (auto simp: same_account_def)
  qed
  then show ?thesis using True nm
    by (auto simp: upsertAccount_def act_bind_def act_get_def act_return_def split: prod.split sum.split)
next
  case False
  then show ?thesis using ok by (auto simp: upsertAccount_def act_bind_def act_get_def act_return_def split: option.split)
qed

lemma no_doubles_insert_new_contact:
  assumes ok: "no_doubles s" and new: "\<And>r. r \<in> set (contacts s) \<Longrightarrow> \<not> same_contact r (contact_row_of i a enc key)"
  shows "no_doubles (snd (insert_new_contact now i aid a enc key s))"
proof -
  let ?r = "contact_row_of i a enc key"
  have ok': "no_doubles (contacts_update (\<lambda>rs. rs @ [?r]) s)" using ok new by (auto simp: no_doubles_def sorted_wrt_append)
  from insert_contact_cases [of ?r s] show ?thesis
  proof
    assume "insert_contact ?r s = (Inr ?r, contacts_update (\<lambda>rs. rs @ [?r]) s)"
    then have "insert_new_contact now i aid a enc key s = act_bind (recordActivity now aid (nc_workspaceId a) CrmContact (ct_id ?r) (Some (nc_ownerSub a))
        False Created None) (\<lambda>_. act_return (bare_contact ?r)) (contacts_update (\<lambda>rs. rs @ [?r]) s)"
      by (simp add: insert_new_contact_def act_bind_def)
    then show ?thesis using act_bind_recordActivity ok' by (metis act_return_run no_doubles_activity snd_conv)
  next
    assume "\<exists>e. insert_contact ?r s = (Inl e, s)"
    then show ?thesis using ok by (auto simp: insert_new_contact_def act_bind_def)
  qed
qed

lemma no_doubles_match_or_create:
  assumes ok: "no_doubles s"
    and mail: "\<And>m k r. trimmed_title (nc_email a) = Some m \<Longrightarrow> contactEmailKey E (nc_workspaceId a) m = Inr k \<Longrightarrow> r \<in> set (contacts s)
        \<Longrightarrow> ct_workspaceId r = nc_workspaceId a \<Longrightarrow> ct_emailKey r \<noteq> Some k"
  shows "no_doubles (snd (name_match_or_create E now i aid iv a s))"
proof (cases "first_where (contact_like a) (contacts s)")
  case (Some r)
  then show ?thesis using ok by (simp add: name_match_or_create_def act_return_def)
next
  case None
  then have nm: "crmNormName (ct_name r) = crmNormName (nc_name a) \<Longrightarrow> ct_accountId r \<noteq> nc_accountId a"
    if "r \<in> set (contacts s)" "ct_workspaceId r = nc_workspaceId a" for r
    using that by (auto simp: first_where_None_iff contact_like_def)
  have "no_doubles (snd (createContact E now i aid iv a s))"
  proof (cases "trimmed_title (nc_email a)")
    case None
    have "no_doubles (snd (insert_new_contact now i aid a None None s))"
      by (rule no_doubles_insert_new_contact [OF ok]) (use nm in \<open>auto simp: same_contact_def contact_row_of_def\<close>)
    then show ?thesis using None by (simp add: createContact_def)
  next
    case (Some m)
    then show ?thesis using nm mail [OF Some] no_doubles_insert_new_contact [OF ok, of i a _ _ now aid] ok
      by (auto simp: createContact_def same_contact_def contact_row_of_def act_lift_def act_bind_def split: sum.split)
  qed
  then show ?thesis using None
    by (auto simp: name_match_or_create_def act_bind_def act_get_def act_return_def split: prod.split sum.split)
qed

lemma no_doubles_upsertContact:
  assumes ok: "no_doubles s"
  shows "no_doubles (snd (upsertContact E now i aid iv a s))"
proof (cases "trimmed_title (nc_email a)")
  case None
  then show ?thesis using no_doubles_match_or_create [OF ok, of a E] by (simp add: upsertContact_def)
next
  case (Some m)
  show ?thesis
  proof (cases "contactEmailKey E (nc_workspaceId a) m")
    case (Inl e)
    then show ?thesis using Some ok by (simp add: upsertContact_def act_throw_def)
  next
    case (Inr k)
    let ?f = "first_where (\<lambda>r. ct_workspaceId r = nc_workspaceId a \<and> ct_emailKey r = Some k) (contacts s)"
    have "no_doubles (snd (name_match_or_create E now i aid iv a s))" if "?f = None"
      by (rule no_doubles_match_or_create [OF ok]) (use that Some Inr in \<open>auto simp: first_where_None_iff\<close>)
    then show ?thesis using Some Inr ok by (cases ?f) (simp_all add: upsertContact_def Let_def act_return_def)
  qed
qed

datatype crm_command =
    UpsertAccount ms uuid uuid uuid string "string option" string
  | UpsertDeal ms uuid uuid CreateDealArgs
  | UpsertContact crypto_env ms uuid uuid string CreateContactArgs
  | MoveDeal ms uuid uuid uuid string "string option"
  | DeleteAccount crypto_env ms uuid uuid string
  | DeleteDeal crypto_env ms uuid uuid string
  | DeleteContact crypto_env ms uuid uuid string

fun crm_exec :: "crm_command \<Rightarrow> db \<Rightarrow> db" where
  "crm_exec (UpsertAccount now i aid w name domain u) s = snd (upsertAccount now i aid w name domain u s)"
| "crm_exec (UpsertDeal now i aid a) s = snd (upsertDeal now i aid a s)"
| "crm_exec (UpsertContact E now i aid iv a) s = snd (upsertContact E now i aid iv a s)"
| "crm_exec (MoveDeal now aid w i st u) s = snd (moveDealStage now aid w i st u s)"
| "crm_exec (DeleteAccount E now w i u) s = snd (deleteAccount E now w i u s)"
| "crm_exec (DeleteDeal E now w i u) s = snd (deleteDeal E now w i u s)"
| "crm_exec (DeleteContact E now w i u) s = snd (deleteContact E now w i u s)"

text \<open>An account has to be given a name or a domain; without either the code invents the name \<^verbatim>\<open>Untitled\<close> each time.\<close>

fun named :: "crm_command \<Rightarrow> bool" where
  "named (UpsertAccount now i aid w name domain u) \<longleftrightarrow> name_or_domain name domain [] \<noteq> []"
| "named _ \<longleftrightarrow> True"

definition crm_step :: "db \<Rightarrow> db \<Rightarrow> bool" where
  "crm_step s t \<longleftrightarrow> (\<exists>c. named c \<and> t = crm_exec c s)"

lemma no_doubles_audit [inv_intros]: "preserves no_doubles (appendAudit E now i)"
  by (intro frames_no_doubles frames_appendAudit) simp_all

lemma no_doubles_subData [inv_intros]: "preserves no_doubles (deleteCrmSubData w e i)"
  by (intro frames_no_doubles frames_deleteCrmSubData) simp_all

lemma no_doubles_threads [inv_intros]: "preserves no_doubles (tbl_update agentThreads_update P f)"
  by (intro frames_no_doubles frames_tbl_update) simp

lemma no_doubles_documents [inv_intros]: "preserves no_doubles (tbl_update documents_update P f)"
  by (intro frames_no_doubles frames_tbl_update) simp

lemma no_doubles_account_delete [inv_intros]: "preserves no_doubles (account_delete P)"
  by (auto simp: preserves_def work_delete_defs no_doubles_def sorted_wrt_filter)

lemma no_doubles_deal_delete [inv_intros]: "preserves no_doubles (deal_delete P)"
  by (auto simp: preserves_def work_delete_defs no_doubles_def)

lemma no_doubles_contact_delete [inv_intros]: "preserves no_doubles (tbl_delete contacts_update P)"
  by (simp add: preserves_def tbl_delete_def no_doubles_def sorted_wrt_filter)

lemma frames_createDeal: "frames (\<lambda>s. (accounts s, contacts s)) (createDeal now i aid a)"
  unfolding createDeal_def insert_deal_def
  by (intro frame_intros frames_tbl_insert) simp_all

lemma frames_upsertDeal: "frames (\<lambda>s. (accounts s, contacts s)) (upsertDeal now i aid a)"
  unfolding upsertDeal_def Let_def getDeal_def
  by (intro frame_intros frames_createDeal)

lemma frames_moveDealStage: "frames (\<lambda>s. (accounts s, contacts s)) (moveDealStage now aid w i st u)"
  unfolding moveDealStage_def
  by (intro frame_intros frames_tbl_update) simp_all

lemma no_doubles_exec: "no_doubles s \<Longrightarrow> named c \<Longrightarrow> no_doubles (crm_exec c s)"
proof -
  have "preserves no_doubles (deleteAccount E now w i u)" for E now w i u unfolding deleteAccount_def by (intro inv_intros)
  moreover have "preserves no_doubles (deleteDeal E now w i u)" for E now w i u unfolding deleteDeal_def by (intro inv_intros)
  moreover have "preserves no_doubles (deleteContact E now w i u)" for E now w i u unfolding deleteContact_def by (intro inv_intros)
  moreover assume "no_doubles s" "named c"
  ultimately show ?thesis
    using frames_no_doubles [OF frames_upsertDeal] frames_no_doubles [OF frames_moveDealStage]
    by (cases c) (simp_all add: no_doubles_upsertAccount no_doubles_upsertContact preserves_snd)
qed

interpretation crm: invariant_system no_doubles crm_step no_doubles
  by unfold_locales (auto simp: crm_step_def intro: no_doubles_exec)

text \<open>C15. No doubles enter through the find-or-create operations. In any run of account, deal and contact upserts, stage moves and deletes, by any
  workspaces and in any order, from a database without doubles, no two accounts of a workspace have the same (non-empty) normalised name or the same
  domain, and no two of its contacts the same email index or the same normalised name under the same account. An account must come with a name or a
  domain.\<close>

theorem upserts_admit_no_doubles:
  assumes "reach no_doubles crm_step s" "i < j"
  shows "(j < length (accounts s) \<longrightarrow> \<not> same_account (accounts s ! i) (accounts s ! j))
     \<and> (j < length (contacts s) \<longrightarrow> \<not> same_contact (contacts s ! i) (contacts s ! j))"
  using crm.reach_inv [OF assms(1)] assms(2) by (simp_all add: no_doubles_def sorted_wrt_iff_nth_less)

subsection \<open>Deals are doubled\<close>

lemma deal_view_upd [simp]: "deal_view (deals_update f s) r = deal_view s r" "deal_view (crmActivity_update g s) r = deal_view s r"
  by (simp_all add: deal_view_def account_name_def split: option.split)

lemma createDeal_succeeds:
  assumes "i \<notin> dl_id ` set (deals s)" "has_workspace s (cd_workspaceId a)" "has_account s (cd_accountId a)"
  obtains f where "createDeal now i aid a s = (Inr (deal_view s (deal_row_of now i a)), crmActivity_update f (deals_update (\<lambda>rs. rs @ [deal_row_of now i a]) s))"
proof -
  let ?n = "deal_row_of now i a" and ?t = "deals_update (\<lambda>rs. rs @ [deal_row_of now i a]) s"
  let ?rec = "recordActivity now aid (cd_workspaceId a) CrmDeal (dl_id ?n) (Some (cd_ownerSub a)) False Created None"
  have "insert_deal ?n s = (Inr ?n, ?t)"
    using assms by (simp add: insert_deal_def tbl_insert_def deal_row_of_def null_or_def)
  then have "createDeal now i aid a s = act_bind ?rec (\<lambda>_. act_return (deal_view s ?n)) ?t"
    by (simp add: createDeal_def act_bind_Inr)
  moreover obtain f where "act_bind ?rec (\<lambda>_. act_return (deal_view s ?n)) ?t = act_return (deal_view s ?n) (crmActivity_update f ?t)"
    by (rule act_bind_recordActivity)
  ultimately show thesis using that by (simp add: act_return_def)
qed

lemma createDeal_run:
  assumes "createDeal now i aid a s = (Inr row, s')"
  shows "i \<notin> dl_id ` set (deals s)" "has_workspace s (cd_workspaceId a)" "has_account s (cd_accountId a)"
    "\<exists>f. s' = crmActivity_update f (deals_update (\<lambda>rs. rs @ [deal_row_of now i a]) s)" "row = deal_view s (deal_row_of now i a)"
proof -
  have "i \<notin> dl_id ` set (deals s) \<and> has_workspace s (cd_workspaceId a) \<and> has_account s (cd_accountId a)"
    using assms by (auto simp: createDeal_def insert_deal_def tbl_insert_def act_bind_def deal_row_of_def null_or_def split: if_splits)
  then show ok: "i \<notin> dl_id ` set (deals s)" "has_workspace s (cd_workspaceId a)" "has_account s (cd_accountId a)" by auto
  obtain f where "createDeal now i aid a s = (Inr (deal_view s (deal_row_of now i a)), crmActivity_update f (deals_update (\<lambda>rs. rs @ [deal_row_of now i a]) s))"
    by (rule createDeal_succeeds [OF ok])
  then show "\<exists>f. s' = crmActivity_update f (deals_update (\<lambda>rs. rs @ [deal_row_of now i a]) s)" "row = deal_view s (deal_row_of now i a)"
    using assms by auto
qed

lemma upsertDeal_created:
  assumes "upsertDeal now i aid a s = (Inr (row, True), s')"
  shows "first_where (deal_like a) (deals s) = None" "createDeal now i aid a s = (Inr row, s')"
proof -
  show none: "first_where (deal_like a) (deals s) = None"
  proof (rule ccontr)
    assume "first_where (deal_like a) (deals s) \<noteq> None"
    then obtain r where r: "first_where (deal_like a) (deals s) = Some r" by blast
    then have "r \<in> set (deals s)" "dl_workspaceId r = cd_workspaceId a" by (auto simp: deal_like_def dest!: first_where_SomeD)
    then obtain x where "deal_at s (cd_workspaceId a) (dl_id r) = Some x"
      by (cases "deal_at s (cd_workspaceId a) (dl_id r)") (auto simp: deal_at_def first_where_None_iff)
    then show False using assms r by (simp add: upsertDeal_def Let_def getDeal_def act_return_def)
  qed
  have "act_bind (createDeal now i aid a) (\<lambda>row. act_return (row, True)) s = (Inr (row, True), s')"
    using assms none by (simp add: upsertDeal_def Let_def)
  then show "createDeal now i aid a s = (Inr row, s')" by (auto elim!: act_bind_InrE simp: act_return_def)
qed

lemma drop_trailing_trim: "drop_trailing (\<lambda>c. c = CHR '' '') (dropWhile (\<lambda>c. c = CHR '' '') (js_trim s)) = js_trim s"
proof (cases "js_trim s = []")
  case False
  have "js_space (CHR '' '')" by (simp add: js_space_def)
  then have "hd (js_trim s) \<noteq> CHR '' ''" "last (js_trim s) \<noteq> CHR '' ''" using js_trim_hd [OF False] by auto
  then have "dropWhile (\<lambda>c. c = CHR '' '') (js_trim s) = js_trim s" "dropWhile (\<lambda>c. c = CHR '' '') (rev (js_trim s)) = rev (js_trim s)"
    using False by (simp_all add: dropWhile_eq_self_iff hd_rev)
  then show ?thesis by (simp add: drop_trailing_def)
qed (simp add: drop_trailing_def)

lemma deal_like_new: "deal_like a (deal_row_of now i a) \<longleftrightarrow> crmNormName (cd_name a) = js_lower (js_trim (cd_name a))"
  by (auto simp: deal_like_def deal_row_of_def sql_lower_btrim_def drop_trailing_trim)

text \<open>A deal upsert finds the deal it just created exactly when normalising the name does nothing but trim and lower it. The search compares
  \<^verbatim>\<open>lower(btrim(name))\<close> in the database with the fully normalised name, so a name with a run of blanks inside or punctuation at its end never
  matches its own row: repeating the same call creates the deal again, each time.\<close>

theorem upsert_deal_repeats:
  assumes "upsertDeal now i aid a s = (Inr (row, True), s')" "i' \<notin> dl_id ` set (deals s')"
  shows "if crmNormName (cd_name a) = js_lower (js_trim (cd_name a)) then upsertDeal now' i' aid' a s' = (Inr (row, False), s')
     else (\<exists>row' s''. upsertDeal now' i' aid' a s' = (Inr (row', True), s'') \<and> deals s'' = deals s' @ [deal_row_of now' i' a])"
proof -
  note created = upsertDeal_created [OF assms(1)]
  note run = createDeal_run [OF created(2)]
  let ?n = "deal_row_of now i a"
  obtain f where s': "s' = crmActivity_update f (deals_update (\<lambda>rs. rs @ [?n]) s)" using run(4) by blast
  have find: "first_where (deal_like a) (deals s') = (if deal_like a ?n then Some ?n else None)"
    using created(1) by (simp add: s' first_where_append)
  have view: "deal_view s' r = deal_view s r" for r by (simp add: s')
  have "has_workspace s' (cd_workspaceId a)" "has_account s' (cd_accountId a)" using run(2,3) by (simp_all add: s' has_workspace_def has_account_def)
  then obtain g where again: "createDeal now' i' aid' a s' = (Inr (deal_view s' (deal_row_of now' i' a)),
      crmActivity_update g (deals_update (\<lambda>rs. rs @ [deal_row_of now' i' a]) s'))"
    using createDeal_succeeds [OF assms(2)] by blast
  have "deal_at s' (cd_workspaceId a) (dl_id ?n) = Some ?n"
  proof -
    have "first_where (\<lambda>r. dl_workspaceId r = cd_workspaceId a \<and> dl_id r = dl_id ?n) (deals s) = None"
      using run(1) by (auto simp: first_where_None_iff deal_row_of_def)
    then show ?thesis by (simp add: deal_at_def s' first_where_append) (simp add: deal_row_of_def)
  qed
  then have "upsertDeal now' i' aid' a s' = (Inr (row, False), s')" if "deal_like a ?n"
    using that find run(5) by (simp add: upsertDeal_def Let_def getDeal_def act_return_def view)
  moreover have "\<exists>row' s''. upsertDeal now' i' aid' a s' = (Inr (row', True), s'') \<and> deals s'' = deals s' @ [deal_row_of now' i' a]" if "\<not> deal_like a ?n"
  proof -
    have "upsertDeal now' i' aid' a s' = act_bind (createDeal now' i' aid' a) (\<lambda>row. act_return (row, True)) s'"
      using that find by (simp add: upsertDeal_def Let_def)
    then show ?thesis using again by (simp add: act_bind_def act_return_def)
  qed
  ultimately show ?thesis unfolding deal_like_new by simp
qed

subsection \<open>The account of another workspace\<close>

text \<open>C24. A deal can be filed under an account of another workspace. Its creator, who belongs to workspace \<open>w\<close>, gets the name of the account of \<open>v\<close> back,
  and it shows in the deal list of \<open>w\<close>. In \<open>v\<close> the account still has no children, so its deletion is let through; it then fails at the foreign key,
  after the account's field values, notes, activity and tags have been deleted.\<close>

theorem foreign_account_disclosed:
  assumes acc: "acc \<in> set (accounts s)" "key_fun acc_id (accounts s)" "acc_workspaceId acc \<noteq> cd_workspaceId a" "cd_accountId a = acc_id acc"
    and ws: "has_workspace s (cd_workspaceId a)" and fresh: "i \<notin> dl_id ` set (deals s)"
    and childless: "accountHasChildren (acc_workspaceId acc) (acc_id acc) s = (Inr False, s)"
  shows "\<exists>row s' e s''. createDeal now i aid a s = (Inr row, s') \<and> dr_accountName row = Some (acc_name acc)
     \<and> (\<exists>rows. listDeals (cd_workspaceId a) s' = (Inr rows, s') \<and> row \<in> set rows)
     \<and> accountHasChildren (acc_workspaceId acc) (acc_id acc) s' = (Inr False, s')
     \<and> deleteAccount E now' (acc_workspaceId acc) (acc_id acc) u s' = (Inl e, s'') \<and> acc \<in> set (accounts s'')
     \<and> (\<forall>v. (fv_workspaceId v, fv_entity v, fv_recordId v) = (acc_workspaceId acc, ''account'', acc_id acc) \<longrightarrow> v \<notin> set (crmFieldValues s''))
     \<and> (\<forall>n. (no_workspaceId n, no_entity n, no_recordId n) = (acc_workspaceId acc, ''account'', acc_id acc) \<longrightarrow> n \<notin> set (crmNotes s''))"
proof -
  let ?v = "acc_workspaceId acc" and ?n = "deal_row_of now i a"
  have "has_account s (cd_accountId a)" using acc(1,4) by (auto simp: has_account_def)
  then obtain f where run: "createDeal now i aid a s = (Inr (deal_view s ?n), crmActivity_update f (deals_update (\<lambda>rs. rs @ [?n]) s))"
    using createDeal_succeeds [OF fresh ws] by blast
  let ?s = "crmActivity_update f (deals_update (\<lambda>rs. rs @ [?n]) s)"
  have name: "dr_accountName (deal_view s ?n) = Some (acc_name acc)"
    using first_where_key [OF acc(2,1)] acc(4) by (simp add: deal_view_def account_name_def deal_row_of_def)
  have lst: "\<exists>rows. listDeals (cd_workspaceId a) ?s = (Inr rows, ?s) \<and> deal_view s ?n \<in> set rows"
    by (auto simp: listDeals_def act_get_def rows_where_def deal_row_of_def)
  have child: "accountHasChildren ?v (acc_id acc) ?s = (Inr False, ?s)"
    using childless acc(3) by (auto simp: accountHasChildren_def act_get_def first_where_append deal_row_of_def)
  let ?t = "documents_update (upd_where (\<lambda>d. dc_workspaceId d = ?v \<and> dc_accountId d = Some (acc_id acc)) (\<lambda>d. d\<lparr>dc_accountId := None\<rparr>))
     (agentThreads_update (upd_where (\<lambda>t. th_workspaceId t = ?v \<and> th_accountId t = Some (acc_id acc)) (\<lambda>t. t\<lparr>th_accountId := None\<rparr>)) ?s)"
  obtain t where sub: "deleteCrmSubData ?v CrmAccount (acc_id acc) ?t = (Inr (), t)" using deleteCrmSubData_run by blast
  then have t: "accounts t = accounts s" "deals t = deals s @ [?n]"
      "crmFieldValues t = filter (\<lambda>v. \<not> of_record ?v CrmAccount (acc_id acc) (fv_workspaceId v, fv_entity v, fv_recordId v)) (crmFieldValues s)"
      "crmNotes t = filter (\<lambda>n. \<not> of_record ?v CrmAccount (acc_id acc) (no_workspaceId n, no_entity n, no_recordId n)) (crmNotes s)"
    unfolding deleteCrmSubData_run by auto
  have "\<exists>r\<in>set (accounts t). (acc_workspaceId r = ?v \<and> acc_id r = acc_id acc) \<and> (\<exists>d\<in>set (deals t). dl_accountId d = Some (acc_id r))"
    using acc(1,4) t(1,2) by (intro bexI [of _ acc]) (auto simp: deal_row_of_def)
  then have "account_delete (\<lambda>r. acc_workspaceId r = ?v \<and> acc_id r = acc_id acc) t = (Inl (DbError ''foreign key violation''), t)"
    unfolding account_delete_def restrict_delete_def by (intro if_P) blast
  then have del: "deleteAccount E now' ?v (acc_id acc) u ?s = (Inl (DbError ''foreign key violation''), t)"
    using sub by (simp add: deleteAccount_def act_bind_Inr act_bind_Inl)
  have gone: "(\<forall>v. (fv_workspaceId v, fv_entity v, fv_recordId v) = (?v, ''account'', acc_id acc) \<longrightarrow> v \<notin> set (crmFieldValues t))"
      "(\<forall>n. (no_workspaceId n, no_entity n, no_recordId n) = (?v, ''account'', acc_id acc) \<longrightarrow> n \<notin> set (crmNotes t))"
    using t(3,4) by (simp_all add: of_record_def)
  have "acc \<in> set (accounts t)" using acc(1) t(1) by simp
  then show ?thesis using run name lst child del gone by blast
qed

subsection \<open>Instances\<close>

definition demo_account :: account_row where
  "demo_account = \<lparr>acc_id = ''acme'', acc_workspaceId = ''w2'', acc_name = ''Acme'', acc_domain = None, acc_ownerSub = Some ''bob'', acc_createdAt = 0\<rparr>"

definition demo_accounts :: db where
  "demo_accounts = demo_chat\<lparr>accounts := [demo_account], crmFieldDefs := [demo_field\<lparr>fd_workspaceId := ''w2''\<rparr>]\<rparr>"

definition demo_deal :: CreateDealArgs where
  "demo_deal = \<lparr>cd_workspaceId = ''w1'', cd_accountId = ''acme'', cd_name = ''Renewal.'', cd_valueMinor = 100, cd_ownerSub = ''alice''\<rparr>"

lemma demo_accounts_ws: "has_workspace demo_accounts ''w1''"
  by (simp add: demo_accounts_def has_workspace_def demo_chat_def demo_db_def demo_workspace_def)

lemma demo_accounts_tables: "accounts demo_accounts = [demo_account]" "deals demo_accounts = []" "contacts demo_accounts = []"
  by (simp_all add: demo_accounts_def demo_chat_def demo_db_def empty_db_def)

theorem foreign_account_disclosed_witness:
  "\<exists>row s'. createDeal 5 ''d1'' ''a1'' demo_deal demo_accounts = (Inr row, s') \<and> dr_accountName row = Some ''Acme''
     \<and> (\<exists>e s''. deleteAccount demo_env 6 ''w2'' ''acme'' ''bob'' s' = (Inl e, s''))"
proof -
  have "accountHasChildren ''w2'' ''acme'' demo_accounts = (Inr False, demo_accounts)"
    by (simp add: accountHasChildren_def act_get_def demo_accounts_tables)
  then have child: "accountHasChildren (acc_workspaceId demo_account) (acc_id demo_account) demo_accounts = (Inr False, demo_accounts)"
    by (simp add: demo_account_def)
  have acc: "demo_account \<in> set (accounts demo_accounts)" "key_fun acc_id (accounts demo_accounts)"
      "acc_workspaceId demo_account \<noteq> cd_workspaceId demo_deal" "cd_accountId demo_deal = acc_id demo_account"
      "has_workspace demo_accounts (cd_workspaceId demo_deal)" "''d1'' \<notin> dl_id ` set (deals demo_accounts)"
    using demo_accounts_ws by (simp_all add: demo_accounts_tables demo_deal_def demo_account_def key_fun_def)
  obtain row s' e s'' where r: "createDeal 5 ''d1'' ''a1'' demo_deal demo_accounts = (Inr row, s')" "dr_accountName row = Some (acc_name demo_account)"
      "deleteAccount demo_env 6 (acc_workspaceId demo_account) (acc_id demo_account) ''bob'' s' = (Inl e, s'')"
    using foreign_account_disclosed [OF acc child, of 5 "''a1''" demo_env 6 "''bob''"] by blast
  moreover have "acc_name demo_account = ''Acme''" "acc_workspaceId demo_account = ''w2''" "acc_id demo_account = ''acme''" by (simp_all add: demo_account_def)
  ultimately show ?thesis by auto
qed

theorem upsert_deal_repeats_witness:
  "\<exists>row s' row' s''. upsertDeal 5 ''d1'' ''a1'' demo_deal demo_accounts = (Inr (row, True), s') \<and> upsertDeal 6 ''d2'' ''a2'' demo_deal s' = (Inr (row', True), s'')
     \<and> map dl_name (deals s'') = [''Renewal.'', ''Renewal.'']"
proof -
  have acc: "has_account demo_accounts (cd_accountId demo_deal)" "has_workspace demo_accounts (cd_workspaceId demo_deal)"
    using demo_accounts_ws by (simp_all add: has_account_def demo_accounts_tables demo_deal_def demo_account_def)
  obtain f where "createDeal 5 ''d1'' ''a1'' demo_deal demo_accounts = (Inr (deal_view demo_accounts (deal_row_of 5 ''d1'' demo_deal)),
      crmActivity_update f (deals_update (\<lambda>rs. rs @ [deal_row_of 5 ''d1'' demo_deal]) demo_accounts))"
    by (rule createDeal_succeeds [OF _ acc(2,1)]) (simp_all add: demo_accounts_tables)
  moreover have "upsertDeal 5 ''d1'' ''a1'' demo_deal demo_accounts = act_bind (createDeal 5 ''d1'' ''a1'' demo_deal) (\<lambda>row. act_return (row, True)) demo_accounts"
    by (simp add: upsertDeal_def Let_def demo_accounts_tables)
  ultimately obtain row s' where first: "upsertDeal 5 ''d1'' ''a1'' demo_deal demo_accounts = (Inr (row, True), s')" "deals s' = [deal_row_of 5 ''d1'' demo_deal]"
    by (simp add: demo_accounts_tables act_bind_Inr act_return_def)
  have "crmNormName ''Renewal.'' \<noteq> js_lower (js_trim ''Renewal.'')" by code_simp
  then obtain row' s'' where "upsertDeal 6 ''d2'' ''a2'' demo_deal s' = (Inr (row', True), s'')" "deals s'' = deals s' @ [deal_row_of 6 ''d2'' demo_deal]"
    using upsert_deal_repeats [OF first(1), of "''d2''" 6 "''a2''"] first(2) by (auto simp: demo_deal_def deal_row_of_def)
  moreover have "js_trim ''Renewal.'' = ''Renewal.''" by code_simp
  ultimately show ?thesis using first by (simp add: deal_row_of_def demo_deal_def)
qed

theorem upserts_admit_no_doubles_witness:
  "\<exists>s. reach no_doubles crm_step s \<and> length (accounts s) = 2 \<and> \<not> same_account (accounts s ! 0) (accounts s ! 1)"
proof -
  let ?c = "UpsertAccount 5 ''n1'' ''a1'' ''w1'' ''Globex Inc.'' None ''alice''"
  have "by_domain ''w1'' None demo_accounts = None" by (simp add: by_domain_def domain_key_def)
  moreover have "by_name ''w1'' k demo_accounts = None" for k by (simp add: by_name_def demo_accounts_tables demo_account_def)
  moreover obtain row f where "createAccount 5 ''n1'' ''a1'' ''w1'' ''Globex Inc.'' None ''alice'' demo_accounts = (Inr (account_view row),
      crmActivity_update f (accounts_update (\<lambda>rs. rs @ [row]) demo_accounts))"
    by (rule createAccount_succeeds [of demo_accounts "''n1''" "''w1''"])
       (use demo_accounts_ws in \<open>simp_all add: has_account_def demo_accounts_tables demo_account_def\<close>)
  ultimately have two: "length (accounts (crm_exec ?c demo_accounts)) = 2"
    by (simp add: upsertAccount_def act_bind_Inr name_or_domain_def act_return_def demo_accounts_tables)
  have start: "no_doubles demo_accounts" by (simp add: no_doubles_def demo_accounts_tables)
  have "crm_step demo_accounts (crm_exec ?c demo_accounts)"
    unfolding crm_step_def by (intro exI [of _ ?c]) (simp add: name_or_domain_def)
  then have r: "reach no_doubles crm_step (crm_exec ?c demo_accounts)" using start by (meson reach_init reach_step)
  show ?thesis using upserts_admit_no_doubles [OF r, of 0 1] two r by auto
qed

end
