(* ===== verification/Import_Parse.thy ===== *)
theory Import_Parse
  imports Crm "HOL-Library.AList"
begin

text \<open>
  \<^verbatim>\<open>lib/domain/import-parse.ts\<close>: from the cells of a workbook to typed, profiled columns and normalized rows. What SheetJS returns for a file is the
  input (\<open>workbook\<close>: the sheet names and, where the sheet exists, its matrix of cells). The regular expressions of the source are values of the
  datatype \<open>re\<close> below with the matching of ECMAScript (\<^verbatim>\<open>\s\<close> is the ASCII white space). Fractions are compared exactly.
\<close>

subsection \<open>Regular expressions\<close>

datatype re = RSet "char \<Rightarrow> bool" | REps | RSeq re re | RAlt re re | RStar re | RBound | RStart | REnd

definition word_char :: "char \<Rightarrow> bool" where
  "word_char c \<longleftrightarrow> c = CHR ''_'' \<or> (of_char c :: nat) \<in> {48..57} \<union> {65..90} \<union> {97..122}"

definition digit :: "char \<Rightarrow> bool" where
  "digit c \<longleftrightarrow> (of_char c :: nat) \<in> {48..57}"

text \<open>A position is what lies before it (backwards) and what follows; \<open>ends r p\<close> are the positions where a match of \<open>r\<close> from \<open>p\<close> may stop.\<close>

type_synonym position = "string \<times> string"

definition at_boundary :: "position \<Rightarrow> bool" where
  "at_boundary p \<longleftrightarrow> (case fst p of [] \<Rightarrow> False | c # _ \<Rightarrow> word_char c) \<noteq> (case snd p of [] \<Rightarrow> False | c # _ \<Rightarrow> word_char c)"

fun star_ends :: "(position \<Rightarrow> position list) \<Rightarrow> nat \<Rightarrow> position list \<Rightarrow> position list" where
  "star_ends f 0 ps = ps"
| "star_ends f (Suc n) ps = (let qs = filter (\<lambda>q. \<exists>p\<in>set ps. length (snd q) < length (snd p)) (remdups (concat (map f ps))) in
     if qs = [] then ps else ps @ star_ends f n qs)"

primrec ends :: "re \<Rightarrow> position \<Rightarrow> position list" where
  "ends (RSet P) p = (case snd p of [] \<Rightarrow> [] | c # cs \<Rightarrow> if P c then [(c # fst p, cs)] else [])"
| "ends REps p = [p]"
| "ends (RSeq r1 r2) p = remdups (concat (map (ends r2) (ends r1 p)))"
| "ends (RAlt r1 r2) p = remdups (ends r1 p @ ends r2 p)"
| "ends (RStar r) p = star_ends (ends r) (length (snd p)) [p]"
| "ends RBound p = (if at_boundary p then [p] else [])"
| "ends RStart p = (if fst p = [] then [p] else [])"
| "ends REnd p = (if snd p = [] then [p] else [])"

definition re_test :: "re \<Rightarrow> string \<Rightarrow> bool" where
  "re_test r s \<longleftrightarrow> list_ex (\<lambda>i. ends r (rev (take i s), drop i s) \<noteq> []) [0..<Suc (length s)]"

text \<open>With the flag \<^verbatim>\<open>i\<close>; the expression is written in lower case.\<close>

definition re_test_i :: "re \<Rightarrow> string \<Rightarrow> bool" where
  "re_test_i r s \<longleftrightarrow> re_test r (js_lower s)"

definition rseq :: "re list \<Rightarrow> re" where "rseq rs = foldr RSeq rs REps"
definition ralt :: "re list \<Rightarrow> re" where "ralt rs = (case rs of [] \<Rightarrow> RSet (\<lambda>_. False) | r # qs \<Rightarrow> foldl RAlt r qs)"
definition rstr :: "string \<Rightarrow> re" where "rstr s = rseq (map (\<lambda>c. RSet (\<lambda>d. d = c)) s)"
definition rstrs :: "string list \<Rightarrow> re" where "rstrs ss = ralt (map rstr ss)"
definition rin :: "string \<Rightarrow> re" where "rin s = RSet (\<lambda>c. c \<in> set s)"
definition ropt :: "re \<Rightarrow> re" where "ropt r = RAlt r REps"
definition rplus :: "re \<Rightarrow> re" where "rplus r = RSeq r (RStar r)"
definition rtimes :: "nat \<Rightarrow> nat \<Rightarrow> re \<Rightarrow> re" where "rtimes lo hi r = rseq (replicate lo r @ replicate (hi - lo) (ropt r))"
definition ratleast :: "nat \<Rightarrow> re \<Rightarrow> re" where "ratleast lo r = rseq (replicate lo r @ [RStar r])"
definition rspace :: re where "rspace = RSet js_space"
definition rdigit :: re where "rdigit = RSet digit"
definition rdot :: re where "rdot = RSet (\<lambda>c. c \<noteq> CHR 0x0A \<and> c \<noteq> CHR 0x0D)"
definition whole :: "re \<Rightarrow> re" where "whole r = rseq [RStart, r, REnd]"
definition word :: "re \<Rightarrow> re" where "word r = rseq [RBound, r, RBound]"
definition lower_or_digit :: "char \<Rightarrow> bool" where "lower_or_digit c \<longleftrightarrow> (of_char c :: nat) \<in> {48..57} \<union> {97..122}"

subsection \<open>The expressions of the parser\<close>

definition EMAIL_RE :: re where
  "EMAIL_RE = (let part = RSet (\<lambda>c. \<not> js_space c \<and> c \<noteq> CHR ''@'') in
     whole (rseq [rplus part, rstr ''@'', rplus part, rstr ''.'', ratleast 2 part]))"

definition URL_RE :: re where
  "URL_RE = (let black = RSet (\<lambda>c. \<not> js_space c); label = RSet (\<lambda>c. lower_or_digit c \<or> c = CHR ''-'') in
     RAlt (whole (rseq [ralt [rstr ''http://'', rstr ''https://'', rstr ''www.''], rplus black]))
       (whole (rseq [RSet lower_or_digit, RStar label, rplus (rseq [rstr ''.'', rplus label]), ropt (rseq [rstr ''/'', RStar black])])))"

definition PHONE_RE :: re where
  "PHONE_RE = whole (rseq [ropt (rin ''+(''), rdigit, ratleast 6 (RSet (\<lambda>c. digit c \<or> js_space c \<or> c \<in> set ''().-'')), rdigit])"

definition digits_commas :: re where
  "digits_commas = rplus (RSet (\<lambda>c. digit c \<or> c = CHR '',''))"

definition decimals :: re where
  "decimals = ropt (rseq [rstr ''.'', rplus rdigit])"

definition NUM_RE :: re where
  "NUM_RE = whole (rseq [ropt (rstr ''-''), ropt (rstr ''$''), digits_commas, decimals, ropt (rstr ''%'')])"

definition CURRENCY_RE :: re where
  "CURRENCY_RE = whole (rseq [rstrs [''$'', [CHR 0xE2, CHR 0x82, CHR 0xAC], [CHR 0xC2, CHR 0xA3], [CHR 0xC2, CHR 0xA5]], ropt rspace,
     ropt (rstr ''-''), digits_commas, decimals])"

definition BOOL_RE :: re where
  "BOOL_RE = whole (rstrs [''true'', ''false'', ''yes'', ''no'', ''y'', ''n''])"

definition DATE_RE :: re where
  "DATE_RE = whole (rseq [ralt [rseq [rtimes 4 4 rdigit, rstr ''-'', rtimes 1 2 rdigit, rstr ''-'', rtimes 1 2 rdigit],
       rseq [rtimes 1 2 rdigit, rstr ''/'', rtimes 1 2 rdigit, rstr ''/'', rtimes 2 4 rdigit]],
     ropt (rseq [rspace, RStar rdot])])"

definition SENSITIVE_NAME_RE :: re where
  "SENSITIVE_NAME_RE = word (ralt [rseq [rstr ''e'', ropt (RSet (\<lambda>c. c = CHR ''-'' \<or> js_space c)), rstr ''mail''],
     rstrs [''phone'', ''mobile'', ''cell'', ''fax'', ''street'', ''address'', ''addr'', ''zip''],
     rseq [rstr ''postal'', ropt (RSet (\<lambda>c. c = CHR ''-'' \<or> js_space c)), rstr ''code''],
     rstrs [''ssn'', ''social security'', ''dob'', ''date of birth'', ''birth'', ''passport'', ''tax id'', ''national id'']])"

definition COARSE_GEO_RE :: re where
  "COARSE_GEO_RE = word (rstrs [''city'', ''state'', ''province'', ''region'', ''country''])"

definition PHONE_NAME_RE :: re where
  "PHONE_NAME_RE = word (rstrs [''phone'', ''mobile'', ''cell'', ''fax'', ''tel''])"

subsection \<open>Columns\<close>

datatype ColType = TText | TNumber | TCurrency | TDate | TEmail | TPhone | TUrl | TBoolean | TSelect

fun type_name :: "ColType \<Rightarrow> string" where
  "type_name TText = ''text''" | "type_name TNumber = ''number''" | "type_name TCurrency = ''currency''" | "type_name TDate = ''date''"
| "type_name TEmail = ''email''" | "type_name TPhone = ''phone''" | "type_name TUrl = ''url''" | "type_name TBoolean = ''boolean''"
| "type_name TSelect = ''select''"

record ParsedColumn =
  pcol_name :: string
  pcol_type :: ColType
  pcol_sensitive :: bool
  pcol_nullFrac :: int
  pcol_samples :: "string list"

type_synonym RowVals = "(string \<times> string) list"

record ParsedSheet =
  pq_name :: string
  pq_ord :: nat
  pq_headerRow :: nat
  pq_columns :: "ParsedColumn list"
  pq_rows :: "RowVals list"

definition MAX_SHEETS :: nat where "MAX_SHEETS = 40"
definition MAX_COLS :: nat where "MAX_COLS = 512"
definition MAX_ROWS :: nat where "MAX_ROWS = 200000"
definition INFER_SAMPLE :: nat where "INFER_SAMPLE = 300"
definition SAMPLE_KEEP :: nat where "SAMPLE_KEEP = 5"

text \<open>A cell: empty, a date (its day in ISO form), or anything else as text.\<close>

datatype Cell = NoCell | DateCell string | TextCell string

fun norm :: "Cell \<Rightarrow> string" where
  "norm NoCell = []"
| "norm (DateCell d) = d"
| "norm (TextCell t) = js_trim (collapse_spaces (CHR '' '') t)"

definition looksLikePhone :: "string \<Rightarrow> bool \<Rightarrow> bool" where
  "looksLikePhone v nameHint \<longleftrightarrow> (let digits = length (filter digit v) in re_test PHONE_RE v \<and> 7 \<le> digits \<and> digits \<le> 15
     \<and> ((\<exists>c\<in>set v. js_space c \<or> c \<in> set ''().+-'') \<or> nameHint))"

text \<open>\<open>more_than k n P vs\<close>: more than \<open>k / n\<close> of the values satisfy \<open>P\<close>.\<close>

definition more_than :: "nat \<Rightarrow> nat \<Rightarrow> (string \<Rightarrow> bool) \<Rightarrow> string list \<Rightarrow> bool" where
  "more_than k n P vs \<longleftrightarrow> k * length vs < n * length (filter P vs)"

definition classify :: "string \<Rightarrow> string list \<Rightarrow> ColType" where
  "classify name values = (let nonEmpty = filter (\<lambda>v. v \<noteq> []) values; distinct_vals = js_set (map js_lower nonEmpty) in
     if nonEmpty = [] then TText
     else if more_than 7 10 (re_test EMAIL_RE) nonEmpty then TEmail
     else if more_than 7 10 (re_test_i URL_RE) nonEmpty then TUrl
     else if more_than 6 10 (re_test CURRENCY_RE) nonEmpty then TCurrency
     else if more_than 7 10 (re_test DATE_RE) nonEmpty then TDate
     else if more_than 7 10 (\<lambda>v. looksLikePhone v (re_test_i PHONE_NAME_RE name)) nonEmpty then TPhone
     else if more_than 9 10 (re_test_i BOOL_RE) nonEmpty then TBoolean
     else if more_than 85 100 (re_test NUM_RE) nonEmpty then TNumber
     else if 2 \<le> length distinct_vals \<and> length distinct_vals \<le> 12 \<and> length distinct_vals * 3 \<le> length nonEmpty then TSelect
     else TText)"

definition isSensitive :: "string \<Rightarrow> ColType \<Rightarrow> bool" where
  "isSensitive name type \<longleftrightarrow> type = TEmail \<or> type = TPhone
     \<or> \<not> re_test_i (word (rstr ''domain'')) name \<and> \<not> re_test_i COARSE_GEO_RE name \<and> re_test_i SENSITIVE_NAME_RE name"

definition filled :: "Cell list \<Rightarrow> nat" where
  "filled r = length (filter (\<lambda>c. norm c \<noteq> []) r)"

definition detectHeaderRow :: "Cell list list \<Rightarrow> nat" where
  "detectHeaderRow matrix = (let widths = map filled (take 6 matrix); maxW = Max (insert 1 (set widths)) in
     case first_where (\<lambda>p. max 2 (maxW div 2) \<le> snd p) (enumerate 0 widths) of Some p \<Rightarrow> fst p | None \<Rightarrow> 0)"

text \<open>\<open>seenN name\<close> is what the map \<^verbatim>\<open>seen\<close> of the source holds.\<close>

fun dedupe_from :: "nat \<Rightarrow> (string \<Rightarrow> nat option) \<Rightarrow> string list \<Rightarrow> string list" where
  "dedupe_from i seenN [] = []"
| "dedupe_from i seenN (h # hs) = (let name = (if norm (TextCell h) \<noteq> [] then norm (TextCell h) else ''col_'' @ digits_of (i + 1)) in
     case seenN name of
       Some n \<Rightarrow> (name @ '' ('' @ digits_of (n + 1) @ '')'') # dedupe_from (i + 1) (seenN(name \<mapsto> n + 1)) hs
     | None \<Rightarrow> name # dedupe_from (i + 1) (seenN(name \<mapsto> 1)) hs)"

definition dedupeHeaders :: "string list \<Rightarrow> string list" where
  "dedupeHeaders raw = dedupe_from 0 (\<lambda>_. None) raw"

subsection \<open>Sheets and workbooks\<close>

definition cell_at :: "RowVals \<Rightarrow> string \<Rightarrow> string" where
  "cell_at r c = or_empty (map_of r c)"

definition row_object :: "string list \<Rightarrow> Cell list \<Rightarrow> RowVals" where
  "row_object headers r = fold (\<lambda>(i, h). AList.update h (if i < length r then norm (r ! i) else [])) (enumerate 0 headers) []"

definition column_profile :: "RowVals list \<Rightarrow> string \<Rightarrow> ParsedColumn" where
  "column_profile rows name = (let colVals = map (\<lambda>r. cell_at r name) rows; type = classify name (take INFER_SAMPLE colVals);
       sens = isSensitive name type; nulls = length (filter (\<lambda>v. v = []) colVals) in
     \<lparr>pcol_name = name, pcol_type = type, pcol_sensitive = sens,
      pcol_nullFrac = (if rows \<noteq> [] then int ((200 * nulls + length rows) div (2 * length rows)) else 0),
      pcol_samples = (if sens then [] else take SAMPLE_KEEP (js_set (filter (\<lambda>v. v \<noteq> []) colVals)))\<rparr>)"

definition sheet_name :: "nat \<Rightarrow> string \<Rightarrow> string" where
  "sheet_name ord name = (if name \<noteq> [] then name else ''Sheet '' @ digits_of (ord + 1))"

definition parse_sheet :: "nat \<Rightarrow> string \<Rightarrow> Cell list list \<Rightarrow> ParsedSheet" where
  "parse_sheet ord name matrix =
     (if matrix = [] then \<lparr>pq_name = sheet_name ord name, pq_ord = ord, pq_headerRow = 0, pq_columns = [], pq_rows = []\<rparr>
      else let headerRow = detectHeaderRow matrix; headers = dedupeHeaders (map norm (take MAX_COLS (matrix ! headerRow)));
             rows = filter (\<lambda>r. \<exists>kv\<in>set r. snd kv \<noteq> []) (map (row_object headers) (take MAX_ROWS (drop (headerRow + 1) matrix))) in
        \<lparr>pq_name = sheet_name ord name, pq_ord = ord, pq_headerRow = headerRow, pq_columns = map (column_profile rows) headers, pq_rows = rows\<rparr>)"

type_synonym workbook = "(string \<times> Cell list list option) list"

definition parseWorkbook :: "workbook \<Rightarrow> ParsedSheet list" where
  "parseWorkbook wb = List.map_filter (\<lambda>(ord, name, ws). map_option (parse_sheet ord name) ws) (enumerate 0 (take MAX_SHEETS wb))"

definition times :: string where "times = [CHR 0xC3, CHR 0x97]"

definition sheet_summary :: "nat \<Rightarrow> ParsedSheet \<Rightarrow> string list" where
  "sheet_summary maxSampleRows s = (let shown = map pcol_name (filter (\<lambda>c. \<not> pcol_sensitive c) (pq_columns s)) in
     [''# '' @ pq_name s @ '' ('' @ digits_of (length (pq_rows s)) @ '' rows '' @ times @ '' '' @ digits_of (length (pq_columns s)) @ '' columns)'']
     @ (if pq_columns s = [] then []
        else [''Columns: '' @ js_join '', '' (map (\<lambda>c. pcol_name c @ '' ['' @ type_name (pcol_type c) @ (if pcol_sensitive c then '', sensitive'' else []) @ '']'') (pq_columns s))]
          @ (if shown = [] then [] else [''Sample rows:'', js_join '' | '' shown]
             @ map (\<lambda>r. js_join '' | '' (map (cell_at r) shown)) (take maxSampleRows (pq_rows s))))
     @ [[]])"

definition summarizeParsed :: "nat \<Rightarrow> ParsedSheet list \<Rightarrow> string" where
  "summarizeParsed maxSampleRows sheets = js_join [CHR 0x0A] (concat (map (sheet_summary maxSampleRows) sheets))"

definition isTabularFile :: "string \<Rightarrow> string option \<Rightarrow> bool" where
  "isTabularFile name mime \<longleftrightarrow> (\<exists>x\<in>set [''.xlsx'', ''.xls'', ''.csv'', ''.tsv'']. ends_with x (js_lower name))
     \<or> mime = Some ''application/vnd.openxmlformats-officedocument.spreadsheetml.sheet'' \<or> mime = Some ''application/vnd.ms-excel''
     \<or> mime = Some ''text/csv'' \<or> mime = Some ''text/tab-separated-values''"

end
