(* ===== verification/Import_Map.thy ===== *)
theory Import_Map
  imports Import_Parse
begin

text \<open>
  \<^verbatim>\<open>lib/domain/import-map.ts\<close>: how the columns of a sheet become CRM fields, and the default mapping the program suggests. A standard target is
  its name; the specifications themselves (\<open>MappingSpec\<close>) are in \<open>Schema\<close>, where a row of the mapping table holds one.
\<close>

definition StdTargets :: "string list" where
  "StdTargets = [''account.name'', ''account.domain'', ''contact.name'', ''contact.firstName'', ''contact.lastName'', ''contact.email'',
     ''contact.title'', ''contact.phone'', ''deal.name'', ''deal.value'', ''task.title'', ''task.priority'', ''ignore'']"

definition SINGULAR :: "string list" where
  "SINGULAR = [''account.name'', ''account.domain'', ''contact.name'', ''contact.firstName'', ''contact.lastName'', ''contact.email'',
     ''contact.title'', ''contact.phone'', ''deal.name'', ''deal.value'']"

text \<open>Runs of other characters become one underscore, which is dropped at both ends.\<close>

fun underscore_runs :: "bool \<Rightarrow> string \<Rightarrow> string" where
  "underscore_runs open_run [] = []"
| "underscore_runs open_run (c # cs) = (if lower_or_digit c then c # underscore_runs False cs
     else if open_run then underscore_runs True cs else CHR ''_'' # underscore_runs True cs)"

definition strip_underscores :: "string \<Rightarrow> string" where
  "strip_underscores s = drop_trailing (\<lambda>c. c = CHR ''_'') (dropWhile (\<lambda>c. c = CHR ''_'') s)"

definition slugKey :: "string \<Rightarrow> string" where
  "slugKey name = (let k = take 60 (strip_underscores (underscore_runs False (js_lower name))) in if k = [] then ''field'' else k)"

fun crmTypeFor :: "ColType \<Rightarrow> string" where
  "crmTypeFor TEmail = ''email''" | "crmTypeFor TPhone = ''phone''" | "crmTypeFor TUrl = ''url''" | "crmTypeFor TCurrency = ''currency''"
| "crmTypeFor TNumber = ''number''" | "crmTypeFor TDate = ''date''" | "crmTypeFor TBoolean = ''boolean''" | "crmTypeFor TSelect = ''select''"
| "crmTypeFor TText = ''text''"

definition gap :: re where "gap = RStar rspace"

definition guessStd :: "string \<Rightarrow> ColType \<Rightarrow> string option" where
  "guessStd name type = (let n = js_trim (js_lower name) in
     if re_test (whole (rseq [ralt [rstr ''company'', rstr ''account'', rseq [rstr ''organi'', rin ''sz'', rstr ''ation''], rstr ''employer'', rstr ''firm''],
          ropt (rseq [gap, rstr ''name'']) ])) n \<or> re_test (word (rstr ''company name'')) n then Some ''account.name''
     else if type = TUrl \<or> re_test (word (rstrs [''website'', ''web site'', ''company url'', ''domain'', ''url''])) n then Some ''account.domain''
     else if type = TEmail \<or> re_test (word (rseq [rstr ''e'', ropt (RSet (\<lambda>c. c = CHR ''-'' \<or> js_space c)), rstr ''mail''])) n then Some ''contact.email''
     else if re_test (whole (rseq [rstr ''first'', gap, rstr ''name''])) n then Some ''contact.firstName''
     else if re_test (whole (rseq [rstr ''last'', gap, rstr ''name''])) n then Some ''contact.lastName''
     else if re_test (whole (rseq [ropt (rseq [rstr ''full'', gap]), rstr ''name''])) n
          \<or> re_test (word (rseq [rstrs [''contact'', ''person'', ''prospect'', ''investor'', ''lead''], gap, rstr ''name''])) n then Some ''contact.name''
     else if re_test (word (ralt [rseq [rstr ''job'', gap, rstr ''title''], rstrs [''title'', ''role'', ''position'', ''seniority'', ''management level'']])) n
       then Some ''contact.title''
     else if type = TPhone \<or> re_test (word (rstrs [''phone'', ''mobile'', ''cell'', ''direct phone''])) n then Some ''contact.phone''
     else if re_test (word (rstr ''deal'')) n \<or> re_test (word (rstr ''opportunity'')) n then Some ''deal.name''
     else if re_test (word (ralt [rseq [rstr ''deal'', gap, rstrs [''value'', ''size'']], rstrs [''amount'', ''revenue'', ''arr'', ''mrr'', ''value in usd'']])) n
       then Some ''deal.value''
     else None)"

text \<open>One column after the other; \<open>taken\<close> are the singular targets claimed so far.\<close>

definition map_column :: "string \<Rightarrow> string list \<Rightarrow> ParsedColumn \<Rightarrow> string list \<times> MappingColumn" where
  "map_column primary taken c = (case guessStd (pcol_name c) (pcol_type c) of
       Some t \<Rightarrow> if t \<notin> set SINGULAR \<or> t \<notin> set taken
         then (if t \<in> set SINGULAR then t # taken else taken, \<lparr>mk_column = pcol_name c, mk_map = StdMap t\<rparr>)
         else (taken, \<lparr>mk_column = pcol_name c, mk_map = CustomMap (if primary = ''account'' then ''account'' else ''contact'') (slugKey (pcol_name c))
           (pcol_name c) (crmTypeFor (pcol_type c))\<rparr>)
     | None \<Rightarrow> (taken, \<lparr>mk_column = pcol_name c, mk_map = CustomMap (if primary = ''account'' then ''account'' else ''contact'') (slugKey (pcol_name c))
         (pcol_name c) (crmTypeFor (pcol_type c))\<rparr>))"

fun map_columns :: "string \<Rightarrow> string list \<Rightarrow> ParsedColumn list \<Rightarrow> string list \<times> MappingColumn list" where
  "map_columns primary taken [] = (taken, [])"
| "map_columns primary taken (c # cs) = (let (taken', m) = map_column primary taken c; (final, ms) = map_columns primary taken' cs in (final, m # ms))"

definition primary_of :: "ParsedColumn list \<Rightarrow> string" where
  "primary_of columns = (let hasEmail = (\<exists>c\<in>set columns. pcol_type c = TEmail \<or> re_test_i (rstr ''email'') (pcol_name c));
       hasPersonName = (\<exists>c\<in>set columns. re_test_i (rstr ''name'') (pcol_name c)) in
     if hasEmail \<or> hasPersonName then ''contact'' else ''account'')"

definition suggestMapping :: "ParsedColumn list \<Rightarrow> MappingSpec" where
  "suggestMapping columns = (let (taken, cols) = map_columns (primary_of columns) [] columns in
     \<lparr>mp_primaryEntity = primary_of columns, mp_columns = cols,
      mp_dedupeAccount = (if ''account.domain'' \<in> set taken then ''domain'' else if ''account.name'' \<in> set taken then ''name'' else ''none''),
      mp_dedupeContact = (if ''contact.email'' \<in> set taken then ''email'' else ''name''), mp_createTasks = None\<rparr>)"

definition columnsFor :: "MappingSpec \<Rightarrow> string \<Rightarrow> string list" where
  "columnsFor spec t = map mk_column (filter (\<lambda>c. mk_map c = StdMap t) (mp_columns spec))"

subsection \<open>What is suggested\<close>

lemma map_column_run:
  assumes "map_column p taken c = (taken', m)"
  shows "mk_column m = pcol_name c"
    and "mk_map m = StdMap t \<Longrightarrow> t \<in> set SINGULAR \<Longrightarrow> t \<notin> set taken \<and> taken' = t # taken"
    and "mk_map m \<noteq> StdMap t \<Longrightarrow> t \<in> set taken' \<longleftrightarrow> t \<in> set taken"
  using assms by (auto simp: map_column_def split: option.splits if_splits)

lemma map_columns_run:
  assumes "map_columns p taken cs = (final, ms)"
  shows "map mk_column ms = map pcol_name cs"
    and "t \<in> set SINGULAR \<Longrightarrow> length (filter (\<lambda>c. mk_map c = StdMap t) ms) = (if t \<in> set final \<and> t \<notin> set taken then 1 else 0)
       \<and> (t \<in> set taken \<longrightarrow> t \<in> set final)"
  using assms
proof (induction cs arbitrary: taken final ms)
  case (Cons c cs)
  { case 1
    then show ?case using Cons.IH(1) map_column_run(1) by (fastforce split: prod.splits)
  next
    case 2
    then obtain taken' m ms' where m: "map_column p taken c = (taken', m)" and ms': "map_columns p taken' cs = (final, ms')" "ms = m # ms'"
      by (auto split: prod.splits)
    note ih = Cons.IH(2) [OF 2(1) ms'(1)]
    show ?case
    proof (cases "mk_map m = StdMap t")
      case True
      with map_column_run(2) [OF m] 2(1) ih show ?thesis by (simp add: ms'(2))
    next
      case False
      with map_column_run(3) [OF m] ih show ?thesis by (simp add: ms'(2))
    qed }
qed simp_all

text \<open>The suggested mapping covers exactly the columns of the sheet, in order, and no two columns claim the same singular target; the account is
  matched by domain, and the contact by e-mail, exactly if a column is mapped to it.\<close>

theorem suggested_mapping_sound:
  "map mk_column (mp_columns (suggestMapping cols)) = map pcol_name cols
     \<and> list_all (\<lambda>t. length (columnsFor (suggestMapping cols) t) \<le> 1) SINGULAR
     \<and> (mp_dedupeAccount (suggestMapping cols) = ''domain'') = (columnsFor (suggestMapping cols) ''account.domain'' \<noteq> [])
     \<and> (mp_dedupeContact (suggestMapping cols) = ''email'') = (columnsFor (suggestMapping cols) ''contact.email'' \<noteq> [])"
proof -
  obtain taken ms where run: "map_columns (primary_of cols) [] cols = (taken, ms)" by fastforce
  then have s: "mp_columns (suggestMapping cols) = ms"
      "mp_dedupeAccount (suggestMapping cols) = (if ''account.domain'' \<in> set taken then ''domain'' else if ''account.name'' \<in> set taken then ''name'' else ''none'')"
      "mp_dedupeContact (suggestMapping cols) = (if ''contact.email'' \<in> set taken then ''email'' else ''name'')"
    by (simp_all add: suggestMapping_def)
  have n: "length (columnsFor (suggestMapping cols) t) = (if t \<in> set taken then 1 else 0)" if "t \<in> set SINGULAR" for t
    using map_columns_run(2) [OF run that] by (simp add: columnsFor_def s)
  have "(columnsFor (suggestMapping cols) t \<noteq> []) = (t \<in> set taken)" if "t \<in> set SINGULAR" for t
    using n [OF that] by (auto split: if_splits)
  moreover have "''account.domain'' \<in> set SINGULAR" "''contact.email'' \<in> set SINGULAR" by (simp_all add: SINGULAR_def)
  ultimately show ?thesis using map_columns_run(1) [OF run] n by (auto simp: s list_all_iff)
qed

end
