(* ===== verification/Documents.thy ===== *)
theory Documents
  imports Crm
begin

text \<open>
  \<^verbatim>\<open>lib/domain/documents.ts\<close>, \<^verbatim>\<open>lib/attachments.ts\<close>, \<^verbatim>\<open>lib/ai/embeddings.ts\<close> and \<^verbatim>\<open>lib/security/blob-signing.ts\<close>: who may see a document,
  how an upload is stored and cut into chunks, how chunks are retrieved, and how the bytes are handed out. File parsers, the embeddings
  endpoint and the blob store are fields of \<open>doc_env\<close>. A vector is the list of its numbers as text; the order of pgvector's cosine
  distance is the field \<open>dx_distance\<close>.
\<close>

type_synonym embedding = "string list"

record StoredBlob =
  sb_size :: int
  sb_bytes :: string

record LegacyReply =
  lr_ok :: bool
  lr_body :: "string option"
  lr_type :: "string option"
  lr_length :: "string option"

record doc_env =
  dx_web :: web_env
  dx_crypto :: crypto_env
  dx_pdf :: "string \<Rightarrow> string option"
  dx_xlsx :: "string \<Rightarrow> string option"
  dx_docx :: "string \<Rightarrow> string option"
  dx_embeddings :: "string \<Rightarrow> string option \<Rightarrow> string \<Rightarrow> string list \<Rightarrow> embedding list option"
  dx_distance :: "string \<Rightarrow> embedding \<Rightarrow> int"
  dx_pathname :: "string \<Rightarrow> string option"
  dx_number :: "string \<Rightarrow> decimal option"
  dx_get :: "string \<Rightarrow> StoredBlob option"
  dx_fetch :: "string \<Rightarrow> LegacyReply option"
  dx_presign :: "string \<Rightarrow> ms \<Rightarrow> (string \<times> ms) option"
  dx_downloadHint :: "string \<Rightarrow> string"
  dx_put :: "string \<Rightarrow> string \<Rightarrow> string option"

subsection \<open>Attachment policy\<close>

definition workspaceBlobPrefix :: "uuid \<Rightarrow> string" where
  "workspaceBlobPrefix w = ''comms/'' @ w @ ''/''"

definition DOC_EXT :: "string list" where
  "DOC_EXT = [''pdf'', ''txt'', ''md'', ''markdown'', ''csv'', ''tsv'', ''json'', ''log'', ''xlsx'', ''xls'', ''docx'']"

definition IMAGE_EXT :: "string list" where
  "IMAGE_EXT = [''png'', ''jpg'', ''jpeg'', ''webp'', ''svg'', ''gif'']"

definition VIDEO_EXT :: "string list" where
  "VIDEO_EXT = [''mp4'', ''webm'', ''mov'', ''m4v'']"

definition ALLOWED_EXT :: "string list" where
  "ALLOWED_EXT = DOC_EXT @ IMAGE_EXT @ VIDEO_EXT"

definition ALLOWED_CONTENT_TYPES :: "string list" where
  "ALLOWED_CONTENT_TYPES = [''application/pdf'', ''text/plain'', ''text/markdown'', ''text/csv'', ''text/tab-separated-values'', ''application/json'',
     ''application/vnd.openxmlformats-officedocument.spreadsheetml.sheet'', ''application/vnd.ms-excel'',
     ''application/vnd.openxmlformats-officedocument.wordprocessingml.document'', ''image/png'', ''image/jpeg'', ''image/webp'', ''image/svg+xml'',
     ''image/gif'', ''video/mp4'', ''video/webm'', ''video/quicktime'']"

datatype AttachKind = ImageKind | VideoKind | DocKind

definition MB :: int where "MB = 1024 * 1024"

fun MAX_BYTES :: "AttachKind \<Rightarrow> int" where
  "MAX_BYTES ImageKind = 25 * MB"
| "MAX_BYTES VideoKind = 200 * MB"
| "MAX_BYTES DocKind = 25 * MB"

definition MAX_PARSE_BYTES :: int where "MAX_PARSE_BYTES = 25 * MB"

definition extOf :: "string \<Rightarrow> string" where
  "extOf name = (if CHR ''.'' \<in> set name then js_lower (rev (takeWhile (\<lambda>c. c \<noteq> CHR ''.'') (rev name))) else [])"

definition mime_starts :: "string \<Rightarrow> string option \<Rightarrow> bool" where
  "mime_starts p mime \<longleftrightarrow> (case mime of Some m \<Rightarrow> starts_with p m | None \<Rightarrow> False)"

definition kindOf :: "string \<Rightarrow> string option \<Rightarrow> AttachKind" where
  "kindOf name mime = (let ext = extOf name in
     if ext \<in> set IMAGE_EXT \<or> mime_starts ''image/'' mime then ImageKind
     else if ext \<in> set VIDEO_EXT \<or> mime_starts ''video/'' mime then VideoKind else DocKind)"

definition isAllowed :: "string \<Rightarrow> string option \<Rightarrow> bool" where
  "isAllowed name mime \<longleftrightarrow> extOf name \<in> set ALLOWED_EXT \<or> mime_starts ''image/'' mime \<or> mime_starts ''video/'' mime \<or> mime_starts ''text/'' mime"

definition isParseable :: "string \<Rightarrow> string option \<Rightarrow> bool" where
  "isParseable name mime \<longleftrightarrow> kindOf name mime = DocKind"

subsection \<open>Visibility\<close>

record DocumentRow =
  dv_id :: uuid
  dv_name :: string
  dv_mime :: "string option"
  dv_blobUrl :: string
  dv_uploadedBySub :: string
  dv_createdAt :: ms

record DocScope =
  ds_accountId :: "uuid option"
  ds_dealId :: "uuid option"
  ds_channelId :: "uuid option"

record DocViewer =
  vi_sub :: string
  vi_internal :: bool
  vi_agent :: "bool option"

definition in_my_channel :: "db \<Rightarrow> uuid \<Rightarrow> string \<Rightarrow> document_row \<Rightarrow> bool" where
  "in_my_channel s w u d \<longleftrightarrow> (\<exists>m\<in>set (channelMembers s). dc_channelId d = Some (cm_channelId m) \<and> cm_workspaceId m = w \<and> cm_sub m = u)"

definition shared_into_my_channel :: "db \<Rightarrow> uuid \<Rightarrow> string \<Rightarrow> document_row \<Rightarrow> bool" where
  "shared_into_my_channel s w u d \<longleftrightarrow> (\<exists>a\<in>set (messageAttachments s). \<exists>x\<in>set (messages s). \<exists>m\<in>set (channelMembers s).
     ma_documentId a = dc_id d \<and> ms_id x = ma_messageId a \<and> cm_channelId m = ms_channelId x
     \<and> ma_workspaceId a = w \<and> ms_workspaceId x = w \<and> cm_sub m = u)"

definition documentVisibleTo :: "db \<Rightarrow> uuid \<Rightarrow> DocViewer \<Rightarrow> document_row \<Rightarrow> bool" where
  "documentVisibleTo s w v d \<longleftrightarrow> (vi_internal v \<and> dc_channelId d = None) \<or> in_my_channel s w (vi_sub v) d \<or> shared_into_my_channel s w (vi_sub v) d"

definition documentVisibleToAll :: "db \<Rightarrow> uuid \<Rightarrow> DocViewer list \<Rightarrow> document_row \<Rightarrow> bool" where
  "documentVisibleToAll s w vs d \<longleftrightarrow> vs \<noteq> [] \<and> (\<forall>v\<in>set vs. documentVisibleTo s w v d)"

definition document_view :: "document_row \<Rightarrow> DocumentRow" where
  "document_view d = \<lparr>dv_id = dc_id d, dv_name = dc_name d, dv_mime = dc_mime d, dv_blobUrl = dc_blobUrl d, dv_uploadedBySub = dc_uploadedBySub d,
     dv_createdAt = dc_createdAt d\<rparr>"

definition getVisibleDocument :: "uuid \<Rightarrow> uuid \<Rightarrow> DocViewer \<Rightarrow> (db, DocumentRow option) act" where
  "getVisibleDocument w i v = act_get (\<lambda>s. map_option document_view
     (first_where (\<lambda>d. dc_workspaceId d = w \<and> dc_id d = i \<and> documentVisibleTo s w v d) (documents s)))"

definition badDocScope :: "uuid \<Rightarrow> string \<Rightarrow> DocScope \<Rightarrow> (db, string option) act" where
  "badDocScope w u sc =
     (if \<exists>x\<in>set [ds_accountId sc, ds_dealId sc, ds_channelId sc]. truthy x \<and> \<not> is_uuid (the x) then act_return (Some ''bad_scope'')
      else act_bind (if truthy (ds_accountId sc) then recordExists w CrmAccount (the (ds_accountId sc)) else act_return True) (\<lambda>okAccount.
      if \<not> okAccount then act_return (Some ''not_found'')
      else act_bind (if truthy (ds_dealId sc) then recordExists w CrmDeal (the (ds_dealId sc)) else act_return True) (\<lambda>okDeal.
      if \<not> okDeal then act_return (Some ''not_found'')
      else if truthy (ds_channelId sc) then
        act_bind (act_get (\<lambda>s. \<exists>m\<in>set (channelMembers s). cm_workspaceId m = w \<and> cm_channelId m = the (ds_channelId sc) \<and> cm_sub m = u)) (\<lambda>seat.
        if seat then act_return None else act_return (Some ''bad_scope''))
      else act_return None)))"

definition blobUrlBoundToOtherWorkspace :: "uuid \<Rightarrow> string \<Rightarrow> (db, bool) act" where
  "blobUrlBoundToOtherWorkspace w blobUrl = (if blobUrl = [] then act_return False
     else act_get (\<lambda>s. \<exists>d\<in>set (documents s). dc_blobUrl d = blobUrl \<and> dc_workspaceId d \<noteq> w))"

definition visibleDocumentIds :: "uuid \<Rightarrow> uuid list \<Rightarrow> DocViewer \<Rightarrow> (db, uuid set) act" where
  "visibleDocumentIds w ids v = (let uuids = filter is_uuid ids in
     if uuids = [] then act_return {}
     else act_get (\<lambda>s. dc_id ` set (rows_where (\<lambda>d. dc_workspaceId d = w \<and> dc_id d \<in> set uuids \<and> documentVisibleTo s w v d) (documents s))))"

definition getDocument :: "uuid \<Rightarrow> uuid \<Rightarrow> (db, DocumentRow option) act" where
  "getDocument w i = act_get (\<lambda>s. map_option document_view (first_where (\<lambda>d. dc_workspaceId d = w \<and> dc_id d = i) (documents s)))"

definition newest_first :: "document_row list \<Rightarrow> document_row list" where
  "newest_first ds = rev (sort_key dc_createdAt ds)"

definition record_scope :: "DocScope \<Rightarrow> (document_row \<Rightarrow> bool) option" where
  "record_scope sc = (if truthy (ds_accountId sc) then Some (\<lambda>d. dc_accountId d = ds_accountId sc)
     else if truthy (ds_dealId sc) then Some (\<lambda>d. dc_dealId d = ds_dealId sc)
     else if truthy (ds_channelId sc) then Some (\<lambda>d. dc_channelId d = ds_channelId sc) else None)"

definition listDocumentsForRecord :: "uuid \<Rightarrow> DocScope \<Rightarrow> DocViewer \<Rightarrow> (db, DocumentRow list) act" where
  "listDocumentsForRecord w sc v = (case record_scope sc of None \<Rightarrow> act_return []
     | Some P \<Rightarrow> act_get (\<lambda>s. map (\<lambda>d. (document_view d)\<lparr>dv_blobUrl := (if dc_blobUrl d \<noteq> [] then documentViewUrl w (dc_id d) else [])\<rparr>)
         (newest_first (rows_where (\<lambda>d. dc_workspaceId d = w \<and> P d \<and> documentVisibleTo s w v d) (documents s)))))"

definition listDocuments :: "uuid \<Rightarrow> DocViewer list \<Rightarrow> nat \<Rightarrow> (db, DocumentRow list) act" where
  "listDocuments w vs n = act_get (\<lambda>s. map document_view (take (min (max n 1) 200)
     (newest_first (rows_where (\<lambda>d. dc_workspaceId d = w \<and> documentVisibleToAll s w vs d) (documents s)))))"

subsection \<open>Reading blobs\<close>

definition DEFAULT_TTL_SECONDS :: int where "DEFAULT_TTL_SECONDS = 120"
definition MIN_TTL_SECONDS :: int where "MIN_TTL_SECONDS = 30"
definition MAX_TTL_SECONDS :: int where "MAX_TTL_SECONDS = 600"

definition signedUrlTtlSeconds :: "doc_env \<Rightarrow> int" where
  "signedUrlTtlSeconds D = (case env (auth (dx_web D)) ''BLOB_SIGNED_URL_TTL_SECONDS'' of
      None \<Rightarrow> DEFAULT_TTL_SECONDS
    | Some v \<Rightarrow> (case dx_number D v of
        None \<Rightarrow> DEFAULT_TTL_SECONDS
      | Some (m, k) \<Rightarrow> if m \<le> 0 then DEFAULT_TTL_SECONDS else min (max (m div 10 ^ k) MIN_TTL_SECONDS) MAX_TTL_SECONDS))"

definition blobPathname :: "doc_env \<Rightarrow> string \<Rightarrow> string option" where
  "blobPathname D u = (case dx_pathname D u of None \<Rightarrow> None
     | Some p \<Rightarrow> let q = dropWhile (\<lambda>c. c = CHR ''/'') p in if q = [] then None else Some q)"

text \<open>Issuing the token and presigning the URL are one call of the store's client; \<open>None\<close> is its exception.\<close>

definition signedReadUrl :: "doc_env \<Rightarrow> ms \<Rightarrow> string \<Rightarrow> bool \<Rightarrow> err + (string \<times> ms) option" where
  "signedReadUrl D now u download = (if \<not> isOwnPrivateBlobUrl (dx_web D) u then Inr None
     else case blobPathname D u of None \<Rightarrow> Inr None
     | Some p \<Rightarrow> (case dx_presign D p (now + signedUrlTtlSeconds D * 1000) of
         None \<Rightarrow> Inl (JsError ''presign'')
       | Some (url, expires) \<Rightarrow> Inr (Some (if download then dx_downloadHint D url else url, expires))))"

definition readBlobBytes :: "doc_env \<Rightarrow> string \<Rightarrow> int option \<Rightarrow> string option" where
  "readBlobBytes D u maxBytes =
     (if isOwnPrivateBlobUrl (dx_web D) u then
        (case blobPathname D u of None \<Rightarrow> None
         | Some p \<Rightarrow> (case dx_get D p of None \<Rightarrow> None
             | Some b \<Rightarrow> if (case maxBytes of Some n \<Rightarrow> sb_size b > n \<or> int (length (sb_bytes b)) > n | None \<Rightarrow> False) then None else Some (sb_bytes b)))
      else if \<not> isLegacyPublicBlobUrl (dx_web D) u then None
      else (case dx_fetch D u of None \<Rightarrow> None
        | Some r \<Rightarrow> if \<not> lr_ok r then None
            else if (case maxBytes of None \<Rightarrow> False | Some n \<Rightarrow>
                (case lr_length r of None \<Rightarrow> 0 > n | Some l \<Rightarrow> (case dx_number D l of Some (m, k) \<Rightarrow> m > n * 10 ^ k | None \<Rightarrow> False))) then None
            else Some (case lr_body r of Some b \<Rightarrow> b | None \<Rightarrow> [])))"

record StreamedFile =
  sf_contentType :: string
  sf_contentLength :: "string option"
  sf_disposition :: string
  sf_body :: string

definition safe_name :: "string \<Rightarrow> string" where
  "safe_name n = map (\<lambda>c. if c \<in> {CHR 0x22, CHR 0x0D, CHR 0x0A, CHR 0x5C} then CHR ''_'' else c) n"

definition streamLegacyBlobResponse :: "doc_env \<Rightarrow> string \<Rightarrow> bool \<Rightarrow> string option \<Rightarrow> string \<Rightarrow> StreamedFile option" where
  "streamLegacyBlobResponse D u download mime filename = (if \<not> isLegacyPublicBlobUrl (dx_web D) u then None
     else case dx_fetch D u of None \<Rightarrow> None
     | Some r \<Rightarrow> (case lr_body r of None \<Rightarrow> None
         | Some b \<Rightarrow> if \<not> lr_ok r then None else Some \<lparr>
             sf_contentType = or_text mime (or_text (lr_type r) ''application/octet-stream''),
             sf_contentLength = (if truthy (lr_length r) then lr_length r else None),
             sf_disposition = (if download then ''attachment'' else ''inline'') @ ''; filename='' @ [CHR 0x22] @ safe_name filename @ [CHR 0x22],
             sf_body = b\<rparr>))"

subsection \<open>Text, chunks and embeddings\<close>

definition text_suffixes :: "string list" where
  "text_suffixes = [''.txt'', ''.md'', ''.markdown'', ''.csv'', ''.tsv'', ''.json'', ''.log'']"

definition extractDocText :: "doc_env \<Rightarrow> string \<Rightarrow> string option \<Rightarrow> string \<Rightarrow> string option" where
  "extractDocText D name mime buf = (let lower = js_lower name in
     if mime_starts ''text/'' mime \<or> (\<exists>x\<in>set text_suffixes. ends_with x lower) then Some buf
     else if mime = Some ''application/pdf'' \<or> ends_with ''.pdf'' lower then dx_pdf D buf
     else if ends_with ''.xlsx'' lower \<or> ends_with ''.xls'' lower
          \<or> mime = Some ''application/vnd.openxmlformats-officedocument.spreadsheetml.sheet'' then dx_xlsx D buf
     else if ends_with ''.docx'' lower
          \<or> mime = Some ''application/vnd.openxmlformats-officedocument.wordprocessingml.document'' then dx_docx D buf
     else None)"

definition getDocumentText :: "doc_env \<Rightarrow> uuid \<Rightarrow> uuid \<Rightarrow> DocViewer \<Rightarrow> (db, (string \<times> string) option) act" where
  "getDocumentText D w i v = act_bind (getVisibleDocument w i v) (\<lambda>doc. act_return (case doc of
      None \<Rightarrow> None
    | Some d \<Rightarrow> if dv_blobUrl d = [] then None
        else (case readBlobBytes D (dv_blobUrl d) None of None \<Rightarrow> None
          | Some buf \<Rightarrow> (case extractDocText D (dv_name d) (dv_mime d) buf of None \<Rightarrow> None
              | Some t \<Rightarrow> if js_trim t = [] then None else Some (dv_name d, t)))))"

definition CHUNK_SIZE :: nat where "CHUNK_SIZE = 1200"
definition CHUNK_OVERLAP :: nat where "CHUNK_OVERLAP = 150"
definition MAX_CHUNKS :: nat where "MAX_CHUNKS = 2000"

text \<open>The loop of \<^verbatim>\<open>chunkText\<close>: \<open>k\<close> chunks may still be pushed, \<open>rest\<close> is the text from position \<open>i\<close> on.\<close>

primrec chunk_loop :: "nat \<Rightarrow> string \<Rightarrow> string list" where
  "chunk_loop 0 rest = []"
| "chunk_loop (Suc k) rest = (if rest = [] then [] else take CHUNK_SIZE rest # chunk_loop k (drop (CHUNK_SIZE - CHUNK_OVERLAP) rest))"

definition clean_text :: "string \<Rightarrow> string" where
  "clean_text t = js_trim (collapse_spaces (CHR '' '') t)"

definition chunkText :: "string \<Rightarrow> string list" where
  "chunkText t = chunk_loop MAX_CHUNKS (clean_text t)"

definition EMBEDDING_DIM :: nat where "EMBEDDING_DIM = 1024"

definition env_or :: "doc_env \<Rightarrow> string \<Rightarrow> string \<Rightarrow> string" where
  "env_or D k d = (case env (auth (dx_web D)) k of Some v \<Rightarrow> v | None \<Rightarrow> d)"

definition embed_endpoint :: "doc_env \<Rightarrow> (string \<times> string option) option" where
  "embed_endpoint D = (let mode = js_lower (env_or D ''CITRATE_INFERENCE_MODE'' ''gateway'');
       base = (if mode = ''local'' then env_or D ''CITRATE_INFERENCE_URL'' ''http://127.0.0.1:8080/v1''
               else env_or D ''CITRATE_GATEWAY_URL'' ''https://infer.citrate.ai/v1'');
       apiKey = (case env (auth (dx_web D)) ''CITRATE_GATEWAY_API_KEY'' of Some k \<Rightarrow> Some k
                 | None \<Rightarrow> env (auth (dx_web D)) ''CITRATE_INFERENCE_API_KEY'')
     in if mode = ''gateway'' \<and> \<not> truthy apiKey then None
        else Some ((if ends_with ''/'' base then butlast base else base) @ ''/embeddings'', apiKey))"

definition embedModel :: "doc_env \<Rightarrow> string" where
  "embedModel D = env_or D ''CITRATE_EMBED_MODEL'' ''bge-m3''"

definition embeddingsConfigured :: "doc_env \<Rightarrow> bool" where
  "embeddingsConfigured D \<longleftrightarrow> embed_endpoint D \<noteq> None"

text \<open>A failed, late or refused request is \<open>None\<close>; a missing vector in the reply is an empty one.\<close>

definition embed :: "doc_env \<Rightarrow> string list \<Rightarrow> embedding list option" where
  "embed D texts = (case embed_endpoint D of None \<Rightarrow> None
     | Some (url, apiKey) \<Rightarrow> if texts = [] then None
         else (case dx_embeddings D url (if truthy apiKey then apiKey else None) (embedModel D) texts of None \<Rightarrow> None
           | Some out \<Rightarrow> if length out \<noteq> length texts \<or> (\<exists>v\<in>set out. length v \<noteq> EMBEDDING_DIM) then None else Some out))"

definition embedOne :: "doc_env \<Rightarrow> string \<Rightarrow> embedding option" where
  "embedOne D t = (case embed D [t] of Some (v # _) \<Rightarrow> Some v | _ \<Rightarrow> None)"

definition vector_text :: "embedding \<Rightarrow> string" where
  "vector_text v = ''['' @ js_join '','' v @ '']''"

subsection \<open>Ingesting an upload\<close>

definition insert_document :: "document_row \<Rightarrow> (db, document_row) act" where
  "insert_document r = tbl_insert (\<lambda>s. dc_id r \<notin> dc_id ` set (documents s) \<and> has_workspace s (dc_workspaceId r)
     \<and> null_or (\<lambda>x. x \<in> dl_id ` set (deals s)) (dc_dealId r) \<and> null_or (\<lambda>x. x \<in> acc_id ` set (accounts s)) (dc_accountId r)
     \<and> null_or (has_channel s) (dc_channelId r)) documents_update r"

definition insert_chunk :: "chunk_row \<Rightarrow> (db, chunk_row) act" where
  "insert_chunk r = tbl_insert (\<lambda>s. dk_id r \<notin> dk_id ` set (documentChunks s) \<and> has_workspace s (dk_workspaceId r)
     \<and> has_document s (dk_documentId r)) documentChunks_update r"

record IngestArgs =
  ig_workspaceId :: uuid
  ig_scope :: DocScope
  ig_name :: string
  ig_mime :: "string option"
  ig_blobUrl :: string
  ig_uploadedBySub :: string
  ig_buffer :: "string option"
  ig_text :: "string option"

primrec all_ok :: "(err + 'a) list \<Rightarrow> err + 'a list" where
  "all_ok [] = Inr []"
| "all_ok (x # xs) = (case x of Inl e \<Rightarrow> Inl e | Inr y \<Rightarrow> (case all_ok xs of Inl e \<Rightarrow> Inl e | Inr ys \<Rightarrow> Inr (y # ys)))"

definition chunk_rows :: "doc_env \<Rightarrow> ms \<Rightarrow> (nat \<Rightarrow> uuid) \<Rightarrow> (nat \<Rightarrow> string) \<Rightarrow> uuid \<Rightarrow> uuid \<Rightarrow> embedding list option \<Rightarrow> string list \<Rightarrow> err + chunk_row list" where
  "chunk_rows D now ids ivs w doc vecs parts = all_ok (map (\<lambda>(i, t). case encryptField (dx_crypto D) (ivs i) w t of
      Inl e \<Rightarrow> Inl e
    | Inr enc \<Rightarrow> Inr \<lparr>dk_id = ids i, dk_workspaceId = w, dk_documentId = doc, dk_ord = int i, dk_textEnc = enc,
        dk_embedding = (case vecs of Some vs \<Rightarrow> if i < length vs then Some (vector_text (vs ! i)) else None | None \<Rightarrow> None), dk_createdAt = now\<rparr>)
      (enumerate 0 parts))"

primrec batches :: "nat \<Rightarrow> 'a list \<Rightarrow> 'a list list" where
  "batches 0 xs = []"
| "batches (Suc k) xs = (if xs = [] then [] else take 50 xs # batches k (drop 50 xs))"

definition index_text :: "doc_env \<Rightarrow> ms \<Rightarrow> (nat \<Rightarrow> uuid) \<Rightarrow> (nat \<Rightarrow> string) \<Rightarrow> uuid \<Rightarrow> uuid \<Rightarrow> string \<Rightarrow> (db, nat) act" where
  "index_text D now ids ivs w doc t = act_try
     (let parts = chunkText t in
      if parts = [] then act_return 0
      else act_bind (act_lift (chunk_rows D now ids ivs w doc (embed D parts) parts)) (\<lambda>rows.
           act_bind (act_for (batches (length rows) rows) (insert_rows insert_chunk)) (\<lambda>_. act_return (length parts))))
     (\<lambda>_. act_return 0)"

definition ingest_trail :: "doc_env \<Rightarrow> ms \<Rightarrow> uuid \<Rightarrow> IngestArgs \<Rightarrow> uuid \<Rightarrow> (db, unit) act" where
  "ingest_trail D now aid a doc = (let sc = ig_scope a; w = ig_workspaceId a;
       entity = (if truthy (ds_dealId sc) then Some CrmDeal else if truthy (ds_accountId sc) then Some CrmAccount else None);
       recordId = (case ds_dealId sc of Some x \<Rightarrow> Some x | None \<Rightarrow> ds_accountId sc)
     in act_try
       (act_bind (case entity of Some e \<Rightarrow> if truthy recordId
             then recordActivity now aid w e (the recordId) (Some (ig_uploadedBySub a)) False DocumentAdded (Some [(''documentId'', doc)])
             else act_return ()
           | None \<Rightarrow> act_return ()) (\<lambda>_.
        act_bind (appendAudit (dx_crypto D) now (audit_input w (Some (ig_uploadedBySub a)) ''document_ingested'' (Some doc))) (\<lambda>_. act_return ())))
       (\<lambda>_. act_return ()))"

definition doc_text :: "doc_env \<Rightarrow> IngestArgs \<Rightarrow> string option" where
  "doc_text D a = (case ig_text a of Some x \<Rightarrow> Some x
     | None \<Rightarrow> (case ig_buffer a of Some b \<Rightarrow> extractDocText D (ig_name a) (ig_mime a) b | None \<Rightarrow> None))"

definition ingestDocument :: "doc_env \<Rightarrow> ms \<Rightarrow> uuid \<Rightarrow> (nat \<Rightarrow> uuid) \<Rightarrow> (nat \<Rightarrow> string) \<Rightarrow> string \<Rightarrow> uuid \<Rightarrow> IngestArgs \<Rightarrow> (db, uuid \<times> nat) act" where
  "ingestDocument D now newId ids ivs iv aid a =
     (let w = ig_workspaceId a; t = doc_text D a in
      act_bind (act_lift (opt_encrypt (dx_crypto D) iv w t)) (\<lambda>textEnc.
      act_bind (insert_document \<lparr>dc_id = newId, dc_workspaceId = w, dc_dealId = ds_dealId (ig_scope a), dc_accountId = ds_accountId (ig_scope a),
            dc_channelId = ds_channelId (ig_scope a), dc_blobUrl = ig_blobUrl a, dc_name = ig_name a, dc_mime = ig_mime a, dc_textEnc = textEnc,
            dc_uploadedBySub = ig_uploadedBySub a, dc_createdAt = now\<rparr>) (\<lambda>doc.
      act_bind (if truthy t then index_text D now ids ivs w (dc_id doc) (the t) else act_return 0) (\<lambda>chunks.
      act_bind (ingest_trail D now aid a (dc_id doc)) (\<lambda>_. act_return (dc_id doc, chunks))))))"

subsection \<open>Retrieval\<close>

record RetrievedChunk =
  rk_documentId :: uuid
  rk_name :: string
  rk_snippet :: string

definition RETRIEVE_WINDOW :: nat where "RETRIEVE_WINDOW = 800"

definition scopeCol :: "DocScope \<Rightarrow> (document_row \<Rightarrow> bool) option" where
  "scopeCol sc = (if truthy (ds_dealId sc) then Some (\<lambda>d. dc_dealId d = ds_dealId sc)
     else if truthy (ds_accountId sc) then Some (\<lambda>d. dc_accountId d = ds_accountId sc)
     else if truthy (ds_channelId sc) then Some (\<lambda>d. dc_channelId d = ds_channelId sc) else None)"

definition token_char :: "char \<Rightarrow> bool" where
  "token_char c \<longleftrightarrow> (let n = of_char c :: nat in (97 \<le> n \<and> n \<le> 122) \<or> (48 \<le> n \<and> n \<le> 57))"

definition tokenize :: "string \<Rightarrow> string set" where
  "tokenize t = set (filter (\<lambda>x. length x > 2) (js_split (CHR '' '') (map (\<lambda>c. if token_char c then c else CHR '' '') (js_lower t))))"

definition safeDec :: "doc_env \<Rightarrow> uuid \<Rightarrow> string \<Rightarrow> string" where
  "safeDec D w enc = (case decryptField (dx_crypto D) w enc of Inr t \<Rightarrow> t | Inl _ \<Rightarrow> [])"

definition chunk_candidates :: "db \<Rightarrow> uuid \<Rightarrow> DocViewer list \<Rightarrow> DocScope option \<Rightarrow> (chunk_row \<times> document_row) list" where
  "chunk_candidates s w vs sc = [(k, d). k \<leftarrow> documentChunks s, d \<leftarrow> documents s, dk_documentId k = dc_id d \<and> dk_workspaceId k = w
     \<and> dc_workspaceId d = w \<and> documentVisibleToAll s w vs d
     \<and> (case sc of Some x \<Rightarrow> (case scopeCol x of Some P \<Rightarrow> P d | None \<Rightarrow> True) | None \<Rightarrow> True)]"

definition retrieved :: "doc_env \<Rightarrow> uuid \<Rightarrow> chunk_row \<times> document_row \<Rightarrow> RetrievedChunk" where
  "retrieved D w p = \<lparr>rk_documentId = dk_documentId (fst p), rk_name = dc_name (snd p), rk_snippet = safeDec D w (dk_textEnc (fst p))\<rparr>"

definition lexical_score :: "string set \<Rightarrow> RetrievedChunk \<Rightarrow> nat" where
  "lexical_score q r = card (q \<inter> tokenize (rk_snippet r))"

definition lexical :: "doc_env \<Rightarrow> uuid \<Rightarrow> string \<Rightarrow> nat \<Rightarrow> (chunk_row \<times> document_row) list \<Rightarrow> RetrievedChunk list" where
  "lexical D w query budget cands = (let q = tokenize query; rows = map (retrieved D w) (take RETRIEVE_WINDOW cands) in
     take budget (sort_key (\<lambda>r. - int (lexical_score q r)) (filter (\<lambda>r. q = {} \<or> lexical_score q r > 0) rows)))"

definition retrieveChunks :: "doc_env \<Rightarrow> uuid \<Rightarrow> string \<Rightarrow> DocViewer list \<Rightarrow> DocScope option \<Rightarrow> nat option \<Rightarrow> (db, RetrievedChunk list) act" where
  "retrieveChunks D w query vs sc budget = act_get (\<lambda>s.
     let n = min (max (or_default budget 6) 1) 20; cands = chunk_candidates s w vs sc;
         qVec = (if query = [] then None else embedOne D query);
         semantic = (case qVec of None \<Rightarrow> []
           | Some q \<Rightarrow> map (retrieved D w) (take n (sort_key (\<lambda>p. dx_distance D (the (dk_embedding (fst p))) q)
               (filter (\<lambda>p. dk_embedding (fst p) \<noteq> None) cands))))
     in if semantic \<noteq> [] then semantic else lexical D w query n cands)"

subsection \<open>What the chunks cover\<close>

lemma chunk_loop_cover: "concat (map (take (CHUNK_SIZE - CHUNK_OVERLAP)) (chunk_loop k rest)) = take ((CHUNK_SIZE - CHUNK_OVERLAP) * k) rest"
proof (induction k arbitrary: rest)
  case (Suc k)
  have "take (1050 * Suc k) rest = take 1050 rest @ take (1050 * k) (drop 1050 rest)"
    by (metis add.commute mult_Suc_right take_add)
  then show ?case using Suc.IH [of "drop 1050 rest"] by (simp add: CHUNK_SIZE_def CHUNK_OVERLAP_def min_def)
qed simp

lemma chunk_loop_size: "length (chunk_loop k rest) \<le> k \<and> list_all (\<lambda>c. c \<noteq> [] \<and> length c \<le> CHUNK_SIZE) (chunk_loop k rest)"
  by (induction k arbitrary: rest) (auto simp: CHUNK_SIZE_def)

text \<open>The chunks of a document: at most 2000, none empty, none longer than 1200 bytes; each repeats the last 150 bytes of the stretch the
  one before it covers, and without these overlaps they are, joined, the cleaned text up to the first 2100000 bytes: nothing is lost
  below the cap and nothing is reordered.\<close>

theorem chunks_cover_text:
  "length (chunkText t) \<le> 2000 \<and> list_all (\<lambda>c. c \<noteq> [] \<and> length c \<le> 1200) (chunkText t)
   \<and> concat (map (take 1050) (chunkText t)) = take 2100000 (clean_text t)"
proof -
  have "concat (map (take 1050) (chunkText t)) = take 2100000 (clean_text t)"
    using chunk_loop_cover [of 2000 "clean_text t"] by (simp add: chunkText_def MAX_CHUNKS_def CHUNK_SIZE_def CHUNK_OVERLAP_def)
  then show ?thesis using chunk_loop_size [of 2000 "clean_text t"] by (simp add: chunkText_def MAX_CHUNKS_def CHUNK_SIZE_def)
qed

subsection \<open>Retrieval and the audience\<close>

lemma retrieved_candidates:
  assumes "retrieveChunks D w query vs sc budget s = (Inr rs, s')" and "r \<in> set rs"
  shows "\<exists>p\<in>set (chunk_candidates s w vs sc). r = retrieved D w p"
  using assms by (auto simp: retrieveChunks_def lexical_def act_get_def Let_def split: if_splits option.splits dest!: in_set_takeD) blast+

lemma retrieved_few:
  assumes "retrieveChunks D w query vs sc budget s = (Inr rs, s')"
  shows "length rs \<le> min (max (or_default budget 6) 1) 20"
  using assms by (auto simp: retrieveChunks_def lexical_def act_get_def Let_def split: if_splits option.splits)

text \<open>C25. Retrieval respects the audience: at most the asked number of chunks comes back (six when none is asked for), never more than twenty, and each
  is from a document of the workspace that every one of the readers may see; with no readers nothing is retrieved.\<close>

theorem retrieval_respects_audience:
  assumes "retrieveChunks D w query vs sc budget s = (Inr rs, s')"
  shows "length rs \<le> min (max (or_default budget 6) 1) 20
    \<and> list_all (\<lambda>r. vs \<noteq> [] \<and> (\<exists>d\<in>set (documents s). dc_id d = rk_documentId r \<and> dc_workspaceId d = w \<and> list_all (\<lambda>v. documentVisibleTo s w v d) vs)) rs"
proof -
  have "vs \<noteq> [] \<and> (\<exists>d\<in>set (documents s). dc_id d = rk_documentId r \<and> dc_workspaceId d = w \<and> list_all (\<lambda>v. documentVisibleTo s w v d) vs)" if "r \<in> set rs" for r
    using retrieved_candidates [OF assms that]
    by (auto simp: chunk_candidates_def retrieved_def documentVisibleToAll_def list_all_iff)
  then show ?thesis using retrieved_few [OF assms] by (auto simp only: list_all_iff)
qed

subsection \<open>Ingesting\<close>

lemma encrypt_total: "provisioned E \<Longrightarrow> \<exists>c. encryptField E iv w m = Inr c"
  by (elim encryptField_Inr) blast

lemma opt_encrypt_total: "provisioned E \<Longrightarrow> \<exists>c. opt_encrypt E iv w t = Inr c"
  using encrypt_total [of E iv w "the t"] by (cases t) (auto simp: opt_encrypt_def)

lemma index_text_Inr: "\<exists>n s'. index_text D now ids ivs w doc t s = (Inr n, s')"
  by (auto simp: index_text_def act_try_def act_return_def split: prod.split sum.split)

lemma ingest_trail_Inr: "\<exists>s'. ingest_trail D now aid a doc s = (Inr (), s')"
  by (auto simp: ingest_trail_def Let_def act_try_def act_return_def split: prod.split sum.split)

lemma frames_insert_chunk: "frames documents (insert_chunk r)"
  unfolding insert_chunk_def by (intro frames_tbl_insert) simp

lemma frames_index_text: "frames documents (index_text D now ids ivs w doc t)"
  unfolding index_text_def Let_def by (intro frame_intros frames_insert_chunk)

lemma frames_ingest_trail: "frames documents (ingest_trail D now aid a doc)"
  unfolding ingest_trail_def Let_def by (intro frame_intros) simp_all

lemma index_if: "\<exists>n s2. (if b then index_text D now ids ivs w doc t else act_return 0) s = (Inr n, s2) \<and> documents s2 = documents s"
  using index_text_Inr [of D now ids ivs w doc t s] framesD [OF frames_index_text [of D now ids ivs w doc t]] by (auto simp: act_return_def)

text \<open>Once the row can be written, an upload succeeds: whatever the parsers, the embeddings endpoint, the chunk inserts and the audit trail
  do afterwards, the call returns the new document's id and the document is stored with the blob, the scope and the uploader given.\<close>

theorem upload_survives_indexing:
  assumes "provisioned (dx_crypto D)" and "newId \<notin> dc_id ` set (documents s)" and "has_workspace s (ig_workspaceId a)"
    and "null_or (\<lambda>x. x \<in> dl_id ` set (deals s)) (ds_dealId (ig_scope a))" and "null_or (\<lambda>x. x \<in> acc_id ` set (accounts s)) (ds_accountId (ig_scope a))"
    and "null_or (has_channel s) (ds_channelId (ig_scope a))"
  shows "\<exists>n s' d. ingestDocument D now newId ids ivs iv aid a s = (Inr (newId, n), s') \<and> documents s' = documents s @ [d]
     \<and> dc_id d = newId \<and> dc_workspaceId d = ig_workspaceId a \<and> dc_channelId d = ds_channelId (ig_scope a) \<and> dc_blobUrl d = ig_blobUrl a
     \<and> dc_uploadedBySub d = ig_uploadedBySub a"
proof -
  let ?w = "ig_workspaceId a"
  let ?t = "doc_text D a"
  obtain te where te: "opt_encrypt (dx_crypto D) iv ?w ?t = Inr te" using opt_encrypt_total [OF assms(1)] by blast
  let ?d = "\<lparr>dc_id = newId, dc_workspaceId = ?w, dc_dealId = ds_dealId (ig_scope a), dc_accountId = ds_accountId (ig_scope a),
            dc_channelId = ds_channelId (ig_scope a), dc_blobUrl = ig_blobUrl a, dc_name = ig_name a, dc_mime = ig_mime a, dc_textEnc = te,
            dc_uploadedBySub = ig_uploadedBySub a, dc_createdAt = now\<rparr>"
  let ?s1 = "documents_update (\<lambda>rs. rs @ [?d]) s"
  have ins: "insert_document ?d s = (Inr ?d, ?s1)" using assms(2-6) by (simp add: insert_document_def tbl_insert_def)
  let ?idx = "if truthy ?t then index_text D now ids ivs ?w newId (the ?t) else act_return 0"
  obtain n s2 where idx: "?idx ?s1 = (Inr n, s2)" and "documents s2 = documents ?s1" using index_if by blast
  then have d2: "documents s2 = documents s @ [?d]" by simp
  obtain s3 where tr: "ingest_trail D now aid a newId s2 = (Inr (), s3)" using ingest_trail_Inr by blast
  have d3: "documents s3 = documents s @ [?d]" using framesD [OF frames_ingest_trail tr] d2 by simp
  have "ingestDocument D now newId ids ivs iv aid a s = (Inr (newId, n), s3)"
    by (simp add: ingestDocument_def Let_def te act_bind_Inr [where m = "insert_document ?d", OF ins]
        act_bind_Inr [where m = ?idx, OF idx] act_bind_Inr [where m = "ingest_trail D now aid a newId", OF tr] act_return_run cong: if_cong split del: if_split)
  with d3 show ?thesis by (intro exI [of _ n] exI [of _ s3] exI [of _ ?d]) simp
qed

subsection \<open>Witnesses\<close>

definition demo_docs :: doc_env where
  "demo_docs = \<lparr>dx_web = demo_web, dx_crypto = demo_env, dx_pdf = (\<lambda>_. None), dx_xlsx = (\<lambda>_. None), dx_docx = (\<lambda>_. None),
     dx_embeddings = (\<lambda>_ _ _ _. None), dx_distance = (\<lambda>_ _. 0), dx_pathname = (\<lambda>_. None), dx_number = (\<lambda>_. None), dx_get = (\<lambda>_. None),
     dx_fetch = (\<lambda>_. None), dx_presign = (\<lambda>_ _. None), dx_downloadHint = id, dx_put = (\<lambda>_ _. None)\<rparr>"

definition demo_ingest :: IngestArgs where
  "demo_ingest = \<lparr>ig_workspaceId = ''w1'', ig_scope = \<lparr>ds_accountId = None, ds_dealId = None, ds_channelId = None\<rparr>, ig_name = ''a.txt'',
     ig_mime = Some ''text/plain'', ig_blobUrl = ''https://store/a'', ig_uploadedBySub = ''alice'', ig_buffer = Some ''hello'', ig_text = None\<rparr>"

theorem upload_survives_indexing_witness:
  "\<exists>n s' d. ingestDocument demo_docs 1 ''d1'' (\<lambda>_. ''k'') (\<lambda>_. ''iv'') ''iv'' ''a1'' demo_ingest demo_db = (Inr (''d1'', n), s')
     \<and> documents s' = documents demo_db @ [d] \<and> dc_id d = ''d1'' \<and> dc_workspaceId d = ''w1'' \<and> dc_channelId d = None
     \<and> dc_blobUrl d = ''https://store/a'' \<and> dc_uploadedBySub d = ''alice''"
  using upload_survives_indexing [of demo_docs "''d1''" demo_db demo_ingest 1 "\<lambda>_. ''k''" "\<lambda>_. ''iv''" "''iv''" "''a1''"]
  by (simp add: demo_docs_def demo_ingest_def provisioned_demo demo_db_def empty_db_def has_workspace_def demo_workspace_def null_or_def)

definition demo_library :: db where
  "demo_library = demo_db\<lparr>documents := [demo_document ''d1'' ''w1''], documentChunks := [\<lparr>dk_id = ''k1'', dk_workspaceId = ''w1'',
     dk_documentId = ''d1'', dk_ord = 0, dk_textEnc = ''zz'', dk_embedding = None, dk_createdAt = 0\<rparr>]\<rparr>"

theorem retrieval_respects_audience_witness:
  "[\<lparr>vi_sub = ''alice'', vi_internal = True, vi_agent = None\<rparr>] \<noteq> [] \<and> (\<exists>d\<in>set (documents demo_library). dc_id d = ''d1'' \<and> dc_workspaceId d = ''w1''
     \<and> list_all (\<lambda>v. documentVisibleTo demo_library ''w1'' v d) [\<lparr>vi_sub = ''alice'', vi_internal = True, vi_agent = None\<rparr>])"
proof -
  let ?v = "\<lparr>vi_sub = ''alice'', vi_internal = True, vi_agent = None\<rparr> :: DocViewer"
  let ?k = "\<lparr>dk_id = ''k1'', dk_workspaceId = ''w1'', dk_documentId = ''d1'', dk_ord = 0, dk_textEnc = ''zz'', dk_embedding = None, dk_createdAt = 0\<rparr>"
  let ?r = "retrieved demo_docs ''w1'' (?k, demo_document ''d1'' ''w1'')"
  have c: "chunk_candidates demo_library ''w1'' [?v] None = [(?k, demo_document ''d1'' ''w1'')]"
    by (simp add: chunk_candidates_def demo_library_def demo_document_def documentVisibleToAll_def documentVisibleTo_def)
  have "tokenize [] = {}" by (simp add: tokenize_def js_lower_def)
  then have "retrieveChunks demo_docs ''w1'' [] [?v] None None demo_library = (Inr [?r], demo_library)"
    by (simp add: retrieveChunks_def act_get_def Let_def c lexical_def RETRIEVE_WINDOW_def or_default_def)
  from retrieval_respects_audience [OF this] show ?thesis by (simp add: retrieved_def)
qed

end
