(* ===== verification/Import_Store.thy ===== *)
theory Import_Store
  imports Import_Map Approvals Documents
begin

text \<open>
  The two writers of the row store: \<^verbatim>\<open>lib/domain/import-store.ts\<close> (\<open>ingestTable\<close>, a parsed spreadsheet) and \<^verbatim>\<open>lib/domain/import-extract.ts\<close>
  (\<open>extractEntities\<close>, \<open>stageExtracted\<close>: records read from JSON or by a model). Cells of sensitive columns go into the encrypted column of their row.
  Printing and parsing JSON, and the model, are the fields of \<open>import_env\<close>; the text of a row of cells is \<^verbatim>\<open>JSON.stringify\<close> of it.
\<close>

record ExtractedRecord =
  ex_accountName :: "string option"
  ex_accountDomain :: "string option"
  ex_contactName :: "string option"
  ex_contactTitle :: "string option"
  ex_contactEmail :: "string option"
  ex_contactPhone :: "string option"
  ex_dealName :: "string option"
  ex_dealValue :: "string option"
  ex_taskTitle :: "string option"
  ex_taskPriority :: "string option"
  ex_note :: "string option"
  ex_confidence :: decimal

record import_env =
  ie_crm :: crm_env
  ie_cells :: "RowVals \<Rightarrow> string"
  ie_parse_cells :: "string \<Rightarrow> RowVals option"
  ie_parse_json :: "string \<Rightarrow> json option"
  ie_extract :: "string \<Rightarrow> string option \<Rightarrow> string + ExtractedRecord list"

definition ie_crypto :: "import_env \<Rightarrow> crypto_env" where
  "ie_crypto I = ck_crypto (ie_crm I)"

subsection \<open>Rows\<close>

definition insert_import_batch :: "import_batch_row \<Rightarrow> (db, import_batch_row) act" where
  "insert_import_batch r = tbl_insert (\<lambda>s. ib_id r \<notin> ib_id ` set (importBatches s) \<and> has_workspace s (ib_workspaceId r)
     \<and> null_or (has_document s) (ib_documentId r)) importBatches_update r"

definition insert_import_sheet :: "import_sheet_row \<Rightarrow> (db, import_sheet_row) act" where
  "insert_import_sheet r = tbl_insert (\<lambda>s. sh_id r \<notin> sh_id ` set (importSheets s) \<and> has_workspace s (sh_workspaceId r)
     \<and> sh_batchId r \<in> ib_id ` set (importBatches s)) importSheets_update r"

definition has_sheet :: "db \<Rightarrow> uuid \<Rightarrow> bool" where
  "has_sheet s i \<longleftrightarrow> i \<in> sh_id ` set (importSheets s)"

definition insert_import_column :: "import_column_row \<Rightarrow> (db, import_column_row) act" where
  "insert_import_column r = tbl_insert (\<lambda>s. ic_id r \<notin> ic_id ` set (importColumns s) \<and> has_workspace s (ic_workspaceId r)
     \<and> has_sheet s (ic_sheetId r)) importColumns_update r"

definition insert_import_row :: "import_row_row \<Rightarrow> (db, import_row_row) act" where
  "insert_import_row r = tbl_insert (\<lambda>s. iw_id r \<notin> iw_id ` set (importRows s) \<and> has_workspace s (iw_workspaceId r)
     \<and> has_sheet s (iw_sheetId r)) importRows_update r"

text \<open>Rows go in 200 at a time.\<close>

definition ROW_INSERT_CHUNK :: nat where "ROW_INSERT_CHUNK = 200"

function insert_chunks :: "import_row_row list \<Rightarrow> (db, unit) act" where
  "insert_chunks rs = (if rs = [] then act_return ()
     else act_bind (insert_rows insert_import_row (take ROW_INSERT_CHUNK rs)) (\<lambda>_. insert_chunks (drop ROW_INSERT_CHUNK rs)))"
  by pat_completeness auto
termination
  by (relation "measure length") (auto simp: ROW_INSERT_CHUNK_def)

declare insert_chunks.simps [simp del]

text \<open>The identifiers and vectors the database and the crypto layer draw: for the batch, for each sheet, its columns and its rows.\<close>

record table_draws =
  td_batch :: uuid
  td_sheet :: "nat \<Rightarrow> uuid"
  td_column :: "nat \<Rightarrow> nat \<Rightarrow> uuid"
  td_row :: "nat \<Rightarrow> nat \<Rightarrow> uuid"
  td_iv :: "nat \<Rightarrow> nat \<Rightarrow> string"

subsection \<open>Spreadsheets\<close>

definition splitCells :: "ParsedSheet \<Rightarrow> RowVals \<Rightarrow> RowVals \<times> RowVals" where
  "splitCells sheet row = (let names = pcol_name ` set (filter pcol_sensitive (pq_columns sheet)); given = filter (\<lambda>kv. snd kv \<noteq> []) row in
     (filter (\<lambda>kv. fst kv \<notin> names) given, filter (\<lambda>kv. fst kv \<in> names) given))"

definition email_column :: "ParsedSheet \<Rightarrow> string option" where
  "email_column sheet = map_option pcol_name (first_where (\<lambda>c. pcol_type c = TEmail) (pq_columns sheet))"

text \<open>The stored row for given clear and sensitive cells: the latter encrypted, and a blind index of the e-mail.\<close>

definition stored_row :: "import_env \<Rightarrow> ms \<Rightarrow> uuid \<Rightarrow> string \<Rightarrow> uuid \<Rightarrow> uuid \<Rightarrow> nat \<Rightarrow> RowVals \<Rightarrow> RowVals \<Rightarrow> string \<Rightarrow> decimal option \<Rightarrow> err + import_row_row" where
  "stored_row I now newId iv w sheetId i cells sens mail conf =
     (case (if sens = [] then Inr None else map_sum id Some (encryptField (ie_crypto I) iv w (ie_cells I sens))) of Inl e \<Rightarrow> Inl e | Inr enc \<Rightarrow>
     (case (if mail = [] then Inr None else map_sum id Some (blindIndex (ie_crypto I) w ''email'' mail)) of Inl e \<Rightarrow> Inl e | Inr key \<Rightarrow>
      Inr \<lparr>iw_id = newId, iw_workspaceId = w, iw_sheetId = sheetId, iw_rowIndex = int i, iw_cells = cells, iw_cellsEnc = enc, iw_dedupeKey = key,
        iw_status = ''new'', iw_confidence = conf, iw_linkedAccountId = None, iw_linkedContactId = None, iw_createdAt = now\<rparr>))"

fun all_ok :: "(err + 'a) list \<Rightarrow> err + 'a list" where
  "all_ok [] = Inr []"
| "all_ok (x # xs) = (case x of Inl e \<Rightarrow> Inl e | Inr y \<Rightarrow> (case all_ok xs of Inl e \<Rightarrow> Inl e | Inr ys \<Rightarrow> Inr (y # ys)))"

definition table_row :: "import_env \<Rightarrow> ms \<Rightarrow> uuid \<Rightarrow> string \<Rightarrow> uuid \<Rightarrow> uuid \<Rightarrow> ParsedSheet \<Rightarrow> nat \<Rightarrow> RowVals \<Rightarrow> err + import_row_row" where
  "table_row I now newId iv w sheetId sheet i row = (let (cells, sens) = splitCells sheet row;
       mail = (case email_column sheet of None \<Rightarrow> [] | Some c \<Rightarrow> js_lower (js_trim (cell_at row c))) in
     stored_row I now newId iv w sheetId i cells sens mail None)"

definition column_row :: "ms \<Rightarrow> uuid \<Rightarrow> uuid \<Rightarrow> uuid \<Rightarrow> nat \<Rightarrow> ParsedColumn \<Rightarrow> import_column_row" where
  "column_row now newId w sheetId k c = \<lparr>ic_id = newId, ic_workspaceId = w, ic_sheetId = sheetId, ic_ord = int k, ic_name = pcol_name c,
     ic_type = type_name (pcol_type c), ic_sensitive = pcol_sensitive c, ic_nullFrac = pcol_nullFrac c, ic_sampleJson = Some (pcol_samples c), ic_createdAt = now\<rparr>"

definition store_sheet :: "import_env \<Rightarrow> ms \<Rightarrow> table_draws \<Rightarrow> uuid \<Rightarrow> uuid \<Rightarrow> nat \<times> ParsedSheet \<Rightarrow> (db, unit) act" where
  "store_sheet I now dr w batchId js = (let (j, sheet) = js in
     act_bind (insert_import_sheet \<lparr>sh_id = td_sheet dr j, sh_workspaceId = w, sh_batchId = batchId, sh_name = pq_name sheet, sh_ord = int (pq_ord sheet),
        sh_headerRow = int (pq_headerRow sheet), sh_rowCount = int (length (pq_rows sheet)), sh_colCount = int (length (pq_columns sheet)), sh_createdAt = now\<rparr>) (\<lambda>sh.
     act_bind (if pq_columns sheet = [] then act_return () else insert_rows insert_import_column
        (map (\<lambda>(k, c). column_row now (td_column dr j k) w (sh_id sh) k c) (enumerate 0 (pq_columns sheet)))) (\<lambda>_.
     act_bind (act_lift (all_ok (map (\<lambda>(i, row). table_row I now (td_row dr j i) (td_iv dr j i) w (sh_id sh) sheet i row) (enumerate 0 (pq_rows sheet))))) (\<lambda>rows.
     insert_chunks rows))))"

definition set_batch_ready :: "uuid \<Rightarrow> (db, unit) act" where
  "set_batch_ready b = tbl_update importBatches_update (\<lambda>r. ib_id r = b) (\<lambda>r. r\<lparr>ib_status := ''ready''\<rparr>)"

definition new_batch :: "ms \<Rightarrow> uuid \<Rightarrow> uuid \<Rightarrow> uuid option \<Rightarrow> string \<Rightarrow> string option \<Rightarrow> nat \<Rightarrow> string \<Rightarrow> import_batch_row" where
  "new_batch now newId w doc filename mime n u = \<lparr>ib_id = newId, ib_workspaceId = w, ib_documentId = doc, ib_filename = filename, ib_mime = mime,
     ib_status = ''parsing'', ib_sheetCount = int n, ib_errorText = None, ib_createdBySub = u, ib_createdAt = now\<rparr>"

definition ingestTable :: "import_env \<Rightarrow> ms \<Rightarrow> table_draws \<Rightarrow> uuid \<Rightarrow> uuid option \<Rightarrow> string \<Rightarrow> string option \<Rightarrow> string \<Rightarrow> ParsedSheet list \<Rightarrow>
    (db, uuid \<times> (uuid \<times> string \<times> nat \<times> nat) list) act" where
  "ingestTable I now dr w doc filename mime u parsed =
     act_bind (insert_import_batch (new_batch now (td_batch dr) w doc filename mime (length parsed) u)) (\<lambda>batch.
     act_bind (act_for (enumerate 0 parsed) (store_sheet I now dr w (ib_id batch))) (\<lambda>_.
     act_bind (set_batch_ready (ib_id batch)) (\<lambda>_.
     act_bind (appendAudit (ie_crypto I) now (audit_input w (Some u) ''table_ingested'' (Some (ib_id batch)))) (\<lambda>_.
     act_return (ib_id batch, map (\<lambda>(j, sheet). (td_sheet dr j, pq_name sheet, length (pq_rows sheet), length (pq_columns sheet))) (enumerate 0 parsed))))))"

subsection \<open>Extraction\<close>

definition clamp01 :: "decimal \<Rightarrow> decimal" where
  "clamp01 n = (if fst n < 0 then (0, 0) else if 10 ^ snd n < fst n then (1, 0) else n)"

definition trimOpt :: "string option \<Rightarrow> string option" where
  "trimOpt v = (case v of None \<Rightarrow> None | Some x \<Rightarrow> if js_trim x = [] then None else Some (js_trim x))"

definition isEmptyRecord :: "ExtractedRecord \<Rightarrow> bool" where
  "isEmptyRecord r \<longleftrightarrow> \<not> (\<exists>x\<in>set [ex_accountName r, ex_accountDomain r, ex_contactName r, ex_contactEmail r, ex_contactTitle r, ex_contactPhone r,
     ex_dealName r, ex_dealValue r, ex_taskTitle r, ex_note r]. truthy x)"

definition normalizeRecords :: "ExtractedRecord list \<Rightarrow> ExtractedRecord list" where
  "normalizeRecords raw = filter (\<lambda>r. \<not> isEmptyRecord r) (map (\<lambda>r. \<lparr>ex_accountName = trimOpt (ex_accountName r), ex_accountDomain = trimOpt (ex_accountDomain r),
     ex_contactName = trimOpt (ex_contactName r), ex_contactTitle = trimOpt (ex_contactTitle r), ex_contactEmail = trimOpt (ex_contactEmail r),
     ex_contactPhone = trimOpt (ex_contactPhone r), ex_dealName = trimOpt (ex_dealName r), ex_dealValue = trimOpt (ex_dealValue r),
     ex_taskTitle = trimOpt (ex_taskTitle r), ex_taskPriority = trimOpt (ex_taskPriority r), ex_note = trimOpt (ex_note r),
     ex_confidence = clamp01 (ex_confidence r)\<rparr>) raw)"

definition blank_record :: ExtractedRecord where
  "blank_record = \<lparr>ex_accountName = None, ex_accountDomain = None, ex_contactName = None, ex_contactTitle = None, ex_contactEmail = None,
     ex_contactPhone = None, ex_dealName = None, ex_dealValue = None, ex_taskTitle = None, ex_taskPriority = None, ex_note = None, ex_confidence = (1, 0)\<rparr>"

definition JSON_KEYS :: "(string \<times> (string \<Rightarrow> ExtractedRecord \<Rightarrow> ExtractedRecord)) list" where
  "JSON_KEYS = (let account = (\<lambda>v r. r\<lparr>ex_accountName := Some v\<rparr>); dom_of = (\<lambda>v r. r\<lparr>ex_accountDomain := Some v\<rparr>); person = (\<lambda>v r. r\<lparr>ex_contactName := Some v\<rparr>);
       ttl = (\<lambda>v r. r\<lparr>ex_contactTitle := Some v\<rparr>); deal = (\<lambda>v r. r\<lparr>ex_dealName := Some v\<rparr>); money = (\<lambda>v r. r\<lparr>ex_dealValue := Some v\<rparr>);
       task = (\<lambda>v r. r\<lparr>ex_taskTitle := Some v\<rparr>); note = (\<lambda>v r. r\<lparr>ex_note := Some v\<rparr>) in
     [(''company'', account), (''account'', account), (''organization'', account), (''domain'', dom_of), (''website'', dom_of), (''name'', person),
      (''contact'', person), (''fullname'', person), (''title'', ttl), (''role'', ttl), (''email'', \<lambda>v r. r\<lparr>ex_contactEmail := Some v\<rparr>),
      (''phone'', \<lambda>v r. r\<lparr>ex_contactPhone := Some v\<rparr>), (''deal'', deal), (''opportunity'', deal), (''value'', money), (''amount'', money),
      (''budget'', money), (''task'', task), (''nextstep'', task), (''note'', note), (''notes'', note)])"

definition lower_letters :: "string \<Rightarrow> string" where
  "lower_letters k = filter (\<lambda>c. (of_char c :: nat) \<in> {97..122}) (js_lower k)"

text \<open>One property of a JSON object; values other than strings and numbers are skipped. The inherited \<^verbatim>\<open>constructor\<close> leaves the record as it is.\<close>

definition read_key :: "ExtractedRecord \<Rightarrow> string \<times> json \<Rightarrow> ExtractedRecord" where
  "read_key r kv = (case (map_of JSON_KEYS (lower_letters (fst kv)), snd kv) of
       (Some f, JStr v) \<Rightarrow> f (js_trim v) r
     | (Some f, JNum n) \<Rightarrow> f (int_string n) r
     | _ \<Rightarrow> r)"

fun read_item :: "json \<Rightarrow> ExtractedRecord option" where
  "read_item (JObj kvs) = (let r = foldl read_key blank_record kvs in if isEmptyRecord r then None else Some r)"
| "read_item _ = None"

fun json_items :: "json \<Rightarrow> json list option" where
  "json_items (JArr xs) = Some xs"
| "json_items (JObj kvs) = (case map_of (rev kvs) ''records'' of Some (JArr xs) \<Rightarrow> Some xs | _ \<Rightarrow> Some [JObj kvs])"
| "json_items _ = None"

definition structuredFromJson :: "import_env \<Rightarrow> string \<Rightarrow> ExtractedRecord list option" where
  "structuredFromJson I t = (case Option.bind (ie_parse_json I t) json_items of None \<Rightarrow> None
     | Some items \<Rightarrow> (let out = List.map_filter read_item items in if out = [] then None else Some out))"

datatype ExtractSource = FromJson | FromModel

record ExtractionResult =
  xr_records :: "ExtractedRecord list"
  xr_source :: ExtractSource
  xr_error :: "string option"

definition extractEntities :: "import_env \<Rightarrow> string \<Rightarrow> string option \<Rightarrow> ExtractionResult" where
  "extractEntities I t hint = (case structuredFromJson I t of
       Some rs \<Rightarrow> \<lparr>xr_records = rs, xr_source = FromJson, xr_error = None\<rparr>
     | None \<Rightarrow> (case ie_extract I t hint of
         Inr raw \<Rightarrow> \<lparr>xr_records = normalizeRecords raw, xr_source = FromModel, xr_error = None\<rparr>
       | Inl e \<Rightarrow> \<lparr>xr_records = [], xr_source = FromModel, xr_error = Some e\<rparr>))"

subsection \<open>Staging\<close>

definition SENSITIVE_COLS :: "string list" where
  "SENSITIVE_COLS = [''contact.email'', ''contact.phone'']"

definition recordToCells :: "ExtractedRecord \<Rightarrow> RowVals" where
  "recordToCells r = List.map_filter (\<lambda>(k, v). if truthy v then Some (k, the v) else None)
     [(''account.name'', ex_accountName r), (''account.domain'', ex_accountDomain r), (''contact.name'', ex_contactName r),
      (''contact.title'', ex_contactTitle r), (''contact.email'', ex_contactEmail r), (''contact.phone'', ex_contactPhone r),
      (''deal.name'', ex_dealName r), (''deal.value'', ex_dealValue r), (''task.title'', ex_taskTitle r), (''task.priority'', ex_taskPriority r),
      (''note'', ex_note r)]"

definition std_columns :: "string list" where
  "std_columns = [''account.name'', ''account.domain'', ''contact.name'', ''contact.title'', ''contact.email'', ''contact.phone'', ''deal.name'',
     ''deal.value'', ''task.title'', ''task.priority'']"

definition extractionMapping :: MappingSpec where
  "extractionMapping = \<lparr>mp_primaryEntity = ''contact'',
     mp_columns = map (\<lambda>t. \<lparr>mk_column = t, mk_map = StdMap t\<rparr>) std_columns @ [\<lparr>mk_column = ''note'', mk_map = CustomMap ''contact'' ''note'' ''Note'' ''longtext''\<rparr>],
     mp_dedupeAccount = ''domain'', mp_dedupeContact = ''email'', mp_createTasks = None\<rparr>"

text \<open>Comparison of decimals.\<close>

definition dec_le :: "decimal \<Rightarrow> decimal \<Rightarrow> bool" where
  "dec_le x y \<longleftrightarrow> fst x * 10 ^ snd y \<le> fst y * 10 ^ snd x"

definition dec_less :: "decimal \<Rightarrow> decimal \<Rightarrow> bool" where
  "dec_less x y \<longleftrightarrow> fst x * 10 ^ snd y < fst y * 10 ^ snd x"

definition staged_row :: "import_env \<Rightarrow> ms \<Rightarrow> uuid \<Rightarrow> string \<Rightarrow> uuid \<Rightarrow> uuid \<Rightarrow> nat \<Rightarrow> ExtractedRecord \<Rightarrow> err + import_row_row" where
  "staged_row I now newId iv w sheetId i r = (let cells = recordToCells r in
     stored_row I now newId iv w sheetId i (filter (\<lambda>kv. fst kv \<notin> set SENSITIVE_COLS) cells) (filter (\<lambda>kv. fst kv \<in> set SENSITIVE_COLS) cells)
       (js_lower (js_trim (or_empty (ex_contactEmail r)))) (Some (ex_confidence r)))"

record StageExtractedResult =
  sx_batchId :: uuid
  sx_sheetId :: uuid
  sx_total :: nat
  sx_autoWrite :: nat
  sx_hold :: nat

definition stageExtracted :: "import_env \<Rightarrow> ms \<Rightarrow> table_draws \<Rightarrow> uuid \<Rightarrow> ExtractedRecord list \<Rightarrow> string \<Rightarrow> uuid option \<Rightarrow> string \<Rightarrow> decimal \<Rightarrow>
    (db, StageExtractedResult) act" where
  "stageExtracted I now dr w records sourceName doc u threshold =
     act_bind (insert_import_batch (new_batch now (td_batch dr) w doc sourceName (Some ''application/x-extracted'') 1 u)) (\<lambda>batch.
     act_bind (insert_import_sheet \<lparr>sh_id = td_sheet dr 0, sh_workspaceId = w, sh_batchId = ib_id batch, sh_name = ''extracted'', sh_ord = 0, sh_headerRow = 0,
        sh_rowCount = int (length records), sh_colCount = 11, sh_createdAt = now\<rparr>) (\<lambda>sheet.
     act_bind (insert_rows insert_import_column (map (\<lambda>(k, name). \<lparr>ic_id = td_column dr 0 k, ic_workspaceId = w, ic_sheetId = sh_id sheet, ic_ord = int k,
        ic_name = name, ic_type = (if name \<in> set SENSITIVE_COLS then (if ends_with ''email'' name then ''email'' else ''phone'') else ''text''),
        ic_sensitive = (name \<in> set SENSITIVE_COLS), ic_nullFrac = 0, ic_sampleJson = Some [], ic_createdAt = now\<rparr>)
        (enumerate 0 (std_columns @ [''note''])))) (\<lambda>_.
     let auto_n = length (filter (\<lambda>r. dec_le threshold (ex_confidence r)) records) in
     act_bind (act_lift (all_ok (map (\<lambda>(i, r). staged_row I now (td_row dr 0 i) (td_iv dr 0 i) w (sh_id sheet) i r) (enumerate 0 records)))) (\<lambda>rows.
     act_bind (insert_chunks rows) (\<lambda>_.
     act_bind (set_batch_ready (ib_id batch)) (\<lambda>_.
     act_bind (appendAudit (ie_crypto I) now (audit_input w (Some u) ''extracted_staged'' (Some (ib_id batch)))) (\<lambda>_.
     act_return \<lparr>sx_batchId = ib_id batch, sx_sheetId = sh_id sheet, sx_total = length records, sx_autoWrite = auto_n,
       sx_hold = length records - auto_n\<rparr>)))))))"

end
