(* ===== verification/Tables.thy ===== *)
theory Tables
  imports Import_Store
begin

text \<open>
  \<^verbatim>\<open>lib/domain/tables-repo.ts\<close>: the bounded reads over the row store, which an agent uses to look at a spreadsheet. The SQL of the source is written out:
  \<^verbatim>\<open>cells ->> column\<close> is the lookup of a column in the clear cells, \<^verbatim>\<open>ILIKE\<close> the matcher below, in which the characters
  \<^verbatim>\<open>%\<close> and \<^verbatim>\<open>_\<close> of the searched value keep their meaning.
\<close>

definition READ_MAX :: int where "READ_MAX = 50"

record SheetMeta =
  se_id :: uuid
  se_name :: string
  se_rowCount :: int
  se_colCount :: int

record TableBatch =
  tb_batchId :: uuid
  tb_filename :: string
  tb_status :: string
  tb_createdAt :: ms
  tb_sheets :: "SheetMeta list"

record ImportJobBrief =
  jb_id :: uuid
  jb_sheetId :: uuid
  jb_status :: string
  jb_cursor :: int
  jb_total :: int
  jb_created :: int
  jb_updated :: int
  jb_held :: int
  jb_failed :: int

definition sheet_meta :: "import_sheet_row \<Rightarrow> SheetMeta" where
  "sheet_meta r = \<lparr>se_id = sh_id r, se_name = sh_name r, se_rowCount = sh_rowCount r, se_colCount = sh_colCount r\<rparr>"

definition job_brief :: "import_job_row \<Rightarrow> ImportJobBrief" where
  "job_brief j = \<lparr>jb_id = ij_id j, jb_sheetId = ij_sheetId j, jb_status = ij_status j, jb_cursor = ij_cursor j, jb_total = ij_total j,
     jb_created = ij_createdCount j, jb_updated = ij_updatedCount j, jb_held = ij_heldCount j, jb_failed = ij_failedCount j\<rparr>"

definition listTables :: "uuid \<Rightarrow> int \<Rightarrow> (db, TableBatch list \<times> ImportJobBrief list) act" where
  "listTables w n = act_get (\<lambda>s.
     let batches = take (nat (min (max n 1) 50)) (rev (sort_key ib_createdAt (rows_where (\<lambda>b. ib_workspaceId b = w) (importBatches s))));
         sheets = sort_key sh_ord (rows_where (\<lambda>x. sh_workspaceId x = w) (importSheets s));
         jobs = take 20 (rev (sort_key ij_createdAt (rows_where (\<lambda>j. ij_workspaceId j = w) (importJobs s)))) in
     (map (\<lambda>b. \<lparr>tb_batchId = ib_id b, tb_filename = ib_filename b, tb_status = ib_status b, tb_createdAt = ib_createdAt b,
        tb_sheets = map sheet_meta (filter (\<lambda>x. sh_batchId x = ib_id b) sheets)\<rparr>) batches, map job_brief jobs))"

record ColumnProfile =
  cp_name :: string
  cp_type :: string
  cp_sensitive :: bool
  cp_nullFrac :: int
  cp_samples :: "string list"

definition profile_of :: "import_column_row \<Rightarrow> ColumnProfile" where
  "profile_of c = \<lparr>cp_name = ic_name c, cp_type = ic_type c, cp_sensitive = ic_sensitive c, cp_nullFrac = ic_nullFrac c,
     cp_samples = (case ic_sampleJson c of None \<Rightarrow> [] | Some xs \<Rightarrow> xs)\<rparr>"

definition sheetColumns :: "uuid \<Rightarrow> uuid \<Rightarrow> (db, ColumnProfile list) act" where
  "sheetColumns w i = act_get (\<lambda>s. map profile_of (sort_key ic_ord (rows_where (\<lambda>c. ic_workspaceId c = w \<and> ic_sheetId c = i) (importColumns s))))"

record SheetSchema =
  sz_sheet :: SheetMeta
  sz_batchId :: uuid
  sz_filename :: string
  sz_columns :: "ColumnProfile list"

definition getSheetSchema :: "uuid \<Rightarrow> uuid \<Rightarrow> (db, SheetSchema option) act" where
  "getSheetSchema w i = act_bind (act_get (\<lambda>s. case first_where (\<lambda>x. sh_workspaceId x = w \<and> sh_id x = i \<and> sh_batchId x \<in> ib_id ` set (importBatches s)) (importSheets s) of
       None \<Rightarrow> None
     | Some sh \<Rightarrow> map_option (\<lambda>b. (sh, b)) (first_where (\<lambda>b. ib_id b = sh_batchId sh) (importBatches s)))) (\<lambda>found. case found of
       None \<Rightarrow> act_return None
     | Some (sh, b) \<Rightarrow> act_bind (sheetColumns w i) (\<lambda>cols.
         act_return (Some \<lparr>sz_sheet = sheet_meta sh, sz_batchId = sh_batchId sh, sz_filename = ib_filename b, sz_columns = cols\<rparr>)))"

definition bullets :: string where
  "bullets = concat (replicate 3 [CHR 0xE2, CHR 0x80, CHR 0xA2])"

definition last4 :: "string \<Rightarrow> string" where
  "last4 s = drop (length s - 4) s"

definition maskValue :: "string \<Rightarrow> string \<Rightarrow> string" where
  "maskValue type v = (if v = [] then v
     else if type = ''email'' then (case js_split (CHR ''@'') v of
         u # d # _ \<Rightarrow> if d = [] then bullets else take 1 u @ bullets @ ''@'' @ d
       | _ \<Rightarrow> bullets)
     else if type = ''phone'' then bullets @ last4 (filter digit v)
     else if length v \<le> 2 then bullets else take 1 v @ bullets)"

subsection \<open>Filters\<close>

text \<open>A pattern of \<^verbatim>\<open>LIKE\<close>.\<close>

fun like_match :: "string \<Rightarrow> string \<Rightarrow> bool" where
  "like_match [] s = (s = [])"
| "like_match (p # ps) s =
     (if p = CHR ''%'' then like_match ps s \<or> (case s of [] \<Rightarrow> False | _ # cs \<Rightarrow> like_match (p # ps) cs)
      else if p = CHR 0x5C then (case ps of [] \<Rightarrow> False | q # qs \<Rightarrow> (case s of [] \<Rightarrow> False | c # cs \<Rightarrow> c = q \<and> like_match qs cs))
      else (case s of [] \<Rightarrow> False | c # cs \<Rightarrow> (p = CHR ''_'' \<or> c = p) \<and> like_match ps cs))"

definition ilike :: "string \<Rightarrow> string \<Rightarrow> bool" where
  "ilike pat s = like_match (js_lower pat) (js_lower s)"

datatype FilterOp = OpEq | OpContains

record Filter =
  fl_column :: string
  fl_op :: FilterOp
  fl_value :: string

definition filter_admits :: "Filter \<Rightarrow> import_row_row \<Rightarrow> bool" where
  "filter_admits f r = (case map_of (iw_cells r) (fl_column f) of None \<Rightarrow> False
     | Some v \<Rightarrow> (case fl_op f of OpContains \<Rightarrow> ilike (''%'' @ fl_value f @ ''%'') v | OpEq \<Rightarrow> v = fl_value f))"

definition sensitive_names :: "ColumnProfile list \<Rightarrow> string set" where
  "sensitive_names cols = cp_name ` set (filter cp_sensitive cols)"

text \<open>The rows a read considers; a filter on a sensitive column is left out.\<close>

definition row_scope :: "uuid \<Rightarrow> uuid \<Rightarrow> ColumnProfile list \<Rightarrow> Filter option \<Rightarrow> import_row_row \<Rightarrow> bool" where
  "row_scope w i cols f r \<longleftrightarrow> iw_workspaceId r = w \<and> iw_sheetId r = i
     \<and> (case f of None \<Rightarrow> True | Some x \<Rightarrow> fl_column x \<in> sensitive_names cols \<or> filter_admits x r)"

subsection \<open>Windows\<close>

record ReadRowsOpts =
  ro_offset :: "int option"
  ro_limit :: "int option"
  ro_columns :: "string list option"
  ro_filter :: "Filter option"
  ro_reveal :: bool

record RowsWindow =
  wd_total :: nat
  wd_offset :: int
  wd_limit :: int
  wd_columns :: "string list"
  wd_rows :: "RowVals list"

text \<open>\<^verbatim>\<open>Object.assign\<close> of the decrypted cells, each passed through \<open>f\<close>.\<close>

definition overlay :: "(string \<Rightarrow> string \<Rightarrow> string) \<Rightarrow> RowVals option \<Rightarrow> RowVals \<Rightarrow> RowVals" where
  "overlay f plain cells = (case plain of None \<Rightarrow> cells | Some kvs \<Rightarrow> fold (\<lambda>(k, v). AList.update k (f k v)) kvs cells)"

definition decrypted :: "import_env \<Rightarrow> uuid \<Rightarrow> import_row_row \<Rightarrow> RowVals option" where
  "decrypted I w r = (if or_empty (iw_cellsEnc r) = [] then None
     else case decryptField (ie_crypto I) w (or_empty (iw_cellsEnc r)) of Inl _ \<Rightarrow> None | Inr t \<Rightarrow> ie_parse_cells I t)"

definition type_of :: "ColumnProfile list \<Rightarrow> string \<Rightarrow> string" where
  "type_of cols k = (case map_of (rev (map (\<lambda>c. (cp_name c, cp_type c)) cols)) k of Some t \<Rightarrow> t | None \<Rightarrow> ''text'')"

definition picked :: "string list \<Rightarrow> RowVals \<Rightarrow> RowVals" where
  "picked wanted m = List.map_filter (\<lambda>c. map_option (\<lambda>v. (c, v)) (map_of m c)) (js_set wanted)"

definition read_row :: "import_env \<Rightarrow> uuid \<Rightarrow> ColumnProfile list \<Rightarrow> bool \<Rightarrow> string list \<Rightarrow> import_row_row \<Rightarrow> RowVals" where
  "read_row I w cols reveal wanted r = picked wanted (overlay (\<lambda>k v. if reveal then v else maskValue (type_of cols k) v) (decrypted I w r) (iw_cells r))"

definition readRows :: "import_env \<Rightarrow> uuid \<Rightarrow> uuid \<Rightarrow> ReadRowsOpts \<Rightarrow> (db, RowsWindow) act" where
  "readRows I w i op = act_bind (sheetColumns w i) (\<lambda>cols.
     let lim_n = min (max (or_default (ro_limit op) 20) 1) READ_MAX; off = max (or_default (ro_offset op) 0) 0;
         wanted = (case ro_columns op of Some (c # cs) \<Rightarrow> c # cs | _ \<Rightarrow> map cp_name cols) in
     act_get (\<lambda>s. let hits = rows_where (row_scope w i cols (ro_filter op)) (importRows s) in
       \<lparr>wd_total = length hits, wd_offset = off, wd_limit = lim_n, wd_columns = wanted,
        wd_rows = map (read_row I w cols (ro_reveal op) wanted) (take (nat lim_n) (drop (nat off) (sort_key iw_rowIndex hits)))\<rparr>))"

subsection \<open>Aggregates\<close>

datatype QueryOp = QCount | QDistinct | QGroupby

record TableQuery =
  tq_op :: QueryOp
  tq_column :: "string option"
  tq_where :: "Filter option"

datatype QueryResult = CountIs nat | Groups "(string \<times> nat) list" | QueryError string

definition empty_mark :: string where "empty_mark = [CHR 0xE2, CHR 0x88, CHR 0x85]"

definition groups_of :: "string \<Rightarrow> import_row_row list \<Rightarrow> (string \<times> nat) list" where
  "groups_of col rows = (let vals = map (\<lambda>r. map_of (iw_cells r) col) rows in
     map (\<lambda>v. ((case v of None \<Rightarrow> empty_mark | Some x \<Rightarrow> x), length (filter (\<lambda>u. u = v) vals))) (js_set vals))"

definition queryTable :: "uuid \<Rightarrow> uuid \<Rightarrow> TableQuery \<Rightarrow> (db, QueryResult) act" where
  "queryTable w i q = act_bind (sheetColumns w i) (\<lambda>cols. act_get (\<lambda>s.
     let hits = rows_where (row_scope w i cols (tq_where q)) (importRows s); col = or_empty (tq_column q) in
     if tq_op q = QCount then CountIs (length hits)
     else if col = [] then QueryError ''column required for distinct/groupby''
     else if col \<in> sensitive_names cols then QueryError (''cannot aggregate sensitive column \"'' @ col @ ''\"'')
     else Groups (take (if tq_op q = QDistinct then 200 else 50) (rev (sort_key snd (groups_of col hits))))))"

subsection \<open>What the reads disclose\<close>

text \<open>Two databases look alike when they differ only in encrypted cells whose masks agree.\<close>

definition mask_row :: "import_env \<Rightarrow> uuid \<Rightarrow> ColumnProfile list \<Rightarrow> import_row_row \<Rightarrow> import_row_row \<times> RowVals option" where
  "mask_row I w cols r = (r\<lparr>iw_cellsEnc := None, iw_dedupeKey := None\<rparr>, map_option (map (\<lambda>(k, v). (k, maskValue (type_of cols k) v))) (decrypted I w r))"

definition look_alike :: "import_env \<Rightarrow> uuid \<Rightarrow> uuid \<Rightarrow> db \<Rightarrow> db \<Rightarrow> bool" where
  "look_alike I w i s t \<longleftrightarrow> importColumns s = importColumns t
     \<and> (let cols = map profile_of (sort_key ic_ord (rows_where (\<lambda>c. ic_workspaceId c = w \<and> ic_sheetId c = i) (importColumns s))) in
        map (mask_row I w cols) (importRows s) = map (mask_row I w cols) (importRows t))"

lemma filter_map_agree:
  assumes "map g xs = map g ys" and "\<And>x y. g x = g y \<Longrightarrow> P x = P y"
  shows "map g (filter P xs) = map g (filter P ys)"
  using assms(1)
proof (induction xs arbitrary: ys)
  case (Cons x xs)
  then obtain y zs where ys: "ys = y # zs" "g x = g y" "map g xs = map g zs" by (cases ys) auto
  have "map g (filter P xs) = map g (filter P zs)" by (rule Cons.IH) (rule ys(3))
  moreover have "P x = P y" by (rule assms(2)) (rule ys(2))
  ultimately show ?case by (simp add: ys(1,2))
qed simp

lemma sort_key_agree:
  assumes "map g xs = map g ys" and "\<And>x. k x = h (g x)"
  shows "map g (sort_key k xs) = map g (sort_key k ys)"
proof -
  have ins: "map g (insort_key k x xs) = insort_key h (g x) (map g xs)" for x xs by (induction xs) (simp_all add: assms(2))
  have "map g (sort_key k xs) = sort_key h (map g xs)" for xs by (induction xs) (simp_all add: ins)
  then show ?thesis by (simp add: assms(1))
qed

lemma map_through:
  assumes "map g xs = map g ys" and "\<And>x y. g x = g y \<Longrightarrow> f x = f y"
  shows "map f xs = map f ys"
  using assms(1)
proof (induction xs arbitrary: ys)
  case (Cons x xs)
  then obtain y zs where ys: "ys = y # zs" "g x = g y" "map g xs = map g zs" by (cases ys) auto
  have "map f xs = map f zs" by (rule Cons.IH) (rule ys(3))
  moreover have "f x = f y" by (rule assms(2)) (rule ys(2))
  ultimately show ?case by (simp add: ys(1))
qed simp

lemma overlay_masked: "overlay f plain cells = overlay (\<lambda>_ v. v) (map_option (map (\<lambda>(k, v). (k, f k v))) plain) cells"
proof -
  have "fold (\<lambda>(k, v). AList.update k (f k v)) kvs m = fold (\<lambda>(k, v). AList.update k v) (map (\<lambda>(k, v). (k, f k v)) kvs) m" for kvs m
    by (induction kvs arbitrary: m) (auto simp: case_prod_unfold)
  then show ?thesis by (simp add: overlay_def split: option.split)
qed

lemma mask_row_views:
  assumes "mask_row I w cols r = mask_row I w cols r'"
  shows "row_scope w' i' cols' f r = row_scope w' i' cols' f r'" "iw_cells r = iw_cells r'" "iw_rowIndex r = iw_rowIndex r'"
    "read_row I w cols False wanted r = read_row I w cols False wanted r'"
proof -
  let ?bare = "\<lambda>r. r\<lparr>iw_cellsEnc := None, iw_dedupeKey := None\<rparr>"
  have bare: "?bare r = ?bare r'" and plain: "map_option (map (\<lambda>(k, v). (k, maskValue (type_of cols k) v))) (decrypted I w r)
      = map_option (map (\<lambda>(k, v). (k, maskValue (type_of cols k) v))) (decrypted I w r')" using assms by (simp_all add: mask_row_def)
  have "iw_cells (?bare r) = iw_cells (?bare r')" "iw_rowIndex (?bare r) = iw_rowIndex (?bare r')" "iw_workspaceId (?bare r) = iw_workspaceId (?bare r')"
    "iw_sheetId (?bare r) = iw_sheetId (?bare r')" unfolding bare by (rule refl)+
  then show c: "iw_cells r = iw_cells r'" "iw_rowIndex r = iw_rowIndex r'" and "row_scope w' i' cols' f r = row_scope w' i' cols' f r'"
    by (simp_all add: row_scope_def filter_admits_def split: option.split)
  show "read_row I w cols False wanted r = read_row I w cols False wanted r'"
    unfolding read_row_def overlay_masked [where f = "\<lambda>k v. if False then v else maskValue (type_of cols k) v"] using plain c by (simp cong: option.case_cong)
qed

text \<open>C39. Reads of a stored spreadsheet disclose of its sensitive cells no more than their masks (the first character and the domain of an e-mail, the
  last four digits of a phone number, the first character of other values): windows that do not reveal, with any filter and choice of columns, and
  aggregates give the same answer on two databases whose rows differ only in sensitive values with the same masks.\<close>

theorem table_reads_disclose_masks_only:
  assumes "look_alike I w i s t" and "\<not> ro_reveal op"
  shows "fst (readRows I w i op s) = fst (readRows I w i op t) \<and> fst (queryTable w i q s) = fst (queryTable w i q t)"
proof -
  define cols where "cols = map profile_of (sort_key ic_ord (rows_where (\<lambda>c. ic_workspaceId c = w \<and> ic_sheetId c = i) (importColumns s)))"
  let ?g = "mask_row I w cols"
  have cols: "importColumns t = importColumns s" and rows: "map ?g (importRows s) = map ?g (importRows t)"
    using assms(1) unfolding look_alike_def Let_def cols_def by (blast intro: sym)+
  note views = mask_row_views [where cols = cols and I = I and w = w]
  have hits: "map ?g (rows_where (row_scope w i cols f) (importRows s)) = map ?g (rows_where (row_scope w i cols f) (importRows t))" for f
    unfolding rows_where_def by (rule filter_map_agree [OF rows]) (rule views(1))
  have key: "iw_rowIndex r = iw_rowIndex (fst (?g r))" for r by (simp add: mask_row_def)
  have sorted: "map ?g (sort_key iw_rowIndex (rows_where (row_scope w i cols f) (importRows s)))
      = map ?g (sort_key iw_rowIndex (rows_where (row_scope w i cols f) (importRows t)))" for f
    by (rule sort_key_agree [OF hits]) (rule key)
  define n where "n = min (max (or_default (ro_limit op) 20) 1) READ_MAX"
  define wanted where "wanted = (case ro_columns op of Some (c # cs) \<Rightarrow> c # cs | _ \<Rightarrow> map cp_name cols)"
  let ?hits = "\<lambda>f u. rows_where (row_scope w i cols f) (importRows u)"
  let ?rows = "\<lambda>u. take (nat n) (drop (nat (max (or_default (ro_offset op) 0) 0)) (sort_key iw_rowIndex (?hits (ro_filter op) u)))"
  have "map ?g (?rows s) = map ?g (?rows t)" by (simp only: take_map [symmetric] drop_map [symmetric] sorted)
  then have rows: "map (read_row I w cols False wanted) (?rows s) = map (read_row I w cols False wanted) (?rows t)"
    by (rule map_through) (rule views(4))
  have count: "length (?hits f s) = length (?hits f t)" for f using arg_cong [OF hits, of length] by simp
  have groups: "groups_of col (?hits f s) = groups_of col (?hits f t)" for col f
  proof -
    have "map (\<lambda>r. map_of (iw_cells r) col) (?hits f s) = map (\<lambda>r. map_of (iw_cells r) col) (?hits f t)"
      by (rule map_through [OF hits]) (drule views(2), simp)
    then show ?thesis by (simp only: groups_of_def Let_def)
  qed
  have run: "sheetColumns w i s = (Inr cols, s)" "sheetColumns w i t = (Inr cols, t)"
    unfolding sheetColumns_def act_get_def cols_def cols by (rule refl)+
  have read: "fst (readRows I w i op u) = Inr \<lparr>wd_total = length (?hits (ro_filter op) u), wd_offset = max (or_default (ro_offset op) 0) 0, wd_limit = n,
      wd_columns = wanted, wd_rows = map (read_row I w cols False wanted) (?rows u)\<rparr>" if "sheetColumns w i u = (Inr cols, u)" for u
    using assms(2) that by (simp add: readRows_def act_bind_def Let_def n_def wanted_def act_get_def)
  have query: "fst (queryTable w i q u) = Inr (let col = or_empty (tq_column q) in
      if tq_op q = QCount then CountIs (length (?hits (tq_where q) u)) else if col = [] then QueryError ''column required for distinct/groupby''
      else if col \<in> sensitive_names cols then QueryError (''cannot aggregate sensitive column \"'' @ col @ ''\"'')
      else Groups (take (if tq_op q = QDistinct then 200 else 50) (rev (sort_key snd (groups_of col (?hits (tq_where q) u))))))"
    if "sheetColumns w i u = (Inr cols, u)" for u
    using that by (simp add: queryTable_def act_bind_def Let_def act_get_def)
  show ?thesis unfolding read [OF run(1)] read [OF run(2)] query [OF run(1)] query [OF run(2)] rows count groups by simp
qed

lemma map_of_updates: "map_of (fold (\<lambda>(k, v). AList.update k v) kvs m) = map_of m ++ map_of (rev kvs)"
  by (induction kvs arbitrary: m) (auto simp: update_conv' intro!: ext simp: map_add_def split: option.splits)

lemma map_of_overlay: "map_of (overlay (\<lambda>_ v. v) x cells) = map_of cells ++ (case x of None \<Rightarrow> Map.empty | Some kvs \<Rightarrow> map_of (rev kvs))"
  by (cases x) (simp_all add: overlay_def map_of_updates)

lemma map_of_filter_distinct:
  "distinct (map fst kvs) \<Longrightarrow> map_of (filter P kvs) k = (case map_of kvs k of None \<Rightarrow> None | Some v \<Rightarrow> if P (k, v) then Some v else None)"
  by (induction kvs) (auto split: option.splits simp: map_of_eq_None_iff)

lemma map_of_rev_distinct: "distinct (map fst kvs) \<Longrightarrow> map_of (rev kvs) = map_of kvs"
  by (intro map_of_eqI) (auto simp: rev_map [symmetric])

text \<open>C40. A row of a spreadsheet is stored without loss and with its sensitive cells only encrypted: the stored clear cells name no sensitive column, and
  putting the decrypted cells over them gives back every cell of the row.\<close>

theorem stored_row_roundtrip:
  assumes "table_row I now newId iv w sheetId sheet i row = Inr r" and "gcm_ok (ie_crypto I)" "provisioned (ie_crypto I)" "iv \<noteq> []"
    and "ie_parse_cells I (ie_cells I (snd (splitCells sheet row))) = Some (snd (splitCells sheet row))" "ie_cells I (snd (splitCells sheet row)) \<noteq> []"
    and "distinct (map fst row)"
  shows "fst ` set (iw_cells r) \<inter> pcol_name ` set (filter pcol_sensitive (pq_columns sheet)) = {}
     \<and> cell_at (overlay (\<lambda>_ v. v) (decrypted I w r) (iw_cells r)) k = cell_at row k"
proof -
  obtain cells sens where split: "splitCells sheet row = (cells, sens)" by fastforce
  let ?names = "pcol_name ` set (filter pcol_sensitive (pq_columns sheet))"
  have parts: "cells = filter (\<lambda>kv. snd kv \<noteq> [] \<and> fst kv \<notin> ?names) row" "sens = filter (\<lambda>kv. snd kv \<noteq> [] \<and> fst kv \<in> ?names) row"
    using split by (auto simp: splitCells_def Let_def conj_commute)
  obtain mail where row: "stored_row I now newId iv w sheetId i cells sens mail None = Inr r" using assms(1) by (auto simp: table_row_def split Let_def)
  have cells: "iw_cells r = cells" using row by (auto simp: stored_row_def split: sum.splits if_splits)
  have enc: "if sens = [] then iw_cellsEnc r = None else (\<exists>e. encryptField (ie_crypto I) iv w (ie_cells I sens) = Inr e \<and> iw_cellsEnc r = Some e)"
    using row by (cases "encryptField (ie_crypto I) iv w (ie_cells I sens)") (auto simp: stored_row_def split: sum.splits if_splits)
  have plain: "decrypted I w r = (if sens = [] then None else Some sens)"
  proof (cases "sens = []")
    case True
    with enc assms(6) show ?thesis by (auto simp: decrypted_def or_empty_def)
  next
    case False
    with enc obtain e where e: "encryptField (ie_crypto I) iv w (ie_cells I sens) = Inr e" "iw_cellsEnc r = Some e" by auto
    have "e \<noteq> []" by (rule encryptField_Inr [OF assms(3), of w iv "ie_cells I sens"]) (use e(1) in auto)
    have "ie_cells I sens \<noteq> []" using assms(6) by (simp add: split)
    from decrypt_encrypt [OF assms(2,3,4) this e(1)] False e assms(5) \<open>e \<noteq> []\<close> show ?thesis by (simp add: decrypted_def or_empty_def split)
  qed
  have "map_of (overlay (\<lambda>_ v. v) (decrypted I w r) (iw_cells r)) = map_of cells ++ map_of (rev sens)"
    by (simp add: plain cells map_of_overlay)
  moreover have "distinct (map fst sens)" unfolding parts by (rule distinct_map_filter) (rule assms(7))
  then have "map_of (rev sens) = map_of sens" by (rule map_of_rev_distinct)
  ultimately have "cell_at (overlay (\<lambda>_ v. v) (decrypted I w r) (iw_cells r)) k = cell_at row k"
    using assms(7) by (auto simp: cell_at_def parts map_of_filter_distinct or_empty_def map_add_def split: option.splits)
  moreover have "fst ` set (iw_cells r) \<inter> ?names = {}" by (auto simp: cells parts)
  ultimately show ?thesis by blast
qed

lemma stored_row_ok:
  assumes "provisioned (ie_crypto I)"
  shows "\<exists>r. stored_row I now newId iv w sheetId i cells sens mail conf = Inr r"
proof -
  obtain e where "encryptField (ie_crypto I) iv w (ie_cells I sens) = Inr e" by (rule encryptField_Inr [OF assms])
  moreover obtain k where "blindIndex (ie_crypto I) w ''email'' mail = Inr k"
    using derive_provisioned [OF assms] unfolding blindIndex_def by (metis sum.case(2))
  ultimately show ?thesis by (simp add: stored_row_def)
qed

definition demo_import_env :: import_env where
  "demo_import_env = \<lparr>ie_crm = demo_crm, ie_cells = (\<lambda>kvs. CHR ''j'' # concat (map snd kvs)),
     ie_parse_cells = (\<lambda>t. Some [(''Email'', drop 1 t)]), ie_parse_json = (\<lambda>_. None), ie_extract = (\<lambda>_ _. Inr [])\<rparr>"

definition demo_sheet :: ParsedSheet where
  "demo_sheet = (let col = (\<lambda>n t b. \<lparr>pcol_name = n, pcol_type = t, pcol_sensitive = b, pcol_nullFrac = 0, pcol_samples = []\<rparr>) in
     \<lparr>pq_name = ''Leads'', pq_ord = 0, pq_headerRow = 0, pq_columns = [col ''Company'' TText False, col ''Email'' TEmail True],
      pq_rows = [[(''Company'', ''Acme''), (''Email'', ''ann@acme.com'')]]\<rparr>)"

lemma ie_crypto_demo [simp]: "ie_crypto demo_import_env = demo_env"
  by (simp add: ie_crypto_def demo_import_env_def demo_crm_def)

theorem stored_row_roundtrip_witness:
  "\<exists>r. table_row demo_import_env 0 ''r1'' ''iv'' ''w1'' ''s1'' demo_sheet 0 [(''Company'', ''Acme''), (''Email'', ''ann@acme.com'')] = Inr r
     \<and> ''Email'' \<notin> fst ` set (iw_cells r) \<and> cell_at (overlay (\<lambda>_ v. v) (decrypted demo_import_env ''w1'' r) (iw_cells r)) ''Email'' = ''ann@acme.com''"
proof -
  let ?row = "[(''Company'', ''Acme''), (''Email'', ''ann@acme.com'')]"
  have split: "splitCells demo_sheet ?row = ([(''Company'', ''Acme'')], [(''Email'', ''ann@acme.com'')])"
    by (simp add: splitCells_def demo_sheet_def Let_def)
  have "\<exists>r. table_row demo_import_env 0 ''r1'' ''iv'' ''w1'' ''s1'' demo_sheet 0 ?row = Inr r"
    unfolding table_row_def split Let_def prod.case by (rule stored_row_ok) (simp add: provisioned_demo)
  then obtain r where run: "table_row demo_import_env 0 ''r1'' ''iv'' ''w1'' ''s1'' demo_sheet 0 ?row = Inr r" by blast
  have "''Email'' \<in> pcol_name ` set (filter pcol_sensitive (pq_columns demo_sheet))" by (simp add: demo_sheet_def Let_def)
  moreover have "ie_parse_cells demo_import_env (ie_cells demo_import_env (snd (splitCells demo_sheet ?row))) = Some (snd (splitCells demo_sheet ?row))"
    "ie_cells demo_import_env (snd (splitCells demo_sheet ?row)) \<noteq> []" by (simp_all add: split) (simp_all add: demo_import_env_def)
  ultimately show ?thesis using run stored_row_roundtrip [OF run, of "''Email''"] by (auto simp: gcm_ok_demo provisioned_demo cell_at_def or_empty_def)
qed

definition demo_store :: "string \<Rightarrow> db" where
  "demo_store mail = demo_db\<lparr>importColumns := [\<lparr>ic_id = ''c1'', ic_workspaceId = ''w1'', ic_sheetId = ''s1'', ic_ord = 0, ic_name = ''Email'', ic_type = ''email'',
       ic_sensitive = True, ic_nullFrac = 0, ic_sampleJson = Some [], ic_createdAt = 0\<rparr>],
     importRows := [\<lparr>iw_id = ''r1'', iw_workspaceId = ''w1'', iw_sheetId = ''s1'', iw_rowIndex = 0, iw_cells = [],
       iw_cellsEnc = (case encryptField demo_env ''iv'' ''w1'' (CHR ''j'' # mail) of Inl _ \<Rightarrow> None | Inr e \<Rightarrow> Some e), iw_dedupeKey = None, iw_status = ''new'',
       iw_confidence = None, iw_linkedAccountId = None, iw_linkedContactId = None, iw_createdAt = 0\<rparr>]\<rparr>"

theorem table_reads_disclose_masks_only_witness:
  "fst (readRows demo_import_env ''w1'' ''s1'' \<lparr>ro_offset = None, ro_limit = None, ro_columns = None, ro_filter = None, ro_reveal = False\<rparr> (demo_store ''ann@acme.com''))
     = fst (readRows demo_import_env ''w1'' ''s1'' \<lparr>ro_offset = None, ro_limit = None, ro_columns = None, ro_filter = None, ro_reveal = False\<rparr> (demo_store ''abe@acme.com''))"
proof -
  have "\<exists>x. encryptField demo_env ''iv'' ''w1'' (CHR ''j'' # m) = Inr x" for m
    by (rule encryptField_Inr [OF provisioned_demo, of "''w1''" "''iv''" "CHR ''j'' # m"]) blast
  then obtain e where e: "encryptField demo_env ''iv'' ''w1'' (CHR ''j'' # m) = Inr (e m)" for m by metis
  have plain: "decrypted demo_import_env ''w1'' r = Some [(''Email'', m)]" if "iw_cellsEnc r = Some (e m)" for r m
  proof -
    have "e m \<noteq> []" by (rule encryptField_Inr [OF provisioned_demo, of "''w1''" "''iv''" "CHR ''j'' # m"]) (use e in auto)
    then show ?thesis using that decrypt_encrypt [OF gcm_ok_demo provisioned_demo _ _ e]
      by (simp add: decrypted_def or_empty_def) (simp add: demo_import_env_def)
  qed
  have "maskValue ''email'' ''ann@acme.com'' = maskValue ''email'' ''abe@acme.com''" by (simp add: maskValue_def)
  then have "look_alike demo_import_env ''w1'' ''s1'' (demo_store ''ann@acme.com'') (demo_store ''abe@acme.com'')"
    by (simp add: look_alike_def demo_store_def mask_row_def plain e type_of_def profile_of_def rows_where_def)
  from table_reads_disclose_masks_only [OF this] show ?thesis by simp
qed

end
