(* ===== verification/Deadlines.thy ===== *)
theory Deadlines
  imports Calendar
begin

text \<open>
  The contract of \<^verbatim>\<open>upsertTaskDeadline\<close> (\<^verbatim>\<open>lib/domain/calendar.ts\<close>) as an abstract specification, and the refinement: whatever
  the detailed operation does to events, attendees and reminders is, seen through \<open>deadline_view\<close>, one step of \<open>sync_deadline\<close>.
\<close>

record Deadline =
  dd_on :: bool
  dd_due :: ms
  dd_title :: string
  dd_owner :: string
  dd_people :: "string set"
  dd_reminders :: "(string \<times> ms) set"

definition row_view :: "crypto_env \<Rightarrow> db \<Rightarrow> uuid \<Rightarrow> event_row \<Rightarrow> Deadline" where
  "row_view E s w r = \<lparr>dd_on = (ev_status r \<noteq> ''cancelled''), dd_due = ev_startsAt r, dd_title = ve_title (hydrate1 E s w r),
     dd_owner = ev_createdBySub r, dd_people = insert (ev_createdBySub r) (at_sub ` set (event_attendees s w (ev_id r))),
     dd_reminders = (\<lambda>x. (rm_sub x, rm_remindAt x)) ` {x \<in> set (eventReminders s). rm_workspaceId x = w \<and> rm_eventId x = ev_id r}\<rparr>"

definition deadline_view :: "crypto_env \<Rightarrow> db \<Rightarrow> uuid \<Rightarrow> uuid \<Rightarrow> Deadline option" where
  "deadline_view E s w t = map_option (row_view E s w) (deadline_of s w t)"

definition reminders_for :: "ms \<Rightarrow> ms \<Rightarrow> string set \<Rightarrow> (string \<times> ms) set" where
  "reminders_for now due us = {(u, due - off * 60000) |u off. u \<in> us \<and> off \<in> {1440, 60} \<and> now < due - off * 60000}"

text \<open>The specification: without a date the deadline is switched off and reminds nobody; with one it is on, at that date, under the
  task's title, for the people assigned. Its first owner stays its owner.\<close>

definition sync_deadline :: "ms \<Rightarrow> DeadlineArgs \<Rightarrow> Deadline option \<Rightarrow> Deadline option" where
  "sync_deadline now a old = (let assigned = fst ` set (da_attendees a) - {[]} in case da_due a of
      None \<Rightarrow> map_option (\<lambda>d. d\<lparr>dd_on := False, dd_reminders := {}\<rparr>) old
    | Some due \<Rightarrow> Some (case old of
        None \<Rightarrow> \<lparr>dd_on = True, dd_due = due, dd_title = ''Deadline: '' @ da_title a, dd_owner = da_createdBySub a,
           dd_people = insert (da_createdBySub a) assigned, dd_reminders = reminders_for now due (insert (da_createdBySub a) assigned)\<rparr>
      | Some d \<Rightarrow> \<lparr>dd_on = True, dd_due = due, dd_title = ''Deadline: '' @ da_title a, dd_owner = dd_owner d,
           dd_people = insert (dd_owner d) assigned, dd_reminders = reminders_for now due assigned\<rparr>))"

subsection \<open>The steps of the operation\<close>

lemma map_put_keys: "fst ` set (map_put k v m) = insert k (fst ` set m)"
  by (induction k v m rule: map_put.induct) auto

lemma map_put_distinct: "distinct (map fst m) \<Longrightarrow> distinct (map fst (map_put k v m))"
proof (induction k v m rule: map_put.induct)
  case (2 k v a b m)
  then show ?case using map_put_keys [of k v m] by (auto simp flip: set_map)
qed simp

lemma attendee_map_keys:
  "fst ` set (attendee_map m as) = fst ` set m \<union> (fst ` set as - {[]})
     \<and> (distinct (map fst m) \<longrightarrow> distinct (map fst (attendee_map m as)))"
proof (induction as arbitrary: m)
  case Nil
  then show ?case by (simp add: attendee_map_def)
next
  case (Cons x as)
  obtain u r where x: "x = (u, r)" by (cases x)
  show ?case
  proof (cases "u = []")
    case True
    then show ?thesis using Cons.IH [of m] x by (simp add: attendee_map_def)
  next
    case False
    then have "attendee_map m (x # as) = attendee_map (map_put u r m) as" using x by (simp add: attendee_map_def)
    then show ?thesis using Cons.IH [of "map_put u r m"] map_put_keys [of u r m] map_put_distinct [of m u r] False x by auto
  qed
qed

lemma reminder_times_set: "set (reminder_times now t us DEFAULT_REMINDER_OFFSETS_MIN) = reminders_for now t (set us)"
  by (auto simp: reminder_times_def reminders_for_def DEFAULT_REMINDER_OFFSETS_MIN_def)

lemma enumerate_image: "(\<lambda>(i, x). g x) ` set (enumerate n xs) = g ` set xs"
  by (induction xs arbitrary: n) auto

lemma reminders_upd: "eventReminders_update f s = s\<lparr>eventReminders := f (eventReminders s)\<rparr>" for s :: db
  by (cases s) simp

lemma attendees_upd: "eventAttendees_update f s = s\<lparr>eventAttendees := f (eventAttendees s)\<rparr>" for s :: db
  by (cases s) simp

lemma events_upd: "calendarEvents_update f s = s\<lparr>calendarEvents := f (calendarEvents s)\<rparr>" for s :: db
  by (cases s) simp

lemma scheduleReminders_run:
  assumes ids: "inj rid" "\<And>i. rid i \<notin> rm_id ` {x \<in> set (eventReminders s). \<not> (rm_eventId x = e \<and> rm_workspaceId x = w)}" and ev: "has_event s e"
  shows "\<exists>new. scheduleReminders now rid w e t us None s
        = (Inr (), s\<lparr>eventReminders := filter (\<lambda>r. \<not> (rm_eventId r = e \<and> rm_workspaceId r = w)) (eventReminders s) @ new\<rparr>)
      \<and> (\<forall>x\<in>set new. rm_eventId x = e \<and> rm_workspaceId x = w) \<and> (\<lambda>x. (rm_sub x, rm_remindAt x)) ` set new = reminders_for now t (set us)"
proof -
  let ?new = "map (reminder_row_of rid w e) (enumerate 0 (reminder_times now t us DEFAULT_REMINDER_OFFSETS_MIN))"
  let ?s1 = "s\<lparr>eventReminders := filter (\<lambda>r. \<not> (rm_eventId r = e \<and> rm_workspaceId r = w)) (eventReminders s)\<rparr>"
  have ids_new: "map rm_id ?new = map rid [0..<length ?new]"
    by (rule nth_equalityI) (auto simp: reminder_row_of_def nth_enumerate_eq split: prod.splits)
  have ins: "insert_rows insert_reminder ?new ?s1 = (Inr (), eventReminders_update (\<lambda>t. t @ ?new) ?s1)"
  proof (rule insert_rows_fresh [where k = rm_id and tbl = eventReminders and ok = "\<lambda>r s. has_event s (rm_eventId r)"])
    show "distinct (map rm_id ?new)" unfolding ids_new using ids(1) by (simp add: distinct_map inj_on_def inj_def)
    fix r assume "r \<in> set ?new"
    then have "rm_id r \<in> set (map rid [0..<length ?new])" unfolding ids_new [symmetric] by (metis image_eqI set_map)
    then obtain i where "rm_id r = rid i" by auto
    then show "rm_id r \<notin> rm_id ` set (eventReminders ?s1)" using ids(2) [of i] by simp
  next
    fix r f assume "r \<in> set ?new"
    then show "has_event (eventReminders_update f ?s1) (rm_eventId r)"
      using ev by (auto simp: has_event_def reminder_row_of_def split: prod.splits)
  qed (simp_all add: insert_reminder_def comp_def)
  have "scheduleReminders now rid w e t us None s = (Inr (), s\<lparr>eventReminders := eventReminders ?s1 @ ?new\<rparr>)"
    using ins by (cases "?new = []") (simp_all add: scheduleReminders_def act_bind_def tbl_delete_def act_return_def Let_def
        reminders_upd [of "filter _" s] comp_def)
  moreover have "(\<lambda>x. (rm_sub x, rm_remindAt x)) ` set ?new = reminders_for now t (set us)"
    using reminder_times_set [of now t us] enumerate_image [of "\<lambda>x. x" 0 "reminder_times now t us DEFAULT_REMINDER_OFFSETS_MIN"]
    by (simp add: image_image reminder_row_of_def case_prod_beta)
  ultimately show ?thesis by (intro exI [of _ ?new]) (auto simp: reminder_row_of_def)
qed

lemma notifyBooking_run: "\<exists>out s'. notifyBooking C now nid w ev as u k s = (Inr out, s')
    \<and> calendarEvents s' = calendarEvents s \<and> eventAttendees s' = eventAttendees s \<and> eventReminders s' = eventReminders s"
proof -
  have "frames (\<lambda>s. (calendarEvents s, eventAttendees s, eventReminders s)) (notifyBooking C now nid w ev as u k)"
    unfolding notifyBooking_def Let_def insert_notification_def by (intro frame_intros frames_tbl_insert) simp_all
  moreover have "\<exists>out. fst (notifyBooking C now nid w ev as u k s) = Inr out"
    by (auto simp: notifyBooking_def act_try_def act_return_def split: prod.splits sum.splits)
  ultimately show ?thesis using framesD by (cases "notifyBooking C now nid w ev as u k s") fastforce
qed

lemma insert_attendees_run:
  assumes "distinct (map fst as)" "has_event s e" "\<forall>x\<in>set (eventAttendees s). at_eventId x \<noteq> e"
  shows "insert_rows insert_attendee (map (attendee_row_of w e now o1) as) s
    = (Inr (), s\<lparr>eventAttendees := eventAttendees s @ map (attendee_row_of w e now o1) as\<rparr>)"
proof -
  have k: "map at_key (map (attendee_row_of w e now o1) as) = map (\<lambda>u. (e, u)) (map fst as)"
    by (simp add: at_key_def attendee_row_of_def case_prod_beta)
  have "insert_rows insert_attendee (map (attendee_row_of w e now o1) as) s
      = (Inr (), eventAttendees_update (\<lambda>t. t @ map (attendee_row_of w e now o1) as) s)"
  proof (rule insert_rows_fresh [where k = at_key and tbl = eventAttendees and ok = "\<lambda>r s. has_event s (at_eventId r)"])
    show "distinct (map at_key (map (attendee_row_of w e now o1) as))"
      unfolding k using assms(1) by (metis (mono_tags, lifting) distinct_map inj_onI prod.inject)
  qed (use assms in \<open>auto simp: insert_attendee_def comp_def has_event_def at_key_def attendee_row_of_def split: prod.splits\<close>)
  then show ?thesis by simp
qed

text \<open>What does not read the calendar's tables or the notifications is untouched by the calendar.\<close>

definition off_calendar :: "(db \<Rightarrow> 'v) \<Rightarrow> bool" where
  "off_calendar f \<longleftrightarrow> (\<forall>s g. f (calendarEvents_update g s) = f s) \<and> (\<forall>s g. f (eventAttendees_update g s) = f s)
     \<and> (\<forall>s g. f (eventReminders_update g s) = f s) \<and> (\<forall>s g. f (notifications_update g s) = f s)"

lemma off_calendar_tables:
  assumes "off_calendar f"
  shows "frames f (tbl_update calendarEvents_update P h)" "frames f (tbl_delete eventReminders_update Q)" "frames f (tbl_delete eventAttendees_update R)"
    "frames f (insert_event e)" "frames f (insert_attendee a)" "frames f (insert_reminder r)" "frames f (insert_notification n)"
  using assms by (simp_all add: off_calendar_def frames_def tbl_update_def tbl_delete_def tbl_insert_def work_insert_defs insert_notification_def)

lemma off_calendar_ops [frame_intros]:
  assumes "off_calendar f"
  shows "frames f (scheduleReminders now rid w e t us offs)" "frames f (notifyBooking C now nid w ev as u k)"
    "frames f (updateEvent C now fr w e p)" "frames f (cancelEvent C now fr w e v)"
    "frames f (createEvent C now fr i)" "frames f (upsertTaskDeadline C now fr a)"
proof -
  note tables = off_calendar_tables [OF assms]
  have sched: "frames f (scheduleReminders now rid w e t us offs)" for now rid w e t us offs
    unfolding scheduleReminders_def Let_def by (intro frame_intros tables)
  have notify: "frames f (notifyBooking C now nid w ev as u k)" for C now nid w ev as u k
    unfolding notifyBooking_def Let_def by (intro frame_intros tables)
  have upd: "frames f (updateEvent C now fr w e p)" for C now fr w e p
    unfolding updateEvent_def Let_def case_prod_beta by (intro frame_intros tables sched)
  have canc: "frames f (cancelEvent C now fr w e u)" for C now fr w e u
    unfolding cancelEvent_def getEvent_def by (intro frame_intros tables notify)
  have create: "frames f (createEvent C now fr i)" for C now fr i
    unfolding createEvent_def Let_def prod.case by (intro frame_intros tables sched notify)
  have ups: "frames f (upsertTaskDeadline C now fr a)" for C now fr a
    unfolding upsertTaskDeadline_def Let_def case_prod_beta by (intro frame_intros tables sched upd canc create)
  show "frames f (scheduleReminders now rid w e t us offs)" "frames f (notifyBooking C now nid w ev as u k)"
    "frames f (updateEvent C now fr w e p)" "frames f (cancelEvent C now fr w e v)"
    "frames f (createEvent C now fr i)" "frames f (upsertTaskDeadline C now fr a)"
    by (rule sched notify upd canc create ups)+
qed

subsection \<open>Refinement\<close>

text \<open>Ids are fresh, keys are provisioned, and the referred workspace exists.\<close>

definition deadline_ready :: "cal_env \<Rightarrow> fresh \<Rightarrow> DeadlineArgs \<Rightarrow> db \<Rightarrow> bool" where
  "deadline_ready C fr a s \<longleftrightarrow> work_ok s \<and> attendees_home s \<and> has_workspace s (da_workspaceId a) \<and> gcm_ok (cal_crypto C) \<and> provisioned (cal_crypto C)
     \<and> fr_iv fr 0 \<noteq> [] \<and> \<not> has_event s (fr_event fr) \<and> inj (fr_reminder fr) \<and> inj (fr_reminder2 fr)
     \<and> range (fr_reminder fr) \<inter> rm_id ` set (eventReminders s) = {} \<and> range (fr_reminder2 fr) \<inter> rm_id ` set (eventReminders s) = {}"

lemma deadline_title:
  assumes "gcm_ok E" "provisioned E" "iv \<noteq> []"
  obtains enc where "encryptField E iv w (''Deadline: '' @ t) = Inr enc" "decryptField E w enc = Inr (''Deadline: '' @ t)"
proof -
  obtain enc where "encryptField E iv w (''Deadline: '' @ t) = Inr enc" by (meson encryptField_Inr [OF assms(2)])
  moreover have "decryptField E w enc = Inr (''Deadline: '' @ t)" using decrypt_encrypt [OF assms _ calculation] by simp
  ultimately show thesis by (rule that)
qed

lemma row_view_same:
  assumes "\<And>x. at_eventId x = ev_id r \<Longrightarrow> x \<in> set (eventAttendees s') \<longleftrightarrow> x \<in> set (eventAttendees s)"
    and "\<And>x. rm_eventId x = ev_id r \<Longrightarrow> x \<in> set (eventReminders s') \<longleftrightarrow> x \<in> set (eventReminders s)"
  shows "row_view E s' w r = row_view E s w r"
proof -
  have "set (event_attendees s' w (ev_id r)) = set (event_attendees s w (ev_id r))"
    using assms(1) by (auto simp: event_attendees_def rows_where_def)
  moreover have "{x \<in> set (eventReminders s'). rm_workspaceId x = w \<and> rm_eventId x = ev_id r}
      = {x \<in> set (eventReminders s). rm_workspaceId x = w \<and> rm_eventId x = ev_id r}" using assms(2) by auto
  ultimately show ?thesis by (simp add: row_view_def hydrate1_def)
qed

text \<open>Changing one event, its attendees and its reminders leaves every other deadline as it is.\<close>

lemma other_deadlines_same:
  assumes ok: "work_ok s" and r: "deadline_of s w t = Some r" and other: "w' \<noteq> w \<or> t' \<noteq> t"
    and ev: "calendarEvents s' = upd_where (\<lambda>x. ev_workspaceId x = w \<and> ev_id x = ev_id r) f (calendarEvents s)"
    and f: "\<And>x. ev_workspaceId (f x) = ev_workspaceId x \<and> ev_taskId (f x) = ev_taskId x \<and> ev_kind (f x) = ev_kind x"
    and at: "\<And>x. at_eventId x \<noteq> ev_id r \<Longrightarrow> x \<in> set (eventAttendees s') \<longleftrightarrow> x \<in> set (eventAttendees s)"
    and rm: "\<And>x. rm_eventId x \<noteq> ev_id r \<Longrightarrow> x \<in> set (eventReminders s') \<longleftrightarrow> x \<in> set (eventReminders s)"
  shows "deadline_view E s' w' t' = deadline_view E s w' t'"
proof -
  have of': "deadline_of s' w' t' = map_option (\<lambda>x. if ev_workspaceId x = w \<and> ev_id x = ev_id r then f x else x) (deadline_of s w' t')"
    unfolding deadline_of_def ev by (rule first_where_upd_where) (simp add: f)
  show ?thesis
  proof (cases "deadline_of s w' t'")
    case None
    then show ?thesis using of' by (simp add: deadline_view_def)
  next
    case (Some x)
    have "x \<in> set (calendarEvents s)" "r \<in> set (calendarEvents s)" "x \<noteq> r"
      using Some r other unfolding deadline_of_def by (auto dest!: first_where_SomeD)
    then have ne: "ev_id x \<noteq> ev_id r" using key_fun_eq [of ev_id "calendarEvents s"] ok by (auto simp: work_ok_def work_keys_ok_def)
    then have "row_view E s' w' x = row_view E s w' x" by (intro row_view_same) (auto simp: at rm)
    then show ?thesis using Some of' ne by (simp add: deadline_view_def)
  qed
qed

lemma sync_off:
  assumes ok: "work_ok s" and r: "deadline_of s (da_workspaceId a) (da_taskId a) = Some r" and off: "da_due a = None"
  shows "\<exists>out s'. upsertTaskDeadline C now fr a s = (Inr out, s')
    \<and> calendarEvents s' = upd_where (\<lambda>x. ev_workspaceId x = da_workspaceId a \<and> ev_id x = ev_id r) (\<lambda>x. x\<lparr>ev_status := ''cancelled'', ev_updatedAt := now\<rparr>)
        (calendarEvents s) \<and> eventAttendees s' = eventAttendees s
    \<and> eventReminders s' = filter (\<lambda>x. \<not> (rm_workspaceId x = da_workspaceId a \<and> rm_eventId x = ev_id r)) (eventReminders s)"
proof -
  let ?w = "da_workspaceId a"
  let ?s2 = "eventReminders_update (filter (\<lambda>x. \<not> (rm_workspaceId x = ?w \<and> rm_eventId x = ev_id r))) (calendarEvents_update
    (upd_where (\<lambda>x. ev_workspaceId x = ?w \<and> ev_id x = ev_id r) (\<lambda>x. x\<lparr>ev_status := ''cancelled'', ev_updatedAt := now\<rparr>)) s)"
  obtain x where x: "event_at s ?w (ev_id r) = Some x"
    using r unfolding deadline_of_def event_at_def by (fastforce simp: first_where_None_iff dest!: first_where_SomeD)
  let ?v = "hydrate1 (cal_crypto C) s ?w x"
  have run: "upsertTaskDeadline C now fr a s = notifyBooking C now (fr_notif fr) ?w (booking_of ?v)
      (map (\<lambda>a. (ea2_sub a, ea2_raciRole a)) (ve_attendees ?v)) (da_createdBySub a) Cancel ?s2"
    by (simp add: upsertTaskDeadline_def cancelEvent_def getEvent_def Let_def r off x or_default_def act_bind_def tbl_delete_def tbl_update_def
        act_get_def)
  show ?thesis unfolding run
    using notifyBooking_run [of C now "fr_notif fr" ?w "booking_of ?v" "map (\<lambda>a. (ea2_sub a, ea2_raciRole a)) (ve_attendees ?v)"
        "da_createdBySub a" Cancel ?s2] by simp
qed

lemma sync_update:
  assumes ready: "deadline_ready C fr a s" and r: "deadline_of s (da_workspaceId a) (da_taskId a) = Some r" and due: "da_due a = Some due"
  shows "\<exists>s' enc new. upsertTaskDeadline C now fr a s = (Inr [], s')
    \<and> decryptField (cal_crypto C) (da_workspaceId a) enc = Inr (''Deadline: '' @ da_title a)
    \<and> calendarEvents s' = upd_where (\<lambda>x. ev_workspaceId x = da_workspaceId a \<and> ev_id x = ev_id r) (patched now (Some enc) None None (deadline_patch a due))
        (calendarEvents s)
    \<and> eventAttendees s' = filter (\<lambda>x. \<not> (at_workspaceId x = da_workspaceId a \<and> at_eventId x = ev_id r)) (eventAttendees s)
        @ map (attendee_row_of (da_workspaceId a) (ev_id r) now None) (attendee_map [] (da_attendees a))
    \<and> eventReminders s' = filter (\<lambda>x. \<not> (rm_eventId x = ev_id r \<and> rm_workspaceId x = da_workspaceId a)) (eventReminders s) @ new
    \<and> (\<forall>x\<in>set new. rm_eventId x = ev_id r \<and> rm_workspaceId x = da_workspaceId a)
    \<and> (\<lambda>x. (rm_sub x, rm_remindAt x)) ` set new = reminders_for now due (fst ` set (da_attendees a) - {[]})"
proof -
  let ?w = "da_workspaceId a" and ?e = "ev_id r" and ?E = "cal_crypto C"
  have key: "gcm_ok ?E" "provisioned ?E" "fr_iv fr 0 \<noteq> []" using ready by (simp_all add: deadline_ready_def)
  obtain enc where enc: "encryptField ?E (fr_iv fr 0) ?w (''Deadline: '' @ da_title a) = Inr enc" "decryptField ?E ?w enc = Inr (''Deadline: '' @ da_title a)"
    by (rule deadline_title [OF key])
  let ?f = "patched now (Some enc) None None (deadline_patch a due)"
  let ?s1 = "s\<lparr>calendarEvents := upd_where (\<lambda>x. ev_workspaceId x = ?w \<and> ev_id x = ?e) ?f (calendarEvents s)\<rparr>"
  have mem: "r \<in> set (calendarEvents s)" "ev_workspaceId r = ?w" using r unfolding deadline_of_def by (auto dest!: first_where_SomeD)
  have he: "has_event ?s1 ?e" using mem by (auto simp: has_event_def image_upd_where patched_def)
  have at1: "event_at ?s1 ?w ?e = map_option ?f (event_at s ?w ?e)"
    unfolding event_at_def by (simp add: first_where_upd_where patched_def) (cases "first_where (\<lambda>r. ev_workspaceId r = ?w \<and> ev_id r = ?e) (calendarEvents s)",
       auto dest: first_where_SomeD)
  have "event_at s ?w ?e \<noteq> None" using mem by (auto simp: event_at_def first_where_None_iff)
  then obtain y where y: "event_at ?s1 ?w ?e = Some (?f y)" using at1 by auto
  have st: "ev_startsAt (?f y) = due" by (simp add: patched_def deadline_patch_def or_default_def)
  let ?subs1 = "map at_sub (event_attendees ?s1 ?w ?e)"
  obtain new1 where n1: "scheduleReminders now (fr_reminder fr) ?w ?e due ?subs1 None ?s1
        = (Inr (), ?s1\<lparr>eventReminders := filter (\<lambda>r. \<not> (rm_eventId r = ?e \<and> rm_workspaceId r = ?w)) (eventReminders s) @ new1\<rparr>)"
      "\<forall>x\<in>set new1. rm_eventId x = ?e \<and> rm_workspaceId x = ?w"
    using scheduleReminders_run [of "fr_reminder fr" ?s1 ?e ?w now due ?subs1] ready he by (auto simp: deadline_ready_def)
  let ?s2 = "?s1\<lparr>eventReminders := filter (\<lambda>r. \<not> (rm_eventId r = ?e \<and> rm_workspaceId r = ?w)) (eventReminders s) @ new1\<rparr>"
  have upd: "updateEvent C now fr ?w ?e (deadline_patch a due) s = (Inr (), ?s2)"
    using enc(1) y st n1(1)
    by (simp add: updateEvent_def Let_def deadline_patch_def patch_enc_def patch_opt_enc_def act_bind_def act_lift_def tbl_update_def act_get_def
        events_upd [of "upd_where _ _" s])
  let ?m = "attendee_map [] (da_attendees a)"
  let ?rows = "map (attendee_row_of ?w ?e now None) ?m"
  let ?s3 = "?s2\<lparr>eventAttendees := filter (\<lambda>x. \<not> (at_workspaceId x = ?w \<and> at_eventId x = ?e)) (eventAttendees s)\<rparr>"
  let ?s4 = "?s3\<lparr>eventAttendees := eventAttendees ?s3 @ ?rows\<rparr>"
  have m: "fst ` set ?m = fst ` set (da_attendees a) - {[]}" "distinct (map fst ?m)" using attendee_map_keys [of "[]" "da_attendees a"] by auto
  have "at_workspaceId x = ?w" if "x \<in> set (eventAttendees s)" "at_eventId x = ?e" for x
  proof -
    have "attendees_home s" using ready by (simp add: deadline_ready_def)
    then show ?thesis using that mem by (simp add: attendees_home_def)
  qed
  then have gone: "\<forall>x\<in>set (eventAttendees ?s3). at_eventId x \<noteq> ?e" by auto
  have he3: "has_event ?s3 ?e" using he by (simp add: has_event_def)
  have ins: "insert_rows insert_attendee ?rows ?s3 = (Inr (), ?s4)" by (rule insert_attendees_run [OF m(2) he3 gone])
  have subs: "set (map at_sub ?rows) = fst ` set (da_attendees a) - {[]}"
    unfolding m(1) [symmetric] by (auto simp: attendee_row_of_def image_image case_prod_beta)
  have he4: "has_event ?s4 ?e" using he by (simp add: has_event_def)
  have kept: "filter (\<lambda>r. \<not> (rm_eventId r = ?e \<and> rm_workspaceId r = ?w)) (eventReminders ?s4)
      = filter (\<lambda>r. \<not> (rm_eventId r = ?e \<and> rm_workspaceId r = ?w)) (eventReminders s)" using n1(2) by (simp add: filter_empty_conv)
  have fresh2: "inj (fr_reminder2 fr)" "fr_reminder2 fr i \<notin> rm_id ` set (eventReminders s)" for i
    using ready unfolding deadline_ready_def by blast+
  have ids: "inj (fr_reminder2 fr)" "fr_reminder2 fr i \<notin> rm_id ` {x \<in> set (eventReminders ?s4). \<not> (rm_eventId x = ?e \<and> rm_workspaceId x = ?w)}" for i
    using fresh2(1) fresh2(2) [of i] unfolding set_filter [symmetric] kept by auto
  obtain new where n2: "scheduleReminders now (fr_reminder2 fr) ?w ?e due (map at_sub ?rows) None ?s4
        = (Inr (), ?s4\<lparr>eventReminders := filter (\<lambda>r. \<not> (rm_eventId r = ?e \<and> rm_workspaceId r = ?w)) (eventReminders ?s4) @ new\<rparr>)"
      "\<forall>x\<in>set new. rm_eventId x = ?e \<and> rm_workspaceId x = ?w"
      "(\<lambda>x. (rm_sub x, rm_remindAt x)) ` set new = reminders_for now due (set (map at_sub ?rows))"
    using scheduleReminders_run [OF ids he4, where now = now and t = due and us = "map at_sub ?rows"] by blast
  have "upsertTaskDeadline C now fr a s
      = (Inr [], ?s4\<lparr>eventReminders := filter (\<lambda>r. \<not> (rm_eventId r = ?e \<and> rm_workspaceId r = ?w)) (eventReminders ?s4) @ new\<rparr>)"
    using r due upd ins n2(1)
    by (cases "?m = []") (simp_all add: upsertTaskDeadline_def Let_def act_bind_def act_get_def tbl_delete_def act_return_def attendees_upd [of "filter _"])
  then show ?thesis using enc(2) n2(2,3) unfolding subs kept by (intro exI conjI) (assumption | simp)+
qed

lemma sync_create:
  assumes ready: "deadline_ready C fr a s" and none: "deadline_of s (da_workspaceId a) (da_taskId a) = None" and due: "da_due a = Some due"
  shows "\<exists>out s' r new. upsertTaskDeadline C now fr a s = (Inr out, s') \<and> calendarEvents s' = calendarEvents s @ [r] \<and> ev_id r = fr_event fr
    \<and> ev_workspaceId r = da_workspaceId a \<and> ev_taskId r = Some (da_taskId a) \<and> ev_kind r = ''deadline'' \<and> ev_status r = ''confirmed''
    \<and> ev_startsAt r = due \<and> ev_createdBySub r = da_createdBySub a
    \<and> decryptField (cal_crypto C) (da_workspaceId a) (ev_titleEnc r) = Inr (''Deadline: '' @ da_title a)
    \<and> eventAttendees s' = eventAttendees s @ map (attendee_row_of (da_workspaceId a) (fr_event fr) now (Some (da_createdBySub a)))
        (attendee_map [(da_createdBySub a, Some ''R'')] (da_attendees a))
    \<and> eventReminders s' = filter (\<lambda>x. \<not> (rm_eventId x = fr_event fr \<and> rm_workspaceId x = da_workspaceId a)) (eventReminders s) @ new
    \<and> (\<forall>x\<in>set new. rm_eventId x = fr_event fr \<and> rm_workspaceId x = da_workspaceId a)
    \<and> (\<lambda>x. (rm_sub x, rm_remindAt x)) ` set new = reminders_for now due (insert (da_createdBySub a) (fst ` set (da_attendees a) - {[]}))"
proof -
  let ?w = "da_workspaceId a" and ?e = "fr_event fr" and ?E = "cal_crypto C" and ?u = "da_createdBySub a"
  have key: "gcm_ok ?E" "provisioned ?E" "fr_iv fr 0 \<noteq> []" using ready by (simp_all add: deadline_ready_def)
  obtain enc where enc: "encryptField ?E (fr_iv fr 0) ?w (''Deadline: '' @ da_title a) = Inr enc" "decryptField ?E ?w enc = Inr (''Deadline: '' @ da_title a)"
    by (rule deadline_title [OF key])
  let ?r = "\<lparr>ev_id = ?e, ev_workspaceId = ?w, ev_kind = ''deadline'', ev_titleEnc = enc, ev_descriptionEnc = None, ev_locationEnc = None,
    ev_startsAt = due, ev_endsAt = due, ev_allDay = True, ev_timezone = or_utc (da_timezone a), ev_status = ''confirmed'', ev_channelId = None,
    ev_projectId = da_projectId a, ev_taskId = Some (da_taskId a), ev_dealId = None, ev_createdBySub = ?u, ev_createdAt = now, ev_updatedAt = now\<rparr>"
  let ?s1 = "s\<lparr>calendarEvents := calendarEvents s @ [?r]\<rparr>"
  have ins1: "insert_event ?r s = (Inr ?r, ?s1)" using ready by (simp add: insert_event_def tbl_insert_def deadline_ready_def events_upd [of "\<lambda>rs. rs @ [_]" s])
  let ?m = "attendee_map [(?u, Some ''R'')] (da_attendees a)"
  let ?rows = "map (attendee_row_of ?w ?e now (Some ?u)) ?m"
  let ?s2 = "?s1\<lparr>eventAttendees := eventAttendees s @ ?rows\<rparr>"
  have m: "fst ` set ?m = insert ?u (fst ` set (da_attendees a) - {[]})" "distinct (map fst ?m)"
    using attendee_map_keys [of "[(?u, Some ''R'')]" "da_attendees a"] by auto
  have "\<forall>x\<in>set (eventAttendees s). at_eventId x \<noteq> ?e" using ready by (auto simp: deadline_ready_def work_ok_def work_refs_ok_def)
  then have ins2: "insert_rows insert_attendee ?rows ?s1 = (Inr (), ?s2)"
    using insert_attendees_run [OF m(2), of ?s1 ?e ?w now "Some ?u"] by (simp add: has_event_def)
  have subs: "set (map at_sub ?rows) = insert ?u (fst ` set (da_attendees a) - {[]})"
    unfolding m(1) [symmetric] by (auto simp: attendee_row_of_def image_image case_prod_beta)
  have he: "has_event ?s2 ?e" by (simp add: has_event_def)
  have ids: "inj (fr_reminder fr)" "fr_reminder fr i \<notin> rm_id ` {x \<in> set (eventReminders ?s2). \<not> (rm_eventId x = ?e \<and> rm_workspaceId x = ?w)}" for i
    using ready by (auto simp: deadline_ready_def)
  obtain new s3 where n: "scheduleReminders now (fr_reminder fr) ?w ?e due (map at_sub ?rows) None ?s2 = (Inr (), s3)"
      "\<forall>x\<in>set new. rm_eventId x = ?e \<and> rm_workspaceId x = ?w"
      "(\<lambda>x. (rm_sub x, rm_remindAt x)) ` set new = reminders_for now due (set (map at_sub ?rows))"
      "s3 = ?s2\<lparr>eventReminders := filter (\<lambda>r. \<not> (rm_eventId r = ?e \<and> rm_workspaceId r = ?w)) (eventReminders ?s2) @ new\<rparr>"
    using scheduleReminders_run [OF ids he, where now = now and t = due and us = "map at_sub ?rows"] by blast
  let ?b = "\<lparr>be_id = ?e, be_title = ''Deadline: '' @ da_title a, be_startsAt = due, be_endsAt = due, be_timezone = or_utc (da_timezone a), be_allDay = True,
    be_location = None, be_description = None, be_kind = ''deadline'', be_channelId = None\<rparr>"
  obtain out s' where b: "notifyBooking C now (fr_notif fr) ?w ?b (map (\<lambda>r. (at_sub r, at_raciRole r)) ?rows) ?u Invite s3 = (Inr out, s')"
      "calendarEvents s' = calendarEvents s3" "eventAttendees s' = eventAttendees s3" "eventReminders s' = eventReminders s3"
    using notifyBooking_run [of C now "fr_notif fr" ?w ?b "map (\<lambda>r. (at_sub r, at_raciRole r)) ?rows" ?u Invite s3] by blast
  have ne: "?m \<noteq> []" using m(1) by auto
  have run: "act_bind (insert_event ?r) k s = k ?r ?s1" "act_bind (insert_rows insert_attendee ?rows) l ?s1 = l () ?s2"
      "act_bind (scheduleReminders now (fr_reminder fr) ?w ?e due (map at_sub ?rows) None) l ?s2 = l () s3"
      "act_bind (notifyBooking C now (fr_notif fr) ?w ?b (map (\<lambda>r. (at_sub r, at_raciRole r)) ?rows) ?u Invite) h s3 = h out s'"
      for k :: "event_row \<Rightarrow> (db, uuid \<times> outgoing list) act" and l :: "unit \<Rightarrow> (db, uuid \<times> outgoing list) act"
        and h :: "outgoing list \<Rightarrow> (db, uuid \<times> outgoing list) act"
    using ins1 ins2 n(1) b(1) by (simp_all only: act_bind_def prod.case sum.case)
  have create: "createEvent C now fr (deadline_event a due) s = (Inr (?e, out), s')"
    unfolding createEvent_def deadline_event_def
    by (simp add: Let_def opt_encrypt_def or_default_def enc(1) ne run act_return_run del: append.simps map_map)
  have "upsertTaskDeadline C now fr a s = (Inr out, s')"
    using none due create by (simp add: upsertTaskDeadline_def Let_def act_bind_def act_get_def act_return_def)
  then show ?thesis using b(2-4) enc(2) n(2,3) unfolding subs n(4)
    by (intro exI [of _ out] exI [of _ s'] exI [of _ ?r] exI [of _ new]) simp
qed

text \<open>A deadline that is created, seen abstractly.\<close>

lemma created_view:
  assumes ok: "work_ok s" and fresh: "\<not> has_event s e"
    and ev: "calendarEvents s' = calendarEvents s @ [r]" "ev_id r = e" "ev_workspaceId r = w" "ev_taskId r = Some t" "ev_kind r = ''deadline''"
    and none: "deadline_of s w t = None"
    and at: "eventAttendees s' = eventAttendees s @ A" "\<forall>x\<in>set A. at_eventId x = e \<and> at_workspaceId x = w"
    and rm: "eventReminders s' = filter (\<lambda>x. \<not> (rm_eventId x = e \<and> rm_workspaceId x = w)) (eventReminders s) @ R"
      "\<forall>x\<in>set R. rm_eventId x = e \<and> rm_workspaceId x = w"
  shows "deadline_view E s' w t = Some \<lparr>dd_on = (ev_status r \<noteq> ''cancelled''), dd_due = ev_startsAt r, dd_title = ve_title (hydrate1 E s' w r),
      dd_owner = ev_createdBySub r, dd_people = insert (ev_createdBySub r) (at_sub ` set A), dd_reminders = (\<lambda>x. (rm_sub x, rm_remindAt x)) ` set R\<rparr>"
    and "w' \<noteq> w \<or> t' \<noteq> t \<Longrightarrow> deadline_view E s' w' t' = deadline_view E s w' t'"
proof -
  have old: "\<forall>x\<in>set (eventAttendees s). at_eventId x \<noteq> e" using ok fresh by (auto simp: work_ok_def work_refs_ok_def)
  have "deadline_of s' w t = Some r" using none ev by (simp add: deadline_of_def first_where_append)
  moreover have "set (event_attendees s' w (ev_id r)) = set A" using at old ev(2) by (auto simp: event_attendees_def rows_where_def)
  moreover have "{x \<in> set (eventReminders s'). rm_workspaceId x = w \<and> rm_eventId x = ev_id r} = set R" using rm ev(2) by auto
  ultimately show "deadline_view E s' w t = Some \<lparr>dd_on = (ev_status r \<noteq> ''cancelled''), dd_due = ev_startsAt r, dd_title = ve_title (hydrate1 E s' w r),
      dd_owner = ev_createdBySub r, dd_people = insert (ev_createdBySub r) (at_sub ` set A), dd_reminders = (\<lambda>x. (rm_sub x, rm_remindAt x)) ` set R\<rparr>"
    by (simp add: deadline_view_def row_view_def)
  assume other: "w' \<noteq> w \<or> t' \<noteq> t"
  have same: "deadline_of s' w' t' = deadline_of s w' t'" using ev other by (auto simp: deadline_of_def first_where_append split: option.splits)
  show "deadline_view E s' w' t' = deadline_view E s w' t'"
  proof (cases "deadline_of s w' t'")
    case (Some x)
    then have "ev_id x \<noteq> e" using fresh by (auto simp: deadline_of_def has_event_def dest!: first_where_SomeD)
    then have "row_view E s' w' x = row_view E s w' x" using at rm by (intro row_view_same) auto
    then show ?thesis using Some same by (simp add: deadline_view_def)
  qed (use same in \<open>simp add: deadline_view_def\<close>)
qed

definition mirrored :: "cal_env \<Rightarrow> ms \<Rightarrow> DeadlineArgs \<Rightarrow> db \<Rightarrow> db \<Rightarrow> bool" where
  "mirrored C now a s s' \<longleftrightarrow> deadline_view (cal_crypto C) s' (da_workspaceId a) (da_taskId a)
        = sync_deadline now a (deadline_view (cal_crypto C) s (da_workspaceId a) (da_taskId a))
    \<and> (\<forall>w' t'. w' \<noteq> da_workspaceId a \<or> t' \<noteq> da_taskId a \<longrightarrow>
        deadline_view (cal_crypto C) s' w' t' = deadline_view (cal_crypto C) s w' t')"

lemma mirrored_create:
  assumes ready: "deadline_ready C fr a s" and none: "deadline_of s (da_workspaceId a) (da_taskId a) = None" and due: "da_due a = Some due"
  shows "\<exists>out s'. upsertTaskDeadline C now fr a s = (Inr out, s') \<and> mirrored C now a s s'"
proof -
  let ?w = "da_workspaceId a" and ?t = "da_taskId a" and ?E = "cal_crypto C"
  have ok: "work_ok s" using ready by (simp add: deadline_ready_def)
  let ?m = "attendee_map [(da_createdBySub a, Some ''R'')] (da_attendees a)"
  let ?A = "map (attendee_row_of ?w (fr_event fr) now (Some (da_createdBySub a))) ?m"
  obtain out s' r new where c: "upsertTaskDeadline C now fr a s = (Inr out, s')" "calendarEvents s' = calendarEvents s @ [r]" "ev_id r = fr_event fr"
      "ev_workspaceId r = ?w" "ev_taskId r = Some ?t" "ev_kind r = ''deadline''" "ev_status r = ''confirmed''" "ev_startsAt r = due"
      "ev_createdBySub r = da_createdBySub a" "decryptField ?E ?w (ev_titleEnc r) = Inr (''Deadline: '' @ da_title a)"
      "eventAttendees s' = eventAttendees s @ ?A"
      "eventReminders s' = filter (\<lambda>x. \<not> (rm_eventId x = fr_event fr \<and> rm_workspaceId x = ?w)) (eventReminders s) @ new"
      "\<forall>x\<in>set new. rm_eventId x = fr_event fr \<and> rm_workspaceId x = ?w"
      "(\<lambda>x. (rm_sub x, rm_remindAt x)) ` set new = reminders_for now due (insert (da_createdBySub a) (fst ` set (da_attendees a) - {[]}))"
    using sync_create [OF ready none due, of now] by blast
  have fresh: "\<not> has_event s (fr_event fr)" using ready by (simp add: deadline_ready_def)
  have A: "\<forall>x\<in>set ?A. at_eventId x = fr_event fr \<and> at_workspaceId x = ?w" by (auto simp: attendee_row_of_def)
  note view = created_view [OF ok fresh c(2-6) none c(11) A c(12,13), where E = ?E]
  have "at_sub ` set ?A = insert (da_createdBySub a) (fst ` set (da_attendees a) - {[]})"
    using attendee_map_keys [of "[(da_createdBySub a, Some ''R'')]" "da_attendees a"]
    by (simp add: image_image attendee_row_of_def case_prod_beta)
  then have "deadline_view ?E s' ?w ?t = sync_deadline now a (deadline_view ?E s ?w ?t)"
    using view(1) c(7-10,14) none due
    by (simp add: sync_deadline_def deadline_view_def hydrate1_def dec_def or_default_def Let_def del: append.simps)
  then show ?thesis using c(1) view(2) unfolding mirrored_def by blast
qed

text \<open>A deadline that is changed, seen abstractly.\<close>

lemma changed_of:
  assumes r: "deadline_of s w t = Some r"
    and ev: "calendarEvents s' = upd_where (\<lambda>x. ev_workspaceId x = w \<and> ev_id x = ev_id r) f (calendarEvents s)"
    and f: "\<And>x. ev_workspaceId (f x) = ev_workspaceId x \<and> ev_taskId (f x) = ev_taskId x \<and> ev_kind (f x) = ev_kind x"
  shows "deadline_of s' w t = Some (f r)"
proof -
  have "deadline_of s' w t = map_option (\<lambda>x. if ev_workspaceId x = w \<and> ev_id x = ev_id r then f x else x) (deadline_of s w t)"
    unfolding deadline_of_def ev by (rule first_where_upd_where) (simp add: f)
  moreover have "ev_workspaceId r = w" using r unfolding deadline_of_def by (auto dest!: first_where_SomeD)
  ultimately show ?thesis using r by simp
qed

lemma mirrored_off:
  assumes ok: "work_ok s" and r: "deadline_of s (da_workspaceId a) (da_taskId a) = Some r" and off: "da_due a = None"
  shows "\<exists>out s'. upsertTaskDeadline C now fr a s = (Inr out, s') \<and> mirrored C now a s s'"
proof -
  let ?w = "da_workspaceId a" and ?t = "da_taskId a" and ?E = "cal_crypto C"
  let ?f = "\<lambda>x. x\<lparr>ev_status := ''cancelled'', ev_updatedAt := now\<rparr>"
  obtain out s' where run: "upsertTaskDeadline C now fr a s = (Inr out, s')"
      "calendarEvents s' = upd_where (\<lambda>x. ev_workspaceId x = ?w \<and> ev_id x = ev_id r) ?f (calendarEvents s)" "eventAttendees s' = eventAttendees s"
      "eventReminders s' = filter (\<lambda>x. \<not> (rm_workspaceId x = ?w \<and> rm_eventId x = ev_id r)) (eventReminders s)"
    using sync_off [OF ok r off] by blast
  have "deadline_of s' ?w ?t = Some (?f r)" by (rule changed_of [OF r run(2)]) simp
  moreover have "row_view ?E s' ?w (?f r) = (row_view ?E s ?w r)\<lparr>dd_on := False, dd_reminders := {}\<rparr>"
    using run(3,4) by (simp add: row_view_def hydrate1_def event_attendees_def)
  ultimately have "deadline_view ?E s' ?w ?t = sync_deadline now a (deadline_view ?E s ?w ?t)"
    using r off by (simp add: deadline_view_def sync_deadline_def)
  moreover have "deadline_view ?E s' w' t' = deadline_view ?E s w' t'" if "w' \<noteq> ?w \<or> t' \<noteq> ?t" for w' t'
    by (rule other_deadlines_same [OF ok r that run(2)]) (simp_all add: run(3,4))
  ultimately show ?thesis using run(1) unfolding mirrored_def by blast
qed

lemma mirrored_update:
  assumes ready: "deadline_ready C fr a s" and r: "deadline_of s (da_workspaceId a) (da_taskId a) = Some r" and due: "da_due a = Some due"
  shows "\<exists>out s'. upsertTaskDeadline C now fr a s = (Inr out, s') \<and> mirrored C now a s s'"
proof -
  let ?w = "da_workspaceId a" and ?t = "da_taskId a" and ?E = "cal_crypto C"
  let ?A = "map (attendee_row_of ?w (ev_id r) now None) (attendee_map [] (da_attendees a))"
  have ok: "work_ok s" using ready by (simp add: deadline_ready_def)
  obtain s' enc new where run: "upsertTaskDeadline C now fr a s = (Inr [], s')" "decryptField ?E ?w enc = Inr (''Deadline: '' @ da_title a)"
      "calendarEvents s' = upd_where (\<lambda>x. ev_workspaceId x = ?w \<and> ev_id x = ev_id r) (patched now (Some enc) None None (deadline_patch a due)) (calendarEvents s)"
      "eventAttendees s' = filter (\<lambda>x. \<not> (at_workspaceId x = ?w \<and> at_eventId x = ev_id r)) (eventAttendees s) @ ?A"
      "eventReminders s' = filter (\<lambda>x. \<not> (rm_eventId x = ev_id r \<and> rm_workspaceId x = ?w)) (eventReminders s) @ new"
      "\<forall>x\<in>set new. rm_eventId x = ev_id r \<and> rm_workspaceId x = ?w"
      "(\<lambda>x. (rm_sub x, rm_remindAt x)) ` set new = reminders_for now due (fst ` set (da_attendees a) - {[]})"
    using sync_update [OF ready r due, of now] by blast
  let ?f = "patched now (Some enc) None None (deadline_patch a due)"
  have of': "deadline_of s' ?w ?t = Some (?f r)" by (rule changed_of [OF r run(3)]) (simp add: patched_def)
  have A: "set (event_attendees s' ?w (ev_id r)) = set ?A"
    using run(4) by (auto simp: event_attendees_def rows_where_def attendee_row_of_def)
  have people: "at_sub ` set ?A = fst ` set (da_attendees a) - {[]}"
    using attendee_map_keys [of "[]" "da_attendees a"] by (simp add: image_image attendee_row_of_def case_prod_beta)
  have R: "{x \<in> set (eventReminders s'). rm_workspaceId x = ?w \<and> rm_eventId x = ev_id r} = set new" using run(5,6) by auto
  have f: "ev_id (?f r) = ev_id r" "ev_createdBySub (?f r) = ev_createdBySub r" "ev_status (?f r) = ''confirmed''" "ev_startsAt (?f r) = due"
      "ev_titleEnc (?f r) = enc" by (simp_all add: patched_def deadline_patch_def or_default_def)
  have "deadline_view ?E s' ?w ?t = sync_deadline now a (deadline_view ?E s ?w ?t)"
    using r due run(2,7) A people R
    by (simp add: deadline_view_def of' row_view_def sync_deadline_def f hydrate1_def dec_def or_default_def Let_def del: append.simps set_map)
  moreover have "deadline_view ?E s' w' t' = deadline_view ?E s w' t'" if "w' \<noteq> ?w \<or> t' \<noteq> ?t" for w' t'
    by (rule other_deadlines_same [OF ok r that run(3)]) (use run(4-6) in \<open>auto simp: patched_def attendee_row_of_def\<close>)
  ultimately show ?thesis using run(1) unfolding mirrored_def by blast
qed

text \<open>The whole effect on a deadline, its owner included.\<close>

lemma deadline_mirrored:
  assumes ready: "deadline_ready C fr a s"
  shows "\<exists>out s'. upsertTaskDeadline C now fr a s = (Inr out, s') \<and> mirrored C now a s s'"
proof -
  have ok: "work_ok s" using ready by (simp add: deadline_ready_def)
  show ?thesis
  proof (cases "deadline_of s (da_workspaceId a) (da_taskId a)"; cases "da_due a")
    assume "deadline_of s (da_workspaceId a) (da_taskId a) = None" "da_due a = None"
    then show ?thesis by (simp add: upsertTaskDeadline_def Let_def act_bind_def act_get_def act_return_def deadline_view_def sync_deadline_def mirrored_def)
  qed (use ready ok in \<open>auto intro: mirrored_create mirrored_off mirrored_update\<close>)
qed

subsection \<open>The contract of repeated calls\<close>

text \<open>What a deadline is to everybody but its owner.\<close>

definition others :: "Deadline \<Rightarrow> Deadline" where
  "others d = d\<lparr>dd_people := dd_people d - {dd_owner d}, dd_reminders := {r \<in> dd_reminders d. fst r \<noteq> dd_owner d}\<rparr>"

definition shared_view :: "crypto_env \<Rightarrow> db \<Rightarrow> uuid \<Rightarrow> uuid \<Rightarrow> Deadline option" where
  "shared_view E s w t = map_option others (deadline_view E s w t)"

text \<open>The specification of the documented contract, keyed on the task and idempotent: what the others see depends on the arguments of the last call alone, and on
  whose deadline it is.\<close>

definition sync_shared :: "ms \<Rightarrow> DeadlineArgs \<Rightarrow> Deadline option \<Rightarrow> Deadline option" where
  "sync_shared now a old = (case da_due a of None \<Rightarrow> map_option (\<lambda>d. d\<lparr>dd_on := False, dd_reminders := {}\<rparr>) old
    | Some due \<Rightarrow> let owner = (case old of None \<Rightarrow> da_createdBySub a | Some d \<Rightarrow> dd_owner d); assigned = fst ` set (da_attendees a) - {[], owner} in
        Some \<lparr>dd_on = True, dd_due = due, dd_title = ''Deadline: '' @ da_title a, dd_owner = owner, dd_people = assigned,
          dd_reminders = reminders_for now due assigned\<rparr>)"

lemma reminders_but: "{r \<in> reminders_for now due us. fst r \<noteq> u} = reminders_for now due (us - {u})"
  by (auto simp: reminders_for_def)

lemma others_sync: "map_option others (sync_deadline now a d) = sync_shared now a (map_option others d)"
proof -
  have but: "insert u (A - {[]}) - {u} = A - {[], u}" "A - {[]} - {u} = A - {[], u}" for u :: string and A by blast+
  show ?thesis by (cases d; cases "da_due a") (simp_all add: sync_deadline_def sync_shared_def others_def reminders_but but Let_def)
qed

lemma sync_shared_absorbs: "sync_shared later a (sync_shared now a d) = sync_shared later a d"
  by (cases d) (auto simp: sync_shared_def Let_def split: option.splits)

text \<open>C22. The calendar mirrors the task, and may be told so repeatedly. Syncing a task's deadline succeeds and is, for everybody but the deadline's owner, exactly
  the step of the specification: no date switches the deadline off and clears its reminders; a date puts it at that date, on, under the title of the task,
  for the people assigned, with a reminder a day and an hour ahead for each of them that still lies in the future. A step of the specification absorbs an
  earlier one with the same arguments, as the operation documents. No other task's deadline, in any workspace, changes, its owner's part included.\<close>

theorem deadline_refines:
  assumes ready: "deadline_ready C fr a s"
  shows "\<exists>out s'. upsertTaskDeadline C now fr a s = (Inr out, s')
    \<and> shared_view (cal_crypto C) s' (da_workspaceId a) (da_taskId a)
        = sync_shared now a (shared_view (cal_crypto C) s (da_workspaceId a) (da_taskId a))
    \<and> sync_shared later a (sync_shared now a d) = sync_shared later a d
    \<and> (\<forall>w' t'. w' \<noteq> da_workspaceId a \<or> t' \<noteq> da_taskId a \<longrightarrow>
        deadline_view (cal_crypto C) s' w' t' = deadline_view (cal_crypto C) s w' t')"
  using deadline_mirrored [OF ready, of now] sync_shared_absorbs [of later a now d]
  by (auto simp: mirrored_def shared_view_def others_sync)

text \<open>The owner's part is not idempotent: the first call puts the owner among the people and reminds them, a second one with the same arguments removes the owner's
  reminders unless the owner is assigned too.\<close>

lemma resync_drops_owner:
  assumes "da_due a = Some due" and "da_createdBySub a \<notin> fst ` set (da_attendees a)" and "now < due - 60 * 60000"
  shows "\<exists>d d'. sync_deadline now a None = Some d \<and> sync_deadline now a (Some d) = Some d'
    \<and> (dd_owner d, due - 60 * 60000) \<in> dd_reminders d \<and> dd_owner d' = dd_owner d \<and> {r \<in> dd_reminders d'. fst r = dd_owner d} = {}"
proof -
  have gone: "{r \<in> reminders_for now due (fst ` set (da_attendees a) - {[]}). fst r = da_createdBySub a} = {}"
    using assms(2) by (force simp: reminders_for_def)
  have "(da_createdBySub a, due - 60 * 60000) \<in> reminders_for now due (insert (da_createdBySub a) us)" for us
    unfolding reminders_for_def using assms(3) by blast
  then show ?thesis using assms(1) gone by (simp add: sync_deadline_def Let_def)
qed

definition demo_deadline :: DeadlineArgs where
  "demo_deadline = \<lparr>da_workspaceId = ''w1'', da_taskId = ''t1'', da_projectId = None, da_title = ''Ship'', da_due = Some 90000000,
     da_timezone = ''UTC'', da_attendees = [(''bob'', Some ''R'')], da_createdBySub = ''alice''\<rparr>"

definition demo_fresh :: fresh where
  "demo_fresh = \<lparr>fr_event = ''e9'', fr_reminder = (\<lambda>i. replicate i (CHR ''r'')), fr_reminder2 = (\<lambda>i. replicate i (CHR ''s'')),
     fr_notif = (\<lambda>i. replicate i (CHR ''n'')), fr_iv = (\<lambda>i. ''i'')\<rparr>"

lemma deadline_ready_demo: "deadline_ready demo_cal_env demo_fresh demo_deadline demo_chat"
  using provisioned_demo gcm_ok_demo
  by (auto simp: deadline_ready_def demo_cal_env_def demo_fresh_def demo_deadline_def demo_chat_def demo_db_def empty_db_def work_ok_defs attendees_home_def
      has_workspace_def demo_workspace_def inj_def replicate_eq_replicate)

theorem deadline_refines_witness:
  "\<exists>out s'. upsertTaskDeadline demo_cal_env 0 demo_fresh demo_deadline demo_chat = (Inr out, s')
     \<and> shared_view demo_env s' ''w1'' ''t1'' = Some \<lparr>dd_on = True, dd_due = 90000000, dd_title = ''Deadline: Ship'', dd_owner = ''alice'',
         dd_people = {''bob''}, dd_reminders = {(''bob'', 3600000), (''bob'', 86400000)}\<rparr>"
proof -
  have none: "shared_view demo_env demo_chat ''w1'' ''t1'' = None"
    by (simp add: shared_view_def deadline_view_def deadline_of_def demo_chat_def demo_db_def empty_db_def)
  have "sync_shared 0 demo_deadline None = Some \<lparr>dd_on = True, dd_due = 90000000, dd_title = ''Deadline: Ship'', dd_owner = ''alice'',
         dd_people = {''bob''}, dd_reminders = {(''bob'', 3600000), (''bob'', 86400000)}\<rparr>"
    by (auto simp: sync_shared_def demo_deadline_def reminders_for_def)
  then show ?thesis using deadline_refines [OF deadline_ready_demo, where now = 0 and later = 0 and d = None] none by (auto simp: demo_cal_env_def demo_deadline_def)
qed

end
