(* ===== verification/Projects.thy ===== *)
theory Projects
  imports Deadlines
begin

text \<open>
  \<^verbatim>\<open>lib/domain/pm.ts\<close>: projects, the task board, RACI assignments and the bridge that mirrors a task's due date to the calendar.
  What an operation sends out is returned. An absent optional text and \<^verbatim>\<open>null\<close>, which the source treats alike in inputs, are both
  \<^verbatim>\<open>None\<close>; in a patch the outer \<^verbatim>\<open>None\<close> is an absent field.
\<close>

datatype TaskStatus = Backlog | Todo | InProgress | InReview | Done

fun status_text :: "TaskStatus \<Rightarrow> string" where
  "status_text Backlog = ''Backlog''"
| "status_text Todo = ''Todo''"
| "status_text InProgress = ''InProgress''"
| "status_text InReview = ''InReview''"
| "status_text Done = ''Done''"

record RaciAssignment =
  rc_sub :: string
  rc_role :: string

record ProjectRow =
  pr_id :: uuid
  pr_name :: string
  pr_status :: string

record TaskRow =
  tv_id :: uuid
  tv_projectId :: "uuid option"
  tv_title :: string
  tv_description :: "string option"
  tv_assigneeSub :: "string option"
  tv_status :: string
  tv_priority :: "string option"
  tv_due :: "ms option"
  tv_ord :: int
  tv_linkedChannelId :: "uuid option"

definition project_view :: "project_row \<Rightarrow> ProjectRow" where
  "project_view p = \<lparr>pr_id = pj_id p, pr_name = pj_name p, pr_status = pj_status p\<rparr>"

definition task_view :: "task_row \<Rightarrow> TaskRow" where
  "task_view r = \<lparr>tv_id = tk_id r, tv_projectId = tk_projectId r, tv_title = tk_title r, tv_description = tk_description r,
     tv_assigneeSub = tk_assigneeSub r, tv_status = tk_status r, tv_priority = tk_priority r, tv_due = tk_due r, tv_ord = tk_ord r,
     tv_linkedChannelId = tk_linkedChannelId r\<rparr>"

definition listProjects :: "uuid \<Rightarrow> (db, ProjectRow list) act" where
  "listProjects w = act_get (\<lambda>s. map project_view (sort_key pj_createdAt (rows_where (\<lambda>p. pj_workspaceId p = w) (projects s))))"

definition createProject :: "ms \<Rightarrow> uuid \<Rightarrow> uuid \<Rightarrow> string \<Rightarrow> (db, ProjectRow) act" where
  "createProject now newId w name = act_bind (insert_project \<lparr>pj_id = newId, pj_workspaceId = w, pj_name = js_trim name,
      pj_status = ''active'', pj_createdAt = now\<rparr>) (\<lambda>p. act_return (project_view p))"

text \<open>The empty project id is falsy: it lists the tasks of every project.\<close>

definition listTasks :: "uuid \<Rightarrow> uuid option \<Rightarrow> (db, TaskRow list) act" where
  "listTasks w projectId = (let P = (\<lambda>t. tk_workspaceId t = w \<and>
        (case projectId of Some p \<Rightarrow> p = [] \<or> tk_projectId t = Some p | None \<Rightarrow> True)) in
     act_get (\<lambda>s. map task_view (sort_key tk_ord (sort_key tk_createdAt (rows_where P (tasks s))))))"

subsection \<open>The bridge to the calendar\<close>

definition task_at :: "db \<Rightarrow> uuid \<Rightarrow> uuid \<Rightarrow> task_row option" where
  "task_at s w t = first_where (\<lambda>x. tk_workspaceId x = w \<and> tk_id x = t) (tasks s)"

definition task_raci :: "db \<Rightarrow> uuid \<Rightarrow> uuid \<Rightarrow> RaciAssignment list" where
  "task_raci s w t = map (\<lambda>r. \<lparr>rc_sub = tr_sub r, rc_role = tr_role r\<rparr>)
     (rows_where (\<lambda>r. tr_workspaceId r = w \<and> tr_taskId r = t) (taskRaci s))"

definition getTaskRaci :: "uuid \<Rightarrow> uuid \<Rightarrow> (db, RaciAssignment list) act" where
  "getTaskRaci w t = act_get (\<lambda>s. task_raci s w t)"

text \<open>Without assignments the assignee stands in as responsible.\<close>

definition effective_raci :: "string option \<Rightarrow> RaciAssignment list \<Rightarrow> RaciAssignment list" where
  "effective_raci assignee raci = (if raci = [] \<and> or_text assignee [] \<noteq> [] then [\<lparr>rc_sub = or_text assignee [], rc_role = ''R''\<rparr>] else raci)"

definition is_system :: "string \<Rightarrow> bool" where
  "is_system u = starts_with ''system:'' u"

definition tz_sub :: "string \<Rightarrow> RaciAssignment list \<Rightarrow> string" where
  "tz_sub actor raci = (if is_system actor then (case raci of [] \<Rightarrow> [] | r # _ \<Rightarrow> rc_sub r) else actor)"

definition deadline_creator :: "string \<Rightarrow> RaciAssignment list \<Rightarrow> string option \<Rightarrow> string" where
  "deadline_creator actor raci assignee = (if is_system actor
     then (case raci of r # _ \<Rightarrow> rc_sub r | [] \<Rightarrow> or_default assignee actor) else actor)"

definition deadline_args :: "db \<Rightarrow> uuid \<Rightarrow> task_row \<Rightarrow> string \<Rightarrow> DeadlineArgs" where
  "deadline_args s w t actor = (let raci = effective_raci (tk_assigneeSub t) (task_raci s w (tk_id t)); u = tz_sub actor raci in
     \<lparr>da_workspaceId = w, da_taskId = tk_id t, da_projectId = tk_projectId t, da_title = tk_title t, da_due = tk_due t,
      da_timezone = (if u = [] then ''UTC'' else case member_at s w u of Some m \<Rightarrow> or_text (mb_timezone m) ''UTC'' | None \<Rightarrow> ''UTC''),
      da_attendees = map (\<lambda>r. (rc_sub r, Some (rc_role r))) raci, da_createdBySub = deadline_creator actor raci (tk_assigneeSub t)\<rparr>)"

definition syncTaskDeadline :: "cal_env \<Rightarrow> ms \<Rightarrow> fresh \<Rightarrow> uuid \<Rightarrow> uuid \<Rightarrow> string \<Rightarrow> (db, outgoing list) act" where
  "syncTaskDeadline C now fr w t actor = act_try
     (act_bind (act_get (\<lambda>s. map_option (\<lambda>x. deadline_args s w x actor) (task_at s w t))) (\<lambda>x. case x of
        None \<Rightarrow> act_return []
      | Some a \<Rightarrow> upsertTaskDeadline C now fr a))
     (\<lambda>_. act_return [])"

subsection \<open>Tasks\<close>

record TaskInput =
  ti_workspaceId :: uuid
  ti_projectId :: "uuid option"
  ti_title :: string
  ti_assigneeSub :: "string option"
  ti_priority :: "string option"
  ti_due :: "ms option"
  ti_actorSub :: "string option"

definition emits :: "(string \<times> NotificationEvent) list \<Rightarrow> outgoing list" where
  "emits = map (\<lambda>(u, e). Emit u e)"

definition notify_assignee :: "ms \<Rightarrow> uuid \<Rightarrow> uuid \<Rightarrow> uuid \<Rightarrow> string option \<Rightarrow> string option \<Rightarrow> (db, outgoing list) act" where
  "notify_assignee now nid w t assignee actor = (if or_text assignee [] \<noteq> [] \<and> or_text actor [] \<noteq> []
     then act_bind (notifyTaskAssigned now nid \<lparr>ta_workspaceId = w, ta_taskId = t, ta_assigneeSub = or_text assignee [], ta_actorSub = or_text actor []\<rparr>)
       (\<lambda>out. act_return (emits out))
     else act_return [])"

definition createTask :: "cal_env \<Rightarrow> ms \<Rightarrow> uuid \<Rightarrow> uuid \<Rightarrow> fresh \<Rightarrow> TaskInput \<Rightarrow> (db, TaskRow \<times> outgoing list) act" where
  "createTask C now newId nid fr i =
     act_bind (insert_task \<lparr>tk_id = newId, tk_workspaceId = ti_workspaceId i, tk_projectId = ti_projectId i, tk_boardId = None, tk_columnId = None,
        tk_title = js_trim (ti_title i), tk_description = None, tk_assigneeSub = ti_assigneeSub i, tk_status = status_text Backlog,
        tk_priority = ti_priority i, tk_due = ti_due i, tk_ord = 0, tk_linkedChannelId = None, tk_createdAt = now\<rparr>) (\<lambda>row.
     act_bind (notify_assignee now nid (ti_workspaceId i) (tk_id row) (ti_assigneeSub i) (ti_actorSub i)) (\<lambda>out1.
     act_bind (if ti_due i = None then act_return []
        else syncTaskDeadline C now fr (ti_workspaceId i) (tk_id row)
          (or_default (ti_actorSub i) (or_default (ti_assigneeSub i) ''system:pm''))) (\<lambda>out2.
     act_return (task_view row, out1 @ out2))))"

definition moveTask :: "uuid \<Rightarrow> uuid \<Rightarrow> TaskStatus \<Rightarrow> (db, unit) act" where
  "moveTask w t st = tbl_update tasks_update (\<lambda>x. tk_workspaceId x = w \<and> tk_id x = t) (\<lambda>x. x\<lparr>tk_status := status_text st\<rparr>)"

record TaskPatch =
  tp_title :: "string option"
  tp_priority :: "string option option"
  tp_assigneeSub :: "string option option"
  tp_due :: "ms option option"

definition or_null :: "string option \<Rightarrow> string option" where
  "or_null x = (if x = Some [] then None else x)"

definition patch_task :: "TaskPatch \<Rightarrow> task_row \<Rightarrow> task_row" where
  "patch_task p r = r\<lparr>tk_title := (case tp_title p of None \<Rightarrow> tk_title r | Some t \<Rightarrow> js_trim t),
     tk_priority := (case tp_priority p of None \<Rightarrow> tk_priority r | Some x \<Rightarrow> or_null x),
     tk_assigneeSub := (case tp_assigneeSub p of None \<Rightarrow> tk_assigneeSub r | Some x \<Rightarrow> or_null x),
     tk_due := or_default (tp_due p) (tk_due r)\<rparr>"

text \<open>The assignee to tell: the one the patch sets, when the task has another or none.\<close>

definition new_assignee :: "db \<Rightarrow> uuid \<Rightarrow> uuid \<Rightarrow> TaskPatch \<Rightarrow> string option" where
  "new_assignee s w t p = (case tp_assigneeSub p of None \<Rightarrow> None | Some x \<Rightarrow>
     (case or_null x of None \<Rightarrow> None
      | Some u \<Rightarrow> if (case task_at s w t of Some r \<Rightarrow> tk_assigneeSub r | None \<Rightarrow> None) \<noteq> Some u then Some u else None))"

definition updateTask :: "cal_env \<Rightarrow> ms \<Rightarrow> uuid \<Rightarrow> fresh \<Rightarrow> uuid \<Rightarrow> uuid \<Rightarrow> TaskPatch \<Rightarrow> string option \<Rightarrow> (db, outgoing list) act" where
  "updateTask C now nid fr w t p actor =
     act_bind (act_get (\<lambda>s. new_assignee s w t p)) (\<lambda>newAssignee.
     if tp_title p = None \<and> tp_priority p = None \<and> tp_assigneeSub p = None \<and> tp_due p = None then act_return []
     else act_bind (tbl_update tasks_update (\<lambda>x. tk_workspaceId x = w \<and> tk_id x = t) (patch_task p)) (\<lambda>_.
       act_bind (notify_assignee now nid w t newAssignee actor) (\<lambda>out1.
       act_bind (if tp_due p \<noteq> None \<or> tp_title p \<noteq> None \<or> tp_assigneeSub p \<noteq> None
         then syncTaskDeadline C now fr w t (or_default actor ''system:pm'') else act_return []) (\<lambda>out2.
       act_return (out1 @ out2)))))"

text \<open>The first assignment of each person counts.\<close>

fun distinct_raci :: "string list \<Rightarrow> RaciAssignment list \<Rightarrow> RaciAssignment list" where
  "distinct_raci known [] = []"
| "distinct_raci known (a # as) = (if rc_sub a = [] \<or> rc_sub a \<in> set known then distinct_raci known as
     else a # distinct_raci (rc_sub a # known) as)"

definition raci_row :: "uuid \<Rightarrow> uuid \<Rightarrow> RaciAssignment \<Rightarrow> task_raci_row" where
  "raci_row w t a = \<lparr>tr_workspaceId = w, tr_taskId = t, tr_sub = rc_sub a, tr_role = rc_role a\<rparr>"

definition setTaskRaci :: "cal_env \<Rightarrow> ms \<Rightarrow> fresh \<Rightarrow> uuid \<Rightarrow> uuid \<Rightarrow> RaciAssignment list \<Rightarrow> string option \<Rightarrow> (db, outgoing list) act" where
  "setTaskRaci C now fr w t assignments actor =
     act_bind (tbl_delete taskRaci_update (\<lambda>r. tr_workspaceId r = w \<and> tr_taskId r = t)) (\<lambda>_.
     let rows = map (raci_row w t) (distinct_raci [] assignments) in
     act_bind (if rows = [] then act_return () else insert_rows insert_raci rows) (\<lambda>_.
     syncTaskDeadline C now fr w t (or_default actor ''system:pm'')))"

definition deleteTask :: "cal_env \<Rightarrow> ms \<Rightarrow> fresh \<Rightarrow> uuid \<Rightarrow> uuid \<Rightarrow> string option \<Rightarrow> (db, outgoing list) act" where
  "deleteTask C now fr w t actor =
     act_bind (act_try (upsertTaskDeadline C now fr \<lparr>da_workspaceId = w, da_taskId = t, da_projectId = None, da_title = [], da_due = None,
        da_timezone = ''UTC'', da_attendees = [], da_createdBySub = or_default actor ''system:pm''\<rparr>) (\<lambda>_. act_return [])) (\<lambda>out.
     act_bind (task_delete (\<lambda>x. tk_workspaceId x = w \<and> tk_id x = t)) (\<lambda>_. act_return out))"

definition deleteProject :: "uuid \<Rightarrow> uuid \<Rightarrow> (db, unit) act" where
  "deleteProject w p =
     act_bind (tbl_update tasks_update (\<lambda>t. tk_workspaceId t = w \<and> tk_projectId t = Some p) (\<lambda>t. t\<lparr>tk_projectId := None\<rparr>)) (\<lambda>_.
     act_bind (act_get (\<lambda>s. map bd_id (rows_where (\<lambda>b. bd_workspaceId b = w \<and> bd_projectId b = Some p) (boards s)))) (\<lambda>boardIds.
     act_bind (if boardIds = [] then act_return () else tbl_delete boardColumns_update (\<lambda>c. bc_boardId c \<in> set boardIds)) (\<lambda>_.
     act_bind (board_delete (\<lambda>b. bd_workspaceId b = w \<and> bd_projectId b = Some p)) (\<lambda>_.
     project_delete (\<lambda>x. pj_workspaceId x = w \<and> pj_id x = p)))))"

subsection \<open>Integrity\<close>

lemma key_fun_eq_ids: "key_fun k rs \<Longrightarrow> x \<in> set rs \<Longrightarrow> y \<in> set rs \<Longrightarrow> k x = k y \<longleftrightarrow> x = y"
  by (auto dest: key_fun_eq)

lemma task_at_row:
  assumes "key_fun tk_id (tasks s)" "r \<in> set (tasks s)" "tk_workspaceId r = w" "tk_id r = t"
  shows "task_at s w t = Some r"
proof -
  have "first_where (\<lambda>x. tk_workspaceId x = w \<and> tk_id x = t) (tasks s) = first_where (\<lambda>x. tk_id x = t) (tasks s)"
    by (rule first_where_cong) (use assms key_fun_eq [OF assms(1)] in auto)
  then show ?thesis using first_where_key [OF assms(1,2,4)] by (simp add: task_at_def)
qed

lemma distinct_raci_distinct: "distinct (map rc_sub (distinct_raci known as)) \<and> rc_sub ` set (distinct_raci known as) \<inter> set known = {}"
  by (induction known as rule: distinct_raci.induct) auto

lemma distinct_raci_subs: "rc_sub ` set (distinct_raci known as) = rc_sub ` set as - insert [] (set known)"
  by (induction known as rule: distinct_raci.induct) auto

lemma syncTaskDeadline_Inr: "\<exists>out. fst (syncTaskDeadline C now fr w t u s) = Inr out"
  by (auto simp: syncTaskDeadline_def act_try_def act_return_def split: prod.splits sum.splits)

lemma raci_row_sel [simp]: "tr_key (raci_row w t a) = (t, rc_sub a)" "tr_taskId (raci_row w t a) = t" "tr_workspaceId (raci_row w t a) = w"
  by (simp_all add: tr_key_def raci_row_def)

lemma insert_raci_rows:
  assumes "has_task s t" "\<And>a. a \<in> set (distinct_raci [] as) \<Longrightarrow> (t, rc_sub a) \<notin> tr_key ` set (taskRaci s)"
  shows "insert_rows insert_raci (map (raci_row w t) (distinct_raci [] as)) s
    = (Inr (), taskRaci_update (\<lambda>rs. rs @ map (raci_row w t) (distinct_raci [] as)) s)"
proof (rule insert_rows_fresh [where k = tr_key and tbl = taskRaci and ok = "\<lambda>r s. has_task s (tr_taskId r)"])
  have "map tr_key (map (raci_row w t) (distinct_raci [] as)) = map (Pair t) (map rc_sub (distinct_raci [] as))"
    by simp
  then show "distinct (map tr_key (map (raci_row w t) (distinct_raci [] as)))"
    using distinct_raci_distinct [of "[]" as] by (metis distinct_map inj_on_def prod.inject)
next
  fix r assume "r \<in> set (map (raci_row w t) (distinct_raci [] as))"
  then obtain a where "r = raci_row w t a" "a \<in> set (distinct_raci [] as)" by auto
  then show "tr_key r \<notin> tr_key ` set (taskRaci s)" using assms(2) [of a] by simp
qed (use assms in \<open>auto simp: insert_raci_def comp_def has_task_def\<close>)

lemma syncTaskDeadline_frames [frame_intros]: "off_calendar f \<Longrightarrow> frames f (syncTaskDeadline C now fr w t u)"
  unfolding syncTaskDeadline_def by (intro frame_intros)

subsection \<open>Assignments of another workspace\<close>

text \<open>Setting one assignment whose key is free.\<close>

lemma setTaskRaci_one:
  assumes t: "has_task s t" and u: "rc_sub a \<noteq> []" and free: "(t, rc_sub a) \<notin> tr_key ` set (taskRaci s)"
  shows "\<exists>out s'. setTaskRaci C now fr w t [a] actor s = (Inr out, s')
     \<and> taskRaci s' = filter (\<lambda>r. \<not> (tr_workspaceId r = w \<and> tr_taskId r = t)) (taskRaci s) @ [raci_row w t a] \<and> tasks s' = tasks s"
proof -
  let ?s1 = "taskRaci_update (filter (\<lambda>r. \<not> (tr_workspaceId r = w \<and> tr_taskId r = t))) s"
  let ?s2 = "taskRaci_update (\<lambda>rs. rs @ [raci_row w t a]) ?s1"
  have one: "distinct_raci [] [a] = [a]" using u by simp
  have "insert_rows insert_raci [raci_row w t a] ?s1 = (Inr (), ?s2)"
    using insert_raci_rows [of ?s1 t "[a]" w] t free unfolding one by (auto simp: has_task_def)
  then have run: "setTaskRaci C now fr w t [a] actor s = syncTaskDeadline C now fr w t (or_default actor ''system:pm'') ?s2"
    using one by (simp add: setTaskRaci_def act_bind_def tbl_delete_def)
  obtain out s' where sync: "syncTaskDeadline C now fr w t (or_default actor ''system:pm'') ?s2 = (Inr out, s')"
    using syncTaskDeadline_Inr [of C now fr w t "or_default actor ''system:pm''" ?s2]
    by (cases "syncTaskDeadline C now fr w t (or_default actor ''system:pm'') ?s2") auto
  have f: "frames (\<lambda>s. (taskRaci s, tasks s)) (syncTaskDeadline C now fr w t (or_default actor ''system:pm''))"
    by (rule syncTaskDeadline_frames) (simp add: off_calendar_def)
  have "taskRaci s' = taskRaci ?s2" "tasks s' = tasks ?s2" using framesD [OF f sync] by simp_all
  then show ?thesis unfolding run using sync by simp
qed

text \<open>Assignments of one workspace can lock another's out. \<^verbatim>\<open>setTaskRaci\<close> does not check that the task belongs to the workspace,
  while the key of an assignment is the task and the person. If workspace \<open>w'\<close> assigns a person to a task of \<open>w\<close>, the call succeeds, and from then
  on \<open>w\<close>, which neither sees nor can delete that row, gets a database error when it assigns the person to its own task, and loses the assignments the
  task had.\<close>

theorem foreign_raci_locks_out:
  assumes t: "has_task s t" and w: "w' \<noteq> w" and u: "rc_sub a \<noteq> []" "rc_sub b = rc_sub a" and free: "(t, rc_sub a) \<notin> tr_key ` set (taskRaci s)"
    and first: "setTaskRaci C now fr w' t [a] actor s = (r1, s1)" and second: "setTaskRaci C now2 fr2 w t [b] actor2 s1 = (r2, s2)"
  shows "\<exists>out. r1 = Inr out \<and> task_raci s1 w t = task_raci s w t \<and> r2 = Inl (DbError ''constraint violation'') \<and> task_raci s2 w t = []"
proof -
  obtain out where one: "r1 = Inr out" "tasks s1 = tasks s"
      "taskRaci s1 = filter (\<lambda>r. \<not> (tr_workspaceId r = w' \<and> tr_taskId r = t)) (taskRaci s) @ [raci_row w' t a]"
    using setTaskRaci_one [OF t u(1) free, of C now fr w' actor] first by auto
  let ?s = "taskRaci_update (filter (\<lambda>r. \<not> (tr_workspaceId r = w \<and> tr_taskId r = t))) s1"
  have "tr_key (raci_row w t b) \<in> tr_key ` set (taskRaci ?s)" using one(3) w u(2) by simp
  then have "insert_rows insert_raci [raci_row w t b] ?s = (Inl (DbError ''constraint violation''), ?s)"
    by (simp add: insert_rows_def act_transaction_def act_bind_def insert_raci_def tbl_insert_def)
  then have "r2 = Inl (DbError ''constraint violation'')" "s2 = ?s"
    using second u by (simp_all add: setTaskRaci_def act_bind_def tbl_delete_def)
  moreover have "rows_where (\<lambda>r. tr_workspaceId r = w \<and> tr_taskId r = t) (taskRaci s1)
      = rows_where (\<lambda>r. tr_workspaceId r = w \<and> tr_taskId r = t) (taskRaci s)"
    using one(3) w by (auto simp: rows_where_def intro: filter_cong [OF refl])
  ultimately show ?thesis using one(1) by (simp add: task_raci_def rows_where_def)
qed

definition demo_task :: "uuid \<Rightarrow> uuid \<Rightarrow> task_row" where
  "demo_task t w = \<lparr>tk_id = t, tk_workspaceId = w, tk_projectId = None, tk_boardId = None, tk_columnId = None, tk_title = ''Ship'',
     tk_description = None, tk_assigneeSub = None, tk_status = ''Todo'', tk_priority = None, tk_due = None, tk_ord = 0,
     tk_linkedChannelId = None, tk_createdAt = 0\<rparr>"

definition demo_board :: db where
  "demo_board = demo_chat\<lparr>tasks := [demo_task ''t1'' ''w1''],
     taskRaci := [\<lparr>tr_workspaceId = ''w1'', tr_taskId = ''t1'', tr_sub = ''carol'', tr_role = ''A''\<rparr>]\<rparr>"

theorem foreign_raci_locks_out_witness:
  "\<exists>out s1 s2. setTaskRaci demo_cal_env 0 demo_fresh ''w2'' ''t1'' [\<lparr>rc_sub = ''bob'', rc_role = ''R''\<rparr>] (Some ''mallory'') demo_board = (Inr out, s1)
     \<and> setTaskRaci demo_cal_env 1 demo_fresh ''w1'' ''t1'' [\<lparr>rc_sub = ''bob'', rc_role = ''A''\<rparr>] (Some ''alice'') s1
         = (Inl (DbError ''constraint violation''), s2)
     \<and> task_raci s1 ''w1'' ''t1'' = [\<lparr>rc_sub = ''carol'', rc_role = ''A''\<rparr>] \<and> task_raci s2 ''w1'' ''t1'' = []"
proof -
  obtain r1 s1 where 1: "setTaskRaci demo_cal_env 0 demo_fresh ''w2'' ''t1'' [\<lparr>rc_sub = ''bob'', rc_role = ''R''\<rparr>] (Some ''mallory'') demo_board = (r1, s1)"
    by fastforce
  obtain r2 s2 where 2: "setTaskRaci demo_cal_env 1 demo_fresh ''w1'' ''t1'' [\<lparr>rc_sub = ''bob'', rc_role = ''A''\<rparr>] (Some ''alice'') s1 = (r2, s2)"
    by fastforce
  have h: "has_task demo_board ''t1''" "(''t1'', rc_sub \<lparr>rc_sub = ''bob'', rc_role = ''R''\<rparr>) \<notin> tr_key ` set (taskRaci demo_board)"
    by (simp_all add: has_task_def demo_board_def demo_task_def tr_key_def)
  have "task_raci demo_board ''w1'' ''t1'' = [\<lparr>rc_sub = ''carol'', rc_role = ''A''\<rparr>]" by (simp add: task_raci_def demo_board_def rows_where_def)
  then show ?thesis using foreign_raci_locks_out [OF h(1) _ _ _ h(2) 1 2] 1 2 by fastforce
qed

subsection \<open>Deleting a project\<close>

lemma upd_where_none: "(\<And>x. P x \<Longrightarrow> \<not> P (f x)) \<Longrightarrow> \<forall>x\<in>set (upd_where P f rs). \<not> P x"
  by (induction rs) auto

text \<open>A task of another workspace keeps a project alive. \<^verbatim>\<open>createTask\<close> accepts any existing project id; once another
  workspace \<open>w'\<close> has filed a task under project \<open>p\<close> of workspace \<open>w\<close>, deleting \<open>p\<close> raises a database error
  and the project stays, although every task of \<open>w\<close> has been taken out of it.\<close>

theorem foreign_task_blocks_project_deletion:
  assumes ws: "has_workspace s w'" and p: "has_project s p" and fresh: "\<not> has_task s newId" and w: "w' \<noteq> w"
    and row: "r \<in> set (projects s)" "pj_id r = p" "pj_workspaceId r = w" and cols: "boards s = []"
    and i: "ti_workspaceId i = w'" "ti_projectId i = Some p" "ti_due i = None"
    and first: "createTask C now newId nid fr i s = (r1, s1)" and second: "deleteProject w p s1 = (r2, s2)"
  shows "(\<exists>v. r1 = Inr v) \<and> r2 = Inl (DbError ''foreign key violation'') \<and> r \<in> set (projects s2)
     \<and> (\<nexists>t. t \<in> set (tasks s2) \<and> tk_workspaceId t = w \<and> tk_projectId t = Some p)"
proof -
  let ?t = "\<lparr>tk_id = newId, tk_workspaceId = w', tk_projectId = Some p, tk_boardId = None, tk_columnId = None,
        tk_title = js_trim (ti_title i), tk_description = None, tk_assigneeSub = ti_assigneeSub i, tk_status = status_text Backlog,
        tk_priority = ti_priority i, tk_due = None, tk_ord = 0, tk_linkedChannelId = None, tk_createdAt = now\<rparr>"
  let ?s = "tasks_update (\<lambda>ts. ts @ [?t]) s"
  let ?n = "notify_assignee now nid w' newId (ti_assigneeSub i) (ti_actorSub i)"
  have fr: "frames (\<lambda>s. (tasks s, projects s, boards s)) ?n"
    unfolding notify_assignee_def notifyTaskAssigned_def Let_def directory_def roster_def insert_notification_def
    by (intro frame_intros frames_tbl_insert) simp_all
  have "\<exists>out. fst (?n ?s) = Inr out"
    by (auto simp: notify_assignee_def notifyTaskAssigned_def act_try_def act_return_def act_bind_def split: prod.splits sum.splits)
  then obtain out t1 where n: "?n ?s = (Inr out, t1)" by (cases "?n ?s") auto
  have "insert_task ?t s = (Inr ?t, ?s)" using ws p fresh by (simp add: insert_task_def tbl_insert_def null_or_def)
  then have "createTask C now newId nid fr i s = (Inr (task_view ?t, out), t1)"
    using n i by (simp add: createTask_def act_bind_def act_return_def)
  then have r1: "r1 = Inr (task_view ?t, out)" and s1: "s1 = t1" using first by simp_all
  have tabs: "tasks s1 = tasks s @ [?t]" "projects s1 = projects s" "boards s1 = []" using framesD [OF fr n] s1 cols by simp_all
  let ?s2 = "tasks_update (upd_where (\<lambda>t. tk_workspaceId t = w \<and> tk_projectId t = Some p) (\<lambda>t. t\<lparr>tk_projectId := None\<rparr>)) s1"
  have "?t \<in> set (tasks ?s2)" using tabs(1) w by simp
  then have "\<exists>t\<in>set (tasks ?s2). tk_projectId t = Some p" by (intro bexI [of _ ?t]) simp_all
  then have "\<exists>r\<in>set (projects s1). pj_id r = p \<and> pj_workspaceId r = w \<and> (\<exists>t\<in>set (tasks ?s2). tk_projectId t = Some p)"
    using row tabs(2) by (intro bexI [of _ r] conjI) simp_all
  then have "deleteProject w p s1 = (Inl (DbError ''foreign key violation''), boards_update (filter (\<lambda>b. \<not> (bd_workspaceId b = w \<and> bd_projectId b = Some p))) ?s2)"
    using tabs(3) by (simp add: deleteProject_def act_bind_def tbl_update_def act_get_def act_return_def rows_where_def board_delete_def restrict_delete_def
        tbl_delete_def project_delete_def)
  then have "r2 = Inl (DbError ''foreign key violation'')" "projects s2 = projects s1" "tasks s2 = tasks ?s2" using second by simp_all
  moreover have "\<forall>t\<in>set (tasks ?s2). \<not> (tk_workspaceId t = w \<and> tk_projectId t = Some p)" 
    using upd_where_none [of "\<lambda>t. tk_workspaceId t = w \<and> tk_projectId t = Some p" "\<lambda>t. t\<lparr>tk_projectId := None\<rparr>" "tasks s1"] by simp
  ultimately show ?thesis using r1 row(1) tabs(2) by metis
qed

definition demo_projects :: db where
  "demo_projects = demo_chat\<lparr>workspaces := [demo_workspace, demo_workspace\<lparr>ws_id := ''w2'', ws_slug := ''two''\<rparr>],
     projects := [\<lparr>pj_id = ''p1'', pj_workspaceId = ''w1'', pj_name = ''Launch'', pj_status = ''active'', pj_createdAt = 0\<rparr>],
     tasks := [demo_task ''t1'' ''w1''\<lparr>tk_projectId := Some ''p1''\<rparr>]\<rparr>"

definition demo_foreign_task :: TaskInput where
  "demo_foreign_task = \<lparr>ti_workspaceId = ''w2'', ti_projectId = Some ''p1'', ti_title = ''Mine'', ti_assigneeSub = None, ti_priority = None,
     ti_due = None, ti_actorSub = Some ''mallory''\<rparr>"

theorem foreign_task_blocks_project_deletion_witness:
  "\<exists>v s1 s2. createTask demo_cal_env 0 ''t9'' ''n9'' demo_fresh demo_foreign_task demo_projects = (Inr v, s1)
     \<and> deleteProject ''w1'' ''p1'' s1 = (Inl (DbError ''foreign key violation''), s2) \<and> has_project s2 ''p1''"
proof -
  obtain r1 s1 where 1: "createTask demo_cal_env 0 ''t9'' ''n9'' demo_fresh demo_foreign_task demo_projects = (r1, s1)" by fastforce
  obtain r2 s2 where 2: "deleteProject ''w1'' ''p1'' s1 = (r2, s2)" by fastforce
  let ?p = "\<lparr>pj_id = ''p1'', pj_workspaceId = ''w1'', pj_name = ''Launch'', pj_status = ''active'', pj_createdAt = 0\<rparr>"
  have h: "has_workspace demo_projects ''w2''" "has_project demo_projects ''p1''" "\<not> has_task demo_projects ''t9''" "?p \<in> set (projects demo_projects)"
      "boards demo_projects = []"
    by (simp_all add: has_workspace_def has_project_def has_task_def demo_projects_def demo_task_def demo_chat_def demo_db_def empty_db_def)
  have i: "ti_workspaceId demo_foreign_task = ''w2''" "ti_projectId demo_foreign_task = Some ''p1''" "ti_due demo_foreign_task = None"
    by (simp_all add: demo_foreign_task_def)
  have "(\<exists>v. r1 = Inr v) \<and> r2 = Inl (DbError ''foreign key violation'') \<and> ?p \<in> set (projects s2)"
    using foreign_task_blocks_project_deletion [OF h(1-3) _ h(4) _ _ h(5) i 1 2] by simp
  then show ?thesis using 1 2 by (force simp: has_project_def)
qed

end
