(* ===== verification/Import_Engine.thy ===== *)
theory Import_Engine
  imports Tables Projects
begin

text \<open>
  \<^verbatim>\<open>lib/domain/import-engine.ts\<close>: stored column mappings, one row resolver that drives both the preview and the real run through a table of
  operations (\<open>Upserter\<close>), and resumable import jobs. The real operations run on the database together with the dedupe maps, the field cache, the
  task project and the number of the next random draw; the dry ones on the maps, the counts and a counter for synthetic ids. The theorems state
  that the preview predicts the run, and where it does not.
\<close>

definition IMPORT_SLICE :: int where "IMPORT_SLICE = 200"

subsection \<open>Stored mappings\<close>

definition insert_import_mapping :: "import_mapping_row \<Rightarrow> (db, import_mapping_row) act" where
  "insert_import_mapping r = tbl_insert (\<lambda>s. im_id r \<notin> im_id ` set (importMappings s)
     \<and> (im_workspaceId r, im_sheetId r) \<notin> (\<lambda>m. (im_workspaceId m, im_sheetId m)) ` set (importMappings s)
     \<and> has_workspace s (im_workspaceId r) \<and> has_sheet s (im_sheetId r)) importMappings_update r"

definition insert_import_job :: "import_job_row \<Rightarrow> (db, import_job_row) act" where
  "insert_import_job r = tbl_insert (\<lambda>s. ij_id r \<notin> ij_id ` set (importJobs s) \<and> has_workspace s (ij_workspaceId r)
     \<and> has_sheet s (ij_sheetId r) \<and> null_or (\<lambda>m. m \<in> im_id ` set (importMappings s)) (ij_mappingId r)) importJobs_update r"

definition mapping_at :: "db \<Rightarrow> uuid \<Rightarrow> uuid \<Rightarrow> import_mapping_row option" where
  "mapping_at s w i = first_where (\<lambda>m. im_workspaceId m = w \<and> im_sheetId m = i) (importMappings s)"

record Mapping =
  mn_id :: uuid
  mn_spec :: MappingSpec
  mn_approved :: bool

definition getMapping :: "uuid \<Rightarrow> uuid \<Rightarrow> (db, Mapping option) act" where
  "getMapping w i = act_get (\<lambda>s. map_option (\<lambda>m. \<lparr>mn_id = im_id m, mn_spec = im_spec m, mn_approved = im_approved m\<rparr>) (mapping_at s w i))"

text \<open>\<^verbatim>\<open>insert ... on conflict (workspace_id, sheet_id) do update\<close>; \<open>approved\<close> is overwritten only when it is passed.\<close>

definition saveMapping :: "ms \<Rightarrow> uuid \<Rightarrow> uuid \<Rightarrow> uuid \<Rightarrow> MappingSpec \<Rightarrow> string \<Rightarrow> bool option \<Rightarrow> (db, uuid) act" where
  "saveMapping now newId w i spec u approved = act_bind (act_get (\<lambda>s. mapping_at s w i)) (\<lambda>conflict. case conflict of
       Some m \<Rightarrow> act_bind (tbl_update importMappings_update (\<lambda>x. im_workspaceId x = w \<and> im_sheetId x = i)
          (\<lambda>x. x\<lparr>im_spec := spec, im_updatedAt := now, im_approved := or_default approved (im_approved x)\<rparr>)) (\<lambda>_. act_return (im_id m))
     | None \<Rightarrow> act_bind (insert_import_mapping \<lparr>im_id = newId, im_workspaceId = w, im_sheetId = i, im_spec = spec,
          im_approved = or_default approved False, im_createdBySub = u, im_createdAt = now, im_updatedAt = now\<rparr>) (\<lambda>m. act_return (im_id m)))"

definition col_type :: "string \<Rightarrow> ColType" where
  "col_type t = (case first_where (\<lambda>c. type_name c = t) [TNumber, TCurrency, TDate, TEmail, TPhone, TUrl, TBoolean, TSelect] of Some c \<Rightarrow> c | None \<Rightarrow> TText)"

definition parsed_column :: "ColumnProfile \<Rightarrow> ParsedColumn" where
  "parsed_column c = \<lparr>pcol_name = cp_name c, pcol_type = col_type (cp_type c), pcol_sensitive = cp_sensitive c, pcol_nullFrac = cp_nullFrac c,
     pcol_samples = cp_samples c\<rparr>"

text \<open>The mapping and whether it was inferred just now; \<open>None\<close> when the sheet does not exist.\<close>

definition ensureMapping :: "ms \<Rightarrow> uuid \<Rightarrow> uuid \<Rightarrow> uuid \<Rightarrow> string \<Rightarrow> (db, (Mapping \<times> bool) option) act" where
  "ensureMapping now newId w i u = act_bind (getMapping w i) (\<lambda>existing. case existing of
       Some m \<Rightarrow> act_return (Some (m, False))
     | None \<Rightarrow> act_bind (getSheetSchema w i) (\<lambda>schema. case schema of
         None \<Rightarrow> act_return None
       | Some sc \<Rightarrow> (let spec = suggestMapping (map parsed_column (sz_columns sc)) in
           act_bind (saveMapping now newId w i spec u None) (\<lambda>mid.
           act_return (Some (\<lparr>mn_id = mid, mn_spec = spec, mn_approved = False\<rparr>, True))))))"

definition approveMapping :: "ms \<Rightarrow> uuid \<Rightarrow> uuid \<Rightarrow> (db, unit) act" where
  "approveMapping now w mid = tbl_update importMappings_update (\<lambda>m. im_workspaceId m = w \<and> im_id m = mid)
     (\<lambda>m. m\<lparr>im_approved := True, im_updatedAt := now\<rparr>)"

subsection \<open>Rows\<close>

record LoadedRow =
  ld_id :: uuid
  ld_confidence :: "decimal option"
  ld_vals :: RowVals

definition loaded :: "import_env \<Rightarrow> uuid \<Rightarrow> import_row_row \<Rightarrow> LoadedRow" where
  "loaded I w r = \<lparr>ld_id = iw_id r, ld_confidence = iw_confidence r, ld_vals = overlay (\<lambda>_ v. v) (decrypted I w r) (iw_cells r)\<rparr>"

definition sheet_rows :: "db \<Rightarrow> uuid \<Rightarrow> uuid \<Rightarrow> import_row_row list" where
  "sheet_rows s w i = sort_key iw_rowIndex (rows_where (\<lambda>r. iw_workspaceId r = w \<and> iw_sheetId r = i) (importRows s))"

definition loadRows :: "import_env \<Rightarrow> uuid \<Rightarrow> uuid \<Rightarrow> int \<Rightarrow> int \<Rightarrow> db \<Rightarrow> LoadedRow list" where
  "loadRows I w i off n s = map (loaded I w) (take (nat n) (drop (nat off) (sheet_rows s w i)))"

definition heldByConfidence :: "decimal option \<Rightarrow> decimal option \<Rightarrow> bool" where
  "heldByConfidence least conf = (case (least, conf) of (Some m, Some c) \<Rightarrow> dec_less c m | _ \<Rightarrow> False)"

definition setRowStatus :: "uuid \<Rightarrow> string \<Rightarrow> (db, unit) act" where
  "setRowStatus i st = tbl_update importRows_update (\<lambda>r. iw_id r = i) (\<lambda>r. r\<lparr>iw_status := st\<rparr>)"

subsection \<open>The dedupe maps\<close>

record ExistingMaps =
  em_accByDomain :: "string \<Rightarrow> uuid option"
  em_accByName :: "string \<Rightarrow> uuid option"
  em_contactByEmailKey :: "string \<Rightarrow> uuid option"
  em_contactByNameAcct :: "string \<Rightarrow> uuid option"
  em_dealByAcctName :: "string \<Rightarrow> uuid option"

definition dealNorm :: "string \<Rightarrow> string" where
  "dealNorm s = drop_trailing trailing_punctuation (collapse_spaces (CHR '' '') (js_trim (js_lower s)))"

definition contact_key :: "string \<Rightarrow> uuid option \<Rightarrow> string" where
  "contact_key name account = js_lower name @ ''|'' @ or_empty account"

definition deal_key :: "uuid option \<Rightarrow> string \<Rightarrow> string" where
  "deal_key account name = or_empty account @ ''|'' @ dealNorm name"

text \<open>Later rows overwrite earlier ones, as \<^verbatim>\<open>Map.set\<close> does.\<close>

definition loadExisting :: "uuid \<Rightarrow> db \<Rightarrow> ExistingMaps" where
  "loadExisting w s = (let accs = rows_where (\<lambda>a. acc_workspaceId a = w) (accounts s); cts = rows_where (\<lambda>c. ct_workspaceId c = w) (contacts s);
       dls = rows_where (\<lambda>d. dl_workspaceId d = w) (deals s) in
     \<lparr>em_accByDomain = map_of (rev (map (\<lambda>a. (js_lower (or_empty (acc_domain a)), acc_id a)) (filter (\<lambda>a. truthy (acc_domain a)) accs))),
      em_accByName = map_of (rev (map (\<lambda>a. (js_lower (acc_name a), acc_id a)) accs)),
      em_contactByEmailKey = map_of (rev (map (\<lambda>c. (or_empty (ct_emailKey c), ct_id c)) (filter (\<lambda>c. truthy (ct_emailKey c)) cts))),
      em_contactByNameAcct = map_of (rev (map (\<lambda>c. (contact_key (ct_name c) (ct_accountId c), ct_id c)) cts)),
      em_dealByAcctName = map_of (rev (map (\<lambda>d. (deal_key (dl_accountId d) (dl_name d), dl_id d)) dls))\<rparr>)"

subsection \<open>The operations of a run\<close>

text \<open>\<open>up_account name domain\<close> and \<open>up_contact name title email account\<close> return the id and whether it was created.\<close>

record 's Upserter =
  up_account :: "string option \<Rightarrow> string option \<Rightarrow> ('s, (uuid \<times> bool) option) act"
  up_contact :: "string \<Rightarrow> string option \<Rightarrow> string option \<Rightarrow> uuid option \<Rightarrow> ('s, uuid \<times> bool) act"
  up_deal :: "string \<Rightarrow> int \<Rightarrow> uuid option \<Rightarrow> ('s, unit) act"
  up_task :: "string \<Rightarrow> string option \<Rightarrow> ('s, unit) act"
  up_custom :: "CrmEntity \<Rightarrow> uuid \<Rightarrow> string \<Rightarrow> string \<Rightarrow> string \<Rightarrow> string \<Rightarrow> ('s, unit) act"

text \<open>Random ids and initialisation vectors, by the number of the draw.\<close>

record import_draws =
  dw_id :: "nat \<Rightarrow> uuid"
  dw_activity :: "nat \<Rightarrow> uuid"
  dw_iv :: "nat \<Rightarrow> string"
  dw_event :: "nat \<Rightarrow> fresh"

record real_state =
  rl_db :: db
  rl_maps :: ExistingMaps
  rl_defs :: "CrmEntity \<Rightarrow> (string \<Rightarrow> uuid option) option"
  rl_project :: "uuid option"
  rl_n :: nat

definition on_db :: "(db, 'a) act \<Rightarrow> (real_state, 'a) act" where
  "on_db m st = (case m (rl_db st) of (r, s) \<Rightarrow> (r, st\<lparr>rl_db := s\<rparr>))"

definition set_state :: "('s \<Rightarrow> 's) \<Rightarrow> ('s, unit) act" where
  "set_state f st = (Inr (), f st)"

definition draw :: "(real_state, nat) act" where
  "draw st = (Inr (rl_n st), st\<lparr>rl_n := rl_n st + 1\<rparr>)"

definition put_key :: "string \<Rightarrow> uuid \<Rightarrow> (string \<Rightarrow> uuid option) \<Rightarrow> string \<Rightarrow> uuid option" where
  "put_key k i m = (if k = [] then m else m(k \<mapsto> i))"

text \<open>\<^verbatim>\<open>x?.toLowerCase() || null\<close>; the empty string stands for \<^verbatim>\<open>null\<close>.\<close>

definition lower_key :: "string option \<Rightarrow> string" where
  "lower_key x = js_lower (or_empty x)"

text \<open>The account the maps already hold, and the maps once account \<open>i\<close> exists; the same for contacts.\<close>

definition known_account :: "MappingSpec \<Rightarrow> ExistingMaps \<Rightarrow> string \<Rightarrow> string \<Rightarrow> uuid option" where
  "known_account spec m dkey nkey =
     (if mp_dedupeAccount spec = ''domain'' \<and> dkey \<noteq> [] \<and> em_accByDomain m dkey \<noteq> None then em_accByDomain m dkey
      else if nkey \<noteq> [] then em_accByName m nkey else None)"

definition note_account :: "string \<Rightarrow> string \<Rightarrow> uuid \<Rightarrow> ExistingMaps \<Rightarrow> ExistingMaps" where
  "note_account dkey nkey i m = m\<lparr>em_accByDomain := put_key dkey i (em_accByDomain m), em_accByName := put_key nkey i (em_accByName m)\<rparr>"

definition known_contact :: "MappingSpec \<Rightarrow> ExistingMaps \<Rightarrow> string \<Rightarrow> string \<Rightarrow> uuid option" where
  "known_contact spec m ekey nkey =
     (if mp_dedupeContact spec = ''email'' then (if ekey \<noteq> [] then em_contactByEmailKey m ekey else None) else em_contactByNameAcct m nkey)"

definition note_contact :: "string \<Rightarrow> string \<Rightarrow> uuid \<Rightarrow> ExistingMaps \<Rightarrow> ExistingMaps" where
  "note_contact ekey nkey i m = m\<lparr>em_contactByEmailKey := put_key ekey i (em_contactByEmailKey m),
     em_contactByNameAcct := (em_contactByNameAcct m)(nkey \<mapsto> i)\<rparr>"

definition email_index :: "crypto_env \<Rightarrow> uuid \<Rightarrow> string option \<Rightarrow> err + string" where
  "email_index E w mail = (if truthy mail then blindIndex E w ''email'' (js_lower (js_trim (or_empty mail))) else Inr [])"

subsection \<open>The real operations\<close>

definition SENSITIVE_KEYS :: "string list" where
  "SENSITIVE_KEYS = [''addr'', ''street'', ''zip'', ''ssn'', ''dob'']"

definition sensitive_key :: "string \<Rightarrow> bool" where
  "sensitive_key k \<longleftrightarrow> list_ex (\<lambda>p. re_test_i (rstr p) k) SENSITIVE_KEYS"

definition field_type_of :: "string \<Rightarrow> CrmFieldType" where
  "field_type_of t = (case first_where (\<lambda>f. field_type_name f = t) [FText, FLongtext, FNumber, FCurrency, FDate, FSelect, FMultiselect, FBoolean, FUrl,
     FEmail, FPhone, FUser] of Some f \<Rightarrow> f | None \<Rightarrow> FText)"

definition cached_defs :: "uuid \<Rightarrow> CrmEntity \<Rightarrow> (real_state, string \<Rightarrow> uuid option) act" where
  "cached_defs w e = act_bind (act_get (\<lambda>st. rl_defs st e)) (\<lambda>c. case c of Some m \<Rightarrow> act_return m
     | None \<Rightarrow> act_bind (on_db (listFieldDefs w e True)) (\<lambda>defs. let m = map_of (rev (map (\<lambda>d. (df_key d, df_id d)) defs)) in
         act_bind (set_state (\<lambda>st. st\<lparr>rl_defs := (rl_defs st)(e \<mapsto> m)\<rparr>)) (\<lambda>_. act_return m)))"

definition fieldId :: "crypto_env \<Rightarrow> import_draws \<Rightarrow> ms \<Rightarrow> uuid \<Rightarrow> string \<Rightarrow> CrmEntity \<Rightarrow> string \<Rightarrow> string \<Rightarrow> string \<Rightarrow> (real_state, uuid) act" where
  "fieldId E dr now w u e key label type = act_bind (cached_defs w e) (\<lambda>cache. case cache key of Some i \<Rightarrow> act_return i
     | None \<Rightarrow> act_bind draw (\<lambda>n.
         act_bind (on_db (createFieldDef E now (dw_id dr n) \<lparr>cf_workspaceId = w, cf_entity = e, cf_key = key, cf_label = label,
            cf_type = field_type_of type, cf_options = None, cf_required = None,
            cf_sensitive = Some (type = ''email'' \<or> type = ''phone'' \<or> sensitive_key key), cf_ord = None, cf_createdBy = u\<rparr>)) (\<lambda>def.
         act_bind (set_state (\<lambda>st. st\<lparr>rl_defs := (rl_defs st)(e \<mapsto> cache(key \<mapsto> df_id def))\<rparr>)) (\<lambda>_. act_return (df_id def)))))"

definition real_account :: "import_draws \<Rightarrow> ms \<Rightarrow> uuid \<Rightarrow> string \<Rightarrow> MappingSpec \<Rightarrow> string option \<Rightarrow> string option
    \<Rightarrow> (real_state, (uuid \<times> bool) option) act" where
  "real_account dr now w u spec name domain = (let dkey = lower_key domain; nkey = lower_key name in
     act_bind (act_get (\<lambda>st. known_account spec (rl_maps st) dkey nkey)) (\<lambda>known. case known of Some i \<Rightarrow> act_return (Some (i, False))
     | None \<Rightarrow> if \<not> truthy name \<and> \<not> truthy domain then act_return None
       else act_bind draw (\<lambda>n.
         act_bind (on_db (createAccount now (dw_id dr n) (dw_activity dr n) w (if truthy name then or_empty name else or_empty domain) domain u)) (\<lambda>row.
         act_bind (set_state (\<lambda>st. st\<lparr>rl_maps := note_account dkey nkey (dw_id dr n) (rl_maps st)\<rparr>)) (\<lambda>_.
         act_return (Some (dw_id dr n, True)))))))"

definition real_contact :: "crypto_env \<Rightarrow> import_draws \<Rightarrow> ms \<Rightarrow> uuid \<Rightarrow> string \<Rightarrow> MappingSpec \<Rightarrow> string \<Rightarrow> string option \<Rightarrow> string option
    \<Rightarrow> uuid option \<Rightarrow> (real_state, uuid \<times> bool) act" where
  "real_contact E dr now w u spec name title mail account = act_bind (act_lift (email_index E w mail)) (\<lambda>ekey. let nkey = contact_key name account in
     act_bind (act_get (\<lambda>st. known_contact spec (rl_maps st) ekey nkey)) (\<lambda>known. case known of Some i \<Rightarrow> act_return (i, False)
     | None \<Rightarrow> act_bind draw (\<lambda>n.
         act_bind (on_db (createContact E now (dw_id dr n) (dw_activity dr n) (dw_iv dr n) \<lparr>nc_workspaceId = w, nc_name = name, nc_title = title,
            nc_accountId = account, nc_ownerSub = u, nc_email = mail\<rparr>)) (\<lambda>row.
         act_bind (set_state (\<lambda>st. st\<lparr>rl_maps := note_contact ekey nkey (dw_id dr n) (rl_maps st)\<rparr>)) (\<lambda>_. act_return (dw_id dr n, True))))))"

definition real_deal :: "import_draws \<Rightarrow> ms \<Rightarrow> uuid \<Rightarrow> string \<Rightarrow> string \<Rightarrow> int \<Rightarrow> uuid option \<Rightarrow> (real_state, unit) act" where
  "real_deal dr now w u name value account = (if \<not> truthy account then act_return () else let key = deal_key account name in
     act_bind (act_get (\<lambda>st. em_dealByAcctName (rl_maps st) key)) (\<lambda>known. if known \<noteq> None then act_return ()
     else act_bind draw (\<lambda>n.
       act_bind (on_db (createDeal now (dw_id dr n) (dw_activity dr n) \<lparr>cd_workspaceId = w, cd_accountId = or_empty account, cd_name = name,
          cd_valueMinor = value, cd_ownerSub = u\<rparr>)) (\<lambda>row.
       set_state (\<lambda>st. st\<lparr>rl_maps := (rl_maps st)\<lparr>em_dealByAcctName := (em_dealByAcctName (rl_maps st))(key \<mapsto> dw_id dr n)\<rparr>\<rparr>)))))"

definition task_project :: "import_draws \<Rightarrow> ms \<Rightarrow> uuid \<Rightarrow> MappingSpec \<Rightarrow> (real_state, uuid) act" where
  "task_project dr now w spec = act_bind (act_get rl_project) (\<lambda>p. case p of Some i \<Rightarrow> act_return i
     | None \<Rightarrow> (let pname = (case mp_createTasks spec of Some (Some x) \<Rightarrow> if x \<noteq> [] then x else ''Imported'' | _ \<Rightarrow> ''Imported'') in
         act_bind draw (\<lambda>n. act_bind (on_db (createProject now (dw_id dr n) w pname)) (\<lambda>proj.
         act_bind (set_state (\<lambda>st. st\<lparr>rl_project := Some (dw_id dr n)\<rparr>)) (\<lambda>_. act_return (dw_id dr n))))))"

definition real_task :: "cal_env \<Rightarrow> import_draws \<Rightarrow> ms \<Rightarrow> uuid \<Rightarrow> MappingSpec \<Rightarrow> string \<Rightarrow> string option \<Rightarrow> (real_state, unit) act" where
  "real_task C dr now w spec title priority = act_bind (task_project dr now w spec) (\<lambda>project. act_bind draw (\<lambda>n.
     act_bind (on_db (createTask C now (dw_id dr n) (dw_activity dr n) (dw_event dr n) \<lparr>ti_workspaceId = w, ti_projectId = Some project,
        ti_title = title, ti_assigneeSub = None, ti_priority = priority, ti_due = None, ti_actorSub = None\<rparr>)) (\<lambda>_. act_return ())))"

definition real_custom :: "import_env \<Rightarrow> import_draws \<Rightarrow> ms \<Rightarrow> uuid \<Rightarrow> string \<Rightarrow> CrmEntity \<Rightarrow> uuid \<Rightarrow> string \<Rightarrow> string \<Rightarrow> string \<Rightarrow> string
    \<Rightarrow> (real_state, unit) act" where
  "real_custom I dr now w u e record_id key label type value = act_bind (fieldId (ie_crypto I) dr now w u e key label type) (\<lambda>fid. act_bind draw (\<lambda>n.
     on_db (setFieldValue (ie_crm I) now (dw_id dr n) (dw_activity dr n) (dw_iv dr n) \<lparr>sf_workspaceId = w, sf_entity = e, sf_recordId = record_id,
       sf_fieldId = fid, sf_raw = value, sf_bySub = u, sf_byAgent = Some True\<rparr>)))"

definition realUpserter :: "import_env \<Rightarrow> cal_env \<Rightarrow> import_draws \<Rightarrow> ms \<Rightarrow> uuid \<Rightarrow> string \<Rightarrow> MappingSpec \<Rightarrow> real_state Upserter" where
  "realUpserter I C dr now w u spec = \<lparr>up_account = real_account dr now w u spec, up_contact = real_contact (ie_crypto I) dr now w u spec,
     up_deal = real_deal dr now w u, up_task = real_task C dr now w spec, up_custom = real_custom I dr now w u\<rparr>"

subsection \<open>The dry operations\<close>

record dry_state =
  dy_maps :: ExistingMaps
  dy_counts :: PreviewCounts
  dy_n :: nat

definition dry_prefix :: string where "dry_prefix = ''dry:''"

definition synth :: "(dry_state, uuid) act" where
  "synth st = (Inr (dry_prefix @ digits_of (dy_n st + 1)), st\<lparr>dy_n := dy_n st + 1\<rparr>)"

definition bump :: "(PreviewCounts \<Rightarrow> PreviewCounts) \<Rightarrow> (dry_state, unit) act" where
  "bump f = set_state (\<lambda>st. st\<lparr>dy_counts := f (dy_counts st)\<rparr>)"

definition dry_account :: "MappingSpec \<Rightarrow> string option \<Rightarrow> string option \<Rightarrow> (dry_state, (uuid \<times> bool) option) act" where
  "dry_account spec name domain = (let dkey = lower_key domain; nkey = lower_key name in
     act_bind (act_get (\<lambda>st. known_account spec (dy_maps st) dkey nkey)) (\<lambda>known. case known of Some i \<Rightarrow> act_return (Some (i, False))
     | None \<Rightarrow> if \<not> truthy name \<and> \<not> truthy domain then act_return None
       else act_bind synth (\<lambda>i.
         act_bind (set_state (\<lambda>st. st\<lparr>dy_maps := note_account dkey nkey i (dy_maps st)\<rparr>)) (\<lambda>_.
         act_bind (bump (\<lambda>c. c\<lparr>pc_newAccounts := pc_newAccounts c + 1\<rparr>)) (\<lambda>_. act_return (Some (i, True)))))))"

definition dry_contact :: "crypto_env \<Rightarrow> MappingSpec \<Rightarrow> string \<Rightarrow> string option \<Rightarrow> string option \<Rightarrow> uuid option \<Rightarrow> (dry_state, uuid \<times> bool) act" where
  "dry_contact E spec name title mail account = act_bind (act_lift (email_index E ''preview'' mail)) (\<lambda>ekey. let nkey = contact_key name account in
     act_bind (act_get (\<lambda>st. known_contact spec (dy_maps st) ekey nkey)) (\<lambda>known. case known of Some i \<Rightarrow> act_return (i, False)
     | None \<Rightarrow> act_bind synth (\<lambda>i.
         act_bind (set_state (\<lambda>st. st\<lparr>dy_maps := note_contact ekey nkey i (dy_maps st)\<rparr>)) (\<lambda>_.
         act_bind (bump (\<lambda>c. c\<lparr>pc_newContacts := pc_newContacts c + 1\<rparr>)) (\<lambda>_. act_return (i, True))))))"

definition dry_deal :: "string \<Rightarrow> int \<Rightarrow> uuid option \<Rightarrow> (dry_state, unit) act" where
  "dry_deal name value account = (if \<not> truthy account then act_return () else let key = deal_key account name in
     act_bind (act_get (\<lambda>st. em_dealByAcctName (dy_maps st) key)) (\<lambda>known. if known \<noteq> None then act_return ()
     else act_bind (set_state (\<lambda>st. st\<lparr>dy_maps := (dy_maps st)\<lparr>em_dealByAcctName := (em_dealByAcctName (dy_maps st))(key \<mapsto> ''dry:deal:'' @ key)\<rparr>\<rparr>))
       (\<lambda>_. bump (\<lambda>c. c\<lparr>pc_newDeals := pc_newDeals c + 1\<rparr>))))"

definition dry_task :: "string \<Rightarrow> string option \<Rightarrow> (dry_state, unit) act" where
  "dry_task title priority = bump (\<lambda>c. c\<lparr>pc_newTasks := pc_newTasks c + 1\<rparr>)"

definition dryUpserter :: "crypto_env \<Rightarrow> MappingSpec \<Rightarrow> dry_state Upserter" where
  "dryUpserter E spec = \<lparr>up_account = dry_account spec, up_contact = dry_contact E spec, up_deal = dry_deal, up_task = dry_task,
     up_custom = (\<lambda>_ _ _ _ _ _. act_return ())\<rparr>"

subsection \<open>The shared resolver\<close>

datatype Outcome = RowCreated | RowUpdated | RowHeld

fun first_value :: "RowVals \<Rightarrow> string list \<Rightarrow> string" where
  "first_value vals [] = []"
| "first_value vals (c # cs) = (case map_of vals c of None \<Rightarrow> first_value vals cs
     | Some v \<Rightarrow> if js_trim v \<noteq> [] then js_trim v else first_value vals cs)"

text \<open>\<^verbatim>\<open>parseFloat\<close> reads the longest numeric beginning; \<^verbatim>\<open>Math.round\<close> of the hundredfold, half up.\<close>

definition parseMoneyMinor :: "string \<Rightarrow> int" where
  "parseMoneyMinor s = (let t = filter (\<lambda>c. digit c \<or> c = CHR ''.'' \<or> c = CHR ''-'') s; neg = starts_with ''-'' t;
       body = (if neg then drop 1 t else t); whole_part = takeWhile digit body; rest = dropWhile digit body;
       frac = (if starts_with ''.'' rest then takeWhile digit (drop 1 rest) else []);
       n = int (foldl (\<lambda>a c. 10 * a + (of_char c - 48)) 0 (whole_part @ frac)) in
     (200 * (if neg then - n else n) + 10 ^ length frac) div (2 * 10 ^ length frac))"

definition contact_name :: "MappingSpec \<Rightarrow> RowVals \<Rightarrow> string" where
  "contact_name spec vals = (let std = (\<lambda>t. first_value vals (columnsFor spec t));
       both = js_trim (js_join '' '' (filter (\<lambda>x. x \<noteq> []) [std ''contact.firstName'', std ''contact.lastName''])) in
     if std ''contact.name'' \<noteq> [] then std ''contact.name'' else if both \<noteq> [] then both
     else if std ''contact.email'' \<noteq> [] then hd (js_split (CHR ''@'') (std ''contact.email'')) else [])"

definition null_if_empty :: "string \<Rightarrow> string option" where
  "null_if_empty x = (if x = [] then None else Some x)"

text \<open>The custom columns of one entity, for a record.\<close>

definition custom_values :: "MappingSpec \<Rightarrow> RowVals \<Rightarrow> string \<Rightarrow> (string \<times> string \<times> string \<times> string) list" where
  "custom_values spec vals ename = List.map_filter (\<lambda>c. case mk_map c of
       CustomMap e key label type \<Rightarrow> if e = ename \<and> js_trim (or_empty (map_of vals (mk_column c))) \<noteq> []
         then Some (key, label, type, js_trim (or_empty (map_of vals (mk_column c)))) else None
     | StdMap _ \<Rightarrow> None) (mp_columns spec)"

definition set_customs :: "'s Upserter \<Rightarrow> CrmEntity \<Rightarrow> uuid \<Rightarrow> (string \<times> string \<times> string \<times> string) list \<Rightarrow> ('s, unit) act" where
  "set_customs U e i xs = act_for xs (\<lambda>(key, label, type, v). up_custom U e i key label type v)"

definition resolve_account :: "MappingSpec \<Rightarrow> RowVals \<Rightarrow> 's Upserter \<Rightarrow> ('s, uuid option) act" where
  "resolve_account spec vals U = (let name = first_value vals (columnsFor spec ''account.name''); domain = first_value vals (columnsFor spec ''account.domain'') in
     if name = [] \<and> domain = [] then act_return None
     else act_bind (up_account U (null_if_empty name) (null_if_empty domain)) (\<lambda>acc. case acc of None \<Rightarrow> act_return None
       | Some (i, _) \<Rightarrow> act_bind (if i = [] then act_return () else set_customs U CrmAccount i (custom_values spec vals ''account'')) (\<lambda>_. act_return (Some i))))"

definition resolve_contact :: "MappingSpec \<Rightarrow> RowVals \<Rightarrow> 's Upserter \<Rightarrow> uuid option \<Rightarrow> ('s, Outcome option) act" where
  "resolve_contact spec vals U account = (let std = (\<lambda>t. first_value vals (columnsFor spec t)) in
     if contact_name spec vals = [] then act_return None
     else act_bind (up_contact U (contact_name spec vals) (null_if_empty (std ''contact.title'')) (null_if_empty (std ''contact.email'')) account) (\<lambda>(i, fresh).
       act_bind (if std ''contact.phone'' = [] then act_return () else up_custom U CrmContact i ''phone'' ''Phone'' ''phone'' (std ''contact.phone'')) (\<lambda>_.
       act_bind (set_customs U CrmContact i (custom_values spec vals ''contact'')) (\<lambda>_.
       act_return (Some (if fresh then RowCreated else RowUpdated))))))"

definition resolve_deal :: "MappingSpec \<Rightarrow> RowVals \<Rightarrow> 's Upserter \<Rightarrow> uuid option \<Rightarrow> Outcome option \<Rightarrow> ('s, Outcome option) act" where
  "resolve_deal spec vals U account out = (let std = (\<lambda>t. first_value vals (columnsFor spec t)); name = std ''deal.name''; value = std ''deal.value'' in
     if (name \<noteq> [] \<or> value \<noteq> []) \<and> truthy account
     then act_bind (up_deal U (if name \<noteq> [] then name
         else (if std ''account.name'' \<noteq> [] then std ''account.name'' else contact_name spec vals) @ '' '' @ emdash @ '' imported'') (parseMoneyMinor value) account)
       (\<lambda>_. act_return (case out of None \<Rightarrow> Some RowCreated | Some x \<Rightarrow> Some x))
     else act_return out)"

definition resolve_task :: "MappingSpec \<Rightarrow> RowVals \<Rightarrow> 's Upserter \<Rightarrow> Outcome option \<Rightarrow> ('s, Outcome option) act" where
  "resolve_task spec vals U out = (let std = (\<lambda>t. first_value vals (columnsFor spec t)); title = std ''task.title'';
       t = (if title \<noteq> [] then title else if contact_name spec vals \<noteq> [] then contact_name spec vals else std ''account.name'') in
     if (mp_createTasks spec \<noteq> None \<or> title \<noteq> []) \<and> t \<noteq> []
     then act_bind (up_task U t (null_if_empty (std ''task.priority''))) (\<lambda>_. act_return (case out of None \<Rightarrow> Some RowCreated | Some x \<Rightarrow> Some x))
     else act_return out)"

definition resolveRow :: "MappingSpec \<Rightarrow> RowVals \<Rightarrow> 's Upserter \<Rightarrow> ('s, Outcome) act" where
  "resolveRow spec vals U = act_bind (resolve_account spec vals U) (\<lambda>account.
     act_bind (resolve_contact spec vals U account) (\<lambda>o1.
     act_bind (resolve_deal spec vals U account o1) (\<lambda>o2.
     act_bind (resolve_task spec vals U o2) (\<lambda>o3.
     act_return (case o3 of Some x \<Rightarrow> x | None \<Rightarrow> if truthy account then RowUpdated else RowHeld)))))"

subsection \<open>The preview\<close>

definition no_counts :: PreviewCounts where
  "no_counts = \<lparr>pc_rows = 0, pc_created = 0, pc_updated = 0, pc_held = 0, pc_newAccounts = 0, pc_newContacts = 0, pc_newDeals = 0, pc_newTasks = 0\<rparr>"

fun count_outcome :: "Outcome \<Rightarrow> PreviewCounts \<Rightarrow> PreviewCounts" where
  "count_outcome RowCreated c = c\<lparr>pc_created := pc_created c + 1\<rparr>"
| "count_outcome RowUpdated c = c\<lparr>pc_updated := pc_updated c + 1\<rparr>"
| "count_outcome RowHeld c = c\<lparr>pc_held := pc_held c + 1\<rparr>"

definition preview_row :: "crypto_env \<Rightarrow> MappingSpec \<Rightarrow> LoadedRow \<Rightarrow> (dry_state, unit) act" where
  "preview_row E spec r = act_bind (bump (\<lambda>c. c\<lparr>pc_rows := pc_rows c + 1\<rparr>)) (\<lambda>_.
     act_bind (resolveRow spec (ld_vals r) (dryUpserter E spec)) (\<lambda>out. bump (count_outcome out)))"

definition PREVIEW_LIMIT :: int where "PREVIEW_LIMIT = 2000"

definition previewImport :: "import_env \<Rightarrow> uuid \<Rightarrow> uuid \<Rightarrow> MappingSpec \<Rightarrow> int \<Rightarrow> (db, PreviewCounts) act" where
  "previewImport I w sheet spec n = act_bind (act_get (\<lambda>s. act_for (loadRows I w sheet 0 n s) (preview_row (ie_crypto I) spec)
       \<lparr>dy_maps = loadExisting w s, dy_counts = no_counts, dy_n = 0\<rparr>)) (\<lambda>(r, st). act_bind (act_lift r) (\<lambda>_. act_return (dy_counts st)))"

subsection \<open>Jobs\<close>

record JobProgress =
  jp_id :: uuid
  jp_status :: string
  jp_cursor :: int
  jp_total :: int
  jp_created :: int
  jp_updated :: int
  jp_held :: int
  jp_failed :: int
  jp_done :: bool

definition brief :: "import_job_row \<Rightarrow> JobProgress" where
  "brief j = \<lparr>jp_id = ij_id j, jp_status = ij_status j, jp_cursor = ij_cursor j, jp_total = ij_total j, jp_created = ij_createdCount j,
     jp_updated = ij_updatedCount j, jp_held = ij_heldCount j, jp_failed = ij_failedCount j, jp_done = (ij_status j = ''done'')\<rparr>"

definition createImportJob :: "ms \<Rightarrow> uuid \<Rightarrow> uuid \<Rightarrow> uuid \<Rightarrow> uuid \<Rightarrow> string \<Rightarrow> decimal option \<Rightarrow> (db, uuid) act" where
  "createImportJob now newId w sheet mid u least = act_bind (act_get (\<lambda>s. int (length (sheet_rows s w sheet)))) (\<lambda>total.
     act_bind (insert_import_job \<lparr>ij_id = newId, ij_workspaceId = w, ij_sheetId = sheet, ij_mappingId = Some mid, ij_minConfidence = least,
       ij_status = ''queued'', ij_cursor = 0, ij_total = total, ij_createdCount = 0, ij_updatedCount = 0, ij_heldCount = 0, ij_failedCount = 0,
       ij_errorText = None, ij_createdBySub = u, ij_createdAt = now, ij_updatedAt = now\<rparr>) (\<lambda>j. act_return (ij_id j)))"

definition job_at :: "db \<Rightarrow> uuid \<Rightarrow> uuid \<Rightarrow> import_job_row option" where
  "job_at s w i = first_where (\<lambda>j. ij_workspaceId j = w \<and> ij_id j = i) (importJobs s)"

text \<open>The mapping of a job is read by its id alone.\<close>

definition job_spec :: "db \<Rightarrow> import_job_row \<Rightarrow> MappingSpec option" where
  "job_spec s j = (case ij_mappingId j of None \<Rightarrow> None | Some m \<Rightarrow> map_option im_spec (first_where (\<lambda>x. im_id x = m) (importMappings s)))"

record Tally =
  ta_created :: int
  ta_updated :: int
  ta_held :: int
  ta_failed :: int

fun tally :: "Outcome \<Rightarrow> Tally \<Rightarrow> Tally" where
  "tally RowCreated t = t\<lparr>ta_created := ta_created t + 1\<rparr>"
| "tally RowUpdated t = t\<lparr>ta_updated := ta_updated t + 1\<rparr>"
| "tally RowHeld t = t\<lparr>ta_held := ta_held t + 1\<rparr>"

text \<open>A row that cannot be resolved is parked as skipped; so is one whose writing raises.\<close>

definition row_status :: "Outcome \<Rightarrow> string" where
  "row_status out = (if out = RowHeld then ''skipped'' else ''imported'')"

definition write_row :: "real_state Upserter \<Rightarrow> MappingSpec \<Rightarrow> LoadedRow \<Rightarrow> (real_state, Outcome option) act" where
  "write_row U spec r = act_try (act_bind (resolveRow spec (ld_vals r) U) (\<lambda>out.
       act_bind (on_db (setRowStatus (ld_id r) (row_status out))) (\<lambda>_. act_return (Some out))))
     (\<lambda>_. act_bind (on_db (setRowStatus (ld_id r) ''skipped'')) (\<lambda>_. act_return None))"

fun run_rows :: "real_state Upserter \<Rightarrow> MappingSpec \<Rightarrow> decimal option \<Rightarrow> LoadedRow list \<Rightarrow> Tally \<Rightarrow> (real_state, Tally) act" where
  "run_rows U spec least [] t = act_return t"
| "run_rows U spec least (r # rs) t =
     (if heldByConfidence least (ld_confidence r)
      then act_bind (on_db (setRowStatus (ld_id r) ''held'')) (\<lambda>_. run_rows U spec least rs (t\<lparr>ta_held := ta_held t + 1\<rparr>))
      else act_bind (write_row U spec r) (\<lambda>out. run_rows U spec least rs
        (case out of Some x \<Rightarrow> tally x t | None \<Rightarrow> t\<lparr>ta_failed := ta_failed t + 1\<rparr>)))"

definition within :: "(real_state, 'a) act \<Rightarrow> uuid \<Rightarrow> (db, 'a) act" where
  "within m w s = (case m \<lparr>rl_db = s, rl_maps = loadExisting w s, rl_defs = (\<lambda>_. None), rl_project = None, rl_n = 0\<rparr> of (r, st) \<Rightarrow> (r, rl_db st))"

definition no_tally :: Tally where
  "no_tally = \<lparr>ta_created = 0, ta_updated = 0, ta_held = 0, ta_failed = 0\<rparr>"

definition set_job :: "uuid \<Rightarrow> (import_job_row \<Rightarrow> import_job_row) \<Rightarrow> (db, unit) act" where
  "set_job i f = tbl_update importJobs_update (\<lambda>j. ij_id j = i) f"

text \<open>The job row once a slice is through.\<close>

definition advanced :: "ms \<Rightarrow> import_job_row \<Rightarrow> nat \<Rightarrow> Tally \<Rightarrow> import_job_row \<Rightarrow> import_job_row" where
  "advanced now j n t x = (let cursor = ij_cursor j + int n in
     x\<lparr>ij_cursor := cursor, ij_createdCount := ij_createdCount j + ta_created t, ij_updatedCount := ij_updatedCount j + ta_updated t,
       ij_heldCount := ij_heldCount j + ta_held t, ij_failedCount := ij_failedCount j + ta_failed t,
       ij_status := (if cursor \<ge> ij_total j \<or> n = 0 then ''done'' else ''queued''), ij_updatedAt := now\<rparr>)"

definition finish_slice :: "crypto_env \<Rightarrow> ms \<Rightarrow> uuid \<Rightarrow> import_job_row \<Rightarrow> nat \<Rightarrow> Tally \<Rightarrow> (db, JobProgress) act" where
  "finish_slice E now w j n t = act_bind (set_job (ij_id j) (advanced now j n t)) (\<lambda>_.
     act_bind (if ij_status (advanced now j n t j) = ''done''
       then act_bind (appendAudit E now (audit_input w (Some (ij_createdBySub j)) ''table_import_done'' (Some (ij_id j)))) (\<lambda>_. act_return ())
       else act_return ()) (\<lambda>_. act_return (brief (advanced now j n t j))))"

definition run_job :: "import_env \<Rightarrow> cal_env \<Rightarrow> import_draws \<Rightarrow> ms \<Rightarrow> uuid \<Rightarrow> import_job_row \<Rightarrow> MappingSpec \<Rightarrow> int \<Rightarrow> (db, JobProgress) act" where
  "run_job I C dr now w j spec n =
     act_bind (set_job (ij_id j) (\<lambda>x. x\<lparr>ij_status := ''running'', ij_updatedAt := now\<rparr>)) (\<lambda>_.
     act_bind (act_get (loadRows I w (ij_sheetId j) (ij_cursor j) n)) (\<lambda>rows.
     act_bind (within (run_rows (realUpserter I C dr now w (ij_createdBySub j) spec) spec (ij_minConfidence j) rows no_tally) w) (\<lambda>t.
     finish_slice (ie_crypto I) now w j (length rows) t)))"

definition runImportSlice :: "import_env \<Rightarrow> cal_env \<Rightarrow> import_draws \<Rightarrow> ms \<Rightarrow> uuid \<Rightarrow> uuid \<Rightarrow> int \<Rightarrow> (db, JobProgress) act" where
  "runImportSlice I C dr now w jobId n = act_bind (act_get (\<lambda>s. job_at s w jobId)) (\<lambda>job. case job of
       None \<Rightarrow> act_throw (JsError ''job not found'')
     | Some j \<Rightarrow> if ij_status j = ''done'' \<or> ij_status j = ''failed'' then act_return (brief j)
       else act_bind (act_get (\<lambda>s. job_spec s j)) (\<lambda>spec. case spec of
         None \<Rightarrow> act_bind (set_job jobId (\<lambda>x. x\<lparr>ij_status := ''failed'', ij_errorText := Some ''mapping missing'', ij_updatedAt := now\<rparr>))
           (\<lambda>_. act_return ((brief j)\<lparr>jp_status := ''failed''\<rparr>))
       | Some sp \<Rightarrow> run_job I C dr now w j sp n))"

definition getJob :: "uuid \<Rightarrow> uuid \<Rightarrow> (db, JobProgress option) act" where
  "getJob w i = act_get (\<lambda>s. map_option brief (job_at s w i))"

definition held_rows :: "db \<Rightarrow> uuid \<Rightarrow> uuid \<Rightarrow> import_row_row list" where
  "held_rows s w i = filter (\<lambda>r. iw_status r = ''held'') (sheet_rows s w i)"

definition countHeldRows :: "uuid \<Rightarrow> uuid \<Rightarrow> (db, int) act" where
  "countHeldRows w jobId = act_get (\<lambda>s. case job_at s w jobId of None \<Rightarrow> 0 | Some j \<Rightarrow> int (length (held_rows s w (ij_sheetId j))))"

fun flush_rows :: "real_state Upserter \<Rightarrow> MappingSpec \<Rightarrow> LoadedRow list \<Rightarrow> Tally \<Rightarrow> (real_state, Tally) act" where
  "flush_rows U spec [] t = act_return t"
| "flush_rows U spec (r # rs) t = act_bind (write_row U spec r) (\<lambda>out. flush_rows U spec rs (case out of Some x \<Rightarrow> tally x t | None \<Rightarrow> t))"

definition flushHeldRows :: "import_env \<Rightarrow> cal_env \<Rightarrow> import_draws \<Rightarrow> ms \<Rightarrow> uuid \<Rightarrow> uuid \<Rightarrow> int \<Rightarrow> (db, int \<times> int) act" where
  "flushHeldRows I C dr now w jobId n = act_bind (act_get (\<lambda>s. job_at s w jobId)) (\<lambda>job. case job of
       None \<Rightarrow> act_throw (JsError ''job not found'')
     | Some j \<Rightarrow> act_bind (act_get (\<lambda>s. job_spec s j)) (\<lambda>spec. case spec of
         None \<Rightarrow> act_throw (JsError ''mapping missing'')
       | Some sp \<Rightarrow>
         act_bind (act_get (\<lambda>s. map (loaded I w) (take (nat n) (held_rows s w (ij_sheetId j))))) (\<lambda>rows.
         act_bind (within (flush_rows (realUpserter I C dr now w (ij_createdBySub j) sp) sp rows no_tally) w) (\<lambda>t.
         let written = ta_created t + ta_updated t in
         act_bind (set_job jobId (\<lambda>x. x\<lparr>ij_createdCount := ij_createdCount j + ta_created t, ij_updatedCount := ij_updatedCount j + ta_updated t,
            ij_heldCount := max 0 (ij_heldCount j - written), ij_updatedAt := now\<rparr>)) (\<lambda>_.
         act_bind (countHeldRows w jobId) (\<lambda>remaining.
         act_bind (appendAudit (ie_crypto I) now (audit_input w (Some (ij_createdBySub j)) ''ingest_review_flush''
            (Some (jobId @ '':'' @ int_string written)))) (\<lambda>_. act_return (written, remaining))))))))"

definition listActiveJobs :: "nat \<Rightarrow> (db, (uuid \<times> uuid) list) act" where
  "listActiveJobs n = act_get (\<lambda>s. map (\<lambda>j. (ij_workspaceId j, ij_id j)) (take n (sort_key ij_updatedAt
     (rows_where (\<lambda>j. ij_status j = ''queued'' \<or> ij_status j = ''running'') (importJobs s)))))"

definition sheetRowCount :: "uuid \<Rightarrow> uuid \<Rightarrow> (db, int) act" where
  "sheetRowCount w i = act_get (\<lambda>s. case first_where (\<lambda>x. sh_workspaceId x = w \<and> sh_id x = i) (importSheets s) of Some x \<Rightarrow> sh_rowCount x | None \<Rightarrow> 0)"

end
