(* ===== verification/Import_Preview.thy ===== *)
theory Import_Preview
  imports Import_Engine
begin

text \<open>
  The preview of an import against its run (\<^verbatim>\<open>lib/domain/import-engine.ts\<close>). The dry and the real operations are related by a renaming of the
  synthetic account ids into the drawn ones; keys that join an id and a name by a bar are told apart because ids hold no bar. When contacts
  are not matched by e-mail the preview predicts outcomes and new records exactly; when they are, it does not.
\<close>

subsection \<open>Composite keys\<close>

abbreviation bar :: char where "bar \<equiv> CHR ''|''"

lemma split_first: "bar \<notin> set a \<Longrightarrow> bar \<notin> set b \<Longrightarrow> a @ bar # x = b @ bar # y \<longleftrightarrow> a = b \<and> x = y"
  by (induction a arbitrary: b; case_tac b) auto

lemma split_last:
  assumes "bar \<notin> set a" "bar \<notin> set b"
  shows "x @ bar # a = y @ bar # b \<longleftrightarrow> x = y \<and> a = b"
proof -
  have "x @ bar # a = y @ bar # b \<longleftrightarrow> rev a @ bar # rev x = rev b @ bar # rev y"
    by (metis append.assoc append_Cons append_Nil rev.simps(2) rev_append rev_rev_ident)
  with assms show ?thesis by (auto simp: split_first)
qed

lemma contact_key_form: "contact_key n a = js_lower n @ bar # or_empty a"
  by (simp add: contact_key_def)

lemma deal_key_form: "deal_key a n = or_empty a @ bar # dealNorm n"
  by (simp add: deal_key_def)

definition dry_id :: "nat \<Rightarrow> uuid" where
  "dry_id n = dry_prefix @ digits_of n"

lemma dry_id_inj: "dry_id m = dry_id n \<longleftrightarrow> m = n"
  by (metis dry_id_def same_append_eq undigits_digits)

lemma dry_id_plain: "dry_id n \<noteq> []" "bar \<notin> set (dry_id n)"
  using digits_of_chars [of bar n] by (auto simp: dry_id_def dry_prefix_def)

subsection \<open>Related states\<close>

text \<open>\<open>sizes\<close>: how many accounts, contacts, deals and tasks there are.\<close>

definition sizes :: "db \<Rightarrow> nat \<times> nat \<times> nat \<times> nat" where
  "sizes s = (length (accounts s), length (contacts s), length (deals s), length (tasks s))"

definition new_counts :: "PreviewCounts \<Rightarrow> nat \<times> nat \<times> nat \<times> nat" where
  "new_counts c = (pc_newAccounts c, pc_newContacts c, pc_newDeals c, pc_newTasks c)"

definition old_counts :: "PreviewCounts \<Rightarrow> nat \<times> nat \<times> nat \<times> nat" where
  "old_counts c = (pc_rows c, pc_created c, pc_updated c, pc_held c)"

fun plus4 :: "nat \<times> nat \<times> nat \<times> nat \<Rightarrow> nat \<times> nat \<times> nat \<times> nat \<Rightarrow> nat \<times> nat \<times> nat \<times> nat" where
  "plus4 (a, b, c, d) (e, f, g, h) = (a + e, b + f, c + g, d + h)"

text \<open>\<open>f\<close> renames the account ids \<open>A\<close> of the dry run; the empty id stands for no account.\<close>

definition matched :: "(uuid \<Rightarrow> uuid) \<Rightarrow> uuid set \<Rightarrow> ExistingMaps \<Rightarrow> ExistingMaps \<Rightarrow> bool" where
  "matched f A D M \<longleftrightarrow> [] \<in> A \<and> f [] = [] \<and> inj_on f A \<and> (\<forall>a\<in>A. bar \<notin> set a \<and> bar \<notin> set (f a))
     \<and> (\<forall>k. em_accByDomain M k = map_option f (em_accByDomain D k)) \<and> ran (em_accByDomain D) \<subseteq> A - {[]}
     \<and> (\<forall>k. em_accByName M k = map_option f (em_accByName D k)) \<and> ran (em_accByName D) \<subseteq> A - {[]}
     \<and> (\<forall>a\<in>A. \<forall>n. (em_contactByNameAcct M (n @ bar # f a) = None) = (em_contactByNameAcct D (n @ bar # a) = None))
     \<and> (\<forall>a\<in>A. \<forall>n. (em_dealByAcctName M (f a @ bar # n) = None) = (em_dealByAcctName D (a @ bar # n) = None))"

definition unused :: "uuid \<Rightarrow> ExistingMaps \<Rightarrow> bool" where
  "unused i m \<longleftrightarrow> (\<forall>n. em_contactByNameAcct m (n @ bar # i) = None \<and> em_dealByAcctName m (i @ bar # n) = None)"

definition related :: "import_draws \<Rightarrow> nat \<times> nat \<times> nat \<times> nat \<Rightarrow> (uuid \<Rightarrow> uuid) \<Rightarrow> uuid set \<Rightarrow> dry_state \<Rightarrow> real_state \<Rightarrow> bool" where
  "related dr base f A d r \<longleftrightarrow> matched f A (dy_maps d) (rl_maps r)
     \<and> (\<forall>k>dy_n d. dry_id k \<notin> A \<and> unused (dry_id k) (dy_maps d))
     \<and> (\<forall>k\<ge>rl_n r. dw_id dr k \<notin> f ` A \<and> unused (dw_id dr k) (rl_maps r))
     \<and> sizes (rl_db r) = plus4 base (new_counts (dy_counts d))"

definition good_draws :: "import_draws \<Rightarrow> bool" where
  "good_draws dr \<longleftrightarrow> inj (dw_id dr) \<and> (\<forall>n. dw_id dr n \<noteq> [] \<and> bar \<notin> set (dw_id dr n))"

text \<open>The renaming only grows.\<close>

definition extends :: "(uuid \<Rightarrow> uuid) \<Rightarrow> uuid set \<Rightarrow> (uuid \<Rightarrow> uuid) \<Rightarrow> uuid set \<Rightarrow> bool" where
  "extends f A g B \<longleftrightarrow> A \<subseteq> B \<and> (\<forall>a\<in>A. g a = f a)"

lemma extends_refl: "extends f A f A"
  by (simp add: extends_def)

lemma extends_trans: "extends f A g B \<Longrightarrow> extends g B h C \<Longrightarrow> extends f A h C"
  by (auto simp: extends_def)

text \<open>The account an operation returned, on both sides.\<close>

definition account_match :: "(uuid \<Rightarrow> uuid) \<Rightarrow> uuid set \<Rightarrow> uuid option \<Rightarrow> uuid option \<Rightarrow> bool" where
  "account_match f A x y \<longleftrightarrow> (case (x, y) of (None, None) \<Rightarrow> True | (Some a, Some b) \<Rightarrow> a \<in> A \<and> a \<noteq> [] \<and> b \<noteq> [] \<and> b = f a | _ \<Rightarrow> False)"

lemma account_match_extends: "account_match f A x y \<Longrightarrow> extends f A g B \<Longrightarrow> account_match g B x y"
  by (auto simp: account_match_def extends_def split: option.splits)

lemma account_match_truthy: "account_match f A x y \<Longrightarrow> truthy y = truthy x"
  by (auto simp: account_match_def truthy_def split: option.splits)

lemma renamed_nonempty: "matched f A D M \<Longrightarrow> a \<in> A \<Longrightarrow> a \<noteq> [] \<Longrightarrow> f a \<noteq> []"
  unfolding matched_def by (metis inj_onD)

lemma account_match_id: "account_match f A x y \<Longrightarrow> matched f A D M \<Longrightarrow> or_empty x \<in> A \<and> or_empty y = f (or_empty x)"
  by (auto simp: account_match_def or_empty_def matched_def split: option.splits)

subsection \<open>Adding to related maps\<close>

lemma matched_new_account:
  assumes m: "matched f A D M" and a: "a \<notin> A" "a \<noteq> []" "bar \<notin> set a" "unused a D" and b: "b \<notin> f ` A" "bar \<notin> set b" "unused b M"
  shows "matched (f(a := b)) (insert a A) (note_account dk nk a D) (note_account dk nk b M)"
proof -
  let ?g = "f(a := b)"
  have [simp]: "[] \<in> A" "f [] = []" and inj: "inj_on f A" and ok: "\<And>x. x \<in> A \<Longrightarrow> bar \<notin> set x \<and> bar \<notin> set (f x)"
    and dom_eq: "\<And>k. em_accByDomain M k = map_option f (em_accByDomain D k)" and dr: "ran (em_accByDomain D) \<subseteq> A - {[]}"
    and name_eq: "\<And>k. em_accByName M k = map_option f (em_accByName D k)" and nr: "ran (em_accByName D) \<subseteq> A - {[]}"
    and ct: "\<And>x n. x \<in> A \<Longrightarrow> (em_contactByNameAcct M (n @ bar # f x) = None) = (em_contactByNameAcct D (n @ bar # x) = None)"
    and dl: "\<And>x n. x \<in> A \<Longrightarrow> (em_dealByAcctName M (f x @ bar # n) = None) = (em_dealByAcctName D (x @ bar # n) = None)"
    using m by (simp_all add: matched_def)
  have same: "?g x = f x" if "x \<in> A" for x using that a(1) by auto
  have put: "put_key k b N x = map_option ?g (put_key k a E x)" if "\<And>x. N x = map_option f (E x)" "ran E \<subseteq> A - {[]}" for k N E x
  proof -
    have "E x = None \<or> (\<exists>y\<in>A. E x = Some y)" using that(2) by (cases "E x") (auto simp: ran_def)
    then show ?thesis using that(1) [of x] same by (auto simp: put_key_def)
  qed
  have ran_put: "ran (put_key k a E) \<subseteq> insert a A - {[]}" if "ran E \<subseteq> A - {[]}" for k E
    using that a(2) by (auto simp: put_key_def ran_def split: if_splits)
  have "inj_on ?g (insert a A)"
    using inj a(1) b(1) same by (auto simp: inj_on_def)
  moreover have "(em_contactByNameAcct M (n @ bar # ?g x) = None) = (em_contactByNameAcct D (n @ bar # x) = None)
      \<and> (em_dealByAcctName M (?g x @ bar # n) = None) = (em_dealByAcctName D (x @ bar # n) = None)" if "x \<in> insert a A" for x n
    using that a b ct dl same by (auto simp: unused_def)
  ultimately show ?thesis
    using a b ok same put [OF dom_eq dr] put [OF name_eq nr] ran_put [OF dr] ran_put [OF nr]
    by (auto simp: matched_def note_account_def)
qed

lemma unused_note_account [simp]: "unused i (note_account dk nk a m) = unused i m"
  by (simp add: unused_def note_account_def)

lemma matched_new_contact:
  assumes m: "matched f A D M" and a: "a \<in> A"
  shows "matched f A (note_contact ek (n @ bar # a) i D) (note_contact ek' (n @ bar # f a) j M)"
proof -
  have bars: "\<And>x. x \<in> A \<Longrightarrow> bar \<notin> set x \<and> bar \<notin> set (f x)" and inj: "inj_on f A" using m by (simp_all add: matched_def)
  have "(n' @ bar # f x = n @ bar # f a) = (n' @ bar # x = n @ bar # a)" if "x \<in> A" for x n'
    using bars [OF that] bars [OF a] inj that a by (simp add: split_last inj_on_eq_iff)
  with m show ?thesis by (simp add: matched_def note_contact_def)
qed

lemma unused_new_contact:
  "unused i (note_contact ek (n @ bar # a) j m) = unused i m" if "i \<noteq> a" "bar \<notin> set i" "bar \<notin> set a"
  using that by (auto simp: unused_def note_contact_def split_last)

lemma matched_new_deal:
  assumes m: "matched f A D M" and a: "a \<in> A"
  shows "matched f A (D\<lparr>em_dealByAcctName := (em_dealByAcctName D)(a @ bar # n \<mapsto> i)\<rparr>)
    (M\<lparr>em_dealByAcctName := (em_dealByAcctName M)(f a @ bar # n \<mapsto> j)\<rparr>)"
proof -
  have bars: "\<And>x. x \<in> A \<Longrightarrow> bar \<notin> set x \<and> bar \<notin> set (f x)" and inj: "inj_on f A" using m by (simp_all add: matched_def)
  have "(f x @ bar # n' = f a @ bar # n) = (x @ bar # n' = a @ bar # n)" if "x \<in> A" for x n'
    using bars [OF that] bars [OF a] inj that a by (simp add: split_first inj_on_eq_iff)
  with m show ?thesis by (simp add: matched_def)
qed

lemma unused_new_deal:
  "unused i (m\<lparr>em_dealByAcctName := (em_dealByAcctName m)(a @ bar # n \<mapsto> j)\<rparr>) = unused i m" if "i \<noteq> a" "bar \<notin> set i" "bar \<notin> set a"
  using that by (auto simp: unused_def split_first)

subsection \<open>What an operation does to the tables\<close>

lemma sizes_recordActivity: "frames sizes (recordActivity now aid w e i u ag k m)"
  by (rule frames_recordActivity) (simp add: sizes_def)

lemma createAccount_run:
  assumes "createAccount now i aid w name domain u s = (Inr row, s')"
  shows "sizes s' = plus4 (sizes s) (1, 0, 0, 0)"
  using assms framesD [OF sizes_recordActivity]
  by (fastforce simp: createAccount_def insert_account_def tbl_insert_def act_bind_def act_return_def sizes_def split: if_splits prod.splits sum.splits)

lemma createContact_run:
  assumes "createContact E now i aid iv a s = (Inr row, s')"
  shows "sizes s' = plus4 (sizes s) (0, 1, 0, 0)"
  using assms framesD [OF sizes_recordActivity]
  by (fastforce simp: createContact_def insert_new_contact_def insert_contact_def tbl_insert_def act_bind_def act_return_def act_lift_def sizes_def
     split: if_splits prod.splits sum.splits option.splits)

lemma createDeal_outcome:
  assumes "createDeal now i aid a s = (Inr row, s')"
  shows "sizes s' = plus4 (sizes s) (0, 0, 1, 0)"
  using assms framesD [OF sizes_recordActivity]
  by (fastforce simp: createDeal_def insert_deal_def tbl_insert_def act_bind_def act_return_def act_get_def sizes_def
     split: if_splits prod.splits sum.splits)

subsection \<open>Simulation\<close>

text \<open>\<open>simulates dr base P m n Q\<close>: from related states where \<open>P\<close> holds of the renaming, whenever the real action \<open>n\<close> returns, the dry action \<open>m\<close>
  returns, the states are related again, the outcome counts are untouched and the results satisfy \<open>Q\<close>.\<close>

definition simulates :: "import_draws \<Rightarrow> nat \<times> nat \<times> nat \<times> nat \<Rightarrow> ((uuid \<Rightarrow> uuid) \<Rightarrow> uuid set \<Rightarrow> bool) \<Rightarrow> (dry_state, 'a) act \<Rightarrow> (real_state, 'b) act
    \<Rightarrow> ('a \<Rightarrow> 'b \<Rightarrow> (uuid \<Rightarrow> uuid) \<Rightarrow> uuid set \<Rightarrow> bool) \<Rightarrow> bool" where
  "simulates dr base P m n Q \<longleftrightarrow> (\<forall>f A d r x r'. related dr base f A d r \<longrightarrow> P f A \<longrightarrow> n r = (Inr x, r') \<longrightarrow>
     (\<exists>g B y d'. m d = (Inr y, d') \<and> related dr base g B d' r' \<and> extends f A g B \<and> old_counts (dy_counts d') = old_counts (dy_counts d) \<and> Q y x g B))"

definition carried :: "((uuid \<Rightarrow> uuid) \<Rightarrow> uuid set \<Rightarrow> bool) \<Rightarrow> bool" where
  "carried P \<longleftrightarrow> (\<forall>f A g B. P f A \<longrightarrow> extends f A g B \<longrightarrow> P g B)"

lemma carried_True [intro!]: "carried (\<lambda>_ _. c)"
  by (simp add: carried_def)

lemma carried_account_match [intro!]: "carried (\<lambda>f A. account_match f A x y)"
  using account_match_extends by (auto simp: carried_def)

lemma carried_conj [intro!]: "carried P \<Longrightarrow> carried Q \<Longrightarrow> carried (\<lambda>f A. P f A \<and> Q f A)"
  by (auto simp: carried_def)

lemmas carried_rules = carried_account_match carried_True carried_conj

lemma simulatesD:
  assumes "simulates dr base P m n Q" "related dr base f A d r" "P f A" "n r = (Inr x, r')"
  obtains g B y d' where "m d = (Inr y, d')" "related dr base g B d' r'" "extends f A g B" "old_counts (dy_counts d') = old_counts (dy_counts d)" "Q y x g B"
  using assms(1) [unfolded simulates_def, rule_format, OF assms(2-4)] by blast

lemma simulatesI:
  assumes "simulates dr base P m n Q" "related dr base f A d r" "P f A" "n r = (Inr x, r')"
  shows "\<exists>g B y d'. m d = (Inr y, d') \<and> related dr base g B d' r' \<and> extends f A g B \<and> old_counts (dy_counts d') = old_counts (dy_counts d) \<and> Q y x g B"
  using assms(1) [unfolded simulates_def, rule_format, OF assms(2-4)] .

lemma simulates_return: "(\<And>f A. P f A \<Longrightarrow> Q y x f A) \<Longrightarrow> simulates dr base P (act_return y) (act_return x) Q"
  by (auto simp: simulates_def act_return_def intro: extends_refl)

lemma simulates_bind:
  assumes m: "simulates dr base P m n Q" and st: "carried P" and k: "\<And>y x. simulates dr base (\<lambda>f A. P f A \<and> Q y x f A) (k y) (l x) R"
  shows "simulates dr base P (act_bind m k) (act_bind n l) R"
  unfolding simulates_def
proof (intro allI impI)
  fix f A d r x r'
  assume rel: "related dr base f A d r" and pre: "P f A" and run: "act_bind n l r = (Inr x, r')"
  from run obtain z r1 where n: "n r = (Inr z, r1)" and l: "l z r1 = (Inr x, r')"
    by (auto simp: act_bind_def split: prod.splits sum.splits)
  from simulatesD [OF m rel pre n] obtain g B y d1 where
    1: "m d = (Inr y, d1)" "related dr base g B d1 r1" "extends f A g B" "old_counts (dy_counts d1) = old_counts (dy_counts d)" "Q y z g B" .
  have "P g B" using st pre 1(3) by (auto simp: carried_def)
  with 1(5) have "P g B \<and> Q y z g B" by simp
  from simulatesI [where P = "\<lambda>f A. P f A \<and> Q y z f A" and f = g and A = B, OF k [of y z] 1(2) this l] obtain h C v d2 where
    2: "k y d1 = (Inr v, d2)" "related dr base h C d2 r'" "extends g B h C" "old_counts (dy_counts d2) = old_counts (dy_counts d1)" "R v x h C"
    by (elim exE conjE) (rule that)
  show "\<exists>g B y d'. act_bind m k d = (Inr y, d') \<and> related dr base g B d' r' \<and> extends f A g B \<and> old_counts (dy_counts d') = old_counts (dy_counts d) \<and> R y x g B"
    by (rule exI [of _ h], rule exI [of _ C], rule exI [of _ v], rule exI [of _ d2])
      (simp add: act_bind_def 1(1,4) 2 extends_trans [OF 1(3) 2(3)])
qed

lemma simulates_cong:
  assumes "simulates dr base P m n Q" "\<And>f A. P' f A \<Longrightarrow> P f A" "\<And>y x f A. Q y x f A \<Longrightarrow> Q' y x f A"
  shows "simulates dr base P' m n Q'"
  using assms unfolding simulates_def by meson

lemma simulates_fact: "(\<And>f A. P f A \<Longrightarrow> c) \<Longrightarrow> (c \<Longrightarrow> simulates dr base P m n Q) \<Longrightarrow> simulates dr base P m n Q"
  unfolding simulates_def by blast

text \<open>An operation of the real run that the dry run skips.\<close>

definition quiet :: "(real_state, 'a) act \<Rightarrow> bool" where
  "quiet n \<longleftrightarrow> (\<forall>r. rl_maps (snd (n r)) = rl_maps r \<and> rl_n r \<le> rl_n (snd (n r)) \<and> sizes (rl_db (snd (n r))) = sizes (rl_db r))"

lemma simulates_quiet: "quiet n \<Longrightarrow> simulates dr base P (act_return y) n (\<lambda>_ _ _ _. True)"
  unfolding simulates_def
proof (intro allI impI)
  fix f A d r x r'
  assume "quiet n" "related dr base f A d r" "n r = (Inr x, r')"
  moreover then have "rl_maps r' = rl_maps r" "rl_n r \<le> rl_n r'" "sizes (rl_db r') = sizes (rl_db r)" by (metis quiet_def snd_conv)+
  ultimately show "\<exists>g B ya d'. act_return y d = (Inr ya, d') \<and> related dr base g B d' r' \<and> extends f A g B
      \<and> old_counts (dy_counts d') = old_counts (dy_counts d) \<and> True"
    by (intro exI [of _ f] exI [of _ A] exI [of _ y] exI [of _ d]) (auto simp: act_return_def related_def extends_refl)
qed

lemma quiet_bind: "quiet m \<Longrightarrow> (\<And>x. quiet (k x)) \<Longrightarrow> quiet (act_bind m k)"
  unfolding quiet_def act_bind_def by (auto split: prod.splits sum.splits) (metis order_trans snd_conv)+

lemma quiet_return: "quiet (act_return x)"
  by (simp add: quiet_def act_return_def)

lemma quiet_get: "quiet (act_get g)"
  by (simp add: quiet_def act_get_def)

lemma quiet_draw: "quiet draw"
  by (simp add: quiet_def draw_def)

lemma quiet_set_defs: "quiet (set_state (\<lambda>st. st\<lparr>rl_defs := F st\<rparr>))"
  by (simp add: quiet_def set_state_def)

lemma quiet_set_project: "quiet (set_state (\<lambda>st. st\<lparr>rl_project := p\<rparr>))"
  by (simp add: quiet_def set_state_def)

lemma quiet_on_db: "frames sizes m \<Longrightarrow> quiet (on_db m)"
  by (auto simp: quiet_def on_db_def frames_def split: prod.splits) (metis snd_conv)

lemma quiet_option: "quiet a \<Longrightarrow> (\<And>x. quiet (b x)) \<Longrightarrow> quiet (case y of None \<Rightarrow> a | Some x \<Rightarrow> b x)"
  by (cases y) auto

lemma quiet_Let: "(\<And>x. quiet (k x)) \<Longrightarrow> quiet (let x = e in k x)"
  by simp

lemmas quiet_rules = quiet_bind quiet_return quiet_get quiet_draw quiet_set_defs quiet_set_project quiet_on_db quiet_option quiet_Let

subsection \<open>The operations simulate each other\<close>

lemma plus4_zero [simp]: "plus4 a (0, 0, 0, 0) = a"
  by (cases a) simp

lemma plus4_assoc: "plus4 (plus4 a b) c = plus4 a (plus4 b c)"
  by (cases a; cases b; cases c) simp

lemma related_matched: "related dr base f A d r \<Longrightarrow> matched f A (dy_maps d) (rl_maps r)"
  by (simp add: related_def)

lemma known_account_matched:
  assumes "matched f A D M"
  shows "known_account spec M dk nk = map_option f (known_account spec D dk nk)"
    and "known_account spec D dk nk = Some a \<Longrightarrow> a \<in> A \<and> a \<noteq> []"
  using assms by (auto simp: known_account_def matched_def ran_def split: if_splits)

lemma related_new_account:
  assumes gd: "good_draws dr" and rel: "related dr base f A d r" and sz: "sizes s1 = plus4 (sizes (rl_db r)) (1, 0, 0, 0)"
  defines "a \<equiv> dry_id (dy_n d + 1)" and "b \<equiv> dw_id dr (rl_n r)"
  shows "related dr base (f(a := b)) (insert a A)
      (d\<lparr>dy_n := dy_n d + 1, dy_maps := note_account dk nk a (dy_maps d), dy_counts := (dy_counts d)\<lparr>pc_newAccounts := pc_newAccounts (dy_counts d) + 1\<rparr>\<rparr>)
      (r\<lparr>rl_n := rl_n r + 1, rl_db := s1, rl_maps := note_account dk nk b (rl_maps r)\<rparr>)"
    and "extends f A (f(a := b)) (insert a A)" and "a \<noteq> []" and "b \<noteq> []"
proof -
  have a: "a \<notin> A" "unused a (dy_maps d)" and b: "b \<notin> f ` A" "unused b (rl_maps r)"
    using rel by (auto simp: related_def a_def b_def)
  have b': "b \<noteq> []" "bar \<notin> set b" and inj: "inj (dw_id dr)" using gd by (simp_all add: good_draws_def b_def)
  show ne: "a \<noteq> []" "b \<noteq> []" using b' by (simp_all add: a_def dry_id_plain)
  show "extends f A (f(a := b)) (insert a A)" using a(1) by (auto simp: extends_def)
  have img: "A \<inter> {x. x \<noteq> a} = A" using a(1) by auto
  have m: "matched (f(a := b)) (insert a A) (note_account dk nk a (dy_maps d)) (note_account dk nk b (rl_maps r))"
    using matched_new_account [OF related_matched [OF rel] a(1) ne(1) _ a(2) b(1) b'(2) b(2)] by (simp add: a_def dry_id_plain)
  have "dry_id k \<notin> insert a A" if "dy_n d + 1 < k" for k using that rel by (auto simp: a_def dry_id_inj related_def)
  moreover have "dw_id dr k \<notin> insert b (f ` A)" if "rl_n r + 1 \<le> k" for k
    using that rel inj by (auto simp: b_def related_def dest: injD)
  ultimately show "related dr base (f(a := b)) (insert a A)
      (d\<lparr>dy_n := dy_n d + 1, dy_maps := note_account dk nk a (dy_maps d), dy_counts := (dy_counts d)\<lparr>pc_newAccounts := pc_newAccounts (dy_counts d) + 1\<rparr>\<rparr>)
      (r\<lparr>rl_n := rl_n r + 1, rl_db := s1, rl_maps := note_account dk nk b (rl_maps r)\<rparr>)"
    using m rel sz by (simp add: related_def img plus4_assoc new_counts_def)
qed

lemma simulates_account:
  assumes gd: "good_draws dr"
  shows "simulates dr base (\<lambda>_ _. True) (dry_account spec name domain) (real_account dr now w u spec name domain)
    (\<lambda>y x f A. account_match f A (map_option fst y) (map_option fst x))"
  unfolding simulates_def
proof (intro allI impI)
  fix f A d r x r'
  assume rel: "related dr base f A d r" and run: "real_account dr now w u spec name domain r = (Inr x, r')"
  let ?dk = "lower_key domain" and ?nk = "lower_key name"
  note known = known_account_matched [OF related_matched [OF rel], of spec ?dk ?nk]
  let ?goal = "\<exists>g B y d'. dry_account spec name domain d = (Inr y, d') \<and> related dr base g B d' r' \<and> extends f A g B
      \<and> old_counts (dy_counts d') = old_counts (dy_counts d) \<and> account_match g B (map_option fst y) (map_option fst x)"
  show ?goal
  proof (cases "known_account spec (dy_maps d) ?dk ?nk")
    case (Some a)
    with run known have x: "x = Some (f a, False)" "r' = r" by (auto simp: real_account_def act_defs Let_def)
    have y: "dry_account spec name domain d = (Inr (Some (a, False)), d)" using Some by (simp add: dry_account_def act_defs Let_def)
    have "f a \<noteq> []" using known(2) [OF Some] renamed_nonempty [OF related_matched [OF rel]] by blast
    then show ?thesis using rel x y known(2) [OF Some] extends_refl
      by (intro exI [of _ f] exI [of _ A] exI [of _ "Some (a, False)"] exI [of _ d]) (simp add: account_match_def)
  next
    case None
    then have kr: "known_account spec (rl_maps r) ?dk ?nk = None" using known by simp
    show ?thesis
    proof (cases "truthy name \<or> truthy domain")
      case False
      with run kr have x: "x = None" "r' = r" by (auto simp: real_account_def act_defs Let_def)
      have y: "dry_account spec name domain d = (Inr None, d)" using None False by (auto simp: dry_account_def act_defs Let_def)
      show ?thesis using rel x y extends_refl
        by (intro exI [of _ f] exI [of _ A] exI [of _ None] exI [of _ d]) (simp add: account_match_def)
    next
      case True
      let ?a = "dry_id (dy_n d + 1)" and ?b = "dw_id dr (rl_n r)"
      obtain row s1 where made: "createAccount now ?b (dw_activity dr (rl_n r)) w (if truthy name then or_empty name else or_empty domain) domain u (rl_db r) = (Inr row, s1)"
        and x: "x = Some (?b, True)" "r' = r\<lparr>rl_n := rl_n r + 1, rl_db := s1, rl_maps := note_account ?dk ?nk ?b (rl_maps r)\<rparr>"
        using run kr True by (auto simp: real_account_def act_defs draw_def on_db_def set_state_def Let_def split: prod.splits sum.splits)
      note new = related_new_account(1) [OF gd rel createAccount_run [OF made], of ?dk ?nk] related_new_account(2-4) [OF gd rel createAccount_run [OF made]]
      have y: "dry_account spec name domain d = (Inr (Some (?a, True)), d\<lparr>dy_n := dy_n d + 1, dy_maps := note_account ?dk ?nk ?a (dy_maps d),
          dy_counts := (dy_counts d)\<lparr>pc_newAccounts := pc_newAccounts (dy_counts d) + 1\<rparr>\<rparr>)"
        using None True by (auto simp: dry_account_def act_defs Let_def synth_def set_state_def bump_def dry_id_def)
      show ?thesis
        by (rule exI [of _ "f(?a := ?b)"], rule exI [of _ "insert ?a A"], rule exI, rule exI, rule conjI [OF y])
          (use new in \<open>simp add: x account_match_def old_counts_def\<close>)
    qed
  qed
qed

lemma related_fresh: "related dr base f A d r \<Longrightarrow> rl_n r \<le> k \<Longrightarrow> dw_id dr k \<notin> f ` A"
  by (simp add: related_def)

lemma related_new_contact:
  assumes rel: "related dr base f A d r" and a: "a \<in> A" and gd: "good_draws dr" and sz: "sizes s1 = plus4 (sizes (rl_db r)) (0, 1, 0, 0)"
  shows "related dr base f A
      (d\<lparr>dy_n := dy_n d + 1, dy_maps := note_contact ek (n @ bar # a) i (dy_maps d),
         dy_counts := (dy_counts d)\<lparr>pc_newContacts := pc_newContacts (dy_counts d) + 1\<rparr>\<rparr>)
      (r\<lparr>rl_n := rl_n r + 1, rl_db := s1, rl_maps := note_contact ek' (n @ bar # f a) j (rl_maps r)\<rparr>)"
proof -
  have m: "matched f A (dy_maps d) (rl_maps r)" by (rule related_matched [OF rel])
  have bars: "bar \<notin> set a" "bar \<notin> set (f a)" using m a by (auto simp: matched_def)
  have "dry_id k \<noteq> a" if "dy_n d + 1 < k" for k using that rel a by (auto simp: related_def)
  moreover have "dw_id dr k \<noteq> f a" if "rl_n r + 1 \<le> k" for k using related_fresh [OF rel, of k] that a by force
  ultimately show ?thesis using rel matched_new_contact [OF m a] gd sz bars
    by (simp add: related_def plus4_assoc new_counts_def unused_new_contact dry_id_plain good_draws_def)
qed

lemma related_new_deal:
  assumes rel: "related dr base f A d r" and a: "a \<in> A" and gd: "good_draws dr" and sz: "sizes s1 = plus4 (sizes (rl_db r)) (0, 0, 1, 0)"
  shows "related dr base f A
      (d\<lparr>dy_maps := (dy_maps d)\<lparr>em_dealByAcctName := (em_dealByAcctName (dy_maps d))(a @ bar # n \<mapsto> i)\<rparr>,
         dy_counts := (dy_counts d)\<lparr>pc_newDeals := pc_newDeals (dy_counts d) + 1\<rparr>\<rparr>)
      (r\<lparr>rl_n := rl_n r + 1, rl_db := s1, rl_maps := (rl_maps r)\<lparr>em_dealByAcctName := (em_dealByAcctName (rl_maps r))(f a @ bar # n \<mapsto> j)\<rparr>\<rparr>)"
proof -
  have m: "matched f A (dy_maps d) (rl_maps r)" by (rule related_matched [OF rel])
  have bars: "bar \<notin> set a" "bar \<notin> set (f a)" using m a by (auto simp: matched_def)
  have "dry_id k \<noteq> a" if "dy_n d < k" for k using that rel a by (auto simp: related_def)
  moreover have "dw_id dr k \<noteq> f a" if "rl_n r + 1 \<le> k" for k using related_fresh [OF rel, of k] that a by force
  ultimately show ?thesis using rel matched_new_deal [OF m a] gd sz bars
    by (simp add: related_def plus4_assoc new_counts_def unused_new_deal dry_id_plain good_draws_def)
qed

lemma email_index_ok: "provisioned E \<Longrightarrow> \<exists>k. email_index E w mail = Inr k"
  using derive_provisioned [of E w "''comms-blind-email-v1''"] by (auto simp: email_index_def blindIndex_def)

lemma simulates_contact:
  assumes gd: "good_draws dr" and prov: "provisioned E" and spec: "mp_dedupeContact spec \<noteq> ''email''"
  shows "simulates dr base (\<lambda>f A. account_match f A a b) (dry_contact E spec name title mail a) (real_contact E dr now w u spec name title mail b)
    (\<lambda>y x f A. snd y = snd x)"
  unfolding simulates_def
proof (intro allI impI)
  fix f A d r x r'
  assume rel: "related dr base f A d r" and same: "account_match f A a b" and run: "real_contact E dr now w u spec name title mail b r = (Inr x, r')"
  let ?oa = "or_empty a"
  note m = related_matched [OF rel]
  have oa: "?oa \<in> A" and ob: "or_empty b = f ?oa" using account_match_id [OF same m] by simp_all
  obtain ek' where ek': "email_index E ''preview'' mail = Inr ek'" using email_index_ok [OF prov] by blast
  obtain ek where ek: "email_index E w mail = Inr ek" using email_index_ok [OF prov] by blast
  have nka: "contact_key name a = js_lower name @ bar # ?oa" and nkb: "contact_key name b = js_lower name @ bar # f ?oa"
    by (simp_all add: contact_key_form ob)
  have known: "(em_contactByNameAcct (rl_maps r) (contact_key name b) = None) = (em_contactByNameAcct (dy_maps d) (contact_key name a) = None)"
    using m oa by (simp add: matched_def nka nkb)
  show "\<exists>g B y d'. dry_contact E spec name title mail a d = (Inr y, d') \<and> related dr base g B d' r' \<and> extends f A g B
      \<and> old_counts (dy_counts d') = old_counts (dy_counts d) \<and> snd y = snd x"
  proof (cases "em_contactByNameAcct (dy_maps d) (contact_key name a)")
    case (Some i)
    then obtain j where "em_contactByNameAcct (rl_maps r) (contact_key name b) = Some j" using known by auto
    then have x: "x = (j, False)" "r' = r" using run ek spec by (auto simp: real_contact_def act_defs Let_def known_contact_def)
    have y: "dry_contact E spec name title mail a d = (Inr (i, False), d)" using Some ek' spec by (simp add: dry_contact_def act_defs Let_def known_contact_def)
    show ?thesis using rel x extends_refl y
      by (intro exI [of _ f] exI [of _ A] exI [of _ "(i, False)"] exI [of _ d]) simp
  next
    case None
    let ?i = "dry_id (dy_n d + 1)" and ?j = "dw_id dr (rl_n r)"
    obtain row s1 where made: "createContact E now ?j (dw_activity dr (rl_n r)) (dw_iv dr (rl_n r)) \<lparr>nc_workspaceId = w, nc_name = name, nc_title = title,
            nc_accountId = b, nc_ownerSub = u, nc_email = mail\<rparr> (rl_db r) = (Inr row, s1)"
      and x: "x = (?j, True)" "r' = r\<lparr>rl_n := rl_n r + 1, rl_db := s1, rl_maps := note_contact ek (contact_key name b) ?j (rl_maps r)\<rparr>"
      using run ek spec None known
      by (auto simp: real_contact_def act_defs draw_def on_db_def set_state_def Let_def known_contact_def split: prod.splits sum.splits)
    note new = related_new_contact [OF rel oa gd createContact_run [OF made], of ek' "js_lower name" ?i ek ?j]
    have y: "dry_contact E spec name title mail a d = (Inr (?i, True), d\<lparr>dy_n := dy_n d + 1, dy_maps := note_contact ek' (contact_key name a) ?i (dy_maps d),
        dy_counts := (dy_counts d)\<lparr>pc_newContacts := pc_newContacts (dy_counts d) + 1\<rparr>\<rparr>)"
      using None ek' spec by (auto simp: dry_contact_def act_defs Let_def synth_def set_state_def bump_def dry_id_def known_contact_def)
    show ?thesis
      by (rule exI [of _ f], rule exI [of _ A], rule exI, rule exI, rule conjI [OF y])
        (use new in \<open>simp add: x nka nkb old_counts_def extends_refl\<close>)
  qed
qed

lemma simulates_deal:
  assumes gd: "good_draws dr"
  shows "simulates dr base (\<lambda>f A. account_match f A a b) (dry_deal name value a) (real_deal dr now w u name value b) (\<lambda>_ _ _ _. True)"
  unfolding simulates_def
proof (intro allI impI)
  fix f A d r x r'
  assume rel: "related dr base f A d r" and same: "account_match f A a b" and run: "real_deal dr now w u name value b r = (Inr x, r')"
  note m = related_matched [OF rel]
  let ?oa = "or_empty a"
  have oa: "?oa \<in> A" and ob: "or_empty b = f ?oa" using account_match_id [OF same m] by simp_all
  have ka: "deal_key a name = ?oa @ bar # dealNorm name" and kb: "deal_key b name = f ?oa @ bar # dealNorm name"
    by (simp_all add: deal_key_form ob)
  have known: "(em_dealByAcctName (rl_maps r) (deal_key b name) = None) = (em_dealByAcctName (dy_maps d) (deal_key a name) = None)"
    using m oa by (simp add: matched_def ka kb)
  let ?goal = "\<lambda>d'. dry_deal name value a d = (Inr (), d') \<and> related dr base f A d' r' \<and> extends f A f A \<and> old_counts (dy_counts d') = old_counts (dy_counts d) \<and> True"
  have "\<exists>d'. ?goal d'"
  proof (cases "truthy a \<and> em_dealByAcctName (dy_maps d) (deal_key a name) = None")
    case False
    then have "r' = r" "dry_deal name value a d = (Inr (), d)"
      using run known account_match_truthy [OF same] by (auto simp: real_deal_def dry_deal_def act_defs Let_def split: if_splits)
    then show ?thesis using rel extends_refl by blast
  next
    case True
    let ?j = "dw_id dr (rl_n r)"
    obtain row s1 where made: "createDeal now ?j (dw_activity dr (rl_n r)) \<lparr>cd_workspaceId = w, cd_accountId = or_empty b, cd_name = name,
          cd_valueMinor = value, cd_ownerSub = u\<rparr> (rl_db r) = (Inr row, s1)"
      and x: "r' = r\<lparr>rl_n := rl_n r + 1, rl_db := s1, rl_maps := (rl_maps r)\<lparr>em_dealByAcctName := (em_dealByAcctName (rl_maps r))(deal_key b name \<mapsto> ?j)\<rparr>\<rparr>"
      using run True known account_match_truthy [OF same]
      by (auto simp: real_deal_def act_defs draw_def on_db_def set_state_def Let_def split: prod.splits sum.splits)
    note new = related_new_deal [OF rel oa gd createDeal_outcome [OF made], of "dealNorm name" "''dry:deal:'' @ deal_key a name" ?j]
    have y: "dry_deal name value a d = (Inr (), d\<lparr>dy_maps := (dy_maps d)\<lparr>em_dealByAcctName := (em_dealByAcctName (dy_maps d))(deal_key a name \<mapsto> ''dry:deal:'' @ deal_key a name)\<rparr>,
         dy_counts := (dy_counts d)\<lparr>pc_newDeals := pc_newDeals (dy_counts d) + 1\<rparr>\<rparr>)"
      using True by (auto simp: dry_deal_def act_defs Let_def set_state_def bump_def)
    show ?thesis by (rule exI, rule conjI [OF y]) (use new in \<open>simp add: x ka kb old_counts_def extends_refl\<close>)
  qed
  then show "\<exists>g B y d'. dry_deal name value a d = (Inr y, d') \<and> related dr base g B d' r' \<and> extends f A g B
      \<and> old_counts (dy_counts d') = old_counts (dy_counts d) \<and> True" by blast
qed

lemma sizes_updates [simp]:
  "sizes (crmFieldDefs_update F s) = sizes s" "sizes (crmFieldValues_update F' s) = sizes s" "sizes (projects_update G s) = sizes s"
  "sizes (importRows_update H s) = sizes s" "sizes (importJobs_update J s) = sizes s" "sizes (s\<lparr>auditLogSerial := n, auditLog := l\<rparr>) = sizes s"
  "sizes (s\<lparr>auditLogSerial := n\<rparr>) = sizes s" "sizes (auditLogSerial_update K s) = sizes s" "sizes (auditLog_update L s) = sizes s"
  by (simp_all add: sizes_def)

lemma sizes_createProject: "frames sizes (createProject now i w name)"
  unfolding createProject_def insert_project_def by (intro frame_intros frames_tbl_insert) simp

lemma sizes_setRowStatus: "frames sizes (setRowStatus i st)"
  unfolding setRowStatus_def by (rule frames_tbl_update) simp

lemma createTask_run:
  assumes "createTask C now i nid fr \<lparr>ti_workspaceId = w, ti_projectId = p, ti_title = t, ti_assigneeSub = None, ti_priority = pr, ti_due = None, ti_actorSub = None\<rparr> s
    = (Inr row, s')"
  shows "sizes s' = plus4 (sizes s) (0, 0, 0, 1)"
  using assms
  by (auto simp: createTask_def insert_task_def tbl_insert_def act_bind_def act_return_def notify_assignee_def or_text_def sizes_def split: if_splits)

lemma quiet_task_project: "quiet (task_project dr now w spec)"
  unfolding task_project_def by (intro quiet_rules sizes_createProject)

lemma related_moved:
  assumes "related dr base f A d r" "rl_maps r' = rl_maps r" "rl_n r \<le> rl_n r'" "dy_maps d' = dy_maps d" "dy_n d' = dy_n d"
    and "sizes (rl_db r') = plus4 base (new_counts (dy_counts d'))"
  shows "related dr base f A d' r'"
  using assms by (simp add: related_def)

lemma simulates_task: "simulates dr base P (dry_task title priority) (real_task C dr now w spec title priority) (\<lambda>_ _ _ _. True)"
  unfolding simulates_def
proof (intro allI impI)
  fix f A d r x r'
  assume rel: "related dr base f A d r" and run: "real_task C dr now w spec title priority r = (Inr x, r')"
  obtain p r1 where p: "task_project dr now w spec r = (Inr p, r1)" using run by (auto simp: real_task_def act_bind_def split: prod.splits sum.splits)
  have q: "rl_maps r1 = rl_maps r" "rl_n r \<le> rl_n r1" "sizes (rl_db r1) = sizes (rl_db r)"
    using quiet_task_project [of dr now w spec, unfolded quiet_def, rule_format, of r] by (simp_all add: p)
  obtain row s1 where made: "createTask C now (dw_id dr (rl_n r1)) (dw_activity dr (rl_n r1)) (dw_event dr (rl_n r1)) \<lparr>ti_workspaceId = w, ti_projectId = Some p,
        ti_title = title, ti_assigneeSub = None, ti_priority = priority, ti_due = None, ti_actorSub = None\<rparr> (rl_db r1) = (Inr row, s1)"
    and r': "r' = r1\<lparr>rl_n := rl_n r1 + 1, rl_db := s1\<rparr>"
    using run p by (auto simp: real_task_def act_defs draw_def on_db_def split: prod.splits sum.splits)
  let ?d = "d\<lparr>dy_counts := (dy_counts d)\<lparr>pc_newTasks := pc_newTasks (dy_counts d) + 1\<rparr>\<rparr>"
  have y: "dry_task title priority d = (Inr (), ?d)" by (simp add: dry_task_def bump_def set_state_def)
  have "related dr base f A ?d r'"
    by (rule related_moved [OF rel]) (use q rel createTask_run [OF made] in \<open>simp_all add: r' related_def plus4_assoc new_counts_def\<close>)
  then show "\<exists>g B y d'. dry_task title priority d = (Inr y, d') \<and> related dr base g B d' r' \<and> extends f A g B
      \<and> old_counts (dy_counts d') = old_counts (dy_counts d) \<and> True"
    by (intro exI [of _ f] exI [of _ A] exI [of _ "()"] exI [of _ ?d]) (simp add: y extends_refl old_counts_def)
qed

lemma sizes_createFieldDef: "frames sizes (createFieldDef E now i input)"
  unfolding createFieldDef_def insert_field_def_def by (intro frame_intros frames_tbl_insert) simp_all

lemma sizes_setFieldValue: "frames sizes (setFieldValue K now i aid iv input)"
proof -
  have "frames sizes (upsert_field_value v)" for v
    unfolding frames_def upsert_field_value_def insert_field_value_def by (auto simp: tbl_update_def tbl_insert_def act_bind_def act_return_def)
  then show ?thesis unfolding setFieldValue_def Let_def by (intro frame_intros sizes_recordActivity)
qed

lemma quiet_custom: "quiet (real_custom I dr now w u e i key label type v)"
proof -
  have "quiet (cached_defs w e)"
    unfolding cached_defs_def listFieldDefs_def Let_def by (intro quiet_rules frame_intros)
  then show ?thesis
    unfolding real_custom_def fieldId_def by (intro quiet_rules sizes_createFieldDef sizes_setFieldValue)
qed

lemma simulates_customs:
  assumes "up_custom U = (\<lambda>_ _ _ _ _ _. act_return ())" "\<And>e i k l t v. quiet (up_custom V e i k l t v)"
  shows "simulates dr base P (set_customs U e i xs) (set_customs V e j xs) (\<lambda>_ _ _ _. True)"
proof -
  have "quiet (set_customs V e j xs)"
    unfolding set_customs_def using assms(2) by (induction xs) (auto intro!: quiet_rules)
  moreover have "set_customs U e i xs = act_return ()"
    unfolding set_customs_def assms(1) by (induction xs) (auto simp: fun_eq_iff act_bind_def act_return_def)
  ultimately show ?thesis by (simp add: simulates_quiet)
qed

subsection \<open>A row\<close>

lemma upserter_ops [simp]:
  "up_account (dryUpserter E spec) = dry_account spec" "up_contact (dryUpserter E spec) = dry_contact E spec" "up_deal (dryUpserter E spec) = dry_deal"
  "up_task (dryUpserter E spec) = dry_task" "up_custom (dryUpserter E spec) = (\<lambda>_ _ _ _ _ _. act_return ())"
  "up_account (realUpserter I C dr now w u spec) = real_account dr now w u spec"
  "up_contact (realUpserter I C dr now w u spec) = real_contact (ie_crypto I) dr now w u spec"
  "up_deal (realUpserter I C dr now w u spec) = real_deal dr now w u" "up_task (realUpserter I C dr now w u spec) = real_task C dr now w spec"
  "up_custom (realUpserter I C dr now w u spec) = real_custom I dr now w u"
  by (simp_all add: dryUpserter_def realUpserter_def)

lemma simulates_resolve_account:
  assumes gd: "good_draws dr"
  shows "simulates dr base (\<lambda>_ _. True) (resolve_account spec vals (dryUpserter E spec)) (resolve_account spec vals (realUpserter I C dr now w u spec))
    (\<lambda>y x f A. account_match f A y x)"
proof -
  let ?U = "dryUpserter E spec" and ?V = "realUpserter I C dr now w u spec" and ?cs = "custom_values spec vals ''account''"
  let ?k = "\<lambda>W acc. case acc of None \<Rightarrow> act_return None
       | Some (i, _) \<Rightarrow> act_bind (if i = [] then act_return () else set_customs W CrmAccount i ?cs) (\<lambda>_. act_return (Some i))"
  have customs: "simulates dr base P (set_customs ?U CrmAccount i ?cs) (set_customs ?V CrmAccount j ?cs) (\<lambda>_ _ _ _. True)" for P i j
    by (rule simulates_customs) (simp_all add: quiet_custom)
  have k: "simulates dr base (\<lambda>f A. True \<and> account_match f A (map_option fst y) (map_option fst x)) (?k ?U y) (?k ?V x) (\<lambda>y x f A. account_match f A y x)" for y x
  proof (rule simulates_fact)
    fix f A
    assume "True \<and> account_match f A (map_option fst y) (map_option fst x)"
    then show "(y = None \<and> x = None) \<or> (\<exists>i b j c. y = Some (i, b) \<and> x = Some (j, c) \<and> i \<noteq> [] \<and> j \<noteq> [])"
      by (cases y; cases x) (auto simp: account_match_def)
  next
    assume "(y = None \<and> x = None) \<or> (\<exists>i b j c. y = Some (i, b) \<and> x = Some (j, c) \<and> i \<noteq> [] \<and> j \<noteq> [])"
    then show "simulates dr base (\<lambda>f A. True \<and> account_match f A (map_option fst y) (map_option fst x)) (?k ?U y) (?k ?V x) (\<lambda>y x f A. account_match f A y x)"
    proof (elim disjE exE conjE)
      fix i b j c
      assume "y = Some (i, b)" "x = Some (j, c)" "i \<noteq> []" "j \<noteq> []"
      then show ?thesis
        by simp (rule simulates_bind [OF customs], blast, rule simulates_return, simp)
    qed (simp add: simulates_return)
  qed
  show ?thesis
  proof (cases "first_value vals (columnsFor spec ''account.name'') = [] \<and> first_value vals (columnsFor spec ''account.domain'') = []")
    case True
    then show ?thesis by (simp add: resolve_account_def simulates_return account_match_def)
  next
    case False
    let ?n = "null_if_empty (first_value vals (columnsFor spec ''account.name''))" and ?d = "null_if_empty (first_value vals (columnsFor spec ''account.domain''))"
    have U: "resolve_account spec vals ?U = act_bind (dry_account spec ?n ?d) (?k ?U)"
      and V: "resolve_account spec vals ?V = act_bind (real_account dr now w u spec ?n ?d) (?k ?V)"
      using False by (auto simp: resolve_account_def Let_def)
    show ?thesis
      unfolding U V by (rule simulates_bind, rule simulates_account [OF gd], intro carried_rules, rule k)
  qed
qed

lemma simulates_resolve_contact:
  assumes gd: "good_draws dr" and prov: "provisioned (ie_crypto I)" and spec: "mp_dedupeContact spec \<noteq> ''email''"
  shows "simulates dr base (\<lambda>f A. account_match f A a b) (resolve_contact spec vals (dryUpserter (ie_crypto I) spec) a) (resolve_contact spec vals (realUpserter I C dr now w u spec) b)
    (\<lambda>y x f A. y = x)"
proof (cases "contact_name spec vals = []")
  case True
  then show ?thesis by (simp add: resolve_contact_def simulates_return)
next
  case False
  let ?U = "dryUpserter (ie_crypto I) spec" and ?V = "realUpserter I C dr now w u spec" and ?cs = "custom_values spec vals ''contact''"
  let ?phone = "first_value vals (columnsFor spec ''contact.phone'')"
  let ?k = "\<lambda>W (i, fresh). act_bind (if ?phone = [] then act_return () else up_custom W CrmContact i ''phone'' ''Phone'' ''phone'' ?phone) (\<lambda>_.
       act_bind (set_customs W CrmContact i ?cs) (\<lambda>_. act_return (Some (if fresh then RowCreated else RowUpdated))))"
  have customs: "simulates dr base P (set_customs ?U CrmContact i ?cs) (set_customs ?V CrmContact j ?cs) (\<lambda>_ _ _ _. True)" for P i j
    by (rule simulates_customs) (simp_all add: quiet_custom)
  have phone: "simulates dr base P (if ?phone = [] then act_return () else up_custom ?U CrmContact i ''phone'' ''Phone'' ''phone'' ?phone)
      (if ?phone = [] then act_return () else up_custom ?V CrmContact j ''phone'' ''Phone'' ''phone'' ?phone) (\<lambda>_ _ _ _. True)" for P i j
    by (simp add: simulates_quiet quiet_custom quiet_return)
  have k: "simulates dr base (\<lambda>f A. account_match f A a b \<and> snd y = snd x) (?k ?U y) (?k ?V x) (\<lambda>y x f A. y = x)" for y x :: "uuid \<times> bool"
    by (unfold split_beta, rule simulates_bind, rule phone, intro carried_rules, rule simulates_bind, rule customs, intro carried_rules, rule simulates_return, simp)
  let ?n = "contact_name spec vals" and ?t = "null_if_empty (first_value vals (columnsFor spec ''contact.title''))"
    and ?m = "null_if_empty (first_value vals (columnsFor spec ''contact.email''))"
  have U: "resolve_contact spec vals ?U a = act_bind (dry_contact (ie_crypto I) spec ?n ?t ?m a) (?k ?U)"
    and V: "resolve_contact spec vals ?V b = act_bind (real_contact (ie_crypto I) dr now w u spec ?n ?t ?m b) (?k ?V)"
    using False by (simp_all add: resolve_contact_def Let_def)
  show ?thesis
    unfolding U V by (rule simulates_bind, rule simulates_contact [OF gd prov spec], intro carried_rules, rule k)
qed

lemma simulates_resolve_deal:
  assumes gd: "good_draws dr"
  shows "simulates dr base (\<lambda>f A. account_match f A a b) (resolve_deal spec vals (dryUpserter E spec) a out) (resolve_deal spec vals (realUpserter I C dr now w u spec) b out)
    (\<lambda>y x f A. y = x)"
proof (rule simulates_fact)
  show "truthy b = truthy a" if "account_match f A a b" for f A using account_match_truthy [OF that] .
next
  assume "truthy b = truthy a"
  then show ?thesis
    by (auto simp: resolve_deal_def Let_def
      intro!: simulates_return simulates_bind [OF simulates_deal [OF gd]])
qed

lemma simulates_resolve_task:
  "simulates dr base P (resolve_task spec vals (dryUpserter E spec) out) (resolve_task spec vals (realUpserter I C dr now w u spec) out) (\<lambda>y x f A. y = x)"
  if "carried P"
  using that by (auto simp: resolve_task_def Let_def intro!: simulates_return simulates_bind [OF simulates_task])

lemma simulates_row:
  assumes gd: "good_draws dr" and prov: "provisioned (ie_crypto I)" and spec: "mp_dedupeContact spec \<noteq> ''email''"
  shows "simulates dr base (\<lambda>_ _. True) (resolveRow spec vals (dryUpserter (ie_crypto I) spec)) (resolveRow spec vals (realUpserter I C dr now w u spec))
    (\<lambda>y x f A. y = x)"
proof -
  let ?U = "dryUpserter (ie_crypto I) spec" and ?V = "realUpserter I C dr now w u spec"
  let ?last = "\<lambda>a out. act_return (case out of Some x \<Rightarrow> x | None \<Rightarrow> if truthy a then RowUpdated else RowHeld)"
  have 4: "simulates dr base (\<lambda>f A. account_match f A a b \<and> o1 = o2) (act_bind (resolve_task spec vals ?U o1) (?last a)) (act_bind (resolve_task spec vals ?V o2) (?last b))
      (\<lambda>y x f A. y = x)" for a b o1 o2
  proof (rule simulates_fact)
    show "o1 = o2 \<and> truthy b = truthy a" if "account_match f A a b \<and> o1 = o2" for f A using that account_match_truthy by auto
  next
    assume "o1 = o2 \<and> truthy b = truthy a"
    then show ?thesis by (auto intro!: simulates_bind [OF simulates_resolve_task] simulates_return split: option.splits)
  qed
  have 3: "simulates dr base (\<lambda>f A. account_match f A a b \<and> o1 = o2) (act_bind (resolve_deal spec vals ?U a o1) (\<lambda>x. act_bind (resolve_task spec vals ?U x) (?last a)))
      (act_bind (resolve_deal spec vals ?V b o2) (\<lambda>x. act_bind (resolve_task spec vals ?V x) (?last b))) (\<lambda>y x f A. y = x)" for a b o1 o2
  proof (rule simulates_fact)
    show "o1 = o2" if "account_match f A a b \<and> o1 = o2" for f A using that by simp
  next
    assume "o1 = o2"
    have d: "simulates dr base (\<lambda>f A. account_match f A a b \<and> o1 = o2) (resolve_deal spec vals ?U a o1) (resolve_deal spec vals ?V b o2) (\<lambda>y x f A. y = x)"
      using simulates_resolve_deal [OF gd, of base a b spec vals "ie_crypto I" o2 I C now w u] \<open>o1 = o2\<close> by simp
    show ?thesis
      by (rule simulates_bind, rule d, intro carried_rules, rule simulates_cong [OF 4]) auto
  qed
  have 2: "simulates dr base (\<lambda>f A. True \<and> account_match f A a b)
      (act_bind (resolve_contact spec vals ?U a) (\<lambda>o1. act_bind (resolve_deal spec vals ?U a o1) (\<lambda>x. act_bind (resolve_task spec vals ?U x) (?last a))))
      (act_bind (resolve_contact spec vals ?V b) (\<lambda>o1. act_bind (resolve_deal spec vals ?V b o1) (\<lambda>x. act_bind (resolve_task spec vals ?V x) (?last b))))
      (\<lambda>y x f A. y = x)" for a b
    by (simp only: simp_thms, rule simulates_bind, rule simulates_resolve_contact [OF gd prov spec], intro carried_rules, rule 3)
  show ?thesis
    unfolding resolveRow_def by (rule simulates_bind, rule simulates_resolve_account [OF gd], intro carried_rules, rule 2)
qed

subsection \<open>All rows\<close>

definition tally4 :: "PreviewCounts \<Rightarrow> int \<times> int \<times> int" where
  "tally4 c = (int (pc_created c), int (pc_updated c), int (pc_held c))"

definition tally3 :: "Tally \<Rightarrow> int \<times> int \<times> int" where
  "tally3 t = (ta_created t, ta_updated t, ta_held t)"

fun plus3 :: "int \<times> int \<times> int \<Rightarrow> int \<times> int \<times> int \<Rightarrow> int \<times> int \<times> int" where
  "plus3 (a, b, c) (x, y, z) = (a + x, b + y, c + z)"

lemma run_rows_failed: "run_rows U spec least rs t r = (Inr t', r') \<Longrightarrow> ta_failed t \<le> ta_failed t'"
proof (induction rs arbitrary: t r)
  case (Cons x rs)
  have tl: "ta_failed (tally y t) = ta_failed t" for y by (cases y) simp_all
  show ?case
    using Cons.prems by (auto simp: act_bind_def tl split: if_splits prod.splits sum.splits option.splits dest!: Cons.IH)
qed (simp add: act_return_def)

lemma write_row_Some:
  assumes "write_row U spec x r = (Inr (Some out), r')"
  obtains r1 where "resolveRow spec (ld_vals x) U r = (Inr out, r1)" "r' = r1\<lparr>rl_db := importRows_update
    (upd_where (\<lambda>y. iw_id y = ld_id x) (\<lambda>y. y\<lparr>iw_status := row_status out\<rparr>)) (rl_db r1)\<rparr>"
  using assms by (auto simp: write_row_def act_defs on_db_def setRowStatus_def tbl_update_def split: prod.splits sum.splits)

lemma run_rows_related:
  assumes gd: "good_draws dr" and prov: "provisioned (ie_crypto I)" and spec: "mp_dedupeContact spec \<noteq> ''email''"
    and "run_rows (realUpserter I C dr now w u spec) spec None rs t r = (Inr t', r')" and "ta_failed t' = ta_failed t"
    and "related dr base f A d r" and "tally3 t = plus3 b (tally4 (dy_counts d))"
  shows "\<exists>g B d'. act_for rs (preview_row (ie_crypto I) spec) d = (Inr (), d') \<and> related dr base g B d' r' \<and> tally3 t' = plus3 b (tally4 (dy_counts d'))"
  using assms(4-)
proof (induction rs arbitrary: t r d f A)
  case Nil
  then show ?case by (fastforce simp: act_return_def)
next
  case (Cons x rs)
  let ?U = "realUpserter I C dr now w u spec"
  obtain out r1 where w1: "write_row ?U spec x r = (Inr out, r1)"
    and rest: "run_rows ?U spec None rs (case out of Some y \<Rightarrow> tally y t | None \<Rightarrow> t\<lparr>ta_failed := ta_failed t + 1\<rparr>) r1 = (Inr t', r')"
    using Cons.prems(1) by (auto simp: heldByConfidence_def act_bind_def split: prod.splits sum.splits)
  have tl: "ta_failed (tally y t) = ta_failed t" for y by (cases y) simp_all
  obtain y where out: "out = Some y" using run_rows_failed [OF rest] Cons.prems(2) by (cases out) auto
  obtain r0 where r0: "resolveRow spec (ld_vals x) ?U r = (Inr y, r0)"
    and r1: "r1 = r0\<lparr>rl_db := importRows_update (upd_where (\<lambda>v. iw_id v = ld_id x) (\<lambda>v. v\<lparr>iw_status := row_status y\<rparr>)) (rl_db r0)\<rparr>"
    using write_row_Some [OF w1 [unfolded out]] .
  let ?d0 = "d\<lparr>dy_counts := (dy_counts d)\<lparr>pc_rows := pc_rows (dy_counts d) + 1\<rparr>\<rparr>"
  have rel0: "related dr base f A ?d0 r" using Cons.prems(3) by (simp add: related_def new_counts_def)
  from simulatesI [OF simulates_row [OF gd prov spec] rel0 _ r0] obtain g B v d1 where
    1: "resolveRow spec (ld_vals x) (dryUpserter (ie_crypto I) spec) ?d0 = (Inr v, d1)" "related dr base g B d1 r0"
      "old_counts (dy_counts d1) = old_counts (dy_counts ?d0)" "v = y" by blast
  let ?d2 = "d1\<lparr>dy_counts := count_outcome y (dy_counts d1)\<rparr>"
  have run_x: "preview_row (ie_crypto I) spec x d = (Inr (), ?d2)"
    using 1(1,4) by (simp add: preview_row_def act_bind_def bump_def set_state_def)
  have rel2: "related dr base g B ?d2 r1"
    using 1(2) by (cases y) (simp_all add: related_def r1 new_counts_def)
  have "tally3 (tally y t) = plus3 b (tally4 (dy_counts ?d2))"
    using Cons.prems(4) 1(3) by (cases y; cases b) (auto simp: tally3_def tally4_def old_counts_def)
  then obtain g' B' d' where "act_for rs (preview_row (ie_crypto I) spec) ?d2 = (Inr (), d')" "related dr base g' B' d' r'"
      "tally3 t' = plus3 b (tally4 (dy_counts d'))"
    using Cons.IH [OF rest [unfolded out, simplified] _ rel2] Cons.prems(2) tl by auto
  with run_x show ?case by (auto simp: act_bind_def)
qed

subsection \<open>Where a run starts\<close>

text \<open>The account ids a workspace's records mention are plain: they hold no bar and do not look like a synthetic id; the drawn ids are plain, distinct
  and mentioned by no record.\<close>

definition account_refs :: "uuid \<Rightarrow> db \<Rightarrow> uuid set" where
  "account_refs w s = acc_id ` {a \<in> set (accounts s). acc_workspaceId a = w}
     \<union> (\<lambda>c. or_empty (ct_accountId c)) ` {c \<in> set (contacts s). ct_workspaceId c = w}
     \<union> (\<lambda>d. or_empty (dl_accountId d)) ` {d \<in> set (deals s). dl_workspaceId d = w} - {[]}"

definition plain_id :: "uuid \<Rightarrow> bool" where
  "plain_id i \<longleftrightarrow> bar \<notin> set i \<and> \<not> starts_with dry_prefix i"

definition unused_draws :: "import_draws \<Rightarrow> uuid \<Rightarrow> db \<Rightarrow> bool" where
  "unused_draws dr w s \<longleftrightarrow> good_draws dr \<and> (\<forall>i\<in>account_refs w s. plain_id i) \<and> (\<forall>n. dw_id dr n \<notin> account_refs w s)
     \<and> list_all (\<lambda>a. acc_id a \<noteq> []) (accounts s)"

lemma related_start:
  assumes un_draws: "unused_draws dr w s" and sz: "sizes s' = sizes s"
  shows "related dr (sizes s) id (insert [] (account_refs w s)) \<lparr>dy_maps = loadExisting w s, dy_counts = no_counts, dy_n = 0\<rparr>
    \<lparr>rl_db = s', rl_maps = loadExisting w s, rl_defs = (\<lambda>_. None), rl_project = None, rl_n = 0\<rparr>"
proof -
  let ?A = "account_refs w s" and ?m = "loadExisting w s"
  have gd: "good_draws dr" and plain: "\<And>i. i \<in> ?A \<Longrightarrow> plain_id i" and new: "\<And>n. dw_id dr n \<notin> ?A" and ids: "\<And>a. a \<in> set (accounts s) \<Longrightarrow> acc_id a \<noteq> []"
    using un_draws by (auto simp: unused_draws_def list_all_iff)
  have acc: "acc_id a \<in> ?A" if "a \<in> set (accounts s)" "acc_workspaceId a = w" for a
    using that ids by (auto simp: account_refs_def)
  have contact: "or_empty (ct_accountId c) \<in> insert [] ?A" if "c \<in> set (contacts s)" "ct_workspaceId c = w" for c
    using that by (auto simp: account_refs_def)
  have deal: "or_empty (dl_accountId d) \<in> insert [] ?A" if "d \<in> set (deals s)" "dl_workspaceId d = w" for d
    using that by (auto simp: account_refs_def)
  have nobar: "bar \<notin> set i" if "i \<in> insert [] ?A" for i using that plain by (auto simp: plain_id_def)
  have un: "unused i ?m" if i: "bar \<notin> set i" "i \<notin> insert [] ?A" for i
    unfolding unused_def
  proof (intro allI conjI; rule ccontr)
    fix n
    assume "em_contactByNameAcct ?m (n @ bar # i) \<noteq> None"
    then obtain c where c: "c \<in> set (contacts s)" "ct_workspaceId c = w" "n @ bar # i = contact_key (ct_name c) (ct_accountId c)"
      by (auto simp: loadExisting_def rows_where_def dest!: map_of_SomeD)
    have "i = or_empty (ct_accountId c)"
      using split_last [OF i(1) nobar [OF contact [OF c(1,2)]], of n "js_lower (ct_name c)"] c(3) by (simp add: contact_key_form)
    with contact [OF c(1,2)] i(2) show False by simp
  next
    fix n
    assume "em_dealByAcctName ?m (i @ bar # n) \<noteq> None"
    then obtain d where d: "d \<in> set (deals s)" "dl_workspaceId d = w" "i @ bar # n = deal_key (dl_accountId d) (dl_name d)"
      by (auto simp: loadExisting_def rows_where_def dest!: map_of_SomeD)
    have "i = or_empty (dl_accountId d)"
      using split_first [OF i(1) nobar [OF deal [OF d(1,2)]], of n "dealNorm (dl_name d)"] d(3) by (simp add: deal_key_form)
    with deal [OF d(1,2)] i(2) show False by simp
  qed
  have dry: "dry_id k \<notin> insert [] ?A" for k
    using plain [of "dry_id k"] dry_id_plain by (auto simp: plain_id_def dry_id_def starts_with_def)
  have "ran (em_accByDomain ?m) \<subseteq> ?A" "ran (em_accByName ?m) \<subseteq> ?A"
    using acc by (auto simp: loadExisting_def ran_def rows_where_def dest!: map_of_SomeD)
  moreover have "[] \<notin> ?A" by (simp add: account_refs_def)
  ultimately have "matched id (insert [] ?A) ?m ?m" using nobar by (auto simp: matched_def option.map_id)
  moreover have "dw_id dr k \<notin> insert [] ?A" "bar \<notin> set (dw_id dr k)" for k using gd new by (auto simp: good_draws_def)
  ultimately show ?thesis using sz dry un dry_id_plain
    by (simp add: related_def no_counts_def new_counts_def)
qed

subsection \<open>The preview predicts the run\<close>

text \<open>C36. Approving an import runs what its preview showed: for a fresh job without a confidence bar, within one slice, whose contacts are not matched by
  e-mail, a run in which no row fails creates, updates and skips exactly as many rows as the preview of the same mapping counts, and the tables
  grow by exactly the accounts, contacts, deals and tasks it announces. The database gives the workspace unmentioned, distinct ids.\<close>

theorem preview_predicts_run:
  assumes job: "job_at s w i = Some j" "ij_status j = ''queued''" "ij_cursor j = 0" "ij_minConfidence j = None" "job_spec s j = Some spec"
    and spec: "mp_dedupeContact spec \<noteq> ''email''" and prov: "provisioned (ie_crypto I)" and draws: "unused_draws dr w s"
    and few: "int (length (sheet_rows s w (ij_sheetId j))) \<le> n" "n \<le> PREVIEW_LIMIT"
    and run: "runImportSlice I C dr now w i n s = (Inr p, s')" and fine: "jp_failed p = ij_failedCount j"
  shows "\<exists>c. previewImport I w (ij_sheetId j) spec PREVIEW_LIMIT s = (Inr c, s)
     \<and> jp_created p = ij_createdCount j + int (pc_created c) \<and> jp_updated p = ij_updatedCount j + int (pc_updated c)
     \<and> jp_held p = ij_heldCount j + int (pc_held c) \<and> sizes s' = plus4 (sizes s) (new_counts c)"
proof -
  let ?s1 = "importJobs_update (upd_where (\<lambda>x. ij_id x = ij_id j) (\<lambda>x. x\<lparr>ij_status := ''running'', ij_updatedAt := now\<rparr>)) s"
  let ?rows = "map (loaded I w) (sheet_rows s w (ij_sheetId j))" and ?U = "realUpserter I C dr now w (ij_createdBySub j) spec"
  let ?r = "\<lparr>rl_db = ?s1, rl_maps = loadExisting w s, rl_defs = (\<lambda>_. None), rl_project = None, rl_n = 0\<rparr>"
  let ?d = "\<lparr>dy_maps = loadExisting w s, dy_counts = no_counts, dy_n = 0\<rparr>"
  have rows: "loadRows I w (ij_sheetId j) 0 m s' = map (loaded I w) (take (nat m) (sheet_rows s w (ij_sheetId j)))" if "importRows s' = importRows s" for m s'
    using that by (simp add: loadRows_def sheet_rows_def)
  have ex: "loadExisting w ?s1 = loadExisting w s" by (simp add: loadExisting_def)
  from run obtain t r1 where t: "run_rows ?U spec None ?rows no_tally ?r = (Inr t, r1)"
    and fin: "finish_slice (ie_crypto I) now w j (length ?rows) t (rl_db r1) = (Inr p, s')"
    using job few by (auto simp: runImportSlice_def run_job_def set_job_def tbl_update_def act_defs rows within_def ex
      split: prod.splits sum.splits)
  have p: "p = brief (advanced now j (length ?rows) t j)" and sz': "sizes s' = sizes (rl_db r1)"
  proof -
    have "frames sizes (appendAudit (ie_crypto I) now x)" for x by (rule frames_appendAudit) simp_all
    then have "sizes s2 = sizes s3" if "appendAudit (ie_crypto I) now x s3 = (y, s2)" for x y s2 s3 using framesD that by metis
    then show "p = brief (advanced now j (length ?rows) t j)" "sizes s' = sizes (rl_db r1)"
      using fin by (auto simp: finish_slice_def set_job_def tbl_update_def act_bind_def act_return_def split: if_splits prod.splits sum.splits)
  qed
  have "ta_failed t = ta_failed no_tally" using fine by (simp add: p brief_def advanced_def no_tally_def Let_def)
  moreover have "related dr (sizes s) id (insert [] (account_refs w s)) ?d ?r" by (rule related_start [OF draws]) simp
  moreover have "tally3 no_tally = plus3 (0, 0, 0) (tally4 (dy_counts ?d))" by (simp add: tally3_def tally4_def no_tally_def no_counts_def)
  ultimately obtain g B d' where "act_for ?rows (preview_row (ie_crypto I) spec) ?d = (Inr (), d')" "related dr (sizes s) g B d' r1"
      "tally3 t = plus3 (0, 0, 0) (tally4 (dy_counts d'))"
    using run_rows_related [OF _ prov spec t] draws unfolding unused_draws_def by blast
  moreover have "take (nat PREVIEW_LIMIT) (sheet_rows s w (ij_sheetId j)) = sheet_rows s w (ij_sheetId j)" using few by simp
  ultimately have "previewImport I w (ij_sheetId j) spec PREVIEW_LIMIT s = (Inr (dy_counts d'), s)" "sizes s' = plus4 (sizes s) (new_counts (dy_counts d'))"
    by (simp_all add: previewImport_def act_defs rows sz' related_def)
  then show ?thesis using \<open>tally3 t = _\<close>
    by (intro exI [of _ "dy_counts d'"]) (simp add: p brief_def advanced_def Let_def tally3_def tally4_def)
qed

lemma loaded_email_key:
  assumes "k \<noteq> []"
  shows "em_contactByEmailKey (loadExisting w s) k = None \<longleftrightarrow> \<not> (\<exists>c\<in>set (contacts s). ct_workspaceId c = w \<and> ct_emailKey c = Some k)"
  and "em_contactByEmailKey (loadExisting w s) k = Some i \<Longrightarrow> \<exists>c\<in>set (contacts s). ct_workspaceId c = w \<and> ct_emailKey c = Some k \<and> ct_id c = i"
proof -
  let ?kept = "filter (\<lambda>c. truthy (ct_emailKey c)) (rows_where (\<lambda>c. ct_workspaceId c = w) (contacts s))"
  have load: "em_contactByEmailKey (loadExisting w s) = map_of (rev (map (\<lambda>c. (or_empty (ct_emailKey c), ct_id c)) ?kept))"
    by (simp add: loadExisting_def Let_def)
  have key: "truthy (ct_emailKey c) \<and> or_empty (ct_emailKey c) = k \<longleftrightarrow> ct_emailKey c = Some k" for c
    using assms by (cases "ct_emailKey c") (auto simp: truthy_def or_empty_def)
  show "em_contactByEmailKey (loadExisting w s) k = None \<longleftrightarrow> \<not> (\<exists>c\<in>set (contacts s). ct_workspaceId c = w \<and> ct_emailKey c = Some k)"
    by (simp add: load map_of_eq_None_iff rows_where_def image_iff) (use key in metis)
  show "\<exists>c\<in>set (contacts s). ct_workspaceId c = w \<and> ct_emailKey c = Some k \<and> ct_id c = i" if "em_contactByEmailKey (loadExisting w s) k = Some i"
    using key map_of_SomeD [OF that [unfolded load]] by (auto simp: rows_where_def)
qed

text \<open>C37. With contacts matched by e-mail, the preview of an import into a workspace computes its lookup keys under the name \<open>preview\<close> and not under the workspace's.
  Let a contact of the workspace be stored with the key of an address, and let none be stored with the key that the address has under \<open>preview\<close> (keys of
  different workspaces differ). The first row with that address is then matched to a stored contact by the run and announced as a new contact by the
  preview, both starting from the maps loaded from the same database.\<close>

theorem preview_misses_known_emails:
  assumes "mp_dedupeContact spec = ''email''"
    and "email_index E w mail = Inr k" "k \<noteq> []" and "c \<in> set (contacts s)" "ct_workspaceId c = w" "ct_emailKey c = Some k"
    and "email_index E ''preview'' mail = Inr k'" "list_all (\<lambda>c. ct_workspaceId c \<noteq> w \<or> ct_emailKey c \<noteq> Some k') (contacts s)" "k' \<noteq> []"
  shows "\<exists>x\<in>set (contacts s). ct_workspaceId x = w \<and> ct_emailKey x = Some k
    \<and> real_contact E dr now w u spec name title mail a \<lparr>rl_db = s, rl_maps = loadExisting w s, rl_defs = defs, rl_project = p, rl_n = n\<rparr>
       = (Inr (ct_id x, False), \<lparr>rl_db = s, rl_maps = loadExisting w s, rl_defs = defs, rl_project = p, rl_n = n\<rparr>)
    \<and> (\<exists>j d'. dry_contact E spec name title mail a \<lparr>dy_maps = loadExisting w s, dy_counts = cs, dy_n = m\<rparr> = (Inr (j, True), d')
       \<and> pc_newContacts (dy_counts d') = pc_newContacts cs + 1)"
proof -
  obtain i where i: "em_contactByEmailKey (loadExisting w s) k = Some i" using loaded_email_key(1) [OF assms(3)] assms(4-6) by blast
  then obtain x where x: "x \<in> set (contacts s)" "ct_workspaceId x = w" "ct_emailKey x = Some k" "ct_id x = i"
    using loaded_email_key(2) [OF assms(3)] by blast
  have none: "em_contactByEmailKey (loadExisting w s) k' = None" using loaded_email_key(1) [OF assms(9)] assms(8) by (auto simp: list_all_iff)
  show ?thesis
    by (rule bexI [OF _ x(1)]) (use x i none assms in \<open>simp add: real_contact_def dry_contact_def act_defs known_contact_def synth_def set_state_def bump_def Let_def\<close>)
qed

definition demo_spec :: "string \<Rightarrow> MappingSpec" where
  "demo_spec match = \<lparr>mp_primaryEntity = ''contact'', mp_columns = [\<lparr>mk_column = ''Company'', mk_map = StdMap ''account.name''\<rparr>,
     \<lparr>mk_column = ''Name'', mk_map = StdMap ''contact.name''\<rparr>], mp_dedupeAccount = ''name'', mp_dedupeContact = match, mp_createTasks = None\<rparr>"

definition demo_row :: import_row_row where
  "demo_row = \<lparr>iw_id = ''r1'', iw_workspaceId = ''w1'', iw_sheetId = ''s1'', iw_rowIndex = 0, iw_cells = [(''Company'', ''Acme''), (''Name'', ''Ann'')],
     iw_cellsEnc = None, iw_dedupeKey = None, iw_status = ''new'', iw_confidence = None, iw_linkedAccountId = None, iw_linkedContactId = None, iw_createdAt = 0\<rparr>"

definition demo_job :: import_job_row where
  "demo_job = \<lparr>ij_id = ''j1'', ij_workspaceId = ''w1'', ij_sheetId = ''s1'', ij_mappingId = Some ''m1'', ij_minConfidence = None, ij_status = ''queued'', ij_cursor = 0,
     ij_total = 2, ij_createdCount = 0, ij_updatedCount = 0, ij_heldCount = 0, ij_failedCount = 0, ij_errorText = None, ij_createdBySub = ''alice'', ij_createdAt = 0,
     ij_updatedAt = 0\<rparr>"

definition demo_queue :: db where
  "demo_queue = demo_db\<lparr>importRows := [demo_row], importMappings := [\<lparr>im_id = ''m1'', im_workspaceId = ''w1'', im_sheetId = ''s1'', im_spec = demo_spec ''name'',
     im_approved = True, im_createdBySub = ''alice'', im_createdAt = 0, im_updatedAt = 0\<rparr>], importJobs := [demo_job]\<rparr>"

definition demo_draws :: import_draws where
  "demo_draws = \<lparr>dw_id = (\<lambda>n. CHR ''i'' # replicate n (CHR ''x'')), dw_activity = (\<lambda>n. CHR ''a'' # replicate n (CHR ''x'')), dw_iv = (\<lambda>_. ''iv''),
     dw_event = (\<lambda>_. demo_fresh)\<rparr>"

lemma unused_demo_draws: "unused_draws demo_draws ''w1'' demo_queue"
proof -
  have "inj (\<lambda>n. CHR ''i'' # replicate n (CHR ''x''))" by (rule injI) (metis length_replicate list.inject)
  then show ?thesis by (simp add: unused_draws_def good_draws_def demo_draws_def account_refs_def demo_queue_def demo_db_def empty_db_def)
qed

theorem preview_predicts_run_witness:
  "\<exists>p s' c. runImportSlice demo_import_env demo_cal_env demo_draws 5 ''w1'' ''j1'' IMPORT_SLICE demo_queue = (Inr p, s')
     \<and> previewImport demo_import_env ''w1'' ''s1'' (demo_spec ''name'') PREVIEW_LIMIT demo_queue = (Inr c, demo_queue)
     \<and> jp_created p = int (pc_created c) \<and> pc_created c = 1 \<and> sizes s' = (1, 1, 0, 0)"
proof -
  have rows: "sheet_rows demo_queue ''w1'' ''s1'' = [demo_row]"
    by (simp add: sheet_rows_def rows_where_def demo_queue_def demo_row_def)
  have job: "job_at demo_queue ''w1'' ''j1'' = Some demo_job" "job_spec demo_queue demo_job = Some (demo_spec ''name'')"
    by (simp_all add: job_at_def job_spec_def demo_queue_def demo_job_def)
  have "case runImportSlice demo_import_env demo_cal_env demo_draws 5 ''w1'' ''j1'' IMPORT_SLICE demo_queue of
      (Inr p, s') \<Rightarrow> jp_failed p = 0 \<and> jp_created p = 1 \<and> sizes s' = (1, 1, 0, 0) | _ \<Rightarrow> False"
    by code_simp
  then obtain p s' where run: "runImportSlice demo_import_env demo_cal_env demo_draws 5 ''w1'' ''j1'' IMPORT_SLICE demo_queue = (Inr p, s')"
    and p: "jp_failed p = 0" "jp_created p = 1" "sizes s' = (1, 1, 0, 0)"
    by (auto split: prod.splits sum.splits)
  obtain c where "previewImport demo_import_env ''w1'' ''s1'' (demo_spec ''name'') PREVIEW_LIMIT demo_queue = (Inr c, demo_queue)"
      "jp_created p = int (pc_created c)"
    using preview_predicts_run [OF job(1) _ _ _ job(2) _ _ unused_demo_draws _ _ run]
    by (auto simp: demo_job_def demo_spec_def provisioned_demo rows IMPORT_SLICE_def PREVIEW_LIMIT_def p)
  with run p show ?thesis by auto
qed

definition demo_known :: "string \<Rightarrow> db" where
  "demo_known k = demo_db\<lparr>contacts := [\<lparr>ct_id = ''c1'', ct_workspaceId = ''w1'', ct_accountId = None, ct_name = ''Ann'', ct_emailEnc = None, ct_emailKey = Some k,
     ct_title = None, ct_ownerSub = None, ct_lastTouch = None\<rparr>]\<rparr>"

theorem preview_misses_known_emails_witness:
  "\<exists>k. let s = demo_known k; mail = Some ''ann@acme.com'' in
     (\<exists>r. real_contact demo_env demo_draws 5 ''w1'' ''alice'' (demo_spec ''email'') ''Ann'' None mail None
        \<lparr>rl_db = s, rl_maps = loadExisting ''w1'' s, rl_defs = (\<lambda>_. None), rl_project = None, rl_n = 0\<rparr> = (Inr (''c1'', False), r))
     \<and> (\<exists>j d'. dry_contact demo_env (demo_spec ''email'') ''Ann'' None mail None \<lparr>dy_maps = loadExisting ''w1'' s, dy_counts = no_counts, dy_n = 0\<rparr>
        = (Inr (j, True), d') \<and> pc_newContacts (dy_counts d') = pc_newContacts no_counts + 1)"
proof -
  obtain k where k: "email_index demo_env ''w1'' (Some ''ann@acme.com'') = Inr k" using email_index_ok [OF provisioned_demo] by blast
  obtain k' where k': "email_index demo_env ''preview'' (Some ''ann@acme.com'') = Inr k'" using email_index_ok [OF provisioned_demo] by blast
  have ks: "k \<noteq> []" "k' \<noteq> []" "length k \<noteq> length k'"
    using k k' by (simp_all add: email_index_def blindIndex_def derive_def masterKey_demo truthy_def) (auto simp: demo_env_def)
  then have "k \<noteq> k'" by auto
  then have "list_all (\<lambda>c. ct_workspaceId c \<noteq> ''w1'' \<or> ct_emailKey c \<noteq> Some k') (contacts (demo_known k))" by (simp add: demo_known_def)
  from preview_misses_known_emails [OF _ k ks(1) _ _ _ k' this ks(2), of "demo_spec ''email''" "contacts (demo_known k) ! 0" demo_draws 5 "''alice''" "''Ann''" None None
      "\<lambda>_. None" None 0 no_counts 0]
  show ?thesis by (intro exI [of _ k]) (auto simp: demo_known_def demo_spec_def Let_def)
qed

end
