(* ===== verification/Settings.thy ===== *)
theory Settings
  imports Membership
begin

text \<open>
  \<^verbatim>\<open>lib/domain/settings.ts\<close>: the settings document of a workspace, read over defaults key by key and updated by merging a patch into each section.
  \<^verbatim>\<open>updateDisplayName\<close> and \<^verbatim>\<open>setMemberTimezone\<close> write the member row and are in \<open>Membership\<close>.
\<close>

text \<open>An object with string keys is an association list; \<open>spread a b\<close> is \<^verbatim>\<open>{ ...a, ...b }\<close>.\<close>

fun put_key :: "string \<Rightarrow> 'v \<Rightarrow> (string \<times> 'v) list \<Rightarrow> (string \<times> 'v) list" where
  "put_key k v [] = [(k, v)]"
| "put_key k v ((k', v') # kvs) = (if k' = k then (k, v) # kvs else (k', v') # put_key k v kvs)"

definition spread :: "(string \<times> 'v) list \<Rightarrow> (string \<times> 'v) list \<Rightarrow> (string \<times> 'v) list" where
  "spread a b = fold (\<lambda>(k, v). put_key k v) b a"

definition first_set :: "'a option \<Rightarrow> 'a option \<Rightarrow> 'a option" where
  "first_set a b = (case a of Some x \<Rightarrow> Some x | None \<Rightarrow> b)"

definition or_nil :: "'a list option \<Rightarrow> 'a list" where
  "or_nil x = (case x of Some y \<Rightarrow> y | None \<Rightarrow> [])"

definition SETTINGS_DEFAULTS :: WorkspaceSettings where
  "SETTINGS_DEFAULTS = \<lparr>wt_notifications = Some [], wt_automation = Some False,
     wt_appearance = Some \<lparr>wa_density = Some ''cinematic'', wa_accent = Some ''green'', wa_reducedMotion = Some False\<rparr>, wt_ingest = Some (85, 2)\<rparr>"

definition settings_at :: "db \<Rightarrow> uuid \<Rightarrow> WorkspaceSettings option" where
  "settings_at s w = map_option se_settings (first_where (\<lambda>r. se_workspaceId r = w) (workspaceSettings s))"

definition over_defaults :: "WorkspaceSettings option \<Rightarrow> WorkspaceSettings" where
  "over_defaults st = (case st of None \<Rightarrow> SETTINGS_DEFAULTS | Some x \<Rightarrow>
     \<lparr>wt_notifications = first_set (wt_notifications x) (wt_notifications SETTINGS_DEFAULTS),
      wt_automation = first_set (wt_automation x) (wt_automation SETTINGS_DEFAULTS),
      wt_appearance = first_set (wt_appearance x) (wt_appearance SETTINGS_DEFAULTS),
      wt_ingest = first_set (wt_ingest x) (wt_ingest SETTINGS_DEFAULTS)\<rparr>)"

definition getSettings :: "uuid \<Rightarrow> (db, WorkspaceSettings) act" where
  "getSettings w = act_get (\<lambda>s. over_defaults (settings_at s w))"

definition merge_appearance :: "Appearance option \<Rightarrow> Appearance option \<Rightarrow> Appearance" where
  "merge_appearance cur patch = (let blank = \<lparr>wa_density = None, wa_accent = None, wa_reducedMotion = None\<rparr>;
       c = (case cur of Some x \<Rightarrow> x | None \<Rightarrow> blank); p = (case patch of Some x \<Rightarrow> x | None \<Rightarrow> blank)
     in \<lparr>wa_density = first_set (wa_density p) (wa_density c), wa_accent = first_set (wa_accent p) (wa_accent c),
         wa_reducedMotion = first_set (wa_reducedMotion p) (wa_reducedMotion c)\<rparr>)"

definition merge_settings :: "WorkspaceSettings \<Rightarrow> WorkspaceSettings \<Rightarrow> WorkspaceSettings" where
  "merge_settings cur patch = \<lparr>
     wt_notifications = Some (spread (or_nil (wt_notifications cur)) (or_nil (wt_notifications patch))),
     wt_automation = first_set (wt_automation patch) (wt_automation cur),
     wt_appearance = Some (merge_appearance (wt_appearance cur) (wt_appearance patch)),
     wt_ingest = first_set (wt_ingest patch) (wt_ingest cur)\<rparr>"

text \<open>\<^verbatim>\<open>insert ... on conflict (workspace_id) do update set settings\<close>.\<close>

definition upsert_settings :: "uuid \<Rightarrow> WorkspaceSettings \<Rightarrow> (db, unit) act" where
  "upsert_settings w st = act_bind (act_get (\<lambda>s. w \<in> se_workspaceId ` set (workspaceSettings s))) (\<lambda>conflict.
     if conflict then tbl_update workspaceSettings_update (\<lambda>r. se_workspaceId r = w) (\<lambda>r. r\<lparr>se_settings := st\<rparr>)
     else act_bind (tbl_insert (\<lambda>s. has_workspace s w) workspaceSettings_update \<lparr>se_workspaceId = w, se_settings = st\<rparr>) (\<lambda>_. act_return ()))"

definition updateSettings :: "uuid \<Rightarrow> WorkspaceSettings \<Rightarrow> (db, WorkspaceSettings) act" where
  "updateSettings w patch = act_bind (getSettings w) (\<lambda>cur. let nxt = merge_settings cur patch in
     act_bind (upsert_settings w nxt) (\<lambda>_. act_return nxt))"

subsection \<open>An update is read back\<close>

lemma put_key_look: "map_of (put_key k v m) x = (if x = k then Some v else map_of m x)"
  by (induction m) auto

lemma spread_look: "map_of (spread a b) x = (case map_of (rev b) x of Some v \<Rightarrow> Some v | None \<Rightarrow> map_of a x)"
proof -
  have "map_of (fold (\<lambda>(k, v). put_key k v) b a) x = (case map_of (rev b) x of Some v \<Rightarrow> Some v | None \<Rightarrow> map_of a x)"
    by (induction b arbitrary: a) (auto simp: put_key_look map_add_def split: option.splits)
  then show ?thesis by (simp add: spread_def)
qed

lemma settings_at_upsert:
  assumes "upsert_settings w st s = (Inr (), s')"
  shows "settings_at s' v = (if v = w then Some st else settings_at s v)"
proof (cases "w \<in> se_workspaceId ` set (workspaceSettings s)")
  case True
  then have s': "s' = workspaceSettings_update (upd_where (\<lambda>r. se_workspaceId r = w) (\<lambda>r. r\<lparr>se_settings := st\<rparr>)) s"
    using assms by (simp add: upsert_settings_def act_bind_def act_get_def tbl_update_def)
  have "first_where (\<lambda>r. se_workspaceId r = v) (upd_where (\<lambda>r. se_workspaceId r = w) (\<lambda>r. r\<lparr>se_settings := st\<rparr>) rs)
      = map_option (\<lambda>r. if se_workspaceId r = w then r\<lparr>se_settings := st\<rparr> else r) (first_where (\<lambda>r. se_workspaceId r = v) rs)" for rs :: "settings_row list"
    by (rule first_where_upd_where) simp
  then have *: "settings_at s' v = map_option (\<lambda>r. if se_workspaceId r = w then st else se_settings r) (first_where (\<lambda>r. se_workspaceId r = v) (workspaceSettings s))"
    by (simp add: s' settings_at_def option.map_comp comp_def if_distrib [of se_settings] cong: if_cong)
  show ?thesis
  proof (cases "first_where (\<lambda>r. se_workspaceId r = v) (workspaceSettings s)")
    case None
    with True have "v \<noteq> w" by (auto simp: first_where_None_iff)
    with None * show ?thesis by (simp add: settings_at_def)
  next
    case (Some r)
    then have "se_workspaceId r = v" by (auto dest: first_where_SomeD)
    with Some * have "settings_at s' v = Some (if v = w then st else se_settings r)" by simp
    moreover have "settings_at s v = Some (se_settings r)" using Some by (simp add: settings_at_def)
    ultimately show ?thesis by simp
  qed
next
  case False
  then have "s' = workspaceSettings_update (\<lambda>rs. rs @ [\<lparr>se_workspaceId = w, se_settings = st\<rparr>]) s"
    using assms by (simp add: upsert_settings_def act_defs tbl_insert_def split: if_splits)
  moreover have "first_where (\<lambda>r. se_workspaceId r = w) (workspaceSettings s) = None"
    using False by (auto simp: first_where_None_iff)
  ultimately show ?thesis by (auto simp: settings_at_def first_where_append split: option.split)
qed

lemma settings_after:
  assumes "updateSettings w patch s = (Inr st, s')"
  shows "st = merge_settings (over_defaults (settings_at s w)) patch" and "settings_at s' v = (if v = w then Some st else settings_at s v)"
proof -
  have run: "updateSettings w patch s = act_bind (upsert_settings w (merge_settings (over_defaults (settings_at s w)) patch))
      (\<lambda>_. act_return (merge_settings (over_defaults (settings_at s w)) patch)) s"
    by (simp add: updateSettings_def getSettings_def Let_def act_bind_get)
  from assms obtain u where "upsert_settings w (merge_settings (over_defaults (settings_at s w)) patch) s = (Inr (), u)"
    "act_return (merge_settings (over_defaults (settings_at s w)) patch) u = (Inr st, s')"
    unfolding run by (auto elim!: act_bind_InrE)
  then show "st = merge_settings (over_defaults (settings_at s w)) patch" and "settings_at s' v = (if v = w then Some st else settings_at s v)"
    using settings_at_upsert by (auto simp: act_return_def)
qed

lemma over_defaults_merged: "over_defaults (Some (merge_settings (over_defaults x) patch)) = merge_settings (over_defaults x) patch"
  by (auto simp: over_defaults_def merge_settings_def first_set_def SETTINGS_DEFAULTS_def split: option.split)

text \<open>Settings round trip: what an update returns is what the next read of that workspace returns, every key sent is set and every key not
  sent keeps its value, and the settings of other workspaces are untouched.\<close>

theorem settings_update_read_back:
  assumes "updateSettings w patch s = (Inr st, s')"
  shows "fst (getSettings w s') = Inr st \<and> (\<forall>v. settings_at s' v = (if v = w then Some st else settings_at s v))
     \<and> wt_automation st = first_set (wt_automation patch) (wt_automation (over_defaults (settings_at s w)))
     \<and> map_of (the (wt_notifications st)) x = (case map_of (rev (or_nil (wt_notifications patch))) x of
         Some l \<Rightarrow> Some l | None \<Rightarrow> map_of (or_nil (wt_notifications (over_defaults (settings_at s w)))) x)"
proof -
  have st: "st = merge_settings (over_defaults (settings_at s w)) patch" using settings_after(1) [OF assms] .
  have at: "settings_at s' v = (if v = w then Some st else settings_at s v)" for v using settings_after(2) [OF assms] .
  show ?thesis using at over_defaults_merged [of "settings_at s w" patch]
    by (simp add: getSettings_def act_get_def st merge_settings_def spread_look)
qed

definition demo_patch :: WorkspaceSettings where
  "demo_patch = \<lparr>wt_notifications = Some [(''c1'', ''mute'')], wt_automation = None, wt_appearance = None, wt_ingest = None\<rparr>"

theorem settings_update_read_back_witness:
  "\<exists>st s'. updateSettings ''w1'' demo_patch demo_db = (Inr st, s') \<and> fst (getSettings ''w1'' s') = Inr st \<and> wt_automation st = Some False
     \<and> map_of (the (wt_notifications st)) ''c1'' = Some ''mute''"
proof -
  have none: "settings_at demo_db ''w1'' = None" by (simp add: settings_at_def demo_db_def empty_db_def)
  obtain st s' where run: "updateSettings ''w1'' demo_patch demo_db = (Inr st, s')"
    by (simp add: updateSettings_def getSettings_def upsert_settings_def act_defs tbl_insert_def Let_def demo_db_def empty_db_def has_workspace_def
        demo_workspace_def)
  from settings_update_read_back [OF this, of "''c1''"] run show ?thesis
    by (intro exI [of _ st] exI [of _ s']) (simp add: none over_defaults_def demo_patch_def first_set_def SETTINGS_DEFAULTS_def or_nil_def)
qed

end
