(* ===== verification/Ingest.thy ===== *)
theory Ingest
  imports Import_Preview Settings
begin

text \<open>
  \<^verbatim>\<open>lib/domain/ingest.ts\<close>: free text or a document becomes extracted records, staged rows, an approved identity mapping and a job with a confidence
  bar, of which one slice runs at once; one review is queued for the records below the bar. The theorem states that records below the bar are
  not written.
\<close>

record IngestSummary =
  is_source :: ExtractSource
  is_extracted :: nat
  is_autoWrite :: nat
  is_held :: nat
  is_jobId :: "uuid option"
  is_reviewApprovalId :: "uuid option"
  is_progress :: "JobProgress option"
  is_note :: string

definition threshold :: "uuid \<Rightarrow> (db, decimal) act" where
  "threshold w = act_bind (getSettings w) (\<lambda>s. act_return (case wt_ingest s of
     Some t \<Rightarrow> if dec_le (0, 0) t \<and> dec_le t (1, 0) then t else (85, 2) | None \<Rightarrow> (85, 2)))"

record IngestArgs =
  in_workspaceId :: uuid
  in_text :: string
  in_bySub :: string
  in_sourceName :: "string option"
  in_documentId :: "uuid option"
  in_hint :: "string option"

text \<open>Random ids of one ingestion: the staged batch, mapping and job, the run, and the review.\<close>

record ingest_draws =
  id_table :: table_draws
  id_mapping :: uuid
  id_job :: uuid
  id_run :: import_draws
  id_call :: uuid
  id_fallback :: uuid
  id_approval :: uuid
  id_iv :: string

definition nothing_ingested :: "ExtractSource \<Rightarrow> string \<Rightarrow> IngestSummary" where
  "nothing_ingested src note = \<lparr>is_source = src, is_extracted = 0, is_autoWrite = 0, is_held = 0, is_jobId = None, is_reviewApprovalId = None,
     is_progress = None, is_note = note\<rparr>"

definition ingest_note :: "StageExtractedResult \<Rightarrow> string" where
  "ingest_note staged = digits_of (sx_autoWrite staged) @ (if sx_hold staged > 0
     then '' record(s) written; '' @ digits_of (sx_hold staged) @ '' low-confidence held for your review.'' else '' record(s) written.'')"

text \<open>The review of the records below the bar, when there are any.\<close>

definition queue_review :: "approval_env \<Rightarrow> ms \<Rightarrow> ingest_draws \<Rightarrow> IngestArgs \<Rightarrow> uuid \<Rightarrow> nat \<Rightarrow> (db, uuid option) act" where
  "queue_review V now dr a jobId held = (if held = 0 then act_return None
     else act_bind (enqueueApproval V now (id_call dr) (id_fallback dr) (id_approval dr) (id_iv dr) \<lparr>ea_workspaceId = in_workspaceId a, ea_tool = ''crm.ingest'',
         ea_requestedBySub = in_bySub a, ea_personaId = None, ea_threadId = None, ea_action = CrmIngestReview jobId (or_default (in_sourceName a) ''ingest'') held\<rparr>)
       (\<lambda>(i, risk). act_return (Some i)))"

definition ingestText :: "import_env \<Rightarrow> cal_env \<Rightarrow> approval_env \<Rightarrow> ms \<Rightarrow> ingest_draws \<Rightarrow> IngestArgs \<Rightarrow> (db, IngestSummary) act" where
  "ingestText I C V now dr a = (let w = in_workspaceId a; u = in_bySub a; name = or_default (in_sourceName a) ''ingest'' in
     act_bind (threshold w) (\<lambda>least. let ex = extractEntities I (in_text a) (in_hint a) in
     if xr_records ex = [] then act_return (nothing_ingested (xr_source ex) (if or_empty (xr_error ex) \<noteq> []
         then ''Extraction failed ('' @ or_empty (xr_error ex) @ ''); nothing written.'' else ''No CRM records found in the source.''))
     else act_bind (stageExtracted I now (id_table dr) w (xr_records ex) name (in_documentId a) u least) (\<lambda>staged.
       act_bind (saveMapping now (id_mapping dr) w (sx_sheetId staged) extractionMapping u (Some True)) (\<lambda>mid.
       act_bind (createImportJob now (id_job dr) w (sx_sheetId staged) mid u (if xr_source ex = FromModel then Some least else None)) (\<lambda>jobId.
       act_bind (runImportSlice I C (id_run dr) now w jobId IMPORT_SLICE) (\<lambda>progress.
       act_bind (queue_review V now dr a jobId (sx_hold staged)) (\<lambda>review.
       act_return \<lparr>is_source = xr_source ex, is_extracted = sx_total staged, is_autoWrite = sx_autoWrite staged, is_held = sx_hold staged,
         is_jobId = Some jobId, is_reviewApprovalId = review, is_progress = Some progress, is_note = ingest_note staged\<rparr>)))))))"

definition no_text_note :: string where
  "no_text_note = ''Document not found or no extractable text (scanned/image docs need OCR '' @ emdash @ '' out of scope in v1).''"

definition ingestDocument :: "doc_env \<Rightarrow> import_env \<Rightarrow> cal_env \<Rightarrow> approval_env \<Rightarrow> ms \<Rightarrow> ingest_draws \<Rightarrow> uuid \<Rightarrow> uuid \<Rightarrow> string \<Rightarrow> DocViewer \<Rightarrow>
    string option \<Rightarrow> (db, IngestSummary) act" where
  "ingestDocument D I C V now dr w doc u viewer hint = act_bind (getDocumentText D w doc viewer) (\<lambda>found. case found of
       None \<Rightarrow> act_return (nothing_ingested FromModel no_text_note)
     | Some (name, t) \<Rightarrow> ingestText I C V now dr \<lparr>in_workspaceId = w, in_text = t, in_bySub = u, in_sourceName = Some name, in_documentId = Some doc, in_hint = hint\<rparr>)"

subsection \<open>The confidence bar\<close>

text \<open>The CRM and project tables of the database.\<close>

definition crm_tables ::
  "db \<Rightarrow> account_row list \<times> contact_row list \<times> deal_row list \<times> task_row list \<times> project_row list \<times> field_value_row list \<times> field_def_row list \<times> activity_row list" where
  "crm_tables s = (accounts s, contacts s, deals s, tasks s, projects s, crmFieldValues s, crmFieldDefs s, crmActivity s)"

lemma run_rows_all_held:
  "list_all (\<lambda>r. heldByConfidence least (ld_confidence r)) rs \<Longrightarrow> \<exists>F. run_rows U spec least rs t st =
     (Inr (t\<lparr>ta_held := ta_held t + int (length rs)\<rparr>), st\<lparr>rl_db := importRows_update F (rl_db st)\<rparr>)"
proof (induction rs arbitrary: t st)
  case Nil
  have "importRows_update id (rl_db st) = rl_db st" by simp
  then show ?case by (intro exI [of _ id]) (simp add: act_return_def)
next
  case (Cons r rs)
  let ?G = "upd_where (\<lambda>x. iw_id x = ld_id r) (\<lambda>x. x\<lparr>iw_status := ''held''\<rparr>)"
  obtain F where "run_rows U spec least rs (t\<lparr>ta_held := ta_held t + 1\<rparr>) (st\<lparr>rl_db := importRows_update ?G (rl_db st)\<rparr>)
      = (Inr (t\<lparr>ta_held := ta_held t + 1 + int (length rs)\<rparr>), st\<lparr>rl_db := importRows_update F (importRows_update ?G (rl_db st))\<rparr>)"
    using Cons.IH [of "t\<lparr>ta_held := ta_held t + 1\<rparr>" "st\<lparr>rl_db := importRows_update ?G (rl_db st)\<rparr>"] Cons.prems by auto
  then show ?case using Cons.prems
    by (intro exI [of _ "F \<circ> ?G"]) (simp add: on_db_def setRowStatus_def tbl_update_def act_bind_def algebra_simps)
qed

lemma finish_slice_outcome:
  assumes "finish_slice E now w j n t s = (Inr p, s')"
  shows "p = brief (advanced now j n t j)" "crm_tables s' = crm_tables s"
proof -
  have "frames crm_tables (appendAudit E now x)" for x by (rule frames_appendAudit) (simp_all add: crm_tables_def)
  then have "frames crm_tables (finish_slice E now w j n t)"
    unfolding finish_slice_def set_job_def by (intro frame_intros) (auto intro!: frame_intros frames_tbl_update simp: crm_tables_def)
  from framesD [OF this assms] show "crm_tables s' = crm_tables s" .
  show "p = brief (advanced now j n t j)" using assms
    by (auto simp: finish_slice_def act_bind_def act_return_def split: if_splits prod.splits sum.splits)
qed

text \<open>C38. A slice all of whose rows lie below the job's confidence bar writes nothing into the CRM or the projects, whatever the rows say and whatever
  the mapping is; all of them are counted as held.\<close>

theorem low_confidence_never_written:
  assumes job: "job_at s w i = Some j" "ij_status j = ''queued''" "job_spec s j = Some spec"
    and low: "list_all (\<lambda>r. heldByConfidence (ij_minConfidence j) (ld_confidence r)) (loadRows I w (ij_sheetId j) (ij_cursor j) n s)"
    and run: "runImportSlice I C dr now w i n s = (Inr p, s')"
  shows "crm_tables s' = crm_tables s \<and> jp_created p = ij_createdCount j \<and> jp_updated p = ij_updatedCount j
    \<and> jp_held p = ij_heldCount j + int (length (loadRows I w (ij_sheetId j) (ij_cursor j) n s))"
proof -
  let ?rows = "loadRows I w (ij_sheetId j) (ij_cursor j) n s"
  let ?s1 = "importJobs_update (upd_where (\<lambda>x. ij_id x = ij_id j) (\<lambda>x. x\<lparr>ij_status := ''running'', ij_updatedAt := now\<rparr>)) s"
  have rows: "loadRows I w (ij_sheetId j) (ij_cursor j) n ?s1 = ?rows" by (simp add: loadRows_def sheet_rows_def)
  obtain F where all: "run_rows (realUpserter I C dr now w (ij_createdBySub j) spec) spec (ij_minConfidence j) ?rows no_tally
      \<lparr>rl_db = ?s1, rl_maps = loadExisting w ?s1, rl_defs = (\<lambda>_. None), rl_project = None, rl_n = 0\<rparr>
    = (Inr (no_tally\<lparr>ta_held := int (length ?rows)\<rparr>), \<lparr>rl_db = importRows_update F ?s1, rl_maps = loadExisting w ?s1, rl_defs = (\<lambda>_. None), rl_project = None, rl_n = 0\<rparr>)"
    using run_rows_all_held [OF low, of "realUpserter I C dr now w (ij_createdBySub j) spec" spec no_tally
      "\<lparr>rl_db = ?s1, rl_maps = loadExisting w ?s1, rl_defs = (\<lambda>_. None), rl_project = None, rl_n = 0\<rparr>"] by (auto simp: no_tally_def)
  have fin: "finish_slice (ie_crypto I) now w j (length ?rows) (no_tally\<lparr>ta_held := int (length ?rows)\<rparr>) (importRows_update F ?s1) = (Inr p, s')"
    using run job by (simp add: runImportSlice_def run_job_def set_job_def tbl_update_def act_bind_def act_get_def rows within_def all)
  show ?thesis using finish_slice_outcome [OF fin]
    by (simp add: brief_def advanced_def no_tally_def Let_def crm_tables_def)
qed

definition demo_doubtful :: db where
  "demo_doubtful = demo_queue\<lparr>importRows := [demo_row\<lparr>iw_confidence := Some (4, 1)\<rparr>], importJobs := [demo_job\<lparr>ij_minConfidence := Some (85, 2)\<rparr>]\<rparr>"

theorem low_confidence_never_written_witness:
  "\<exists>p s'. runImportSlice demo_import_env demo_cal_env demo_draws 5 ''w1'' ''j1'' IMPORT_SLICE demo_doubtful = (Inr p, s')
     \<and> crm_tables s' = crm_tables demo_doubtful \<and> jp_held p = 1"
proof -
  let ?j = "demo_job\<lparr>ij_minConfidence := Some (85, 2)\<rparr>"
  have rows: "loadRows demo_import_env ''w1'' ''s1'' 0 IMPORT_SLICE demo_doubtful = [loaded demo_import_env ''w1'' (demo_row\<lparr>iw_confidence := Some (4, 1)\<rparr>)]"
    by (simp add: loadRows_def sheet_rows_def rows_where_def demo_doubtful_def demo_row_def IMPORT_SLICE_def)
  have job: "job_at demo_doubtful ''w1'' ''j1'' = Some ?j" "job_spec demo_doubtful ?j = Some (demo_spec ''name'')"
    by (simp_all add: job_at_def job_spec_def demo_doubtful_def demo_queue_def demo_job_def)
  have "case runImportSlice demo_import_env demo_cal_env demo_draws 5 ''w1'' ''j1'' IMPORT_SLICE demo_doubtful of (Inr p, s') \<Rightarrow> True | _ \<Rightarrow> False"
    by code_simp
  then obtain p s' where run: "runImportSlice demo_import_env demo_cal_env demo_draws 5 ''w1'' ''j1'' IMPORT_SLICE demo_doubtful = (Inr p, s')"
    by (auto split: prod.splits sum.splits)
  then show ?thesis
    using low_confidence_never_written [OF job(1) _ job(2) _ run]
    by (auto simp: demo_job_def rows loaded_def heldByConfidence_def dec_less_def)
qed

end
