(* ===== verification/Memory.thy ===== *)
theory Memory
  imports Documents
begin

text \<open>
  The knowledge graph: \<^verbatim>\<open>lib/memory/store.ts\<close> (the contract), \<^verbatim>\<open>lib/memory/neon.ts\<close> (the store in the database), \<^verbatim>\<open>lib/memory/gateway.ts\<close> (the
  client of the federated graph) and \<^verbatim>\<open>lib/memory/index.ts\<close> (which of them is used). The gateway itself is not part of the repository: what it
  answers is an argument, the decoding of its answers is modelled.
\<close>

subsection \<open>The contract\<close>

definition TRUST_ORDER :: "string list" where
  "TRUST_ORDER = [''derived-deterministic'', ''human-confirmed'', ''agent-asserted'', ''inferred-advisory'']"

definition trustRank :: "string \<Rightarrow> nat" where
  "trustRank t = length (takeWhile (\<lambda>x. x \<noteq> t) TRUST_ORDER)"

definition meetsTrustFloor :: "string \<Rightarrow> string option \<Rightarrow> bool" where
  "meetsTrustFloor tier flr = (case flr of None \<Rightarrow> True | Some f \<Rightarrow> f = [] \<or> trustRank tier \<le> trustRank f)"

text \<open>An anchor is an entity and an id.\<close>

record MemoryNode =
  nn_id :: uuid
  nn_repo :: string
  nn_plane :: string
  nn_kind :: string
  nn_content :: string
  nn_anchors :: "(string \<times> string) list"
  nn_trustTier :: string
  nn_confidence :: int
  nn_signature :: "string option"
  nn_validFrom :: "ms option"
  nn_status :: string

record RecallQuery =
  rq_query :: string
  rq_anchors :: "(string \<times> string) list option"
  rq_trustFloor :: "string option"
  rq_budget :: "int option"
  rq_asOf :: "string option"

datatype MemorySource = FromGateway | FromNeon

record Verification =
  vf_nodeId :: uuid
  vf_signatureValid :: bool
  vf_trustTier :: string
  vf_status :: string

record AssertInput =
  as_kind :: string
  as_content :: string
  as_anchors :: "(string \<times> string) list option"
  as_confidence :: "int option"
  as_trustTier :: "string option"

record ProposeEdgeInput =
  pe_from :: uuid
  pe_to :: uuid
  pe_kind :: string
  pe_evidence :: "string option"

record MemoryEdge =
  me_id :: uuid
  me_from :: uuid
  me_to :: uuid
  me_kind :: string
  me_status :: string

definition crmRepo :: "uuid \<Rightarrow> string" where
  "crmRepo w = ''crm:'' @ w"

subsection \<open>The store in the database\<close>

text \<open>Uniqueness of ids and the foreign keys of the two tables.\<close>

definition insert_memory_node :: "memory_node_row \<Rightarrow> (db, memory_node_row) act" where
  "insert_memory_node r = tbl_insert (\<lambda>s. my_id r \<notin> my_id ` set (memoryNodes s) \<and> has_workspace s (my_workspaceId r)) memoryNodes_update r"

definition insert_memory_edge :: "memory_edge_row \<Rightarrow> (db, memory_edge_row) act" where
  "insert_memory_edge r = tbl_insert (\<lambda>s. mg_id r \<notin> mg_id ` set (memoryEdges s) \<and> has_workspace s (mg_workspaceId r)
     \<and> mg_fromNode r \<in> my_id ` set (memoryNodes s) \<and> mg_toNode r \<in> my_id ` set (memoryNodes s)) memoryEdges_update r"

definition RECALL_WINDOW :: nat where "RECALL_WINDOW = 500"

definition contentHash :: "(string \<Rightarrow> string) \<Rightarrow> string \<Rightarrow> string \<Rightarrow> string \<Rightarrow> string" where
  "contentHash blake3 repo k content = hex_encode (blake3 (js_join [CHR 0x0A] [''comms/memory/v1'', repo, k, content]))"

definition tokens :: "string \<Rightarrow> string set" where
  "tokens t = set (filter (\<lambda>x. length x > 2) (js_split (CHR '' '') (map (\<lambda>c. if token_char c then c else CHR '' '') (js_lower t))))"

text \<open>The number of query terms that occur; the source divides it by the number of query terms.\<close>

definition overlap_hits :: "string set \<Rightarrow> string \<Rightarrow> nat" where
  "overlap_hits q content = card (q \<inter> tokens content)"

definition anchorMatch :: "(string \<times> string) list option \<Rightarrow> (string \<times> string) list \<Rightarrow> nat" where
  "anchorMatch want have_anchors = (let key = (\<lambda>a. fst a @ '':'' @ snd a) in
     length (filter (\<lambda>x. key x \<in> key ` set have_anchors) (or_default want [])))"

definition safe_content :: "doc_env \<Rightarrow> uuid \<Rightarrow> string \<Rightarrow> string" where
  "safe_content D w packed = (case decryptField (dx_crypto D) w packed of Inr t \<Rightarrow> t | Inl _ \<Rightarrow> [])"

definition toNode :: "memory_node_row \<Rightarrow> string \<Rightarrow> (string \<times> string) list \<Rightarrow> string \<Rightarrow> MemoryNode" where
  "toNode r content anchors tier = \<lparr>nn_id = my_id r, nn_repo = my_repo r, nn_plane = my_plane r, nn_kind = my_kind r, nn_content = content,
     nn_anchors = anchors, nn_trustTier = tier, nn_confidence = my_confidence r, nn_signature = my_signature r,
     nn_validFrom = Some (my_validFrom r), nn_status = my_status r\<rparr>"

definition clampPct :: "int \<Rightarrow> int" where
  "clampPct n = max 0 (min 100 n)"

definition repoWorkspace :: "string \<Rightarrow> uuid" where
  "repoWorkspace repo = (if CHR '':'' \<in> set repo then tl (dropWhile (\<lambda>c. c \<noteq> CHR '':'') repo) else repo)"

definition row_node :: "doc_env \<Rightarrow> uuid \<Rightarrow> memory_node_row \<Rightarrow> MemoryNode" where
  "row_node D w r = toNode r (safe_content D w (my_contentEnc r)) (or_default (my_anchorsJson r) []) (my_trustTier r)"

text \<open>The rank of a node in the lexical order, times four times the number of query terms (so that it is whole): ten per anchor, four times the
  share of the query terms that occur, a quarter per step of trust.\<close>

definition recall_score :: "RecallQuery \<Rightarrow> MemoryNode \<Rightarrow> nat" where
  "recall_score q n = (let qs = tokens (rq_query q); size_q = max 1 (card qs) in
     40 * size_q * anchorMatch (rq_anchors q) (nn_anchors n) + 16 * overlap_hits qs (nn_content n) + (3 - min (trustRank (nn_trustTier n)) 3) * size_q)"

definition active_nodes :: "db \<Rightarrow> uuid \<Rightarrow> string \<Rightarrow> memory_node_row list" where
  "active_nodes s w repo = rows_where (\<lambda>r. my_workspaceId r = w \<and> my_repo r = repo \<and> my_status r = ''active'') (memoryNodes s)"

definition recall_budget :: "RecallQuery \<Rightarrow> nat" where
  "recall_budget q = nat (min (max (or_default (rq_budget q) 6) 1) 50)"

definition semantic_recall :: "doc_env \<Rightarrow> uuid \<Rightarrow> RecallQuery \<Rightarrow> embedding \<Rightarrow> memory_node_row list \<Rightarrow> MemoryNode list" where
  "semantic_recall D w q v rows = (let b = recall_budget q;
       window = take (min (b * 4) RECALL_WINDOW) (sort_key (\<lambda>r. dx_distance D (the (my_embedding r)) v) (filter (\<lambda>r. my_embedding r \<noteq> None) rows));
       trusted = filter (\<lambda>n. meetsTrustFloor (nn_trustTier n) (rq_trustFloor q)) (map (row_node D w) window) in
     take b (sort_key (\<lambda>n. - int (anchorMatch (rq_anchors q) (nn_anchors n))) trusted))"

definition lexical_recall :: "doc_env \<Rightarrow> uuid \<Rightarrow> RecallQuery \<Rightarrow> memory_node_row list \<Rightarrow> MemoryNode list" where
  "lexical_recall D w q rows = (let window = take RECALL_WINDOW (rev (sort_key my_validFrom rows));
       trusted = filter (\<lambda>n. meetsTrustFloor (nn_trustTier n) (rq_trustFloor q)) (map (row_node D w) window);
       hits = filter (\<lambda>n. tokens (rq_query q) = {} \<or> recall_score q n > 0) trusted in
     take (recall_budget q) (sort_key (\<lambda>n. - int (recall_score q n)) hits))"

definition neon_recall :: "doc_env \<Rightarrow> string \<Rightarrow> RecallQuery \<Rightarrow> (db, MemoryNode list \<times> MemorySource) act" where
  "neon_recall D repo q = (let w = repoWorkspace repo in act_get (\<lambda>s.
     let rows = active_nodes s w repo;
         found = (case (if rq_query q = [] then None else embedOne D (rq_query q)) of None \<Rightarrow> [] | Some v \<Rightarrow> semantic_recall D w q v rows) in
     (if found \<noteq> [] then found else lexical_recall D w q rows, FromNeon)))"

definition neon_verify :: "crypto_env \<Rightarrow> string \<Rightarrow> uuid \<Rightarrow> (db, Verification option) act" where
  "neon_verify E repo nodeId = (let w = repoWorkspace repo in
     act_bind (act_get (\<lambda>s. first_where (\<lambda>r. my_workspaceId r = w \<and> my_id r = nodeId) (memoryNodes s))) (\<lambda>found. case found of
       None \<Rightarrow> act_return None
     | Some r \<Rightarrow> act_bind (if truthy (my_signature r) then act_lift (verifyWorkspaceSig E w (my_contentHash r) (or_empty (my_signature r))) else act_return False)
         (\<lambda>valid. act_return (Some \<lparr>vf_nodeId = nodeId, vf_signatureValid = valid, vf_trustTier = my_trustTier r, vf_status = my_status r\<rparr>))))"

definition neon_assert :: "doc_env \<Rightarrow> (string \<Rightarrow> string) \<Rightarrow> ms \<Rightarrow> uuid \<Rightarrow> string \<Rightarrow> string \<Rightarrow> AssertInput \<Rightarrow> uuid \<Rightarrow> string \<Rightarrow> (db, MemoryNode) act" where
  "neon_assert D blake3 now newId iv repo n w u = (let E = dx_crypto D; h = contentHash blake3 repo (as_kind n) (as_content n);
       anchors = or_default (as_anchors n) []; tier = or_default (as_trustTier n) ''agent-asserted'' in
     act_bind (act_lift (signWorkspace E w h)) (\<lambda>sig.
     act_bind (act_lift (encryptField E iv w (as_content n))) (\<lambda>enc.
     act_bind (insert_memory_node \<lparr>my_id = newId, my_workspaceId = w, my_repo = repo, my_plane = ''asserted'', my_kind = as_kind n, my_contentEnc = enc,
         my_anchorsJson = Some anchors, my_trustTier = tier, my_confidence = clampPct (or_default (as_confidence n) 50), my_signature = Some sig,
         my_contentHash = h, my_embedding = map_option vector_text (embedOne D (as_content n)), my_validFrom = now, my_status = ''active'',
         my_createdBySub = Some u, my_createdAt = now\<rparr>) (\<lambda>r.
     act_return (toNode r (as_content n) anchors tier)))))"

definition neon_proposeEdge :: "crypto_env \<Rightarrow> ms \<Rightarrow> uuid \<Rightarrow> string \<Rightarrow> string \<Rightarrow> ProposeEdgeInput \<Rightarrow> uuid \<Rightarrow> string \<Rightarrow> (db, MemoryEdge) act" where
  "neon_proposeEdge E now newId iv repo e w u =
     act_bind (act_lift (opt_encrypt E iv w (pe_evidence e))) (\<lambda>enc.
     act_bind (act_lift (signWorkspace E w (pe_from e @ ''->'' @ pe_to e @ '':'' @ pe_kind e))) (\<lambda>sig.
     act_bind (insert_memory_edge \<lparr>mg_id = newId, mg_workspaceId = w, mg_repo = repo, mg_fromNode = pe_from e, mg_toNode = pe_to e, mg_kind = pe_kind e,
         mg_evidenceEnc = enc, mg_status = ''quarantined'', mg_signature = Some sig, mg_createdBySub = Some u, mg_createdAt = now\<rparr>) (\<lambda>r.
     act_return \<lparr>me_id = mg_id r, me_from = mg_fromNode r, me_to = mg_toNode r, me_kind = mg_kind r, me_status = mg_status r\<rparr>)))"

subsection \<open>The client of the gateway\<close>

text \<open>A node as the gateway sends it; a dropped field is \<open>None\<close>.\<close>

record WireNode =
  wn_id :: uuid
  wn_repo :: "string option"
  wn_plane :: "string option"
  wn_kind :: string
  wn_content :: string
  wn_anchors :: "(string \<times> string) list option"
  wn_trust_tier :: "string option"
  wn_trustTier :: "string option"
  wn_confidence :: "int option"
  wn_signature :: "string option"
  wn_valid_from :: "ms option"
  wn_status :: "string option"

definition fromWire :: "string \<Rightarrow> WireNode \<Rightarrow> MemoryNode" where
  "fromWire repo x = \<lparr>nn_id = wn_id x, nn_repo = or_default (wn_repo x) repo, nn_plane = or_default (wn_plane x) ''asserted'', nn_kind = wn_kind x,
     nn_content = wn_content x, nn_anchors = or_default (wn_anchors x) [],
     nn_trustTier = or_default (case wn_trust_tier x of None \<Rightarrow> wn_trustTier x | t \<Rightarrow> t) ''agent-asserted'',
     nn_confidence = or_default (wn_confidence x) 50, nn_signature = wn_signature x, nn_validFrom = wn_valid_from x,
     nn_status = or_default (wn_status x) ''active''\<rparr>"

text \<open>The four calls of the gateway, with what their bodies carry; \<open>None\<close> stands for an unset address, a failed connection, a time-out, a status
  that is not a success or an answer that is not JSON, all of which raise. \<open>gw_healthy\<close> is the answer of the health probe.\<close>

record gateway_env =
  gw_url :: "string option"
  gw_healthy :: bool
  gw_recall :: "string \<Rightarrow> RecallQuery \<Rightarrow> WireNode list option"
  gw_verify :: "string \<Rightarrow> uuid \<Rightarrow> (bool option \<times> string option \<times> string option) option"
  gw_assert :: "string \<Rightarrow> AssertInput \<Rightarrow> string \<Rightarrow> WireNode option"
  gw_proposeEdge :: "string \<Rightarrow> ProposeEdgeInput \<Rightarrow> string \<Rightarrow> (uuid \<times> string option \<times> string option \<times> string option \<times> string option) option"

definition gateway_down :: err where "gateway_down = JsError ''mem-gateway''"

definition gateway_recall :: "gateway_env \<Rightarrow> string \<Rightarrow> RecallQuery \<Rightarrow> err + MemoryNode list \<times> MemorySource" where
  "gateway_recall G repo q = (case gw_recall G repo (q\<lparr>rq_budget := Some (or_default (rq_budget q) 6)\<rparr>) of
     None \<Rightarrow> Inl gateway_down | Some items \<Rightarrow> Inr (map (fromWire repo) items, FromGateway))"

definition gateway_verify :: "gateway_env \<Rightarrow> string \<Rightarrow> uuid \<Rightarrow> err + Verification" where
  "gateway_verify G repo nodeId = (case gw_verify G repo nodeId of None \<Rightarrow> Inl gateway_down
     | Some (valid, tier, st) \<Rightarrow> Inr \<lparr>vf_nodeId = nodeId, vf_signatureValid = (valid = Some True), vf_trustTier = or_default tier ''agent-asserted'',
         vf_status = or_default st ''active''\<rparr>)"

definition gateway_assert :: "gateway_env \<Rightarrow> string \<Rightarrow> AssertInput \<Rightarrow> string \<Rightarrow> err + MemoryNode" where
  "gateway_assert G repo n u = (case gw_assert G repo (n\<lparr>as_anchors := Some (or_default (as_anchors n) []),
       as_confidence := Some (or_default (as_confidence n) 50), as_trustTier := Some (or_default (as_trustTier n) ''agent-asserted'')\<rparr>) u of
     None \<Rightarrow> Inl gateway_down | Some x \<Rightarrow> Inr (fromWire repo x))"

definition gateway_proposeEdge :: "gateway_env \<Rightarrow> string \<Rightarrow> ProposeEdgeInput \<Rightarrow> string \<Rightarrow> err + MemoryEdge" where
  "gateway_proposeEdge G repo e u = (case gw_proposeEdge G repo e u of None \<Rightarrow> Inl gateway_down
     | Some (i, fr, to, k, st) \<Rightarrow> Inr \<lparr>me_id = i, me_from = or_default fr (pe_from e), me_to = or_default to (pe_to e),
         me_kind = or_default k (pe_kind e), me_status = or_default st ''quarantined''\<rparr>)"

subsection \<open>Which store\<close>

definition TTL_MS :: ms where "TTL_MS = 60000"

text \<open>The decision is kept for a minute; the cache is the first argument.\<close>

definition getMemoryStore :: "gateway_env \<Rightarrow> ms \<Rightarrow> (MemorySource \<times> ms) option \<Rightarrow> MemorySource \<times> (MemorySource \<times> ms) option" where
  "getMemoryStore G now cached = (let fresh_store = (if truthy (gw_url G) \<and> gw_healthy G then FromGateway else FromNeon) in
     case cached of Some (st, since) \<Rightarrow> if now - since < TTL_MS then (st, cached) else (fresh_store, Some (fresh_store, now))
     | None \<Rightarrow> (fresh_store, Some (fresh_store, now)))"

text \<open>Recall and assertion as the tools and the approved actions do them: a failing store gives way to the database.\<close>

definition recall_degrading :: "doc_env \<Rightarrow> gateway_env \<Rightarrow> MemorySource \<Rightarrow> string \<Rightarrow> RecallQuery \<Rightarrow> (db, MemoryNode list \<times> MemorySource) act" where
  "recall_degrading D G st repo q = act_try (if st = FromGateway then act_lift (gateway_recall G repo q) else neon_recall D repo q)
     (\<lambda>_. neon_recall D repo q)"

definition assert_degrading :: "doc_env \<Rightarrow> gateway_env \<Rightarrow> (string \<Rightarrow> string) \<Rightarrow> ms \<Rightarrow> uuid \<Rightarrow> string \<Rightarrow> MemorySource \<Rightarrow> string \<Rightarrow> AssertInput \<Rightarrow> uuid \<Rightarrow> string \<Rightarrow>
    (db, MemoryNode) act" where
  "assert_degrading D G blake3 now newId iv st repo n w u =
     act_try (if st = FromGateway then act_lift (gateway_assert G repo n u) else neon_assert D blake3 now newId iv repo n w u)
       (\<lambda>_. neon_assert D blake3 now newId iv repo n w u)"

subsection \<open>What recall and verification promise\<close>

lemma sort_take_set: "x \<in> set (take n (sort_key f xs)) \<Longrightarrow> x \<in> set xs"
  using in_set_takeD by fastforce

text \<open>C30. Recall from the database changes nothing, returns at most the budget (never more than fifty), and every node of it is an active row of this
  workspace and this repository at or above the trust floor asked for, whichever of the two orders produced it.\<close>

theorem recall_respects_floor:
  assumes "neon_recall D repo q s = (Inr (ns, src), s')"
  shows "s' = s \<and> length ns \<le> min 50 (recall_budget q) \<and> list_all (\<lambda>n. meetsTrustFloor (nn_trustTier n) (rq_trustFloor q)
    \<and> n \<in> row_node D (repoWorkspace repo) ` set (active_nodes s (repoWorkspace repo) repo)) ns"
proof -
  let ?w = "repoWorkspace repo" and ?rows = "active_nodes s (repoWorkspace repo) repo"
  let ?ok = "\<lambda>n. meetsTrustFloor (nn_trustTier n) (rq_trustFloor q) \<and> n \<in> row_node D ?w ` set ?rows"
  have sem: "length (semantic_recall D ?w q v ?rows) \<le> recall_budget q \<and> list_all ?ok (semantic_recall D ?w q v ?rows)" for v
    by (auto simp: semantic_recall_def Let_def list_all_iff dest!: sort_take_set)
  have lex: "length (lexical_recall D ?w q ?rows) \<le> recall_budget q \<and> list_all ?ok (lexical_recall D ?w q ?rows)"
    by (auto simp: lexical_recall_def Let_def list_all_iff dest!: sort_take_set in_set_takeD [where n = RECALL_WINDOW])
  have "ns = lexical_recall D ?w q ?rows \<or> (\<exists>v. ns = semantic_recall D ?w q v ?rows)" "s' = s"
    using assms by (auto simp: neon_recall_def act_get_def Let_def split: option.splits if_splits)
  moreover have "recall_budget q \<le> 50" by (simp add: recall_budget_def)
  ultimately show ?thesis using sem lex by auto
qed

definition demo_memory :: "uuid \<Rightarrow> string \<Rightarrow> memory_node_row" where
  "demo_memory i tier = \<lparr>my_id = i, my_workspaceId = ''w1'', my_repo = ''crm:w1'', my_plane = ''asserted'', my_kind = ''fact'', my_contentEnc = ''zz'',
     my_anchorsJson = None, my_trustTier = tier, my_confidence = 50, my_signature = None, my_contentHash = ''h'', my_embedding = None, my_validFrom = 0,
     my_status = ''active'', my_createdBySub = None, my_createdAt = 0\<rparr>"

definition demo_graph :: db where
  "demo_graph = demo_db\<lparr>memoryNodes := [demo_memory ''m1'' ''human-confirmed'', demo_memory ''m2'' ''inferred-advisory'']\<rparr>"

theorem recall_respects_floor_witness:
  "let q = \<lparr>rq_query = [], rq_anchors = None, rq_trustFloor = Some ''agent-asserted'', rq_budget = None, rq_asOf = None\<rparr> in
     \<exists>n. neon_recall demo_docs ''crm:w1'' q demo_graph = (Inr ([n], FromNeon), demo_graph) \<and> nn_id n = ''m1'' \<and> meetsTrustFloor (nn_trustTier n) (rq_trustFloor q)"
proof -
  let ?q = "\<lparr>rq_query = [], rq_anchors = None, rq_trustFloor = Some ''agent-asserted'', rq_budget = None, rq_asOf = None\<rparr>"
  let ?n = "row_node demo_docs ''w1'' (demo_memory ''m1'' ''human-confirmed'')"
  have "tokens [] = {}" by (simp add: tokens_def js_lower_def)
  then have run: "neon_recall demo_docs ''crm:w1'' ?q demo_graph = (Inr ([?n], FromNeon), demo_graph)"
    by (simp add: neon_recall_def repoWorkspace_def act_get_def active_nodes_def rows_where_def demo_graph_def lexical_recall_def recall_budget_def
      demo_memory_def RECALL_WINDOW_def row_node_def toNode_def meetsTrustFloor_def trustRank_def TRUST_ORDER_def or_default_def Let_def)
  show ?thesis using recall_respects_floor [OF run] run by (auto simp: Let_def row_node_def toNode_def demo_memory_def)
qed

text \<open>A node asserted into the workspace's own repository is found by its id, its signature verifies and its tier is the one it was given, agent-asserted
  when none was.\<close>

theorem asserted_node_verifies:
  assumes run: "neon_assert D blake3 now newId iv repo n (repoWorkspace repo) u s = (Inr m, s')"
    and mac: "\<forall>k msg. hmac_sha256 (dx_crypto D) k msg \<noteq> []"
  shows "neon_verify (dx_crypto D) repo newId s' = (Inr (Some \<lparr>vf_nodeId = newId, vf_signatureValid = True,
    vf_trustTier = or_default (as_trustTier n) ''agent-asserted'', vf_status = ''active''\<rparr>), s')"
proof -
  let ?w = "repoWorkspace repo" and ?E = "dx_crypto D" and ?h = "contentHash blake3 repo (as_kind n) (as_content n)"
  obtain sig where sig: "signWorkspace ?E ?w ?h = Inr sig"
    using run by (cases "signWorkspace ?E ?w ?h") (simp_all add: neon_assert_def Let_def act_bind_def act_lift_def act_throw_def)
  obtain r where r: "my_id r = newId" "my_workspaceId r = ?w" "my_signature r = Some sig" "my_contentHash r = ?h"
      "my_trustTier r = or_default (as_trustTier n) ''agent-asserted''" "my_status r = ''active''"
    and s': "memoryNodes s' = memoryNodes s @ [r]" and new: "newId \<notin> my_id ` set (memoryNodes s)"
    using run sig by (fastforce simp: neon_assert_def insert_memory_node_def tbl_insert_def Let_def act_bind_def act_lift_def act_return_def act_throw_def
      split: sum.splits prod.splits if_splits)
  have "first_where (\<lambda>r. my_workspaceId r = ?w \<and> my_id r = newId) (memoryNodes s) = None"
    using new by (auto simp: first_where_None_iff)
  then have found: "first_where (\<lambda>r. my_workspaceId r = ?w \<and> my_id r = newId) (memoryNodes s') = Some r"
    using r by (simp add: s' first_where_append)
  obtain k where "sig = hex_encode (hmac_sha256 ?E k ?h)" using sig by (auto simp: signWorkspace_def split: sum.splits)
  moreover have "hmac_sha256 ?E k ?h \<noteq> []" using mac by simp
  ultimately have "sig \<noteq> []" by (cases "hmac_sha256 ?E k ?h") simp_all
  then show ?thesis using found r sig
    by (simp add: neon_verify_def Let_def act_bind_def act_get_def act_lift_def act_return_def truthy_def verifyWorkspaceSig_def or_empty_def)
qed

theorem asserted_node_verifies_witness:
  "\<exists>m s'. neon_assert demo_docs id 5 ''m1'' ''iv'' ''crm:w1'' \<lparr>as_kind = ''fact'', as_content = ''c'', as_anchors = None, as_confidence = None, as_trustTier = None\<rparr>
       ''w1'' ''alice'' demo_db = (Inr m, s')
     \<and> neon_verify demo_env ''crm:w1'' ''m1'' s' = (Inr (Some \<lparr>vf_nodeId = ''m1'', vf_signatureValid = True, vf_trustTier = ''agent-asserted'', vf_status = ''active''\<rparr>), s')"
proof -
  let ?n = "\<lparr>as_kind = ''fact'', as_content = ''c'', as_anchors = None, as_confidence = None, as_trustTier = None\<rparr>"
  have repo: "repoWorkspace ''crm:w1'' = ''w1''" by (simp add: repoWorkspace_def)
  have docs: "dx_crypto demo_docs = demo_env" by (simp add: demo_docs_def)
  obtain sig where sig: "signWorkspace demo_env ''w1'' (contentHash id ''crm:w1'' ''fact'' ''c'') = Inr sig"
    by (simp add: signWorkspace_def signKey_def derive_def masterKey_demo)
  obtain enc where "encryptField demo_env ''iv'' ''w1'' ''c'' = Inr enc" using encryptField_Inr [OF provisioned_demo] by metis
  with sig obtain m s' where run: "neon_assert demo_docs id 5 ''m1'' ''iv'' ''crm:w1'' ?n ''w1'' ''alice'' demo_db = (Inr m, s')"
    by (simp add: neon_assert_def Let_def act_bind_def act_lift_def act_return_def docs insert_memory_node_def tbl_insert_def has_workspace_def
      demo_db_def demo_workspace_def empty_db_def)
  have mac: "\<forall>k msg. hmac_sha256 (dx_crypto demo_docs) k msg \<noteq> []" by (simp add: demo_docs_def demo_env_def)
  have "neon_assert demo_docs id 5 ''m1'' ''iv'' ''crm:w1'' ?n (repoWorkspace ''crm:w1'') ''alice'' demo_db = (Inr m, s')" using run by (simp add: repo)
  from asserted_node_verifies [OF this mac] show ?thesis using run by (auto simp: docs or_default_def)
qed

text \<open>C31. The signature is checked against the stored hash only: a row whose content and tier have been replaced still verifies, with the tier it was
  given.\<close>

theorem verification_ignores_content:
  assumes "neon_verify E repo i s = (Inr (Some v), s)"
  shows "neon_verify E repo i (s\<lparr>memoryNodes := upd_where (\<lambda>r. my_id r = i) (\<lambda>r. r\<lparr>my_contentEnc := forged, my_trustTier := tier\<rparr>) (memoryNodes s)\<rparr>)
    = (Inr (Some (v\<lparr>vf_trustTier := tier\<rparr>)), s\<lparr>memoryNodes := upd_where (\<lambda>r. my_id r = i) (\<lambda>r. r\<lparr>my_contentEnc := forged, my_trustTier := tier\<rparr>) (memoryNodes s)\<rparr>)"
proof -
  let ?w = "repoWorkspace repo" and ?f = "\<lambda>r. r\<lparr>my_contentEnc := forged, my_trustTier := tier\<rparr>"
  obtain r where r: "first_where (\<lambda>r. my_workspaceId r = ?w \<and> my_id r = i) (memoryNodes s) = Some r"
    using assms by (auto simp: neon_verify_def Let_def act_bind_def act_get_def act_return_def split: option.splits)
  then have "my_id r = i" using first_where_SomeD [OF r] by simp
  moreover have "first_where (\<lambda>r. my_workspaceId r = ?w \<and> my_id r = i) (upd_where (\<lambda>r. my_id r = i) ?f (memoryNodes s)) = Some (if my_id r = i then ?f r else r)"
    by (subst first_where_upd_where) (simp_all add: r)
  ultimately show ?thesis using assms r
    by (auto simp: neon_verify_def Let_def act_bind_def act_get_def act_lift_def act_return_def split: if_splits sum.splits)
qed

theorem verification_ignores_content_witness:
  "let sig = hex_encode (hmac_sha256 demo_env (hkdf demo_env (replicate 32 (CHR ''k'')) ''w1'' ''comms-assert-sig-v1'') ''h'');
       signed = (demo_memory ''m1'' ''agent-asserted'')\<lparr>my_signature := Some sig\<rparr>;
       forged = demo_db\<lparr>memoryNodes := [signed\<lparr>my_contentEnc := ''forged'', my_trustTier := ''human-confirmed''\<rparr>]\<rparr> in
     neon_verify demo_env ''crm:w1'' ''m1'' forged
     = (Inr (Some \<lparr>vf_nodeId = ''m1'', vf_signatureValid = True, vf_trustTier = ''human-confirmed'', vf_status = ''active''\<rparr>), forged)"
proof -
  let ?sig = "hex_encode (hmac_sha256 demo_env (hkdf demo_env (replicate 32 (CHR ''k'')) ''w1'' ''comms-assert-sig-v1'') ''h'')"
  let ?s = "demo_db\<lparr>memoryNodes := [(demo_memory ''m1'' ''agent-asserted'')\<lparr>my_signature := Some ?sig\<rparr>]\<rparr>"
  have sig: "signWorkspace demo_env ''w1'' ''h'' = Inr ?sig" by (simp add: signWorkspace_def signKey_def derive_def masterKey_demo)
  moreover have "?sig \<noteq> []" by (simp add: demo_env_def)
  ultimately have "neon_verify demo_env ''crm:w1'' ''m1'' ?s
      = (Inr (Some \<lparr>vf_nodeId = ''m1'', vf_signatureValid = True, vf_trustTier = ''agent-asserted'', vf_status = ''active''\<rparr>), ?s)"
    by (simp add: neon_verify_def repoWorkspace_def demo_memory_def act_bind_def act_get_def act_lift_def act_return_def truthy_def or_empty_def
      verifyWorkspaceSig_def Let_def)
  from verification_ignores_content [OF this, where forged = "''forged''" and tier = "''human-confirmed''"] show ?thesis
    by (simp add: Let_def upd_where_def demo_memory_def)
qed

end
