(* ===== verification/Requests.thy ===== *)
theory Requests
  imports Guard
begin

text \<open>
  \<^verbatim>\<open>lib/validation/schemas.ts\<close> and the request side of the route handlers. The schemas are values of the datatype \<open>zod\<close>, one constructor per
  builder the file uses. The library itself is the parameter \<open>av_safeParse\<close> of \<open>api_env\<close>: it takes a schema and the body and
  returns \<^verbatim>\<open>parsed.data\<close>, or \<open>None\<close> when \<^verbatim>\<open>parsed.success\<close> is false. What the routes rely on is \<open>zod_ok\<close>: an accepted object has, for every
  key of the schema, a value that meets the key's schema. The error details of a refusal are not modelled.
\<close>

datatype zcheck = ZTrim | ZMin nat | ZMax nat | ZUuid | ZEmail | ZUrl | ZDatetime bool | ZRegex string
datatype zcheckn = ZInt | ZLeast int | ZMost int

datatype zod =
    ZString "zcheck list"
  | ZNumber "zcheckn list"
  | ZBoolean
  | ZEnum "string list"
  | ZArray zod "nat option" "nat option"
  | ZObject "(string \<times> zod) list"
  | ZRecord zod
  | ZOptional zod
  | ZNullable zod
  | ZDefault zod json

abbreviation zstr :: "nat \<Rightarrow> nat \<Rightarrow> zod" where
  "zstr lo hi \<equiv> ZString [ZTrim, ZMin lo, ZMax hi]"

abbreviation zuuid :: zod where
  "zuuid \<equiv> ZString [ZUuid]"

subsection \<open>The schemas\<close>

definition createWorkspaceSchema :: zod where
  "createWorkspaceSchema = ZObject [(''name'', zstr 2 60)]"

definition createChannelSchema :: zod where
  "createChannelSchema = ZObject [(''workspaceId'', zuuid), (''kind'', ZEnum [''channel'', ''forum'', ''dm'']), (''name'', zstr 1 60),
     (''topic'', ZOptional (ZString [ZTrim, ZMax 280])), (''memberSubs'', ZOptional (ZArray (ZString []) None (Some 200)))]"

definition sendMessageSchema :: zod where
  "sendMessageSchema = ZObject [(''body'', ZString [ZTrim, ZMax 8000]), (''threadId'', ZOptional zuuid), (''parentId'', ZOptional zuuid),
     (''clientMsgId'', ZOptional (ZString [ZMax 64])), (''attachmentIds'', ZOptional (ZArray zuuid None (Some 10)))]"

definition witnessSchema :: zod where
  "witnessSchema = ZObject [(''sourceMessageId'', ZOptional zuuid), (''kind'', ZEnum [''decision'', ''commitment'', ''resolved'']),
     (''text'', zstr 1 2000), (''ownerSub'', ZOptional (ZString [])), (''due'', ZOptional (ZString [ZDatetime False]))]"

definition grantable_roles :: "string list" where
  "grantable_roles = [''Admin'', ''Member'', ''Partner'', ''Guest'']"

definition inviteSchema :: zod where
  "inviteSchema = ZObject [(''workspaceId'', zuuid), (''email'', ZString [ZEmail]), (''role'', ZEnum grantable_roles), (''scopeChannelId'', ZOptional zuuid)]"

definition batchInviteSchema :: zod where
  "batchInviteSchema = ZObject [(''workspaceId'', zuuid), (''emails'', ZArray (ZString [ZEmail]) (Some 1) (Some 100)),
     (''role'', ZEnum grantable_roles), (''scopeChannelId'', ZOptional zuuid)]"

definition createAccountSchema :: zod where
  "createAccountSchema = ZObject [(''name'', zstr 1 120), (''domain'', ZOptional (ZString [ZTrim, ZMax 120]))]"

definition createDealSchema :: zod where
  "createDealSchema = ZObject [(''accountId'', zuuid), (''name'', zstr 1 120),
     (''valueMinor'', ZDefault (ZNumber [ZInt, ZLeast 0, ZMost 1000000000000]) (JNum 0))]"

definition moveDealSchema :: zod where
  "moveDealSchema = ZObject [(''dealId'', zuuid), (''stage'', ZEnum [''Lead'', ''Qualified'', ''Proposal'', ''Won'', ''Lost''])]"

definition createContactSchema :: zod where
  "createContactSchema = ZObject [(''name'', zstr 1 120), (''title'', ZOptional (ZString [ZTrim, ZMax 120])), (''accountId'', ZOptional zuuid)]"

definition createProjectSchema :: zod where
  "createProjectSchema = ZObject [(''name'', zstr 1 120)]"

definition raciRole :: zod where
  "raciRole = ZEnum [''R'', ''A'', ''C'', ''I'']"

definition raciAssignment :: zod where
  "raciAssignment = ZObject [(''sub'', ZString [ZMin 1, ZMax 200]), (''role'', raciRole)]"

definition dueSchema :: zod where
  "dueSchema = ZOptional (ZNullable (ZString [ZDatetime True]))"

definition createTaskSchema :: zod where
  "createTaskSchema = ZObject [(''title'', zstr 1 200), (''projectId'', ZOptional zuuid), (''priority'', ZOptional (ZEnum [''low'', ''medium'', ''high''])),
     (''assigneeSub'', ZOptional (ZString [ZMax 200])), (''due'', dueSchema), (''raci'', ZOptional (ZArray raciAssignment None (Some 50)))]"

definition moveTaskSchema :: zod where
  "moveTaskSchema = ZObject [(''taskId'', zuuid), (''status'', ZEnum [''Backlog'', ''Todo'', ''InProgress'', ''InReview'', ''Done''])]"

definition editTaskSchema :: zod where
  "editTaskSchema = ZObject [(''title'', ZOptional (zstr 1 200)), (''priority'', ZOptional (ZNullable (ZEnum [''low'', ''medium'', ''high'']))),
     (''assigneeSub'', ZOptional (ZNullable (ZString [ZMax 200]))), (''due'', dueSchema), (''raci'', ZOptional (ZArray raciAssignment None (Some 50)))]"

definition addAgentSchema :: zod where
  "addAgentSchema = ZObject [(''name'', zstr 1 80), (''purpose'', ZOptional (ZString [ZTrim, ZMax 280]))]"

definition crm_entities :: "string list" where
  "crm_entities = [''account'', ''deal'', ''contact'']"

definition fieldOption :: zod where
  "fieldOption = ZObject [(''key'', ZString [ZMin 1, ZMax 60]), (''label'', ZString [ZMin 1, ZMax 80])]"

definition crmFieldDefCreateSchema :: zod where
  "crmFieldDefCreateSchema = ZObject [(''entity'', ZEnum crm_entities), (''key'', ZString [ZTrim, ZMin 1, ZMax 60, ZRegex ''^[a-z0-9_]+$'']),
     (''label'', zstr 1 80), (''type'', ZEnum [''text'', ''longtext'', ''number'', ''currency'', ''date'', ''select'', ''multiselect'', ''boolean'', ''url'',
        ''email'', ''phone'', ''user'']),
     (''options'', ZOptional (ZArray fieldOption None (Some 50))), (''required'', ZOptional ZBoolean), (''sensitive'', ZOptional ZBoolean),
     (''ord'', ZOptional (ZNumber [ZInt, ZLeast 0, ZMost 1000]))]"

definition crmFieldDefUpdateSchema :: zod where
  "crmFieldDefUpdateSchema = ZObject [(''label'', ZOptional (zstr 1 80)), (''options'', ZOptional (ZArray fieldOption None (Some 50))),
     (''required'', ZOptional ZBoolean), (''sensitive'', ZOptional ZBoolean), (''ord'', ZOptional (ZNumber [ZInt, ZLeast 0, ZMost 1000])),
     (''enabled'', ZOptional ZBoolean)]"

definition crmFieldValueSchema :: zod where
  "crmFieldValueSchema = ZObject [(''fieldId'', zuuid), (''value'', ZString [ZMax 20000])]"

definition crmNoteSchema :: zod where
  "crmNoteSchema = ZObject [(''type'', ZEnum [''note'', ''journal'', ''call'', ''meeting'', ''email'']), (''title'', ZOptional (ZString [ZTrim, ZMax 200])),
     (''body'', zstr 1 20000)]"

definition crmNotePinSchema :: zod where
  "crmNotePinSchema = ZObject [(''noteId'', zuuid), (''pinned'', ZBoolean)]"

definition crmTagAddSchema :: zod where
  "crmTagAddSchema = ZObject [(''tagId'', ZOptional zuuid), (''label'', ZOptional (zstr 1 40))]"

definition crmTagRemoveSchema :: zod where
  "crmTagRemoveSchema = ZObject [(''tagId'', zuuid)]"

definition crmRecordUpdateSchema :: zod where
  "crmRecordUpdateSchema = ZObject [(''name'', ZOptional (zstr 1 160)), (''domain'', ZOptional (ZString [ZTrim, ZMax 160])),
     (''title'', ZOptional (ZString [ZTrim, ZMax 160])), (''valueMinor'', ZOptional (ZNumber [ZInt, ZLeast 0, ZMost 1000000000000]))]"

definition approvalDecisionSchema :: zod where
  "approvalDecisionSchema = ZObject [(''approvalId'', zuuid), (''decision'', ZEnum [''approved'', ''rejected''])]"

definition documentFinalizeSchema :: zod where
  "documentFinalizeSchema = ZObject [(''blobUrl'', ZString [ZUrl, ZMax 1000]), (''name'', zstr 1 200), (''mime'', ZOptional (ZString [ZMax 120])),
     (''accountId'', ZOptional zuuid), (''dealId'', ZOptional zuuid), (''channelId'', ZOptional zuuid)]"

definition personaModelSchema :: zod where
  "personaModelSchema = ZObject [(''gateway'', ZString [ZMax 120]), (''frontier'', ZOptional (ZString [ZMax 120])), (''preferFrontier'', ZOptional ZBoolean)]"

definition personaUpdateSchema :: zod where
  "personaUpdateSchema = ZObject [(''name'', ZOptional (zstr 1 80)), (''model'', ZOptional personaModelSchema),
     (''tools'', ZOptional (ZArray (ZString [ZMax 40]) None (Some 40))), (''maxSteps'', ZOptional (ZNumber [ZInt, ZLeast 1, ZMost 20])),
     (''temperature'', ZOptional (ZNumber [ZLeast 0, ZMost 1])), (''enabled'', ZOptional ZBoolean)]"

definition personaPromptSchema :: zod where
  "personaPromptSchema = ZObject [(''layer'', ZNumber [ZInt, ZLeast 1, ZMost 4]), (''content'', ZString [ZMax 20000])]"

definition personaSkillSchema :: zod where
  "personaSkillSchema = ZObject [(''skillKey'', ZString [ZMax 60]), (''enabled'', ZBoolean)]"

definition personaCloneSchema :: zod where
  "personaCloneSchema = ZObject [(''name'', zstr 1 80)]"

definition personaImportSchema :: zod where
  "personaImportSchema = ZObject [(''name'', zstr 1 80), (''baseTemplate'', ZOptional (ZString [ZMax 60])), (''model'', ZOptional personaModelSchema),
     (''tools'', ZOptional (ZArray (ZString [ZMax 40]) None (Some 40))), (''maxSteps'', ZOptional (ZNumber [ZInt, ZLeast 1, ZMost 20])),
     (''temperature'', ZOptional (ZNumber [ZLeast 0, ZMost 1])),
     (''layers'', ZOptional (ZArray (ZObject [(''layer'', ZNumber [ZInt, ZLeast 1, ZMost 4]), (''content'', ZString [ZMax 20000])]) None (Some 4))),
     (''skills'', ZOptional (ZArray (ZObject [(''key'', ZString [ZMax 60]), (''enabled'', ZBoolean)]) None (Some 40)))]"

definition crmViewSaveSchema :: zod where
  "crmViewSaveSchema = ZObject [(''entity'', ZEnum crm_entities), (''name'', zstr 1 80), (''shared'', ZOptional ZBoolean),
     (''config'', ZObject [(''columns'', ZArray (ZString [ZMax 60]) None (Some 60)),
        (''sort'', ZOptional (ZObject [(''key'', ZString [ZMax 60]), (''dir'', ZEnum [''asc'', ''desc''])])), (''search'', ZOptional (ZString [ZMax 200]))])]"

definition crmViewDeleteSchema :: zod where
  "crmViewDeleteSchema = ZObject [(''viewId'', zuuid)]"

definition crmBulkTagSchema :: zod where
  "crmBulkTagSchema = ZObject [(''recordIds'', ZArray zuuid (Some 1) (Some 500)), (''tagId'', ZOptional zuuid), (''label'', ZOptional (zstr 1 40))]"

definition updateSettingsSchema :: zod where
  "updateSettingsSchema = ZObject [(''notifications'', ZOptional (ZRecord (ZEnum [''all'', ''mentions'', ''mute'']))),
     (''automation'', ZOptional (ZObject [(''autoWitness'', ZBoolean)])),
     (''appearance'', ZOptional (ZObject [(''density'', ZOptional (ZEnum [''cinematic'', ''compact''])), (''accent'', ZOptional (ZString [ZMax 20])),
        (''reducedMotion'', ZOptional ZBoolean)]))]"

definition updateProfileSchema :: zod where
  "updateProfileSchema = ZObject [(''displayName'', ZOptional (zstr 1 60)), (''timezone'', ZOptional (zstr 1 64))]"

definition attendeeInput :: zod where
  "attendeeInput = ZObject [(''sub'', ZString [ZMin 1, ZMax 200]), (''raciRole'', ZOptional (ZNullable raciRole))]"

definition createEventSchema :: zod where
  "createEventSchema = ZObject [(''title'', zstr 1 200), (''description'', ZOptional (ZNullable (ZString [ZMax 5000]))),
     (''location'', ZOptional (ZNullable (ZString [ZMax 300]))), (''startsAt'', ZString [ZDatetime True]), (''endsAt'', ZString [ZDatetime True]),
     (''allDay'', ZOptional ZBoolean), (''timezone'', ZString [ZMin 1, ZMax 64]), (''kind'', ZOptional (ZEnum [''meeting'', ''deadline'', ''focus''])),
     (''channelId'', ZOptional (ZNullable zuuid)), (''projectId'', ZOptional (ZNullable zuuid)), (''taskId'', ZOptional (ZNullable zuuid)),
     (''dealId'', ZOptional (ZNullable zuuid)), (''attendees'', ZOptional (ZArray attendeeInput None (Some 200))),
     (''reminderOffsetsMin'', ZOptional (ZArray (ZNumber [ZInt, ZLeast 0, ZMost 43200]) None (Some 6)))]"

definition updateEventSchema :: zod where
  "updateEventSchema = ZObject [(''title'', ZOptional (zstr 1 200)), (''description'', ZOptional (ZNullable (ZString [ZMax 5000]))),
     (''location'', ZOptional (ZNullable (ZString [ZMax 300]))), (''startsAt'', ZOptional (ZString [ZDatetime True])),
     (''endsAt'', ZOptional (ZString [ZDatetime True])), (''allDay'', ZOptional ZBoolean), (''timezone'', ZOptional (ZString [ZMin 1, ZMax 64])),
     (''status'', ZOptional (ZEnum [''confirmed'', ''tentative'', ''cancelled'']))]"

definition rsvpSchema :: zod where
  "rsvpSchema = ZObject [(''response'', ZEnum [''needsAction'', ''accepted'', ''declined'', ''tentative''])]"

subsection \<open>A request as a handler sees it\<close>

text \<open>\<open>av_date\<close> is \<^verbatim>\<open>new Date(s)\<close> (\<open>None\<close> for an invalid date), \<open>av_number\<close> is \<^verbatim>\<open>Number(v)\<close> on a JSON value where it is a finite integer.
  A fraction cannot occur in \<^typ>\<open>json\<close>.\<close>

record api_env =
  av_web :: web_env
  av_safeParse :: "zod \<Rightarrow> json \<Rightarrow> json option"
  av_date :: "string \<Rightarrow> ms option"
  av_number :: "json option \<Rightarrow> int option"
  av_strNumber :: "string \<Rightarrow> int option"

text \<open>\<open>cl_body\<close> is what \<^verbatim>\<open>req.json()\<close> yields, \<open>None\<close> when it throws; \<open>cl_query\<close> the query parameters; the remaining fields are the clock and the
  values drawn while the request runs: generated ids, initialisation vectors, random bytes.\<close>

record call =
  cl_req :: request
  cl_body :: "json option"
  cl_query :: "string \<Rightarrow> string option"
  cl_origin :: string
  cl_now :: ms
  cl_id :: "nat \<Rightarrow> uuid"
  cl_iv :: "nat \<Rightarrow> string"
  cl_random :: "nat \<Rightarrow> string"

abbreviation av_crypto :: "api_env \<Rightarrow> crypto_env" where
  "av_crypto V \<equiv> crypt (av_web V)"

definition read_body :: "call \<Rightarrow> json" where
  "read_body c = (case readJson (cl_req c) (cl_body c) of Some j \<Rightarrow> j | None \<Rightarrow> JNull)"

text \<open>\<^verbatim>\<open>const parsed = schema.safeParse(await readJson(req)); if (!parsed.success) return 400\<close>, continued with \<^verbatim>\<open>parsed.data\<close>.\<close>

definition with_parsed :: "api_env \<Rightarrow> call \<Rightarrow> zod \<Rightarrow> (json \<Rightarrow> (db, 'a response) act) \<Rightarrow> (db, 'a response) act" where
  "with_parsed V c schema k = (case av_safeParse V schema (read_body c) of
      None \<Rightarrow> act_return (Failure 400 ''invalid'')
    | Some d \<Rightarrow> k d)"

text \<open>\<^verbatim>\<open>const rl = await limit(...); if (!rl.success) return 429\<close>; the key holds a hashed identity.\<close>

definition with_limit :: "api_env \<Rightarrow> string \<Rightarrow> string \<Rightarrow> string \<Rightarrow> (db, 'a response) act \<Rightarrow> (db, 'a response) act" where
  "with_limit V pre u post k = act_bind (act_lift (hashId (av_crypto V) u)) (\<lambda>h.
     if \<not> success (limit (av_web V) (pre @ h @ post)) then act_return (Failure 429 ''rate_limited'') else k)"

subsection \<open>Reading parsed data\<close>

fun jget :: "json \<Rightarrow> string \<Rightarrow> json option" where
  "jget (JObj kvs) k = map_of kvs k"
| "jget _ k = None"

definition d_str :: "json \<Rightarrow> string \<Rightarrow> string" where
  "d_str d k = (case jget d k of Some (JStr s) \<Rightarrow> s | _ \<Rightarrow> [])"

definition d_opt :: "json \<Rightarrow> string \<Rightarrow> string option" where
  "d_opt d k = (case jget d k of Some (JStr s) \<Rightarrow> Some s | _ \<Rightarrow> None)"

text \<open>An optional, nullable key: absent, null, or a string.\<close>

definition d_opt_null :: "json \<Rightarrow> string \<Rightarrow> string option option" where
  "d_opt_null d k = (case jget d k of None \<Rightarrow> None | Some (JStr s) \<Rightarrow> Some (Some s) | Some _ \<Rightarrow> Some None)"

definition d_bool :: "json \<Rightarrow> string \<Rightarrow> bool option" where
  "d_bool d k = (case jget d k of Some (JBool b) \<Rightarrow> Some b | _ \<Rightarrow> None)"

definition d_int :: "json \<Rightarrow> string \<Rightarrow> int option" where
  "d_int d k = (case jget d k of Some (JNum n) \<Rightarrow> Some n | _ \<Rightarrow> None)"

definition d_list :: "json \<Rightarrow> string \<Rightarrow> json list option" where
  "d_list d k = (case jget d k of Some (JArr xs) \<Rightarrow> Some xs | _ \<Rightarrow> None)"

fun j_str :: "json \<Rightarrow> string" where
  "j_str (JStr s) = s"
| "j_str _ = []"

fun j_int :: "json \<Rightarrow> int" where
  "j_int (JNum n) = n"
| "j_int _ = 0"

definition d_strs :: "json \<Rightarrow> string \<Rightarrow> string list option" where
  "d_strs d k = map_option (map j_str) (d_list d k)"

subsection \<open>What the validator promises\<close>

text \<open>\<open>meets z v\<close>: the value \<open>v\<close> (absent or present) is one the schema \<open>z\<close> lets through, as far as the routes rely on it: its type, the
  members of an enumeration, lengths and bounds (a length counts UTF-16 units, each of at most three bytes). Formats (UUID, e-mail, URL, date, pattern) are not judged.\<close>

fun meets_check :: "string \<Rightarrow> zcheck \<Rightarrow> bool" where
  "meets_check s (ZMin n) = (n \<le> length s)"
| "meets_check s (ZMax n) = (length s \<le> 3 * n)"
| "meets_check s ZTrim = (js_trim s = s)"
| "meets_check s _ = True"

fun meets_checkn :: "int \<Rightarrow> zcheckn \<Rightarrow> bool" where
  "meets_checkn i (ZLeast n) = (n \<le> i)"
| "meets_checkn i (ZMost n) = (i \<le> n)"
| "meets_checkn i ZInt = True"

fun meets :: "zod \<Rightarrow> json option \<Rightarrow> bool" where
  "meets (ZString cs) v = (case v of Some (JStr s) \<Rightarrow> list_all (meets_check s) cs | _ \<Rightarrow> False)"
| "meets (ZNumber cs) v = (case v of Some (JNum n) \<Rightarrow> list_all (meets_checkn n) cs | _ \<Rightarrow> False)"
| "meets ZBoolean v = (case v of Some (JBool b) \<Rightarrow> True | _ \<Rightarrow> False)"
| "meets (ZEnum vs) v = (case v of Some (JStr s) \<Rightarrow> s \<in> set vs | _ \<Rightarrow> False)"
| "meets (ZArray z lo hi) v = (case v of Some (JArr xs) \<Rightarrow> list_all (\<lambda>x. meets z (Some x)) xs
     \<and> (case lo of Some n \<Rightarrow> n \<le> length xs | None \<Rightarrow> True) \<and> (case hi of Some n \<Rightarrow> length xs \<le> n | None \<Rightarrow> True) | _ \<Rightarrow> False)"
| "meets (ZObject fs) v = (case v of Some (JObj kvs) \<Rightarrow> list_all (\<lambda>(k, z). meets z (map_of kvs k)) fs | _ \<Rightarrow> False)"
| "meets (ZRecord z) v = (case v of Some (JObj kvs) \<Rightarrow> list_all (\<lambda>(k, x). meets z (Some x)) kvs | _ \<Rightarrow> False)"
| "meets (ZOptional z) v = (v = None \<or> meets z v)"
| "meets (ZNullable z) v = (v = Some JNull \<or> meets z v)"
| "meets (ZDefault z d) v = meets z v"

definition zod_ok :: "(zod \<Rightarrow> json \<Rightarrow> json option) \<Rightarrow> bool" where
  "zod_ok parse \<longleftrightarrow> (\<forall>z j d. parse z j = Some d \<longrightarrow> meets z (Some d))"

lemma zod_ok_field:
  assumes "zod_ok parse" and "parse (ZObject fs) j = Some d" and "(k, z) \<in> set fs"
  shows "meets z (jget d k)"
proof -
  have "meets (ZObject fs) (Some d)" using assms unfolding zod_ok_def by blast
  then show ?thesis using assms(3) by (cases d) (auto simp: list_all_iff)
qed

lemma zod_ok_enum:
  assumes "zod_ok parse" and "parse (ZObject fs) j = Some d" and "(k, ZEnum vs) \<in> set fs"
  shows "d_str d k \<in> set vs"
  using zod_ok_field [OF assms] by (auto simp: d_str_def split: option.splits json.splits)

subsection \<open>A validator that keeps its promise\<close>

text \<open>\<open>strict_parse\<close> lets a body through exactly when it meets the schema as it stands.\<close>

definition strict_parse :: "zod \<Rightarrow> json \<Rightarrow> json option" where
  "strict_parse z j = (if meets z (Some j) then Some j else None)"

lemma zod_ok_strict: "zod_ok strict_parse"
  by (simp add: zod_ok_def strict_parse_def)

end
