(* ===== verification/Research.thy ===== *)
theory Research
  imports Fetch_Guard Requests
begin

text \<open>
  Search and the privileged tools: \<^verbatim>\<open>lib/research/search.ts\<close> (the order of the search back ends and the reading of their answers) and
  \<^verbatim>\<open>lib/ai/runner.ts\<close> (the client of the runner, a daemon outside the repository). The pages of the second search engine are scraped with regular
  expressions; what they give is an argument, like every answer of the network.
\<close>

subsection \<open>Search\<close>

record WebResult =
  wb_title :: string
  wb_url :: string
  wb_snippet :: string

datatype Provider = Searxng | Duckduckgo | NoProvider

record WebSearchResult =
  wc_results :: "WebResult list"
  wc_provider :: Provider
  wc_available :: bool
  wc_note :: "string option"

definition http_link :: "string \<Rightarrow> bool" where
  "http_link u \<longleftrightarrow> starts_with ''http://'' (js_lower u) \<or> starts_with ''https://'' (js_lower u)"

definition text_field :: "string \<Rightarrow> json \<Rightarrow> string" where
  "text_field k r = (case jget r k of Some (JStr x) \<Rightarrow> x | _ \<Rightarrow> [])"

text \<open>One pass over the results; it ends as soon as \<open>k\<close> of them are taken, and reading a field of \<^verbatim>\<open>null\<close> raises (\<open>None\<close>).\<close>

fun take_results :: "nat \<Rightarrow> json list \<Rightarrow> WebResult list option" where
  "take_results k [] = Some []"
| "take_results k (r # rs) = (if r = JNull then None else
     let u = text_field ''url'' r; t = text_field ''title'' r in
     if u = [] \<or> \<not> http_link u then take_results k rs
     else let x = \<lparr>wb_title = (if t = [] then u else t), wb_url = u, wb_snippet = text_field ''content'' r\<rparr> in
       if k \<le> 1 then Some [x] else map_option ((#) x) (take_results (k - 1) rs))"

definition parseSearxng :: "json \<Rightarrow> nat \<Rightarrow> WebResult list option" where
  "parseSearxng j k = (case jget j ''results'' of Some (JArr rs) \<Rightarrow> take_results k rs | _ \<Rightarrow> Some [])"

text \<open>The network of a search: the configured address, the JSON a query gets from it, and what the two pages of the other engine hold. \<open>None\<close> stands
  for a failed or refused request.\<close>

record search_env =
  sv_searxng :: "string option"
  sv_json :: "string \<Rightarrow> string \<Rightarrow> json option"
  sv_lite :: "string \<Rightarrow> nat \<Rightarrow> WebResult list option"
  sv_html :: "string \<Rightarrow> nat \<Rightarrow> WebResult list option"

definition searchSearxng :: "search_env \<Rightarrow> string \<Rightarrow> nat \<Rightarrow> WebResult list option" where
  "searchSearxng S q k = (case sv_searxng S of None \<Rightarrow> None
     | Some base \<Rightarrow> if base = [] then None else (case sv_json S base q of None \<Rightarrow> None | Some j \<Rightarrow> parseSearxng j k))"

definition searchDuckduckgo :: "search_env \<Rightarrow> string \<Rightarrow> nat \<Rightarrow> WebResult list option" where
  "searchDuckduckgo S q k = (case sv_lite S q k of Some (x # xs) \<Rightarrow> Some (x # xs) | _ \<Rightarrow> sv_html S q k)"

definition no_search_note :: string where
  "no_search_note = ''Web search is unavailable '' @ [CHR 0xE2, CHR 0x80, CHR 0x94] @ '' set SEARXNG_URL (self-hosted, keyless) or check connectivity.''"

definition searchWeb :: "search_env \<Rightarrow> string \<Rightarrow> int \<Rightarrow> WebSearchResult" where
  "searchWeb S q k = (let n = nat (min (max k 1) 10) in
     case searchSearxng S q n of Some (x # xs) \<Rightarrow> \<lparr>wc_results = x # xs, wc_provider = Searxng, wc_available = True, wc_note = None\<rparr>
     | _ \<Rightarrow> (case searchDuckduckgo S q n of Some (x # xs) \<Rightarrow> \<lparr>wc_results = x # xs, wc_provider = Duckduckgo, wc_available = True, wc_note = None\<rparr>
     | _ \<Rightarrow> \<lparr>wc_results = [], wc_provider = NoProvider, wc_available = False, wc_note = Some no_search_note\<rparr>))"

subsection \<open>The runner\<close>

text \<open>Environment variables, and what posting a body with a bearer token to a path gives: \<open>None\<close> for a failed connection, a time-out, a status that is
  not a success or an answer that is not JSON.\<close>

record runner_env =
  rn_env :: "string \<Rightarrow> string option"
  rn_post :: "string \<Rightarrow> string \<Rightarrow> string \<Rightarrow> json \<Rightarrow> json option"

definition runner_config :: "runner_env \<Rightarrow> (string \<times> string) option" where
  "runner_config R = (case (rn_env R ''COMMS_RUNNER_URL'', rn_env R ''COMMS_RUNNER_BEARER'') of
     (Some u, Some b) \<Rightarrow> if u = [] \<or> b = [] then None else Some (if ends_with ''/'' u then butlast u else u, b) | _ \<Rightarrow> None)"

definition runnerConfigured :: "runner_env \<Rightarrow> bool" where
  "runnerConfigured R \<longleftrightarrow> runner_config R \<noteq> None"

text \<open>Every failure is a \<^verbatim>\<open>RunnerUnavailableError\<close>, written \<open>None\<close>.\<close>

definition runnerCall :: "runner_env \<Rightarrow> string \<Rightarrow> json \<Rightarrow> json option" where
  "runnerCall R path body = (case runner_config R of None \<Rightarrow> None | Some (u, b) \<Rightarrow> rn_post R u b path body)"

definition opt_json :: "string \<Rightarrow> json option \<Rightarrow> (string \<times> json) list" where
  "opt_json k v = (case v of None \<Rightarrow> [] | Some x \<Rightarrow> [(k, x)])"

definition webSearch :: "runner_env \<Rightarrow> string \<Rightarrow> int \<Rightarrow> json option" where
  "webSearch R q k = runnerCall R ''/tools/web-search'' (JObj [(''query'', JStr q), (''k'', JNum k)])"

definition terminalExec :: "runner_env \<Rightarrow> string \<Rightarrow> string option \<Rightarrow> string option \<Rightarrow> json option" where
  "terminalExec R cmd cwd sandbox = runnerCall R ''/tools/terminal''
     (JObj ((''cmd'', JStr cmd) # opt_json ''cwd'' (map_option JStr cwd) @ opt_json ''sandbox_id'' (map_option JStr sandbox)))"

definition codeRun :: "runner_env \<Rightarrow> string \<Rightarrow> string \<Rightarrow> (string \<times> string) list option \<Rightarrow> json option" where
  "codeRun R lang source files = runnerCall R ''/tools/code'' (JObj ([(''lang'', JStr lang), (''source'', JStr source)]
     @ opt_json ''files'' (map_option (\<lambda>fs. JArr (map (\<lambda>f. JObj [(''name'', JStr (fst f)), (''content'', JStr (snd f))]) fs)) files)))"

definition chartRender :: "runner_env \<Rightarrow> json \<Rightarrow> json option" where
  "chartRender R spec = runnerCall R ''/tools/chart'' (JObj [(''spec'', spec)])"

subsection \<open>What a search returns\<close>

lemma take_results_ok: "take_results k rs = Some ws \<Longrightarrow> length ws \<le> max 1 k \<and> list_all (\<lambda>x. http_link (wb_url x) \<and> wb_title x \<noteq> []) ws"
proof (induction k rs arbitrary: ws rule: take_results.induct)
  case (2 k r rs)
  then show ?case by (auto simp: Let_def split: if_splits) fastforce+
qed simp

end
