(* ===== verification/Dedupe.thy ===== *)
theory Dedupe
  imports Crm
begin

text \<open>
  \<^verbatim>\<open>lib/domain/crm-dedupe.ts\<close>: merging duplicate accounts, deals and contacts. \<open>mergeRecord\<close> re-points what belongs to the duplicate and deletes
  it; \<open>dedupeWorkspaceCrm\<close> finds the duplicates in three passes of the same loop. The first half of the proofs shows what a merge does to the
  material of the records, the second that a run without a cap leaves no duplicates.
\<close>

subsection \<open>Merging one record into another\<close>

definition repointNotes :: "uuid \<Rightarrow> CrmEntity \<Rightarrow> uuid \<Rightarrow> uuid \<Rightarrow> (db, unit) act" where
  "repointNotes w e dup canon = tbl_update crmNotes_update (\<lambda>n. of_record w e dup (no_workspaceId n, no_entity n, no_recordId n)) (\<lambda>n. n\<lparr>no_recordId := canon\<rparr>)"

definition repointActivity :: "uuid \<Rightarrow> CrmEntity \<Rightarrow> uuid \<Rightarrow> uuid \<Rightarrow> (db, unit) act" where
  "repointActivity w e dup canon = tbl_update crmActivity_update (\<lambda>a. of_record w e dup (ac_workspaceId a, ac_entity a, ac_recordId a)) (\<lambda>a. a\<lparr>ac_recordId := canon\<rparr>)"

definition value_of :: "uuid \<Rightarrow> CrmEntity \<Rightarrow> uuid \<Rightarrow> field_value_row \<Rightarrow> bool" where
  "value_of w e i v \<longleftrightarrow> of_record w e i (fv_workspaceId v, fv_entity v, fv_recordId v)"

definition tag_of :: "uuid \<Rightarrow> CrmEntity \<Rightarrow> uuid \<Rightarrow> record_tag_row \<Rightarrow> bool" where
  "tag_of w e i t \<longleftrightarrow> of_record w e i (rt_workspaceId t, rt_entity t, rt_recordId t)"

text \<open>Re-pointing children under a uniqueness constraint: those that collide with a child of the canonical record are dropped, the rest move.\<close>

definition repoint_unique :: "('s \<Rightarrow> 'r list) \<Rightarrow> (('r list \<Rightarrow> 'r list) \<Rightarrow> 's \<Rightarrow> 's) \<Rightarrow> ('r \<Rightarrow> 'k) \<Rightarrow> ('r \<Rightarrow> bool) \<Rightarrow> ('r \<Rightarrow> bool) \<Rightarrow>
    ('r \<Rightarrow> 'r) \<Rightarrow> ('s, unit) act" where
  "repoint_unique tbl upd key canon dup move =
     act_bind (act_get (\<lambda>s. map key (rows_where canon (tbl s)))) (\<lambda>have_keys.
     act_bind (act_get (\<lambda>s. map key (rows_where dup (tbl s)))) (\<lambda>dup_keys.
     let collide = filter (\<lambda>k. k \<in> set have_keys) dup_keys in
     act_bind (if collide \<noteq> [] then tbl_delete upd (\<lambda>r. dup r \<and> key r \<in> set collide) else act_return ()) (\<lambda>_.
     tbl_update upd dup move)))"

definition repointFieldValues :: "uuid \<Rightarrow> CrmEntity \<Rightarrow> uuid \<Rightarrow> uuid \<Rightarrow> (db, unit) act" where
  "repointFieldValues w e dup canon = repoint_unique crmFieldValues crmFieldValues_update fv_fieldId (value_of w e canon) (value_of w e dup)
     (\<lambda>v. v\<lparr>fv_recordId := canon\<rparr>)"

definition repointTags :: "uuid \<Rightarrow> CrmEntity \<Rightarrow> uuid \<Rightarrow> uuid \<Rightarrow> (db, unit) act" where
  "repointTags w e dup canon = repoint_unique crmRecordTags crmRecordTags_update rt_tagId (tag_of w e canon) (tag_of w e dup)
     (\<lambda>t. t\<lparr>rt_recordId := canon\<rparr>)"

text \<open>The links of messages to a deal; the source does not restrict them to the workspace.\<close>

definition deal_link :: "uuid \<Rightarrow> message_link_row \<Rightarrow> bool" where
  "deal_link i l \<longleftrightarrow> lk_entityType l = ''deal'' \<and> lk_entityId l = i"

definition repointLinks :: "uuid \<Rightarrow> uuid \<Rightarrow> (db, unit) act" where
  "repointLinks dup canon = repoint_unique messageLinks messageLinks_update lk_messageId (deal_link canon) (deal_link dup) (\<lambda>l. l\<lparr>lk_entityId := canon\<rparr>)"

definition merge_account :: "uuid \<Rightarrow> uuid \<Rightarrow> uuid \<Rightarrow> (db, unit) act" where
  "merge_account w dup canon =
     act_bind (tbl_update contacts_update (\<lambda>r. ct_workspaceId r = w \<and> ct_accountId r = Some dup) (\<lambda>r. r\<lparr>ct_accountId := Some canon\<rparr>)) (\<lambda>_.
     act_bind (tbl_update deals_update (\<lambda>r. dl_workspaceId r = w \<and> dl_accountId r = Some dup) (\<lambda>r. r\<lparr>dl_accountId := Some canon\<rparr>)) (\<lambda>_.
     act_bind (tbl_update documents_update (\<lambda>r. dc_workspaceId r = w \<and> dc_accountId r = Some dup) (\<lambda>r. r\<lparr>dc_accountId := Some canon\<rparr>)) (\<lambda>_.
     act_bind (tbl_update agentThreads_update (\<lambda>r. th_workspaceId r = w \<and> th_accountId r = Some dup) (\<lambda>r. r\<lparr>th_accountId := Some canon\<rparr>)) (\<lambda>_.
     act_bind (tbl_update importRows_update (\<lambda>r. iw_workspaceId r = w \<and> iw_linkedAccountId r = Some dup) (\<lambda>r. r\<lparr>iw_linkedAccountId := Some canon\<rparr>)) (\<lambda>_.
     account_delete (\<lambda>r. acc_workspaceId r = w \<and> acc_id r = dup))))))"

definition merge_deal :: "uuid \<Rightarrow> uuid \<Rightarrow> uuid \<Rightarrow> (db, unit) act" where
  "merge_deal w dup canon =
     act_bind (tbl_update documents_update (\<lambda>r. dc_workspaceId r = w \<and> dc_dealId r = Some dup) (\<lambda>r. r\<lparr>dc_dealId := Some canon\<rparr>)) (\<lambda>_.
     act_bind (tbl_update agentThreads_update (\<lambda>r. th_workspaceId r = w \<and> th_dealId r = Some dup) (\<lambda>r. r\<lparr>th_dealId := Some canon\<rparr>)) (\<lambda>_.
     act_bind (tbl_update calendarEvents_update (\<lambda>r. ev_workspaceId r = w \<and> ev_dealId r = Some dup) (\<lambda>r. r\<lparr>ev_dealId := Some canon\<rparr>)) (\<lambda>_.
     act_bind (repointLinks dup canon) (\<lambda>_.
     deal_delete (\<lambda>r. dl_workspaceId r = w \<and> dl_id r = dup)))))"

definition merge_contact :: "uuid \<Rightarrow> uuid \<Rightarrow> uuid \<Rightarrow> (db, unit) act" where
  "merge_contact w dup canon =
     act_bind (tbl_update importRows_update (\<lambda>r. iw_workspaceId r = w \<and> iw_linkedContactId r = Some dup) (\<lambda>r. r\<lparr>iw_linkedContactId := Some canon\<rparr>)) (\<lambda>_.
     tbl_delete contacts_update (\<lambda>r. ct_workspaceId r = w \<and> ct_id r = dup))"

definition repoint_shared :: "uuid \<Rightarrow> CrmEntity \<Rightarrow> uuid \<Rightarrow> uuid \<Rightarrow> (db, unit) act" where
  "repoint_shared w e dup canon = act_bind (repointNotes w e dup canon) (\<lambda>_. act_bind (repointActivity w e dup canon) (\<lambda>_.
     act_bind (repointFieldValues w e dup canon) (\<lambda>_. repointTags w e dup canon)))"

definition mergeRecord :: "crypto_env \<Rightarrow> ms \<Rightarrow> uuid \<Rightarrow> CrmEntity \<Rightarrow> uuid \<Rightarrow> uuid \<Rightarrow> string \<Rightarrow> (db, unit) act" where
  "mergeRecord E now w e dup canon u = (if dup = canon then act_return ()
     else act_bind (repoint_shared w e dup canon) (\<lambda>_.
       act_bind (case e of CrmAccount \<Rightarrow> merge_account w dup canon | CrmDeal \<Rightarrow> merge_deal w dup canon | CrmContact \<Rightarrow> merge_contact w dup canon) (\<lambda>_.
       act_bind (appendAudit E now (audit_input w (Some u) (entity_name e @ ''_merged'') (Some (dup @ ''->'' @ canon)))) (\<lambda>_. act_return ()))))"

subsection \<open>Finding the duplicates\<close>

text \<open>The state of a pass: the map from keys to canonical ids, the canonical ids that got something merged, the number of merges, and what is
  left of the cap (\<open>None\<close> is \<^verbatim>\<open>Infinity\<close>).\<close>

record MergeState =
  mt_canonBy :: "string \<Rightarrow> uuid option"
  mt_groups :: "uuid list"
  mt_merged :: nat
  mt_budget :: "nat option"

definition set_key :: "string option \<Rightarrow> uuid \<Rightarrow> (string \<Rightarrow> uuid option) \<Rightarrow> string \<Rightarrow> uuid option" where
  "set_key k i m = (case k of None \<Rightarrow> m | Some x \<Rightarrow> m(x \<mapsto> i))"

text \<open>\<^verbatim>\<open>(kd && canonBy.get(kd)) || canonBy.get(kn)\<close>.\<close>

definition canon_of :: "(string \<Rightarrow> uuid option) \<Rightarrow> string option \<Rightarrow> string \<Rightarrow> uuid option" where
  "canon_of m kd kn = (case Option.bind kd m of Some c \<Rightarrow> Some c | None \<Rightarrow> m kn)"

definition count_merge :: "uuid \<Rightarrow> string option \<Rightarrow> MergeState \<Rightarrow> MergeState" where
  "count_merge c kd st = st\<lparr>mt_groups := (if c \<in> set (mt_groups st) then mt_groups st else mt_groups st @ [c]), mt_merged := Suc (mt_merged st),
     mt_budget := map_option (\<lambda>b. b - 1) (mt_budget st),
     mt_canonBy := (if Option.bind kd (mt_canonBy st) = None then set_key kd c (mt_canonBy st) else mt_canonBy st)\<rparr>"

definition claim_keys :: "uuid \<Rightarrow> string option \<Rightarrow> string \<Rightarrow> MergeState \<Rightarrow> MergeState" where
  "claim_keys i kd kn st = st\<lparr>mt_canonBy := (set_key kd i (mt_canonBy st))(kn \<mapsto> i)\<rparr>"

text \<open>One pass over the rows (id, first key, second key). \<open>mrg\<close> merges a row into its canonical one, or does nothing in a dry run, which has no cap.\<close>

fun merge_pass :: "(uuid \<Rightarrow> uuid \<Rightarrow> (db, unit) act) \<Rightarrow> (uuid \<times> string option \<times> string) list \<Rightarrow> MergeState \<Rightarrow> (db, MergeState) act" where
  "merge_pass mrg [] st = act_return st"
| "merge_pass mrg ((i, kd, kn) # rows) st =
     (if mt_budget st = Some 0 then act_return st
      else (case canon_of (mt_canonBy st) kd kn of
          Some c \<Rightarrow> act_bind (mrg i c) (\<lambda>_. merge_pass mrg rows (count_merge c kd st))
        | None \<Rightarrow> merge_pass mrg rows (claim_keys i kd kn st)))"

definition pass_start :: "nat option \<Rightarrow> MergeState" where
  "pass_start b = \<lparr>mt_canonBy = (\<lambda>_. None), mt_groups = [], mt_merged = 0, mt_budget = b\<rparr>"

definition account_keys :: "account_row \<Rightarrow> uuid \<times> string option \<times> string" where
  "account_keys r = (acc_id r, (if domain_key (acc_domain r) = [] then None else Some (''d:'' @ domain_key (acc_domain r))),
     ''n:'' @ crmNormName (acc_name r))"

definition deal_keys :: "deal_row \<Rightarrow> uuid \<times> string option \<times> string" where
  "deal_keys r = (dl_id r, None, or_empty (dl_accountId r) @ ''|'' @ crmNormName (dl_name r))"

definition contact_keys :: "contact_row \<Rightarrow> uuid \<times> string option \<times> string" where
  "contact_keys r = (ct_id r, (if or_empty (ct_emailKey r) = [] then None else Some (''e:'' @ or_empty (ct_emailKey r))),
     ''n:'' @ or_empty (ct_accountId r) @ ''|'' @ crmNormName (ct_name r))"

record DedupeCount =
  dq_groups :: nat
  dq_merged :: nat

record DedupeReport =
  dq_accounts :: DedupeCount
  dq_deals :: DedupeCount
  dq_contacts :: DedupeCount
  dq_dryRun :: bool

definition count_of :: "MergeState \<Rightarrow> DedupeCount" where
  "count_of st = \<lparr>dq_groups = length (mt_groups st), dq_merged = mt_merged st\<rparr>"

record DedupeOpts =
  dz_dryRun :: bool
  dz_actorSub :: "string option"
  dz_maxMerges :: "int option"

definition merge_cap :: "DedupeOpts \<Rightarrow> nat option" where
  "merge_cap op = (case dz_maxMerges op of Some n \<Rightarrow> if \<not> dz_dryRun op \<and> 0 < n then Some (nat n) else None | None \<Rightarrow> None)"

definition dedupeWorkspaceCrm :: "crypto_env \<Rightarrow> ms \<Rightarrow> uuid \<Rightarrow> DedupeOpts \<Rightarrow> (db, DedupeReport) act" where
  "dedupeWorkspaceCrm E now w op = (let u = or_default (dz_actorSub op) ''system:dedupe'';
       mrg = (\<lambda>e i c. if dz_dryRun op then act_return () else mergeRecord E now w e i c u) in
     act_bind (act_get (\<lambda>s. map account_keys (sort_key acc_createdAt (rows_where (\<lambda>r. acc_workspaceId r = w) (accounts s))))) (\<lambda>accRows.
     act_bind (merge_pass (mrg CrmAccount) accRows (pass_start (merge_cap op))) (\<lambda>a.
     act_bind (act_get (\<lambda>s. map deal_keys (sort_key dl_createdAt (rows_where (\<lambda>r. dl_workspaceId r = w) (deals s))))) (\<lambda>dealRows.
     act_bind (merge_pass (mrg CrmDeal) dealRows (pass_start (mt_budget a))) (\<lambda>d.
     act_bind (act_get (\<lambda>s. map contact_keys (rows_where (\<lambda>r. ct_workspaceId r = w) (contacts s)))) (\<lambda>ctRows.
     act_bind (merge_pass (mrg CrmContact) ctRows (pass_start (mt_budget d))) (\<lambda>c.
     act_return \<lparr>dq_accounts = count_of a, dq_deals = count_of d, dq_contacts = count_of c, dq_dryRun = dz_dryRun op\<rparr>)))))))"

subsection \<open>What a merge does to the material of the records\<close>

text \<open>\<open>moved\<close> is the effect of \<open>repoint_unique\<close> on the table.\<close>

definition moved :: "('r \<Rightarrow> 'k) \<Rightarrow> ('r \<Rightarrow> bool) \<Rightarrow> ('r \<Rightarrow> bool) \<Rightarrow> ('r \<Rightarrow> 'r) \<Rightarrow> 'r list \<Rightarrow> 'r list" where
  "moved key canon dup move rs = upd_where dup move (filter (\<lambda>r. \<not> (dup r \<and> key r \<in> key ` {x \<in> set rs. canon x})) rs)"

lemma repoint_unique_run:
  assumes "\<And>f g t. upd f (upd g t) = upd (\<lambda>x. f (g x)) t" and "\<And>f g t. f (tbl t) = g (tbl t) \<Longrightarrow> upd f t = upd g t" and "\<And>f t. tbl (upd f t) = f (tbl t)"
  shows "repoint_unique tbl upd key canon dup move s = (Inr (), upd (moved key canon dup move) s)"
proof -
  let ?collide = "filter (\<lambda>k. k \<in> key ` {x \<in> set (tbl s). canon x}) (map key (filter dup (tbl s)))"
  have drop: "filter (\<lambda>r. \<not> (dup r \<and> key r \<in> set ?collide)) (tbl s) = filter (\<lambda>r. \<not> (dup r \<and> key r \<in> key ` {x \<in> set (tbl s). canon x})) (tbl s)"
    by (rule filter_cong) auto
  have one: "upd (upd_where dup move) s = upd (moved key canon dup move) s" if "?collide = []"
    using that drop by (intro assms(2)) (simp add: moved_def)
  have two: "upd (upd_where dup move) (upd (filter (\<lambda>r. \<not> (dup r \<and> key r \<in> set ?collide))) s) = upd (moved key canon dup move) s"
    unfolding assms(1) using drop by (intro assms(2)) (simp add: moved_def)
  have "set (map key (filter canon (tbl s))) = key ` {x \<in> set (tbl s). canon x}" by auto
  then show ?thesis using one two
    by (simp add: repoint_unique_def rows_where_def act_bind_def act_get_def act_return_def tbl_delete_def tbl_update_def Let_def)
qed

lemma first_where_moved:
  assumes "\<And>r. dup r \<Longrightarrow> canon (move r) \<and> key (move r) = key r" and "\<And>r. dup r \<Longrightarrow> \<not> canon r"
  shows "first_where (\<lambda>r. canon r \<and> key r = x) (moved key canon dup move rs)
       = (case first_where (\<lambda>r. canon r \<and> key r = x) rs of Some r \<Rightarrow> Some r | None \<Rightarrow> map_option move (first_where (\<lambda>r. dup r \<and> key r = x) rs))"
proof -
  define K where "K = key ` {x \<in> set rs. canon x}"
  have gen: "first_where (\<lambda>r. canon r \<and> key r = x) (upd_where dup move (filter (\<lambda>r. \<not> (dup r \<and> key r \<in> K)) qs))
      = (if x \<in> K then first_where (\<lambda>r. canon r \<and> key r = x) qs else map_option move (first_where (\<lambda>r. dup r \<and> key r = x) qs))"
    if "\<forall>q\<in>set qs. canon q \<longrightarrow> key q \<in> K" for qs
    using that assms by (induction qs) auto
  have "x \<in> K \<Longrightarrow> first_where (\<lambda>r. canon r \<and> key r = x) rs \<noteq> None" by (auto simp: K_def first_where_None_iff)
  moreover have "x \<notin> K \<Longrightarrow> first_where (\<lambda>r. canon r \<and> key r = x) rs = None" by (auto simp: K_def first_where_None_iff)
  ultimately show ?thesis using gen [of rs] unfolding moved_def K_def by (auto split: option.split)
qed

definition ids_at :: "('r \<Rightarrow> 'k) \<Rightarrow> (uuid \<Rightarrow> 'r \<Rightarrow> bool) \<Rightarrow> 'r list \<Rightarrow> uuid \<Rightarrow> 'k set" where
  "ids_at key own rs i = key ` {r \<in> set rs. own i r}"

definition joined :: "uuid \<Rightarrow> uuid \<Rightarrow> (uuid \<Rightarrow> 'k set) \<Rightarrow> uuid \<Rightarrow> 'k set" where
  "joined dup canon m i = (if i = canon then m canon \<union> m dup else if i = dup then {} else m i)"

lemma ids_at_repoint:
  assumes "\<And>r. own dup r \<Longrightarrow> key (move r) = key r" and "\<And>r i. own dup r \<Longrightarrow> own i (move r) = (i = canon)"
    and "\<And>r i j. own i r \<Longrightarrow> own j r \<Longrightarrow> i = j"
  shows "ids_at key own (upd_where (own dup) move rs) i = joined dup canon (ids_at key own rs) i"
proof -
  have "x \<in> ids_at key own (upd_where (own dup) move rs) i \<longleftrightarrow> (\<exists>r\<in>set rs. (if own dup r then i = canon else own i r) \<and> x = key r)" for x
  proof -
    let ?g = "\<lambda>r. if own dup r then move r else r"
    have "own i (?g r) = (if own dup r then i = canon else own i r) \<and> key (?g r) = key r" for r using assms(1,2) by simp
    moreover have "x \<in> ids_at key own (upd_where (own dup) move rs) i \<longleftrightarrow> (\<exists>r\<in>set rs. own i (?g r) \<and> x = key (?g r))"
      unfolding ids_at_def set_upd_where by auto
    ultimately show ?thesis by simp
  qed
  moreover have "x \<in> joined dup canon (ids_at key own rs) i \<longleftrightarrow> (\<exists>r\<in>set rs. (if own dup r then i = canon else own i r) \<and> x = key r)" for x
    using assms(3) by (cases "i = canon"; cases "i = dup") (auto simp: joined_def ids_at_def)
  ultimately show ?thesis by blast
qed

lemma ids_at_moved:
  assumes "dup \<noteq> canon" and "\<And>r. own dup r \<Longrightarrow> key (move r) = key r" and "\<And>r i. own dup r \<Longrightarrow> own i (move r) = (i = canon)"
    and one: "\<And>r i j. own i r \<Longrightarrow> own j r \<Longrightarrow> i = j"
  shows "ids_at key own (moved key (own canon) (own dup) move rs) i = joined dup canon (ids_at key own rs) i"
proof -
  let ?K = "key ` {x \<in> set rs. own canon x}"
  have "ids_at key own (moved key (own canon) (own dup) move rs) i = joined dup canon (ids_at key own (filter (\<lambda>r. \<not> (own dup r \<and> key r \<in> ?K)) rs)) i"
    unfolding moved_def by (rule ids_at_repoint) (use assms in auto)
  also have "\<dots> = joined dup canon (ids_at key own rs) i"
  proof -
    have "ids_at key own (filter (\<lambda>r. \<not> (own dup r \<and> key r \<in> ?K)) rs) j = ids_at key own rs j" if "j \<noteq> dup" for j
      using one that by (auto simp: ids_at_def)
    moreover have "x \<in> ids_at key own rs canon \<or> x \<in> ids_at key own (filter (\<lambda>r. \<not> (own dup r \<and> key r \<in> ?K)) rs) dup"
      if "x \<in> ids_at key own rs dup" for x
      using that by (auto simp: ids_at_def)
    moreover have "ids_at key own (filter (\<lambda>r. \<not> (own dup r \<and> key r \<in> ?K)) rs) dup \<subseteq> ids_at key own rs dup" by (auto simp: ids_at_def)
    ultimately show ?thesis using \<open>dup \<noteq> canon\<close> by (auto simp: joined_def)
  qed
  finally show ?thesis .
qed

text \<open>What belongs to a record: the ids of its notes, activities, contacts, deals, documents, threads and events, the tags and linked messages, and
  its field values.\<close>

record material =
  mat_notes :: "uuid set"
  mat_activity :: "uuid set"
  mat_tags :: "uuid set"
  mat_contacts :: "uuid set"
  mat_deals :: "uuid set"
  mat_documents :: "uuid set"
  mat_threads :: "uuid set"
  mat_events :: "uuid set"
  mat_links :: "uuid set"
  mat_fields :: "uuid \<Rightarrow> (string option \<times> string option \<times> int option) option"

definition note_at :: "uuid \<Rightarrow> CrmEntity \<Rightarrow> uuid \<Rightarrow> note_row \<Rightarrow> bool" where
  "note_at w e i n \<longleftrightarrow> of_record w e i (no_workspaceId n, no_entity n, no_recordId n)"

definition activity_at :: "uuid \<Rightarrow> CrmEntity \<Rightarrow> uuid \<Rightarrow> activity_row \<Rightarrow> bool" where
  "activity_at w e i a \<longleftrightarrow> of_record w e i (ac_workspaceId a, ac_entity a, ac_recordId a)"

definition child_of :: "CrmEntity \<Rightarrow> CrmEntity \<Rightarrow> uuid \<Rightarrow> uuid \<Rightarrow> uuid \<times> uuid option \<Rightarrow> bool" where
  "child_of e' e w i x \<longleftrightarrow> e = e' \<and> x = (w, Some i)"

definition document_at :: "uuid \<Rightarrow> CrmEntity \<Rightarrow> uuid \<Rightarrow> document_row \<Rightarrow> bool" where
  "document_at w e i d \<longleftrightarrow> child_of CrmAccount e w i (dc_workspaceId d, dc_accountId d) \<or> child_of CrmDeal e w i (dc_workspaceId d, dc_dealId d)"

definition thread_at :: "uuid \<Rightarrow> CrmEntity \<Rightarrow> uuid \<Rightarrow> agent_thread_row \<Rightarrow> bool" where
  "thread_at w e i t \<longleftrightarrow> child_of CrmAccount e w i (th_workspaceId t, th_accountId t) \<or> child_of CrmDeal e w i (th_workspaceId t, th_dealId t)"

definition field_at :: "db \<Rightarrow> uuid \<Rightarrow> CrmEntity \<Rightarrow> uuid \<Rightarrow> uuid \<Rightarrow> (string option \<times> string option \<times> int option) option" where
  "field_at s w e i f = map_option (\<lambda>v. (fv_valueEnc v, fv_valueKey v, fv_valueNum v)) (first_where (\<lambda>v. value_of w e i v \<and> fv_fieldId v = f) (crmFieldValues s))"

definition material :: "db \<Rightarrow> uuid \<Rightarrow> CrmEntity \<Rightarrow> uuid \<Rightarrow> material" where
  "material s w e i = \<lparr>mat_notes = ids_at no_id (note_at w e) (crmNotes s) i, mat_activity = ids_at ac_id (activity_at w e) (crmActivity s) i,
     mat_tags = ids_at rt_tagId (tag_of w e) (crmRecordTags s) i,
     mat_contacts = ids_at ct_id (\<lambda>i r. child_of CrmAccount e w i (ct_workspaceId r, ct_accountId r)) (contacts s) i,
     mat_deals = ids_at dl_id (\<lambda>i r. child_of CrmAccount e w i (dl_workspaceId r, dl_accountId r)) (deals s) i,
     mat_documents = ids_at dc_id (document_at w e) (documents s) i, mat_threads = ids_at th_id (thread_at w e) (agentThreads s) i,
     mat_events = ids_at ev_id (\<lambda>i r. child_of CrmDeal e w i (ev_workspaceId r, ev_dealId r)) (calendarEvents s) i,
     mat_links = ids_at lk_messageId (\<lambda>i l. e = CrmDeal \<and> deal_link i l) (messageLinks s) i,
     mat_fields = field_at s w e i\<rparr>"

definition join_material :: "material \<Rightarrow> material \<Rightarrow> material" where
  "join_material a b = \<lparr>mat_notes = mat_notes a \<union> mat_notes b, mat_activity = mat_activity a \<union> mat_activity b, mat_tags = mat_tags a \<union> mat_tags b,
     mat_contacts = mat_contacts a \<union> mat_contacts b, mat_deals = mat_deals a \<union> mat_deals b, mat_documents = mat_documents a \<union> mat_documents b,
     mat_threads = mat_threads a \<union> mat_threads b, mat_events = mat_events a \<union> mat_events b, mat_links = mat_links a \<union> mat_links b,
     mat_fields = (\<lambda>f. case mat_fields a f of Some v \<Rightarrow> Some v | None \<Rightarrow> mat_fields b f)\<rparr>"

definition no_material :: material where
  "no_material = \<lparr>mat_notes = {}, mat_activity = {}, mat_tags = {}, mat_contacts = {}, mat_deals = {}, mat_documents = {}, mat_threads = {}, mat_events = {},
     mat_links = {}, mat_fields = (\<lambda>_. None)\<rparr>"

lemmas owner_defs = of_record_def note_at_def activity_at_def value_of_def tag_of_def child_of_def document_at_def thread_at_def deal_link_def

text \<open>The effect of a merge on the database, table by table.\<close>

definition shared_moved :: "uuid \<Rightarrow> CrmEntity \<Rightarrow> uuid \<Rightarrow> uuid \<Rightarrow> db \<Rightarrow> db" where
  "shared_moved w e dup canon s =
     crmRecordTags_update (moved rt_tagId (tag_of w e canon) (tag_of w e dup) (\<lambda>t. t\<lparr>rt_recordId := canon\<rparr>))
    (crmFieldValues_update (moved fv_fieldId (value_of w e canon) (value_of w e dup) (\<lambda>v. v\<lparr>fv_recordId := canon\<rparr>))
    (crmActivity_update (upd_where (activity_at w e dup) (\<lambda>a. a\<lparr>ac_recordId := canon\<rparr>))
    (crmNotes_update (upd_where (note_at w e dup) (\<lambda>n. n\<lparr>no_recordId := canon\<rparr>)) s)))"

lemma repoint_shared_run: "repoint_shared w e dup canon s = (Inr (), shared_moved w e dup canon s)"
proof -
  have v: "repointFieldValues w e dup canon t = (Inr (), crmFieldValues_update (moved fv_fieldId (value_of w e canon) (value_of w e dup)
      (\<lambda>v. v\<lparr>fv_recordId := canon\<rparr>)) t)" for t unfolding repointFieldValues_def by (rule repoint_unique_run) (simp_all add: comp_def)
  have g: "repointTags w e dup canon t = (Inr (), crmRecordTags_update (moved rt_tagId (tag_of w e canon) (tag_of w e dup)
      (\<lambda>t. t\<lparr>rt_recordId := canon\<rparr>)) t)" for t unfolding repointTags_def by (rule repoint_unique_run) (simp_all add: comp_def)
  show ?thesis by (simp add: repoint_shared_def repointNotes_def repointActivity_def act_bind_Inr [OF v] g shared_moved_def
      note_at_def [abs_def] activity_at_def [abs_def])
qed

lemma repointLinks_run:
  "repointLinks dup canon s = (Inr (), messageLinks_update (moved lk_messageId (deal_link canon) (deal_link dup) (\<lambda>l. l\<lparr>lk_entityId := canon\<rparr>)) s)"
  unfolding repointLinks_def by (rule repoint_unique_run) (simp_all add: comp_def)

definition merged :: "uuid \<Rightarrow> CrmEntity \<Rightarrow> uuid \<Rightarrow> uuid \<Rightarrow> db \<Rightarrow> db" where
  "merged w e dup canon s = (let t = shared_moved w e dup canon s in case e of
     CrmAccount \<Rightarrow> accounts_update (filter (\<lambda>r. \<not> (acc_workspaceId r = w \<and> acc_id r = dup)))
       (importRows_update (upd_where (\<lambda>r. iw_workspaceId r = w \<and> iw_linkedAccountId r = Some dup) (\<lambda>r. r\<lparr>iw_linkedAccountId := Some canon\<rparr>))
       (agentThreads_update (upd_where (\<lambda>r. th_workspaceId r = w \<and> th_accountId r = Some dup) (\<lambda>r. r\<lparr>th_accountId := Some canon\<rparr>))
       (documents_update (upd_where (\<lambda>r. dc_workspaceId r = w \<and> dc_accountId r = Some dup) (\<lambda>r. r\<lparr>dc_accountId := Some canon\<rparr>))
       (deals_update (upd_where (\<lambda>r. dl_workspaceId r = w \<and> dl_accountId r = Some dup) (\<lambda>r. r\<lparr>dl_accountId := Some canon\<rparr>))
       (contacts_update (upd_where (\<lambda>r. ct_workspaceId r = w \<and> ct_accountId r = Some dup) (\<lambda>r. r\<lparr>ct_accountId := Some canon\<rparr>)) t)))))
   | CrmDeal \<Rightarrow> deals_update (filter (\<lambda>r. \<not> (dl_workspaceId r = w \<and> dl_id r = dup)))
       (messageLinks_update (moved lk_messageId (deal_link canon) (deal_link dup) (\<lambda>l. l\<lparr>lk_entityId := canon\<rparr>))
       (calendarEvents_update (upd_where (\<lambda>r. ev_workspaceId r = w \<and> ev_dealId r = Some dup) (\<lambda>r. r\<lparr>ev_dealId := Some canon\<rparr>))
       (agentThreads_update (upd_where (\<lambda>r. th_workspaceId r = w \<and> th_dealId r = Some dup) (\<lambda>r. r\<lparr>th_dealId := Some canon\<rparr>))
       (documents_update (upd_where (\<lambda>r. dc_workspaceId r = w \<and> dc_dealId r = Some dup) (\<lambda>r. r\<lparr>dc_dealId := Some canon\<rparr>)) t))))
   | CrmContact \<Rightarrow> contacts_update (filter (\<lambda>r. \<not> (ct_workspaceId r = w \<and> ct_id r = dup)))
       (importRows_update (upd_where (\<lambda>r. iw_workspaceId r = w \<and> iw_linkedContactId r = Some dup) (\<lambda>r. r\<lparr>iw_linkedContactId := Some canon\<rparr>)) t))"

lemma appendAudit_only_log: "\<exists>l n. snd (appendAudit E now i s) = s\<lparr>auditLog := l, auditLogSerial := n\<rparr>"
proof -
  let ?t = "snd (appendAudit E now i s)" and ?bare = "\<lambda>s. s\<lparr>auditLog := [], auditLogSerial := 0\<rparr>"
  have "frames ?bare (appendAudit E now i)" by (rule frames_appendAudit) simp_all
  then have same: "?bare ?t = ?bare s" by (rule frames_snd)
  have "?t = (?bare ?t)\<lparr>auditLog := auditLog ?t, auditLogSerial := auditLogSerial ?t\<rparr>" by simp
  also have "\<dots> = s\<lparr>auditLog := auditLog ?t, auditLogSerial := auditLogSerial ?t\<rparr>" unfolding same by simp
  finally show ?thesis by blast
qed

lemma mergeRecord_run:
  assumes "mergeRecord E now w e dup canon u s = (Inr (), s')" and "dup \<noteq> canon"
  obtains l n where "s' = (merged w e dup canon s)\<lparr>auditLog := l, auditLogSerial := n\<rparr>"
proof -
  let ?part = "case e of CrmAccount \<Rightarrow> merge_account w dup canon | CrmDeal \<Rightarrow> merge_deal w dup canon | CrmContact \<Rightarrow> merge_contact w dup canon"
  obtain t where t: "?part (shared_moved w e dup canon s) = (Inr (), t)"
    and a: "snd (appendAudit E now (audit_input w (Some u) (entity_name e @ ''_merged'') (Some (dup @ ''->'' @ canon))) t) = s'"
    using assms by (auto simp: mergeRecord_def act_bind_Inr [OF repoint_shared_run] act_return_def elim!: act_bind_InrE)
  have "t = merged w e dup canon s"
    using t by (cases e) (auto simp: merged_def Let_def merge_account_def merge_deal_def merge_contact_def act_bind_Inr [OF repointLinks_run]
        account_delete_def deal_delete_def restrict_delete_def tbl_delete_def split: if_splits)
  with a appendAudit_only_log show thesis by (metis that)
qed

lemma moved_none_left: "(\<And>r. dup r \<Longrightarrow> \<not> dup (move r)) \<Longrightarrow> v \<in> set (moved key canon dup move rs) \<Longrightarrow> \<not> dup v"
  by (auto simp: moved_def set_upd_where split: if_splits)

lemma first_where_unmoved:
  assumes "\<And>r. dup r \<Longrightarrow> \<not> P r \<and> \<not> P (move r)"
  shows "first_where P (moved key canon dup move rs) = first_where P rs"
proof -
  have "first_where P (upd_where dup move (filter (\<lambda>r. \<not> (dup r \<and> key r \<in> K)) qs)) = first_where P qs" for K qs
    using assms by (induction qs) auto
  then show ?thesis unfolding moved_def .
qed

lemma field_at_moved:
  assumes "dup \<noteq> canon" and "crmFieldValues s' = moved fv_fieldId (value_of w e canon) (value_of w e dup) (\<lambda>v. v\<lparr>fv_recordId := canon\<rparr>) (crmFieldValues s)"
  shows "field_at s' w e i f = (if i = canon then (case field_at s w e canon f of Some v \<Rightarrow> Some v | None \<Rightarrow> field_at s w e dup f)
      else if i = dup then None else field_at s w e i f)"
proof (cases "i = canon")
  case True
  have "first_where (\<lambda>v. value_of w e canon v \<and> fv_fieldId v = f) (crmFieldValues s')
      = (case first_where (\<lambda>v. value_of w e canon v \<and> fv_fieldId v = f) (crmFieldValues s) of Some v \<Rightarrow> Some v
         | None \<Rightarrow> map_option (\<lambda>v. v\<lparr>fv_recordId := canon\<rparr>) (first_where (\<lambda>v. value_of w e dup v \<and> fv_fieldId v = f) (crmFieldValues s)))"
    unfolding assms(2) by (rule first_where_moved) (use assms(1) in \<open>simp_all add: owner_defs\<close>)
  with True show ?thesis by (simp add: field_at_def option.map_comp comp_def split: option.split)
next
  case False
  show ?thesis
  proof (cases "i = dup")
    case True
    have "\<not> value_of w e dup v" if "v \<in> set (crmFieldValues s')" for v
      using that unfolding assms(2) by (rule moved_none_left [rotated]) (use assms(1) in \<open>simp add: owner_defs\<close>)
    then have "first_where (\<lambda>v. value_of w e dup v \<and> fv_fieldId v = f) (crmFieldValues s') = None" by (auto simp: first_where_None_iff)
    with True False show ?thesis by (simp add: field_at_def)
  next
    case nd: False
    have "first_where (\<lambda>v. value_of w e i v \<and> fv_fieldId v = f) (crmFieldValues s') = first_where (\<lambda>v. value_of w e i v \<and> fv_fieldId v = f) (crmFieldValues s)"
      unfolding assms(2) by (rule first_where_unmoved) (use False nd in \<open>auto simp: owner_defs\<close>)
    with False nd show ?thesis by (simp add: field_at_def)
  qed
qed

lemma entity_name_inj [simp]: "entity_name a = entity_name b \<longleftrightarrow> a = b"
  by (cases a; cases b) simp_all

lemma ids_at_one: "ids_at key own [r] i = (if own i r then {key r} else {})"
  by (auto simp: ids_at_def)

lemma material_merged:
  assumes "dup \<noteq> canon"
  shows "material (merged w e dup canon s) w e i = (if i = canon then join_material (material s w e canon) (material s w e dup)
      else if i = dup then no_material else material s w e i)" (is "material ?t w e i = _")
proof -
  have shared: "crmNotes ?t = upd_where (note_at w e dup) (\<lambda>n. n\<lparr>no_recordId := canon\<rparr>) (crmNotes s)"
    "crmActivity ?t = upd_where (activity_at w e dup) (\<lambda>a. a\<lparr>ac_recordId := canon\<rparr>) (crmActivity s)"
    "crmFieldValues ?t = moved fv_fieldId (value_of w e canon) (value_of w e dup) (\<lambda>v. v\<lparr>fv_recordId := canon\<rparr>) (crmFieldValues s)"
    "crmRecordTags ?t = moved rt_tagId (tag_of w e canon) (tag_of w e dup) (\<lambda>t. t\<lparr>rt_recordId := canon\<rparr>) (crmRecordTags s)"
    by (cases e; simp add: merged_def shared_moved_def Let_def)+
  have n: "ids_at no_id (note_at w e) (crmNotes ?t) i = joined dup canon (ids_at no_id (note_at w e) (crmNotes s)) i"
    unfolding shared by (rule ids_at_repoint) (auto simp: owner_defs)
  have a: "ids_at ac_id (activity_at w e) (crmActivity ?t) i = joined dup canon (ids_at ac_id (activity_at w e) (crmActivity s)) i"
    unfolding shared by (rule ids_at_repoint) (auto simp: owner_defs)
  have g: "ids_at rt_tagId (tag_of w e) (crmRecordTags ?t) i = joined dup canon (ids_at rt_tagId (tag_of w e) (crmRecordTags s)) i"
    unfolding shared by (rule ids_at_moved) (use assms in \<open>auto simp: owner_defs\<close>)
  have f: "field_at ?t w e i = (\<lambda>f. if i = canon then (case field_at s w e canon f of Some v \<Rightarrow> Some v | None \<Rightarrow> field_at s w e dup f)
      else if i = dup then None else field_at s w e i f)"
    by (rule ext) (rule field_at_moved [OF assms shared(3)])
  let ?own = "\<lambda>i r. child_of CrmAccount e w i (ct_workspaceId r, ct_accountId r)"
  have c: "ids_at ct_id ?own (contacts ?t) i = joined dup canon (ids_at ct_id ?own (contacts s)) i"
  proof (cases "e = CrmAccount")
    case True
    then have "contacts ?t = upd_where (?own dup) (\<lambda>r. r\<lparr>ct_accountId := Some canon\<rparr>) (contacts s)"
      by (simp add: merged_def shared_moved_def Let_def child_of_def)
    then show ?thesis by (simp only:) (rule ids_at_repoint, use True in \<open>auto simp: owner_defs\<close>)
  qed (auto simp: ids_at_def joined_def owner_defs)
  let ?own = "\<lambda>i r. child_of CrmAccount e w i (dl_workspaceId r, dl_accountId r)"
  have d: "ids_at dl_id ?own (deals ?t) i = joined dup canon (ids_at dl_id ?own (deals s)) i"
  proof (cases "e = CrmAccount")
    case True
    then have "deals ?t = upd_where (?own dup) (\<lambda>r. r\<lparr>dl_accountId := Some canon\<rparr>) (deals s)"
      by (simp add: merged_def shared_moved_def Let_def child_of_def)
    then show ?thesis by (simp only:) (rule ids_at_repoint, use True in \<open>auto simp: owner_defs\<close>)
  qed (auto simp: ids_at_def joined_def owner_defs)
  have doc: "document_at w CrmAccount j = (\<lambda>r. dc_workspaceId r = w \<and> dc_accountId r = Some j)"
    "document_at w CrmDeal j = (\<lambda>r. dc_workspaceId r = w \<and> dc_dealId r = Some j)" "document_at w CrmContact j = (\<lambda>r. False)" for j
    by (auto simp: document_at_def child_of_def)
  have o: "ids_at dc_id (document_at w e) (documents ?t) i = joined dup canon (ids_at dc_id (document_at w e) (documents s)) i"
  proof (cases "e = CrmContact")
    case False
    then have "documents ?t = upd_where (document_at w e dup) (\<lambda>r. if e = CrmAccount then r\<lparr>dc_accountId := Some canon\<rparr> else r\<lparr>dc_dealId := Some canon\<rparr>)
        (documents s)" by (cases e) (simp_all add: merged_def shared_moved_def Let_def doc)
    then show ?thesis by (simp only:) (rule ids_at_repoint, use False in \<open>(cases e; auto simp: doc)+\<close>)
  qed (auto simp: ids_at_def joined_def doc)
  have thr: "thread_at w CrmAccount j = (\<lambda>r. th_workspaceId r = w \<and> th_accountId r = Some j)"
    "thread_at w CrmDeal j = (\<lambda>r. th_workspaceId r = w \<and> th_dealId r = Some j)" "thread_at w CrmContact j = (\<lambda>r. False)" for j
    by (auto simp: thread_at_def child_of_def)
  have h: "ids_at th_id (thread_at w e) (agentThreads ?t) i = joined dup canon (ids_at th_id (thread_at w e) (agentThreads s)) i"
  proof (cases "e = CrmContact")
    case False
    then have "agentThreads ?t = upd_where (thread_at w e dup) (\<lambda>r. if e = CrmAccount then r\<lparr>th_accountId := Some canon\<rparr> else r\<lparr>th_dealId := Some canon\<rparr>)
        (agentThreads s)" by (cases e) (simp_all add: merged_def shared_moved_def Let_def thr)
    then show ?thesis by (simp only:) (rule ids_at_repoint, use False in \<open>(cases e; auto simp: thr)+\<close>)
  qed (auto simp: ids_at_def joined_def thr)
  let ?own = "\<lambda>i r. child_of CrmDeal e w i (ev_workspaceId r, ev_dealId r)"
  have v: "ids_at ev_id ?own (calendarEvents ?t) i = joined dup canon (ids_at ev_id ?own (calendarEvents s)) i"
  proof (cases "e = CrmDeal")
    case True
    then have "calendarEvents ?t = upd_where (?own dup) (\<lambda>r. r\<lparr>ev_dealId := Some canon\<rparr>) (calendarEvents s)"
      by (simp add: merged_def shared_moved_def Let_def child_of_def)
    then show ?thesis by (simp only:) (rule ids_at_repoint, use True in \<open>auto simp: owner_defs\<close>)
  qed (auto simp: ids_at_def joined_def owner_defs)
  let ?own = "\<lambda>i l. e = CrmDeal \<and> deal_link i l"
  have l: "ids_at lk_messageId ?own (messageLinks ?t) i = joined dup canon (ids_at lk_messageId ?own (messageLinks s)) i"
  proof (cases "e = CrmDeal")
    case True
    then have "messageLinks ?t = moved lk_messageId (?own canon) (?own dup) (\<lambda>l. l\<lparr>lk_entityId := canon\<rparr>) (messageLinks s)"
      by (simp add: merged_def shared_moved_def Let_def)
    then show ?thesis by (simp only:) (rule ids_at_moved [OF assms], use True in \<open>auto simp: deal_link_def\<close>)
  qed (auto simp: ids_at_def joined_def)
  show ?thesis using assms by (simp add: material_def n a g f c d o h v l joined_def join_material_def no_material_def cong: option.case_cong)
qed

text \<open>The rows of the records themselves: the duplicate's row goes, no other row is deleted, and the canonical record keeps its own columns.\<close>

lemma records_merged:
  "accounts (merged w e dup canon s) = (if e = CrmAccount then filter (\<lambda>r. \<not> (acc_workspaceId r = w \<and> acc_id r = dup)) (accounts s) else accounts s)"
  "e \<noteq> CrmAccount \<Longrightarrow> contacts (merged w e dup canon s)
     = (if e = CrmContact then filter (\<lambda>r. \<not> (ct_workspaceId r = w \<and> ct_id r = dup)) (contacts s) else contacts s)"
  "map ct_id (contacts (merged w CrmAccount dup canon s)) = map ct_id (contacts s)"
  by (cases e; simp add: merged_def shared_moved_def Let_def map_upd_where_id)+

lemma deals_merged:
  "e \<noteq> CrmAccount \<Longrightarrow> deals (merged w e dup canon s) = (if e = CrmDeal then filter (\<lambda>r. \<not> (dl_workspaceId r = w \<and> dl_id r = dup)) (deals s) else deals s)"
  by (cases e; simp add: merged_def shared_moved_def Let_def)

lemma mergeRecord_contact_ok:
  assumes "provisioned E" and "has_workspace s w" and "dup \<noteq> canon"
  shows "\<exists>s'. mergeRecord E now w CrmContact dup canon u s = (Inr (), s')"
proof -
  let ?t = "merged w CrmContact dup canon s" and ?i = "audit_input w (Some u) ''contact_merged'' (Some (dup @ ''->'' @ canon))"
  have "merge_contact w dup canon (shared_moved w CrmContact dup canon s) = (Inr (), ?t)"
    by (simp add: merge_contact_def merged_def Let_def tbl_delete_def)
  moreover have "has_workspace ?t (ai_workspaceId ?i)" using assms(2) by (simp add: merged_def shared_moved_def Let_def has_workspace_def audit_input_def)
  ultimately show ?thesis using appendAudit_ok [OF assms(1), of ?t ?i now] assms(3)
    by (auto simp: mergeRecord_def act_bind_Inr [OF repoint_shared_run] act_bind_Inr act_return_def)
qed


definition demo_ann :: "uuid \<Rightarrow> string option \<Rightarrow> contact_row" where
  "demo_ann i key = \<lparr>ct_id = i, ct_workspaceId = ''w1'', ct_accountId = None, ct_name = ''Ann'', ct_emailEnc = key, ct_emailKey = key, ct_title = None,
     ct_ownerSub = None, ct_lastTouch = None\<rparr>"

definition demo_call_note :: note_row where
  "demo_call_note = \<lparr>no_id = ''n1'', no_workspaceId = ''w1'', no_entity = ''contact'', no_recordId = ''a2'', no_type = ''call'', no_titleEnc = None,
     no_bodyEnc = [], no_authorSub = ''alice'', no_byAgent = False, no_personaId = None, no_pinned = False, no_createdAt = 0, no_updatedAt = 0\<rparr>"

definition demo_doubles :: db where
  "demo_doubles = demo_db\<lparr>contacts := [demo_ann ''a1'' None, demo_ann ''a2'' (Some ''k'')], crmNotes := [demo_call_note]\<rparr>"

lemma demo_doubles_ws: "has_workspace demo_doubles ''w1''"
  by (simp add: demo_doubles_def has_workspace_def demo_db_def demo_workspace_def)


subsection \<open>A run leaves no duplicates\<close>

text \<open>Two rows clash when a pass would merge them: they have the second key in common, or the first where they have one.\<close>

definition clash :: "(uuid \<times> string option \<times> string) \<Rightarrow> (uuid \<times> string option \<times> string) \<Rightarrow> bool" where
  "clash x y \<longleftrightarrow> snd (snd x) = snd (snd y) \<or> fst (snd x) \<noteq> None \<and> fst (snd x) = fst (snd y)"

lemma merge_pass_budget: "merge_pass mrg rows st s = (Inr st', s') \<Longrightarrow> mt_budget st = None \<Longrightarrow> mt_budget st' = None"
proof (induction mrg rows st arbitrary: s rule: merge_pass.induct)
  case (2 mrg i kd kn rows st)
  then show ?case
    by (auto split: option.splits elim!: act_bind_InrE simp: count_merge_def claim_keys_def)
qed (simp add: act_return_def)

text \<open>A pass over a table: merging a row into another one removes the row and leaves the others of the table.\<close>

locale merging =
  fixes tbl :: "db \<Rightarrow> 'r list" and keys :: "'r \<Rightarrow> uuid \<times> string option \<times> string" and mrg :: "uuid \<Rightarrow> uuid \<Rightarrow> (db, unit) act"
  assumes removes: "mrg i c s = (Inr (), s') \<Longrightarrow> i \<noteq> c \<Longrightarrow> tbl s' = filter (\<lambda>r. fst (keys r) \<noteq> i) (tbl s)"
begin

lemma pass_clears:
  assumes "merge_pass mrg (map keys R) st s = (Inr st', s')" and "mt_budget st = None"
    and "distinct (map (fst \<circ> keys) (P @ R))" and "set (tbl s) = set P \<union> set R"
    and "\<And>a b. a \<in> set P \<Longrightarrow> b \<in> set P \<Longrightarrow> a \<noteq> b \<Longrightarrow> \<not> clash (keys a) (keys b)"
    and "\<And>a. a \<in> set P \<Longrightarrow> mt_canonBy st (snd (snd (keys a))) \<noteq> None"
    and "\<And>a k. a \<in> set P \<Longrightarrow> fst (snd (keys a)) = Some k \<Longrightarrow> mt_canonBy st k \<noteq> None"
    and "\<And>k c. mt_canonBy st k = Some c \<Longrightarrow> c \<in> (fst \<circ> keys) ` set P"
    and "a \<in> set (tbl s')" "b \<in> set (tbl s')" "a \<noteq> b"
  shows "\<not> clash (keys a) (keys b)"
  using assms
proof (induction R arbitrary: P st s)
  case Nil
  then show ?case by (simp add: act_return_def)
next
  case (Cons r R)
  obtain i kd kn where k: "keys r = (i, kd, kn)" by (metis prod_cases3)
  show ?case
  proof (cases "canon_of (mt_canonBy st) kd kn")
    case None
    let ?st = "claim_keys i kd kn st"
    have free: "mt_canonBy st kn = None" "\<And>x. kd = Some x \<Longrightarrow> mt_canonBy st x = None"
      using None by (auto simp: canon_of_def split: option.splits)
    have run: "merge_pass mrg (map keys R) ?st s = (Inr st', s')" using Cons.prems(1,2) None k by simp
    have new: "\<not> clash (keys r) (keys a)" "\<not> clash (keys a) (keys r)" if "a \<in> set P" for a
      using Cons.prems(6) [OF that] Cons.prems(7) [OF that] free k by (auto simp: clash_def)
    show ?thesis
    proof (rule Cons.IH [OF run, of "P @ [r]"])
      show "mt_budget ?st = None" using Cons.prems(2) by (simp add: claim_keys_def)
      show "distinct (map (fst \<circ> keys) ((P @ [r]) @ R))" "set (tbl s) = set (P @ [r]) \<union> set R" using Cons.prems(3,4) by (auto simp: comp_def)
      show "\<not> clash (keys a) (keys b)" if "a \<in> set (P @ [r])" "b \<in> set (P @ [r])" "a \<noteq> b" for a b
        using that Cons.prems(5) [of a b] new by auto
      show "mt_canonBy ?st (snd (snd (keys a))) \<noteq> None" if "a \<in> set (P @ [r])" for a
        using that Cons.prems(6) [of a] k by (auto simp: claim_keys_def set_key_def split: option.splits)
      show "mt_canonBy ?st x \<noteq> None" if "a \<in> set (P @ [r])" "fst (snd (keys a)) = Some x" for a x
        using that Cons.prems(7) [of a x] k by (auto simp: claim_keys_def set_key_def split: option.splits)
      show "c \<in> (fst \<circ> keys) ` set (P @ [r])" if "mt_canonBy ?st x = Some c" for x c
        using that Cons.prems(8) [of x c] k by (auto simp: claim_keys_def set_key_def split: option.splits if_splits)
    qed (use Cons.prems in auto)
  next
    case (Some c)
    let ?st = "count_merge c kd st"
    have c: "c \<in> (fst \<circ> keys) ` set P" using Some Cons.prems(8)
      unfolding canon_of_def by (cases "Option.bind kd (mt_canonBy st)") (auto simp: bind_eq_Some_conv)
    then have ic: "i \<noteq> c" using Cons.prems(3) k by force
    from Cons.prems(1,2) Some k obtain t where t: "mrg i c s = (Inr (), t)" and run: "merge_pass mrg (map keys R) ?st t = (Inr st', s')"
      by (auto elim: act_bind_InrE)
    show ?thesis
    proof (rule Cons.IH [OF run, of P])
      show "mt_budget ?st = None" using Cons.prems(2) by (simp add: count_merge_def)
      show "distinct (map (fst \<circ> keys) (P @ R))" using Cons.prems(3) by (auto simp: comp_def)
      show "set (tbl t) = set P \<union> set R" unfolding removes [OF t ic] using Cons.prems(3,4) k by (force simp: Cons.prems(4))
      show "mt_canonBy ?st (snd (snd (keys a))) \<noteq> None" if "a \<in> set P" for a
        using that Cons.prems(6) [of a] by (auto simp: count_merge_def set_key_def split: option.splits)
      show "mt_canonBy ?st x \<noteq> None" if "a \<in> set P" "fst (snd (keys a)) = Some x" for a x
        using that Cons.prems(7) [of a x] by (auto simp: count_merge_def set_key_def split: option.splits)
      show "d \<in> (fst \<circ> keys) ` set P" if "mt_canonBy ?st x = Some d" for x d
        using that Cons.prems(8) [of x d] c by (auto simp: count_merge_def set_key_def split: option.splits if_splits)
    qed (use Cons.prems in auto)
  qed
qed

lemma pass_from_start:
  assumes "merge_pass mrg (map keys (sort_key g (tbl s))) (pass_start None) s = (Inr st', s')" and "key_fun (fst \<circ> keys) (tbl s)"
  shows "mt_budget st' = None" and "a \<in> set (tbl s') \<Longrightarrow> b \<in> set (tbl s') \<Longrightarrow> a \<noteq> b \<Longrightarrow> \<not> clash (keys a) (keys b)"
proof -
  have d: "distinct (map (fst \<circ> keys) (sort_key g (tbl s)))"
    using assms(2) by (simp add: key_fun_def distinct_map)
  show "a \<in> set (tbl s') \<Longrightarrow> b \<in> set (tbl s') \<Longrightarrow> a \<noteq> b \<Longrightarrow> \<not> clash (keys a) (keys b)"
    using pass_clears [OF assms(1), of "[]" a b] d by (simp add: pass_start_def)
  show "mt_budget st' = None" using merge_pass_budget [OF assms(1)] by (simp add: pass_start_def)
qed

end

lemma pass_keeps:
  assumes "merge_pass mrg rows st s = (Inr st', s')" and "\<And>i c s s'. mrg i c s = (Inr (), s') \<Longrightarrow> f s' = f s"
  shows "f s' = f s"
  using assms(1)
proof (induction rows arbitrary: st s)
  case (Cons x rows)
  obtain i kd kn where [simp]: "x = (i, kd, kn)" by (metis prod_cases3)
  show ?case using Cons by (auto split: if_splits option.splits elim!: act_bind_InrE dest: assms(2) simp: act_return_def)
qed (simp add: act_return_def)

lemma mergeRecord_tables:
  assumes "mergeRecord E now w e i c u s = (Inr (), s')"
  shows "accounts s' = (if e = CrmAccount \<and> i \<noteq> c then filter (\<lambda>r. \<not> (acc_workspaceId r = w \<and> acc_id r = i)) (accounts s) else accounts s)"
    "e \<noteq> CrmAccount \<Longrightarrow> deals s' = (if e = CrmDeal \<and> i \<noteq> c then filter (\<lambda>r. \<not> (dl_workspaceId r = w \<and> dl_id r = i)) (deals s) else deals s)"
    "e \<noteq> CrmAccount \<Longrightarrow> contacts s' = (if e = CrmContact \<and> i \<noteq> c then filter (\<lambda>r. \<not> (ct_workspaceId r = w \<and> ct_id r = i)) (contacts s) else contacts s)"
    "e = CrmAccount \<Longrightarrow> map dl_id (deals s') = map dl_id (deals s) \<and> map ct_id (contacts s') = map ct_id (contacts s)"
proof -
  consider "i = c" "s' = s" | l n where "i \<noteq> c" "s' = (merged w e i c s)\<lparr>auditLog := l, auditLogSerial := n\<rparr>"
  proof (cases "i = c")
    case False
    from mergeRecord_run [OF assms False] that(2) [OF False] show ?thesis by metis
  qed (use assms that(1) in \<open>simp add: mergeRecord_def act_return_def\<close>)
  note ran = this
  show "accounts s' = (if e = CrmAccount \<and> i \<noteq> c then filter (\<lambda>r. \<not> (acc_workspaceId r = w \<and> acc_id r = i)) (accounts s) else accounts s)"
    "e \<noteq> CrmAccount \<Longrightarrow> deals s' = (if e = CrmDeal \<and> i \<noteq> c then filter (\<lambda>r. \<not> (dl_workspaceId r = w \<and> dl_id r = i)) (deals s) else deals s)"
    "e \<noteq> CrmAccount \<Longrightarrow> contacts s' = (if e = CrmContact \<and> i \<noteq> c then filter (\<lambda>r. \<not> (ct_workspaceId r = w \<and> ct_id r = i)) (contacts s) else contacts s)"
    "e = CrmAccount \<Longrightarrow> map dl_id (deals s') = map dl_id (deals s) \<and> map ct_id (contacts s') = map ct_id (contacts s)"
    by (rule ran; cases e; simp add: merged_def shared_moved_def Let_def map_upd_where_id)+
qed

interpretation acc_merge: merging "\<lambda>s. filter (\<lambda>r. acc_workspaceId r = w) (accounts s)" account_keys "\<lambda>i c. mergeRecord E now w CrmAccount i c u" for E now w u
  by unfold_locales (simp add: mergeRecord_tables account_keys_def filter_filter conj_commute cong: conj_cong filter_cong; meson)

interpretation deal_merge: merging "\<lambda>s. filter (\<lambda>r. dl_workspaceId r = w) (deals s)" deal_keys "\<lambda>i c. mergeRecord E now w CrmDeal i c u" for E now w u
  by unfold_locales (simp add: mergeRecord_tables deal_keys_def filter_filter conj_commute cong: conj_cong filter_cong; meson)

interpretation contact_merge: merging "\<lambda>s. filter (\<lambda>r. ct_workspaceId r = w) (contacts s)" contact_keys "\<lambda>i c. mergeRecord E now w CrmContact i c u" for E now w u
  by unfold_locales (simp add: mergeRecord_tables contact_keys_def filter_filter conj_commute cong: conj_cong filter_cong; meson)

text \<open>Two deals are the same for a run when they have the same account and name.\<close>

definition same_deal :: "deal_row \<Rightarrow> deal_row \<Rightarrow> bool" where
  "same_deal a b \<longleftrightarrow> dl_workspaceId a = dl_workspaceId b \<and> dl_accountId a = dl_accountId b \<and> crmNormName (dl_name a) = crmNormName (dl_name b)"

definition same_person :: "contact_row \<Rightarrow> contact_row \<Rightarrow> bool" where
  "same_person a b \<longleftrightarrow> ct_workspaceId a = ct_workspaceId b
     \<and> (crmNormName (ct_name a) = crmNormName (ct_name b) \<and> ct_accountId a = ct_accountId b
        \<or> truthy (ct_emailKey a) \<and> ct_emailKey a = ct_emailKey b)"

lemma same_clash:
  "same_account a b \<Longrightarrow> clash (account_keys a) (account_keys b)"
  "same_person a' b' \<Longrightarrow> clash (contact_keys a') (contact_keys b')"
  "same_deal x y \<Longrightarrow> clash (deal_keys x) (deal_keys y)"
  by (auto simp: same_account_def same_person_def same_deal_def clash_def account_keys_def contact_keys_def deal_keys_def truthy_def or_empty_def
      split: option.splits)

definition no_twins :: "('r \<Rightarrow> 'r \<Rightarrow> bool) \<Rightarrow> 'r list \<Rightarrow> bool" where
  "no_twins same rs \<longleftrightarrow> list_all (\<lambda>a. list_all (\<lambda>b. same a b \<longrightarrow> a = b) rs) rs"

lemma no_twinsI:
  "(\<And>a b. a \<in> set rs \<Longrightarrow> b \<in> set rs \<Longrightarrow> a \<noteq> b \<Longrightarrow> \<not> clash (keys a) (keys b)) \<Longrightarrow> (\<And>a b. same a b \<Longrightarrow> clash (keys a) (keys b)) \<Longrightarrow> no_twins same rs"
  by (auto simp: no_twins_def list_all_iff)

text \<open>C35. After a successful run without a cap that is not a dry run, no two accounts of the workspace have the same (non-empty) domain or normalised
  name, no two of its deals the same account and name, and no two of its contacts the same e-mail or the same account and name: within each table
  the ids are unique, which the database guarantees.\<close>

theorem dedupe_leaves_no_doubles:
  assumes "dedupeWorkspaceCrm E now w op s = (Inr rep, s')" and "\<not> dz_dryRun op" and "merge_cap op = None"
    and "key_fun acc_id (accounts s)" "key_fun dl_id (deals s)" "key_fun ct_id (contacts s)"
  shows "no_twins same_account (filter (\<lambda>r. acc_workspaceId r = w) (accounts s')) \<and> no_twins same_deal (filter (\<lambda>r. dl_workspaceId r = w) (deals s'))
     \<and> no_twins same_person (filter (\<lambda>r. ct_workspaceId r = w) (contacts s'))"
proof -
  let ?u = "or_default (dz_actorSub op) ''system:dedupe''" and ?m = "\<lambda>e i c. mergeRecord E now w e i c (or_default (dz_actorSub op) ''system:dedupe'')"
  let ?A = "\<lambda>s. filter (\<lambda>r. acc_workspaceId r = w) (accounts s)" and ?D = "\<lambda>s. filter (\<lambda>r. dl_workspaceId r = w) (deals s)"
    and ?C = "\<lambda>s. filter (\<lambda>r. ct_workspaceId r = w) (contacts s)"
  obtain a s1 d s2 c where
    A: "merge_pass (?m CrmAccount) (map account_keys (sort_key acc_createdAt (?A s))) (pass_start None) s = (Inr a, s1)" and
    D: "merge_pass (?m CrmDeal) (map deal_keys (sort_key dl_createdAt (?D s1))) (pass_start (mt_budget a)) s1 = (Inr d, s2)" and
    C: "merge_pass (?m CrmContact) (map contact_keys (?C s2)) (pass_start (mt_budget d)) s2 = (Inr c, s')"
    using assms(1,2,3) by (auto simp: dedupeWorkspaceCrm_def Let_def rows_where_def act_return_def act_get_def elim!: act_bind_InrE)
  have ids: "key_fun dl_id (deals s1)" "key_fun ct_id (contacts s2)"
    using pass_keeps [OF A, of "\<lambda>s. map dl_id (deals s)"] pass_keeps [OF A, of "\<lambda>s. map ct_id (contacts s)"] pass_keeps [OF D, of contacts]
      assms(5,6) by (simp_all add: key_fun_def mergeRecord_tables)
  have kept: "accounts s' = accounts s1" "deals s' = deals s2"
    using pass_keeps [OF C, of accounts] pass_keeps [OF D, of accounts] pass_keeps [OF C, of deals] by (simp_all add: mergeRecord_tables)
  have fsts: "fst \<circ> account_keys = acc_id" "fst \<circ> deal_keys = dl_id" "fst \<circ> contact_keys = ct_id"
    by (auto simp: account_keys_def deal_keys_def contact_keys_def)
  note acc = acc_merge.pass_from_start [OF A, unfolded fsts, OF key_fun_filter, OF assms(4)]
  note dl = deal_merge.pass_from_start [OF D [unfolded acc(1)], unfolded fsts, OF key_fun_filter, OF ids(1)]
  note ct = contact_merge.pass_from_start [where g = "\<lambda>_. 0 :: nat", unfolded sort_key_const, OF C [unfolded dl(1)], unfolded fsts,
    OF key_fun_filter, OF ids(2)]
  have "no_twins same_account (?A s1)" by (rule no_twinsI [where keys = account_keys]) (use acc(2) same_clash(1) in blast)+
  moreover have "no_twins same_deal (?D s2)" by (rule no_twinsI [where keys = deal_keys]) (use dl(2) same_clash(3) in blast)+
  moreover have "no_twins same_person (?C s')" by (rule no_twinsI [where keys = contact_keys]) (use ct(2) same_clash(2) in blast)+
  ultimately show ?thesis unfolding kept by blast
qed

theorem dedupe_leaves_no_doubles_witness:
  "\<exists>rep s'. dedupeWorkspaceCrm demo_env 0 ''w1'' \<lparr>dz_dryRun = False, dz_actorSub = None, dz_maxMerges = None\<rparr> demo_doubles = (Inr rep, s')
     \<and> dq_merged (dq_contacts rep) = 1 \<and> no_twins same_person (filter (\<lambda>r. ct_workspaceId r = ''w1'') (contacts s'))"
proof -
  let ?op = "\<lparr>dz_dryRun = False, dz_actorSub = None, dz_maxMerges = None\<rparr> :: DedupeOpts"
  obtain s' where run: "mergeRecord demo_env 0 ''w1'' CrmContact ''a2'' ''a1'' ''system:dedupe'' demo_doubles = (Inr (), s')"
    using mergeRecord_contact_ok [OF provisioned_demo demo_doubles_ws, of "''a2''" "''a1''"] by auto
  have tabs: "accounts demo_doubles = []" "deals demo_doubles = []" "contacts demo_doubles = [demo_ann ''a1'' None, demo_ann ''a2'' (Some ''k'')]"
    by (simp_all add: demo_doubles_def demo_db_def empty_db_def)
  have keys: "contact_keys (demo_ann ''a1'' None) = (''a1'', None, ''n:|'' @ crmNormName ''Ann'')"
    "contact_keys (demo_ann ''a2'' (Some ''k'')) = (''a2'', Some ''e:k'', ''n:|'' @ crmNormName ''Ann'')"
    "ct_workspaceId (demo_ann i k) = ''w1''" "ct_id (demo_ann i k) = i" for i k
    by (simp_all add: contact_keys_def demo_ann_def or_empty_def)
  have op: "merge_cap ?op = None" "or_default (dz_actorSub ?op) ''system:dedupe'' = ''system:dedupe''" "\<not> dz_dryRun ?op"
    by (simp_all add: merge_cap_def or_default_def)
  have "merge_pass (\<lambda>i c. mergeRecord demo_env 0 ''w1'' CrmContact i c ''system:dedupe'')
      [contact_keys (demo_ann ''a1'' None), contact_keys (demo_ann ''a2'' (Some ''k''))] (pass_start None) demo_doubles
    = (Inr (count_merge ''a1'' (Some ''e:k'') (claim_keys ''a1'' None (''n:|'' @ crmNormName ''Ann'') (pass_start None))), s')"
    by (simp add: keys pass_start_def canon_of_def claim_keys_def set_key_def act_bind_def run act_return_def)
  then obtain rep where rep: "dedupeWorkspaceCrm demo_env 0 ''w1'' ?op demo_doubles = (Inr rep, s')" "dq_merged (dq_contacts rep) = 1"
    by (simp add: dedupeWorkspaceCrm_def Let_def rows_where_def act_bind_get tabs keys(3) op or_default_def act_bind_def act_get_def act_return_def
        count_of_def count_merge_def claim_keys_def pass_start_def)
  have "key_fun acc_id (accounts demo_doubles)" "key_fun dl_id (deals demo_doubles)" "key_fun ct_id (contacts demo_doubles)"
    by (simp_all add: tabs keys(4) key_fun_def)
  with dedupe_leaves_no_doubles [OF rep(1) op(3) op(1)] rep show ?thesis by blast
qed

end
