(* ===== verification/Email.thy ===== *)
theory Email
  imports Calendar
begin

text \<open>
  \<^verbatim>\<open>lib/email/send.ts\<close>, \<^verbatim>\<open>lib/email/suppression.ts\<close> and \<^verbatim>\<open>api/unsubscribe/route.ts\<close>: the one send path of the system and the
  suppression list in front of it. The two transports (the Resend API and an SMTP server) and the environment are fields of \<open>mail_env\<close>;
  a send returns, beside its outcome, the messages it handed to a transport. The cached transport objects of the source carry no
  state of their own and are left out.
\<close>

definition em_dash :: string where "em_dash = [CHR 0xE2, CHR 0x80, CHR 0x94]"
definition ldquo :: string where "ldquo = [CHR 0xE2, CHR 0x80, CHR 0x9C]"
definition rdquo :: string where "rdquo = [CHR 0xE2, CHR 0x80, CHR 0x9D]"
definition newline :: string where "newline = [CHR 0x0A]"

record SmtpConfig =
  smtp_host :: string
  smtp_port :: "int option"
  smtp_secure :: bool
  smtp_user :: string
  smtp_pass :: string
  smtp_from :: string

record OutMail =
  om_from :: string
  om_to :: string
  om_subject :: string
  om_text :: string
  om_html :: string
  om_headers :: "(string \<times> string) list"

datatype resend_reply = ResendData "string option" | ResendError | ResendThrows

record mail_env =
  me_env :: "string \<Rightarrow> string option"
  me_crypto :: crypto_env
  me_number :: "string \<Rightarrow> int option"
  me_resend :: "string \<Rightarrow> OutMail \<Rightarrow> resend_reply"
  me_smtp :: "SmtpConfig \<Rightarrow> OutMail \<Rightarrow> bool"

datatype transport = Resend | Smtp

record SendOutcome =
  so_sent :: bool
  so_suppressed :: "bool option"
  so_link :: "string option"
  so_transport :: "transport option"

subsection \<open>Suppression list\<close>

definition isSuppressed :: "string \<Rightarrow> (db, bool) act" where
  "isSuppressed addr = (let e = js_lower (js_trim addr) in act_get (\<lambda>s. \<exists>r\<in>set (emailSuppression s). es_email r = e))"

definition suppress :: "ms \<Rightarrow> string \<Rightarrow> string \<Rightarrow> (db, unit) act" where
  "suppress now addr reason = (let e = js_lower (js_trim addr) in
     act_bind (act_get (\<lambda>s. e \<in> es_email ` set (emailSuppression s))) (\<lambda>conflict.
     if conflict then act_return ()
     else act_bind (tbl_insert (\<lambda>_. True) emailSuppression_update \<lparr>es_email = e, es_reason = Some reason, es_createdAt = now\<rparr>) (\<lambda>_. act_return ())))"

subsection \<open>Configuration\<close>

definition non_blank :: "string option \<Rightarrow> string option" where
  "non_blank v = (case v of Some x \<Rightarrow> (if js_trim x = [] then None else Some (js_trim x)) | None \<Rightarrow> None)"

definition fromHeader :: "mail_env \<Rightarrow> string option \<Rightarrow> string" where
  "fromHeader M fallback = (case non_blank (me_env M ''EMAIL_FROM'') of Some x \<Rightarrow> x
     | None \<Rightarrow> (case fallback of Some y \<Rightarrow> if y = [] then ''Citrate Comms <onboarding@resend.dev>'' else y
                | None \<Rightarrow> ''Citrate Comms <onboarding@resend.dev>''))"

definition resendConfig :: "mail_env \<Rightarrow> (string \<times> string) option" where
  "resendConfig M = (case non_blank (me_env M ''RESEND_API_KEY'') of None \<Rightarrow> None | Some k \<Rightarrow> Some (k, fromHeader M None))"

definition smtpConfig :: "mail_env \<Rightarrow> SmtpConfig option" where
  "smtpConfig M = (case (non_blank (me_env M ''SMTP_HOST''), non_blank (me_env M ''SMTP_USER''), me_env M ''SMTP_PASS'') of
      (Some host, Some user, Some pass) \<Rightarrow>
        if pass = [] then None else
        let port = me_number M (or_text (me_env M ''SMTP_PORT'') ''587'');
            secure = (case me_env M ''SMTP_SECURE'' of
                Some v \<Rightarrow> if v = [] then port = Some 465 else js_lower v \<in> {''1'', ''true'', ''yes''}
              | None \<Rightarrow> port = Some 465)
        in Some \<lparr>smtp_host = host, smtp_port = port, smtp_secure = secure, smtp_user = user, smtp_pass = pass,
             smtp_from = fromHeader M (Some user)\<rparr>
    | _ \<Rightarrow> None)"

definition emailConfigured :: "mail_env \<Rightarrow> bool" where
  "emailConfigured M \<longleftrightarrow> resendConfig M \<noteq> None \<or> smtpConfig M \<noteq> None"

definition emailTransport :: "mail_env \<Rightarrow> transport option" where
  "emailTransport M = (if resendConfig M \<noteq> None then Some Resend else if smtpConfig M \<noteq> None then Some Smtp else None)"

definition appOrigin :: "mail_env \<Rightarrow> string" where
  "appOrigin M = (let o1 = or_text (me_env M ''APP_ORIGIN'') ''https://citrate-comms-web.vercel.app'' in
     if ends_with ''/'' o1 then butlast o1 else o1)"

subsection \<open>The send path\<close>

definition html_entity :: "char \<Rightarrow> string" where
  "html_entity c = (if c = CHR ''&'' then ''&amp;'' else if c = CHR ''<'' then ''&lt;'' else if c = CHR ''>'' then ''&gt;''
     else if c = CHR 0x22 then ''&quot;'' else if c = CHR 0x27 then ''&#39;'' else [c])"

definition escapeHtml :: "string \<Rightarrow> string" where
  "escapeHtml s = concat (map html_entity s)"

record SendArgs =
  sa_to :: string
  sa_subject :: string
  sa_text :: string
  sa_htmlBody :: string
  sa_primaryLink :: "string option"

definition unsubPage :: "mail_env \<Rightarrow> string \<Rightarrow> string" where
  "unsubPage M token = appOrigin M @ ''/unsubscribe?u='' @ encodeURIComponent token"

definition unsubPost :: "mail_env \<Rightarrow> string \<Rightarrow> string" where
  "unsubPost M token = appOrigin M @ ''/api/unsubscribe?u='' @ encodeURIComponent token"

definition footer_text :: "mail_env \<Rightarrow> string \<Rightarrow> string" where
  "footer_text M token = newline @ newline @ em_dash @ newline @ ''Don'' @ [CHR 0x27] @ ''t want these emails? Unsubscribe instantly: '' @ unsubPage M token"

definition mail_html :: "mail_env \<Rightarrow> string \<Rightarrow> string \<Rightarrow> string" where
  "mail_html M token body =
     ''<div style=\"font-family:ui-sans-serif,system-ui,sans-serif;max-width:480px;margin:0 auto;color:#1f221d\">''
     @ body
     @ ''<hr style=\"border:none;border-top:1px solid #e3e2dc;margin:24px 0\" />''
     @ ''<p style=\"font-size:12px;color:#84867f\">You received this because someone invited you to a Citrate ''
     @ ''workspace. <a href=\"'' @ escapeHtml (unsubPage M token) @ ''\" style=\"color:#5a8205\">Unsubscribe</a> '' @ em_dash @ '' one click, instantly, ''
     @ ''no account needed.</p></div>''"

definition listUnsubHeaders :: "mail_env \<Rightarrow> string \<Rightarrow> (string \<times> string) list" where
  "listUnsubHeaders M token =
     [(''List-Unsubscribe'', ''<mailto:larry@citrate.ai?subject=unsubscribe>, <'' @ unsubPost M token @ ''>''),
      (''List-Unsubscribe-Post'', ''List-Unsubscribe=One-Click'')]"

definition out_mail :: "mail_env \<Rightarrow> SendArgs \<Rightarrow> string \<Rightarrow> string \<Rightarrow> OutMail" where
  "out_mail M a token sender = \<lparr>om_from = sender, om_to = js_lower (js_trim (sa_to a)), om_subject = sa_subject a,
     om_text = sa_text a @ footer_text M token, om_html = mail_html M token (sa_htmlBody a), om_headers = listUnsubHeaders M token\<rparr>"

definition not_sent :: "SendArgs \<Rightarrow> SendOutcome" where
  "not_sent a = \<lparr>so_sent = False, so_suppressed = None, so_link = sa_primaryLink a, so_transport = None\<rparr>"

definition sent_by :: "transport \<Rightarrow> SendOutcome" where
  "sent_by t = \<lparr>so_sent = True, so_suppressed = None, so_link = None, so_transport = Some t\<rparr>"

definition smtp_leg :: "mail_env \<Rightarrow> SendArgs \<Rightarrow> string \<Rightarrow> SendOutcome \<times> OutMail list" where
  "smtp_leg M a token = (case smtpConfig M of
      None \<Rightarrow> (not_sent a, [])
    | Some cfg \<Rightarrow> let m = out_mail M a token (smtp_from cfg) in (if me_smtp M cfg m then sent_by Smtp else not_sent a, [m]))"

definition resend_leg :: "mail_env \<Rightarrow> SendArgs \<Rightarrow> string \<Rightarrow> SendOutcome \<times> OutMail list" where
  "resend_leg M a token = (case resendConfig M of
      None \<Rightarrow> smtp_leg M a token
    | Some (apiKey, sender) \<Rightarrow>
        let m = out_mail M a token sender in
        (case me_resend M apiKey m of
           ResendData (Some mid) \<Rightarrow> if mid \<noteq> [] then (sent_by Resend, [m])
              else let (out, ms) = smtp_leg M a token in (out, m # ms)
         | _ \<Rightarrow> let (out, ms) = smtp_leg M a token in (out, m # ms)))"

definition sendCompliant :: "mail_env \<Rightarrow> SendArgs \<Rightarrow> (db, SendOutcome \<times> OutMail list) act" where
  "sendCompliant M a = (let to = js_lower (js_trim (sa_to a)) in
     act_bind (isSuppressed to) (\<lambda>suppressed.
     if suppressed then act_return (\<lparr>so_sent = False, so_suppressed = Some True, so_link = None, so_transport = None\<rparr>, [])
     else act_bind (act_lift (unsubscribeToken (me_crypto M) to)) (\<lambda>token.
     act_return (resend_leg M a token))))"

record InviteEmail =
  ie_to :: string
  ie_workspaceName :: string
  ie_inviterName :: string
  ie_role :: string
  ie_link :: string

definition expiry_note :: string where
  "expiry_note = ''This link expires in 7 days. If you weren'' @ [CHR 0x27] @ ''t expecting this, you can ignore it.''"

definition invite_text :: "InviteEmail \<Rightarrow> string" where
  "invite_text m = js_join newline [
     ie_inviterName m @ '' invited you to join '' @ ie_workspaceName m @ '' on citrate-comms as '' @ ie_role m @ ''.'',
     [], ''Accept your invite:'', ie_link m, [], expiry_note]"

definition invite_html :: "InviteEmail \<Rightarrow> string" where
  "invite_html m =
     ''<p style=\"font-size:14px\"><strong>'' @ escapeHtml (ie_inviterName m) @ ''</strong> invited you to join ''
     @ ''<strong>'' @ escapeHtml (ie_workspaceName m) @ ''</strong> on citrate-comms as <strong>'' @ escapeHtml (ie_role m) @ ''</strong>.</p>''
     @ ''<p style=\"margin:20px 0\"><a href=\"'' @ escapeHtml (ie_link m) @ ''\" ''
     @ ''style=\"display:inline-block;background:#8ecc09;color:#0e0f0c;padding:12px 20px;border-radius:8px;''
     @ ''text-decoration:none;font-weight:600\">Accept invite</a></p>''
     @ ''<p style=\"font-size:13px;color:#84867f\">'' @ expiry_note @ ''</p>''"

definition sendInviteEmail :: "mail_env \<Rightarrow> InviteEmail \<Rightarrow> (db, SendOutcome \<times> OutMail list) act" where
  "sendInviteEmail M m = sendCompliant M \<lparr>sa_to = ie_to m, sa_subject = ''Join '' @ ie_workspaceName m @ '' on citrate-comms'',
     sa_text = invite_text m, sa_htmlBody = invite_html m, sa_primaryLink = Some (ie_link m)\<rparr>"

definition cal_verb :: "string \<Rightarrow> string" where
  "cal_verb k = (if k = ''invite'' then ''invited you to'' else if k = ''update'' then ''updated'' else if k = ''cancel'' then ''cancelled''
     else if k = ''reminder'' then ''Reminder:'' else ''assigned you a deadline:'')"

definition raci_word :: "string \<Rightarrow> string" where
  "raci_word r = (if r = ''R'' then ''Responsible'' else if r = ''A'' then ''Accountable'' else if r = ''C'' then ''Consulted'' else ''Informed'')"

definition mail_lead :: "mail \<Rightarrow> string" where
  "mail_lead m =
     (if ml_kind m = ''reminder'' then ''Reminder '' @ em_dash @ '' '' @ ml_title m
      else if ml_kind m = ''cancel'' then ml_organizer m @ '' cancelled '' @ ldquo @ ml_title m @ rdquo
      else if ml_kind m = ''deadline'' then ml_organizer m @ '' assigned you a deadline: '' @ ml_title m
      else ml_organizer m @ '' '' @ cal_verb (ml_kind m) @ '' '' @ ldquo @ ml_title m @ rdquo)"

definition role_tag :: "string \<Rightarrow> string" where
  "role_tag r = raci_word r @ '' ('' @ r @ '')''"

definition line_if :: "string option \<Rightarrow> (string \<Rightarrow> string) \<Rightarrow> string" where
  "line_if v f = (case v of Some x \<Rightarrow> if x = [] then [] else f x | None \<Rightarrow> [])"

definition calendar_text :: "mail \<Rightarrow> string" where
  "calendar_text m = js_join newline (filter (\<lambda>l. l \<noteq> []) [
     mail_lead m, [], ''When: '' @ ml_when m, line_if (ml_location m) (\<lambda>x. ''Where: '' @ x),
     line_if (ml_raci m) (\<lambda>r. ''Your role: '' @ role_tag r), line_if (ml_notes m) (\<lambda>x. newline @ x), [],
     ''Open in '' @ ml_workspace m @ '': '' @ ml_link m])"

definition mail_accent :: "mail \<Rightarrow> string" where
  "mail_accent m = (if ml_kind m = ''deadline'' \<or> ml_kind m = ''cancel'' then ''#c2410c'' else ''#5a8205'')"

definition calendar_html :: "mail \<Rightarrow> string" where
  "calendar_html m =
     ''<p style=\"font-size:15px;font-weight:600;color:#1f221d\">'' @ escapeHtml (mail_lead m) @ ''</p>''
     @ ''<table style=\"font-size:14px;color:#1f221d;border-collapse:collapse\">''
     @ ''<tr><td style=\"padding:2px 12px 2px 0;color:#84867f\">When</td><td style=\"padding:2px 0\"><strong>'' @ escapeHtml (ml_when m) @ ''</strong></td></tr>''
     @ line_if (ml_location m) (\<lambda>x. ''<tr><td style=\"padding:2px 12px 2px 0;color:#84867f\">Where</td><td style=\"padding:2px 0\">'' @ escapeHtml x @ ''</td></tr>'')
     @ line_if (ml_raci m) (\<lambda>r. ''<tr><td style=\"padding:2px 12px 2px 0;color:#84867f\">Your role</td><td style=\"padding:2px 0\"><strong style=\"color:''
          @ mail_accent m @ ''\">'' @ role_tag r @ ''</strong></td></tr>'')
     @ ''</table>''
     @ line_if (ml_notes m) (\<lambda>x. ''<p style=\"font-size:13px;color:#4a4d46;margin-top:12px;white-space:pre-wrap\">'' @ escapeHtml x @ ''</p>'')
     @ ''<p style=\"margin:20px 0\"><a href=\"'' @ escapeHtml (ml_link m) @ ''\" ''
     @ ''style=\"display:inline-block;background:'' @ mail_accent m @ '';color:#fff;padding:12px 20px;border-radius:8px;''
     @ ''text-decoration:none;font-weight:600\">Open calendar</a></p>''"

definition sendCalendarEmail :: "mail_env \<Rightarrow> mail \<Rightarrow> (db, SendOutcome \<times> OutMail list) act" where
  "sendCalendarEmail M m = (let prefix = (if ml_kind m = ''cancel'' then ''Cancelled: '' else if ml_kind m = ''reminder'' then ''Reminder: ''
        else if ml_kind m = ''deadline'' then ''Deadline: '' else [])
     in sendCompliant M \<lparr>sa_to = ml_to m, sa_subject = prefix @ ml_title m @ '' '' @ em_dash @ '' '' @ ml_workspace m,
          sa_text = calendar_text m, sa_htmlBody = calendar_html m, sa_primaryLink = Some (ml_link m)\<rparr>)"

subsection \<open>Unsubscribing\<close>

text \<open>\<^verbatim>\<open>tokenFrom\<close>: \<open>u\<close> is the query parameter, \<open>body\<close> the parsed JSON body (\<open>None\<close> when it does not parse). A token that is not a
  string makes \<^verbatim>\<open>verifyUnsubscribeToken\<close> throw on \<^verbatim>\<open>token.split\<close>.\<close>

definition tokenFrom :: "string option \<Rightarrow> json option \<Rightarrow> err + string option" where
  "tokenFrom u body = (if truthy u then Inr u else (case body of
      Some (JObj kvs) \<Rightarrow> (case map_of kvs ''token'' of
          None \<Rightarrow> Inr None | Some JNull \<Rightarrow> Inr None | Some (JBool False) \<Rightarrow> Inr None | Some (JStr t) \<Rightarrow> Inr (Some t)
        | Some (JNum n) \<Rightarrow> if n = 0 then Inr None else Inl (JsError ''token.split is not a function'')
        | Some _ \<Rightarrow> Inl (JsError ''token.split is not a function''))
    | _ \<Rightarrow> Inr None))"

definition doUnsubscribe :: "crypto_env \<Rightarrow> ms \<Rightarrow> string option \<Rightarrow> (db, string option) act" where
  "doUnsubscribe E now token = (case token of
      None \<Rightarrow> act_return None
    | Some t \<Rightarrow> if t = [] then act_return None
        else act_bind (act_lift (verifyUnsubscribeToken E t)) (\<lambda>found. case found of
          None \<Rightarrow> act_return None
        | Some e \<Rightarrow> if e = [] then act_return None
            else act_bind (suppress now e ''unsubscribe-link'') (\<lambda>_. act_return (Some e))))"

definition unsubscribe_POST :: "crypto_env \<Rightarrow> ms \<Rightarrow> string option \<Rightarrow> json option \<Rightarrow> (db, string response) act" where
  "unsubscribe_POST E now u body = act_bind (act_lift (tokenFrom u body)) (\<lambda>token.
     act_bind (doUnsubscribe E now token) (\<lambda>found. case found of
       None \<Rightarrow> act_return (Failure 400 ''invalid_token'')
     | Some e \<Rightarrow> act_return (Reply 200 e)))"

text \<open>The \<^verbatim>\<open>GET\<close> handler only redirects.\<close>

definition unsubscribe_GET :: "string \<Rightarrow> string option \<Rightarrow> (db, string response) act" where
  "unsubscribe_GET url_origin u = act_return (Reply 303 (if truthy u
     then url_origin @ ''/unsubscribe?u='' @ encodeURIComponent (the u) else url_origin @ ''/unsubscribe?error=1''))"

subsection \<open>Escaping\<close>

text \<open>A decoder for the five entities, against which the escaping is judged.\<close>

fun unescapeHtml :: "string \<Rightarrow> string" where
  "unescapeHtml [] = []"
| "unescapeHtml (c # t) =
     (if starts_with ''&amp;'' (c # t) then CHR ''&'' # unescapeHtml (drop 4 t)
      else if starts_with ''&lt;'' (c # t) then CHR ''<'' # unescapeHtml (drop 3 t)
      else if starts_with ''&gt;'' (c # t) then CHR ''>'' # unescapeHtml (drop 3 t)
      else if starts_with ''&quot;'' (c # t) then CHR 0x22 # unescapeHtml (drop 5 t)
      else if starts_with ''&#39;'' (c # t) then CHR 0x27 # unescapeHtml (drop 4 t)
      else c # unescapeHtml t)"

lemma escapeHtml_simps [simp]:
  "escapeHtml [] = []" "escapeHtml (c # s) = html_entity c @ escapeHtml s" "escapeHtml (s @ t) = escapeHtml s @ escapeHtml t"
  by (simp_all add: escapeHtml_def)

lemma unescape_entity: "unescapeHtml (html_entity c @ rest) = c # unescapeHtml rest"
  by (auto simp: html_entity_def starts_with_def)

lemma unescape_escape: "unescapeHtml (escapeHtml s) = s"
  by (induction s) (simp_all add: unescape_entity)

definition markup :: "string \<Rightarrow> string" where
  "markup s = filter (\<lambda>c. c \<in> {CHR ''<'', CHR ''>'', CHR 0x22, CHR 0x27}) s"

lemma markup_append: "markup (s @ t) = markup s @ markup t"
  by (simp add: markup_def)

lemma markup_escape: "markup (escapeHtml s) = []"
  by (induction s) (auto simp: markup_append markup_def html_entity_def)

text \<open>Names in an invitation mail cannot inject markup: whatever the inviter, the workspace, the role and the link are, the HTML body has
  the same angle brackets and quotes in the same order (so the same tags and attributes), and the escaped values decode to the originals.\<close>

theorem invite_mail_markup_fixed:
  "markup (invite_html m) = markup (invite_html m') \<and> unescapeHtml (escapeHtml (ie_inviterName m)) = ie_inviterName m"
  by (simp add: invite_html_def markup_append markup_escape unescape_escape del: append.simps)

subsection \<open>Unsubscribing stops every mail\<close>

datatype mail_cmd = SendCmd mail_env SendArgs | UnsubCmd crypto_env ms "string option" "json option"

fun mail_step :: "mail_cmd \<Rightarrow> db \<Rightarrow> OutMail list \<times> db" where
  "mail_step (SendCmd M a) s = (case sendCompliant M a s of (Inr (out, ms), s') \<Rightarrow> (ms, s') | (Inl e, s') \<Rightarrow> ([], s'))"
| "mail_step (UnsubCmd E now u body) s = ([], snd (unsubscribe_POST E now u body s))"

primrec mailed :: "mail_cmd list \<Rightarrow> db \<Rightarrow> OutMail list" where
  "mailed [] s = []"
| "mailed (c # cs) s = fst (mail_step c s) @ mailed cs (snd (mail_step c s))"

definition suppressed :: "db \<Rightarrow> string \<Rightarrow> bool" where
  "suppressed s e \<longleftrightarrow> (\<exists>r\<in>set (emailSuppression s). es_email r = e)"

lemma isSuppressed_run: "isSuppressed e s = (Inr (suppressed s (js_lower (js_trim e))), s)"
  by (simp add: isSuppressed_def suppressed_def act_get_def Let_def)

lemma norm_idem: "js_lower (js_trim (js_lower (js_trim e))) = js_lower (js_trim e)"
  by (simp add: js_trim_lower)

lemma smtp_leg_to: "m \<in> set (snd (smtp_leg M a t)) \<Longrightarrow> \<exists>sender. m = out_mail M a t sender"
  by (auto simp: smtp_leg_def Let_def split: option.splits)

lemma resend_leg_to: "m \<in> set (snd (resend_leg M a t)) \<Longrightarrow> \<exists>sender. m = out_mail M a t sender"
  using smtp_leg_to [of m M a t]
  by (auto simp: resend_leg_def Let_def split: option.splits prod.splits resend_reply.splits if_splits)

lemma sendCompliant_run:
  "sendCompliant M a s = (if suppressed s (js_lower (js_trim (sa_to a)))
     then (Inr (\<lparr>so_sent = False, so_suppressed = Some True, so_link = None, so_transport = None\<rparr>, []), s)
     else case unsubscribeToken (me_crypto M) (js_lower (js_trim (sa_to a))) of
       Inl e \<Rightarrow> (Inl e, s) | Inr t \<Rightarrow> (Inr (resend_leg M a t), s))"
  by (simp add: sendCompliant_def isSuppressed_run norm_idem act_defs Let_def split: sum.split)

lemma send_only_unsuppressed:
  assumes "sendCompliant M a s = (Inr (out, ms), s')" and "m \<in> set ms"
  shows "s' = s \<and> \<not> suppressed s (om_to m) \<and> om_to m = js_lower (js_trim (sa_to a))
     \<and> (\<exists>t sender. unsubscribeToken (me_crypto M) (om_to m) = Inr t \<and> m = out_mail M a t sender)"
proof -
  obtain t where t: "unsubscribeToken (me_crypto M) (js_lower (js_trim (sa_to a))) = Inr t" "resend_leg M a t = (out, ms)" "s' = s"
    "\<not> suppressed s (js_lower (js_trim (sa_to a)))"
    using assms by (auto simp: sendCompliant_run split: if_splits sum.splits)
  obtain sender where m: "m = out_mail M a t sender" using resend_leg_to [of m M a t] t(2) assms(2) by auto
  then have "om_to m = js_lower (js_trim (sa_to a))" by (simp add: out_mail_def)
  with t m show ?thesis by auto
qed

lemma suppressed_suppress: "suppressed (snd (suppress now e r s)) x \<longleftrightarrow> suppressed s x \<or> x = js_lower (js_trim e)"
  by (auto simp: suppress_def suppressed_def Let_def act_defs tbl_insert_def)

lemma suppress_Inr: "fst (suppress now e r s) = Inr ()"
  by (simp add: suppress_def Let_def act_defs tbl_insert_def)

lemma doUnsubscribe_mono: "suppressed s x \<Longrightarrow> suppressed (snd (doUnsubscribe E now t s)) x"
  using suppressed_suppress [of now _ _ s x] suppress_Inr [of now _ _ s]
  by (auto simp: doUnsubscribe_def act_defs split: option.splits sum.splits prod.splits) (metis snd_conv)+

lemma unsubscribe_mono: "suppressed s x \<Longrightarrow> suppressed (snd (unsubscribe_POST E now u body s)) x"
  using doUnsubscribe_mono [of s x E now]
  by (auto simp: unsubscribe_POST_def act_defs split: option.splits sum.splits prod.splits) (metis snd_conv)+

lemma mail_step_suppressed: "suppressed s x \<Longrightarrow> suppressed (snd (mail_step c s)) x \<and> x \<notin> om_to ` set (fst (mail_step c s))"
proof (cases c)
  case (SendCmd M a)
  assume "suppressed s x"
  with SendCmd show ?thesis using send_only_unsuppressed [of M a s]
    by (auto split: prod.splits sum.splits simp: sendCompliant_run split: if_splits)
qed (simp add: unsubscribe_mono)

lemma mailed_suppressed: "suppressed s x \<Longrightarrow> x \<notin> om_to ` set (mailed cs s)"
  by (induction cs arbitrary: s) (auto dest: mail_step_suppressed)

lemma b64_char_ascii: "n < 64 \<Longrightarrow> (of_char (b64_char n) :: nat) < 128"
  by (auto simp: b64_char_def)

lemma b64_encode_alphabet: "c \<in> set (b64_encode x) \<Longrightarrow> c = CHR ''='' \<or> (\<exists>d<64. c = b64_char d)"
  using b64_digits_bound [OF of_char_bytes, of x] by (auto simp: b64_encode_def b64_pad_def split: if_splits)

lemma b64url_ascii: "c \<in> set (b64url x) \<Longrightarrow> (of_char c :: nat) < 128"
proof -
  assume "c \<in> set (b64url x)"
  then have "c \<in> set (replace_char (CHR ''/'') (CHR ''_'') (replace_char (CHR ''+'') (CHR ''-'') (b64_encode x)))"
    using set_strip_trailing by (auto simp: b64url_def)
  then have "c = CHR ''_'' \<or> c = CHR ''-'' \<or> c \<in> set (b64_encode x)" by (auto simp: replace_char_def split: if_splits)
  then show ?thesis using b64_encode_alphabet [of c x] b64_char_ascii by auto
qed

lemma token_ascii: "unsubscribeToken E e = Inr t \<Longrightarrow> c \<in> set t \<Longrightarrow> (of_char c :: nat) < 128"
  using b64url_ascii by (auto simp: unsubscribeToken_def Let_def split: sum.splits)

text \<open>C26. An unsubscribe is honoured for good. Every mail the system hands to a transport carries, in its \<^verbatim>\<open>List-Unsubscribe\<close> header, a link
  whose token, posted back at any later time, answers 200 for the address the mail went to; and from then on no run of sends and
  unsubscribes hands over another mail to that address, whatever its spelling (case and surrounding blanks).\<close>

theorem unsubscribe_stops_mail:
  assumes key: "provisioned (me_crypto M)" "\<And>k x. hmac_sha256 (me_crypto M) k x \<noteq> []" and addr: "js_trim (sa_to a) \<noteq> []"
    and sent: "sendCompliant M a s = (Inr (out, ms), s')" "m \<in> set ms"
  shows "\<exists>token. (''List-Unsubscribe'', ''<mailto:larry@citrate.ai?subject=unsubscribe>, <'' @ unsubPost M token @ ''>'') \<in> set (om_headers m)
     \<and> (\<forall>now body t. \<exists>t'. unsubscribe_POST (me_crypto M) now (decodeURIComponent (encodeURIComponent token)) body t = (Inr (Reply 200 (om_to m)), t')
          \<and> (\<forall>cmds. om_to m \<notin> om_to ` set (mailed cmds t')))"
proof -
  obtain token sender where tok: "unsubscribeToken (me_crypto M) (om_to m) = Inr token" and m: "m = out_mail M a token sender"
    and to: "om_to m = js_lower (js_trim (sa_to a))"
    using send_only_unsuppressed [OF sent] by auto
  have ne: "js_trim (om_to m) \<noteq> []" unfolding to js_trim_lower js_trim_idem using addr by (simp add: js_lower_def)
  have same: "js_lower (js_trim (om_to m)) = om_to m" by (simp add: to norm_idem)
  have ver: "verifyUnsubscribeToken (me_crypto M) token = Inr (Some (om_to m))"
    using verify_unsubscribe [OF key(1) ne key(2)] tok same by auto
  have tok_ne: "token \<noteq> []" using ver by (auto simp: verifyUnsubscribeToken_def)
  have dec: "decodeURIComponent (encodeURIComponent token) = Some token"
    by (rule decode_encode_uri) (rule token_ascii [OF tok])
  have "\<exists>t'. unsubscribe_POST (me_crypto M) now (Some token) body t = (Inr (Reply 200 (om_to m)), t') \<and> suppressed t' (om_to m)" for now body t
  proof -
    obtain t' where t': "suppress now (om_to m) ''unsubscribe-link'' t = (Inr (), t')"
      using suppress_Inr [of now "om_to m" "''unsubscribe-link''" t] by (metis prod.collapse)
    moreover have "suppressed t' (om_to m)" using suppressed_suppress [of now "om_to m" "''unsubscribe-link''" t] t' same by simp
    ultimately show ?thesis using tok_ne ver ne
      by (auto simp: unsubscribe_POST_def tokenFrom_def truthy_def doUnsubscribe_def act_defs js_trim_def)
  qed
  then show ?thesis using m dec mailed_suppressed
    by (auto simp: out_mail_def listUnsubHeaders_def intro!: exI [of _ token]) metis
qed

definition demo_mail :: mail_env where
  "demo_mail = \<lparr>me_env = [''RESEND_API_KEY'' \<mapsto> ''key''], me_crypto = demo_env, me_number = (\<lambda>_. None),
     me_resend = (\<lambda>_ _. ResendData (Some ''m1'')), me_smtp = (\<lambda>_ _. False)\<rparr>"

definition demo_send_args :: SendArgs where
  "demo_send_args = \<lparr>sa_to = '' Bob@x.io'', sa_subject = ''Hi'', sa_text = ''Hello'', sa_htmlBody = ''Hello'', sa_primaryLink = None\<rparr>"

lemma demo_resend: "resend_leg demo_mail demo_send_args t =
   (sent_by Resend, [out_mail demo_mail demo_send_args t ''Citrate Comms <onboarding@resend.dev>''])"
  by (simp add: resend_leg_def resendConfig_def fromHeader_def non_blank_def demo_mail_def js_trim_def js_space_def Let_def)

theorem unsubscribe_stops_mail_witness:
  "\<exists>(m :: OutMail) token. om_to m = ''bob@x.io''
     \<and> (''List-Unsubscribe'', ''<mailto:larry@citrate.ai?subject=unsubscribe>, <'' @ unsubPost demo_mail token @ ''>'') \<in> set (om_headers m)
     \<and> (\<forall>now body t. \<exists>t'. unsubscribe_POST demo_env now (decodeURIComponent (encodeURIComponent token)) body t = (Inr (Reply 200 (om_to m)), t')
          \<and> (\<forall>cmds. om_to m \<notin> om_to ` set (mailed cmds t')))"
proof -
  let ?a = demo_send_args
  have env: "me_crypto demo_mail = demo_env" by (simp add: demo_mail_def)
  have to: "js_lower (js_trim (sa_to ?a)) = ''bob@x.io''" by (simp add: demo_send_args_def) code_simp
  obtain t where t: "unsubscribeToken demo_env ''bob@x.io'' = Inr t"
    using derive_provisioned [OF provisioned_demo, of "''unsubscribe''" "''comms-unsub-v1''"] by (auto simp: unsubscribeToken_def unsubKey_def Let_def)
  let ?m = "out_mail demo_mail ?a t ''Citrate Comms <onboarding@resend.dev>''"
  have run: "sendCompliant demo_mail ?a empty_db = (Inr (sent_by Resend, [?m]), empty_db)"
    unfolding sendCompliant_run to by (simp add: suppressed_def empty_db_def env t demo_resend)
  have to': "om_to ?m = ''bob@x.io''" by (simp only: out_mail_def to OutMail.select_convs)
  have "provisioned (me_crypto demo_mail)" "js_trim (sa_to ?a) \<noteq> []" "?m \<in> set [?m]" "\<And>k x. hmac_sha256 (me_crypto demo_mail) k x \<noteq> []"
    using provisioned_demo to by (auto simp: env demo_env_def js_lower_def)
  note stops = unsubscribe_stops_mail [OF this(1) this(4) this(2) run this(3), unfolded env]
  show ?thesis by (rule exI [of _ ?m], rule exE [OF stops], rule exI, rule conjI, rule to', assumption)
qed

end
