(* ===== verification/Routes_Comms.thy ===== *)
theory Routes_Comms
  imports Documents Email Requests
begin

text \<open>
  The route handlers under \<^verbatim>\<open>app/api\<close> for workspaces, members, invitations, channels, messages, the ledger, approvals and documents:
  each is the whole handler, guard first, with its early returns as \<open>Failure\<close> values and its \<^verbatim>\<open>catch\<close> as \<open>route\<close>. \<open>app_env\<close> gathers the
  environments of the components the handlers call.
\<close>

record app_env =
  ax_api :: api_env
  ax_mail :: mail_env
  ax_doc :: doc_env
  ax_approval :: approval_env
  ax_cal :: cal_env
  ax_crm :: crm_env
  ax_blake3 :: "string \<Rightarrow> string"
  ax_rank :: "string \<Rightarrow> int"

abbreviation ax_web :: "app_env \<Rightarrow> web_env" where
  "ax_web X \<equiv> av_web (ax_api X)"

abbreviation ax_crypto :: "app_env \<Rightarrow> crypto_env" where
  "ax_crypto X \<equiv> av_crypto (ax_api X)"

definition cap_guard :: "app_env \<Rightarrow> call \<Rightarrow> uuid \<Rightarrow> Capability \<Rightarrow> (db, MemberCtx) act" where
  "cap_guard X c w cap = requireCapability (ax_web X) (cl_req c) w cap"

definition member_guard :: "app_env \<Rightarrow> call \<Rightarrow> uuid \<Rightarrow> (db, MemberCtx) act" where
  "member_guard X c w = requireMember (ax_web X) (cl_req c) w"

definition channel_guard :: "app_env \<Rightarrow> call \<Rightarrow> uuid \<Rightarrow> Capability \<Rightarrow> (db, MemberCtx) act" where
  "channel_guard X c ch cap = requireChannel (ax_web X) (cl_req c) ch cap channelWorkspace isChannelMember"

text \<open>A handler without \<^verbatim>\<open>try\<close>: what it throws becomes the framework's plain 500.\<close>

definition unhandled :: "(db, 'a response) act \<Rightarrow> db \<Rightarrow> 'a response \<times> db" where
  "unhandled m s = (case m s of (Inr r, s') \<Rightarrow> (r, s') | (Inl _, s') \<Rightarrow> (Failure 500 [], s'))"

text \<open>The cast \<^verbatim>\<open>parsed.data.role as Role\<close>; the schemas admit only names of roles.\<close>

definition role_of :: "string \<Rightarrow> Role" where
  "role_of n = (case first_where (\<lambda>r. role_name r = n) [Owner, Admin, Member, Partner, Guest, Agent] of Some r \<Rightarrow> r | None \<Rightarrow> Guest)"

text \<open>\<^verbatim>\<open>x ? new Date(x) : null\<close>; an invalid date throws when it is written.\<close>

definition with_date :: "app_env \<Rightarrow> string option \<Rightarrow> (ms option \<Rightarrow> (db, 'a) act) \<Rightarrow> (db, 'a) act" where
  "with_date X v k = (if truthy v then (case av_date (ax_api X) (the v) of Some t \<Rightarrow> k (Some t) | None \<Rightarrow> act_throw (JsError ''Invalid time value''))
     else k None)"

subsection \<open>Workspaces\<close>

definition workspaces_GET :: "app_env \<Rightarrow> call \<Rightarrow> db \<Rightarrow> WorkspaceSummary list response \<times> db" where
  "workspaces_GET X c = unhandled (let u = sessionOwner (verifySession (auth (ax_web X)) (cl_req c)) in
     if \<not> truthy u then act_return (Failure 401 ''unauthenticated'')
     else act_bind (workspacesForUser (the u)) (\<lambda>ws. act_return (Reply 200 ws)))"

definition workspaces_POST :: "app_env \<Rightarrow> call \<Rightarrow> db \<Rightarrow> WorkspaceSummary response \<times> db" where
  "workspaces_POST X c = unhandled (let session = verifySession (auth (ax_web X)) (cl_req c); u = sessionOwner session in
     if \<not> truthy u then act_return (Failure 401 ''unauthenticated'')
     else with_limit (ax_api X) ''create-ws:'' (the u) []
       (case cl_body c of
          None \<Rightarrow> act_return (Failure 400 ''bad_json'')
        | Some body \<Rightarrow> (case av_safeParse (ax_api X) createWorkspaceSchema body of
            None \<Rightarrow> act_return (Failure 400 ''invalid'')
          | Some d \<Rightarrow> act_bind (createWorkspace (ax_crypto X) (cl_now c) (cl_id c 0) \<lparr>cw_name = d_str d ''name'', cw_ownerSub = the u,
                cw_ownerWallet = walletAddress session, cw_ownerEmail = email session, cw_ownerDisplayName = None\<rparr>) (\<lambda>ws. act_return (Reply 201 ws)))))"

definition join_schema :: zod where
  "join_schema = ZObject [(''token'', ZString [ZMin 10, ZMax 200])]"

definition join_POST :: "app_env \<Rightarrow> call \<Rightarrow> db \<Rightarrow> (string option \<times> bool) response \<times> db" where
  "join_POST X c = route (let session = verifySession (auth (ax_web X)) (cl_req c) in
     if \<not> (authenticated session \<and> truthy (sub session)) then act_return (Failure 401 ''unauthenticated'')
     else with_parsed (ax_api X) c join_schema (\<lambda>d.
       with_limit (ax_api X) ''join:'' (the (sub session)) []
         (act_bind (acceptInvite (ax_crypto X) (cl_now c) \<lparr>aa_token = d_str d ''token'', aa_sub = the (sub session), aa_sessionEmail = email session,
             aa_walletAddress = walletAddress session, aa_displayName = None, aa_kycStatus = None\<rparr>) (\<lambda>result. case result of
            Invalid \<Rightarrow> act_return (Failure 400 ''invalid'')
          | Accepted w already \<Rightarrow> act_bind (act_get (\<lambda>s. map_option ws_slug (first_where (\<lambda>x. ws_id x = w) (workspaces s)))) (\<lambda>slug.
              act_return (Reply 200 (slug, already)))))))"

subsection \<open>Members and invitations\<close>

definition members_GET :: "app_env \<Rightarrow> call \<Rightarrow> uuid \<Rightarrow> db \<Rightarrow> MemberRow list response \<times> db" where
  "members_GET X c w = route (act_bind (cap_guard X c w ReadChannel) (\<lambda>_. act_bind (roster w) (\<lambda>ms. act_return (Reply 200 ms))))"

definition changeRoleSchema :: zod where
  "changeRoleSchema = ZObject [(''sub'', ZString [ZMin 1]), (''role'', ZEnum grantable_roles)]"

definition members_PATCH :: "app_env \<Rightarrow> call \<Rightarrow> uuid \<Rightarrow> db \<Rightarrow> unit response \<times> db" where
  "members_PATCH X c w = route (act_bind (cap_guard X c w AssignRole) (\<lambda>ctx.
     with_parsed (ax_api X) c changeRoleSchema (\<lambda>d.
     act_bind (memberRow w (d_str d ''sub'')) (\<lambda>target. case target of
       None \<Rightarrow> act_return (Failure 404 ''not_found'')
     | Some m \<Rightarrow>
        if mw_role m = Owner then act_return (Failure 403 ''cannot_change_owner'')
        else (let newRole = role_of (d_str d ''role'') in
          if \<not> canGrant (ctx_role ctx) (mw_role m) \<or> \<not> canGrant (ctx_role ctx) newRole then act_return (Failure 403 ''forbidden_role_change'')
          else act_bind (changeRole (ax_crypto X) (cl_now c) w (d_str d ''sub'') newRole (ctx_sub ctx)) (\<lambda>_. act_return (Reply 200 ())))))))"

definition offboardSchema :: zod where
  "offboardSchema = ZObject [(''sub'', ZString [ZMin 1])]"

definition members_DELETE :: "app_env \<Rightarrow> call \<Rightarrow> uuid \<Rightarrow> db \<Rightarrow> unit response \<times> db" where
  "members_DELETE X c w = route (act_bind (cap_guard X c w RemoveMember) (\<lambda>ctx.
     with_parsed (ax_api X) c offboardSchema (\<lambda>d.
     if d_str d ''sub'' = ctx_sub ctx then act_return (Failure 403 ''cannot_offboard_self'')
     else act_bind (memberRow w (d_str d ''sub'')) (\<lambda>target. case target of
       None \<Rightarrow> act_return (Failure 404 ''not_found'')
     | Some m \<Rightarrow>
        if mw_role m = Owner then act_return (Failure 403 ''cannot_offboard_owner'')
        else if \<not> canGrant (ctx_role ctx) (mw_role m) then act_return (Failure 403 ''forbidden'')
        else act_bind (offboard (ax_crypto X) (cl_now c) w (d_str d ''sub'') (ctx_sub ctx)) (\<lambda>_. act_return (Reply 200 ()))))))"

definition invites_GET :: "app_env \<Rightarrow> call \<Rightarrow> uuid \<Rightarrow> db \<Rightarrow> (string \<times> Role \<times> ms) list response \<times> db" where
  "invites_GET X c w = route (act_bind (cap_guard X c w AddMember) (\<lambda>_.
     act_bind (listPendingInvites (cl_now c) w) (\<lambda>is. act_return (Reply 200 is))))"

record InviteReply =
  ir_invited :: string
  ir_role :: Role
  ir_emailSent :: bool
  ir_suppressed :: bool
  ir_link :: "string option"

definition inviter_name :: "uuid \<Rightarrow> string \<Rightarrow> (db, string) act" where
  "inviter_name w u = act_bind (memberRow w u) (\<lambda>m. act_return (case m of Some r \<Rightarrow> mw_displayName r | None \<Rightarrow> ''A teammate''))"

definition workspace_name :: "uuid \<Rightarrow> (db, string) act" where
  "workspace_name w = act_get (\<lambda>s. case first_where (\<lambda>x. ws_id x = w) (workspaces s) of Some x \<Rightarrow> ws_name x | None \<Rightarrow> ''your workspace'')"

definition bad_scope :: "uuid \<Rightarrow> json \<Rightarrow> string \<Rightarrow> (db, bool) act" where
  "bad_scope w d u = (if truthy (d_opt d ''scopeChannelId'')
     then act_bind (scopeChannelAllowed w (d_str d ''scopeChannelId'') u) (\<lambda>ok. act_return (\<not> ok)) else act_return False)"

definition invite_args :: "uuid \<Rightarrow> json \<Rightarrow> string \<Rightarrow> string \<Rightarrow> InviteArgs" where
  "invite_args w d addr u = \<lparr>ia_workspaceId = w, ia_email = addr, ia_role = role_of (d_str d ''role''), ia_invitedBySub = u,
     ia_scopeChannelId = d_opt d ''scopeChannelId''\<rparr>"

definition invites_POST :: "app_env \<Rightarrow> call \<Rightarrow> uuid \<Rightarrow> db \<Rightarrow> (InviteReply \<times> OutMail list) response \<times> db" where
  "invites_POST X c w = route (act_bind (cap_guard X c w AddMember) (\<lambda>ctx.
     with_limit (ax_api X) ''invite:'' (ctx_sub ctx) []
      (with_parsed (ax_api X) c inviteSchema (\<lambda>d.
       if d_str d ''workspaceId'' \<noteq> w then act_return (Failure 400 ''workspace_mismatch'')
       else act_bind (bad_scope w d (ctx_sub ctx)) (\<lambda>bad.
       if bad then act_return (Failure 400 ''bad_scope_channel'')
       else if \<not> canGrant (ctx_role ctx) (role_of (d_str d ''role'')) then act_return (Failure 403 ''forbidden_role'')
       else act_bind (createInvite (ax_crypto X) (cl_now c) (cl_random c 0) (invite_args w d (d_str d ''email'') (ctx_sub ctx))) (\<lambda>invite.
       let link = cl_origin c @ ''/join/'' @ ci_token invite in
       act_bind (inviter_name w (ctx_sub ctx)) (\<lambda>inviter.
       act_bind (workspace_name w) (\<lambda>name.
       act_bind (sendInviteEmail (ax_mail X) \<lparr>ie_to = ci_email invite, ie_workspaceName = name, ie_inviterName = inviter,
          ie_role = role_name (ci_role invite), ie_link = link\<rparr>) (\<lambda>(result, mails).
       act_return (Reply 201 (\<lparr>ir_invited = ci_email invite, ir_role = ci_role invite, ir_emailSent = so_sent result,
          ir_suppressed = or_default (so_suppressed result) False, ir_link = (if so_sent result then None else Some link)\<rparr>, mails)))))))))))"

record BatchResult =
  br_email :: string
  br_emailSent :: bool
  br_suppressed :: bool
  br_link :: "string option"

fun invite_each :: "app_env \<Rightarrow> call \<Rightarrow> uuid \<Rightarrow> json \<Rightarrow> string \<Rightarrow> string \<Rightarrow> string \<Rightarrow> nat \<Rightarrow> string list \<Rightarrow> (db, (BatchResult \<times> OutMail list) list) act" where
  "invite_each X c w d u inviter name i [] = act_return []"
| "invite_each X c w d u inviter name i (addr # es) =
     act_bind (act_try
       (act_bind (createInvite (ax_crypto X) (cl_now c) (cl_random c i) (invite_args w d addr u)) (\<lambda>invite.
        let link = cl_origin c @ ''/join/'' @ ci_token invite in
        act_bind (sendInviteEmail (ax_mail X) \<lparr>ie_to = addr, ie_workspaceName = name, ie_inviterName = inviter,
           ie_role = role_name (ci_role invite), ie_link = link\<rparr>) (\<lambda>(sent, mails).
        act_return (\<lparr>br_email = addr, br_emailSent = so_sent sent, br_suppressed = or_default (so_suppressed sent) False,
           br_link = (if so_sent sent then None else Some link)\<rparr>, mails))))
       (\<lambda>_. act_return (\<lparr>br_email = addr, br_emailSent = False, br_suppressed = False, br_link = None\<rparr>, []))) (\<lambda>r.
     act_bind (invite_each X c w d u inviter name (Suc i) es) (\<lambda>rs. act_return (r # rs)))"

definition invites_batch_POST :: "app_env \<Rightarrow> call \<Rightarrow> uuid \<Rightarrow> db \<Rightarrow> (BatchResult \<times> OutMail list) list response \<times> db" where
  "invites_batch_POST X c w = route (act_bind (cap_guard X c w AddMember) (\<lambda>ctx.
     with_parsed (ax_api X) c batchInviteSchema (\<lambda>d.
     if d_str d ''workspaceId'' \<noteq> w then act_return (Failure 400 ''workspace_mismatch'')
     else act_bind (bad_scope w d (ctx_sub ctx)) (\<lambda>bad.
     if bad then act_return (Failure 400 ''bad_scope_channel'')
     else if \<not> canGrant (ctx_role ctx) (role_of (d_str d ''role'')) then act_return (Failure 403 ''forbidden_role'')
     else with_limit (ax_api X) ''invite-batch:'' (ctx_sub ctx) []
       (let emails = filter (\<lambda>e. e \<noteq> []) (js_set (map (\<lambda>e. js_lower (js_trim e)) (or_default (d_strs d ''emails'') []))) in
        act_bind (inviter_name w (ctx_sub ctx)) (\<lambda>inviter.
        act_bind (workspace_name w) (\<lambda>name.
        act_bind (invite_each X c w d (ctx_sub ctx) inviter name 0 emails) (\<lambda>results. act_return (Reply 201 results)))))))))"

subsection \<open>Channels, messages, ledger\<close>

definition channels_POST :: "app_env \<Rightarrow> call \<Rightarrow> db \<Rightarrow> ChannelRow response \<times> db" where
  "channels_POST X c = route (with_parsed (ax_api X) c createChannelSchema (\<lambda>d.
     act_bind (cap_guard X c (d_str d ''workspaceId'') (if d_str d ''kind'' = ''dm'' then CreateDirectMessage else CreateChannel)) (\<lambda>ctx.
     with_limit (ax_api X) ''create-channel:'' (ctx_sub ctx) []
       (act_bind (createChannel (ax_crypto X) (cl_now c) (cl_id c 0) \<lparr>cc_workspaceId = d_str d ''workspaceId'', cc_kind = d_str d ''kind'',
           cc_name = d_str d ''name'', cc_topic = d_opt d ''topic'', cc_createdBySub = ctx_sub ctx,
           cc_memberSubs = or_default (d_strs d ''memberSubs'') []\<rparr>) (\<lambda>ch. act_return (Reply 201 ch))))))"

definition messages_GET :: "app_env \<Rightarrow> call \<Rightarrow> uuid \<Rightarrow> db \<Rightarrow> MessageRow list response \<times> db" where
  "messages_GET X c ch = route (act_bind (channel_guard X c ch ReadChannel) (\<lambda>ctx.
     let after = (case cl_query c ''after'' of Some a \<Rightarrow> if a = [] then None else av_strNumber (ax_api X) a | None \<Rightarrow> None) in
     act_bind (listMessages (ax_crypto X) (ctx_workspaceId ctx) ch \<lparr>lo_afterSeq = after, lo_limit = None\<rparr>) (\<lambda>ms. act_return (Reply 200 ms))))"

definition viewer_of :: "MemberCtx \<Rightarrow> DocViewer" where
  "viewer_of ctx = \<lparr>vi_sub = ctx_sub ctx, vi_internal = isInternalRole (ctx_role ctx), vi_agent = None\<rparr>"

definition bad_attachment :: "MemberCtx \<Rightarrow> uuid list \<Rightarrow> (db, bool) act" where
  "bad_attachment ctx ids = (if ids = [] then act_return False
     else act_bind (visibleDocumentIds (ctx_workspaceId ctx) ids (viewer_of ctx)) (\<lambda>ok. act_return (\<exists>a\<in>set ids. a \<notin> ok)))"

definition send_input :: "MemberCtx \<Rightarrow> uuid \<Rightarrow> json \<Rightarrow> SendInput" where
  "send_input ctx ch d = \<lparr>si_workspaceId = ctx_workspaceId ctx, si_channelId = ch, si_authorSub = ctx_sub ctx, si_body = d_str d ''body'',
     si_fromAgent = ctx_isAgent ctx, si_onBehalfOf = None, si_threadId = d_opt d ''threadId'', si_parentId = d_opt d ''parentId'',
     si_clientMsgId = d_opt d ''clientMsgId''\<rparr>"

definition attach :: "MemberCtx \<Rightarrow> MessageRow \<Rightarrow> uuid list \<Rightarrow> (db, MessageRow) act" where
  "attach ctx message ids = (if ids = [] then act_return message
     else act_bind (linkMessageAttachments (ctx_workspaceId ctx) (mr_id message) ids) (\<lambda>_.
          act_bind (getMessageAttachments (ctx_workspaceId ctx) (mr_id message)) (\<lambda>atts. act_return (message\<lparr>mr_attachments := atts\<rparr>))))"

definition messages_POST :: "app_env \<Rightarrow> call \<Rightarrow> uuid \<Rightarrow> db \<Rightarrow> (MessageRow \<times> (string \<times> NotificationEvent) list) response \<times> db" where
  "messages_POST X c ch = route (act_bind (channel_guard X c ch PostMessage) (\<lambda>ctx.
     with_limit (ax_api X) ''send:'' (ctx_sub ctx) ('':'' @ ch)
      (with_parsed (ax_api X) c sendMessageSchema (\<lambda>d.
       let ids = or_default (d_strs d ''attachmentIds'') [] in
       if d_str d ''body'' = [] \<and> ids = [] then act_return (Failure 400 ''empty'')
       else act_bind (bad_attachment ctx ids) (\<lambda>bad.
       if bad then act_return (Failure 400 ''bad_attachment'')
       else act_bind (sendMessage (ax_crypto X) (cl_now c) (cl_id c 0) (cl_iv c 0) (send_input ctx ch d)) (\<lambda>sent.
       act_bind (attach ctx sent ids) (\<lambda>message.
       act_bind (if d_str d ''body'' = [] then act_return []
                 else notifyChannelMentions (ax_rank X) (cl_now c) (\<lambda>i. cl_id c (Suc i)) \<lparr>na_workspaceId = ctx_workspaceId ctx, na_channelId = ch,
                   na_messageId = mr_id message, na_body = d_str d ''body'', na_actorSub = ctx_sub ctx\<rparr>) (\<lambda>pings.
       act_return (Reply 201 (message, pings))))))))))"

definition read_POST :: "app_env \<Rightarrow> call \<Rightarrow> uuid \<Rightarrow> db \<Rightarrow> unit response \<times> db" where
  "read_POST X c ch = route (act_bind (channel_guard X c ch ReadChannel) (\<lambda>ctx.
     case av_number (ax_api X) (jget (read_body c) ''seq'') of
       None \<Rightarrow> act_return (Failure 400 ''invalid seq'')
     | Some seq \<Rightarrow> if seq < 0 then act_return (Failure 400 ''invalid seq'')
         else act_bind (markChannelRead (ctx_workspaceId ctx) ch (ctx_sub ctx) seq) (\<lambda>_. act_return (Reply 200 ()))))"

definition pinSchema :: zod where
  "pinSchema = ZObject [(''messageId'', zuuid), (''pinned'', ZBoolean)]"

definition pin_GET :: "app_env \<Rightarrow> call \<Rightarrow> uuid \<Rightarrow> db \<Rightarrow> MessageRow list response \<times> db" where
  "pin_GET X c ch = route (act_bind (channel_guard X c ch ReadChannel) (\<lambda>ctx.
     act_bind (listPinnedMessages (ax_crypto X) (ctx_workspaceId ctx) ch) (\<lambda>ms. act_return (Reply 200 ms))))"

definition pin_POST :: "app_env \<Rightarrow> call \<Rightarrow> uuid \<Rightarrow> db \<Rightarrow> MessageRow list response \<times> db" where
  "pin_POST X c ch = route (act_bind (channel_guard X c ch PostMessage) (\<lambda>ctx.
     with_parsed (ax_api X) c pinSchema (\<lambda>d.
     act_bind (setMessagePinned (cl_now c) (ctx_workspaceId ctx) ch (d_str d ''messageId'') (or_default (d_bool d ''pinned'') False)) (\<lambda>_.
     act_bind (listPinnedMessages (ax_crypto X) (ctx_workspaceId ctx) ch) (\<lambda>ms. act_return (Reply 200 ms))))))"

definition addSchema :: zod where
  "addSchema = ZObject [(''sub'', ZString [ZMin 1])]"

definition channel_members_POST :: "app_env \<Rightarrow> call \<Rightarrow> uuid \<Rightarrow> db \<Rightarrow> unit response \<times> db" where
  "channel_members_POST X c ch = route (act_bind (channel_guard X c ch AddMember) (\<lambda>ctx.
     with_parsed (ax_api X) c addSchema (\<lambda>d. let w = ctx_workspaceId ctx; u = d_str d ''sub'' in
     act_bind (memberRow w u) (\<lambda>target. case target of
       None \<Rightarrow> act_return (Failure 404 ''not_a_member'')
     | Some m \<Rightarrow>
        if mw_status m \<noteq> ''active'' then act_return (Failure 404 ''not_a_member'')
        else act_bind (addChannelMembers (cl_now c) w ch [u]) (\<lambda>_.
             act_bind (if mw_isAgent m then setChannelHasAgent w ch True else act_return ()) (\<lambda>_.
             act_bind (appendAudit (ax_crypto X) (cl_now c) (audit_input w (Some (ctx_sub ctx))
               (if mw_isAgent m then ''agent_added_to_channel'' else ''member_added_to_channel'') (Some (ch @ '':'' @ u)))) (\<lambda>_.
             act_return (Reply 200 ()))))))))"

definition ledger_GET :: "app_env \<Rightarrow> call \<Rightarrow> uuid \<Rightarrow> db \<Rightarrow> LedgerRow list response \<times> db" where
  "ledger_GET X c ch = route (act_bind (channel_guard X c ch ReadChannel) (\<lambda>ctx.
     act_bind (listLedger (ax_crypto X) (ctx_workspaceId ctx) ch) (\<lambda>rs. act_return (Reply 200 rs))))"

definition ledger_POST :: "app_env \<Rightarrow> call \<Rightarrow> uuid \<Rightarrow> db \<Rightarrow> LedgerRow response \<times> db" where
  "ledger_POST X c ch = route (act_bind (channel_guard X c ch PostMessage) (\<lambda>ctx.
     with_limit (ax_api X) ''witness:'' (ctx_sub ctx) ('':'' @ ch)
      (with_parsed (ax_api X) c witnessSchema (\<lambda>d.
       with_date X (d_opt d ''due'') (\<lambda>due.
       act_bind (witness (ax_crypto X) (ax_blake3 X) (cl_now c) (cl_id c 0) (cl_iv c 0) \<lparr>wi_workspaceId = ctx_workspaceId ctx, wi_channelId = ch,
          wi_sourceMessageId = d_opt d ''sourceMessageId'', wi_kind = d_str d ''kind'', wi_text = d_str d ''text'', wi_bySub = ctx_sub ctx,
          wi_ownerSub = d_opt d ''ownerSub'', wi_due = due, wi_proposedByAgent = False\<rparr>) (\<lambda>entry. act_return (Reply 201 entry)))))))"

definition resolveSchema :: zod where
  "resolveSchema = ZObject [(''entryId'', zuuid)]"

definition ledger_PATCH :: "app_env \<Rightarrow> call \<Rightarrow> uuid \<Rightarrow> db \<Rightarrow> unit response \<times> db" where
  "ledger_PATCH X c ch = route (act_bind (channel_guard X c ch PostMessage) (\<lambda>ctx.
     with_parsed (ax_api X) c resolveSchema (\<lambda>d.
     act_bind (resolveLedgerEntry (ax_crypto X) (cl_now c) (ctx_workspaceId ctx) ch (d_str d ''entryId'') (ctx_sub ctx)) (\<lambda>ok.
     if ok then act_return (Reply 200 ()) else act_return (Failure 404 ''not_found'')))))"

subsection \<open>Approvals and the audit chain\<close>

definition approvals_GET :: "app_env \<Rightarrow> call \<Rightarrow> uuid \<Rightarrow> db \<Rightarrow> PendingApproval list response \<times> db" where
  "approvals_GET X c w = route (act_bind (cap_guard X c w CreateRecord) (\<lambda>_.
     act_bind (listPendingApprovals (ax_approval X) w) (\<lambda>as. act_return (Reply 200 as))))"

definition approvals_POST :: "app_env \<Rightarrow> call \<Rightarrow> uuid \<Rightarrow> db \<Rightarrow> unit response \<times> db" where
  "approvals_POST X c w = route (act_bind (cap_guard X c w CreateRecord) (\<lambda>ctx.
     with_parsed (ax_api X) c approvalDecisionSchema (\<lambda>d.
     act_bind (decideApproval (ax_approval X) (cl_now c) w (d_str d ''approvalId'') (ctx_sub ctx) (ctx_role ctx)
        (if d_str d ''decision'' = ''approved'' then Approve else Reject)) (\<lambda>result. case result of
       Decided \<Rightarrow> act_return (Reply 200 ())
     | NotDecided e \<Rightarrow> act_return (Failure 409 e)))))"

definition audit_verify_POST :: "app_env \<Rightarrow> call \<Rightarrow> uuid \<Rightarrow> db \<Rightarrow> IntegrityResult response \<times> db" where
  "audit_verify_POST X c w = route (act_bind (requireInternal (ax_web X) (cl_req c) w) (\<lambda>_.
     act_bind (verifyChainFromDb (ax_crypto X) w) (\<lambda>r. act_return (Reply 200 r))))"

subsection \<open>Documents\<close>

definition UPLOAD_MAX_BYTES :: int where "UPLOAD_MAX_BYTES = 8 * MB"

text \<open>The multipart form of an upload: the file (name, type, bytes), if the field is one, and the text fields.\<close>

record upload_form =
  fm_file :: "(string \<times> string \<times> string) option"
  fm_field :: "string \<Rightarrow> string option"

definition form_id :: "upload_form \<Rightarrow> string \<Rightarrow> uuid option" where
  "form_id f k = (if truthy (fm_field f k) then fm_field f k else None)"

definition documents_POST :: "app_env \<Rightarrow> call \<Rightarrow> upload_form \<Rightarrow> uuid \<Rightarrow> db \<Rightarrow> (uuid \<times> string \<times> nat \<times> bool) response \<times> db" where
  "documents_POST X c f w = route (act_bind (cap_guard X c w CreateRecord) (\<lambda>ctx.
     case fm_file f of
       None \<Rightarrow> act_return (Failure 400 ''no_file'')
     | Some (fname, ftype, bytes) \<Rightarrow>
        if int (length bytes) > UPLOAD_MAX_BYTES then act_return (Failure 413 ''too_large'')
        else (let sc = \<lparr>ds_accountId = form_id f ''accountId'', ds_dealId = form_id f ''dealId'', ds_channelId = form_id f ''channelId''\<rparr>;
                  name = (if fname = [] then ''document'' else fname); mime = (if ftype = [] then None else Some ftype) in
          if \<not> isAllowed name mime then act_return (Failure 415 ''unsupported_type'')
          else act_bind (badDocScope w (ctx_sub ctx) sc) (\<lambda>bad. case bad of
            Some e \<Rightarrow> act_return (Failure 400 e)
          | None \<Rightarrow>
             let blobUrl = (if truthy (env (auth (ax_web X)) ''BLOB_READ_WRITE_TOKEN'')
                then (case dx_put (ax_doc X) (workspaceBlobPrefix w @ name) bytes of Some u \<Rightarrow> u | None \<Rightarrow> []) else []) in
             act_bind (ingestDocument (ax_doc X) (cl_now c) (cl_id c 0) (\<lambda>i. cl_id c (i + 2)) (\<lambda>i. cl_iv c (Suc i)) (cl_iv c 0) (cl_id c 1)
                \<lparr>ig_workspaceId = w, ig_scope = sc, ig_name = name, ig_mime = mime, ig_blobUrl = blobUrl, ig_uploadedBySub = ctx_sub ctx,
                 ig_buffer = Some bytes, ig_text = None\<rparr>) (\<lambda>(docId, chunks).
             act_return (Reply 201 (docId, name, chunks, blobUrl \<noteq> [])))))))"

datatype download_reply = Redirect string | Streamed StreamedFile

definition download_GET :: "app_env \<Rightarrow> call \<Rightarrow> uuid \<Rightarrow> uuid \<Rightarrow> db \<Rightarrow> download_reply response \<times> db" where
  "download_GET X c w docId = route (act_bind (member_guard X c w) (\<lambda>ctx.
     act_bind (getVisibleDocument w docId (viewer_of ctx)) (\<lambda>doc. case doc of
       None \<Rightarrow> act_bind (getDocument w docId) (\<lambda>hidden. act_return (case hidden of
           Some _ \<Rightarrow> Failure 403 ''forbidden'' | None \<Rightarrow> Failure 404 ''not_found''))
     | Some d \<Rightarrow>
        if dv_blobUrl d = [] then act_return (Failure 404 ''not_found'')
        else (let inline = (cl_query c ''inline'' = Some ''1'') in
          act_bind (if inline then act_return ()
             else act_bind (appendAudit (ax_crypto X) (cl_now c) (audit_input w (Some (ctx_sub ctx)) ''document_downloaded'' (Some docId)))
                    (\<lambda>_. act_return ())) (\<lambda>_.
          act_bind (act_lift (signedReadUrl (ax_doc X) (cl_now c) (dv_blobUrl d) (\<not> inline))) (\<lambda>signed. case signed of
            Some (url, expires) \<Rightarrow> act_return (Reply 302 (Redirect url))
          | None \<Rightarrow> (case streamLegacyBlobResponse (ax_doc X) (dv_blobUrl d) (\<not> inline) (dv_mime d) (dv_name d) of
              Some file \<Rightarrow> act_return (Reply 200 (Streamed file))
            | None \<Rightarrow> act_return (Failure 404 ''not_found''))))))))"

end
