(* ===== verification/Crm_Table.thy ===== *)
theory Crm_Table
  imports Documents
begin

text \<open>
  \<^verbatim>\<open>lib/domain/crm-query.ts\<close> (the flat table of an entity), \<^verbatim>\<open>lib/domain/crm-views.ts\<close> (saved views) and \<^verbatim>\<open>lib/domain/crm-file.ts\<close> (everything the
  page of one record shows). Number formatting by locale and the recall of the memory service are fields of \<open>table_env\<close>.
\<close>

record MemoryCitation =
  mc_content :: string
  mc_trustTier :: string
  mc_confidence :: decimal

record table_env =
  tx_crm :: crm_env
  tx_locale :: "int \<Rightarrow> string"
  tx_recall :: "uuid \<Rightarrow> CrmEntity \<Rightarrow> uuid \<Rightarrow> string \<Rightarrow> MemoryCitation list option"

text \<open>\<open>tx_locale\<close> formats the amount given in minor units without decimals.\<close>

definition money :: "table_env \<Rightarrow> int \<Rightarrow> string" where
  "money T minor = ''$'' @ tx_locale T minor"

subsection \<open>The table\<close>

definition ROW_CAP :: nat where "ROW_CAP = 2000"

record TableColumn =
  col_key :: string
  col_label :: string
  col_custom :: bool
  col_numeric :: "bool option"

datatype sort_value = SortText string | SortNum int

record TableCell =
  cell_display :: string
  cell_sort :: sort_value

record TableRow =
  tr_id :: uuid
  tr_cells :: "string \<rightharpoonup> TableCell"

record RecordsTable =
  tb_entity :: CrmEntity
  tb_columns :: "TableColumn list"
  tb_rows :: "TableRow list"
  tb_truncated :: bool

definition text_cell :: "string \<Rightarrow> TableCell" where
  "text_cell t = \<lparr>cell_display = t, cell_sort = SortText (js_lower t)\<rparr>"

definition num_cell :: "string \<Rightarrow> int \<Rightarrow> TableCell" where
  "num_cell t n = \<lparr>cell_display = t, cell_sort = SortNum n\<rparr>"

definition std :: "string \<Rightarrow> string \<Rightarrow> TableColumn" where
  "std k l = \<lparr>col_key = k, col_label = l, col_custom = False, col_numeric = None\<rparr>"

fun standardColumns :: "CrmEntity \<Rightarrow> TableColumn list" where
  "standardColumns CrmAccount = [std ''name'' ''Name'', std ''domain'' ''Domain'']"
| "standardColumns CrmDeal = [std ''name'' ''Name'', (std ''value'' ''Value'')\<lparr>col_numeric := Some True\<rparr>, std ''stage'' ''Stage'', std ''account'' ''Account'']"
| "standardColumns CrmContact = [std ''name'' ''Name'', std ''title'' ''Title'', std ''account'' ''Account'']"

fun baseRows :: "table_env \<Rightarrow> uuid \<Rightarrow> CrmEntity \<Rightarrow> (db, TableRow list) act" where
  "baseRows T w CrmAccount = act_bind (listAccounts (tx_crm T) w) (\<lambda>rows. act_return (map (\<lambda>a. \<lparr>tr_id = ar_id a,
      tr_cells = [''name'' \<mapsto> text_cell (ar_name a), ''domain'' \<mapsto> text_cell (or_default (ar_domain a) [])]\<rparr>) rows))"
| "baseRows T w CrmDeal = act_bind (listDeals w) (\<lambda>rows. act_return (map (\<lambda>d. \<lparr>tr_id = dr_id d,
      tr_cells = [''name'' \<mapsto> text_cell (dr_name d), ''value'' \<mapsto> num_cell (money T (dr_valueMinor d)) (dr_valueMinor d),
        ''stage'' \<mapsto> text_cell (dr_stage d), ''account'' \<mapsto> text_cell (or_default (dr_accountName d) [])]\<rparr>) rows))"
| "baseRows T w CrmContact = act_bind (listContacts (tx_crm T) w) (\<lambda>rows. act_return (map (\<lambda>x. \<lparr>tr_id = cr_id x,
      tr_cells = [''name'' \<mapsto> text_cell (cr_name x), ''title'' \<mapsto> text_cell (or_default (cr_title x) []),
        ''account'' \<mapsto> text_cell (or_default (cr_accountName x) [])]\<rparr>) rows))"

text \<open>The value row of a record's field: the last one read wins, as in the nested map of the source.\<close>

definition value_at :: "db \<Rightarrow> uuid \<Rightarrow> CrmEntity \<Rightarrow> uuid \<Rightarrow> uuid \<Rightarrow> field_value_row option" where
  "value_at s w e recordId fieldId = first_where (\<lambda>v. fv_recordId v = recordId \<and> fv_fieldId v = fieldId)
     (rev (rows_where (\<lambda>v. fv_workspaceId v = w \<and> fv_entity v = entity_name e) (crmFieldValues s)))"

definition field_cell :: "table_env \<Rightarrow> uuid \<Rightarrow> FieldDef \<Rightarrow> field_value_row option \<Rightarrow> TableCell" where
  "field_cell T w def v = (let raw = (case v of Some r \<Rightarrow> decodeValue (ck_crypto (tx_crm T)) w (fv_valueEnc r) | None \<Rightarrow> None);
       display = formatFieldDisplay (tx_crm T) def raw;
       key = (case v of Some r \<Rightarrow> fv_valueKey r | None \<Rightarrow> None); num = (case v of Some r \<Rightarrow> fv_valueNum r | None \<Rightarrow> None)
     in \<lparr>cell_display = display, cell_sort = (case num of Some n \<Rightarrow> SortNum n | None \<Rightarrow> SortText (js_lower (or_default key display)))\<rparr>)"

definition fill_row :: "table_env \<Rightarrow> db \<Rightarrow> uuid \<Rightarrow> CrmEntity \<Rightarrow> FieldDef list \<Rightarrow> TableRow \<Rightarrow> TableRow" where
  "fill_row T s w e defs r = r\<lparr>tr_cells := fold (\<lambda>def m. m(df_key def \<mapsto> field_cell T w def (value_at s w e (tr_id r) (df_id def)))) defs (tr_cells r)\<rparr>"

definition custom_column :: "FieldDef \<Rightarrow> TableColumn" where
  "custom_column d = \<lparr>col_key = df_key d, col_label = df_label d, col_custom = True,
     col_numeric = Some (df_type d \<in> {''number'', ''currency'', ''date''})\<rparr>"

definition queryRecords :: "table_env \<Rightarrow> uuid \<Rightarrow> CrmEntity \<Rightarrow> (db, RecordsTable) act" where
  "queryRecords T w e = act_bind (listFieldDefs w e False) (\<lambda>defs. act_bind (baseRows T w e) (\<lambda>rows.
     act_get (\<lambda>s. \<lparr>tb_entity = e, tb_columns = standardColumns e @ map custom_column defs,
        tb_rows = map (fill_row T s w e defs) (take ROW_CAP rows), tb_truncated = length rows > ROW_CAP\<rparr>)))"

subsection \<open>Saved views\<close>

record SavedView =
  vv_id :: uuid
  vv_name :: string
  vv_ownerSub :: string
  vv_shared :: bool
  vv_config :: ViewConfig
  vv_mine :: bool

definition view_for :: "string \<Rightarrow> view_row \<Rightarrow> SavedView" where
  "view_for u r = \<lparr>vv_id = vw_id r, vv_name = vw_name r, vv_ownerSub = vw_ownerSub r, vv_shared = vw_shared r, vv_config = vw_configJson r,
     vv_mine = (vw_ownerSub r = u)\<rparr>"

definition listViews :: "table_env \<Rightarrow> uuid \<Rightarrow> CrmEntity \<Rightarrow> string \<Rightarrow> (db, SavedView list) act" where
  "listViews T w e u = act_get (\<lambda>s. map (view_for u) (sort_key (ck_rank (tx_crm T) \<circ> vw_name)
     (rows_where (\<lambda>r. vw_workspaceId r = w \<and> vw_entity r = entity_name e \<and> (vw_ownerSub r = u \<or> vw_shared r)) (crmViews s))))"

definition insert_view :: "view_row \<Rightarrow> (db, view_row) act" where
  "insert_view r = tbl_insert (\<lambda>s. vw_id r \<notin> vw_id ` set (crmViews s) \<and> has_workspace s (vw_workspaceId r)) crmViews_update r"

definition saveView :: "ms \<Rightarrow> uuid \<Rightarrow> uuid \<Rightarrow> CrmEntity \<Rightarrow> string \<Rightarrow> string \<Rightarrow> bool option \<Rightarrow> ViewConfig \<Rightarrow> (db, SavedView) act" where
  "saveView now newId w e name ownerSub sh config =
     act_bind (insert_view \<lparr>vw_id = newId, vw_workspaceId = w, vw_entity = entity_name e, vw_name = take 80 (js_trim name), vw_ownerSub = ownerSub,
        vw_configJson = config, vw_shared = or_default sh False, vw_createdAt = now\<rparr>) (\<lambda>r. act_return ((view_for ownerSub r)\<lparr>vv_mine := True\<rparr>))"

definition deleteView :: "uuid \<Rightarrow> uuid \<Rightarrow> string \<Rightarrow> (db, unit) act" where
  "deleteView w viewId u = tbl_delete crmViews_update (\<lambda>r. vw_workspaceId r = w \<and> vw_id r = viewId \<and> vw_ownerSub r = u)"

subsection \<open>The record file\<close>

record RelatedItem =
  ri_id :: uuid
  ri_name :: string
  ri_entity :: CrmEntity
  ri_meta :: "string option"

record RecordFile =
  rf_entity :: CrmEntity
  rf_recordId :: uuid
  rf_title :: string
  rf_subtitle :: "string option"
  rf_domain :: "string option option"
  rf_valueMinor :: "int option"
  rf_contactTitle :: "string option option"
  rf_headerStats :: "(string \<times> string) list"
  rf_fields :: "(FieldDef \<times> string option) list"
  rf_tags :: "TagRow list"
  rf_notes :: "NoteRow list"
  rf_activity :: "ActivityRow list"
  rf_related :: "(string \<times> RelatedItem list) list"
  rf_documents :: "DocumentRow list"
  rf_memories :: "MemoryCitation list"

definition dash :: string where "dash = [CHR 0xE2, CHR 0x80, CHR 0x94]"

definition recallMemories :: "table_env \<Rightarrow> uuid \<Rightarrow> CrmEntity \<Rightarrow> uuid \<Rightarrow> string \<Rightarrow> MemoryCitation list" where
  "recallMemories T w e i query = (case tx_recall T w e i query of Some ms \<Rightarrow> ms | None \<Rightarrow> [])"

definition account_item :: "uuid option \<Rightarrow> string option \<Rightarrow> (string \<times> RelatedItem list) list" where
  "account_item acc name = (if truthy acc then [(''Account'', [\<lparr>ri_id = the acc, ri_name = or_default name ''Account'', ri_entity = CrmAccount, ri_meta = None\<rparr>])] else [])"

definition ACTIVITY_LIMIT :: nat where "ACTIVITY_LIMIT = 50"

definition record_parts :: "table_env \<Rightarrow> uuid \<Rightarrow> CrmEntity \<Rightarrow> uuid \<Rightarrow> RecordFile \<Rightarrow> (db, RecordFile) act" where
  "record_parts T w e i f = (let E = ck_crypto (tx_crm T) in
     act_bind (getFieldsForRecord E w e i) (\<lambda>fields.
     act_bind (tagsForRecord (tx_crm T) w e i) (\<lambda>tags.
     act_bind (listNotes E w e i) (\<lambda>notes.
     act_bind (listActivity w e i ACTIVITY_LIMIT) (\<lambda>activity.
     act_return (f\<lparr>rf_fields := fields, rf_tags := tags, rf_notes := notes, rf_activity := activity, rf_memories := recallMemories T w e i (rf_title f)\<rparr>))))))"

definition blank_file :: "CrmEntity \<Rightarrow> uuid \<Rightarrow> string \<Rightarrow> RecordFile" where
  "blank_file e i title = \<lparr>rf_entity = e, rf_recordId = i, rf_title = title, rf_subtitle = None, rf_domain = None, rf_valueMinor = None,
     rf_contactTitle = None, rf_headerStats = [], rf_fields = [], rf_tags = [], rf_notes = [], rf_activity = [], rf_related = [], rf_documents = [],
     rf_memories = []\<rparr>"

definition getAccountFile :: "table_env \<Rightarrow> uuid \<Rightarrow> uuid \<Rightarrow> DocViewer \<Rightarrow> (db, RecordFile option) act" where
  "getAccountFile T w i v = act_bind (getAccount w i) (\<lambda>found. case found of
      None \<Rightarrow> act_return None
    | Some a \<Rightarrow>
       act_bind (listDealsForAccount w i) (\<lambda>ds.
       act_bind (listContactsForAccount (tx_crm T) w i) (\<lambda>cs.
       act_bind (listDocumentsForRecord w \<lparr>ds_accountId = Some i, ds_dealId = None, ds_channelId = None\<rparr> v) (\<lambda>docs.
       act_bind (record_parts T w CrmAccount i ((blank_file CrmAccount i (ar_name a))\<lparr>rf_subtitle := ar_domain a, rf_domain := Some (ar_domain a),
          rf_headerStats := [(''Domain'', or_default (ar_domain a) dash),
             (''Open deals'', digits_of (length (filter (\<lambda>d. dr_stage d \<noteq> ''Won'' \<and> dr_stage d \<noteq> ''Lost'') ds))),
             (''Pipeline'', money T (sum_list (map dr_valueMinor (filter (\<lambda>d. dr_stage d \<noteq> ''Lost'') ds))))],
          rf_related := [(''Deals'', map (\<lambda>d. \<lparr>ri_id = dr_id d, ri_name = dr_name d, ri_entity = CrmDeal,
               ri_meta = Some (dr_stage d @ '' '' @ middot @ '' '' @ money T (dr_valueMinor d))\<rparr>) ds),
             (''Contacts'', map (\<lambda>x. \<lparr>ri_id = cr_id x, ri_name = cr_name x, ri_entity = CrmContact, ri_meta = cr_title x\<rparr>) cs)],
          rf_documents := docs\<rparr>)) (\<lambda>f. act_return (Some f))))))"

definition getDealFile :: "table_env \<Rightarrow> uuid \<Rightarrow> uuid \<Rightarrow> DocViewer \<Rightarrow> (db, RecordFile option) act" where
  "getDealFile T w i v = act_bind (getDeal w i) (\<lambda>found. case found of
      None \<Rightarrow> act_return None
    | Some d \<Rightarrow>
       act_bind (listDocumentsForRecord w \<lparr>ds_accountId = None, ds_dealId = Some i, ds_channelId = None\<rparr> v) (\<lambda>docs.
       act_bind (record_parts T w CrmDeal i ((blank_file CrmDeal i (dr_name d))\<lparr>rf_subtitle := dr_accountName d, rf_valueMinor := Some (dr_valueMinor d),
          rf_headerStats := [(''Stage'', dr_stage d), (''Value'', money T (dr_valueMinor d)), (''Account'', or_default (dr_accountName d) dash)],
          rf_related := account_item (dr_accountId d) (dr_accountName d), rf_documents := docs\<rparr>)) (\<lambda>f. act_return (Some f))))"

definition getContactFile :: "table_env \<Rightarrow> uuid \<Rightarrow> uuid \<Rightarrow> (db, RecordFile option) act" where
  "getContactFile T w i = act_bind (getContact w i) (\<lambda>found. case found of
      None \<Rightarrow> act_return None
    | Some x \<Rightarrow>
       act_bind (record_parts T w CrmContact i ((blank_file CrmContact i (cr_name x))\<lparr>rf_subtitle := cr_title x, rf_contactTitle := Some (cr_title x),
          rf_headerStats := [(''Title'', or_default (cr_title x) dash), (''Account'', or_default (cr_accountName x) dash)],
          rf_related := account_item (cr_accountId x) (cr_accountName x)\<rparr>)) (\<lambda>f. act_return (Some f)))"

subsection \<open>Custom fields over standard columns\<close>

definition listed_defs :: "db \<Rightarrow> uuid \<Rightarrow> CrmEntity \<Rightarrow> FieldDef list" where
  "listed_defs s w e = (case fst (listFieldDefs w e False s) of Inr ds \<Rightarrow> ds | Inl _ \<Rightarrow> [])"

lemma fold_put:
  "distinct (map k xs) \<Longrightarrow> x \<in> set xs \<Longrightarrow> fold (\<lambda>d m. m(k d \<mapsto> f d)) xs m (k x) = Some (f x)"
proof (induction xs rule: rev_induct)
  case (snoc y ys)
  then show ?case by (cases "x = y") (auto simp: image_iff)
qed simp

lemma queryRecords_run:
  "\<exists>rows. queryRecords T w e s = (Inr \<lparr>tb_entity = e, tb_columns = standardColumns e @ map custom_column (listed_defs s w e),
     tb_rows = map (fill_row T s w e (listed_defs s w e)) rows, tb_truncated = t\<rparr>, s)" if "t = (case fst (baseRows T w e s) of Inr rs \<Rightarrow> length rs > ROW_CAP | Inl _ \<Rightarrow> False)"
  using that by (cases e) (auto simp: queryRecords_def listed_defs_def listFieldDefs_def listAccounts_def listDeals_def listContacts_def act_defs)

text \<open>Nothing keeps a custom field from taking the key of a standard column, and then it replaces that column's cell: in the table of every
  record without a value for the field (a fresh field has none), the standard value, such as the record's name, is shown as empty.\<close>

theorem custom_field_hides_standard_column:
  assumes "queryRecords T w e s = (Inr tab, s')" and "r \<in> set (tb_rows tab)" and "def \<in> set (listed_defs s w e)"
    and "distinct (map df_key (listed_defs s w e))" and "df_key def \<in> col_key ` set (standardColumns e)"
    and "value_at s w e (tr_id r) (df_id def) = None"
  shows "tr_cells r (df_key def) = Some \<lparr>cell_display = [], cell_sort = SortText []\<rparr>"
proof -
  obtain b where b: "r = fill_row T s w e (listed_defs s w e) b" using assms(1,2) queryRecords_run [OF refl, of T w e s] by auto
  then have "tr_id r = tr_id b" by (simp add: fill_row_def)
  with assms(6) have "value_at s w e (tr_id b) (df_id def) = None" by simp
  moreover have "tr_cells r (df_key def) = Some (field_cell T w def (value_at s w e (tr_id b) (df_id def)))"
    unfolding b fill_row_def using fold_put [OF assms(4,3)] by simp
  ultimately show ?thesis by (simp add: field_cell_def formatFieldDisplay_def or_text_def or_default_def js_lower_def Let_def)
qed

definition demo_table :: table_env where
  "demo_table = \<lparr>tx_crm = demo_crm, tx_locale = (\<lambda>_. ''1''), tx_recall = (\<lambda>_ _ _ _. None)\<rparr>"

definition demo_named :: db where
  "demo_named = demo_db\<lparr>accounts := [\<lparr>acc_id = ''a1'', acc_workspaceId = ''w1'', acc_name = ''Acme'', acc_domain = None, acc_ownerSub = None, acc_createdAt = 0\<rparr>],
     crmFieldDefs := [demo_field\<lparr>fd_key := ''name'', fd_entity := ''account''\<rparr>]\<rparr>"

theorem custom_field_hides_standard_column_witness:
  "\<exists>tab r. queryRecords demo_table ''w1'' CrmAccount demo_named = (Inr tab, demo_named) \<and> r \<in> set (tb_rows tab) \<and> tr_id r = ''a1''
     \<and> tr_cells r ''name'' = Some \<lparr>cell_display = [], cell_sort = SortText []\<rparr>"
proof -
  let ?def = "toDef (demo_field\<lparr>fd_key := ''name'', fd_entity := ''account''\<rparr>)"
  have defs: "listed_defs demo_named ''w1'' CrmAccount = [?def]"
    by (simp add: listed_defs_def listFieldDefs_def act_get_def demo_named_def demo_field_def toDef_def rows_where_def)
  let ?b = "\<lparr>tr_id = ''a1'', tr_cells = [''name'' \<mapsto> text_cell ''Acme'', ''domain'' \<mapsto> text_cell []]\<rparr> :: TableRow"
  let ?r = "fill_row demo_table demo_named ''w1'' CrmAccount [?def] ?b"
  let ?tab = "\<lparr>tb_entity = CrmAccount, tb_columns = standardColumns CrmAccount @ map custom_column [?def], tb_rows = [?r], tb_truncated = False\<rparr>"
  have run: "queryRecords demo_table ''w1'' CrmAccount demo_named = (Inr ?tab, demo_named)"
    using defs by (simp add: queryRecords_def listed_defs_def listFieldDefs_def listAccounts_def act_defs account_view_def demo_named_def ROW_CAP_def rows_where_def
        or_default_def del: standardColumns.simps)
  have key: "df_key ?def = ''name''" by (simp add: toDef_def)
  have "value_at demo_named ''w1'' CrmAccount (tr_id ?r) (df_id ?def) = None"
    by (simp add: value_at_def demo_named_def demo_db_def empty_db_def rows_where_def)
  with custom_field_hides_standard_column [OF run, of ?r ?def] have "tr_cells ?r ''name'' = Some \<lparr>cell_display = [], cell_sort = SortText []\<rparr>"
    by (simp add: defs key std_def)
  then show ?thesis using run by (intro exI [of _ ?tab] exI [of _ ?r]) (simp add: fill_row_def)
qed

end
