(* ===== verification/Tenancy.thy ===== *)
theory Tenancy
  imports Dedupe Crm_Table
begin

text \<open>
  Isolation of workspaces in the CRM: every exported operation of \<^verbatim>\<open>lib/domain/crm*.ts\<close> that writes, merging duplicates and saving views included, is a
  command that belongs to the workspace it is called for, and a command leaves the rows of every other workspace as they are. The locale
  \<open>tenant_scoped\<close> is interpreted on these commands, so that the statement carries over to any run of them. What a workspace reads through a join on
  a foreign account (see \<open>foreign_account_disclosed\<close>) is not part of the view; nor are comments and the links of messages, which have no workspace of
  their own and belong to their note or message.
\<close>

record crm_holdings =
  ho_accounts :: "account_row list"
  ho_contacts :: "contact_row list"
  ho_deals :: "deal_row list"
  ho_fieldDefs :: "field_def_row list"
  ho_fieldValues :: "field_value_row list"
  ho_notes :: "note_row list"
  ho_activity :: "activity_row list"
  ho_tags :: "tag_row list"
  ho_recordTags :: "record_tag_row list"
  ho_documents :: "document_row list"
  ho_threads :: "agent_thread_row list"
  ho_events :: "event_row list"
  ho_views :: "view_row list"
  ho_importRows :: "import_row_row list"
  ho_audit :: "audit_row list"

definition holdings :: "db \<Rightarrow> uuid \<Rightarrow> crm_holdings" where
  "holdings s w = \<lparr>ho_accounts = filter (\<lambda>r. acc_workspaceId r = w) (accounts s), ho_contacts = filter (\<lambda>r. ct_workspaceId r = w) (contacts s),
     ho_deals = filter (\<lambda>r. dl_workspaceId r = w) (deals s), ho_fieldDefs = filter (\<lambda>r. fd_workspaceId r = w) (crmFieldDefs s),
     ho_fieldValues = filter (\<lambda>r. fv_workspaceId r = w) (crmFieldValues s), ho_notes = filter (\<lambda>r. no_workspaceId r = w) (crmNotes s),
     ho_activity = filter (\<lambda>r. ac_workspaceId r = w) (crmActivity s), ho_tags = filter (\<lambda>r. tg_workspaceId r = w) (crmTags s),
     ho_recordTags = filter (\<lambda>r. rt_workspaceId r = w) (crmRecordTags s), ho_documents = filter (\<lambda>r. dc_workspaceId r = w) (documents s),
     ho_threads = filter (\<lambda>r. th_workspaceId r = w) (agentThreads s), ho_events = filter (\<lambda>r. ev_workspaceId r = w) (calendarEvents s),
     ho_views = filter (\<lambda>r. vw_workspaceId r = w) (crmViews s), ho_importRows = filter (\<lambda>r. iw_workspaceId r = w) (importRows s), ho_audit = filter (\<lambda>r. au_workspaceId r = w) (auditLog s)\<rparr>"

datatype crm_request =
    CreateAccountReq ms uuid uuid uuid string "string option" string
  | UpsertAccountReq ms uuid uuid uuid string "string option" string
  | UpdateAccountReq ms "nat \<Rightarrow> uuid" uuid uuid AccountPatch string
  | DeleteAccountReq crypto_env ms uuid uuid string
  | CreateDealReq ms uuid uuid CreateDealArgs
  | UpsertDealReq ms uuid uuid CreateDealArgs
  | UpdateDealReq ms "nat \<Rightarrow> uuid" uuid uuid DealPatch string
  | MoveDealReq ms uuid uuid uuid string "string option"
  | DeleteDealReq crypto_env ms uuid uuid string
  | CreateContactReq crypto_env ms uuid uuid string CreateContactArgs
  | UpsertContactReq crypto_env ms uuid uuid string CreateContactArgs
  | UpdateContactReq ms "nat \<Rightarrow> uuid" uuid uuid ContactPatch string
  | DeleteContactReq crypto_env ms uuid uuid string
  | CreateFieldReq crypto_env ms uuid CreateFieldDefInput
  | UpdateFieldReq crypto_env ms uuid uuid UpdateFieldDefPatch string
  | DeleteFieldReq crypto_env ms uuid uuid string
  | SetFieldReq crm_env ms uuid uuid string SetFieldArgs
  | SeedFieldsReq ms "nat \<Rightarrow> uuid" uuid string
  | AddNoteReq crypto_env ms uuid uuid "nat \<Rightarrow> string" AddNoteArgs
  | AddCommentReq crypto_env ms uuid string uuid uuid string string "bool option"
  | PinNoteReq ms uuid uuid bool
  | CreateTagReq uuid uuid string "string option"
  | TagReq ms uuid uuid CrmEntity uuid uuid string
  | BulkTagReq ms "nat \<Rightarrow> uuid" uuid CrmEntity "uuid list" uuid string
  | UntagReq uuid CrmEntity uuid uuid
  | ActivityReq ms uuid uuid CrmEntity uuid "string option" bool ActivityInput "(string \<times> string) list option"
  | MergeReq crypto_env ms uuid CrmEntity uuid uuid string
  | DedupeReq crypto_env ms uuid DedupeOpts
  | SaveViewReq ms uuid uuid CrmEntity string string "bool option" ViewConfig
  | DeleteViewReq uuid uuid string

fun crm_home :: "crm_request \<Rightarrow> uuid" where
  "crm_home (CreateAccountReq now i aid w name domain u) = w"
| "crm_home (UpsertAccountReq now i aid w name domain u) = w"
| "crm_home (UpdateAccountReq now aids w i p u) = w"
| "crm_home (DeleteAccountReq E now w i u) = w"
| "crm_home (CreateDealReq now i aid a) = cd_workspaceId a"
| "crm_home (UpsertDealReq now i aid a) = cd_workspaceId a"
| "crm_home (UpdateDealReq now aids w i p u) = w"
| "crm_home (MoveDealReq now aid w i st u) = w"
| "crm_home (DeleteDealReq E now w i u) = w"
| "crm_home (CreateContactReq E now i aid iv a) = nc_workspaceId a"
| "crm_home (UpsertContactReq E now i aid iv a) = nc_workspaceId a"
| "crm_home (UpdateContactReq now aids w i p u) = w"
| "crm_home (DeleteContactReq E now w i u) = w"
| "crm_home (CreateFieldReq E now i x) = cf_workspaceId x"
| "crm_home (UpdateFieldReq E now w i p u) = w"
| "crm_home (DeleteFieldReq E now w i u) = w"
| "crm_home (SetFieldReq K now i aid iv a) = sf_workspaceId a"
| "crm_home (SeedFieldsReq now ids w u) = w"
| "crm_home (AddNoteReq E now i aid iv a) = an_workspaceId a"
| "crm_home (AddCommentReq E now i iv w n b u g) = w"
| "crm_home (PinNoteReq now w i p) = w"
| "crm_home (CreateTagReq i w l c) = w"
| "crm_home (TagReq now aid w e r t u) = w"
| "crm_home (BulkTagReq now aids w e rs t u) = w"
| "crm_home (UntagReq w e r t) = w"
| "crm_home (ActivityReq now aid w e i u b k m) = w"
| "crm_home (MergeReq E now w e dup canon u) = w"
| "crm_home (DedupeReq E now w op) = w"
| "crm_home (SaveViewReq now i w e name u sh cfg) = w"
| "crm_home (DeleteViewReq w i u) = w"

fun crm_run :: "crm_request \<Rightarrow> db \<Rightarrow> db" where
  "crm_run (CreateAccountReq now i aid w name domain u) s = snd (createAccount now i aid w name domain u s)"
| "crm_run (UpsertAccountReq now i aid w name domain u) s = snd (upsertAccount now i aid w name domain u s)"
| "crm_run (UpdateAccountReq now aids w i p u) s = snd (updateAccount now aids w i p u s)"
| "crm_run (DeleteAccountReq E now w i u) s = snd (deleteAccount E now w i u s)"
| "crm_run (CreateDealReq now i aid a) s = snd (createDeal now i aid a s)"
| "crm_run (UpsertDealReq now i aid a) s = snd (upsertDeal now i aid a s)"
| "crm_run (UpdateDealReq now aids w i p u) s = snd (updateDeal now aids w i p u s)"
| "crm_run (MoveDealReq now aid w i st u) s = snd (moveDealStage now aid w i st u s)"
| "crm_run (DeleteDealReq E now w i u) s = snd (deleteDeal E now w i u s)"
| "crm_run (CreateContactReq E now i aid iv a) s = snd (createContact E now i aid iv a s)"
| "crm_run (UpsertContactReq E now i aid iv a) s = snd (upsertContact E now i aid iv a s)"
| "crm_run (UpdateContactReq now aids w i p u) s = snd (updateContact now aids w i p u s)"
| "crm_run (DeleteContactReq E now w i u) s = snd (deleteContact E now w i u s)"
| "crm_run (CreateFieldReq E now i x) s = snd (createFieldDef E now i x s)"
| "crm_run (UpdateFieldReq E now w i p u) s = snd (updateFieldDef E now w i p u s)"
| "crm_run (DeleteFieldReq E now w i u) s = snd (deleteFieldDef E now w i u s)"
| "crm_run (SetFieldReq K now i aid iv a) s = snd (setFieldValue K now i aid iv a s)"
| "crm_run (SeedFieldsReq now ids w u) s = snd (seedDefaultCrmFields now ids w u s)"
| "crm_run (AddNoteReq E now i aid iv a) s = snd (addNote E now i aid iv a s)"
| "crm_run (AddCommentReq E now i iv w n b u g) s = snd (addComment E now i iv w n b u g s)"
| "crm_run (PinNoteReq now w i p) s = snd (setNotePinned now w i p s)"
| "crm_run (CreateTagReq i w l c) s = snd (createTag i w l c s)"
| "crm_run (TagReq now aid w e r t u) s = snd (tagRecord now aid w e r t u s)"
| "crm_run (BulkTagReq now aids w e rs t u) s = snd (bulkTagRecords now aids w e rs t u s)"
| "crm_run (UntagReq w e r t) s = snd (untagRecord w e r t s)"
| "crm_run (ActivityReq now aid w e i u b k m) s = snd (recordActivity now aid w e i u b k m s)"
| "crm_run (MergeReq E now w e dup canon u) s = snd (mergeRecord E now w e dup canon u s)"
| "crm_run (DedupeReq E now w op) s = snd (dedupeWorkspaceCrm E now w op s)"
| "crm_run (SaveViewReq now i w e name u sh cfg) s = snd (saveView now i w e name u sh cfg s)"
| "crm_run (DeleteViewReq w i u) s = snd (deleteView w i u s)"

subsection \<open>What a statement for one workspace leaves alone\<close>

abbreviation leaves :: "uuid \<Rightarrow> (db, 'a) act \<Rightarrow> bool" where
  "leaves w m \<equiv> frames (\<lambda>s. holdings s w) m"

lemma leaves_insert:
  "acc_workspaceId a \<noteq> w \<Longrightarrow> leaves w (insert_account a)"
  "ct_workspaceId c \<noteq> w \<Longrightarrow> leaves w (insert_contact c)"
  "dl_workspaceId d \<noteq> w \<Longrightarrow> leaves w (insert_deal d)"
  "fd_workspaceId f \<noteq> w \<Longrightarrow> leaves w (insert_field_def f)"
  "fv_workspaceId v \<noteq> w \<Longrightarrow> leaves w (insert_field_value v)"
  "no_workspaceId n \<noteq> w \<Longrightarrow> leaves w (insert_note n)"
  "ac_workspaceId x \<noteq> w \<Longrightarrow> leaves w (insert_activity x)"
  "tg_workspaceId t \<noteq> w \<Longrightarrow> leaves w (insert_tag t)"
  "rt_workspaceId r \<noteq> w \<Longrightarrow> leaves w (insert_record_tag r)"
  "leaves w (insert_comment k)"
  "vw_workspaceId y \<noteq> w \<Longrightarrow> leaves w (insert_view y)"
  by (simp_all add: work_insert_defs insert_view_def frames_def tbl_insert_def holdings_def)

lemma leaves_update:
  "(\<And>r. P1 r \<Longrightarrow> acc_workspaceId r \<noteq> w \<and> acc_workspaceId (f1 r) \<noteq> w) \<Longrightarrow> leaves w (tbl_update accounts_update P1 f1)"
  "(\<And>r. P2 r \<Longrightarrow> ct_workspaceId r \<noteq> w \<and> ct_workspaceId (f2 r) \<noteq> w) \<Longrightarrow> leaves w (tbl_update contacts_update P2 f2)"
  "(\<And>r. P3 r \<Longrightarrow> dl_workspaceId r \<noteq> w \<and> dl_workspaceId (f3 r) \<noteq> w) \<Longrightarrow> leaves w (tbl_update deals_update P3 f3)"
  "(\<And>r. P4 r \<Longrightarrow> fd_workspaceId r \<noteq> w \<and> fd_workspaceId (f4 r) \<noteq> w) \<Longrightarrow> leaves w (tbl_update crmFieldDefs_update P4 f4)"
  "(\<And>r. P5 r \<Longrightarrow> fv_workspaceId r \<noteq> w \<and> fv_workspaceId (f5 r) \<noteq> w) \<Longrightarrow> leaves w (tbl_update crmFieldValues_update P5 f5)"
  "(\<And>r. P6 r \<Longrightarrow> no_workspaceId r \<noteq> w \<and> no_workspaceId (f6 r) \<noteq> w) \<Longrightarrow> leaves w (tbl_update crmNotes_update P6 f6)"
  "(\<And>r. P7 r \<Longrightarrow> dc_workspaceId r \<noteq> w \<and> dc_workspaceId (f7 r) \<noteq> w) \<Longrightarrow> leaves w (tbl_update documents_update P7 f7)"
  "(\<And>r. P8 r \<Longrightarrow> th_workspaceId r \<noteq> w \<and> th_workspaceId (f8 r) \<noteq> w) \<Longrightarrow> leaves w (tbl_update agentThreads_update P8 f8)"
  "(\<And>r. P9 r \<Longrightarrow> ev_workspaceId r \<noteq> w \<and> ev_workspaceId (f9 r) \<noteq> w) \<Longrightarrow> leaves w (tbl_update calendarEvents_update P9 f9)"
  "(\<And>r. P10 r \<Longrightarrow> rt_workspaceId r \<noteq> w \<and> rt_workspaceId (f10 r) \<noteq> w) \<Longrightarrow> leaves w (tbl_update crmRecordTags_update P10 f10)"
  "(\<And>r. P11 r \<Longrightarrow> ac_workspaceId r \<noteq> w \<and> ac_workspaceId (f11 r) \<noteq> w) \<Longrightarrow> leaves w (tbl_update crmActivity_update P11 f11)"
  "(\<And>r. P12 r \<Longrightarrow> iw_workspaceId r \<noteq> w \<and> iw_workspaceId (f12 r) \<noteq> w) \<Longrightarrow> leaves w (tbl_update importRows_update P12 f12)"
  "leaves w (tbl_update messageLinks_update P13 f13)"
  by (simp_all add: frames_def tbl_update_def holdings_def filter_upd_where_other)

lemma leaves_delete:
  "(\<And>r. P1 r \<Longrightarrow> ct_workspaceId r \<noteq> w) \<Longrightarrow> leaves w (tbl_delete contacts_update P1)"
  "(\<And>r. P2 r \<Longrightarrow> fv_workspaceId r \<noteq> w) \<Longrightarrow> leaves w (tbl_delete crmFieldValues_update P2)"
  "(\<And>r. P3 r \<Longrightarrow> ac_workspaceId r \<noteq> w) \<Longrightarrow> leaves w (tbl_delete crmActivity_update P3)"
  "(\<And>r. P4 r \<Longrightarrow> rt_workspaceId r \<noteq> w) \<Longrightarrow> leaves w (tbl_delete crmRecordTags_update P4)"
  "(\<And>r. P5 r \<Longrightarrow> acc_workspaceId r \<noteq> w) \<Longrightarrow> leaves w (account_delete P5)"
  "(\<And>r. P6 r \<Longrightarrow> dl_workspaceId r \<noteq> w) \<Longrightarrow> leaves w (deal_delete P6)"
  "(\<And>r. P7 r \<Longrightarrow> no_workspaceId r \<noteq> w) \<Longrightarrow> leaves w (note_delete P7)"
  "(\<And>r. P8 r \<Longrightarrow> fd_workspaceId r \<noteq> w) \<Longrightarrow> leaves w (field_def_delete P8)"
  "leaves w (tbl_delete crmNoteComments_update P9)"
  "(\<And>r. P10 r \<Longrightarrow> vw_workspaceId r \<noteq> w) \<Longrightarrow> leaves w (tbl_delete crmViews_update P10)"
  "leaves w (tbl_delete messageLinks_update P11)"
  by (auto simp: frames_def work_delete_defs holdings_def intro!: filter_cong)

lemma leaves_audit: "ai_workspaceId i \<noteq> w \<Longrightarrow> leaves w (appendAudit E now i)"
  by (simp add: frames_def appendAudit_run append_after_run holdings_def audit_row_of_def split: sum.split)

lemma leaves_activity: "v \<noteq> w \<Longrightarrow> leaves w (recordActivity now aid v e r u b i m)"
  unfolding recordActivity_def by (intro frame_intros leaves_insert) simp

lemma leaves_upsert_field_value: "fv_workspaceId r \<noteq> w \<Longrightarrow> leaves w (upsert_field_value r)"
proof -
  assume r: "fv_workspaceId r \<noteq> w"
  have "leaves w (act_bind (insert_field_value r) (\<lambda>_. act_return ()))" by (intro frame_intros leaves_insert r)
  moreover have "leaves w (tbl_update crmFieldValues_update (\<lambda>v. fv_key3 v = fv_key3 r) f)"
    if "\<And>v. fv_workspaceId (f v) = fv_workspaceId v" for f
    by (rule leaves_update) (use r that in \<open>auto simp: fv_key3_def\<close>)
  ultimately show ?thesis by (simp add: frames_def upsert_field_value_def)
qed

lemma leaves_unless: "fd_workspaceId r \<noteq> w \<Longrightarrow> leaves w (field_def_unless_defined r)"
  using frames_bind [OF leaves_insert(4) [of r w] frames_return [of _ "()"]] by (simp add: frames_def field_def_unless_defined_def)

lemma leaves_seed: "v \<noteq> w \<Longrightarrow> leaves w (seed_from now ids v u present n ds)"
proof (induction ds arbitrary: n)
  case (Cons d ds)
  have "leaves w (field_def_unless_defined (default_row now ids v u n d))"
    by (rule leaves_unless) (use Cons.prems in \<open>simp add: default_row_def split: prod.split\<close>)
  then show ?case using Cons by (auto simp: case_prod_beta intro!: frame_intros)
qed (simp add: frames_return)

lemma leaves_tagged: "rt_workspaceId r \<noteq> w \<Longrightarrow> leaves w (tag_unless_tagged r)"
  using leaves_insert(9) [of r w] by (simp add: frames_def tag_unless_tagged_def)

lemma leaves_tag_activities: "v \<noteq> w \<Longrightarrow> leaves w (tag_activities now aids v e t l u n is)"
  by (induction "is" arbitrary: n) (auto intro!: frame_intros leaves_activity)

lemma leaves_createTag: "v \<noteq> w \<Longrightarrow> leaves w (createTag i v l c)"
proof -
  let ?r = "\<lparr>tg_id = i, tg_workspaceId = v, tg_label = js_trim l, tg_color = c\<rparr>"
  assume "v \<noteq> w"
  then have "leaves w (act_bind (insert_tag ?r) (\<lambda>t. act_return (Some (tag_view t))))" by (intro frame_intros leaves_insert) simp
  then show ?thesis by (simp add: frames_def createTag_def Let_def)
qed

subsection \<open>Every command stays at home\<close>

lemma leaves_field_activities: "v \<noteq> w \<Longrightarrow> leaves w (field_activities now aids v e i u ls)"
  unfolding field_activities_def by (intro frame_intros leaves_activity)

lemma leaves_subData: "v \<noteq> w \<Longrightarrow> leaves w (deleteCrmSubData v e i)"
  unfolding deleteCrmSubData_def by (intro frame_intros leaves_delete) (auto simp: of_record_def)

lemmas leaves_rules = frame_intros leaves_insert leaves_update leaves_delete leaves_audit leaves_activity leaves_upsert_field_value leaves_seed
  leaves_tagged leaves_tag_activities leaves_createTag leaves_field_activities leaves_subData

lemma leaves_createAccount: "v \<noteq> w \<Longrightarrow> leaves w (createAccount now i aid v name domain u)"
  unfolding createAccount_def by (intro leaves_rules) simp_all

lemma leaves_createDeal: "cd_workspaceId a \<noteq> w \<Longrightarrow> leaves w (createDeal now i aid a)"
  unfolding createDeal_def by (intro leaves_rules) (simp_all add: deal_row_of_def)

lemma leaves_insert_new_contact: "nc_workspaceId a \<noteq> w \<Longrightarrow> leaves w (insert_new_contact now i aid a enc key)"
  unfolding insert_new_contact_def by (intro leaves_rules) (simp_all add: contact_row_of_def)

lemma leaves_createContact: "nc_workspaceId a \<noteq> w \<Longrightarrow> leaves w (createContact E now i aid iv a)"
  unfolding createContact_def by (intro leaves_rules leaves_insert_new_contact) simp_all

lemma leaves_upserts:
  "v \<noteq> w \<Longrightarrow> leaves w (upsertAccount now i aid v name domain u)"
  "cd_workspaceId d \<noteq> w \<Longrightarrow> leaves w (upsertDeal now i aid d)"
  "nc_workspaceId a \<noteq> w \<Longrightarrow> leaves w (upsertContact E now i aid iv a)"
  unfolding upsertAccount_def upsertDeal_def upsertContact_def name_match_or_create_def getDeal_def Let_def
  by (intro leaves_rules leaves_createAccount leaves_createDeal leaves_createContact; simp)+

lemma leaves_updates:
  "v \<noteq> w \<Longrightarrow> leaves w (updateAccount now aids v i pa u)"
  "v \<noteq> w \<Longrightarrow> leaves w (updateDeal now aids v i pd u)"
  "v \<noteq> w \<Longrightarrow> leaves w (updateContact now aids v i pc u)"
  "v \<noteq> w \<Longrightarrow> leaves w (moveDealStage now aid v i st act)"
  unfolding updateAccount_def updateDeal_def updateContact_def moveDealStage_def
  by (intro leaves_rules; simp add: patch_account_def patch_deal_def patch_contact_def)+

lemma leaves_deletes:
  "v \<noteq> w \<Longrightarrow> leaves w (deleteAccount E now v i u)"
  "v \<noteq> w \<Longrightarrow> leaves w (deleteDeal E now v i u)"
  "v \<noteq> w \<Longrightarrow> leaves w (deleteContact E now v i u)"
  unfolding deleteAccount_def deleteDeal_def deleteContact_def
  by (intro leaves_rules; simp add: audit_input_def)+

lemma leaves_fields:
  "cf_workspaceId x \<noteq> w \<Longrightarrow> leaves w (createFieldDef E now i x)"
  "v \<noteq> w \<Longrightarrow> leaves w (updateFieldDef E now v i p u)"
  "v \<noteq> w \<Longrightarrow> leaves w (deleteFieldDef E now v i u)"
  "v \<noteq> w \<Longrightarrow> leaves w (seedDefaultCrmFields now ids v u)"
  unfolding createFieldDef_def updateFieldDef_def deleteFieldDef_def seedDefaultCrmFields_def
  by (intro leaves_rules; simp add: audit_input_def patch_field_def_def)+

lemma leaves_setFieldValue: "sf_workspaceId a \<noteq> w \<Longrightarrow> leaves w (setFieldValue K now i aid iv a)"
  unfolding setFieldValue_def Let_def by (intro leaves_rules) simp_all

lemma leaves_notes:
  "an_workspaceId a \<noteq> w \<Longrightarrow> leaves w (addNote E now i aid ivs a)"
  "leaves w (addComment E now i iv v n b u g)"
  "v \<noteq> w \<Longrightarrow> leaves w (setNotePinned now v i pin)"
  unfolding addNote_def addComment_def setNotePinned_def Let_def
  by (intro leaves_rules; simp add: audit_input_def)+

lemma leaves_tags:
  "v \<noteq> w \<Longrightarrow> leaves w (tagRecord now aid v e r t u)"
  "v \<noteq> w \<Longrightarrow> leaves w (untagRecord v e r t)"
  unfolding tagRecord_def untagRecord_def assertTagInWorkspace_def existingRecordIds_def
  by (intro leaves_rules; simp add: record_tag_of_def)+

lemma leaves_bulkTag: "v \<noteq> w \<Longrightarrow> leaves w (bulkTagRecords now aids v e is t u)"
proof -
  assume v: "v \<noteq> w"
  have one: "leaves w (act_bind (tag_unless_tagged (record_tag_of v e t i)) (\<lambda>_. act_return ()))" for i
    by (intro leaves_rules) (simp add: record_tag_of_def v)
  have "leaves w (act_for (map (record_tag_of v e t) rs) (\<lambda>r. act_bind (tag_unless_tagged r) (\<lambda>_. act_return ())))" for rs
  proof (induction rs)
    case (Cons i rs)
    then show ?case unfolding list.map act_for.simps by (intro frames_bind one)
  qed (simp add: frames_return)
  then have rows: "leaves w (insert_rows tag_unless_tagged (map (record_tag_of v e t) rs))" for rs
    unfolding insert_rows_def by (intro frames_transaction)
  show ?thesis unfolding bulkTagRecords_def assertTagInWorkspace_def existingRecordIds_def
    by (intro frames_if frames_bind frames_get frames_option frames_throw frames_return rows leaves_tag_activities v)
qed

text \<open>Merging re-points rows of its own workspace and deletes one of them.\<close>

lemma leaves_repoints:
  assumes "v \<noteq> w"
  shows "leaves w (repointNotes v e dup canon)" "leaves w (repointActivity v e dup canon)" "leaves w (repointFieldValues v e dup canon)"
    "leaves w (repointTags v e dup canon)" "leaves w (repointLinks dup canon)"
  unfolding repointNotes_def repointActivity_def repointFieldValues_def repointTags_def repointLinks_def repoint_unique_def Let_def
  by (intro leaves_rules; use assms in \<open>auto simp: of_record_def value_of_def tag_of_def\<close>)+

lemma leaves_merges:
  assumes "v \<noteq> w"
  shows "leaves w (merge_account v dup canon)" "leaves w (merge_deal v dup canon)" "leaves w (merge_contact v dup canon)"
  unfolding merge_account_def merge_deal_def merge_contact_def
  by (intro leaves_rules leaves_repoints; use assms in simp)+

lemma leaves_merge: "v \<noteq> w \<Longrightarrow> leaves w (mergeRecord E now v e dup canon u)"
  unfolding mergeRecord_def repoint_shared_def
  by (cases e; simp; intro conjI impI leaves_rules leaves_repoints leaves_merges; simp add: audit_input_def)

lemma frames_merge_pass: "(\<And>i c. frames f (mrg i c)) \<Longrightarrow> frames f (merge_pass mrg rows st)"
  by (induction mrg rows st rule: merge_pass.induct) (simp, intro frame_intros, simp, intro conjI impI frame_intros, auto intro: frame_intros split: option.split)

lemma leaves_dedupe: "v \<noteq> w \<Longrightarrow> leaves w (dedupeWorkspaceCrm E now v op)"
  unfolding dedupeWorkspaceCrm_def Let_def by (intro frame_intros frames_merge_pass leaves_merge)

lemma leaves_views: "v \<noteq> w \<Longrightarrow> leaves w (saveView now i v e name u sh cfg)" "v \<noteq> w \<Longrightarrow> leaves w (deleteView v j u)"
  unfolding saveView_def deleteView_def by (intro leaves_rules; simp)+

lemmas leaves_all = leaves_activity leaves_merge leaves_dedupe leaves_views leaves_createAccount leaves_createDeal leaves_createContact leaves_upserts leaves_updates leaves_deletes leaves_fields
  leaves_setFieldValue leaves_notes leaves_tags leaves_bulkTag leaves_createTag

lemma crm_run_leaves: "crm_home c \<noteq> w \<Longrightarrow> holdings (crm_run c s) w = holdings s w"
  by (cases c) (simp_all add: leaves_all [THEN frames_snd])

interpretation crm_tenants: tenant_scoped holdings crm_run crm_home "\<lambda>_. True"
  by unfold_locales (simp_all add: crm_run_leaves)

text \<open>C14. Workspaces are isolated in the CRM. Whatever accounts, deals, contacts, fields, values, notes, comments, tags and saved views other workspaces create,
  change and delete and whatever duplicates they merge, in any order and number, successfully or not, the records of a workspace, their field values,
  notes, activity, tags and views, its documents, events, imported rows and agent threads, and its audit records are exactly what they were.\<close>

theorem crm_tenant_isolation:
  assumes "\<And>c. c \<in> set cs \<Longrightarrow> crm_home c \<noteq> w"
  shows "holdings (fold crm_run cs s) w = holdings s w"
  using crm_tenants.run_frame [of cs w s] assms by blast

theorem crm_tenant_isolation_witness:
  "holdings (fold crm_run [CreateDealReq 5 ''d1'' ''a1'' demo_deal, UpdateAccountReq 6 (\<lambda>_. ''a2'') ''w1'' ''acme'' \<lparr>pa_name = Some ''X'', pa_domain = None\<rparr> ''alice'',
      MergeReq demo_env 7 ''w1'' CrmAccount ''acme'' ''zenith'' ''alice'', DeleteAccountReq demo_env 8 ''w1'' ''acme'' ''alice''] demo_accounts) ''w2'' = holdings demo_accounts ''w2''
   \<and> ho_accounts (holdings demo_accounts ''w2'') = [demo_account]"
proof
  show "holdings (fold crm_run [CreateDealReq 5 ''d1'' ''a1'' demo_deal, UpdateAccountReq 6 (\<lambda>_. ''a2'') ''w1'' ''acme'' \<lparr>pa_name = Some ''X'', pa_domain = None\<rparr> ''alice'',
      MergeReq demo_env 7 ''w1'' CrmAccount ''acme'' ''zenith'' ''alice'', DeleteAccountReq demo_env 8 ''w1'' ''acme'' ''alice''] demo_accounts) ''w2'' = holdings demo_accounts ''w2''"
    by (rule crm_tenant_isolation) (auto simp: demo_deal_def)
  show "ho_accounts (holdings demo_accounts ''w2'') = [demo_account]" by (simp add: holdings_def demo_accounts_tables demo_account_def)
qed

end
