(* ===== verification/Routes_Work.thy ===== *)
theory Routes_Work
  imports Routes_Comms Crm_Table Projects Tenancy Settings
begin

text \<open>
  The route handlers under \<^verbatim>\<open>app/api/workspaces/[id]\<close> for the CRM, projects and tasks, the calendar, notifications, profile and settings, and the
  reminder cron. A handler that takes a kind of record from its path checks it before the guard, as the source does.
\<close>

definition internal_guard :: "app_env \<Rightarrow> call \<Rightarrow> uuid \<Rightarrow> (db, MemberCtx) act" where
  "internal_guard X c w = requireInternal (ax_web X) (cl_req c) w"

definition audited :: "app_env \<Rightarrow> call \<Rightarrow> uuid \<Rightarrow> MemberCtx \<Rightarrow> string \<Rightarrow> string \<Rightarrow> (db, unit) act" where
  "audited X c w ctx event target = act_bind (appendAudit (ax_crypto X) (cl_now c) (audit_input w (Some (ctx_sub ctx)) event (Some target))) (\<lambda>_. act_return ())"

subsection \<open>Accounts, contacts, deals\<close>

definition accounts_GET :: "app_env \<Rightarrow> call \<Rightarrow> uuid \<Rightarrow> db \<Rightarrow> AccountRow list response \<times> db" where
  "accounts_GET X c w = route (act_bind (internal_guard X c w) (\<lambda>_. act_bind (listAccounts (ax_crm X) w) (\<lambda>xs. act_return (Reply 200 xs))))"

definition accounts_POST :: "app_env \<Rightarrow> call \<Rightarrow> uuid \<Rightarrow> db \<Rightarrow> AccountRow response \<times> db" where
  "accounts_POST X c w = route (act_bind (cap_guard X c w CreateRecord) (\<lambda>ctx.
     with_parsed (ax_api X) c createAccountSchema (\<lambda>d.
     act_bind (createAccount (cl_now c) (cl_id c 0) (cl_id c 1) w (d_str d ''name'') (d_opt d ''domain'') (ctx_sub ctx)) (\<lambda>account.
     act_bind (audited X c w ctx ''account_created'' (ar_id account)) (\<lambda>_. act_return (Reply 201 account))))))"

definition contacts_GET :: "app_env \<Rightarrow> call \<Rightarrow> uuid \<Rightarrow> db \<Rightarrow> ContactRow list response \<times> db" where
  "contacts_GET X c w = route (act_bind (internal_guard X c w) (\<lambda>_. act_bind (listContacts (ax_crm X) w) (\<lambda>xs. act_return (Reply 200 xs))))"

definition contacts_POST :: "app_env \<Rightarrow> call \<Rightarrow> uuid \<Rightarrow> db \<Rightarrow> ContactRow response \<times> db" where
  "contacts_POST X c w = route (act_bind (cap_guard X c w CreateRecord) (\<lambda>ctx.
     with_parsed (ax_api X) c createContactSchema (\<lambda>d.
     act_bind (createContact (ax_crypto X) (cl_now c) (cl_id c 0) (cl_id c 1) (cl_iv c 0) \<lparr>nc_workspaceId = w, nc_name = d_str d ''name'',
        nc_title = d_opt d ''title'', nc_accountId = d_opt d ''accountId'', nc_ownerSub = ctx_sub ctx, nc_email = None\<rparr>) (\<lambda>contact.
     act_bind (audited X c w ctx ''contact_created'' (cr_id contact)) (\<lambda>_. act_return (Reply 201 contact))))))"

definition deals_GET :: "app_env \<Rightarrow> call \<Rightarrow> uuid \<Rightarrow> db \<Rightarrow> DealRow list response \<times> db" where
  "deals_GET X c w = route (act_bind (internal_guard X c w) (\<lambda>_. act_bind (listDeals w) (\<lambda>xs. act_return (Reply 200 xs))))"

definition deals_POST :: "app_env \<Rightarrow> call \<Rightarrow> uuid \<Rightarrow> db \<Rightarrow> DealRow response \<times> db" where
  "deals_POST X c w = route (act_bind (cap_guard X c w CreateRecord) (\<lambda>ctx.
     with_parsed (ax_api X) c createDealSchema (\<lambda>d.
     act_bind (createDeal (cl_now c) (cl_id c 0) (cl_id c 1) \<lparr>cd_workspaceId = w, cd_accountId = d_str d ''accountId'', cd_name = d_str d ''name'',
        cd_valueMinor = or_default (d_int d ''valueMinor'') 0, cd_ownerSub = ctx_sub ctx\<rparr>) (\<lambda>deal.
     act_bind (audited X c w ctx ''deal_created'' (dr_id deal)) (\<lambda>_. act_return (Reply 201 deal))))))"

definition deals_PATCH :: "app_env \<Rightarrow> call \<Rightarrow> uuid \<Rightarrow> db \<Rightarrow> unit response \<times> db" where
  "deals_PATCH X c w = route (act_bind (cap_guard X c w CreateRecord) (\<lambda>ctx.
     with_parsed (ax_api X) c moveDealSchema (\<lambda>d.
     act_bind (moveDealStage (cl_now c) (cl_id c 0) w (d_str d ''dealId'') (d_str d ''stage'') (Some (ctx_sub ctx))) (\<lambda>_.
     act_bind (audited X c w ctx ''deal_stage_changed'' (d_str d ''dealId'' @ '':'' @ d_str d ''stage'')) (\<lambda>_. act_return (Reply 200 ()))))))"

subsection \<open>Records of the CRM\<close>

definition parseEntity :: "string \<Rightarrow> CrmEntity option" where
  "parseEntity s = first_where (\<lambda>e. entity_name e = s) [CrmAccount, CrmDeal, CrmContact]"

definition entity_of :: "string \<Rightarrow> CrmEntity" where
  "entity_of s = or_default (parseEntity s) CrmAccount"

text \<open>\<^verbatim>\<open>const entity = parseEntity(entityRaw); if (!entity) return 400\<close>, continued with the entity.\<close>

definition with_entity :: "string \<Rightarrow> (CrmEntity \<Rightarrow> (db, 'a response) act) \<Rightarrow> (db, 'a response) act" where
  "with_entity raw k = (case parseEntity raw of None \<Rightarrow> act_return (Failure 400 ''bad_entity'') | Some e \<Rightarrow> k e)"

text \<open>\<^verbatim>\<open>if (!(await recordExists(...))) return 404\<close>.\<close>

definition if_record :: "uuid \<Rightarrow> CrmEntity \<Rightarrow> uuid \<Rightarrow> (db, 'a response) act \<Rightarrow> (db, 'a response) act" where
  "if_record w e recordId k = act_bind (recordExists w e recordId) (\<lambda>ok. if \<not> ok then act_return (Failure 404 ''not_found'') else k)"

definition record_PATCH :: "app_env \<Rightarrow> call \<Rightarrow> uuid \<Rightarrow> string \<Rightarrow> uuid \<Rightarrow> db \<Rightarrow> unit response \<times> db" where
  "record_PATCH X c w entityRaw recordId = route (with_entity entityRaw (\<lambda>e.
     act_bind (cap_guard X c w CreateRecord) (\<lambda>ctx.
     if_record w e recordId (with_parsed (ax_api X) c crmRecordUpdateSchema (\<lambda>p.
     act_bind (case e of
         CrmAccount \<Rightarrow> updateAccount (cl_now c) (cl_id c) w recordId \<lparr>pa_name = d_opt p ''name'', pa_domain = map_option Some (d_opt p ''domain'')\<rparr> (ctx_sub ctx)
       | CrmDeal \<Rightarrow> updateDeal (cl_now c) (cl_id c) w recordId \<lparr>pd_name = d_opt p ''name'', pd_valueMinor = d_int p ''valueMinor''\<rparr> (ctx_sub ctx)
       | CrmContact \<Rightarrow> updateContact (cl_now c) (cl_id c) w recordId \<lparr>pc_name = d_opt p ''name'', pc_title = map_option Some (d_opt p ''title'')\<rparr> (ctx_sub ctx))
     (\<lambda>_. act_return (Reply 200 ())))))))"

definition record_DELETE :: "app_env \<Rightarrow> call \<Rightarrow> uuid \<Rightarrow> string \<Rightarrow> uuid \<Rightarrow> db \<Rightarrow> unit response \<times> db" where
  "record_DELETE X c w entityRaw recordId = route (with_entity entityRaw (\<lambda>e.
     act_bind (cap_guard X c w DeleteRecord) (\<lambda>ctx.
     if_record w e recordId (case e of
         CrmAccount \<Rightarrow> act_bind (accountHasChildren w recordId) (\<lambda>kids.
           if kids then act_return (Failure 409 ''account_has_children'')
           else act_bind (deleteAccount (ax_crypto X) (cl_now c) w recordId (ctx_sub ctx)) (\<lambda>_. act_return (Reply 200 ())))
       | CrmDeal \<Rightarrow> act_bind (deleteDeal (ax_crypto X) (cl_now c) w recordId (ctx_sub ctx)) (\<lambda>_. act_return (Reply 200 ()))
       | CrmContact \<Rightarrow> act_bind (deleteContact (ax_crypto X) (cl_now c) w recordId (ctx_sub ctx)) (\<lambda>_. act_return (Reply 200 ()))))))"

definition record_fields_POST :: "app_env \<Rightarrow> call \<Rightarrow> uuid \<Rightarrow> string \<Rightarrow> uuid \<Rightarrow> db \<Rightarrow> unit response \<times> db" where
  "record_fields_POST X c w entityRaw recordId = route (with_entity entityRaw (\<lambda>e.
     act_bind (cap_guard X c w CreateRecord) (\<lambda>ctx.
     if_record w e recordId (with_parsed (ax_api X) c crmFieldValueSchema (\<lambda>d.
     act_bind (setFieldValue (ax_crm X) (cl_now c) (cl_id c 0) (cl_id c 1) (cl_iv c 0) \<lparr>sf_workspaceId = w, sf_entity = e, sf_recordId = recordId,
        sf_fieldId = d_str d ''fieldId'', sf_raw = d_str d ''value'', sf_bySub = ctx_sub ctx, sf_byAgent = None\<rparr>) (\<lambda>_. act_return (Reply 200 ())))))))"

definition notes_POST :: "app_env \<Rightarrow> call \<Rightarrow> uuid \<Rightarrow> string \<Rightarrow> uuid \<Rightarrow> db \<Rightarrow> NoteRow response \<times> db" where
  "notes_POST X c w entityRaw recordId = route (with_entity entityRaw (\<lambda>e.
     act_bind (cap_guard X c w CreateRecord) (\<lambda>ctx.
     if_record w e recordId (with_parsed (ax_api X) c crmNoteSchema (\<lambda>d.
     act_bind (addNote (ax_crypto X) (cl_now c) (cl_id c 0) (cl_id c 1) (cl_iv c) \<lparr>an_workspaceId = w, an_entity = e, an_recordId = recordId,
        an_type = d_str d ''type'', an_title = d_opt d ''title'', an_body = d_str d ''body'', an_authorSub = ctx_sub ctx, an_byAgent = None,
        an_personaId = None\<rparr>) (\<lambda>note. act_return (Reply 201 note)))))))"

definition notes_PATCH :: "app_env \<Rightarrow> call \<Rightarrow> uuid \<Rightarrow> db \<Rightarrow> unit response \<times> db" where
  "notes_PATCH X c w = route (act_bind (cap_guard X c w CreateRecord) (\<lambda>_.
     with_parsed (ax_api X) c crmNotePinSchema (\<lambda>d.
     act_bind (setNotePinned (cl_now c) w (d_str d ''noteId'') (or_default (d_bool d ''pinned'') False)) (\<lambda>_. act_return (Reply 200 ())))))"

text \<open>\<^verbatim>\<open>parsed.data.tagId ?? (await createTag(id, parsed.data.label!)).id\<close>; reading \<^verbatim>\<open>.id\<close> of no row throws.\<close>

definition tag_for :: "call \<Rightarrow> uuid \<Rightarrow> json \<Rightarrow> (db, uuid) act" where
  "tag_for c w d = (case d_opt d ''tagId'' of Some t \<Rightarrow> act_return t
     | None \<Rightarrow> act_bind (createTag (cl_id c 0) w (d_str d ''label'') None) (\<lambda>t. case t of
         Some r \<Rightarrow> act_return (tv_tag r) | None \<Rightarrow> act_throw (JsError ''Cannot read properties of undefined'')))"

definition names_a_tag :: "json \<Rightarrow> bool" where
  "names_a_tag d \<longleftrightarrow> truthy (d_opt d ''tagId'') \<or> truthy (d_opt d ''label'')"

definition tags_POST :: "app_env \<Rightarrow> call \<Rightarrow> uuid \<Rightarrow> string \<Rightarrow> uuid \<Rightarrow> db \<Rightarrow> uuid response \<times> db" where
  "tags_POST X c w entityRaw recordId = route (with_entity entityRaw (\<lambda>e.
     act_bind (cap_guard X c w CreateRecord) (\<lambda>ctx.
     if_record w e recordId (with_parsed (ax_api X) c crmTagAddSchema (\<lambda>d.
     if \<not> names_a_tag d then act_return (Failure 400 ''invalid'')
     else act_bind (tag_for c w d) (\<lambda>tagId.
       act_bind (tagRecord (cl_now c) (cl_id c 1) w e recordId tagId (ctx_sub ctx)) (\<lambda>_. act_return (Reply 201 tagId))))))))"

definition tags_DELETE :: "app_env \<Rightarrow> call \<Rightarrow> uuid \<Rightarrow> string \<Rightarrow> uuid \<Rightarrow> db \<Rightarrow> unit response \<times> db" where
  "tags_DELETE X c w entityRaw recordId = route (with_entity entityRaw (\<lambda>e.
     act_bind (cap_guard X c w CreateRecord) (\<lambda>_.
     with_parsed (ax_api X) c crmTagRemoveSchema (\<lambda>d.
     act_bind (untagRecord w e recordId (d_str d ''tagId'')) (\<lambda>_. act_return (Reply 200 ()))))))"

definition bulk_tag_POST :: "app_env \<Rightarrow> call \<Rightarrow> uuid \<Rightarrow> string \<Rightarrow> db \<Rightarrow> (nat \<times> uuid) response \<times> db" where
  "bulk_tag_POST X c w entityRaw = route (with_entity entityRaw (\<lambda>e.
     act_bind (cap_guard X c w CreateRecord) (\<lambda>ctx.
     with_parsed (ax_api X) c crmBulkTagSchema (\<lambda>d.
     if \<not> names_a_tag d then act_return (Failure 400 ''invalid'')
     else act_bind (tag_for c w d) (\<lambda>tagId.
       act_bind (bulkTagRecords (cl_now c) (\<lambda>i. cl_id c (Suc i)) w e (or_default (d_strs d ''recordIds'') []) tagId (ctx_sub ctx)) (\<lambda>n.
       act_return (Reply 200 (n, tagId))))))))"

subsection \<open>Custom fields, tables, views\<close>

definition field_options :: "json \<Rightarrow> FieldOption list option" where
  "field_options d = map_option (map (\<lambda>x. (d_str x ''key'', d_str x ''label''))) (d_list d ''options'')"

definition field_type_of :: "string \<Rightarrow> CrmFieldType" where
  "field_type_of s = or_default (first_where (\<lambda>t. field_type_name t = s)
     [FText, FLongtext, FNumber, FCurrency, FDate, FSelect, FMultiselect, FBoolean, FUrl, FEmail, FPhone, FUser]) FText"

definition fields_GET :: "app_env \<Rightarrow> call \<Rightarrow> uuid \<Rightarrow> db \<Rightarrow> (CrmEntity \<times> FieldDef list) list response \<times> db" where
  "fields_GET X c w = route (act_bind (internal_guard X c w) (\<lambda>_.
     let includeDisabled = (cl_query c ''all'' = Some ''1'');
         entities = (case cl_query c ''entity'' of
            None \<Rightarrow> [CrmAccount, CrmDeal, CrmContact]
          | Some raw \<Rightarrow> (case parseEntity raw of Some e \<Rightarrow> [e] | None \<Rightarrow> [CrmAccount, CrmDeal, CrmContact])) in
     act_bind (act_get (\<lambda>s. map (\<lambda>e. (e, case listFieldDefs w e includeDisabled s of (Inr ds, _) \<Rightarrow> ds | (Inl _, _) \<Rightarrow> [])) entities)) (\<lambda>out.
     act_return (Reply 200 out))))"

definition fields_POST :: "app_env \<Rightarrow> call \<Rightarrow> uuid \<Rightarrow> db \<Rightarrow> FieldDef response \<times> db" where
  "fields_POST X c w = route (act_bind (cap_guard X c w ManageWorkspace) (\<lambda>ctx.
     with_parsed (ax_api X) c crmFieldDefCreateSchema (\<lambda>d.
     act_bind (createFieldDef (ax_crypto X) (cl_now c) (cl_id c 0) \<lparr>cf_workspaceId = w, cf_entity = entity_of (d_str d ''entity''), cf_key = d_str d ''key'',
        cf_label = d_str d ''label'', cf_type = field_type_of (d_str d ''type''), cf_options = field_options d, cf_required = d_bool d ''required'',
        cf_sensitive = d_bool d ''sensitive'', cf_ord = d_int d ''ord'', cf_createdBy = ctx_sub ctx\<rparr>) (\<lambda>def. act_return (Reply 201 def)))))"

definition field_PATCH :: "app_env \<Rightarrow> call \<Rightarrow> uuid \<Rightarrow> uuid \<Rightarrow> db \<Rightarrow> unit response \<times> db" where
  "field_PATCH X c w fieldId = route (act_bind (cap_guard X c w ManageWorkspace) (\<lambda>ctx.
     with_parsed (ax_api X) c crmFieldDefUpdateSchema (\<lambda>d.
     act_bind (updateFieldDef (ax_crypto X) (cl_now c) w fieldId \<lparr>uf_label = d_opt d ''label'', uf_options = field_options d,
        uf_required = d_bool d ''required'', uf_sensitive = d_bool d ''sensitive'', uf_ord = d_int d ''ord'', uf_enabled = d_bool d ''enabled''\<rparr> (ctx_sub ctx)) (\<lambda>_.
     act_return (Reply 200 ())))))"

definition field_DELETE :: "app_env \<Rightarrow> call \<Rightarrow> uuid \<Rightarrow> uuid \<Rightarrow> db \<Rightarrow> unit response \<times> db" where
  "field_DELETE X c w fieldId = route (act_bind (cap_guard X c w ManageWorkspace) (\<lambda>ctx.
     act_bind (deleteFieldDef (ax_crypto X) (cl_now c) w fieldId (ctx_sub ctx)) (\<lambda>_. act_return (Reply 200 ()))))"

definition records_GET :: "app_env \<Rightarrow> table_env \<Rightarrow> call \<Rightarrow> uuid \<Rightarrow> string \<Rightarrow> db \<Rightarrow> RecordsTable response \<times> db" where
  "records_GET X T c w entityRaw = route (with_entity entityRaw (\<lambda>e.
     act_bind (internal_guard X c w) (\<lambda>_. act_bind (queryRecords T w e) (\<lambda>t. act_return (Reply 200 t)))))"

definition views_GET :: "app_env \<Rightarrow> table_env \<Rightarrow> call \<Rightarrow> uuid \<Rightarrow> db \<Rightarrow> SavedView list response \<times> db" where
  "views_GET X T c w = route (act_bind (internal_guard X c w) (\<lambda>ctx.
     with_entity (or_default (cl_query c ''entity'') []) (\<lambda>e.
     act_bind (listViews T w e (ctx_sub ctx)) (\<lambda>vs. act_return (Reply 200 vs)))))"

definition view_config :: "json \<Rightarrow> ViewConfig" where
  "view_config d = (let cfg = or_default (jget d ''config'') JNull in
     \<lparr>vc_columns = or_default (d_strs cfg ''columns'') [], vc_sort = map_option (\<lambda>x. (d_str x ''key'', d_str x ''dir'')) (jget cfg ''sort''),
      vc_search = d_opt cfg ''search''\<rparr>)"

definition views_POST :: "app_env \<Rightarrow> call \<Rightarrow> uuid \<Rightarrow> db \<Rightarrow> SavedView response \<times> db" where
  "views_POST X c w = route (act_bind (cap_guard X c w CreateRecord) (\<lambda>ctx.
     with_parsed (ax_api X) c crmViewSaveSchema (\<lambda>d.
     act_bind (saveView (cl_now c) (cl_id c 0) w (entity_of (d_str d ''entity'')) (d_str d ''name'') (ctx_sub ctx) (d_bool d ''shared'') (view_config d)) (\<lambda>view.
     act_return (Reply 201 view)))))"

definition views_DELETE :: "app_env \<Rightarrow> call \<Rightarrow> uuid \<Rightarrow> db \<Rightarrow> unit response \<times> db" where
  "views_DELETE X c w = route (act_bind (internal_guard X c w) (\<lambda>ctx.
     with_parsed (ax_api X) c crmViewDeleteSchema (\<lambda>d.
     act_bind (deleteView w (d_str d ''viewId'') (ctx_sub ctx)) (\<lambda>_. act_return (Reply 200 ())))))"

subsection \<open>Projects and tasks\<close>

definition projects_GET :: "app_env \<Rightarrow> call \<Rightarrow> uuid \<Rightarrow> db \<Rightarrow> ProjectRow list response \<times> db" where
  "projects_GET X c w = route (act_bind (internal_guard X c w) (\<lambda>_. act_bind (listProjects w) (\<lambda>ps. act_return (Reply 200 ps))))"

definition projects_POST :: "app_env \<Rightarrow> call \<Rightarrow> uuid \<Rightarrow> db \<Rightarrow> ProjectRow response \<times> db" where
  "projects_POST X c w = route (act_bind (cap_guard X c w CreateRecord) (\<lambda>ctx.
     with_parsed (ax_api X) c createProjectSchema (\<lambda>d.
     act_bind (createProject (cl_now c) (cl_id c 0) w (d_str d ''name'')) (\<lambda>project.
     act_bind (audited X c w ctx ''project_created'' (pr_id project)) (\<lambda>_. act_return (Reply 201 project))))))"

definition project_DELETE :: "app_env \<Rightarrow> call \<Rightarrow> uuid \<Rightarrow> uuid \<Rightarrow> db \<Rightarrow> unit response \<times> db" where
  "project_DELETE X c w projectId = route (act_bind (cap_guard X c w DeleteRecord) (\<lambda>ctx.
     act_bind (deleteProject w projectId) (\<lambda>_.
     act_bind (audited X c w ctx ''project_deleted'' projectId) (\<lambda>_. act_return (Reply 200 ())))))"

text \<open>The ids and initialisation vectors a request draws, for the calendar: \<open>i\<close> separates two uses in one request.\<close>

definition fresh_of :: "call \<Rightarrow> nat \<Rightarrow> fresh" where
  "fresh_of c i = \<lparr>fr_event = cl_id c (10 * i + 3), fr_reminder = (\<lambda>n. cl_id c (1000 * Suc n + 10 * i + 4)), fr_reminder2 = (\<lambda>n. cl_id c (1000 * Suc n + 10 * i + 5)),
     fr_notif = (\<lambda>n. cl_id c (1000 * Suc n + 10 * i + 6)), fr_iv = (\<lambda>n. cl_iv c (10 * i + n))\<rparr>"

definition raci_list :: "json \<Rightarrow> RaciAssignment list option" where
  "raci_list d = map_option (map (\<lambda>x. \<lparr>rc_sub = d_str x ''sub'', rc_role = d_str x ''role''\<rparr>)) (d_list d ''raci'')"

definition tasks_GET :: "app_env \<Rightarrow> call \<Rightarrow> uuid \<Rightarrow> db \<Rightarrow> TaskRow list response \<times> db" where
  "tasks_GET X c w = route (act_bind (internal_guard X c w) (\<lambda>_.
     act_bind (listTasks w (cl_query c ''projectId'')) (\<lambda>ts. act_return (Reply 200 ts))))"

definition tasks_POST :: "app_env \<Rightarrow> call \<Rightarrow> uuid \<Rightarrow> db \<Rightarrow> (TaskRow \<times> outgoing list) response \<times> db" where
  "tasks_POST X c w = route (act_bind (cap_guard X c w CreateRecord) (\<lambda>ctx.
     with_parsed (ax_api X) c createTaskSchema (\<lambda>d.
     with_date X (d_opt d ''due'') (\<lambda>due.
     act_bind (createTask (ax_cal X) (cl_now c) (cl_id c 0) (cl_id c 1) (fresh_of c 0) \<lparr>ti_workspaceId = w, ti_projectId = d_opt d ''projectId'',
        ti_title = d_str d ''title'', ti_assigneeSub = d_opt d ''assigneeSub'', ti_priority = d_opt d ''priority'', ti_due = due,
        ti_actorSub = Some (ctx_sub ctx)\<rparr>) (\<lambda>(task, out).
     act_bind (case raci_list d of
         Some (r # rs) \<Rightarrow> setTaskRaci (ax_cal X) (cl_now c) (fresh_of c 1) w (tv_id task) (r # rs) (Some (ctx_sub ctx))
       | _ \<Rightarrow> act_return []) (\<lambda>out2.
     act_bind (audited X c w ctx ''task_created'' (tv_id task)) (\<lambda>_. act_return (Reply 201 (task, out @ out2)))))))))"

definition status_of :: "string \<Rightarrow> TaskStatus" where
  "status_of s = or_default (first_where (\<lambda>st. status_text st = s) [Backlog, Todo, InProgress, InReview, Done]) Backlog"

definition tasks_PATCH :: "app_env \<Rightarrow> call \<Rightarrow> uuid \<Rightarrow> db \<Rightarrow> unit response \<times> db" where
  "tasks_PATCH X c w = route (act_bind (cap_guard X c w CreateRecord) (\<lambda>ctx.
     with_parsed (ax_api X) c moveTaskSchema (\<lambda>d.
     act_bind (moveTask w (d_str d ''taskId'') (status_of (d_str d ''status''))) (\<lambda>_.
     act_bind (audited X c w ctx ''task_moved'' (d_str d ''taskId'' @ '':'' @ d_str d ''status'')) (\<lambda>_. act_return (Reply 200 ()))))))"

definition task_PATCH :: "app_env \<Rightarrow> call \<Rightarrow> uuid \<Rightarrow> uuid \<Rightarrow> db \<Rightarrow> outgoing list response \<times> db" where
  "task_PATCH X c w taskId = route (act_bind (cap_guard X c w CreateRecord) (\<lambda>ctx.
     with_parsed (ax_api X) c editTaskSchema (\<lambda>d.
     with_date X (d_opt d ''due'') (\<lambda>due.
     act_bind (updateTask (ax_cal X) (cl_now c) (cl_id c 0) (fresh_of c 0) w taskId \<lparr>tp_title = d_opt d ''title'', tp_priority = d_opt_null d ''priority'',
        tp_assigneeSub = d_opt_null d ''assigneeSub'', tp_due = (if jget d ''due'' = None then None else Some due)\<rparr> (Some (ctx_sub ctx))) (\<lambda>out.
     act_bind (case raci_list d of
         Some rs \<Rightarrow> setTaskRaci (ax_cal X) (cl_now c) (fresh_of c 1) w taskId rs (Some (ctx_sub ctx))
       | None \<Rightarrow> act_return []) (\<lambda>out2.
     act_bind (audited X c w ctx ''task_edited'' taskId) (\<lambda>_. act_return (Reply 200 (out @ out2)))))))))"

definition task_DELETE :: "app_env \<Rightarrow> call \<Rightarrow> uuid \<Rightarrow> uuid \<Rightarrow> db \<Rightarrow> outgoing list response \<times> db" where
  "task_DELETE X c w taskId = route (act_bind (cap_guard X c w DeleteRecord) (\<lambda>ctx.
     act_bind (deleteTask (ax_cal X) (cl_now c) (fresh_of c 0) w taskId (Some (ctx_sub ctx))) (\<lambda>out.
     act_bind (audited X c w ctx ''task_deleted'' taskId) (\<lambda>_. act_return (Reply 200 out)))))"

subsection \<open>The calendar\<close>

definition visibleEvent :: "app_env \<Rightarrow> MemberCtx \<Rightarrow> uuid \<Rightarrow> (db, CalendarEvent option) act" where
  "visibleEvent X ctx eventId = (if \<not> is_uuid eventId then act_return None
     else act_bind (getEvent (ax_crypto X) (ctx_workspaceId ctx) eventId) (\<lambda>event. act_return (case event of
       Some e \<Rightarrow> if canSeeEvent e (ctx_sub ctx) (ctx_role ctx) then Some e else None | None \<Rightarrow> None)))"

definition calendar_GET :: "app_env \<Rightarrow> call \<Rightarrow> uuid \<Rightarrow> db \<Rightarrow> CalendarEvent list response \<times> db" where
  "calendar_GET X c w = route (act_bind (member_guard X c w) (\<lambda>ctx.
     if \<not> truthy (cl_query c ''from'') \<or> \<not> truthy (cl_query c ''to'') then act_return (Failure 400 ''from and to (ISO) required'')
     else (case (av_date (ax_api X) (the (cl_query c ''from'')), av_date (ax_api X) (the (cl_query c ''to''))) of
        (Some a, Some b) \<Rightarrow> act_bind (listEventsInRange (ax_crypto X) (ctx_workspaceId ctx) (ctx_sub ctx) a b) (\<lambda>es. act_return (Reply 200 es))
      | _ \<Rightarrow> act_throw (JsError ''Invalid time value''))))"

definition attendee_list :: "json \<Rightarrow> (string \<times> string option) list" where
  "attendee_list d = map (\<lambda>x. (d_str x ''sub'', d_opt x ''raciRole'')) (or_default (d_list d ''attendees'') [])"

definition event_input :: "app_env \<Rightarrow> MemberCtx \<Rightarrow> json \<Rightarrow> CreateEventInput" where
  "event_input X ctx d = \<lparr>ce_workspaceId = ctx_workspaceId ctx, ce_createdBySub = ctx_sub ctx, ce_kind = d_opt d ''kind'', ce_title = d_str d ''title'',
     ce_description = d_opt d ''description'', ce_location = d_opt d ''location'', ce_startsAt = av_date (ax_api X) (d_str d ''startsAt''),
     ce_endsAt = av_date (ax_api X) (d_str d ''endsAt''), ce_allDay = d_bool d ''allDay'', ce_timezone = d_str d ''timezone'',
     ce_channelId = d_opt d ''channelId'', ce_projectId = d_opt d ''projectId'', ce_taskId = d_opt d ''taskId'', ce_dealId = d_opt d ''dealId'',
     ce_attendees = attendee_list d, ce_reminderOffsetsMin = map_option (map j_int) (d_list d ''reminderOffsetsMin'')\<rparr>"

definition calendar_POST :: "app_env \<Rightarrow> call \<Rightarrow> uuid \<Rightarrow> db \<Rightarrow> (uuid \<times> outgoing list) response \<times> db" where
  "calendar_POST X c w = route (act_bind (cap_guard X c w CreateRecord) (\<lambda>ctx.
     with_parsed (ax_api X) c createEventSchema (\<lambda>d.
     act_bind (createEvent (ax_cal X) (cl_now c) (fresh_of c 0) (event_input X ctx d)) (\<lambda>r. act_return (Reply 201 r)))))"

definition event_GET :: "app_env \<Rightarrow> call \<Rightarrow> uuid \<Rightarrow> uuid \<Rightarrow> db \<Rightarrow> CalendarEvent response \<times> db" where
  "event_GET X c w eventId = route (act_bind (member_guard X c w) (\<lambda>ctx.
     act_bind (visibleEvent X ctx eventId) (\<lambda>event. act_return (case event of
       None \<Rightarrow> Failure 404 ''not_found'' | Some e \<Rightarrow> Reply 200 e))))"

text \<open>\<^verbatim>\<open>const denied = await denyEdit(ctx, eventId); if (denied) return denied\<close>, continued otherwise.\<close>

definition denyEdit :: "app_env \<Rightarrow> MemberCtx \<Rightarrow> uuid \<Rightarrow> (db, 'a response option) act" where
  "denyEdit X ctx eventId = act_bind (visibleEvent X ctx eventId) (\<lambda>event. act_return (case event of
     None \<Rightarrow> Some (Failure 404 ''not_found'')
   | Some e \<Rightarrow> if \<not> canEditEvent e (ctx_sub ctx) (ctx_role ctx)
       then Some (Failure 403 ''only the organizer or an admin can change this event'') else None))"

definition date_patch :: "app_env \<Rightarrow> json \<Rightarrow> string \<Rightarrow> (ms option \<Rightarrow> (db, 'a) act) \<Rightarrow> (db, 'a) act" where
  "date_patch X d k f = (case d_opt d k of None \<Rightarrow> f None
     | Some t \<Rightarrow> (case av_date (ax_api X) t of Some m \<Rightarrow> f (Some m) | None \<Rightarrow> act_throw (JsError ''Invalid time value'')))"

definition event_PATCH :: "app_env \<Rightarrow> call \<Rightarrow> uuid \<Rightarrow> uuid \<Rightarrow> db \<Rightarrow> unit response \<times> db" where
  "event_PATCH X c w eventId = route (act_bind (cap_guard X c w CreateRecord) (\<lambda>ctx.
     with_parsed (ax_api X) c updateEventSchema (\<lambda>d.
     act_bind (denyEdit X ctx eventId) (\<lambda>denied. case denied of
       Some r \<Rightarrow> act_return r
     | None \<Rightarrow> date_patch X d ''startsAt'' (\<lambda>st. date_patch X d ''endsAt'' (\<lambda>en.
         act_bind (updateEvent (ax_cal X) (cl_now c) (fresh_of c 0) (ctx_workspaceId ctx) eventId \<lparr>up_title = d_opt d ''title'',
            up_description = d_opt_null d ''description'', up_location = d_opt_null d ''location'', up_startsAt = st, up_endsAt = en,
            up_allDay = d_bool d ''allDay'', up_timezone = d_opt d ''timezone'', up_status = d_opt d ''status''\<rparr>) (\<lambda>_. act_return (Reply 200 ()))))))))"

definition event_DELETE :: "app_env \<Rightarrow> call \<Rightarrow> uuid \<Rightarrow> uuid \<Rightarrow> db \<Rightarrow> outgoing list response \<times> db" where
  "event_DELETE X c w eventId = route (act_bind (cap_guard X c w CreateRecord) (\<lambda>ctx.
     act_bind (denyEdit X ctx eventId) (\<lambda>denied. case denied of
       Some r \<Rightarrow> act_return r
     | None \<Rightarrow> act_bind (cancelEvent (ax_cal X) (cl_now c) (fresh_of c 0) (ctx_workspaceId ctx) eventId (Some (ctx_sub ctx))) (\<lambda>out.
         act_return (Reply 200 out)))))"

definition rsvp_POST :: "app_env \<Rightarrow> call \<Rightarrow> uuid \<Rightarrow> uuid \<Rightarrow> db \<Rightarrow> unit response \<times> db" where
  "rsvp_POST X c w eventId = route (act_bind (member_guard X c w) (\<lambda>ctx.
     with_parsed (ax_api X) c rsvpSchema (\<lambda>d.
     act_bind (setAttendeeResponse (ctx_workspaceId ctx) eventId (ctx_sub ctx) (d_str d ''response'')) (\<lambda>_. act_return (Reply 200 ())))))"

subsection \<open>Notifications, profile, settings, the reminder cron\<close>

definition notifications_GET :: "app_env \<Rightarrow> call \<Rightarrow> uuid \<Rightarrow> db \<Rightarrow> (NotificationRow list option \<times> nat) response \<times> db" where
  "notifications_GET X c w = route (act_bind (member_guard X c w) (\<lambda>ctx.
     act_bind (unreadCount w (ctx_sub ctx)) (\<lambda>unread.
     if cl_query c ''count'' = Some ''1'' then act_return (Reply 200 (None, unread))
     else act_bind (listNotifications w (ctx_sub ctx) 30) (\<lambda>items. act_return (Reply 200 (Some items, unread))))))"

fun is_str :: "json \<Rightarrow> bool" where
  "is_str (JStr _) = True"
| "is_str _ = False"

definition notifications_POST :: "app_env \<Rightarrow> call \<Rightarrow> uuid \<Rightarrow> db \<Rightarrow> unit response \<times> db" where
  "notifications_POST X c w = route (act_bind (member_guard X c w) (\<lambda>ctx. let body = read_body c in
     if body = JNull then act_throw (JsError ''Cannot read properties of null'')
     else act_bind (markRead (cl_now c) w (ctx_sub ctx) (map_option (\<lambda>xs. map j_str (filter is_str xs)) (d_list body ''ids''))
        (jget body ''all'' = Some (JBool True))) (\<lambda>_. act_return (Reply 200 ()))))"

definition profile_PATCH :: "app_env \<Rightarrow> call \<Rightarrow> uuid \<Rightarrow> db \<Rightarrow> unit response \<times> db" where
  "profile_PATCH X c w = route (act_bind (member_guard X c w) (\<lambda>ctx.
     with_parsed (ax_api X) c updateProfileSchema (\<lambda>d.
     act_bind (case d_opt d ''displayName'' of Some n \<Rightarrow> updateDisplayName w (ctx_sub ctx) n | None \<Rightarrow> act_return ()) (\<lambda>_.
     act_bind (case d_opt d ''timezone'' of Some tz \<Rightarrow> setMemberTimezone w (ctx_sub ctx) tz | None \<Rightarrow> act_return ()) (\<lambda>_.
     act_return (Reply 200 ()))))))"

definition settings_GET :: "app_env \<Rightarrow> call \<Rightarrow> uuid \<Rightarrow> db \<Rightarrow> WorkspaceSettings response \<times> db" where
  "settings_GET X c w = route (act_bind (member_guard X c w) (\<lambda>_. act_bind (getSettings w) (\<lambda>st. act_return (Reply 200 st))))"

fun json_keys :: "json \<Rightarrow> string list" where
  "json_keys (JObj kvs) = map fst kvs"
| "json_keys _ = []"

definition settings_patch :: "json \<Rightarrow> WorkspaceSettings" where
  "settings_patch d = \<lparr>wt_notifications = (case jget d ''notifications'' of Some (JObj kvs) \<Rightarrow> Some (map (\<lambda>(k, v). (k, j_str v)) kvs) | _ \<Rightarrow> None),
     wt_automation = (case jget d ''automation'' of Some a \<Rightarrow> d_bool a ''autoWitness'' | None \<Rightarrow> None),
     wt_appearance = (case jget d ''appearance'' of Some a \<Rightarrow> Some \<lparr>wa_density = d_opt a ''density'', wa_accent = d_opt a ''accent'',
        wa_reducedMotion = d_bool a ''reducedMotion''\<rparr> | None \<Rightarrow> None), wt_ingest = None\<rparr>"

definition settings_PATCH :: "app_env \<Rightarrow> call \<Rightarrow> uuid \<Rightarrow> db \<Rightarrow> WorkspaceSettings response \<times> db" where
  "settings_PATCH X c w = route (act_bind (cap_guard X c w ManageWorkspace) (\<lambda>ctx.
     with_parsed (ax_api X) c updateSettingsSchema (\<lambda>d.
     act_bind (updateSettings w (settings_patch d)) (\<lambda>st.
     act_bind (audited X c w ctx ''settings_updated'' (js_join '','' (json_keys d))) (\<lambda>_. act_return (Reply 200 st))))))"

definition reminders_cron_GET :: "app_env \<Rightarrow> call \<Rightarrow> db \<Rightarrow> (nat \<times> nat \<times> outgoing list) response \<times> db" where
  "reminders_cron_GET X c = route (let secret = env (auth (ax_web X)) ''CRON_SECRET'' in
     if \<not> truthy secret then act_return (Failure 503 ''cron_disabled'')
     else if \<not> bearerMatches (ax_crypto X) (rq_headers (cl_req c) ''authorization'') secret then act_return (Failure 401 ''unauthorized'')
     else act_bind (runDueReminders (ax_cal X) (cl_now c) (cl_id c) 300) (\<lambda>r. act_return (Reply 200 r)))"

end
