(* ===== verification/Api.thy ===== *)
theory Api
  imports Routes_Work
begin

text \<open>
  The routes that write, gathered into one type of requests, and what holds of all of them: a request that changes anything came from an
  active member with the capability its route demands, seated in the channel where the route is a channel's.
\<close>

datatype api_request =
    MembersPatch uuid | MembersDelete uuid | InvitesPost uuid | InvitesBatchPost uuid
  | ChannelsPost | MessagesPost uuid | ReadPost uuid | PinPost uuid | ChannelMembersPost uuid | LedgerPost uuid | LedgerPatch uuid
  | ApprovalsPost uuid | DocumentsPost upload_form uuid | DownloadGet uuid uuid
  | AccountsPost uuid | ContactsPost uuid | DealsPost uuid | DealsPatch uuid
  | RecordPatch uuid string uuid | RecordDelete uuid string uuid | RecordFieldsPost uuid string uuid | NotesPost uuid string uuid | NotesPatch uuid
  | TagsPost uuid string uuid | TagsDelete uuid string uuid | BulkTagPost uuid string
  | FieldsPost uuid | FieldPatch uuid uuid | FieldDelete uuid uuid | ViewsPost uuid | ViewsDelete uuid
  | ProjectsPost uuid | ProjectDelete uuid uuid | TasksPost uuid | TasksPatch uuid | TaskPatch uuid uuid | TaskDelete uuid uuid
  | CalendarPost uuid | EventPatch uuid uuid | EventDelete uuid uuid | RsvpPost uuid uuid
  | NotificationsPost uuid | ProfilePatch uuid | SettingsPatch uuid

fun api_run :: "app_env \<Rightarrow> call \<Rightarrow> api_request \<Rightarrow> db \<Rightarrow> db" where
  "api_run X c (MembersPatch w) s = snd (members_PATCH X c w s)"
| "api_run X c (MembersDelete w) s = snd (members_DELETE X c w s)"
| "api_run X c (InvitesPost w) s = snd (invites_POST X c w s)"
| "api_run X c (InvitesBatchPost w) s = snd (invites_batch_POST X c w s)"
| "api_run X c ChannelsPost s = snd (channels_POST X c s)"
| "api_run X c (MessagesPost ch) s = snd (messages_POST X c ch s)"
| "api_run X c (ReadPost ch) s = snd (read_POST X c ch s)"
| "api_run X c (PinPost ch) s = snd (pin_POST X c ch s)"
| "api_run X c (ChannelMembersPost ch) s = snd (channel_members_POST X c ch s)"
| "api_run X c (LedgerPost ch) s = snd (ledger_POST X c ch s)"
| "api_run X c (LedgerPatch ch) s = snd (ledger_PATCH X c ch s)"
| "api_run X c (ApprovalsPost w) s = snd (approvals_POST X c w s)"
| "api_run X c (DocumentsPost f w) s = snd (documents_POST X c f w s)"
| "api_run X c (DownloadGet w i) s = snd (download_GET X c w i s)"
| "api_run X c (AccountsPost w) s = snd (accounts_POST X c w s)"
| "api_run X c (ContactsPost w) s = snd (contacts_POST X c w s)"
| "api_run X c (DealsPost w) s = snd (deals_POST X c w s)"
| "api_run X c (DealsPatch w) s = snd (deals_PATCH X c w s)"
| "api_run X c (RecordPatch w e i) s = snd (record_PATCH X c w e i s)"
| "api_run X c (RecordDelete w e i) s = snd (record_DELETE X c w e i s)"
| "api_run X c (RecordFieldsPost w e i) s = snd (record_fields_POST X c w e i s)"
| "api_run X c (NotesPost w e i) s = snd (notes_POST X c w e i s)"
| "api_run X c (NotesPatch w) s = snd (notes_PATCH X c w s)"
| "api_run X c (TagsPost w e i) s = snd (tags_POST X c w e i s)"
| "api_run X c (TagsDelete w e i) s = snd (tags_DELETE X c w e i s)"
| "api_run X c (BulkTagPost w e) s = snd (bulk_tag_POST X c w e s)"
| "api_run X c (FieldsPost w) s = snd (fields_POST X c w s)"
| "api_run X c (FieldPatch w i) s = snd (field_PATCH X c w i s)"
| "api_run X c (FieldDelete w i) s = snd (field_DELETE X c w i s)"
| "api_run X c (ViewsPost w) s = snd (views_POST X c w s)"
| "api_run X c (ViewsDelete w) s = snd (views_DELETE X c w s)"
| "api_run X c (ProjectsPost w) s = snd (projects_POST X c w s)"
| "api_run X c (ProjectDelete w i) s = snd (project_DELETE X c w i s)"
| "api_run X c (TasksPost w) s = snd (tasks_POST X c w s)"
| "api_run X c (TasksPatch w) s = snd (tasks_PATCH X c w s)"
| "api_run X c (TaskPatch w i) s = snd (task_PATCH X c w i s)"
| "api_run X c (TaskDelete w i) s = snd (task_DELETE X c w i s)"
| "api_run X c (CalendarPost w) s = snd (calendar_POST X c w s)"
| "api_run X c (EventPatch w i) s = snd (event_PATCH X c w i s)"
| "api_run X c (EventDelete w i) s = snd (event_DELETE X c w i s)"
| "api_run X c (RsvpPost w i) s = snd (rsvp_POST X c w i s)"
| "api_run X c (NotificationsPost w) s = snd (notifications_POST X c w s)"
| "api_run X c (ProfilePatch w) s = snd (profile_PATCH X c w s)"
| "api_run X c (SettingsPatch w) s = snd (settings_PATCH X c w s)"

subsection \<open>What each route demands\<close>

text \<open>Where a request takes place, read off its path (or, to create a channel, off its body), and the capability it needs; \<open>None\<close> where any
  active member may call.\<close>

datatype place = InWorkspace uuid | InChannel uuid

definition channel_form :: "app_env \<Rightarrow> call \<Rightarrow> json" where
  "channel_form X c = or_default (av_safeParse (ax_api X) createChannelSchema (read_body c)) JNull"

fun place_of :: "app_env \<Rightarrow> call \<Rightarrow> api_request \<Rightarrow> place" where
  "place_of X c ChannelsPost = InWorkspace (d_str (channel_form X c) ''workspaceId'')"
| "place_of X c (MessagesPost ch) = InChannel ch"
| "place_of X c (ReadPost ch) = InChannel ch"
| "place_of X c (PinPost ch) = InChannel ch"
| "place_of X c (ChannelMembersPost ch) = InChannel ch"
| "place_of X c (LedgerPost ch) = InChannel ch"
| "place_of X c (LedgerPatch ch) = InChannel ch"
| "place_of X c (MembersPatch w) = InWorkspace w"
| "place_of X c (MembersDelete w) = InWorkspace w"
| "place_of X c (InvitesPost w) = InWorkspace w"
| "place_of X c (InvitesBatchPost w) = InWorkspace w"
| "place_of X c (ApprovalsPost w) = InWorkspace w"
| "place_of X c (DocumentsPost f w) = InWorkspace w"
| "place_of X c (DownloadGet w i) = InWorkspace w"
| "place_of X c (AccountsPost w) = InWorkspace w"
| "place_of X c (ContactsPost w) = InWorkspace w"
| "place_of X c (DealsPost w) = InWorkspace w"
| "place_of X c (DealsPatch w) = InWorkspace w"
| "place_of X c (RecordPatch w e i) = InWorkspace w"
| "place_of X c (RecordDelete w e i) = InWorkspace w"
| "place_of X c (RecordFieldsPost w e i) = InWorkspace w"
| "place_of X c (NotesPost w e i) = InWorkspace w"
| "place_of X c (NotesPatch w) = InWorkspace w"
| "place_of X c (TagsPost w e i) = InWorkspace w"
| "place_of X c (TagsDelete w e i) = InWorkspace w"
| "place_of X c (BulkTagPost w e) = InWorkspace w"
| "place_of X c (FieldsPost w) = InWorkspace w"
| "place_of X c (FieldPatch w i) = InWorkspace w"
| "place_of X c (FieldDelete w i) = InWorkspace w"
| "place_of X c (ViewsPost w) = InWorkspace w"
| "place_of X c (ViewsDelete w) = InWorkspace w"
| "place_of X c (ProjectsPost w) = InWorkspace w"
| "place_of X c (ProjectDelete w i) = InWorkspace w"
| "place_of X c (TasksPost w) = InWorkspace w"
| "place_of X c (TasksPatch w) = InWorkspace w"
| "place_of X c (TaskPatch w i) = InWorkspace w"
| "place_of X c (TaskDelete w i) = InWorkspace w"
| "place_of X c (CalendarPost w) = InWorkspace w"
| "place_of X c (EventPatch w i) = InWorkspace w"
| "place_of X c (EventDelete w i) = InWorkspace w"
| "place_of X c (RsvpPost w i) = InWorkspace w"
| "place_of X c (NotificationsPost w) = InWorkspace w"
| "place_of X c (ProfilePatch w) = InWorkspace w"
| "place_of X c (SettingsPatch w) = InWorkspace w"

definition demand :: "app_env \<Rightarrow> call \<Rightarrow> api_request \<Rightarrow> Capability option" where
  "demand X c r = (case r of
      MembersPatch w \<Rightarrow> Some AssignRole
    | MembersDelete w \<Rightarrow> Some RemoveMember
    | InvitesPost w \<Rightarrow> Some AddMember
    | InvitesBatchPost w \<Rightarrow> Some AddMember
    | ChannelsPost \<Rightarrow> Some (if d_str (channel_form X c) ''kind'' = ''dm'' then CreateDirectMessage else CreateChannel)
    | MessagesPost ch \<Rightarrow> Some PostMessage
    | ReadPost ch \<Rightarrow> Some ReadChannel
    | PinPost ch \<Rightarrow> Some PostMessage
    | ChannelMembersPost ch \<Rightarrow> Some AddMember
    | LedgerPost ch \<Rightarrow> Some PostMessage
    | LedgerPatch ch \<Rightarrow> Some PostMessage
    | RecordDelete w e i \<Rightarrow> Some DeleteRecord
    | ProjectDelete w i \<Rightarrow> Some DeleteRecord
    | TaskDelete w i \<Rightarrow> Some DeleteRecord
    | FieldsPost w \<Rightarrow> Some ManageWorkspace
    | FieldPatch w i \<Rightarrow> Some ManageWorkspace
    | FieldDelete w i \<Rightarrow> Some ManageWorkspace
    | SettingsPatch w \<Rightarrow> Some ManageWorkspace
    | ViewsDelete w \<Rightarrow> Some ReadWorkspace
    | DownloadGet w i \<Rightarrow> None
    | RsvpPost w i \<Rightarrow> None
    | NotificationsPost w \<Rightarrow> None
    | ProfilePatch w \<Rightarrow> None
    | _ \<Rightarrow> Some CreateRecord)"

text \<open>The caller \<open>ctx\<close> may call there with that demand.\<close>

fun stands :: "db \<Rightarrow> MemberCtx \<Rightarrow> place \<Rightarrow> bool" where
  "stands s ctx (InWorkspace w) \<longleftrightarrow> ctx_workspaceId ctx = w"
| "stands s ctx (InChannel ch) \<longleftrightarrow> (\<exists>k\<in>set (channels s). ch_id k = ch \<and> ch_workspaceId k = ctx_workspaceId ctx)
     \<and> (\<exists>m\<in>set (channelMembers s). cm_channelId m = ch \<and> cm_sub m = ctx_sub ctx)"

definition entitled_to :: "app_env \<Rightarrow> call \<Rightarrow> db \<Rightarrow> MemberCtx \<Rightarrow> place \<Rightarrow> Capability option \<Rightarrow> bool" where
  "entitled_to X c s ctx p cap \<longleftrightarrow> requireOwner (auth (ax_web X)) (cl_req c) = Some (ctx_sub ctx) \<and> active_member s ctx \<and> stands s ctx p
     \<and> (case cap of None \<Rightarrow> True | Some k \<Rightarrow> can (ctx_role ctx) k)"

subsection \<open>The guards\<close>

definition guards :: "app_env \<Rightarrow> call \<Rightarrow> (db, MemberCtx) act \<Rightarrow> place \<Rightarrow> Capability option \<Rightarrow> bool" where
  "guards X c g p cap \<longleftrightarrow> (\<forall>s. snd (g s) = s) \<and> (\<forall>s ctx. fst (g s) = Inr ctx \<longrightarrow> entitled_to X c s ctx p cap)"

lemma cap_guards: "guards X c (cap_guard X c w cap) (InWorkspace w) (Some cap)"
  unfolding guards_def cap_guard_def entitled_to_def
  using requireCapability_pure requireCapability_sound by simp

lemma member_guards: "guards X c (member_guard X c w) (InWorkspace w) None"
  unfolding guards_def member_guard_def entitled_to_def
  using requireMember_pure requireMember_sound by simp

lemma internal_guards: "guards X c (internal_guard X c w) (InWorkspace w) (Some ReadWorkspace)"
  unfolding internal_guard_def requireInternal_def by (rule cap_guards [unfolded cap_guard_def])

lemma channel_guards: "guards X c (channel_guard X c ch cap) (InChannel ch) (Some cap)"
proof -
  let ?g = "channel_guard X c ch cap"
  have run: "?g s = (case first_where (\<lambda>k. ch_id k = ch) (channels s) of
      None \<Rightarrow> (Inl (GuardError 403 ''channel not found''), s)
    | Some k \<Rightarrow> if ch_workspaceId k = [] then (Inl (GuardError 403 ''channel not found''), s)
        else (case requireCapability (ax_web X) (cl_req c) (ch_workspaceId k) cap s of
          (Inl e, s') \<Rightarrow> (Inl e, s')
        | (Inr ctx, s') \<Rightarrow> if first_where (\<lambda>m. cm_channelId m = ch \<and> cm_sub m = ctx_sub ctx) (channelMembers s') \<noteq> None then (Inr ctx, s')
            else (Inl (GuardError 403 ''not a member of this channel''), s')))" for s
    by (simp add: channel_guard_def requireChannel_def requireCapability_def channelWorkspace_def isChannelMember_def act_defs
        split: option.split sum.split prod.split)
  have "snd (?g s) = s" for s
    using requireCapability_pure [of "ax_web X" "cl_req c" _ cap s] unfolding run
    by (auto split: option.split sum.split prod.split simp: prod_eq_iff)
  moreover have "entitled_to X c s ctx (InChannel ch) (Some cap)" if "fst (?g s) = Inr ctx" for s ctx
    using that requireCapability_pure [of "ax_web X" "cl_req c" _ cap s] requireCapability_sound [of "ax_web X" "cl_req c" _ cap s ctx]
    unfolding run entitled_to_def
    by (auto split: option.splits sum.splits prod.splits if_splits simp: prod_eq_iff dest: first_where_SomeD)
  ultimately show ?thesis by (simp add: guards_def)
qed

lemma route_snd: "snd (route m s) = snd (m s)"
  by (simp add: route_def split: prod.split sum.split)

lemma guarded_route:
  assumes "guards X c g p cap"
  shows "snd (route (act_bind g k) s) = s \<or> (\<exists>ctx. entitled_to X c s ctx p cap)"
proof (cases "fst (g s)")
  case (Inl e)
  then have "g s = (Inl e, s)" using assms by (simp add: guards_def prod_eq_iff)
  then show ?thesis by (simp add: route_snd act_bind_def)
next
  case (Inr ctx)
  then show ?thesis using assms by (auto simp: guards_def)
qed

lemma guarded_entity_route:
  assumes "guards X c g p cap"
  shows "snd (route (with_entity raw (\<lambda>e. act_bind g (k e))) s) = s \<or> (\<exists>ctx. entitled_to X c s ctx p cap)"
  using guarded_route [OF assms] by (cases "parseEntity raw") (simp_all add: with_entity_def route_snd act_return_def)

lemmas guarded_routes = guarded_route [OF cap_guards] guarded_route [OF member_guards] guarded_route [OF internal_guards]
  guarded_route [OF channel_guards] guarded_entity_route [OF cap_guards]

lemmas workspace_route_defs = members_PATCH_def members_DELETE_def invites_POST_def invites_batch_POST_def approvals_POST_def documents_POST_def
  download_GET_def accounts_POST_def contacts_POST_def deals_POST_def deals_PATCH_def

lemmas channel_route_defs = messages_POST_def read_POST_def pin_POST_def channel_members_POST_def ledger_POST_def ledger_PATCH_def

lemmas record_route_defs = record_PATCH_def record_DELETE_def record_fields_POST_def notes_POST_def notes_PATCH_def tags_POST_def tags_DELETE_def
  bulk_tag_POST_def fields_POST_def field_PATCH_def field_DELETE_def views_POST_def views_DELETE_def

lemmas work_route_defs = projects_POST_def project_DELETE_def tasks_POST_def tasks_PATCH_def task_PATCH_def task_DELETE_def calendar_POST_def
  event_PATCH_def event_DELETE_def rsvp_POST_def notifications_POST_def profile_PATCH_def settings_PATCH_def

lemma channels_POST_entitled:
  "snd (channels_POST X c s) = s \<or> (\<exists>ctx. entitled_to X c s ctx (place_of X c ChannelsPost) (demand X c ChannelsPost))"
proof (cases "av_safeParse (ax_api X) createChannelSchema (read_body c)")
  case None
  then show ?thesis by (simp add: channels_POST_def with_parsed_def route_snd act_return_def)
next
  case (Some d)
  have "snd (channels_POST X c s) = s \<or> (\<exists>ctx. entitled_to X c s ctx (InWorkspace (d_str d ''workspaceId''))
      (Some (if d_str d ''kind'' = ''dm'' then CreateDirectMessage else CreateChannel)))"
    unfolding channels_POST_def with_parsed_def Some option.case by (rule guarded_route [OF cap_guards])
  then show ?thesis by (simp add: Some channel_form_def or_default_def demand_def)
qed

lemma api_entitled: "api_run X c r s = s \<or> (\<exists>ctx. entitled_to X c s ctx (place_of X c r) (demand X c r))"
proof (cases r)
  case ChannelsPost
  then show ?thesis using channels_POST_entitled by simp
qed (simp_all only: api_run.simps place_of.simps demand_def api_request.case workspace_route_defs channel_route_defs record_route_defs work_route_defs
    guarded_routes)

text \<open>C2. Authority over the API: whatever a writing request carries, if it changes anything then the verified identity behind it is an
  active member of the workspace its route names (or, on a channel route, of the workspace of that channel, and seated in that channel), and
  the role stored for that member holds the capability the route demands.\<close>

theorem api_change_authorised:
  assumes "api_run X c r s \<noteq> s"
  shows "\<exists>ctx. requireOwner (auth (ax_web X)) (cl_req c) = Some (ctx_sub ctx) \<and> active_member s ctx \<and> stands s ctx (place_of X c r)
     \<and> (case demand X c r of None \<Rightarrow> True | Some cap \<Rightarrow> can (ctx_role ctx) cap)"
  using api_entitled [of X c r s] assms by (simp add: entitled_to_def)

definition demo_api :: api_env where
  "demo_api = \<lparr>av_web = demo_web, av_safeParse = strict_parse, av_date = (\<lambda>_. None), av_number = (\<lambda>_. None), av_strNumber = (\<lambda>_. None)\<rparr>"

definition demo_app :: app_env where
  "demo_app = \<lparr>ax_api = demo_api, ax_mail = demo_mail, ax_doc = demo_docs, ax_approval = demo_approvals, ax_cal = demo_cal_env, ax_crm = demo_crm,
     ax_blake3 = id, ax_rank = (\<lambda>_. 0)\<rparr>"

definition demo_call :: call where
  "demo_call = \<lparr>cl_req = demo_request, cl_body = Some (JObj [(''displayName'', JStr ''Al'')]), cl_query = (\<lambda>_. None), cl_origin = [], cl_now = 0,
     cl_id = (\<lambda>n. replicate n (CHR ''x'')), cl_iv = (\<lambda>_. ''v''), cl_random = (\<lambda>_. ''r'')\<rparr>"

lemma demo_profile: "map mb_displayName (members (api_run demo_app demo_call (ProfilePatch ''w1'') demo_db)) = [Some ''Al'']"
proof -
  have guard: "member_guard demo_app demo_call ''w1'' demo_db
      = (Inr \<lparr>ctx_workspaceId = ''w1'', ctx_sub = ''alice'', ctx_role = Admin, ctx_isAgent = False\<rparr>, demo_db)"
    using demo_web_owner by (simp add: member_guard_def demo_app_def demo_api_def demo_call_def requireMember_run requireMembership_run member_at_def
        demo_db_def demo_member_def)
  have body: "av_safeParse (ax_api demo_app) updateProfileSchema (read_body demo_call) = Some (JObj [(''displayName'', JStr ''Al'')])"
    by code_simp
  have trim: "js_trim ''Al'' = ''Al''" by code_simp
  have "api_run demo_app demo_call (ProfilePatch ''w1'') demo_db = members_update (upd_where (\<lambda>m. mb_workspaceId m = ''w1'' \<and> mb_sub m = ''alice'')
      (\<lambda>m. m\<lparr>mb_displayName := Some ''Al''\<rparr>)) demo_db"
    by (simp add: profile_PATCH_def route_snd act_bind_def guard with_parsed_def body d_opt_def updateDisplayName_def trim tbl_update_def act_return_def)
  then show ?thesis by (simp add: demo_db_def demo_member_def upd_where_def)
qed

theorem api_change_authorised_witness:
  "\<exists>ctx. requireOwner (auth demo_web) demo_request = Some (ctx_sub ctx) \<and> active_member demo_db ctx \<and> ctx_workspaceId ctx = ''w1''"
proof -
  have "map mb_displayName (members demo_db) = [None]" by (simp add: demo_db_def demo_member_def)
  then have "api_run demo_app demo_call (ProfilePatch ''w1'') demo_db \<noteq> demo_db" using demo_profile by auto
  then show ?thesis using api_change_authorised [of demo_app demo_call "ProfilePatch ''w1''" demo_db]
    by (auto simp: demo_app_def demo_api_def demo_call_def)
qed

end
