(* ===== verification/Owners.thy ===== *)
theory Owners
  imports Api
begin

text \<open>
  Who owns a workspace, over the requests of \<open>Api\<close>, joining and creating workspaces: what each of them does to the owners of an existing workspace.
  The first part shows that the routes outside membership leave members, invitations and workspaces alone; the second follows the ones
  that write them. The theorem is in \<open>Ownership\<close>.
\<close>

definition rolls :: "db \<Rightarrow> member_row list \<times> invite_row list \<times> workspace_row list" where
  "rolls s = (members s, invites s, workspaces s)"

declare frames_case_prod [frame_intros] and frames_case_list [frame_intros]

lemma off_calendar_rolls [frame_intros]: "off_calendar rolls"
  by (simp add: off_calendar_def rolls_def)

lemmas rolls_rules = frames_tbl_insert frames_tbl_update frames_tbl_delete

lemma frames_reads [frame_intros]: "frames f (roster w)" "frames f (directory w)"
  unfolding directory_def roster_def by (intro frame_intros)+

lemma rolls_deletes [frame_intros]:
  "frames rolls (task_delete p1)" "frames rolls (project_delete p2)" "frames rolls (board_delete p3)" "frames rolls (account_delete p4)"
  "frames rolls (deal_delete p5)" "frames rolls (note_delete p6)" "frames rolls (field_def_delete p7)"
  by (simp_all add: frames_def work_delete_defs rolls_def Let_def)

lemma rolls_recordActivity [frame_intros]: "frames rolls (recordActivity now aid w e i u b k m)"
  unfolding recordActivity_def work_insert_defs by (intro frame_intros rolls_rules; simp add: rolls_def)

lemma rolls_appendAudit [frame_intros]: "frames rolls (appendAudit E now i)"
  by (rule frames_appendAudit) (simp_all add: rolls_def)

lemma rolls_writes [frame_intros]:
  "frames rolls (createAccount now n aid w name dm u)" "frames rolls (createDeal now n aid da)"
  "frames rolls (moveDealStage now aid w i st v)"
  "frames rolls (updateAccount now aids w i pa u)" "frames rolls (updateDeal now aids w i pd u)" "frames rolls (updateContact now aids w i pc u)"
  unfolding createAccount_def createDeal_def moveDealStage_def updateAccount_def updateDeal_def updateContact_def
    field_activities_def work_insert_defs Let_def
  by (intro frame_intros rolls_rules; simp add: rolls_def)+

lemma rolls_createContact [frame_intros]: "frames rolls (createContact E now n aid iv ca)"
  unfolding createContact_def insert_new_contact_def work_insert_defs by (intro frame_intros rolls_rules; simp add: rolls_def)

lemma rolls_crm_deletes [frame_intros]:
  "frames rolls (deleteContact E now w i u)" "frames rolls (deleteDeal E now w i u)" "frames rolls (deleteAccount E now w i u)"
  unfolding deleteContact_def deleteDeal_def deleteAccount_def deleteCrmSubData_def Let_def by (intro frame_intros rolls_rules; simp add: rolls_def)+

lemma rolls_setFieldValue [frame_intros]: "frames rolls (setFieldValue K now n aid iv a)"
proof -
  have "frames rolls (upsert_field_value r)" for r
    unfolding frames_def upsert_field_value_def work_insert_defs by (simp add: act_defs tbl_update_def tbl_insert_def rolls_def)
  then show ?thesis unfolding setFieldValue_def Let_def by (intro frame_intros rolls_rules; simp)
qed

lemma rolls_createTag [frame_intros]: "frames rolls (createTag n w l col)"
  unfolding frames_def createTag_def work_insert_defs by (simp add: act_defs tbl_insert_def rolls_def Let_def)

lemma rolls_tag_for [frame_intros]: "frames rolls (tag_for c w d)"
  unfolding tag_for_def by (intro frame_intros rolls_rules)

lemma rolls_tag_activities [frame_intros]: "frames rolls (tag_activities now aids w e t l u k is)"
  by (induction "is" arbitrary: k) (simp_all, (intro frame_intros rolls_rules; simp)+)

lemma rolls_depth [frame_intros]:
  "frames rolls (addNote E now n aid ivs na)" "frames rolls (setNotePinned now w i b)" "frames rolls (untagRecord w e i t)"
  "frames rolls (createFieldDef E now n fi)" "frames rolls (updateFieldDef E now w i p u)" "frames rolls (deleteFieldDef E now w i u)"
  "frames rolls (saveView now n w e nm u sh cfg)" "frames rolls (deleteView w i u)"
  unfolding addNote_def setNotePinned_def untagRecord_def createFieldDef_def updateFieldDef_def deleteFieldDef_def saveView_def insert_view_def
    deleteView_def work_insert_defs Let_def
  by (intro frame_intros rolls_rules; simp add: rolls_def)+

lemma rolls_tag_unless_tagged [frame_intros]: "frames rolls (tag_unless_tagged r)"
  unfolding frames_def tag_unless_tagged_def work_insert_defs by (simp add: tbl_insert_def rolls_def)

lemma rolls_tags [frame_intros]: "frames rolls (tagRecord now aid w e i t u)" "frames rolls (bulkTagRecords now aids w e is t u)"
  unfolding tagRecord_def bulkTagRecords_def assertTagInWorkspace_def existingRecordIds_def Let_def
  by (intro frame_intros rolls_rules; simp add: rolls_def)+

lemma rolls_pm [frame_intros]:
  "frames rolls (createProject now n w nm)" "frames rolls (deleteProject w p)" "frames rolls (createTask C now n nid fr ti)"
  "frames rolls (moveTask w t st)" "frames rolls (updateTask C now nid fr w t tp v)" "frames rolls (setTaskRaci C now fr w t as v)"
  "frames rolls (deleteTask C now fr w t v)"
  unfolding createProject_def deleteProject_def createTask_def moveTask_def updateTask_def setTaskRaci_def deleteTask_def notify_assignee_def
    notifyTaskAssigned_def syncTaskDeadline_def insert_notification_def work_insert_defs Let_def
  by (intro frame_intros rolls_rules; simp add: rolls_def)+

lemma rolls_comms [frame_intros]:
  "frames rolls (createChannel E now n ci)" "frames rolls (sendMessage E now n iv si)" "frames rolls (linkMessageAttachments w m ids)"
  "frames rolls (markChannelRead w ch u k)" "frames rolls (setMessagePinned now w ch m b)" "frames rolls (addChannelMembers now w ch us)"
  "frames rolls (setChannelHasAgent w ch b)" "frames rolls (witness E bl now n iv wi)" "frames rolls (resolveLedgerEntry E now w ch m u)"
  "frames rolls (markRead now w u mids b)" "frames rolls (setAttendeeResponse w e u rs)"
  unfolding createChannel_def sendMessage_def linkMessageAttachments_def link_unless_linked_def markChannelRead_def setMessagePinned_def
    addChannelMembers_def seat_unless_seated_def setChannelHasAgent_def witness_def resolveLedgerEntry_def markRead_def setAttendeeResponse_def
    insert_defs Let_def
  by (intro frame_intros rolls_rules; simp add: rolls_def)+

lemma rolls_settings [frame_intros]: "frames rolls (updateSettings w p)"
  unfolding updateSettings_def upsert_settings_def getSettings_def Let_def by (intro frame_intros rolls_rules; simp add: rolls_def)

lemma rolls_ingest [frame_intros]: "frames rolls (ingestDocument D now n ids ivs iv aid a)"
  unfolding ingestDocument_def index_text_def ingest_trail_def insert_document_def insert_chunk_def Let_def
  by (intro frame_intros rolls_rules; simp add: rolls_def)

lemma rolls_mentions [frame_intros]: "frames rolls (notifyChannelMentions rk now n a)"
  unfolding notifyChannelMentions_def insert_notification_def Let_def by (intro frame_intros rolls_rules; simp add: rolls_def)

lemma frames_crm_case [frame_intros]: "frames f a \<Longrightarrow> frames f b \<Longrightarrow> frames f c \<Longrightarrow> frames f (case e of CrmAccount \<Rightarrow> a | CrmDeal \<Rightarrow> b | CrmContact \<Rightarrow> c)"
  by (cases e) simp_all

lemma frames_recordExists [frame_intros]: "frames f (recordExists w e i)"
  unfolding recordExists_def getAccount_def getDeal_def getContact_def by (intro frame_intros)

lemma frames_lookups [frame_intros]:
  "frames f (badDocScope w u sc)" "frames f (visibleDocumentIds w ids v)" "frames f (getVisibleDocument w i v)" "frames f (getDocument w i)"
  "frames f (getMessageAttachments w m)" "frames f (listPinnedMessages E w ch)" "frames f (accountHasChildren w i)"
  "frames f (memberRow w u)"
  unfolding badDocScope_def visibleDocumentIds_def getVisibleDocument_def getDocument_def getMessageAttachments_def attachmentsForMessages_def
    listPinnedMessages_def with_attachments_def accountHasChildren_def memberRow_def Let_def
  by (intro frame_intros)+

subsection \<open>Routes outside membership\<close>

lemma frames_guards [frame_intros]:
  "frames f (cap_guard X c w cap)" "frames f (member_guard X c w)" "frames f (internal_guard X c w)" "frames f (channel_guard X c ch cap)"
  using cap_guards [of X c w cap] member_guards [of X c w] internal_guards [of X c w] channel_guards [of X c ch cap]
  by (simp_all add: guards_def frames_def)

lemma frames_steps [frame_intros]:
  "(\<And>d. frames f (k1 d)) \<Longrightarrow> frames f (with_parsed V c z k1)" "frames f m \<Longrightarrow> frames f (with_limit V p u q m)"
  "(\<And>e. frames f (k2 e)) \<Longrightarrow> frames f (with_entity raw k2)" "frames f m2 \<Longrightarrow> frames f (if_record w e i m2)"
  "(\<And>t. frames f (k3 t)) \<Longrightarrow> frames f (with_date X v k3)" "(\<And>t. frames f (k4 t)) \<Longrightarrow> frames f (date_patch X d key k4)"
  unfolding with_parsed_def with_limit_def with_entity_def if_record_def with_date_def date_patch_def by (intro frame_intros; simp)+

lemma rolls_handler_parts [frame_intros]:
  "frames rolls (audited X c w ctx ev t)" "frames rolls (attach ctx msg ids)" "frames rolls (bad_attachment ctx ids)"
  "frames f (visibleEvent X ctx i)" "frames f (denyEdit X ctx i)"
  unfolding audited_def attach_def bad_attachment_def denyEdit_def visibleEvent_def getEvent_def by (intro frame_intros)+

lemma frames_route: "frames f m \<Longrightarrow> f (snd (route m s)) = f s"
  by (simp add: route_snd frames_def)

text \<open>The requests that write members, invitations or workspaces, and those that run an approved action, apart; every other one leaves the three tables alone.\<close>

fun aside :: "api_request \<Rightarrow> bool" where
  "aside (MembersPatch w) = False"
| "aside (MembersDelete w) = False"
| "aside (InvitesPost w) = False"
| "aside (InvitesBatchPost w) = False"
| "aside (ApprovalsPost w) = False"
| "aside (ProfilePatch w) = False"
| "aside r = True"

lemma rolls_aside: "aside r \<Longrightarrow> rolls (api_run X c r s) = rolls s"
  apply (cases r)
  apply (simp_all only: aside.simps simp_thms api_run.simps channels_POST_def workspace_route_defs channel_route_defs record_route_defs work_route_defs
      Let_def)
  apply (rule frames_route, intro frame_intros; simp add: rolls_def)+
  done

subsection \<open>The owners of a workspace\<close>

definition counted :: "uuid \<Rightarrow> member_row \<Rightarrow> bool" where
  "counted w m \<longleftrightarrow> mb_workspaceId m = w \<and> mb_role m = Owner \<and> mb_status m = ''active''"

definition owners :: "db \<Rightarrow> uuid \<Rightarrow> string list" where
  "owners s w = map mb_sub (filter (counted w) (members s))"

definition kept :: "uuid \<Rightarrow> string list \<Rightarrow> db \<Rightarrow> bool" where
  "kept w os s \<longleftrightarrow> key_fun mb_key (members s) \<and> has_workspace s w \<and> list_all (\<lambda>r. iv_role r \<noteq> Owner) (invites s) \<and> owners s w = os"

lemma kept_rolls: "rolls s' = rolls s \<Longrightarrow> kept w os s' = kept w os s"
  by (simp add: kept_def rolls_def has_workspace_def owners_def)

lemma frames_kept: "frames rolls m \<Longrightarrow> preserves (kept w os) m"
  unfolding frames_def preserves_def using kept_rolls by blast

lemma owners_upd:
  assumes "\<And>r. r \<in> set (members s) \<Longrightarrow> P r \<Longrightarrow> counted w (f r) = counted w r \<and> mb_sub (f r) = mb_sub r"
  shows "owners (members_update (upd_where P f) s) w = owners s w"
proof -
  have "map mb_sub (filter (counted w) (upd_where P f rs)) = map mb_sub (filter (counted w) rs)"
    if "\<And>r. r \<in> set rs \<Longrightarrow> P r \<Longrightarrow> counted w (f r) = counted w r \<and> mb_sub (f r) = mb_sub r" for rs
    using that by (induction rs) (auto simp: upd_where_def)
  then show ?thesis using assms by (simp add: owners_def)
qed

lemma kept_upd:
  assumes "kept w os s" and "\<And>r. P r \<Longrightarrow> mb_key (f r) = mb_key r"
    and "\<And>r. r \<in> set (members s) \<Longrightarrow> P r \<Longrightarrow> counted w (f r) = counted w r"
  shows "kept w os (members_update (upd_where P f) s)"
proof -
  have "mb_sub (f r) = mb_sub r" if "P r" for r using assms(2) [OF that] by (simp add: mb_key_def)
  then have "owners (members_update (upd_where P f) s) w = owners s w" using assms(3) by (intro owners_upd) simp
  then show ?thesis using assms by (simp add: kept_def has_workspace_def key_fun_upd_where)
qed

text \<open>The one row of a person in a workspace: an update of it that neither starts nor ends on an active Owner is not seen.\<close>

lemma kept_upd_row:
  assumes "kept w os s" "member_at s v u = Some m" "\<not> counted w m" "\<And>r. \<not> counted w (f r)" "\<And>r. mb_key (f r) = mb_key r"
  shows "kept w os (members_update (upd_where (\<lambda>r. mb_workspaceId r = v \<and> mb_sub r = u) f) s)"
proof (rule kept_upd [OF assms(1)])
  fix r assume r: "r \<in> set (members s)" "mb_workspaceId r = v \<and> mb_sub r = u"
  have "m \<in> set (members s)" "mb_key m = mb_key r" using member_at_sel [OF assms(2)] r(2) by (simp_all add: mb_key_def)
  then have "r = m" using assms(1) r(1) key_fun_eq [of mb_key "members s"] by (simp add: kept_def)
  then show "counted w (f r) = counted w r" using assms(3,4) by simp
qed (simp add: assms(5))

lemma kept_insert_member:
  "mb_role r \<noteq> Owner \<or> mb_workspaceId r \<noteq> w \<Longrightarrow> preserves (kept w os) (insert_member r)"
  unfolding insert_member_def
  by (rule preserves_tbl_insert) (auto simp: kept_def has_workspace_def owners_def counted_def key_not_in)

lemma kept_insert_invite: "iv_role r \<noteq> Owner \<Longrightarrow> preserves (kept w os) (insert_invite r)"
  unfolding insert_invite_def by (rule preserves_tbl_insert) (simp add: kept_def has_workspace_def owners_def)

lemma kept_invites_update: "(\<And>r. iv_role (f r) = iv_role r) \<Longrightarrow> preserves (kept w os) (tbl_update invites_update P f)"
  by (rule preserves_tbl_update) (auto simp: kept_def has_workspace_def owners_def list_all_iff set_upd_where)

lemma snd_bind_return: "snd (act_bind m (\<lambda>_. act_return x) s) = snd (m s)"
  by (simp add: act_bind_def act_return_def split: prod.split sum.split)

lemma preserves_get_bind: "(\<And>s. P s \<Longrightarrow> P (snd (k (g s) s))) \<Longrightarrow> preserves P (act_bind (act_get g) k)"
  by (simp add: preserves_def act_bind_def act_get_def)

subsection \<open>The operations of membership\<close>

lemma kept_snd: "preserves (kept w os) m \<Longrightarrow> kept w os s \<Longrightarrow> kept w os (snd (m s))"
  by (rule preserves_snd)

lemma rolls_assertions [frame_intros]: "frames rolls (insert_role_assertion r)" "frames rolls (tbl_update roleAssertions_update P f)"
  by (simp_all add: frames_def insert_role_assertion_def tbl_insert_def tbl_update_def rolls_def Let_def)

lemma kept_revoke: "preserves (kept w os) (revokePendingInvitesBy now v u)"
  unfolding revokePendingInvitesBy_def by (intro inv_intros kept_invites_update) simp

lemma kept_changeRole:
  assumes "kept w os s" "member_at s v u = Some m" "mb_role m \<noteq> Owner" "role \<noteq> Owner"
  shows "kept w os (snd (changeRole E now v u role i s))"
proof -
  have k: "kept w os (members_update (upd_where (\<lambda>r. mb_workspaceId r = v \<and> mb_sub r = u) (\<lambda>m. m\<lparr>mb_role := role\<rparr>)) s)"
    by (rule kept_upd_row [OF assms(1,2)]) (use assms(3,4) in \<open>simp_all add: counted_def mb_key_def\<close>)
  show ?thesis unfolding changeRole_def act_bind_tbl_update
    by (rule kept_snd [OF _ k]) (rule frames_kept, intro frame_intros)
qed

lemma kept_offboard:
  assumes "kept w os s" "member_at s v u = Some m" "mb_role m \<noteq> Owner"
  shows "kept w os (snd (offboard E now v u a s))"
proof -
  have k: "kept w os (members_update (upd_where (\<lambda>r. mb_workspaceId r = v \<and> mb_sub r = u) (\<lambda>m. m\<lparr>mb_status := ''offboarded''\<rparr>)) s)"
    by (rule kept_upd_row [OF assms(1,2)]) (use assms(3) in \<open>simp_all add: counted_def mb_key_def\<close>)
  have "preserves (kept w os) (act_bind (tbl_update roleAssertions_update P f) (\<lambda>_. act_bind (revokePendingInvitesBy now v u) (\<lambda>_.
     act_bind (appendAudit E now i) (\<lambda>_. act_return ()))))" for P f i
    by (intro inv_intros kept_revoke frames_kept rolls_assertions rolls_appendAudit)
  then show ?thesis unfolding offboard_def by (subst act_bind_tbl_update, intro kept_snd [OF _ k])
qed

lemma kept_join_member:
  assumes "iv_role r \<noteq> Owner"
  shows "preserves (kept w os) (join_member now a r e)"
  unfolding join_member_def
proof (rule preserves_get_bind)
  fix s assume k: "kept w os s"
  show "kept w os (snd ((case member_at s (iv_workspaceId r) (aa_sub a) of
       Some m \<Rightarrow> if mb_status m = ''active'' then act_return True
         else act_bind (tbl_update members_update (\<lambda>x. mb_workspaceId x = iv_workspaceId r \<and> mb_sub x = aa_sub a)
                (\<lambda>x. x\<lparr>mb_role := iv_role r, mb_status := ''active'', mb_email := Some e, mb_walletAddress := aa_walletAddress a\<rparr>)) (\<lambda>_. act_return False)
     | None \<Rightarrow> act_bind (insert_member (new_member (iv_workspaceId r) (aa_sub a) (aa_walletAddress a) (Some e)
              (aa_displayName a) (iv_role r) (aa_kycStatus a) now)) (\<lambda>_. act_return False)) s))"
  proof (cases "member_at s (iv_workspaceId r) (aa_sub a)")
    case None
    have "preserves (kept w os) (act_bind (insert_member (new_member (iv_workspaceId r) (aa_sub a) (aa_walletAddress a) (Some e)
              (aa_displayName a) (iv_role r) (aa_kycStatus a) now)) (\<lambda>_. act_return False))"
      by (intro inv_intros kept_insert_member) (simp add: new_member_def assms)
    then show ?thesis using k by (simp add: None preserves_def)
  next
    case (Some m)
    then show ?thesis using k assms by (auto simp: act_return_run counted_def mb_key_def intro!: kept_upd_row [OF k Some])
  qed
qed

lemma rolls_scope_seat [frame_intros]: "frames rolls (scope_seat now a r b)"
proof -
  have "frames rolls (insert_channel_member r)" for r
    unfolding insert_channel_member_def by (rule frames_tbl_insert) (simp add: rolls_def)
  then show ?thesis unfolding scope_seat_def seat_unless_seated_def by (intro frame_intros)
qed

lemma kept_acceptInvite: "preserves (kept w os) (acceptInvite E now a)"
proof -
  have tx: "preserves (kept w os) (accept_tx now h a)" for h
    unfolding accept_tx_def
  proof (rule preserves_get_bind)
    fix s assume k: "kept w os s"
    have own: "iv_role r \<noteq> Owner" if "first_where (claimable now h) (invites s) = Some r" for r
      using first_where_SomeD [OF that] k by (auto simp: kept_def list_all_iff)
    show "kept w os (snd (act_bind (tbl_update invites_update (claimable now h)
        (\<lambda>r. r\<lparr>iv_acceptedBySub := Some (aa_sub a), iv_acceptedAt := Some now\<rparr>)) (\<lambda>_. case first_where (claimable now h) (invites s) of
       None \<Rightarrow> act_return None
     | Some invite \<Rightarrow>
        act_bind (inviterStillEntitled (iv_workspaceId invite) (iv_invitedBySub invite) (iv_role invite)) (\<lambda>entitled.
        if \<not> entitled then act_return (Some None)
        else
          let memberEmail = (case aa_sessionEmail a of Some e \<Rightarrow> js_lower e | None \<Rightarrow> iv_email invite) in
          act_bind (join_member now a invite memberEmail) (\<lambda>alreadyMember.
          act_bind (scope_seat now a invite alreadyMember) (\<lambda>_.
          act_return (Some (Some (iv_workspaceId invite, alreadyMember, memberEmail))))))) s))"
      unfolding Let_def inviterStillEntitled_def
      by (rule kept_snd [OF _ k], intro inv_intros kept_invites_update kept_join_member own)
        (simp_all add: frames_kept rolls_scope_seat)
  qed
  show ?thesis unfolding acceptInvite_def
    by (intro inv_intros tx) (auto split: option.split prod.split intro!: inv_intros frames_kept frame_intros simp: rolls_def)
qed

lemma kept_createInvite: "ia_role a \<noteq> Owner \<Longrightarrow> preserves (kept w os) (createInvite E now rnd a)"
  unfolding createInvite_def Let_def
  by (intro inv_intros kept_insert_invite) (simp_all add: frames_kept rolls_appendAudit)

lemma kept_insert_workspace:
  assumes "ws_id r \<noteq> w \<Longrightarrow> preserves (kept w os) (k r)"
  shows "preserves (kept w os) (act_bind (insert_workspace r) k)"
  unfolding preserves_def
proof (intro allI impI)
  fix s assume k: "kept w os s"
  show "kept w os (snd (act_bind (insert_workspace r) k s))"
  proof (cases "fst (insert_workspace r s)")
    case (Inl e)
    then show ?thesis using k by (auto simp: insert_workspace_def tbl_insert_def act_bind_def split: if_splits)
  next
    case (Inr y)
    then have s': "insert_workspace r s = (Inr r, workspaces_update (\<lambda>rs. rs @ [r]) s)" and "\<not> has_workspace s (ws_id r)"
      by (auto simp: insert_workspace_def tbl_insert_def split: if_splits)
    then have "ws_id r \<noteq> w" using k by (auto simp: kept_def)
    moreover have "kept w os (workspaces_update (\<lambda>rs. rs @ [r]) s)" using k by (simp add: kept_def has_workspace_def owners_def)
    ultimately show ?thesis using assms by (simp add: act_bind_def s' preserves_def)
  qed
qed

lemma kept_createWorkspace: "preserves (kept w os) (createWorkspace E now n i)"
  unfolding createWorkspace_def
  by (intro kept_insert_workspace) (intro inv_intros kept_insert_member frames_kept rolls_appendAudit; simp add: new_member_def)

subsection \<open>The routes of membership\<close>

lemma preserves_parsed:
  "(\<And>d. av_safeParse V z (read_body c) = Some d \<Longrightarrow> preserves P (k d)) \<Longrightarrow> preserves P (with_parsed V c z k)"
  unfolding with_parsed_def by (cases "av_safeParse V z (read_body c)") (auto intro: inv_intros)

lemma preserves_limit: "preserves P m \<Longrightarrow> preserves P (with_limit V p u q m)"
  unfolding with_limit_def by (intro inv_intros)

lemma preserves_case_prod: "(\<And>a b. preserves P (k a b)) \<Longrightarrow> preserves P (case p of (a, b) \<Rightarrow> k a b)"
  by (cases p) simp

lemma preserves_guard: "(\<And>ctx. preserves (kept w os) (k ctx)) \<Longrightarrow> preserves (kept w os) (act_bind (cap_guard X c v cap) k)"
  by (rule preserves_bind [OF frames_kept [OF frames_guards(1)]])

lemma granted_not_owner:
  assumes "zod_ok parse" "parse (ZObject fs) j = Some d" "(''role'', ZEnum grantable_roles) \<in> set fs"
  shows "role_of (d_str d ''role'') \<noteq> Owner"
  using zod_ok_enum [OF assms] by (auto simp: grantable_roles_def role_of_def)

lemma kept_target:
  assumes "preserves (kept w os) (k None)"
    and "\<And>s m. kept w os s \<Longrightarrow> member_at s v u = Some m \<Longrightarrow> kept w os (snd (k (Some (member_view m)) s))"
  shows "preserves (kept w os) (act_bind (memberRow v u) k)"
  unfolding memberRow_def
proof (rule preserves_get_bind)
  fix s assume "kept w os s"
  then show "kept w os (snd (k (map_option member_view (member_at s v u)) s))"
    using assms by (cases "member_at s v u") (simp_all add: preserves_def)
qed

lemma kept_members_PATCH:
  assumes "zod_ok (av_safeParse (ax_api X))" "kept w os s"
  shows "kept w os (snd (members_PATCH X c v s))"
  unfolding members_PATCH_def route_snd
proof (rule kept_snd [OF _ assms(2)], intro preserves_guard preserves_parsed kept_target, goal_cases)
  case (2 ctx d s m)
  then have "role_of (d_str d ''role'') \<noteq> Owner"
    using granted_not_owner [OF assms(1)] by (simp add: changeRoleSchema_def)
  then show ?case using kept_changeRole [OF 2(2,3)] 2(2)
    by (simp add: act_return_run member_view_def Let_def snd_bind_return)
qed (simp add: preserves_return)

lemma kept_members_DELETE:
  assumes "kept w os s"
  shows "kept w os (snd (members_DELETE X c v s))"
  unfolding members_DELETE_def route_snd
proof (rule kept_snd [OF _ assms], intro preserves_guard preserves_parsed preserves_if kept_target, goal_cases)
  case (3 ctx d s m)
  then show ?case using kept_offboard [of w os s v "d_str d ''sub''" m]
    by (simp add: act_return_run member_view_def snd_bind_return)
qed (simp_all add: preserves_return)

lemma frames_invite_parts [frame_intros]:
  "frames f (bad_scope v d u)" "frames f (inviter_name v u)" "frames f (workspace_name v)" "frames f (sendInviteEmail M m)"
  unfolding bad_scope_def inviter_name_def workspace_name_def sendInviteEmail_def sendCompliant_def isSuppressed_def Let_def
  by (intro frame_intros; simp)+

lemma kept_invites_POST:
  assumes "zod_ok (av_safeParse (ax_api X))" "kept w os s"
  shows "kept w os (snd (invites_POST X c v s))"
  unfolding invites_POST_def route_snd Let_def
proof (rule kept_snd [OF _ assms(2)], intro preserves_guard preserves_limit preserves_parsed preserves_case_prod inv_intros kept_createInvite)
qed (use granted_not_owner [OF assms(1)] in \<open>simp_all add: frames_kept frames_invite_parts inviteSchema_def invite_args_def\<close>)

lemma kept_invite_each:
  assumes "role_of (d_str d ''role'') \<noteq> Owner"
  shows "preserves (kept w os) (invite_each X c v d u inviter name i es)"
proof (induction es arbitrary: i)
  case (Cons e es)
  show ?case unfolding invite_each.simps Let_def
    by (intro inv_intros preserves_case_prod kept_createInvite Cons.IH; simp add: assms frames_kept frames_invite_parts invite_args_def)
qed (simp add: preserves_return)

lemma kept_invites_batch_POST:
  assumes "zod_ok (av_safeParse (ax_api X))" "kept w os s"
  shows "kept w os (snd (invites_batch_POST X c v s))"
  unfolding invites_batch_POST_def route_snd Let_def
proof (rule kept_snd [OF _ assms(2)], intro preserves_guard preserves_limit preserves_parsed preserves_case_prod inv_intros kept_invite_each)
qed (use granted_not_owner [OF assms(1)] in \<open>simp_all add: frames_kept frames_invite_parts batchInviteSchema_def\<close>)

lemma kept_profile_PATCH: "kept w os s \<Longrightarrow> kept w os (snd (profile_PATCH X c v s))"
proof -
  have "preserves (kept w os) (updateDisplayName v u n)" "preserves (kept w os) (setMemberTimezone v u n)" for v u n
    unfolding updateDisplayName_def setMemberTimezone_def
    by (rule preserves_tbl_update, rule kept_upd; simp add: mb_key_def counted_def)+
  then show "kept w os s \<Longrightarrow> kept w os (snd (profile_PATCH X c v s))"
    unfolding profile_PATCH_def route_snd
    by (elim kept_snd [rotated], intro preserves_parsed inv_intros frames_kept [OF frames_guards(2)]; simp)
qed

lemma kept_join_POST: "kept w os s \<Longrightarrow> kept w os (snd (join_POST X c s))"
  unfolding join_POST_def route_snd Let_def
proof (elim kept_snd [rotated], intro preserves_if preserves_parsed preserves_limit preserves_bind kept_acceptInvite, goal_cases)
  case (2 d result)
  show ?case by (cases result) (simp_all add: preserves_def act_return_run)
qed (simp_all add: preserves_return)

lemma kept_workspaces_POST: "kept w os s \<Longrightarrow> kept w os (snd (workspaces_POST X c s))"
proof -
  have un: "snd (unhandled m s) = snd (m s)" for m :: "(db, 'a response) act" and s
    by (simp add: unhandled_def split: prod.split sum.split)
  show "kept w os s \<Longrightarrow> kept w os (snd (workspaces_POST X c s))"
    unfolding workspaces_POST_def un Let_def
    by (elim kept_snd [rotated], intro preserves_if preserves_limit preserves_option preserves_bind kept_createWorkspace; simp add: preserves_return)
qed

subsection \<open>Any run of requests\<close>

datatype served = Served api_request | JoinPost | WorkspacesPost

fun serve :: "app_env \<Rightarrow> call \<times> served \<Rightarrow> db \<Rightarrow> db" where
  "serve X (c, Served r) s = api_run X c r s"
| "serve X (c, JoinPost) s = snd (join_POST X c s)"
| "serve X (c, WorkspacesPost) s = snd (workspaces_POST X c s)"

fun runs_approved :: "call \<times> served \<Rightarrow> bool" where
  "runs_approved (c, Served (ApprovalsPost w)) = True"
| "runs_approved q = False"

lemma kept_serve:
  assumes "zod_ok (av_safeParse (ax_api X))" "kept w os s" "\<not> runs_approved q"
  shows "kept w os (serve X q s)"
proof -
  have api: "kept w os (api_run X c r s)" if "\<not> runs_approved (c, Served r)" for c r
  proof (cases "aside r")
    case True
    then show ?thesis using assms(2) kept_rolls [OF rolls_aside] by simp
  next
    case False
    then show ?thesis using that assms
      by (cases r) (simp_all add: kept_members_PATCH kept_members_DELETE kept_invites_POST kept_invites_batch_POST kept_profile_PATCH)
  qed
  obtain c r where q: "q = (c, r)" by (cases q)
  show ?thesis
  proof (cases r)
    case (Served x)
    then show ?thesis using api assms(3) by (simp add: q)
  qed (use assms(2) in \<open>simp_all add: q kept_join_POST kept_workspaces_POST\<close>)
qed

end
