(* ===== verification/Actions.thy ===== *)
theory Actions
  imports Ingest Memory Research Dedupe Owners
begin

text \<open>
  What an approved action does: \<^verbatim>\<open>executeAction\<close> of \<^verbatim>\<open>lib/domain/approvals.ts\<close>, which hands each kind of action to the component that carries it out. It is
  the executor that \<^verbatim>\<open>Approvals\<close> takes as an argument; the theorem at the end puts the two together. Mails and notifications that an action sends are
  values of the operations and are not collected here.
\<close>

record action_env =
  xe_crm :: crm_env
  xe_cal :: cal_env
  xe_doc :: doc_env
  xe_import :: import_env
  xe_gateway :: gateway_env
  xe_store :: MemorySource
  xe_runner :: runner_env
  xe_blake3 :: "string \<Rightarrow> string"

definition xe_crypto :: "action_env \<Rightarrow> crypto_env" where
  "xe_crypto X = ck_crypto (xe_crm X)"

text \<open>Random values of one execution.\<close>

record action_draws =
  xd_id :: "nat \<Rightarrow> uuid"
  xd_activity :: "nat \<Rightarrow> uuid"
  xd_iv :: "nat \<Rightarrow> string"
  xd_event :: fresh
  xd_import :: import_draws

datatype ActionResult =
    NoteStored uuid
  | FieldSet string
  | StandardUpdated
  | RecordCreated bool uuid
  | RecordDeleted CrmEntity uuid
  | CrmDeduped DedupeReport
  | EventScheduled uuid
  | EventCancelled uuid
  | NodeAsserted uuid
  | RunnerReply json
  | DocumentStored uuid nat
  | LedgerFiled uuid
  | TaskCreated uuid
  | ImportStarted uuid JobProgress
  | ReviewFlushed uuid int int

subsection \<open>The parts\<close>

definition def_with_key :: "FieldDef list \<Rightarrow> string \<Rightarrow> FieldDef option" where
  "def_with_key defs k = first_where (\<lambda>d. df_key d = k) defs"

definition set_field :: "action_env \<Rightarrow> ms \<Rightarrow> action_draws \<Rightarrow> nat \<Rightarrow> uuid \<Rightarrow> CrmEntity \<Rightarrow> uuid \<Rightarrow> FieldDef \<Rightarrow> string \<Rightarrow> string \<Rightarrow> (db, unit) act" where
  "set_field X now dr n w e i d v u = setFieldValue (xe_crm X) now (xd_id dr n) (xd_activity dr n) (xd_iv dr n)
     \<lparr>sf_workspaceId = w, sf_entity = e, sf_recordId = i, sf_fieldId = df_id d, sf_raw = v, sf_bySub = u, sf_byAgent = Some True\<rparr>"

text \<open>The custom fields of a created record; unknown keys are passed over.\<close>

fun set_fields :: "action_env \<Rightarrow> ms \<Rightarrow> action_draws \<Rightarrow> nat \<Rightarrow> uuid \<Rightarrow> CrmEntity \<Rightarrow> uuid \<Rightarrow> FieldDef list \<Rightarrow> (string \<times> string) list \<Rightarrow> string \<Rightarrow> (db, unit) act" where
  "set_fields X now dr n w e i defs [] u = act_return ()"
| "set_fields X now dr n w e i defs (f # fs) u =
     act_bind (case def_with_key defs (fst f) of None \<Rightarrow> act_return () | Some d \<Rightarrow> set_field X now dr n w e i d (snd f) u)
       (\<lambda>_. set_fields X now dr (n + 1) w e i defs fs u)"

definition agent_action :: "ms \<Rightarrow> action_draws \<Rightarrow> uuid \<Rightarrow> CrmEntity \<Rightarrow> uuid \<Rightarrow> string \<Rightarrow> string \<Rightarrow> (db, unit) act" where
  "agent_action now dr w e i u tool = recordActivity now (xd_activity dr 100) w e i (Some u) True (AgentActionRun tool) None"

definition update_standard :: "ms \<Rightarrow> action_draws \<Rightarrow> uuid \<Rightarrow> CrmEntity \<Rightarrow> uuid \<Rightarrow> StandardPatch \<Rightarrow> string \<Rightarrow> (db, unit) act" where
  "update_standard now dr w e i p u = (case e of
     CrmAccount \<Rightarrow> updateAccount now (xd_activity dr) w i \<lparr>pa_name = sp_name p, pa_domain = map_option Some (sp_domain p)\<rparr> u
   | CrmDeal \<Rightarrow> updateDeal now (xd_activity dr) w i \<lparr>pd_name = sp_name p, pd_valueMinor = sp_valueMinor p\<rparr> u
   | CrmContact \<Rightarrow> updateContact now (xd_activity dr) w i \<lparr>pc_name = sp_name p, pc_title = map_option Some (sp_title p)\<rparr> u)"

text \<open>Find or create; the answer is the record's id and whether it is new.\<close>

definition create_record :: "action_env \<Rightarrow> ms \<Rightarrow> action_draws \<Rightarrow> uuid \<Rightarrow> CrmEntity \<Rightarrow> string \<Rightarrow> StandardPatch \<Rightarrow> uuid option \<Rightarrow> string \<Rightarrow> (db, uuid \<times> bool) act" where
  "create_record X now dr w e name p account u = (case e of
     CrmAccount \<Rightarrow> act_bind (upsertAccount now (xd_id dr 0) (xd_activity dr 0) w name (sp_domain p) u) (\<lambda>(r, new). act_return (AccountRow.ar_id r, new))
   | CrmDeal \<Rightarrow> if \<not> truthy account then act_throw (JsError ''deal requires accountId (its parent account)'')
       else act_bind (upsertDeal now (xd_id dr 0) (xd_activity dr 0) \<lparr>cd_workspaceId = w, cd_accountId = or_empty account, cd_name = name,
          cd_valueMinor = or_default (sp_valueMinor p) 0, cd_ownerSub = u\<rparr>) (\<lambda>(r, new). act_return (dr_id r, new))
   | CrmContact \<Rightarrow> upsertContact (xe_crypto X) now (xd_id dr 0) (xd_activity dr 0) (xd_iv dr 0) \<lparr>nc_workspaceId = w, nc_name = name, nc_title = sp_title p,
          nc_accountId = account, nc_ownerSub = u, nc_email = None\<rparr>)"

definition delete_record :: "action_env \<Rightarrow> ms \<Rightarrow> uuid \<Rightarrow> CrmEntity \<Rightarrow> uuid \<Rightarrow> string \<Rightarrow> (db, unit) act" where
  "delete_record X now w e i u = (case e of CrmAccount \<Rightarrow> deleteAccount (xe_crypto X) now w i u
     | CrmDeal \<Rightarrow> deleteDeal (xe_crypto X) now w i u | CrmContact \<Rightarrow> deleteContact (xe_crypto X) now w i u)"

text \<open>\<^verbatim>\<open>due ? new Date(due) : null\<close>; a date that cannot be read raises when it is written.\<close>

definition due_date :: "action_env \<Rightarrow> string option \<Rightarrow> err + ms option" where
  "due_date X due = (if \<not> truthy due then Inr None else case ck_date (xe_crm X) (or_empty due) of None \<Rightarrow> Inl (JsError ''Invalid time value'') | Some t \<Rightarrow> Inr (Some t))"

definition from_runner :: "json option \<Rightarrow> (db, ActionResult) act" where
  "from_runner reply = (case reply of None \<Rightarrow> act_throw (JsError ''runner unavailable'') | Some j \<Rightarrow> act_return (RunnerReply j))"

subsection \<open>The executor\<close>

fun execute_action :: "action_env \<Rightarrow> ms \<Rightarrow> action_draws \<Rightarrow> uuid \<Rightarrow> AgentAction \<Rightarrow> string \<Rightarrow> uuid option \<Rightarrow> (db, ActionResult) act" where
  "execute_action X now dr w (CrmNote e i ty title body) u p =
     act_bind (addNote (xe_crypto X) now (xd_id dr 0) (xd_activity dr 0) (xd_iv dr) \<lparr>an_workspaceId = w, an_entity = e, an_recordId = i, an_type = ty,
        an_title = title, an_body = body, an_authorSub = u, an_byAgent = Some True, an_personaId = p\<rparr>) (\<lambda>r. act_return (NoteStored (nv_id r)))"
| "execute_action X now dr w (CrmField e i k v) u p = act_bind (listFieldDefs w e True) (\<lambda>defs. case def_with_key defs k of
       None \<Rightarrow> act_throw (JsError (''unknown field '' @ k))
     | Some d \<Rightarrow> act_bind (set_field X now dr 0 w e i d v u) (\<lambda>_. act_return (FieldSet k)))"
| "execute_action X now dr w (CrmStandard e i patch) u p = act_bind (update_standard now dr w e i patch u) (\<lambda>_.
     act_bind (agent_action now dr w e i u ''crm.write'') (\<lambda>_. act_return StandardUpdated))"
| "execute_action X now dr w (CrmCreate e name patch account flds) u p =
     act_bind (create_record X now dr w e name patch account u) (\<lambda>(i, new).
     act_bind (if flds = [] then act_return () else act_bind (listFieldDefs w e True) (\<lambda>defs. set_fields X now dr 1 w e i defs flds u)) (\<lambda>_.
     act_bind (agent_action now dr w e i u ''crm.create'') (\<lambda>_. act_return (RecordCreated new i))))"
| "execute_action X now dr w (CrmDelete e i) u p = act_bind (delete_record X now w e i u) (\<lambda>_. act_return (RecordDeleted e i))"
| "execute_action X now dr w CrmDedupe u p = act_bind (dedupeWorkspaceCrm (xe_crypto X) now w \<lparr>dz_dryRun = False, dz_actorSub = Some u, dz_maxMerges = None\<rparr>)
     (\<lambda>report. act_return (CrmDeduped report))"
| "execute_action X now dr w (CalendarSchedule title k st en tz loc des att chan) u p =
     act_bind (createEvent (xe_cal X) now (xd_event dr) \<lparr>ce_workspaceId = w, ce_createdBySub = u, ce_kind = Some k, ce_title = title, ce_description = des,
        ce_location = loc, ce_startsAt = ck_date (xe_crm X) st, ce_endsAt = ck_date (xe_crm X) en, ce_allDay = None, ce_timezone = tz, ce_channelId = chan,
        ce_projectId = None, ce_taskId = None, ce_dealId = None, ce_attendees = att, ce_reminderOffsetsMin = None\<rparr>) (\<lambda>(i, out). act_return (EventScheduled i))"
| "execute_action X now dr w (CalendarCancel e) u p = act_bind (cancelEvent (xe_cal X) now (xd_event dr) w e (Some u)) (\<lambda>_. act_return (EventCancelled e))"
| "execute_action X now dr w (MemoryAssert repo k content anchors conf) u p =
     act_bind (assert_degrading (xe_doc X) (xe_gateway X) (xe_blake3 X) now (xd_id dr 0) (xd_iv dr 0) (xe_store X) repo \<lparr>as_kind = k, as_content = content,
        as_anchors = Some anchors, as_confidence = conf, as_trustTier = Some ''agent-asserted''\<rparr> w u) (\<lambda>node. act_return (NodeAsserted (nn_id node)))"
| "execute_action X now dr w (RunnerTerminal cmd cwd) u p = from_runner (terminalExec (xe_runner X) cmd cwd None)"
| "execute_action X now dr w (RunnerCode lang source files) u p = from_runner (codeRun (xe_runner X) lang source (if files = [] then None else Some files))"
| "execute_action X now dr w (DocumentsWrite name content account deal chan) u p =
     act_bind (Documents.ingestDocument (xe_doc X) now (xd_id dr 0) (\<lambda>k. xd_id dr (k + 1)) (\<lambda>k. xd_iv dr (k + 1)) (xd_iv dr 0) (xd_activity dr 0)
        \<lparr>ig_workspaceId = w, ig_scope = \<lparr>ds_accountId = account, ds_dealId = deal, ds_channelId = chan\<rparr>, ig_name = name, ig_mime = Some ''text/markdown'',
         ig_blobUrl = [], ig_uploadedBySub = u, ig_buffer = None, ig_text = Some content\<rparr>) (\<lambda>(i, chunks). act_return (DocumentStored i chunks))"
| "execute_action X now dr w (LedgerWrite chan k txt own due) u p = act_bind (act_lift (due_date X due)) (\<lambda>t.
     act_bind (witness (xe_crypto X) (xe_blake3 X) now (xd_id dr 0) (xd_iv dr 0) \<lparr>wi_workspaceId = w, wi_channelId = chan, wi_sourceMessageId = None,
        wi_kind = k, wi_text = txt, wi_bySub = u, wi_ownerSub = own, wi_due = t, wi_proposedByAgent = True\<rparr>) (\<lambda>r. act_return (LedgerFiled (lr_id r))))"
| "execute_action X now dr w (PmWrite title project prio assignee due raci) u p = act_bind (act_lift (due_date X due)) (\<lambda>t.
     act_bind (createTask (xe_cal X) now (xd_id dr 0) (xd_id dr 1) (xd_event dr) \<lparr>ti_workspaceId = w, ti_projectId = project, ti_title = title,
        ti_assigneeSub = assignee, ti_priority = prio, ti_due = t, ti_actorSub = Some u\<rparr>) (\<lambda>(task, out).
     act_bind (if raci = [] then act_return [] else setTaskRaci (xe_cal X) now (xd_event dr) w (TaskRow.tv_id task)
        (map (\<lambda>(who, role). \<lparr>rc_sub = who, rc_role = role\<rparr>) raci) (Some u)) (\<lambda>_. act_return (TaskCreated (TaskRow.tv_id task)))))"
| "execute_action X now dr w (CrmImport sheet mapping name preview) u p = act_bind (approveMapping now w mapping) (\<lambda>_.
     act_bind (createImportJob now (xd_id dr 0) w sheet mapping u None) (\<lambda>job.
     act_bind (runImportSlice (xe_import X) (xe_cal X) (xd_import dr) now w job IMPORT_SLICE) (\<lambda>progress. act_return (ImportStarted job progress))))"
| "execute_action X now dr w (CrmIngestReview job name held) u p =
     act_bind (flushHeldRows (xe_import X) (xe_cal X) (xd_import dr) now w job IMPORT_SLICE) (\<lambda>(written, remaining). act_return (ReviewFlushed job written remaining))"

text \<open>With the results printed as they are hashed for the tool-call log.\<close>

definition executeAction :: "action_env \<Rightarrow> (ActionResult \<Rightarrow> string) \<Rightarrow> ms \<Rightarrow> action_draws \<Rightarrow> uuid \<Rightarrow> AgentAction \<Rightarrow> string \<Rightarrow> uuid option \<Rightarrow> (db, string) act" where
  "executeAction X print now dr w a u p = act_bind (execute_action X now dr w a u p) (\<lambda>r. act_return (print r))"

subsection \<open>What no action touches\<close>

text \<open>The database without the tables an action may write: the CRM, projects, the calendar and its notifications, documents, the ledger, imported rows and
  their mappings and jobs, the knowledge graph, and the audit trail.\<close>

definition apart_from_work :: "db \<Rightarrow> db" where
  "apart_from_work s = s\<lparr>ledgerEntries := [], auditLog := [], documents := [], notifications := [], accounts := [], contacts := [], deals := [],
     projects := [], tasks := [], taskRaci := [], calendarEvents := [], eventAttendees := [], eventReminders := [], agentThreads := [],
     crmFieldDefs := [], crmFieldValues := [], crmNotes := [], crmNoteComments := [], crmActivity := [], crmRecordTags := [], documentChunks := [],
     messageLinks := [], importRows := [], importMappings := [], importJobs := [], memoryNodes := [], auditLogSerial := 0\<rparr>"

lemma apart_off_calendar [frame_intros]: "off_calendar apart_from_work"
  by (simp add: off_calendar_def apart_from_work_def)

lemma apart_deletes [frame_intros]:
  "frames apart_from_work (task_delete p1)" "frames apart_from_work (account_delete p4)"
  "frames apart_from_work (deal_delete p5)" "frames apart_from_work (note_delete p6)"
  by (simp_all add: frames_def work_delete_defs apart_from_work_def Let_def)

lemma apart_trail [frame_intros]:
  "frames apart_from_work (recordActivity now aid w e i u b k m)" "frames apart_from_work (appendAudit E now ai)"
  by (rule frames_recordActivity frames_appendAudit; simp add: apart_from_work_def)+

lemma apart_crm [frame_intros]:
  "frames apart_from_work (createAccount now n aid w name dm u)" "frames apart_from_work (createDeal now n aid da)"
  "frames apart_from_work (createContact E now n aid iv ca)"
  "frames apart_from_work (updateAccount now aids w i pa u)" "frames apart_from_work (updateDeal now aids w i pd u)"
  "frames apart_from_work (updateContact now aids w i pc u)"
  unfolding createAccount_def createDeal_def createContact_def insert_new_contact_def updateAccount_def updateDeal_def updateContact_def
    field_activities_def work_insert_defs Let_def
  by (intro frame_intros rolls_rules; simp add: apart_from_work_def)+

lemma apart_upserts [frame_intros]:
  "frames apart_from_work (upsertAccount now n aid w name dm u)" "frames apart_from_work (upsertDeal now n aid da)"
  "frames apart_from_work (upsertContact E now n aid iv ca)"
  unfolding upsertAccount_def upsertDeal_def upsertContact_def name_match_or_create_def getDeal_def Let_def by (intro frame_intros)+

lemma apart_crm_deletes [frame_intros]:
  "frames apart_from_work (deleteContact E now w i u)" "frames apart_from_work (deleteDeal E now w i u)" "frames apart_from_work (deleteAccount E now w i u)"
  unfolding deleteContact_def deleteDeal_def deleteAccount_def deleteCrmSubData_def Let_def
  by (intro frame_intros rolls_rules; simp add: apart_from_work_def)+

lemma apart_fields [frame_intros]:
  "frames apart_from_work (setFieldValue K now n aid iv a)" "frames apart_from_work (createFieldDef E now n fi)" "frames apart_from_work (addNote E now n aid ivs na)"
proof -
  have "frames apart_from_work (upsert_field_value r)" for r
    unfolding frames_def upsert_field_value_def work_insert_defs by (simp add: act_defs tbl_update_def tbl_insert_def apart_from_work_def)
  then show "frames apart_from_work (setFieldValue K now n aid iv a)"
    unfolding setFieldValue_def Let_def by (intro frame_intros rolls_rules; simp)
qed (unfold createFieldDef_def addNote_def work_insert_defs Let_def, (intro frame_intros rolls_rules; simp add: apart_from_work_def)+)

lemma apart_work [frame_intros]:
  "frames apart_from_work (createProject now n w nm)" "frames apart_from_work (createTask C now n nid fr ti)" "frames apart_from_work (setTaskRaci C now fr w t as v)"
  unfolding createProject_def createTask_def setTaskRaci_def notify_assignee_def notifyTaskAssigned_def syncTaskDeadline_def insert_notification_def
    work_insert_defs Let_def
  by (intro frame_intros rolls_rules; simp add: apart_from_work_def)+

lemma apart_records [frame_intros]:
  "frames apart_from_work (witness E bl now n iv wi)" "frames apart_from_work (Documents.ingestDocument D now n ids ivs iv aid da)"
  unfolding witness_def Documents.ingestDocument_def index_text_def ingest_trail_def insert_document_def insert_chunk_def insert_defs Let_def
  by (intro frame_intros rolls_rules; simp add: apart_from_work_def)+

lemma apart_memory [frame_intros]: "frames apart_from_work (assert_degrading D G b now n iv st repo a w u)"
  unfolding assert_degrading_def neon_assert_def insert_memory_node_def Let_def by (intro frame_intros rolls_rules; simp add: apart_from_work_def)

lemma frames_repoint:
  "(\<And>g s. f (upd g s) = f s) \<Longrightarrow> frames f (repoint_unique tbl upd key canon dup move)"
  unfolding repoint_unique_def Let_def by (intro frame_intros rolls_rules)

lemma apart_merge [frame_intros]: "frames apart_from_work (mergeRecord E now w e dup canon u)"
  unfolding mergeRecord_def repoint_shared_def merge_account_def merge_deal_def merge_contact_def repointNotes_def repointActivity_def
    repointFieldValues_def repointTags_def repointLinks_def
  by (intro frame_intros rolls_rules frames_repoint; simp add: apart_from_work_def)

lemma apart_dedupe [frame_intros]: "frames apart_from_work (dedupeWorkspaceCrm E now w opts)"
  unfolding dedupeWorkspaceCrm_def Let_def by (intro frame_intros frames_merge_pass)

text \<open>A run of an import carries the database in its state.\<close>

abbreviation apart_real :: "real_state \<Rightarrow> db" where
  "apart_real \<equiv> \<lambda>st. apart_from_work (rl_db st)"

lemma frames_on_db: "frames f m \<Longrightarrow> frames (\<lambda>st. f (rl_db st)) (on_db m)"
  by (auto simp: frames_def on_db_def split: prod.splits) (metis snd_conv)

lemma frames_draw: "frames (\<lambda>st. f (rl_db st)) draw"
  by (simp add: frames_def draw_def)

lemma frames_set_state: "(\<And>st. rl_db (g st) = rl_db st) \<Longrightarrow> frames (\<lambda>st. f (rl_db st)) (set_state g)"
  by (simp add: frames_def set_state_def)

lemma frames_within: "frames (\<lambda>st. f (rl_db st)) m \<Longrightarrow> frames f (within m w)"
  unfolding frames_def within_def by (auto split: prod.splits) (metis real_state.select_convs(1) snd_conv)

lemmas real_rules = frames_draw frames_set_state frames_on_db

lemma apart_setRowStatus [frame_intros]: "frames apart_from_work (setRowStatus i st)"
  unfolding setRowStatus_def by (rule frames_tbl_update) (simp add: apart_from_work_def)

lemma frames_listFieldDefs [frame_intros]: "frames f (listFieldDefs w e b)"
  unfolding listFieldDefs_def by (intro frame_intros)

lemma apart_real_ops:
  "frames apart_real (real_account dr now w u spec nm dm)" "frames apart_real (real_contact E dr now w u spec name ti mail ac)"
  "frames apart_real (real_deal dr now w u dn v ac)" "frames apart_real (real_task C dr now w spec tt pr)"
  "frames apart_real (real_custom I dr now w u e rid k l ty v2)"
  unfolding real_account_def real_contact_def real_deal_def real_task_def task_project_def real_custom_def fieldId_def cached_defs_def Let_def
  by (intro frame_intros real_rules; simp)+

lemma apart_upserter:
  "frames apart_real (up_account (realUpserter I C dr now w u spec) nm dm)" "frames apart_real (up_contact (realUpserter I C dr now w u spec) name ti mail ac)"
  "frames apart_real (up_deal (realUpserter I C dr now w u spec) dn v ac)" "frames apart_real (up_task (realUpserter I C dr now w u spec) tt pr)"
  "frames apart_real (up_custom (realUpserter I C dr now w u spec) e rid k l ty v2)"
  by (simp_all add: realUpserter_def apart_real_ops)

lemma frames_outcome: "(\<And>i b. frames f (m i b)) \<Longrightarrow> frames f (case x of (i, b) \<Rightarrow> m i b)"
  by (cases x) simp

lemma apart_resolveRow: "frames apart_real (resolveRow spec vals (realUpserter I C dr now w u sp))"
  unfolding resolveRow_def resolve_account_def resolve_contact_def resolve_deal_def resolve_task_def set_customs_def Let_def
  by (intro frame_intros real_rules apart_upserter frames_outcome)

lemma apart_write_row: "frames apart_real (write_row (realUpserter I C dr now w u sp) spec r)"
  unfolding write_row_def by (intro frame_intros real_rules apart_resolveRow)

lemma apart_rows:
  "frames apart_real (run_rows (realUpserter I C dr now w u sp) spec least rs t)" "frames apart_real (flush_rows (realUpserter I C dr now w u sp) spec rs t)"
  by (induction rs arbitrary: t) (simp_all, (intro frame_intros real_rules apart_write_row conjI impI; simp)+)

lemma apart_import [frame_intros]:
  "frames apart_from_work (approveMapping now w m)" "frames apart_from_work (createImportJob now n w sheet m u least)"
  "frames apart_from_work (runImportSlice I C dr now w j k)" "frames apart_from_work (flushHeldRows I C dr now w j k)"
  unfolding approveMapping_def createImportJob_def insert_import_job_def runImportSlice_def run_job_def finish_slice_def set_job_def flushHeldRows_def
    countHeldRows_def Let_def
  by (intro frame_intros rolls_rules frames_within apart_rows; simp add: apart_from_work_def)+

lemma apart_set_fields: "frames apart_from_work (set_fields X now dr n w e i defs fs u)"
proof (induction fs arbitrary: n)
  case (Cons a fs)
  then show ?case unfolding set_fields.simps set_field_def by (intro frame_intros)
qed (simp add: frames_return)

lemma apart_execute: "frames apart_from_work (execute_action X now dr w a u p)"
  by (induction X now dr w a u p rule: execute_action.induct;
      unfold execute_action.simps update_standard_def create_record_def delete_record_def agent_action_def set_field_def from_runner_def;
      intro frame_intros apart_set_fields frames_outcome)

text \<open>Carrying out an approved action, whatever it is and whatever the database holds, changes no table but those of the work: memberships, invitations,
  role assertions, workspaces, channels and their seats, messages, settings, agents, personas, prompts, grants and the approval queue are as before.
  In particular the executor leaves the queue alone, which is what the queue relies on to run every action at most once.\<close>

theorem actions_change_work_only:
  "apart_from_work (snd (executeAction X print now dr w a u p s)) = apart_from_work s
   \<and> executor_leaves_queue (A\<lparr>ae_execute := executeAction X print now dr\<rparr>) i"
proof -
  have f: "frames apart_from_work (executeAction X print now dr w a u p)" for w a u p
    unfolding executeAction_def by (intro frame_intros apart_execute)
  have "agentApprovals (snd (executeAction X print now dr w a u p s)) = agentApprovals s" for w a u p s
    using arg_cong [OF frames_snd [OF f, of w a u p s], of agentApprovals] by (simp add: apart_from_work_def)
  then show ?thesis using frames_snd [OF f] by (simp add: executor_leaves_queue_def is_pending_def Let_def)
qed

end
