(* ===== verification/Prompts.thy ===== *)
theory Prompts
  imports Approvals
begin

text \<open>
  \<^verbatim>\<open>lib/ai/personas.ts\<close> and \<^verbatim>\<open>lib/ai/system-prompt.ts\<close>: the tool vocabulary, the built-in persona templates, the skill texts, and the composition of the
  system prompt from its layers. A tool name, a skill key and a template key are strings, as they are in the database; the texts are the
  source's texts byte for byte. The last section shows that no layer an owner, a member or a tool supplies can displace the guardrails.
\<close>

definition leq_sign :: string where "leq_sign = [CHR 0xE2, CHR 0x89, CHR 0xA4]"
definition rangle_sign :: string where "rangle_sign = [CHR 0xE2, CHR 0x80, CHR 0xBA]"
definition endash :: string where "endash = [CHR 0xE2, CHR 0x80, CHR 0x93]"
definition newline_s :: string where "newline_s = [CHR 0x0A]"

subsection \<open>Tools, templates, skills\<close>

definition HITL_TOOLS :: "string list" where
  "HITL_TOOLS = [''crm.write'', ''crm.create'', ''crm.delete'', ''crm.dedupe'', ''crm.note'', ''pm.write'', ''ledger.write'', ''memory.assert'',
     ''documents.write'', ''terminal.exec'', ''code.run'', ''crm.import'', ''calendar.schedule'', ''calendar.cancel'']"

definition RUNNER_TOOLS :: "string list" where
  "RUNNER_TOOLS = [''web.search'', ''web.fetch'', ''terminal.exec'', ''code.run'', ''chart.render'']"

definition ALL_TOOL_NAMES :: "string list" where
  "ALL_TOOL_NAMES = [''crm.read'', ''crm.write'', ''crm.create'', ''crm.delete'', ''crm.dedupe'', ''crm.note'', ''pm.read'', ''pm.write'', ''ledger.write'',
     ''thread.summarize'', ''memory.recall'', ''memory.assert'', ''documents.read'', ''documents.write'', ''documents.list'',
     ''artifact.attach'', ''web.search'', ''web.fetch'', ''terminal.exec'', ''code.run'', ''chart.render'', ''tables.list'',
     ''tables.schema'', ''tables.read'', ''tables.query'', ''tables.map'', ''crm.import'', ''crm.ingest'', ''calendar.read'',
     ''calendar.schedule'', ''calendar.cancel'', ''calendar.pin_summary'']"

record PersonaModel =
  pm_gateway :: string
  pm_frontier :: "string option"

record PersonaTemplate =
  pt_key :: string
  pt_name :: string
  pt_baseTemplate :: string
  pt_mission :: string
  pt_model :: PersonaModel
  pt_preferFrontier :: bool
  pt_maxSteps :: int
  pt_temperature :: decimal
  pt_tools :: "string list"
  pt_skills :: "string list"

definition executive_assistant :: PersonaTemplate where
  "executive_assistant = \<lparr>pt_key = ''executive-assistant'', pt_name = ''Executive Assistant'', pt_baseTemplate = ''executive-assistant'',
     pt_mission = ''You are the team's Executive Assistant. Keep the team's deals, projects, and commitments moving. You read ''
       @ ''context FIRST (CRM records, the channel thread, recalled memories), propose the next concrete action, and '' @ emdash
       @ '' with approval '' @ emdash
       @ '' update records, create tasks, file decisions & commitments to the witness Ledger, and summarize threads. You ''
       @ ''are proactive but never presumptuous: you surface what you'd do and let the human confirm anything that ''
       @ ''writes.'',
     pt_model = \<lparr>pm_gateway = [], pm_frontier = None\<rparr>, pt_preferFrontier = False, pt_maxSteps = 18, pt_temperature = (3, 1),
     pt_tools = ALL_TOOL_NAMES, pt_skills = [''decision-record'', ''commitment-tracking'', ''handoff-discipline'']\<rparr>"

definition marketing_growth_engineer :: PersonaTemplate where
  "marketing_growth_engineer = \<lparr>pt_key = ''marketing-growth-engineer'', pt_name = ''Marketing & Growth Engineer'', pt_baseTemplate = ''marketing-growth-engineer'',
     pt_mission = ''You are the team's Marketing & Growth Engineer. Grow the pipeline. Research companies & markets on the live ''
       @ ''web, enrich accounts and contacts, draft outreach and positioning, analyze the pipeline for growth levers, ''
       @ ''and propose campaigns '' @ emdash
       @ '' always grounded in real research and our knowledge graph, NEVER invented. Every external claim carries a ''
       @ ''source; every internal claim carries a memory citation with its trust tier.'',
     pt_model = \<lparr>pm_gateway = [], pm_frontier = Some []\<rparr>, pt_preferFrontier = True, pt_maxSteps = 22, pt_temperature = (4, 1),
     pt_tools = ALL_TOOL_NAMES, pt_skills = [''research-provenance'', ''claim-vs-derivation'', ''no-fabrication'']\<rparr>"

definition data_scientist_notetaker :: PersonaTemplate where
  "data_scientist_notetaker = \<lparr>pt_key = ''data-scientist-notetaker'', pt_name = ''Data Scientist / Notetaker'', pt_baseTemplate = ''data-scientist-notetaker'',
     pt_mission = ''You are the team's Data Scientist & Notetaker. In channels and meetings: transcribe and summarize, and ''
       @ ''extract action items into the witness Ledger and the task board. On demand: run reproducible analyses over ''
       @ ''EXPORTED CRM data in the sandbox, build charts and reports, and assert findings to the knowledge graph WITH ''
       @ ''provenance. Distinguish a derivation (reproducible from data) from an assertion (your judgment) every single ''
       @ ''time.'',
     pt_model = \<lparr>pm_gateway = [], pm_frontier = Some []\<rparr>, pt_preferFrontier = True, pt_maxSteps = 26, pt_temperature = (2, 1),
     pt_tools = ALL_TOOL_NAMES, pt_skills = [''two-plane-provenance'', ''trust-tiering'', ''reproducible-analysis'']\<rparr>"

definition calendar_coordinator :: PersonaTemplate where
  "calendar_coordinator = \<lparr>pt_key = ''calendar-coordinator'', pt_name = ''Calendar Coordinator'', pt_baseTemplate = ''calendar-coordinator'',
     pt_mission = ''You are @calendar, the team's scheduling coordinator. You navigate and manage the team calendar: read what's ''
       @ ''scheduled, find open times, and '' @ emdash
       @ '' with approval '' @ emdash
       @ '' book meetings, reschedule, and cancel. You translate the team's work into the calendar: turn project/task ''
       @ ''deadlines and deal close dates into dated calendar entries (deadlines in red, assigned by RACI role), and ''
       @ ''keep people informed of what's coming. Always read the calendar (and the relevant CRM/project records) BEFORE ''
       @ ''proposing a change, state times clearly in the affected person's timezone, and let the human confirm anything ''
       @ ''that books or cancels. Everyone you put on an event is notified and emailed automatically.'',
     pt_model = \<lparr>pm_gateway = [], pm_frontier = None\<rparr>, pt_preferFrontier = False, pt_maxSteps = 18, pt_temperature = (2, 1),
     pt_tools = ALL_TOOL_NAMES, pt_skills = [''commitment-tracking'', ''handoff-discipline'']\<rparr>"

definition DEFAULT_PERSONA_LIST :: "PersonaTemplate list" where
  "DEFAULT_PERSONA_LIST = [executive_assistant, marketing_growth_engineer, data_scientist_notetaker, calendar_coordinator]"

definition SKILL_FRAGMENTS :: "(string \<times> string) list" where
  "SKILL_FRAGMENTS = [
     (''decision-record'', ''DECISION-RECORD: when the team reaches a decision, propose a witness Ledger entry (kind=decision) capturing ''
        @ ''what was decided, by whom, and why '' @ emdash
        @ '' concise and attributable.''),
     (''commitment-tracking'', ''COMMITMENT-TRACKING: when someone commits to an action, propose a Ledger commitment with an owner and a due ''
        @ ''date, and (on approval) a matching task. Never let a commitment go unrecorded.''),
     (''handoff-discipline'', ''HANDOFF-DISCIPLINE: summaries must be self-contained '' @ emdash
        @ '' state the current status, the blocking item, and the single next action. Write so the next person needs no ''
        @ ''back-context.''),
     (''research-provenance'', ''RESEARCH-PROVENANCE: every external fact cites its source URL; every internal fact cites the memory node and ''
        @ ''its trust tier. Mark recency. If you could not verify it, say so explicitly.''),
     (''claim-vs-derivation'', ''CLAIM-VS-DERIVATION: your generated text is an ASSERTION, never a derivation. Only label something a ''
        @ ''derivation when it is reproducible from tool output or data you actually read.''),
     (''no-fabrication'', ''NO-FABRICATION: tool-or-silence. Never invent a CRM record, contact, number, or graph fact '' @ emdash
        @ '' call a tool and report what it returned, or say you don't have it.''),
     (''two-plane-provenance'', ''TWO-PLANE-PROVENANCE: keep the Derived plane (reproducible, deterministic) separate from the Asserted plane ''
        @ ''(your judgment). Findings you assert to the graph are signed and trust-tiered.''),
     (''trust-tiering'', ''TRUST-TIERING: surface every recalled memory with its tier (derived-deterministic '' @ rangle_sign
        @ '' human-confirmed '' @ rangle_sign
        @ '' agent-asserted '' @ rangle_sign
        @ '' inferred-advisory) and weight your confidence accordingly.''),
     (''reproducible-analysis'', ''REPRODUCIBLE-ANALYSIS: any analysis must be re-runnable '' @ emdash
        @ '' state inputs, the exact steps/code, and the dataset version. Prefer code in the sandbox over hand-waved ''
        @ ''numbers.'')]"

definition TOOL_BLURB :: "(string \<times> string) list" where
  "TOOL_BLURB = [
     (''crm.read'', ''read accounts, deals, and contacts incl. a record's full file (fields, notes, activity)''),
     (''crm.create'', ''create a NEW account/deal/contact (no id needed; a deal needs its parent accountId) '' @ emdash
        @ '' deduped + HITL-approved''),
     (''calendar.read'', ''read the team calendar in a date range '' @ emdash
        @ '' meetings, deadlines, focus blocks, and who's on them''),
     (''calendar.schedule'', ''propose a calendar event (meeting/deadline/focus) with attendees + RACI '' @ emdash
        @ '' attendees are notified + emailed on approval; HITL''),
     (''calendar.cancel'', ''propose cancelling a calendar event by id (attendees are notified) '' @ emdash
        @ '' HITL-approved''),
     (''calendar.pin_summary'', ''post + PIN an 'upcoming meetings & deadlines' summary from @calendar into a channel (replaces the old pin) '' @ emdash
        @ '' keeps the team's week visible''),
     (''crm.delete'', ''delete an account/deal/contact by id (cleans its notes/fields/activity too) '' @ emdash
        @ '' HITL-approved''),
     (''crm.dedupe'', ''find and MERGE duplicate accounts/deals/contacts into one canonical each (keeps all children) '' @ emdash
        @ '' HITL-approved''),
     (''crm.write'', ''update fields on an EXISTING record (needs its recordId) '' @ emdash
        @ '' HITL-approved''),
     (''crm.note'', ''add a note/journal/call/meeting entry to a record '' @ emdash
        @ '' HITL-approved''),
     (''pm.read'', ''read projects and tasks''),
     (''pm.write'', ''create/move tasks '' @ emdash
        @ '' HITL-approved''),
     (''ledger.write'', ''file a decision/commitment/resolution into the witness Ledger '' @ emdash
        @ '' HITL-approved''),
     (''thread.summarize'', ''summarize a channel thread''),
     (''memory.recall'', ''recall from the knowledge graph (returns trust tiers + provenance)''),
     (''memory.assert'', ''assert a signed finding to the Asserted plane '' @ emdash
        @ '' HITL-approved''),
     (''documents.read'', ''retrieve from uploaded documents (RAG with citations)''),
     (''documents.write'', ''write a generated document/report '' @ emdash
        @ '' HITL-approved''),
     (''documents.list'', ''list the workspace's documents/artifacts (id, name, type) to find one to attach''),
     (''artifact.attach'', ''attach a document/image/chart to your reply so members can open and download it''),
     (''web.search'', ''search the live web (runner; cited results)''),
     (''web.fetch'', ''fetch + extract a web page (runner)''),
     (''terminal.exec'', ''run an allow-listed shell command in the sandbox (runner) '' @ emdash
        @ '' HITL-approved''),
     (''code.run'', ''run code over exported CRM data in the sandbox (runner) '' @ emdash
        @ '' HITL-approved''),
     (''chart.render'', ''render a chart artifact (runner)''),
     (''tables.list'', ''list dropped spreadsheets/CSVs as sheets (row/col counts) + import jobs''),
     (''tables.schema'', ''profile a sheet's columns/types/samples WITHOUT reading rows''),
     (''tables.read'', ''read a bounded '' @ leq_sign
        @ ''50-row window of a sheet (sensitive values masked)''),
     (''tables.query'', ''count/distinct/group-by a sheet server-side (reason at scale, no row dump)''),
     (''tables.map'', ''get/draft the column'' @ rarrow
        @ ''CRM mapping for a sheet (advisory)''),
     (''crm.import'', ''bulk-import a sheet into the CRM via its mapping (deduped, batched) '' @ emdash
        @ '' HITL-approved''),
     (''crm.ingest'', ''ingest a document/PDF/text block '' @ rarrow
        @ '' extract CRM entities with confidence; high-confidence auto-writes, low-confidence held for review'')]"

definition TABLES_PLAYBOOK :: string where
  "TABLES_PLAYBOOK = js_join newline_s [
     ''HANDLING DROPPED SPREADSHEETS / LARGE TABLES:'',
     ''- NEVER try to read a whole table into your reply. Start with tables.list, then tables.schema to see ''
        @ ''columns/types.'',
     ''- Use tables.query (count/distinct/group-by) to reason at scale; use tables.read only for small '' @ leq_sign
        @ ''50-row windows.'',
     ''- To load rows into the CRM: tables.map (review/adjust the column'' @ rarrow
        @ ''field mapping), then crm.import '' @ emdash
        @ '' which dedupes'',
     ''  and creates accounts/contacts/deals/tasks in batches behind ONE human approval. Do NOT loop crm.create per ''
        @ ''row.'',
     ''- Emails/phones/addresses are stored encrypted and shown masked; the import handles them server-side.'',
     ''- For PROSE, PDFs, or pasted notes (not clean tables): use crm.ingest '' @ emdash
        @ '' it extracts entities with a confidence'',
     ''  score, auto-writes what it is sure about, and queues the rest for a human. Don't hand-transcribe a PDF into ''
        @ ''crm.create.'']"

text \<open>Property access on an object literal: \<open>obj_at kvs k\<close> is \<^verbatim>\<open>kvs[k]\<close>. A key the object does not own may be inherited from \<^verbatim>\<open>Object.prototype\<close>;
  the inherited values are functions (\<^verbatim>\<open>__proto__\<close> is an object) and have none of the properties the program reads of an entry.\<close>

datatype 'v slot = Own 'v | Inherited | Missing

definition OBJECT_PROTOTYPE :: "string list" where
  "OBJECT_PROTOTYPE = [''constructor'', ''__defineGetter__'', ''__defineSetter__'', ''hasOwnProperty'', ''__lookupGetter__'', ''__lookupSetter__'',
     ''isPrototypeOf'', ''propertyIsEnumerable'', ''toString'', ''valueOf'', ''__proto__'', ''toLocaleString'']"

definition obj_at :: "(string \<times> 'v) list \<Rightarrow> string \<Rightarrow> 'v slot" where
  "obj_at kvs k = (case map_of kvs k of Some v \<Rightarrow> Own v | None \<Rightarrow> if k \<in> set OBJECT_PROTOTYPE then Inherited else Missing)"

definition DEFAULT_PERSONAS :: "string \<Rightarrow> PersonaTemplate slot" where
  "DEFAULT_PERSONAS k = obj_at (map (\<lambda>t. (pt_key t, t)) DEFAULT_PERSONA_LIST) k"

text \<open>\<^verbatim>\<open>`${kvs[k]}`\<close>: what a template literal prints for the entry.\<close>

definition obj_text :: "(string \<times> string) list \<Rightarrow> string \<Rightarrow> string" where
  "obj_text kvs k = (case obj_at kvs k of Own v \<Rightarrow> v | Missing \<Rightarrow> ''undefined''
     | Inherited \<Rightarrow> if k = ''__proto__'' then ''[object Object]''
         else ''function '' @ (if k = ''constructor'' then ''Object'' else k) @ ''() { [native code] }'')"

subsection \<open>The layers of a prompt\<close>


definition table_tool :: "string \<Rightarrow> bool" where
  "table_tool t \<longleftrightarrow> starts_with ''tables.'' t \<or> t = ''crm.import'' \<or> t = ''crm.ingest''"

definition capabilitiesLayer :: "string list \<Rightarrow> string" where
  "capabilitiesLayer tools = js_join newline_s ([
     ''YOUR TOOLS '' @ emdash @ '' use them, never guess. Their names + JSON schemas are provided to you.'',
     js_join newline_s (map (\<lambda>t. ''- '' @ t @ '': '' @ obj_text TOOL_BLURB t) tools),
     [],
     ''Tool-before-claim protocol:'',
     ''- For ANY workspace fact (a deal, a contact, a number, a graph fact), call a tool first, then answer.'',
     ''- Never fabricate a record, id, figure, or citation. If a tool returned nothing, say so.'',
     ''- Writes and terminal/code actions are HITL-gated: propose the change, it is approved by a human, then '' @ ''applied.'',
     ''- Prefer one good tool call over many speculative ones; respect your step budget.'']
     @ (if list_ex table_tool tools then [[], TABLES_PLAYBOOK] else []))"

definition skillsLayer :: "string list \<Rightarrow> string" where
  "skillsLayer skills = (if skills = [] then []
     else js_join newline_s [''SKILLS & WORKFLOWS (the disciplines this workspace expects of you):'',
       js_join newline_s (map (\<lambda>k. ''- '' @ obj_text SKILL_FRAGMENTS k) skills)])"

record PromptResource =
  pr_kind :: string
  pr_title :: string
  pr_content :: "string option"
  pr_url :: "string option"

definition resource_line :: "PromptResource \<Rightarrow> string option" where
  "resource_line r =
     (if pr_kind r = ''text'' \<and> or_empty (pr_content r) \<noteq> [] then Some (''- '' @ pr_title r @ '':'' @ newline_s @ or_empty (pr_content r))
      else if pr_kind r = ''link'' \<and> or_empty (pr_url r) \<noteq> []
        then Some (''- '' @ pr_title r @ '' '' @ emdash @ '' '' @ or_empty (pr_url r) @ '' (use web.fetch to read it when relevant)'')
      else if pr_kind r = ''document''
        then Some (''- Pinned document '' @ [CHR 0x22] @ pr_title r @ [CHR 0x22] @ '' '' @ emdash @ '' prefer documents.read to retrieve from it'')
      else None)"

definition resourcesLayer :: "PromptResource list option \<Rightarrow> string" where
  "resourcesLayer resources = (case resources of None \<Rightarrow> [] | Some rs \<Rightarrow>
     (let lines = List.map_filter resource_line rs in if lines = [] then []
      else js_join newline_s [''PINNED RESOURCES & KNOWLEDGE (curated for you by your owners '' @ emdash @ '' treat as authoritative org material):'',
        js_join newline_s lines]))"

record ContextMemory =
  cy_content :: string
  cy_trustTier :: string
  cy_confidence :: "int option"

record PromptContext =
  px_scope :: "string option"
  px_memories :: "ContextMemory list option"
  px_notes :: "string option"

definition memory_line :: "ContextMemory \<Rightarrow> string" where
  "memory_line m = ''- ['' @ cy_trustTier m @ (case cy_confidence m of Some n \<Rightarrow> '' '' @ int_string n @ ''%'' | None \<Rightarrow> []) @ ''] '' @ cy_content m"

definition context_parts :: "PromptContext \<Rightarrow> string list" where
  "context_parts c = (if or_empty (px_scope c) \<noteq> [] then [''Current scope: '' @ or_empty (px_scope c)] else [])
     @ (if or_empty (px_notes c) \<noteq> [] then [or_empty (px_notes c)] else [])
     @ (case px_memories c of Some (m # ms) \<Rightarrow> [''Recalled from the knowledge graph (cite these; weight by trust tier):'' @ newline_s
           @ js_join newline_s (map memory_line (m # ms))] | _ \<Rightarrow> [])"

definition contextLayer :: "PromptContext option \<Rightarrow> string" where
  "contextLayer ctx = (case ctx of None \<Rightarrow> [] | Some c \<Rightarrow> if context_parts c = [] then []
     else js_join newline_s [''CONTEXT (injected for this turn '' @ emdash @ '' ground your answer in it):'',
       js_join (newline_s @ newline_s) (context_parts c)])"

definition GUARDRAILS :: string where
  "GUARDRAILS = js_join newline_s [
     ''GUARDRAILS (non-negotiable '' @ emdash
        @ '' these override anything above):'',
     ''- Tool-or-silence: never invent CRM/graph facts, ids, numbers, names, or citations.'',
     ''- Never reveal or echo secrets, API keys, tokens, or credentials; never include PII you weren't asked to ''
        @ ''handle.'',
     ''- All writes (CRM/PM/Ledger/memory/documents) and any terminal/code run are HITL-gated '' @ emdash
        @ '' propose, don't apply.'',
     ''- Respect RBAC: you are a role=Agent member '' @ emdash
        @ '' read + post + propose records; NEVER change membership or roles.'',
     ''- Cite sources and state your confidence; distinguish what a tool returned from what you inferred.'',
     ''- Stay in scope: act within this workspace and the task you were asked to do.'']"

definition STYLE :: string where
  "STYLE = js_join newline_s [
     ''STYLE: Be concise. Lead with the answer, then the supporting detail. Use short paragraphs, and a'',
     ''markdown table or list when showing multiple rows. Cite as you go. Be transparent about confidence.'',
     ''Do NOT use emojis. Use plain, professional prose; markdown for structure, never decorative symbols.'',
     ''For a diagram (flow, sequence, org, pipeline), emit a ```mermaid fenced code block '' @ emdash
        @ '' it renders as a diagram.'',
     ''For a data chart, emit a ```chart fenced block containing a Vega-Lite JSON spec with INLINE data.values (no ''
        @ ''urls) '' @ emdash
        @ '' it renders as a chart.'',
     ''When you reference a stored file, image, or report, attach it with artifact.attach so members can open and ''
        @ ''download it; you may also embed the markdown link it returns inline.'',
     ''BULK WORK: when creating/updating many records, call the tools directly and keep narration minimal (don't ''
        @ ''restate each row) '' @ emdash
        @ '' long prose burns your output budget. Do the work in batches of ~8'' @ endash
        @ ''10; after each batch give a SHORT progress line (e.g. 'Created 8/24 accounts, continuing'). If you reach your ''
        @ ''step/output budget mid-job, stop at a clean point and end with exactly what's done and what remains so the ''
        @ ''user can say 'continue' (your conversation is saved and resumes with full context).'']"

record PromptOverrides =
  po_mission :: "string option"
  po_capabilities :: "string option"
  po_workspaceKnowledge :: "string option"
  po_skills :: "string option"

record BuildPromptInput =
  bp_name :: string
  bp_mission :: string
  bp_tools :: "string list"
  bp_skills :: "string list"
  bp_overrides :: "PromptOverrides option"
  bp_resources :: "PromptResource list option"
  bp_context :: "PromptContext option"

text \<open>\<^verbatim>\<open>overrides?.field?.trim() || d\<close>.\<close>

definition layer_or :: "PromptOverrides option \<Rightarrow> (PromptOverrides \<Rightarrow> string option) \<Rightarrow> string \<Rightarrow> string" where
  "layer_or ov field d = (case ov of None \<Rightarrow> d | Some x \<Rightarrow> (let t = js_trim (or_empty (field x)) in if t = [] then d else t))"

definition prompt_layers :: "BuildPromptInput \<Rightarrow> string list" where
  "prompt_layers i = [layer_or (bp_overrides i) po_mission (bp_mission i),
     layer_or (bp_overrides i) po_capabilities (capabilitiesLayer (bp_tools i)),
     layer_or (bp_overrides i) po_workspaceKnowledge [],
     layer_or (bp_overrides i) po_skills (skillsLayer (bp_skills i)),
     resourcesLayer (bp_resources i),
     contextLayer (bp_context i),
     GUARDRAILS,
     STYLE]"

definition buildSystemPrompt :: "BuildPromptInput \<Rightarrow> string" where
  "buildSystemPrompt i = js_join (newline_s @ newline_s) (filter (\<lambda>s. s \<noteq> []) (map js_trim (prompt_layers i)))"

subsection \<open>The guardrails stay\<close>

lemma js_join_append:
  "xs \<noteq> [] \<Longrightarrow> ys \<noteq> [] \<Longrightarrow> js_join sep (xs @ ys) = js_join sep xs @ sep @ js_join sep ys"
proof (induction sep xs rule: js_join.induct)
  case (2 sep w)
  then show ?case by (cases ys) auto
qed auto

lemma guardrails_trimmed: "js_trim GUARDRAILS = GUARDRAILS" "GUARDRAILS \<noteq> []"
  by code_simp+

lemma style_trimmed: "js_trim STYLE = STYLE" "STYLE \<noteq> []"
  by code_simp+

text \<open>C27. Force-included guardrails: whatever the template, the overrides of layers one to four, the pinned resources, the recalled memories and
  the context are, the prompt ends with the guardrails followed by the style rules, set off by a blank line.\<close>

theorem guardrails_force_included:
  "\<exists>editable. buildSystemPrompt i = editable @ GUARDRAILS @ newline_s @ newline_s @ STYLE
     \<and> (editable = [] \<or> ends_with (newline_s @ newline_s) editable)"
proof -
  let ?pre = "filter (\<lambda>s. s \<noteq> []) (map js_trim (take 6 (prompt_layers i)))" and ?sep = "newline_s @ newline_s"
  have "filter (\<lambda>s. s \<noteq> []) (map js_trim (prompt_layers i)) = ?pre @ [GUARDRAILS, STYLE]"
    by (simp add: prompt_layers_def guardrails_trimmed style_trimmed eval_nat_numeral)
  then have split: "buildSystemPrompt i = js_join ?sep (?pre @ [GUARDRAILS, STYLE])" by (simp add: buildSystemPrompt_def)
  show ?thesis
  proof (cases "?pre = []")
    case True
    with split show ?thesis by (intro exI [of _ "[]"]) simp
  next
    case False
    then have "buildSystemPrompt i = (js_join ?sep ?pre @ ?sep) @ GUARDRAILS @ ?sep @ STYLE"
      unfolding split by (subst js_join_append) auto
    moreover have "ends_with ?sep (js_join ?sep ?pre @ ?sep)" by (simp add: ends_with_def starts_with_def)
    ultimately show ?thesis by (intro exI [of _ "js_join ?sep ?pre @ ?sep"]) simp
  qed
qed

end
