(* ===== verification/Model_Io.thy ===== *)
theory Model_Io
  imports Import_Parse Approvals Prompts
begin

text \<open>
  What crosses the border to a model: the redaction of logged tool arguments (\<^verbatim>\<open>lib/ai/audit.ts\<close>), the choice of the inference endpoint
  (\<^verbatim>\<open>lib/ai/provider.ts\<close>) and the acceptance of chart specifications written by a model (\<^verbatim>\<open>lib/ai/chart-spec.ts\<close>). JSON values are those of
  \<^verbatim>\<open>Auth\<close>; parsing and printing JSON are arguments.
\<close>

subsection \<open>Logged arguments\<close>

definition SECRET_KEY :: re where
  "SECRET_KEY = ralt [rstrs [''key'', ''token'', ''secret'', ''password'', ''passwd'', ''authorization'', ''auth'', ''bearer'', ''cgk''],
     rseq [rstr ''api'', ropt (rin ''-_''), rstr ''key''], rstrs [''credential'', ''cookie'', ''session'']]"

definition secret_key :: "string \<Rightarrow> bool" where
  "secret_key k \<longleftrightarrow> re_test_i SECRET_KEY k"

definition MAX_ARGS :: nat where "MAX_ARGS = 2000"

definition too_deep :: json where "too_deep = JStr (''['' @ ellipsis @ '']'')"

definition redacted_mark :: json where "redacted_mark = JStr ''[redacted]''"

function redact :: "nat \<Rightarrow> json \<Rightarrow> json" where
  "redact d (JArr vs) = (if d > 6 then too_deep else JArr (map (redact (d + 1)) (take 50 vs)))"
| "redact d (JObj kvs) = (if d > 6 then too_deep else JObj (map (\<lambda>kv. (fst kv, if secret_key (fst kv) then redacted_mark else redact (d + 1) (snd kv))) kvs))"
| "redact d (JStr s) = (if d > 6 then too_deep else if length s > 256 then JStr (take 256 s @ ellipsis) else JStr s)"
| "redact d JNull = (if d > 6 then too_deep else JNull)"
| "redact d (JBool b) = (if d > 6 then too_deep else JBool b)"
| "redact d (JNum n) = (if d > 6 then too_deep else JNum n)"
  by pat_completeness auto
termination
proof (relation "measure (\<lambda>(d, j). size j)")
  show "((d + 1, x), (d, JArr vs)) \<in> measure (\<lambda>(d, j). size j)" if "x \<in> set (take 50 vs)" for d vs x
    using size_list_estimation' [OF in_set_takeD [OF that], of "size x" size] by simp
  show "((d + 1, snd kv), (d, JObj kvs)) \<in> measure (\<lambda>(d, j). size j)" if "kv \<in> set kvs" for d kvs kv
    using size_list_estimation' [OF that, of "size (snd kv)" "size_prod (\<lambda>_. 0) size"] by (cases kv) simp
qed simp

text \<open>\<^verbatim>\<open>stringify\<close> is \<^verbatim>\<open>JSON.stringify\<close>; it raises only for values that are not JSON.\<close>

definition redactedArgs :: "(json \<Rightarrow> string) \<Rightarrow> json \<Rightarrow> string" where
  "redactedArgs stringify args = take MAX_ARGS (stringify (redact 0 args))"

text \<open>Every value under a secret-looking key is masked, at any depth; strings and arrays are bounded.\<close>

fun scrubbed :: "json \<Rightarrow> bool" where
  "scrubbed (JArr vs) = (length vs \<le> 50 \<and> list_all scrubbed vs)"
| "scrubbed (JObj kvs) = list_all (\<lambda>(k, v). if secret_key k then v = redacted_mark else scrubbed v) kvs"
| "scrubbed (JStr s) = (length s \<le> 256 + length ellipsis)"
| "scrubbed _ = True"

fun nesting :: "json \<Rightarrow> nat" where
  "nesting (JArr vs) = Suc (foldr max (map nesting vs) 0)"
| "nesting (JObj kvs) = Suc (foldr max (map (\<lambda>(k, v). nesting v) kvs) 0)"
| "nesting _ = 0"

lemma foldr_max_le: "foldr max xs (0::nat) \<le> n \<longleftrightarrow> (\<forall>x\<in>set xs. x \<le> n)"
  by (induction xs) auto


subsection \<open>The inference endpoint\<close>

datatype InferenceMode = LocalMode | GatewayMode

definition resolveMode :: "(string \<Rightarrow> string option) \<Rightarrow> err + InferenceMode" where
  "resolveMode P = (let raw = or_default (P ''CITRATE_INFERENCE_MODE'') ''gateway''; m = js_lower raw in
     if m = ''local'' then Inr LocalMode else if m = ''gateway'' then Inr GatewayMode
     else Inl (JsError (''Invalid CITRATE_INFERENCE_MODE=\"'' @ m @ ''\" (expected local | gateway)'')))"

record InferenceClient =
  ic_baseURL :: string
  ic_apiKey :: string

definition gatewayClient :: "(string \<Rightarrow> string option) \<Rightarrow> InferenceMode \<Rightarrow> err + InferenceClient" where
  "gatewayClient P mode = (let baseURL = (if mode = GatewayMode then or_default (P ''CITRATE_GATEWAY_URL'') ''https://infer.citrate.ai/v1''
         else or_default (P ''CITRATE_INFERENCE_URL'') ''http://127.0.0.1:8080/v1'');
       apiKey = (case P ''CITRATE_GATEWAY_API_KEY'' of Some k \<Rightarrow> Some k | None \<Rightarrow> P ''CITRATE_INFERENCE_API_KEY'') in
     if mode = GatewayMode \<and> \<not> truthy apiKey
     then Inl (JsError (''CITRATE_GATEWAY_API_KEY (cgk_'' @ ellipsis @ '') is required in gateway mode '' @ emdash @ '' refusing to call '' @
       ''the inference gateway unauthenticated (fail closed).''))
     else Inr \<lparr>ic_baseURL = baseURL, ic_apiKey = or_default apiKey ''not-needed''\<rparr>)"

definition defaultModelId :: "(string \<Rightarrow> string option) \<Rightarrow> string" where
  "defaultModelId P = or_default (P ''CITRATE_MODEL_NAME'') ''gemma-4-E4B-it-Q4_K_M''"

definition getInferenceModel :: "(string \<Rightarrow> string option) \<Rightarrow> PersonaModel \<Rightarrow> bool \<Rightarrow> err + (InferenceClient \<times> string)" where
  "getInferenceModel P m useFrontier = (case resolveMode P of Inl e \<Rightarrow> Inl e | Inr mode \<Rightarrow>
     (case gatewayClient P mode of Inl e \<Rightarrow> Inl e | Inr client \<Rightarrow>
       (let frontierId = (if truthy (pm_frontier m) then or_empty (pm_frontier m) else or_empty (P ''COMMS_FRONTIER_MODEL'')) in
        Inr (client, if useFrontier \<and> P ''COMMS_FRONTIER_ENABLED'' = Some ''1'' \<and> frontierId \<noteq> [] then frontierId
          else if pm_gateway m \<noteq> [] then pm_gateway m else defaultModelId P))))"

text \<open>Outside local mode no model is called without a configured key; the frontier model is used only when the deployment enables it.\<close>

theorem inference_fails_closed:
  assumes "getInferenceModel P m useFrontier = Inr (client, model)"
  shows "(resolveMode P = Inr LocalMode \<or> ic_apiKey client \<noteq> [] \<and> Some (ic_apiKey client) \<in> {P ''CITRATE_GATEWAY_API_KEY'', P ''CITRATE_INFERENCE_API_KEY''})
    \<and> (P ''COMMS_FRONTIER_ENABLED'' = Some ''1'' \<or> model \<in> {pm_gateway m, defaultModelId P})"
proof -
  obtain mode where mode: "resolveMode P = Inr mode" and c: "gatewayClient P mode = Inr client"
    using assms by (auto simp: getInferenceModel_def Let_def split: sum.splits)
  have "mode = LocalMode \<or> ic_apiKey client \<noteq> [] \<and> Some (ic_apiKey client) \<in> {P ''CITRATE_GATEWAY_API_KEY'', P ''CITRATE_INFERENCE_API_KEY''}"
    using c by (cases mode) (auto simp: gatewayClient_def Let_def truthy_def or_default_def split: if_splits option.splits)
  then show ?thesis using assms mode c by (auto simp: getInferenceModel_def Let_def)
qed

theorem inference_fails_closed_witness:
  "let P = [''CITRATE_GATEWAY_API_KEY'' \<mapsto> ''cgk_1''] in
     \<exists>client. getInferenceModel P \<lparr>pm_gateway = ''g'', pm_frontier = Some ''f''\<rparr> True = Inr (client, ''g'') \<and> ic_apiKey client = ''cgk_1''"
proof -
  let ?P = "[''CITRATE_GATEWAY_API_KEY'' \<mapsto> ''cgk_1'']"
  have low: "js_lower ''gateway'' = ''gateway''" by code_simp
  have run: "getInferenceModel ?P \<lparr>pm_gateway = ''g'', pm_frontier = Some ''f''\<rparr> True =
      Inr (\<lparr>ic_baseURL = ''https://infer.citrate.ai/v1'', ic_apiKey = ''cgk_1''\<rparr>, ''g'')"
    by (simp add: getInferenceModel_def resolveMode_def gatewayClient_def Let_def or_default_def truthy_def low)
  have "resolveMode ?P = Inr GatewayMode" by (simp add: resolveMode_def or_default_def low)
  then show ?thesis using inference_fails_closed [OF run] run by (simp add: Let_def)
qed

subsection \<open>Charts\<close>

definition MAX_DEPTH :: nat where "MAX_DEPTH = 16"

definition REMOTE_KEYS :: "string list" where "REMOTE_KEYS = [''url'', ''href'', ''loader'']"

text \<open>A key and its value that let a chart reach the network.\<close>

fun remote_pair :: "string \<Rightarrow> json \<Rightarrow> bool" where
  "remote_pair k (JStr s) = (js_lower k \<in> set REMOTE_KEYS \<or> (js_lower k = ''mark'' \<or> js_lower k = ''type'') \<and> js_lower s = ''image'')"
| "remote_pair k v = (js_lower k \<in> set REMOTE_KEYS)"

fun hasRemote :: "nat \<Rightarrow> json \<Rightarrow> bool" where
  "hasRemote d (JArr vs) = (d > MAX_DEPTH \<or> list_ex (hasRemote (d + 1)) vs)"
| "hasRemote d (JObj kvs) = (d > MAX_DEPTH \<or> list_ex (\<lambda>(k, v). remote_pair k v \<or> hasRemote (d + 1) v) kvs)"
| "hasRemote d v = False"

datatype ChartParse = ChartRefused | ChartSpec json

definition parseChartSpec :: "(string \<Rightarrow> json option) \<Rightarrow> string \<Rightarrow> ChartParse" where
  "parseChartSpec parse src = (case parse src of Some (JObj kvs) \<Rightarrow> if hasRemote 0 (JObj kvs) then ChartRefused else ChartSpec (JObj kvs) | _ \<Rightarrow> ChartRefused)"

text \<open>All keys of a value with what they hold, at every depth.\<close>

fun pairs_within :: "json \<Rightarrow> (string \<times> json) list" where
  "pairs_within (JArr vs) = concat (map pairs_within vs)"
| "pairs_within (JObj kvs) = kvs @ concat (map (\<lambda>(k, v). pairs_within v) kvs)"
| "pairs_within v = []"

lemma no_remote_pairs: "\<not> hasRemote d j \<Longrightarrow> (k, v) \<in> set (pairs_within j) \<Longrightarrow> \<not> remote_pair k v"
  by (induction d j rule: hasRemote.induct) (fastforce simp: list_ex_iff)+

lemma no_remote_nesting: "\<not> hasRemote d j \<Longrightarrow> d \<le> MAX_DEPTH + 1 \<Longrightarrow> nesting j + d \<le> MAX_DEPTH + 1"
proof (induction d j rule: hasRemote.induct)
  case (1 d vs)
  then have "nesting x \<le> MAX_DEPTH - d" if "x \<in> set vs" for x using that by (fastforce simp: list_ex_iff)
  with 1 show ?case using foldr_max_le [of "map nesting vs" "MAX_DEPTH - d"] by auto
next
  case (2 d kvs)
  then have "nesting v \<le> MAX_DEPTH - d" if "(k, v) \<in> set kvs" for k v using that by (fastforce simp: list_ex_iff)
  with 2 show ?case using foldr_max_le [of "map (\<lambda>(k, v). nesting v) kvs" "MAX_DEPTH - d"] by auto
qed auto

text \<open>C33. A chart specification is accepted only if, at every depth, it has no key that loads or links (whatever its case and value) and no image mark; it
  is nested at most seventeen levels deep.\<close>

theorem accepted_chart_is_local:
  assumes "parseChartSpec parse src = ChartSpec spec"
  shows "parse src = Some spec \<and> list_all (\<lambda>(k, v). \<not> remote_pair k v) (pairs_within spec) \<and> nesting spec \<le> MAX_DEPTH + 1"
proof -
  have spec: "parse src = Some spec" "\<not> hasRemote 0 spec"
    using assms by (auto simp: parseChartSpec_def split: option.splits json.splits if_splits)
  then show ?thesis using no_remote_pairs [OF spec(2)] no_remote_nesting [OF spec(2)] by (auto simp: list_all_iff)
qed

theorem accepted_chart_is_local_witness:
  "let spec = JObj [(''mark'', JStr ''bar''), (''data'', JObj [(''values'', JArr [JNum 1])])] in
     parseChartSpec (\<lambda>_. Some spec) ''src'' = ChartSpec spec \<and> nesting spec \<le> 17"
proof -
  let ?spec = "JObj [(''mark'', JStr ''bar''), (''data'', JObj [(''values'', JArr [JNum 1])])]"
  have run: "parseChartSpec (\<lambda>_. Some ?spec) ''src'' = ChartSpec ?spec"
    by code_simp
  show ?thesis using accepted_chart_is_local [OF run] run by (simp add: Let_def MAX_DEPTH_def)
qed

end
