(* ===== verification/Agent_Tools.thy ===== *)
theory Agent_Tools
  imports Ingest Memory Research Model_Io Dedupe Crm_Table Projects
begin

text \<open>
  \<^verbatim>\<open>lib/ai/tools.ts\<close>: what an agent can do. A tool call is a value of \<open>ToolCall\<close> (the arguments as the schema of the tool admits them); \<open>offered\<close> is the
  registry of a turn, \<open>run_tool\<close> one call through it: the permission of both roles, the transparency log, and the execution by the components. The
  texts that describe the tools to the model are left out. The lemmas say what is offered to whom and what the tools leave alone.
\<close>

subsection \<open>Calls and answers\<close>

datatype ToolCall =
    CallCrmRead CrmEntity "uuid option" "string option" nat
  | CallCrmNote CrmEntity uuid string "string option" string
  | CallCrmCreate CrmEntity string "string option" "string option" "decimal option" "uuid option" "(string \<times> string) list"
  | CallCrmDelete CrmEntity uuid
  | CallCrmDedupe
  | CallCrmWrite CrmEntity string "(string option \<times> string option \<times> string option \<times> decimal option) option" "(string \<times> string) list"
  | CallMemoryAssert string string "(string \<times> string) list" "int option"
  | CallMemoryRecall string "string option" int "(string \<times> string) list option"
  | CallDocumentsRead string nat
  | CallDocumentsList nat
  | CallArtifactAttach uuid "string option"
  | CallPmRead "uuid option"
  | CallTablesList int
  | CallTablesSchema uuid
  | CallTablesRead uuid int int "string list option" "Filter option"
  | CallTablesQuery uuid QueryOp "string option" "Filter option"
  | CallTablesMap uuid "MappingSpec option"
  | CallCrmImport uuid
  | CallCrmIngest "uuid option" "string option" "string option"
  | CallCalendarRead "ms option" "ms option"
  | CallCalendarSchedule string string string string "string option" "string option" "string option" "(string \<times> string option) list" "uuid option"
  | CallCalendarCancel uuid
  | CallPinSummary uuid nat
  | CallThreadSummarize uuid nat
  | CallDocumentsWrite string string "uuid option" "uuid option" "uuid option"
  | CallLedgerWrite uuid string string "string option" "string option"
  | CallPmWrite string "uuid option" "string option" "string option" "string option" "(string \<times> string) list"
  | CallWebSearch string int
  | CallWebFetch string
  | CallChartRender json
  | CallTerminal string "string option"
  | CallCode string string "(string \<times> string) list"

fun tool_name :: "ToolCall \<Rightarrow> string" where
  "tool_name (CallCrmRead _ _ _ _) = ''crm.read''"
| "tool_name (CallCrmNote _ _ _ _ _) = ''crm.note''"
| "tool_name (CallCrmCreate _ _ _ _ _ _ _) = ''crm.create''"
| "tool_name (CallCrmDelete _ _) = ''crm.delete''"
| "tool_name CallCrmDedupe = ''crm.dedupe''"
| "tool_name (CallCrmWrite _ _ _ _) = ''crm.write''"
| "tool_name (CallMemoryAssert _ _ _ _) = ''memory.assert''"
| "tool_name (CallMemoryRecall _ _ _ _) = ''memory.recall''"
| "tool_name (CallDocumentsRead _ _) = ''documents.read''"
| "tool_name (CallDocumentsList _) = ''documents.list''"
| "tool_name (CallArtifactAttach _ _) = ''artifact.attach''"
| "tool_name (CallPmRead _) = ''pm.read''"
| "tool_name (CallTablesList _) = ''tables.list''"
| "tool_name (CallTablesSchema _) = ''tables.schema''"
| "tool_name (CallTablesRead _ _ _ _ _) = ''tables.read''"
| "tool_name (CallTablesQuery _ _ _ _) = ''tables.query''"
| "tool_name (CallTablesMap _ _) = ''tables.map''"
| "tool_name (CallCrmImport _) = ''crm.import''"
| "tool_name (CallCrmIngest _ _ _) = ''crm.ingest''"
| "tool_name (CallCalendarRead _ _) = ''calendar.read''"
| "tool_name (CallCalendarSchedule _ _ _ _ _ _ _ _ _) = ''calendar.schedule''"
| "tool_name (CallCalendarCancel _) = ''calendar.cancel''"
| "tool_name (CallPinSummary _ _) = ''calendar.pin_summary''"
| "tool_name (CallThreadSummarize _ _) = ''thread.summarize''"
| "tool_name (CallDocumentsWrite _ _ _ _ _) = ''documents.write''"
| "tool_name (CallLedgerWrite _ _ _ _ _) = ''ledger.write''"
| "tool_name (CallPmWrite _ _ _ _ _ _) = ''pm.write''"
| "tool_name (CallWebSearch _ _) = ''web.search''"
| "tool_name (CallWebFetch _) = ''web.fetch''"
| "tool_name (CallChartRender _) = ''chart.render''"
| "tool_name (CallTerminal _ _) = ''terminal.exec''"
| "tool_name (CallCode _ _ _) = ''code.run''"

record CompactFile =
  cf_entity :: CrmEntity
  cf_id :: uuid
  cf_title :: string
  cf_subtitle :: "string option"
  cf_stats :: "(string \<times> string) list"
  cf_fields :: "(string \<times> string \<times> string option) list"
  cf_tags :: "string list"
  cf_recentNotes :: "(string \<times> string option \<times> string \<times> ms) list"
  cf_recentActivity :: "string list"
  cf_related :: "(string \<times> (uuid \<times> string \<times> CrmEntity) list) list"

definition compactFile :: "RecordFile \<Rightarrow> CompactFile" where
  "compactFile f = \<lparr>cf_entity = rf_entity f, cf_id = rf_recordId f, cf_title = RecordFile.rf_title f, cf_subtitle = rf_subtitle f, cf_stats = rf_headerStats f,
     cf_fields = map (\<lambda>(d, v). (df_label d, df_key d, v)) (filter (\<lambda>(d, v). truthy v) (rf_fields f)), cf_tags = map tv_label (rf_tags f),
     cf_recentNotes = map (\<lambda>n. (nv_type n, nv_title n, nv_body n, nv_createdAt n)) (take 5 (rf_notes f)),
     cf_recentActivity = map av_summary (take 8 (rf_activity f)),
     cf_related = map (\<lambda>(l, items). (l, map (\<lambda>i. (ri_id i, ri_name i, ri_entity i)) items)) (rf_related f)\<rparr>"

record EventDetail =
  ed_id :: uuid
  ed_title :: string
  ed_kind :: string
  ed_startsAt :: ms
  ed_endsAt :: ms
  ed_allDay :: bool
  ed_timezone :: string
  ed_location :: "string option"
  ed_attendees :: "(string \<times> string option \<times> string) list"

datatype CalendarItem = Detailed EventDetail | Busy ms ms bool string

record BoardTask =
  bt_id :: uuid
  bt_title :: string
  bt_status :: string
  bt_priority :: "string option"
  bt_projectId :: "uuid option"

datatype ToolResult =
    RecordRead CompactFile
  | ToolError string
  | AccountsRead "AccountRow list"
  | DealsRead "DealRow list"
  | ContactsRead "ContactRow list"
  | PendingApprovalOf uuid Risk string
  | QueuedApprovals "uuid list" string
  | StatusError string
  | Noop string
  | DedupeQueued uuid Risk DedupeReport
  | Recalled MemorySource "MemoryNode list"
  | Snippets "RetrievedChunk list"
  | DocumentsListed "(uuid \<times> string \<times> string option \<times> ms) list"
  | AttachRefused string
  | Attached uuid string string
  | Board "ProjectRow list" "BoardTask list" "nat option"
  | TablesListed "TableBatch list" "ImportJobBrief list"
  | SchemaRead SheetSchema
  | RowsRead RowsWindow
  | QueryAnswer QueryResult
  | MapSaved MappingSpec
  | MapRead MappingSpec bool bool
  | ImportQueued uuid Risk PreviewCounts bool
  | Ingested bool IngestSummary
  | CalendarRead ms ms nat "CalendarItem list"
  | SummaryPosted uuid nat
  | MessagesRead "(string \<times> string \<times> ms) list"
  | SearchAnswer WebSearchResult
  | RunnerSearch json
  | PageRead ReadablePage
  | ChartRendered json
  | ChartUnavailable

subsection \<open>Permissions\<close>

definition TOOL_CAPABILITY :: "(string \<times> Capability) list" where
  "TOOL_CAPABILITY = [(''crm.read'', ReadWorkspace), (''crm.note'', PostMessage), (''crm.create'', PostMessage), (''crm.delete'', PostMessage),
     (''crm.dedupe'', PostMessage), (''crm.write'', PostMessage), (''memory.assert'', PostMessage), (''memory.recall'', ReadWorkspace),
     (''documents.read'', ReadWorkspace), (''documents.list'', ReadWorkspace), (''artifact.attach'', ReadWorkspace), (''pm.read'', ReadWorkspace),
     (''tables.list'', ReadWorkspace), (''tables.schema'', ReadWorkspace), (''tables.read'', ReadWorkspace), (''tables.query'', ReadWorkspace),
     (''tables.map'', CreateRecord), (''crm.import'', PostMessage), (''crm.ingest'', CreateRecord), (''calendar.read'', ReadWorkspace),
     (''calendar.schedule'', PostMessage), (''calendar.cancel'', PostMessage), (''calendar.pin_summary'', PostMessage),
     (''thread.summarize'', ReadChannel), (''documents.write'', PostMessage), (''ledger.write'', PostMessage), (''pm.write'', PostMessage),
     (''web.search'', ReadWorkspace), (''web.fetch'', ReadWorkspace), (''chart.render'', ReadWorkspace), (''terminal.exec'', PostMessage),
     (''code.run'', PostMessage)]"

definition CHANNEL_REPLY_DENY :: "string list" where
  "CHANNEL_REPLY_DENY = [''web.fetch'', ''web.search'']"

definition CHANNEL_SCOPED_TOOLS :: "string list" where
  "CHANNEL_SCOPED_TOOLS = [''thread.summarize'']"

definition toolPermitted :: "string \<Rightarrow> Role \<Rightarrow> Role \<Rightarrow> bool" where
  "toolPermitted name agentRole invokerRole = (case map_of TOOL_CAPABILITY name of None \<Rightarrow> False
     | Some cap \<Rightarrow> if \<not> can agentRole cap \<or> \<not> can invokerRole cap then False
         else if name \<in> set CHANNEL_SCOPED_TOOLS then True else isInternalRole agentRole \<and> isInternalRole invokerRole)"

record ToolContext =
  tl_workspaceId :: uuid
  tl_invokedBySub :: string
  tl_personaId :: "uuid option"
  tl_threadId :: "uuid option"
  tl_agentRole :: Role
  tl_invokerRole :: "Role option"
  tl_allow :: "string list option"
  tl_audit :: "bool option"
  tl_audience :: "DocViewer list option"

definition invoker_role :: "ToolContext \<Rightarrow> Role" where
  "invoker_role c = or_default (tl_invokerRole c) (tl_agentRole c)"

definition permitted :: "ToolContext \<Rightarrow> string \<Rightarrow> bool" where
  "permitted c name = toolPermitted name (tl_agentRole c) (invoker_role c)"

definition IMPLEMENTED_TOOLS :: "string list" where
  "IMPLEMENTED_TOOLS = ALL_TOOL_NAMES"

text \<open>The tools of a turn: the persona's allow list, the permission, and for a reply that an audience reads neither the open web nor a proposal.\<close>

definition offered :: "ToolContext \<Rightarrow> string list" where
  "offered c = filter (\<lambda>n. (case tl_allow c of None \<Rightarrow> True | Some ns \<Rightarrow> n \<in> set ns) \<and> permitted c n
     \<and> \<not> (tl_audience c \<noteq> None \<and> (n \<in> set CHANNEL_REPLY_DENY \<or> n \<in> set HITL_TOOLS))) (map fst TOOL_CAPABILITY)"

definition invoker_view :: "ToolContext \<Rightarrow> DocViewer" where
  "invoker_view c = \<lparr>vi_sub = tl_invokedBySub c, vi_internal = isInternalRole (invoker_role c) \<and> isInternalRole (tl_agentRole c), vi_agent = None\<rparr>"

definition readers :: "ToolContext \<Rightarrow> DocViewer list" where
  "readers c = invoker_view c # or_default (tl_audience c) []"

text \<open>A deliberate refusal, the class with its message.\<close>

definition ToolDenied :: "string \<Rightarrow> err" where
  "ToolDenied m = JsError (''ToolDenied: '' @ m)"

subsection \<open>Execution\<close>

text \<open>The components, the network, and the texts that are logged: a call's arguments, and a result or the message of an error, as JSON.\<close>

record tool_env =
  te_approval :: approval_env
  te_import :: import_env
  te_cal :: cal_env
  te_doc :: doc_env
  te_table :: table_env
  te_gateway :: gateway_env
  te_store :: MemorySource
  te_search :: search_env
  te_runner :: runner_env
  te_fetch :: fetch_env
  te_net :: net
  te_guardedFetch :: bool
  te_date :: "string \<Rightarrow> ms option"
  te_stringify :: "json \<Rightarrow> string"
  te_args :: "ToolCall \<Rightarrow> json"
  te_result :: "err + ToolResult \<Rightarrow> string"

record tool_draws =
  tz_log :: uuid
  tz_call :: "nat \<Rightarrow> uuid"
  tz_fallback :: "nat \<Rightarrow> uuid"
  tz_approval :: "nat \<Rightarrow> uuid"
  tz_iv :: "nat \<Rightarrow> string"
  tz_mapping :: uuid
  tz_message :: uuid
  tz_ingest :: ingest_draws

definition te_crm :: "tool_env \<Rightarrow> crm_env" where
  "te_crm V = tx_crm (te_table V)"

definition te_crypto :: "tool_env \<Rightarrow> crypto_env" where
  "te_crypto V = ae_crypto (te_approval V)"

definition assertPropose :: "ToolContext \<Rightarrow> string \<Rightarrow> (db, unit) act" where
  "assertPropose c name = (if permitted c name then act_return ()
     else act_throw (ToolDenied (''role '' @ role_name (invoker_role c) @ '' may not propose '' @ name)))"

definition audited :: "tool_env \<Rightarrow> ms \<Rightarrow> tool_draws \<Rightarrow> ToolContext \<Rightarrow> ToolCall \<Rightarrow> (db, ToolResult) act \<Rightarrow> (db, ToolResult) act" where
  "audited V now dr c call run = (let name = tool_name call; A = te_approval V; args = te_args V call in
     if \<not> permitted c name then act_throw (ToolDenied (''role '' @ role_name (invoker_role c) @ '' may not '' @ name))
     else if tl_audit c = Some False then run
     else act_bind (logToolCall A now (tz_log dr) \<lparr>tx_workspaceId = tl_workspaceId c, tx_threadId = tl_threadId c, tx_personaId = tl_personaId c,
          tx_invokedBySub = Some (tl_invokedBySub c)\<rparr> name (te_stringify V args) (redactedArgs (te_stringify V) args) ''auto'') (\<lambda>i.
       act_try (act_bind run (\<lambda>r. act_bind (finishToolCall A (or_empty i) (te_result V (Inr r))) (\<lambda>_. act_return r)))
         (\<lambda>e. act_bind (finishToolCall A (or_empty i) (te_result V (Inl e))) (\<lambda>_. act_throw e))))"

definition propose :: "tool_env \<Rightarrow> ms \<Rightarrow> tool_draws \<Rightarrow> nat \<Rightarrow> ToolContext \<Rightarrow> string \<Rightarrow> AgentAction \<Rightarrow> (db, uuid \<times> Risk) act" where
  "propose V now dr k c tool a = enqueueApproval (te_approval V) now (tz_call dr k) (tz_fallback dr k) (tz_approval dr k) (tz_iv dr k)
     \<lparr>ea_workspaceId = tl_workspaceId c, ea_tool = tool, ea_requestedBySub = tl_invokedBySub c, ea_personaId = tl_personaId c,
      ea_threadId = tl_threadId c, ea_action = a\<rparr>"

text \<open>The proposing tools share their shape: the gate, the queue, and a message.\<close>

definition queue_action :: "tool_env \<Rightarrow> ms \<Rightarrow> tool_draws \<Rightarrow> ToolContext \<Rightarrow> string \<Rightarrow> AgentAction \<Rightarrow> string \<Rightarrow> (db, ToolResult) act" where
  "queue_action V now dr c tool a msg = act_bind (propose V now dr 0 c tool a) (\<lambda>(i, risk). act_return (PendingApprovalOf i risk msg))"

definition queued_msg :: string where "queued_msg = ''Queued for human approval.''"

text \<open>\<^verbatim>\<open>Math.round(value * 100)\<close>.\<close>

definition value_minor :: "decimal option \<Rightarrow> int option" where
  "value_minor v = map_option (\<lambda>(m, k). (200 * m + 10 ^ k) div (2 * 10 ^ k)) v"

definition crm_read :: "tool_env \<Rightarrow> ToolContext \<Rightarrow> CrmEntity \<Rightarrow> uuid option \<Rightarrow> string option \<Rightarrow> nat \<Rightarrow> (db, ToolResult) act" where
  "crm_read V c e i query n = (let w = tl_workspaceId c; v = invoker_view c; q = or_empty query;
       hit = (\<lambda>name. q = [] \<or> sublist (js_lower q) (js_lower name)) in
     if truthy i then act_bind (case e of CrmAccount \<Rightarrow> getAccountFile (te_table V) w (or_empty i) v
         | CrmDeal \<Rightarrow> getDealFile (te_table V) w (or_empty i) v | CrmContact \<Rightarrow> getContactFile (te_table V) w (or_empty i))
       (\<lambda>file. act_return (case file of Some f \<Rightarrow> RecordRead (compactFile f) | None \<Rightarrow> ToolError ''record not found''))
     else case e of CrmAccount \<Rightarrow> act_bind (listAccounts (te_crm V) w) (\<lambda>rs. act_return (AccountsRead (take n (filter (\<lambda>r. hit (ar_name r)) rs))))
       | CrmDeal \<Rightarrow> act_bind (listDeals w) (\<lambda>rs. act_return (DealsRead (take n (filter (\<lambda>r. hit (dr_name r)) rs))))
       | CrmContact \<Rightarrow> act_bind (listContacts (te_crm V) w) (\<lambda>rs. act_return (ContactsRead (take n (filter (\<lambda>r. hit (cr_name r)) rs)))))"

definition needs_account :: string where
  "needs_account = ''A deal needs `accountId` (its parent account). Create/find the account first, then create the deal with that id.''"

definition crm_create :: "tool_env \<Rightarrow> ms \<Rightarrow> tool_draws \<Rightarrow> ToolContext \<Rightarrow> CrmEntity \<Rightarrow> string \<Rightarrow> string option \<Rightarrow> string option \<Rightarrow> decimal option \<Rightarrow>
    uuid option \<Rightarrow> (string \<times> string) list \<Rightarrow> (db, ToolResult) act" where
  "crm_create V now dr c e name domain title v account flds = act_bind (assertPropose c ''crm.create'') (\<lambda>_.
     if e = CrmDeal \<and> \<not> truthy account then act_return (StatusError needs_account)
     else queue_action V now dr c ''crm.create'' (CrmCreate e name \<lparr>sp_name = Some name, sp_domain = domain, sp_title = title, sp_valueMinor = value_minor v\<rparr>
       account flds) queued_msg)"

definition crm_dedupe :: "tool_env \<Rightarrow> ms \<Rightarrow> tool_draws \<Rightarrow> ToolContext \<Rightarrow> (db, ToolResult) act" where
  "crm_dedupe V now dr c = act_bind (assertPropose c ''crm.dedupe'') (\<lambda>_.
     act_bind (dedupeWorkspaceCrm (te_crypto V) now (tl_workspaceId c) \<lparr>dz_dryRun = True, dz_actorSub = None, dz_maxMerges = None\<rparr>) (\<lambda>p.
     if dq_merged (dq_accounts p) + dq_merged (dq_deals p) + dq_merged (dq_contacts p) = 0
     then act_return (Noop (''No duplicate accounts, deals, or contacts found '' @ emdash @ '' nothing to merge.''))
     else act_bind (propose V now dr 0 c ''crm.dedupe'' CrmDedupe) (\<lambda>(i, risk). act_return (DedupeQueued i risk p))))"

definition no_such_record :: "CrmEntity \<Rightarrow> string \<Rightarrow> string" where
  "no_such_record e i = ''No existing '' @ entity_name e @ '' with id \"'' @ i @ ''\". To CREATE a new '' @ entity_name e @
     '', call crm.create with its name (don't pass a name as recordId). Use crm.write only to update a record returned by crm.read.''"

text \<open>One proposal per custom field, after the one for the standard columns.\<close>

fun queue_fields :: "tool_env \<Rightarrow> ms \<Rightarrow> tool_draws \<Rightarrow> nat \<Rightarrow> ToolContext \<Rightarrow> CrmEntity \<Rightarrow> uuid \<Rightarrow> (string \<times> string) list \<Rightarrow> (db, uuid list) act" where
  "queue_fields V now dr k c e i [] = act_return []"
| "queue_fields V now dr k c e i (f # fs) = act_bind (propose V now dr k c ''crm.write'' (CrmField e i (fst f) (snd f))) (\<lambda>(a, risk).
     act_bind (queue_fields V now dr (k + 1) c e i fs) (\<lambda>rest. act_return (a # rest)))"

definition some_standard :: "(string option \<times> string option \<times> string option \<times> decimal option) option \<Rightarrow> StandardPatch option" where
  "some_standard cols = (case cols of None \<Rightarrow> None | Some (name, domain, title, v) \<Rightarrow>
     if name = None \<and> domain = None \<and> title = None \<and> v = None then None
     else Some \<lparr>sp_name = name, sp_domain = domain, sp_title = title, sp_valueMinor = value_minor v\<rparr>)"

definition crm_write :: "tool_env \<Rightarrow> ms \<Rightarrow> tool_draws \<Rightarrow> ToolContext \<Rightarrow> CrmEntity \<Rightarrow> string \<Rightarrow>
    (string option \<times> string option \<times> string option \<times> decimal option) option \<Rightarrow> (string \<times> string) list \<Rightarrow> (db, ToolResult) act" where
  "crm_write V now dr c e i cols flds = act_bind (assertPropose c ''crm.write'') (\<lambda>_.
     act_bind (if is_uuid i then recordExists (tl_workspaceId c) e i else act_return False) (\<lambda>there.
     if \<not> there then act_return (StatusError (no_such_record e i))
     else act_bind (case some_standard cols of None \<Rightarrow> act_return []
         | Some p \<Rightarrow> act_bind (propose V now dr 0 c ''crm.write'' (CrmStandard e i p)) (\<lambda>(a, risk). act_return [a])) (\<lambda>first_id.
       act_bind (queue_fields V now dr 1 c e i flds) (\<lambda>rest.
       act_return (if first_id @ rest = [] then Noop ''Nothing to change.'' else QueuedApprovals (first_id @ rest) queued_msg)))))"

definition memory_recall :: "tool_env \<Rightarrow> ToolContext \<Rightarrow> string \<Rightarrow> string option \<Rightarrow> int \<Rightarrow> (string \<times> string) list option \<Rightarrow> (db, ToolResult) act" where
  "memory_recall V c query flr budget anchors = act_bind (recall_degrading (te_doc V) (te_gateway V) (te_store V) (crmRepo (tl_workspaceId c))
       \<lparr>rq_query = query, rq_anchors = anchors, rq_trustFloor = flr, rq_budget = Some budget, rq_asOf = None\<rparr>)
     (\<lambda>(items, src). act_return (Recalled src items))"

definition documents_read :: "tool_env \<Rightarrow> ToolContext \<Rightarrow> string \<Rightarrow> nat \<Rightarrow> (db, ToolResult) act" where
  "documents_read V c query budget = act_bind (retrieveChunks (te_doc V) (tl_workspaceId c) query (readers c) None (Some budget)) (\<lambda>rs. act_return (Snippets rs))"

definition documents_list :: "ToolContext \<Rightarrow> nat \<Rightarrow> (db, ToolResult) act" where
  "documents_list c n = act_bind (listDocuments (tl_workspaceId c) (readers c) n)
     (\<lambda>ds. act_return (DocumentsListed (map (\<lambda>d. (dv_id d, dv_name d, dv_mime d, dv_createdAt d)) ds)))"

text \<open>Does every reader see the document?\<close>

fun all_see :: "uuid \<Rightarrow> uuid \<Rightarrow> DocViewer list \<Rightarrow> (db, bool) act" where
  "all_see w i [] = act_return True"
| "all_see w i (v # vs) = act_bind (getVisibleDocument w i v) (\<lambda>d. if d = None then act_return False else all_see w i vs)"

definition download_url :: "uuid \<Rightarrow> uuid \<Rightarrow> string" where
  "download_url w i = ''/api/workspaces/'' @ w @ ''/documents/'' @ i @ ''/download''"

text \<open>The attached document is the one collected for the message.\<close>

definition artifact_attach :: "ToolContext \<Rightarrow> uuid \<Rightarrow> (db, ToolResult) act" where
  "artifact_attach c i = (let w = tl_workspaceId c in act_bind (getVisibleDocument w i (invoker_view c)) (\<lambda>found. case found of
       None \<Rightarrow> act_return (AttachRefused ''document_not_found'')
     | Some d \<Rightarrow> act_bind (all_see w i (or_default (tl_audience c) [])) (\<lambda>ok.
         act_return (if ok then Attached i (dv_name d) (download_url w (dv_id d)) else AttachRefused ''not_visible_to_channel''))))"

definition TASK_CAP :: nat where "TASK_CAP = 100"

definition pm_read :: "ToolContext \<Rightarrow> uuid option \<Rightarrow> (db, ToolResult) act" where
  "pm_read c project = act_bind (listProjects (tl_workspaceId c)) (\<lambda>ps. act_bind (listTasks (tl_workspaceId c) project) (\<lambda>ts.
     act_return (Board (take 50 ps) (map (\<lambda>t. \<lparr>bt_id = tv_id t, bt_title = tv_title t, bt_status = tv_status t, bt_priority = tv_priority t,
        bt_projectId = tv_projectId t\<rparr>) (take TASK_CAP ts)) (if length ts > TASK_CAP then Some (length ts) else None))))"

definition tables_read :: "tool_env \<Rightarrow> ToolContext \<Rightarrow> uuid \<Rightarrow> int \<Rightarrow> int \<Rightarrow> string list option \<Rightarrow> Filter option \<Rightarrow> (db, ToolResult) act" where
  "tables_read V c sheet off n cols flt = act_bind (readRows (te_import V) (tl_workspaceId c) sheet \<lparr>ro_offset = Some off, ro_limit = Some n,
     ro_columns = cols, ro_filter = flt, ro_reveal = False\<rparr>) (\<lambda>x. act_return (RowsRead x))"

definition tables_query :: "ToolContext \<Rightarrow> uuid \<Rightarrow> QueryOp \<Rightarrow> string option \<Rightarrow> Filter option \<Rightarrow> (db, ToolResult) act" where
  "tables_query c sheet op col flt = act_bind (queryTable (tl_workspaceId c) sheet \<lparr>tq_op = op, tq_column = col, tq_where = flt\<rparr>)
     (\<lambda>x. act_return (QueryAnswer x))"

definition tables_map :: "ms \<Rightarrow> tool_draws \<Rightarrow> ToolContext \<Rightarrow> uuid \<Rightarrow> MappingSpec option \<Rightarrow> (db, ToolResult) act" where
  "tables_map now dr c sheet given = (let w = tl_workspaceId c; u = tl_invokedBySub c in case given of
       Some m \<Rightarrow> act_bind (saveMapping now (tz_mapping dr) w sheet m u None) (\<lambda>_. act_return (MapSaved m))
     | None \<Rightarrow> act_bind (ensureMapping now (tz_mapping dr) w sheet u) (\<lambda>found. case found of
           None \<Rightarrow> act_return (ToolError ''sheet not found'')
         | Some (m, autocreated) \<Rightarrow> act_return (MapRead (mn_spec m) (mn_approved m) autocreated)))"

definition no_such_sheet :: string where
  "no_such_sheet = ''Sheet not found. Upload the spreadsheet first (tables.list shows importable sheets), then retry crm.import.''"

definition crm_import :: "tool_env \<Rightarrow> ms \<Rightarrow> tool_draws \<Rightarrow> ToolContext \<Rightarrow> uuid \<Rightarrow> (db, ToolResult) act" where
  "crm_import V now dr c sheet = (let w = tl_workspaceId c in act_bind (assertPropose c ''crm.import'') (\<lambda>_.
     act_bind (ensureMapping now (tz_mapping dr) w sheet (tl_invokedBySub c)) (\<lambda>found. case found of
       None \<Rightarrow> act_return (StatusError no_such_sheet)
     | Some (m, autocreated) \<Rightarrow> act_bind (getSheetSchema w sheet) (\<lambda>schema.
         act_bind (previewImport (te_import V) w sheet (mn_spec m) PREVIEW_LIMIT) (\<lambda>preview.
         act_bind (propose V now dr 0 c ''crm.import'' (CrmImport sheet (mn_id m) (case schema of Some x \<Rightarrow> se_name (sz_sheet x) | None \<Rightarrow> ''sheet'') preview))
           (\<lambda>(i, risk). act_return (ImportQueued i risk preview autocreated)))))))"

definition crm_ingest :: "tool_env \<Rightarrow> ms \<Rightarrow> tool_draws \<Rightarrow> ToolContext \<Rightarrow> uuid option \<Rightarrow> string option \<Rightarrow> string option \<Rightarrow> (db, ToolResult) act" where
  "crm_ingest V now dr c doc t hint = (let w = tl_workspaceId c; u = tl_invokedBySub c in
     if \<not> truthy doc \<and> \<not> truthy t then act_return (StatusError ''Provide a documentId or a text block to ingest.'')
     else act_bind (if truthy doc
         then Ingest.ingestDocument (te_doc V) (te_import V) (te_cal V) (te_approval V) now (tz_ingest dr) w (or_empty doc) u (invoker_view c) hint
         else ingestText (te_import V) (te_cal V) (te_approval V) now (tz_ingest dr) \<lparr>in_workspaceId = w, in_text = or_empty t, in_bySub = u,
           in_sourceName = None, in_documentId = None, in_hint = hint\<rparr>)
       (\<lambda>summary. act_return (Ingested (is_held summary > 0) summary)))"

text \<open>Who may see an event in detail: its creator and attendees, and outside channel replies an administrator; in a channel reply also every human
  reader must take part in it.\<close>

definition human_subs :: "ToolContext \<Rightarrow> string list option" where
  "human_subs c = map_option (\<lambda>vs. map vi_sub (filter (\<lambda>v. vi_agent v \<noteq> Some True) vs)) (tl_audience c)"

definition event_detailed :: "ToolContext \<Rightarrow> CalendarEvent \<Rightarrow> bool" where
  "event_detailed c e \<longleftrightarrow> (ve_createdBySub e = tl_invokedBySub c \<or> list_ex (\<lambda>a. ea2_sub a = tl_invokedBySub c) (ve_attendees e)
       \<or> human_subs c = None \<and> isAdminRole (invoker_role c))
     \<and> (case human_subs c of None \<Rightarrow> True | Some us \<Rightarrow> everyReaderParticipates e us)"

definition calendar_item :: "ToolContext \<Rightarrow> CalendarEvent \<Rightarrow> CalendarItem" where
  "calendar_item c e = (if event_detailed c e
     then Detailed \<lparr>ed_id = ve_id e, ed_title = ve_title e, ed_kind = ve_kind e, ed_startsAt = ve_startsAt e, ed_endsAt = ve_endsAt e, ed_allDay = ve_allDay e,
       ed_timezone = ve_timezone e, ed_location = ve_location e, ed_attendees = map (\<lambda>a. (ea2_sub a, ea2_raciRole a, ea2_response a)) (ve_attendees e)\<rparr>
     else Busy (ve_startsAt e) (ve_endsAt e) (ve_allDay e) (ve_timezone e))"

definition calendar_read :: "tool_env \<Rightarrow> ms \<Rightarrow> ToolContext \<Rightarrow> ms option \<Rightarrow> ms option \<Rightarrow> (db, ToolResult) act" where
  "calendar_read V now c from_ms to_ms = (let st = or_default from_ms now; en = or_default to_ms (now + 30 * 86400000) in
     act_bind (listWorkspaceEventsInRange (te_crypto V) (tl_workspaceId c) st en) (\<lambda>evs.
     act_return (CalendarRead st en (length evs) (map (calendar_item c) (take 200 evs)))))"

definition calendar_schedule :: "tool_env \<Rightarrow> ms \<Rightarrow> tool_draws \<Rightarrow> ToolContext \<Rightarrow> string \<Rightarrow> string \<Rightarrow> string \<Rightarrow> string \<Rightarrow> string option \<Rightarrow> string option \<Rightarrow>
    string option \<Rightarrow> (string \<times> string option) list \<Rightarrow> uuid option \<Rightarrow> (db, ToolResult) act" where
  "calendar_schedule V now dr c title k st en tz loc des att chan = act_bind (assertPropose c ''calendar.schedule'') (\<lambda>_.
     if (case (te_date V en, te_date V st) of (Some e, Some b) \<Rightarrow> e < b | _ \<Rightarrow> False) then act_return (StatusError ''endsAt is before startsAt.'')
     else queue_action V now dr c ''calendar.schedule'' (CalendarSchedule title k st en (or_default tz ''UTC'') loc des att chan)
       ''Event queued for human approval; attendees are emailed on approval.'')"

definition pin_summary :: "tool_env \<Rightarrow> ms \<Rightarrow> tool_draws \<Rightarrow> ToolContext \<Rightarrow> uuid \<Rightarrow> nat \<Rightarrow> (db, ToolResult) act" where
  "pin_summary V now dr c chan days = act_bind (isChannelMember chan (tl_invokedBySub c)) (\<lambda>here.
     if \<not> here then act_throw (ToolDenied ''not a member of this channel'')
     else act_bind (postAndPinCalendarSummary (te_cal V) now (tz_message dr) (tz_iv dr 0) (tl_workspaceId c) chan (tl_invokedBySub c) days)
       (\<lambda>(m, n). act_return (SummaryPosted m n)))"

fun all_seated :: "uuid \<Rightarrow> DocViewer list \<Rightarrow> (db, unit) act" where
  "all_seated chan [] = act_return ()"
| "all_seated chan (v # vs) = act_bind (isChannelMember chan (vi_sub v)) (\<lambda>here.
     if here then all_seated chan vs else act_throw (ToolDenied ''not every reader of this reply is a member of that channel''))"

definition BODY_CAP :: nat where "BODY_CAP = 2000"

definition thread_summarize :: "tool_env \<Rightarrow> ToolContext \<Rightarrow> uuid \<Rightarrow> nat \<Rightarrow> (db, ToolResult) act" where
  "thread_summarize V c chan n = act_bind (isChannelMember chan (tl_invokedBySub c)) (\<lambda>here.
     if \<not> here then act_throw (ToolDenied ''not a member of this channel'')
     else act_bind (all_seated chan (or_default (tl_audience c) [])) (\<lambda>_.
       act_bind (listMessages (te_crypto V) (tl_workspaceId c) chan \<lparr>lo_afterSeq = None, lo_limit = Some n\<rparr>) (\<lambda>msgs.
       act_return (MessagesRead (map (\<lambda>m. (mr_authorSub m, if length (mr_body m) > BODY_CAP then take BODY_CAP (mr_body m) @ ellipsis else mr_body m,
         mr_createdAt m)) msgs)))))"

definition web_search :: "tool_env \<Rightarrow> string \<Rightarrow> int \<Rightarrow> ToolResult" where
  "web_search V query k = (let bff = searchWeb (te_search V) query k in if wc_available bff then SearchAnswer bff
     else case webSearch (te_runner V) query k of Some j \<Rightarrow> RunnerSearch j | None \<Rightarrow> SearchAnswer bff)"

definition thin_page :: "string \<Rightarrow> ReadablePage \<Rightarrow> ReadablePage" where
  "thin_page u page = (if rp_available page then page else (no_page u False [])\<lparr>rp_note := rp_note page\<rparr>)"

definition web_fetch :: "tool_env \<Rightarrow> string \<Rightarrow> ReadablePage" where
  "web_fetch V u = (case fetchReadable (te_fetch V) u (te_net V) of (page, n) \<Rightarrow>
     if rp_blocked page then page
     else if rp_available page \<and> length (rp_text page) > 200 then page
     else if \<not> te_guardedFetch V then thin_page u page
     else case runnerWebFetch (te_fetch V) u n of
         (Inr d, _) \<Rightarrow> if rf_text d \<noteq> [] then \<lparr>rp_url = rf_url d, rp_title = RunnerFetchResult.rf_title d, rp_text = rf_text d, rp_truncated = False,
              rp_available = True, rp_blocked = False, rp_note = None\<rparr> else thin_page u page
       | (Inl e, _) \<Rightarrow> no_page u True ''blocked'')"

definition chart_render :: "tool_env \<Rightarrow> json \<Rightarrow> ToolResult" where
  "chart_render V spec = (case chartRender (te_runner V) spec of Some j \<Rightarrow> ChartRendered j | None \<Rightarrow> ChartUnavailable)"

text \<open>A tool that only proposes.\<close>

definition proposing :: "tool_env \<Rightarrow> ms \<Rightarrow> tool_draws \<Rightarrow> ToolContext \<Rightarrow> string \<Rightarrow> AgentAction \<Rightarrow> string \<Rightarrow> (db, ToolResult) act" where
  "proposing V now dr c name a msg = act_bind (assertPropose c name) (\<lambda>_. queue_action V now dr c name a msg)"

fun execute_tool :: "tool_env \<Rightarrow> ms \<Rightarrow> tool_draws \<Rightarrow> ToolContext \<Rightarrow> ToolCall \<Rightarrow> (db, ToolResult) act" where
  "execute_tool V now dr c (CallCrmRead e i q n) = audited V now dr c (CallCrmRead e i q n) (crm_read V c e i q n)"
| "execute_tool V now dr c (CallCrmNote e i ty title body) = proposing V now dr c ''crm.note'' (CrmNote e i ty title body)
     (''Queued for human approval '' @ emdash @ '' it will be applied once an admin approves.'')"
| "execute_tool V now dr c (CallCrmCreate e name domain title v account flds) = crm_create V now dr c e name domain title v account flds"
| "execute_tool V now dr c (CallCrmDelete e i) = proposing V now dr c ''crm.delete'' (CrmDelete e i) ''Deletion queued for human approval.''"
| "execute_tool V now dr c CallCrmDedupe = crm_dedupe V now dr c"
| "execute_tool V now dr c (CallCrmWrite e i cols flds) = crm_write V now dr c e i cols flds"
| "execute_tool V now dr c (CallMemoryAssert k content anchors conf) = proposing V now dr c ''memory.assert''
     (MemoryAssert (crmRepo (tl_workspaceId c)) k content anchors conf) ''Queued for human approval before it joins the knowledge graph.''"
| "execute_tool V now dr c (CallMemoryRecall q flr b anchors) = audited V now dr c (CallMemoryRecall q flr b anchors) (memory_recall V c q flr b anchors)"
| "execute_tool V now dr c (CallDocumentsRead q b) = audited V now dr c (CallDocumentsRead q b) (documents_read V c q b)"
| "execute_tool V now dr c (CallDocumentsList n) = audited V now dr c (CallDocumentsList n) (documents_list c n)"
| "execute_tool V now dr c (CallArtifactAttach i note) = audited V now dr c (CallArtifactAttach i note) (artifact_attach c i)"
| "execute_tool V now dr c (CallPmRead p) = audited V now dr c (CallPmRead p) (pm_read c p)"
| "execute_tool V now dr c (CallTablesList n) = audited V now dr c (CallTablesList n)
     (act_bind (listTables (tl_workspaceId c) n) (\<lambda>(bs, js). act_return (TablesListed bs js)))"
| "execute_tool V now dr c (CallTablesSchema i) = audited V now dr c (CallTablesSchema i)
     (act_bind (getSheetSchema (tl_workspaceId c) i) (\<lambda>x. act_return (case x of Some m \<Rightarrow> SchemaRead m | None \<Rightarrow> ToolError ''sheet not found'')))"
| "execute_tool V now dr c (CallTablesRead i off n cols flt) = audited V now dr c (CallTablesRead i off n cols flt) (tables_read V c i off n cols flt)"
| "execute_tool V now dr c (CallTablesQuery i op col flt) = audited V now dr c (CallTablesQuery i op col flt) (tables_query c i op col flt)"
| "execute_tool V now dr c (CallTablesMap i m) = audited V now dr c (CallTablesMap i m) (tables_map now dr c i m)"
| "execute_tool V now dr c (CallCrmImport i) = crm_import V now dr c i"
| "execute_tool V now dr c (CallCrmIngest doc t hint) = audited V now dr c (CallCrmIngest doc t hint) (crm_ingest V now dr c doc t hint)"
| "execute_tool V now dr c (CallCalendarRead st en) = audited V now dr c (CallCalendarRead st en) (calendar_read V now c st en)"
| "execute_tool V now dr c (CallCalendarSchedule title k st en tz loc des att chan) = calendar_schedule V now dr c title k st en tz loc des att chan"
| "execute_tool V now dr c (CallCalendarCancel e) = proposing V now dr c ''calendar.cancel'' (CalendarCancel e) ''Cancellation queued for human approval.''"
| "execute_tool V now dr c (CallPinSummary chan days) = audited V now dr c (CallPinSummary chan days) (pin_summary V now dr c chan days)"
| "execute_tool V now dr c (CallThreadSummarize chan n) = audited V now dr c (CallThreadSummarize chan n) (thread_summarize V c chan n)"
| "execute_tool V now dr c (CallDocumentsWrite name content account deal chan) = proposing V now dr c ''documents.write''
     (DocumentsWrite name content account deal chan) queued_msg"
| "execute_tool V now dr c (CallLedgerWrite chan k txt own due) = proposing V now dr c ''ledger.write'' (LedgerWrite chan k txt own due) queued_msg"
| "execute_tool V now dr c (CallPmWrite title project prio assignee due raci) = proposing V now dr c ''pm.write''
     (PmWrite title project prio assignee due raci) queued_msg"
| "execute_tool V now dr c (CallWebSearch q k) = audited V now dr c (CallWebSearch q k) (act_return (web_search V q k))"
| "execute_tool V now dr c (CallWebFetch u) = audited V now dr c (CallWebFetch u) (act_return (PageRead (web_fetch V u)))"
| "execute_tool V now dr c (CallChartRender spec) = audited V now dr c (CallChartRender spec) (act_return (chart_render V spec))"
| "execute_tool V now dr c (CallTerminal cmd cwd) = proposing V now dr c ''terminal.exec'' (RunnerTerminal cmd cwd)
     ''Queued for human approval before it runs in the sandbox.''"
| "execute_tool V now dr c (CallCode lang source files) = proposing V now dr c ''code.run'' (RunnerCode lang source files)
     ''Queued for human approval before it runs in the sandbox.''"

text \<open>A call through the registry of the turn: only what is offered can be called.\<close>

definition run_tool :: "tool_env \<Rightarrow> ms \<Rightarrow> tool_draws \<Rightarrow> ToolContext \<Rightarrow> ToolCall \<Rightarrow> (db, ToolResult) act" where
  "run_tool V now dr c call = (if tool_name call \<in> set (offered c) then execute_tool V now dr c call
     else act_throw (JsError (''no such tool: '' @ tool_name call)))"

subsection \<open>What is offered\<close>

text \<open>The tools that a reply for an audience can use.\<close>

definition REPLY_TOOLS :: "string list" where
  "REPLY_TOOLS = [''crm.read'', ''memory.recall'', ''documents.read'', ''documents.list'', ''artifact.attach'', ''pm.read'', ''tables.list'', ''tables.schema'',
     ''tables.read'', ''tables.query'', ''calendar.read'', ''calendar.pin_summary'', ''thread.summarize'', ''chart.render'']"

lemma offered_permitted: "n \<in> set (offered c) \<Longrightarrow> permitted c n"
  by (auto simp: offered_def)

lemma offered_reply:
  assumes "n \<in> set (offered c)" "tl_audience c \<noteq> None" "tl_agentRole c = Agent"
  shows "n \<in> set REPLY_TOOLS"
proof -
  have all: "list_all (\<lambda>(n, cap). n \<in> set CHANNEL_REPLY_DENY \<or> n \<in> set HITL_TOOLS \<or> \<not> can Agent cap \<or> n \<in> set REPLY_TOOLS) TOOL_CAPABILITY"
    by code_simp
  obtain cap where c: "(n, cap) \<in> set TOOL_CAPABILITY" "map_of TOOL_CAPABILITY n = Some cap" "can Agent cap" "n \<notin> set CHANNEL_REPLY_DENY" "n \<notin> set HITL_TOOLS"
    using assms by (auto simp: offered_def permitted_def toolPermitted_def split: option.splits if_splits dest: map_of_SomeD)
  then show ?thesis using all by (auto simp: list_all_iff)
qed

lemma external_offered: "n \<in> set (offered c) \<Longrightarrow> \<not> isInternalRole (invoker_role c) \<Longrightarrow> n = ''thread.summarize''"
  by (auto simp: offered_def permitted_def toolPermitted_def CHANNEL_SCOPED_TOOLS_def split: option.splits if_splits)

subsection \<open>What a call changes\<close>

text \<open>The database without the transparency log and the audit trail.\<close>

definition apart_from_log :: "db \<Rightarrow> db" where
  "apart_from_log s = s\<lparr>agentToolCalls := [], auditLog := [], auditLogSerial := 0\<rparr>"

lemma log_frames [frame_intros]:
  "frames apart_from_log (logToolCall A now n x t j r st)" "frames apart_from_log (finishToolCall A q h)"
proof -
  have "frames apart_from_log (appendAudit E now i)" for E i by (rule frames_appendAudit) (simp_all add: apart_from_log_def)
  then show "frames apart_from_log (logToolCall A now n x t j r st)"
    unfolding logToolCall_def insert_tool_call_def by (intro frame_intros frames_tbl_insert) (simp_all add: apart_from_log_def)
  show "frames apart_from_log (finishToolCall A q h)"
    unfolding finishToolCall_def by (intro frame_intros frames_tbl_update) (simp add: apart_from_log_def)
qed

lemma logToolCall_returns: "\<exists>i s1. logToolCall A now n x t j r st s = (Inr i, s1)"
  by (cases "act_bind (insert_tool_call \<lparr>tc_id = n, tc_workspaceId = tx_workspaceId x, tc_threadId = tx_threadId x,
          tc_personaId = tx_personaId x, tc_invokedBySub = tx_invokedBySub x, tc_tool = t, tc_argsHash = hashArgs A j,
          tc_argsRedacted = Some r, tc_approvalStatus = st, tc_resultHash = None, tc_createdAt = now\<rparr>) (\<lambda>row.
       act_bind (appendAudit (ae_crypto A) now (audit_input (tx_workspaceId x) (tx_invokedBySub x) ''tool_called''
          (Some (t @ '':'' @ tc_id row)))) (\<lambda>_. act_return (Some (tc_id row)))) s")
     (auto simp: logToolCall_def act_try_def act_return_def split: sum.splits)

lemma frames_through: "frames f m \<Longrightarrow> frames (\<lambda>s. g (f s)) m"
  by (simp add: frames_def)

lemma frames_audited: "(frames apart_from_log run) \<Longrightarrow> frames apart_from_log (audited V now dr c call run)"
  unfolding audited_def Let_def by (intro frame_intros)

text \<open>A call that answers has run its tool, on a database that differs in the log only.\<close>

lemma audited_answers:
  assumes "audited V now dr c call run s = (Inr r, s')"
  shows "\<exists>s1 s2. run s1 = (Inr r, s2) \<and> apart_from_log s1 = apart_from_log s"
proof (cases "tl_audit c = Some False")
  case True
  then show ?thesis using assms by (auto simp: audited_def Let_def act_throw_def split: if_splits)
next
  case False
  let ?log = "logToolCall (te_approval V) now (tz_log dr) \<lparr>tx_workspaceId = tl_workspaceId c, tx_threadId = tl_threadId c, tx_personaId = tl_personaId c,
          tx_invokedBySub = Some (tl_invokedBySub c)\<rparr> (tool_name call) (te_stringify V (te_args V call)) (redactedArgs (te_stringify V) (te_args V call)) ''auto''"
  obtain i s1 where l: "?log s = (Inr i, s1)" using logToolCall_returns by blast
  have s1: "apart_from_log s1 = apart_from_log s" by (rule framesD [OF log_frames(1) l])
  from assms False l show ?thesis
    by (cases "run s1") (auto simp: audited_def Let_def act_bind_def act_try_def act_throw_def act_return_def s1 split: if_splits sum.splits prod.splits)
qed

declare frames_case_prod [frame_intros] and frames_case_list [frame_intros]

lemma frames_crm_cases [frame_intros]:
  "frames f a \<Longrightarrow> frames f b \<Longrightarrow> frames f d \<Longrightarrow> frames f (case e of CrmAccount \<Rightarrow> a | CrmDeal \<Rightarrow> b | CrmContact \<Rightarrow> d)"
  by (cases e) simp_all

lemma file_frames [frame_intros]:
  "frames f (getAccountFile T w i v)" "frames f (getDealFile T w i v)" "frames f (getContactFile T w i)"
  unfolding getAccountFile_def getDealFile_def getContactFile_def record_parts_def getAccount_def getDeal_def getContact_def listDealsForAccount_def
    listContactsForAccount_def listDocumentsForRecord_def getFieldsForRecord_def listFieldDefs_def tagsForRecord_def listNotes_def listActivity_def Let_def
  by (intro frame_intros)+

lemma crm_read_frames: "frames f (crm_read V c e i q n)"
  unfolding crm_read_def listAccounts_def listDeals_def listContacts_def Let_def by (intro frame_intros)

lemma seated_frames [frame_intros]: "frames f (isChannelMember chan u)" "frames f (all_seated chan vs)" "frames f (getVisibleDocument w i v)" "frames f (all_see w i vs)"
proof -
  show seat: "frames f (isChannelMember chan u)" for u unfolding isChannelMember_def by (intro frame_intros)
  show "frames f (all_seated chan vs)" by (induction vs) (simp_all add: frame_intros seat)
  show vis: "frames f (getVisibleDocument w i v)" for v unfolding getVisibleDocument_def by (intro frame_intros)
  show "frames f (all_see w i vs)" by (induction vs) (simp_all add: frame_intros vis)
qed

lemma reading_frames [frame_intros]:
  "frames f (memory_recall V c q fl b an)" "frames f (documents_read V c q n)" "frames f (documents_list c n)"
  "frames f (pm_read c pj)" "frames f (tables_read V c i off lim cols flt)" "frames f (tables_query c i op col flt)"
  "frames f (listTables w k)" "frames f (getSheetSchema w i)" "frames f (calendar_read V now c st en)" "frames f (thread_summarize V c chan n)"
  "frames f (artifact_attach c i)"
  unfolding memory_recall_def recall_degrading_def neon_recall_def documents_read_def retrieveChunks_def documents_list_def listDocuments_def pm_read_def
    listProjects_def listTasks_def tables_read_def readRows_def tables_query_def queryTable_def listTables_def getSheetSchema_def sheetColumns_def
    calendar_read_def listWorkspaceEventsInRange_def hydrate_def thread_summarize_def listMessages_def with_attachments_def attachmentsForMessages_def
    artifact_attach_def Let_def
  by (intro frame_intros)+

text \<open>The one tool of a reply that writes: it posts into the channel and pins.\<close>

lemma pin_writes:
  assumes "\<And>s g. f (messages_update g s) = f s"
  shows "frames f (pin_summary V now dr c chan days)"
  unfolding pin_summary_def postAndPinCalendarSummary_def listWorkspaceEventsInRange_def hydrate_def sendMessage_def insert_message_def
    listPinnedMessages_def with_attachments_def attachmentsForMessages_def setMessagePinned_def Let_def
  by (intro frame_intros frames_tbl_insert frames_tbl_update; simp add: assms)

lemma pin_frames: "frames (\<lambda>s. apart_from_log s\<lparr>messages := []\<rparr>) (pin_summary V now dr c chan days)"
  by (rule pin_writes) (simp add: apart_from_log_def)

definition seated :: "db \<Rightarrow> uuid \<Rightarrow> string \<Rightarrow> bool" where
  "seated s chan u \<longleftrightarrow> (chan, u) \<in> (\<lambda>m. (cm_channelId m, cm_sub m)) ` set (channelMembers s)"

lemma isChannelMember_seated: "isChannelMember chan u s = (Inr (seated s chan u), s)"
  by (auto simp: isChannelMember_def act_get_def seated_def first_where_None_iff)

text \<open>The same for a turn without the log whose allow list holds no proposing tool.\<close>

definition incognito :: "ToolContext \<Rightarrow> bool" where
  "incognito c \<longleftrightarrow> tl_audit c = Some False \<and> tl_agentRole c = Agent \<and> (case tl_allow c of None \<Rightarrow> False | Some ns \<Rightarrow> list_all (\<lambda>n. n \<notin> set HITL_TOOLS) ns)"

lemma offered_incognito:
  assumes "n \<in> set (offered c)" "incognito c"
  shows "n \<in> set (CHANNEL_REPLY_DENY @ REPLY_TOOLS)"
proof -
  have all: "list_all (\<lambda>(n, cap). n \<in> set HITL_TOOLS \<or> \<not> can Agent cap \<or> n \<in> set (CHANNEL_REPLY_DENY @ REPLY_TOOLS)) TOOL_CAPABILITY" by code_simp
  obtain cap where c: "(n, cap) \<in> set TOOL_CAPABILITY" "can Agent cap" "n \<notin> set HITL_TOOLS"
    using assms by (auto simp: incognito_def offered_def permitted_def toolPermitted_def list_all_iff split: option.splits if_splits dest: map_of_SomeD)
  then show ?thesis using all by (auto simp: list_all_iff)
qed

lemma frames_unlogged: "tl_audit c = Some False \<Longrightarrow> frames f run \<Longrightarrow> frames f (audited V now dr c call run)"
  unfolding audited_def Let_def by (auto intro: frame_intros)

end
