(* ===== verification/Personas.thy ===== *)
theory Personas
  imports Prompts Documents
begin

text \<open>
  \<^verbatim>\<open>lib/domain/persona-scope.ts\<close>, \<^verbatim>\<open>lib/domain/agent-config.ts\<close> and \<^verbatim>\<open>lib/domain/personas.ts\<close>: the personas of a workspace, the prompt layers, skills and resources
  attached to them, and the delegation of the right to configure them. The insert and delete operations check what the schema declares,
  the composite foreign keys of migration 0016 included. A temperature is a \<^typ>\<open>decimal\<close>; decimal arithmetic is exact.
\<close>

subsection \<open>Rows and constraints\<close>

definition persona_key :: "persona_row \<Rightarrow> uuid \<times> string" where
  "persona_key r = (ps_workspaceId r, ps_key r)"

definition persona_of :: "db \<Rightarrow> uuid \<Rightarrow> uuid \<Rightarrow> bool" where
  "persona_of s w p \<longleftrightarrow> (\<exists>r\<in>set (agentPersonas s). ps_workspaceId r = w \<and> ps_id r = p)"

definition pp_key :: "prompt_row \<Rightarrow> uuid \<times> int" where
  "pp_key r = (pp_personaId r, pp_layer r)"

definition sk_key :: "skill_row \<Rightarrow> uuid \<times> string" where
  "sk_key r = (sk_personaId r, sk_skillKey r)"

definition insert_persona :: "persona_row \<Rightarrow> (db, persona_row) act" where
  "insert_persona r = tbl_insert (\<lambda>s. \<not> has_persona s (ps_id r) \<and> persona_key r \<notin> persona_key ` set (agentPersonas s)
     \<and> has_workspace s (ps_workspaceId r) \<and> null_or (\<lambda>a. a \<in> ag_id ` set (agents s)) (ps_agentId r)) agentPersonas_update r"

definition insert_prompt :: "prompt_row \<Rightarrow> (db, prompt_row) act" where
  "insert_prompt r = tbl_insert (\<lambda>s. pp_id r \<notin> pp_id ` set (agentPrompts s) \<and> pp_key r \<notin> pp_key ` set (agentPrompts s)
     \<and> has_workspace s (pp_workspaceId r) \<and> persona_of s (pp_workspaceId r) (pp_personaId r)) agentPrompts_update r"

definition insert_skill :: "skill_row \<Rightarrow> (db, skill_row) act" where
  "insert_skill r = tbl_insert (\<lambda>s. sk_id r \<notin> sk_id ` set (agentSkills s) \<and> sk_key r \<notin> sk_key ` set (agentSkills s)
     \<and> has_workspace s (sk_workspaceId r) \<and> persona_of s (sk_workspaceId r) (sk_personaId r)) agentSkills_update r"

definition insert_resource :: "resource_row \<Rightarrow> (db, resource_row) act" where
  "insert_resource r = tbl_insert (\<lambda>s. rs_id r \<notin> rs_id ` set (agentResources s) \<and> has_workspace s (rs_workspaceId r)
     \<and> persona_of s (rs_workspaceId r) (rs_personaId r) \<and> null_or (has_document s) (rs_documentId r)) agentResources_update r"

definition insert_grant :: "grant_row \<Rightarrow> (db, grant_row) act" where
  "insert_grant r = tbl_insert (\<lambda>s. gt_id r \<notin> gt_id ` set (agentConfigGrants s) \<and> has_workspace s (gt_workspaceId r)
     \<and> null_or (persona_of s (gt_workspaceId r)) (gt_personaId r)) agentConfigGrants_update r"

text \<open>The rows that refer to a persona; the delete of a persona fails while there is one (\<^verbatim>\<open>on delete no action\<close>). The table \<^verbatim>\<open>agent_keys\<close>,
  which also refers to personas and which no code of the web tier writes, is not modelled.\<close>

definition persona_referenced :: "db \<Rightarrow> uuid \<Rightarrow> bool" where
  "persona_referenced s p \<longleftrightarrow> (\<exists>r\<in>set (agentPrompts s). pp_personaId r = p) \<or> (\<exists>r\<in>set (agentSkills s). sk_personaId r = p)
     \<or> (\<exists>r\<in>set (agentResources s). rs_personaId r = p) \<or> (\<exists>r\<in>set (agentConfigGrants s). gt_personaId r = Some p)
     \<or> (\<exists>r\<in>set (agentThreads s). th_personaId r = Some p) \<or> (\<exists>r\<in>set (agentToolCalls s). tc_personaId r = Some p)
     \<or> (\<exists>r\<in>set (agentApprovals s). ap_personaId r = Some p) \<or> (\<exists>r\<in>set (crmNotes s). no_personaId r = Some p)"

definition persona_delete :: "(persona_row \<Rightarrow> bool) \<Rightarrow> (db, unit) act" where
  "persona_delete = restrict_delete agentPersonas (\<lambda>s r. persona_referenced s (ps_id r)) agentPersonas_update"

definition persona_at :: "db \<Rightarrow> uuid \<Rightarrow> uuid \<Rightarrow> persona_row option" where
  "persona_at s w p = first_where (\<lambda>r. ps_workspaceId r = w \<and> ps_id r = p) (agentPersonas s)"

subsection \<open>Scope\<close>

definition personaInWorkspace :: "uuid \<Rightarrow> uuid \<Rightarrow> (db, bool) act" where
  "personaInWorkspace w p = (if \<not> is_uuid p then act_return False else act_get (\<lambda>s. persona_at s w p \<noteq> None))"

definition assertPersonaInWorkspace :: "uuid \<Rightarrow> uuid \<Rightarrow> (db, unit) act" where
  "assertPersonaInWorkspace w p = act_bind (personaInWorkspace w p) (\<lambda>ok.
     if \<not> ok then act_throw (GuardError 403 ''persona not in this workspace'') else act_return ())"

subsection \<open>Resources\<close>

record ResourceRow =
  rr_id :: uuid
  rr_personaId :: uuid
  rr_kind :: string
  rr_title :: string
  rr_content :: "string option"
  rr_url :: "string option"
  rr_documentId :: "uuid option"
  rr_enabled :: bool

definition resource_view :: "crypto_env \<Rightarrow> uuid \<Rightarrow> resource_row \<Rightarrow> ResourceRow" where
  "resource_view E w r = \<lparr>rr_id = rs_id r, rr_personaId = rs_personaId r, rr_kind = rs_kind r, rr_title = rs_title r,
     rr_content = (if or_empty (rs_contentEnc r) \<noteq> [] then Some (safeDecrypt E w (or_empty (rs_contentEnc r))) else None), rr_url = rs_url r,
     rr_documentId = rs_documentId r, rr_enabled = rs_enabled r\<rparr>"

definition listResources :: "crypto_env \<Rightarrow> uuid \<Rightarrow> uuid \<Rightarrow> (db, ResourceRow list) act" where
  "listResources E w p = act_get (\<lambda>s. map (resource_view E w)
     (rows_where (\<lambda>r. rs_workspaceId r = w \<and> rs_personaId r = p) (agentResources s)))"

record ResourceInput =
  ri_kind :: string
  ri_title :: string
  ri_content :: "string option"
  ri_url :: "string option"
  ri_documentId :: "uuid option"

text \<open>\<^verbatim>\<open>/^https?:\/\//i\<close>.\<close>

definition http_url :: "string \<Rightarrow> bool" where
  "http_url u \<longleftrightarrow> starts_with ''http://'' (js_lower u) \<or> starts_with ''https://'' (js_lower u)"

definition untitled :: "string \<Rightarrow> string" where
  "untitled t = (let x = take 200 (js_trim t) in if x = [] then ''Untitled'' else x)"

text \<open>The encrypted content, the address and the document of the row to insert, or \<open>None\<close> where the source returns \<^verbatim>\<open>null\<close>.\<close>

definition resource_payload :: "crypto_env \<Rightarrow> string \<Rightarrow> uuid \<Rightarrow> ResourceInput \<Rightarrow> string \<Rightarrow>
    (db, (string option \<times> string option \<times> uuid option) option) act" where
  "resource_payload E iv w i u =
     (if ri_kind i = ''text'' then (let c = js_trim (or_empty (ri_content i)) in
        if c = [] then act_return None
        else act_bind (act_lift (encryptField E iv w (take 20000 c))) (\<lambda>enc. act_return (Some (Some enc, None, None))))
      else if ri_kind i = ''link'' then (let l = js_trim (or_empty (ri_url i)) in
        if \<not> http_url l then act_return None else act_return (Some (None, Some (take 2000 l), None)))
      else if ri_kind i = ''document'' then
        (if or_empty (ri_documentId i) = [] \<or> \<not> is_uuid (or_empty (ri_documentId i)) then act_return None
         else act_bind (getVisibleDocument w (or_empty (ri_documentId i)) \<lparr>vi_sub = u, vi_internal = True, vi_agent = None\<rparr>) (\<lambda>d.
           if d = None then act_return None else act_return (Some (None, None, ri_documentId i))))
      else act_return None)"

definition addResource :: "crypto_env \<Rightarrow> ms \<Rightarrow> uuid \<Rightarrow> string \<Rightarrow> uuid \<Rightarrow> uuid \<Rightarrow> ResourceInput \<Rightarrow> string \<Rightarrow> (db, uuid option) act" where
  "addResource E now newId iv w p i u = act_bind (assertPersonaInWorkspace w p) (\<lambda>_.
     act_bind (resource_payload E iv w i u) (\<lambda>payload. case payload of None \<Rightarrow> act_return None | Some (enc, link, doc) \<Rightarrow>
     act_bind (insert_resource \<lparr>rs_id = newId, rs_workspaceId = w, rs_personaId = p, rs_kind = ri_kind i, rs_title = untitled (ri_title i),
        rs_contentEnc = enc, rs_url = link, rs_documentId = doc, rs_enabled = True, rs_createdBySub = u, rs_createdAt = now\<rparr>) (\<lambda>row.
     act_bind (appendAudit E now (audit_input w (Some u) ''persona_resource_added'' (Some (p @ '':'' @ ri_kind i)))) (\<lambda>_.
     act_return (Some (rs_id row))))))"

definition setResourceEnabled :: "crypto_env \<Rightarrow> ms \<Rightarrow> uuid \<Rightarrow> uuid \<Rightarrow> uuid \<Rightarrow> bool \<Rightarrow> string \<Rightarrow> (db, unit) act" where
  "setResourceEnabled E now w p rid on u =
     act_bind (tbl_update agentResources_update (\<lambda>r. rs_workspaceId r = w \<and> rs_personaId r = p \<and> rs_id r = rid) (\<lambda>r. r\<lparr>rs_enabled := on\<rparr>)) (\<lambda>_.
     act_bind (appendAudit E now (audit_input w (Some u) ''persona_resource_toggled'' (Some (p @ '':'' @ rid)))) (\<lambda>_. act_return ()))"

definition deleteResource :: "crypto_env \<Rightarrow> ms \<Rightarrow> uuid \<Rightarrow> uuid \<Rightarrow> uuid \<Rightarrow> string \<Rightarrow> (db, unit) act" where
  "deleteResource E now w p rid u =
     act_bind (tbl_delete agentResources_update (\<lambda>r. rs_workspaceId r = w \<and> rs_personaId r = p \<and> rs_id r = rid)) (\<lambda>_.
     act_bind (appendAudit E now (audit_input w (Some u) ''persona_resource_deleted'' (Some (p @ '':'' @ rid)))) (\<lambda>_. act_return ()))"

definition resolvePersonaResources :: "crypto_env \<Rightarrow> uuid \<Rightarrow> uuid \<Rightarrow> (db, PromptResource list) act" where
  "resolvePersonaResources E w p = act_bind (listResources E w p) (\<lambda>rows.
     act_return (map (\<lambda>r. \<lparr>pr_kind = rr_kind r, pr_title = rr_title r, pr_content = (if rr_kind r = ''text'' then rr_content r else None),
       pr_url = (if rr_kind r = ''link'' then rr_url r else None)\<rparr>) (filter rr_enabled rows)))"

subsection \<open>Delegation of the right to configure\<close>

record ConfigGrantRow =
  cg_id :: uuid
  cg_granteeSub :: string
  cg_granteeName :: "string option"
  cg_personaId :: "uuid option"
  cg_grantedBySub :: string
  cg_createdAt :: ms

definition grant_view :: "db \<Rightarrow> grant_row \<Rightarrow> ConfigGrantRow" where
  "grant_view s g = \<lparr>cg_id = gt_id g, cg_granteeSub = gt_granteeSub g,
     cg_granteeName = Option.bind (member_at s (gt_workspaceId g) (gt_granteeSub g)) mb_displayName, cg_personaId = gt_personaId g,
     cg_grantedBySub = gt_grantedBySub g, cg_createdAt = gt_createdAt g\<rparr>"

definition listConfigGrants :: "uuid \<Rightarrow> (db, ConfigGrantRow list) act" where
  "listConfigGrants w = act_get (\<lambda>s. map (grant_view s) (rows_where (\<lambda>g. gt_workspaceId g = w) (agentConfigGrants s)))"

definition grantConfig :: "crypto_env \<Rightarrow> ms \<Rightarrow> uuid \<Rightarrow> uuid \<Rightarrow> string \<Rightarrow> uuid option \<Rightarrow> string \<Rightarrow> (db, unit) act" where
  "grantConfig E now newId w grantee p u =
     act_bind (case p of None \<Rightarrow> act_return () | Some i \<Rightarrow> assertPersonaInWorkspace w i) (\<lambda>_.
     act_bind (act_get (\<lambda>s. first_where (\<lambda>g. gt_workspaceId g = w \<and> gt_granteeSub g = grantee \<and> gt_personaId g = p) (agentConfigGrants s))) (\<lambda>dupe.
     if dupe \<noteq> None then act_return ()
     else act_bind (insert_grant \<lparr>gt_id = newId, gt_workspaceId = w, gt_granteeSub = grantee, gt_personaId = p, gt_grantedBySub = u, gt_createdAt = now\<rparr>) (\<lambda>_.
       act_bind (appendAudit E now (audit_input w (Some u) ''persona_config_granted'' (Some (grantee @ '':'' @ or_default p ''all'')))) (\<lambda>_.
       act_return ()))))"

definition revokeConfig :: "crypto_env \<Rightarrow> ms \<Rightarrow> uuid \<Rightarrow> uuid \<Rightarrow> string \<Rightarrow> (db, unit) act" where
  "revokeConfig E now w grantId u =
     act_bind (tbl_delete agentConfigGrants_update (\<lambda>g. gt_workspaceId g = w \<and> gt_id g = grantId)) (\<lambda>_.
     act_bind (appendAudit E now (audit_input w (Some u) ''persona_config_revoked'' (Some grantId))) (\<lambda>_. act_return ()))"

definition covering_grant :: "db \<Rightarrow> uuid \<Rightarrow> string \<Rightarrow> uuid \<Rightarrow> grant_row option" where
  "covering_grant s w u p = first_where (\<lambda>g. gt_workspaceId g = w \<and> gt_granteeSub g = u \<and> (gt_personaId g = None \<or> gt_personaId g = Some p))
     (agentConfigGrants s)"

definition canConfigurePersona :: "uuid \<Rightarrow> string \<Rightarrow> Role \<Rightarrow> uuid \<Rightarrow> (db, bool) act" where
  "canConfigurePersona w u role p = act_bind (personaInWorkspace w p) (\<lambda>ok.
     if \<not> ok then act_return False
     else if can role ManageWorkspace then act_return True
     else if \<not> isInternalRole role then act_return False
     else act_get (\<lambda>s. covering_grant s w u p \<noteq> None))"

definition hasAnyConfigGrant :: "uuid \<Rightarrow> string \<Rightarrow> (db, bool) act" where
  "hasAnyConfigGrant w u = act_get (\<lambda>s. first_where (\<lambda>g. gt_workspaceId g = w \<and> gt_granteeSub g = u) (agentConfigGrants s) \<noteq> None)"

definition configurablePersonaIds :: "uuid \<Rightarrow> string \<Rightarrow> (db, bool \<times> uuid list) act" where
  "configurablePersonaIds w u = act_get (\<lambda>s. let ids = map gt_personaId (rows_where (\<lambda>g. gt_workspaceId g = w \<and> gt_granteeSub g = u) (agentConfigGrants s))
     in if None \<in> set ids then (True, []) else (False, filter (\<lambda>p. p \<noteq> []) (map the ids)))"

subsection \<open>Personas\<close>

definition ALL_SKILL_KEYS :: "string list" where
  "ALL_SKILL_KEYS = map fst SKILL_FRAGMENTS"

text \<open>\<^verbatim>\<open>Math.round(x * 100)\<close>, half up.\<close>

definition round_hundredths :: "decimal \<Rightarrow> int" where
  "round_hundredths x = (200 * fst x + 10 ^ snd x) div (2 * 10 ^ snd x)"

definition clamp :: "int \<Rightarrow> int \<Rightarrow> int \<Rightarrow> int" where
  "clamp lo hi n = max lo (min hi n)"

definition persona_slug :: "string \<Rightarrow> string" where
  "persona_slug t = (let y = take 50 (dash_slug (js_trim t)) in if y = [] then ''persona'' else y)"

record PersonaRow =
  pn_id :: uuid
  pn_key :: string
  pn_name :: string
  pn_baseTemplate :: string
  pn_model :: PersonaModel
  pn_tools :: "string list"
  pn_maxSteps :: int
  pn_temperature :: decimal
  pn_enabled :: bool
  pn_isTemplate :: bool

definition persona_view :: "persona_row \<Rightarrow> PersonaRow" where
  "persona_view r = \<lparr>pn_id = ps_id r, pn_key = ps_key r, pn_name = ps_name r, pn_baseTemplate = ps_baseTemplate r,
     pn_model = \<lparr>pm_gateway = sm_gateway (ps_modelJson r), pm_frontier = sm_frontier (ps_modelJson r)\<rparr>, pn_tools = ps_toolsJson r,
     pn_maxSteps = ps_maxSteps r, pn_temperature = (ps_temperature r, 2), pn_enabled = ps_enabled r, pn_isTemplate = ps_isTemplate r\<rparr>"

text \<open>Seeding. \<open>ids\<close> are the ids the database draws: for the \<open>i\<close>-th template the persona's and those of its skills.\<close>

definition template_row :: "ms \<Rightarrow> uuid \<Rightarrow> uuid \<Rightarrow> string \<Rightarrow> PersonaTemplate \<Rightarrow> persona_row" where
  "template_row now newId w u t = \<lparr>ps_id = newId, ps_workspaceId = w, ps_agentId = None, ps_key = pt_key t, ps_name = pt_name t,
     ps_baseTemplate = pt_baseTemplate t, ps_modelJson = \<lparr>sm_gateway = pm_gateway (pt_model t), sm_frontier = pm_frontier (pt_model t),
     sm_preferFrontier = Some (pt_preferFrontier t)\<rparr>, ps_toolsJson = pt_tools t, ps_maxSteps = pt_maxSteps t,
     ps_temperature = round_hundredths (pt_temperature t), ps_enabled = True, ps_isTemplate = True, ps_createdBy = u, ps_createdAt = now\<rparr>"

definition skill_unless_there :: "skill_row \<Rightarrow> (db, skill_row) act" where
  "skill_unless_there r s = (if sk_key r \<in> sk_key ` set (agentSkills s) \<or> sk_id r \<in> sk_id ` set (agentSkills s) then (Inr r, s) else insert_skill r s)"

definition seed_template :: "ms \<Rightarrow> (nat \<Rightarrow> nat \<Rightarrow> uuid) \<Rightarrow> uuid \<Rightarrow> string \<Rightarrow> nat \<times> PersonaTemplate \<Rightarrow> (db, unit) act" where
  "seed_template now ids w u it = act_bind (insert_persona (template_row now (ids (fst it) 0) w u (snd it))) (\<lambda>row.
     insert_rows skill_unless_there (map (\<lambda>(j, k). \<lparr>sk_id = ids (fst it) j, sk_workspaceId = w, sk_personaId = ps_id row, sk_skillKey = k,
       sk_enabled = True\<rparr>) (enumerate 1 (pt_skills (snd it)))))"

definition sync_template :: "uuid \<Rightarrow> PersonaTemplate \<Rightarrow> (db, unit) act" where
  "sync_template w t = tbl_update agentPersonas_update (\<lambda>r. ps_workspaceId r = w \<and> ps_key r = pt_key t \<and> ps_isTemplate r)
     (\<lambda>r. r\<lparr>ps_toolsJson := pt_tools t, ps_maxSteps := pt_maxSteps t\<rparr>)"

definition seedDefaultPersonas :: "crypto_env \<Rightarrow> ms \<Rightarrow> (nat \<Rightarrow> nat \<Rightarrow> uuid) \<Rightarrow> uuid \<Rightarrow> string \<Rightarrow> (db, nat) act" where
  "seedDefaultPersonas E now ids w u =
     act_bind (act_get (\<lambda>s. ps_key ` set (rows_where (\<lambda>r. ps_workspaceId r = w) (agentPersonas s)))) (\<lambda>have_keys.
     let missing = filter (\<lambda>(i, t). pt_key t \<notin> have_keys) (enumerate 0 DEFAULT_PERSONA_LIST) in
     act_bind (act_for missing (seed_template now ids w u)) (\<lambda>_.
     act_bind (act_for DEFAULT_PERSONA_LIST (sync_template w)) (\<lambda>_.
     act_bind (if missing \<noteq> [] then act_bind (appendAudit E now (audit_input w (Some u) ''personas_seeded'' (Some (digits_of (length missing)))))
        (\<lambda>_. act_return ()) else act_return ()) (\<lambda>_.
     act_return (length missing)))))"

definition listPersonas :: "uuid \<Rightarrow> (db, PersonaRow list) act" where
  "listPersonas w = act_get (\<lambda>s. map persona_view (sort_key ps_createdAt (rows_where (\<lambda>r. ps_workspaceId r = w) (agentPersonas s))))"

definition personaIdForAgent :: "uuid \<Rightarrow> uuid \<Rightarrow> (db, uuid option) act" where
  "personaIdForAgent w a = act_get (\<lambda>s.
     case first_where (\<lambda>r. ps_workspaceId r = w \<and> ps_agentId r = Some a \<and> ps_enabled r) (agentPersonas s) of
       Some r \<Rightarrow> Some (ps_id r)
     | None \<Rightarrow> map_option ps_id (first_where (\<lambda>r. ps_workspaceId r = w \<and> ps_enabled r \<and> \<not> ps_isTemplate r) (sort_key ps_createdAt (agentPersonas s))))"

definition getPersona :: "uuid \<Rightarrow> uuid \<Rightarrow> (db, PersonaRow option) act" where
  "getPersona w p = act_get (\<lambda>s. map_option persona_view (persona_at s w p))"

text \<open>The stored prompt layers that decrypt, and the stored skills.\<close>

definition stored_layers :: "crypto_env \<Rightarrow> db \<Rightarrow> uuid \<Rightarrow> uuid \<Rightarrow> (int \<times> string) list" where
  "stored_layers E s w p = List.map_filter (\<lambda>r. case decryptField E w (pp_contentEnc r) of Inl _ \<Rightarrow> None | Inr t \<Rightarrow> Some (pp_layer r, t))
     (rows_where (\<lambda>r. pp_workspaceId r = w \<and> pp_personaId r = p) (agentPrompts s))"

definition stored_skills :: "db \<Rightarrow> uuid \<Rightarrow> uuid \<Rightarrow> (string \<times> bool) list" where
  "stored_skills s w p = map (\<lambda>r. (sk_skillKey r, sk_enabled r)) (rows_where (\<lambda>r. sk_workspaceId r = w \<and> sk_personaId r = p) (agentSkills s))"

text \<open>\<^verbatim>\<open>template?.field ?? d\<close>.\<close>

definition template_field :: "string \<Rightarrow> (PersonaTemplate \<Rightarrow> 'a) \<Rightarrow> 'a \<Rightarrow> 'a" where
  "template_field base field d = (case DEFAULT_PERSONAS base of Own t \<Rightarrow> field t | _ \<Rightarrow> d)"

record ResolvedPersona =
  rp_row :: PersonaRow
  rp_mission :: string
  rp_preferFrontier :: bool
  rp_skills :: "string list"
  rp_overrides :: PromptOverrides
  rp_resources :: "PromptResource list"

definition resolved :: "crypto_env \<Rightarrow> db \<Rightarrow> uuid \<Rightarrow> persona_row \<Rightarrow> PromptResource list \<Rightarrow> ResolvedPersona" where
  "resolved E s w r resources = (let row = persona_view r; base = ps_baseTemplate r; by_layer = map_of (rev (stored_layers E s w (ps_id r)));
       enabledSkills = map fst (filter snd (stored_skills s w (ps_id r)));
       tm = template_field base pt_mission [] in
     \<lparr>rp_row = row\<lparr>pn_tools := if ps_isTemplate r then ALL_TOOL_NAMES else pn_tools row\<rparr>,
      rp_mission = (if or_empty (by_layer 1) \<noteq> [] then or_empty (by_layer 1) else if tm \<noteq> [] then tm else ''You are '' @ ps_name r @ ''.''),
      rp_preferFrontier = (case sm_preferFrontier (ps_modelJson r) of Some b \<Rightarrow> b | None \<Rightarrow> template_field base pt_preferFrontier False),
      rp_skills = (if enabledSkills \<noteq> [] then enabledSkills else template_field base pt_skills []),
      rp_overrides = \<lparr>po_mission = by_layer 1, po_capabilities = by_layer 2, po_workspaceKnowledge = by_layer 3, po_skills = by_layer 4\<rparr>,
      rp_resources = resources\<rparr>)"

definition resolvePersona :: "crypto_env \<Rightarrow> uuid \<Rightarrow> uuid \<Rightarrow> (db, ResolvedPersona option) act" where
  "resolvePersona E w p = act_bind (act_get (\<lambda>s. persona_at s w p)) (\<lambda>found. case found of None \<Rightarrow> act_return None | Some r \<Rightarrow>
     act_bind (resolvePersonaResources E w p) (\<lambda>resources. act_get (\<lambda>s. Some (resolved E s w r resources))))"

subsection \<open>Customization\<close>

record PersonaConfig =
  pf_id :: uuid
  pf_key :: string
  pf_name :: string
  pf_baseTemplate :: string
  pf_gateway :: string
  pf_frontier :: string
  pf_preferFrontier :: bool
  pf_tools :: "string list"
  pf_maxSteps :: int
  pf_temperature :: decimal
  pf_enabled :: bool
  pf_isTemplate :: bool
  pf_missionDefault :: string
  pf_layers :: "(int \<times> string) list"
  pf_skills :: "(string \<times> string \<times> bool) list"
  pf_allTools :: "string list"
  pf_guardrails :: string

text \<open>\<^verbatim>\<open>skillState.has(key) ? skillState.get(key)! : (template?.skills.includes(key) ?? false)\<close>; on an inherited template \<^verbatim>\<open>.skills\<close> is undefined.\<close>

definition skill_state :: "(string \<times> bool) list \<Rightarrow> string \<Rightarrow> string \<Rightarrow> err + bool" where
  "skill_state st base k = (case map_of (rev st) k of Some b \<Rightarrow> Inr b
     | None \<Rightarrow> (case DEFAULT_PERSONAS base of Own t \<Rightarrow> Inr (k \<in> set (pt_skills t)) | Missing \<Rightarrow> Inr False
         | Inherited \<Rightarrow> Inl (JsError ''Cannot read properties of undefined (reading 'includes')'')))"

fun skill_toggles :: "(string \<times> bool) list \<Rightarrow> string \<Rightarrow> (string \<times> string) list \<Rightarrow> err + (string \<times> string \<times> bool) list" where
  "skill_toggles st base [] = Inr []"
| "skill_toggles st base ((k, fragment) # ks) = (case skill_state st base k of Inl e \<Rightarrow> Inl e
     | Inr b \<Rightarrow> (case skill_toggles st base ks of Inl e \<Rightarrow> Inl e | Inr xs \<Rightarrow> Inr ((k, fragment, b) # xs)))"

definition persona_config :: "crypto_env \<Rightarrow> db \<Rightarrow> uuid \<Rightarrow> persona_row \<Rightarrow> err + PersonaConfig" where
  "persona_config E s w r = (case skill_toggles (stored_skills s w (ps_id r)) (ps_baseTemplate r) SKILL_FRAGMENTS of Inl e \<Rightarrow> Inl e
     | Inr toggles \<Rightarrow> Inr \<lparr>pf_id = ps_id r, pf_key = ps_key r, pf_name = ps_name r, pf_baseTemplate = ps_baseTemplate r,
        pf_gateway = sm_gateway (ps_modelJson r), pf_frontier = or_empty (sm_frontier (ps_modelJson r)),
        pf_preferFrontier = (case sm_preferFrontier (ps_modelJson r) of Some b \<Rightarrow> b | None \<Rightarrow> template_field (ps_baseTemplate r) pt_preferFrontier False),
        pf_tools = ps_toolsJson r, pf_maxSteps = ps_maxSteps r, pf_temperature = (ps_temperature r, 2), pf_enabled = ps_enabled r,
        pf_isTemplate = ps_isTemplate r, pf_missionDefault = template_field (ps_baseTemplate r) pt_mission [],
        pf_layers = sort_key fst (stored_layers E s w (ps_id r)), pf_skills = toggles, pf_allTools = ALL_TOOL_NAMES, pf_guardrails = GUARDRAILS\<rparr>)"

definition getPersonaConfig :: "crypto_env \<Rightarrow> uuid \<Rightarrow> uuid \<Rightarrow> (db, PersonaConfig option) act" where
  "getPersonaConfig E w p = act_bind (act_get (\<lambda>s. persona_at s w p)) (\<lambda>found. case found of None \<Rightarrow> act_return None | Some r \<Rightarrow>
     act_bind (act_get (\<lambda>s. persona_config E s w r)) (\<lambda>c. act_bind (act_lift c) (\<lambda>cfg. act_return (Some cfg))))"

record UpdatePersonaPatch =
  up_name :: "string option"
  up_model :: "StoredModel option"
  up_tools :: "string list option"
  up_maxSteps :: "int option"
  up_temperature :: "decimal option"
  up_enabled :: "bool option"

definition set_if :: "'v option \<Rightarrow> ('v \<Rightarrow> 'r \<Rightarrow> 'r) \<Rightarrow> 'r \<Rightarrow> 'r" where
  "set_if v f r = (case v of None \<Rightarrow> r | Some x \<Rightarrow> f x r)"

definition plain_model :: "StoredModel \<Rightarrow> StoredModel" where
  "plain_model m = \<lparr>sm_gateway = sm_gateway m, sm_frontier = sm_frontier m, sm_preferFrontier = Some (or_default (sm_preferFrontier m) False)\<rparr>"

definition known_tools :: "string list \<Rightarrow> string list" where
  "known_tools ts = filter (\<lambda>t. t \<in> set ALL_TOOL_NAMES) ts"

definition apply_patch :: "UpdatePersonaPatch \<Rightarrow> persona_row \<Rightarrow> persona_row" where
  "apply_patch patch r =
     set_if (up_name patch) (\<lambda>n r. r\<lparr>ps_name := js_trim n\<rparr>)
    (set_if (up_model patch) (\<lambda>m r. r\<lparr>ps_modelJson := plain_model m\<rparr>)
    (set_if (up_tools patch) (\<lambda>ts r. r\<lparr>ps_toolsJson := known_tools ts\<rparr>)
    (set_if (up_maxSteps patch) (\<lambda>n r. r\<lparr>ps_maxSteps := clamp 1 50 n\<rparr>)
    (set_if (up_temperature patch) (\<lambda>t r. r\<lparr>ps_temperature := clamp 0 100 (round_hundredths t)\<rparr>)
    (set_if (up_enabled patch) (\<lambda>b r. r\<lparr>ps_enabled := b\<rparr>) r)))))"

definition empty_patch :: "UpdatePersonaPatch \<Rightarrow> bool" where
  "empty_patch patch \<longleftrightarrow> up_name patch = None \<and> up_model patch = None \<and> up_tools patch = None \<and> up_maxSteps patch = None
     \<and> up_temperature patch = None \<and> up_enabled patch = None"

definition updatePersona :: "crypto_env \<Rightarrow> ms \<Rightarrow> uuid \<Rightarrow> uuid \<Rightarrow> UpdatePersonaPatch \<Rightarrow> string \<Rightarrow> (db, unit) act" where
  "updatePersona E now w p patch u = (if empty_patch patch then act_return ()
     else act_bind (tbl_update agentPersonas_update (\<lambda>r. ps_workspaceId r = w \<and> ps_id r = p) (apply_patch patch)) (\<lambda>_.
       act_bind (appendAudit E now (audit_input w (Some u) ''persona_updated'' (Some p))) (\<lambda>_. act_return ())))"

text \<open>\<^verbatim>\<open>insert ... on conflict (persona_id, layer) do update ... where workspace_id = ws\<close>: a conflicting row of another workspace stays as it is.\<close>

definition upsert_prompt :: "prompt_row \<Rightarrow> string \<Rightarrow> (db, unit) act" where
  "upsert_prompt r enc = act_bind (act_get (\<lambda>s. pp_key r \<in> pp_key ` set (agentPrompts s))) (\<lambda>conflict.
     if conflict then tbl_update agentPrompts_update (\<lambda>x. pp_key x = pp_key r \<and> pp_workspaceId x = pp_workspaceId r)
        (\<lambda>x. x\<lparr>pp_contentEnc := enc, pp_updatedBySub := pp_updatedBySub r, pp_updatedAt := pp_updatedAt r\<rparr>)
     else act_bind (insert_prompt r) (\<lambda>_. act_return ()))"

definition setPromptLayer :: "crypto_env \<Rightarrow> ms \<Rightarrow> uuid \<Rightarrow> string \<times> string \<Rightarrow> uuid \<Rightarrow> uuid \<Rightarrow> int \<Rightarrow> string \<Rightarrow> string \<Rightarrow> (db, unit) act" where
  "setPromptLayer E now newId ivs w p layer content u =
     (if layer < 1 \<or> layer > 4 then act_throw (JsError (''layer must be 1'' @ endash @ ''4 (guardrails are not editable)''))
      else act_bind (assertPersonaInWorkspace w p) (\<lambda>_. let trimmed = js_trim content in
        act_bind (if trimmed = [] then tbl_delete agentPrompts_update (\<lambda>r. pp_workspaceId r = w \<and> pp_personaId r = p \<and> pp_layer r = layer)
           else act_bind (act_lift (encryptField E (fst ivs) w trimmed)) (\<lambda>enc.
             act_bind (act_lift (encryptField E (snd ivs) w trimmed)) (\<lambda>enc'.
             upsert_prompt \<lparr>pp_id = newId, pp_workspaceId = w, pp_personaId = p, pp_layer = layer, pp_contentEnc = enc, pp_updatedBySub = u,
               pp_updatedAt = now\<rparr> enc'))) (\<lambda>_.
        act_bind (appendAudit E now (audit_input w (Some u) ''persona_prompt_set'' (Some (p @ '':'' @ int_string layer)))) (\<lambda>_. act_return ()))))"

definition setSkillEnabled :: "uuid \<Rightarrow> uuid \<Rightarrow> uuid \<Rightarrow> string \<Rightarrow> bool \<Rightarrow> (db, unit) act" where
  "setSkillEnabled newId w p k on = act_bind (assertPersonaInWorkspace w p) (\<lambda>_.
     act_bind (act_get (\<lambda>s. (p, k) \<in> sk_key ` set (agentSkills s))) (\<lambda>conflict.
     if conflict then tbl_update agentSkills_update (\<lambda>x. sk_key x = (p, k) \<and> sk_workspaceId x = w) (\<lambda>x. x\<lparr>sk_enabled := on\<rparr>)
     else act_bind (insert_skill \<lparr>sk_id = newId, sk_workspaceId = w, sk_personaId = p, sk_skillKey = k, sk_enabled = on\<rparr>) (\<lambda>_. act_return ())))"

definition uniqueKey :: "ms \<Rightarrow> uuid \<Rightarrow> string \<Rightarrow> (db, string) act" where
  "uniqueKey now w base = act_get (\<lambda>s. let taken = ps_key ` set (rows_where (\<lambda>r. ps_workspaceId r = w) (agentPersonas s)) in
     if base \<notin> taken then base
     else (case first_where (\<lambda>k. k \<notin> taken) (map (\<lambda>i. base @ ''-'' @ digits_of i) [2..<1000]) of Some k \<Rightarrow> k | None \<Rightarrow> base @ ''-'' @ int_string now))"

text \<open>Writing the layers and skills of a new persona. The \<open>n\<close>-th write draws \<open>ids n\<close> and the vectors \<open>ivs n\<close>.\<close>

definition write_layers :: "crypto_env \<Rightarrow> ms \<Rightarrow> (nat \<Rightarrow> uuid) \<Rightarrow> (nat \<Rightarrow> string \<times> string) \<Rightarrow> uuid \<Rightarrow> uuid \<Rightarrow> string \<Rightarrow> (int \<times> string) list \<Rightarrow> (db, unit) act" where
  "write_layers E now ids ivs w p u layers = act_for (enumerate 1 layers)
     (\<lambda>(n, layer, content). setPromptLayer E now (ids n) (ivs n) w p layer content u)"

definition write_skills :: "(nat \<Rightarrow> uuid) \<Rightarrow> uuid \<Rightarrow> uuid \<Rightarrow> (string \<times> bool) list \<Rightarrow> (db, unit) act" where
  "write_skills ids w p skills = act_for (enumerate 1 skills) (\<lambda>(n, k, on). setSkillEnabled (ids n) w p k on)"

definition clonePersona :: "crypto_env \<Rightarrow> ms \<Rightarrow> (nat \<Rightarrow> uuid) \<Rightarrow> (nat \<Rightarrow> uuid) \<Rightarrow> (nat \<Rightarrow> string \<times> string) \<Rightarrow> uuid \<Rightarrow> uuid \<Rightarrow> string \<Rightarrow> string \<Rightarrow> (db, uuid option) act" where
  "clonePersona E now ids sids ivs w sourceId name u = act_bind (getPersonaConfig E w sourceId) (\<lambda>found. case found of None \<Rightarrow> act_return None | Some cfg \<Rightarrow>
     act_bind (uniqueKey now w (persona_slug name)) (\<lambda>key.
     act_bind (insert_persona \<lparr>ps_id = ids 0, ps_workspaceId = w, ps_agentId = None, ps_key = key,
        ps_name = (if js_trim name \<noteq> [] then js_trim name else pf_name cfg @ '' (copy)''), ps_baseTemplate = pf_baseTemplate cfg,
        ps_modelJson = \<lparr>sm_gateway = pf_gateway cfg, sm_frontier = Some (pf_frontier cfg), sm_preferFrontier = Some (pf_preferFrontier cfg)\<rparr>,
        ps_toolsJson = pf_tools cfg, ps_maxSteps = pf_maxSteps cfg, ps_temperature = round_hundredths (pf_temperature cfg), ps_enabled = True,
        ps_isTemplate = False, ps_createdBy = u, ps_createdAt = now\<rparr>) (\<lambda>row.
     act_bind (write_layers E now ids ivs w (ps_id row) u (pf_layers cfg)) (\<lambda>_.
     act_bind (write_skills sids w (ps_id row) (map (\<lambda>(k, _, on). (k, on)) (pf_skills cfg))) (\<lambda>_.
     act_bind (appendAudit E now (audit_input w (Some u) ''persona_cloned'' (Some (sourceId @ ''->'' @ ps_id row)))) (\<lambda>_.
     act_return (Some (ps_id row))))))))"

text \<open>\<open>None\<close> is \<^verbatim>\<open>{ ok: true }\<close>.\<close>

definition deletePersona :: "crypto_env \<Rightarrow> ms \<Rightarrow> uuid \<Rightarrow> uuid \<Rightarrow> string \<Rightarrow> (db, string option) act" where
  "deletePersona E now w p u = act_bind (act_get (\<lambda>s. persona_at s w p)) (\<lambda>found. case found of None \<Rightarrow> act_return (Some ''not_found'') | Some r \<Rightarrow>
     if ps_isTemplate r then act_return (Some ''template_protected'')
     else act_bind (tbl_delete agentPrompts_update (\<lambda>x. pp_workspaceId x = w \<and> pp_personaId x = p)) (\<lambda>_.
       act_bind (tbl_delete agentSkills_update (\<lambda>x. sk_workspaceId x = w \<and> sk_personaId x = p)) (\<lambda>_.
       act_bind (persona_delete (\<lambda>x. ps_workspaceId x = w \<and> ps_id x = p)) (\<lambda>_.
       act_bind (appendAudit E now (audit_input w (Some u) ''persona_deleted'' (Some p))) (\<lambda>_.
       act_return None)))))"

record PersonaExport =
  pe_name :: string
  pe_baseTemplate :: string
  pe_gateway :: string
  pe_frontier :: string
  pe_preferFrontier :: bool
  pe_tools :: "string list"
  pe_maxSteps :: int
  pe_temperature :: decimal
  pe_layers :: "(int \<times> string) list"
  pe_skills :: "(string \<times> bool) list"

definition export_of :: "PersonaConfig \<Rightarrow> PersonaExport" where
  "export_of c = \<lparr>pe_name = pf_name c, pe_baseTemplate = pf_baseTemplate c, pe_gateway = pf_gateway c, pe_frontier = pf_frontier c,
     pe_preferFrontier = pf_preferFrontier c, pe_tools = pf_tools c, pe_maxSteps = pf_maxSteps c, pe_temperature = pf_temperature c,
     pe_layers = pf_layers c, pe_skills = map (\<lambda>(k, _, on). (k, on)) (pf_skills c)\<rparr>"

definition exportPersona :: "crypto_env \<Rightarrow> uuid \<Rightarrow> uuid \<Rightarrow> (db, PersonaExport option) act" where
  "exportPersona E w p = act_bind (getPersonaConfig E w p) (\<lambda>c. act_return (map_option export_of c))"

record PersonaImport =
  pi_name :: string
  pi_baseTemplate :: "string option"
  pi_model :: "StoredModel option"
  pi_tools :: "string list option"
  pi_maxSteps :: "int option"
  pi_temperature :: "decimal option"
  pi_layers :: "(int \<times> string) list option"
  pi_skills :: "(string \<times> bool) list option"

definition import_row :: "ms \<Rightarrow> uuid \<Rightarrow> uuid \<Rightarrow> string \<Rightarrow> string \<Rightarrow> PersonaImport \<Rightarrow> persona_row" where
  "import_row now newId w u key d = \<lparr>ps_id = newId, ps_workspaceId = w, ps_agentId = None, ps_key = key,
     ps_name = take 80 (if pi_name d \<noteq> [] then pi_name d else ''Imported persona''),
     ps_baseTemplate = (if or_empty (pi_baseTemplate d) \<noteq> [] then or_empty (pi_baseTemplate d) else ''executive-assistant''),
     ps_modelJson = (case pi_model d of None \<Rightarrow> \<lparr>sm_gateway = [], sm_frontier = Some [], sm_preferFrontier = Some False\<rparr>
       | Some m \<Rightarrow> \<lparr>sm_gateway = sm_gateway m, sm_frontier = Some (or_empty (sm_frontier m)), sm_preferFrontier = Some (or_default (sm_preferFrontier m) False)\<rparr>),
     ps_toolsJson = known_tools (or_default (pi_tools d) []), ps_maxSteps = clamp 1 50 (or_default (pi_maxSteps d) 18),
     ps_temperature = clamp 0 100 (round_hundredths (or_default (pi_temperature d) (3, 1))), ps_enabled = True, ps_isTemplate = False,
     ps_createdBy = u, ps_createdAt = now\<rparr>"

definition importPersona :: "crypto_env \<Rightarrow> ms \<Rightarrow> (nat \<Rightarrow> uuid) \<Rightarrow> (nat \<Rightarrow> uuid) \<Rightarrow> (nat \<Rightarrow> string \<times> string) \<Rightarrow> uuid \<Rightarrow> PersonaImport \<Rightarrow> string \<Rightarrow> (db, uuid) act" where
  "importPersona E now ids sids ivs w d u = act_bind (uniqueKey now w (persona_slug (pi_name d))) (\<lambda>key.
     act_bind (insert_persona (import_row now (ids 0) w u key d)) (\<lambda>row.
     act_bind (write_layers E now ids ivs w (ps_id row) u
        (filter (\<lambda>(layer, content). 1 \<le> layer \<and> layer \<le> 4 \<and> content \<noteq> []) (or_default (pi_layers d) []))) (\<lambda>_.
     act_bind (write_skills sids w (ps_id row) (or_default (pi_skills d) [])) (\<lambda>_.
     act_bind (appendAudit E now (audit_input w (Some u) ''persona_imported'' (Some (ps_id row)))) (\<lambda>_.
     act_return (ps_id row))))))"

subsection \<open>Who may configure a persona\<close>

text \<open>Whoever may configure a persona reaches it in the workspace: the answer is yes exactly for a persona of the workspace (never for one of
  another tenant) and a caller whose role manages the workspace, or an internal one who holds a grant there for this persona or for all.
  Asking changes nothing.\<close>

theorem config_right_delegated:
  "canConfigurePersona w u role p s = (Inr (is_uuid p \<and> persona_of s w p \<and> (can role ManageWorkspace \<or> isInternalRole role
      \<and> (\<exists>g\<in>set (agentConfigGrants s). gt_workspaceId g = w \<and> gt_granteeSub g = u \<and> (gt_personaId g = None \<or> gt_personaId g = Some p)))), s)"
proof -
  have "persona_at s w p = None \<longleftrightarrow> \<not> persona_of s w p" by (auto simp: persona_at_def persona_of_def first_where_None_iff)
  moreover have "covering_grant s w u p = None \<longleftrightarrow> \<not> (\<exists>g\<in>set (agentConfigGrants s). gt_workspaceId g = w \<and> gt_granteeSub g = u
      \<and> (gt_personaId g = None \<or> gt_personaId g = Some p))" by (auto simp: covering_grant_def first_where_None_iff)
  ultimately show ?thesis by (auto simp: canConfigurePersona_def personaInWorkspace_def act_bind_def act_get_def act_return_def)
qed

subsection \<open>Deleting a persona that is in use\<close>

text \<open>Deleting a persona that still has a resource, a configuration grant, a chat thread, a tool call, an approval or a note fails, and fails half way: the
  persona stays, but its prompt layers and skills are already gone.\<close>

theorem delete_persona_in_use_strips_it:
  assumes "persona_at s w p = Some r" and "\<not> ps_isTemplate r"
    and "p \<in> rs_personaId ` set (agentResources s) \<or> Some p \<in> gt_personaId ` set (agentConfigGrants s)
       \<or> Some p \<in> th_personaId ` set (agentThreads s) \<or> Some p \<in> tc_personaId ` set (agentToolCalls s)
       \<or> Some p \<in> ap_personaId ` set (agentApprovals s) \<or> Some p \<in> no_personaId ` set (crmNotes s)"
  shows "deletePersona E now w p u s = (Inl (DbError ''foreign key violation''),
    s\<lparr>agentPrompts := filter (\<lambda>x. \<not> (pp_workspaceId x = w \<and> pp_personaId x = p)) (agentPrompts s),
      agentSkills := filter (\<lambda>x. \<not> (sk_workspaceId x = w \<and> sk_personaId x = p)) (agentSkills s)\<rparr>)"
proof -
  let ?t = "s\<lparr>agentPrompts := filter (\<lambda>x. \<not> (pp_workspaceId x = w \<and> pp_personaId x = p)) (agentPrompts s),
      agentSkills := filter (\<lambda>x. \<not> (sk_workspaceId x = w \<and> sk_personaId x = p)) (agentSkills s)\<rparr>"
  have drop: "agentSkills_update (filter Q) (agentPrompts_update (filter P) s)
      = s\<lparr>agentPrompts := filter P (agentPrompts s), agentSkills := filter Q (agentSkills s)\<rparr>" for P Q by simp
  have "r \<in> set (agentPersonas s)" "ps_workspaceId r = w" "ps_id r = p" using assms(1) by (auto simp: persona_at_def dest: first_where_SomeD)
  moreover have "persona_referenced ?t p" using assms(3) by (auto simp: persona_referenced_def)
  ultimately have "persona_delete (\<lambda>x. ps_workspaceId x = w \<and> ps_id x = p) ?t = (Inl (DbError ''foreign key violation''), ?t)"
    by (auto simp: persona_delete_def restrict_delete_def)
  then show ?thesis using assms(1,2) by (simp add: deletePersona_def tbl_delete_def act_bind_def act_get_def drop)
qed

definition demo_persona :: persona_row where
  "demo_persona = \<lparr>ps_id = ''p1'', ps_workspaceId = ''w1'', ps_agentId = None, ps_key = ''helper'', ps_name = ''Helper'',
     ps_baseTemplate = ''executive-assistant'', ps_modelJson = \<lparr>sm_gateway = [], sm_frontier = None, sm_preferFrontier = None\<rparr>, ps_toolsJson = [''crm.read''],
     ps_maxSteps = 8, ps_temperature = 30, ps_enabled = True, ps_isTemplate = False, ps_createdBy = ''alice'', ps_createdAt = 0\<rparr>"

definition demo_staffed :: db where
  "demo_staffed = demo_db\<lparr>agentPersonas := [demo_persona],
     agentConfigGrants := [\<lparr>gt_id = ''g1'', gt_workspaceId = ''w1'', gt_granteeSub = ''bob'', gt_personaId = Some ''p1'', gt_grantedBySub = ''alice'', gt_createdAt = 0\<rparr>],
     agentSkills := map (\<lambda>k. \<lparr>sk_id = k, sk_workspaceId = ''w1'', sk_personaId = ''p1'', sk_skillKey = k, sk_enabled = False\<rparr>) ALL_SKILL_KEYS\<rparr>"

lemma demo_staffed_at: "persona_at demo_staffed ''w1'' ''p1'' = Some demo_persona"
  by (simp add: persona_at_def demo_staffed_def demo_persona_def)

theorem delete_persona_in_use_strips_it_witness:
  "\<exists>s'. deletePersona demo_env 0 ''w1'' ''p1'' ''alice'' demo_staffed = (Inl (DbError ''foreign key violation''), s')
     \<and> agentPersonas s' = [demo_persona] \<and> agentSkills s' = []"
proof -
  have "\<not> ps_isTemplate demo_persona" "Some ''p1'' \<in> gt_personaId ` set (agentConfigGrants demo_staffed)" by (simp_all add: demo_persona_def demo_staffed_def)
  moreover have "filter (\<lambda>x. \<not> (sk_workspaceId x = ''w1'' \<and> sk_personaId x = ''p1'')) (agentSkills demo_staffed) = []"
    by (simp add: demo_staffed_def filter_empty_conv)
  moreover have "agentPersonas demo_staffed = [demo_persona]" by (simp add: demo_staffed_def)
  ultimately show ?thesis using delete_persona_in_use_strips_it [OF demo_staffed_at, of demo_env 0 "''alice''"] by simp
qed

subsection \<open>Skills\<close>

text \<open>Switching every skill of a persona off does not switch them off: the editor then shows all of them as disabled, while the persona that runs has
  the skills of its template again.\<close>

theorem all_skills_off_restores_defaults:
  assumes "persona_at s w p = Some r" and "DEFAULT_PERSONAS (ps_baseTemplate r) = Own t"
    and "stored_skills s w p = map (\<lambda>k. (k, False)) ALL_SKILL_KEYS"
  shows "(\<exists>cfg. getPersonaConfig E w p s = (Inr (Some cfg), s) \<and> list_all (\<lambda>(k, fragment, on). \<not> on) (pf_skills cfg) \<and> map fst (pf_skills cfg) = ALL_SKILL_KEYS)
     \<and> (\<exists>rp. resolvePersona E w p s = (Inr (Some rp), s) \<and> rp_skills rp = pt_skills t)"
proof -
  have id: "ps_id r = p" using assms(1) by (auto simp: persona_at_def dest: first_where_SomeD)
  have state: "skill_state (map (\<lambda>k. (k, False)) ALL_SKILL_KEYS) base k = Inr False" if known: "k \<in> fst ` set SKILL_FRAGMENTS" for base k
  proof -
    obtain b where b: "map_of (rev (map (\<lambda>k. (k, False)) ALL_SKILL_KEYS)) k = Some b"
      using known by (cases "map_of (rev (map (\<lambda>k. (k, False)) ALL_SKILL_KEYS)) k") (auto simp: map_of_eq_None_iff ALL_SKILL_KEYS_def image_image)
    with map_of_SomeD [OF b] show ?thesis by (auto simp: skill_state_def)
  qed
  have "skill_toggles (map (\<lambda>k. (k, False)) ALL_SKILL_KEYS) base ks = Inr (map (\<lambda>(k, f). (k, f, False)) ks)" if "set ks \<subseteq> set SKILL_FRAGMENTS" for base ks
    using that
  proof (induction ks)
    case (Cons kf ks)
    obtain k f where [simp]: "kf = (k, f)" by fastforce
    have "k \<in> fst ` set SKILL_FRAGMENTS" using Cons.prems by force
    from state [OF this] Cons show ?case by simp
  qed simp
  note toggles = this [OF subset_refl]
  have "filter snd (map (\<lambda>k. (k, False)) ALL_SKILL_KEYS) = []" by (simp add: filter_empty_conv)
  then have "rp_skills (resolved E s w r rs) = pt_skills t" for rs
    unfolding resolved_def Let_def id assms(3) by (simp add: template_field_def assms(2))
  moreover obtain cfg where "persona_config E s w r = Inr cfg" "pf_skills cfg = map (\<lambda>(k, f). (k, f, False)) SKILL_FRAGMENTS"
    by (simp add: persona_config_def id assms(3) toggles)
  ultimately show ?thesis
    by (auto simp: getPersonaConfig_def resolvePersona_def assms(1) resolvePersonaResources_def listResources_def act_return_def act_get_def act_bind_def
        list_all_iff ALL_SKILL_KEYS_def comp_def case_prod_unfold)
qed

theorem all_skills_off_restores_defaults_witness:
  "\<exists>rp. resolvePersona demo_env ''w1'' ''p1'' demo_staffed = (Inr (Some rp), demo_staffed) \<and> rp_skills rp = pt_skills executive_assistant"
proof -
  have "stored_skills demo_staffed ''w1'' ''p1'' = map (\<lambda>k. (k, False)) ALL_SKILL_KEYS"
    by (simp add: stored_skills_def rows_where_def demo_staffed_def filter_map comp_def)
  moreover have "DEFAULT_PERSONAS (ps_baseTemplate demo_persona) = Own executive_assistant"
    by (simp add: demo_persona_def DEFAULT_PERSONAS_def obj_at_def DEFAULT_PERSONA_LIST_def executive_assistant_def)
  ultimately show ?thesis using all_skills_off_restores_defaults [OF demo_staffed_at, where E = demo_env] by blast
qed

subsection \<open>Importing a persona\<close>

definition skills_of_personas :: "db \<Rightarrow> bool" where
  "skills_of_personas s \<longleftrightarrow> sk_personaId ` set (agentSkills s) \<subseteq> ps_id ` set (agentPersonas s)"

lemma frames_write_layers: "frames (\<lambda>s. (agentPersonas s, agentSkills s)) (write_layers E now ids ivs w p u layers)"
  unfolding write_layers_def setPromptLayer_def assertPersonaInWorkspace_def personaInWorkspace_def upsert_prompt_def insert_prompt_def Let_def case_prod_unfold
  by (intro frame_intros frames_tbl_insert frames_tbl_update frames_tbl_delete; simp)

text \<open>A persona can be imported with the base template \<^verbatim>\<open>constructor\<close>: the import succeeds like any other, and from then on the editor of the
  persona always raises, because the template is looked up on a plain object and the inherited property has no skills.\<close>

theorem inherited_template_breaks_editor:
  assumes "importPersona E now ids sids ivs w d u s = (Inr p, s')" and "pi_baseTemplate d = Some ''constructor''" and "pi_skills d = None"
    and "skills_of_personas s"
  shows "getPersonaConfig E w p s' = (Inl (JsError ''Cannot read properties of undefined (reading 'includes')''), s')
     \<and> persona_at s' w p \<noteq> None"
proof -
  obtain key row s1 s2 where row: "insert_persona (import_row now (ids 0) w u key d) s = (Inr row, s1)"
    and layers: "write_layers E now ids ivs w (ps_id row) u
        (filter (\<lambda>(layer, content). 1 \<le> layer \<and> layer \<le> 4 \<and> content \<noteq> []) (or_default (pi_layers d) [])) s1 = (Inr (), s2)"
    and last: "snd (appendAudit E now (audit_input w (Some u) ''persona_imported'' (Some (ps_id row))) s2) = s'" and p: "p = ps_id row"
    using assms(1,3) by (auto simp: importPersona_def uniqueKey_def write_skills_def or_default_def act_get_def act_return_def elim!: act_bind_InrE)
  have new: "row = import_row now (ids 0) w u key d" "\<not> has_persona s (ids 0)" "agentPersonas s1 = agentPersonas s @ [row]" "agentSkills s1 = agentSkills s"
    using row by (auto simp: insert_persona_def tbl_insert_def import_row_def split: if_splits)
  have "frames (\<lambda>s. (agentPersonas s, agentSkills s)) (appendAudit E now i)" for i by (rule frames_appendAudit) simp_all
  from frames_snd [OF this] framesD [OF frames_write_layers layers] last
  have tabs: "agentPersonas s' = agentPersonas s @ [row]" "agentSkills s' = agentSkills s" by (auto simp: new(3,4))
  have fields: "ps_id row = ids 0" "ps_workspaceId row = w" "ps_baseTemplate row = ''constructor''"
    by (simp_all add: new(1) import_row_def assms(2) or_empty_def)
  have found: "persona_at s' w p = Some row"
    using new(2) by (auto simp: persona_at_def tabs p fields has_persona_def first_where_append image_iff split: option.split dest!: first_where_SomeD)
  have "sk_personaId x \<noteq> ids 0" if "x \<in> set (agentSkills s)" for x
    using assms(4) new(2) that by (metis has_persona_def image_subset_iff skills_of_personas_def)
  then have "stored_skills s' w p = []" by (auto simp: stored_skills_def tabs p fields rows_where_def filter_empty_conv)
  then have "persona_config E s' w row = Inl (JsError ''Cannot read properties of undefined (reading 'includes')'')"
    by (simp add: persona_config_def p fields SKILL_FRAGMENTS_def skill_state_def DEFAULT_PERSONAS_def obj_at_def DEFAULT_PERSONA_LIST_def OBJECT_PROTOTYPE_def
        executive_assistant_def marketing_growth_engineer_def data_scientist_notetaker_def calendar_coordinator_def)
  with found show ?thesis by (simp add: getPersonaConfig_def act_throw_def)
qed

definition demo_import :: PersonaImport where
  "demo_import = \<lparr>pi_name = ''Odd'', pi_baseTemplate = Some ''constructor'', pi_model = None, pi_tools = None, pi_maxSteps = None, pi_temperature = None,
     pi_layers = None, pi_skills = None\<rparr>"

theorem inherited_template_breaks_editor_witness:
  "\<exists>s'. importPersona demo_env 0 (\<lambda>_. ''p1'') (\<lambda>_. ''k'') (\<lambda>_. (''iv'', ''iv'')) ''w1'' demo_import ''alice'' demo_db = (Inr ''p1'', s')
     \<and> fst (getPersonaConfig demo_env ''w1'' ''p1'' s') = Inl (JsError ''Cannot read properties of undefined (reading 'includes')'')"
proof -
  let ?row = "import_row 0 ''p1'' ''w1'' ''alice'' (persona_slug ''Odd'') demo_import" and ?i = "audit_input ''w1'' (Some ''alice'') ''persona_imported'' (Some ''p1'')"
  let ?s = "demo_db\<lparr>agentPersonas := [?row]\<rparr>"
  have "has_workspace ?s (ai_workspaceId ?i)" by (simp add: has_workspace_def demo_db_def demo_workspace_def audit_input_def)
  from appendAudit_ok [OF provisioned_demo this] obtain r s' where audit: "appendAudit demo_env 0 ?i ?s = (Inr r, s')" by blast
  have "insert_persona ?row demo_db = (Inr ?row, ?s)"
    by (simp add: insert_persona_def tbl_insert_def demo_db_def empty_db_def has_persona_def has_workspace_def demo_workspace_def import_row_def null_or_def)
  moreover have "ps_key ` set (rows_where (\<lambda>r. ps_workspaceId r = ''w1'') (agentPersonas demo_db)) = {}" by (simp add: rows_where_def demo_db_def empty_db_def)
  moreover have "ps_id ?row = ''p1''" "pi_name demo_import = ''Odd''" "pi_layers demo_import = None" "pi_skills demo_import = None"
    by (simp_all add: import_row_def demo_import_def)
  ultimately have run: "importPersona demo_env 0 (\<lambda>_. ''p1'') (\<lambda>_. ''k'') (\<lambda>_. (''iv'', ''iv'')) ''w1'' demo_import ''alice'' demo_db = (Inr ''p1'', s')"
    using audit by (simp add: importPersona_def uniqueKey_def Let_def act_bind_def act_get_def act_return_def write_layers_def write_skills_def or_default_def)
  have "pi_baseTemplate demo_import = Some ''constructor''" "pi_skills demo_import = None" "skills_of_personas demo_db"
    by (simp_all add: demo_import_def skills_of_personas_def demo_db_def empty_db_def)
  from inherited_template_breaks_editor [OF run this] run show ?thesis by simp
qed

end
