(* ===== verification/Agents.thy ===== *)
theory Agents
  imports Documents Projects
begin

text \<open>
  Agents as members (\<^verbatim>\<open>lib/domain/agents.ts\<close>) and the conversations with them (\<^verbatim>\<open>lib/domain/agent-threads.ts\<close>): a thread belongs to the person who
  opened it, its messages are encrypted and numbered. The theorem states that a turn never lands in somebody else's conversation.
\<close>

subsection \<open>Tables\<close>

definition insert_agent :: "agent_row \<Rightarrow> (db, agent_row) act" where
  "insert_agent r = tbl_insert (\<lambda>s. ag_id r \<notin> ag_id ` set (agents s) \<and> has_workspace s (ag_workspaceId r)) agents_update r"

definition insert_thread :: "agent_thread_row \<Rightarrow> (db, agent_thread_row) act" where
  "insert_thread r = tbl_insert (\<lambda>s. th_id r \<notin> th_id ` set (agentThreads s) \<and> has_workspace s (th_workspaceId r)
     \<and> null_or (\<lambda>i. i \<in> ag_id ` set (agents s)) (th_agentId r) \<and> null_or (has_persona s) (th_personaId r) \<and> null_or (has_channel s) (th_channelId r)
     \<and> null_or (\<lambda>i. i \<in> dl_id ` set (deals s)) (th_dealId r) \<and> null_or (\<lambda>i. i \<in> acc_id ` set (accounts s)) (th_accountId r)) agentThreads_update r"

definition insert_agent_message :: "agent_message_row \<Rightarrow> (db, agent_message_row) act" where
  "insert_agent_message r = tbl_insert (\<lambda>s. am_id r \<notin> am_id ` set (agentMessages s) \<and> has_workspace s (am_workspaceId r)
     \<and> has_agent_thread s (am_threadId r)) agentMessages_update r"

subsection \<open>Agents\<close>

record AgentRow =
  ar_id :: uuid
  ar_memberSub :: string
  ar_name :: string
  ar_purpose :: "string option"
  ar_status :: string
  ar_enabled :: bool
  ar_sponsorSub :: "string option"

definition agent_view :: "agent_row \<Rightarrow> AgentRow" where
  "agent_view r = \<lparr>ar_id = ag_id r, ar_memberSub = ag_memberSub r, ar_name = ag_name r, ar_purpose = ag_purpose r, ar_status = ag_status r,
     ar_enabled = ag_enabled r, ar_sponsorSub = ag_sponsorSub r\<rparr>"

definition listAgents :: "uuid \<Rightarrow> (db, AgentRow list) act" where
  "listAgents w = act_get (\<lambda>s. map agent_view (rows_where (\<lambda>r. ag_workspaceId r = w) (agents s)))"

text \<open>\<open>random\<close> is \<^verbatim>\<open>randomUUID()\<close>; the member row and the agent row are two statements.\<close>

definition addAgent :: "crypto_env \<Rightarrow> ms \<Rightarrow> uuid \<Rightarrow> uuid \<Rightarrow> uuid \<Rightarrow> string \<Rightarrow> string option \<Rightarrow> string \<Rightarrow> (db, AgentRow) act" where
  "addAgent E now random newId w name purpose sponsorSub = (let memberSub = ''agent:'' @ random in
     act_bind (insert_member \<lparr>mb_workspaceId = w, mb_sub = memberSub, mb_walletAddress = None, mb_displayName = Some name, mb_email = None,
        mb_role = Agent, mb_status = ''active'', mb_kycStatus = None, mb_isAgent = True, mb_devicesCount = 0, mb_timezone = None, mb_joinedAt = now\<rparr>) (\<lambda>_.
     act_bind (insert_agent \<lparr>ag_id = newId, ag_workspaceId = w, ag_memberSub = memberSub, ag_name = js_trim name, ag_purpose = purpose, ag_kind = None,
        ag_status = ''active'', ag_sponsorSub = Some sponsorSub, ag_enabled = True, ag_createdAt = now\<rparr>) (\<lambda>row.
     act_bind (appendAudit E now (audit_input w (Some sponsorSub) ''agent_added'' (Some (ag_id row)))) (\<lambda>_. act_return (agent_view row)))))"

definition setAgentEnabled :: "crypto_env \<Rightarrow> ms \<Rightarrow> uuid \<Rightarrow> uuid \<Rightarrow> bool \<Rightarrow> string \<Rightarrow> (db, unit) act" where
  "setAgentEnabled E now w i on actorSub =
     act_bind (tbl_update agents_update (\<lambda>r. ag_workspaceId r = w \<and> ag_id r = i) (\<lambda>r. r\<lparr>ag_enabled := on, ag_status := (if on then ''active'' else ''paused'')\<rparr>)) (\<lambda>_.
     act_bind (appendAudit E now (audit_input w (Some actorSub) (if on then ''agent_resumed'' else ''agent_paused'') (Some i))) (\<lambda>_. act_return ()))"

subsection \<open>Threads\<close>

record AgentThreadRow =
  tv_id :: uuid
  tv_personaId :: "uuid option"
  tv_title :: string
  tv_channelId :: "uuid option"
  tv_dealId :: "uuid option"
  tv_invokedBySub :: string
  tv_createdAt :: ms

definition thread_view :: "agent_thread_row \<Rightarrow> AgentThreadRow" where
  "thread_view r = \<lparr>tv_id = th_id r, tv_personaId = th_personaId r, tv_title = th_title r, tv_channelId = th_channelId r, tv_dealId = th_dealId r,
     tv_invokedBySub = th_invokedBySub r, tv_createdAt = th_createdAt r\<rparr>"

record ThreadScope =
  ts_channelId :: "uuid option"
  ts_dealId :: "uuid option"
  ts_accountId :: "uuid option"

record ThreadArgs =
  tg_workspaceId :: uuid
  tg_personaId :: uuid
  tg_invokedBySub :: string
  tg_title :: string
  tg_threadId :: "uuid option"
  tg_scope :: "ThreadScope option"

definition scope_id :: "(ThreadScope \<Rightarrow> uuid option) \<Rightarrow> ThreadArgs \<Rightarrow> uuid option" where
  "scope_id f a = Option.bind (tg_scope a) f"

text \<open>A supplied id is used as the thread's id, so that a taken one makes the insert fail; every failure is \<^verbatim>\<open>null\<close>.\<close>

definition createAgentThread :: "ms \<Rightarrow> uuid \<Rightarrow> ThreadArgs \<Rightarrow> (db, uuid option) act" where
  "createAgentThread now newId a = act_try (act_bind (insert_thread \<lparr>th_id = (if truthy (tg_threadId a) then or_empty (tg_threadId a) else newId),
       th_workspaceId = tg_workspaceId a, th_agentId = None, th_personaId = Some (tg_personaId a), th_channelId = scope_id ts_channelId a,
       th_dealId = scope_id ts_dealId a, th_accountId = scope_id ts_accountId a, th_invokedBySub = tg_invokedBySub a, th_title = take 200 (tg_title a),
       th_createdAt = now\<rparr>) (\<lambda>r. act_return (Some (th_id r)))) (\<lambda>_. act_return None)"

definition owns_thread :: "db \<Rightarrow> uuid \<Rightarrow> string \<Rightarrow> uuid \<Rightarrow> bool" where
  "owns_thread s w u t \<longleftrightarrow> first_where (\<lambda>r. th_workspaceId r = w \<and> th_id r = t \<and> th_invokedBySub r = u) (agentThreads s) \<noteq> None"

definition ownsAgentThread :: "uuid \<Rightarrow> string \<Rightarrow> uuid \<Rightarrow> (db, bool) act" where
  "ownsAgentThread w u t = act_get (\<lambda>s. owns_thread s w u t)"

definition getOrCreateThread :: "ms \<Rightarrow> uuid \<Rightarrow> ThreadArgs \<Rightarrow> (db, uuid option) act" where
  "getOrCreateThread now newId a =
     act_bind (if truthy (tg_threadId a) then ownsAgentThread (tg_workspaceId a) (tg_invokedBySub a) (or_empty (tg_threadId a)) else act_return False) (\<lambda>own.
     if own then act_return (tg_threadId a) else createAgentThread now newId a)"

definition next_agent_seq :: "db \<Rightarrow> uuid \<Rightarrow> int" where
  "next_agent_seq s t = (case map am_seq (rows_where (\<lambda>m. am_threadId m = t) (agentMessages s)) of [] \<Rightarrow> 1 | n # ns \<Rightarrow> foldl max n ns + 1)"

text \<open>Best effort: whatever fails, the turn goes on.\<close>

definition appendAgentMessage :: "crypto_env \<Rightarrow> ms \<Rightarrow> uuid \<Rightarrow> string \<Rightarrow> uuid \<Rightarrow> uuid \<Rightarrow> string \<Rightarrow> string \<Rightarrow> string option \<Rightarrow> (db, unit) act" where
  "appendAgentMessage E now newId iv w t role content trace = act_try
     (act_bind (act_lift (encryptField E iv w content)) (\<lambda>enc.
      act_bind (act_get (\<lambda>s. next_agent_seq s t)) (\<lambda>n.
      act_bind (insert_agent_message \<lparr>am_id = newId, am_workspaceId = w, am_threadId = t, am_role = role, am_contentEnc = enc, am_toolTraceJson = trace,
        am_seq = n, am_createdAt = now\<rparr>) (\<lambda>_. act_return ())))) (\<lambda>_. act_return ())"

record AgentMessageRow =
  ax_id :: uuid
  ax_role :: string
  ax_content :: string
  ax_toolTrace :: "string option"
  ax_seq :: int
  ax_createdAt :: ms

definition listThreadMessages :: "crypto_env \<Rightarrow> uuid \<Rightarrow> uuid \<Rightarrow> (db, AgentMessageRow list) act" where
  "listThreadMessages E w t = act_get (\<lambda>s. map (\<lambda>m. \<lparr>ax_id = am_id m, ax_role = am_role m, ax_content = safeDecrypt E w (am_contentEnc m),
       ax_toolTrace = am_toolTraceJson m, ax_seq = am_seq m, ax_createdAt = am_createdAt m\<rparr>)
     (sort_key am_seq (rows_where (\<lambda>m. am_workspaceId m = w \<and> am_threadId m = t) (agentMessages s))))"

definition newest_threads :: "(agent_thread_row \<Rightarrow> bool) \<Rightarrow> nat \<Rightarrow> db \<Rightarrow> agent_thread_row list" where
  "newest_threads P n s = take n (rev (sort_key th_createdAt (rows_where P (agentThreads s))))"

definition listAgentThreads :: "uuid \<Rightarrow> string \<Rightarrow> uuid option \<Rightarrow> nat option \<Rightarrow> (db, AgentThreadRow list) act" where
  "listAgentThreads w u persona n = act_get (\<lambda>s. map thread_view (newest_threads (\<lambda>r. th_workspaceId r = w \<and> th_invokedBySub r = u
     \<and> (truthy persona \<longrightarrow> th_personaId r = persona)) (or_default n 30) s))"

record WorkspaceThreadRow =
  wr_thread :: AgentThreadRow
  wr_personaName :: "string option"
  wr_invokedByName :: "string option"

record DirectoryOpts =
  do_viewAll :: bool
  do_personaId :: "uuid option"
  do_invokedBySub :: "string option"
  do_limit :: "nat option"

text \<open>Without \<open>viewAll\<close> only the viewer's own threads.\<close>

definition directory_scope :: "uuid \<Rightarrow> string \<Rightarrow> DirectoryOpts \<Rightarrow> agent_thread_row \<Rightarrow> bool" where
  "directory_scope w viewer q r \<longleftrightarrow> th_workspaceId r = w
     \<and> (if \<not> do_viewAll q then th_invokedBySub r = viewer else truthy (do_invokedBySub q) \<longrightarrow> Some (th_invokedBySub r) = do_invokedBySub q)
     \<and> (truthy (do_personaId q) \<longrightarrow> th_personaId r = do_personaId q)"

definition listWorkspaceThreads :: "uuid \<Rightarrow> string \<Rightarrow> DirectoryOpts \<Rightarrow> (db, WorkspaceThreadRow list) act" where
  "listWorkspaceThreads w viewer q = act_get (\<lambda>s. map (\<lambda>r. \<lparr>wr_thread = thread_view r,
       wr_personaName = map_option ps_name (first_where (\<lambda>p. Some (ps_id p) = th_personaId r) (agentPersonas s)),
       wr_invokedByName = Option.bind (member_at s w (th_invokedBySub r)) mb_displayName\<rparr>)
     (newest_threads (directory_scope w viewer q) (min (or_default (do_limit q) 100) 200) s))"

definition threadInWorkspace :: "uuid \<Rightarrow> uuid \<Rightarrow> (db, bool) act" where
  "threadInWorkspace w t = act_get (\<lambda>s. first_where (\<lambda>r. th_workspaceId r = w \<and> th_id r = t) (agentThreads s) \<noteq> None)"

subsection \<open>Conversations stay apart\<close>

lemma getOrCreateThread_run:
  assumes "getOrCreateThread now newId a s = (x, s')"
  shows "\<exists>t. x = Inr t \<and> agentMessages s' = agentMessages s \<and> (t = None \<or> owns_thread s' (tg_workspaceId a) (tg_invokedBySub a) (the t))
    \<and> (\<exists>new. agentThreads s' = agentThreads s @ new \<and> distinct (map th_id (agentThreads s)) = distinct (map th_id (agentThreads s')))"
proof (cases "truthy (tg_threadId a) \<and> owns_thread s (tg_workspaceId a) (tg_invokedBySub a) (or_empty (tg_threadId a))")
  case True
  then have "x = Inr (tg_threadId a)" "s' = s" using assms by (auto simp: getOrCreateThread_def ownsAgentThread_def act_defs)
  with True show ?thesis by (auto simp: truthy_def or_empty_def split: option.splits)
next
  case False
  then have "createAgentThread now newId a s = (x, s')"
    using assms by (auto simp: getOrCreateThread_def ownsAgentThread_def act_bind_def act_get_def act_return_def split: if_splits)
  then show ?thesis
    by (auto simp: createAgentThread_def insert_thread_def tbl_insert_def act_defs owns_thread_def first_where_append split: if_splits option.splits)
qed

lemma appendAgentMessage_run:
  assumes "appendAgentMessage E now newId iv w t role content trace s = (x, s')"
  shows "x = Inr () \<and> agentThreads s' = agentThreads s \<and> (\<exists>new. agentMessages s' = agentMessages s @ new \<and> (\<forall>m\<in>set new. am_threadId m = t))"
  using assms
  by (auto simp: appendAgentMessage_def insert_agent_message_def tbl_insert_def act_defs split: sum.splits if_splits)

text \<open>One turn: the thread is continued or opened, and the message stored in it.\<close>

definition agent_turn :: "crypto_env \<Rightarrow> ms \<Rightarrow> uuid \<Rightarrow> uuid \<Rightarrow> string \<Rightarrow> ThreadArgs \<Rightarrow> string \<Rightarrow> (db, uuid option) act" where
  "agent_turn E now newId mid iv a content = act_bind (getOrCreateThread now newId a) (\<lambda>t. case t of None \<Rightarrow> act_return None
     | Some i \<Rightarrow> act_bind (appendAgentMessage E now mid iv (tg_workspaceId a) i ''user'' content None) (\<lambda>_. act_return (Some i)))"

text \<open>C29. Whatever thread id a person sends along, their turn never adds to a conversation that somebody else opened, in any workspace; the turn itself
  always returns.\<close>

theorem agent_turn_keeps_others_private:
  assumes ids: "distinct (map th_id (agentThreads s))" and r: "r \<in> set (agentThreads s)" "th_invokedBySub r \<noteq> tg_invokedBySub a"
    and run: "agent_turn E now newId mid iv a content s = (x, s')"
  shows "rows_where (\<lambda>m. am_threadId m = th_id r) (agentMessages s') = rows_where (\<lambda>m. am_threadId m = th_id r) (agentMessages s)
    \<and> r \<in> set (agentThreads s') \<and> (\<exists>t. x = Inr t)"
proof -
  obtain x1 s1 where g: "getOrCreateThread now newId a s = (x1, s1)" by fastforce
  obtain t new where t: "x1 = Inr t" "agentMessages s1 = agentMessages s" "t = None \<or> owns_thread s1 (tg_workspaceId a) (tg_invokedBySub a) (the t)"
      "agentThreads s1 = agentThreads s @ new" "distinct (map th_id (agentThreads s1))"
    using getOrCreateThread_run [OF g] ids by auto
  show ?thesis
  proof (cases t)
    case None
    then show ?thesis using run g t r by (auto simp: agent_turn_def act_defs)
  next
    case (Some i)
    obtain x2 s2 where m: "appendAgentMessage E now mid iv (tg_workspaceId a) i ''user'' content None s1 = (x2, s2)" by fastforce
    note m' = appendAgentMessage_run [OF m]
    have x: "x = Inr (Some i)" "s' = s2" using run g t(1) Some m m' by (auto simp: agent_turn_def act_defs)
    have "th_id r \<noteq> i"
    proof
      assume i: "th_id r = i"
      obtain q where "q \<in> set (agentThreads s1)" "th_id q = i" "th_invokedBySub q = tg_invokedBySub a"
        using t(3) Some by (auto simp: owns_thread_def dest: first_where_SomeD)
      moreover have "r \<in> set (agentThreads s1)" using r(1) t(4) by simp
      ultimately have "q = r" using t(5) i by (simp add: distinct_map inj_on_def)
      then show False using \<open>th_invokedBySub q = _\<close> r(2) by simp
    qed
    then show ?thesis using m' x t(2,4) r(1) by (auto simp: rows_where_def filter_empty_conv)
  qed
qed

definition demo_thread :: agent_thread_row where
  "demo_thread = \<lparr>th_id = ''t1'', th_workspaceId = ''w1'', th_agentId = None, th_personaId = None, th_channelId = None, th_dealId = None, th_accountId = None,
     th_invokedBySub = ''alice'', th_title = ''Plans'', th_createdAt = 0\<rparr>"

definition demo_threads :: db where
  "demo_threads = demo_db\<lparr>agentThreads := [demo_thread]\<rparr>"

theorem agent_turn_keeps_others_private_witness:
  "\<exists>t s'. agent_turn demo_env 5 ''t2'' ''m1'' ''iv'' \<lparr>tg_workspaceId = ''w1'', tg_personaId = ''p1'', tg_invokedBySub = ''bob'', tg_title = ''x'',
       tg_threadId = Some ''t1'', tg_scope = None\<rparr> ''hello'' demo_threads = (Inr t, s')
     \<and> rows_where (\<lambda>m. am_threadId m = ''t1'') (agentMessages s') = []"
proof -
  let ?a = "\<lparr>tg_workspaceId = ''w1'', tg_personaId = ''p1'', tg_invokedBySub = ''bob'', tg_title = ''x'', tg_threadId = Some ''t1'', tg_scope = None\<rparr>"
  obtain x s' where run: "agent_turn demo_env 5 ''t2'' ''m1'' ''iv'' ?a ''hello'' demo_threads = (x, s')" by fastforce
  have "rows_where (\<lambda>m. am_threadId m = ''t1'') (agentMessages demo_threads) = []"
    by (simp add: demo_threads_def demo_db_def empty_db_def rows_where_def)
  then show ?thesis
    using agent_turn_keeps_others_private [OF _ _ _ run, of demo_thread] run by (auto simp: demo_threads_def demo_thread_def)
qed

end
