(* ===== verification/Ownership.thy ===== *)
theory Ownership
  imports Actions Agent_Tools Personas Agents
begin

text \<open>
  The owners of a workspace over everything the web tier can do to the database: the modelled requests, the approval of agent actions with the real
  executor, and the operations that the remaining writing routes, pages and jobs call (agents, personas, grants, conversations, agent tools and channel
  replies, uploads and imports, the cron jobs, unsubscribing), each with whatever arguments.
\<close>

subsection \<open>The operations of the other routes\<close>

lemma rolls_apart:
  assumes "frames apart_from_work m"
  shows "frames rolls m"
proof -
  have "rolls (apart_from_work s) = rolls s" for s by (simp add: rolls_def apart_from_work_def)
  then show ?thesis using frames_through [OF assms, of rolls] by simp
qed

lemma rolls_agents [frame_intros]:
  "frames rolls (setAgentEnabled E now w i on u)" "frames rolls (getOrCreateThread now n a)"
  "frames rolls (appendAgentMessage E now n iv w t role content trace)"
  unfolding setAgentEnabled_def getOrCreateThread_def createAgentThread_def ownsAgentThread_def appendAgentMessage_def insert_thread_def
    insert_agent_message_def
  by (intro frame_intros rolls_rules; simp add: rolls_def)+

lemma rolls_persona_scope [frame_intros]: "frames f (assertPersonaInWorkspace w p)" "frames f (getPersonaConfig E w p)" "frames f (uniqueKey now w b)"
  unfolding assertPersonaInWorkspace_def personaInWorkspace_def getPersonaConfig_def uniqueKey_def by (intro frame_intros)+

lemma rolls_persona_writes [frame_intros]:
  "frames rolls (setPromptLayer E now n ivs w p layer content u)" "frames rolls (setSkillEnabled n w p k on)" "frames rolls (insert_persona r)"
  unfolding setPromptLayer_def setSkillEnabled_def insert_persona_def upsert_prompt_def insert_prompt_def insert_skill_def Let_def
  by (intro frame_intros rolls_rules; simp add: rolls_def)+

lemma rolls_persona_delete [frame_intros]: "frames rolls (persona_delete P)"
  by (simp add: frames_def persona_delete_def restrict_delete_def tbl_delete_def rolls_def)

lemma rolls_seed_template: "frames rolls (seed_template now ids w u t)" "frames rolls (sync_template w d)"
proof -
  have "frames rolls (skill_unless_there r)" for r
    unfolding frames_def skill_unless_there_def insert_skill_def by (simp add: tbl_insert_def rolls_def)
  then show "frames rolls (seed_template now ids w u t)" unfolding seed_template_def by (intro frame_intros)
  show "frames rolls (sync_template w d)" unfolding sync_template_def by (intro rolls_rules) (simp add: rolls_def)
qed

lemma rolls_personas [frame_intros]:
  "frames rolls (seedDefaultPersonas E now sids w u)" "frames rolls (updatePersona E now w p patch u)" "frames rolls (deletePersona E now w p u)"
  "frames rolls (clonePersona E now ids ids2 ivs w src nm u)" "frames rolls (importPersona E now ids ids2 ivs w d u)"
  "frames rolls (addResource E now n iv w p ri u)" "frames rolls (setResourceEnabled E now w p i on u)" "frames rolls (deleteResource E now w p i u)"
  "frames rolls (grantConfig E now n w g q u)" "frames rolls (revokeConfig E now w i u)"
  unfolding seedDefaultPersonas_def updatePersona_def deletePersona_def clonePersona_def importPersona_def addResource_def resource_payload_def
    setResourceEnabled_def deleteResource_def grantConfig_def revokeConfig_def write_layers_def write_skills_def insert_resource_def insert_grant_def Let_def
  by (intro frame_intros rolls_rules rolls_seed_template; simp add: rolls_def)+

lemma rolls_seed_fields [frame_intros]: "frames rolls (seedDefaultCrmFields now ids w u)"
proof -
  have "frames rolls (field_def_unless_defined r)" for r
    unfolding frames_def field_def_unless_defined_def work_insert_defs by (simp add: act_defs tbl_insert_def rolls_def)
  then have "frames rolls (seed_from now ids w u present n ds)" for present n ds
    by (induction ds arbitrary: n) (auto simp: case_prod_beta intro!: frame_intros)
  then show ?thesis unfolding seedDefaultCrmFields_def by (intro frame_intros)
qed

lemma rolls_chunks [frame_intros]: "frames rolls (insert_chunks rs)"
proof (induction rs rule: insert_chunks.induct)
  case (1 rs)
  have "frames rolls (insert_import_row r)" for r unfolding insert_import_row_def by (rule frames_tbl_insert) (simp add: rolls_def)
  then show ?case using 1 by (subst insert_chunks.simps) (auto intro!: frame_intros)
qed

lemma rolls_tables [frame_intros]:
  "frames rolls (ingestTable I now td w doc fn mime u sheets)" "frames rolls (stageExtracted I now td w recs src doc u least)"
  "frames rolls (saveMapping now n w i spec u ok)"
  unfolding ingestTable_def store_sheet_def stageExtracted_def saveMapping_def insert_import_batch_def insert_import_sheet_def insert_import_column_def
    insert_import_mapping_def set_batch_ready_def Let_def
  by (intro frame_intros rolls_rules; simp add: rolls_def)+

lemma rolls_imports [frame_intros]:
  "frames rolls (approveMapping now w m)" "frames rolls (createImportJob now n w i m u least)" "frames rolls (runImportSlice I C dr now w j k)"
  "frames rolls (flushHeldRows I C dr now w j k)" "frames rolls (dedupeWorkspaceCrm E now w op)"
  by (intro rolls_apart frame_intros)+

lemma rolls_reminders [frame_intros]: "frames rolls (runDueReminders C now nid lim)"
proof -
  have "frames rolls (deliver C now n r)" for n r
    unfolding deliver_def getEvent_def insert_notification_def by (intro frame_intros rolls_rules; simp add: rolls_def)
  then have "frames rolls (deliver_all C now nid k rs)" for k rs
    by (induction rs arbitrary: k) (auto simp: case_prod_beta intro!: frame_intros)
  then show ?thesis unfolding runDueReminders_def by (intro frame_intros)
qed

lemma rolls_unsubscribe [frame_intros]: "frames rolls (unsubscribe_POST E now t body)"
  unfolding unsubscribe_POST_def doUnsubscribe_def suppress_def Let_def by (intro frame_intros rolls_rules; simp add: rolls_def)

subsection \<open>Agent tools\<close>

lemma rolls_log [frame_intros]: "frames rolls (logToolCall A now n x t j r st)" "frames rolls (finishToolCall A q h)"
proof -
  have "rolls (apart_from_log s) = rolls s" for s by (simp add: rolls_def apart_from_log_def)
  then show "frames rolls (logToolCall A now n x t j r st)" "frames rolls (finishToolCall A q h)"
    using frames_through [OF log_frames(1), of rolls A now n x t j r st] frames_through [OF log_frames(2), of rolls A q h] by simp_all
qed

lemma rolls_enqueue [frame_intros]: "frames rolls (enqueueApproval A now n f q iv a)"
  unfolding enqueueApproval_def fallbackToolCall_def insert_tool_call_def insert_approval_def Let_def
  by (intro frame_intros rolls_rules; simp add: rolls_def)

lemma rolls_ingests [frame_intros]:
  "frames rolls (ingestText I C A now gd a)" "frames rolls (Ingest.ingestDocument D I C A now gd w doc u v hint)"
  unfolding ingestText_def Ingest.ingestDocument_def threshold_def getSettings_def queue_review_def getDocumentText_def Let_def by (intro frame_intros)+

lemma rolls_queue [frame_intros]: "frames rolls (propose V now dr k c t a)" "frames rolls (queue_fields V now dr k c e i fs)" "frames f (assertPropose c t)"
  "frames rolls (queue_action V now dr c t a m)"
proof -
  show p: "frames rolls (propose V now dr k c t a)" for k t a unfolding propose_def by (intro frame_intros)
  show "frames rolls (queue_fields V now dr k c e i fs)" by (induction fs arbitrary: k) (simp_all, (intro frame_intros p)+)
  show "frames f (assertPropose c t)" unfolding assertPropose_def by (intro frame_intros)
  show "frames rolls (queue_action V now dr c t a m)" unfolding queue_action_def by (intro frame_intros p)
qed

lemma rolls_ensureMapping [frame_intros]: "frames rolls (ensureMapping now n w i u)"
  unfolding ensureMapping_def getMapping_def Let_def by (intro frame_intros)

lemma frames_preview [frame_intros]: "frames f (previewImport I w i spec n)"
  unfolding previewImport_def by (intro frame_intros)

lemma rolls_tools [frame_intros]:
  "frames rolls (crm_create V now dr c e name dm ti v ac fs)" "frames rolls (crm_dedupe V now dr c)" "frames rolls (crm_write V now dr c e i cols fs)"
  "frames rolls (tables_map now dr c sh m)" "frames rolls (crm_import V now dr c sh)" "frames rolls (crm_ingest V now dr c doc t hint)"
  "frames rolls (calendar_schedule V now dr c heading k st en tz loc des att chan)" "frames rolls (proposing V now dr c tool a msg)"
  "frames rolls (pin_summary V now dr c room days)"
proof -
  show "frames rolls (pin_summary V now dr c room days)" by (rule pin_writes) (simp add: rolls_def)
qed (unfold crm_create_def crm_dedupe_def crm_write_def tables_map_def crm_import_def crm_ingest_def calendar_schedule_def proposing_def Let_def,
  (intro frame_intros)+)

lemma rolls_audited: "frames rolls run \<Longrightarrow> frames rolls (Agent_Tools.audited V now dr c call run)"
  unfolding Agent_Tools.audited_def Let_def by (intro frame_intros)

lemma rolls_run_tool [frame_intros]: "frames rolls (run_tool V now dr c call)"
proof -
  have "frames rolls (execute_tool V now dr c call)"
    by (cases call) (simp_all only: execute_tool.simps, (intro rolls_audited frame_intros crm_read_frames)+)
  then show ?thesis unfolding run_tool_def by (intro frame_intros)
qed

subsection \<open>Approvals with the real executor\<close>

definition with_executor :: "app_env \<Rightarrow> action_env \<Rightarrow> (ActionResult \<Rightarrow> string) \<Rightarrow> ms \<Rightarrow> action_draws \<Rightarrow> app_env" where
  "with_executor X Y print now dr = X\<lparr>ax_approval := (ax_approval X)\<lparr>ae_execute := executeAction Y print now dr\<rparr>\<rparr>"

lemma rolls_execute: "frames rolls (executeAction Y print now dr w a u p)"
  unfolding executeAction_def by (intro rolls_apart frame_intros apart_execute)

lemma rolls_decide:
  assumes "\<And>w a b p. frames rolls (ae_execute A w a b p)"
  shows "frames rolls (decideApproval A now w i d role verdict)"
  unfolding decideApproval_def claim_approval_def release_claim_def record_approval_def record_rejection_def Let_def
  by (intro frame_intros rolls_rules assms; simp add: rolls_def)

lemma rolls_approvals_POST: "rolls (api_run (with_executor X Y print now dr) c (ApprovalsPost w) s) = rolls s"
  unfolding api_run.simps approvals_POST_def
  by (rule frames_route, intro frame_intros rolls_decide) (auto simp: with_executor_def rolls_execute intro: frame_intros split: decide_result.split)

subsection \<open>Everything that changes the database\<close>

lemma kept_addAgent: "preserves (kept w os) (addAgent E now random n v name purpose u)"
  unfolding addAgent_def insert_agent_def Let_def
  by (intro inv_intros kept_insert_member frames_kept frame_intros rolls_rules; simp add: rolls_def)

text \<open>One change: a request (the approval of an agent's action runs the real executor), or one call of an operation that the other writing routes, the pages
  and the jobs make, with whatever arguments; the guards of those routes are not used.\<close>

inductive change :: "app_env \<Rightarrow> db \<Rightarrow> db \<Rightarrow> bool" for X :: app_env where
  request: "\<not> runs_approved q \<Longrightarrow> change X s (serve X q s)"
| approval: "change X s (api_run (with_executor X Y print now dr) c (ApprovalsPost w) s)"
| add_agent: "change X s (snd (addAgent E now random n w name purpose u s))"
| toggle_agent: "change X s (snd (setAgentEnabled E now w i on u s))"
| seed_personas: "change X s (snd (seedDefaultPersonas E now sids w u s))"
| update_persona: "change X s (snd (updatePersona E now w p patch u s))"
| delete_persona: "change X s (snd (deletePersona E now w p u s))"
| clone_persona: "change X s (snd (clonePersona E now ids ids2 ivs w src name u s))"
| import_persona: "change X s (snd (importPersona E now ids ids2 ivs w d u s))"
| set_prompt: "change X s (snd (setPromptLayer E now n ivp w p layer content u s))"
| set_skill: "change X s (snd (setSkillEnabled n w p key on s))"
| add_resource: "change X s (snd (addResource E now n iv w p ri u s))"
| toggle_resource: "change X s (snd (setResourceEnabled E now w p i on u s))"
| delete_resource: "change X s (snd (deleteResource E now w p i u s))"
| grant_config: "change X s (snd (grantConfig E now n w grantee q' u s))"
| revoke_config: "change X s (snd (revokeConfig E now w i u s))"
| open_thread: "change X s (snd (getOrCreateThread now n ta s))"
| agent_message: "change X s (snd (appendAgentMessage E now n iv w t role content trace s))"
| agent_tool: "change X s (snd (run_tool V now td tc call s))"
| channel_reply: "change X s (snd (sendMessage E now n iv si s))"
| reply_links: "change X s (snd (linkMessageAttachments w m docs s))"
| reply_mentions: "change X s (snd (notifyChannelMentions rk now nid ma s))"
| audit_entry: "change X s (snd (appendAudit E now ai s))"
| upload: "change X s (snd (Documents.ingestDocument D now n nids nivs iv aid da s))"
| upload_table: "change X s (snd (ingestTable I now tds w doc fn mime u sheets s))"
| save_mapping: "change X s (snd (saveMapping now n w i spec u ok s))"
| approve_mapping: "change X s (snd (approveMapping now w m s))"
| create_job: "change X s (snd (createImportJob now n w i m u least s))"
| import_slice: "change X s (snd (runImportSlice I C idr now w j k s))"
| ops_dedupe: "change X s (snd (dedupeWorkspaceCrm E now w op s))"
| reminders: "change X s (snd (runDueReminders C now nid lim s))"
| unsubscribe: "change X s (snd (unsubscribe_POST E now ut body s))"
| seed_fields: "change X s (snd (seedDefaultCrmFields now nids w u s))"

lemma kept_change:
  assumes "change X s t" and "zod_ok (av_safeParse (ax_api X))" and "kept w os s"
  shows "kept w os t"
  using assms
proof (cases rule: change.cases)
  case (request q)
  then show ?thesis using kept_serve assms(2,3) by simp
next
  case (approval Y print now dr c v)
  then show ?thesis using kept_rolls [OF rolls_approvals_POST] assms(3) by simp
next
  case (add_agent E now random n v name purpose u)
  then show ?thesis using kept_snd [OF kept_addAgent assms(3)] by simp
qed (simp_all only:, (rule kept_snd [OF frames_kept assms(3)], intro frame_intros)+)

interpretation owner_run: invariant_system "\<lambda>x. x = s" "change X" "\<lambda>x. zod_ok (av_safeParse (ax_api X)) \<longrightarrow> kept w (owners s w) s \<longrightarrow> kept w (owners s w) x" for s X w
  by unfold_locales (auto intro: kept_change)

text \<open>C3. Ownership cannot be moved: start from a database with its key constraints in which no invitation is for the role Owner. Whatever is then done to
  it, by whoever and in whatever order (every modelled request, joining, creating workspaces and approving agent actions included, and every operation
  that the remaining writing routes, pages and jobs call), an existing workspace has exactly the owners it had: nobody is made owner, demoted or
  offboarded as owner.\<close>

theorem owners_permanent:
  assumes "zod_ok (av_safeParse (ax_api X))" and "keys_ok s" and "has_workspace s w"
    and "list_all (\<lambda>r. iv_role r \<noteq> Owner) (invites s)" and "reach (\<lambda>x. x = s) (change X) t"
  shows "owners t w = owners s w"
proof -
  have "kept w (owners s w) s" using assms(2,3,4) by (simp add: kept_def keys_ok_def)
  then have "kept w (owners s w) t" using owner_run.reach_inv [OF assms(5)] assms(1) by blast
  then show ?thesis by (simp add: kept_def)
qed

definition demo_owner_row :: member_row where
  "demo_owner_row = demo_member\<lparr>mb_sub := ''olga'', mb_role := Owner\<rparr>"

definition demo_owned :: db where
  "demo_owned = demo_db\<lparr>members := [demo_owner_row, demo_member]\<rparr>"

definition demote_call :: call where
  "demote_call = demo_call\<lparr>cl_body := Some (JObj [(''sub'', JStr ''olga''), (''role'', JStr ''Guest'')])\<rparr>"

text \<open>A run: a request to demote the owner, a new agent, an approval, a new name.\<close>

definition demo_changed :: "action_env \<Rightarrow> action_draws \<Rightarrow> db" where
  "demo_changed Y dr = serve demo_app (demo_call, Served (ProfilePatch ''w1'')) (api_run (with_executor demo_app Y (\<lambda>_. []) 7 dr) demo_call (ApprovalsPost ''w1'')
     (snd (addAgent demo_env 6 ''r1'' ''g1'' ''w1'' ''Scout'' None ''olga'' (serve demo_app (demote_call, Served (MembersPatch ''w1'')) demo_owned))))"

lemma demo_changed_reach: "reach (\<lambda>x. x = demo_owned) (change demo_app) (demo_changed Y dr)"
  unfolding demo_changed_def
  by (rule reach_step [rotated], rule change.request, simp, rule reach_step [rotated], rule change.approval, rule reach_step [rotated], rule change.add_agent,
      rule reach_step [rotated], rule change.request, simp, rule reach_init, simp)

theorem owners_permanent_witness:
  "\<forall>Y dr. reach (\<lambda>x. x = demo_owned) (change demo_app) (demo_changed Y dr) \<and> owners (demo_changed Y dr) ''w1'' = [''olga'']"
proof -
  have "keys_ok demo_owned" "has_workspace demo_owned ''w1''" "invites demo_owned = []" "owners demo_owned ''w1'' = [''olga'']"
    by (simp_all add: keys_ok_def demo_owned_def demo_db_def empty_db_def demo_member_def demo_owner_row_def demo_workspace_def key_fun_def mb_key_def
        has_workspace_def owners_def counted_def)
  then show ?thesis
    using owners_permanent [of demo_app demo_owned "''w1''", OF _ _ _ _ demo_changed_reach] demo_changed_reach
    by (simp add: demo_app_def demo_api_def zod_ok_strict)
qed

end
