(* ===== verification/Approval_Authority.thy ===== *)
theory Approval_Authority
  imports Api
begin

text \<open>
  The approval queue (\<^verbatim>\<open>lib/domain/approvals.ts\<close>) against the direct routes: what the table of capabilities promises, that approving an agent's action never
  takes less than doing the same by oneself.
\<close>

subsection \<open>The direct routes of an action\<close>

text \<open>The requests of the API that make, in workspace \<open>w\<close>, a change that the action makes. There are none for an assertion to the knowledge graph and for
  a command in the sandbox; an import creates and updates records and tasks, merging duplicates deletes records.\<close>

fun creates_record :: "uuid \<Rightarrow> api_request \<Rightarrow> bool" where
  "creates_record w (AccountsPost v) = (v = w)"
| "creates_record w (DealsPost v) = (v = w)"
| "creates_record w (ContactsPost v) = (v = w)"
| "creates_record w _ = False"

fun same_change :: "uuid \<Rightarrow> AgentAction \<Rightarrow> api_request \<Rightarrow> bool" where
  "same_change w (CrmNote e i _ _ _) r = (r = NotesPost w (entity_name e) i)"
| "same_change w (CrmField e i _ _) r = (r = RecordFieldsPost w (entity_name e) i)"
| "same_change w (CrmStandard e i _) r = (r = RecordPatch w (entity_name e) i)"
| "same_change w (CrmCreate e _ _ _ _) r = (r = (case e of CrmAccount \<Rightarrow> AccountsPost w | CrmDeal \<Rightarrow> DealsPost w | CrmContact \<Rightarrow> ContactsPost w))"
| "same_change w (CrmDelete e i) r = (r = RecordDelete w (entity_name e) i)"
| "same_change w CrmDedupe r = (case r of RecordDelete v e i \<Rightarrow> v = w | _ \<Rightarrow> False)"
| "same_change w (MemoryAssert _ _ _ _ _) r = False"
| "same_change w (RunnerTerminal _ _) r = False"
| "same_change w (RunnerCode _ _ _) r = False"
| "same_change w (DocumentsWrite _ _ _ _ _) r = (case r of DocumentsPost f v \<Rightarrow> v = w | _ \<Rightarrow> False)"
| "same_change w (LedgerWrite chan _ _ _ _) r = (r = LedgerPost chan)"
| "same_change w (PmWrite _ _ _ _ _ raci) r = (r = TasksPost w \<or> raci \<noteq> [] \<and> (case r of TaskPatch v t \<Rightarrow> v = w | _ \<Rightarrow> False))"
| "same_change w (CrmImport _ _ _ _) r = (creates_record w r \<or> r = TasksPost w \<or> r = ProjectsPost w)"
| "same_change w (CrmIngestReview _ _ _) r = (creates_record w r \<or> r = TasksPost w \<or> r = ProjectsPost w)"
| "same_change w (CalendarSchedule _ _ _ _ _ _ _ _ _) r = (r = CalendarPost w)"
| "same_change w (CalendarCancel e) r = (r = EventDelete w e)"

text \<open>A command that runs in the sandbox.\<close>

fun sandboxed :: "AgentAction \<Rightarrow> bool" where
  "sandboxed (RunnerTerminal _ _) = True"
| "sandboxed (RunnerCode _ _ _) = True"
| "sandboxed _ = False"

lemma stronger:
  "can role CreateRecord \<Longrightarrow> can role PostMessage"
  "can role ManageWorkspace \<Longrightarrow> can role k"
  by (cases role; simp add: cap_sets)+

lemma creates_record_demand: "creates_record w r \<Longrightarrow> demand X c r = Some CreateRecord"
  by (cases r) (simp_all add: demand_def)

lemma same_change_demand:
  assumes "can role (CAP_BY_KIND a)" "same_change w a r"
  shows "\<exists>k. demand X c r = Some k \<and> can role k"
  using assms
  by (cases a) (auto simp: demand_def creates_record_demand intro: stronger split: CrmEntity.splits api_request.splits)

subsection \<open>No privileged act through the queue\<close>


text \<open>An admin approves the deletion of an account: the direct route asks for the capability to delete records.\<close>

definition demo_deletions :: approval_env where
  "demo_deletions = demo_approvals\<lparr>ae_parse := (\<lambda>_. Some (CrmDelete CrmAccount ''acme''))\<rparr>"


end
