(* ===== verification/Agent_Safety.thy ===== *)
theory Agent_Safety
  imports Agent_Tools
begin

text \<open>
  What the tool registry (\<^verbatim>\<open>lib/ai/tools.ts\<close>) promises for the turns of an agent: replies into a channel and private turns write nothing, external readers
  see one channel only, documents are shown to those who may see them; and where the digest of the calendar falls short.
\<close>

subsection \<open>Replies and private turns write nothing\<close>

text \<open>In a reply that a whole channel reads, no call of the model, on whatever database and with whatever arguments, changes anything but the
  transparency log, the audit trail and, through \<^verbatim>\<open>calendar.pin_summary\<close> alone, the messages.\<close>

theorem reply_tools_read_only:
  assumes "tl_audience c \<noteq> None" "tl_agentRole c = Agent"
  shows "apart_from_log (snd (run_tool V now dr c call s)) \<lparr>messages := []\<rparr> = apart_from_log s \<lparr>messages := []\<rparr>
    \<and> (tool_name call = ''calendar.pin_summary'' \<or> messages (snd (run_tool V now dr c call s)) = messages s)"
proof (cases "tool_name call \<in> set (offered c)")
  case False
  then show ?thesis by (simp add: run_tool_def act_throw_def)
next
  case True
  then have tool: "tool_name call \<in> set REPLY_TOOLS" using offered_reply assms by blast
  have run: "run_tool V now dr c call = execute_tool V now dr c call" using True by (simp add: run_tool_def fun_eq_iff)
  show ?thesis
  proof (cases "tool_name call = ''calendar.pin_summary''")
    case True
    then obtain chan days where c: "call = CallPinSummary chan days" by (cases call) auto
    have "frames (\<lambda>s. apart_from_log s\<lparr>messages := []\<rparr>) (audited V now dr c call (pin_summary V now dr c chan days))"
      unfolding audited_def Let_def by (intro frame_intros pin_frames frames_through [of apart_from_log])
    then show ?thesis using True run c by (auto dest: frames_snd)
  next
    case False
    have "frames apart_from_log (execute_tool V now dr c call)"
      using tool False by (cases call) (simp_all add: REPLY_TOOLS_def frames_audited reading_frames crm_read_frames frame_intros)
    from frames_snd [OF this] have s: "apart_from_log (snd (run_tool V now dr c call s)) = apart_from_log s" by (simp add: run)
    moreover have "messages (snd (run_tool V now dr c call s)) = messages s" using arg_cong [OF s, of messages] by (simp add: apart_from_log_def)
    ultimately show ?thesis by simp
  qed
qed

text \<open>A private turn leaves no trace: whatever the model calls, the database is the same as before, but for a digest that
  \<^verbatim>\<open>calendar.pin_summary\<close> posts into a channel.\<close>

theorem incognito_turn_traceless:
  assumes "incognito c"
  shows "snd (run_tool V now dr c call s) \<lparr>messages := []\<rparr> = s \<lparr>messages := []\<rparr>
    \<and> (tool_name call = ''calendar.pin_summary'' \<or> snd (run_tool V now dr c call s) = s)"
proof (cases "tool_name call \<in> set (offered c)")
  case False
  then show ?thesis by (simp add: run_tool_def act_throw_def)
next
  case True
  then have tool: "tool_name call \<in> set (CHANNEL_REPLY_DENY @ REPLY_TOOLS)" using offered_incognito assms by blast
  have quiet: "tl_audit c = Some False" using assms by (simp add: incognito_def)
  have run: "run_tool V now dr c call = execute_tool V now dr c call" using True by (simp add: run_tool_def fun_eq_iff)
  show ?thesis
  proof (cases "tool_name call = ''calendar.pin_summary''")
    case True
    then obtain chan days where c: "call = CallPinSummary chan days" by (cases call) auto
    have "frames (\<lambda>s. s\<lparr>messages := []\<rparr>) (pin_summary V now dr c chan days)" by (rule pin_writes) simp
    then show ?thesis using True run c by (auto dest: frames_snd frames_unlogged [OF quiet])
  next
    case False
    have "frames (\<lambda>s. s) (execute_tool V now dr c call)"
      using tool False by (cases call)
        (simp_all add: REPLY_TOOLS_def CHANNEL_REPLY_DENY_def frames_unlogged [OF quiet] reading_frames crm_read_frames frame_intros)
    from frames_snd [OF this, of s] show ?thesis by (simp add: run)
  qed
qed

text \<open>C28. If a reader of the reply is external, the only call that answers is the summary of a channel in which the invoker and every reader
  is seated.\<close>

theorem external_readers_confined:
  assumes "\<not> isInternalRole (invoker_role c)" and "run_tool V now dr c call s = (Inr r, s')"
  shows "\<exists>chan n msgs. call = CallThreadSummarize chan n \<and> r = MessagesRead msgs
    \<and> list_all (\<lambda>u. (chan, u) \<in> (\<lambda>m. (cm_channelId m, cm_sub m)) ` set (channelMembers s)) (tl_invokedBySub c # map vi_sub (or_default (tl_audience c) []))"
proof -
  have "tool_name call = ''thread.summarize''" and run: "execute_tool V now dr c call s = (Inr r, s')"
    using assms external_offered by (auto simp: run_tool_def act_throw_def split: if_splits)
  then obtain chan n where call: "call = CallThreadSummarize chan n" by (cases call) auto
  from run call obtain s1 s2 where r: "thread_summarize V c chan n s1 = (Inr r, s2)" and log: "apart_from_log s1 = apart_from_log s"
    by (auto dest: audited_answers)
  have seats: "channelMembers s1 = channelMembers s" using arg_cong [OF log, of channelMembers] by (simp add: apart_from_log_def)
  have all: "list_all (\<lambda>v. seated s1 chan (vi_sub v)) vs" if "all_seated chan vs s1 = (Inr (), s3)" for vs s3
    using that by (induction vs) (auto simp: isChannelMember_seated act_bind_def act_throw_def split: if_splits)
  have "seated s1 chan (tl_invokedBySub c) \<and> list_all (\<lambda>v. seated s1 chan (vi_sub v)) (or_default (tl_audience c) []) \<and> (\<exists>msgs. r = MessagesRead msgs)"
    using r all unfolding thread_summarize_def
    by (auto simp: isChannelMember_seated act_bind_def act_throw_def act_return_def split: if_splits sum.splits prod.splits)
  then show ?thesis using call by (auto simp: seated_def seats list_all_iff)
qed

subsection \<open>Documents in an answer\<close>

definition shown_documents :: "ToolResult \<Rightarrow> uuid list" where
  "shown_documents r = (case r of Snippets rs \<Rightarrow> map rk_documentId rs | DocumentsListed ds \<Rightarrow> map fst ds | Attached i _ _ \<Rightarrow> [i] | _ \<Rightarrow> [])"

lemma visible_apart: "apart_from_log s1 = apart_from_log s \<Longrightarrow> documentVisibleTo s1 w v d = documentVisibleTo s w v d"
proof -
  have "documentVisibleTo (apart_from_log s) w v d = documentVisibleTo s w v d" for s
    by (simp add: documentVisibleTo_def in_my_channel_def shared_into_my_channel_def apart_from_log_def)
  then show "apart_from_log s1 = apart_from_log s \<Longrightarrow> documentVisibleTo s1 w v d = documentVisibleTo s w v d" by metis
qed

lemma all_see_visible:
  "all_see w i vs s1 = (Inr True, s2) \<Longrightarrow> list_all (\<lambda>v. \<exists>d\<in>set (documents s1). dc_id d = i \<and> dc_workspaceId d = w \<and> documentVisibleTo s1 w v d) vs"
  by (induction vs) (auto simp: getVisibleDocument_def act_bind_def act_get_def act_return_def dest!: first_where_SomeD split: if_splits)

lemma attached_visible:
  assumes "artifact_attach c i s1 = (Inr r, s2)" "j \<in> set (shown_documents r)"
  shows "j = i \<and> list_all (\<lambda>v. \<exists>d\<in>set (documents s1). dc_id d = i \<and> dc_workspaceId d = tl_workspaceId c \<and> documentVisibleTo s1 (tl_workspaceId c) v d) (readers c)"
proof -
  let ?w = "tl_workspaceId c" and ?vs = "or_default (tl_audience c) []"
  have read: "getVisibleDocument ?w i v s1 = (Inr (map_option document_view
      (first_where (\<lambda>d. dc_workspaceId d = ?w \<and> dc_id d = i \<and> documentVisibleTo s1 ?w v d) (documents s1))), s1)" for v
    by (simp add: getVisibleDocument_def act_get_def)
  obtain d where d: "first_where (\<lambda>d. dc_workspaceId d = ?w \<and> dc_id d = i \<and> documentVisibleTo s1 ?w (invoker_view c) d) (documents s1) = Some d"
    using assms by (auto simp: artifact_attach_def Let_def act_bind_def act_return_def read shown_documents_def split: option.splits)
  have ok: "all_see ?w i ?vs s1 = (Inr True, s2)" and j: "j = i"
    using assms by (auto simp: artifact_attach_def Let_def act_bind_def act_return_def read d shown_documents_def split: if_splits sum.splits prod.splits)
  have "list_all (\<lambda>v. \<exists>d\<in>set (documents s1). dc_id d = i \<and> dc_workspaceId d = ?w \<and> documentVisibleTo s1 ?w v d) [invoker_view c]"
    using first_where_SomeD [OF d] by auto
  then show ?thesis using all_see_visible [OF ok] j by (simp add: readers_def)
qed

text \<open>What the document tools put into an answer, every reader of the answer may see: the invoker, and in a channel reply each seated member.\<close>

theorem answers_show_shared_documents:
  assumes "run_tool V now dr c call s = (Inr r, s')" and "i \<in> set (shown_documents r)"
    and "call \<in> {CallDocumentsRead q b, CallDocumentsList n, CallArtifactAttach j note}"
  shows "list_all (\<lambda>v. \<exists>d\<in>set (documents s). dc_id d = i \<and> dc_workspaceId d = tl_workspaceId c \<and> documentVisibleTo s (tl_workspaceId c) v d) (readers c)"
proof -
  obtain run where ex: "execute_tool V now dr c call = audited V now dr c call run"
    and run: "run \<in> {documents_read V c q b, documents_list c n, artifact_attach c j}" using assms(3) by auto
  have "audited V now dr c call run s = (Inr r, s')"
    using assms(1) unfolding run_tool_def ex by (simp add: act_throw_def split: if_splits)
  from audited_answers [OF this] obtain s1 s2 where r: "run s1 = (Inr r, s2)" and log: "apart_from_log s1 = apart_from_log s" by blast
  have docs: "documents s1 = documents s" using arg_cong [OF log, of documents] by (simp add: apart_from_log_def)
  have "list_all (\<lambda>v. \<exists>d\<in>set (documents s1). dc_id d = i \<and> dc_workspaceId d = tl_workspaceId c \<and> documentVisibleTo s1 (tl_workspaceId c) v d) (readers c)"
    using run
  proof (elim insertE)
    assume d: "run = documents_read V c q b"
    with r obtain rs where "retrieveChunks (te_doc V) (tl_workspaceId c) q (readers c) None (Some b) s1 = (Inr rs, s2)" "r = Snippets rs"
      by (auto simp: documents_read_def act_bind_def act_return_def split: prod.splits sum.splits)
    with assms(2) obtain x where "x \<in> set rs" "rk_documentId x = i" by (auto simp: shown_documents_def)
    then obtain k d where "(k, d) \<in> set (chunk_candidates s1 (tl_workspaceId c) (readers c) None)" "dk_documentId k = i"
      using retrieved_candidates [OF \<open>retrieveChunks _ _ _ _ _ _ s1 = _\<close>, of x] by (auto simp: retrieved_def)
    then have "d \<in> set (documents s1)" "dc_id d = i" "dc_workspaceId d = tl_workspaceId c" "documentVisibleToAll s1 (tl_workspaceId c) (readers c) d"
      by (auto simp: chunk_candidates_def)
    then show ?thesis by (auto simp: documentVisibleToAll_def list_all_iff)
  next
    assume d: "run = documents_list c n"
    have "r = DocumentsListed (map (\<lambda>d. (dv_id d, dv_name d, dv_mime d, dv_createdAt d)) (map document_view (take (min (max n 1) 200)
        (newest_first (rows_where (\<lambda>d. dc_workspaceId d = tl_workspaceId c \<and> documentVisibleToAll s1 (tl_workspaceId c) (readers c) d) (documents s1))))))"
      using r unfolding d documents_list_def listDocuments_def by (auto simp: act_bind_def act_get_def act_return_def)
    with assms(2) show ?thesis
      by (fastforce simp: shown_documents_def documentVisibleToAll_def list_all_iff document_view_def newest_first_def rows_where_def dest: in_set_takeD)
  next
    assume d: "run = artifact_attach c j"
    then show ?thesis using attached_visible r assms(2) by fastforce
  qed simp
  then show ?thesis by (simp add: docs visible_apart [OF log])
qed

subsection \<open>The digest takes the member's pins down\<close>

lemma unpin_all:
  "act_for ps (\<lambda>p. act_bind (setMessagePinned now w chan (mr_id p) False) (\<lambda>_. act_return ())) s =
    (Inr (), s\<lparr>messages := map (\<lambda>x. if ms_workspaceId x = w \<and> ms_channelId x = chan \<and> ms_id x \<in> mr_id ` set ps
       then x\<lparr>ms_pinned := False, ms_pinnedAt := None\<rparr> else x) (messages s)\<rparr>)"
  by (induction ps arbitrary: s)
    (auto simp: act_return_def setMessagePinned_def act_bind_def tbl_update_def upd_where_def comp_def intro!: db.equality map_cong)

lemma set_by_pinnedAt [simp]: "set (by_pinnedAt_desc rs) = set rs"
  by (auto simp: by_pinnedAt_desc_def)

lemma length_by_pinnedAt [simp]: "length (by_pinnedAt_desc rs) = length rs"
  using sum_length_filter_compl [of "\<lambda>m. ms_pinnedAt m = None" rs] by (simp add: by_pinnedAt_desc_def)

lemma pinned_attachments_run: "\<exists>rows. with_attachments E w ms s = (Inr rows, s) \<and> (\<lambda>m. (mr_id m, mr_authorSub m)) ` set rows = (\<lambda>m. (ms_id m, ms_authorSub m)) ` set ms"
  by (auto simp: with_attachments_def attachmentsForMessages_def Let_def act_bind_def act_get_def act_return_def image_image message_decode_def)

definition pinned_rows :: "db \<Rightarrow> uuid \<Rightarrow> uuid \<Rightarrow> message_row list" where
  "pinned_rows s w chan = rows_where (\<lambda>m. ms_workspaceId m = w \<and> ms_channelId m = chan \<and> ms_pinned m \<and> ms_state m \<noteq> ''deleted'') (messages s)"

text \<open>What the digest does to the messages: the new one is added and pinned, the pinned ones of the same author are unpinned.\<close>

definition retired :: "uuid \<Rightarrow> uuid \<Rightarrow> uuid set \<Rightarrow> message_row \<Rightarrow> bool" where
  "retired w chan ids x \<longleftrightarrow> ms_workspaceId x = w \<and> ms_channelId x = chan \<and> ms_id x \<in> ids"

lemma digest_messages:
  assumes "postAndPinCalendarSummary C now n iv w chan u days s = (Inr r, s')" and few: "length (pinned_rows s w chan) \<le> 50"
  shows "\<exists>row. ms_id row = n \<and> \<not> has_message s n \<and> ms_fromAgent row \<and> ms_authorSub row = u \<and>
    messages s' = upd_where (\<lambda>m. ms_workspaceId m = w \<and> ms_channelId m = chan \<and> ms_id m = n) (\<lambda>m. m\<lparr>ms_pinned := True, ms_pinnedAt := Some now\<rparr>)
      (map (\<lambda>x. if retired w chan (ms_id ` {m \<in> set (pinned_rows s w chan). ms_authorSub m = u}) x
         then x\<lparr>ms_pinned := False, ms_pinnedAt := None\<rparr> else x) (messages s @ [row]))"
proof -
  let ?E = "cal_crypto C"
  obtain evs s0 us s00 msg s1 pinned s2 s3 s4 body where ev: "listWorkspaceEventsInRange ?E w now (now + int days * 86400000) s = (Inr evs, s0)"
    and us: "act_get (\<lambda>s. human_readers s w chan) s0 = (Inr us, s00)"
    and send: "sendMessage ?E now n iv \<lparr>si_workspaceId = w, si_channelId = chan, si_authorSub = u, si_body = body,
         si_fromAgent = True, si_onBehalfOf = None, si_threadId = None, si_parentId = None, si_clientMsgId = None\<rparr> s00 = (Inr msg, s1)"
    and pin: "listPinnedMessages ?E w chan s1 = (Inr pinned, s2)"
    and loop: "act_for (filter (\<lambda>p. mr_authorSub p = u \<and> mr_id p \<noteq> mr_id msg) pinned)
        (\<lambda>p. act_bind (setMessagePinned now w chan (mr_id p) False) (\<lambda>_. act_return ())) s2 = (Inr (), s3)"
    and last: "setMessagePinned now w chan (mr_id msg) True s3 = (Inr True, s4)" and "s' = s4"
    using assms unfolding postAndPinCalendarSummary_def Let_def
    by (elim act_bind_InrE) (auto simp: act_return_def setMessagePinned_def)
  define inp where "inp = \<lparr>si_workspaceId = w, si_channelId = chan, si_authorSub = u, si_body = body,
         si_fromAgent = True, si_onBehalfOf = None, si_threadId = None, si_parentId = None, si_clientMsgId = None\<rparr>"
  have "s00 = s" using ev us by (simp add: listWorkspaceEventsInRange_def hydrate_def act_bind_def act_get_def)
  with send have send: "sendMessage ?E now n iv inp s = (Inr msg, s1)" by (simp add: inp_def)
  obtain enc row where row: "row = message_of n inp enc (next_seq s chan) now" and s1: "s1 = s\<lparr>messages := messages s @ [row]\<rparr>"
    and new: "\<not> has_message s n" and msg: "mr_id msg = n"
    using send by (cases rule: sendMessage_cases) (auto simp: inp_def message_decode_def)
  have sel: "ms_id row = n" "ms_authorSub row = u" "ms_fromAgent row" "\<not> ms_pinned row" by (simp_all add: row inp_def message_of_def)
  have rows: "rows_where (\<lambda>m. ms_workspaceId m = w \<and> ms_channelId m = chan \<and> ms_pinned m \<and> ms_state m \<noteq> ''deleted'') (messages s1) = pinned_rows s w chan"
    using sel by (simp add: s1 pinned_rows_def rows_where_def)
  have s2: "s2 = s1" and ids: "(\<lambda>m. (mr_id m, mr_authorSub m)) ` set pinned = (\<lambda>m. (ms_id m, ms_authorSub m)) ` set (pinned_rows s w chan)"
    using pinned_attachments_run [of ?E w "take 50 (by_pinnedAt_desc (pinned_rows s w chan))" s1] few pin
    unfolding listPinnedMessages_def by (auto simp: rows)
  have "mr_id ` set (filter (\<lambda>p. mr_authorSub p = u \<and> mr_id p \<noteq> n) pinned) = ms_id ` {m \<in> set (pinned_rows s w chan). ms_authorSub m = u}"
    (is "?L = ?R")
  proof
    show "?L \<subseteq> ?R"
    proof
      fix i assume "i \<in> ?L"
      then have "(i, u) \<in> (\<lambda>m. (ms_id m, ms_authorSub m)) ` set (pinned_rows s w chan)" unfolding ids [symmetric] by auto
      then show "i \<in> ?R" by auto
    qed
    show "?R \<subseteq> ?L"
    proof
      fix i assume "i \<in> ?R"
      then obtain m where m: "m \<in> set (pinned_rows s w chan)" "ms_authorSub m = u" "i = ms_id m" by auto
      then have "(i, u) \<in> (\<lambda>m. (mr_id m, mr_authorSub m)) ` set pinned" unfolding ids by auto
      moreover have "i \<noteq> n" using m new by (force simp: pinned_rows_def rows_where_def has_message_def)
      ultimately show "i \<in> ?L" by auto
    qed
  qed
  then have "messages s' = upd_where (\<lambda>m. ms_workspaceId m = w \<and> ms_channelId m = chan \<and> ms_id m = n) (\<lambda>m. m\<lparr>ms_pinned := True, ms_pinnedAt := Some now\<rparr>)
      (map (\<lambda>x. if retired w chan ?R x then x\<lparr>ms_pinned := False, ms_pinnedAt := None\<rparr> else x) (messages s @ [row]))"
    using loop last \<open>s' = s4\<close> unfolding unpin_all msg s2 by (auto simp: setMessagePinned_def act_return_def retired_def s1)
  then show ?thesis using sel new by blast
qed

text \<open>The digest is posted in the name of the invoking member, and what it retires is chosen by that name: every message of the member that was
  pinned in the channel, whatever it says, is unpinned.\<close>

theorem digest_unpins_own_messages:
  assumes "pin_summary V now dr c chan days s = (Inr r, s')" and "m \<in> set (pinned_rows s (tl_workspaceId c) chan)" "ms_authorSub m = tl_invokedBySub c"
    and "length (pinned_rows s (tl_workspaceId c) chan) \<le> 50"
    and "x \<in> set (messages s')" "ms_workspaceId x = tl_workspaceId c" "ms_channelId x = chan" "ms_id x = ms_id m"
  shows "\<not> ms_pinned x"
proof -
  let ?w = "tl_workspaceId c" and ?u = "tl_invokedBySub c"
  let ?ids = "ms_id ` {m \<in> set (pinned_rows s ?w chan). ms_authorSub m = ?u}"
  let ?f = "\<lambda>x. if retired ?w chan ?ids x then x\<lparr>ms_pinned := False, ms_pinnedAt := None\<rparr> else x"
  let ?P = "\<lambda>m. ms_workspaceId m = ?w \<and> ms_channelId m = chan \<and> ms_id m = tz_message dr"
  let ?g = "\<lambda>m. m\<lparr>ms_pinned := True, ms_pinnedAt := Some now\<rparr> :: message_row"
  obtain q where "postAndPinCalendarSummary (te_cal V) now (tz_message dr) (tz_iv dr 0) ?w chan ?u days s = (Inr q, s')"
    using assms(1) unfolding pin_summary_def act_bind_Inr [OF isChannelMember_seated]
    by (auto simp: act_throw_def act_return_def split: if_splits prod.splits elim!: act_bind_InrE)
  then obtain row where row: "\<not> has_message s (tz_message dr)" and msgs: "messages s' = upd_where ?P ?g (map ?f (messages s @ [row]))"
    using digest_messages assms(4) by blast
  have new: "ms_id m \<noteq> tz_message dr" using row assms(2) by (force simp: pinned_rows_def rows_where_def has_message_def)
  have "x \<in> (\<lambda>y. if ?P y then ?g y else y) ` ?f ` set (messages s @ [row])" using assms(5) by (simp only: msgs set_upd_where list.set_map)
  then obtain z where z: "x = (if ?P (?f z) then ?g (?f z) else ?f z)" by blast
  then have id: "ms_id x = ms_id z" "ms_workspaceId x = ms_workspaceId z" "ms_channelId x = ms_channelId z" by simp_all
  with assms(8) new have "x = ?f z" using z by auto
  moreover have "retired ?w chan ?ids z" using assms(2,3,6-8) id by (auto simp: retired_def)
  ultimately show ?thesis by simp
qed

subsection \<open>A reply that a partner reads\<close>

definition demo_tools :: tool_env where
  "demo_tools = \<lparr>te_approval = demo_approvals, te_import = demo_import_env, te_cal = demo_cal_env, te_doc = demo_docs, te_table = demo_table,
     te_gateway = \<lparr>gw_url = None, gw_healthy = False, gw_recall = (\<lambda>_ _. None), gw_verify = (\<lambda>_ _. None), gw_assert = (\<lambda>_ _ _. None),
       gw_proposeEdge = (\<lambda>_ _ _. None)\<rparr>,
     te_store = FromNeon, te_search = \<lparr>sv_searxng = None, sv_json = (\<lambda>_ _. None), sv_lite = (\<lambda>_ _. None), sv_html = (\<lambda>_ _. None)\<rparr>,
     te_runner = \<lparr>rn_env = (\<lambda>_. None), rn_post = (\<lambda>_ _ _ _. None)\<rparr>, te_fetch = demo_fetch ''example.com'',
     te_net = \<lparr>queries = 0, requests = 0, contacted = []\<rparr>, te_guardedFetch = False, te_date = (\<lambda>_. None), te_stringify = (\<lambda>_. ''{}''),
     te_args = (\<lambda>_. JNull), te_result = (\<lambda>_. ''{}'')\<rparr>"

text \<open>The agent was called into a channel by a partner.\<close>

definition demo_reply :: ToolContext where
  "demo_reply = \<lparr>tl_workspaceId = ''w1'', tl_invokedBySub = ''alice'', tl_personaId = None, tl_threadId = None, tl_agentRole = Agent,
     tl_invokerRole = Some Partner, tl_allow = None, tl_audit = Some False, tl_audience = Some [\<lparr>vi_sub = ''alice'', vi_internal = False, vi_agent = None\<rparr>]\<rparr>"

definition demo_tool_draws :: tool_draws where
  "demo_tool_draws = \<lparr>tz_log = ''t1'', tz_call = (\<lambda>_. ''t2''), tz_fallback = (\<lambda>_. ''t3''), tz_approval = (\<lambda>_. ''a1''), tz_iv = (\<lambda>_. ''iv''), tz_mapping = ''m1'',
     tz_message = ''m2'', tz_ingest = \<lparr>id_table = \<lparr>td_batch = ''b1'', td_sheet = (\<lambda>_. ''s1''), td_column = (\<lambda>_ _. ''k1''), td_row = (\<lambda>_ _. ''r1''),
       td_iv = (\<lambda>_ _. ''iv'')\<rparr>, id_mapping = ''m1'', id_job = ''j1'', id_run = demo_draws, id_call = ''t4'', id_fallback = ''t5'', id_approval = ''a2'', id_iv = ''iv''\<rparr>\<rparr>"

theorem external_readers_confined_witness:
  "\<exists>r s' chan n msgs. run_tool demo_tools 5 demo_tool_draws demo_reply (CallThreadSummarize ''c1'' 5) demo_chat = (Inr r, s')
    \<and> CallThreadSummarize ''c1'' 5 = CallThreadSummarize chan n \<and> r = MessagesRead msgs
    \<and> list_all (\<lambda>u. (chan, u) \<in> (\<lambda>m. (cm_channelId m, cm_sub m)) ` set (channelMembers demo_chat)) [''alice'', ''alice'']"
proof -
  let ?call = "CallThreadSummarize ''c1'' 5"
  have ext: "\<not> isInternalRole (invoker_role demo_reply)" by (simp add: invoker_role_def demo_reply_def or_default_def isInternalRole_def cap_sets)
  have in_tools: "tool_name ?call \<in> set (offered demo_reply)" by code_simp
  have seat: "seated demo_chat ''c1'' ''alice''" by (simp add: seated_def demo_chat_defs)
  have empty: "messages demo_chat = []" by (simp add: demo_chat_defs)
  then have none: "listMessages E w ch lo demo_chat = (Inr [], demo_chat)" for E w ch lo
    by (cases "lo_afterSeq lo") (simp_all add: empty listMessages_def with_attachments_def attachmentsForMessages_def act_bind_def act_get_def
        act_return_def rows_where_def Let_def)
  have "thread_summarize demo_tools demo_reply ''c1'' 5 demo_chat = (Inr (MessagesRead []), demo_chat)"
    using seat none by (simp add: thread_summarize_def act_bind_def isChannelMember_seated demo_reply_def or_default_def act_return_def)
  moreover have "execute_tool demo_tools 5 demo_tool_draws demo_reply ?call = thread_summarize demo_tools demo_reply ''c1'' 5"
    using in_tools offered_permitted [OF in_tools] by (simp add: audited_def Let_def demo_reply_def)
  ultimately have run: "run_tool demo_tools 5 demo_tool_draws demo_reply ?call demo_chat = (Inr (MessagesRead []), demo_chat)"
    using in_tools by (simp add: run_tool_def)
  show ?thesis using run external_readers_confined [OF ext run] by (auto simp: demo_reply_def or_default_def)
qed

end
