(* ===== verification/Spec2Isabelle.thy ===== *)
theory Spec2Isabelle
  imports Chat_View Fetch_Guard Ownership Approval_Authority Memory Agent_Safety
begin

text \<open>
  A verification library for the web tier of citrate-comms (\<^verbatim>\<open>src/webapp/src\<close>, paths below are relative to it): an encrypted team
  workspace with channels and a ledger, a CRM, projects, a calendar, documents, spreadsheet imports and AI agents that propose actions for
  people to approve. The definitions are translated from the TypeScript sources, branch by branch, and are executable; the theorems say what
  the parts promise each other and the user.

  \<^bold>\<open>How the program works, and how the library follows it.\<close> A request passes the proxy (\<^verbatim>\<open>proxy.ts\<close>), a route handler
  (\<^verbatim>\<open>app/api/**/route.ts\<close>) finds out who is asking (\<^verbatim>\<open>lib/auth\<close>), checks membership and capability (\<^verbatim>\<open>lib/tenant/guard.ts\<close>,
  \<^verbatim>\<open>lib/rbac/matrix.ts\<close>), validates the body (\<^verbatim>\<open>lib/validation/schemas.ts\<close>), calls one repository of \<^verbatim>\<open>lib/domain\<close> and appends to the audit
  chain (\<^verbatim>\<open>lib/audit/chain.ts\<close>). Agents reach the same repositories through a tool registry (\<^verbatim>\<open>lib/ai/tools.ts\<close>); what an agent may only propose goes
  to a queue (\<^verbatim>\<open>lib/domain/approvals.ts\<close>) and is executed when a person approves it. All of them share one Postgres database.

  The state of the model is that database: the record \<open>db\<close> of theory \<open>Schema\<close>, one list of rows per table of \<^verbatim>\<open>lib/db/schema.ts\<close>. An operation is a value of
  type \<open>'a act\<close> (theory \<open>Prelude\<close>): a function from a database to an error or a result, and the database afterwards; \<open>act_bind\<close>, \<open>act_return\<close>, \<open>act_throw\<close>,
  \<open>act_get\<close> and the table operations \<open>tbl_insert\<close>, \<open>tbl_update\<close>, \<open>tbl_delete\<close> correspond to the statements of the source, and a thrown error keeps
  the statements that ran before it, as the source does outside a transaction. Every exception, refusal and early return of the source is a branch.

  \<^bold>\<open>Theories, in the order in which they build on each other.\<close>

  \<^item> \<open>Prelude\<close>: actions on a state, frames (\<open>frames\<close>, \<open>frame_intros\<close>: what an operation leaves alone), tables, lists and strings; \<open>Schema\<close> and
    \<open>Work_Schema\<close>: the rows, keys, references and cascades of \<^verbatim>\<open>lib/db/schema.ts\<close>.
  \<^item> \<open>Encoding\<close>, \<open>Crypto\<close> (\<^verbatim>\<open>lib/security/crypto.ts\<close>): field encryption with a key per workspace, blind indexes, token hashes. The locale of the
    primitives states what Node documents for them and is interpreted on concrete functions.
  \<^item> \<open>Rbac\<close> (\<^verbatim>\<open>lib/rbac/matrix.ts\<close>), \<open>Auth\<close> (\<^verbatim>\<open>lib/auth\<close>), \<open>Web_Security\<close> (\<^verbatim>\<open>proxy.ts\<close>, \<^verbatim>\<open>lib/security\<close>), \<open>Guard\<close> (\<^verbatim>\<open>lib/tenant/guard.ts\<close>): who is asking, and
    what they may do.
  \<^item> \<open>Audit_Chain\<close> (\<^verbatim>\<open>lib/audit/chain.ts\<close>) and \<open>Ledger\<close> (\<^verbatim>\<open>lib/witness/ledger.ts\<close>): append-only records and their verification.
  \<^item> \<open>Channels\<close>, \<open>Messages\<close>, \<open>Mentions\<close>, \<open>Notifications\<close> and \<open>Chat_View\<close> (the repositories of the same names, \<^verbatim>\<open>lib/mentions.ts\<close>, \<^verbatim>\<open>lib/realtime\<close>, and the delivery logic of
    \<^verbatim>\<open>components/comms/ChannelView.tsx\<close>): messaging, with the poll of a viewer as a step relation.
  \<^item> \<open>Membership\<close> (\<^verbatim>\<open>lib/domain/workspaces.ts\<close>, \<^verbatim>\<open>invites.ts\<close>, \<^verbatim>\<open>members.ts\<close>), \<open>Approvals\<close> (\<^verbatim>\<open>lib/domain/approvals.ts\<close>), \<open>Email\<close> (\<^verbatim>\<open>lib/email\<close>), \<open>Settings\<close>.
  \<^item> \<open>Crm\<close>, \<open>Crm_Depth\<close>, \<open>Crm_Table\<close>, \<open>Dedupe\<close> (\<^verbatim>\<open>lib/domain/crm*.ts\<close>) and \<open>Tenancy\<close>: the CRM, and the isolation of its workspaces.
  \<^item> \<open>Calendar\<close>, \<open>Deadlines\<close> (\<^verbatim>\<open>lib/domain/calendar.ts\<close>), \<open>Projects\<close> (\<^verbatim>\<open>lib/domain/pm.ts\<close>), \<open>Documents\<close> (\<^verbatim>\<open>lib/domain/documents.ts\<close>, \<^verbatim>\<open>lib/ai/embeddings.ts\<close>).
  \<^item> \<open>Import_Parse\<close>, \<open>Import_Map\<close>, \<open>Import_Store\<close>, \<open>Tables\<close>, \<open>Import_Engine\<close>, \<open>Import_Preview\<close>, \<open>Ingest\<close> (\<^verbatim>\<open>lib/domain/import-*.ts\<close>, \<^verbatim>\<open>tables-repo.ts\<close>, \<^verbatim>\<open>ingest.ts\<close>): spreadsheets and
    free text, from cells to typed rows to records.
  \<^item> \<open>Requests\<close>, \<open>Routes_Comms\<close>, \<open>Routes_Work\<close>, \<open>Api\<close>, \<open>Owners\<close>: the request schemas and the writing routes, gathered into one type of requests.
  \<^item> \<open>Prompts\<close>, \<open>Personas\<close>, \<open>Agents\<close>, \<open>Memory\<close>, \<open>Model_Io\<close>, \<open>Fetch_Guard\<close>, \<open>Research\<close>: the agents' prompts, settings, conversations, knowledge graph, model access and web access.
  \<^item> \<open>Agent_Tools\<close>, \<open>Agent_Safety\<close> (\<^verbatim>\<open>lib/ai/tools.ts\<close>), \<open>Actions\<close> (\<^verbatim>\<open>executeAction\<close> of \<^verbatim>\<open>lib/domain/approvals.ts\<close>), \<open>Approval_Authority\<close>, \<open>Ownership\<close>: what an agent can
    do by itself, what it can only propose, what happens on approval, whether that takes less than acting directly, and what no change can do to ownership.

  \<^bold>\<open>What the lemmas show.\<close> Authority: every change through the API comes from a verified, active, capable member (\<open>Api\<close>); role grants, invitations, offboarding
  and approvals cannot be used to get more (\<open>Rbac\<close>, \<open>Membership\<close>, \<open>Approvals\<close>, \<open>Approval_Authority\<close>, \<open>Ownership\<close>). Evidence: the audit chain verifies and detects alteration
  (\<open>Audit_Chain\<close>). Isolation and confidentiality: tenants, audiences of documents, sensitive spreadsheet values, agent threads and memory tiers (\<open>Tenancy\<close>, \<open>Documents\<close>,
  \<open>Tables\<close>, \<open>Agents\<close>, \<open>Memory\<close>, \<open>Crm_Depth\<close>). Agents: what a channel reply can touch and to whom it is shown (\<open>Agent_Safety\<close>). Data integrity:
  no double records, faithful merges, previews that predict runs, round trips of exports and stored rows (\<open>Crm\<close>, \<open>Dedupe\<close>, \<open>Import_Preview\<close>). Delivery:
  messages exactly once, mail only to the subscribed, deadlines mirrored (\<open>Chat_View\<close>, \<open>Email\<close>, \<open>Deadlines\<close>). Outbound requests: only public addresses are contacted
  and the redirect loop returns (\<open>Fetch_Guard\<close>). Theorems of kind error state precisely where the code does not do what its comments or its callers expect.

  \<^bold>\<open>Conventions.\<close>

  \<^item> Strings are lists of bytes (UTF-8); lengths, slices and truncations count bytes where the source counts UTF-16 units, and case folding, trimming and
    character classes are the ASCII ones. Numbers of JSON bodies are integers; decimal strings are exact; scores of retrieval are exact rationals or reals.
  \<^item> Time is an integer of milliseconds passed as an argument, one reading per operation. Random ids, tokens and initialisation vectors are arguments or functions
    of a counter, in the order in which the source draws them.
  \<^item> What is not under \<^verbatim>\<open>src\<close> is a parameter: the cryptographic primitives, the JOSE and schema libraries, resolvers and servers, mail and blob stores, file extractors,
    the embeddings endpoint, the vector distance, the models, the runner daemon and the memory gateway are fields of environment records. A hypothesis about one of them is
    named in the theorem and met by a concrete instance in its witness.
  \<^item> A query without an order clause returns rows in the order of insertion, also under \<open>limit 1\<close>; ties of an order clause are left in that order. Malformed UUIDs, the
    details of schema errors, process-local caches (modelled as the reads they cache) and columns named like members of \<^verbatim>\<open>Object.prototype\<close> are not modelled.
  \<^item> Operations are atomic steps unless the source's own statements interleave in a property: approvals, audit appends and rejections are split into their
    statements (\<open>approval\<close> runs, concurrent appends), and the notification stream and the viewer are step systems.

  \<^bold>\<open>Bounds and fuel.\<close> Loops of the source are structural recursion wherever a list or a counter bounds them. The redirect loop of the page fetch is a
  partial function over an option, with the theorem that it returns; \<open>follow\<close> bounds it by the source's limit of redirects. The import slices, the dedupe cap,
  retrieval limits, prompt budgets and the model's step limit are the constants of the source.

  \<^bold>\<open>Not modelled.\<close> React components other than the message view, the Rust crates of the native tier (their role matrix is compared in \<open>Rbac\<close>), build scripts and
  migrations, the connection to the database, the text extraction from HTML and office files and the scraping of search result pages (arguments), the routes of
  agents, imports and operations (the operations behind them are modelled), the routes that only read, the reply of an agent into a channel, and the browser-only helpers. The manifest lists each of these parts with its reason.
\<close>

end
